(* ===== verification/Prelude.thy ===== *)
theory Prelude
  imports Complex_Main "HOL-Library.AList" "HOL-Library.Char_ord" "HOL-Library.List_Lexorder" "HOL-Library.Product_Lexorder"
begin

text \<open>
  What every component shares: Python exceptions as values and the sequencing of calls that may
  raise, Python strings, dictionaries in insertion order, and JSON values.

  Strings are Isabelle strings whose characters stand for the code points below 256. A float is
  carried as its exact value together with the text that \<open>repr\<close> prints for it, so that both
  comparison and conversion to text are what the interpreter does; the infinities and NaN are
  left out.
\<close>

named_theorems result_simps \<open>equations of the sequencing of calls that may raise\<close>
named_theorems dict_simps \<open>lookup after update and after deletion\<close>
named_theorems token_simps \<open>normalised text tokens\<close>

section \<open>Exceptions as values\<close>

datatype py_error =
    ValueError string
  | TypeError string
  | KeyError string
  | IndexError string
  | AttributeError string
  | RuntimeError string
  | RecursionError
  | AppException string
  | ValidationError string
  | InvalidTemplateConfigError string
  | UnknownTemplateError string
  | IntegrityError string
  | OverflowError string

type_synonym 'a result = "py_error + 'a"

fun error_text :: "py_error \<Rightarrow> string" where
  "error_text (ValueError m) = m"
| "error_text (TypeError m) = m"
| "error_text (KeyError m) = m"
| "error_text (IndexError m) = m"
| "error_text (AttributeError m) = m"
| "error_text (RuntimeError m) = m"
| "error_text RecursionError = ''maximum recursion depth exceeded''"
| "error_text (AppException m) = m"
| "error_text (ValidationError m) = m"
| "error_text (InvalidTemplateConfigError m) = m"
| "error_text (UnknownTemplateError m) = m"
| "error_text (IntegrityError m) = m"
| "error_text (OverflowError m) = m"

definition rbind :: "'a result \<Rightarrow> ('a \<Rightarrow> 'b result) \<Rightarrow> 'b result" where
  "rbind r f = (case r of Inl e \<Rightarrow> Inl e | Inr x \<Rightarrow> f x)"

lemma rbind_simps [simp, result_simps]:
  "rbind (Inl e) f = Inl e"
  "rbind (Inr x) f = f x"
  by (simp_all add: rbind_def)

lemma rbind_Inr_iff [result_simps]:
  "rbind r f = Inr y \<longleftrightarrow> (\<exists>x. r = Inr x \<and> f x = Inr y)"
  by (cases r) auto

lemma rbind_Inl_iff [result_simps]:
  "rbind r f = Inl e \<longleftrightarrow> r = Inl e \<or> (\<exists>x. r = Inr x \<and> f x = Inl e)"
  by (cases r) auto

lemma rbind_cong [fundef_cong]:
  "r = r' \<Longrightarrow> (\<And>x. r' = Inr x \<Longrightarrow> f x = f' x) \<Longrightarrow> rbind r f = rbind r' f'"
  by (cases r') auto

text \<open>A guard: the exception when the condition fails.\<close>

definition require :: "bool \<Rightarrow> py_error \<Rightarrow> unit result" where
  "require b e = (if b then Inr () else Inl e)"

lemma require_simps [simp, result_simps]:
  "require True e = Inr ()"
  "require False e = Inl e"
  by (simp_all add: require_def)

lemma require_iff [result_simps]:
  "require b e = Inr u \<longleftrightarrow> b"
  "require b e = Inl e' \<longleftrightarrow> \<not> b \<and> e' = e"
  by (auto simp: require_def)

text \<open>A comprehension whose body may raise stops at the first exception.\<close>

fun mapM :: "('a \<Rightarrow> 'b result) \<Rightarrow> 'a list \<Rightarrow> 'b list result" where
  "mapM f [] = Inr []"
| "mapM f (x # xs) = rbind (f x) (\<lambda>y. rbind (mapM f xs) (\<lambda>ys. Inr (y # ys)))"

lemma mapM_cong [fundef_cong]:
  "xs = ys \<Longrightarrow> (\<And>x. x \<in> set ys \<Longrightarrow> f x = g x) \<Longrightarrow> mapM f xs = mapM g ys"
  by (induction xs arbitrary: ys) auto

lemma mapM_Inr_length: "mapM f xs = Inr ys \<Longrightarrow> length ys = length xs"
  by (induction xs arbitrary: ys) (auto simp: result_simps)

lemma mapM_Inr_nth:
  "mapM f xs = Inr ys \<Longrightarrow> i < length xs \<Longrightarrow> f (xs ! i) = Inr (ys ! i)"
proof (induction xs arbitrary: ys i)
  case (Cons x xs)
  then show ?case by (cases i) (auto simp: result_simps)
qed simp

lemma mapM_Inr_set:
  "mapM f xs = Inr ys \<Longrightarrow> y \<in> set ys \<Longrightarrow> \<exists>x \<in> set xs. f x = Inr y"
  by (induction xs arbitrary: ys) (auto simp: result_simps)

text \<open>A loop over a list whose body may raise.\<close>

fun foldM :: "('s \<Rightarrow> 'x \<Rightarrow> 's result) \<Rightarrow> 's \<Rightarrow> 'x list \<Rightarrow> 's result" where
  "foldM f s [] = Inr s"
| "foldM f s (x # xs) = rbind (f s x) (\<lambda>s'. foldM f s' xs)"

lemma foldM_append: "foldM f s (xs @ ys) = rbind (foldM f s xs) (\<lambda>s'. foldM f s' ys)"
proof (induction xs arbitrary: s)
  case (Cons x xs)
  then show ?case by (cases "f s x") auto
qed simp

lemma foldM_cong [fundef_cong]:
  "s = s' \<Longrightarrow> xs = ys \<Longrightarrow> (\<And>t x. x \<in> set ys \<Longrightarrow> f t x = g t x) \<Longrightarrow> foldM f s xs = foldM g s' ys"
  by (induction xs arbitrary: s s' ys) (auto intro!: rbind_cong)

text \<open>
  The interface of a loop body that keeps an invariant: whatever shares this contract keeps the
  invariant over a whole loop that ends without an exception.
\<close>

locale guarded_step =
  fixes step :: "'s \<Rightarrow> 'x \<Rightarrow> 's result"
    and good :: "'s \<Rightarrow> bool"
  assumes step_good: "good s \<Longrightarrow> step s x = Inr s' \<Longrightarrow> good s'"
begin

lemma foldM_good: "good s \<Longrightarrow> foldM step s xs = Inr s' \<Longrightarrow> good s'"
proof (induction xs arbitrary: s)
  case (Cons x xs)
  then obtain t where "step s x = Inr t" and rest: "foldM step t xs = Inr s'"
    by (auto simp: result_simps)
  with Cons.prems(1) have "good t" by (blast intro: step_good)
  from Cons.IH [OF this rest] show ?case .
qed simp

end

section \<open>Calls with state\<close>

text \<open>
  A call that changes state and may raise: what it changed before the exception stays changed,
  so the state is returned on both outcomes.
\<close>

type_synonym ('s, 'a) call = "'s \<Rightarrow> 'a result \<times> 's"

definition sbind :: "('s, 'a) call \<Rightarrow> ('a \<Rightarrow> ('s, 'b) call) \<Rightarrow> ('s, 'b) call" where
  "sbind m f s = (case m s of (Inl e, s') \<Rightarrow> (Inl e, s') | (Inr x, s') \<Rightarrow> f x s')"

definition spure :: "'a \<Rightarrow> ('s, 'a) call" where
  "spure x s = (Inr x, s)"

definition sraise :: "py_error \<Rightarrow> ('s, 'a) call" where
  "sraise e s = (Inl e, s)"

definition slift :: "'a result \<Rightarrow> ('s, 'a) call" where
  "slift r s = (r, s)"

lemma call_simps [result_simps]:
  "spure x s = (Inr x, s)"
  "sraise e s = (Inl e, s)"
  "slift r s = (r, s)"
  by (simp_all add: spure_def sraise_def slift_def)

lemma sbind_Inr [result_simps]:
  "m s = (Inr x, s') \<Longrightarrow> sbind m f s = f x s'"
  by (simp add: sbind_def)

lemma sbind_Inl [result_simps]:
  "m s = (Inl e, s') \<Longrightarrow> sbind m f s = (Inl e, s')"
  by (simp add: sbind_def)

section \<open>Strings\<close>

definition py_spaces :: string where
  "py_spaces = [CHR '' '', CHR 0x09, CHR 0x0A, CHR 0x0B, CHR 0x0C, CHR 0x0D, CHR 0x1C, CHR 0x1D,
     CHR 0x1E, CHR 0x1F, CHR 0x85, CHR 0xA0]"

definition is_space :: "char \<Rightarrow> bool" where
  "is_space c \<longleftrightarrow> c \<in> set py_spaces"

definition py_lstrip :: "string \<Rightarrow> string" where
  "py_lstrip s = dropWhile is_space s"

definition py_strip :: "string \<Rightarrow> string" where
  "py_strip s = rev (dropWhile is_space (rev (py_lstrip s)))"

definition strip_char :: "char \<Rightarrow> string \<Rightarrow> string" where
  "strip_char c s = rev (dropWhile (\<lambda>x. x = c) (rev (dropWhile (\<lambda>x. x = c) s)))"

definition rstrip_char :: "char \<Rightarrow> string \<Rightarrow> string" where
  "rstrip_char c s = rev (dropWhile (\<lambda>x. x = c) (rev s))"

definition lstrip_char :: "char \<Rightarrow> string \<Rightarrow> string" where
  "lstrip_char c s = dropWhile (\<lambda>x. x = c) s"

fun split_on :: "char \<Rightarrow> string \<Rightarrow> string list" where
  "split_on d [] = [[]]"
| "split_on d (c # cs) =
     (if c = d then [] # split_on d cs
      else (case split_on d cs of [] \<Rightarrow> [[c]] | w # ws \<Rightarrow> (c # w) # ws))"

definition starts_with :: "string \<Rightarrow> string \<Rightarrow> bool" where
  "starts_with p s \<longleftrightarrow> take (length p) s = p"

definition ends_with :: "string \<Rightarrow> string \<Rightarrow> bool" where
  "ends_with p s \<longleftrightarrow> starts_with (rev p) (rev s)"

fun contains_sub :: "string \<Rightarrow> string \<Rightarrow> bool" where
  "contains_sub p [] = (p = [])"
| "contains_sub p (c # cs) = (starts_with p (c # cs) \<or> contains_sub p cs)"

definition replace_char :: "char \<Rightarrow> string \<Rightarrow> string \<Rightarrow> string" where
  "replace_char c r s = concat (map (\<lambda>x. if x = c then r else [x]) s)"

definition lower_char :: "char \<Rightarrow> char" where
  "lower_char c =
     (let n = of_char c :: nat in
      if 65 \<le> n \<and> n \<le> 90 \<or> 192 \<le> n \<and> n \<le> 222 \<and> n \<noteq> 215 then char_of (n + 32) else c)"

definition upper_char :: "char \<Rightarrow> string" where
  "upper_char c =
     (let n = of_char c :: nat in
      if n = 223 then ''SS''
      else if 97 \<le> n \<and> n \<le> 122 \<or> 224 \<le> n \<and> n \<le> 254 \<and> n \<noteq> 247 then [char_of (n - 32)] else [c])"

definition py_lower :: "string \<Rightarrow> string" where
  "py_lower s = map lower_char s"

text \<open>
  Upper case is exact on every character whose upper case is again below 256; the micro sign and
  the y with diaeresis, whose upper case is not, are kept.
\<close>

definition py_upper :: "string \<Rightarrow> string" where
  "py_upper s = concat (map upper_char s)"

definition is_decimal :: "char \<Rightarrow> bool" where
  "is_decimal c \<longleftrightarrow> (let n = of_char c :: nat in 48 \<le> n \<and> n \<le> 57)"

text \<open>\<open>str.isdigit\<close> also accepts the superscripts two, three and one, which \<open>int\<close> rejects.\<close>

definition is_digit :: "char \<Rightarrow> bool" where
  "is_digit c \<longleftrightarrow> is_decimal c \<or> c \<in> {CHR 0xB2, CHR 0xB3, CHR 0xB9}"

definition py_isdigit :: "string \<Rightarrow> bool" where
  "py_isdigit s \<longleftrightarrow> s \<noteq> [] \<and> list_all is_digit s"

definition digits_value :: "string \<Rightarrow> nat" where
  "digits_value s = foldl (\<lambda>n c. 10 * n + (of_char c - 48)) 0 s"

fun nat_text :: "nat \<Rightarrow> string" where
  "nat_text n =
     (if n < 10 then [char_of (n + 48)] else nat_text (n div 10) @ [char_of (n mod 10 + 48)])"

declare nat_text.simps [simp del]

definition int_text :: "int \<Rightarrow> string" where
  "int_text i = (if i < 0 then CHR ''-'' # nat_text (nat (- i)) else nat_text (nat i))"

definition join_with :: "string \<Rightarrow> string list \<Rightarrow> string" where
  "join_with sep ws = (case ws of [] \<Rightarrow> [] | x # xs \<Rightarrow> x @ concat (map (\<lambda>y. sep @ y) xs))"

section \<open>Dictionaries\<close>

text \<open>
  A dictionary is an association list with distinct keys in insertion order: storing under a key
  that is present keeps its place, a new key goes last.
\<close>

type_synonym 'v dict = "(string \<times> 'v) list"

definition dict_get :: "'v dict \<Rightarrow> string \<Rightarrow> 'v option" where
  "dict_get d k = map_of d k"

definition dict_set :: "string \<Rightarrow> 'v \<Rightarrow> 'v dict \<Rightarrow> 'v dict" where
  "dict_set k v d = AList.update k v d"

definition dict_del :: "string \<Rightarrow> 'v dict \<Rightarrow> 'v dict" where
  "dict_del k d = AList.delete k d"

definition dict_ok :: "'v dict \<Rightarrow> bool" where
  "dict_ok d \<longleftrightarrow> distinct (map fst d)"

definition dict_update :: "'v dict \<Rightarrow> 'v dict \<Rightarrow> 'v dict" where
  "dict_update d e = foldl (\<lambda>acc (k, v). dict_set k v acc) d e"

lemma dict_get_set [simp, dict_simps]:
  "dict_get (dict_set k v d) k' = (if k' = k then Some v else dict_get d k')"
  by (simp add: dict_get_def dict_set_def update_conv)

lemma dict_get_del [simp, dict_simps]:
  "dict_get (dict_del k d) k' = (if k' = k then None else dict_get d k')"
  by (simp add: dict_get_def dict_del_def delete_conv)

lemma dict_get_Nil [simp, dict_simps]: "dict_get [] k = None"
  by (simp add: dict_get_def)

lemma dict_get_Cons [dict_simps]:
  "dict_get ((k, v) # d) k' = (if k' = k then Some v else dict_get d k')"
  by (simp add: dict_get_def)

lemma dict_ok_Nil [simp]: "dict_ok []"
  by (simp add: dict_ok_def)

lemma dict_ok_set [simp]: "dict_ok d \<Longrightarrow> dict_ok (dict_set k v d)"
  unfolding dict_ok_def dict_set_def by (rule distinct_update)

lemma dict_ok_del [simp]: "dict_ok d \<Longrightarrow> dict_ok (dict_del k d)"
  unfolding dict_ok_def dict_del_def by (rule distinct_delete)

lemma dict_get_mem: "dict_get d k = Some v \<Longrightarrow> (k, v) \<in> set d"
  by (simp add: dict_get_def map_of_SomeD)

lemma set_dict_set: "set (dict_set k v d) \<subseteq> insert (k, v) (set d)"
proof (induction d)
  case (Cons kv d)
  then show ?case by (cases kv) (auto simp: dict_set_def)
qed (simp add: dict_set_def)

lemma set_dict_del: "set (dict_del k d) \<subseteq> set d"
  by (auto simp: dict_del_def AList.delete_eq)

lemma keys_dict_set: "fst ` set (dict_set k v d) = insert k (fst ` set d)"
  by (simp add: dict_set_def dom_update)

section \<open>JSON values\<close>

text \<open>
  Values as \<open>json.loads\<close> and the JSON columns of the database give them. A float is its exact
  value and its \<open>repr\<close>.
\<close>

datatype json =
    JNull
  | JBool bool
  | JInt int
  | JFloat rat string
  | JStr string
  | JList "json list"
  | JObj "(string \<times> json) list"

fun is_obj :: "json \<Rightarrow> bool" where
  "is_obj (JObj _) = True"
| "is_obj _ = False"

fun is_list :: "json \<Rightarrow> bool" where
  "is_list (JList _) = True"
| "is_list _ = False"

fun is_str :: "json \<Rightarrow> bool" where
  "is_str (JStr _) = True"
| "is_str _ = False"

fun fields_of :: "json \<Rightarrow> json dict" where
  "fields_of (JObj d) = d"
| "fields_of _ = []"

fun json_truthy :: "json \<Rightarrow> bool" where
  "json_truthy JNull = False"
| "json_truthy (JBool b) = b"
| "json_truthy (JInt i) = (i \<noteq> 0)"
| "json_truthy (JFloat q r) = (q \<noteq> 0)"
| "json_truthy (JStr s) = (s \<noteq> [])"
| "json_truthy (JList xs) = (xs \<noteq> [])"
| "json_truthy (JObj d) = (d \<noteq> [])"

text \<open>\<open>d.get(k)\<close>: None and an absent key are the same value.\<close>

definition jget :: "json dict \<Rightarrow> string \<Rightarrow> json" where
  "jget d k = (case dict_get d k of None \<Rightarrow> JNull | Some v \<Rightarrow> v)"

text \<open>\<open>repr\<close> of a string: single quotes unless only they occur inside, escapes elsewhere.\<close>

definition hex_digit :: "nat \<Rightarrow> char" where
  "hex_digit n = (if n < 10 then char_of (n + 48) else char_of (n + 87))"

definition is_printable :: "char \<Rightarrow> bool" where
  "is_printable c \<longleftrightarrow> (let n = of_char c :: nat in
     32 \<le> n \<and> n \<le> 126 \<or> 161 \<le> n \<and> n \<noteq> 173)"

definition escape_char :: "char \<Rightarrow> char \<Rightarrow> string" where
  "escape_char q c =
     (if c = q \<or> c = CHR 0x5C then [CHR 0x5C, c]
      else if c = CHR 0x0A then [CHR 0x5C, CHR ''n'']
      else if c = CHR 0x0D then [CHR 0x5C, CHR ''r'']
      else if c = CHR 0x09 then [CHR 0x5C, CHR ''t'']
      else if is_printable c then [c]
      else (let n = of_char c :: nat in
        [CHR 0x5C, CHR ''x'', hex_digit (n div 16), hex_digit (n mod 16)]))"

definition str_repr :: "string \<Rightarrow> string" where
  "str_repr s =
     (let q = (if CHR 0x27 \<in> set s \<and> CHR 0x22 \<notin> set s then CHR 0x22 else CHR 0x27)
      in q # concat (map (escape_char q) s) @ [q])"

fun json_repr :: "json \<Rightarrow> string" where
  "json_repr JNull = ''None''"
| "json_repr (JBool b) = (if b then ''True'' else ''False'')"
| "json_repr (JInt i) = int_text i"
| "json_repr (JFloat q r) = r"
| "json_repr (JStr s) = str_repr s"
| "json_repr (JList xs) = ''['' @ join_with '', '' (map json_repr xs) @ '']''"
| "json_repr (JObj d) =
     ''{'' @ join_with '', '' (map (\<lambda>kv. str_repr (fst kv) @ '': '' @ json_repr (snd kv)) d) @ ''}''"

text \<open>\<open>str(v)\<close>, and the two idioms the code normalises its inputs with.\<close>

fun json_str :: "json \<Rightarrow> string" where
  "json_str (JStr s) = s"
| "json_str v = json_repr v"

definition str_or_empty :: "json \<Rightarrow> string" where
  "str_or_empty v = (if json_truthy v then json_str v else [])"

definition token :: "json \<Rightarrow> string" where
  "token v = py_strip (str_or_empty v)"

lemma str_or_empty_JStr [simp]: "str_or_empty (JStr s) = s"
  by (simp add: str_or_empty_def)

lemma str_or_empty_JNull [simp]: "str_or_empty JNull = []"
  by (simp add: str_or_empty_def)

lemma py_strip_Nil [simp]: "py_strip [] = []"
  by (simp add: py_strip_def py_lstrip_def)

lemma dropWhile_rev_no_head:
  assumes "dropWhile P xs = xs"
  shows "dropWhile P (rev (dropWhile P (rev xs))) = rev (dropWhile P (rev xs))"
proof -
  define ys where "ys = rev (dropWhile P (rev xs))"
  have "rev xs = takeWhile P (rev xs) @ rev ys"
    by (simp add: ys_def)
  then have xs: "xs = ys @ rev (takeWhile P (rev xs))"
    by (metis rev_append rev_rev_ident)
  have "dropWhile P ys = ys"
  proof (cases ys)
    case (Cons y zs)
    with xs have "xs \<noteq> []" and "hd xs = y" by (metis append_Cons list.distinct(1), metis append_Cons list.sel(1))
    with assms have "\<not> P y" by (metis hd_dropWhile)
    with Cons show ?thesis by simp
  qed simp
  then show ?thesis by (simp add: ys_def)
qed

lemma py_strip_idem [simp, token_simps]: "py_strip (py_strip s) = py_strip s"
proof -
  have "dropWhile is_space (py_strip s) = py_strip s"
    unfolding py_strip_def py_lstrip_def by (rule dropWhile_rev_no_head) (rule dropWhile_idem)
  then show ?thesis
    by (simp add: py_strip_def py_lstrip_def dropWhile_idem)
qed

lemma dropWhile_ident_iff: "dropWhile P xs = xs \<longleftrightarrow> xs = [] \<or> \<not> P (hd xs)"
proof (cases xs)
  case (Cons x ys)
  have "dropWhile P ys \<noteq> x # ys"
    by (metis impossible_Cons length_dropWhile_le)
  with Cons show ?thesis by simp
qed simp

lemma py_strip_ident_iff [token_simps]:
  "py_strip s = s \<longleftrightarrow> s = [] \<or> \<not> is_space (hd s) \<and> \<not> is_space (last s)"
proof
  assume eq: "py_strip s = s"
  then have "dropWhile is_space s = s"
    by (metis dropWhile_idem dropWhile_rev_no_head py_lstrip_def py_strip_def)
  moreover from eq this have "dropWhile is_space (rev s) = rev s"
    by (metis py_lstrip_def py_strip_def rev_swap)
  ultimately show "s = [] \<or> \<not> is_space (hd s) \<and> \<not> is_space (last s)"
    by (auto simp: dropWhile_ident_iff hd_rev)
next
  assume "s = [] \<or> \<not> is_space (hd s) \<and> \<not> is_space (last s)"
  then have "dropWhile is_space s = s" and "dropWhile is_space (rev s) = rev s"
    by (auto simp: dropWhile_ident_iff hd_rev)
  then show "py_strip s = s"
    by (simp add: py_strip_def py_lstrip_def)
qed

lemma split_on_no_sep: "d \<notin> set s \<Longrightarrow> split_on d s = [s]"
  by (induction s) auto

lemma split_on_append: "d \<notin> set s \<Longrightarrow> split_on d (s @ d # t) = s # split_on d t"
  by (induction s) auto

lemma split_on_not_Nil [simp]: "split_on d s \<noteq> []"
  by (induction s) (auto split: list.splits)

text \<open>\<open>token\<close> is a normal form: normalising again changes nothing.\<close>

lemma token_idem [simp, token_simps]: "token (JStr (token v)) = token v"
  by (simp add: token_def)

text \<open>An optional text as the idioms \<open>str(x or "")\<close> and \<open>a or b\<close> read it.\<close>

definition text_of :: "string option \<Rightarrow> string" where
  "text_of s = (case s of None \<Rightarrow> [] | Some t \<Rightarrow> t)"

definition or_text :: "string \<Rightarrow> string \<Rightarrow> string" where
  "or_text a b = (if a = [] then b else a)"

text \<open>Text the code puts in its messages.\<close>

definition quoted :: "string \<Rightarrow> string" where
  "quoted s = CHR 0x27 # s @ [CHR 0x27]"

section \<open>Equality of values\<close>

text \<open>
  \<open>==\<close> on JSON values: booleans and numbers are compared by value, dictionaries regardless
  of order.
\<close>

fun json_num :: "json \<Rightarrow> rat option" where
  "json_num (JBool b) = Some (if b then 1 else 0)"
| "json_num (JInt i) = Some (of_int i)"
| "json_num (JFloat q r) = Some q"
| "json_num _ = None"

function json_eq :: "json \<Rightarrow> json \<Rightarrow> bool" where
  "json_eq a b =
     (case (json_num a, json_num b) of
        (Some p, Some q) \<Rightarrow> p = q
      | (None, None) \<Rightarrow>
          (case (a, b) of
             (JNull, JNull) \<Rightarrow> True
           | (JStr s, JStr t) \<Rightarrow> s = t
           | (JList xs, JList ys) \<Rightarrow>
               length xs = length ys \<and> (\<forall>p \<in> set (zip xs ys). json_eq (fst p) (snd p))
           | (JObj d, JObj e) \<Rightarrow>
               length d = length e \<and>
               (\<forall>kv \<in> set d. case dict_get e (fst kv) of
                  None \<Rightarrow> False | Some w \<Rightarrow> json_eq (snd kv) w)
           | _ \<Rightarrow> False)
      | _ \<Rightarrow> False)"
  by pat_completeness auto
termination
proof (relation "measure (\<lambda>(a, b). size a)", goal_cases)
  case 1
  show ?case by simp
next
  case (2 a b z p x xa xs ys q)
  then have "fst q \<in> set xs" by (cases q) (auto dest: set_zip_leftD)
  then have "size (fst q) \<le> size_list size xs" by (rule size_list_estimation') simp
  with 2 show ?case by (cases q) auto
next
  case (3 a b z p x xa d e kv w)
  then have "size_prod (\<lambda>x. 0) size kv \<le> size_list (size_prod (\<lambda>x. 0) size) d"
    by (intro size_list_estimation' [where x = kv]) simp_all
  with 3 show ?case by (cases kv) auto
qed

declare json_eq.simps [simp del]

text \<open>
  Triples over calls that change state and may raise: a triple says what holds of the result and of the state after a
  call that returned.
\<close>

section \<open>Triples over calls\<close>

definition after :: "('s \<Rightarrow> bool) \<Rightarrow> ('s, 'a) call \<Rightarrow> ('a \<Rightarrow> 's \<Rightarrow> bool) \<Rightarrow> bool" where
  "after P m Q \<longleftrightarrow> (\<forall>s r s'. P s \<longrightarrow> m s = (Inr r, s') \<longrightarrow> Q r s')"

lemma after_sbind:
  assumes "after P m R" and "\<And>r. after (R r) (f r) Q"
  shows "after P (sbind m f) Q"
  unfolding after_def
proof (intro allI impI)
  fix s r s' assume "P s" and "sbind m f s = (Inr r, s')"
  then obtain x s1 where "m s = (Inr x, s1)" "f x s1 = (Inr r, s')"
    by (auto simp: sbind_def split: prod.splits sum.splits)
  with assms \<open>P s\<close> show "Q r s'" unfolding after_def by blast
qed

lemma after_spure: "(\<And>s. P s \<Longrightarrow> Q x s) \<Longrightarrow> after P (spure x) Q"
  by (simp add: after_def spure_def)

lemma after_slift: "(\<And>s x. P s \<Longrightarrow> r = Inr x \<Longrightarrow> Q x s) \<Longrightarrow> after P (slift r) Q"
  by (simp add: after_def slift_def)

lemma after_sraise: "after P (sraise e) Q"
  by (simp add: after_def sraise_def)

lemma after_weaken: "after P m Q \<Longrightarrow> (\<And>s. P' s \<Longrightarrow> P s) \<Longrightarrow> (\<And>r s. Q r s \<Longrightarrow> Q' r s) \<Longrightarrow> after P' m Q'"
  unfolding after_def by blast

lemma after_raised: "after P (\<lambda>s. (Inl e, f s)) Q"
  by (simp add: after_def)

text \<open>What a call that raises leaves untouched.\<close>

definition rolled_back :: "('s, 'a) call \<Rightarrow> bool" where
  "rolled_back m \<longleftrightarrow> (\<forall>t e t'. m t = (Inl e, t') \<longrightarrow> t' = t)"

lemma rolled_back_slift: "(\<And>x. rolled_back (f x)) \<Longrightarrow> rolled_back (sbind (slift r) f)"
  by (cases r) (auto simp: rolled_back_def sbind_def slift_def)

lemma after_rolled_back:
  assumes "after P m (\<lambda>_. P)" and "rolled_back m" and "P t"
  shows "P (snd (m t))"
proof (cases "m t")
  case (Pair r t')
  show ?thesis
  proof (cases r)
    case (Inl e)
    with Pair assms(2) have "t' = t" unfolding rolled_back_def by blast
    with Pair assms(3) show ?thesis by simp
  next
    case (Inr x)
    with Pair assms(1,3) show ?thesis by (auto simp: after_def)
  qed
qed

lemma returned:
  assumes "\<not> isl (fst p)"
  obtains x t' where "p = (Inr x, t')"
  using assms that by (cases p; cases "fst p") auto

end
