(* ===== verification/Store.thy ===== *)
theory Store
  imports Prelude "HOL-Library.Sublist"
begin

text \<open>
  Python objects with identity. The run context is made of dictionaries that other dictionaries
  refer to, and writing through one reference is seen through the others, so dictionaries and
  lists live in a heap: a value is a scalar or the address of an object. A heap is the list of
  the objects in order of allocation and an address is an index into it.
\<close>

datatype pyval =
    VNone
  | VBool bool
  | VInt int
  | VFloat rat string
  | VStr string
  | VRef nat

datatype pyobj =
    ODict "pyval dict"
  | OList "pyval list"

type_synonym heap = "pyobj list"

definition hget :: "heap \<Rightarrow> nat \<Rightarrow> pyobj option" where
  "hget h a = (if a < length h then Some (h ! a) else None)"

definition hset :: "nat \<Rightarrow> pyobj \<Rightarrow> heap \<Rightarrow> heap" where
  "hset a ob h = h[a := ob]"

definition halloc :: "pyobj \<Rightarrow> heap \<Rightarrow> nat \<times> heap" where
  "halloc ob h = (length h, h @ [ob])"

text \<open>\<open>isinstance(v, dict)\<close> and \<open>isinstance(v, list)\<close>, with the contents.\<close>

fun dict_at :: "heap \<Rightarrow> pyval \<Rightarrow> pyval dict option" where
  "dict_at h (VRef a) = (case hget h a of Some (ODict d) \<Rightarrow> Some d | _ \<Rightarrow> None)"
| "dict_at h _ = None"

fun list_at :: "heap \<Rightarrow> pyval \<Rightarrow> pyval list option" where
  "list_at h (VRef a) = (case hget h a of Some (OList xs) \<Rightarrow> Some xs | _ \<Rightarrow> None)"
| "list_at h _ = None"

lemma dict_at_ref [simp]: "dict_at h (VRef a) = Some d \<longleftrightarrow> hget h a = Some (ODict d)"
  by (auto split: option.splits pyobj.splits)

lemma list_at_ref [simp]: "list_at h (VRef a) = Some xs \<longleftrightarrow> hget h a = Some (OList xs)"
  by (auto split: option.splits pyobj.splits)

lemma object_at_known [simp]:
  "hget h a = Some (ODict d) \<Longrightarrow> dict_at h (VRef a) = Some d"
  "hget h a = Some (OList xs) \<Longrightarrow> list_at h (VRef a) = Some xs"
  "hget h a = Some (ODict d) \<Longrightarrow> list_at h (VRef a) = None"
  "hget h a = Some (OList xs) \<Longrightarrow> dict_at h (VRef a) = None"
  by simp_all

text \<open>The equations for references are for evaluation; proofs use the two equivalences.\<close>

lemmas object_at_eval = dict_at.simps(1) list_at.simps(1)

declare object_at_eval [simp del]

fun ref_of :: "pyval \<Rightarrow> nat" where
  "ref_of (VRef a) = a"
| "ref_of _ = 0"

text \<open>\<open>d.get(k)\<close> on the dictionary a value refers to.\<close>

definition field_at :: "heap \<Rightarrow> pyval \<Rightarrow> string \<Rightarrow> pyval" where
  "field_at h v k =
     (case dict_at h v of None \<Rightarrow> VNone
      | Some d \<Rightarrow> (case dict_get d k of None \<Rightarrow> VNone | Some w \<Rightarrow> w))"

section \<open>What changes between two heaps\<close>

text \<open>Outside a set of addresses, every object that existed is still there with its contents.\<close>

definition frame :: "('h \<Rightarrow> nat \<Rightarrow> 'o option) \<Rightarrow> nat set \<Rightarrow> 'h \<Rightarrow> 'h \<Rightarrow> bool" where
  "frame get S h h' \<longleftrightarrow> (\<forall>a ob. a \<notin> S \<longrightarrow> get h a = Some ob \<longrightarrow> get h' a = Some ob)"

text \<open>
  The interface of an object store. What is proved here about frames holds of every store with
  these laws; the run context, the resolver and the commands use it for the heap above.
\<close>

locale object_store =
  fixes get :: "'h \<Rightarrow> nat \<Rightarrow> 'o option"
    and put :: "nat \<Rightarrow> 'o \<Rightarrow> 'h \<Rightarrow> 'h"
    and alloc :: "'o \<Rightarrow> 'h \<Rightarrow> nat \<times> 'h"
  assumes get_put_same: "get h a \<noteq> None \<Longrightarrow> get (put a ob h) a = Some ob"
    and get_put_other: "b \<noteq> a \<Longrightarrow> get (put a ob h) b = get h b"
    and alloc_fresh: "alloc ob h = (a, h') \<Longrightarrow> get h a = None"
    and get_alloc_same: "alloc ob h = (a, h') \<Longrightarrow> get h' a = Some ob"
    and get_alloc_other: "alloc ob h = (a, h') \<Longrightarrow> b \<noteq> a \<Longrightarrow> get h' b = get h b"
begin

lemma frame_refl: "frame get S h h"
  by (simp add: frame_def)

lemma frame_trans: "frame get S h h' \<Longrightarrow> frame get S h' h'' \<Longrightarrow> frame get S h h''"
  by (simp add: frame_def)

lemma frame_mono: "frame get S h h' \<Longrightarrow> S \<subseteq> T \<Longrightarrow> frame get T h h'"
  by (auto simp: frame_def)

lemma frame_put: "a \<in> S \<Longrightarrow> frame get S h (put a ob h)"
  unfolding frame_def by (metis get_put_other)

lemma frame_put_new: "get h a = None \<Longrightarrow> frame get S h h' \<Longrightarrow> frame get S h (put a ob h')"
  unfolding frame_def by (metis get_put_other option.distinct(1))

lemma frame_alloc: "alloc ob h = (a, h') \<Longrightarrow> frame get S h h'"
  unfolding frame_def by (metis alloc_fresh get_alloc_other option.distinct(1))

lemma frame_get: "frame get S h h' \<Longrightarrow> a \<notin> S \<Longrightarrow> get h a = Some ob \<Longrightarrow> get h' a = Some ob"
  by (simp add: frame_def)

lemma put_then_get: "get h a = Some x \<Longrightarrow> get (put a ob h) b = (if b = a then Some ob else get h b)"
  by (simp add: get_put_same get_put_other)

end

interpretation py_heap: object_store hget hset halloc
  by unfold_locales (auto simp: hget_def hset_def halloc_def nth_append split: if_splits)

lemmas frame_intros = py_heap.frame_refl py_heap.frame_put py_heap.frame_alloc

lemma hget_hset [simp]:
  "hget (hset a ob h) b = (if b = a \<and> hget h a \<noteq> None then Some ob else hget h b)"
  by (auto simp: hget_def hset_def)

lemma hget_append: "hget (h @ hs) a = (if a < length h then Some (h ! a) else hget hs (a - length h))"
  by (auto simp: hget_def nth_append)

lemma hget_append_old: "hget h a = Some ob \<Longrightarrow> hget (h @ hs) a = Some ob"
  by (auto simp: hget_def nth_append split: if_splits)

lemma hget_less: "hget h a = Some ob \<Longrightarrow> a < length h"
  by (auto simp: hget_def split: if_splits)

lemma length_hset [simp]: "length (hset a ob h) = length h"
  by (simp add: hset_def)

lemma frame_append: "frame hget S h (h @ hs)"
  by (simp add: frame_def hget_append_old)

section \<open>The kind of an object never changes\<close>

text \<open>An object that is a dictionary stays a dictionary and a list stays a list.\<close>

fun same_kind :: "pyobj \<Rightarrow> pyobj \<Rightarrow> bool" where
  "same_kind (ODict _) (ODict _) = True"
| "same_kind (OList _) (OList _) = True"
| "same_kind _ _ = False"

definition kinds_kept :: "heap \<Rightarrow> heap \<Rightarrow> bool" where
  "kinds_kept h h' \<longleftrightarrow>
     (\<forall>a ob. hget h a = Some ob \<longrightarrow> (\<exists>ob'. hget h' a = Some ob' \<and> same_kind ob ob'))"

lemma same_kind_refl [simp]: "same_kind ob ob"
  by (cases ob) auto

lemma same_kind_trans: "same_kind x y \<Longrightarrow> same_kind y z \<Longrightarrow> same_kind x z"
  by (cases x; cases y; cases z) auto

lemma kinds_kept_refl [simp]: "kinds_kept h h"
  by (simp add: kinds_kept_def)

lemma kinds_kept_trans: "kinds_kept h h' \<Longrightarrow> kinds_kept h' h'' \<Longrightarrow> kinds_kept h h''"
  unfolding kinds_kept_def by (meson same_kind_trans)

lemma kinds_kept_append [simp]: "kinds_kept h (h @ hs)"
  unfolding kinds_kept_def using hget_append_old same_kind_refl by blast

lemma kinds_kept_hset: "hget h a = Some ob \<Longrightarrow> same_kind ob ob' \<Longrightarrow> kinds_kept h (hset a ob' h)"
  by (auto simp: kinds_kept_def)

lemma kinds_kept_dict:
  "kinds_kept h h' \<Longrightarrow> hget h a = Some (ODict d) \<Longrightarrow> \<exists>d'. hget h' a = Some (ODict d')"
  unfolding kinds_kept_def by (metis same_kind.elims(2) pyobj.distinct(1))

lemma dict_at_SomeD:
  "dict_at h v = Some d \<Longrightarrow> \<exists>a. v = VRef a \<and> hget h a = Some (ODict d)"
  by (cases v) auto

lemma list_at_SomeD:
  "list_at h v = Some xs \<Longrightarrow> \<exists>a. v = VRef a \<and> hget h a = Some (OList xs)"
  by (cases v) auto

section \<open>JSON values in the heap\<close>

text \<open>Building the objects of a JSON value: every container is a new object.\<close>

fun embed :: "json \<Rightarrow> heap \<Rightarrow> pyval \<times> heap"
  and embed_list :: "json list \<Rightarrow> heap \<Rightarrow> pyval list \<times> heap"
  and embed_fields :: "(string \<times> json) list \<Rightarrow> heap \<Rightarrow> pyval dict \<times> heap" where
  "embed JNull h = (VNone, h)"
| "embed (JBool b) h = (VBool b, h)"
| "embed (JInt i) h = (VInt i, h)"
| "embed (JFloat q r) h = (VFloat q r, h)"
| "embed (JStr s) h = (VStr s, h)"
| "embed (JList xs) h =
     (let (vs, h') = embed_list xs h; (a, h'') = halloc (OList vs) h' in (VRef a, h''))"
| "embed (JObj d) h =
     (let (vd, h') = embed_fields d h; (a, h'') = halloc (ODict vd) h' in (VRef a, h''))"
| "embed_list [] h = ([], h)"
| "embed_list (x # xs) h =
     (let (v, h') = embed x h; (vs, h'') = embed_list xs h' in (v # vs, h''))"
| "embed_fields [] h = ([], h)"
| "embed_fields ((k, x) # d) h =
     (let (v, h') = embed x h; (vd, h'') = embed_fields d h' in ((k, v) # vd, h''))"

text \<open>
  The JSON value a reference stands for, read to a given depth: None when the value is deeper
  (a cyclic one is, at every depth).
\<close>

fun reify :: "nat \<Rightarrow> heap \<Rightarrow> pyval \<Rightarrow> json option" where
  "reify n h VNone = Some JNull"
| "reify n h (VBool b) = Some (JBool b)"
| "reify n h (VInt i) = Some (JInt i)"
| "reify n h (VFloat q r) = Some (JFloat q r)"
| "reify n h (VStr s) = Some (JStr s)"
| "reify 0 h (VRef a) = None"
| "reify (Suc n) h (VRef a) =
     (case hget h a of
        None \<Rightarrow> None
      | Some (OList vs) \<Rightarrow> map_option JList (those (map (reify n h) vs))
      | Some (ODict d) \<Rightarrow>
          map_option JObj
            (those (map (\<lambda>kv. map_option (Pair (fst kv)) (reify n h (snd kv))) d)))"

text \<open>A heap that only grew.\<close>

lemma hget_prefix: "prefix h h' \<Longrightarrow> hget h a = Some ob \<Longrightarrow> hget h' a = Some ob"
  by (auto simp: prefix_def hget_append_old)

lemma frame_prefix: "prefix h h' \<Longrightarrow> frame hget S h h'"
  by (simp add: frame_def hget_prefix)

lemma kinds_kept_prefix: "prefix h h' \<Longrightarrow> kinds_kept h h'"
  by (auto simp: prefix_def)

lemma halloc_prefix: "halloc ob h = (a, h') \<Longrightarrow> prefix h h'"
  by (auto simp: halloc_def)

lemma embed_prefix:
  "prefix h (snd (embed j h))"
  "prefix h (snd (embed_list js h))"
  "prefix h (snd (embed_fields d h))"
proof (induction j h and js h and d h rule: embed_embed_list_embed_fields.induct)
  case (9 x xs h)
  then show ?case
    by (cases "embed x h") (auto simp: split_beta Let_def intro: prefix_order.trans)
next
  case (11 k x d h)
  then show ?case
    by (cases "embed x h") (auto simp: split_beta Let_def intro: prefix_order.trans)
qed (auto simp: halloc_def split_beta Let_def intro: prefix_order.trans)

text \<open>Reading back what was built gives the value, at any sufficient depth.\<close>

lemma those_map_mono:
  "those (map f xs) = Some ys \<Longrightarrow> (\<And>x y. x \<in> set xs \<Longrightarrow> f x = Some y \<Longrightarrow> g x = Some y) \<Longrightarrow>
    those (map g xs) = Some ys"
  by (induction xs arbitrary: ys) (auto split: option.splits)

lemma those_map_SomeI:
  "(\<And>x. x \<in> set xs \<Longrightarrow> f x = Some (g x)) \<Longrightarrow> those (map f xs) = Some (map g xs)"
  by (induction xs) auto

lemma reify_prefix: "prefix h h' \<Longrightarrow> reify n h v = Some j \<Longrightarrow> reify n h' v = Some j"
proof (induction n h v arbitrary: j rule: reify.induct)
  case (7 n h a)
  then obtain ob where ob: "hget h a = Some ob" and ob': "hget h' a = Some ob"
    by (auto split: option.splits intro: hget_prefix)
  show ?case
  proof (cases ob)
    case (ODict d)
    have "those (map (\<lambda>kv. map_option (Pair (fst kv)) (reify n h (snd kv))) d) = Some e \<Longrightarrow>
      those (map (\<lambda>kv. map_option (Pair (fst kv)) (reify n h' (snd kv))) d) = Some e" for e
      using 7(1) [OF ob ODict] 7(3) by (elim those_map_mono) auto
    with 7(4) ob ob' ODict show ?thesis by auto
  next
    case (OList vs)
    have "those (map (reify n h) vs) = Some e \<Longrightarrow> those (map (reify n h') vs) = Some e" for e
      using 7(2) [OF ob OList] 7(3) by (elim those_map_mono) auto
    with 7(4) ob ob' OList show ?thesis by auto
  qed
qed simp_all

lemma reify_more_depth: "reify n h v = Some j \<Longrightarrow> n \<le> m \<Longrightarrow> reify m h v = Some j"
proof (induction n h v arbitrary: j m rule: reify.induct)
  case (7 n h a)
  then obtain k where m: "m = Suc k" and k: "n \<le> k"
    by (cases m) auto
  from 7(3) obtain ob where ob: "hget h a = Some ob"
    by (auto split: option.splits)
  show ?case
  proof (cases ob)
    case (ODict d)
    have "those (map (\<lambda>kv. map_option (Pair (fst kv)) (reify n h (snd kv))) d) = Some e \<Longrightarrow>
      those (map (\<lambda>kv. map_option (Pair (fst kv)) (reify k h (snd kv))) d) = Some e" for e
      using 7(1) [OF ob ODict _ _ k] by (elim those_map_mono) auto
    with 7(3) ob m ODict show ?thesis by auto
  next
    case (OList vs)
    have "those (map (reify n h) vs) = Some e \<Longrightarrow> those (map (reify k h) vs) = Some e" for e
      using 7(2) [OF ob OList _ _ k] by (elim those_map_mono) auto
    with 7(3) ob m OList show ?thesis by auto
  qed
qed simp_all

text \<open>
  Building the objects of a JSON value and reading them back: the value does not depend on the
  objects that were there before, so it survives every change to those.
\<close>

text \<open>Two heaps that agree on a range of addresses.\<close>

definition agree :: "nat \<Rightarrow> nat \<Rightarrow> heap \<Rightarrow> heap \<Rightarrow> bool" where
  "agree m n g h \<longleftrightarrow> (\<forall>a. m \<le> a \<longrightarrow> a < n \<longrightarrow> hget g a = hget h a)"

lemma agree_refl [simp]: "agree m n h h"
  by (simp add: agree_def)

lemma agree_sub: "agree m n g h \<Longrightarrow> m \<le> m' \<Longrightarrow> n' \<le> n \<Longrightarrow> agree m' n' g h"
  by (simp add: agree_def)

lemma agree_prefix: "agree m (length h) g h' \<Longrightarrow> prefix h h' \<Longrightarrow> agree m (length h) g h"
  unfolding agree_def prefix_def by (auto simp: hget_append) (auto simp: hget_def)

lemma agree_snoc: "agree m (Suc (length h)) g (h @ [ob]) \<Longrightarrow> agree m (length h) g h"
  by (auto simp: agree_def hget_append) (auto simp: hget_def)

lemma agree_put_old: "a < m \<Longrightarrow> agree m n (hset a ob h) h"
  by (auto simp: agree_def)

lemma embed_step:
  "embed x h = (v, h') \<Longrightarrow> prefix h h'" "embed_list xs h = (vs, h') \<Longrightarrow> prefix h h'"
  "embed_fields d h = (vd, h') \<Longrightarrow> prefix h h'"
  using embed_prefix by (metis snd_conv)+

lemma reify_embed:
  "embed j h = (v, h') \<Longrightarrow> length h' - length h \<le> n \<Longrightarrow> agree (length h) (length h') g h' \<Longrightarrow>
    reify n g v = Some j"
  "embed_list js h = (vs, h') \<Longrightarrow> length h' - length h \<le> n \<Longrightarrow> agree (length h) (length h') g h' \<Longrightarrow>
    those (map (reify n g) vs) = Some js"
  "embed_fields d h = (vd, h') \<Longrightarrow> length h' - length h \<le> n \<Longrightarrow> agree (length h) (length h') g h' \<Longrightarrow>
    those (map (\<lambda>kv. map_option (Pair (fst kv)) (reify n g (snd kv))) vd) = Some d"
proof (induction j h and js h and d h arbitrary: v h' n and vs h' n and vd h' n
    rule: embed_embed_list_embed_fields.induct)
  case (6 xs h)
  obtain vs h1 where vs: "embed_list xs h = (vs, h1)" by fastforce
  with 6(2) have v: "v = VRef (length h1)" and h': "h' = h1 @ [OList vs]"
    by (auto simp: halloc_def)
  from vs have le: "length h \<le> length h1" by (auto dest: embed_step prefix_length_le)
  then obtain m where n: "n = Suc m" and m: "length h1 - length h \<le> m"
    using 6(3) h' by (cases n) auto
  have "agree (length h) (length h1) g h1"
    using 6(4) h' agree_snoc by simp
  with 6(1) vs m have "those (map (reify m g) vs) = Some xs" by blast
  moreover have "hget g (length h1) = Some (OList vs)"
    using 6(4) h' le by (simp add: agree_def hget_append) (simp add: hget_def)
  ultimately show ?case by (simp add: v n)
next
  case (7 d h)
  obtain vd h1 where vd: "embed_fields d h = (vd, h1)" by fastforce
  with 7(2) have v: "v = VRef (length h1)" and h': "h' = h1 @ [ODict vd]"
    by (auto simp: halloc_def)
  from vd have le: "length h \<le> length h1" by (auto dest: embed_step prefix_length_le)
  then obtain m where n: "n = Suc m" and m: "length h1 - length h \<le> m"
    using 7(3) h' by (cases n) auto
  have "agree (length h) (length h1) g h1"
    using 7(4) h' agree_snoc by simp
  with 7(1) vd m have "those (map (\<lambda>kv. map_option (Pair (fst kv)) (reify m g (snd kv))) vd) = Some d"
    by blast
  moreover have "hget g (length h1) = Some (ODict vd)"
    using 7(4) h' le by (simp add: agree_def hget_append) (simp add: hget_def)
  ultimately show ?case by (simp add: v n)
next
  case (9 x xs h)
  obtain w h1 where w: "embed x h = (w, h1)" by fastforce
  obtain ws h2 where ws: "embed_list xs h1 = (ws, h2)" by fastforce
  have eq: "vs = w # ws" "h' = h2" using 9(3) w ws by auto
  have p: "prefix h h1" "prefix h1 h2" using w ws by (auto dest: embed_step)
  then have le: "length h \<le> length h1" "length h1 \<le> length h2" by (auto dest: prefix_length_le)
  have "agree (length h) (length h1) g h1"
    using 9(5) eq p le by (blast intro: agree_prefix agree_sub order_refl)
  then have "reify n g w = Some x"
    using 9(1) [OF w] 9(4) eq le by simp
  moreover have "agree (length h1) (length h2) g h2"
    using 9(5) eq le by (blast intro: agree_sub order_refl)
  then have "those (map (reify n g) ws) = Some xs"
    using 9(2) [OF w [symmetric] _ ws] 9(4) eq le by simp
  ultimately show ?case by (simp add: eq)
next
  case (11 k x d h)
  obtain w h1 where w: "embed x h = (w, h1)" by fastforce
  obtain ws h2 where ws: "embed_fields d h1 = (ws, h2)" by fastforce
  have eq: "vd = (k, w) # ws" "h' = h2" using 11(3) w ws by auto
  have p: "prefix h h1" "prefix h1 h2" using w ws by (auto dest: embed_step)
  then have le: "length h \<le> length h1" "length h1 \<le> length h2" by (auto dest: prefix_length_le)
  have "agree (length h) (length h1) g h1"
    using 11(5) eq p le by (blast intro: agree_prefix agree_sub order_refl)
  then have "reify n g w = Some x"
    using 11(1) [OF w] 11(4) eq le by simp
  moreover have "agree (length h1) (length h2) g h2"
    using 11(5) eq le by (blast intro: agree_sub order_refl)
  then have "those (map (\<lambda>kv. map_option (Pair (fst kv)) (reify n g (snd kv))) ws) = Some d"
    using 11(2) [OF w [symmetric] _ ws] 11(4) eq le by simp
  ultimately show ?case by (simp add: eq)
qed auto

end
