(* ===== verification/RunContext.thy ===== *)
theory RunContext
  imports Store
begin

text \<open>
  The run context of a suite run (\<open>app/elaborations/services/suite_runs/run_context.py\<close>): four
  scopes that are dictionaries of the heap, where the global scope refers to the run envelope and
  the local scope to the global scope, and the operations that write and remove a value at a path.
\<close>

section \<open>State\<close>

record run_context =
  run_id :: string
  run_envelope :: nat
  global_scope :: nat
  local_scope :: nat
  result_scope :: nat
  invocation_id :: "string option"
  current_item_kind :: string
  current_hook_phase :: "string option"
  visible_sources :: "json dict"
  last_result :: "string \<times> pyval"

text \<open>The interpreter's objects and the context variable that holds the current run context.\<close>

record py_state =
  objects :: heap
  current_context :: "run_context option"

type_synonym 'a py = "(py_state, 'a) call"

definition with_heap :: "(heap, 'a) call \<Rightarrow> 'a py" where
  "with_heap m st = (case m (objects st) of (r, h) \<Rightarrow> (r, st\<lparr>objects := h\<rparr>))"

lemma with_heap_simps [simp]:
  "fst (with_heap m st) = fst (m (objects st))"
  "objects (snd (with_heap m st)) = snd (m (objects st))"
  "current_context (snd (with_heap m st)) = current_context st"
  by (simp_all add: with_heap_def split: prod.splits)

text \<open>\<open>v if isinstance(v, dict) else {}\<close>.\<close>

definition dict_or_new :: "pyval \<Rightarrow> heap \<Rightarrow> nat \<times> heap" where
  "dict_or_new v h =
     (case dict_at h v of Some d \<Rightarrow> (ref_of v, h) | None \<Rightarrow> halloc (ODict []) h)"

text \<open>\<open>str(s or "").strip() or None\<close>.\<close>

definition strip_or_none :: "string option \<Rightarrow> string option" where
  "strip_or_none s =
     (case s of None \<Rightarrow> None | Some t \<Rightarrow> if py_strip t = [] then None else Some (py_strip t))"

section \<open>Construction\<close>

definition build_run_context_payload ::
  "string \<Rightarrow> pyval \<Rightarrow> pyval \<Rightarrow> heap \<Rightarrow> (nat \<times> nat \<times> nat \<times> nat) \<times> heap" where
  "build_run_context_payload rid event initial_vars h =
     (let (ev, h1) = dict_or_new event h;
          (vars, h2) = dict_or_new initial_vars h1;
          (env, h3) = halloc (ODict [(''run_id'', VStr (py_strip rid)), (''event'', VRef ev),
             (''constants'', VRef vars)]) h2;
          (gc, h4) = halloc (ODict []) h3;
          (gs, h5) = halloc (ODict [(''runEnvelope'', VRef env), (''constants'', VRef gc)]) h4;
          (lc, h6) = halloc (ODict []) h5;
          (ls, h7) = halloc (ODict [(''global'', VRef gs), (''constants'', VRef lc)]) h6;
          (ra, h8) = halloc (ODict []) h7;
          (rc, h9) = halloc (ODict []) h8;
          (rk, h10) = halloc (ODict []) h9;
          (rs, h11) = halloc (ODict [(''artifacts'', VRef ra), (''commands'', VRef rc),
             (''constants'', VRef rk)]) h10
      in ((env, gs, ls, rs), h11))"

definition create_run_context ::
  "string \<Rightarrow> pyval \<Rightarrow> pyval \<Rightarrow> string option \<Rightarrow> heap \<Rightarrow> run_context \<times> heap" where
  "create_run_context rid event initial_vars invocation h =
     (let ((env, gs, ls, rs), h') = build_run_context_payload rid event initial_vars h
      in (\<lparr>run_id = py_strip rid, run_envelope = env, global_scope = gs, local_scope = ls,
           result_scope = rs, invocation_id = strip_or_none invocation,
           current_item_kind = ''hook'', current_hook_phase = None, visible_sources = [],
           last_result = ([], VNone)\<rparr>, h'))"

section \<open>Paths\<close>

definition normalize_target_path :: "string \<Rightarrow> string result" where
  "normalize_target_path path =
     (let normalized = py_strip path in
      if normalized = [] then Inl (ValueError ''Target path is required.'')
      else if starts_with ''$.'' normalized then Inr (drop 2 normalized)
      else if starts_with ''$'' normalized then
        (let rest = drop 1 normalized
         in Inr (if starts_with ''.'' rest then drop 1 rest else rest))
      else Inr normalized)"

text \<open>
  One pass over the characters of a segment: the tokens found so far, the buffer, and whether
  the position is inside brackets.
\<close>

fun segment_scan :: "string \<Rightarrow> string list \<Rightarrow> string \<Rightarrow> bool \<Rightarrow> string list" where
  "segment_scan [] out buf in_index =
     (if buf = [] then out else out @ [if in_index then py_strip buf else buf])"
| "segment_scan (c # cs) out buf in_index =
     (if c = CHR ''['' then
        segment_scan cs (if buf = [] then out else out @ [buf]) [] True
      else if c = CHR '']'' then
        segment_scan cs (if py_strip buf = [] then out else out @ [py_strip buf]) [] False
      else segment_scan cs out (buf @ [c]) in_index)"

definition segment_tokens :: "string \<Rightarrow> string list" where
  "segment_tokens segment = filter (\<lambda>t. t \<noteq> []) (segment_scan (py_strip segment) [] [] False)"

definition path_tokens :: "string \<Rightarrow> string list result" where
  "path_tokens path =
     rbind (normalize_target_path path) (\<lambda>normalized.
       Inr (concat (map segment_tokens (filter (\<lambda>p. p \<noteq> []) (split_on (CHR ''.'') normalized)))))"

definition extract_context_root :: "string \<Rightarrow> string option result" where
  "extract_context_root path =
     rbind (path_tokens path) (\<lambda>tokens.
       case tokens of
         [] \<Rightarrow> Inr None
       | t # _ \<Rightarrow>
           (let rname = py_strip t in
            if rname = ''vars'' then Inr (Some ''global'')
            else if rname = ''response'' then Inr (Some ''response'')
            else if rname \<in> set [''runEnvelope'', ''global'', ''local'', ''result''] then Inr (Some rname)
            else Inr None))"

text \<open>
  \<open>str.isdigit\<close> accepts superscripts, on which \<open>int\<close> raises.
\<close>

definition to_index :: "string \<Rightarrow> nat option result" where
  "to_index t =
     (let raw = py_strip t in
      if py_isdigit raw then
        (if list_all is_decimal raw then Inr (Some (digits_value raw))
         else Inl (ValueError (''invalid literal for int() with base 10: '' @ str_repr raw)))
      else Inr None)"

section \<open>Assignment and removal at a path\<close>

text \<open>\<open>_ensure_list_size\<close>: the missing places are filled with new empty dictionaries.\<close>

definition ensure_list_size :: "nat \<Rightarrow> pyval list \<Rightarrow> heap \<Rightarrow> pyval list \<times> heap" where
  "ensure_list_size i xs h =
     (let missing = Suc i - length xs
      in (xs @ map VRef [length h ..< length h + missing], h @ replicate missing (ODict [])))"

definition new_container :: "bool \<Rightarrow> heap \<Rightarrow> pyval \<times> heap" where
  "new_container as_list h =
     (let (a, h') = halloc (if as_list then OList [] else ODict []) h in (VRef a, h'))"

fun assign_nested :: "pyval \<Rightarrow> string list \<Rightarrow> pyval \<Rightarrow> (heap, unit) call" where
  "assign_nested cur [] v h =
     (Inl (ValueError ''Target path must include at least one segment.''), h)"
| "assign_nested cur (t # ts) v h =
     (case to_index t of
        Inl e \<Rightarrow> (Inl e, h)
      | Inr (Some i) \<Rightarrow>
          (case list_at h cur of
             None \<Rightarrow> (Inl (ValueError ''Target path expects a list segment.''), h)
           | Some xs \<Rightarrow>
               (let (ys, h1) = ensure_list_size i xs h;
                    h2 = hset (ref_of cur) (OList ys) h1
                in case ts of
                     [] \<Rightarrow> (Inr (), hset (ref_of cur) (OList (ys[i := v])) h2)
                   | u # us \<Rightarrow>
                       (case to_index u of
                          Inl e \<Rightarrow> (Inl e, h2)
                        | Inr k \<Rightarrow>
                            (if ys ! i = VNone then
                               (let (c, h3) = new_container (k \<noteq> None) h2
                                in assign_nested c ts v (hset (ref_of cur) (OList (ys[i := c])) h3))
                             else assign_nested (ys ! i) ts v h2))))
      | Inr None \<Rightarrow>
          (case dict_at h cur of
             None \<Rightarrow> (Inl (ValueError ''Target path expects an object segment.''), h)
           | Some d \<Rightarrow>
               (case ts of
                  [] \<Rightarrow> (Inr (), hset (ref_of cur) (ODict (dict_set t v d)) h)
                | u # us \<Rightarrow>
                    (case to_index u of
                       Inl e \<Rightarrow> (Inl e, h)
                     | Inr k \<Rightarrow>
                         (if field_at h cur t = VNone then
                            (let (c, h1) = new_container (k \<noteq> None) h
                             in assign_nested c ts v (hset (ref_of cur) (ODict (dict_set t c d)) h1))
                          else assign_nested (field_at h cur t) ts v h)))))"

definition list_pop :: "nat \<Rightarrow> 'a list \<Rightarrow> 'a list" where
  "list_pop i xs = take i xs @ drop (Suc i) xs"

fun remove_nested :: "pyval \<Rightarrow> string list \<Rightarrow> (heap, unit) call" where
  "remove_nested cur [] h = (Inr (), h)"
| "remove_nested cur (t # ts) h =
     (case to_index t of
        Inl e \<Rightarrow> (Inl e, h)
      | Inr (Some i) \<Rightarrow>
          (case list_at h cur of
             None \<Rightarrow> (Inr (), h)
           | Some xs \<Rightarrow>
               (if length xs \<le> i then (Inr (), h)
                else if ts = [] then (Inr (), hset (ref_of cur) (OList (list_pop i xs)) h)
                else remove_nested (xs ! i) ts h))
      | Inr None \<Rightarrow>
          (case dict_at h cur of
             None \<Rightarrow> (Inr (), h)
           | Some d \<Rightarrow>
               (case dict_get d t of
                  None \<Rightarrow> (Inr (), h)
                | Some w \<Rightarrow>
                    (if ts = [] then (Inr (), hset (ref_of cur) (ODict (dict_del t d)) h)
                     else remove_nested w ts h))))"

section \<open>Writing and removing through the current context\<close>

text \<open>\<open>_target_from_root\<close>; the commands of the result scope are created when they are missing.\<close>

definition target_from_root :: "run_context \<Rightarrow> string \<Rightarrow> (heap, pyval) call" where
  "target_from_root rc rname h =
     (if rname = ''runEnvelope'' then (Inr (VRef (run_envelope rc)), h)
      else if rname = ''global'' then (Inr (VRef (global_scope rc)), h)
      else if rname = ''local'' then (Inr (VRef (local_scope rc)), h)
      else if rname = ''result'' then (Inr (VRef (result_scope rc)), h)
      else if rname = ''response'' then
        (let res = VRef (result_scope rc); commands = field_at h res ''commands'' in
         case dict_at h commands of
           Some _ \<Rightarrow> (Inr commands, h)
         | None \<Rightarrow>
             (let (a, h1) = halloc (ODict []) h
              in case dict_at h res of
                   Some d \<Rightarrow>
                     (Inr (VRef a), hset (result_scope rc) (ODict (dict_set ''commands'' (VRef a) d)) h1)
                 | None \<Rightarrow> (Inl (TypeError ''result scope''), h1)))
      else (Inl (ValueError (''Unsupported context root '' @ quoted rname @ ''.'')), h))"

definition immutable_in_test :: "run_context \<Rightarrow> string \<Rightarrow> unit result" where
  "immutable_in_test rc rname =
     (if rname = ''global'' \<and> current_item_kind rc = ''test''
      then Inl (ValueError ''Global context is immutable during test execution.'')
      else if rname = ''runEnvelope'' \<and> current_item_kind rc = ''test''
      then Inl (ValueError ''RunEnvelope context is immutable during test execution.'')
      else Inr ())"

definition scope_targets :: "string \<Rightarrow> string list \<Rightarrow> string list" where
  "scope_targets rname tokens =
     (let target_tokens = tl tokens in
      if rname \<in> set [''runEnvelope'', ''global'', ''local''] \<and> target_tokens \<noteq> [] \<and>
         hd target_tokens \<notin> set [''constants'', ''event'', ''run_id'', ''runEnvelope'', ''global'']
      then ''constants'' # target_tokens else target_tokens)"

text \<open>\<open>target.clear(); target.update(value)\<close>: a value that is the target itself is emptied first.\<close>

definition replace_root :: "pyval \<Rightarrow> pyval \<Rightarrow> (heap, unit) call" where
  "replace_root target v h =
     (case dict_at h v of
        None \<Rightarrow> (Inl (ValueError ''Root assignment requires a JSON object value.''), h)
      | Some _ \<Rightarrow>
          (let h1 = hset (ref_of target) (ODict []) h
           in case dict_at h1 v of
                None \<Rightarrow> (Inr (), h1)
              | Some d \<Rightarrow> (Inr (), hset (ref_of target) (ODict (dict_update [] d)) h1)))"

definition write_in_context :: "run_context \<Rightarrow> string \<Rightarrow> pyval \<Rightarrow> (heap, unit) call" where
  "write_in_context rc path v h =
     (case extract_context_root path of
        Inl e \<Rightarrow> (Inl e, h)
      | Inr None \<Rightarrow>
          (Inl (ValueError ''Unsupported target path. Use $.runEnvelope, $.global, $.local or $.result.''), h)
      | Inr (Some rname) \<Rightarrow>
          (case immutable_in_test rc rname of
             Inl e \<Rightarrow> (Inl e, h)
           | Inr _ \<Rightarrow>
               (case path_tokens path of
                  Inl e \<Rightarrow> (Inl e, h)
                | Inr tokens \<Rightarrow>
                    sbind (target_from_root rc rname) (\<lambda>target.
                      if scope_targets rname tokens = [] then replace_root target v
                      else assign_nested target (scope_targets rname tokens) v) h)))"

definition write_context_path :: "string \<Rightarrow> pyval \<Rightarrow> unit py" where
  "write_context_path path v st =
     (case current_context st of
        None \<Rightarrow> (Inr (), st)
      | Some rc \<Rightarrow> with_heap (write_in_context rc path v) st)"

definition remove_in_context :: "run_context \<Rightarrow> string \<Rightarrow> (heap, unit) call" where
  "remove_in_context rc path h =
     (case extract_context_root path of
        Inl e \<Rightarrow> (Inl e, h)
      | Inr None \<Rightarrow> (Inr (), h)
      | Inr (Some rname) \<Rightarrow>
          (case immutable_in_test rc rname of
             Inl e \<Rightarrow> (Inl e, h)
           | Inr _ \<Rightarrow>
               (case path_tokens path of
                  Inl e \<Rightarrow> (Inl e, h)
                | Inr tokens \<Rightarrow>
                    sbind (target_from_root rc rname)
                      (\<lambda>target. remove_nested target (scope_targets rname tokens)) h)))"

definition remove_context_path :: "string \<Rightarrow> unit py" where
  "remove_context_path path st =
     (case current_context st of
        None \<Rightarrow> (Inr (), st)
      | Some rc \<Rightarrow> with_heap (remove_in_context rc path) st)"

definition set_context_var :: "string \<Rightarrow> pyval \<Rightarrow> string \<Rightarrow> unit py" where
  "set_context_var key v scope st =
     (case current_context st of
        None \<Rightarrow> (Inr (), st)
      | Some rc \<Rightarrow>
          (let normalized_key = py_strip key;
               given = py_strip (if scope = [] then ''local'' else scope);
               normalized_scope =
                 (if given = ''auto''
                  then (if current_item_kind rc = ''test'' then ''local'' else ''global'') else given)
           in if normalized_key = [] then (Inl (ValueError ''Context variable key is required.''), st)
              else write_context_path
                     (''$.'' @ normalized_scope @ ''.constants.'' @ normalized_key) v st))"

text \<open>
  The dictionary or list under a key; where there is none, a new empty one is stored there.
\<close>

definition container_field :: "bool \<Rightarrow> pyval \<Rightarrow> string \<Rightarrow> heap \<Rightarrow> pyval \<times> heap" where
  "container_field as_list cur k h =
     (let found = field_at h cur k in
      if (if as_list then list_at h found \<noteq> None else dict_at h found \<noteq> None) then (found, h)
      else
        (let (c, h1) = new_container as_list h
         in (c, case dict_at h cur of
                  Some d \<Rightarrow> hset (ref_of cur) (ODict (dict_set k c d)) h1
                | None \<Rightarrow> h1)))"

text \<open>\<open>append_assert_artifact\<close>: the artifact goes to the end of \<open>result.artifacts.asserts\<close>.\<close>

definition append_in_context :: "run_context \<Rightarrow> pyval \<Rightarrow> heap \<Rightarrow> heap" where
  "append_in_context rc artifact h =
     (let (arts, h1) = container_field False (VRef (result_scope rc)) ''artifacts'' h;
          (items, h2) = container_field True arts ''asserts'' h1
      in (case list_at h2 items of
            Some xs \<Rightarrow> hset (ref_of items) (OList (xs @ [artifact])) h2
          | None \<Rightarrow> h2))"

definition append_assert_artifact :: "pyval \<Rightarrow> unit py" where
  "append_assert_artifact artifact st =
     (case current_context st of
        None \<Rightarrow> (Inr (), st)
      | Some rc \<Rightarrow> (Inr (), st\<lparr>objects := append_in_context rc artifact (objects st)\<rparr>))"

section \<open>Reading\<close>

text \<open>The containers \<open>resolve_constant_value\<close> looks in, the innermost first.\<close>

definition constants_at :: "heap \<Rightarrow> nat \<Rightarrow> pyval dict" where
  "constants_at h scope =
     (case dict_at h (field_at h (VRef scope) ''constants'') of Some d \<Rightarrow> d | None \<Rightarrow> [])"

definition first_found :: "pyval dict list \<Rightarrow> string \<Rightarrow> pyval" where
  "first_found ds k = foldr (\<lambda>d r. case dict_get d k of Some v \<Rightarrow> v | None \<Rightarrow> r) ds VNone"

definition resolve_constant_value :: "string \<Rightarrow> py_state \<Rightarrow> pyval" where
  "resolve_constant_value name st =
     (case current_context st of
        None \<Rightarrow> VNone
      | Some rc \<Rightarrow>
          (if py_strip name = [] then VNone
           else first_found
             [constants_at (objects st) (local_scope rc), constants_at (objects st) (global_scope rc),
              constants_at (objects st) (run_envelope rc), constants_at (objects st) (result_scope rc)]
             (py_strip name)))"

text \<open>
  \<open>build_run_context_scope\<close>: a new dictionary that refers to the scopes. Where the field asked
  for is no dictionary, a new empty one stands for it.
\<close>

definition build_run_context_scope :: "run_context option \<Rightarrow> heap \<Rightarrow> pyval \<times> heap" where
  "build_run_context_scope rc h =
     (case rc of
        None \<Rightarrow>
          embed
            (let envelope = JObj [(''run_id'', JStr []), (''event'', JObj []), (''constants'', JObj [])];
                 glob = JObj [(''runEnvelope'', envelope), (''constants'', JObj [])]
             in JObj [(''runEnvelope'', envelope), (''global'', glob),
                  (''local'', JObj [(''global'', glob), (''constants'', JObj [])]),
                  (''result'', JObj [(''artifacts'', JObj []), (''commands'', JObj []),
                     (''constants'', JObj [])]),
                  (''response'', JObj [])]) h
      | Some c \<Rightarrow>
          (let (vars, h1) = dict_or_new (field_at h (VRef (global_scope c)) ''constants'') h;
               (resp, h2) = dict_or_new (field_at h1 (VRef (result_scope c)) ''commands'') h1;
               (a, h3) = halloc (ODict [(''runEnvelope'', VRef (run_envelope c)),
                  (''global'', VRef (global_scope c)), (''local'', VRef (local_scope c)),
                  (''result'', VRef (result_scope c)), (''vars'', VRef vars),
                  (''response'', VRef resp)]) h2
           in (VRef a, h3)))"

section \<open>Binding\<close>

text \<open>
  \<open>bind_run_context\<close> and \<open>bind_suite_item_context\<close> around a body: what they set is put back
  on every exit, exceptions included.
\<close>

definition bind_run_context :: "run_context \<Rightarrow> 'a py \<Rightarrow> 'a py" where
  "bind_run_context rc body st =
     (let (r, st') = body (st\<lparr>current_context := Some rc\<rparr>)
      in (r, st'\<lparr>current_context := current_context st\<rparr>))"

definition set_scope_constants :: "nat \<Rightarrow> pyval \<Rightarrow> heap \<Rightarrow> heap" where
  "set_scope_constants scope v h =
     (case dict_at h (VRef scope) of
        Some d \<Rightarrow> hset scope (ODict (dict_set ''constants'' v d)) h
      | None \<Rightarrow> h)"

definition enter_suite_item ::
  "string \<Rightarrow> string option \<Rightarrow> pyval option \<Rightarrow> json dict option \<Rightarrow> run_context \<Rightarrow> py_state \<Rightarrow> py_state" where
  "enter_suite_item item_kind hook_phase local_vars sources rc st =
     st\<lparr>current_context := Some (rc\<lparr>
          current_item_kind :=
            py_lower (py_strip (if item_kind = [] then current_item_kind rc else item_kind)),
          current_hook_phase := map_option py_lower (strip_or_none hook_phase),
          visible_sources := (case sources of Some s \<Rightarrow> s | None \<Rightarrow> visible_sources rc)\<rparr>),
        objects :=
          (case local_vars of
             Some v \<Rightarrow> set_scope_constants (local_scope rc) v (objects st)
           | None \<Rightarrow> objects st)\<rparr>"

definition leave_suite_item :: "run_context \<Rightarrow> pyval \<Rightarrow> py_state \<Rightarrow> py_state" where
  "leave_suite_item previous previous_locals st =
     (case current_context st of
        None \<Rightarrow> st
      | Some rc \<Rightarrow>
          (let (lc, h) = dict_or_new previous_locals (objects st)
           in st\<lparr>current_context := Some (rc\<lparr>current_item_kind := current_item_kind previous,
                   current_hook_phase := current_hook_phase previous,
                   visible_sources := visible_sources previous\<rparr>),
                objects := set_scope_constants (local_scope rc) (VRef lc) h\<rparr>))"

definition bind_suite_item_context ::
  "string \<Rightarrow> string option \<Rightarrow> pyval option \<Rightarrow> json dict option \<Rightarrow> 'a py \<Rightarrow> 'a py" where
  "bind_suite_item_context item_kind hook_phase local_vars sources body st =
     (case current_context st of
        None \<Rightarrow> body st
      | Some rc \<Rightarrow>
          (let previous_locals = field_at (objects st) (VRef (local_scope rc)) ''constants'';
               (r, st') = body (enter_suite_item item_kind hook_phase local_vars sources rc st)
           in (r, leave_suite_item rc previous_locals st')))"

definition reset_local_context :: "py_state \<Rightarrow> py_state" where
  "reset_local_context st =
     (case current_context st of
        None \<Rightarrow> st
      | Some rc \<Rightarrow>
          (let (a, h) = halloc (ODict []) (objects st)
           in st\<lparr>current_context := Some (rc\<lparr>last_result := ([], VNone)\<rparr>),
                objects := set_scope_constants (local_scope rc) (VRef a) h\<rparr>))"

definition set_context_last :: "string \<Rightarrow> pyval \<Rightarrow> py_state \<Rightarrow> py_state" where
  "set_context_last item_id data st =
     (case current_context st of
        None \<Rightarrow> st
      | Some rc \<Rightarrow> st\<lparr>current_context := Some (rc\<lparr>last_result := (py_strip item_id, data)\<rparr>)\<rparr>)"

end
