(* ===== verification/RunContextFacts.thy ===== *)
theory RunContextFacts
  imports RunContext
begin

text \<open>
  Facts about paths, about what a write or a removal changes, and about the bindings of the run
  context; the properties of the component are at the end.
\<close>

section \<open>Numbers and keys in paths\<close>

lemma nat_text_decimal: "nat_text n \<noteq> [] \<and> list_all is_decimal (nat_text n)"
proof (induction n rule: nat_text.induct)
  case (1 n)
  have "is_decimal (char_of (d + 48))" if "d < 10" for d :: nat
    using that by (simp add: is_decimal_def)
  with 1 show ?case
    by (subst (1 2) nat_text.simps) (auto simp: list_all_iff)
qed

lemma digits_value_snoc: "digits_value (s @ [c]) = 10 * digits_value s + (of_char c - 48)"
  by (simp add: digits_value_def)

lemma digits_value_nat_text [simp]: "digits_value (nat_text n) = n"
proof (induction n rule: nat_text.induct)
  case (1 n)
  have small: "digits_value [char_of (d + 48)] = d" if "d < 10" for d :: nat
    using that by (simp add: digits_value_def)
  show ?case
  proof (cases "n < 10")
    case True
    then show ?thesis by (subst nat_text.simps) (simp add: small)
  next
    case False
    have "n mod 10 + 48 < 256"
      using mod_less_divisor [of 10 n] by linarith
    with False 1 show ?thesis
      by (subst nat_text.simps) (simp add: digits_value_snoc)
  qed
qed

lemma decimal_not_space: "is_decimal c \<Longrightarrow> \<not> is_space c"
  by (auto simp: is_decimal_def is_space_def py_spaces_def)

lemma py_strip_nat_text [simp]: "py_strip (nat_text n) = nat_text n"
  using nat_text_decimal [of n] decimal_not_space
  by (simp add: py_strip_ident_iff list_all_iff)

lemma to_index_nat_text [simp]: "to_index (nat_text n) = Inr (Some n)"
  using nat_text_decimal [of n]
  by (auto simp: to_index_def py_isdigit_def list_all_iff is_digit_def)

text \<open>A key that a path can name: not empty, without the characters of the path syntax, no
  number, and not changed by trimming.\<close>

definition plain_key :: "string \<Rightarrow> bool" where
  "plain_key k \<longleftrightarrow> k \<noteq> [] \<and> py_strip k = k \<and> \<not> py_isdigit k \<and>
     CHR ''.'' \<notin> set k \<and> CHR ''['' \<notin> set k \<and> CHR '']'' \<notin> set k"

lemma to_index_plain [simp]: "plain_key k \<Longrightarrow> to_index k = Inr None"
  by (simp add: plain_key_def to_index_def)

lemma segment_scan_plain:
  "CHR ''['' \<notin> set s \<Longrightarrow> CHR '']'' \<notin> set s \<Longrightarrow>
    segment_scan s out buf False = (if buf @ s = [] then out else out @ [buf @ s])"
  by (induction s arbitrary: buf) auto

lemma segment_tokens_plain [simp]: "plain_key k \<Longrightarrow> segment_tokens k = [k]"
  by (simp add: plain_key_def segment_tokens_def segment_scan_plain)

definition dotted :: "string list \<Rightarrow> string" where
  "dotted ks = ''$.'' @ join_with ''.'' ks"

lemma split_join:
  "ks \<noteq> [] \<Longrightarrow> \<forall>k \<in> set ks. d \<notin> set k \<Longrightarrow> split_on d (join_with [d] ks) = ks"
proof (induction ks)
  case (Cons k ks)
  show ?case
  proof (cases ks)
    case Nil
    with Cons show ?thesis by (simp add: join_with_def split_on_no_sep)
  next
    case (Cons k' ks')
    then have "join_with [d] (k # ks) = k @ d # join_with [d] ks"
      by (simp add: join_with_def)
    with Cons.IH Cons.prems Cons show ?thesis by (simp add: split_on_append)
  qed
qed simp

lemma last_join: "ks \<noteq> [] \<Longrightarrow> \<forall>k \<in> set ks. k \<noteq> [] \<Longrightarrow> last (join_with sep ks) = last (last ks)
    \<and> join_with sep ks \<noteq> []"
proof (induction ks rule: rev_induct)
  case (snoc k ks)
  then show ?case by (cases ks) (auto simp: join_with_def)
qed simp

lemma strip_dotted:
  assumes "ks \<noteq> []" and "\<forall>k \<in> set ks. plain_key k"
  shows "py_strip (dotted ks) = dotted ks"
proof -
  have "plain_key (last ks)" using assms by simp
  then have "\<not> is_space (last (last ks))"
    by (auto simp: plain_key_def py_strip_ident_iff)
  moreover have "last (dotted ks) = last (last ks)"
    using last_join [of ks "''.''"] assms by (auto simp: dotted_def plain_key_def)
  ultimately show ?thesis
    by (simp add: py_strip_ident_iff) (simp add: dotted_def is_space_def py_spaces_def)
qed

lemma path_tokens_dotted [simp]:
  assumes "ks \<noteq> []" and "\<forall>k \<in> set ks. plain_key k"
  shows "path_tokens (dotted ks) = Inr ks"
proof -
  have "normalize_target_path (dotted ks) = Inr (join_with ''.'' ks)"
    using strip_dotted [OF assms]
    by (simp add: normalize_target_path_def Let_def) (simp add: dotted_def starts_with_def)
  moreover have "split_on (CHR ''.'') (join_with ''.'' ks) = ks"
    using assms by (intro split_join) (auto simp: plain_key_def)
  moreover have "filter (\<lambda>p. p \<noteq> []) ks = ks"
    using assms by (auto simp: plain_key_def filter_id_conv)
  moreover have "concat (map segment_tokens ks) = ks"
    using assms(2) by (induction ks) auto
  ultimately show ?thesis by (simp add: path_tokens_def)
qed

lemma plain_scope_names [simp]:
  "plain_key ''local''" "plain_key ''global''" "plain_key ''runEnvelope''" "plain_key ''result''"
  "plain_key ''constants''"
  by (simp_all add: plain_key_def py_strip_ident_iff is_space_def py_spaces_def py_isdigit_def
      is_digit_def is_decimal_def)

lemma context_root_dotted:
  assumes "plain_key k" and "\<forall>x \<in> set ks. plain_key x"
  shows "extract_context_root (dotted (k # ks)) =
    Inr (if k = ''vars'' then Some ''global''
         else if k \<in> set [''response'', ''runEnvelope'', ''global'', ''local'', ''result''] then Some k
         else None)"
  using assms by (auto simp: extract_context_root_def plain_key_def)

section \<open>A write keeps the kind of every object\<close>

lemma kinds_kept_list_fill:
  assumes "list_at h cur = Some xs" and "ensure_list_size i xs h = (ys, h1)"
  shows "kinds_kept h (hset (ref_of cur) (OList zs) h1)"
proof -
  obtain a where a: "cur = VRef a" "hget h a = Some (OList xs)"
    using list_at_SomeD [OF assms(1)] by blast
  have h1: "prefix h h1"
    using assms(2) by (auto simp: ensure_list_size_def Let_def)
  then have "hget h1 a = Some (OList xs)"
    using a hget_prefix by blast
  then have "kinds_kept h1 (hset (ref_of cur) (OList zs) h1)"
    using a by (auto intro: kinds_kept_hset)
  with h1 show ?thesis
    by (blast intro: kinds_kept_trans kinds_kept_prefix)
qed

lemma kinds_kept_put_list: "list_at h cur = Some xs \<Longrightarrow> kinds_kept h (hset (ref_of cur) (OList zs) h)"
  by (auto dest!: list_at_SomeD intro: kinds_kept_hset)

lemma kinds_kept_put_dict: "dict_at h cur = Some d \<Longrightarrow> kinds_kept h (hset (ref_of cur) (ODict e) h)"
  by (auto dest!: dict_at_SomeD intro: kinds_kept_hset)

lemma list_at_after_put:
  "list_at h cur = Some xs \<Longrightarrow> list_at (hset (ref_of cur) (OList zs) h) cur = Some zs"
  by (auto dest!: list_at_SomeD)

lemma new_container_prefix: "new_container b h = (c, h') \<Longrightarrow> prefix h h'"
  by (auto simp: new_container_def halloc_def)

lemma list_at_prefix: "prefix h h' \<Longrightarrow> list_at h v = Some xs \<Longrightarrow> list_at h' v = Some xs"
  by (auto dest!: list_at_SomeD intro: hget_prefix simp: hget_prefix)

lemma dict_at_prefix: "prefix h h' \<Longrightarrow> dict_at h v = Some d \<Longrightarrow> dict_at h' v = Some d"
  by (auto dest!: dict_at_SomeD intro: hget_prefix simp: hget_prefix)

lemma ensure_list_size_prefix: "ensure_list_size i xs h = (ys, h') \<Longrightarrow> prefix h h'"
  by (auto simp: ensure_list_size_def Let_def)

lemma kinds_kept_fresh_list:
  assumes "list_at h cur = Some xs" and "new_container b h = (c, h')"
  shows "kinds_kept h (hset (ref_of cur) (OList zs) h')"
  using assms list_at_prefix [OF new_container_prefix] new_container_prefix
  by (blast intro: kinds_kept_trans kinds_kept_prefix kinds_kept_put_list)

lemma kinds_kept_fresh_dict:
  assumes "dict_at h cur = Some d" and "new_container b h = (c, h')"
  shows "kinds_kept h (hset (ref_of cur) (ODict e) h')"
  using assms dict_at_prefix [OF new_container_prefix] new_container_prefix
  by (blast intro: kinds_kept_trans kinds_kept_prefix kinds_kept_put_dict)

lemma assign_nested_kinds: "kinds_kept h (snd (assign_nested cur ts v h))"
proof (induction ts arbitrary: cur h)
  case (Cons t ts)
  show ?case
  proof (cases "to_index t")
    case (Inr k)
    show ?thesis
    proof (cases k)
      case (Some i)
      show ?thesis
      proof (cases "list_at h cur")
        case xs: (Some xs)
        obtain ys h1 where e: "ensure_list_size i xs h = (ys, h1)" by fastforce
        define h2 where "h2 = hset (ref_of cur) (OList ys) h1"
        have l1: "list_at h1 cur = Some xs"
          using xs e list_at_prefix ensure_list_size_prefix by blast
        have l2: "list_at h2 cur = Some ys"
          using l1 by (simp add: h2_def list_at_after_put)
        have k2: "kinds_kept h h2"
          unfolding h2_def by (rule kinds_kept_list_fill [OF xs e])
        have last: "kinds_kept h (hset (ref_of cur) (OList zs) h2)" for zs
          using k2 l2 by (blast intro: kinds_kept_trans kinds_kept_put_list)
        have deeper: "kinds_kept h (snd (assign_nested w ts v h'))" if "kinds_kept h h'" for w h'
          using that Cons.IH by (blast intro: kinds_kept_trans)
        have fresh: "kinds_kept h (hset (ref_of cur) (OList zs) h3)"
          if "new_container b h2 = (c, h3)" for b c h3 zs
          using k2 kinds_kept_fresh_list [OF l2 that] by (rule kinds_kept_trans)
        show ?thesis
          using Inr Some xs e k2 last deeper fresh
          by (auto simp: h2_def [symmetric] Let_def split: list.splits sum.splits prod.splits)
      qed (use Inr Some in simp)
    next
      case None
      show ?thesis
      proof (cases "dict_at h cur")
        case d: (Some d)
        have deeper: "kinds_kept h (snd (assign_nested w ts v h'))" if "kinds_kept h h'" for w h'
          using that Cons.IH by (blast intro: kinds_kept_trans)
        show ?thesis
          using Inr None d deeper kinds_kept_put_dict [OF d] kinds_kept_fresh_dict [OF d]
          by (auto split: list.splits sum.splits prod.splits)
      qed (use Inr None in simp)
    qed
  qed simp
qed simp

lemma remove_nested_kinds: "kinds_kept h (snd (remove_nested cur ts h))"
proof (induction ts arbitrary: cur)
  case (Cons t ts)
  then show ?case
    by (auto split: sum.splits option.splits intro: kinds_kept_put_list kinds_kept_put_dict)
qed simp

lemma replace_root_kinds: "dict_at h target = Some d \<Longrightarrow> kinds_kept h (snd (replace_root target v h))"
proof -
  assume d: "dict_at h target = Some d"
  define h1 where "h1 = hset (ref_of target) (ODict []) h"
  have k1: "kinds_kept h h1"
    unfolding h1_def by (rule kinds_kept_put_dict [OF d])
  have "dict_at h1 target = Some []"
    using d by (auto simp: h1_def dest!: dict_at_SomeD)
  then have "kinds_kept h (hset (ref_of target) (ODict e) h1)" for e
    using k1 by (blast intro: kinds_kept_trans kinds_kept_put_dict)
  with k1 show ?thesis
    by (auto simp: replace_root_def h1_def [symmetric] Let_def split: option.splits)
qed

text \<open>The scopes of a context are dictionaries.\<close>

definition is_dict :: "heap \<Rightarrow> nat \<Rightarrow> bool" where
  "is_dict h a \<longleftrightarrow> (case hget h a of Some (ODict _) \<Rightarrow> True | _ \<Rightarrow> False)"

lemma is_dict_iff: "is_dict h a \<longleftrightarrow> (\<exists>d. hget h a = Some (ODict d))"
  by (auto simp: is_dict_def split: option.splits pyobj.splits)

definition scopes_ok :: "run_context \<Rightarrow> heap \<Rightarrow> bool" where
  "scopes_ok rc h \<longleftrightarrow> is_dict h (run_envelope rc) \<and> is_dict h (global_scope rc) \<and>
     is_dict h (local_scope rc) \<and> is_dict h (result_scope rc)"

lemma is_dict_kinds: "kinds_kept h h' \<Longrightarrow> is_dict h a \<Longrightarrow> is_dict h' a"
  by (auto simp: is_dict_iff dest: kinds_kept_dict)

lemma scopes_ok_kinds: "kinds_kept h h' \<Longrightarrow> scopes_ok rc h \<Longrightarrow> scopes_ok rc h'"
  by (simp add: scopes_ok_def is_dict_kinds)

lemma target_from_root_kinds:
  assumes "scopes_ok rc h" and "target_from_root rc r h = (x, h')"
  shows "kinds_kept h h' \<and> (\<forall>t. x = Inr t \<longrightarrow> (\<exists>d. dict_at h' t = Some d))"
proof -
  have resp: "kinds_kept h (hset (result_scope rc) (ODict e) h1)"
    if "halloc (ODict []) h = (a, h1)" for a h1 e
  proof -
    have "prefix h h1" using that by (rule halloc_prefix)
    moreover from this have "is_dict h1 (result_scope rc)"
      using assms(1) is_dict_kinds kinds_kept_prefix scopes_ok_def by blast
    ultimately show ?thesis
      by (auto simp: is_dict_iff intro: kinds_kept_trans [OF kinds_kept_prefix kinds_kept_hset])
  qed
  have new: "\<exists>d. dict_at (hset (result_scope rc) (ODict e) h1) (VRef a) = Some d"
    if "halloc (ODict []) h = (a, h1)" for a h1 e
    using py_heap.get_alloc_same [OF that] by simp
  show ?thesis
    using assms resp new
    by (auto simp: target_from_root_def scopes_ok_def is_dict_iff Let_def
        split: if_splits option.splits prod.splits intro: kinds_kept_prefix halloc_prefix)
qed

lemma write_in_context_kinds:
  assumes "scopes_ok rc h"
  shows "kinds_kept h (snd (write_in_context rc p v h))"
proof -
  have "kinds_kept h (snd (sbind (target_from_root rc r) (\<lambda>target.
      if ts = [] then replace_root target v else assign_nested target ts v) h))" for r ts
  proof (cases "target_from_root rc r h")
    case (Pair x h')
    note t = target_from_root_kinds [OF assms Pair]
    show ?thesis
    proof (cases x)
      case (Inr target)
      with t obtain d where "dict_at h' target = Some d" by blast
      then have "kinds_kept h' (snd (replace_root target v h'))"
        by (rule replace_root_kinds)
      with t Pair Inr assign_nested_kinds [of h' target ts v] show ?thesis
        by (auto simp: sbind_def intro: kinds_kept_trans)
    qed (use t Pair in \<open>simp add: sbind_def\<close>)
  qed
  then show ?thesis
    by (auto simp: write_in_context_def split: sum.splits option.splits)
qed

lemma remove_in_context_kinds:
  assumes "scopes_ok rc h"
  shows "kinds_kept h (snd (remove_in_context rc p h))"
proof -
  have "kinds_kept h (snd (sbind (target_from_root rc r) (\<lambda>target. remove_nested target ts) h))" for r ts
  proof (cases "target_from_root rc r h")
    case (Pair x h')
    note t = target_from_root_kinds [OF assms Pair]
    show ?thesis
      using t Pair remove_nested_kinds [of h' _ ts]
      by (cases x) (auto simp: sbind_def intro: kinds_kept_trans)
  qed
  then show ?thesis
    by (auto simp: remove_in_context_def split: sum.splits option.splits)
qed

lemma container_field_kinds:
  assumes "container_field b cur k h = (c, h')"
  shows "kinds_kept h h'"
proof (cases "dict_at h cur")
  case None
  with assms show ?thesis
    by (auto simp: container_field_def Let_def split: if_splits prod.splits
        intro: kinds_kept_prefix new_container_prefix)
next
  case (Some d)
  with assms show ?thesis
    by (auto simp: container_field_def Let_def split: if_splits prod.splits
        intro: kinds_kept_fresh_dict)
qed

lemma append_in_context_kinds: "kinds_kept h (append_in_context rc artifact h)"
proof -
  obtain arts h1 where s1: "container_field False (VRef (result_scope rc)) ''artifacts'' h = (arts, h1)"
    by fastforce
  obtain items h2 where s2: "container_field True arts ''asserts'' h1 = (items, h2)"
    by fastforce
  have "kinds_kept h2 (append_in_context rc artifact h)"
    using s1 s2 by (auto simp: append_in_context_def split: option.splits intro: kinds_kept_put_list)
  then show ?thesis
    using container_field_kinds [OF s1] container_field_kinds [OF s2] kinds_kept_trans by blast
qed

end
