(* ===== verification/Resolver.thy ===== *)
theory Resolver
  imports RunContextFacts
begin

text \<open>
  Dynamic values (\<open>app/elaborations/services/suite_runs/run_context_resolver.py\<close>): a value of
  a command's configuration in which a text of the form \<open>$.path\<close>, or an object with a
  \<open>$ref\<close>, stands for what the run context holds at that path.
\<close>

section \<open>References\<close>

definition is_runtime_ref :: "string \<Rightarrow> bool" where
  "is_runtime_ref s = (let r = py_strip s in r = ''$'' \<or> starts_with ''$.'' r)"

text \<open>\<open>_split_path\<close>: dots inside brackets do not separate.\<close>

fun split_path_scan :: "string \<Rightarrow> string \<Rightarrow> nat \<Rightarrow> string list" where
  "split_path_scan [] buf lvl = [buf]"
| "split_path_scan (c # cs) buf lvl =
     (if c = CHR ''.'' \<and> lvl = 0 then buf # split_path_scan cs [] lvl
      else split_path_scan cs (buf @ [c])
        (if c = CHR ''['' then Suc lvl else if c = CHR '']'' then lvl - 1 else lvl))"

definition split_path :: "string \<Rightarrow> string list" where
  "split_path path = filter (\<lambda>p. p \<noteq> []) (split_path_scan path [] 0)"

datatype path_token = Name string | Index nat

text \<open>\<open>_segment_tokens\<close>: property names and bracketed list indexes of one segment.\<close>

function ref_segment_tokens :: "string \<Rightarrow> string \<Rightarrow> path_token list result" where
  "ref_segment_tokens segment remaining =
     (case remaining of
        [] \<Rightarrow> Inr []
      | c # cs \<Rightarrow>
          if c = CHR ''['' then
            (if CHR '']'' \<notin> set cs
             then Inl (ValueError (''Invalid $ref segment '' @ quoted segment))
             else
               (let index_token = py_strip (takeWhile (\<lambda>x. x \<noteq> CHR '']'') cs) in
                if index_token = [] \<or> \<not> list_all is_decimal index_token
                then Inl (ValueError (''Invalid list index '' @ quoted index_token @
                  '' in $ref segment '' @ quoted segment))
                else rbind (ref_segment_tokens segment (drop 1 (dropWhile (\<lambda>x. x \<noteq> CHR '']'') cs)))
                       (\<lambda>ts. Inr (Index (digits_value index_token) # ts))))
          else
            (let name = takeWhile (\<lambda>x. x \<noteq> CHR ''['') remaining;
                 rest = dropWhile (\<lambda>x. x \<noteq> CHR ''['') remaining
             in rbind (ref_segment_tokens segment rest) (\<lambda>ts. Inr (Name name # ts))))"
  by pat_completeness auto
termination
proof (relation "measure (\<lambda>(s, r). length r)", goal_cases)
  case 1
  show ?case by simp
next
  case (2 segment remaining c cs x)
  then show ?case
    using length_dropWhile_le [of "\<lambda>x. x \<noteq> CHR '']''" cs] by simp
next
  case (3 segment remaining c cs x xa)
  then show ?case
    using length_dropWhile_le [of "\<lambda>x. x \<noteq> CHR ''[''" cs] by simp
qed

declare ref_segment_tokens.simps [simp del]

text \<open>One step from a value; None is the marker for a missing reference.\<close>

fun ref_step :: "heap \<Rightarrow> pyval \<Rightarrow> path_token \<Rightarrow> pyval option" where
  "ref_step h cur (Index i) =
     (case list_at h cur of
        None \<Rightarrow> None
      | Some xs \<Rightarrow> if length xs \<le> i then None else Some (xs ! i))"
| "ref_step h cur (Name k) =
     (case dict_at h cur of None \<Rightarrow> None | Some d \<Rightarrow> dict_get d k)"

fun ref_walk :: "heap \<Rightarrow> pyval \<Rightarrow> path_token list \<Rightarrow> pyval option" where
  "ref_walk h cur [] = Some cur"
| "ref_walk h cur (t # ts) =
     (case ref_step h cur t of None \<Rightarrow> None | Some w \<Rightarrow> ref_walk h w ts)"

text \<open>
  The segments are tokenised one after the other while the value is followed, so a malformed
  segment raises only when everything before it was found.
\<close>

fun ref_segments :: "heap \<Rightarrow> pyval \<Rightarrow> string list \<Rightarrow> pyval option result" where
  "ref_segments h cur [] = Inr (Some cur)"
| "ref_segments h cur (s # ss) =
     rbind (ref_segment_tokens s s) (\<lambda>ts.
       case ref_walk h cur ts of None \<Rightarrow> Inr None | Some w \<Rightarrow> ref_segments h w ss)"

definition resolve_ref :: "pyval \<Rightarrow> string \<Rightarrow> heap \<Rightarrow> pyval option result" where
  "resolve_ref scope expression h =
     (let ref = py_strip expression in
      if ref = ''$'' then Inr (Some scope)
      else if \<not> starts_with ''$.'' ref
      then Inl (ValueError (''Unsupported $ref '' @ quoted ref @ ''. Expected '' @ quoted ''$.<path>'' @ ''.''))
      else if drop 2 ref = [] then Inr (Some scope)
      else ref_segments h scope (split_path (drop 2 ref)))"

section \<open>Dynamic values\<close>

text \<open>
  The result of a reference is the object itself; every container of the configuration is
  rebuilt. An unresolved text stays as it is, an unresolved \<open>$ref\<close> takes its default.
\<close>

datatype object_form = ConstForm | RefForm string | PlainForm

definition object_form :: "json dict \<Rightarrow> object_form" where
  "object_form d =
     (if dict_get d ''$const'' \<noteq> None \<and> dict_get d ''$ref'' = None then ConstForm
      else if dict_get d ''$ref'' \<noteq> None \<and> is_runtime_ref (token (jget d ''$ref''))
      then RefForm (token (jget d ''$ref'')) else PlainForm)"

definition resolve_text :: "string \<Rightarrow> pyval \<Rightarrow> (heap, pyval) call" where
  "resolve_text s scope h =
     (if is_runtime_ref (py_strip s) then
        (case resolve_ref scope (py_strip s) h of
           Inl e \<Rightarrow> (Inl e, h)
         | Inr (Some v) \<Rightarrow> (Inr v, h)
         | Inr None \<Rightarrow> (Inr (VStr s), h))
      else (Inr (VStr s), h))"

text \<open>A \<open>$ref\<close> that is not found and has no default.\<close>

definition missing_ref :: "json dict \<Rightarrow> pyval result" where
  "missing_ref d =
     (if json_truthy (jget d ''$required'')
      then Inl (ValueError (''Required reference not found: '' @ json_str (jget d ''$ref'')))
      else Inr VNone)"

text \<open>The container of values that were resolved, unless one of them raised.\<close>

fun build_container :: "('a \<Rightarrow> pyobj) \<Rightarrow> 'a result \<times> heap \<Rightarrow> pyval result \<times> heap" where
  "build_container f (Inl e, h) = (Inl e, h)"
| "build_container f (Inr x, h) = (let (a, h') = halloc (f x) h in (Inr (VRef a), h'))"

fun cons_result :: "'a \<Rightarrow> 'a list result \<times> heap \<Rightarrow> 'a list result \<times> heap" where
  "cons_result x (Inl e, h) = (Inl e, h)"
| "cons_result x (Inr xs, h) = (Inr (x # xs), h)"

function (sequential)
  resolve_dynamic_value :: "json \<Rightarrow> pyval \<Rightarrow> (heap, pyval) call"
  and resolve_list :: "json list \<Rightarrow> pyval \<Rightarrow> (heap, pyval list) call"
  and resolve_fields :: "(string \<times> json) list \<Rightarrow> pyval \<Rightarrow> (heap, pyval dict) call"
  and resolve_field :: "string \<Rightarrow> (string \<times> json) list \<Rightarrow> pyval \<Rightarrow> (heap, pyval) call" where
  "resolve_dynamic_value (JList xs) scope h = build_container OList (resolve_list xs scope h)"
| "resolve_dynamic_value (JStr s) scope h = resolve_text s scope h"
| "resolve_dynamic_value (JObj d) scope h =
     (case object_form d of
        ConstForm \<Rightarrow> resolve_field ''$const'' d scope h
      | RefForm r \<Rightarrow>
          (case resolve_ref scope r h of
             Inl e \<Rightarrow> (Inl e, h)
           | Inr (Some v) \<Rightarrow> (Inr v, h)
           | Inr None \<Rightarrow>
               (if dict_get d ''$default'' \<noteq> None then resolve_field ''$default'' d scope h
                else (missing_ref d, h)))
      | PlainForm \<Rightarrow> build_container ODict (resolve_fields d scope h))"
| "resolve_dynamic_value JNull scope h = (Inr VNone, h)"
| "resolve_dynamic_value (JBool b) scope h = (Inr (VBool b), h)"
| "resolve_dynamic_value (JInt i) scope h = (Inr (VInt i), h)"
| "resolve_dynamic_value (JFloat q r) scope h = (Inr (VFloat q r), h)"
| "resolve_list [] scope h = (Inr [], h)"
| "resolve_list (x # xs) scope h =
     (case resolve_dynamic_value x scope h of
        (Inl e, h1) \<Rightarrow> (Inl e, h1)
      | (Inr v, h1) \<Rightarrow> cons_result v (resolve_list xs scope h1))"
| "resolve_fields [] scope h = (Inr [], h)"
| "resolve_fields ((k, x) # d) scope h =
     (case resolve_dynamic_value x scope h of
        (Inl e, h1) \<Rightarrow> (Inl e, h1)
      | (Inr v, h1) \<Rightarrow> cons_result (k, v) (resolve_fields d scope h1))"
| "resolve_field k [] scope h = (Inr VNone, h)"
| "resolve_field k ((k', x) # d) scope h =
     (if k' = k then resolve_dynamic_value x scope h else resolve_field k d scope h)"
  by pat_completeness auto
termination
  by (relation "measure (\<lambda>p. case p of
        Inl (Inl (j, _, _)) \<Rightarrow> size j
      | Inl (Inr (js, _, _)) \<Rightarrow> size_list size js
      | Inr (Inl (d, _, _)) \<Rightarrow> size_list (size_prod (\<lambda>_. 0) size) d
      | Inr (Inr (_, d, _, _)) \<Rightarrow> size_list (size_prod (\<lambda>_. 0) size) d)") simp_all

text \<open>The value of a path in the current run context.\<close>

definition resolve_in_context :: "json \<Rightarrow> pyval py" where
  "resolve_in_context j st =
     with_heap (\<lambda>h. let (scope, h1) = build_run_context_scope (current_context st) h
                    in resolve_dynamic_value j scope h1) st"

section \<open>Facts\<close>

lemma build_container_prefix:
  "prefix h (snd p) \<Longrightarrow> prefix h (snd (build_container f p))"
  by (cases "(f, p)" rule: build_container.cases) (auto simp: halloc_def intro: prefix_order.trans)

lemma cons_result_snd [simp]: "snd (cons_result x p) = snd p"
  by (cases "(x, p)" rule: cons_result.cases) auto

lemma resolve_text_snd [simp]: "snd (resolve_text s scope h) = h"
  by (auto simp: resolve_text_def split: sum.splits option.splits)

lemma resolve_prefix:
  "prefix h (snd (resolve_dynamic_value j scope h))"
  "prefix h (snd (resolve_list js scope h))"
  "prefix h (snd (resolve_fields d scope h))"
  "prefix h (snd (resolve_field k d scope h))"
proof (induction j scope h and js scope h and d scope h and k d scope h
    rule: resolve_dynamic_value_resolve_list_resolve_fields_resolve_field.induct)
  case (1 xs scope h)
  then show ?case by (simp add: build_container_prefix)
next
  case (3 d scope h)
  then show ?case
    by (auto simp: build_container_prefix split: object_form.split sum.split option.split)
next
  case (9 x xs scope h)
  then show ?case
    by (cases "resolve_dynamic_value x scope h")
      (auto split: sum.splits intro: prefix_order.trans)
next
  case (11 k x d scope h)
  then show ?case
    by (cases "resolve_dynamic_value x scope h")
      (auto split: sum.splits intro: prefix_order.trans)
qed simp_all

end
