(* ===== verification/RunContextProps.thy ===== *)
theory RunContextProps
  imports Resolver
begin

text \<open>
  What a suite run relies on: a constant that was written is read back, only its dictionary
  changes, a test cannot write the shared scopes by naming them, and what binding an item sets is
  undone.
\<close>

section \<open>Following plain paths\<close>

lemma split_path_scan_plain:
  "CHR ''['' \<notin> set s \<Longrightarrow> CHR '']'' \<notin> set s \<Longrightarrow>
    split_path_scan s buf 0 = (case split_on (CHR ''.'') s of w # ws \<Rightarrow> (buf @ w) # ws | [] \<Rightarrow> [])"
  by (induction s arbitrary: buf) (auto split: list.splits)

lemma ref_segment_tokens_plain [simp]:
  assumes "plain_key k"
  shows "ref_segment_tokens seg k = Inr [Name k]"
proof -
  obtain c cs where k: "k = c # cs" and "c \<noteq> CHR ''[''" and "CHR ''['' \<notin> set cs"
    using assms by (cases k) (auto simp: plain_key_def)
  then have "\<forall>x \<in> set cs. x \<noteq> CHR ''[''" by auto
  moreover have "ref_segment_tokens seg [] = Inr []"
    by (subst ref_segment_tokens.simps) simp
  ultimately show ?thesis
    using \<open>c \<noteq> CHR ''[''\<close> k
    by (subst ref_segment_tokens.simps)
      (simp add: takeWhile_eq_all_conv [THEN iffD2] dropWhile_eq_Nil_conv [THEN iffD2])
qed

lemma ref_segments_plain:
  "\<forall>k \<in> set ks. plain_key k \<Longrightarrow> ref_segments h v ks = Inr (ref_walk h v (map Name ks))"
  by (induction ks arbitrary: v) (auto split: option.splits)

lemma set_join_dot:
  "set (join_with ''.'' ks) \<subseteq> insert (CHR ''.'') (\<Union> (set ` set ks))"
  by (cases ks) (auto simp: join_with_def)

lemma resolve_ref_dotted:
  assumes "ks \<noteq> []" and "\<forall>k \<in> set ks. plain_key k"
  shows "resolve_ref scope (dotted ks) h = Inr (ref_walk h scope (map Name ks))"
proof -
  have d: "drop 2 (dotted ks) = join_with ''.'' ks"
    by (simp add: dotted_def)
  have ne: "join_with ''.'' ks \<noteq> []"
    using last_join [of ks] assms by (auto simp: plain_key_def)
  have "CHR ''['' \<notin> set (join_with ''.'' ks)" and "CHR '']'' \<notin> set (join_with ''.'' ks)"
    using set_join_dot [of ks] assms(2) by (auto simp: plain_key_def)
  moreover have "split_on (CHR ''.'') (join_with ''.'' ks) = ks"
    using assms by (intro split_join) (auto simp: plain_key_def)
  moreover have "filter (\<lambda>p. p \<noteq> []) ks = ks"
    using assms by (auto simp: plain_key_def filter_id_conv)
  ultimately have "split_path (join_with ''.'' ks) = ks"
    by (cases ks) (use assms(1) in \<open>auto simp: split_path_def split_path_scan_plain\<close>)
  then show ?thesis
    using strip_dotted [OF assms] d ne ref_segments_plain [OF assms(2)]
    by (simp add: resolve_ref_def Let_def) (simp add: dotted_def starts_with_def)
qed

lemma is_runtime_ref_dotted:
  assumes "ks \<noteq> []" and "\<forall>k \<in> set ks. plain_key k"
  shows "is_runtime_ref (dotted ks)"
  using strip_dotted [OF assms]
  by (simp add: is_runtime_ref_def Let_def) (simp add: dotted_def starts_with_def)

lemma resolve_dotted:
  assumes "ks \<noteq> []" and "\<forall>k \<in> set ks. plain_key k"
  shows "resolve_dynamic_value (JStr (dotted ks)) scope h =
    (Inr (case ref_walk h scope (map Name ks) of Some v \<Rightarrow> v | None \<Rightarrow> VStr (dotted ks)), h)"
  using resolve_ref_dotted [OF assms] is_runtime_ref_dotted [OF assms] strip_dotted [OF assms]
  by (simp add: resolve_text_def split: option.splits)

section \<open>Scopes by name\<close>

definition scope_address :: "run_context \<Rightarrow> string \<Rightarrow> nat" where
  "scope_address rc r =
     (if r = ''runEnvelope'' then run_envelope rc else if r = ''global'' then global_scope rc
      else if r = ''local'' then local_scope rc else result_scope rc)"

definition scope_names :: "string list" where
  "scope_names = [''runEnvelope'', ''global'', ''local'', ''result'']"

lemma plain_scope_name: "r \<in> set scope_names \<Longrightarrow> plain_key r"
  by (auto simp: scope_names_def)

lemma scope_walk:
  assumes "r \<in> set scope_names" and "build_run_context_scope (Some rc) h = (scope, h1)"
  shows "ref_step h1 scope (Name r) = Some (VRef (scope_address rc r))" and "prefix h h1"
proof -
  obtain a1 h2 where v: "dict_or_new (field_at h (VRef (global_scope rc)) ''constants'') h = (a1, h2)"
    by fastforce
  obtain a2 h3 where p: "dict_or_new (field_at h2 (VRef (result_scope rc)) ''commands'') h2 = (a2, h3)"
    by fastforce
  have pre: "prefix h h2" "prefix h2 h3"
    using v p by (auto simp: dict_or_new_def split: option.splits intro: halloc_prefix)
  have "h1 = h3 @ [ODict [(''runEnvelope'', VRef (run_envelope rc)),
      (''global'', VRef (global_scope rc)), (''local'', VRef (local_scope rc)),
      (''result'', VRef (result_scope rc)), (''vars'', VRef a1), (''response'', VRef a2)]]"
    and "scope = VRef (length h3)"
    using assms(2) v p by (auto simp: build_run_context_scope_def halloc_def)
  moreover from this have "dict_at h1 scope = Some [(''runEnvelope'', VRef (run_envelope rc)),
      (''global'', VRef (global_scope rc)), (''local'', VRef (local_scope rc)),
      (''result'', VRef (result_scope rc)), (''vars'', VRef a1), (''response'', VRef a2)]"
    by (simp add: hget_append) (simp add: hget_def)
  ultimately show "ref_step h1 scope (Name r) = Some (VRef (scope_address rc r))" and "prefix h h1"
    using assms(1) pre
    by (auto simp: scope_names_def scope_address_def dict_get_Cons intro: prefix_order.trans)
qed

lemma build_scope_prefix: "prefix h (snd (build_run_context_scope rc h))"
proof (cases rc)
  case None
  show ?thesis
    unfolding None build_run_context_scope_def option.case by (rule embed_prefix)
next
  case (Some c)
  then show ?thesis
    using scope_walk(2) [of "''local''" c h] by (cases "build_run_context_scope rc h") (simp add: scope_names_def)
qed

text \<open>The dictionary of constants of a scope.\<close>

definition constants_dict :: "heap \<Rightarrow> nat \<Rightarrow> nat \<Rightarrow> pyval dict \<Rightarrow> bool" where
  "constants_dict h scope c d \<longleftrightarrow> c \<noteq> scope \<and>
     dict_get (case dict_at h (VRef scope) of Some s \<Rightarrow> s | None \<Rightarrow> []) ''constants'' = Some (VRef c) \<and>
     hget h c = Some (ODict d)"

lemma constants_dictD:
  assumes "constants_dict h scope c d"
  obtains s where "hget h scope = Some (ODict s)" and "dict_get s ''constants'' = Some (VRef c)"
    and "hget h c = Some (ODict d)" and "c \<noteq> scope"
  using assms by (cases "dict_at h (VRef scope)") (auto simp: constants_dict_def)

lemma target_from_scope_name:
  "r \<in> set scope_names \<Longrightarrow> target_from_root rc r h = (Inr (VRef (scope_address rc r)), h)"
  by (auto simp: scope_names_def target_from_root_def scope_address_def)

lemma context_root_scope_name:
  assumes "r \<in> set scope_names" and "\<forall>k \<in> set ks. plain_key k"
  shows "extract_context_root (dotted (r # ks)) = Inr (Some r)"
  using context_root_dotted [OF plain_scope_name [OF assms(1)] assms(2)] assms(1)
  by (auto simp: scope_names_def)

lemma write_constant:
  assumes r: "r \<in> set scope_names" and free: "immutable_in_test rc r = Inr ()"
    and k: "plain_key k" and c: "constants_dict h (scope_address rc r) c d"
  shows "write_in_context rc (dotted [r, ''constants'', k]) v h =
    (Inr (), hset c (ODict (dict_set k v d)) h)"
proof -
  obtain s where s: "hget h (scope_address rc r) = Some (ODict s)"
    "dict_get s ''constants'' = Some (VRef c)" "hget h c = Some (ODict d)"
    using c by (rule constants_dictD)
  have "to_index ''constants'' = Inr None" "to_index k = Inr None"
    using k by simp_all
  moreover have "field_at h (VRef (scope_address rc r)) ''constants'' = VRef c"
    using s by (simp add: field_at_def)
  ultimately have "assign_nested (VRef (scope_address rc r)) [''constants'', k] v h =
      (Inr (), hset c (ODict (dict_set k v d)) h)"
    using s by simp
  then show ?thesis
    using r k free context_root_scope_name [OF r, of "[''constants'', k]"]
      path_tokens_dotted [of "[r, ''constants'', k]"] target_from_scope_name [OF r]
      plain_scope_name [OF r]
    by (simp add: write_in_context_def scope_targets_def sbind_def)
qed

lemma remove_constant:
  assumes r: "r \<in> set scope_names" and free: "immutable_in_test rc r = Inr ()"
    and k: "plain_key k" and c: "constants_dict h (scope_address rc r) c d"
  shows "remove_in_context rc (dotted [r, ''constants'', k]) h =
    (Inr (), if dict_get d k = None then h else hset c (ODict (dict_del k d)) h)"
proof -
  obtain s where s: "hget h (scope_address rc r) = Some (ODict s)"
    "dict_get s ''constants'' = Some (VRef c)" "hget h c = Some (ODict d)"
    using c by (rule constants_dictD)
  have "to_index ''constants'' = Inr None" "to_index k = Inr None"
    using k by simp_all
  then have "remove_nested (VRef (scope_address rc r)) [''constants'', k] h =
      (Inr (), if dict_get d k = None then h else hset c (ODict (dict_del k d)) h)"
    using s by (simp split: option.splits)
  then show ?thesis
    using r k free context_root_scope_name [OF r, of "[''constants'', k]"]
      path_tokens_dotted [of "[r, ''constants'', k]"] target_from_scope_name [OF r]
      plain_scope_name [OF r]
    by (simp add: remove_in_context_def scope_targets_def sbind_def)
qed

lemma resolve_constant:
  assumes r: "r \<in> set scope_names" and k: "plain_key k"
    and c: "constants_dict (objects st) (scope_address rc r) c d"
    and rc: "current_context st = Some rc"
  shows "fst (resolve_in_context (JStr (dotted [r, ''constants'', k])) st) =
    Inr (case dict_get d k of Some v \<Rightarrow> v | None \<Rightarrow> VStr (dotted [r, ''constants'', k]))"
proof -
  obtain s where s: "hget (objects st) (scope_address rc r) = Some (ODict s)"
    "dict_get s ''constants'' = Some (VRef c)" "hget (objects st) c = Some (ODict d)"
    using c by (rule constants_dictD)
  obtain scope h1 where b: "build_run_context_scope (Some rc) (objects st) = (scope, h1)"
    by fastforce
  note w = scope_walk [OF r b]
  from w(2) s have "hget h1 (scope_address rc r) = Some (ODict s)" "hget h1 c = Some (ODict d)"
    by (auto intro: hget_prefix)
  with s have "ref_walk h1 (VRef (scope_address rc r)) [Name ''constants'', Name k] = dict_get d k"
    by (simp split: option.splits)
  then have "ref_walk h1 scope (map Name [r, ''constants'', k]) = dict_get d k"
    using w(1) by (simp del: ref_step.simps add: ref_walk.simps(2) [of h1 scope])
  moreover have "\<forall>x \<in> set [r, ''constants'', k]. plain_key x"
    using k plain_scope_name [OF r] by simp
  ultimately show ?thesis
    using rc b resolve_dotted [of "[r, ''constants'', k]" scope h1]
    by (simp add: resolve_in_context_def split: option.splits)
qed

lemma constants_dict_put:
  assumes "constants_dict h scope c d"
  shows "constants_dict (hset c (ODict e) h) scope c e"
  using assms by (auto elim!: constants_dictD simp: constants_dict_def split: option.splits)

section \<open>A sample state\<close>

definition sample_state :: py_state where
  "sample_state =
     (let (rc, h) = create_run_context ''run-1'' VNone VNone None []
      in \<lparr>objects = h, current_context = Some rc\<rparr>)"

definition sample_context :: run_context where
  "sample_context = the (current_context sample_state)"

lemma sample_state_eval:
  "current_context sample_state = Some sample_context"
  "constants_dict (objects sample_state) (scope_address sample_context ''local'') 5 []"
  "immutable_in_test sample_context ''local'' = Inr ()"
  by (code_simp, code_simp, code_simp)

section \<open>Properties\<close>

text \<open>C9. What \<open>write_context_path\<close> stores as a constant of a scope is what a reference to the
  same path resolves to: for every scope that may be written in the current item, every plain
  name and every value, the write succeeds and the reference then gives exactly that value.
\<close>

theorem write_then_resolve:
  assumes "current_context st = Some rc" and "r \<in> set scope_names"
    and "immutable_in_test rc r = Inr ()" and "plain_key k"
    and "constants_dict (objects st) (scope_address rc r) c d"
  shows "\<exists>st'. write_context_path (dotted [r, ''constants'', k]) v st = (Inr (), st') \<and>
    current_context st' = Some rc \<and>
    fst (resolve_in_context (JStr (dotted [r, ''constants'', k])) st') = Inr v"
proof -
  let ?h = "hset c (ODict (dict_set k v d)) (objects st)"
  have w: "write_context_path (dotted [r, ''constants'', k]) v st = (Inr (), st\<lparr>objects := ?h\<rparr>)"
    using assms write_constant [OF assms(2-5), of v]
    by (simp add: write_context_path_def with_heap_def)
  have "constants_dict ?h (scope_address rc r) c (dict_set k v d)"
    using assms(5) by (rule constants_dict_put)
  then show ?thesis
    using w assms resolve_constant [OF assms(2,4), of "st\<lparr>objects := ?h\<rparr>" rc c "dict_set k v d"]
    by simp
qed

theorem write_then_resolve_witness:
  "\<exists>st'. write_context_path (dotted [''local'', ''constants'', ''x'']) (VInt 7) sample_state = (Inr (), st') \<and>
    current_context st' = Some sample_context \<and>
    fst (resolve_in_context (JStr (dotted [''local'', ''constants'', ''x''])) st') = Inr (VInt 7)"
  by (rule write_then_resolve [OF sample_state_eval(1) _ sample_state_eval(3) _ sample_state_eval(2)])
    (simp_all add: scope_names_def, code_simp)

text \<open>C10. Such a write changes exactly one object, the dictionary of constants of the scope it names:
  every other object that existed, the other scopes and their constants among them, keeps its
  contents.
\<close>

theorem write_constant_frame:
  assumes "current_context st = Some rc" and "r \<in> set scope_names"
    and "immutable_in_test rc r = Inr ()" and "plain_key k"
    and "constants_dict (objects st) (scope_address rc r) c d"
  shows "frame hget {c} (objects st)
      (objects (snd (write_context_path (dotted [r, ''constants'', k]) v st))) \<and>
    hget (objects (snd (write_context_path (dotted [r, ''constants'', k]) v st))) c =
      Some (ODict (dict_set k v d))"
proof -
  have "objects (snd (write_context_path (dotted [r, ''constants'', k]) v st)) =
      hset c (ODict (dict_set k v d)) (objects st)"
    using assms(1) write_constant [OF assms(2-5), of v]
    by (simp add: write_context_path_def with_heap_def)
  moreover have "hget (objects st) c \<noteq> None"
    using assms(5) by (auto elim: constants_dictD)
  ultimately show ?thesis
    using py_heap.frame_put [of c "{c}"] by simp
qed

theorem write_constant_frame_witness:
  "frame hget {5} (objects sample_state)
      (objects (snd (write_context_path (dotted [''local'', ''constants'', ''x'']) (VBool True) sample_state))) \<and>
    hget (objects (snd (write_context_path (dotted [''local'', ''constants'', ''x'']) (VBool True) sample_state))) 5 =
      Some (ODict (dict_set ''x'' (VBool True) []))"
  by (rule write_constant_frame [OF sample_state_eval(1) _ sample_state_eval(3) _ sample_state_eval(2)])
    (simp_all add: scope_names_def, code_simp)

text \<open>C11. Resolving a dynamic value only builds new objects: whatever the value and whatever it
  refers to, every object that existed keeps its contents, on the paths that raise as well.
\<close>

theorem resolve_reads_only:
  "frame hget S (objects st) (objects (snd (resolve_in_context j st)))"
proof -
  obtain scope h1 where b: "build_run_context_scope (current_context st) (objects st) = (scope, h1)"
    by fastforce
  with build_scope_prefix [of "objects st" "current_context st"] have "prefix (objects st) h1"
    by simp
  then have "prefix (objects st) (snd (resolve_dynamic_value j scope h1))"
    using resolve_prefix(1) prefix_order.trans by blast
  then show ?thesis
    using b by (simp add: resolve_in_context_def frame_prefix)
qed

text \<open>C12. While a test runs, a path that starts at the global scope or at the run envelope can be
  neither written nor removed: the call raises and the whole state is as before.
\<close>

theorem test_scope_protected:
  assumes "current_context st = Some rc" and "current_item_kind rc = ''test''"
    and "extract_context_root p = Inr (Some r)" and "r = ''global'' \<or> r = ''runEnvelope''"
  shows "\<exists>m. write_context_path p v st = (Inl (ValueError m), st) \<and>
    remove_context_path p st = (Inl (ValueError m), st)"
proof -
  obtain m where m: "immutable_in_test rc r = Inl (ValueError m)"
    using assms(2,4) by (auto simp: immutable_in_test_def)
  then have "write_in_context rc p v (objects st) = (Inl (ValueError m), objects st)"
    and "remove_in_context rc p (objects st) = (Inl (ValueError m), objects st)"
    using assms(3) by (simp_all add: write_in_context_def remove_in_context_def)
  then show ?thesis
    using assms(1)
    by (intro exI [of _ m]) (simp add: write_context_path_def remove_context_path_def with_heap_def)
qed

definition sample_test_state :: py_state where
  "sample_test_state =
     sample_state\<lparr>current_context := Some (sample_context\<lparr>current_item_kind := ''test''\<rparr>)\<rparr>"

theorem test_scope_protected_witness:
  "\<exists>m. write_context_path ''$.vars.x'' (VInt 1) sample_test_state = (Inl (ValueError m), sample_test_state) \<and>
    remove_context_path ''$.vars.x'' sample_test_state = (Inl (ValueError m), sample_test_state)"
proof (rule test_scope_protected)
  show "current_context sample_test_state = Some (sample_context\<lparr>current_item_kind := ''test''\<rparr>)"
    by (simp add: sample_test_state_def)
  show "extract_context_root ''$.vars.x'' = Inr (Some ''global'')"
    by code_simp
qed simp_all

text \<open>The scopes a new context is made of, and the references between them.\<close>

lemma create_run_context_shape:
  assumes "create_run_context rid ev iv ivk h = (rc, h')"
  obtains e v gc lc ra cc rk where
    "hget h' (run_envelope rc) = Some (ODict [(''run_id'', VStr (py_strip rid)), (''event'', VRef e),
       (''constants'', VRef v)])"
    "hget h' (global_scope rc) = Some (ODict [(''runEnvelope'', VRef (run_envelope rc)),
       (''constants'', VRef gc)])"
    "hget h' (local_scope rc) = Some (ODict [(''global'', VRef (global_scope rc)),
       (''constants'', VRef lc)])"
    "hget h' (result_scope rc) = Some (ODict [(''artifacts'', VRef ra), (''commands'', VRef cc),
       (''constants'', VRef rk)])"
    "hget h' gc = Some (ODict [])" "hget h' lc = Some (ODict [])" "hget h' rk = Some (ODict [])"
    "distinct [run_envelope rc, global_scope rc, local_scope rc, result_scope rc, gc, lc, ra, cc, rk]"
proof -
  obtain e h1 where e: "dict_or_new ev h = (e, h1)" by fastforce
  obtain v h2 where v: "dict_or_new iv h1 = (v, h2)" by fastforce
  have rc: "run_envelope rc = length h2" "global_scope rc = length h2 + 2"
    "local_scope rc = length h2 + 4" "result_scope rc = length h2 + 8"
    and h': "h' = h2 @ [ODict [(''run_id'', VStr (py_strip rid)), (''event'', VRef e), (''constants'', VRef v)],
      ODict [], ODict [(''runEnvelope'', VRef (length h2)), (''constants'', VRef (length h2 + 1))],
      ODict [], ODict [(''global'', VRef (length h2 + 2)), (''constants'', VRef (length h2 + 3))],
      ODict [], ODict [], ODict [],
      ODict [(''artifacts'', VRef (length h2 + 5)), (''commands'', VRef (length h2 + 6)),
        (''constants'', VRef (length h2 + 7))]]"
    using assms e v
    by (auto simp: create_run_context_def build_run_context_payload_def halloc_def Let_def)
  show ?thesis
    by (rule that [of e v "length h2 + 1" "length h2 + 3" "length h2 + 5" "length h2 + 6" "length h2 + 7"])
      (simp_all add: rc h' hget_append, simp_all add: hget_def)
qed

text \<open>The guard on the global scope can be passed: because the local scope refers to the global
  one, a test that writes below \<open>$.local.global.constants\<close> changes a constant of the global
  scope, and the call succeeds.
\<close>

theorem test_writes_global_through_local:
  assumes "create_run_context rid ev iv ivk h = (rc, h0)" and "plain_key k"
  shows "\<exists>h1. write_in_context (rc\<lparr>current_item_kind := ''test''\<rparr>)
      (dotted [''local'', ''global'', ''constants'', k]) v h0 = (Inr (), h1) \<and>
    dict_get (constants_at h0 (global_scope rc)) k = None \<and>
    dict_get (constants_at h1 (global_scope rc)) k = Some v"
proof -
  obtain gc lc where s:
    "hget h0 (global_scope rc) = Some (ODict [(''runEnvelope'', VRef (run_envelope rc)),
       (''constants'', VRef gc)])"
    "hget h0 (local_scope rc) = Some (ODict [(''global'', VRef (global_scope rc)),
       (''constants'', VRef lc)])"
    "hget h0 gc = Some (ODict [])" "global_scope rc \<noteq> gc"
    using assms(1) by (rule create_run_context_shape) auto
  have idx: "to_index ''global'' = Inr None" "to_index ''constants'' = Inr None" "to_index k = Inr None"
    using assms(2) by simp_all
  have "field_at h0 (VRef (local_scope rc)) ''global'' = VRef (global_scope rc)"
    and "field_at h0 (VRef (global_scope rc)) ''constants'' = VRef gc"
    using s by (simp_all add: field_at_def dict_get_Cons)
  then have "assign_nested (VRef (local_scope rc)) [''global'', ''constants'', k] v h0 =
      (Inr (), hset gc (ODict [(k, v)]) h0)"
    using idx s by (simp add: dict_set_def)
  then have "write_in_context (rc\<lparr>current_item_kind := ''test''\<rparr>)
      (dotted [''local'', ''global'', ''constants'', k]) v h0 = (Inr (), hset gc (ODict [(k, v)]) h0)"
    using assms(2) context_root_dotted [of "''local''" "[''global'', ''constants'', k]"]
      path_tokens_dotted [of "[''local'', ''global'', ''constants'', k]"]
    by (simp add: write_in_context_def scope_targets_def sbind_def immutable_in_test_def
        target_from_root_def)
  moreover have "constants_at h0 (global_scope rc) = []"
    and "constants_at (hset gc (ODict [(k, v)]) h0) (global_scope rc) = [(k, v)]"
    using s by (simp_all add: constants_at_def field_at_def dict_get_Cons)
  ultimately show ?thesis by (simp add: dict_get_Cons)
qed

theorem test_writes_global_through_local_witness:
  "\<exists>h1. write_in_context (sample_context\<lparr>current_item_kind := ''test''\<rparr>)
      (dotted [''local'', ''global'', ''constants'', ''x'']) (VInt 1) (objects sample_state) = (Inr (), h1) \<and>
    dict_get (constants_at (objects sample_state) (global_scope sample_context)) ''x'' = None \<and>
    dict_get (constants_at h1 (global_scope sample_context)) ''x'' = Some (VInt 1)"
proof (rule test_writes_global_through_local)
  show "create_run_context ''run-1'' VNone VNone None [] = (sample_context, objects sample_state)"
    by (simp add: sample_context_def sample_state_def split_beta)
  show "plain_key ''x''" by code_simp
qed

text \<open>The four scopes of the current context stay dictionaries under every operation on it: a
  write or a removal at any path, including the ones that raise half way, and the recording of an
  assertion.
\<close>

theorem scopes_stay_dictionaries:
  assumes "current_context st = Some rc" and "scopes_ok rc (objects st)"
  shows "scopes_ok rc (objects (snd (write_context_path p v st))) \<and>
    scopes_ok rc (objects (snd (remove_context_path p st))) \<and>
    scopes_ok rc (objects (snd (append_assert_artifact v st)))"
proof -
  note k = scopes_ok_kinds [OF _ assms(2)]
  have "kinds_kept (objects st) (append_in_context rc v (objects st))"
    by (rule append_in_context_kinds)
  then show ?thesis
    using assms(1) k write_in_context_kinds [OF assms(2)] remove_in_context_kinds [OF assms(2)]
    by (simp add: write_context_path_def remove_context_path_def append_assert_artifact_def)
qed

theorem scopes_stay_dictionaries_witness:
  "scopes_ok sample_context (objects (snd (write_context_path ''$.local.a[2].b'' (VInt 1) sample_state))) \<and>
    scopes_ok sample_context (objects (snd (remove_context_path ''$.local.a[2].b'' sample_state))) \<and>
    scopes_ok sample_context (objects (snd (append_assert_artifact (VInt 1) sample_state)))"
  by (rule scopes_stay_dictionaries [OF sample_state_eval(1)]) code_simp

text \<open>A path with two list indexes in a row can be given a value only where the outer list
  already exists: the missing places of a new list are filled with dictionaries, so the second
  index raises, and the list filled so far stays behind in the constants.
\<close>

theorem nested_index_write_raises:
  assumes "hget h c = Some (ODict d)" and "plain_key k" and "dict_get d k = None"
  shows "\<exists>h' a. assign_nested (VRef c) [k, nat_text i, nat_text j] v h =
      (Inl (ValueError ''Target path expects a list segment.''), h') \<and>
    field_at h' (VRef c) k = VRef a \<and>
    (\<exists>xs. hget h' a = Some (OList xs) \<and> length xs = Suc i)"
proof -
  have cl: "c < length h" using assms(1) by (rule hget_less)
  define h1 where "h1 = hset c (ODict (dict_set k (VRef (length h)) d)) (h @ [OList []])"
  have a1: "hget h1 (length h) = Some (OList [])"
    using cl by (simp add: h1_def) (simp add: hget_append hget_def)
  have len: "length h1 = Suc (length h)" by (simp add: h1_def)
  define ys where "ys = map VRef [Suc (length h) ..< Suc (length h) + Suc i]"
  have ys: "ensure_list_size i [] h1 = (ys, h1 @ replicate (Suc i) (ODict []))"
    by (simp add: ensure_list_size_def ys_def len del: replicate_Suc upt_Suc)
  define h2 where "h2 = hset (length h) (OList ys) (h1 @ replicate (Suc i) (ODict []))"
  have "ys ! i = VRef (Suc (length h) + i)"
    by (simp add: ys_def del: upt_Suc)
  moreover have "hget h2 (Suc (length h) + i) = Some (ODict [])"
    by (simp add: h2_def hget_append len del: replicate_Suc) (simp add: hget_def del: replicate_Suc)
  ultimately have deep: "assign_nested (ys ! i) [nat_text j] v h2 =
      (Inl (ValueError ''Target path expects a list segment.''), h2)"
    by simp
  have nc: "new_container True h = (VRef (length h), h @ [OList []])"
    by (simp add: new_container_def halloc_def)
  have "field_at h (VRef c) k = VNone"
    using assms(1,3) by (simp add: field_at_def)
  then have "assign_nested (VRef c) [k, nat_text i, nat_text j] v h =
      assign_nested (VRef (length h)) [nat_text i, nat_text j] v h1"
    using assms(1,2) nc by (simp add: h1_def)
  also have "\<dots> = (Inl (ValueError ''Target path expects a list segment.''), h2)"
    using a1 ys deep \<open>ys ! i = VRef _\<close>
    by (simp add: assign_nested.simps(2) [of "VRef (length h)" "nat_text i" "[nat_text j]" v h1]
        h2_def [symmetric] del: assign_nested.simps(2) replicate_Suc)
  finally have run: "assign_nested (VRef c) [k, nat_text i, nat_text j] v h =
      (Inl (ValueError ''Target path expects a list segment.''), h2)" .
  have "hget h1 c = Some (ODict (dict_set k (VRef (length h)) d))"
    using cl by (simp add: h1_def hget_append)
  then have "hget h2 c = Some (ODict (dict_set k (VRef (length h)) d))"
    using cl by (simp add: h2_def hget_append_old)
  moreover have "hget h2 (length h) = Some (OList ys)"
    by (simp add: h2_def hget_append len)
  ultimately show ?thesis
    using run by (intro exI [of _ h2] exI [of _ "length h"]) (simp add: field_at_def ys_def del: upt_Suc)
qed

theorem nested_index_write_raises_witness:
  "\<exists>h' a. assign_nested (VRef 5) [''m'', nat_text 0, nat_text 1] (VInt 7) (objects sample_state) =
      (Inl (ValueError ''Target path expects a list segment.''), h') \<and>
    field_at h' (VRef 5) ''m'' = VRef a \<and>
    (\<exists>xs. hget h' a = Some (OList xs) \<and> length xs = Suc 0)"
  by (rule nested_index_write_raises [where d = "[]"]) code_simp+

text \<open>After a constant is removed, a reference to it is unresolved and stays the text it was,
  whether or not the constant was there before; removing never raises on such a path.
\<close>

theorem remove_then_unresolved:
  assumes "current_context st = Some rc" and "r \<in> set scope_names"
    and "immutable_in_test rc r = Inr ()" and "plain_key k"
    and "constants_dict (objects st) (scope_address rc r) c d"
  shows "\<exists>st'. remove_context_path (dotted [r, ''constants'', k]) st = (Inr (), st') \<and>
    fst (resolve_in_context (JStr (dotted [r, ''constants'', k])) st') =
      Inr (VStr (dotted [r, ''constants'', k]))"
proof -
  define h where "h = (if dict_get d k = None then objects st
     else hset c (ODict (dict_del k d)) (objects st))"
  define e where "e = (if dict_get d k = None then d else dict_del k d)"
  have w: "remove_context_path (dotted [r, ''constants'', k]) st = (Inr (), st\<lparr>objects := h\<rparr>)"
    using assms(1) remove_constant [OF assms(2-5)]
    by (simp add: remove_context_path_def with_heap_def h_def)
  have "constants_dict h (scope_address rc r) c e"
    using assms(5) constants_dict_put [OF assms(5)] by (simp add: h_def e_def)
  moreover have "dict_get e k = None" by (simp add: e_def)
  ultimately show ?thesis
    using w assms(1) resolve_constant [OF assms(2,4), of "st\<lparr>objects := h\<rparr>" rc c e] by simp
qed

theorem remove_then_unresolved_witness:
  "\<exists>st'. remove_context_path (dotted [''local'', ''constants'', ''x'']) sample_state = (Inr (), st') \<and>
    fst (resolve_in_context (JStr (dotted [''local'', ''constants'', ''x''])) st') =
      Inr (VStr (dotted [''local'', ''constants'', ''x'']))"
  by (rule remove_then_unresolved [OF sample_state_eval(1) _ sample_state_eval(3) _ sample_state_eval(2)])
    (simp_all add: scope_names_def, code_simp)

text \<open>\<open>resolve_constant_value\<close> is the lookup in the four dictionaries of constants overriding
  each other: the local ones over the global ones, those over the run envelope's and those over
  the results.
\<close>

theorem constant_lookup_overrides:
  "resolve_constant_value name st =
     (case current_context st of
        None \<Rightarrow> VNone
      | Some rc \<Rightarrow>
          (if py_strip name = [] then VNone
           else case (dict_get (constants_at (objects st) (result_scope rc)) ++
                      dict_get (constants_at (objects st) (run_envelope rc)) ++
                      dict_get (constants_at (objects st) (global_scope rc)) ++
                      dict_get (constants_at (objects st) (local_scope rc))) (py_strip name) of
                  Some v \<Rightarrow> v | None \<Rightarrow> VNone))"
  by (simp add: resolve_constant_value_def first_found_def map_add_def split: option.splits)

text \<open>\<open>bind_suite_item_context\<close> undoes what it set, also when its body raises: for a body that
  leaves a context with the same local scope, the item kind, the hook phase, the visible sources
  and the dictionary of local constants are the ones from before.
\<close>

theorem suite_item_binding_restored:
  assumes "current_context st = Some rc"
    and "field_at (objects st) (VRef (local_scope rc)) ''constants'' = VRef c"
    and "body (enter_suite_item kind phase locals sources rc st) = (out, st1)"
    and "current_context st1 = Some rc1" and "local_scope rc1 = local_scope rc"
    and "is_dict (objects st1) (local_scope rc)" and "is_dict (objects st1) c"
  shows "\<exists>st2 rc2. bind_suite_item_context kind phase locals sources body st = (out, st2) \<and>
    current_context st2 = Some rc2 \<and>
    current_item_kind rc2 = current_item_kind rc \<and> current_hook_phase rc2 = current_hook_phase rc \<and>
    visible_sources rc2 = visible_sources rc \<and>
    field_at (objects st2) (VRef (local_scope rc2)) ''constants'' = VRef c"
proof -
  from assms(6,7) obtain s d where "hget (objects st1) (local_scope rc) = Some (ODict s)"
    and "hget (objects st1) c = Some (ODict d)"
    by (auto simp: is_dict_iff)
  with assms show ?thesis
    by (simp add: bind_suite_item_context_def leave_suite_item_def dict_or_new_def
        set_scope_constants_def field_at_def)
qed

theorem suite_item_binding_restored_witness:
  "\<exists>st2 rc2. bind_suite_item_context ''test'' None (Some (VRef 6)) None
      (write_context_path ''$.local.constants.x'' (VInt 1)) sample_state = (Inr (), st2) \<and>
    current_context st2 = Some rc2 \<and>
    current_item_kind rc2 = current_item_kind sample_context \<and>
    current_hook_phase rc2 = current_hook_phase sample_context \<and>
    visible_sources rc2 = visible_sources sample_context \<and>
    field_at (objects st2) (VRef (local_scope rc2)) ''constants'' = VRef 5"
  by (rule suite_item_binding_restored [where rc = sample_context
      and ?st1.0 = "snd (write_context_path ''$.local.constants.x'' (VInt 1)
        (enter_suite_item ''test'' None (Some (VRef 6)) None sample_context sample_state))"
      and ?rc1.0 = "sample_context\<lparr>current_item_kind := ''test''\<rparr>"]) code_simp+

end
