(* ===== verification/Commands.thy ===== *)
theory Commands
  imports Prelude
begin

text \<open>
  The configurations of commands (\<open>app/elaborations/models/dtos/configuration_command_dto.py\<close>):
  the normalisations of their fields, the validators of the classes, and
  \<open>convert_to_config_command_type\<close>, which makes a typed configuration of a JSON object.

  The classes derive from pydantic models. Coercing a JSON value to the declared type of a field
  is pydantic's work and a parameter here; the validators written in the source run after it.
\<close>

section \<open>The parameter: coercion of a field to its declared type\<close>

record field_types =
  as_str :: "json \<Rightarrow> string result"
  as_int :: "json \<Rightarrow> int result"
  as_number :: "json \<Rightarrow> rat result"

definition optional :: "(json \<Rightarrow> 'a result) \<Rightarrow> json \<Rightarrow> 'a option result" where
  "optional f j = (if j = JNull then Inr None else rbind (f j) (\<lambda>x. Inr (Some x)))"

fun as_dict :: "json \<Rightarrow> json dict result" where
  "as_dict (JObj d) = Inr d"
| "as_dict _ = Inl (ValidationError ''Input should be a valid dictionary'')"

fun as_list :: "json \<Rightarrow> json list result" where
  "as_list (JList xs) = Inr xs"
| "as_list _ = Inl (ValidationError ''Input should be a valid list'')"

section \<open>Vocabulary\<close>

definition command_types :: "string list" where
  "command_types = [''context'', ''action'', ''assert'']"

definition constant_contexts :: "string list" where
  "constant_contexts = [''runEnvelope'', ''global'', ''local'', ''result'']"

definition constant_source_types :: "string list" where
  "constant_source_types = [''value'', ''json'', ''jsonArray'', ''dataset'', ''function'', ''sqsQueue'']"

definition supported_runtime_functions :: "string list" where
  "supported_runtime_functions = [''now'', ''today'']"

definition dataset_built_ins :: "string list" where
  "dataset_built_ins = [''$now'', ''$today'']"

definition http_node_kinds :: "string list" where
  "http_node_kinds = [''literal'', ''runtimeValue'', ''source'', ''builtIn'']"

section \<open>Normalisation of fields\<close>

text \<open>The first value that is neither None nor blank text, in the order of the keys.\<close>

fun first_non_empty :: "json dict \<Rightarrow> string list \<Rightarrow> json" where
  "first_non_empty d [] = JNull"
| "first_non_empty d (k # ks) =
     (case jget d k of
        JNull \<Rightarrow> first_non_empty d ks
      | JStr s \<Rightarrow> if py_strip s = [] then first_non_empty d ks else JStr s
      | v \<Rightarrow> v)"

declare first_non_empty.simps(2) [simp del]

definition normalize_path_token :: "string \<Rightarrow> string" where
  "normalize_path_token v = replace_char (CHR ''_'') ''-'' (py_strip v)"

definition command_target_path :: "string \<Rightarrow> string option" where
  "command_target_path v =
     (let raw = py_strip v in
      if raw = [] then None
      else if starts_with ''$.'' raw then Some raw
      else if starts_with ''$'' raw then Some (''$.'' @ lstrip_char (CHR ''.'') (drop 1 raw))
      else Some (''$.'' @ lstrip_char (CHR ''.'') raw))"

fun normalize_compare_keys :: "json \<Rightarrow> string list" where
  "normalize_compare_keys (JStr s) =
     (let raw = split_on (CHR '','')
        (replace_char (CHR 0x0A) '','' (replace_char (CHR '';'') '','' s))
      in map py_strip (filter (\<lambda>k. py_strip k \<noteq> []) raw))"
| "normalize_compare_keys (JList xs) = filter (\<lambda>k. k \<noteq> []) (map token xs)"
| "normalize_compare_keys _ = []"

definition normalize_value_type :: "string \<Rightarrow> bool \<Rightarrow> string result" where
  "normalize_value_type v allow_sources =
     (let t = py_strip v; t' = (if t = ''raw'' then ''value'' else t);
          supported = (if allow_sources then constant_source_types
                       else [''value'', ''json'', ''function''])
      in if t' \<in> set supported then Inr t' else Inl (ValidationError ''Unsupported valueType.''))"

definition http_body_aliases :: "string dict" where
  "http_body_aliases =
     [(''json'', ''json''), (''text'', ''text''), (''formurlencoded'', ''formUrlEncoded''),
      (''xwwwformurlencoded'', ''formUrlEncoded'')]"

definition normalize_http_body_type :: "string \<Rightarrow> string result" where
  "normalize_http_body_type v =
     (let key = py_lower (filter (\<lambda>c. c \<noteq> CHR ''-'' \<and> c \<noteq> CHR ''_'') (py_strip v)) in
      if key = [] then Inr ''json''
      else case dict_get http_body_aliases key of
             None \<Rightarrow> Inl (ValidationError ''bodyType must be one of: json, text, formUrlEncoded.'')
           | Some t \<Rightarrow> Inr t)"

definition legacy_command_codes :: "string dict" where
  "legacy_command_codes =
     [(''data'', ''setVariable''), (''data-from-json-array'', ''setVariable''),
      (''data-from-db'', ''setVariable''), (''data-from-queue'', ''setVariable''),
      (''read-api'', ''readApi''), (''write-api'', ''writeApi''),
      (''publish'', ''sendMessageQueue''), (''save-internal-db'', ''saveTable''),
      (''save-external-db'', ''exportDataset''), (''run-suite'', ''runSuite''),
      (''set-var'', ''setVariable''), (''initconstant'', ''setVariable''),
      (''deleteconstant'', ''deleteVariable'')]"

definition normalize_command_code :: "json \<Rightarrow> string" where
  "normalize_command_code v =
     (let raw = token v in
      if raw = [] then []
      else case dict_get legacy_command_codes (py_lower (replace_char (CHR ''_'') ''-'' raw)) of
             None \<Rightarrow> raw | Some c \<Rightarrow> c)"

definition normalize_command_type :: "json \<Rightarrow> string" where
  "normalize_command_type v = py_lower (token v)"

definition derive_assert_command_code :: "json dict \<Rightarrow> string" where
  "derive_assert_command_code d =
     (let assert_type = py_lower (replace_char (CHR ''_'') ''-''
            (token (first_non_empty d [''assert_type'', ''assertType''])));
          has_array = json_truthy (first_non_empty d
            [''expected_json_array_id'', ''expectedJsonArrayId'', ''json_array_id''])
      in if assert_type = ''equals'' then ''jsonEquals''
         else if assert_type = ''empty'' then (if has_array then ''jsonArrayEmpty'' else ''jsonEmpty'')
         else if assert_type = ''not-empty''
              then (if has_array then ''jsonArrayNotEmpty'' else ''jsonNotEmpty'')
         else if assert_type = ''contains''
              then (if has_array then ''jsonArrayContains'' else ''jsonContains'')
         else if assert_type = ''json-array-equals'' then ''jsonArrayEquals''
         else ''jsonEquals'')"

section \<open>References and values\<close>

datatype input_ref = RuntimeValue string | Source string

text \<open>\<open>InputRefDto.validate_ref\<close>.\<close>

definition validate_input_ref :: "string \<Rightarrow> string option \<Rightarrow> string option \<Rightarrow> input_ref result" where
  "validate_input_ref kind definition_id source_code =
     (let k = py_strip kind; did = py_strip (text_of definition_id);
          code = py_strip (text_of source_code)
      in if k \<notin> set [''runtimeValue'', ''source'']
         then Inl (ValidationError ''kind must be one of: runtimeValue, source.'')
         else if k = ''runtimeValue'' then
           (if did = [] then Inl (ValidationError ''definitionId is required for runtimeValue refs.'')
            else Inr (RuntimeValue did))
         else (if code = [] then Inl (ValidationError ''sourceCode is required for source refs.'')
               else Inr (Source code)))"

text \<open>A field of type \<open>InputRefDto | None\<close>: only an object with its own \<open>kind\<close> is accepted.\<close>

definition input_ref_field :: "field_types \<Rightarrow> json \<Rightarrow> input_ref option result" where
  "input_ref_field pyd =
     optional (\<lambda>j. rbind (as_dict j) (\<lambda>d.
       case dict_get d ''kind'' of
         None \<Rightarrow> Inl (ValidationError ''Field required'')
       | Some kj \<Rightarrow>
           rbind (as_str pyd kj) (\<lambda>k.
           rbind (optional (as_str pyd) (jget d ''definitionId'')) (\<lambda>did.
           rbind (optional (as_str pyd) (jget d ''sourceCode'')) (\<lambda>code.
             validate_input_ref k did code)))))"

text \<open>\<open>ConstantRefDto\<close> and \<open>RuntimeValueRefDto\<close>.\<close>

definition validate_definition_id :: "string \<Rightarrow> string result" where
  "validate_definition_id v =
     (let did = py_strip v in
      if did = [] then Inl (ValidationError ''definitionId is required.'') else Inr did)"

definition runtime_ref_field :: "field_types \<Rightarrow> json \<Rightarrow> string option result" where
  "runtime_ref_field pyd =
     optional (\<lambda>j. rbind (as_dict j) (\<lambda>d.
       case dict_get d ''definitionId'' of
         None \<Rightarrow> Inl (ValidationError ''Field required'')
       | Some v \<Rightarrow> rbind (as_str pyd v) validate_definition_id))"

record result_constant =
  rc_definition :: string
  rc_name :: string
  rc_value_type :: string

definition validate_result_constant :: "string \<Rightarrow> string \<Rightarrow> string \<Rightarrow> result_constant result" where
  "validate_result_constant definition_id name value_type =
     rbind (normalize_value_type value_type True) (\<lambda>t.
     rbind (require (py_strip definition_id \<noteq> [])
       (ValidationError ''resultConstant.definitionId is required.'')) (\<lambda>_.
     rbind (require (py_strip name \<noteq> []) (ValidationError ''resultConstant.name is required.'')) (\<lambda>_.
       Inr \<lparr>rc_definition = py_strip definition_id, rc_name = py_strip name, rc_value_type = t\<rparr>)))"

definition result_constant_field :: "field_types \<Rightarrow> json \<Rightarrow> result_constant option result" where
  "result_constant_field pyd =
     optional (\<lambda>j. rbind (as_dict j) (\<lambda>d.
       case (dict_get d ''definitionId'', dict_get d ''name'') of
         (Some dj, Some nj) \<Rightarrow>
           rbind (as_str pyd dj) (\<lambda>did.
           rbind (as_str pyd nj) (\<lambda>name.
           rbind (case dict_get d ''valueType'' of None \<Rightarrow> Inr ''json'' | Some vj \<Rightarrow> as_str pyd vj) (\<lambda>vt.
             validate_result_constant did name vt)))
       | _ \<Rightarrow> Inl (ValidationError ''Field required'')))"

section \<open>Values of HTTP commands\<close>

datatype http_node =
    Literal json
  | RuntimeNode string "string option"
  | SourceNode string
  | BuiltInNode string

text \<open>\<open>HttpInputNode.validate_node\<close>.\<close>

definition validate_http_node ::
  "string \<Rightarrow> json \<Rightarrow> string option \<Rightarrow> string option \<Rightarrow> string option \<Rightarrow> string option \<Rightarrow>
    http_node result" where
  "validate_http_node kind v definition_id field_path source_code resolver =
     (let k = py_strip kind in
      if k = ''literal'' then Inr (Literal v)
      else if k = ''runtimeValue'' then
        (if py_strip (text_of definition_id) = []
         then Inl (ValidationError ''definitionId is required for runtimeValue nodes.'')
         else Inr (RuntimeNode (py_strip (text_of definition_id))
           (if py_strip (text_of field_path) = [] then None
            else Some (py_strip (text_of field_path)))))
      else if k = ''source'' then
        (if py_strip (text_of source_code) = []
         then Inl (ValidationError ''sourceCode is required for source nodes.'')
         else Inr (SourceNode (py_strip (text_of source_code))))
      else if k = ''builtIn'' then
        (if py_strip (text_of resolver) \<notin> set supported_runtime_functions
         then Inl (ValidationError ''resolver must be one of: now, today.'')
         else Inr (BuiltInNode (py_strip (text_of resolver))))
      else Inl (ValidationError ''kind must be one of: literal, runtimeValue, source, builtIn.''))"

definition is_http_node :: "json \<Rightarrow> bool" where
  "is_http_node v \<longleftrightarrow> (case v of JObj d \<Rightarrow> token (jget d ''kind'') \<in> set http_node_kinds | _ \<Rightarrow> False)"

definition http_node_of :: "field_types \<Rightarrow> json dict \<Rightarrow> http_node result" where
  "http_node_of pyd d =
     rbind (optional (as_str pyd) (first_non_empty d [''definitionId'', ''definition_id''])) (\<lambda>did.
     rbind (optional (as_str pyd) (first_non_empty d [''fieldPath'', ''field_path''])) (\<lambda>path.
     rbind (optional (as_str pyd) (first_non_empty d [''sourceCode'', ''source_code''])) (\<lambda>code.
     rbind (optional (as_str pyd) (jget d ''resolver'')) (\<lambda>res.
       validate_http_node (token (jget d ''kind'')) (jget d ''value'') did path code res))))"

definition coerce_to_http_node :: "field_types \<Rightarrow> json \<Rightarrow> http_node result" where
  "coerce_to_http_node pyd v =
     (if is_http_node v then http_node_of pyd (fields_of v) else Inr (Literal v))"

datatype http_tree =
    HNone
  | HNode http_node
  | HObj "(string \<times> http_tree) list"
  | HList "http_tree list"

fun coerce_http_tree :: "field_types \<Rightarrow> json \<Rightarrow> http_tree result" where
  "coerce_http_tree pyd JNull = Inr HNone"
| "coerce_http_tree pyd (JObj d) =
     (if is_http_node (JObj d) then rbind (http_node_of pyd d) (\<lambda>n. Inr (HNode n))
      else rbind (mapM (\<lambda>kv. rbind (coerce_http_tree pyd (snd kv)) (\<lambda>t. Inr (fst kv, t))) d)
             (\<lambda>d'. Inr (HObj d')))"
| "coerce_http_tree pyd (JList xs) =
     rbind (mapM (coerce_http_tree pyd) xs) (\<lambda>ts. Inr (HList ts))"
| "coerce_http_tree pyd v = Inr (HNode (Literal v))"

definition coerce_http_kv_params :: "field_types \<Rightarrow> json \<Rightarrow> (string \<times> http_node) list option result" where
  "coerce_http_kv_params pyd v =
     (case v of
        JObj d \<Rightarrow>
          rbind (mapM (\<lambda>kv. rbind (coerce_to_http_node pyd (snd kv)) (\<lambda>n. Inr (fst kv, n))) d)
            (\<lambda>d'. Inr (if d' = [] then None else Some d'))
      | JList xs \<Rightarrow>
          rbind (mapM (\<lambda>ix. rbind (coerce_to_http_node pyd (snd ix)) (\<lambda>n. Inr (nat_text (fst ix), n)))
              (enumerate 0 xs))
            (\<lambda>d'. Inr (if d' = [] then None else Some d'))
      | _ \<Rightarrow> Inr None)"

datatype http_auth =
    NoAuth
  | Basic http_node http_node
  | Bearer http_node
  | ApiKey http_node http_node http_node
  | OAuth2 http_node http_node http_node

definition coerce_authorization :: "field_types \<Rightarrow> json \<Rightarrow> http_auth option result" where
  "coerce_authorization pyd v =
     (case v of
        JNull \<Rightarrow> Inr None
      | JObj d \<Rightarrow>
          (let t = token (jget d ''type''); leaf = (\<lambda>k. coerce_to_http_node pyd (jget d k)) in
           if t = [] then Inr (Some NoAuth)
           else if t = ''basic'' then
             (if jget d ''username'' = JNull \<and> jget d ''password'' = JNull then Inr (Some NoAuth)
              else rbind (leaf ''username'') (\<lambda>u. rbind (leaf ''password'') (\<lambda>p.
                Inr (Some (Basic u p)))))
           else if t = ''bearer'' then
             (if jget d ''token'' = JNull then Inr (Some NoAuth)
              else rbind (leaf ''token'') (\<lambda>n. Inr (Some (Bearer n))))
           else if t = ''apiKey'' then
             rbind (leaf ''username'') (\<lambda>u. rbind (leaf ''apiKey'') (\<lambda>k.
             rbind (leaf ''authEndpoint'') (\<lambda>e. Inr (Some (ApiKey u k e)))))
           else if t = ''oauth2'' then
             rbind (leaf ''tokenUrl'') (\<lambda>u. rbind (leaf ''clientId'') (\<lambda>i.
             rbind (leaf ''clientSecret'') (\<lambda>s. Inr (Some (OAuth2 u i s)))))
           else Inl (ValidationError
             ''authorization.type must be one of: basic, bearer, apiKey, oauth2.''))
      | _ \<Rightarrow> Inl (ValidationError ''authorization must be an object.''))"

definition http_form_node :: "string \<Rightarrow> http_node \<Rightarrow> http_node result" where
  "http_form_node field_name node =
     (case node of
        SourceNode _ \<Rightarrow> Inl (ValidationError
          (''body.'' @ field_name @ '' does not support source nodes for formUrlEncoded.''))
      | Literal v \<Rightarrow>
          (if is_obj v \<or> is_list v then Inl (ValidationError
             (''body.'' @ field_name @ '' must resolve to a scalar literal for formUrlEncoded.''))
           else Inr node)
      | _ \<Rightarrow> Inr node)"

definition form_step ::
  "field_types \<Rightarrow> (string \<times> http_tree) list \<Rightarrow> string \<times> json \<Rightarrow> (string \<times> http_tree) list result" where
  "form_step pyd acc kv =
     (let key = py_strip (fst kv) in
      if key = [] then Inl (ValidationError ''body keys are required for formUrlEncoded.'')
      else rbind (coerce_to_http_node pyd (snd kv)) (\<lambda>n.
        rbind (http_form_node key n) (\<lambda>n'. Inr (dict_set key (HNode n') acc))))"

definition coerce_http_form_body :: "field_types \<Rightarrow> json \<Rightarrow> http_tree result" where
  "coerce_http_form_body pyd v =
     (case v of
        JNull \<Rightarrow> Inr HNone
      | JObj d \<Rightarrow>
          rbind (foldM (form_step pyd) [] d) (\<lambda>r. Inr (if r = [] then HNone else HObj r))
      | _ \<Rightarrow> Inl (ValidationError ''body must be an object for formUrlEncoded.''))"

text \<open>\<open>_serialize_http_input_node\<close>, the JSON form a value is stored in.\<close>

fun serialize_http_node :: "http_node \<Rightarrow> json" where
  "serialize_http_node (Literal v) = JObj [(''kind'', JStr ''literal''), (''value'', v)]"
| "serialize_http_node (RuntimeNode d p) =
     JObj ([(''kind'', JStr ''runtimeValue''), (''definitionId'', JStr d)]
       @ (if text_of p = [] then [] else [(''fieldPath'', JStr (text_of p))]))"
| "serialize_http_node (SourceNode c) = JObj [(''kind'', JStr ''source''), (''sourceCode'', JStr c)]"
| "serialize_http_node (BuiltInNode r) = JObj [(''kind'', JStr ''builtIn''), (''resolver'', JStr r)]"

fun serialize_http_tree :: "http_tree \<Rightarrow> json" where
  "serialize_http_tree HNone = JNull"
| "serialize_http_tree (HNode n) = serialize_http_node n"
| "serialize_http_tree (HObj d) = JObj (map (\<lambda>kv. (fst kv, serialize_http_tree (snd kv))) d)"
| "serialize_http_tree (HList ts) = JList (map serialize_http_tree ts)"

end
