(* ===== verification/CommandConfig.thy ===== *)
theory CommandConfig
  imports Commands
begin

text \<open>
  The typed command configurations and \<open>convert_to_config_command_type\<close>
  (\<open>app/elaborations/models/dtos/configuration_command_dto.py\<close>).

  Every class of the module is a constructor of \<open>command\<close> with the fields that its validators
  leaves; a function \<open>validate_...\<close> is the validator of a class on fields that already have
  their declared type, and \<open>convert_...\<close> the branch of the conversion that fills it from a JSON
  object. Fields the conversion never sets keep their defaults and are not carried. pydantic reports
  all failing fields at once; the models report the first of them, in the order of the fields,
  before the class's own validator and before the check of the command type.
\<close>

section \<open>The configurations\<close>

record set_variable =
  sv_definition :: string
  sv_name :: string
  sv_context :: string
  sv_value_type :: string
  sv_value :: json
  sv_function :: "string option"
  sv_target :: "string option"

record http_request =
  rq_method :: string
  rq_url :: string
  rq_query :: "(string \<times> http_node) list option"
  rq_headers :: "(string \<times> http_node) list option"
  rq_path :: "(string \<times> http_node) list option"
  rq_auth :: "http_auth option"
  rq_body_type :: string
  rq_timeout :: "rat option"
  rq_result :: "result_constant option"

record template_constant =
  tc_name :: string
  tc_kind :: string
  tc_value :: json

record message_template =
  mt_for_each :: "string option"
  mt_fields :: "string list"
  mt_constants :: "template_constant list"

record send_message =
  sm_queue :: string
  sm_input :: input_ref
  sm_template :: "message_template option"
  sm_result :: "result_constant option"

record export_dataset =
  ed_connection :: "string option"
  ed_table :: "string option"
  ed_input :: input_ref
  ed_mode :: string
  ed_keys :: "string list option"
  ed_description :: "string option"
  ed_dataset :: "string option"
  ed_result :: "result_constant option"

record receive_queue =
  rv_queue :: string
  rv_max_messages :: int
  rv_retry :: int
  rv_wait :: int
  rv_target :: "string option"
  rv_result :: "result_constant option"

record assertion =
  as_code :: string
  as_error_message :: "string option"
  as_object_type :: string
  as_actual :: input_ref
  as_expected :: json
  as_expected_ref :: "input_ref option"
  as_compare_keys :: "string list option"
  as_schema :: "json dict option"

datatype command =
    SetVariable set_variable
  | DeleteVariable string
  | Sleep int
  | ReadApi http_request
  | WriteApi http_request http_tree
  | SendMessageQueue send_message
  | SaveTable string input_ref "result_constant option"
  | DropTable string
  | CleanTable string
  | ExportDataset export_dataset
  | DropDataset string
  | CleanDataset string
  | RunSuite string "string list" "result_constant option"
  | ReceiveQueue receive_queue
  | QueryDatabase string string "string option" "result_constant option"
  | Assert assertion

record config =
  cfg_type :: string
  cfg_command :: command

fun command_code :: "command \<Rightarrow> string" where
  "command_code (SetVariable _) = ''setVariable''"
| "command_code (DeleteVariable _) = ''deleteVariable''"
| "command_code (Sleep _) = ''sleep''"
| "command_code (ReadApi _) = ''readApi''"
| "command_code (WriteApi _ _) = ''writeApi''"
| "command_code (SendMessageQueue _) = ''sendMessageQueue''"
| "command_code (SaveTable _ _ _) = ''saveTable''"
| "command_code (DropTable _) = ''dropTable''"
| "command_code (CleanTable _) = ''cleanTable''"
| "command_code (ExportDataset _) = ''exportDataset''"
| "command_code (DropDataset _) = ''dropDataset''"
| "command_code (CleanDataset _) = ''cleanDataset''"
| "command_code (RunSuite _ _ _) = ''runSuite''"
| "command_code (ReceiveQueue _) = ''receiveQueue''"
| "command_code (QueryDatabase _ _ _ _) = ''queryDatabase''"
| "command_code (Assert a) = as_code a"

definition assert_codes :: "string list" where
  "assert_codes = [''jsonEquals'', ''jsonEmpty'', ''jsonNotEmpty'', ''jsonContains'',
     ''jsonArrayEquals'', ''jsonArrayEmpty'', ''jsonArrayNotEmpty'', ''jsonArrayContains'']"

section \<open>Validators\<close>

text \<open>\<open>ConfigurationCommandDto.validate_command_keys\<close>.\<close>

definition validate_command_keys :: "string \<Rightarrow> string \<Rightarrow> (string \<times> string) result" where
  "validate_command_keys code ctype =
     (let c = normalize_command_code (JStr code); t = normalize_command_type (JStr ctype) in
      if c = [] then Inl (ValidationError ''commandCode is required.'')
      else if t \<notin> set command_types
           then Inl (ValidationError ''commandType must be one of: context, action, assert.'')
           else Inr (c, t))"

record raw_set_variable =
  raw_definition :: "string option"
  raw_name :: "string option"
  raw_context :: "string option"
  raw_value_type :: "string option"
  raw_source_type :: "string option"
  raw_value :: json
  raw_data :: json
  raw_function :: "string option"
  raw_resolver :: "string option"
  raw_function_alias :: "string option"
  raw_target :: "string option"
  raw_key :: "string option"
  raw_scope :: "string option"

definition or_option :: "string option \<Rightarrow> string option \<Rightarrow> string option" where
  "or_option a b = (if text_of a \<noteq> [] then a else b)"

definition target_default :: "string option \<Rightarrow> nat \<Rightarrow> string option" where
  "target_default target n =
     (case target of
        None \<Rightarrow> None
      | Some t \<Rightarrow>
          (let tokens = filter (\<lambda>s. s \<noteq> []) (split_on (CHR ''.'') t) in
           if 3 \<le> length tokens then Some (if n = 1 then tokens ! 1 else last tokens) else None))"

definition context_aliases :: "string dict" where
  "context_aliases = [(''run'', ''runEnvelope''), (''vars'', ''global''), (''auto'', ''local'')]"

definition normalize_context :: "string option \<Rightarrow> string result" where
  "normalize_context v =
     (let t = py_strip (or_text (text_of v) ''local'');
          c = (case dict_get context_aliases t of None \<Rightarrow> t | Some c \<Rightarrow> c) in
      if c \<in> set constant_contexts then Inr c
      else Inl (ValidationError ''context must be one of: runEnvelope, global, local, result.''))"

definition set_variable_function :: "raw_set_variable \<Rightarrow> string result" where
  "set_variable_function r =
     (let f = py_lower (py_strip (text_of
            (or_option (raw_function r) (or_option (raw_resolver r) (raw_function_alias r))))) in
      if f \<in> set supported_runtime_functions then Inr f
      else Inl (ValidationError ''functionName must be one of: now, today.''))"

text \<open>\<open>SetVariableConfigurationCommandDto.validate_configuration\<close>.\<close>

definition validate_set_variable :: "raw_set_variable \<Rightarrow> set_variable result" where
  "validate_set_variable r =
     (let did = py_strip (text_of (raw_definition r));
          target = (case raw_target r of None \<Rightarrow> None | Some t \<Rightarrow> command_target_path t);
          ctx = or_option (raw_context r) (target_default target 1);
          name = py_strip (text_of (or_option (or_option (raw_name r) (target_default target 2))
                   (raw_key r)));
          vt = py_strip (or_text (text_of (or_option (raw_source_type r) (raw_value_type r))) ''value'');
          v = (if raw_value r = JNull then raw_data r else raw_value r)
      in
      rbind (require (did \<noteq> []) (ValidationError ''definitionId is required for setVariable.'')) (\<lambda>_.
      rbind (require (name \<noteq> []) (ValidationError ''name is required for setVariable.'')) (\<lambda>_.
      rbind (normalize_context (or_option ctx (raw_scope r))) (\<lambda>c.
        if vt = ''jsonArray'' \<or> vt = ''dataset'' then
          Inr \<lparr>sv_definition = did, sv_name = name, sv_context = c, sv_value_type = vt,
               sv_value = v, sv_function = None, sv_target = target\<rparr>
        else rbind (normalize_value_type vt False) (\<lambda>t.
          if t = ''function'' then
            rbind (set_variable_function r) (\<lambda>f.
              Inr \<lparr>sv_definition = did, sv_name = name, sv_context = c, sv_value_type = t,
                   sv_value = JNull, sv_function = Some f, sv_target = target\<rparr>)
          else Inr \<lparr>sv_definition = did, sv_name = name, sv_context = c, sv_value_type = t,
                    sv_value = v, sv_function = None, sv_target = target\<rparr>)))))"

text \<open>The validators of \<open>ReadApi\<close> and \<open>WriteApi\<close>.\<close>

definition validate_request ::
  "field_types \<Rightarrow> http_request \<Rightarrow> json \<Rightarrow> json \<Rightarrow> json \<Rightarrow> json \<Rightarrow> http_request result" where
  "validate_request pyd r query headers path auth =
     rbind (coerce_http_kv_params pyd query) (\<lambda>q.
     rbind (coerce_http_kv_params pyd headers) (\<lambda>h.
     rbind (coerce_http_kv_params pyd path) (\<lambda>p.
     rbind (coerce_authorization pyd auth) (\<lambda>a.
     rbind (normalize_http_body_type (rq_body_type r)) (\<lambda>b.
       Inr (r\<lparr>rq_method := py_upper (py_strip (rq_method r)), rq_url := py_strip (rq_url r),
              rq_query := q, rq_headers := h, rq_path := p, rq_auth := a, rq_body_type := b\<rparr>))))))"

definition check_request :: "string list \<Rightarrow> string \<Rightarrow> string \<Rightarrow> http_request \<Rightarrow> unit result" where
  "check_request methods method_error url_error r =
     (if rq_method r \<notin> set methods then Inl (ValidationError method_error)
      else if rq_url r = [] then Inl (ValidationError url_error)
      else case rq_timeout r of
             None \<Rightarrow> Inr ()
           | Some t \<Rightarrow> require (0 < t) (ValidationError ''timeoutSeconds must be > 0.''))"

definition validate_read_api ::
  "field_types \<Rightarrow> http_request \<Rightarrow> json \<Rightarrow> json \<Rightarrow> json \<Rightarrow> json \<Rightarrow> http_request result" where
  "validate_read_api pyd r query headers path auth =
     rbind (validate_request pyd (r\<lparr>rq_method := or_text (rq_method r) ''GET''\<rparr>) query headers path auth)
       (\<lambda>r'. rbind (check_request [''GET''] ''readApi.method must be GET.''
               ''url is required for readApi.'' r') (\<lambda>_. Inr r'))"

definition validate_write_api ::
  "field_types \<Rightarrow> http_request \<Rightarrow> json \<Rightarrow> json \<Rightarrow> json \<Rightarrow> json \<Rightarrow> json \<Rightarrow>
    (http_request \<times> http_tree) result" where
  "validate_write_api pyd r query headers path auth body =
     rbind (validate_request pyd r query headers path auth) (\<lambda>r'.
     rbind (if rq_body_type r' = ''formUrlEncoded'' then coerce_http_form_body pyd body
            else coerce_http_tree pyd body) (\<lambda>b.
     rbind (check_request [''POST'', ''PUT'', ''PATCH'', ''DELETE'']
              ''writeApi.method must be one of: POST, PUT, PATCH, DELETE.''
              ''url is required for writeApi.'' r') (\<lambda>_.
       Inr (r', b))))"


text \<open>\<open>SendMessageTemplateConstantDto\<close> and \<open>SendMessageTemplateDto\<close>.\<close>

definition template_constant_kinds :: "string list" where
  "template_constant_kinds =
     [''string'', ''number'', ''date'', ''datetime'', ''boolean'', ''variable'', ''function'']"

definition validate_template_constant :: "string \<Rightarrow> string \<Rightarrow> json \<Rightarrow> template_constant result" where
  "validate_template_constant name kind v =
     (let n = py_strip name; k0 = py_lower (py_strip kind);
          k = (if k0 = ''str'' then ''string'' else if k0 = ''booleano'' then ''boolean'' else k0)
      in
      if n = [] then Inl (ValidationError ''messageTemplate.constants[].name is required.'')
      else if k \<notin> set template_constant_kinds then
        Inl (ValidationError ''messageTemplate.constants[].kind must be one of: string, number, date, datetime, boolean, variable, function.'')
      else if k = ''variable'' then
        (if token v = []
         then Inl (ValidationError ''messageTemplate.constants[].value is required for variable constants.'')
         else Inr \<lparr>tc_name = n, tc_kind = k, tc_value = JStr (token v)\<rparr>)
      else if k = ''function'' then
        (if py_lower (token v) \<notin> set supported_runtime_functions
         then Inl (ValidationError ''messageTemplate.constants[].value must be one of: now, today.'')
         else Inr \<lparr>tc_name = n, tc_kind = k, tc_value = JStr (py_lower (token v))\<rparr>)
      else Inr \<lparr>tc_name = n, tc_kind = k, tc_value = v\<rparr>)"

definition required :: "(json \<Rightarrow> 'a result) \<Rightarrow> json dict \<Rightarrow> string \<Rightarrow> 'a result" where
  "required f d k =
     (case dict_get d k of
        None \<Rightarrow> Inl (ValidationError ''Field required'') | Some v \<Rightarrow> f v)"

definition template_constant_of :: "field_types \<Rightarrow> json \<Rightarrow> template_constant result" where
  "template_constant_of pyd j =
     rbind (as_dict j) (\<lambda>d.
     rbind (required (as_str pyd) d ''name'') (\<lambda>n.
     rbind (required (as_str pyd) d ''kind'') (\<lambda>k.
       validate_template_constant n k (jget d ''value''))))"

definition add_token :: "string list \<Rightarrow> string \<Rightarrow> string list" where
  "add_token acc x =
     (if py_strip x \<noteq> [] \<and> py_strip x \<notin> set acc then acc @ [py_strip x] else acc)"

definition distinct_tokens :: "string list \<Rightarrow> string list" where
  "distinct_tokens xs = foldl add_token [] xs"

definition validate_message_template ::
  "string option \<Rightarrow> string list \<Rightarrow> template_constant list \<Rightarrow> message_template result" where
  "validate_message_template for_each names constants =
     (if distinct_tokens names = [] \<and> constants = []
      then Inl (ValidationError ''messageTemplate requires at least one field or constant.'')
      else Inr \<lparr>mt_for_each =
                  (let f = py_strip (text_of for_each) in if f = [] then None else Some f),
                mt_fields = distinct_tokens names, mt_constants = constants\<rparr>)"

definition list_field :: "(json \<Rightarrow> 'a result) \<Rightarrow> json dict \<Rightarrow> string \<Rightarrow> 'a list result" where
  "list_field f d k =
     (case dict_get d k of
        None \<Rightarrow> Inr [] | Some v \<Rightarrow> rbind (as_list v) (mapM f))"

definition message_template_field :: "field_types \<Rightarrow> json \<Rightarrow> message_template option result" where
  "message_template_field pyd =
     optional (\<lambda>j. rbind (as_dict j) (\<lambda>d.
       rbind (optional (as_str pyd) (jget d ''forEach'')) (\<lambda>fe.
       rbind (list_field (as_str pyd) d ''fields'') (\<lambda>fs.
       rbind (list_field (template_constant_of pyd) d ''constants'') (\<lambda>cs.
         validate_message_template fe fs cs)))))"

text \<open>The validators of the other classes.\<close>

definition need_input :: "string \<Rightarrow> input_ref option \<Rightarrow> input_ref result" where
  "need_input m r = (case r of None \<Rightarrow> Inl (ValidationError m) | Some x \<Rightarrow> Inr x)"

definition validate_mode :: "string \<Rightarrow> string result" where
  "validate_mode m =
     (let n = or_text (py_lower (replace_char (CHR ''_'') ''-'' (py_strip m))) ''append'' in
      if n \<in> set [''append'', ''drop-create'', ''insert-update''] then Inr n
      else Inl (ValidationError ''mode must be one of: append, drop-create, insert-update.''))"

definition validate_receive_queue :: "receive_queue \<Rightarrow> receive_queue result" where
  "validate_receive_queue r =
     (let q = py_strip (rv_queue r) in
      rbind (require (q \<noteq> []) (ValidationError ''queue_id is required for receiveQueue.'')) (\<lambda>_.
      rbind (require (0 < rv_max_messages r)
        (ValidationError ''max_messages must be greater than zero for receiveQueue.'')) (\<lambda>_.
      rbind (require (0 \<le> rv_retry r)
        (ValidationError ''retry must be greater than or equal to zero for receiveQueue.'')) (\<lambda>_.
      rbind (require (0 \<le> rv_wait r)
        (ValidationError ''wait_time_seconds must be greater than or equal to zero for receiveQueue.''))
        (\<lambda>_. Inr (r\<lparr>rv_queue := q, rv_target :=
           (case rv_target r of None \<Rightarrow> None | Some t \<Rightarrow> command_target_path t)\<rparr>))))))"

definition validate_query ::
  "string \<Rightarrow> string \<Rightarrow> string option \<Rightarrow> result_constant option \<Rightarrow> command result" where
  "validate_query connection query target result_constant =
     rbind (require (py_strip connection \<noteq> [])
       (ValidationError ''connection_id is required for queryDatabase.'')) (\<lambda>_.
     rbind (require (py_strip query \<noteq> [])
       (ValidationError ''query is required for queryDatabase.'')) (\<lambda>_.
       Inr (QueryDatabase (py_strip connection) (py_strip query)
         (case target of None \<Rightarrow> None | Some t \<Rightarrow> command_target_path t) result_constant)))"

definition check_assertion ::
  "string \<Rightarrow> json \<Rightarrow> input_ref option \<Rightarrow> string list \<Rightarrow> unit result" where
  "check_assertion code expected expected_ref keys =
     (if code \<in> set [''jsonArrayEquals'', ''jsonArrayContains''] then
        (if expected_ref = None
         then Inl (ValidationError ''expectedRef is required for jsonArray assert commands.'')
         else require (keys \<noteq> [])
           (ValidationError ''compare_keys is required for jsonArray assert commands.''))
      else if code = ''jsonContains'' then
        (if expected = JNull \<and> expected_ref = None
         then Inl (ValidationError ''expected or expectedRef is required for jsonContains.'')
         else require (keys \<noteq> []) (ValidationError ''compare_keys is required for jsonContains.''))
      else if code = ''jsonEquals'' then
        require (\<not> (expected = JNull \<and> expected_ref = None))
          (ValidationError ''expected or expectedRef is required for jsonEquals.'')
      else Inr ())"

text \<open>\<open>AssertConfigurationCommandDto.validate_configuration\<close>, on fields of their declared types.\<close>

definition validate_assert ::
  "string \<Rightarrow> string option \<Rightarrow> string \<Rightarrow> input_ref option \<Rightarrow> json \<Rightarrow> input_ref option \<Rightarrow>
    string list \<Rightarrow> json dict option \<Rightarrow> assertion result" where
  "validate_assert code message object_type actual expected expected_ref keys schema =
     rbind (require (code \<in> set assert_codes)
       (ValidationError ''Unsupported assert commandCode.'')) (\<lambda>_.
     rbind (need_input ''actualRef is required for assert commands.'' actual) (\<lambda>a.
     rbind (check_assertion code expected expected_ref keys) (\<lambda>_.
       Inr \<lparr>as_code = code, as_error_message = message,
            as_object_type = py_lower (normalize_path_token object_type), as_actual = a,
            as_expected = expected, as_expected_ref = expected_ref,
            as_compare_keys = (if keys = [] then None else Some keys), as_schema = schema\<rparr>)))"

definition assert_type_table :: "string dict" where
  "assert_type_table =
     [(''jsonEquals'', ''equals''), (''jsonEmpty'', ''empty''), (''jsonNotEmpty'', ''not-empty''),
      (''jsonContains'', ''contains''), (''jsonArrayEquals'', ''json-array-equals''),
      (''jsonArrayEmpty'', ''empty''), (''jsonArrayNotEmpty'', ''not-empty''),
      (''jsonArrayContains'', ''json-array-contains'')]"

definition assert_type :: "assertion \<Rightarrow> string result" where
  "assert_type a =
     (case dict_get assert_type_table (as_code a) of
        None \<Rightarrow> Inl (KeyError (as_code a)) | Some t \<Rightarrow> Inr t)"

section \<open>The conversion\<close>

definition json_or :: "json \<Rightarrow> json \<Rightarrow> json" where
  "json_or a b = (if json_truthy a then a else b)"

text \<open>Python's \<open>int\<close> on the value of a JSON field.\<close>

definition int_of_text :: "string \<Rightarrow> int result" where
  "int_of_text v =
     (let t = py_strip v; neg = starts_with ''-'' t;
          body = (if neg \<or> starts_with ''+'' t then drop 1 t else t);
          parts = split_on (CHR ''_'') body
      in if list_all (\<lambda>p. p \<noteq> [] \<and> list_all is_decimal p) parts
         then Inr ((if neg then -1 else 1) * int (digits_value (concat parts)))
         else Inl (ValueError (''invalid literal for int() with base 10: '' @ str_repr v)))"

fun py_int :: "json \<Rightarrow> int result" where
  "py_int (JInt n) = Inr n"
| "py_int (JBool b) = Inr (if b then 1 else 0)"
| "py_int (JFloat r _) = Inr (if r < 0 then - \<lfloor>- r\<rfloor> else \<lfloor>r\<rfloor>)"
| "py_int (JStr s) = int_of_text s"
| "py_int _ = Inl (TypeError ''int() argument must be a string, a bytes-like object or a real number'')"

definition opt_text :: "field_types \<Rightarrow> json dict \<Rightarrow> string list \<Rightarrow> string option result" where
  "opt_text pyd d ks = optional (as_str pyd) (first_non_empty d ks)"

definition result_field :: "field_types \<Rightarrow> json dict \<Rightarrow> result_constant option result" where
  "result_field pyd d =
     result_constant_field pyd (first_non_empty d [''resultConstant'', ''result_constant''])"

definition legacy_value_type :: "json dict \<Rightarrow> json" where
  "legacy_value_type d =
     (let v = first_non_empty d [''sourceType'', ''source_type''] in
      if token v \<in> set [''raw'', ''value''] then JStr ''value''
      else if token v = ''json'' then JStr ''json''
      else if token v = ''function'' then JStr ''function''
      else v)"

definition convert_set_variable :: "field_types \<Rightarrow> json dict \<Rightarrow> command result" where
  "convert_set_variable pyd d =
     rbind (opt_text pyd d [''definitionId'', ''definition_id'']) (\<lambda>did.
     rbind (opt_text pyd d [''name'', ''key'']) (\<lambda>name.
     rbind (opt_text pyd d [''context'', ''scope'']) (\<lambda>ctx.
     rbind (optional (as_str pyd)
       (json_or (first_non_empty d [''valueType'', ''value_type'']) (legacy_value_type d))) (\<lambda>vt.
     rbind (optional (as_str pyd)
       (json_or (first_non_empty d [''functionName'', ''function_name''])
                (first_non_empty d [''resolver'', ''function'']))) (\<lambda>fn.
     rbind (opt_text pyd d [''target'']) (\<lambda>target.
     rbind (opt_text pyd d [''key'']) (\<lambda>key.
     rbind (opt_text pyd d [''scope'']) (\<lambda>scope.
     rbind (validate_set_variable
       \<lparr>raw_definition = did, raw_name = name, raw_context = ctx, raw_value_type = vt,
        raw_source_type = None, raw_value = first_non_empty d [''value'', ''data''],
        raw_data = JNull, raw_function = fn, raw_resolver = None, raw_function_alias = None,
        raw_target = target, raw_key = key, raw_scope = scope\<rparr>) (\<lambda>sv.
       Inr (SetVariable sv))))))))))"

definition convert_delete_variable :: "field_types \<Rightarrow> json dict \<Rightarrow> command result" where
  "convert_delete_variable pyd d =
     rbind (runtime_ref_field pyd (first_non_empty d
       [''targetRuntimeValueRef'', ''target_runtime_value_ref'', ''targetConstantRef'',
        ''target_constant_ref''])) (\<lambda>r.
     case r of
       None \<Rightarrow> Inl (ValidationError ''targetRuntimeValueRef is required for deleteVariable.'')
     | Some did \<Rightarrow> Inr (DeleteVariable did))"

definition convert_sleep :: "field_types \<Rightarrow> json dict \<Rightarrow> command result" where
  "convert_sleep pyd d =
     rbind (py_int (json_or (first_non_empty d [''duration'']) (JInt 0))) (\<lambda>n. Inr (Sleep n))"

definition kv_field :: "json dict \<Rightarrow> string list \<Rightarrow> bool \<Rightarrow> json result" where
  "kv_field d ks list_ok =
     (let v = first_non_empty d ks in
      if v = JNull \<or> is_obj v \<or> list_ok \<and> is_list v then Inr v
      else Inl (ValidationError ''Input should be a valid dictionary''))"

definition request_fields ::
  "field_types \<Rightarrow> json dict \<Rightarrow> json \<Rightarrow>
    (http_request \<Rightarrow> json \<Rightarrow> json \<Rightarrow> json \<Rightarrow> json \<Rightarrow> 'a result) \<Rightarrow> 'a result" where
  "request_fields pyd d request_method k =
     rbind (as_str pyd request_method) (\<lambda>m.
     rbind (as_str pyd (first_non_empty d [''url''])) (\<lambda>url.
     rbind (kv_field d [''queryParams'', ''query_params''] True) (\<lambda>q.
     rbind (kv_field d [''headers''] False) (\<lambda>h.
     rbind (kv_field d [''pathParams'', ''path_params''] False) (\<lambda>p.
     rbind (kv_field d [''authorization''] False) (\<lambda>a.
     rbind (as_str pyd (json_or (first_non_empty d [''bodyType'', ''body_type'']) (JStr ''json''))) (\<lambda>b.
     rbind (as_number pyd (json_or (first_non_empty d [''timeoutSeconds'', ''timeout_seconds''])
       (JInt 30))) (\<lambda>t.
     rbind (result_field pyd d) (\<lambda>rc.
       k \<lparr>rq_method = m, rq_url = url, rq_query = None, rq_headers = None, rq_path = None,
          rq_auth = None, rq_body_type = b, rq_timeout = Some t, rq_result = rc\<rparr> q h p a)))))))))"

definition convert_read_api :: "field_types \<Rightarrow> json dict \<Rightarrow> command result" where
  "convert_read_api pyd d =
     request_fields pyd d (json_or (first_non_empty d [''method'']) (JStr ''GET''))
       (\<lambda>r q h p a. rbind (validate_read_api pyd r q h p a) (\<lambda>r'. Inr (ReadApi r')))"

definition convert_write_api :: "field_types \<Rightarrow> json dict \<Rightarrow> command result" where
  "convert_write_api pyd d =
     request_fields pyd d (first_non_empty d [''method''])
       (\<lambda>r q h p a. rbind (validate_write_api pyd r q h p a (first_non_empty d [''body'']))
          (\<lambda>rb. Inr (WriteApi (fst rb) (snd rb))))"

text \<open>
  The conversion passes the four spellings to the field \<open>inputRef\<close>, whose type asks for a
  \<open>kind\<close>; a legacy \<open>sourceConstantRef\<close> without one is refused before \<open>_coerce_input_ref\<close> runs.
\<close>

definition source_ref_field :: "field_types \<Rightarrow> json dict \<Rightarrow> input_ref option result" where
  "source_ref_field pyd d =
     input_ref_field pyd (first_non_empty d
       [''inputRef'', ''input_ref'', ''sourceConstantRef'', ''source_constant_ref''])"

definition convert_send_message :: "field_types \<Rightarrow> json dict \<Rightarrow> command result" where
  "convert_send_message pyd d =
     rbind (as_str pyd (first_non_empty d [''queue_id'', ''queueId''])) (\<lambda>q.
     rbind (source_ref_field pyd d) (\<lambda>r.
     rbind (message_template_field pyd
       (first_non_empty d [''message_template'', ''messageTemplate''])) (\<lambda>mt.
     rbind (opt_text pyd d [''template_id'', ''templateId'']) (\<lambda>_.
     rbind (kv_field d [''template_params'', ''templateParams''] False) (\<lambda>_.
     rbind (result_field pyd d) (\<lambda>rc.
     rbind (need_input ''inputRef is required for sendMessageQueue.'' r) (\<lambda>i.
       Inr (SendMessageQueue \<lparr>sm_queue = q, sm_input = i, sm_template = mt, sm_result = rc\<rparr>))))))))"

definition convert_save_table :: "field_types \<Rightarrow> json dict \<Rightarrow> command result" where
  "convert_save_table pyd d =
     rbind (as_str pyd (first_non_empty d [''table_name'', ''tableName''])) (\<lambda>t.
     rbind (source_ref_field pyd d) (\<lambda>r.
     rbind (result_field pyd d) (\<lambda>rc.
     rbind (need_input ''inputRef is required for saveTable.'' r) (\<lambda>i.
       Inr (SaveTable t i rc)))))"

definition convert_named ::
  "field_types \<Rightarrow> json dict \<Rightarrow> string list \<Rightarrow> (string \<Rightarrow> command) \<Rightarrow> command result" where
  "convert_named pyd d ks c = rbind (as_str pyd (first_non_empty d ks)) (\<lambda>t. Inr (c t))"

definition convert_export_dataset :: "field_types \<Rightarrow> json dict \<Rightarrow> command result" where
  "convert_export_dataset pyd d =
     rbind (opt_text pyd d [''connection_id'', ''connectionId'', ''dataset_id'', ''datasetId'']) (\<lambda>c.
     rbind (opt_text pyd d [''table_name'', ''tableName'']) (\<lambda>t.
     rbind (source_ref_field pyd d) (\<lambda>r.
     rbind (as_str pyd (json_or (first_non_empty d [''mode'', ''export_mode'', ''exportMode''])
       (JStr ''append''))) (\<lambda>m.
     rbind (opt_text pyd d [''dataset_description'', ''datasetDescription'']) (\<lambda>ds.
     rbind (opt_text pyd d [''dataset_id'', ''datasetId'']) (\<lambda>did.
     rbind (result_field pyd d) (\<lambda>rc.
     rbind (need_input ''inputRef is required for exportDataset.'' r) (\<lambda>i.
     rbind (validate_mode m) (\<lambda>mode.
       let keys = normalize_compare_keys (first_non_empty d [''mapping_keys'', ''mappingKeys'']) in
       Inr (ExportDataset \<lparr>ed_connection = c, ed_table = t, ed_input = i, ed_mode = mode,
              ed_keys = (if keys = [] then None else Some keys), ed_description = ds,
              ed_dataset = did, ed_result = rc\<rparr>))))))))))"

definition convert_run_suite :: "field_types \<Rightarrow> json dict \<Rightarrow> command result" where
  "convert_run_suite pyd d =
     rbind (as_str pyd (first_non_empty d [''suite_id'', ''suiteId''])) (\<lambda>s.
     rbind (as_list (json_or (first_non_empty d [''runtimeValueRefs'', ''runtime_value_refs'',
       ''constantRefs'', ''constant_refs'']) (JList []))) (\<lambda>xs.
     rbind (mapM (\<lambda>j. rbind (as_dict j) (\<lambda>r.
       rbind (required (as_str pyd) r ''definitionId'') validate_definition_id)) xs) (\<lambda>refs.
     rbind (result_field pyd d) (\<lambda>rc.
     rbind (require (py_strip s \<noteq> []) (ValidationError ''suite_id is required for runSuite.'')) (\<lambda>_.
       Inr (RunSuite (py_strip s) refs rc))))))"

definition convert_receive_queue :: "field_types \<Rightarrow> json dict \<Rightarrow> command result" where
  "convert_receive_queue pyd d =
     rbind (as_str pyd (first_non_empty d [''queue_id'', ''queueId''])) (\<lambda>q.
     rbind (as_int pyd (json_or (first_non_empty d [''max_messages'', ''maxMessages'']) (JInt 1))) (\<lambda>n.
     rbind (as_int pyd (json_or (first_non_empty d [''retry'']) (JInt 3))) (\<lambda>retry.
     rbind (as_int pyd (json_or (first_non_empty d [''wait_time_seconds'', ''waitTimeSeconds''])
       (JInt 1))) (\<lambda>w.
     rbind (opt_text pyd d [''target'']) (\<lambda>t.
     rbind (result_field pyd d) (\<lambda>rc.
     rbind (validate_receive_queue \<lparr>rv_queue = q, rv_max_messages = n, rv_retry = retry,
              rv_wait = w, rv_target = t, rv_result = rc\<rparr>) (\<lambda>r. Inr (ReceiveQueue r))))))))"

definition convert_query_database :: "field_types \<Rightarrow> json dict \<Rightarrow> command result" where
  "convert_query_database pyd d =
     rbind (as_str pyd (first_non_empty d [''connection_id'', ''connectionId''])) (\<lambda>c.
     rbind (as_str pyd (first_non_empty d [''query'', ''sql''])) (\<lambda>q.
     rbind (opt_text pyd d [''target'']) (\<lambda>t.
     rbind (result_field pyd d) (\<lambda>rc. validate_query c q t rc))))"

definition expected_ref_json :: "json dict \<Rightarrow> json" where
  "expected_ref_json d =
     (let array_id = first_non_empty d
            [''expected_json_array_id'', ''expectedJsonArrayId'', ''json_array_id''];
          r = first_non_empty d [''expectedRef'', ''expected_ref'']
      in if r = JNull \<and> json_truthy array_id
         then JObj [(''kind'', JStr ''source''), (''sourceCode'', array_id)] else r)"

definition convert_assert :: "field_types \<Rightarrow> string \<Rightarrow> json dict \<Rightarrow> command result" where
  "convert_assert pyd code d =
     rbind (opt_text pyd d [''error_message'', ''errorMessage'']) (\<lambda>msg.
     rbind (as_str pyd (json_or (first_non_empty d [''evaluated_object_type'',
       ''evaluetedObjectType'', ''evaluatedObjectType'']) (JStr ''json-data''))) (\<lambda>ot.
     rbind (input_ref_field pyd (first_non_empty d [''actualRef'', ''actual_ref'',
       ''actualConstantRef'', ''actual_constant_ref''])) (\<lambda>actual.
     rbind (input_ref_field pyd (expected_ref_json d)) (\<lambda>er.
     rbind (optional as_dict (first_non_empty d [''json_schema'', ''jsonSchema''])) (\<lambda>schema.
     rbind (validate_assert code msg ot actual (first_non_empty d [''expected'']) er
       (normalize_compare_keys (first_non_empty d [''compare_keys'', ''compareKeys''])) schema)
       (\<lambda>a. Inr (Assert a)))))))"

definition requested_code :: "json dict \<Rightarrow> string" where
  "requested_code d =
     (let c = normalize_command_code (first_non_empty d [''commandCode'', ''command_code'',
            ''operationType'', ''operation_type'', ''type'']) in
      if c = ''assert'' then derive_assert_command_code d else c)"

text \<open>The class of the code, its default type and its branch of the conversion.\<close>

definition conversion_table :: "field_types \<Rightarrow> (string \<times> string \<times> (json dict \<Rightarrow> command result)) list" where
  "conversion_table pyd =
     [(''setVariable'', ''context'', convert_set_variable pyd),
      (''deleteVariable'', ''context'', convert_delete_variable pyd),
      (''sleep'', ''action'', convert_sleep pyd),
      (''readApi'', ''action'', convert_read_api pyd),
      (''writeApi'', ''action'', convert_write_api pyd),
      (''sendMessageQueue'', ''action'', convert_send_message pyd),
      (''saveTable'', ''action'', convert_save_table pyd),
      (''dropTable'', ''action'', \<lambda>d. convert_named pyd d [''table_name'', ''tableName''] DropTable),
      (''cleanTable'', ''action'', \<lambda>d. convert_named pyd d [''table_name'', ''tableName''] CleanTable),
      (''exportDataset'', ''action'', convert_export_dataset pyd),
      (''dropDataset'', ''action'', \<lambda>d. convert_named pyd d [''dataset_id'', ''datasetId''] DropDataset),
      (''cleanDataset'', ''action'', \<lambda>d. convert_named pyd d [''dataset_id'', ''datasetId''] CleanDataset),
      (''runSuite'', ''action'', convert_run_suite pyd),
      (''receiveQueue'', ''action'', convert_receive_queue pyd),
      (''queryDatabase'', ''action'', convert_query_database pyd)]
     @ map (\<lambda>c. (c, ''assert'', convert_assert pyd c)) assert_codes"

definition convert_to_config_command_type :: "field_types \<Rightarrow> json dict \<Rightarrow> config result" where
  "convert_to_config_command_type pyd d =
     (let code = requested_code d;
          ctype = normalize_command_type (first_non_empty d [''commandType'', ''command_type''])
      in case map_of (conversion_table pyd) code of
           None \<Rightarrow> Inl (ValueError (''Unsupported command code: '' @ code))
         | Some (default_type, conv) \<Rightarrow>
             rbind (conv d) (\<lambda>c.
             rbind (validate_command_keys code (or_text ctype default_type)) (\<lambda>ct.
               Inr \<lparr>cfg_type = snd ct, cfg_command = c\<rparr>)))"

end
