(* ===== verification/CommandFacts.thy ===== *)
theory CommandFacts
  imports CommandConfig
begin

text \<open>
  What the configurations promise: the fields a converted command has, the facts of the
  normalisers they rest on, and the properties of the conversion.
\<close>

section \<open>Coercion of fields\<close>

text \<open>
  What is relied on of pydantic: text fields take text as it is and nothing else, integer fields
  take integers as they are, number fields take integers as they are.
\<close>

definition field_types_ok :: "field_types \<Rightarrow> bool" where
  "field_types_ok pyd \<longleftrightarrow>
     (\<forall>s. as_str pyd (JStr s) = Inr s) \<and>
     (\<forall>j. \<not> is_str j \<longrightarrow> (\<exists>e. as_str pyd j = Inl e)) \<and>
     (\<forall>n. as_int pyd (JInt n) = Inr n) \<and>
     (\<forall>n. as_number pyd (JInt n) = Inr (of_int n))"

text \<open>A concrete instance.\<close>

fun strict_str :: "json \<Rightarrow> string result" where
  "strict_str (JStr s) = Inr s"
| "strict_str _ = Inl (ValidationError ''Input should be a valid string'')"

fun strict_int :: "json \<Rightarrow> int result" where
  "strict_int (JInt n) = Inr n"
| "strict_int _ = Inl (ValidationError ''Input should be a valid integer'')"

fun strict_number :: "json \<Rightarrow> rat result" where
  "strict_number (JInt n) = Inr (of_int n)"
| "strict_number (JFloat q _) = Inr q"
| "strict_number _ = Inl (ValidationError ''Input should be a valid number'')"

definition strict_types :: field_types where
  "strict_types = \<lparr>as_str = strict_str, as_int = strict_int, as_number = strict_number\<rparr>"

lemma not_str_strict: "\<not> is_str j \<Longrightarrow> \<exists>e. strict_str j = Inl e"
  by (cases j) auto

lemma strict_types_ok [simp]: "field_types_ok strict_types"
  by (simp add: field_types_ok_def strict_types_def not_str_strict)

lemma as_str_JStr [simp]: "field_types_ok pyd \<Longrightarrow> as_str pyd (JStr s) = Inr s"
  by (simp add: field_types_ok_def)

lemma as_str_not_str: "field_types_ok pyd \<Longrightarrow> \<not> is_str j \<Longrightarrow> \<exists>e. as_str pyd j = Inl e"
  by (simp add: field_types_ok_def)

lemma as_str_InrD:
  assumes "field_types_ok pyd" and "as_str pyd j = Inr s"
  shows "j = JStr s"
proof (cases j)
  case (JStr t)
  with assms show ?thesis by simp
qed (use assms as_str_not_str [of pyd j] in auto)

lemma optional_simps [simp]:
  "optional f JNull = Inr None"
  "optional f (JStr s) = rbind (f (JStr s)) (\<lambda>x. Inr (Some x))"
  "optional f (JObj d) = rbind (f (JObj d)) (\<lambda>x. Inr (Some x))"
  by (simp_all add: optional_def)

section \<open>Lookup of fields\<close>

lemma jget_dict_set: "jget (dict_set k v d) k' = (if k' = k then v else jget d k')"
  by (simp add: jget_def)

lemma jget_Cons: "jget ((k, v) # d) k' = (if k' = k then v else jget d k')"
  by (simp add: jget_def dict_get_Cons)

lemma jget_Nil [simp]: "jget [] k = JNull"
  by (simp add: jget_def)

lemma first_non_empty_cong:
  "(\<And>k. k \<in> set ks \<Longrightarrow> jget d k = jget e k) \<Longrightarrow> first_non_empty d ks = first_non_empty e ks"
  by (induction ks) (auto simp: first_non_empty.simps split: json.splits)

lemma first_non_empty_dict_set:
  "k \<notin> set ks \<Longrightarrow> first_non_empty (dict_set k v d) ks = first_non_empty d ks"
  by (rule first_non_empty_cong) (auto simp: jget_dict_set)

lemma first_non_empty_hit:
  "jget d k = JStr s \<Longrightarrow> py_strip s \<noteq> [] \<Longrightarrow> first_non_empty d (k # ks) = JStr s"
  by (simp add: first_non_empty.simps)

section \<open>Values of HTTP commands\<close>

definition trimmed :: "string \<Rightarrow> bool" where
  "trimmed s \<longleftrightarrow> s \<noteq> [] \<and> py_strip s = s"

lemma trimmed_strip [simp]: "trimmed (py_strip s) \<longleftrightarrow> py_strip s \<noteq> []"
  by (simp add: trimmed_def)

fun http_node_ok :: "http_node \<Rightarrow> bool" where
  "http_node_ok (Literal v) = True"
| "http_node_ok (RuntimeNode d p) = (trimmed d \<and> (case p of None \<Rightarrow> True | Some f \<Rightarrow> trimmed f))"
| "http_node_ok (SourceNode c) = trimmed c"
| "http_node_ok (BuiltInNode r) = (r \<in> set supported_runtime_functions)"

fun http_tree_ok :: "http_tree \<Rightarrow> bool" where
  "http_tree_ok HNone = True"
| "http_tree_ok (HNode n) = http_node_ok n"
| "http_tree_ok (HObj d) = (\<forall>kv \<in> set d. http_tree_ok (snd kv))"
| "http_tree_ok (HList ts) = (\<forall>t \<in> set ts. http_tree_ok t)"

lemma validate_http_node_ok: "validate_http_node k v d p c r = Inr n \<Longrightarrow> http_node_ok n"
  by (auto simp: validate_http_node_def Let_def split: if_splits)

lemma http_node_of_ok: "http_node_of pyd d = Inr n \<Longrightarrow> http_node_ok n"
  by (auto simp: http_node_of_def result_simps dest: validate_http_node_ok)

lemma coerce_to_http_node_ok: "coerce_to_http_node pyd v = Inr n \<Longrightarrow> http_node_ok n"
  by (auto simp: coerce_to_http_node_def split: if_splits dest: http_node_of_ok)

lemma coerce_http_tree_ok: "coerce_http_tree pyd v = Inr t \<Longrightarrow> http_tree_ok t"
proof (induction v arbitrary: t)
  case (JList xs)
  then obtain ts where ts: "mapM (coerce_http_tree pyd) xs = Inr ts" and t: "t = HList ts"
    by (auto simp: result_simps)
  from JList.IH mapM_Inr_set [OF ts] show ?case by (fastforce simp: t)
next
  case (JObj d)
  show ?case
  proof (cases "is_http_node (JObj d)")
    case True
    with JObj.prems show ?thesis by (auto simp: result_simps dest: http_node_of_ok)
  next
    case False
    with JObj.prems obtain d' where
      d': "mapM (\<lambda>kv. rbind (coerce_http_tree pyd (snd kv)) (\<lambda>t. Inr (fst kv, t))) d = Inr d'"
      and t: "t = HObj d'"
      by (auto simp: result_simps)
    have "http_tree_ok (snd kv)" if "kv \<in> set d'" for kv
      using mapM_Inr_set [OF d' that] JObj.IH by (auto simp: result_simps)
    then show ?thesis by (simp add: t)
  qed
qed auto

lemma http_kinds_text:
  "http_node_kinds = [''literal'', ''runtimeValue'', ''source'', ''builtIn'']"
  by (fact http_node_kinds_def)

lemma bracketed_token:
  assumes "s = c # t @ [e]" and "\<not> is_space c" and "\<not> is_space e"
  shows "py_strip s = s"
  using assms by (simp add: py_strip_ident_iff)

lemma token_obj_not_kind: "token (JObj d) \<notin> set http_node_kinds"
proof -
  have "py_strip (json_repr (JObj d)) = json_repr (JObj d)"
    by (rule bracketed_token [OF json_repr.simps(7) [unfolded append.simps]])
       (simp_all add: is_space_def py_spaces_def)
  then show ?thesis
    by (simp add: token_def str_or_empty_def http_kinds_text)
qed

lemma token_list_not_kind: "token (JList xs) \<notin> set http_node_kinds"
proof -
  have "py_strip (json_repr (JList xs)) = json_repr (JList xs)"
    by (rule bracketed_token [OF json_repr.simps(6) [unfolded append.simps]])
       (simp_all add: is_space_def py_spaces_def)
  then show ?thesis
    by (simp add: token_def str_or_empty_def http_kinds_text)
qed

lemma serialize_not_kind: "token (serialize_http_tree t) \<notin> set http_node_kinds"
proof (cases t)
  case HNone
  then show ?thesis by (simp add: token_def http_kinds_text)
next
  case (HNode n)
  then show ?thesis by (cases n) (simp_all del: token_def add: token_obj_not_kind)
qed (simp_all add: token_obj_not_kind token_list_not_kind)

lemma serialized_object_no_node:
  "\<not> is_http_node (JObj (map (\<lambda>kv. (fst kv, serialize_http_tree (snd kv))) d))"
proof (induction d)
  case Nil
  show ?case by (simp add: is_http_node_def token_def http_kinds_text)
next
  case (Cons kv d)
  then show ?case
    using serialize_not_kind [of "snd kv"] by (auto simp: is_http_node_def jget_Cons)
qed

lemma strip_kinds:
  "py_strip ''literal'' = ''literal''" "py_strip ''runtimeValue'' = ''runtimeValue''"
  "py_strip ''source'' = ''source''" "py_strip ''builtIn'' = ''builtIn''"
  "py_strip ''now'' = ''now''" "py_strip ''today'' = ''today''"
  by (simp_all add: py_strip_def py_lstrip_def is_space_def py_spaces_def)

lemma trimmed_simps: "trimmed s \<Longrightarrow> py_strip s = s" "trimmed s \<Longrightarrow> s \<noteq> []"
  by (simp_all add: trimmed_def)

lemmas http_node_eval = first_non_empty.simps is_http_node_def jget_Cons token_def http_kinds_text http_node_of_def
  validate_http_node_def text_of_def strip_kinds trimmed_simps supported_runtime_functions_def

lemma serialize_node_coerced:
  assumes "field_types_ok pyd" and "http_node_ok n"
  shows "coerce_http_tree pyd (serialize_http_node n) = Inr (HNode n)"
proof (cases n)
  case (RuntimeNode d p)
  with assms show ?thesis by (cases p) (simp_all add: http_node_eval)
next
  case (BuiltInNode r)
  with assms have "r = ''now'' \<or> r = ''today''" by (simp add: supported_runtime_functions_def)
  with assms BuiltInNode show ?thesis by (elim disjE) (simp_all add: http_node_eval)
qed (use assms in \<open>simp_all add: http_node_eval\<close>)

lemma mapM_all_Inr: "(\<And>x. x \<in> set xs \<Longrightarrow> f (g x) = Inr x) \<Longrightarrow> mapM f (map g xs) = Inr xs"
  by (induction xs) auto

lemma serialize_tree_coerced:
  assumes "field_types_ok pyd"
  shows "http_tree_ok t \<Longrightarrow> coerce_http_tree pyd (serialize_http_tree t) = Inr t"
proof (induction t)
  case (HNode n)
  with assms show ?case by (simp add: serialize_node_coerced)
next
  case (HObj d)
  have "mapM (\<lambda>kv. rbind (coerce_http_tree pyd (snd kv)) (\<lambda>t. Inr (fst kv, t)))
      (map (\<lambda>kv. (fst kv, serialize_http_tree (snd kv))) d) = Inr d"
  proof (rule mapM_all_Inr)
    fix kv assume "kv \<in> set d"
    moreover from this and HObj.prems have "http_tree_ok (snd kv)" by simp
    ultimately have "coerce_http_tree pyd (serialize_http_tree (snd kv)) = Inr (snd kv)"
      using HObj.IH [of kv "snd kv"] by (simp add: snds.intros)
    then show "rbind (coerce_http_tree pyd (snd (fst kv, serialize_http_tree (snd kv))))
      (\<lambda>t. Inr (fst (fst kv, serialize_http_tree (snd kv)), t)) = Inr kv" by simp
  qed
  then show ?case by (simp add: serialized_object_no_node)
next
  case (HList ts)
  have "mapM (coerce_http_tree pyd) (map serialize_http_tree ts) = Inr ts"
    by (rule mapM_all_Inr) (use HList in auto)
  then show ?case by simp
qed simp

section \<open>Well-formed configurations\<close>

text \<open>What the validators leave, class by class.\<close>

definition set_variable_ok :: "set_variable \<Rightarrow> bool" where
  "set_variable_ok s \<longleftrightarrow>
     trimmed (sv_definition s) \<and> trimmed (sv_name s) \<and> sv_context s \<in> set constant_contexts \<and>
     (if sv_value_type s = ''function''
      then sv_value s = JNull \<and> (\<exists>f \<in> set supported_runtime_functions. sv_function s = Some f)
      else sv_value_type s \<in> set [''value'', ''json'', ''jsonArray'', ''dataset''] \<and>
           sv_function s = None)"

definition request_ok :: "string list \<Rightarrow> http_request \<Rightarrow> bool" where
  "request_ok methods r \<longleftrightarrow>
     rq_method r \<in> set methods \<and> trimmed (rq_url r) \<and>
     rq_body_type r \<in> set [''json'', ''text'', ''formUrlEncoded''] \<and>
     (case rq_timeout r of None \<Rightarrow> True | Some t \<Rightarrow> 0 < t)"

fun scalar_form :: "http_tree \<Rightarrow> bool" where
  "scalar_form HNone = True"
| "scalar_form (HObj d) =
     (\<forall>kv \<in> set d. trimmed (fst kv) \<and>
        (case snd kv of
           HNode (Literal v) \<Rightarrow> \<not> is_obj v \<and> \<not> is_list v
         | HNode (SourceNode _) \<Rightarrow> False
         | HNode _ \<Rightarrow> True
         | _ \<Rightarrow> False))"
| "scalar_form _ = False"

fun input_ref_ok :: "input_ref \<Rightarrow> bool" where
  "input_ref_ok (RuntimeValue d) = trimmed d"
| "input_ref_ok (Source c) = trimmed c"

definition message_template_ok :: "message_template \<Rightarrow> bool" where
  "message_template_ok m \<longleftrightarrow>
     distinct (mt_fields m) \<and> (\<forall>f \<in> set (mt_fields m). trimmed f) \<and>
     (mt_fields m \<noteq> [] \<or> mt_constants m \<noteq> [])"

definition assertion_ok :: "assertion \<Rightarrow> bool" where
  "assertion_ok a \<longleftrightarrow>
     as_code a \<in> set assert_codes \<and> input_ref_ok (as_actual a) \<and>
     (as_code a \<in> set [''jsonArrayEquals'', ''jsonArrayContains''] \<longrightarrow>
        as_expected_ref a \<noteq> None \<and> as_compare_keys a \<noteq> None) \<and>
     (as_code a = ''jsonContains'' \<longrightarrow>
        (as_expected a \<noteq> JNull \<or> as_expected_ref a \<noteq> None) \<and> as_compare_keys a \<noteq> None) \<and>
     (as_code a = ''jsonEquals'' \<longrightarrow> as_expected a \<noteq> JNull \<or> as_expected_ref a \<noteq> None)"

definition export_modes :: "string list" where
  "export_modes = [''append'', ''drop-create'', ''insert-update'']"

fun command_ok :: "command \<Rightarrow> bool" where
  "command_ok (SetVariable s) = set_variable_ok s"
| "command_ok (DeleteVariable d) = trimmed d"
| "command_ok (Sleep n) = True"
| "command_ok (ReadApi r) = request_ok [''GET''] r"
| "command_ok (WriteApi r b) =
     (request_ok [''POST'', ''PUT'', ''PATCH'', ''DELETE''] r \<and>
      (rq_body_type r = ''formUrlEncoded'' \<longrightarrow> scalar_form b))"
| "command_ok (SendMessageQueue m) =
     (input_ref_ok (sm_input m) \<and>
      (case sm_template m of None \<Rightarrow> True | Some t \<Rightarrow> message_template_ok t))"
| "command_ok (SaveTable t i r) = input_ref_ok i"
| "command_ok (ExportDataset e) = (input_ref_ok (ed_input e) \<and> ed_mode e \<in> set export_modes)"
| "command_ok (RunSuite s refs r) = (trimmed s \<and> (\<forall>d \<in> set refs. trimmed d))"
| "command_ok (ReceiveQueue r) =
     (trimmed (rv_queue r) \<and> 0 < rv_max_messages r \<and> 0 \<le> rv_retry r \<and> 0 \<le> rv_wait r)"
| "command_ok (QueryDatabase c q t r) = (trimmed c \<and> trimmed q)"
| "command_ok (Assert a) = assertion_ok a"
| "command_ok _ = True"

text \<open>Each branch of the conversion.\<close>

lemma validate_set_variable_ok: "validate_set_variable r = Inr s \<Longrightarrow> set_variable_ok s"
  by (auto simp: validate_set_variable_def set_variable_ok_def normalize_context_def
        set_variable_function_def normalize_value_type_def result_simps Let_def split: if_splits)

lemma input_ref_field_ok: "input_ref_field pyd j = Inr (Some r) \<Longrightarrow> input_ref_ok r"
  by (auto simp: input_ref_field_def optional_def validate_input_ref_def result_simps Let_def
        split: if_splits option.splits)

lemma request_fields_Inr:
  assumes "request_fields pyd d m k = Inr c"
  shows "\<exists>r q h p a. k r q h p a = Inr c"
  using assms unfolding request_fields_def rbind_Inr_iff by blast

lemma http_body_alias_values:
  "dict_get http_body_aliases k = Some t \<Longrightarrow> t \<in> set [''json'', ''text'', ''formUrlEncoded'']"
  by (auto simp: http_body_aliases_def dict_get_Cons split: if_splits)

lemma normalize_http_body_type_ok:
  "normalize_http_body_type v = Inr t \<Longrightarrow> t \<in> set [''json'', ''text'', ''formUrlEncoded'']"
  by (auto simp: normalize_http_body_type_def Let_def
        split: if_splits option.splits dest: http_body_alias_values)

lemma validate_request_Inr:
  assumes "validate_request pyd r q h p a = Inr r'"
  shows "rq_timeout r' = rq_timeout r" and "py_strip (rq_url r') = rq_url r'"
    and "rq_body_type r' \<in> set [''json'', ''text'', ''formUrlEncoded'']"
  using assms by (auto simp: validate_request_def result_simps dest: normalize_http_body_type_ok)

lemma check_request_Inr:
  "check_request ms m u r = Inr x \<Longrightarrow>
    rq_method r \<in> set ms \<and> rq_url r \<noteq> [] \<and> (case rq_timeout r of None \<Rightarrow> True | Some t \<Rightarrow> 0 < t)"
  by (auto simp: check_request_def result_simps split: if_splits option.splits)

lemma checked_request_ok:
  "validate_request pyd r q h p a = Inr r' \<Longrightarrow> check_request ms m u r' = Inr x \<Longrightarrow> request_ok ms r'"
  using validate_request_Inr [of pyd r q h p a r'] check_request_Inr [of ms m u r' x]
  by (simp add: request_ok_def trimmed_def)

lemma validate_read_api_ok:
  "validate_read_api pyd r q h p a = Inr r' \<Longrightarrow> request_ok [''GET''] r'"
  by (auto simp: validate_read_api_def result_simps intro: checked_request_ok)

lemma http_form_node_scalar:
  "http_form_node k n = Inr n' \<Longrightarrow>
    case n' of Literal v \<Rightarrow> \<not> is_obj v \<and> \<not> is_list v | SourceNode _ \<Rightarrow> False | _ \<Rightarrow> True"
  by (auto simp: http_form_node_def split: http_node.splits if_splits)

lemma scalar_form_dict_set:
  assumes "scalar_form (HObj d)" and "trimmed k"
    and "case n of Literal v \<Rightarrow> \<not> is_obj v \<and> \<not> is_list v | SourceNode _ \<Rightarrow> False | _ \<Rightarrow> True"
  shows "scalar_form (HObj (dict_set k (HNode n) d))"
  using assms set_dict_set [of k "HNode n" d]
  by (fastforce split: http_node.splits http_tree.splits)

interpretation form_loop: guarded_step "form_step pyd" "\<lambda>d. scalar_form (HObj d)" for pyd
proof
  fix d d' kv
  assume d: "scalar_form (HObj d)" and step: "form_step pyd d kv = Inr d'"
  from step obtain n n' where "py_strip (fst kv) \<noteq> []"
    and n': "http_form_node (py_strip (fst kv)) n = Inr n'"
    and d': "d' = dict_set (py_strip (fst kv)) (HNode n') d"
    by (auto simp: form_step_def Let_def result_simps split: if_splits)
  with scalar_form_dict_set [OF d _ http_form_node_scalar [OF n'], of "py_strip (fst kv)"]
  show "scalar_form (HObj d')" by simp
qed


lemma coerce_http_form_body_ok: "coerce_http_form_body pyd v = Inr b \<Longrightarrow> scalar_form b"
  by (cases v) (auto simp: coerce_http_form_body_def result_simps dest: form_loop.foldM_good [rotated])

lemma validate_write_api_ok:
  assumes "validate_write_api pyd r q h p a j = Inr (r', b)"
  shows "command_ok (WriteApi r' b)"
  using assms
  by (auto simp: validate_write_api_def result_simps split: if_splits
        intro: checked_request_ok coerce_http_form_body_ok)

lemma add_token_ok:
  "distinct acc \<and> (\<forall>f \<in> set acc. trimmed f) \<Longrightarrow>
    distinct (add_token acc x) \<and> (\<forall>f \<in> set (add_token acc x). trimmed f)"
  by (auto simp: add_token_def)

lemma foldl_add_token_ok:
  "distinct acc \<and> (\<forall>f \<in> set acc. trimmed f) \<Longrightarrow>
    distinct (foldl add_token acc xs) \<and> (\<forall>f \<in> set (foldl add_token acc xs). trimmed f)"
proof (induction xs arbitrary: acc)
  case (Cons x xs)
  from Cons.IH [OF add_token_ok [OF Cons.prems]] show ?case by simp
qed simp

lemma distinct_tokens_ok: "distinct (distinct_tokens xs)" "\<forall>f \<in> set (distinct_tokens xs). trimmed f"
  using foldl_add_token_ok [of "[]" xs] by (simp_all add: distinct_tokens_def)

lemma message_template_field_ok:
  "message_template_field pyd j = Inr (Some m) \<Longrightarrow> message_template_ok m"
  by (auto simp: message_template_field_def optional_def result_simps validate_message_template_def
        message_template_ok_def distinct_tokens_ok split: if_splits)

lemma check_assertion_Inr:
  "check_assertion code expected er keys = Inr x \<Longrightarrow>
    (code \<in> set [''jsonArrayEquals'', ''jsonArrayContains''] \<longrightarrow> er \<noteq> None \<and> keys \<noteq> []) \<and>
    (code = ''jsonContains'' \<longrightarrow> (expected \<noteq> JNull \<or> er \<noteq> None) \<and> keys \<noteq> []) \<and>
    (code = ''jsonEquals'' \<longrightarrow> expected \<noteq> JNull \<or> er \<noteq> None)"
  by (auto simp: check_assertion_def result_simps split: if_splits)

lemma validate_assert_ok:
  assumes "validate_assert code m ot actual expected er keys schema = Inr a"
    and "\<And>r. actual = Some r \<Longrightarrow> input_ref_ok r"
  shows "assertion_ok a" "as_code a = code"
proof -
  from assms(1) obtain r where code: "code \<in> set assert_codes" and r: "actual = Some r"
    and check: "check_assertion code expected er keys = Inr ()"
    and a: "a = \<lparr>as_code = code, as_error_message = m,
      as_object_type = py_lower (normalize_path_token ot), as_actual = r, as_expected = expected,
      as_expected_ref = er, as_compare_keys = (if keys = [] then None else Some keys),
      as_schema = schema\<rparr>"
    by (auto simp: validate_assert_def need_input_def result_simps split: option.splits)
  from check_assertion_Inr [OF check] code assms(2) [OF r] show "assertion_ok a"
    by (auto simp: a assertion_ok_def)
  show "as_code a = code" by (simp add: a)
qed

lemma need_input_Inr: "need_input m r = Inr i \<longleftrightarrow> r = Some i"
  by (auto simp: need_input_def split: option.splits)

lemma source_ref_field_ok: "source_ref_field pyd d = Inr (Some i) \<Longrightarrow> input_ref_ok i"
  by (auto simp: source_ref_field_def dest: input_ref_field_ok)

lemma runtime_ref_field_ok: "runtime_ref_field pyd j = Inr (Some d) \<Longrightarrow> trimmed d"
  by (auto simp: runtime_ref_field_def optional_def validate_definition_id_def result_simps Let_def
        split: if_splits option.splits)

lemma validate_definition_id_ok: "validate_definition_id v = Inr d \<Longrightarrow> trimmed d"
  by (auto simp: validate_definition_id_def Let_def split: if_splits)

lemma ref_list_ok:
  assumes "mapM (\<lambda>j. rbind (as_dict j) (\<lambda>r.
    rbind (required (as_str pyd) r ''definitionId'') validate_definition_id)) xs = Inr refs"
  shows "\<forall>d \<in> set refs. trimmed d"
proof
  fix d assume "d \<in> set refs"
  from mapM_Inr_set [OF assms this] show "trimmed d"
    by (auto simp: result_simps dest: validate_definition_id_ok)
qed

lemma convert_run_suite_ok:
  assumes "convert_run_suite pyd d = Inr c"
  shows "command_ok c \<and> command_code c = ''runSuite''"
proof -
  from assms obtain s xs refs rc where refs: "mapM (\<lambda>j. rbind (as_dict j) (\<lambda>r.
      rbind (required (as_str pyd) r ''definitionId'') validate_definition_id)) xs = Inr refs"
    and "py_strip s \<noteq> []" and "c = RunSuite (py_strip s) refs rc"
    unfolding convert_run_suite_def rbind_Inr_iff require_iff by blast
  with ref_list_ok [OF refs] show ?thesis by simp
qed

lemma convert_assert_ok:
  assumes "convert_assert pyd code d = Inr c"
  shows "command_ok c \<and> command_code c = code"
proof -
  from assms obtain msg ot actual er schema keys expected j a where
    actual: "input_ref_field pyd j = Inr actual"
    and a: "validate_assert code msg ot actual expected er keys schema = Inr a"
    and c: "c = Assert a"
    unfolding convert_assert_def rbind_Inr_iff by blast
  from actual have "\<And>r. actual = Some r \<Longrightarrow> input_ref_ok r"
    by (blast intro: input_ref_field_ok)
  from validate_assert_ok [OF a this] show ?thesis by (simp add: c)
qed

lemma convert_requests_ok:
  "convert_read_api pyd d = Inr c \<Longrightarrow> command_ok c \<and> command_code c = ''readApi''"
  "convert_write_api pyd d = Inr c \<Longrightarrow> command_ok c \<and> command_code c = ''writeApi''"
proof -
  assume "convert_read_api pyd d = Inr c"
  then obtain r q h p a r' where "validate_read_api pyd r q h p a = Inr r'" and "c = ReadApi r'"
    unfolding convert_read_api_def by (auto dest!: request_fields_Inr simp: rbind_Inr_iff)
  with validate_read_api_ok [of pyd r q h p a r'] show "command_ok c \<and> command_code c = ''readApi''"
    by simp
next
  assume "convert_write_api pyd d = Inr c"
  then obtain r q h p a j r' b where "validate_write_api pyd r q h p a j = Inr (r', b)"
    and "c = WriteApi r' b"
    unfolding convert_write_api_def by (auto dest!: request_fields_Inr simp: rbind_Inr_iff)
  with validate_write_api_ok [of pyd r q h p a j r' b]
  show "command_ok c \<and> command_code c = ''writeApi''" by simp
qed

lemma convert_context_ok:
  "convert_set_variable pyd d = Inr c \<Longrightarrow> command_ok c \<and> command_code c = ''setVariable''"
  "convert_delete_variable pyd d = Inr c \<Longrightarrow> command_ok c \<and> command_code c = ''deleteVariable''"
  "convert_sleep pyd d = Inr c \<Longrightarrow> command_ok c \<and> command_code c = ''sleep''"
subgoal by (auto simp: convert_set_variable_def result_simps dest: validate_set_variable_ok)
subgoal by (auto simp: convert_delete_variable_def result_simps split: option.splits)
  (rule runtime_ref_field_ok)
subgoal by (auto simp: convert_sleep_def result_simps)
done

lemma convert_export_dataset_ok:
  assumes "convert_export_dataset pyd d = Inr c"
  shows "command_ok c \<and> command_code c = ''exportDataset''"
proof -
  from assms obtain e r m where "source_ref_field pyd d = Inr r" and "r = Some (ed_input e)"
    and "validate_mode m = Inr (ed_mode e)" and "c = ExportDataset e"
    unfolding convert_export_dataset_def rbind_Inr_iff need_input_Inr Let_def by fastforce
  then show ?thesis
    by (auto simp: validate_mode_def export_modes_def Let_def dest: source_ref_field_ok split: if_splits)
qed

lemma convert_actions_ok:
  "convert_send_message pyd d = Inr c \<Longrightarrow> command_ok c \<and> command_code c = ''sendMessageQueue''"
  "convert_save_table pyd d = Inr c \<Longrightarrow> command_ok c \<and> command_code c = ''saveTable''"
  "convert_receive_queue pyd d = Inr c \<Longrightarrow> command_ok c \<and> command_code c = ''receiveQueue''"
  "convert_query_database pyd d = Inr c \<Longrightarrow> command_ok c \<and> command_code c = ''queryDatabase''"
  "convert_named pyd d ks k = Inr c \<Longrightarrow> \<exists>t. c = k t"
subgoal by (auto simp: convert_send_message_def result_simps need_input_Inr split: option.splits
  dest: message_template_field_ok source_ref_field_ok)
subgoal by (auto simp: convert_save_table_def result_simps need_input_Inr dest: source_ref_field_ok)
subgoal by (auto simp: convert_receive_queue_def validate_receive_queue_def result_simps Let_def)
subgoal by (auto simp: convert_query_database_def validate_query_def result_simps trimmed_def)
subgoal by (auto simp: convert_named_def result_simps)
done

end
