(* ===== verification/CommandProps.thy ===== *)
theory CommandProps
  imports CommandFacts
begin

text \<open>The properties of the conversion of command configurations, each with a witness.\<close>

lemma conversion_table_ok:
  assumes "map_of (conversion_table pyd) code = Some (t, conv)" and "conv d = Inr c"
  shows "command_ok c \<and> command_code c = code"
proof -
  have "\<forall>(k, t', f) \<in> set (conversion_table pyd). \<forall>d c. f d = Inr c \<longrightarrow>
      command_ok c \<and> command_code c = k"
    unfolding conversion_table_def
    by (auto simp: convert_run_suite_ok convert_assert_ok convert_requests_ok convert_context_ok
          convert_export_dataset_ok convert_actions_ok(1-4) dest!: convert_actions_ok(5))
  with map_of_SomeD [OF assms(1)] assms(2) show ?thesis by blast
qed

text \<open>C13. A configuration that \<open>convert_to_config_command_type\<close> returns is well formed, whatever the
  input: its command is the one the code asks for, its type is context, action or assert, its
  names and references are non-empty trimmed text, enumerated fields have one of their values,
  numbers are in range, and an assertion has what its kind compares.
\<close>

theorem converted_config_valid:
  assumes "convert_to_config_command_type pyd d = Inr c"
  shows "command_ok (cfg_command c) \<and> command_code (cfg_command c) = requested_code d \<and>
    cfg_type c \<in> set command_types"
proof -
  from assms obtain t conv cmd ty k' where
    entry: "map_of (conversion_table pyd) (requested_code d) = Some (t, conv)"
    and cmd: "conv d = Inr cmd" "cfg_command c = cmd"
    and keys: "validate_command_keys (requested_code d) ty = Inr (k', cfg_type c)"
    unfolding convert_to_config_command_type_def Let_def
    by (auto simp: rbind_Inr_iff split: option.splits)
  from keys have "cfg_type c \<in> set command_types"
    by (auto simp: validate_command_keys_def Let_def split: if_splits)
  with conversion_table_ok [OF entry cmd(1)] show ?thesis by (simp add: cmd(2))
qed

lemma convert_code:
  assumes "convert_to_config_command_type pyd d = Inr c"
  shows "command_code (cfg_command c) = requested_code d"
  using assms conversion_table_ok [of pyd "requested_code d"]
  by (auto simp: convert_to_config_command_type_def Let_def rbind_Inr_iff split: option.splits)

definition sample_contains :: "json dict" where
  "sample_contains =
     [(''operationType'', JStr ''assert''), (''assertType'', JStr ''json_array_equals''),
      (''actualRef'', JObj [(''kind'', JStr ''runtimeValue''), (''definitionId'', JStr '' rows '')]),
      (''json_array_id'', JStr ''expected-rows''), (''compareKeys'', JStr ''id; name'')]"

theorem converted_config_valid_witness:
  "\<exists>c. convert_to_config_command_type strict_types sample_contains = Inr c \<and>
     command_ok (cfg_command c) \<and> command_code (cfg_command c) = ''jsonArrayEquals'' \<and>
     cfg_command c = Assert \<lparr>as_code = ''jsonArrayEquals'', as_error_message = None,
       as_object_type = ''json-data'', as_actual = RuntimeValue ''rows'', as_expected = JNull,
       as_expected_ref = Some (Source ''expected-rows''),
       as_compare_keys = Some [''id'', ''name''], as_schema = None\<rparr>"
proof -
  have run: "convert_to_config_command_type strict_types sample_contains =
    Inr \<lparr>cfg_type = ''assert'', cfg_command = Assert \<lparr>as_code = ''jsonArrayEquals'',
      as_error_message = None, as_object_type = ''json-data'', as_actual = RuntimeValue ''rows'',
      as_expected = JNull, as_expected_ref = Some (Source ''expected-rows''),
      as_compare_keys = Some [''id'', ''name''], as_schema = None\<rparr>\<rparr>"
    by code_simp
  have "requested_code sample_contains = ''jsonArrayEquals''" by code_simp
  with converted_config_valid [OF run] run show ?thesis by simp
qed

lemma conversion_ignores_code:
  assumes "map_of (conversion_table pyd) code = Some (t, conv)"
  shows "conv (dict_set ''commandCode'' x d) = conv d"
proof -
  have "\<forall>(k, t', f) \<in> set (conversion_table pyd). f (dict_set ''commandCode'' x d) = f d"
    unfolding conversion_table_def
    by (simp add: first_non_empty_dict_set convert_set_variable_def convert_delete_variable_def
          convert_sleep_def convert_read_api_def convert_write_api_def convert_send_message_def
          convert_save_table_def convert_named_def convert_export_dataset_def convert_run_suite_def
          convert_receive_queue_def convert_query_database_def convert_assert_def
          request_fields_def source_ref_field_def opt_text_def result_field_def kv_field_def
          legacy_value_type_def expected_ref_json_def)
  with map_of_SomeD [OF assms] show ?thesis by blast
qed

lemma legacy_code_table:
  "\<forall>(old, new) \<in> set legacy_command_codes. normalize_command_code (JStr old) = new \<and>
     normalize_command_code (JStr new) = new \<and> new \<noteq> ''assert'' \<and>
     py_strip old \<noteq> [] \<and> py_strip new \<noteq> []"
  by code_simp

text \<open>The codes of the former operations are equivalent to the commands that replaced them: an
  object that names a legacy code is converted to the same configuration, or refused with the same
  error, as the one that names the current code.
\<close>

theorem legacy_codes_equivalent:
  assumes "(old, new) \<in> set legacy_command_codes"
  shows "convert_to_config_command_type pyd (dict_set ''commandCode'' (JStr old) d) =
    convert_to_config_command_type pyd (dict_set ''commandCode'' (JStr new) d)"
proof -
  from bspec [OF legacy_code_table assms] have table: "normalize_command_code (JStr old) = new"
    "normalize_command_code (JStr new) = new" "new \<noteq> ''assert''" "py_strip old \<noteq> []" "py_strip new \<noteq> []"
    by simp_all
  have code: "requested_code (dict_set ''commandCode'' (JStr k) d) = new" if "k = old \<or> k = new" for k
    using that
    by (elim disjE) (simp_all add: requested_code_def first_non_empty_hit jget_dict_set table)
  show ?thesis
    by (simp add: convert_to_config_command_type_def Let_def code first_non_empty_dict_set
          conversion_ignores_code split: option.splits)
qed

definition sample_publish :: "json dict" where
  "sample_publish = [(''queueId'', JStr ''orders''),
     (''inputRef'', JObj [(''kind'', JStr ''source''), (''sourceCode'', JStr ''rows'')])]"

theorem legacy_codes_equivalent_witness:
  "\<exists>c. convert_to_config_command_type strict_types
     (dict_set ''commandCode'' (JStr ''publish'') sample_publish) = Inr c \<and>
   convert_to_config_command_type strict_types
     (dict_set ''commandCode'' (JStr ''sendMessageQueue'') sample_publish) = Inr c"
proof -
  have "(''publish'', ''sendMessageQueue'') \<in> set legacy_command_codes"
    by (simp add: legacy_command_codes_def)
  from legacy_codes_equivalent [OF this, of strict_types sample_publish]
  have "convert_to_config_command_type strict_types
      (dict_set ''commandCode'' (JStr ''publish'') sample_publish) =
    convert_to_config_command_type strict_types
      (dict_set ''commandCode'' (JStr ''sendMessageQueue'') sample_publish)" .
  moreover have "convert_to_config_command_type strict_types
      (dict_set ''commandCode'' (JStr ''sendMessageQueue'') sample_publish) =
    Inr \<lparr>cfg_type = ''action'', cfg_command = SendMessageQueue \<lparr>sm_queue = ''orders'',
      sm_input = Source ''rows'', sm_template = None, sm_result = None\<rparr>\<rparr>"
    by code_simp
  ultimately show ?thesis by simp
qed

text \<open>The legacy spelling of the input of a command does not survive the conversion: where the
  only reference is a \<open>sourceConstantRef\<close> without a \<open>kind\<close>, which \<open>_coerce_input_ref\<close> would take
  for a runtime value, every command that reads an input is refused.
\<close>

theorem legacy_source_ref_rejected:
  assumes "requested_code d \<in> {''sendMessageQueue'', ''saveTable'', ''exportDataset''}"
    and "first_non_empty d [''inputRef'', ''input_ref''] = JNull"
    and "jget d ''sourceConstantRef'' = JObj r" and "dict_get r ''kind'' = None"
  shows "\<exists>e. convert_to_config_command_type pyd d = Inl e"
proof -
  have "first_non_empty d [''inputRef'', ''input_ref'', ''sourceConstantRef'', ''source_constant_ref'']
      = JObj r"
    using assms(2,3) by (auto simp: first_non_empty.simps split: json.splits if_splits)
  then have source: "source_ref_field pyd d = Inl (ValidationError ''Field required'')"
    using assms(4) by (simp add: source_ref_field_def input_ref_field_def)
  have "\<exists>e. conv d = Inl e" if "map_of (conversion_table pyd) (requested_code d) = Some (t, conv)" for t conv
    using assms(1) that
    by (auto simp: conversion_table_def convert_send_message_def convert_save_table_def source
          convert_export_dataset_def rbind_def split: sum.splits)
  then show ?thesis
    by (auto simp: convert_to_config_command_type_def Let_def split: option.splits)
qed

definition sample_legacy_save :: "json dict" where
  "sample_legacy_save = [(''commandCode'', JStr ''save-internal-db''), (''table_name'', JStr ''orders''),
     (''sourceConstantRef'', JObj [(''definitionId'', JStr ''rows'')])]"

theorem legacy_source_ref_rejected_witness:
  "\<exists>e. convert_to_config_command_type strict_types sample_legacy_save = Inl e"
proof (rule legacy_source_ref_rejected [where r = "[(''definitionId'', JStr ''rows'')]"])
  have "requested_code sample_legacy_save = ''saveTable''" by code_simp
  then show "requested_code sample_legacy_save \<in> {''sendMessageQueue'', ''saveTable'', ''exportDataset''}"
    by simp
qed (simp_all add: sample_legacy_save_def first_non_empty.simps jget_Cons dict_get_Cons)

text \<open>An explicit zero in a \<open>receiveQueue\<close> command does not reach the validator: the conversion
  reads it as a missing value, so no retries become three, no wait becomes one second, and a
  request for no message becomes one for one message instead of being refused.
\<close>

theorem explicit_zero_replaced:
  assumes "field_types_ok pyd" and "convert_to_config_command_type pyd d = Inr c"
    and "cfg_command c = ReceiveQueue r"
  shows "(first_non_empty d [''retry''] = JInt 0 \<longrightarrow> rv_retry r = 3) \<and>
    (first_non_empty d [''wait_time_seconds'', ''waitTimeSeconds''] = JInt 0 \<longrightarrow> rv_wait r = 1) \<and>
    (first_non_empty d [''max_messages'', ''maxMessages''] = JInt 0 \<longrightarrow> rv_max_messages r = 1)"
proof -
  from assms(2,3) have code: "requested_code d = ''receiveQueue''"
    using conversion_table_ok
    by (fastforce simp: convert_to_config_command_type_def Let_def rbind_Inr_iff split: option.splits)
  then have "convert_receive_queue pyd d = Inr (ReceiveQueue r)"
    using assms(2,3)
    by (auto simp: convert_to_config_command_type_def Let_def rbind_Inr_iff conversion_table_def
        split: option.splits)
  with assms(1) show ?thesis
    by (auto simp: convert_receive_queue_def validate_receive_queue_def result_simps Let_def
          json_or_def field_types_ok_def)
qed

definition sample_receive :: "json dict" where
  "sample_receive = [(''type'', JStr ''receiveQueue''), (''queueId'', JStr ''orders''),
     (''retry'', JInt 0), (''waitTimeSeconds'', JInt 0), (''max_messages'', JInt 5)]"

theorem explicit_zero_replaced_witness:
  "\<exists>r. convert_to_config_command_type strict_types sample_receive =
     Inr \<lparr>cfg_type = ''action'', cfg_command = ReceiveQueue r\<rparr> \<and>
     rv_retry r = 3 \<and> rv_wait r = 1 \<and> rv_max_messages r = 5"
proof -
  have run: "convert_to_config_command_type strict_types sample_receive =
    Inr \<lparr>cfg_type = ''action'', cfg_command = ReceiveQueue \<lparr>rv_queue = ''orders'',
      rv_max_messages = 5, rv_retry = 3, rv_wait = 1, rv_target = None, rv_result = None\<rparr>\<rparr>"
    by code_simp
  with explicit_zero_replaced [OF strict_types_ok run] show ?thesis
    by (simp add: sample_receive_def first_non_empty.simps jget_Cons)
qed

text \<open>The values of HTTP commands survive storage: what the coercion makes of a JSON body, a
  header or a parameter is what it makes of the JSON form \<open>_serialize_http_input_node\<close> writes for
  it, and coercion and serialisation are inverse on everything the coercion returns.
\<close>

theorem http_tree_roundtrip:
  assumes "field_types_ok pyd" and "coerce_http_tree pyd v = Inr t"
  shows "coerce_http_tree pyd (serialize_http_tree t) = Inr t"
  using serialize_tree_coerced [OF assms(1) coerce_http_tree_ok [OF assms(2)]] .

definition sample_body :: json where
  "sample_body = JObj [(''id'', JInt 7), (''who'', JObj [(''kind'', JStr '' runtimeValue ''),
     (''definition_id'', JStr ''user ''), (''fieldPath'', JStr '' '')]), (''tags'', JList [JNull, JStr ''a''])]"

theorem http_tree_roundtrip_witness:
  "\<exists>t. coerce_http_tree strict_types sample_body = Inr t \<and>
     coerce_http_tree strict_types (serialize_http_tree t) = Inr t"
proof -
  have "coerce_http_tree strict_types sample_body =
    Inr (HObj [(''id'', HNode (Literal (JInt 7))), (''who'', HNode (RuntimeNode ''user'' None)),
      (''tags'', HList [HNone, HNode (Literal (JStr ''a''))])])"
    by code_simp
  with http_tree_roundtrip [OF strict_types_ok this] show ?thesis by blast
qed

end
