(* ===== verification/Policy.thy ===== *)
theory Policy
  imports CommandFacts RunContext
begin

text \<open>
  Where a command may run and what it may write: the contracts of the commands
  (\<open>operations/command_contract_registry.py\<close>), the execution scope of the current item
  (\<open>operations/command_scope.py\<close>) and the policy that checks a configuration against both
  (\<open>operations/command_policy_validator.py\<close>).
\<close>

section \<open>Contracts\<close>

record contract =
  ct_family :: string
  ct_name :: string
  ct_scopes :: "string list"
  ct_reads :: "string list"
  ct_writes :: "string list"
  ct_produces_result :: bool
  ct_side_effects :: bool
  ct_async :: bool
  ct_failure_mode :: string

definition hook_scopes :: "string list" where
  "hook_scopes = [''hook.beforeAll'', ''hook.beforeEach'', ''hook.afterEach'', ''hook.afterAll'']"

definition hook_and_test_scopes :: "string list" where
  "hook_and_test_scopes = ''test'' # hook_scopes"

definition context_contracts :: "contract list" where
  "context_contracts =
     [\<lparr>ct_family = ''context'', ct_name = ''setVariable'',
       ct_scopes = hook_and_test_scopes @ [''mock.preResponse''],
       ct_reads = [''runEnvelope'', ''global'', ''local''],
       ct_writes = [''runEnvelope'', ''global'', ''local'', ''result''],
       ct_produces_result = True,
       ct_side_effects = False, ct_async = False, ct_failure_mode = ''fail-fast''\<rparr>,
      \<lparr>ct_family = ''context'', ct_name = ''deleteVariable'', ct_scopes = hook_and_test_scopes,
       ct_reads = [''runEnvelope'', ''global'', ''local''],
       ct_writes = [''global'', ''local'', ''result''],
       ct_produces_result = True,
       ct_side_effects = False, ct_async = False, ct_failure_mode = ''fail-fast''\<rparr>,
      \<lparr>ct_family = ''action'', ct_name = ''sleep'', ct_scopes = hook_and_test_scopes,
       ct_reads = [''local''], ct_writes = [''result''], ct_produces_result = True,
       ct_side_effects = False, ct_async = False, ct_failure_mode = ''fail-fast''\<rparr>]"

definition action_contract :: "string list \<Rightarrow> string \<Rightarrow> contract" where
  "action_contract reads name =
     \<lparr>ct_family = ''action'', ct_name = name, ct_scopes = hook_and_test_scopes @ [''mock.postResponse''],
      ct_reads = reads, ct_writes = [''result''], ct_produces_result = True,
       ct_side_effects = True, ct_async = True, ct_failure_mode = ''fail-fast''\<rparr>"

definition reading_contract :: "string \<Rightarrow> contract" where
  "reading_contract name =
     \<lparr>ct_family = ''action'', ct_name = name, ct_scopes = hook_and_test_scopes @ [''mock.postResponse''],
      ct_reads = [''runEnvelope'', ''global'', ''local''],
      ct_writes = [''runEnvelope'', ''local'', ''result''], ct_produces_result = True,
       ct_side_effects = False, ct_async = False, ct_failure_mode = ''fail-fast''\<rparr>"

definition action_contracts :: "contract list" where
  "action_contracts =
     map (action_contract [''runEnvelope'', ''global'', ''local''])
       [''readApi'', ''writeApi'', ''sendMessageQueue'', ''saveTable'']
     @ map (action_contract []) [''dropTable'', ''cleanTable'']
     @ [action_contract [''runEnvelope'', ''global'', ''local''] ''exportDataset'']
     @ map (action_contract []) [''dropDataset'', ''cleanDataset'']
     @ [action_contract [''runEnvelope'', ''global'', ''local''] ''runSuite'']
     @ map reading_contract [''receiveQueue'', ''queryDatabase'']"

definition assert_contracts :: "contract list" where
  "assert_contracts =
     map (\<lambda>name. \<lparr>ct_family = ''assert'', ct_name = name, ct_scopes = [''test'', ''mock.preResponse''],
       ct_reads = [''runEnvelope'', ''global'', ''local'', ''result''], ct_writes = [''result''],
       ct_produces_result = True,
       ct_side_effects = False, ct_async = False, ct_failure_mode = ''fail-fast''\<rparr>) assert_codes"

definition contracts :: "(string \<times> contract) list" where
  "contracts = map (\<lambda>c. (ct_name c, c)) (context_contracts @ action_contracts @ assert_contracts)"

definition get_operation_contract :: "string \<Rightarrow> contract option" where
  "get_operation_contract name = map_of contracts (py_strip name)"

section \<open>Execution scope\<close>

definition hook_phase_scopes :: "string dict" where
  "hook_phase_scopes = [(''before-all'', ''hook.beforeAll''), (''before-each'', ''hook.beforeEach''),
     (''after-each'', ''hook.afterEach''), (''after-all'', ''hook.afterAll'')]"

definition normalize_scope :: "string option \<Rightarrow> string option" where
  "normalize_scope s = (let t = py_strip (text_of s) in if t = [] then None else Some t)"

definition resolve_execution_scope :: "string option \<Rightarrow> run_context option \<Rightarrow> string option" where
  "resolve_execution_scope explicit rc =
     (case normalize_scope explicit of
        Some s \<Rightarrow> Some s
      | None \<Rightarrow>
          (case rc of
             None \<Rightarrow> None
           | Some c \<Rightarrow>
               (let kind = py_lower (py_strip (current_item_kind c)) in
                if kind = ''test'' then Some ''test''
                else if kind = ''hook''
                     then dict_get hook_phase_scopes (py_lower (py_strip (text_of (current_hook_phase c))))
                else None)))"

section \<open>The policy\<close>

fun result_constant_of :: "command \<Rightarrow> result_constant option" where
  "result_constant_of (ReadApi r) = rq_result r"
| "result_constant_of (WriteApi r _) = rq_result r"
| "result_constant_of (SendMessageQueue m) = sm_result m"
| "result_constant_of (SaveTable _ _ r) = r"
| "result_constant_of (ExportDataset e) = ed_result e"
| "result_constant_of (RunSuite _ _ r) = r"
| "result_constant_of (ReceiveQueue r) = rv_result r"
| "result_constant_of (QueryDatabase _ _ _ r) = r"
| "result_constant_of _ = None"

fun target_of :: "command \<Rightarrow> string option" where
  "target_of (SetVariable s) = sv_target s"
| "target_of (ReceiveQueue r) = rv_target r"
| "target_of (QueryDatabase _ _ t _) = t"
| "target_of _ = None"

definition constant_path :: "string \<Rightarrow> string \<Rightarrow> string" where
  "constant_path scope name = ''$.'' @ scope @ ''.constants.'' @ name"

fun declared_paths :: "command \<Rightarrow> string list" where
  "declared_paths (SetVariable s) =
     (if py_strip (sv_context s) \<noteq> [] \<and> py_strip (sv_name s) \<noteq> []
      then [constant_path (sv_context s) (sv_name s)] else [])"
| "declared_paths _ = []"

definition collect_target_paths :: "command \<Rightarrow> string list" where
  "collect_target_paths c =
     (if py_strip (text_of (target_of c)) \<noteq> [] then [text_of (target_of c)] else [])
     @ declared_paths c
     @ (case result_constant_of c of
          None \<Rightarrow> []
        | Some r \<Rightarrow> if rc_name r \<noteq> [] then [constant_path ''result'' (rc_name r)] else [])"

definition validate_scope_rules :: "contract \<Rightarrow> string option \<Rightarrow> unit result" where
  "validate_scope_rules ct scope =
     (case scope of
        None \<Rightarrow> Inr ()
      | Some s \<Rightarrow>
          if s = [] then Inr ()
          else if s \<notin> set (ct_scopes ct) then
            Inl (ValueError (''Operation '' @ quoted (ct_name ct) @ '' is not allowed in scope '' @ quoted s @ ''.''))
          else if s = ''mock.preResponse'' \<and> ct_side_effects ct then
            Inl (ValueError (''Operation '' @ quoted (ct_name ct) @
              '' has side effects and cannot run in mock.preResponse.''))
          else if s = ''mock.preResponse'' \<and> ct_async ct then
            Inl (ValueError (''Operation '' @ quoted (ct_name ct) @
              '' is async-enabled and cannot run in mock.preResponse.''))
          else Inr ())"

definition check_target_root :: "string option \<Rightarrow> string \<Rightarrow> unit result" where
  "check_target_root scope target =
     rbind (extract_context_root target) (\<lambda>r.
       case r of
         None \<Rightarrow> Inl (ValueError (''Unsupported target path '' @ quoted target @
           ''. Use $.runEnvelope, $.global, $.local or $.result.''))
       | Some root_name \<Rightarrow>
           if scope = Some ''test'' \<and> root_name = ''global'' then
             Inl (ValueError ''Global context is immutable during test execution.'')
           else if scope = Some ''test'' \<and> root_name = ''runEnvelope'' then
             Inl (ValueError ''RunEnvelope context is immutable during test execution.'')
           else Inr ())"

definition validate_target_roots :: "string list \<Rightarrow> string option \<Rightarrow> unit result" where
  "validate_target_roots targets scope = foldM (\<lambda>_ t. check_target_root scope t) () targets"

definition validate_operation_policy :: "command \<Rightarrow> string option \<Rightarrow> contract result" where
  "validate_operation_policy c scope =
     (let code = py_strip (command_code c) in
      case get_operation_contract code of
        None \<Rightarrow> Inl (ValueError (''No command contract found for commandCode '' @ quoted code @ ''.''))
      | Some ct \<Rightarrow>
          rbind (validate_scope_rules ct scope) (\<lambda>_.
          rbind (validate_target_roots (collect_target_paths c) scope) (\<lambda>_. Inr ct)))"

end
