(* ===== verification/PolicyProps.thy ===== *)
theory PolicyProps
  imports Policy CommandProps RunContextProps
begin

text \<open>What the policy decides for the commands the conversion makes.\<close>

section \<open>The contracts\<close>

lemma contract_names: "(n, ct) \<in> set contracts \<Longrightarrow> ct_name ct = n"
  by (auto simp: contracts_def)

lemma get_operation_contract_name: "get_operation_contract n = Some ct \<Longrightarrow> ct_name ct = py_strip n"
  by (auto simp: get_operation_contract_def dest!: map_of_SomeD contract_names)

lemma pre_response_contracts:
  "\<forall>(n, ct) \<in> set contracts. ''mock.preResponse'' \<in> set (ct_scopes ct) \<longrightarrow>
     \<not> ct_side_effects ct \<and> \<not> ct_async ct"
  by code_simp

lemma contract_of_pre_response:
  assumes "get_operation_contract n = Some ct" and "''mock.preResponse'' \<in> set (ct_scopes ct)"
  shows "\<not> ct_side_effects ct \<and> \<not> ct_async ct"
  using assms map_of_SomeD [of contracts "py_strip n" ct]
    bspec [OF pre_response_contracts, of "(py_strip n, ct)"]
  by (simp add: get_operation_contract_def)

lemma known_codes_have_contracts:
  "\<forall>(n, t, f) \<in> set (conversion_table pyd). py_strip n = n \<and> map_of contracts n \<noteq> None"
  unfolding conversion_table_def assert_codes_def contracts_def context_contracts_def
    action_contracts_def assert_contracts_def action_contract_def reading_contract_def
  by (simp add: py_strip_def py_lstrip_def is_space_def py_spaces_def)

lemma converted_contract:
  assumes "convert_to_config_command_type pyd d = Inr c"
  shows "\<exists>ct. get_operation_contract (command_code (cfg_command c)) = Some ct \<and>
    py_strip (command_code (cfg_command c)) = command_code (cfg_command c)"
proof -
  from assms obtain t conv cmd where
    entry: "map_of (conversion_table pyd) (requested_code d) = Some (t, conv)"
    and cmd: "conv d = Inr cmd" "cfg_command c = cmd"
    unfolding convert_to_config_command_type_def Let_def
    by (auto simp: rbind_Inr_iff split: option.splits)
  from conversion_table_ok [OF entry cmd(1)]
  have "command_code (cfg_command c) = requested_code d" by (simp add: cmd(2))
  with bspec [OF known_codes_have_contracts map_of_SomeD [OF entry]] show ?thesis
    by (auto simp: get_operation_contract_def)
qed

section \<open>Targets\<close>

lemma foldM_unit_iff: "foldM (\<lambda>_ x. f x) () xs = Inr () \<longleftrightarrow> (\<forall>x \<in> set xs. f x = Inr ())"
  by (induction xs) (auto simp: rbind_Inr_iff)

lemma check_target_root_iff:
  "check_target_root scope t = Inr () \<longleftrightarrow>
     (\<exists>r. extract_context_root t = Inr (Some r) \<and>
        (scope = Some ''test'' \<longrightarrow> r \<noteq> ''global'' \<and> r \<noteq> ''runEnvelope''))"
  by (auto simp: check_target_root_def rbind_Inr_iff split: option.splits)

lemma validate_target_roots_iff:
  "validate_target_roots ts scope = Inr () \<longleftrightarrow> (\<forall>t \<in> set ts. check_target_root scope t = Inr ())"
  unfolding validate_target_roots_def by (rule foldM_unit_iff)

lemma validate_scope_rules_iff:
  assumes "get_operation_contract n = Some ct" and "s \<noteq> []"
  shows "validate_scope_rules ct (Some s) = Inr () \<longleftrightarrow> s \<in> set (ct_scopes ct)"
  using assms contract_of_pre_response [OF assms(1)] by (auto simp: validate_scope_rules_def)

text \<open>C14. The policy is total on converted commands and decides by the contract alone: every command
  has the contract of its code, and it is accepted in a scope exactly when the contract lists the
  scope and every path it writes starts at a scope that, in a test, the run context itself would
  let it write. The checks on side effects before a mock response never decide.
\<close>

theorem policy_decides:
  assumes "convert_to_config_command_type pyd d = Inr c" and "s \<noteq> []"
    and "current_item_kind rc = ''test'' \<longleftrightarrow> s = ''test''"
  shows "\<exists>ct. get_operation_contract (command_code (cfg_command c)) = Some ct \<and>
    ct_name ct = command_code (cfg_command c) \<and>
    (validate_operation_policy (cfg_command c) (Some s) = Inr ct \<longleftrightarrow>
       s \<in> set (ct_scopes ct) \<and>
       (\<forall>t \<in> set (collect_target_paths (cfg_command c)).
          \<exists>r. extract_context_root t = Inr (Some r) \<and> immutable_in_test rc r = Inr ()))"
proof -
  from converted_contract [OF assms(1)] obtain ct where
    ct: "get_operation_contract (command_code (cfg_command c)) = Some ct"
    and code: "py_strip (command_code (cfg_command c)) = command_code (cfg_command c)"
    by blast
  have root_iff: "check_target_root (Some s) t = Inr () \<longleftrightarrow>
      (\<exists>r. extract_context_root t = Inr (Some r) \<and> immutable_in_test rc r = Inr ())" for t
    using assms(3) by (auto simp: check_target_root_iff immutable_in_test_def)
  have "validate_operation_policy (cfg_command c) (Some s) = Inr ct \<longleftrightarrow>
      validate_scope_rules ct (Some s) = Inr () \<and>
      validate_target_roots (collect_target_paths (cfg_command c)) (Some s) = Inr ()"
    by (auto simp: validate_operation_policy_def Let_def code ct rbind_Inr_iff)
  then show ?thesis
    using ct get_operation_contract_name [OF ct]
    by (simp add: code validate_scope_rules_iff [OF ct assms(2)] validate_target_roots_iff root_iff)
qed

definition sample_set :: "json dict" where
  "sample_set = [(''commandCode'', JStr ''setVariable''), (''definitionId'', JStr ''d1''),
     (''name'', JStr ''x''), (''context'', JStr ''global''), (''value'', JInt 1)]"

definition test_context :: run_context where
  "test_context = sample_context\<lparr>current_item_kind := ''test''\<rparr>"

theorem policy_decides_witness:
  "\<exists>c ct. convert_to_config_command_type strict_types sample_set = Inr c \<and>
     get_operation_contract ''setVariable'' = Some ct \<and> ''test'' \<in> set (ct_scopes ct) \<and>
     validate_operation_policy (cfg_command c) (Some ''test'') \<noteq> Inr ct"
proof -
  let ?c = "\<lparr>cfg_type = ''context'', cfg_command = SetVariable \<lparr>sv_definition = ''d1'', sv_name = ''x'',
    sv_context = ''global'', sv_value_type = ''value'', sv_value = JInt 1, sv_function = None,
    sv_target = None\<rparr>\<rparr>"
  have run: "convert_to_config_command_type strict_types sample_set = Inr ?c" by code_simp
  have kind: "current_item_kind test_context = ''test'' \<longleftrightarrow> ''test'' = ''test''"
    by (simp add: test_context_def)
  from policy_decides [OF run _ kind] obtain ct where
    ct: "get_operation_contract ''setVariable'' = Some ct" and "validate_operation_policy (cfg_command ?c) (Some ''test'') = Inr ct \<longleftrightarrow>
       ''test'' \<in> set (ct_scopes ct) \<and>
       (\<forall>t \<in> set (collect_target_paths (cfg_command ?c)).
          \<exists>r. extract_context_root t = Inr (Some r) \<and> immutable_in_test test_context r = Inr ())"
    by auto
  moreover have "collect_target_paths (cfg_command ?c) = [''$.global.constants.x'']" by code_simp
  moreover have "extract_context_root ''$.global.constants.x'' = Inr (Some ''global'')" by code_simp
  moreover have "''test'' \<in> set (ct_scopes (the (get_operation_contract ''setVariable'')))" by code_simp
  ultimately show ?thesis
    using run by (auto simp: immutable_in_test_def test_context_def)
qed

end
