(* ===== verification/SuiteItems.thy ===== *)
theory SuiteItems
  imports Policy
begin

text \<open>
  The items of a test suite and the sources each of them sees
  (\<open>app/elaborations/models/dtos/test_suite_dto.py\<close> and
  \<open>app/elaborations/services/suite_source_registry.py\<close>).

  An item is what the executor and the validators read of a \<open>CreateSuiteItemDto\<close> or a
  \<open>SuiteItemEntity\<close>: the fields below, its sources as JSON objects and its commands with the JSON
  form of their configurations.
\<close>

record suite_command =
  sc_id :: json
  sc_order :: int
  sc_cfg :: "json dict"

record suite_item =
  it_id :: string
  it_kind :: string
  it_phase :: "string option"
  it_description :: string
  it_on_failure :: string
  it_sources :: "json list"
  it_commands :: "suite_command list"

section \<open>\<open>CreateSuiteItemDto.validate_item\<close>\<close>

definition item_kinds :: "string list" where
  "item_kinds = [''test'', ''hook'']"

definition hook_phases :: "string list" where
  "hook_phases = [''before-all'', ''before-each'', ''after-each'', ''after-all'']"

definition item_roles :: "string list" where
  "item_roles = [''setup'', ''test'', ''teardown'']"

definition normalize_on_failure :: "string option \<Rightarrow> string" where
  "normalize_on_failure v =
     (let t = or_text (py_upper (py_strip (text_of v))) ''ABORT'' in
      if t \<in> set [''ABORT'', ''CONTINUE''] then t else ''ABORT'')"

definition resolve_role :: "string option \<Rightarrow> string \<Rightarrow> string option \<Rightarrow> string result" where
  "resolve_role role kind phase =
     (let explicit = py_lower (py_strip (text_of role)) in
      if explicit \<noteq> [] then
        (if explicit \<in> set item_roles then Inr explicit
         else Inl (ValidationError (''Unsupported suite item role: '' @ text_of role)))
      else if kind = ''hook'' then
        (if phase \<in> set [Some ''before-all'', Some ''before-each''] then Inr ''setup''
         else if phase \<in> set [Some ''after-each'', Some ''after-all''] then Inr ''teardown''
         else Inr ''test'')
      else Inr ''test'')"

definition source_code :: "json dict \<Rightarrow> string" where
  "source_code s = token (jget s ''sourceCode'')"

definition add_unique_code :: "string list \<Rightarrow> json dict \<Rightarrow> string list result" where
  "add_unique_code codes s =
     (if source_code s \<in> set codes
      then Inl (ValidationError (''Duplicate sourceCode '' @ quoted (source_code s) @ '' in suite item.''))
      else Inr (source_code s # codes))"

definition template_kinds :: "string list" where
  "template_kinds = [''custom'', ''send_verify'', ''mock_assert'']"

definition normalize_template_kind :: "string \<Rightarrow> string result" where
  "normalize_template_kind v =
     (let t = or_text (py_lower (py_strip v)) ''custom'' in
      if t \<in> set template_kinds then Inr t
      else Inl (ValidationError (''Unsupported template kind: '' @ v)))"

definition validate_data_driven :: "bool \<Rightarrow> string option \<Rightarrow> string option result" where
  "validate_data_driven data_driven dataset_id =
     (let d = py_strip (text_of dataset_id) in
      if data_driven \<and> d = []
      then Inl (ValidationError ''dataset_id is required when data_driven is true.'')
      else Inr (if d = [] then None else Some d))"

record item_fields =
  if_item :: suite_item
  if_on_failure :: "string option"
  if_role :: "string option"
  if_template_kind :: string
  if_data_driven :: bool
  if_dataset :: "string option"

definition validate_item :: "item_fields \<Rightarrow> item_fields result" where
  "validate_item f =
     (let it = if_item f; kind = or_text (py_lower (py_strip (it_kind it))) ''test'';
          p = py_lower (py_strip (text_of (it_phase it)));
          phase = (if p = [] then None else Some p);
          failure = normalize_on_failure (if_on_failure f)
      in
      rbind (require (kind \<in> set item_kinds)
        (ValidationError (''Unsupported suite item kind: '' @ it_kind it))) (\<lambda>_.
      rbind (require (kind = ''hook'' \<longrightarrow> p \<in> set hook_phases)
        (ValidationError ''hook_phase is required for hook suite items.'')) (\<lambda>_.
      rbind (resolve_role (if_role f) kind phase) (\<lambda>r.
      rbind (normalize_template_kind (if_template_kind f)) (\<lambda>t.
      rbind (validate_data_driven (if_data_driven f) (if_dataset f)) (\<lambda>d.
      rbind (foldM add_unique_code [] (map fields_of (it_sources it))) (\<lambda>_.
        Inr (f\<lparr>if_item := it\<lparr>it_kind := kind, it_phase := (if kind = ''hook'' then phase else None),
                 it_on_failure := failure\<rparr>,
               if_on_failure := Some failure, if_role := Some r, if_template_kind := t,
               if_dataset := d\<rparr>))))))))"

section \<open>Visible sources\<close>

definition section_table :: "string dict" where
  "section_table = [(''before-all'', ''beforeAll''), (''before-each'', ''beforeEach''),
     (''after-each'', ''afterEach''), (''after-all'', ''afterAll'')]"

definition section_type_for_item :: "suite_item \<Rightarrow> string" where
  "section_type_for_item it =
     (if py_lower (py_strip (it_kind it)) \<noteq> ''hook'' then ''test''
      else case dict_get section_table (py_lower (py_strip (text_of (it_phase it)))) of
             None \<Rightarrow> ''test'' | Some s \<Rightarrow> s)"

definition source_dicts :: "suite_item option \<Rightarrow> json dict list" where
  "source_dicts it =
     (case it of None \<Rightarrow> [] | Some i \<Rightarrow> map fields_of (filter is_obj (it_sources i)))"

definition add_source :: "string \<Rightarrow> json dict dict \<Rightarrow> json dict \<Rightarrow> json dict dict result" where
  "add_source owner target source =
     (let code = source_code source in
      if code = [] then Inr target
      else if dict_get target code \<noteq> None then
        Inl (ValueError (''Source '' @ quoted code @ '' is visible from multiple sections ('' @ owner @ '').''))
      else Inr (dict_set code source target))"

definition add_sources :: "json dict dict \<Rightarrow> json dict list \<Rightarrow> string \<Rightarrow> json dict dict result" where
  "add_sources target sources owner = foldM (add_source owner) target sources"

definition build_visible_sources_for_suite_item ::
  "suite_item option \<Rightarrow> suite_item option \<Rightarrow> suite_item \<Rightarrow> json dict dict result" where
  "build_visible_sources_for_suite_item before_all before_each current =
     (let st = section_type_for_item current in
      rbind (if st \<in> set [''beforeEach'', ''test'', ''afterAll'']
             then add_sources [] (source_dicts before_all) ''beforeAll'' else Inr []) (\<lambda>v1.
      rbind (if st \<in> set [''test'', ''afterEach'']
             then add_sources v1 (source_dicts before_each) ''beforeEach'' else Inr v1) (\<lambda>v2.
        add_sources v2 (source_dicts (Some current)) st)))"

section \<open>Validation of a suite's references to sources\<close>

definition source_compatibility :: "string list dict" where
  "source_compatibility =
     [(''sendMessageQueue'', [''dataset'', ''jsonArray'']), (''saveTable'', [''dataset'', ''jsonArray'']),
      (''exportDataset'', [''dataset'', ''jsonArray'']), (''jsonArrayEquals'', [''jsonArray'']),
      (''jsonArrayEmpty'', [''jsonArray'']), (''jsonArrayNotEmpty'', [''jsonArray'']),
      (''jsonArrayContains'', [''jsonArray''])]"

fun input_ref_of :: "command \<Rightarrow> input_ref option" where
  "input_ref_of (SendMessageQueue m) = Some (sm_input m)"
| "input_ref_of (SaveTable _ i _) = Some i"
| "input_ref_of (ExportDataset e) = Some (ed_input e)"
| "input_ref_of _ = None"

fun actual_ref_of :: "command \<Rightarrow> input_ref option" where
  "actual_ref_of (Assert a) = Some (as_actual a)"
| "actual_ref_of _ = None"

fun expected_ref_of :: "command \<Rightarrow> input_ref option" where
  "expected_ref_of (Assert a) = as_expected_ref a"
| "expected_ref_of _ = None"

definition find_source :: "json dict dict \<Rightarrow> string \<Rightarrow> string \<Rightarrow> json dict result" where
  "find_source visible code command =
     (case dict_get visible (py_strip code) of
        None \<Rightarrow> Inl (ValueError (''Source '' @ quoted code @ '' is not visible for command '' @
          quoted command @ ''.''))
      | Some s \<Rightarrow> Inr s)"

definition check_source_type :: "json dict \<Rightarrow> string \<Rightarrow> string \<Rightarrow> unit result" where
  "check_source_type source code command =
     (let st = token (jget source ''sourceType'') in
      case dict_get source_compatibility (py_strip command) of
        None \<Rightarrow> Inr ()
      | Some ok \<Rightarrow> require (st \<in> set ok) (ValueError (''Source '' @ quoted code @
          '' has incompatible type '' @ quoted st @ '' for command '' @ quoted command @ ''.'')))"

definition check_typed_ref :: "json dict dict \<Rightarrow> command \<Rightarrow> input_ref option \<Rightarrow> unit result" where
  "check_typed_ref visible c r =
     (case r of
        Some (Source code) \<Rightarrow>
          rbind (find_source visible code (command_code c)) (\<lambda>s.
            check_source_type s code (command_code c))
      | _ \<Rightarrow> Inr ())"

definition check_visible_ref :: "json dict dict \<Rightarrow> command \<Rightarrow> input_ref option \<Rightarrow> unit result" where
  "check_visible_ref visible c r =
     (case r of
        Some (Source code) \<Rightarrow> rbind (find_source visible code (command_code c)) (\<lambda>_. Inr ())
      | _ \<Rightarrow> Inr ())"

definition check_command_sources :: "json dict dict \<Rightarrow> command \<Rightarrow> unit result" where
  "check_command_sources visible c =
     rbind (check_typed_ref visible c (input_ref_of c)) (\<lambda>_.
     rbind (check_visible_ref visible c (actual_ref_of c)) (\<lambda>_.
       check_typed_ref visible c (expected_ref_of c)))"

text \<open>\<open>{str(item.hook_phase or "").strip(): item for item in hooks}\<close>: the last item of a phase wins.\<close>

definition hooks_by_phase :: "suite_item list \<Rightarrow> suite_item dict" where
  "hooks_by_phase hooks =
     foldl (\<lambda>acc it. dict_set (py_strip (text_of (it_phase it))) it acc) [] hooks"

definition check_item_sources ::
  "field_types \<Rightarrow> suite_item option \<Rightarrow> suite_item option \<Rightarrow> suite_item \<Rightarrow> unit result" where
  "check_item_sources pyd before_all before_each it =
     rbind (build_visible_sources_for_suite_item before_all before_each it) (\<lambda>visible.
       foldM (\<lambda>_ c. rbind (convert_to_config_command_type pyd (sc_cfg c)) (\<lambda>cfg.
         check_command_sources visible (cfg_command cfg))) () (it_commands it))"

definition validate_suite_sources_graph ::
  "field_types \<Rightarrow> suite_item list \<Rightarrow> suite_item list \<Rightarrow> unit result" where
  "validate_suite_sources_graph pyd hooks tests =
     (let by_phase = hooks_by_phase hooks;
          before_all = dict_get by_phase ''before-all'';
          before_each = dict_get by_phase ''before-each''
      in foldM (\<lambda>_ it. check_item_sources pyd before_all before_each it) () (hooks @ tests))"

end
