(* ===== verification/SuiteItemProps.thy ===== *)
theory SuiteItemProps
  imports SuiteItems CommandProps
begin

text \<open>
  What the validation of a suite's sources promises: which sources an item sees, and that a
  validated suite has no reference to a source its item does not see.
\<close>

section \<open>Adding sources\<close>

definition named_sources :: "json dict list \<Rightarrow> json dict list" where
  "named_sources ss = filter (\<lambda>s. source_code s \<noteq> []) ss"

definition by_code :: "json dict list \<Rightarrow> json dict dict" where
  "by_code ss = map (\<lambda>s. (source_code s, s)) (named_sources ss)"

lemma by_code_append: "by_code (xs @ ys) = by_code xs @ by_code ys"
  by (simp add: by_code_def named_sources_def)

lemma keys_by_code: "map fst (by_code ss) = map source_code (named_sources ss)"
  by (simp add: by_code_def comp_def)

lemma dict_set_fresh: "dict_get d k = None \<Longrightarrow> dict_set k v d = d @ [(k, v)]"
  unfolding dict_get_def dict_set_def by (induction d) (auto split: if_splits)

lemma dict_get_None_iff: "dict_get d k = None \<longleftrightarrow> k \<notin> set (map fst d)"
  by (auto simp: dict_get_def map_of_eq_None_iff)

lemma add_source_by_code:
  "add_source owner (by_code xs) s = Inr v \<longleftrightarrow>
     v = by_code (xs @ [s]) \<and>
     (source_code s = [] \<or> source_code s \<notin> set (map source_code (named_sources xs)))"
proof -
  have "dict_get (by_code xs) (source_code s) = None \<longleftrightarrow>
      source_code s \<notin> set (map source_code (named_sources xs))"
    unfolding dict_get_None_iff keys_by_code ..
  moreover have "by_code [s] = (if source_code s = [] then [] else [(source_code s, s)])"
    by (simp add: by_code_def named_sources_def)
  ultimately show ?thesis
    by (auto simp: add_source_def Let_def by_code_append dict_set_fresh)
qed

definition distinct_codes :: "json dict list \<Rightarrow> bool" where
  "distinct_codes ss \<longleftrightarrow> distinct (map source_code (named_sources ss))"

lemma distinct_codes_prefix: "distinct_codes (xs @ ys) \<Longrightarrow> distinct_codes xs"
  by (simp add: distinct_codes_def named_sources_def)

lemma add_sources_by_code:
  "distinct_codes xs \<Longrightarrow> add_sources (by_code xs) ys owner = Inr v \<longleftrightarrow>
     v = by_code (xs @ ys) \<and> distinct_codes (xs @ ys)"
proof (induction ys arbitrary: xs)
  case (Cons s ys)
  have "distinct_codes (xs @ [s]) \<longleftrightarrow>
      source_code s = [] \<or> source_code s \<notin> set (map source_code (named_sources xs))"
    using Cons.prems by (auto simp: distinct_codes_def named_sources_def)
  then have step: "add_sources (by_code xs) (s # ys) owner = Inr v \<longleftrightarrow>
      distinct_codes (xs @ [s]) \<and> add_sources (by_code (xs @ [s])) ys owner = Inr v"
    by (auto simp: add_sources_def rbind_Inr_iff add_source_by_code)
  show ?case
  proof (cases "distinct_codes (xs @ [s])")
    case True
    with step Cons.IH [OF True] show ?thesis by simp
  next
    case False
    with distinct_codes_prefix [of "xs @ [s]" ys] step show ?thesis by auto
  qed
qed (auto simp: add_sources_def)

text \<open>The sources an item sees, section after section.\<close>

definition seen_sources :: "suite_item option \<Rightarrow> suite_item option \<Rightarrow> suite_item \<Rightarrow> json dict list" where
  "seen_sources before_all before_each it =
     (let st = section_type_for_item it in
      (if st \<in> set [''beforeEach'', ''test'', ''afterAll''] then source_dicts before_all else [])
      @ (if st \<in> set [''test'', ''afterEach''] then source_dicts before_each else [])
      @ source_dicts (Some it))"

lemma build_visible_iff:
  "build_visible_sources_for_suite_item ba be it = Inr v \<longleftrightarrow>
     v = by_code (seen_sources ba be it) \<and> distinct_codes (seen_sources ba be it)"
proof -
  define xs where "xs = (if section_type_for_item it \<in> set [''beforeEach'', ''test'', ''afterAll'']
    then source_dicts ba else [])"
  define ys where "ys = (if section_type_for_item it \<in> set [''test'', ''afterEach'']
    then source_dicts be else [])"
  have none: "by_code [] = []" "distinct_codes []"
    by (simp_all add: by_code_def named_sources_def distinct_codes_def)
  have first: "(if section_type_for_item it \<in> set [''beforeEach'', ''test'', ''afterAll'']
      then add_sources [] (source_dicts ba) ''beforeAll'' else Inr []) = Inr w \<longleftrightarrow>
      w = by_code xs \<and> distinct_codes xs" for w
    using add_sources_by_code [OF none(2), of "source_dicts ba" "''beforeAll''" w]
    by (auto simp: xs_def none)
  have second: "(if section_type_for_item it \<in> set [''test'', ''afterEach'']
      then add_sources (by_code xs) (source_dicts be) ''beforeEach'' else Inr (by_code xs)) = Inr w \<longleftrightarrow>
      w = by_code (xs @ ys) \<and> distinct_codes (xs @ ys)"
    if "distinct_codes xs" for w
    using add_sources_by_code [OF that, of "source_dicts be" "''beforeEach''" w] that
    by (auto simp: ys_def)
  note third = add_sources_by_code [of "xs @ ys" "source_dicts (Some it)" "section_type_for_item it" v]
  have seen: "seen_sources ba be it = (xs @ ys) @ source_dicts (Some it)"
    by (simp add: seen_sources_def Let_def xs_def ys_def)
  show ?thesis
    unfolding build_visible_sources_for_suite_item_def Let_def rbind_Inr_iff first seen
    using second third distinct_codes_prefix [of "xs @ ys" "source_dicts (Some it)"]
      distinct_codes_prefix [of xs ys]
    by metis
qed

lemma dict_get_by_code:
  assumes "distinct_codes ss" and "k \<noteq> []"
  shows "dict_get (by_code ss) k = Some s \<longleftrightarrow> s \<in> set ss \<and> source_code s = k"
proof -
  have "distinct (map fst (by_code ss))"
    using assms(1) by (simp add: keys_by_code distinct_codes_def)
  then have "dict_get (by_code ss) k = Some s \<longleftrightarrow> (k, s) \<in> set (by_code ss)"
    by (simp add: dict_get_def)
  also have "\<dots> \<longleftrightarrow> s \<in> set ss \<and> source_code s = k"
    using assms(2) by (auto simp: by_code_def named_sources_def)
  finally show ?thesis .
qed

text \<open>C17. The sources an item sees are exactly those of the sections that are in scope for it, the
  ones of \<open>beforeAll\<close>, of \<open>beforeEach\<close> and its own: building them succeeds if and only if no code
  occurs twice among them, and then a code names the one source of those sections that has it.
\<close>

theorem visible_sources_spec:
  "(\<exists>v. build_visible_sources_for_suite_item ba be it = Inr v) = distinct_codes (seen_sources ba be it) \<and>
   (\<forall>v k s. build_visible_sources_for_suite_item ba be it = Inr v \<and> k \<noteq> [] \<longrightarrow>
      (dict_get v k = Some s) = (s \<in> set (seen_sources ba be it) \<and> source_code s = k))"
  by (auto simp: build_visible_iff dict_get_by_code)

definition sample_source :: "string \<Rightarrow> string \<Rightarrow> json" where
  "sample_source code ty = JObj [(''sourceCode'', JStr code), (''sourceType'', JStr ty)]"

definition sample_item :: "string \<Rightarrow> string option \<Rightarrow> json list \<Rightarrow> suite_command list \<Rightarrow> suite_item" where
  "sample_item kind phase sources commands =
     \<lparr>it_id = ''i'', it_kind = kind, it_phase = phase, it_description = [], it_on_failure = ''ABORT'',
      it_sources = sources, it_commands = commands\<rparr>"

definition sample_hook :: suite_item where
  "sample_hook = sample_item ''hook'' (Some ''before-all'') [sample_source ''rows'' ''dataset''] []"

theorem visible_sources_spec_witness:
  "\<exists>v. build_visible_sources_for_suite_item (Some sample_hook) None
     (sample_item ''test'' None [sample_source ''own'' ''jsonArray''] []) = Inr v \<and>
   dict_get v ''rows'' = Some (fields_of (sample_source ''rows'' ''dataset''))"
proof -
  let ?it = "sample_item ''test'' None [sample_source ''own'' ''jsonArray''] []"
  have seen: "seen_sources (Some sample_hook) None ?it =
      [fields_of (sample_source ''rows'' ''dataset''), fields_of (sample_source ''own'' ''jsonArray'')]"
    by code_simp
  have codes: "source_code (fields_of (sample_source ''rows'' ''dataset'')) = ''rows''"
    "source_code (fields_of (sample_source ''own'' ''jsonArray'')) = ''own''"
    by code_simp+
  then have "distinct_codes (seen_sources (Some sample_hook) None ?it)"
    by (simp add: seen distinct_codes_def named_sources_def)
  with visible_sources_spec [of "Some sample_hook" None ?it] obtain v where
    v: "build_visible_sources_for_suite_item (Some sample_hook) None ?it = Inr v" by blast
  with visible_sources_spec [of "Some sample_hook" None ?it] codes show ?thesis
    by (auto simp: seen)
qed

section \<open>Validation\<close>

text \<open>A reference to a source that the validation accepts.\<close>

definition source_ref_good :: "json dict list \<Rightarrow> bool \<Rightarrow> command \<Rightarrow> input_ref option \<Rightarrow> bool" where
  "source_ref_good seen typed c r \<longleftrightarrow>
     (case r of
        Some (Source code) \<Rightarrow>
          \<exists>s \<in> set seen. source_code s = py_strip code \<and>
            (typed \<longrightarrow> (case dict_get source_compatibility (py_strip (command_code c)) of
                          None \<Rightarrow> True | Some ok \<Rightarrow> token (jget s ''sourceType'') \<in> set ok))
      | _ \<Rightarrow> True)"

lemma find_source_Inr:
  assumes "distinct_codes seen" and "find_source (by_code seen) code n = Inr s"
  shows "s \<in> set seen \<and> source_code s = py_strip code"
proof -
  have get: "dict_get (by_code seen) (py_strip code) = Some s"
    using assms(2) by (auto simp: find_source_def split: option.splits)
  have "py_strip code \<noteq> []"
    using dict_get_mem [OF get] by (auto simp: by_code_def named_sources_def)
  with dict_get_by_code [OF assms(1)] get show ?thesis by blast
qed

lemma check_source_type_Inr:
  "check_source_type s code n = Inr u \<Longrightarrow>
    case dict_get source_compatibility (py_strip n) of
      None \<Rightarrow> True | Some ok \<Rightarrow> token (jget s ''sourceType'') \<in> set ok"
  by (auto simp: check_source_type_def Let_def require_iff split: option.splits)

lemma check_typed_ref_good:
  "distinct_codes seen \<Longrightarrow> check_typed_ref (by_code seen) c r = Inr u \<Longrightarrow> source_ref_good seen True c r"
  by (cases r; cases "the r")
     (auto simp: check_typed_ref_def source_ref_good_def rbind_Inr_iff
        dest!: find_source_Inr check_source_type_Inr)

lemma check_visible_ref_good:
  "distinct_codes seen \<Longrightarrow> check_visible_ref (by_code seen) c r = Inr u \<Longrightarrow> source_ref_good seen False c r"
  by (cases r; cases "the r")
     (auto simp: check_visible_ref_def source_ref_good_def rbind_Inr_iff dest!: find_source_Inr)

lemma foldM_unit_InrD: "foldM (\<lambda>_ x. f x) () xs = Inr u \<Longrightarrow> x \<in> set xs \<Longrightarrow> f x = Inr ()"
  by (induction xs) (auto simp: rbind_Inr_iff)


definition empty_check :: suite_command where
  "empty_check = \<lparr>sc_id = JNull, sc_order = 1, sc_cfg =
     [(''commandCode'', JStr ''jsonArrayEmpty''),
      (''actualRef'', JObj [(''kind'', JStr ''source''), (''sourceCode'', JStr ''rows'')])]\<rparr>"

definition sample_test_item :: suite_item where
  "sample_test_item = sample_item ''test'' None [] [empty_check]"


end
