(* ===== verification/ConstantGraph.thy ===== *)
theory ConstantGraph
  imports SuiteItems
begin

text \<open>
  The static check of a suite's constants
  (\<open>app/elaborations/services/constants/command_constant_definition_registry.py\<close>): the commands of
  a section are replayed in their order over a map of planned definitions, which says for every
  command which constants it may refer to and which it declares or deletes.
\<close>

section \<open>Tables\<close>

definition type_compatibility :: "string list dict" where
  "type_compatibility =
     [(''sendMessageQueue'', [''value'', ''json'', ''jsonArray'', ''dataset'']),
      (''saveTable'', [''json'', ''jsonArray'', ''dataset'']),
      (''exportDataset'', [''json'', ''jsonArray'', ''dataset'']),
      (''jsonEquals'', [''json'', ''value'']), (''jsonEmpty'', [''json'', ''value'']),
      (''jsonNotEmpty'', [''json'', ''value'']), (''jsonContains'', [''json'', ''value'']),
      (''jsonArrayEquals'', [''jsonArray'']), (''jsonArrayEmpty'', [''jsonArray'']),
      (''jsonArrayNotEmpty'', [''jsonArray'']), (''jsonArrayContains'', [''jsonArray''])]"

definition readable_scopes :: "string \<Rightarrow> string list" where
  "readable_scopes st =
     (case dict_get
        [(''beforeAll'', [''runEnvelope'', ''result'']),
         (''beforeEach'', [''runEnvelope'', ''global'', ''result'']),
         (''test'', [''runEnvelope'', ''global'', ''local'', ''result'']),
         (''afterEach'', [''runEnvelope'', ''global'', ''local'', ''result'']),
         (''afterAll'', [''runEnvelope'', ''global'', ''result'']),
         (''mock.preResponse'', [''runEnvelope'', ''result'']),
         (''mock.postResponse'', [''runEnvelope'', ''result'']),
         (''mock.queue'', [''runEnvelope'', ''result''])] st of
        None \<Rightarrow> [] | Some s \<Rightarrow> s)"

definition writable_scopes :: "string \<Rightarrow> string list" where
  "writable_scopes st =
     (case dict_get
        [(''beforeAll'', [''global'', ''result'']), (''beforeEach'', [''local'', ''result'']),
         (''test'', [''local'', ''result'']), (''afterEach'', [''local'', ''result'']),
         (''afterAll'', [''global'', ''result'']),
         (''mock.preResponse'', [''runEnvelope'', ''result'']),
         (''mock.postResponse'', [''result'']), (''mock.queue'', [''result''])] st of
        None \<Rightarrow> [] | Some s \<Rightarrow> s)"

definition section_execution_scope :: "string \<Rightarrow> string option" where
  "section_execution_scope st =
     dict_get [(''beforeAll'', ''hook.beforeAll''), (''beforeEach'', ''hook.beforeEach''),
       (''test'', ''test''), (''afterEach'', ''hook.afterEach''), (''afterAll'', ''hook.afterAll''),
       (''mock.preResponse'', ''mock.preResponse''), (''mock.postResponse'', ''mock.postResponse'')] st"

definition result_type_by_command :: "string dict" where
  "result_type_by_command =
     map (\<lambda>c. (c, ''json'')) ([''readApi'', ''writeApi'', ''sendMessageQueue'', ''saveTable'',
       ''exportDataset'', ''runSuite'', ''sleep''] @ assert_codes)"

section \<open>Inputs and planned definitions\<close>

record command_input =
  ci_id :: string
  ci_order :: int
  ci_cfg :: "json dict"

record planned =
  pl_id :: string
  pl_command :: string
  pl_order :: int
  pl_section :: string
  pl_name :: string
  pl_scope :: string
  pl_type :: string
  pl_deleted :: "int option"

text \<open>\<open>uuid4\<close> is a parameter: the identifier it gives the command at a position.\<close>

definition ensure_command_id :: "string \<Rightarrow> json \<Rightarrow> string" where
  "ensure_command_id new_id v = (if token v = [] then new_id else token v)"

definition raw_cfg :: "json dict \<Rightarrow> json dict" where
  "raw_cfg raw = fields_of (json_or (jget raw ''cfg'') (jget raw ''configuration_json''))"

definition command_input :: "(nat \<Rightarrow> string) \<Rightarrow> nat \<times> json dict \<Rightarrow> command_input result" where
  "command_input new_id ir =
     rbind (py_int (json_or (jget (snd ir) ''order'') (JInt (int (fst ir) + 1)))) (\<lambda>n.
       Inr \<lparr>ci_id = ensure_command_id (new_id (fst ir)) (jget (snd ir) ''id''), ci_order = n,
            ci_cfg = raw_cfg (snd ir)\<rparr>)"

definition carry_over :: "planned dict \<Rightarrow> planned dict" where
  "carry_over ds =
     map (\<lambda>(k, d). (k, d\<lparr>pl_order := 0\<rparr>)) (filter (\<lambda>(k, d). pl_deleted d = None) ds)"

definition is_active :: "string list \<Rightarrow> int \<Rightarrow> planned \<Rightarrow> bool" where
  "is_active scopes order d \<longleftrightarrow>
     pl_scope d \<in> set scopes \<and> pl_order d < order \<and>
     (case pl_deleted d of None \<Rightarrow> True | Some k \<Rightarrow> \<not> k \<le> order)"

definition active_definitions :: "string list \<Rightarrow> int \<Rightarrow> planned dict \<Rightarrow> planned dict" where
  "active_definitions scopes order ds = filter (\<lambda>(k, d). is_active scopes order d) ds"

section \<open>References\<close>

fun node_refs :: "http_node \<Rightarrow> string list" where
  "node_refs (RuntimeNode d _) = (if d = [] then [] else [d])"
| "node_refs _ = []"

fun tree_refs :: "http_tree \<Rightarrow> string list" where
  "tree_refs HNone = []"
| "tree_refs (HNode n) = node_refs n"
| "tree_refs (HObj d) = concat (map (\<lambda>kv. tree_refs (snd kv)) d)"
| "tree_refs (HList ts) = concat (map tree_refs ts)"

fun auth_refs :: "http_auth option \<Rightarrow> string list" where
  "auth_refs None = []"
| "auth_refs (Some NoAuth) = []"
| "auth_refs (Some (Basic u p)) = node_refs u @ node_refs p"
| "auth_refs (Some (Bearer t)) = node_refs t"
| "auth_refs (Some (ApiKey u k e)) = node_refs u @ node_refs k @ node_refs e"
| "auth_refs (Some (OAuth2 u i s)) = node_refs u @ node_refs i @ node_refs s"

definition param_refs :: "(string \<times> http_node) list option \<Rightarrow> string list" where
  "param_refs ps = (case ps of None \<Rightarrow> [] | Some d \<Rightarrow> concat (map (\<lambda>kv. node_refs (snd kv)) d))"

definition request_refs :: "http_request \<Rightarrow> string list" where
  "request_refs r =
     param_refs (rq_query r) @ param_refs (rq_headers r) @ param_refs (rq_path r) @ auth_refs (rq_auth r)"

definition runtime_ref :: "string \<Rightarrow> input_ref option \<Rightarrow> (string \<times> string) list" where
  "runtime_ref role r = (case r of Some (RuntimeValue d) \<Rightarrow> [(role, d)] | _ \<Rightarrow> [])"

fun definition_refs :: "command \<Rightarrow> (string \<times> string) list" where
  "definition_refs (DeleteVariable d) = [(''target'', d)]"
| "definition_refs (RunSuite _ refs _) = map (\<lambda>d. (''constant'', d)) refs"
| "definition_refs (ReadApi r) = map (\<lambda>d. (''source'', d)) (request_refs r)"
| "definition_refs (WriteApi r b) = map (\<lambda>d. (''source'', d)) (request_refs r @ tree_refs b)"
| "definition_refs c =
     runtime_ref ''source'' (input_ref_of c) @ runtime_ref ''actual'' (actual_ref_of c)
     @ runtime_ref ''expected'' (expected_ref_of c)"

section \<open>Visibility of references\<close>

definition form_field_ok :: "planned dict \<Rightarrow> string \<times> http_tree \<Rightarrow> unit result" where
  "form_field_ok active kv =
     (case snd kv of
        HNode (SourceNode _) \<Rightarrow> Inl (ValueError
          (''Datasource values are not supported for formUrlEncoded field '' @ quoted (fst kv) @ ''.''))
      | HNode (RuntimeNode d _) \<Rightarrow>
          (case dict_get active (py_strip d) of
             None \<Rightarrow> Inr ()
           | Some p \<Rightarrow> require (pl_type p \<notin> set [''dataset'', ''jsonArray''])
               (ValueError (''Constant '' @ quoted (pl_name p) @ '' has incompatible type '' @
                 quoted (pl_type p) @ '' for formUrlEncoded field '' @ quoted (fst kv) @ ''.'')))
      | _ \<Rightarrow> Inr ())"

fun validate_form_body_refs :: "command \<Rightarrow> planned dict \<Rightarrow> unit result" where
  "validate_form_body_refs (WriteApi r (HObj d)) active =
     (if py_strip (rq_body_type r) = ''formUrlEncoded''
      then foldM (\<lambda>_ kv. form_field_ok active kv) () d else Inr ())"
| "validate_form_body_refs _ active = Inr ()"

definition check_ref :: "string \<Rightarrow> string \<Rightarrow> planned dict \<Rightarrow> string \<times> string \<Rightarrow> unit result" where
  "check_ref code st active ref =
     (case dict_get active (snd ref) of
        None \<Rightarrow> Inl (ValueError (''Constant reference '' @ quoted (snd ref) @
          '' is not visible for command '' @ quoted code @ ''.''))
      | Some d \<Rightarrow>
          rbind (case dict_get type_compatibility code of
                   None \<Rightarrow> Inr ()
                 | Some ok \<Rightarrow> require (pl_type d \<in> set ok)
                     (ValueError (''Constant '' @ quoted (pl_name d) @ '' has incompatible type '' @
                       quoted (pl_type d) @ '' for command '' @ quoted code @ ''.''))) (\<lambda>_.
            require (fst ref = ''target'' \<longrightarrow> pl_scope d \<in> set (writable_scopes st))
              (ValueError (''Constant '' @ quoted (pl_name d) @ '' in scope '' @ quoted (pl_scope d) @
                '' cannot be deleted in section '' @ quoted st @ ''.''))))"

definition validate_ref_visibility :: "command \<Rightarrow> string \<Rightarrow> int \<Rightarrow> planned dict \<Rightarrow> unit result" where
  "validate_ref_visibility c st order ds =
     (let active = active_definitions (readable_scopes st) order ds in
      rbind (foldM (\<lambda>_ r. check_ref (command_code c) st active r) () (definition_refs c)) (\<lambda>_.
        validate_form_body_refs c active))"

section \<open>Declarations\<close>

fun variable_declaration :: "command \<Rightarrow> string \<Rightarrow> int \<Rightarrow> string \<Rightarrow> planned list" where
  "variable_declaration (SetVariable s) cid order st =
     [\<lparr>pl_id = sv_definition s, pl_command = cid, pl_order = order, pl_section = st,
       pl_name = sv_name s, pl_scope = or_text (sv_context s) ''local'',
       pl_type = or_text (sv_value_type s) ''value'', pl_deleted = None\<rparr>]"
| "variable_declaration _ cid order st = []"

definition planned_declarations :: "command \<Rightarrow> string \<Rightarrow> int \<Rightarrow> string \<Rightarrow> planned list" where
  "planned_declarations c cid order st =
     variable_declaration c cid order st
     @ (case result_constant_of c of
          None \<Rightarrow> []
        | Some r \<Rightarrow>
            [\<lparr>pl_id = rc_definition r, pl_command = cid, pl_order = order, pl_section = st,
              pl_name = rc_name r, pl_scope = ''result'',
              pl_type = or_text (rc_value_type r)
                (case dict_get result_type_by_command (command_code c) of None \<Rightarrow> ''json'' | Some t \<Rightarrow> t),
              pl_deleted = None\<rparr>])"

definition declare_step :: "string \<Rightarrow> planned dict \<Rightarrow> planned \<Rightarrow> planned dict result" where
  "declare_step st active d =
     rbind (require (pl_scope d \<in> set (writable_scopes st))
       (ValueError (''Scope '' @ quoted (pl_scope d) @ '' is not writable in section '' @ quoted st @ ''.'')))
       (\<lambda>_.
     rbind (require (\<forall>kv \<in> set active. \<not> (pl_name (snd kv) = pl_name d \<and> pl_scope (snd kv) = pl_scope d))
       (ValueError (''Constant '' @ quoted (pl_name d) @ '' is already defined in scope '' @
         quoted (pl_scope d) @ ''.''))) (\<lambda>_.
       Inr (dict_set (pl_id d) d active)))"

definition validate_declarations ::
  "command \<Rightarrow> string \<Rightarrow> int \<Rightarrow> planned dict \<Rightarrow> string \<Rightarrow> planned list result" where
  "validate_declarations c st order ds cid =
     (let declarations = planned_declarations c cid order st;
          active = active_definitions constant_contexts (order + 1) ds
      in rbind (foldM (declare_step st) active declarations) (\<lambda>_. Inr declarations))"

section \<open>The plan of a section\<close>

type_synonym plan = "planned list \<times> planned dict"

definition delete_definition :: "string \<Rightarrow> int \<Rightarrow> planned dict \<Rightarrow> planned dict result" where
  "delete_definition did order ds =
     (case dict_get ds did of
        None \<Rightarrow> Inl (ValueError (''Constant reference '' @ quoted did @
          '' is not visible for deleteVariable.''))
      | Some d \<Rightarrow> Inr (dict_set did (d\<lparr>pl_deleted := Some order\<rparr>) ds))"

definition store_declarations :: "planned list \<Rightarrow> planned dict \<Rightarrow> planned dict" where
  "store_declarations declarations ds = foldl (\<lambda>acc d. dict_set (pl_id d) d acc) ds declarations"

definition plan_command :: "string \<Rightarrow> plan \<Rightarrow> command_input \<Rightarrow> command \<Rightarrow> plan result" where
  "plan_command st p ci c =
     rbind (validate_ref_visibility c st (ci_order ci) (snd p)) (\<lambda>_.
       case c of
         DeleteVariable did \<Rightarrow>
           rbind (delete_definition did (ci_order ci) (snd p)) (\<lambda>ds. Inr (fst p, ds))
       | _ \<Rightarrow>
           rbind (validate_declarations c st (ci_order ci) (snd p) (ci_id ci)) (\<lambda>new.
             Inr (fst p @ new, store_declarations new (snd p))))"

definition plan_step :: "field_types \<Rightarrow> string \<Rightarrow> plan \<Rightarrow> command_input \<Rightarrow> plan result" where
  "plan_step pyd st p ci =
     rbind (convert_to_config_command_type pyd (ci_cfg ci)) (\<lambda>cfg.
       plan_command st p ci (cfg_command cfg))"

definition command_key :: "command_input \<Rightarrow> int \<times> string" where
  "command_key ci = (ci_order ci, ci_id ci)"

definition plan_inputs :: "field_types \<Rightarrow> string \<Rightarrow> command_input list \<Rightarrow> planned dict \<Rightarrow> plan result" where
  "plan_inputs pyd st inputs initial =
     foldM (plan_step pyd st) ([], carry_over initial) (sort_key command_key inputs)"

definition plan_definitions_for_commands ::
  "field_types \<Rightarrow> (nat \<Rightarrow> string) \<Rightarrow> json dict list \<Rightarrow> string \<Rightarrow> planned dict \<Rightarrow> plan result" where
  "plan_definitions_for_commands pyd new_id raws st initial =
     rbind (mapM (command_input new_id) (enumerate 0 raws)) (\<lambda>inputs. plan_inputs pyd st inputs initial)"

section \<open>The graph of a suite\<close>

definition suite_item_commands :: "(nat \<Rightarrow> string) \<Rightarrow> suite_item \<Rightarrow> json dict list" where
  "suite_item_commands new_id it =
     map (\<lambda>(i, sc).
       [(''id'', json_or (jget (sc_cfg sc) ''commandId'')
           (json_or (JInt (sc_order sc)) (JStr (new_id i)))),
        (''order'', JInt (if sc_order sc = 0 then int i + 1 else sc_order sc)),
        (''cfg'', JObj (sc_cfg sc))])
       (enumerate 0 (it_commands it))"

definition plan_item ::
  "field_types \<Rightarrow> (nat \<Rightarrow> string) \<Rightarrow> string \<Rightarrow> planned dict \<Rightarrow> suite_item \<Rightarrow> plan result" where
  "plan_item pyd new_id st initial it =
     plan_definitions_for_commands pyd new_id (suite_item_commands new_id it) st initial"

definition plan_hook ::
  "field_types \<Rightarrow> (nat \<Rightarrow> string) \<Rightarrow> string \<Rightarrow> planned dict \<Rightarrow> planned dict \<Rightarrow> suite_item option \<Rightarrow>
    planned dict result" where
  "plan_hook pyd new_id st initial otherwise hook =
     (case hook of
        None \<Rightarrow> Inr otherwise
      | Some it \<Rightarrow> rbind (plan_item pyd new_id st initial it) (\<lambda>p. Inr (snd p)))"

definition validate_suite_constant_graph ::
  "field_types \<Rightarrow> (nat \<Rightarrow> string) \<Rightarrow> suite_item list \<Rightarrow> suite_item list \<Rightarrow> unit result" where
  "validate_suite_constant_graph pyd new_id hooks tests =
     rbind (validate_suite_sources_graph pyd hooks tests) (\<lambda>_.
       let h = dict_get (hooks_by_phase hooks) in
       rbind (plan_hook pyd new_id ''beforeAll'' [] [] (h ''before-all'')) (\<lambda>all.
       rbind (plan_hook pyd new_id ''beforeEach'' all all (h ''before-each'')) (\<lambda>each.
       rbind (foldM (\<lambda>_ t. rbind (plan_item pyd new_id ''test'' each t) (\<lambda>_. Inr ())) () tests) (\<lambda>_.
       rbind (plan_hook pyd new_id ''afterEach'' each [] (h ''after-each'')) (\<lambda>_.
       rbind (plan_hook pyd new_id ''afterAll'' all [] (h ''after-all'')) (\<lambda>_. Inr ()))))))"

end
