(* ===== verification/ConstantGraphProps.thy ===== *)
theory ConstantGraphProps
  imports ConstantGraph SuiteItemProps PolicyProps "HOL-Library.Multiset"
begin

text \<open>
  What a plan promises. The specification is the pure effect of the commands on the constants that
  are alive: a declaration adds one, a deletion removes one, and nothing is checked. The plan
  refines it, and in an accepted plan every reference is to a constant alive at that point.
\<close>

section \<open>The constants alive\<close>

definition live :: "planned dict \<Rightarrow> string \<Rightarrow> planned option" where
  "live ds k =
     (case dict_get ds k of
        Some d \<Rightarrow> if pl_deleted d = None then Some d else None
      | None \<Rightarrow> None)"

fun live_step :: "string \<Rightarrow> command_input \<Rightarrow> command \<Rightarrow> (string \<Rightarrow> planned option) \<Rightarrow> string \<Rightarrow> planned option" where
  "live_step st ci (DeleteVariable did) m = m(did := None)"
| "live_step st ci c m =
     foldl (\<lambda>m d. m(pl_id d \<mapsto> d)) m (planned_declarations c (ci_id ci) (ci_order ci) st)"

definition live_input ::
  "field_types \<Rightarrow> string \<Rightarrow> (string \<Rightarrow> planned option) \<Rightarrow> command_input \<Rightarrow> string \<Rightarrow> planned option" where
  "live_input pyd st m ci =
     (case convert_to_config_command_type pyd (ci_cfg ci) of
        Inl _ \<Rightarrow> m | Inr cfg \<Rightarrow> live_step st ci (cfg_command cfg) m)"

definition live_after ::
  "field_types \<Rightarrow> string \<Rightarrow> (string \<Rightarrow> planned option) \<Rightarrow> command_input list \<Rightarrow> string \<Rightarrow> planned option" where
  "live_after pyd st m cs = foldl (live_input pyd st) m cs"

lemma live_dict_set:
  "live (dict_set k d ds) = (live ds)(k := (if pl_deleted d = None then Some d else None))"
  by (auto simp: live_def fun_eq_iff)

lemma planned_declarations_alive:
  "d \<in> set (planned_declarations c cid order st) \<Longrightarrow> pl_deleted d = None \<and> pl_order d = order"
  by (cases c) (auto simp: planned_declarations_def split: option.splits)

lemma live_store:
  assumes "\<forall>d \<in> set new. pl_deleted d = None"
  shows "live (store_declarations new ds) = foldl (\<lambda>m d. m(pl_id d \<mapsto> d)) (live ds) new"
  using assms unfolding store_declarations_def
  by (induction new arbitrary: ds) (auto simp: live_dict_set)

lemma validate_declarations_Inr:
  "validate_declarations c st order ds cid = Inr new \<Longrightarrow> new = planned_declarations c cid order st"
  by (auto simp: validate_declarations_def Let_def rbind_Inr_iff)

definition is_delete :: "command \<Rightarrow> bool" where
  "is_delete c \<longleftrightarrow> (case c of DeleteVariable _ \<Rightarrow> True | _ \<Rightarrow> False)"

text \<open>What a step of an accepted plan does.\<close>

lemma plan_command_cases:
  assumes "plan_command st p ci c = Inr p'"
  obtains (removes) did d where "c = DeleteVariable did" and "dict_get (snd p) did = Some d"
      and "p' = (fst p, dict_set did (d\<lparr>pl_deleted := Some (ci_order ci)\<rparr>) (snd p))"
    | (adds) new where "\<not> is_delete c" and "new = planned_declarations c (ci_id ci) (ci_order ci) st"
      and "validate_declarations c st (ci_order ci) (snd p) (ci_id ci) = Inr new"
      and "p' = (fst p @ new, store_declarations new (snd p))"
proof (cases c)
  case (DeleteVariable did)
  with assms show ?thesis
    by (auto simp: plan_command_def delete_definition_def rbind_Inr_iff split: option.splits
        intro: removes)
qed (use assms in \<open>auto simp: plan_command_def rbind_Inr_iff is_delete_def
       dest: validate_declarations_Inr intro: adds\<close>)

lemma live_step_not_delete:
  "\<not> is_delete c \<Longrightarrow> live_step st ci c m =
    foldl (\<lambda>m d. m(pl_id d \<mapsto> d)) m (planned_declarations c (ci_id ci) (ci_order ci) st)"
  by (cases c) (auto simp: is_delete_def)

lemma plan_command_live:
  assumes "plan_command st p ci c = Inr p'"
  shows "live (snd p') = live_step st ci c (live (snd p))"
  using assms
proof (cases rule: plan_command_cases)
  case (removes did d)
  then show ?thesis by (simp add: live_dict_set)
next
  case (adds new)
  then show ?thesis
    using planned_declarations_alive by (simp add: live_store live_step_not_delete)
qed

lemma plan_stepE:
  assumes "plan_step pyd st p ci = Inr p'"
  obtains c where "plan_command st p ci c = Inr p'"
    and "\<exists>t. convert_to_config_command_type pyd (ci_cfg ci) = Inr \<lparr>cfg_type = t, cfg_command = c\<rparr>"
  using assms unfolding plan_step_def rbind_Inr_iff by (metis config.surjective old.unit.exhaust)

lemma plan_step_live:
  "plan_step pyd st p ci = Inr p' \<Longrightarrow> live (snd p') = live_input pyd st (live (snd p)) ci"
  by (erule plan_stepE) (auto simp: live_input_def plan_command_live)

lemma plan_fold_live:
  "foldM (plan_step pyd st) p cs = Inr p' \<Longrightarrow> live (snd p') = live_after pyd st (live (snd p)) cs"
proof (induction cs arbitrary: p)
  case (Cons ci cs)
  then obtain q where "plan_step pyd st p ci = Inr q" and "foldM (plan_step pyd st) q cs = Inr p'"
    by (auto simp: rbind_Inr_iff)
  with Cons.IH [of q] plan_step_live [of pyd st p ci q] show ?case by (simp add: live_after_def)
qed (simp add: live_after_def)

section \<open>Deletions lie in the past\<close>

definition deletions_before :: "int \<Rightarrow> planned dict \<Rightarrow> bool" where
  "deletions_before n ds \<longleftrightarrow> (\<forall>k d j. dict_get ds k = Some d \<and> pl_deleted d = Some j \<longrightarrow> j \<le> n)"

lemma deletions_before_mono: "deletions_before n ds \<Longrightarrow> n \<le> m \<Longrightarrow> deletions_before m ds"
  unfolding deletions_before_def by (meson order_trans)

lemma deletions_before_set:
  "deletions_before n ds \<Longrightarrow> (\<And>j. pl_deleted d = Some j \<Longrightarrow> j \<le> n) \<Longrightarrow>
    deletions_before n (dict_set k d ds)"
  by (auto simp: deletions_before_def)

lemma deletions_before_store:
  "deletions_before n ds \<Longrightarrow> \<forall>d \<in> set new. pl_deleted d = None \<Longrightarrow>
    deletions_before n (store_declarations new ds)"
proof (induction new arbitrary: ds)
  case (Cons d new)
  from Cons.prems have "deletions_before n (dict_set (pl_id d) d ds)"
    by (intro deletions_before_set) simp_all
  from Cons.IH [OF this] Cons.prems(2) show ?case by (simp add: store_declarations_def)
qed (simp add: store_declarations_def)

lemma plan_step_deletions:
  assumes "plan_step pyd st p ci = Inr p'" and "deletions_before n (snd p)" and "n \<le> ci_order ci"
  shows "deletions_before (ci_order ci) (snd p')"
proof -
  from assms(1) obtain c where "plan_command st p ci c = Inr p'"
    by (rule plan_stepE)
  then show ?thesis
  proof (cases rule: plan_command_cases)
    case (removes did d)
    with deletions_before_mono [OF assms(2,3)] show ?thesis by (auto intro: deletions_before_set)
  next
    case (adds new)
    with deletions_before_mono [OF assms(2,3)] planned_declarations_alive
    show ?thesis by (auto intro: deletions_before_store)
  qed
qed

lemma plan_fold_deletions:
  assumes "foldM (plan_step pyd st) p cs = Inr p'" and "deletions_before n (snd p)"
    and "sorted (map ci_order cs)" and "\<forall>ci \<in> set cs. n \<le> ci_order ci \<and> ci_order ci \<le> m" and "n \<le> m"
  shows "deletions_before m (snd p')"
  using assms
proof (induction cs arbitrary: p n)
  case Nil
  then show ?case by (auto intro: deletions_before_mono)
next
  case (Cons ci cs)
  from Cons.prems(1) obtain q where q: "plan_step pyd st p ci = Inr q"
    and rest: "foldM (plan_step pyd st) q cs = Inr p'"
    by (auto simp: rbind_Inr_iff)
  have "deletions_before (ci_order ci) (snd q)"
    using plan_step_deletions [OF q Cons.prems(2)] Cons.prems(4) by simp
  from Cons.IH [OF rest this] Cons.prems(3,4) show ?case by auto
qed

section \<open>Active definitions are alive\<close>

lemma dict_get_filter:
  assumes "dict_get (filter (\<lambda>(k, d). P d) ds) k = Some d"
  shows "P d \<and> (k, d) \<in> set ds"
  using dict_get_mem [OF assms] by auto

lemma dict_get_filter_ok:
  assumes "dict_ok ds"
  shows "dict_get (filter (\<lambda>(k, d). P d) ds) k = Some d \<longleftrightarrow> dict_get ds k = Some d \<and> P d"
proof -
  have "distinct (map fst (filter (\<lambda>(k, d). P d) ds))"
    using assms unfolding dict_ok_def by (rule distinct_map_filter)
  with assms show ?thesis by (auto simp: dict_get_def dict_ok_def)
qed

lemma dict_ok_store: "dict_ok ds \<Longrightarrow> dict_ok (store_declarations new ds)"
  unfolding store_declarations_def by (induction new arbitrary: ds) auto

lemma dict_ok_carry_over: "dict_ok ds \<Longrightarrow> dict_ok (carry_over ds)"
  by (auto simp: dict_ok_def carry_over_def comp_def case_prod_beta intro: distinct_map_filter)

interpretation plan_keys: guarded_step "plan_step pyd st" "\<lambda>p. dict_ok (snd p)" for pyd st
proof
  fix p p' ci
  assume ok: "dict_ok (snd p)" and "plan_step pyd st p ci = Inr p'"
  from this(2) obtain c where "plan_command st p ci c = Inr p'"
    by (rule plan_stepE)
  then show "dict_ok (snd p')"
    using ok by (cases rule: plan_command_cases) (simp_all add: dict_ok_store)
qed

lemma active_live:
  assumes "dict_ok ds" and "deletions_before n ds" and "n \<le> order"
    and "dict_get (active_definitions scopes order ds) k = Some d"
  shows "live ds k = Some d \<and> pl_scope d \<in> set scopes \<and> pl_order d < order"
proof -
  from assms(4) have get: "dict_get ds k = Some d" and act: "is_active scopes order d"
    unfolding active_definitions_def by (simp_all add: dict_get_filter_ok [OF assms(1)])
  have "pl_deleted d = None"
    using assms(2,3) get act by (force simp: is_active_def deletions_before_def split: option.splits)
  with get act show ?thesis by (simp add: live_def is_active_def)
qed

section \<open>References\<close>

lemma carry_over_no_deletions: "deletions_before n (carry_over ds)"
  by (auto simp: deletions_before_def carry_over_def dest!: dict_get_mem)

lemma sorted_orders:
  assumes "sorted (map command_key cs)"
  shows "sorted (map ci_order cs)"
  using assms
  by (auto simp: sorted_map sorted_wrt_iff_nth_less command_key_def less_eq_prod_def)
     (metis less_imp_le)

lemma foldM_split:
  assumes "foldM f s (xs @ y # ys) = Inr s'"
  obtains t u where "foldM f s xs = Inr t" and "f t y = Inr u" and "foldM f u ys = Inr s'"
  using assms by (auto simp: foldM_append rbind_Inr_iff)

lemma sorted_prefix_bounds:
  fixes f :: "'a \<Rightarrow> int"
  assumes "sorted (map f (xs @ y # ys))"
  shows "sorted (map f xs)" and "\<forall>x \<in> set xs. f (hd (xs @ [y])) \<le> f x \<and> f x \<le> f y"
    and "f (hd (xs @ [y])) \<le> f y"
  using assms by (cases xs; auto simp: sorted_append)+

text \<open>The definitions before a command of an accepted plan.\<close>

lemma plan_prefix:
  assumes "plan_inputs pyd st inputs initial = Inr p" and "dict_ok initial"
    and "sort_key command_key inputs = xs @ ci # ys"
  obtains q r where "plan_step pyd st q ci = Inr r" and "dict_ok (snd q)"
    and "deletions_before (ci_order ci) (snd q)"
    and "live (snd q) = live_after pyd st (live (carry_over initial)) xs"
proof -
  from assms(1,3) have fold: "foldM (plan_step pyd st) ([], carry_over initial) (xs @ ci # ys) = Inr p"
    by (simp add: plan_inputs_def)
  from fold obtain q r where q: "foldM (plan_step pyd st) ([], carry_over initial) xs = Inr q"
    and r: "plan_step pyd st q ci = Inr r"
    by (rule foldM_split)
  have "sorted (map command_key (xs @ ci # ys))"
    unfolding assms(3) [symmetric] by (rule sorted_sort_key)
  note bounds = sorted_prefix_bounds [OF sorted_orders [OF this]]
  have "deletions_before (ci_order ci) (snd q)"
    by (rule plan_fold_deletions [OF q _ bounds(1,2,3)]) (simp add: carry_over_no_deletions)
  moreover have "dict_ok (snd q)"
    using plan_keys.foldM_good [OF _ q] dict_ok_carry_over [OF assms(2)] by simp
  moreover have "live (snd q) = live_after pyd st (live (carry_over initial)) xs"
    using plan_fold_live [OF q] by simp
  ultimately show ?thesis using r that by blast
qed

definition ref_good :: "string \<Rightarrow> string \<Rightarrow> int \<Rightarrow> (string \<Rightarrow> planned option) \<Rightarrow> string \<times> string \<Rightarrow> bool" where
  "ref_good code st order alive r \<longleftrightarrow>
     (\<exists>d. alive (snd r) = Some d \<and> pl_scope d \<in> set (readable_scopes st) \<and> pl_order d < order \<and>
        (case dict_get type_compatibility code of None \<Rightarrow> True | Some ok \<Rightarrow> pl_type d \<in> set ok) \<and>
        (fst r = ''target'' \<longrightarrow> pl_scope d \<in> set (writable_scopes st)))"

lemma check_ref_good:
  assumes "dict_ok ds" and "deletions_before order ds"
    and "check_ref code st (active_definitions (readable_scopes st) order ds) r = Inr u"
  shows "ref_good code st order (live ds) r"
proof -
  from assms(3) obtain d where
    get: "dict_get (active_definitions (readable_scopes st) order ds) (snd r) = Some d"
    and "case dict_get type_compatibility code of None \<Rightarrow> True | Some ok \<Rightarrow> pl_type d \<in> set ok"
    and "fst r = ''target'' \<longrightarrow> pl_scope d \<in> set (writable_scopes st)"
    by (auto simp: check_ref_def rbind_Inr_iff require_iff split: option.splits)
  with active_live [OF assms(1,2) _ get] show ?thesis by (auto simp: ref_good_def)
qed

text \<open>C15. No use before declaration and none after deletion: in an accepted plan every command
  converts, and every constant it refers to is alive at that point according to the effects of
  the commands before it alone, was declared by a command of a smaller order, lies in a scope the
  section may read and has a type the command can read; what it deletes lies in a scope the section
  may write.
\<close>

theorem plan_references_alive:
  assumes "plan_inputs pyd st inputs initial = Inr p" and "dict_ok initial"
    and "sort_key command_key inputs = xs @ ci # ys"
  shows "\<exists>cfg. convert_to_config_command_type pyd (ci_cfg ci) = Inr cfg \<and>
    (\<forall>r \<in> set (definition_refs (cfg_command cfg)).
       ref_good (command_code (cfg_command cfg)) st (ci_order ci)
         (live_after pyd st (live (carry_over initial)) xs) r)"
proof -
  from plan_prefix [OF assms] obtain q r where r: "plan_step pyd st q ci = Inr r"
    and ok: "dict_ok (snd q)" "deletions_before (ci_order ci) (snd q)"
    and alive: "live (snd q) = live_after pyd st (live (carry_over initial)) xs" by blast
  from r obtain cfg where cfg: "convert_to_config_command_type pyd (ci_cfg ci) = Inr cfg"
    and "plan_command st q ci (cfg_command cfg) = Inr r"
    by (auto simp: plan_step_def rbind_Inr_iff)
  then have "validate_ref_visibility (cfg_command cfg) st (ci_order ci) (snd q) = Inr ()"
    by (auto simp: plan_command_def rbind_Inr_iff)
  then have refs: "foldM (\<lambda>_ r. check_ref (command_code (cfg_command cfg)) st
      (active_definitions (readable_scopes st) (ci_order ci) (snd q)) r) ()
      (definition_refs (cfg_command cfg)) = Inr ()"
    by (auto simp: validate_ref_visibility_def Let_def rbind_Inr_iff)
  have "ref_good (command_code (cfg_command cfg)) st (ci_order ci) (live (snd q)) r"
    if "r \<in> set (definition_refs (cfg_command cfg))" for r
    by (rule check_ref_good [OF ok foldM_unit_InrD [OF refs that]])
  with cfg show ?thesis by (auto simp: alive)
qed

definition set_input :: "int \<Rightarrow> string \<Rightarrow> string \<Rightarrow> string \<Rightarrow> command_input" where
  "set_input order cid did name =
     \<lparr>ci_id = cid, ci_order = order, ci_cfg = [(''commandCode'', JStr ''setVariable''),
       (''definitionId'', JStr did), (''name'', JStr name), (''valueType'', JStr ''json''),
       (''value'', JInt 1)]\<rparr>"

definition check_input :: "int \<Rightarrow> string \<Rightarrow> string \<Rightarrow> command_input" where
  "check_input order cid did =
     \<lparr>ci_id = cid, ci_order = order, ci_cfg = [(''commandCode'', JStr ''jsonNotEmpty''),
       (''actualRef'', JObj [(''kind'', JStr ''runtimeValue''), (''definitionId'', JStr did)])]\<rparr>"

definition delete_input :: "int \<Rightarrow> string \<Rightarrow> string \<Rightarrow> command_input" where
  "delete_input order cid did =
     \<lparr>ci_id = cid, ci_order = order, ci_cfg = [(''commandCode'', JStr ''deleteVariable''),
       (''targetRuntimeValueRef'', JObj [(''definitionId'', JStr did)])]\<rparr>"

definition sample_inputs :: "command_input list" where
  "sample_inputs = [check_input 2 ''b'' ''d1'', delete_input 3 ''c'' ''d1'', set_input 1 ''a'' ''d1'' ''x'']"

lemma sample_inputs_sorted:
  "sort_key command_key sample_inputs =
     [set_input 1 ''a'' ''d1'' ''x''] @ check_input 2 ''b'' ''d1'' # [delete_input 3 ''c'' ''d1'']"
  by (simp add: sample_inputs_def command_key_def check_input_def delete_input_def set_input_def)

theorem plan_references_alive_witness:
  "\<exists>d. live_after strict_types ''test'' (live (carry_over [])) [set_input 1 ''a'' ''d1'' ''x''] ''d1'' = Some d \<and>
     pl_scope d \<in> set (readable_scopes ''test'') \<and> pl_order d < 2"
proof -
  have "\<not> isl (plan_inputs strict_types ''test'' sample_inputs [])"
    unfolding plan_inputs_def sample_inputs_sorted by code_simp
  then obtain p where p: "plan_inputs strict_types ''test'' sample_inputs [] = Inr p"
    by (cases "plan_inputs strict_types ''test'' sample_inputs []") auto
  have conv: "convert_to_config_command_type strict_types (ci_cfg (check_input 2 ''b'' ''d1'')) =
    Inr \<lparr>cfg_type = ''assert'', cfg_command = Assert \<lparr>as_code = ''jsonNotEmpty'',
      as_error_message = None, as_object_type = ''json-data'', as_actual = RuntimeValue ''d1'',
      as_expected = JNull, as_expected_ref = None, as_compare_keys = None, as_schema = None\<rparr>\<rparr>"
    by code_simp
  have order: "ci_order (check_input 2 ''b'' ''d1'') = 2" by (simp add: check_input_def)
  from plan_references_alive [OF p _ sample_inputs_sorted] conv show ?thesis
    by (auto simp: runtime_ref_def ref_good_def order)
qed

section \<open>Names\<close>

definition bounded_scopes :: "int \<Rightarrow> (string \<Rightarrow> planned option) \<Rightarrow> bool" where
  "bounded_scopes n m \<longleftrightarrow>
     (\<forall>k d. m k = Some d \<longrightarrow> pl_order d \<le> n \<and> pl_scope d \<in> set constant_contexts)"

definition unique_names :: "(string \<Rightarrow> planned option) \<Rightarrow> bool" where
  "unique_names m \<longleftrightarrow>
     (\<forall>k k' d d'. m k = Some d \<and> m k' = Some d' \<and> pl_name d = pl_name d' \<and> pl_scope d = pl_scope d' \<longrightarrow>
        k = k')"

lemma writable_are_contexts: "set (writable_scopes st) \<subseteq> set constant_contexts"
  by (auto simp: writable_scopes_def constant_contexts_def dict_get_Cons split: if_splits option.splits)

lemma names_fun_upd_None:
  "bounded_scopes n m \<Longrightarrow> bounded_scopes n (m(k := None))"
  "unique_names m \<Longrightarrow> unique_names (m(k := None))"
proof -
  show "bounded_scopes n m \<Longrightarrow> bounded_scopes n (m(k := None))"
    by (simp add: bounded_scopes_def)
  assume "unique_names m"
  then show "unique_names (m(k := None))"
    unfolding unique_names_def by (metis fun_upd_apply option.distinct(1))
qed

text \<open>The map \<open>active_definitions\<close> that grows with the declarations covers the constants alive.\<close>

lemma declare_fold_unique:
  assumes "foldM (declare_step st) active new = Inr active'"
    and "\<forall>d \<in> set new. pl_deleted d = None"
    and "\<And>k d. live ds k = Some d \<Longrightarrow> dict_get active k = Some d"
    and "unique_names (live ds)"
  shows "unique_names (live (store_declarations new ds))"
  using assms
proof (induction new arbitrary: active ds)
  case (Cons d new)
  from Cons.prems(1) obtain active1 where a1: "declare_step st active d = Inr active1"
    and rest: "foldM (declare_step st) active1 new = Inr active'"
    by (auto simp: rbind_Inr_iff)
  from a1 have fresh: "\<forall>kv \<in> set active. \<not> (pl_name (snd kv) = pl_name d \<and> pl_scope (snd kv) = pl_scope d)"
    and a1: "active1 = dict_set (pl_id d) d active"
    by (auto simp: declare_step_def rbind_Inr_iff require_iff)
  have new_name: "\<not> (pl_name e = pl_name d \<and> pl_scope e = pl_scope d)" if "live ds k = Some e" for k e
    using fresh dict_get_mem [OF Cons.prems(3) [OF that]] by auto
  have alive: "live (dict_set (pl_id d) d ds) = (live ds)(pl_id d \<mapsto> d)"
    using Cons.prems(2) by (simp add: live_dict_set)
  have "unique_names (live (dict_set (pl_id d) d ds))"
    using Cons.prems(4) new_name unfolding unique_names_def alive
    by (metis fun_upd_apply option.inject)
  moreover have "dict_get active1 k = Some e" if "live (dict_set (pl_id d) d ds) k = Some e" for k e
    using that Cons.prems(3) by (auto simp: a1 alive split: if_splits)
  ultimately have "unique_names (live (store_declarations new (dict_set (pl_id d) d ds)))"
    using Cons.IH [OF rest] Cons.prems(2) by simp
  then show ?case by (simp add: store_declarations_def)
qed (simp add: store_declarations_def)

lemma declare_fold_writable:
  "foldM (declare_step st) active new = Inr active' \<Longrightarrow> d \<in> set new \<Longrightarrow>
    pl_scope d \<in> set (writable_scopes st)"
  by (induction new arbitrary: active) (auto simp: rbind_Inr_iff declare_step_def require_iff)

lemma bounded_scopes_fold:
  assumes "bounded_scopes n m" and "\<forall>d \<in> set new. pl_order d \<le> n \<and> pl_scope d \<in> set constant_contexts"
  shows "bounded_scopes n (foldl (\<lambda>m d. m(pl_id d \<mapsto> d)) m new)"
  using assms
proof (induction new arbitrary: m)
  case (Cons d new)
  from Cons.prems have "bounded_scopes n (m(pl_id d \<mapsto> d))" by (auto simp: bounded_scopes_def)
  with Cons.IH [OF this] Cons.prems(2) show ?case by simp
qed simp

lemma plan_step_names:
  assumes "plan_step pyd st p ci = Inr p'" and "dict_ok (snd p)" and "n \<le> ci_order ci"
    and "bounded_scopes n (live (snd p))" and "unique_names (live (snd p))"
  shows "bounded_scopes (ci_order ci) (live (snd p')) \<and> unique_names (live (snd p'))"
proof -
  have bound: "bounded_scopes (ci_order ci) (live (snd p))"
    using assms(3,4) by (force simp: bounded_scopes_def)
  from assms(1) obtain c where "plan_command st p ci c = Inr p'" by (rule plan_stepE)
  then show ?thesis
  proof (cases rule: plan_command_cases)
    case (removes did d)
    then have "live (snd p') = (live (snd p))(did := None)" by (simp add: live_dict_set)
    with bound assms(5) show ?thesis by (simp add: names_fun_upd_None)
  next
    case (adds new)
    from adds(3) obtain active' where
      fold: "foldM (declare_step st) (active_definitions constant_contexts (ci_order ci + 1) (snd p)) new
        = Inr active'"
      by (auto simp: validate_declarations_def Let_def rbind_Inr_iff)
    have none: "\<forall>d \<in> set new. pl_deleted d = None"
      using adds(2) planned_declarations_alive by blast
    have covered: "dict_get (active_definitions constant_contexts (ci_order ci + 1) (snd p)) k = Some d"
      if "live (snd p) k = Some d" for k d
      using that bound
      by (auto simp: active_definitions_def dict_get_filter_ok [OF assms(2)] is_active_def
          bounded_scopes_def live_def split: option.splits if_splits)
    have "\<forall>d \<in> set new. pl_order d \<le> ci_order ci \<and> pl_scope d \<in> set constant_contexts"
      using adds(2) planned_declarations_alive declare_fold_writable [OF fold] writable_are_contexts
      by fastforce
    from bounded_scopes_fold [OF bound this] declare_fold_unique [OF fold none covered assms(5)]
    show ?thesis by (simp add: adds(4) live_store [OF none])
  qed
qed

lemma plan_fold_names:
  assumes "foldM (plan_step pyd st) p cs = Inr p'" and "dict_ok (snd p)"
    and "sorted (map ci_order cs)" and "\<forall>ci \<in> set cs. n \<le> ci_order ci"
    and "bounded_scopes n (live (snd p))" and "unique_names (live (snd p))"
  shows "unique_names (live (snd p'))"
  using assms
proof (induction cs arbitrary: p n)
  case (Cons ci cs)
  from Cons.prems(1) obtain q where q: "plan_step pyd st p ci = Inr q"
    and rest: "foldM (plan_step pyd st) q cs = Inr p'"
    by (auto simp: rbind_Inr_iff)
  have "bounded_scopes (ci_order ci) (live (snd q))" "unique_names (live (snd q))"
    using plan_step_names [OF q Cons.prems(2) _ Cons.prems(5,6)] Cons.prems(4) by simp_all
  from Cons.IH [OF rest plan_keys.step_good [OF Cons.prems(2) q] _ _ this] Cons.prems(3)
  show ?case by simp
qed simp

lemma live_carry_over:
  assumes "dict_ok ds"
  shows "live (carry_over ds) k = map_option (\<lambda>d. d\<lparr>pl_order := 0\<rparr>) (live ds k)"
proof -
  have ok: "dict_ok (filter (\<lambda>(k, d). pl_deleted d = None) ds)"
    using assms by (auto simp: dict_ok_def intro: distinct_map_filter)
  have "dict_get (carry_over ds) k =
      map_option (\<lambda>d. d\<lparr>pl_order := 0\<rparr>) (dict_get (filter (\<lambda>(k, d). pl_deleted d = None) ds) k)"
    by (simp add: carry_over_def dict_get_def map_of_map)
  also have "dict_get (filter (\<lambda>(k, d). pl_deleted d = None) ds) k = live ds k"
  proof -
    have "dict_get (filter (\<lambda>(k, d). pl_deleted d = None) ds) k = Some d \<longleftrightarrow> live ds k = Some d" for d
      by (auto simp: dict_get_filter_ok [OF assms] live_def split: option.splits)
    then show ?thesis by (metis option.exhaust)
  qed
  finally have get: "dict_get (carry_over ds) k = map_option (\<lambda>d. d\<lparr>pl_order := 0\<rparr>) (live ds k)" .
  have "live ds k = Some d \<Longrightarrow> pl_deleted d = None" for d
    by (auto simp: live_def split: option.splits if_splits)
  then show ?thesis
    by (cases "live ds k") (simp_all add: live_def [of "carry_over ds"] get)
qed

text \<open>Names are unique among the constants alive: an accepted plan that starts from constants
  with different names in each scope, in the four scopes of a run, ends with such constants, so a
  name and a scope identify one definition for the references of the sections that follow.
\<close>

theorem plan_names_unique:
  assumes "plan_inputs pyd st inputs initial = Inr p" and "dict_ok initial"
    and "\<forall>ci \<in> set inputs. 0 \<le> ci_order ci"
    and "unique_names (live initial)"
    and "\<forall>k d. live initial k = Some d \<longrightarrow> pl_scope d \<in> set constant_contexts"
  shows "unique_names (live (snd p)) \<and> dict_ok (snd p)"
proof -
  have fold: "foldM (plan_step pyd st) ([], carry_over initial) (sort_key command_key inputs) = Inr p"
    using assms(1) by (simp add: plan_inputs_def)
  have carried: "\<exists>e. live initial k = Some e \<and> d = e\<lparr>pl_order := 0\<rparr>"
    if "live (carry_over initial) k = Some d" for k d
    using that by (auto simp: live_carry_over [OF assms(2)])
  have "bounded_scopes 0 (live (carry_over initial))"
    unfolding bounded_scopes_def using carried assms(5) by fastforce
  moreover have "unique_names (live (carry_over initial))"
    unfolding unique_names_def
  proof (intro allI impI, elim conjE)
    fix k k' d d'
    assume d: "live (carry_over initial) k = Some d" "live (carry_over initial) k' = Some d'"
      and same: "pl_name d = pl_name d'" "pl_scope d = pl_scope d'"
    from carried [OF d(1)] carried [OF d(2)] obtain e e' where
      "live initial k = Some e" "live initial k' = Some e'"
      "d = e\<lparr>pl_order := 0\<rparr>" "d' = e'\<lparr>pl_order := 0\<rparr>" by blast
    moreover from this same have "pl_name e = pl_name e'" "pl_scope e = pl_scope e'" by simp_all
    ultimately show "k = k'" using assms(4) unfolding unique_names_def by blast
  qed
  ultimately have "unique_names (live (snd p))"
    using plan_fold_names [OF fold] assms(3) dict_ok_carry_over [OF assms(2)]
      sorted_orders [OF sorted_sort_key] by simp
  moreover have "dict_ok (snd p)"
    using plan_keys.foldM_good [OF _ fold] dict_ok_carry_over [OF assms(2)] by simp
  ultimately show ?thesis ..
qed

lemma names_empty: "unique_names (\<lambda>k. None)"
  by (simp add: unique_names_def)

theorem plan_names_unique_witness:
  "\<exists>p. plan_inputs strict_types ''test'' [set_input 1 ''a'' ''d1'' ''x'', set_input 2 ''b'' ''d2'' ''y''] [] = Inr p \<and>
     unique_names (live (snd p)) \<and> map fst (snd p) = [''d1'', ''d2'']"
proof -
  let ?inputs = "[set_input 1 ''a'' ''d1'' ''x'', set_input 2 ''b'' ''d2'' ''y'']"
  have sorted: "sort_key command_key ?inputs = ?inputs"
    by (simp add: command_key_def set_input_def)
  have "case plan_inputs strict_types ''test'' ?inputs [] of
      Inl _ \<Rightarrow> False | Inr p \<Rightarrow> map fst (snd p) = [''d1'', ''d2'']"
    unfolding plan_inputs_def sorted by code_simp
  then obtain p where p: "plan_inputs strict_types ''test'' ?inputs [] = Inr p"
    and keys: "map fst (snd p) = [''d1'', ''d2'']"
    by (cases "plan_inputs strict_types ''test'' ?inputs []") auto
  have empty: "live [] = (\<lambda>k. None)" by (simp add: live_def fun_eq_iff)
  have orders: "\<forall>ci \<in> set ?inputs. 0 \<le> ci_order ci" by (simp add: set_input_def)
  have "unique_names (live (snd p)) \<and> dict_ok (snd p)"
    using plan_names_unique [OF p _ orders] by (simp add: empty names_empty)
  with p keys show ?thesis by (intro exI [of _ p]) simp
qed

section \<open>The stored definitions\<close>

interpretation plan_stored: guarded_step "plan_step pyd st" "\<lambda>p. \<forall>d \<in> set (fst p). pl_deleted d = None"
  for pyd st
proof
  fix p p' ci
  assume alive: "\<forall>d \<in> set (fst p). pl_deleted d = None" and "plan_step pyd st p ci = Inr p'"
  from this(2) obtain c where "plan_command st p ci c = Inr p'" by (rule plan_stepE)
  then show "\<forall>d \<in> set (fst p'). pl_deleted d = None"
    using alive planned_declarations_alive by (cases rule: plan_command_cases) auto
qed

text \<open>A deletion never reaches the definitions that are stored: \<open>deleteVariable\<close> replaces the
  entry of the map, while the list that \<open>rebuild_suite_constant_definitions\<close> stores keeps the
  object from before, so every stored definition has an empty \<open>deleted_at_order\<close>, including
  those the plan knows to be deleted.
\<close>

theorem stored_never_deleted:
  assumes "plan_inputs pyd st inputs initial = Inr p"
  shows "\<forall>d \<in> set (fst p). pl_deleted d = None"
  using assms plan_stored.foldM_good [of "([], carry_over initial)"]
  by (simp add: plan_inputs_def)

theorem stored_never_deleted_witness:
  "\<exists>p d. plan_inputs strict_types ''test'' sample_inputs [] = Inr p \<and> fst p = [d] \<and>
     pl_id d = ''d1'' \<and> pl_deleted d = None \<and> map_option pl_deleted (dict_get (snd p) ''d1'') = Some (Some 3)"
proof -
  have "case plan_inputs strict_types ''test'' sample_inputs [] of
      Inl _ \<Rightarrow> False
    | Inr p \<Rightarrow> map pl_id (fst p) = [''d1''] \<and> map_option pl_deleted (dict_get (snd p) ''d1'') = Some (Some 3)"
    unfolding plan_inputs_def sample_inputs_sorted by code_simp
  then obtain p where p: "plan_inputs strict_types ''test'' sample_inputs [] = Inr p"
    and ids: "map pl_id (fst p) = [''d1'']"
    and del: "map_option pl_deleted (dict_get (snd p) ''d1'') = Some (Some 3)"
    by (cases "plan_inputs strict_types ''test'' sample_inputs []") auto
  from ids obtain d where d: "fst p = [d]" "pl_id d = ''d1''" by auto
  with stored_never_deleted [OF p] p del show ?thesis by auto
qed

section \<open>Order of arrival\<close>

text \<open>The order in which the commands of an item arrive does not matter: where their pairs of
  order and identifier differ, the plan of every arrangement of them is the same, accepted or
  refused.
\<close>

theorem plan_order_irrelevant:
  assumes "mset inputs = mset inputs'" and "inj_on command_key (set inputs)"
  shows "plan_inputs pyd st inputs initial = plan_inputs pyd st inputs' initial"
proof -
  have "sort_key command_key inputs = sort_key command_key inputs'"
    by (rule sort_key_inj_key_eq) (use assms sorted_sort_key in \<open>auto\<close>)
  then show ?thesis by (simp add: plan_inputs_def)
qed

theorem plan_order_irrelevant_witness:
  "plan_inputs strict_types ''test'' sample_inputs [] = plan_inputs strict_types ''test'' (rev sample_inputs) []"
  by (rule plan_order_irrelevant)
     (simp_all add: sample_inputs_def command_key_def check_input_def delete_input_def set_input_def)

section \<open>The plan and the policy\<close>

lemma constant_path_dotted: "constant_path s n = dotted [s, ''constants'', n]"
  by (simp add: constant_path_def dotted_def join_with_def)

lemma constant_path_root:
  assumes "s \<in> set [''local'', ''result'']" and "plain_key n"
  shows "extract_context_root (constant_path s n) = Inr (Some s)"
proof -
  have "s \<in> set scope_names" using assms(1) by (auto simp: scope_names_def)
  then have "plain_key s" by (rule plain_scope_name)
  moreover have "plain_key ''constants''" by (simp add: plain_key_def) code_simp
  ultimately show ?thesis
    using assms unfolding constant_path_dotted by (subst context_root_dotted) auto
qed

lemma test_contracts: "\<forall>(n, ct) \<in> set contracts. ''test'' \<in> set (ct_scopes ct)"
  by code_simp

lemma plan_member_step:
  assumes "plan_inputs pyd st inputs initial = Inr p" and "ci \<in> set inputs"
  obtains q r where "plan_step pyd st q ci = Inr r"
proof -
  from assms(2) have "ci \<in> set (sort_key command_key inputs)" by simp
  then obtain xs ys where "sort_key command_key inputs = xs @ ci # ys" by (meson split_list)
  with assms(1) have "foldM (plan_step pyd st) ([], carry_over initial) (xs @ ci # ys) = Inr p"
    by (simp add: plan_inputs_def)
  then show ?thesis by (rule foldM_split) (use that in blast)
qed

text \<open>The paths a command of an accepted test plan writes, other than an explicit target.\<close>

lemma planned_path_roots:
  assumes "validate_declarations c ''test'' order ds cid = Inr new"
    and "\<forall>d \<in> set (planned_declarations c cid order ''test''). plain_key (pl_name d)"
    and "t \<in> set (declared_paths c) \<union> set (case result_constant_of c of
      None \<Rightarrow> [] | Some r \<Rightarrow> if rc_name r \<noteq> [] then [constant_path ''result'' (rc_name r)] else [])"
  shows "\<exists>s \<in> set [''local'', ''result'']. extract_context_root t = Inr (Some s)"
proof -
  obtain active' where fold: "foldM (declare_step ''test'')
      (active_definitions constant_contexts (order + 1) ds) (planned_declarations c cid order ''test'') = Inr active'"
    using assms(1) by (auto simp: validate_declarations_def Let_def rbind_Inr_iff)
  have writable: "set (writable_scopes ''test'') = set [''local'', ''result'']"
    by (simp add: writable_scopes_def dict_get_Cons)
  have "\<exists>d \<in> set (planned_declarations c cid order ''test''). t = constant_path (pl_scope d) (pl_name d)"
    using assms(3)
  proof
    assume "t \<in> set (declared_paths c)"
    then show ?thesis
      by (cases c) (auto simp: planned_declarations_def or_text_def split: if_splits)
  next
    assume "t \<in> set (case result_constant_of c of
      None \<Rightarrow> [] | Some r \<Rightarrow> if rc_name r \<noteq> [] then [constant_path ''result'' (rc_name r)] else [])"
    then obtain r where "result_constant_of c = Some r" and "t = constant_path ''result'' (rc_name r)"
      by (cases "result_constant_of c") (auto split: if_splits)
    then show ?thesis by (simp add: planned_declarations_def)
  qed
  then obtain d where d: "d \<in> set (planned_declarations c cid order ''test'')"
    and t: "t = constant_path (pl_scope d) (pl_name d)" by blast
  have "pl_scope d \<in> set [''local'', ''result'']"
    using declare_fold_writable [OF fold d] writable by blast
  with constant_path_root [of "pl_scope d" "pl_name d"] assms(2) d t show ?thesis by blast
qed

text \<open>The policy never stops a test that the graph accepted: a command of an accepted plan of a
  test passes the policy of the test scope at run time, with the contract of its code, when the
  names it declares are plain and any explicit target starts at a scope a test may write. The
  graph itself does not look at explicit targets.
\<close>

theorem accepted_test_passes_policy:
  assumes "plan_inputs pyd ''test'' inputs initial = Inr p" and "ci \<in> set inputs"
    and "convert_to_config_command_type pyd (ci_cfg ci) = Inr cfg"
    and "\<forall>d \<in> set (planned_declarations (cfg_command cfg) (ci_id ci) (ci_order ci) ''test'').
      plain_key (pl_name d)"
    and "\<forall>t. target_of (cfg_command cfg) = Some t \<longrightarrow> check_target_root (Some ''test'') t = Inr ()"
  shows "\<exists>ct. validate_operation_policy (cfg_command cfg) (Some ''test'') = Inr ct"
proof -
  define c where "c = cfg_command cfg"
  from plan_member_step [OF assms(1,2)] obtain q r where "plan_step pyd ''test'' q ci = Inr r" .
  with assms(3) have step: "plan_command ''test'' q ci c = Inr r"
    by (simp add: plan_step_def c_def)
  have roots: "check_target_root (Some ''test'') t = Inr ()" if "t \<in> set (collect_target_paths c)" for t
  proof (cases "target_of c = Some t")
    case True
    with assms(5) show ?thesis by (simp add: c_def)
  next
    case False
    from step show ?thesis
    proof (cases rule: plan_command_cases)
      case (removes did d)
      with that show ?thesis by (simp add: collect_target_paths_def text_of_def)
    next
      case (adds new)
      have "t \<in> set (declared_paths c) \<union> set (case result_constant_of c of
          None \<Rightarrow> [] | Some r \<Rightarrow> if rc_name r \<noteq> [] then [constant_path ''result'' (rc_name r)] else [])"
        using that False
        by (auto simp: collect_target_paths_def text_of_def split: if_splits option.splits)
      from planned_path_roots [OF adds(3) _ this] assms(4)
      show ?thesis by (auto simp: check_target_root_iff c_def)
    qed
  qed
  from converted_contract [OF assms(3)] obtain ct where
    ct: "get_operation_contract (command_code c) = Some ct" and code: "py_strip (command_code c) = command_code c"
    by (auto simp: c_def)
  have "''test'' \<in> set (ct_scopes ct)"
    using bspec [OF test_contracts map_of_SomeD [OF ct [unfolded get_operation_contract_def]]] by simp
  then have "validate_scope_rules ct (Some ''test'') = Inr ()"
    using validate_scope_rules_iff [OF ct] by simp
  moreover have "validate_target_roots (collect_target_paths c) (Some ''test'') = Inr ()"
    using roots by (simp add: validate_target_roots_iff)
  ultimately have "validate_operation_policy c (Some ''test'') = Inr ct"
    by (simp add: validate_operation_policy_def code ct)
  then show ?thesis by (auto simp: c_def)
qed

theorem accepted_test_passes_policy_witness:
  "\<exists>cfg ct. convert_to_config_command_type strict_types (ci_cfg (set_input 1 ''a'' ''d1'' ''x'')) = Inr cfg \<and>
     validate_operation_policy (cfg_command cfg) (Some ''test'') = Inr ct"
proof -
  let ?ci = "set_input 1 ''a'' ''d1'' ''x''"
  have "\<not> isl (plan_inputs strict_types ''test'' [?ci] [])"
    unfolding plan_inputs_def by code_simp
  then obtain p where p: "plan_inputs strict_types ''test'' [?ci] [] = Inr p"
    by (cases "plan_inputs strict_types ''test'' [?ci] []") auto
  let ?c = "SetVariable \<lparr>sv_definition = ''d1'', sv_name = ''x'', sv_context = ''local'',
    sv_value_type = ''json'', sv_value = JInt 1, sv_function = None, sv_target = None\<rparr>"
  have conv: "convert_to_config_command_type strict_types (ci_cfg ?ci) =
      Inr \<lparr>cfg_type = ''context'', cfg_command = ?c\<rparr>"
    by code_simp
  have "plain_key ''x''" by (simp add: plain_key_def) code_simp
  then have "\<forall>d \<in> set (planned_declarations ?c (ci_id ?ci) (ci_order ?ci) ''test''). plain_key (pl_name d)"
    by (simp add: planned_declarations_def)
  with accepted_test_passes_policy [OF p _ conv] conv show ?thesis by auto
qed

end
