(* ===== verification/JsonText.thy ===== *)
theory JsonText
  imports Prelude
begin

text \<open>
  \<open>json.dumps\<close> of Python's standard library, as the event stream and the assertions use it: ASCII
  output, the separators \<open>, \<close> and \<open>: \<close>, and keys sorted on request.
\<close>

section \<open>Text\<close>

definition json_escape :: "char \<Rightarrow> string" where
  "json_escape c =
     (if c = CHR 0x22 then [CHR 0x5C, CHR 0x22]
      else if c = CHR 0x5C then [CHR 0x5C, CHR 0x5C]
      else if c = CHR 0x0A then [CHR 0x5C, CHR ''n'']
      else if c = CHR 0x0D then [CHR 0x5C, CHR ''r'']
      else if c = CHR 0x09 then [CHR 0x5C, CHR ''t'']
      else if c = CHR 0x0C then [CHR 0x5C, CHR ''f'']
      else if c = CHR 0x08 then [CHR 0x5C, CHR ''b'']
      else (let n = of_char c :: nat in
        if 32 \<le> n \<and> n \<le> 126 then [c]
        else [CHR 0x5C, CHR ''u'', CHR ''0'', CHR ''0'', hex_digit (n div 16), hex_digit (n mod 16)]))"

definition json_quote :: "string \<Rightarrow> string" where
  "json_quote s = CHR 0x22 # concat (map json_escape s) @ [CHR 0x22]"

fun json_dumps :: "json \<Rightarrow> string" where
  "json_dumps JNull = ''null''"
| "json_dumps (JBool b) = (if b then ''true'' else ''false'')"
| "json_dumps (JInt i) = int_text i"
| "json_dumps (JFloat q r) = r"
| "json_dumps (JStr s) = json_quote s"
| "json_dumps (JList xs) = ''['' @ join_with '', '' (map json_dumps xs) @ '']''"
| "json_dumps (JObj d) =
     ''{'' @ join_with '', '' (map (\<lambda>kv. json_quote (fst kv) @ '': '' @ json_dumps (snd kv)) d) @ ''}''"

text \<open>\<open>sort_keys=True\<close>: the items of every dictionary in the order of their keys.\<close>

fun sort_keys :: "json \<Rightarrow> json" where
  "sort_keys (JList xs) = JList (map sort_keys xs)"
| "sort_keys (JObj d) = JObj (sort_key fst (map (\<lambda>kv. (fst kv, sort_keys (snd kv))) d))"
| "sort_keys v = v"

section \<open>The output is printable ASCII\<close>

definition ascii_char :: "char \<Rightarrow> bool" where
  "ascii_char c \<longleftrightarrow> 32 \<le> (of_char c :: nat) \<and> (of_char c :: nat) \<le> 126"

definition ascii_text :: "string \<Rightarrow> bool" where
  "ascii_text s \<longleftrightarrow> (\<forall>c \<in> set s. ascii_char c)"

fun float_texts_ok :: "json \<Rightarrow> bool" where
  "float_texts_ok (JFloat q r) = ascii_text r"
| "float_texts_ok (JList xs) = (\<forall>x \<in> set xs. float_texts_ok x)"
| "float_texts_ok (JObj d) = (\<forall>kv \<in> set d. float_texts_ok (snd kv))"
| "float_texts_ok _ = True"

lemma ascii_text_simps [simp]:
  "ascii_text []"
  "ascii_text (c # s) \<longleftrightarrow> ascii_char c \<and> ascii_text s"
  "ascii_text (s @ t) \<longleftrightarrow> ascii_text s \<and> ascii_text t"
  by (auto simp: ascii_text_def)

lemma ascii_text_concat: "(\<And>s. s \<in> set ss \<Longrightarrow> ascii_text s) \<Longrightarrow> ascii_text (concat ss)"
  by (auto simp: ascii_text_def)

lemma ascii_char_hex_digit: "n < 16 \<Longrightarrow> ascii_char (hex_digit n)"
  by (auto simp: hex_digit_def ascii_char_def)

lemma of_char_less: "(of_char c :: nat) < 256"
  using nat_of_char_less_256 by blast

lemma ascii_escape: "ascii_text (json_escape c)"
proof -
  have "(of_char c :: nat) div 16 < 16" using of_char_less [of c] by linarith
  then have "ascii_char (hex_digit (of_char c div 16))" "ascii_char (hex_digit (of_char c mod 16))"
    by (simp_all add: ascii_char_hex_digit)
  then show ?thesis
    by (simp add: json_escape_def Let_def) (simp add: ascii_char_def)
qed

lemma ascii_quote: "ascii_text (json_quote s)"
  by (auto simp: json_quote_def ascii_escape intro!: ascii_text_concat) (simp_all add: ascii_char_def)

lemma ascii_nat_text: "ascii_text (nat_text n)"
proof (induction n rule: nat_text.induct)
  case (1 n)
  have "(48 + n mod 10) mod 256 = 48 + n mod 10" by simp
  with 1 show ?case
    by (subst nat_text.simps) (auto simp: ascii_char_def)
qed

lemma ascii_int_text: "ascii_text (int_text i)"
  by (simp add: int_text_def ascii_nat_text) (simp add: ascii_char_def)

lemma ascii_join: "ascii_text sep \<Longrightarrow> (\<And>s. s \<in> set ss \<Longrightarrow> ascii_text s) \<Longrightarrow> ascii_text (join_with sep ss)"
proof (induction ss)
  case (Cons s ss)
  then show ?case by (cases ss) (auto simp: join_with_def)
qed (simp add: join_with_def)

lemma ascii_literals:
  "ascii_text ''null''" "ascii_text ''true''" "ascii_text ''false''" "ascii_text '', ''" "ascii_text '': ''"
  "ascii_char (CHR '','')" "ascii_char (CHR '' '')" "ascii_char (CHR '':'')"
  "ascii_char (CHR ''['')" "ascii_char (CHR '']'')" "ascii_char (CHR ''{'')" "ascii_char (CHR ''}'')"
  by (simp_all add: ascii_char_def)

lemma ascii_dumps: "float_texts_ok j \<Longrightarrow> ascii_text (json_dumps j)"
proof (induction j)
  case (JList xs)
  then show ?case by (auto simp: ascii_literals intro!: ascii_join)
next
  case (JObj d)
  have "ascii_text (json_quote (fst kv) @ '': '' @ json_dumps (snd kv))" if "kv \<in> set d" for kv
    using JObj.IH [OF that, of "snd kv"] JObj.prems that
    by (simp add: ascii_quote ascii_literals snds.intros)
  then show ?case by (auto simp: ascii_literals intro!: ascii_join)
qed (auto simp: ascii_char_def ascii_int_text ascii_quote)

text \<open>What the readers of the stream rely on: no line break inside, no space around.\<close>

lemma ascii_no_break: "ascii_text s \<Longrightarrow> CHR 0x0A \<notin> set s"
  by (auto simp: ascii_text_def ascii_char_def)

lemma json_quote_start: "hd (json_quote s) = CHR 0x22" "json_quote s \<noteq> []"
  by (simp_all add: json_quote_def)

end
