(* ===== verification/EventBus.thy ===== *)
theory EventBus
  imports JsonText
begin

text \<open>
  The bus that carries execution events to the clients
  (\<open>app/elaborations/services/suite_runs/execution_event_bus.py\<close>), the client side that parses
  the stream (\<open>app/ui/test_suites/services/execution_stream_service.py\<close>), and the variables that
  identify the current execution (\<open>execution_runtime_context.py\<close>).

  A queue is named by a number; \<open>eb_queues\<close> holds its contents. Publishing is two steps, as in the
  code: the critical section, which appends to the history and copies the list of subscribers, and
  the deliveries, one \<open>put_nowait\<close> each, outside the lock.
\<close>

section \<open>Frames\<close>

definition line_break :: string where
  "line_break = [CHR 0x0A]"

definition serialize_sse_frame :: "string \<Rightarrow> json \<Rightarrow> string" where
  "serialize_sse_frame event_name payload =
     ''event: '' @ event_name @ line_break @ ''data: '' @ json_dumps payload @ line_break @ line_break"

text \<open>\<open>{"execution_id": ..., "event": ..., "timestamp": ..., **payload}\<close>.\<close>

definition event_payload :: "string \<Rightarrow> string \<Rightarrow> string \<Rightarrow> json dict \<Rightarrow> json" where
  "event_payload execution_id event_name timestamp payload =
     JObj (dict_update [(''execution_id'', JStr execution_id), (''event'', JStr event_name),
       (''timestamp'', JStr timestamp)] payload)"

section \<open>The bus\<close>

definition history_size :: nat where "history_size = 500"

definition queue_size :: nat where "queue_size = 1000"

record event_bus =
  eb_subscribers :: "nat list dict"
  eb_history :: "string list dict"
  eb_queues :: "nat \<Rightarrow> string list"
  eb_next :: nat

definition empty_bus :: event_bus where
  "empty_bus = \<lparr>eb_subscribers = [], eb_history = [], eb_queues = (\<lambda>_. []), eb_next = 0\<rparr>"

definition subscribers_of :: "event_bus \<Rightarrow> string \<Rightarrow> nat list" where
  "subscribers_of b eid = (case dict_get (eb_subscribers b) eid of None \<Rightarrow> [] | Some qs \<Rightarrow> qs)"

definition history_of :: "event_bus \<Rightarrow> string \<Rightarrow> string list" where
  "history_of b eid = (case dict_get (eb_history b) eid of None \<Rightarrow> [] | Some fs \<Rightarrow> fs)"

text \<open>A \<open>deque\<close> with \<open>maxlen\<close> drops from the left.\<close>

definition keep_last :: "nat \<Rightarrow> 'a list \<Rightarrow> 'a list" where
  "keep_last n xs = drop (length xs - n) xs"

definition publish_locked :: "string \<Rightarrow> string \<Rightarrow> event_bus \<Rightarrow> nat list \<times> event_bus" where
  "publish_locked eid frame b =
     (subscribers_of b eid,
      b\<lparr>eb_history := dict_set eid (keep_last history_size (history_of b eid @ [frame])) (eb_history b)\<rparr>)"

definition put_nowait :: "nat \<Rightarrow> string \<Rightarrow> event_bus \<Rightarrow> event_bus" where
  "put_nowait q frame b =
     (if length (eb_queues b q) < queue_size
      then b\<lparr>eb_queues := (eb_queues b)(q := eb_queues b q @ [frame])\<rparr> else b)"

definition publish_execution_event :: "string \<Rightarrow> string \<Rightarrow> string \<Rightarrow> json dict \<Rightarrow> event_bus \<Rightarrow> event_bus" where
  "publish_execution_event eid event_name timestamp payload b =
     (if eid = [] then b
      else (let frame = serialize_sse_frame event_name (event_payload eid event_name timestamp payload);
                (qs, b') = publish_locked eid frame b
            in foldl (\<lambda>acc q. put_nowait q frame acc) b' qs))"

definition subscribe_to_execution :: "string \<Rightarrow> event_bus \<Rightarrow> (nat \<times> string list) \<times> event_bus" where
  "subscribe_to_execution eid b =
     (let q = eb_next b in
      ((q, history_of b eid),
       b\<lparr>eb_subscribers := dict_set eid (subscribers_of b eid @ [q]) (eb_subscribers b),
         eb_queues := (eb_queues b)(q := []), eb_next := q + 1\<rparr>))"

definition unsubscribe_from_execution :: "string \<Rightarrow> nat \<Rightarrow> event_bus \<Rightarrow> event_bus" where
  "unsubscribe_from_execution eid q b =
     (let rest = remove1 q (subscribers_of b eid) in
      b\<lparr>eb_subscribers := (if rest = [] then dict_del eid (eb_subscribers b)
                           else dict_set eid rest (eb_subscribers b))\<rparr>)"

text \<open>\<open>queue.get\<close>: the oldest frame, if there is one before the timeout.\<close>

definition queue_get :: "nat \<Rightarrow> event_bus \<Rightarrow> (string \<times> event_bus) option" where
  "queue_get q b =
     (case eb_queues b q of
        [] \<Rightarrow> None
      | f # fs \<Rightarrow> Some (f, b\<lparr>eb_queues := (eb_queues b)(q := fs)\<rparr>))"

section \<open>The stream of a client\<close>

definition finished_mark :: string where
  "finished_mark = ''event: execution_finished''"

definition is_finished :: "string \<Rightarrow> bool" where
  "is_finished frame \<longleftrightarrow> contains_sub finished_mark frame"

definition heartbeat_frame :: "string \<Rightarrow> string \<Rightarrow> string" where
  "heartbeat_frame eid timestamp = serialize_sse_frame ''heartbeat''
     (JObj [(''execution_id'', JStr eid), (''event'', JStr ''heartbeat''), (''timestamp'', JStr timestamp)])"

text \<open>
  \<open>stream_execution_events\<close> over what its queue gives: a frame, or a time at which the wait timed
  out. The result is what is yielded, and whether the generator ended by itself.
\<close>

fun stream_live :: "string \<Rightarrow> (string + string) list \<Rightarrow> string list \<times> bool" where
  "stream_live eid [] = ([], False)"
| "stream_live eid (Inl timestamp # rest) =
     (let (ys, done) = stream_live eid rest in (heartbeat_frame eid timestamp # ys, done))"
| "stream_live eid (Inr frame # rest) =
     (if is_finished frame then ([frame], True)
      else (let (ys, done) = stream_live eid rest in (frame # ys, done)))"

definition stream_execution_events :: "string \<Rightarrow> string list \<Rightarrow> (string + string) list \<Rightarrow> string list \<times> bool" where
  "stream_execution_events eid history received =
     (if list_ex is_finished history then (history, True)
      else (let (ys, done) = stream_live eid received in (history @ ys, done)))"

section \<open>The reader of the stream\<close>

text \<open>
  \<open>_iter_sse_events\<close> over the lines of the response: the name of the current event and its lines of
  data. \<open>str.strip\<close> runs on every line. Parsing the data is \<open>json.loads\<close>, so the model gives its
  text.
\<close>

definition after_colon :: "string \<Rightarrow> string" where
  "after_colon line = (case split_on (CHR '':'') line of [] \<Rightarrow> [] | _ # rest \<Rightarrow> join_with '':'' rest)"

fun iter_sse_events :: "string list \<Rightarrow> string \<Rightarrow> string list \<Rightarrow> (string \<times> string) list" where
  "iter_sse_events [] event_name data = []"
| "iter_sse_events (raw # rest) event_name data =
     (let line = py_strip raw in
      if line = [] then
        (if data = [] then iter_sse_events rest ''message'' []
         else (event_name, join_with line_break data) # iter_sse_events rest ''message'' [])
      else if starts_with '':'' line then iter_sse_events rest event_name data
      else if starts_with ''event:'' line
        then iter_sse_events rest (or_text (py_strip (after_colon line)) ''message'') data
      else if starts_with ''data:'' line
        then iter_sse_events rest event_name (data @ [py_lstrip (after_colon line)])
      else iter_sse_events rest event_name data)"

end
