(* ===== verification/EventBusProps.thy ===== *)
theory EventBusProps
  imports EventBus "HOL-Library.Multiset"
begin

text \<open>
  What the event bus promises under concurrency: publishers, subscribers and readers interleave,
  each step being one of the operations of the bus.
\<close>

section \<open>Interleavings\<close>

text \<open>
  The bus of one execution with the publishers that have left the critical section: the frame each
  carries and the queues it still has to fill. The log, the frames taken and dropped, and where and
  with which history a client joined are recorded for the statements only.
\<close>

record bus_state =
  bs_bus :: event_bus
  bs_flight :: "(string \<times> nat list) list"
  bs_log :: "string list"
  bs_taken :: "nat \<Rightarrow> string list"
  bs_dropped :: "nat \<Rightarrow> string list"
  bs_start :: "nat \<Rightarrow> nat"
  bs_snapshot :: "nat \<Rightarrow> string list"

definition initial_bus_state :: bus_state where
  "initial_bus_state = \<lparr>bs_bus = empty_bus, bs_flight = [], bs_log = [], bs_taken = (\<lambda>_. []),
     bs_dropped = (\<lambda>_. []), bs_start = (\<lambda>_. 0), bs_snapshot = (\<lambda>_. [])\<rparr>"

inductive bus_step :: "string \<Rightarrow> bus_state \<Rightarrow> bus_state \<Rightarrow> bool" for eid where
  enter: "publish_locked eid frame (bs_bus s) = (qs, b) \<Longrightarrow>
    bus_step eid s (s\<lparr>bs_bus := b, bs_flight := (frame, qs) # bs_flight s, bs_log := bs_log s @ [frame]\<rparr>)"
| deliver: "bs_flight s = xs @ (frame, q # qs) # ys \<Longrightarrow>
    bus_step eid s (s\<lparr>bs_bus := put_nowait q frame (bs_bus s), bs_flight := xs @ (frame, qs) # ys,
      bs_dropped := (if length (eb_queues (bs_bus s) q) < queue_size then bs_dropped s
                     else (bs_dropped s)(q := bs_dropped s q @ [frame]))\<rparr>)"
| join: "subscribe_to_execution eid (bs_bus s) = ((q, h), b) \<Longrightarrow>
    bus_step eid s (s\<lparr>bs_bus := b, bs_start := (bs_start s)(q := length (bs_log s)),
      bs_snapshot := (bs_snapshot s)(q := h)\<rparr>)"
| get: "queue_get q (bs_bus s) = Some (frame, b) \<Longrightarrow>
    bus_step eid s (s\<lparr>bs_bus := b, bs_taken := (bs_taken s)(q := bs_taken s q @ [frame])\<rparr>)"
| leave: "bus_step eid s (s\<lparr>bs_bus := unsubscribe_from_execution eid q (bs_bus s)\<rparr>)"

inductive_cases bus_stepE: "bus_step eid s s'"

inductive bus_reachable :: "string \<Rightarrow> bus_state \<Rightarrow> bool" for eid where
  start: "bus_reachable eid initial_bus_state"
| step: "bus_reachable eid s \<Longrightarrow> bus_step eid s s' \<Longrightarrow> bus_reachable eid s'"

section \<open>Lemmas on the operations\<close>

lemma keep_last_snoc: "keep_last n (keep_last n xs @ [x]) = keep_last n (xs @ [x])"
  by (cases "n \<le> length xs"; cases n) (auto simp: keep_last_def drop_drop Suc_diff_le Suc_diff_Suc Suc_le_eq)

lemma keep_last_Nil [simp]: "keep_last n [] = []"
  by (simp add: keep_last_def)

lemma subscribers_after:
  "subscribers_of (b\<lparr>eb_history := h\<rparr>) eid = subscribers_of b eid"
  "subscribers_of (b\<lparr>eb_queues := qf\<rparr>) eid = subscribers_of b eid"
  "history_of (b\<lparr>eb_queues := qf\<rparr>) eid = history_of b eid"
  "history_of (b\<lparr>eb_subscribers := ss\<rparr>) eid = history_of b eid"
  by (simp_all add: subscribers_of_def history_of_def)

lemma publish_locked_simps:
  assumes "publish_locked eid f b = (qs, b')"
  shows "qs = subscribers_of b eid" and "subscribers_of b' eid = subscribers_of b eid"
    and "history_of b' eid = keep_last history_size (history_of b eid @ [f])"
    and "eb_queues b' = eb_queues b" and "eb_next b' = eb_next b"
  using assms by (auto simp: publish_locked_def subscribers_of_def history_of_def)

lemma put_nowait_simps [simp]:
  "subscribers_of (put_nowait q f b) eid = subscribers_of b eid"
  "history_of (put_nowait q f b) eid = history_of b eid"
  "eb_next (put_nowait q f b) = eb_next b"
  by (simp_all add: put_nowait_def subscribers_of_def history_of_def)

lemma put_nowait_queues:
  "eb_queues (put_nowait q f b) q' =
     (if q' = q \<and> length (eb_queues b q) < queue_size then eb_queues b q @ [f] else eb_queues b q')"
  by (simp add: put_nowait_def)

lemma subscribe_simps:
  assumes "subscribe_to_execution eid b = ((q, h), b')"
  shows "q = eb_next b" and "h = history_of b eid" and "subscribers_of b' eid = subscribers_of b eid @ [q]"
    and "history_of b' eid = history_of b eid" and "eb_queues b' = (eb_queues b)(q := [])"
    and "eb_next b' = Suc q"
  using assms by (auto simp: subscribe_to_execution_def Let_def subscribers_of_def history_of_def)

lemma unsubscribe_simps:
  "subscribers_of (unsubscribe_from_execution eid q b) eid = remove1 q (subscribers_of b eid)"
  "history_of (unsubscribe_from_execution eid q b) eid = history_of b eid"
  "eb_queues (unsubscribe_from_execution eid q b) = eb_queues b"
  "eb_next (unsubscribe_from_execution eid q b) = eb_next b"
  by (auto simp: unsubscribe_from_execution_def Let_def subscribers_of_def history_of_def)

lemma queue_get_simps:
  assumes "queue_get q b = Some (f, b')"
  shows "eb_queues b q = f # eb_queues b' q" and "\<And>q'. q' \<noteq> q \<Longrightarrow> eb_queues b' q' = eb_queues b q'"
    and "subscribers_of b' eid = subscribers_of b eid" and "history_of b' eid = history_of b eid"
    and "eb_next b' = eb_next b"
  using assms
  by (auto simp: queue_get_def subscribers_of_def history_of_def split: list.splits)

section \<open>The invariant\<close>

definition in_flight :: "nat \<Rightarrow> (string \<times> nat list) list \<Rightarrow> string multiset" where
  "in_flight q fl = (\<Sum>(f, qs) \<in># mset fl. if q \<in> set qs then {#f#} else {#})"

definition balance :: "bus_state \<Rightarrow> nat \<Rightarrow> bool" where
  "balance s q \<longleftrightarrow>
     mset (drop (bs_start s q) (bs_log s)) =
       mset (bs_taken s q) + mset (eb_queues (bs_bus s) q) + mset (bs_dropped s q)
       + in_flight q (bs_flight s)"

definition client_ok :: "bus_state \<Rightarrow> nat \<Rightarrow> bool" where
  "client_ok s q \<longleftrightarrow>
     bs_start s q \<le> length (bs_log s) \<and>
     bs_snapshot s q = keep_last history_size (take (bs_start s q) (bs_log s)) \<and> balance s q"

definition bus_good :: "string \<Rightarrow> bus_state \<Rightarrow> bool" where
  "bus_good eid s \<longleftrightarrow>
     history_of (bs_bus s) eid = keep_last history_size (bs_log s) \<and>
     distinct (subscribers_of (bs_bus s) eid) \<and>
     (\<forall>q \<in> set (subscribers_of (bs_bus s) eid). q < eb_next (bs_bus s)) \<and>
     (\<forall>p \<in> set (bs_flight s). distinct (snd p) \<and> (\<forall>q \<in> set (snd p). q < eb_next (bs_bus s))) \<and>
     (\<forall>q \<ge> eb_next (bs_bus s). bs_taken s q = [] \<and> bs_dropped s q = [] \<and>
        eb_queues (bs_bus s) q = []) \<and>
     (\<forall>q \<in> set (subscribers_of (bs_bus s) eid). client_ok s q)"

lemma in_flight_Cons: "in_flight q ((f, qs) # fl) = (if q \<in> set qs then {#f#} else {#}) + in_flight q fl"
  by (simp add: in_flight_def)

lemma in_flight_append: "in_flight q (xs @ ys) = in_flight q xs + in_flight q ys"
  by (simp add: in_flight_def)

lemma in_flight_none: "\<forall>p \<in> set fl. q \<notin> set (snd p) \<Longrightarrow> in_flight q fl = {#}"
  by (induction fl) (auto simp: in_flight_def)

lemma bus_good_initial: "bus_good eid initial_bus_state"
  by (simp add: bus_good_def initial_bus_state_def empty_bus_def history_of_def subscribers_of_def)

lemma bus_goodD:
  assumes "bus_good eid s"
  shows "history_of (bs_bus s) eid = keep_last history_size (bs_log s)"
    and "distinct (subscribers_of (bs_bus s) eid)"
    and "q \<in> set (subscribers_of (bs_bus s) eid) \<Longrightarrow> q < eb_next (bs_bus s)"
    and "(f, qs) \<in> set (bs_flight s) \<Longrightarrow> distinct qs"
    and "(f, qs) \<in> set (bs_flight s) \<Longrightarrow> q \<in> set qs \<Longrightarrow> q < eb_next (bs_bus s)"
    and "eb_next (bs_bus s) \<le> q \<Longrightarrow> bs_taken s q = [] \<and> bs_dropped s q = [] \<and> eb_queues (bs_bus s) q = []"
    and "q \<in> set (subscribers_of (bs_bus s) eid) \<Longrightarrow> client_ok s q"
  using assms unfolding bus_good_def by fastforce+

lemma enter_good:
  assumes good: "bus_good eid s" and pub: "publish_locked eid f (bs_bus s) = (qs, b)"
  shows "bus_good eid (s\<lparr>bs_bus := b, bs_flight := (f, qs) # bs_flight s, bs_log := bs_log s @ [f]\<rparr>)"
proof -
  note p = publish_locked_simps [OF pub] and g = bus_goodD [OF good]
  have "client_ok (s\<lparr>bs_bus := b, bs_flight := (f, qs) # bs_flight s, bs_log := bs_log s @ [f]\<rparr>) q"
    if "q \<in> set (subscribers_of (bs_bus s) eid)" for q
    using g(7) [OF that] that by (simp add: client_ok_def balance_def in_flight_Cons p)
  then show ?thesis
    using good by (simp add: bus_good_def p keep_last_snoc)
qed

lemma deliver_good:
  assumes good: "bus_good eid s" and fl: "bs_flight s = xs @ (f, q # qs) # ys"
  shows "bus_good eid (s\<lparr>bs_bus := put_nowait q f (bs_bus s), bs_flight := xs @ (f, qs) # ys,
    bs_dropped := (if length (eb_queues (bs_bus s) q) < queue_size then bs_dropped s
                   else (bs_dropped s)(q := bs_dropped s q @ [f]))\<rparr>)" (is "bus_good eid ?t")
proof -
  note g = bus_goodD [OF good]
  have q: "q \<notin> set qs" "q < eb_next (bs_bus s)"
    using g(4,5) [of f "q # qs"] by (auto simp: fl)
  have "client_ok ?t r" if "r \<in> set (subscribers_of (bs_bus s) eid)" for r
    using g(7) [OF that] q(1)
    by (auto simp: client_ok_def balance_def fl in_flight_append in_flight_Cons put_nowait_queues)
  moreover have "\<forall>p \<in> set (bs_flight ?t). distinct (snd p) \<and> (\<forall>r \<in> set (snd p). r < eb_next (bs_bus s))"
    using good unfolding bus_good_def fl by auto
  ultimately show ?thesis
    using good q(2) by (auto simp: bus_good_def put_nowait_queues)
qed

lemma join_good:
  assumes good: "bus_good eid s" and sub: "subscribe_to_execution eid (bs_bus s) = ((q, h), b)"
  shows "bus_good eid (s\<lparr>bs_bus := b, bs_start := (bs_start s)(q := length (bs_log s)),
    bs_snapshot := (bs_snapshot s)(q := h)\<rparr>)" (is "bus_good eid ?t")
proof -
  note p = subscribe_simps [OF sub] and g = bus_goodD [OF good]
  have fresh: "q \<notin> set (subscribers_of (bs_bus s) eid)" "in_flight q (bs_flight s) = {#}"
    "bs_taken s q = [] \<and> bs_dropped s q = []"
    using g(3,5,6) by (force simp: p(1) intro!: in_flight_none)+
  have "client_ok ?t r" if "r \<in> set (subscribers_of (bs_bus s) eid)" for r
    using g(7) [OF that] that fresh(1) by (auto simp: client_ok_def balance_def p(5))
  moreover have "client_ok ?t q"
    using fresh by (simp add: client_ok_def balance_def p(2,5) g(1))
  ultimately show ?thesis
    using good fresh(1) by (fastforce simp: bus_good_def p less_Suc_eq)
qed

lemma get_good:
  assumes good: "bus_good eid s" and get: "queue_get q (bs_bus s) = Some (f, b)"
  shows "bus_good eid (s\<lparr>bs_bus := b, bs_taken := (bs_taken s)(q := bs_taken s q @ [f])\<rparr>)"
    (is "bus_good eid ?t")
proof -
  note p = queue_get_simps [OF get] and g = bus_goodD [OF good]
  have q: "q < eb_next (bs_bus s)"
    using g(6) [of q] p(1) by (cases "eb_next (bs_bus s) \<le> q") auto
  have "client_ok ?t r" if "r \<in> set (subscribers_of (bs_bus s) eid)" for r
    using g(7) [OF that] p(1) p(2) [of r] by (auto simp: client_ok_def balance_def)
  moreover have "eb_queues b r = []" if "eb_next (bs_bus s) \<le> r" for r
    using g(6) [OF that] p(2) [of r] q that by auto
  ultimately show ?thesis
    using good q by (auto simp: bus_good_def p(3-5))
qed

lemma leave_good:
  assumes good: "bus_good eid s"
  shows "bus_good eid (s\<lparr>bs_bus := unsubscribe_from_execution eid q (bs_bus s)\<rparr>)" (is "bus_good eid ?t")
proof -
  note g = bus_goodD [OF good]
  have "client_ok ?t r" if "r \<in> set (subscribers_of (bs_bus s) eid)" for r
    using g(7) [OF that] by (simp add: client_ok_def balance_def unsubscribe_simps)
  then show ?thesis
    using good set_remove1_subset [of q "subscribers_of (bs_bus s) eid"]
    by (auto simp: bus_good_def unsubscribe_simps)
qed

lemma bus_step_good: "bus_step eid s s' \<Longrightarrow> bus_good eid s \<Longrightarrow> bus_good eid s'"
  by (induction rule: bus_step.induct)
     (simp_all add: enter_good deliver_good join_good get_good leave_good)

lemma reachable_good: "bus_reachable eid s \<Longrightarrow> bus_good eid s"
  by (induction rule: bus_reachable.induct) (auto intro: bus_good_initial bus_step_good)

text \<open>C19. No event is lost or seen twice by a client, however publishers, readers and subscriptions
  interleave: at every moment the events published since a client joined are, with their
  multiplicity, those it has taken, those in its queue, those a publisher is still delivering to it
  and those dropped because its queue was full, and the history it was given is the last five
  hundred events published before.
\<close>

theorem client_sees_every_event:
  assumes "bus_reachable eid s" and "q \<in> set (subscribers_of (bs_bus s) eid)"
  shows "mset (drop (bs_start s q) (bs_log s)) =
      mset (bs_taken s q) + mset (eb_queues (bs_bus s) q) + mset (bs_dropped s q)
      + in_flight q (bs_flight s) \<and>
    bs_snapshot s q = keep_last history_size (take (bs_start s q) (bs_log s))"
  using bus_goodD(7) [OF reachable_good [OF assms(1)] assms(2)]
  by (simp add: client_ok_def balance_def)

theorem client_sees_every_event_witness:
  "\<exists>s. bus_reachable ''e'' s \<and> 0 \<in> set (subscribers_of (bs_bus s) ''e'') \<and>
     bs_snapshot s 0 = [''one''] \<and> bs_taken s 0 = [] \<and> in_flight 0 (bs_flight s) = {#''two''#} \<and>
     mset (drop (bs_start s 0) (bs_log s)) = {#''two''#}"
proof -
  define b1 where "b1 = snd (publish_locked ''e'' ''one'' empty_bus)"
  define b2 where "b2 = snd (subscribe_to_execution ''e'' b1)"
  define b3 where "b3 = snd (publish_locked ''e'' ''two'' b2)"
  define s1 where "s1 = initial_bus_state\<lparr>bs_bus := b1,
    bs_flight := (''one'', []) # bs_flight initial_bus_state, bs_log := bs_log initial_bus_state @ [''one'']\<rparr>"
  define s2 where "s2 = s1\<lparr>bs_bus := b2, bs_start := (bs_start s1)(0 := length (bs_log s1)),
    bs_snapshot := (bs_snapshot s1)(0 := [''one''])\<rparr>"
  define s3 where "s3 = s2\<lparr>bs_bus := b3, bs_flight := (''two'', [0]) # bs_flight s2,
    bs_log := bs_log s2 @ [''two'']\<rparr>"
  note eval = publish_locked_def subscribe_to_execution_def empty_bus_def subscribers_of_def
    history_of_def keep_last_def history_size_def Let_def
  have "bus_step ''e'' initial_bus_state s1"
    unfolding s1_def by (rule bus_step.enter) (simp add: b1_def initial_bus_state_def eval)
  moreover have "bus_step ''e'' s1 s2"
    unfolding s2_def by (rule bus_step.join) (simp add: b2_def b1_def s1_def eval)
  moreover have "bus_step ''e'' s2 s3"
    unfolding s3_def by (rule bus_step.enter) (simp add: b3_def b2_def b1_def s2_def eval)
  ultimately have reach: "bus_reachable ''e'' s3"
    by (meson bus_reachable.intros)
  have member: "0 \<in> set (subscribers_of (bs_bus s3) ''e'')"
    by (simp add: s3_def b3_def b2_def b1_def eval)
  have rest: "bs_snapshot s3 0 = [''one'']" "bs_taken s3 0 = []" "eb_queues (bs_bus s3) 0 = []"
    "bs_dropped s3 0 = []" "in_flight 0 (bs_flight s3) = {#''two''#}"
    by (simp_all add: s3_def s2_def s1_def b3_def b2_def b1_def eval initial_bus_state_def in_flight_def)
  from client_sees_every_event [OF reach member] reach member rest show ?thesis by auto
qed

section \<open>Reading the stream\<close>

text \<open>\<open>str.splitlines\<close> of a text whose only line breaks are line feeds.\<close>

definition text_lines :: "string \<Rightarrow> string list" where
  "text_lines t = (let ls = split_on (CHR 0x0A) t in if last ls = [] then butlast ls else ls)"

lemma text_lines_Nil [simp]: "text_lines [] = []"
  by (simp add: text_lines_def)

lemma text_lines_line:
  assumes "CHR 0x0A \<notin> set a"
  shows "text_lines (a @ line_break @ t) = a # text_lines t"
  using split_on_append [OF assms, of t] split_on_not_Nil [of "CHR 0x0A" t]
  by (simp add: text_lines_def line_break_def Let_def)

lemma join_split: "join_with [d] (split_on d s) = s"
proof (induction s)
  case (Cons c s)
  then show ?case
    by (cases "split_on d s") (auto simp: join_with_def split: list.splits)
qed (simp add: join_with_def)

lemma after_colon_simp:
  assumes "CHR '':'' \<notin> set a"
  shows "after_colon (a @ CHR '':'' # t) = t"
  by (simp add: after_colon_def split_on_append [OF assms] join_split)

definition plain_event :: "string \<Rightarrow> bool" where
  "plain_event n \<longleftrightarrow> n \<noteq> [] \<and> py_strip n = n \<and> CHR 0x0A \<notin> set n"

lemma dumps_object: "json_dumps (JObj d) = CHR ''{'' # tl (json_dumps (JObj d))"
  "last (json_dumps (JObj d)) = CHR ''}''" "json_dumps (JObj d) \<noteq> []"
  by simp_all

lemma strip_prefixed:
  assumes "s \<noteq> []" and "\<not> is_space (last s)" and "\<not> is_space c"
  shows "py_strip (c # t @ s) = c # t @ s"
  using assms by (simp add: py_strip_ident_iff)

lemma event_line:
  assumes "plain_event n"
  shows "iter_sse_events ((''event: '' @ n) # ls) e d = iter_sse_events ls n d"
proof -
  from assms have n: "n \<noteq> []" "\<not> is_space (last n)" "\<not> is_space (hd n)"
    by (auto simp: plain_event_def py_strip_ident_iff)
  have strip: "py_strip (''event: '' @ n) = ''event: '' @ n"
    using strip_prefixed [of n "CHR ''e''" "''vent: ''"] n by (simp add: is_space_def py_spaces_def)
  have "after_colon (''event: '' @ n) = CHR '' '' # n"
    using after_colon_simp [of "''event''" "CHR '' '' # n"] by simp
  moreover have "py_strip (CHR '' '' # n) = n"
    using assms n by (simp add: py_strip_def py_lstrip_def plain_event_def is_space_def py_spaces_def)
  ultimately show ?thesis
    using strip n by (simp add: Let_def or_text_def starts_with_def)
qed

lemma data_line:
  "iter_sse_events ((''data: '' @ json_dumps (JObj o1)) # ls) e d = iter_sse_events ls e (d @ [json_dumps (JObj o1)])"
proof -
  let ?j = "json_dumps (JObj o1)"
  have j: "?j = CHR ''{'' # tl ?j" "last ?j = CHR ''}''" "?j \<noteq> []" by simp_all
  have strip: "py_strip (''data: '' @ ?j) = ''data: '' @ ?j"
    using strip_prefixed [of ?j "CHR ''d''" "''ata: ''"] j(2,3) by (simp add: is_space_def py_spaces_def)
  have "after_colon (''data: '' @ ?j) = CHR '' '' # ?j"
    using after_colon_simp [of "''data''" "CHR '' '' # ?j"] by simp
  moreover have "py_lstrip (CHR '' '' # ?j) = ?j"
    by (simp add: py_lstrip_def is_space_def py_spaces_def)
  ultimately show ?thesis
    using strip by (simp add: Let_def starts_with_def)
qed

lemma frame_lines:
  assumes "plain_event n" and "float_texts_ok (JObj o1)"
  shows "text_lines (serialize_sse_frame n (JObj o1) @ t) =
    (''event: '' @ n) # (''data: '' @ json_dumps (JObj o1)) # [] # text_lines t"
proof -
  have event: "CHR 0x0A \<notin> set (''event: '' @ n)"
    using assms(1) by (auto simp: plain_event_def)
  have data: "CHR 0x0A \<notin> set (''data: '' @ json_dumps (JObj o1))"
    using ascii_no_break [OF ascii_dumps [OF assms(2)]] by auto
  have blank: "text_lines (line_break @ t) = [] # text_lines t"
    using text_lines_line [of "[]" t] by simp
  have "serialize_sse_frame n (JObj o1) @ t =
      (''event: '' @ n) @ line_break @ (''data: '' @ json_dumps (JObj o1)) @ line_break @ line_break @ t"
    by (simp add: serialize_sse_frame_def)
  then show ?thesis
    by (simp only: text_lines_line [OF event] text_lines_line [OF data] blank)
qed

text \<open>What the client reads is what was published: parsing the concatenation of any frames whose
  event names are plain text gives, in order, their event names and the text of their payloads,
  whatever the payloads contain.
\<close>

theorem stream_roundtrip:
  assumes "\<forall>e \<in> set es. plain_event (fst e) \<and> float_texts_ok (JObj (snd e))"
  shows "iter_sse_events
      (text_lines (concat (map (\<lambda>e. serialize_sse_frame (fst e) (JObj (snd e))) es))) ''message'' [] =
    map (\<lambda>e. (fst e, json_dumps (JObj (snd e)))) es"
  using assms
proof (induction es)
  case (Cons e es)
  have blank: "iter_sse_events ([] # ls) n [j] = (n, j) # iter_sse_events ls ''message'' []" for ls n j
    by (simp add: join_with_def)
  from Cons.prems have e: "plain_event (fst e)" "float_texts_ok (JObj (snd e))" by simp_all
  have "iter_sse_events (text_lines (serialize_sse_frame (fst e) (JObj (snd e)) @ t)) ''message'' [] =
      (fst e, json_dumps (JObj (snd e))) # iter_sse_events (text_lines t) ''message'' []" for t
    by (simp only: frame_lines [OF e] event_line [OF e(1)] data_line append_Nil blank)
  with Cons show ?case by (simp del: json_dumps.simps)
qed simp

theorem stream_roundtrip_witness:
  "iter_sse_events (text_lines (serialize_sse_frame ''suite_started'' (JObj [(''text'', JStr [CHR 0x0A, CHR ''x''])])
     @ serialize_sse_frame ''suite_finished'' (JObj [])))  ''message'' [] =
   [(''suite_started'', json_dumps (JObj [(''text'', JStr [CHR 0x0A, CHR ''x''])])),
    (''suite_finished'', ''{}'')]"
proof -
  let ?es = "[(''suite_started'', [(''text'', JStr [CHR 0x0A, CHR ''x''])]), (''suite_finished'', [])]"
  have "\<forall>e \<in> set ?es. plain_event (fst e) \<and> float_texts_ok (JObj (snd e))"
    by (simp add: plain_event_def) code_simp
  from stream_roundtrip [OF this] show ?thesis by (simp add: join_with_def)
qed

section \<open>The end of a stream\<close>

lemma starts_with_append [simp]: "starts_with p (p @ s)"
  by (simp add: starts_with_def)

lemma contains_sub_append: "contains_sub p (s @ p @ t)"
proof (induction s)
  case Nil
  show ?case
  proof (cases "p @ t")
    case (Cons a list)
    then have "starts_with p (a # list)" by (metis starts_with_append)
    with Cons show ?thesis by simp
  qed simp
qed simp

lemma contains_sub_iff: "contains_sub p s \<longleftrightarrow> (\<exists>a b. s = a @ p @ b)"
proof
  show "contains_sub p s \<Longrightarrow> \<exists>a b. s = a @ p @ b"
  proof (induction s)
    case (Cons c s)
    then have "starts_with p (c # s) \<or> (\<exists>a b. s = a @ p @ b)" by auto
    then show ?case
    proof
      assume "starts_with p (c # s)"
      then have "c # s = [] @ p @ drop (length p) (c # s)"
        by (simp add: starts_with_def) (metis append_take_drop_id)
      then show ?thesis by blast
    next
      assume "\<exists>a b. s = a @ p @ b"
      then show ?thesis by (metis append_Cons)
    qed
  qed simp
qed (auto simp: contains_sub_append)

lemma mark_escaped: "concat (map json_escape finished_mark) = finished_mark"
  by code_simp

lemma join_infix: "\<exists>u v. join_with sep (us @ x # vs) = u @ x @ v"
proof (cases us)
  case Nil
  then have "join_with sep (us @ x # vs) = [] @ x @ concat (map (\<lambda>y. sep @ y) vs)"
    by (simp add: join_with_def)
  then show ?thesis by blast
next
  case (Cons a as)
  then have "join_with sep (us @ x # vs) =
      (a @ concat (map (\<lambda>y. sep @ y) as) @ sep) @ x @ concat (map (\<lambda>y. sep @ y) vs)"
    by (simp add: join_with_def)
  then show ?thesis by blast
qed

lemma mark_in_dumps:
  assumes "(k, JStr s) \<in> set d" and "contains_sub finished_mark s"
  shows "contains_sub finished_mark (json_dumps (JObj d))"
proof -
  from assms(2) obtain a b where "s = a @ finished_mark @ b" by (auto simp: contains_sub_iff)
  then have quote: "json_quote s = (CHR 0x22 # concat (map json_escape a)) @ finished_mark
      @ concat (map json_escape b) @ [CHR 0x22]"
    by (simp add: json_quote_def mark_escaped)
  from assms(1) obtain xs ys where d: "d = xs @ (k, JStr s) # ys" by (meson split_list)
  from join_infix [of "'', ''" "map (\<lambda>kv. json_quote (fst kv) @ '': '' @ json_dumps (snd kv)) xs"
    "json_quote k @ '': '' @ json_quote s"
    "map (\<lambda>kv. json_quote (fst kv) @ '': '' @ json_dumps (snd kv)) ys"]
  obtain u v where "json_dumps (JObj d) = ''{'' @ (u @ (json_quote k @ '': '' @ json_quote s) @ v) @ ''}''"
    by (auto simp: d)
  then have "json_dumps (JObj d) = (''{'' @ u @ json_quote k @ '': '' @ CHR 0x22 # concat (map json_escape a)) @ finished_mark
      @ (concat (map json_escape b) @ [CHR 0x22] @ v @ ''}'')"
    by (simp add: quote)
  then show ?thesis unfolding contains_sub_iff by blast
qed

lemma stream_live_end:
  "snd (stream_live eid rs) = (\<exists>f. Inr f \<in> set rs \<and> contains_sub finished_mark f)"
  by (induction eid rs rule: stream_live.induct) (auto simp: is_finished_def split: prod.splits)

text \<open>
  C26. A stream ends by itself exactly when some frame it has, of the history or received, contains
  the text \<open>C39. event: execution_finished\<close>, and payloads count: an event of any name one of whose
  texts contains that phrase ends the stream, although the execution goes on.
\<close>

theorem stream_end_decided_by_text:
  "snd (stream_execution_events eid history received) =
     ((\<exists>f \<in> set history. contains_sub finished_mark f) \<or>
      (\<exists>f. Inr f \<in> set received \<and> contains_sub finished_mark f)) \<and>
   (\<forall>n d k s. (k, JStr s) \<in> set d \<and> contains_sub finished_mark s \<longrightarrow>
      contains_sub finished_mark (serialize_sse_frame n (JObj d)))"
proof -
  have "contains_sub finished_mark (serialize_sse_frame n (JObj d))"
    if "(k, JStr s) \<in> set d" "contains_sub finished_mark s" for n d k s
  proof -
    from mark_in_dumps [OF that] obtain a b where "json_dumps (JObj d) = a @ finished_mark @ b"
      by (auto simp: contains_sub_iff)
    then have "serialize_sse_frame n (JObj d) =
        (''event: '' @ n @ line_break @ ''data: '' @ a) @ finished_mark @ (b @ line_break @ line_break)"
      by (simp add: serialize_sse_frame_def)
    then show ?thesis unfolding contains_sub_iff by blast
  qed
  with stream_live_end [of eid received] show ?thesis
    by (auto simp: stream_execution_events_def list_ex_iff is_finished_def split: prod.splits)
qed

theorem stream_end_decided_by_text_witness:
  "snd (stream_execution_events ''e'' []
     [Inr (serialize_sse_frame ''command_finished''
        (JObj [(''error'', JStr (''got event: execution_finished''))])), Inl ''t1'']) = True"
proof -
  have "contains_sub finished_mark ''got event: execution_finished''" by code_simp
  with stream_end_decided_by_text [of "''e''" "[]"] show ?thesis
    by (auto simp del: json_dumps.simps contains_sub.simps)
qed

end
