(* ===== verification/Asserts.thy ===== *)
theory Asserts
  imports CommandConfig JsonText
begin

text \<open>
  The evaluators of assertions (\<open>app/elaborations/services/asserts/\<close>) on JSON values, and the
  choice of what they look at in \<open>operations/assert_command_executor.py\<close>.

  A \<open>Counter\<close> is a list of keys with their counts, in the order of their first occurrence. The
  validation against a JSON schema is the package \<open>jsonschema\<close>, a parameter: the instance is
  valid, violates the schema, or the schema itself is refused, each with the message of the exception.
\<close>

section \<open>Values\<close>

fun is_empty_json_value :: "json \<Rightarrow> bool" where
  "is_empty_json_value JNull = True"
| "is_empty_json_value (JObj d) = (d = [])"
| "is_empty_json_value (JList xs) = (xs = [])"
| "is_empty_json_value (JStr s) = (s = [])"
| "is_empty_json_value _ = False"

definition normalize_rows :: "json \<Rightarrow> string \<Rightarrow> json dict list result" where
  "normalize_rows v label =
     (case v of
        JList xs \<Rightarrow>
          mapM (\<lambda>(i, x). case x of
              JObj d \<Rightarrow> Inr d
            | _ \<Rightarrow> Inl (ValueError (label @ '' item at index '' @ nat_text i @ '' must be a JSON object.'')))
            (enumerate 0 xs)
      | _ \<Rightarrow> Inl (ValueError (label @ '' must be a JSON array.'')))"

definition normalize_json_object :: "json \<Rightarrow> string \<Rightarrow> json dict result" where
  "normalize_json_object v label =
     (case v of JObj d \<Rightarrow> Inr d | _ \<Rightarrow> Inl (ValueError (label @ '' must be a JSON object.'')))"

definition serialize_value :: "json \<Rightarrow> string" where
  "serialize_value v = json_dumps (sort_keys v)"

definition missing_keys :: "string list \<Rightarrow> json dict \<Rightarrow> string list" where
  "missing_keys keys row = filter (\<lambda>k. dict_get row k = None) keys"

definition names_text :: "string list \<Rightarrow> string" where
  "names_text ks = json_repr (JList (map JStr ks))"

section \<open>Counters\<close>

type_synonym counter = "(string list \<times> nat) list"

definition counter_get :: "counter \<Rightarrow> string list \<Rightarrow> nat" where
  "counter_get c k = (case map_of c k of None \<Rightarrow> 0 | Some n \<Rightarrow> n)"

fun counter_add :: "string list \<Rightarrow> counter \<Rightarrow> counter" where
  "counter_add k [] = [(k, 1)]"
| "counter_add k ((k', n) # c) = (if k' = k then (k', n + 1) # c else (k', n) # counter_add k c)"

definition counter_equal :: "counter \<Rightarrow> counter \<Rightarrow> bool" where
  "counter_equal c e \<longleftrightarrow>
     list_all (\<lambda>(k, n). counter_get e k = n) c \<and> list_all (\<lambda>(k, n). counter_get c k = n) e"

definition row_key :: "string list \<Rightarrow> json dict \<Rightarrow> string list" where
  "row_key keys row = map (\<lambda>k. serialize_value (jget row k)) keys"

definition add_row :: "string list \<Rightarrow> string \<Rightarrow> counter \<Rightarrow> nat \<times> json dict \<Rightarrow> counter result" where
  "add_row keys label c ir =
     (if missing_keys keys (snd ir) \<noteq> []
      then Inl (ValueError (label @ '' item at index '' @ nat_text (fst ir) @
        '' is missing compare_keys: '' @ names_text (missing_keys keys (snd ir))))
      else Inr (counter_add (row_key keys (snd ir)) c))"

definition build_multiset :: "json dict list \<Rightarrow> string list \<Rightarrow> string \<Rightarrow> counter result" where
  "build_multiset rows keys label = foldM (add_row keys label) [] (enumerate 0 rows)"

section \<open>Evaluators\<close>

record assert_context =
  ac_data :: json
  ac_actual :: json
  ac_expected :: json
  ac_keys :: "string list"
  ac_schema :: "json dict option"

text \<open>
  \<open>_load_expected_json_array_rows\<close>. No configuration the conversion makes has an
  \<open>expected_json_array_id\<close>, so without an expected value the lookup stops at once.
\<close>

definition expected_rows :: "assert_context \<Rightarrow> json dict list result" where
  "expected_rows c =
     (case ac_expected c of
        JNull \<Rightarrow> Inl (ValueError ''expected_json_array_id is required.'')
      | JObj d \<Rightarrow> Inr [d]
      | v \<Rightarrow> normalize_rows v ''Expected value'')"

definition evaluate_not_empty :: "assert_context \<Rightarrow> unit result" where
  "evaluate_not_empty c = require (\<not> is_empty_json_value (ac_actual c))
     (ValueError ''Assert failed: expected actual value to be not empty.'')"

definition evaluate_empty :: "assert_context \<Rightarrow> unit result" where
  "evaluate_empty c = require (is_empty_json_value (ac_actual c))
     (ValueError ''Assert failed: expected actual value to be empty.'')"

definition evaluate_equals :: "assert_context \<Rightarrow> unit result" where
  "evaluate_equals c = require (json_eq (ac_actual c) (ac_expected c))
     (ValueError ''Assert failed: actual value is not equal to expected value.'')"

definition evaluate_contains :: "assert_context \<Rightarrow> unit result" where
  "evaluate_contains c =
     rbind (require (ac_keys c \<noteq> []) (ValueError ''Assert failed: compare_keys is required.'')) (\<lambda>_.
     rbind (normalize_json_object (ac_actual c) ''Actual value'') (\<lambda>actual.
     rbind (normalize_json_object (ac_expected c) ''Expected value'') (\<lambda>expected.
     rbind (require (missing_keys (ac_keys c) expected = []) (ValueError
       (''Expected value is missing compare_keys: '' @ names_text (missing_keys (ac_keys c) expected)))) (\<lambda>_.
     rbind (require (missing_keys (ac_keys c) actual = []) (ValueError
       (''Actual value is missing compare_keys: '' @ names_text (missing_keys (ac_keys c) actual)))) (\<lambda>_.
       require (list_all (\<lambda>k. json_eq (jget actual k) (jget expected k)) (ac_keys c))
         (ValueError ''Assert failed: actual value does not contain expected values.''))))))"

definition compare_rows :: "(counter \<Rightarrow> counter \<Rightarrow> unit result) \<Rightarrow> assert_context \<Rightarrow> unit result" where
  "compare_rows f c =
     rbind (require (ac_keys c \<noteq> []) (ValueError ''Assert failed: compare_keys is required.'')) (\<lambda>_.
     rbind (normalize_rows (ac_data c) ''Actual data'') (\<lambda>actual.
     rbind (expected_rows c) (\<lambda>expected.
     rbind (build_multiset actual (ac_keys c) ''Actual data'') (\<lambda>am.
     rbind (build_multiset expected (ac_keys c) ''Expected json-array payload'') (\<lambda>em. f am em)))))"

definition evaluate_array_contains :: "assert_context \<Rightarrow> unit result" where
  "evaluate_array_contains = compare_rows (\<lambda>am em.
     require (list_all (\<lambda>(k, n). n \<le> counter_get em k) am)
       (ValueError ''Assert failed: actual data is not contained in expected json-array.''))"

definition evaluate_array_equals :: "assert_context \<Rightarrow> unit result" where
  "evaluate_array_equals = compare_rows (\<lambda>am em.
     require (counter_equal am em)
       (ValueError ''Assert failed: actual data is not equal to expected json-array.''))"

datatype schema_outcome = SchemaValid | Violation string | BadSchema string

type_synonym schema_check = "json dict \<Rightarrow> json dict \<Rightarrow> schema_outcome"

definition evaluate_schema ::
  "schema_check \<Rightarrow> assert_context \<Rightarrow> unit result" where
  "evaluate_schema validate c =
     (case ac_schema c of
        None \<Rightarrow> Inl (ValueError ''Assert failed: json_schema is required.'')
      | Some schema \<Rightarrow>
          rbind (normalize_rows (ac_data c) ''Actual data'') (\<lambda>rows.
            foldM (\<lambda>_ (i, row). case validate row schema of
                SchemaValid \<Rightarrow> Inr ()
              | Violation m \<Rightarrow> Inl (ValueError (''Assert failed: row '' @ nat_text i @
                  '' does not match json schema ('' @ m @ '').''))
              | BadSchema m \<Rightarrow> Inl (ValueError (''Assert failed: invalid json schema ('' @ m @ '').'')))
              () (enumerate 0 rows)))"

definition normalize_kind :: "string \<Rightarrow> string" where
  "normalize_kind s = py_lower (replace_char (CHR ''_'') ''-'' (py_strip s))"

definition evaluator_table ::
  "schema_check \<Rightarrow>
    ((string \<times> string) \<times> (assert_context \<Rightarrow> unit result)) list" where
  "evaluator_table validate =
     map (\<lambda>(t, f). ((''json-data'', t), f))
       [(''not-empty'', evaluate_not_empty), (''empty'', evaluate_empty),
        (''schema-validation'', evaluate_schema validate), (''contains'', evaluate_contains),
        (''json-array-equals'', evaluate_array_equals),
        (''json-array-contains'', evaluate_array_contains), (''equals'', evaluate_equals)]"

definition assert_context_of :: "assertion \<Rightarrow> json \<Rightarrow> json \<Rightarrow> json \<Rightarrow> assert_context" where
  "assert_context_of a data actual expected =
     \<lparr>ac_data = (if is_list data then data else JList []), ac_actual = actual, ac_expected = expected,
      ac_keys = (case as_compare_keys a of None \<Rightarrow> [] | Some ks \<Rightarrow> ks), ac_schema = as_schema a\<rparr>"

definition evaluate_assert ::
  "schema_check \<Rightarrow> assertion \<Rightarrow> json \<Rightarrow> json \<Rightarrow> json \<Rightarrow> unit result" where
  "evaluate_assert validate a data actual expected =
     rbind (assert_type a) (\<lambda>t.
       let key = (normalize_kind (as_object_type a), normalize_kind t) in
       case map_of (evaluator_table validate) key of
         None \<Rightarrow> Inl (ValueError (''Unsupported assert evaluator for object_type='' @ quoted (fst key) @
           '', assert_type='' @ quoted (snd key) @ ''.''))
       | Some f \<Rightarrow> f (assert_context_of a data actual expected))"

text \<open>
  What \<open>AssertOperationExecutor.execute\<close> evaluates: the resolved actual value where it is a list
  and the data of the previous command otherwise; and the message of a failure.
\<close>

definition evaluated_data :: "json \<Rightarrow> json \<Rightarrow> json" where
  "evaluated_data actual data = (if is_list actual then actual else data)"

definition failure_message :: "assertion \<Rightarrow> string \<Rightarrow> string" where
  "failure_message a technical = or_text (py_strip (text_of (as_error_message a))) technical"

definition assert_outcome ::
  "schema_check \<Rightarrow> assertion \<Rightarrow> json \<Rightarrow> json \<Rightarrow> json \<Rightarrow> unit result" where
  "assert_outcome validate a data actual expected =
     (case evaluate_assert validate a (evaluated_data actual data) actual expected of
        Inr _ \<Rightarrow> Inr ()
      | Inl e \<Rightarrow> Inl (ValueError (failure_message a (error_text e))))"

end
