(* ===== verification/AssertProps.thy ===== *)
theory AssertProps
  imports Asserts "HOL-Library.Multiset"
begin

text \<open>
  What the assertions on arrays decide: their counters are multisets of the compared cells.
\<close>

section \<open>Bags\<close>

text \<open>What the evaluators rely on from \<open>collections.Counter\<close>.\<close>

locale bag =
  fixes empty :: 'c
    and add :: "'k \<Rightarrow> 'c \<Rightarrow> 'c"
    and count_of :: "'c \<Rightarrow> 'k \<Rightarrow> nat"
    and good :: "'c \<Rightarrow> bool"
  assumes count_empty: "count_of empty k = 0"
    and count_add: "good c \<Longrightarrow> count_of (add k c) k' = (if k' = k then Suc (count_of c k) else count_of c k')"
    and good_empty: "good empty"
    and good_add: "good c \<Longrightarrow> good (add k c)"
begin

lemma good_fold: "good c \<Longrightarrow> good (fold add ks c)"
  by (induction ks arbitrary: c) (simp_all add: good_add)

lemma count_fold: "good c \<Longrightarrow> count_of (fold add ks c) k = count_of c k + count (mset ks) k"
  by (induction ks arbitrary: c) (simp_all add: good_add count_add)

lemma count_bag: "count_of (fold add ks empty) k = count (mset ks) k"
  by (simp add: count_fold good_empty count_empty)

end

definition counter_ok :: "counter \<Rightarrow> bool" where
  "counter_ok c \<longleftrightarrow> distinct (map fst c) \<and> (\<forall>kn \<in> set c. 0 < snd kn)"

lemma counter_get_Cons [simp]:
  "counter_get ((k', n) # c) k = (if k = k' then n else counter_get c k)"
  by (simp add: counter_get_def)

lemma counter_get_Nil [simp]: "counter_get [] k = 0"
  by (simp add: counter_get_def)

lemma counter_get_add:
  "counter_get (counter_add k c) k' = (if k' = k then Suc (counter_get c k) else counter_get c k')"
  by (induction k c rule: counter_add.induct) auto

lemma fst_counter_add: "fst ` set (counter_add k c) = insert k (fst ` set c)"
  by (induction k c rule: counter_add.induct) auto

lemma counter_ok_Nil: "counter_ok []"
  by (simp add: counter_ok_def)

lemma counter_ok_add: "counter_ok c \<Longrightarrow> counter_ok (counter_add k c)"
  by (induction k c rule: counter_add.induct) (auto simp: counter_ok_def fst_counter_add)

interpretation cells: bag "[]" counter_add counter_get counter_ok
  by unfold_locales (simp_all add: counter_get_add counter_ok_add counter_ok_Nil)

lemma counter_get_mem: "counter_ok c \<Longrightarrow> (k, n) \<in> set c \<Longrightarrow> counter_get c k = n"
  by (simp add: counter_ok_def counter_get_def)

lemma counter_get_pos: "counter_ok c \<Longrightarrow> 0 < counter_get c k \<Longrightarrow> (k, counter_get c k) \<in> set c"
  by (auto simp: counter_get_def split: option.splits dest: map_of_SomeD)

lemma counter_get_zero: "k \<notin> fst ` set c \<Longrightarrow> counter_get c k = 0"
  by (induction c) auto

lemma counter_equal_iff:
  assumes "counter_ok c" "counter_ok e"
  shows "counter_equal c e \<longleftrightarrow> (\<forall>k. counter_get c k = counter_get e k)"
proof
  assume eq: "counter_equal c e"
  show "\<forall>k. counter_get c k = counter_get e k"
  proof
    fix k
    consider "0 < counter_get c k" | "0 < counter_get e k" | "counter_get c k = 0" "counter_get e k = 0"
      by linarith
    then show "counter_get c k = counter_get e k"
    proof cases
      case 1
      from counter_get_pos [OF assms(1) 1] eq show ?thesis
        by (auto simp: counter_equal_def list_all_iff)
    next
      case 2
      from counter_get_pos [OF assms(2) 2] eq show ?thesis
        by (auto simp: counter_equal_def list_all_iff)
    qed simp
  qed
next
  assume "\<forall>k. counter_get c k = counter_get e k"
  then show "counter_equal c e"
    using assms by (fastforce simp: counter_equal_def list_all_iff dest: counter_get_mem)
qed

lemma counter_le_iff:
  assumes "counter_ok c"
  shows "list_all (\<lambda>(k, n). n \<le> counter_get e k) c \<longleftrightarrow> (\<forall>k. counter_get c k \<le> counter_get e k)"
    (is "?l \<longleftrightarrow> ?r")
proof
  assume l: ?l
  show ?r
  proof
    fix k
    show "counter_get c k \<le> counter_get e k"
    proof (cases "counter_get c k = 0")
      case False
      with counter_get_pos [OF assms] have "(k, counter_get c k) \<in> set c" by simp
      with l show ?thesis by (auto simp: list_all_iff)
    qed simp
  qed
next
  assume ?r
  then show ?l
    using assms by (fastforce simp: list_all_iff dest: counter_get_mem)
qed

section \<open>Rows\<close>

lemma foldM_add_row:
  "foldM (add_row ks label) c irs =
     (case find (\<lambda>ir. missing_keys ks (snd ir) \<noteq> []) irs of
        Some ir \<Rightarrow> Inl (ValueError (label @ '' item at index '' @ nat_text (fst ir) @
          '' is missing compare_keys: '' @ names_text (missing_keys ks (snd ir))))
      | None \<Rightarrow> Inr (fold counter_add (map (\<lambda>ir. row_key ks (snd ir)) irs) c))"
  by (induction irs arbitrary: c) (simp_all add: add_row_def split: option.split)

definition rows_have :: "string list \<Rightarrow> json dict list \<Rightarrow> bool" where
  "rows_have ks rows \<longleftrightarrow> (\<forall>row \<in> set rows. \<forall>k \<in> set ks. dict_get row k \<noteq> None)"

definition cells_of :: "string list \<Rightarrow> json dict list \<Rightarrow> string list multiset" where
  "cells_of ks rows = image_mset (row_key ks) (mset rows)"

lemma rows_have_iff: "rows_have ks rows \<longleftrightarrow> (\<forall>row \<in> set rows. missing_keys ks row = [])"
  by (auto simp: rows_have_def missing_keys_def filter_empty_conv)

lemma snd_enumerate: "map (\<lambda>ir. f (snd ir)) (enumerate n xs) = map f xs"
  by (induction xs arbitrary: n) simp_all

lemma find_enumerate:
  "find (\<lambda>ir. missing_keys ks (snd ir) \<noteq> []) (enumerate n rows) = None \<longleftrightarrow> rows_have ks rows"
  unfolding rows_have_iff by (induction rows arbitrary: n) auto

lemma build_multiset_iff:
  "build_multiset rows ks label = Inr c \<longleftrightarrow>
     rows_have ks rows \<and> c = fold counter_add (map (row_key ks) rows) []"
proof -
  have "(find (\<lambda>ir. missing_keys ks (snd ir) \<noteq> []) (enumerate 0 rows) = None) = rows_have ks rows"
    by (rule find_enumerate)
  then show ?thesis
    by (auto simp: build_multiset_def foldM_add_row snd_enumerate split: option.splits)
qed

lemma built_counter:
  assumes "build_multiset rows ks label = Inr c"
  shows "counter_ok c" and "counter_get c k = count (cells_of ks rows) k"
proof -
  from assms have c: "c = fold counter_add (map (row_key ks) rows) []"
    by (simp add: build_multiset_iff)
  show "counter_ok c" unfolding c by (rule cells.good_fold [OF cells.good_empty])
  show "counter_get c k = count (cells_of ks rows) k"
    unfolding c cells_of_def cells.count_bag by simp
qed

lemma mapM_enumerate:
  "mapM (\<lambda>(i, x). case x of JObj d \<Rightarrow> Inr d | _ \<Rightarrow> Inl (g i)) (enumerate n xs) = Inr rows \<longleftrightarrow>
     xs = map JObj rows"
  by (induction xs arbitrary: n rows) (auto simp: rbind_Inr_iff split: json.splits)

lemma normalize_rows_iff: "normalize_rows v label = Inr rows \<longleftrightarrow> v = JList (map JObj rows)"
proof (cases v)
  case (JList xs)
  show ?thesis
    unfolding normalize_rows_def JList json.case json.inject by (rule mapM_enumerate)
qed (simp_all add: normalize_rows_def)

lemma compare_rows_iff:
  assumes "\<And>am em. counter_ok am \<Longrightarrow> counter_ok em \<Longrightarrow>
      (f am em = Inr ()) \<longleftrightarrow> good (counter_get am) (counter_get em)"
  shows "compare_rows f c = Inr () \<longleftrightarrow>
     ac_keys c \<noteq> [] \<and> (\<exists>actual expected.
       ac_data c = JList (map JObj actual) \<and> expected_rows c = Inr expected \<and>
       rows_have (ac_keys c) actual \<and> rows_have (ac_keys c) expected \<and>
       good (count (cells_of (ac_keys c) actual)) (count (cells_of (ac_keys c) expected)))"
proof -
  have ok: "counter_ok (fold counter_add ks [])" for ks
    by (rule cells.good_fold [OF cells.good_empty])
  have get: "counter_get (fold counter_add (map (row_key ks) rows) []) = count (cells_of ks rows)" for ks rows
    by (rule ext) (simp add: cells.count_bag cells_of_def)
  show ?thesis
    by (auto simp: compare_rows_def result_simps normalize_rows_iff build_multiset_iff assms [OF ok ok] get)
qed

section \<open>Properties\<close>

text \<open>C20. An assertion \<open>jsonArrayEquals\<close> on data passes exactly when compare keys are given, the data is
  an array of objects, the expected value gives rows, every row on both sides has all the keys, and
  the two sides have the same multiset of compared cells, whatever their order and other fields.\<close>
theorem array_equals_spec:
  "evaluate_array_equals c = Inr () \<longleftrightarrow>
     ac_keys c \<noteq> [] \<and> (\<exists>actual expected.
       ac_data c = JList (map JObj actual) \<and> expected_rows c = Inr expected \<and>
       rows_have (ac_keys c) actual \<and> rows_have (ac_keys c) expected \<and>
       cells_of (ac_keys c) actual = cells_of (ac_keys c) expected)"
  unfolding evaluate_array_equals_def
  by (subst compare_rows_iff [where good = "\<lambda>a e. a = e"])
     (auto simp: result_simps counter_equal_iff multiset_eq_iff fun_eq_iff)

text \<open>An assertion \<open>jsonArrayContains\<close> on data passes exactly when, under the same conditions, the
  compared cells of the actual rows are a sub-multiset of those of the expected rows: it is the
  expected array that contains the actual one.\<close>
theorem array_contains_spec:
  "evaluate_array_contains c = Inr () \<longleftrightarrow>
     ac_keys c \<noteq> [] \<and> (\<exists>actual expected.
       ac_data c = JList (map JObj actual) \<and> expected_rows c = Inr expected \<and>
       rows_have (ac_keys c) actual \<and> rows_have (ac_keys c) expected \<and>
       cells_of (ac_keys c) actual \<subseteq># cells_of (ac_keys c) expected)"
  unfolding evaluate_array_contains_def
  by (subst compare_rows_iff [where good = "\<lambda>a e. \<forall>k. a k \<le> e k"])
     (auto simp: result_simps counter_le_iff subseteq_mset_def)

lemma normalize_assert_kinds:
  "map normalize_kind [''equals'', ''empty'', ''not-empty'', ''contains'', ''json-array-equals'', ''json-array-contains'']
     = [''equals'', ''empty'', ''not-empty'', ''contains'', ''json-array-equals'', ''json-array-contains'']"
  by code_simp

text \<open>The evaluator each assert code stands for.\<close>

definition code_evaluators :: "(assert_context \<Rightarrow> unit result) dict" where
  "code_evaluators =
     [(''jsonEquals'', evaluate_equals), (''jsonEmpty'', evaluate_empty),
      (''jsonNotEmpty'', evaluate_not_empty), (''jsonContains'', evaluate_contains),
      (''jsonArrayEquals'', evaluate_array_equals), (''jsonArrayEmpty'', evaluate_empty),
      (''jsonArrayNotEmpty'', evaluate_not_empty), (''jsonArrayContains'', evaluate_array_contains)]"

lemma evaluate_assert_code:
  assumes f: "dict_get code_evaluators (as_code a) = Some f"
    and k: "normalize_kind (as_object_type a) = ''json-data''"
  shows "evaluate_assert v a d x e = f (assert_context_of a d x e)"
proof -
  have t: "\<exists>t. assert_type a = Inr t \<and>
      map_of (evaluator_table v) (''json-data'', normalize_kind t) = Some f"
    using f normalize_assert_kinds
    by (auto simp: code_evaluators_def assert_type_def assert_type_table_def evaluator_table_def
        dict_get_def split: if_splits)
  then show ?thesis
    by (auto simp: evaluate_assert_def k Let_def)
qed

lemma evaluate_assert_other:
  assumes "normalize_kind (as_object_type a) \<noteq> ''json-data''"
  shows "evaluate_assert v a d x e = evaluate_assert v a d y e"
proof -
  have "map_of (evaluator_table v) (normalize_kind (as_object_type a), t) = None" for t
    using assms by (auto simp: evaluator_table_def)
  then show ?thesis
    by (cases "assert_type a") (simp_all add: evaluate_assert_def Let_def)
qed

lemma array_evaluators_ignore_actual:
  assumes "f \<in> {evaluate_array_equals, evaluate_array_contains}"
  shows "f (assert_context_of a d x e) = f (assert_context_of a d y e)"
  using assms
  by (auto simp: evaluate_array_equals_def evaluate_array_contains_def compare_rows_def
      assert_context_of_def expected_rows_def)

text \<open>The value an array assertion is about is ignored when it is not an array: whatever the
  reference resolves to, the assertion then decides on the data the previous command left, so it
  passes whenever that data happens to match.\<close>
theorem non_array_actual_ignored:
  assumes "as_code a \<in> {''jsonArrayEquals'', ''jsonArrayContains''}"
    and "\<not> is_list x" and "\<not> is_list y"
  shows "assert_outcome v a data x e = assert_outcome v a data y e"
proof -
  obtain f where f: "dict_get code_evaluators (as_code a) = Some f"
      "f \<in> {evaluate_array_equals, evaluate_array_contains}"
    using assms(1) by (auto simp: code_evaluators_def dict_get_def)
  have "evaluate_assert v a data x e = evaluate_assert v a data y e"
  proof (cases "normalize_kind (as_object_type a) = ''json-data''")
    case True
    show ?thesis
      unfolding evaluate_assert_code [OF f(1) True]
      by (rule array_evaluators_ignore_actual [OF f(2)])
  next
    case False
    then show ?thesis by (rule evaluate_assert_other)
  qed
  with assms(2,3) show ?thesis by (simp add: assert_outcome_def evaluated_data_def)
qed

definition sample_assertion :: assertion where
  "sample_assertion = \<lparr>as_code = ''jsonArrayEquals'', as_error_message = None,
     as_object_type = ''json-data'', as_actual = RuntimeValue ''rows'', as_expected = JNull,
     as_expected_ref = None, as_compare_keys = Some [''id''], as_schema = None\<rparr>"

text \<open>A reference that resolves to a text, or to an object with other rows, still passes.\<close>
lemma non_array_actual_ignored_witness:
  "(let data = JList [JObj [(''id'', JInt 1)]]; v = (\<lambda>_ _. SchemaValid) in
     assert_outcome v sample_assertion data (JStr ''no rows'') data = Inr () \<and>
     assert_outcome v sample_assertion data (JObj [(''id'', JInt 2)]) data = Inr ())"
proof -
  let ?d = "JList [JObj [(''id'', JInt 1)]]" and ?v = "\<lambda>_ _. SchemaValid"
  have "\<not> isl (assert_outcome ?v sample_assertion ?d (JStr ''no rows'') ?d)" by code_simp
  then have pass: "assert_outcome ?v sample_assertion ?d (JStr ''no rows'') ?d = Inr ()"
    by (cases "assert_outcome ?v sample_assertion ?d (JStr ''no rows'') ?d") simp_all
  have "assert_outcome ?v sample_assertion ?d (JStr ''no rows'') ?d =
      assert_outcome ?v sample_assertion ?d (JObj [(''id'', JInt 2)]) ?d"
    by (rule non_array_actual_ignored) (simp_all add: sample_assertion_def)
  with pass show ?thesis by simp
qed

end
