(* ===== verification/Execution.thy ===== *)
theory Execution
  imports SuiteItems
begin

text \<open>
  The execution of a list of commands and of one suite item:
  \<open>operations/command_executor_composite.py\<close>, \<open>test_suites/suite_item_executor.py\<close> and the
  variables of \<open>suite_runs/execution_runtime_context.py\<close>.

  The executors of the commands are an argument of the definitions here; \<open>Executors\<close> gives them.
  They see the environment: the interpreter's objects with the current run context, the variables
  that identify the execution, the published events, and the world outside (databases, brokers,
  clocks), whose type is a parameter. The rows of the executions are beside the environment, because
  only the code of this theory and of \<open>SuiteExecution\<close> writes them. Their timestamps are left out, and
  so are the rows of the log, which another session writes.
\<close>

section \<open>Values under construction\<close>

text \<open>A literal of the code, such as \<open>{"message": m, "rows": v}\<close>, whose leaves are values.\<close>

datatype view = Val pyval | Fields "(string \<times> view) list" | Items "view list"

abbreviation text_view :: "string \<Rightarrow> view" where
  "text_view s \<equiv> Val (VStr s)"

definition optional_view :: "string option \<Rightarrow> view" where
  "optional_view s = Val (case s of None \<Rightarrow> VNone | Some t \<Rightarrow> VStr t)"

text \<open>\<open>s or None\<close>.\<close>

definition non_empty :: "string \<Rightarrow> string option" where
  "non_empty s = (if s = [] then None else Some s)"

fun build_view :: "view \<Rightarrow> heap \<Rightarrow> pyval \<times> heap"
  and build_items :: "view list \<Rightarrow> heap \<Rightarrow> pyval list \<times> heap"
  and build_fields :: "(string \<times> view) list \<Rightarrow> heap \<Rightarrow> pyval dict \<times> heap" where
  "build_view (Val v) h = (v, h)"
| "build_view (Fields d) h =
     (let (vd, h1) = build_fields d h; (a, h2) = halloc (ODict vd) h1 in (VRef a, h2))"
| "build_view (Items xs) h =
     (let (vs, h1) = build_items xs h; (a, h2) = halloc (OList vs) h1 in (VRef a, h2))"
| "build_items [] h = ([], h)"
| "build_items (x # xs) h =
     (let (v, h1) = build_view x h; (vs, h2) = build_items xs h1 in (v # vs, h2))"
| "build_fields [] h = ([], h)"
| "build_fields ((k, x) # d) h =
     (let (v, h1) = build_view x h; (vd, h2) = build_fields d h1 in ((k, v) # vd, h2))"

section \<open>Execution variables\<close>

record exec_vars =
  ev_execution :: "string option"
  ev_suite :: "string option"
  ev_suite_test :: "string option"
  ev_suite_execution :: "string option"
  ev_suite_test_execution :: "string option"
  ev_test_suite :: "string option"
  ev_suite_item :: "string option"
  ev_test_suite_execution :: "string option"
  ev_suite_item_execution :: "string option"

definition no_vars :: exec_vars where
  "no_vars = \<lparr>ev_execution = None, ev_suite = None, ev_suite_test = None, ev_suite_execution = None,
     ev_suite_test_execution = None, ev_test_suite = None, ev_suite_item = None,
     ev_test_suite_execution = None, ev_suite_item_execution = None\<rparr>"

text \<open>The arguments of \<open>bind_execution_context\<close>: what is given is set, and put back at the end.\<close>

definition given :: "'a option \<Rightarrow> 'a option \<Rightarrow> 'a option" where
  "given new old = (case new of None \<Rightarrow> old | Some x \<Rightarrow> Some x)"

definition put_back :: "'a option \<Rightarrow> 'a option \<Rightarrow> 'a option \<Rightarrow> 'a option" where
  "put_back new old cur = (case new of None \<Rightarrow> cur | Some _ \<Rightarrow> old)"

definition set_vars :: "exec_vars \<Rightarrow> exec_vars \<Rightarrow> exec_vars" where
  "set_vars new old =
     \<lparr>ev_execution = given (ev_execution new) (ev_execution old),
      ev_suite = given (ev_suite new) (ev_suite old),
      ev_suite_test = given (ev_suite_test new) (ev_suite_test old),
      ev_suite_execution = given (ev_suite_execution new) (ev_suite_execution old),
      ev_suite_test_execution = given (ev_suite_test_execution new) (ev_suite_test_execution old),
      ev_test_suite = given (ev_test_suite new) (ev_test_suite old),
      ev_suite_item = given (ev_suite_item new) (ev_suite_item old),
      ev_test_suite_execution = given (ev_test_suite_execution new) (ev_test_suite_execution old),
      ev_suite_item_execution = given (ev_suite_item_execution new) (ev_suite_item_execution old)\<rparr>"

definition reset_vars :: "exec_vars \<Rightarrow> exec_vars \<Rightarrow> exec_vars \<Rightarrow> exec_vars" where
  "reset_vars new old cur =
     \<lparr>ev_execution = put_back (ev_execution new) (ev_execution old) (ev_execution cur),
      ev_suite = put_back (ev_suite new) (ev_suite old) (ev_suite cur),
      ev_suite_test = put_back (ev_suite_test new) (ev_suite_test old) (ev_suite_test cur),
      ev_suite_execution =
        put_back (ev_suite_execution new) (ev_suite_execution old) (ev_suite_execution cur),
      ev_suite_test_execution =
        put_back (ev_suite_test_execution new) (ev_suite_test_execution old) (ev_suite_test_execution cur),
      ev_test_suite = put_back (ev_test_suite new) (ev_test_suite old) (ev_test_suite cur),
      ev_suite_item = put_back (ev_suite_item new) (ev_suite_item old) (ev_suite_item cur),
      ev_test_suite_execution =
        put_back (ev_test_suite_execution new) (ev_test_suite_execution old) (ev_test_suite_execution cur),
      ev_suite_item_execution =
        put_back (ev_suite_item_execution new) (ev_suite_item_execution old) (ev_suite_item_execution cur)\<rparr>"

section \<open>The environment and the rows\<close>

record exec_event =
  ee_execution :: string
  ee_name :: string
  ee_payload :: "(string \<times> view) list"

record 'w env =
  en_py :: py_state
  en_vars :: exec_vars
  en_events :: "exec_event list"
  en_world :: 'w

record command_row =
  cx_id :: string
  cx_execution :: string
  cx_item_execution :: string
  cx_item :: "string option"
  cx_command :: "string option"
  cx_description :: string
  cx_order :: int
  cx_status :: string
  cx_error :: "string option"

record item_row =
  ix_id :: string
  ix_execution :: string
  ix_item :: string
  ix_kind :: string
  ix_phase :: "string option"
  ix_description :: string
  ix_position :: nat
  ix_status :: string
  ix_error :: "string option"

record suite_row =
  sx_id :: string
  sx_suite :: string
  sx_description :: string
  sx_status :: string
  sx_invocation :: "string option"
  sx_requested :: "string option"
  sx_error :: "string option"

text \<open>
  The tables in the order of insertion: of the executions of test suites, of their items, of the
  commands of items and of the commands of the legacy tests.
\<close>

record tables =
  tb_suites :: "suite_row list"
  tb_items :: "item_row list"
  tb_commands :: "command_row list"
  tb_test_commands :: "command_row list"

text \<open>The identifiers of inserted rows come from a generator.\<close>

record 'w exec_state =
  xs_env :: "'w env"
  xs_tables :: tables
  xs_fresh :: "nat \<Rightarrow> string"
  xs_next :: nat

definition with_env :: "('w env, 'a) call \<Rightarrow> ('w exec_state, 'a) call" where
  "with_env m st = (case m (xs_env st) of (r, e) \<Rightarrow> (r, st\<lparr>xs_env := e\<rparr>))"

definition on_env :: "('w env \<Rightarrow> 'w env) \<Rightarrow> 'w exec_state \<Rightarrow> 'w exec_state" where
  "on_env f st = st\<lparr>xs_env := f (xs_env st)\<rparr>"

definition on_py :: "(py_state \<Rightarrow> py_state) \<Rightarrow> 'w env \<Rightarrow> 'w env" where
  "on_py f e = e\<lparr>en_py := f (en_py e)\<rparr>"

definition with_py :: "'a py \<Rightarrow> ('w env, 'a) call" where
  "with_py m e = (case m (en_py e) of (r, p) \<Rightarrow> (r, e\<lparr>en_py := p\<rparr>))"

definition bind_execution_context :: "exec_vars \<Rightarrow> ('w exec_state, 'a) call \<Rightarrow> ('w exec_state, 'a) call" where
  "bind_execution_context new body st =
     (let old = en_vars (xs_env st);
          (r, st') = body (on_env (\<lambda>e. e\<lparr>en_vars := set_vars new old\<rparr>) st)
      in (r, on_env (\<lambda>e. e\<lparr>en_vars := reset_vars new old (en_vars e)\<rparr>) st'))"

text \<open>The bindings of \<open>RunContext\<close> around a body that sees the whole state.\<close>

definition bind_context :: "run_context \<Rightarrow> ('w exec_state, 'a) call \<Rightarrow> ('w exec_state, 'a) call" where
  "bind_context rc body st =
     (let old = current_context (en_py (xs_env st));
          (r, st') = body (on_env (on_py (\<lambda>p. p\<lparr>current_context := Some rc\<rparr>)) st)
      in (r, on_env (on_py (\<lambda>p. p\<lparr>current_context := old\<rparr>)) st'))"

definition bind_item ::
  "string \<Rightarrow> string option \<Rightarrow> pyval option \<Rightarrow> json dict option \<Rightarrow>
    ('w exec_state, 'a) call \<Rightarrow> ('w exec_state, 'a) call" where
  "bind_item item_kind hook_phase local_vars sources body st =
     (let p = en_py (xs_env st) in
      case current_context p of
        None \<Rightarrow> body st
      | Some rc \<Rightarrow>
          (let previous_locals = field_at (objects p) (VRef (local_scope rc)) ''constants'';
               (r, st') = body (on_env (on_py (enter_suite_item item_kind hook_phase local_vars sources rc)) st)
           in (r, on_env (on_py (leave_suite_item rc previous_locals)) st')))"

section \<open>Events\<close>

definition publish :: "string \<Rightarrow> string \<Rightarrow> (string \<times> view) list \<Rightarrow> 'w env \<Rightarrow> 'w env" where
  "publish execution_id name payload e =
     (if execution_id = [] then e
      else e\<lparr>en_events := en_events e @
        [\<lparr>ee_execution = execution_id, ee_name = name, ee_payload = payload\<rparr>]\<rparr>)"

definition publish_current :: "string \<Rightarrow> (string \<times> view) list \<Rightarrow> 'w env \<Rightarrow> 'w env" where
  "publish_current name payload e = publish (text_of (ev_execution (en_vars e))) name payload e"

definition publish_runtime_log_event ::
  "string \<Rightarrow> string \<Rightarrow> string \<Rightarrow> string \<Rightarrow> view \<Rightarrow> 'w env \<Rightarrow> 'w env" where
  "publish_runtime_log_event subject_type subject level message payload e =
     publish_current ''execution_log''
       [(''subject_type'', text_view subject_type), (''subject'', text_view subject),
        (''level'', text_view level), (''message'', text_view message), (''payload'', payload),
        (''suite_id'', optional_view (ev_suite (en_vars e))),
        (''suite_test_id'', optional_view (ev_suite_test (en_vars e)))] e"

text \<open>\<open>OperationExecutor.log\<close>.\<close>

definition log_command :: "string \<Rightarrow> string \<Rightarrow> view \<Rightarrow> string \<Rightarrow> 'w env \<Rightarrow> 'w env" where
  "log_command operation_id message payload level =
     publish_runtime_log_event ''OPERATION_EXECUTION'' operation_id level message payload"

section \<open>Rows\<close>

definition fresh_id :: "('w exec_state, string) call" where
  "fresh_id st = (Inr (xs_fresh st (xs_next st)), st\<lparr>xs_next := Suc (xs_next st)\<rparr>)"

definition on_tables :: "(tables \<Rightarrow> tables) \<Rightarrow> 'w exec_state \<Rightarrow> 'w exec_state" where
  "on_tables f st = st\<lparr>xs_tables := f (xs_tables st)\<rparr>"

definition update_row :: "('r \<Rightarrow> string) \<Rightarrow> string \<Rightarrow> ('r \<Rightarrow> 'r) \<Rightarrow> 'r list \<Rightarrow> 'r list" where
  "update_row key i f rows = map (\<lambda>r. if key r = i then f r else r) rows"

definition finish_command :: "string \<Rightarrow> string option \<Rightarrow> command_row \<Rightarrow> command_row" where
  "finish_command status error r = r\<lparr>cx_status := status, cx_error := error\<rparr>"

definition finish_item :: "string \<Rightarrow> string option \<Rightarrow> item_row \<Rightarrow> item_row" where
  "finish_item status error r = r\<lparr>ix_status := status, ix_error := error\<rparr>"

definition finish_suite :: "string \<Rightarrow> string option \<Rightarrow> suite_row \<Rightarrow> suite_row" where
  "finish_suite status error r = r\<lparr>sx_status := status, sx_error := error\<rparr>"

definition insert_command ::
  "((command_row list \<Rightarrow> command_row list) \<Rightarrow> tables \<Rightarrow> tables) \<Rightarrow> (string \<Rightarrow> command_row) \<Rightarrow>
    ('w exec_state, string) call" where
  "insert_command table row =
     sbind fresh_id (\<lambda>i st. (Inr i, on_tables (table (\<lambda>rs. rs @ [row i])) st))"

section \<open>\<open>execute_operations\<close>\<close>

record operation =
  op_id :: string
  op_configuration :: json
  op_description :: string
  op_order :: int

type_synonym results = "pyval \<times> view list"

type_synonym 'w executor = "string \<Rightarrow> command \<Rightarrow> pyval \<Rightarrow> ('w env, results) call"

definition current_var :: "(exec_vars \<Rightarrow> string option) \<Rightarrow> 'w exec_state \<Rightarrow> string" where
  "current_var f st = py_strip (text_of (f (en_vars (xs_env st))))"

text \<open>
  The two rows of a command, each inserted when the variables say which execution it belongs to.
  The identifiers are empty when it is not.
\<close>

definition insert_legacy_command :: "operation \<Rightarrow> ('w exec_state, string) call" where
  "insert_legacy_command op st =
     (let suite = current_var ev_suite_execution st; test = current_var ev_suite_test_execution st in
      if suite \<noteq> [] \<and> test \<noteq> [] then
        insert_command tb_test_commands_update (\<lambda>i. \<lparr>cx_id = i, cx_execution = suite,
          cx_item_execution = test, cx_item = non_empty (current_var ev_suite_test st),
          cx_command = non_empty (op_id op), cx_description = op_description op, cx_order = op_order op,
          cx_status = ''running'', cx_error = None\<rparr>) st
      else (Inr [], st))"

definition insert_item_command :: "operation \<Rightarrow> ('w exec_state, string) call" where
  "insert_item_command op st =
     (let suite = current_var ev_test_suite_execution st; item = current_var ev_suite_item_execution st in
      if suite \<noteq> [] \<and> item \<noteq> [] then
        insert_command tb_commands_update (\<lambda>i. \<lparr>cx_id = i, cx_execution = suite,
          cx_item_execution = item, cx_item = non_empty (current_var ev_suite_item st),
          cx_command = non_empty (op_id op), cx_description = op_description op, cx_order = op_order op,
          cx_status = ''running'', cx_error = None\<rparr>) st
      else (Inr [], st))"

definition finish_command_rows ::
  "string \<Rightarrow> string \<Rightarrow> string \<Rightarrow> string option \<Rightarrow> tables \<Rightarrow> tables" where
  "finish_command_rows legacy current status error t =
     (let t1 = (if legacy = [] then t
                else tb_test_commands_update (update_row cx_id legacy (finish_command status error)) t)
      in if current = [] then t1
         else tb_commands_update (update_row cx_id current (finish_command status error)) t1)"

definition command_event ::
  "'w exec_state \<Rightarrow> operation \<Rightarrow> string option \<Rightarrow> string \<Rightarrow> string \<Rightarrow> contract option \<Rightarrow>
    (string \<times> view) list \<Rightarrow> (string \<times> view) list" where
  "command_event st op scope legacy current ct outcome =
     [(''suite_test_id'', text_view (current_var ev_suite_test st)),
      (''suite_test_execution_id'', optional_view (non_empty (current_var ev_suite_test_execution st))),
      (''test_operation_execution_id'', optional_view (non_empty legacy)),
      (''suite_item_id'', optional_view (non_empty (current_var ev_suite_item st))),
      (''suite_item_execution_id'', optional_view (non_empty (current_var ev_suite_item_execution st))),
      (''suite_item_operation_execution_id'', optional_view (non_empty current)),
      (''command_id'', text_view (op_id op)),
      (''command_description'', text_view (op_description op)),
      (''command_scope'', optional_view scope),
      (''command_family'', optional_view (map_option ct_family ct))] @ outcome"

text \<open>One turn of the loop, from the data so far to the data and the results of the command.\<close>

definition execute_one ::
  "field_types \<Rightarrow> 'w executor \<Rightarrow> string option \<Rightarrow> operation \<Rightarrow> pyval \<Rightarrow> ('w exec_state, results) call" where
  "execute_one pyd ex scope op data =
     sbind (insert_legacy_command op) (\<lambda>legacy.
     sbind (insert_item_command op) (\<lambda>current st0.
       case convert_to_config_command_type pyd (fields_of (op_configuration op)) of
         Inl e \<Rightarrow> (Inl e, st0)
       | Inr cfg \<Rightarrow>
           (let policy = validate_operation_policy (cfg_command cfg) scope;
                (r, st) = (case policy of
                    Inl e \<Rightarrow> (Inl e, st0)
                  | Inr _ \<Rightarrow> with_env (ex (op_id op) (cfg_command cfg) data) st0);
                ct = (case policy of Inl _ \<Rightarrow> None | Inr c \<Rightarrow> Some c);
                close = (\<lambda>status error outcome.
                  on_env (publish_current ''command_finished'' (command_event st0 op scope legacy current ct
                      ((''status'', text_view status) # outcome)))
                    (on_tables (finish_command_rows legacy current status error) st))
            in case r of
                 Inr (data', res) \<Rightarrow>
                   (Inr (data', res), close ''success'' None [(''result'', Items res)])
               | Inl e \<Rightarrow>
                   (Inl e, close ''error'' (Some (error_text e)) [(''error'', text_view (error_text e))]))))"

fun execute_each ::
  "field_types \<Rightarrow> 'w executor \<Rightarrow> string option \<Rightarrow> operation list \<Rightarrow> pyval \<Rightarrow> view list \<Rightarrow>
    ('w exec_state, results) call" where
  "execute_each pyd ex scope [] data res = spure (data, res)"
| "execute_each pyd ex scope (op # ops) data res =
     sbind (execute_one pyd ex scope op data) (\<lambda>(data', new).
       execute_each pyd ex scope ops data' (res @ new))"

definition execute_operations ::
  "field_types \<Rightarrow> 'w executor \<Rightarrow> operation list \<Rightarrow> pyval \<Rightarrow> string option \<Rightarrow> ('w exec_state, results) call" where
  "execute_operations pyd ex ops data scope st =
     execute_each pyd ex (resolve_execution_scope scope (current_context (en_py (xs_env st)))) ops data []
       (on_env (publish_runtime_log_event ''OPERATION_EXECUTION'' ''N/A'' ''INFO''
          (''Starting execution '' @ nat_text (length ops) @ '' commands'') (Val VNone)) st)"

section \<open>\<open>execute_suite_item\<close>\<close>

text \<open>A row of the suite's items with the rows of its commands, in the order of their query.\<close>

record suite_item_entity =
  se_item :: suite_item
  se_operations :: "operation list"

definition resolve_suite_item_scope :: "suite_item \<Rightarrow> string option" where
  "resolve_suite_item_scope it =
     (if py_lower (py_strip (it_kind it)) = ''test'' then Some ''test''
      else dict_get hook_phase_scopes (py_lower (py_strip (text_of (it_phase it)))))"

definition execute_suite_item ::
  "field_types \<Rightarrow> 'w executor \<Rightarrow> suite_item_entity \<Rightarrow> ('w exec_state, view list) call" where
  "execute_suite_item pyd ex s =
     sbind (\<lambda>st. let (a, h) = halloc (OList []) (objects (en_py (xs_env st))) in
         (Inr (VRef a), on_env (on_py (\<lambda>p. p\<lparr>objects := h\<rparr>)) st)) (\<lambda>data.
     sbind (bind_execution_context (no_vars\<lparr>ev_suite_item := Some (it_id (se_item s))\<rparr>)
         (execute_operations pyd ex (se_operations s) data (resolve_suite_item_scope (se_item s))))
       (\<lambda>(data', res) st.
         (Inr res, on_env (on_py (set_context_last (it_id (se_item s)) data')) st)))"

end
