(* ===== verification/SuiteExecution.thy ===== *)
theory SuiteExecution
  imports Execution
begin

text \<open>
  The execution of a test suite (\<open>test_suites/test_suite_executor_thread.py\<close>): the hook before all,
  then for every test the hook before each, the test and the hook after each, and the hook after
  all, with the rows and the events of every step.

  \<open>result_json\<close> and the rows of the log are left out. The transaction of the session covers the
  rows: an exception that leaves \<open>_execute\<close> undoes them and nothing else.
\<close>

record suite_entity =
  su_id :: string
  su_description :: string
  su_items :: "suite_item_entity list"

record execution_input =
  xi_execution :: string
  xi_suite :: suite_entity
  xi_event :: pyval
  xi_vars :: pyval
  xi_invocation :: "string option"
  xi_target :: "string option"

abbreviation entity_id :: "suite_item_entity \<Rightarrow> string" where
  "entity_id s \<equiv> it_id (se_item s)"

section \<open>Tests and hooks\<close>

definition resolve_tests_to_execute ::
  "suite_item_entity list \<Rightarrow> string option \<Rightarrow> suite_item_entity list result" where
  "resolve_tests_to_execute tests target =
     (if text_of target = [] then Inr tests
      else (case find (\<lambda>t. entity_id t = text_of target) tests of
              None \<Rightarrow> Inl (AppException (''Test with id '' @ quoted (text_of target) @
                '' not found in test suite''))
            | Some t \<Rightarrow> Inr [t]))"

definition get_all_tests :: "suite_item_entity list \<Rightarrow> suite_item_entity list" where
  "get_all_tests items = filter (\<lambda>s. it_kind (se_item s) = ''test'') items"

text \<open>\<open>one_or_none\<close> raises when the query gives several rows.\<close>

definition get_hook_by_phase :: "suite_item_entity list \<Rightarrow> string \<Rightarrow> suite_item_entity option result" where
  "get_hook_by_phase items phase =
     (case filter (\<lambda>s. it_kind (se_item s) = ''hook'' \<and> it_phase (se_item s) = Some phase) items of
        [] \<Rightarrow> Inr None
      | [s] \<Rightarrow> Inr (Some s)
      | _ \<Rightarrow> Inl (RuntimeError ''Multiple rows were found when one or none was required''))"

record hooks =
  hk_before_all :: "suite_item_entity option"
  hk_before_each :: "suite_item_entity option"
  hk_after_each :: "suite_item_entity option"
  hk_after_all :: "suite_item_entity option"

definition suite_hooks :: "suite_item_entity list \<Rightarrow> hooks result" where
  "suite_hooks items =
     rbind (get_hook_by_phase items ''before-all'') (\<lambda>a.
     rbind (get_hook_by_phase items ''before-each'') (\<lambda>b.
     rbind (get_hook_by_phase items ''after-each'') (\<lambda>c.
     rbind (get_hook_by_phase items ''after-all'') (\<lambda>d.
       Inr \<lparr>hk_before_all = a, hk_before_each = b, hk_after_each = c, hk_after_all = d\<rparr>))))"

section \<open>One item\<close>

datatype outcome = Passed | Failed string

definition event_prefix :: "suite_item_entity \<Rightarrow> string" where
  "event_prefix s = (if it_kind (se_item s) = ''hook'' then ''hook'' else ''test'')"

definition item_event :: "string \<Rightarrow> string \<Rightarrow> suite_item_entity \<Rightarrow> (string \<times> view) list \<Rightarrow> (string \<times> view) list" where
  "item_event sx ix s rest =
     [(''test_suite_execution_id'', text_view sx), (''suite_item_execution_id'', text_view ix),
      (''suite_item_id'', text_view (entity_id s)), (''item_kind'', text_view (it_kind (se_item s))),
      (''hook_phase'', optional_view (it_phase (se_item s))),
      (''item_description'', text_view (it_description (se_item s)))] @ rest"

definition create_item_execution ::
  "string \<Rightarrow> suite_item_entity \<Rightarrow> nat \<Rightarrow> ('w exec_state, string) call" where
  "create_item_execution sx s position =
     sbind fresh_id (\<lambda>i st. (Inr i, on_tables (tb_items_update (\<lambda>rs. rs @
       [\<lparr>ix_id = i, ix_execution = sx, ix_item = entity_id s, ix_kind = it_kind (se_item s),
         ix_phase = strip_or_none (it_phase (se_item s)),
         ix_description = it_description (se_item s), ix_position = position,
         ix_status = ''running'', ix_error = None\<rparr>])) st))"

definition finish_item_row :: "string \<Rightarrow> string \<Rightarrow> string option \<Rightarrow> 'w exec_state \<Rightarrow> 'w exec_state" where
  "finish_item_row i status error = on_tables (tb_items_update (update_row ix_id i (finish_item status error)))"

text \<open>Where a suite is running: the executions it belongs to and what its items share.\<close>

record place =
  pl_execution :: string
  pl_suite_execution :: string
  pl_hooks :: hooks

definition execute_item ::
  "field_types \<Rightarrow> 'w executor \<Rightarrow> place \<Rightarrow> suite_item_entity \<Rightarrow> nat \<Rightarrow> pyval \<Rightarrow> json dict \<Rightarrow>
    ('w exec_state, outcome) call" where
  "execute_item pyd ex pl s position locals sources =
     sbind (create_item_execution (pl_suite_execution pl) s position) (\<lambda>ix st0.
       let started = on_env (publish (pl_execution pl) (event_prefix s @ ''_started'')
             (item_event (pl_suite_execution pl) ix s [(''position'', Val (VInt (int position)))])) st0;
           (r, st) = bind_execution_context
             (no_vars\<lparr>ev_suite_item := Some (entity_id s), ev_suite_item_execution := Some ix\<rparr>)
             (bind_item (it_kind (se_item s)) (strip_or_none (it_phase (se_item s))) (Some locals) (Some sources)
               (execute_suite_item pyd ex s)) started;
           close = (\<lambda>status error outcome.
             on_env (publish (pl_execution pl) (event_prefix s @ ''_finished'')
                 (item_event (pl_suite_execution pl) ix s ((''status'', text_view status) # outcome)))
               (finish_item_row ix status error st))
       in case r of
            Inr results \<Rightarrow> (Inr Passed, close ''success'' None [(''result'', Items results)])
          | Inl e \<Rightarrow> (Inr (Failed (error_text e)),
              close ''error'' (Some (error_text e)) [(''error'', text_view (error_text e))]))"

section \<open>The suite\<close>

text \<open>
  The variables of \<open>_execute\<close>: \<open>execution_position\<close>, \<open>executed_tests\<close>, \<open>any_error\<close> and
  \<open>first_error_message\<close>.
\<close>

record progress =
  pg_position :: nat
  pg_executed :: nat
  pg_error :: bool
  pg_message :: string

definition initial_progress :: progress where
  "initial_progress = \<lparr>pg_position = 0, pg_executed = 0, pg_error = False, pg_message = []\<rparr>"

definition note_outcome :: "outcome \<Rightarrow> progress \<Rightarrow> progress" where
  "note_outcome r pg =
     (case r of
        Passed \<Rightarrow> pg
      | Failed m \<Rightarrow> pg\<lparr>pg_error := True, pg_message := or_text (pg_message pg) m\<rparr>)"

text \<open>
  One item at the next position. The sources it sees are an argument of the call, so an error in
  them is not caught by \<open>_execute_item\<close>.
\<close>

definition run_item ::
  "field_types \<Rightarrow> 'w executor \<Rightarrow> place \<Rightarrow> pyval \<Rightarrow> suite_item_entity \<Rightarrow> progress \<Rightarrow>
    ('w exec_state, outcome \<times> progress) call" where
  "run_item pyd ex pl locals s pg st =
     (case build_visible_sources_for_suite_item (map_option se_item (hk_before_all (pl_hooks pl)))
             (map_option se_item (hk_before_each (pl_hooks pl))) (se_item s) of
        Inl e \<Rightarrow> (Inl e, st)
      | Inr visible \<Rightarrow>
          sbind (execute_item pyd ex pl s (Suc (pg_position pg)) locals
              (map (\<lambda>kv. (fst kv, JObj (snd kv))) visible)) (\<lambda>r st'.
            (Inr (r, note_outcome r (pg\<lparr>pg_position := Suc (pg_position pg)\<rparr>)), st')) st)"

definition run_hook ::
  "field_types \<Rightarrow> 'w executor \<Rightarrow> place \<Rightarrow> pyval \<Rightarrow> suite_item_entity option \<Rightarrow> progress \<Rightarrow>
    ('w exec_state, outcome \<times> progress) call" where
  "run_hook pyd ex pl locals h pg =
     (case h of None \<Rightarrow> spure (Passed, pg) | Some s \<Rightarrow> run_item pyd ex pl locals s pg)"

definition new_locals :: "('w exec_state, pyval) call" where
  "new_locals st =
     (let (a, h) = halloc (ODict []) (objects (en_py (xs_env st)))
      in (Inr (VRef a), on_env (on_py (\<lambda>p. p\<lparr>objects := h\<rparr>)) st))"

text \<open>The hooks before all and after all have local variables of their own.\<close>

definition run_suite_hook ::
  "field_types \<Rightarrow> 'w executor \<Rightarrow> place \<Rightarrow> suite_item_entity option \<Rightarrow> progress \<Rightarrow>
    ('w exec_state, outcome \<times> progress) call" where
  "run_suite_hook pyd ex pl h pg =
     (case h of
        None \<Rightarrow> spure (Passed, pg)
      | Some s \<Rightarrow> sbind new_locals (\<lambda>locals. run_item pyd ex pl locals s pg))"

definition progress_event :: "place \<Rightarrow> nat \<Rightarrow> nat \<Rightarrow> 'w exec_state \<Rightarrow> 'w exec_state" where
  "progress_event pl executed n =
     on_env (publish (pl_execution pl) ''suite_progress''
       [(''test_suite_execution_id'', text_view (pl_suite_execution pl)),
        (''executed_tests'', Val (VInt (int executed))), (''total_tests'', Val (VInt (int n)))])"

definition run_test ::
  "field_types \<Rightarrow> 'w executor \<Rightarrow> place \<Rightarrow> nat \<Rightarrow> suite_item_entity \<Rightarrow> progress \<Rightarrow>
    ('w exec_state, bool \<times> progress) call" where
  "run_test pyd ex pl n s pg =
     sbind new_locals (\<lambda>locals.
     sbind (run_hook pyd ex pl locals (hk_before_each (pl_hooks pl)) pg) (\<lambda>(r1, pg1).
     sbind (run_item pyd ex pl locals s pg1) (\<lambda>(r2, pg2).
     sbind (\<lambda>st. (Inr (), progress_event pl (Suc (pg_executed pg2)) n st)) (\<lambda>_.
     sbind (run_hook pyd ex pl locals (hk_after_each (pl_hooks pl))
              (pg2\<lparr>pg_executed := Suc (pg_executed pg2)\<rparr>)) (\<lambda>(r3, pg3) st.
       (Inr (\<not> (r1 = Passed \<and> r2 = Passed \<and> r3 = Passed), pg3),
        on_env (on_py reset_local_context) st))))))"

definition aborts :: "suite_item_entity \<Rightarrow> bool" where
  "aborts s \<longleftrightarrow> py_upper (it_on_failure (se_item s)) = ''ABORT''"

fun run_tests ::
  "field_types \<Rightarrow> 'w executor \<Rightarrow> place \<Rightarrow> nat \<Rightarrow> suite_item_entity list \<Rightarrow> progress \<Rightarrow>
    ('w exec_state, progress) call" where
  "run_tests pyd ex pl n [] pg = spure pg"
| "run_tests pyd ex pl n (s # ss) pg =
     sbind (run_test pyd ex pl n s pg) (\<lambda>(failed, pg').
       if failed \<and> aborts s then spure pg' else run_tests pyd ex pl n ss pg')"

definition run_phases ::
  "field_types \<Rightarrow> 'w executor \<Rightarrow> place \<Rightarrow> suite_item_entity list \<Rightarrow> ('w exec_state, progress) call" where
  "run_phases pyd ex pl tests =
     sbind (run_suite_hook pyd ex pl (hk_before_all (pl_hooks pl)) initial_progress) (\<lambda>(r0, pg0).
     sbind (if pg_error pg0 then spure pg0 else run_tests pyd ex pl (length tests) tests pg0) (\<lambda>pg1.
     sbind (run_suite_hook pyd ex pl (hk_after_all (pl_hooks pl)) pg1) (\<lambda>(r2, pg2). spure pg2)))"

definition suite_status :: "progress \<Rightarrow> string" where
  "suite_status pg = (if pg_error pg then ''error'' else ''success'')"

definition start_events :: "execution_input \<Rightarrow> place \<Rightarrow> nat \<Rightarrow> 'w exec_state \<Rightarrow> 'w exec_state" where
  "start_events xi pl n st =
     progress_event pl 0 n
       (on_env (publish (pl_execution pl) ''suite_started''
         [(''test_suite_execution_id'', text_view (pl_suite_execution pl)),
          (''test_suite_id'', text_view (su_id (xi_suite xi))),
          (''test_suite_description'', text_view (su_description (xi_suite xi))),
          (''target_test_id'', optional_view (xi_target xi)),
          (''include_previous'', Val (VBool False))]) st)"

definition finish_events :: "execution_input \<Rightarrow> place \<Rightarrow> progress \<Rightarrow> 'w exec_state \<Rightarrow> 'w exec_state" where
  "finish_events xi pl pg st =
     on_env (publish_runtime_log_event ''SUITE_EXECUTION'' (su_id (xi_suite xi))
         (if pg_error pg then ''ERROR'' else ''INFO'')
         (''Finished execution of suite '' @
           quoted (or_text (su_description (xi_suite xi)) (su_id (xi_suite xi))))
         (Fields [(''status'', text_view (suite_status pg))]))
       (on_env (publish (pl_execution pl) ''suite_finished''
           [(''test_suite_execution_id'', text_view (pl_suite_execution pl)),
            (''status'', text_view (suite_status pg)),
            (''error'', optional_view (non_empty (pg_message pg)))])
         (on_tables (tb_suites_update (update_row sx_id (pl_suite_execution pl)
           (finish_suite (suite_status pg) (non_empty (pg_message pg))))) st))"

definition insert_suite_execution :: "execution_input \<Rightarrow> ('w exec_state, string) call" where
  "insert_suite_execution xi =
     sbind fresh_id (\<lambda>i st. (Inr i, on_tables (tb_suites_update (\<lambda>rs. rs @
       [\<lparr>sx_id = i, sx_suite = su_id (xi_suite xi), sx_description = su_description (xi_suite xi),
         sx_status = ''running'', sx_invocation = strip_or_none (xi_invocation xi),
         sx_requested = strip_or_none (xi_target xi), sx_error = None\<rparr>])) st))"

definition new_context :: "execution_input \<Rightarrow> string \<Rightarrow> ('w exec_state, run_context) call" where
  "new_context xi rid st =
     (let (rc, h) = create_run_context rid (xi_event xi) (xi_vars xi) (xi_invocation xi)
            (objects (en_py (xs_env st)))
      in (Inr rc, on_env (on_py (\<lambda>p. p\<lparr>objects := h\<rparr>)) st))"

definition execute_bound ::
  "field_types \<Rightarrow> 'w executor \<Rightarrow> execution_input \<Rightarrow> run_context \<Rightarrow> place \<Rightarrow> suite_item_entity list \<Rightarrow>
    ('w exec_state, progress) call" where
  "execute_bound pyd ex xi rc pl tests =
     bind_context rc (bind_execution_context
       (no_vars\<lparr>ev_execution := Some (xi_execution xi), ev_test_suite := Some (su_id (xi_suite xi)),
                ev_test_suite_execution := Some (pl_suite_execution pl)\<rparr>)
       (\<lambda>st. sbind (run_phases pyd ex pl tests) (\<lambda>pg st'. (Inr pg, finish_events xi pl pg st'))
          (start_events xi pl (length tests) st)))"

definition execute_in_session ::
  "field_types \<Rightarrow> 'w executor \<Rightarrow> execution_input \<Rightarrow> ('w exec_state, progress) call" where
  "execute_in_session pyd ex xi =
     sbind (insert_suite_execution xi) (\<lambda>sx.
     sbind (new_context xi sx) (\<lambda>rc.
     sbind (slift (suite_hooks (su_items (xi_suite xi)))) (\<lambda>hks.
     sbind (slift (resolve_tests_to_execute (get_all_tests (su_items (xi_suite xi))) (xi_target xi))) (\<lambda>tests.
       execute_bound pyd ex xi rc
         \<lparr>pl_execution = xi_execution xi, pl_suite_execution = sx, pl_hooks = hks\<rparr> tests))))"

text \<open>\<open>managed_session\<close>: an exception rolls the rows back.\<close>

definition managed_session :: "('w exec_state, 'a) call \<Rightarrow> ('w exec_state, 'a) call" where
  "managed_session body st =
     (case body st of
        (Inl e, st') \<Rightarrow> (Inl e, st'\<lparr>xs_tables := xs_tables st\<rparr>)
      | (Inr x, st') \<Rightarrow> (Inr x, st'))"

definition execute_suite :: "field_types \<Rightarrow> 'w executor \<Rightarrow> execution_input \<Rightarrow> ('w exec_state, progress) call" where
  "execute_suite pyd ex xi = managed_session (execute_in_session pyd ex xi)"

end
