(* ===== verification/SuiteExecutionFacts.thy ===== *)
theory SuiteExecutionFacts
  imports SuiteExecution
begin

text \<open>
  What every step of a suite does to the rows: the commands leave the rows of items and suites
  alone, and one item appends one row and finishes it.
\<close>

named_theorems frame_intros \<open>calls that leave the rows of items and suites alone\<close>

section \<open>Calls that leave the rows of items alone\<close>

definition leaves_items :: "'w exec_state \<Rightarrow> 'w exec_state \<Rightarrow> bool" where
  "leaves_items st st' \<longleftrightarrow>
     tb_items (xs_tables st') = tb_items (xs_tables st) \<and> tb_suites (xs_tables st') = tb_suites (xs_tables st) \<and>
     xs_fresh st' = xs_fresh st \<and> xs_next st \<le> xs_next st'"

definition keeps_items :: "('w exec_state, 'a) call \<Rightarrow> bool" where
  "keeps_items m \<longleftrightarrow> (\<forall>st. leaves_items st (snd (m st)))"

lemma leaves_items_refl [simp]: "leaves_items st st"
  by (simp add: leaves_items_def)

lemma leaves_items_trans: "leaves_items st st' \<Longrightarrow> leaves_items st' st'' \<Longrightarrow> leaves_items st st''"
  by (simp add: leaves_items_def)

lemma leaves_items_on_env [simp]:
  "leaves_items st (on_env f st') \<longleftrightarrow> leaves_items st st'"
  "leaves_items (on_env f st) st' \<longleftrightarrow> leaves_items st st'"
  by (simp_all add: leaves_items_def on_env_def)

lemma keeps_itemsD: "keeps_items m \<Longrightarrow> m st = (r, st') \<Longrightarrow> leaves_items st st'"
  unfolding keeps_items_def by (metis snd_conv)

lemma keeps_itemsI: "(\<And>st r st'. m st = (r, st') \<Longrightarrow> leaves_items st st') \<Longrightarrow> keeps_items m"
  unfolding keeps_items_def by (metis prod.collapse)

lemma keeps_items_sbind [frame_intros]:
  "keeps_items m \<Longrightarrow> (\<And>x. keeps_items (f x)) \<Longrightarrow> keeps_items (sbind m f)"
  by (rule keeps_itemsI)
     (auto simp: sbind_def split: prod.splits sum.splits dest!: keeps_itemsD intro: leaves_items_trans)

lemma keeps_items_pure [frame_intros]:
  "keeps_items (spure x)" "keeps_items (sraise e)" "keeps_items (slift r)"
  by (simp_all add: keeps_items_def spure_def sraise_def slift_def)

lemma keeps_items_env [frame_intros]:
  "keeps_items (with_env m)" "keeps_items (\<lambda>st. (r, on_env f st))"
  by (simp_all add: keeps_items_def with_env_def leaves_items_def on_env_def split: prod.splits)

lemma keeps_items_bind_vars [frame_intros]:
  "keeps_items m \<Longrightarrow> keeps_items (bind_execution_context v m)"
  by (rule keeps_itemsI)
     (auto simp: bind_execution_context_def Let_def split: prod.splits dest!: keeps_itemsD)

lemma keeps_items_bind_item [frame_intros]:
  "keeps_items m \<Longrightarrow> keeps_items (bind_item k ph l s m)"
  by (rule keeps_itemsI)
     (auto simp: bind_item_def Let_def split: prod.splits option.splits dest!: keeps_itemsD)

lemma keeps_items_fresh [frame_intros]: "keeps_items fresh_id"
  by (simp add: keeps_items_def fresh_id_def leaves_items_def)

lemma leaves_items_commands [simp]:
  "leaves_items st (on_tables (tb_commands_update f) st') \<longleftrightarrow> leaves_items st st'"
  "leaves_items st (on_tables (tb_test_commands_update f) st') \<longleftrightarrow> leaves_items st st'"
  "leaves_items st (on_tables (finish_command_rows l c s e) st') \<longleftrightarrow> leaves_items st st'"
  by (simp_all add: leaves_items_def on_tables_def finish_command_rows_def Let_def)

lemma keeps_items_insert [frame_intros]:
  "keeps_items (insert_command tb_commands_update row)"
  "keeps_items (insert_command tb_test_commands_update row)"
  unfolding insert_command_def
  by (intro keeps_items_sbind keeps_items_fresh; simp add: keeps_items_def)+

lemma keeps_items_insert_rows [frame_intros]:
  "keeps_items (insert_legacy_command op)" "keeps_items (insert_item_command op)"
  by (rule keeps_itemsI;
      auto simp: insert_legacy_command_def insert_item_command_def Let_def split: if_splits
        dest!: keeps_itemsD [OF keeps_items_insert(1)] keeps_itemsD [OF keeps_items_insert(2)])+

lemma keeps_items_execute_one [frame_intros]: "keeps_items (execute_one pyd ex scope op data)"
  unfolding execute_one_def
proof (intro keeps_items_sbind keeps_items_insert_rows, goal_cases)
  case (1 legacy current)
  show ?case
    by (rule keeps_itemsI)
       (auto simp: Let_def split: sum.splits prod.splits
         dest!: keeps_itemsD [OF keeps_items_env(1)])
qed

lemma keeps_items_execute_each [frame_intros]: "keeps_items (execute_each pyd ex scope ops data res)"
  by (induction ops arbitrary: data res) (auto intro!: frame_intros)

lemma keeps_items_execute_suite_item [frame_intros]: "keeps_items (execute_suite_item pyd ex s)"
  unfolding execute_suite_item_def
proof (intro keeps_items_sbind keeps_items_bind_vars, goal_cases)
  case 1
  show ?case by (simp add: keeps_items_def Let_def split_beta)
next
  case (2 data)
  show ?case
    by (rule keeps_itemsI)
       (auto simp: execute_operations_def dest!: keeps_itemsD [OF keeps_items_execute_each])
next
  case (3 data res)
  show ?case by (cases res) (simp add: keeps_items_def)
qed

section \<open>One item appends its row\<close>

text \<open>The identifiers still to come differ from those of the rows.\<close>

definition ids_ok :: "'w exec_state \<Rightarrow> bool" where
  "ids_ok st \<longleftrightarrow> inj (xs_fresh st) \<and>
     (\<forall>n \<ge> xs_next st. xs_fresh st n \<notin> ix_id ` set (tb_items (xs_tables st)) \<union> sx_id ` set (tb_suites (xs_tables st)))"

fun outcome_status :: "outcome \<Rightarrow> string" where
  "outcome_status Passed = ''success''"
| "outcome_status (Failed m) = ''error''"

fun outcome_error :: "outcome \<Rightarrow> string option" where
  "outcome_error Passed = None"
| "outcome_error (Failed m) = Some m"

text \<open>The row that records an item that ran at a position with an outcome.\<close>

definition records :: "string \<Rightarrow> suite_item_entity \<times> outcome \<Rightarrow> nat \<Rightarrow> item_row \<Rightarrow> bool" where
  "records sx so position r \<longleftrightarrow>
     ix_execution r = sx \<and> ix_item r = entity_id (fst so) \<and> ix_kind r = it_kind (se_item (fst so)) \<and>
     ix_phase r = strip_or_none (it_phase (se_item (fst so))) \<and>
     ix_description r = it_description (se_item (fst so)) \<and> ix_position r = position \<and>
     ix_status r = outcome_status (snd so) \<and> ix_error r = outcome_error (snd so)"

lemma update_row_other: "i \<notin> key ` set rows \<Longrightarrow> update_row key i f rows = rows"
  by (auto simp: update_row_def intro!: map_idI)

lemma update_row_append: "update_row key i f (xs @ ys) = update_row key i f xs @ update_row key i f ys"
  by (simp add: update_row_def)

lemma update_row_Cons: "update_row key i f (r # rs) = (if key r = i then f r else r) # update_row key i f rs"
  by (simp add: update_row_def)

lemma on_env_tables [simp]:
  "xs_tables (on_env f st) = xs_tables st" "xs_fresh (on_env f st) = xs_fresh st"
  "xs_next (on_env f st) = xs_next st"
  by (simp_all add: on_env_def)

lemma on_tables_simps [simp]:
  "xs_tables (on_tables f st) = f (xs_tables st)" "xs_fresh (on_tables f st) = xs_fresh st"
  "xs_next (on_tables f st) = xs_next st"
  by (simp_all add: on_tables_def)

text \<open>What running an item does to the rows.\<close>

definition item_effect ::
  "string \<Rightarrow> suite_item_entity \<Rightarrow> nat \<Rightarrow> outcome \<Rightarrow> 'w exec_state \<Rightarrow> 'w exec_state \<Rightarrow> bool" where
  "item_effect sx s position out st st' \<longleftrightarrow>
     (\<exists>r. records sx (s, out) position r \<and> tb_items (xs_tables st') = tb_items (xs_tables st) @ [r]) \<and>
     tb_suites (xs_tables st') = tb_suites (xs_tables st) \<and> ids_ok st'"

lemma item_row_closed:
  assumes ok: "ids_ok st" and row: "ix_id r = xs_fresh st (xs_next st)"
    and body: "tb_items (xs_tables st1) = tb_items (xs_tables st) @ [r]"
      "tb_suites (xs_tables st1) = tb_suites (xs_tables st)"
      "xs_fresh st1 = xs_fresh st" "Suc (xs_next st) \<le> xs_next st1"
  shows "tb_items (xs_tables (finish_item_row (ix_id r) status error st1)) =
           tb_items (xs_tables st) @ [r\<lparr>ix_status := status, ix_error := error\<rparr>]"
    and "ids_ok (finish_item_row (ix_id r) status error st1)"
proof -
  have "ix_id r \<notin> ix_id ` set (tb_items (xs_tables st))"
    using ok row by (auto simp: ids_ok_def)
  then show items: "tb_items (xs_tables (finish_item_row (ix_id r) status error st1)) =
           tb_items (xs_tables st) @ [r\<lparr>ix_status := status, ix_error := error\<rparr>]"
    by (simp add: finish_item_row_def body update_row_append update_row_other update_row_Cons
        update_row_def [of _ _ _ "[]"] finish_item_def)
  have "xs_fresh st n \<noteq> xs_fresh st (xs_next st)" if "Suc (xs_next st) \<le> n" for n
    using ok that by (auto simp: ids_ok_def dest: injD)
  moreover have rest: "tb_suites (xs_tables (finish_item_row (ix_id r) status error st1)) = tb_suites (xs_tables st)"
      "xs_fresh (finish_item_row (ix_id r) status error st1) = xs_fresh st"
      "Suc (xs_next st) \<le> xs_next (finish_item_row (ix_id r) status error st1)"
    by (simp_all add: finish_item_row_def body)
  ultimately show "ids_ok (finish_item_row (ix_id r) status error st1)"
    using ok row unfolding ids_ok_def items rest by auto
qed

lemma execute_item_effect:
  assumes ok: "ids_ok st"
    and run: "execute_item pyd ex pl s position locals sources st = (r, st')"
  shows "\<exists>out. r = Inr out \<and> item_effect (pl_suite_execution pl) s position out st st'"
proof -
  let ?sx = "pl_suite_execution pl"
  define row where "row = \<lparr>ix_id = xs_fresh st (xs_next st), ix_execution = ?sx, ix_item = entity_id s,
    ix_kind = it_kind (se_item s), ix_phase = strip_or_none (it_phase (se_item s)),
    ix_description = it_description (se_item s), ix_position = position,
    ix_status = ''running'', ix_error = None\<rparr>"
  define st0 where "st0 = on_tables (tb_items_update (\<lambda>rs. rs @ [row])) (st\<lparr>xs_next := Suc (xs_next st)\<rparr>)"
  define started where "started = on_env (publish (pl_execution pl) (event_prefix s @ ''_started'')
             (item_event ?sx (ix_id row) s [(''position'', Val (VInt (int position)))])) st0"
  obtain b st1 where body: "bind_execution_context
        (no_vars\<lparr>ev_suite_item := Some (entity_id s), ev_suite_item_execution := Some (ix_id row)\<rparr>)
        (bind_item (it_kind (se_item s)) (strip_or_none (it_phase (se_item s))) (Some locals) (Some sources)
          (execute_suite_item pyd ex s)) started = (b, st1)"
    by (metis prod.collapse)
  have created: "create_item_execution ?sx s position st = (Inr (ix_id row), st0)"
    by (simp add: create_item_execution_def sbind_def fresh_id_def st0_def row_def)
  have "leaves_items started st1"
    using body by (metis keeps_items_def snd_conv keeps_items_bind_vars keeps_items_bind_item
        keeps_items_execute_suite_item)
  then have st1: "tb_items (xs_tables st1) = tb_items (xs_tables st) @ [row]"
      "tb_suites (xs_tables st1) = tb_suites (xs_tables st)"
      "xs_fresh st1 = xs_fresh st" "Suc (xs_next st) \<le> xs_next st1"
    by (simp_all add: leaves_items_def started_def st0_def)
  note closed = item_row_closed [OF ok _ st1, of "outcome_status out" "outcome_error out" for out]
  have effect: "item_effect ?sx s position out st
      (on_env f (finish_item_row (ix_id row) (outcome_status out) (outcome_error out) st1))" for out f
    using closed [of out] st1(2)
    by (simp add: item_effect_def row_def records_def ids_ok_def finish_item_row_def)
  show ?thesis
  proof (cases b)
    case (Inl e)
    with run created body have "r = Inr (Failed (error_text e))"
      "\<exists>f. st' = on_env f (finish_item_row (ix_id row) (outcome_status (Failed (error_text e)))
          (outcome_error (Failed (error_text e))) st1)"
      by (auto simp: execute_item_def sbind_def Let_def started_def)
    with effect show ?thesis by blast
  next
    case (Inr res)
    with run created body have "r = Inr Passed"
      "\<exists>f. st' = on_env f (finish_item_row (ix_id row) (outcome_status Passed) (outcome_error Passed) st1)"
      by (auto simp: execute_item_def sbind_def Let_def started_def)
    with effect show ?thesis by blast
  qed
qed

section \<open>Logs of a run\<close>

text \<open>The items that ran, in order, with their outcomes.\<close>

type_synonym run_log = "(suite_item_entity \<times> outcome) list"

fun failed :: "outcome \<Rightarrow> bool" where
  "failed Passed = False"
| "failed (Failed m) = True"

definition any_failed :: "run_log \<Rightarrow> bool" where
  "any_failed ls \<longleftrightarrow> (\<exists>so \<in> set ls. failed (snd so))"

fun first_message :: "string \<Rightarrow> run_log \<Rightarrow> string" where
  "first_message m [] = m"
| "first_message m (so # ls) =
     first_message (case snd so of Passed \<Rightarrow> m | Failed e \<Rightarrow> or_text m e) ls"

lemma any_failed_simps [simp]:
  "any_failed [] = False"
  "any_failed (so # ls) = (failed (snd so) \<or> any_failed ls)"
  "any_failed (xs @ ys) = (any_failed xs \<or> any_failed ys)"
  by (auto simp: any_failed_def)

lemma first_message_append [simp]: "first_message m (xs @ ys) = first_message (first_message m xs) ys"
  by (induction xs arbitrary: m) simp_all

text \<open>The rows record the log from a position on, and nothing else changed.\<close>

definition rows_of :: "string \<Rightarrow> nat \<Rightarrow> run_log \<Rightarrow> item_row list \<Rightarrow> bool" where
  "rows_of sx n ls rows \<longleftrightarrow> list_all2 (\<lambda>(i, so) r. records sx so i r) (enumerate (Suc n) ls) rows"

definition log_effect ::
  "string \<Rightarrow> run_log \<Rightarrow> progress \<Rightarrow> progress \<Rightarrow> 'w exec_state \<Rightarrow> 'w exec_state \<Rightarrow> bool" where
  "log_effect sx ls pg pg' st st' \<longleftrightarrow>
     (\<exists>rows. tb_items (xs_tables st') = tb_items (xs_tables st) @ rows \<and> rows_of sx (pg_position pg) ls rows) \<and>
     tb_suites (xs_tables st') = tb_suites (xs_tables st) \<and> ids_ok st' \<and>
     pg_position pg' = pg_position pg + length ls \<and>
     pg_error pg' = (pg_error pg \<or> any_failed ls) \<and>
     pg_message pg' = first_message (pg_message pg) ls"

lemma ids_ok_on_env [simp]: "ids_ok (on_env f st) = ids_ok st"
  by (simp add: ids_ok_def)

lemma log_effect_simps [simp]:
  "log_effect sx ls pg pg' (on_env f st) st' = log_effect sx ls pg pg' st st'"
  "log_effect sx ls pg pg' st (on_env f st') = log_effect sx ls pg pg' st st'"
  "log_effect sx ls (pg\<lparr>pg_executed := n\<rparr>) pg' st st' = log_effect sx ls pg pg' st st'"
  "log_effect sx ls pg (pg'\<lparr>pg_executed := n\<rparr>) st st' = log_effect sx ls pg pg' st st'"
  by (simp_all add: log_effect_def)

lemma log_effect_ids: "log_effect sx ls pg pg' st st' \<Longrightarrow> ids_ok st'"
  by (simp add: log_effect_def)

lemma log_effect_Nil: "ids_ok st \<Longrightarrow> log_effect sx [] pg pg st st"
  by (simp add: log_effect_def rows_of_def)

lemma log_effect_append:
  assumes "log_effect sx xs pg pg1 st st1" and "log_effect sx ys pg1 pg2 st1 st2"
  shows "log_effect sx (xs @ ys) pg pg2 st st2"
  using assms
  by (auto simp: log_effect_def rows_of_def enumerate_append_eq add.commute intro!: list_all2_appendI)

lemma run_item_effect:
  assumes ok: "ids_ok st" and run: "run_item pyd ex pl locals s pg st = (Inr (out, pg'), st')"
  shows "log_effect (pl_suite_execution pl) [(s, out)] pg pg' st st'"
    and "pg_executed pg' = pg_executed pg"
proof -
  from run obtain sources where
    item: "execute_item pyd ex pl s (Suc (pg_position pg)) locals sources st = (Inr out, st')"
    and pg': "pg' = note_outcome out (pg\<lparr>pg_position := Suc (pg_position pg)\<rparr>)"
    by (auto simp: run_item_def sbind_def split: sum.splits prod.splits)
  from execute_item_effect [OF ok item]
  have "item_effect (pl_suite_execution pl) s (Suc (pg_position pg)) out st st'" by simp
  then show "log_effect (pl_suite_execution pl) [(s, out)] pg pg' st st'"
    by (cases out) (auto simp: item_effect_def log_effect_def rows_of_def pg' note_outcome_def)
  show "pg_executed pg' = pg_executed pg"
    by (cases out) (simp_all add: pg' note_outcome_def)
qed

definition one_or_none :: "'a option \<Rightarrow> 'a list" where
  "one_or_none h = (case h of None \<Rightarrow> [] | Some s \<Rightarrow> [s])"

lemma one_or_none_simps [simp]: "one_or_none None = []" "one_or_none (Some s) = [s]"
  by (simp_all add: one_or_none_def)

lemma run_hook_effect:
  assumes ok: "ids_ok st" and run: "run_hook pyd ex pl locals h pg st = (Inr (out, pg'), st')"
  obtains ls where "map fst ls = one_or_none h" "failed out = any_failed ls"
    "log_effect (pl_suite_execution pl) ls pg pg' st st'" "pg_executed pg' = pg_executed pg"
proof (cases h)
  case None
  with run ok that [of "[]"] show ?thesis
    by (auto simp: run_hook_def spure_def log_effect_Nil)
next
  case (Some s)
  with run have "run_item pyd ex pl locals s pg st = (Inr (out, pg'), st')"
    by (simp add: run_hook_def)
  with run_item_effect [OF ok] Some that [of "[(s, out)]"] show ?thesis by simp
qed

lemma run_suite_hook_effect:
  assumes ok: "ids_ok st" and run: "run_suite_hook pyd ex pl h pg st = (Inr (out, pg'), st')"
  obtains ls where "map fst ls = one_or_none h" "failed out = any_failed ls"
    "log_effect (pl_suite_execution pl) ls pg pg' st st'" "pg_executed pg' = pg_executed pg"
proof (cases h)
  case None
  with run ok that [of "[]"] show ?thesis
    by (auto simp: run_suite_hook_def spure_def log_effect_Nil)
next
  case (Some s)
  with run obtain locals f where
    "run_item pyd ex pl locals s pg (on_env f st) = (Inr (out, pg'), st')"
    by (auto simp: run_suite_hook_def sbind_def new_locals_def split: prod.splits)
  with run_item_effect [of "on_env f st"] ok Some that [of "[(s, out)]"] show ?thesis by simp
qed

section \<open>The schedule\<close>

text \<open>What runs for a test, and the logs the tests of a suite can leave.\<close>

definition test_steps :: "hooks \<Rightarrow> suite_item_entity \<Rightarrow> suite_item_entity list" where
  "test_steps hk t = one_or_none (hk_before_each hk) @ [t] @ one_or_none (hk_after_each hk)"

lemma sbind_InrE:
  assumes "sbind m f st = (Inr y, st')"
  obtains x st1 where "m st = (Inr x, st1)" and "f x st1 = (Inr y, st')"
  using assms by (auto simp: sbind_def split: prod.splits sum.splits)

text \<open>
  The tests run in order, each with all its steps, until one fails and its policy is to abort; the
  number is how many of them ran.
\<close>

inductive tests_log :: "hooks \<Rightarrow> suite_item_entity list \<Rightarrow> run_log \<Rightarrow> nat \<Rightarrow> bool" for hk where
  finished: "tests_log hk [] [] 0"
| aborted: "map fst now = test_steps hk t \<Longrightarrow> any_failed now \<Longrightarrow> aborts t \<Longrightarrow> tests_log hk (t # ts) now 1"
| continued: "map fst now = test_steps hk t \<Longrightarrow> \<not> (any_failed now \<and> aborts t) \<Longrightarrow> tests_log hk ts rest n \<Longrightarrow>
    tests_log hk (t # ts) (now @ rest) (Suc n)"

lemma new_locals_env: "\<exists>locals f. new_locals st = (Inr locals, on_env f st)"
  unfolding new_locals_def Let_def split_beta by blast

lemma run_test_effect:
  assumes ok: "ids_ok st" and run: "run_test pyd ex pl n s pg st = (Inr (f, pg'), st')"
  obtains ls where "map fst ls = test_steps (pl_hooks pl) s" "f = any_failed ls"
    "log_effect (pl_suite_execution pl) ls pg pg' st st'" "pg_executed pg' = Suc (pg_executed pg)"
proof -
  let ?sx = "pl_suite_execution pl"
  obtain locals f0 where locals: "new_locals st = (Inr locals, on_env f0 st)"
    using new_locals_env by blast
  let ?st = "on_env f0 st"
  obtain r1 pg1 st1 where
    before: "run_hook pyd ex pl locals (hk_before_each (pl_hooks pl)) pg ?st = (Inr (r1, pg1), st1)"
    and run1: "sbind (run_item pyd ex pl locals s pg1) (\<lambda>(r2, pg2).
       sbind (\<lambda>st. (Inr (), progress_event pl (Suc (pg_executed pg2)) n st)) (\<lambda>_.
       sbind (run_hook pyd ex pl locals (hk_after_each (pl_hooks pl))
              (pg2\<lparr>pg_executed := Suc (pg_executed pg2)\<rparr>)) (\<lambda>(r3, pg3) st.
       (Inr (\<not> (r1 = Passed \<and> r2 = Passed \<and> r3 = Passed), pg3),
        on_env (on_py reset_local_context) st)))) st1 = (Inr (f, pg'), st')"
    using run locals unfolding run_test_def by (elim sbind_InrE) auto
  obtain r2 pg2 st2 where test: "run_item pyd ex pl locals s pg1 st1 = (Inr (r2, pg2), st2)"
    and run2: "sbind (\<lambda>st. (Inr (), progress_event pl (Suc (pg_executed pg2)) n st)) (\<lambda>_.
       sbind (run_hook pyd ex pl locals (hk_after_each (pl_hooks pl))
              (pg2\<lparr>pg_executed := Suc (pg_executed pg2)\<rparr>)) (\<lambda>(r3, pg3) st.
       (Inr (\<not> (r1 = Passed \<and> r2 = Passed \<and> r3 = Passed), pg3),
        on_env (on_py reset_local_context) st))) st2 = (Inr (f, pg'), st')"
    using run1 by (elim sbind_InrE) auto
  obtain f1 where f1: "progress_event pl (Suc (pg_executed pg2)) n st2 = on_env f1 st2"
    by (simp add: progress_event_def)
  obtain r3 f2 st3 where
    after: "run_hook pyd ex pl locals (hk_after_each (pl_hooks pl))
        (pg2\<lparr>pg_executed := Suc (pg_executed pg2)\<rparr>) (on_env f1 st2) = (Inr (r3, pg'), st3)"
    and f: "f = (\<not> (r1 = Passed \<and> r2 = Passed \<and> r3 = Passed))" and st': "st' = on_env f2 st3"
    using run2 f1 by (elim sbind_InrE) auto
  from run_hook_effect [OF _ before] ok obtain l1 where l1: "map fst l1 = one_or_none (hk_before_each (pl_hooks pl))"
    "failed r1 = any_failed l1" "log_effect ?sx l1 pg pg1 st st1" "pg_executed pg1 = pg_executed pg"
    by auto
  note l2 = run_item_effect [OF log_effect_ids [OF l1(3)] test]
  from run_hook_effect [OF _ after] log_effect_ids [OF l2(1)] obtain l3 where l3: "map fst l3 = one_or_none (hk_after_each (pl_hooks pl))"
    "failed r3 = any_failed l3" "log_effect ?sx l3 pg2 pg' st2 st3" "pg_executed pg' = Suc (pg_executed pg2)"
    by auto
  have "log_effect ?sx (l1 @ [(s, r2)] @ l3) pg pg' st st'"
    unfolding st' using log_effect_append [OF l1(3) log_effect_append [OF l2(1) l3(3)]] by simp
  moreover have "f = any_failed (l1 @ [(s, r2)] @ l3)"
    using l1(2) l3(2) by (cases r1; cases r2; cases r3) (auto simp: f)
  ultimately show ?thesis
    using that [of "l1 @ [(s, r2)] @ l3"] l1 l2 l3 by (simp add: test_steps_def)
qed

lemma run_tests_effect:
  assumes "ids_ok st" and "run_tests pyd ex pl n ts pg st = (Inr pg', st')"
  shows "\<exists>ls k. tests_log (pl_hooks pl) ts ls k \<and> log_effect (pl_suite_execution pl) ls pg pg' st st' \<and>
    pg_executed pg' = pg_executed pg + k"
  using assms
proof (induction ts arbitrary: pg st)
  case Nil
  then show ?case
    by (auto simp: spure_def intro!: exI [of _ "[]"] tests_log.finished log_effect_Nil)
next
  case (Cons t ts)
  from Cons.prems(2) obtain f pg1 st1 where
    test: "run_test pyd ex pl n t pg st = (Inr (f, pg1), st1)"
    and rest: "(if f \<and> aborts t then spure pg1 else run_tests pyd ex pl n ts pg1) st1 = (Inr pg', st')"
    by (auto simp: sbind_def split: sum.splits prod.splits)
  from run_test_effect [OF Cons.prems(1) test] obtain now where now:
    "map fst now = test_steps (pl_hooks pl) t" "f = any_failed now"
    "log_effect (pl_suite_execution pl) now pg pg1 st st1" "pg_executed pg1 = Suc (pg_executed pg)" .
  show ?case
  proof (cases "f \<and> aborts t")
    case True
    with rest now tests_log.aborted [OF now(1)] show ?thesis
      by (auto simp: spure_def intro!: exI [of _ now] exI [of _ 1])
  next
    case False
    with rest have "run_tests pyd ex pl n ts pg1 st1 = (Inr pg', st')" by (simp split: if_splits)
    from Cons.IH [OF log_effect_ids [OF now(3)] this] obtain ls k where ls:
      "tests_log (pl_hooks pl) ts ls k" "log_effect (pl_suite_execution pl) ls pg1 pg' st1 st'"
      "pg_executed pg' = pg_executed pg1 + k" by blast
    have "tests_log (pl_hooks pl) (t # ts) (now @ ls) (Suc k)"
      using now(1,2) False ls(1) by (auto intro: tests_log.continued)
    with log_effect_append [OF now(3) ls(2)] now(4) ls(3) show ?thesis by fastforce
  qed
qed

text \<open>The logs of a suite: the tests run unless the hook before all failed, the hook after all always.\<close>

definition suite_log :: "hooks \<Rightarrow> suite_item_entity list \<Rightarrow> run_log \<Rightarrow> nat \<Rightarrow> bool" where
  "suite_log hk tests ls n \<longleftrightarrow>
     (\<exists>before during after. ls = before @ during @ after \<and>
        map fst before = one_or_none (hk_before_all hk) \<and> map fst after = one_or_none (hk_after_all hk) \<and>
        (if any_failed before then during = [] \<and> n = 0 else tests_log hk tests during n))"

lemma run_phases_effect:
  assumes ok: "ids_ok st" and run: "run_phases pyd ex pl tests st = (Inr pg, st')"
  shows "\<exists>ls. suite_log (pl_hooks pl) tests ls (pg_executed pg) \<and>
    log_effect (pl_suite_execution pl) ls initial_progress pg st st'"
proof -
  let ?sx = "pl_suite_execution pl"
  from run obtain r0 pg0 st0 pg1 st1 r2 where
    before: "run_suite_hook pyd ex pl (hk_before_all (pl_hooks pl)) initial_progress st = (Inr (r0, pg0), st0)"
    and during: "(if pg_error pg0 then spure pg0 else run_tests pyd ex pl (length tests) tests pg0) st0 =
        (Inr pg1, st1)"
    and after: "run_suite_hook pyd ex pl (hk_after_all (pl_hooks pl)) pg1 st1 = (Inr (r2, pg), st')"
    by (auto simp: run_phases_def sbind_def spure_def split: sum.splits prod.splits)
  from before ok obtain l0 where l0: "map fst l0 = one_or_none (hk_before_all (pl_hooks pl))"
    "log_effect ?sx l0 initial_progress pg0 st st0" "pg_executed pg0 = 0"
    by (auto elim!: run_suite_hook_effect simp: initial_progress_def)
  have err: "pg_error pg0 = any_failed l0"
    using l0(2) by (simp add: log_effect_def initial_progress_def)
  obtain l1 k where l1: "if any_failed l0 then l1 = [] \<and> k = 0 else tests_log (pl_hooks pl) tests l1 k"
    "log_effect ?sx l1 pg0 pg1 st0 st1" "pg_executed pg1 = k"
  proof (cases "pg_error pg0")
    case True
    with during l0(3) err that [of "[]" 0] log_effect_Nil [OF log_effect_ids [OF l0(2)]] show ?thesis
      by (simp add: spure_def)
  next
    case False
    with during have "run_tests pyd ex pl (length tests) tests pg0 st0 = (Inr pg1, st1)" by simp
    from run_tests_effect [OF log_effect_ids [OF l0(2)] this] False err l0(3) that show ?thesis
      by auto
  qed
  from run_suite_hook_effect [OF log_effect_ids [OF l1(2)] after] obtain l2 where
    l2: "map fst l2 = one_or_none (hk_after_all (pl_hooks pl))" "log_effect ?sx l2 pg1 pg st1 st'"
      "pg_executed pg = pg_executed pg1" by blast
  have "suite_log (pl_hooks pl) tests (l0 @ l1 @ l2) (pg_executed pg)"
    unfolding suite_log_def l2(3) l1(3)
    using l0(1) l1(1) l2(1) by (intro exI [of _ l0] exI [of _ l1] exI [of _ l2]) simp
  with log_effect_append [OF l0(2) log_effect_append [OF l1(2) l2(2)]] show ?thesis by blast
qed

end
