(* ===== verification/SuiteExecutionProps.thy ===== *)
theory SuiteExecutionProps
  imports SuiteExecutionFacts SuiteItemProps
begin

text \<open>
  What the execution of a suite promises: which items run in which order and what their rows say, how the
  verdict of the suite follows from theirs, what an exception leaves behind, and that a suite its
  validator accepted always runs to the end.
\<close>

section \<open>The rows of an execution\<close>

text \<open>Bindings change the environment around their body and publish nothing.\<close>

definition silent :: "('w env \<Rightarrow> 'w env) \<Rightarrow> bool" where
  "silent g \<longleftrightarrow> (\<forall>e. en_events (g e) = en_events e)"

lemma silent_comp: "silent f \<Longrightarrow> silent g \<Longrightarrow> silent (g \<circ> f)"
  by (simp add: silent_def)

lemma silent_simps [simp]: "silent (on_py f)" "silent (\<lambda>e. e\<lparr>en_vars := v e\<rparr>)"
  by (simp_all add: silent_def on_py_def)

lemma bind_context_env:
  assumes "bind_context rc body st = (r, st')"
  obtains f g st1 where "body (on_env f st) = (r, st1)" and "st' = on_env g st1" and "silent g"
  using assms by (auto simp: bind_context_def Let_def split: prod.splits)

lemma bind_execution_context_env:
  assumes "bind_execution_context v body st = (r, st')"
  obtains f g st1 where "body (on_env f st) = (r, st1)" and "st' = on_env g st1" and "silent g"
  using assms by (auto simp: bind_execution_context_def Let_def split: prod.splits)

lemma on_env_compose: "on_env g (on_env f st) = on_env (g \<circ> f) st"
  by (simp add: on_env_def)

lemma new_context_env: "\<exists>rc f. new_context xi sx st = (Inr rc, on_env f st)"
  unfolding new_context_def Let_def split_beta by blast

lemma start_events_env: "\<exists>f. start_events xi pl n st = on_env f st"
  unfolding start_events_def progress_event_def on_env_compose by blast

lemma execute_bound_InrE:
  assumes "execute_bound pyd ex xi rc pl tests st = (Inr pg, st')"
  obtains f st1 g where "run_phases pyd ex pl tests (on_env f st) = (Inr pg, st1)"
    and "st' = on_env g (finish_events xi pl pg st1)" and "silent g"
proof -
  from assms obtain f g g' h st1 where
    "run_phases pyd ex pl tests (start_events xi pl (length tests) (on_env h (on_env f st))) = (Inr pg, st1)"
    "st' = on_env g (on_env g' (finish_events xi pl pg st1))" "silent g" "silent g'"
    unfolding execute_bound_def
    by (elim bind_context_env bind_execution_context_env sbind_InrE) auto
  then have "st' = on_env (g \<circ> g') (finish_events xi pl pg st1)" "silent (g \<circ> g')"
    by (simp_all add: on_env_compose silent_comp)
  moreover obtain k where "start_events xi pl (length tests) (on_env h (on_env f st)) = on_env k st"
    using start_events_env by (metis on_env_compose)
  ultimately show ?thesis
    using that \<open>run_phases _ _ _ _ _ = _\<close> by simp
qed

text \<open>A successful session is the phases between the inserted row and its last update.\<close>

lemma execute_in_session_InrE:
  assumes "execute_in_session pyd ex xi st = (Inr pg, st')"
  obtains sx st0 hks tests f st1 g pl where
    "insert_suite_execution xi st = (Inr sx, st0)"
    "suite_hooks (su_items (xi_suite xi)) = Inr hks"
    "resolve_tests_to_execute (get_all_tests (su_items (xi_suite xi))) (xi_target xi) = Inr tests"
    "pl = \<lparr>pl_execution = xi_execution xi, pl_suite_execution = sx, pl_hooks = hks\<rparr>"
    "run_phases pyd ex pl tests (on_env f st0) = (Inr pg, st1)"
    "st' = on_env g (finish_events xi pl pg st1)" "silent g"
proof -
  from assms obtain sx st0 rc st1 hks tests where
    sx: "insert_suite_execution xi st = (Inr sx, st0)" and rc: "new_context xi sx st0 = (Inr rc, st1)"
    and hks: "suite_hooks (su_items (xi_suite xi)) = Inr hks"
    and tests: "resolve_tests_to_execute (get_all_tests (su_items (xi_suite xi))) (xi_target xi) = Inr tests"
    and body: "execute_bound pyd ex xi rc
       \<lparr>pl_execution = xi_execution xi, pl_suite_execution = sx, pl_hooks = hks\<rparr> tests st1 = (Inr pg, st')"
    unfolding execute_in_session_def by (elim sbind_InrE) (auto simp: slift_def)
  obtain f where "st1 = on_env f st0" using rc new_context_env by (metis prod.inject)
  with body show ?thesis
    by (elim execute_bound_InrE) (auto simp: on_env_compose intro: that [OF sx hks tests refl])
qed

text \<open>What a successful session leaves in the tables.\<close>

lemma insert_suite_execution_effect:
  assumes "ids_ok st" and "insert_suite_execution xi st = (Inr sx, st0)"
  obtains r where "sx = xs_fresh st (xs_next st)" "sx_id r = sx" "sx_suite r = su_id (xi_suite xi)" "sx_id r \<notin> sx_id ` set (tb_suites (xs_tables st))"
    "tb_suites (xs_tables st0) = tb_suites (xs_tables st) @ [r]" "tb_items (xs_tables st0) = tb_items (xs_tables st)"
    "ids_ok st0"
proof -
  let ?r = "\<lparr>sx_id = sx, sx_suite = su_id (xi_suite xi), sx_description = su_description (xi_suite xi),
    sx_status = ''running'', sx_invocation = strip_or_none (xi_invocation xi),
    sx_requested = strip_or_none (xi_target xi), sx_error = None\<rparr>"
  from assms(2) have sx: "sx = xs_fresh st (xs_next st)"
    and st0: "st0 = on_tables (tb_suites_update (\<lambda>rs. rs @ [?r])) (st\<lparr>xs_next := Suc (xs_next st)\<rparr>)"
    by (auto simp: insert_suite_execution_def sbind_def fresh_id_def)
  have "xs_fresh st n \<noteq> xs_fresh st (xs_next st) \<and>
      xs_fresh st n \<notin> ix_id ` set (tb_items (xs_tables st)) \<union> sx_id ` set (tb_suites (xs_tables st))"
    if "Suc (xs_next st) \<le> n" for n
    using assms(1) that by (auto simp: ids_ok_def dest: injD)
  with assms(1) have "ids_ok st0" by (simp add: ids_ok_def st0 sx)
  moreover have "sx \<notin> sx_id ` set (tb_suites (xs_tables st))"
    using assms(1) by (simp add: sx ids_ok_def)
  ultimately show ?thesis
    using sx by (intro that [of ?r]) (simp_all add: st0)
qed

lemma execute_suite_effect:
  assumes ok: "ids_ok st" and run: "execute_suite pyd ex xi st = (Inr pg, st')"
  obtains hks tests ls rows r where
    "suite_hooks (su_items (xi_suite xi)) = Inr hks"
    "resolve_tests_to_execute (get_all_tests (su_items (xi_suite xi))) (xi_target xi) = Inr tests"
    "suite_log hks tests ls (pg_executed pg)"
    "tb_items (xs_tables st') = tb_items (xs_tables st) @ rows" "rows_of (sx_id r) 0 ls rows"
    "tb_suites (xs_tables st') = tb_suites (xs_tables st) @ [r]"
    "sx_suite r = su_id (xi_suite xi)"
    "sx_status r = (if any_failed ls then ''error'' else ''success'')"
    "sx_error r = non_empty (first_message [] ls)"
    "sx_id r = xs_fresh st (xs_next st)"
    "ids_ok st'"
proof -
  from run have "execute_in_session pyd ex xi st = (Inr pg, st')"
    by (auto simp: execute_suite_def managed_session_def split: prod.splits sum.splits)
  then obtain sx st0 hks tests f st1 g pl where
    sx: "insert_suite_execution xi st = (Inr sx, st0)"
    and hks: "suite_hooks (su_items (xi_suite xi)) = Inr hks"
    and tests: "resolve_tests_to_execute (get_all_tests (su_items (xi_suite xi))) (xi_target xi) = Inr tests"
    and pl: "pl = \<lparr>pl_execution = xi_execution xi, pl_suite_execution = sx, pl_hooks = hks\<rparr>"
    and phases: "run_phases pyd ex pl tests (on_env f st0) = (Inr pg, st1)"
    and st': "st' = on_env g (finish_events xi pl pg st1)"
    by (rule execute_in_session_InrE)
  from insert_suite_execution_effect [OF ok sx] obtain r where fresh: "sx = xs_fresh st (xs_next st)" and r: "sx_id r = sx"
    "sx_suite r = su_id (xi_suite xi)" "sx_id r \<notin> sx_id ` set (tb_suites (xs_tables st))"
    "tb_suites (xs_tables st0) = tb_suites (xs_tables st) @ [r]"
    "tb_items (xs_tables st0) = tb_items (xs_tables st)" "ids_ok st0" .
  from run_phases_effect [OF _ phases] r(6) obtain ls where
    ls: "suite_log hks tests ls (pg_executed pg)" "log_effect sx ls initial_progress pg st0 st1"
    by (auto simp: pl)
  let ?r = "finish_suite (suite_status pg) (non_empty (pg_message pg)) r"
  have suites: "tb_suites (xs_tables st') = tb_suites (xs_tables st) @ [?r]"
    using ls(2) r(1,3,4)
    by (simp add: st' finish_events_def log_effect_def pl update_row_append update_row_other update_row_Cons
        update_row_def [of _ _ _ "[]"])
  obtain rows where rows: "tb_items (xs_tables st') = tb_items (xs_tables st) @ rows" "rows_of sx 0 ls rows"
    using ls(2) r(5) by (auto simp: st' finish_events_def log_effect_def initial_progress_def)
  have "tb_suites (xs_tables st1) = tb_suites (xs_tables st) @ [r]"
      "tb_items (xs_tables st') = tb_items (xs_tables st1)" "xs_fresh st' = xs_fresh st1" "xs_next st' = xs_next st1"
    using ls(2) r(4) by (simp_all add: st' finish_events_def log_effect_def)
  then have "ids_ok st'"
    using log_effect_ids [OF ls(2)] by (simp add: ids_ok_def suites finish_suite_def)
  with that [OF hks tests ls(1) rows(1) _ suites, unfolded finish_suite_def] rows(2) r(1,2) ls(2) fresh
  show ?thesis
    by (auto simp: log_effect_def initial_progress_def suite_status_def)
qed

section \<open>What can stop a suite\<close>

text \<open>
  The exceptions a call can raise, whatever the executors raise; the call returns from every state
  when there is none.
\<close>

definition raises_in :: "py_error set \<Rightarrow> ('s, 'a) call \<Rightarrow> bool" where
  "raises_in E m \<longleftrightarrow> (\<forall>st e st'. m st = (Inl e, st') \<longrightarrow> e \<in> E)"

named_theorems raises_intros \<open>the exceptions of composed calls\<close>

lemma raises_sbind [raises_intros]:
  "raises_in E m \<Longrightarrow> (\<And>x. raises_in E (f x)) \<Longrightarrow> raises_in E (sbind m f)"
  unfolding raises_in_def sbind_def by (auto split: prod.splits sum.splits)

lemma raises_pure [raises_intros]: "raises_in E (spure x)" "raises_in E (\<lambda>st. (Inr x, g st))"
  by (simp_all add: raises_in_def spure_def)

lemma raises_fresh [raises_intros]: "raises_in E fresh_id" "raises_in E new_locals"
  by (simp_all add: raises_in_def fresh_id_def new_locals_def split: prod.splits)

lemma raises_split [raises_intros]: "(\<And>x y. raises_in E (f x y)) \<Longrightarrow> raises_in E (case p of (x, y) \<Rightarrow> f x y)"
  by (cases p) simp

lemma raises_if [raises_intros]: "raises_in E m \<Longrightarrow> raises_in E m' \<Longrightarrow> raises_in E (if b then m else m')"
  by simp

lemma raises_bound [raises_intros]: "raises_in E body \<Longrightarrow> raises_in E (bind_context rc body)"
  "raises_in E body \<Longrightarrow> raises_in E (bind_execution_context v body)"
  by (auto simp: raises_in_def bind_context_def bind_execution_context_def Let_def split: prod.splits)

lemma raises_after: "raises_in E m \<Longrightarrow> raises_in E (\<lambda>st. m (g st))"
  by (simp add: raises_in_def)

lemma raises_lift: "(\<And>e. r = Inl e \<Longrightarrow> e \<in> E) \<Longrightarrow> raises_in E (slift r)"
  by (simp add: raises_in_def slift_def)

lemma raises_none: "raises_in {} m \<Longrightarrow> \<exists>x st'. m st = (Inr x, st')"
  unfolding raises_in_def by (metis empty_iff prod.collapse sum.exhaust)

lemma raises_execute_item [raises_intros]: "raises_in E (execute_item pyd ex pl s position locals sources)"
  unfolding execute_item_def create_item_execution_def
  by (intro raises_intros) (auto simp: raises_in_def Let_def split: prod.splits sum.splits)

text \<open>The only exceptions of a step come from the sources of its item.\<close>

definition source_errors :: "hooks \<Rightarrow> suite_item_entity set \<Rightarrow> py_error set" where
  "source_errors hk S = {e. \<exists>s \<in> S. build_visible_sources_for_suite_item
     (map_option se_item (hk_before_all hk)) (map_option se_item (hk_before_each hk)) (se_item s) = Inl e}"

lemma raises_run_item:
  assumes "s \<in> S"
  shows "raises_in (source_errors (pl_hooks pl) S) (run_item pyd ex pl locals s pg)"
proof (cases "build_visible_sources_for_suite_item (map_option se_item (hk_before_all (pl_hooks pl)))
      (map_option se_item (hk_before_each (pl_hooks pl))) (se_item s)")
  case (Inl e)
  with assms show ?thesis by (auto simp: raises_in_def run_item_def source_errors_def)
next
  case (Inr v)
  then have "run_item pyd ex pl locals s pg =
      sbind (execute_item pyd ex pl s (Suc (pg_position pg)) locals (map (\<lambda>kv. (fst kv, JObj (snd kv))) v))
        (\<lambda>r st'. (Inr (r, note_outcome r (pg\<lparr>pg_position := Suc (pg_position pg)\<rparr>)), st'))"
    by (intro ext) (simp add: run_item_def)
  then show ?thesis by (simp add: raises_intros)
qed

lemma raises_run_hook:
  assumes "set (one_or_none h) \<subseteq> S"
  shows "raises_in (source_errors (pl_hooks pl) S) (run_hook pyd ex pl locals h pg)"
    and "raises_in (source_errors (pl_hooks pl) S) (run_suite_hook pyd ex pl h pg)"
  using assms
  by (cases h; simp add: run_hook_def run_suite_hook_def raises_intros raises_run_item)+

lemma raises_run_test:
  assumes "set (test_steps (pl_hooks pl) t) \<subseteq> S"
  shows "raises_in (source_errors (pl_hooks pl) S) (run_test pyd ex pl n t pg)"
proof -
  have "set (one_or_none (hk_before_each (pl_hooks pl))) \<subseteq> S" "t \<in> S"
      "set (one_or_none (hk_after_each (pl_hooks pl))) \<subseteq> S"
    using assms by (simp_all add: test_steps_def)
  then show ?thesis
    unfolding run_test_def by (intro raises_intros raises_run_hook raises_run_item)
qed

lemma raises_run_tests:
  assumes "\<forall>t \<in> set ts. set (test_steps (pl_hooks pl) t) \<subseteq> S"
  shows "raises_in (source_errors (pl_hooks pl) S) (run_tests pyd ex pl n ts pg)"
  using assms
proof (induction ts arbitrary: pg)
  case (Cons t ts)
  then have "raises_in (source_errors (pl_hooks pl) S) (run_test pyd ex pl n t pg)" for pg
    by (simp add: raises_run_test)
  with Cons show ?case by (auto intro!: raises_sbind raises_split raises_pure)
qed (simp add: raises_pure)

text \<open>Every item the suite may run.\<close>

definition suite_steps :: "hooks \<Rightarrow> suite_item_entity list \<Rightarrow> suite_item_entity set" where
  "suite_steps hk tests = set (one_or_none (hk_before_all hk)) \<union> set (one_or_none (hk_after_all hk)) \<union>
     (\<Union>t \<in> set tests. set (test_steps hk t))"

lemma raises_run_phases:
  "raises_in (source_errors (pl_hooks pl) (suite_steps (pl_hooks pl) tests)) (run_phases pyd ex pl tests)"
proof -
  let ?S = "suite_steps (pl_hooks pl) tests"
  have "set (one_or_none (hk_before_all (pl_hooks pl))) \<subseteq> ?S"
      "set (one_or_none (hk_after_all (pl_hooks pl))) \<subseteq> ?S"
      "\<forall>t \<in> set tests. set (test_steps (pl_hooks pl) t) \<subseteq> ?S"
    by (auto simp: suite_steps_def)
  then show ?thesis
    unfolding run_phases_def
    by (intro raises_intros raises_run_hook raises_run_tests)
qed

text \<open>
  What stops a suite before or while it runs: two hooks of one phase, an unknown test, or sources
  that an item sees twice.
\<close>

definition suite_errors :: "execution_input \<Rightarrow> py_error set" where
  "suite_errors xi =
     (case suite_hooks (su_items (xi_suite xi)) of
        Inl e \<Rightarrow> {e}
      | Inr hks \<Rightarrow>
          (case resolve_tests_to_execute (get_all_tests (su_items (xi_suite xi))) (xi_target xi) of
             Inl e \<Rightarrow> {e}
           | Inr tests \<Rightarrow> source_errors hks (suite_steps hks tests)))"

lemma sbind_slift: "sbind (slift (Inr x)) f = f x" "sbind (slift (Inl e)) f = sraise e"
  by (rule ext; simp add: slift_def sbind_def sraise_def)+

lemma raises_execute_in_session: "raises_in (suite_errors xi) (execute_in_session pyd ex xi)"
proof -
  have insert: "raises_in E (insert_suite_execution xi)" for E
    unfolding insert_suite_execution_def by (intro raises_intros)
  have ctx: "raises_in E (new_context xi sx)" for E sx
    by (simp add: raises_in_def new_context_def Let_def split_beta)
  have bound: "raises_in (source_errors (pl_hooks pl) (suite_steps (pl_hooks pl) tests))
      (execute_bound pyd ex xi rc pl tests)" for rc pl tests
    unfolding execute_bound_def
    by (intro raises_bound raises_after [where g = "start_events xi pl (length tests)"]
        raises_sbind raises_run_phases raises_pure)
  show ?thesis
  proof (cases "suite_hooks (su_items (xi_suite xi))")
    case (Inl e)
    then show ?thesis
      unfolding execute_in_session_def Inl sbind_slift
      by (intro raises_sbind insert ctx) (simp add: raises_in_def sraise_def suite_errors_def Inl)
  next
    case hks: (Inr hks)
    show ?thesis
    proof (cases "resolve_tests_to_execute (get_all_tests (su_items (xi_suite xi))) (xi_target xi)")
      case (Inl e)
      then show ?thesis
        unfolding execute_in_session_def hks Inl sbind_slift
        by (intro raises_sbind insert ctx) (simp add: raises_in_def sraise_def suite_errors_def hks Inl)
    next
      case (Inr tests)
      then show ?thesis
        unfolding execute_in_session_def hks Inr sbind_slift suite_errors_def sum.case
        by (intro raises_sbind insert ctx bound [of "\<lparr>pl_execution = x, pl_suite_execution = y, pl_hooks = hks\<rparr>" for x y,
              unfolded place.select_convs])
    qed
  qed
qed

section \<open>Hooks of a validated suite\<close>

definition hooks_of :: "suite_item_entity list \<Rightarrow> suite_item_entity list" where
  "hooks_of items = filter (\<lambda>s. it_kind (se_item s) = ''hook'') items"

text \<open>What the validators of a suite establish of its hooks: known phases, one hook each.\<close>

definition hooks_ok :: "suite_item_entity list \<Rightarrow> bool" where
  "hooks_ok items \<longleftrightarrow> (\<forall>s \<in> set (hooks_of items). it_phase (se_item s) \<in> Some ` set hook_phases) \<and>
     distinct (map (\<lambda>s. it_phase (se_item s)) (hooks_of items))"

lemma find_fresh: "f x \<notin> f ` set xs \<Longrightarrow> find (\<lambda>z. f z = f x) xs = None"
  unfolding find_None_iff by (metis imageI)

lemma filter_distinct_le_one: "distinct (map f xs) \<Longrightarrow> filter (\<lambda>x. f x = y) xs = one_or_none (find (\<lambda>x. f x = y) xs)"
  by (induction xs) (auto simp: find_fresh)

lemma get_hook_find:
  assumes "hooks_ok items"
  shows "get_hook_by_phase items p = Inr (find (\<lambda>s. it_phase (se_item s) = Some p) (hooks_of items))"
proof -
  have "filter (\<lambda>s. it_kind (se_item s) = ''hook'' \<and> it_phase (se_item s) = Some p) items =
      filter (\<lambda>s. it_phase (se_item s) = Some p) (hooks_of items)"
    by (simp add: hooks_of_def conj_commute)
  also have "\<dots> = one_or_none (find (\<lambda>s. it_phase (se_item s) = Some p) (hooks_of items))"
    using assms by (intro filter_distinct_le_one) (simp add: hooks_ok_def)
  finally show ?thesis
    by (cases "find (\<lambda>s. it_phase (se_item s) = Some p) (hooks_of items)")
       (simp_all add: get_hook_by_phase_def)
qed

lemma dict_get_foldl_set:
  "dict_get (foldl (\<lambda>acc x. dict_set (k x) x acc) d xs) p =
     (case find (\<lambda>x. k x = p) (rev xs) of Some x \<Rightarrow> Some x | None \<Rightarrow> dict_get d p)"
  by (induction xs rule: rev_induct) (auto split: option.splits)

lemma find_rev_distinct: "distinct (map f xs) \<Longrightarrow> find (\<lambda>x. f x = y) (rev xs) = find (\<lambda>x. f x = y) xs"
proof (induction xs)
  case (Cons x xs)
  have app: "find P (us @ vs) = (case find P us of None \<Rightarrow> find P vs | Some u \<Rightarrow> Some u)" for P and us vs :: "'b list"
    by (induction us) auto
  have "f x = y \<Longrightarrow> find (\<lambda>x. f x = y) xs = None"
    using Cons.prems find_fresh [of f x xs] by simp
  with Cons show ?case by (auto simp: app split: option.splits)
qed simp

lemma strip_phase: "p \<in> set hook_phases \<Longrightarrow> py_strip p = p"
proof -
  have "list_all (\<lambda>p. py_strip p = p) hook_phases" by code_simp
  then show "p \<in> set hook_phases \<Longrightarrow> py_strip p = p" by (simp add: list_all_iff)
qed

lemma find_map: "find P (map f xs) = map_option f (find (P \<circ> f) xs)"
  by (induction xs) auto

lemma find_cong_set: "(\<And>x. x \<in> set xs \<Longrightarrow> P x = Q x) \<Longrightarrow> find P xs = find Q xs"
  by (induction xs) auto

text \<open>The table of the validator holds the same hooks.\<close>

lemma hooks_by_phase_find:
  assumes "hooks_ok items"
  shows "dict_get (hooks_by_phase (map se_item (hooks_of items))) p =
    map_option se_item (find (\<lambda>s. it_phase (se_item s) = Some p) (hooks_of items))"
proof -
  let ?hs = "hooks_of items"
  have phase: "py_strip (text_of (it_phase (se_item s))) = p \<longleftrightarrow> it_phase (se_item s) = Some p" if "s \<in> set ?hs" for s
    using assms that by (auto simp: hooks_ok_def text_of_def strip_phase)
  have "dict_get (hooks_by_phase (map se_item ?hs)) p =
      find (\<lambda>it. py_strip (text_of (it_phase it)) = p) (rev (map se_item ?hs))"
    by (simp add: hooks_by_phase_def dict_get_foldl_set split: option.split)
  also have "\<dots> = map_option se_item (find (\<lambda>s. py_strip (text_of (it_phase (se_item s))) = p) (rev ?hs))"
    unfolding rev_map find_map by (simp add: comp_def)
  also have "find (\<lambda>s. py_strip (text_of (it_phase (se_item s))) = p) (rev ?hs) =
      find (\<lambda>s. it_phase (se_item s) = Some p) (rev ?hs)"
    using phase by (intro find_cong_set) simp
  also have "\<dots> = find (\<lambda>s. it_phase (se_item s) = Some p) ?hs"
    using assms by (intro find_rev_distinct) (simp add: hooks_ok_def)
  finally show ?thesis .
qed

lemma find_SomeD: "find P xs = Some x \<Longrightarrow> x \<in> set xs \<and> P x"
  by (auto simp: find_Some_iff in_set_conv_nth)

lemma validated_no_errors:
  assumes ok: "hooks_ok (su_items (xi_suite xi))"
    and valid: "validate_suite_sources_graph pyd (map se_item (hooks_of (su_items (xi_suite xi))))
      (map se_item (get_all_tests (su_items (xi_suite xi)))) = Inr ()"
    and target: "text_of (xi_target xi) = [] \<or>
      (\<exists>t \<in> set (get_all_tests (su_items (xi_suite xi))). entity_id t = text_of (xi_target xi))"
  shows "suite_errors xi = {}"
proof -
  let ?items = "su_items (xi_suite xi)"
  let ?hook = "\<lambda>p. find (\<lambda>s. it_phase (se_item s) = Some p) (hooks_of ?items)"
  have hks: "suite_hooks ?items = Inr \<lparr>hk_before_all = ?hook ''before-all'', hk_before_each = ?hook ''before-each'',
      hk_after_each = ?hook ''after-each'', hk_after_all = ?hook ''after-all''\<rparr>"
    by (simp add: suite_hooks_def get_hook_find [OF ok])
  have "\<exists>tests. resolve_tests_to_execute (get_all_tests ?items) (xi_target xi) = Inr tests \<and>
      set tests \<subseteq> set (get_all_tests ?items)"
    using target by (auto simp: resolve_tests_to_execute_def find_None_iff split: option.splits dest: find_SomeD)
  then obtain tests where tests: "resolve_tests_to_execute (get_all_tests ?items) (xi_target xi) = Inr tests"
      "set tests \<subseteq> set (get_all_tests ?items)" by blast
  define hk where "hk = \<lparr>hk_before_all = ?hook ''before-all'', hk_before_each = ?hook ''before-each'',
      hk_after_each = ?hook ''after-each'', hk_after_all = ?hook ''after-all''\<rparr>"
  have hook_mem: "set (one_or_none (?hook p)) \<subseteq> set (hooks_of ?items)" for p
    by (cases "?hook p") (auto dest: find_SomeD)
  have steps: "suite_steps hk tests \<subseteq> set (hooks_of ?items @ get_all_tests ?items)"
    using hook_mem tests(2) by (auto simp: suite_steps_def test_steps_def hk_def)
  have "\<exists>v. build_visible_sources_for_suite_item (map_option se_item (hk_before_all hk))
      (map_option se_item (hk_before_each hk)) (se_item s) = Inr v"
    if "s \<in> suite_steps hk tests" for s
  proof -
    have "se_item s \<in> set (map se_item (hooks_of ?items) @ map se_item (get_all_tests ?items))"
      using steps that by auto
    from foldM_unit_InrD [OF valid [unfolded validate_suite_sources_graph_def Let_def] this]
    show ?thesis
      by (auto simp: check_item_sources_def rbind_Inr_iff hooks_by_phase_find [OF ok] hk_def)
  qed
  then have "source_errors hk (suite_steps hk tests) = {}"
    by (fastforce simp: source_errors_def)
  then show ?thesis
    unfolding suite_errors_def hks tests(1) sum.case hk_def [symmetric] .
qed

section \<open>Reading the rows\<close>

lemma outcome_status_error [simp]: "(outcome_status out = ''error'') = failed out"
  by (cases out) simp_all

text \<open>A row of an execution that no longer runs.\<close>

definition decided :: "string \<Rightarrow> item_row \<Rightarrow> bool" where
  "decided sx i \<longleftrightarrow> ix_execution i = sx \<and> ix_status i \<in> {''success'', ''error''} \<and>
     (ix_status i = ''error'') = (ix_error i \<noteq> None)"

lemma rows_ConsE:
  assumes "list_all2 (\<lambda>(i, so) r. records sx so i r) (enumerate n (so # ls)) rows"
  obtains r rs where "rows = r # rs" "records sx so n r"
    "list_all2 (\<lambda>(i, so) r. records sx so i r) (enumerate (Suc n) ls) rs"
  using assms by (auto simp: list_all2_Cons1)

lemma rows_any_failed:
  "list_all2 (\<lambda>(i, so) r. records sx so i r) (enumerate n ls) rows \<Longrightarrow>
    any_failed ls = (\<exists>i \<in> set rows. ix_status i = ''error'')"
proof (induction ls arbitrary: n rows)
  case (Cons so ls)
  from Cons.prems obtain r rs where rows: "rows = r # rs" "records sx so n r"
      "list_all2 (\<lambda>(i, so) r. records sx so i r) (enumerate (Suc n) ls) rs"
    by (rule rows_ConsE)
  from rows(2) have "(ix_status r = ''error'') = failed (snd so)" by (simp add: records_def)
  with Cons.IH [OF rows(3)] rows(1) show ?case by simp
qed simp

lemma rows_decided:
  "list_all2 (\<lambda>(i, so) r. records sx so i r) (enumerate n ls) rows \<Longrightarrow>
    \<forall>i \<in> set rows. decided sx i"
proof (induction ls arbitrary: n rows)
  case (Cons so ls)
  from Cons.prems obtain r rs where rows: "rows = r # rs" "records sx so n r"
      "list_all2 (\<lambda>(i, so) r. records sx so i r) (enumerate (Suc n) ls) rs"
    by (rule rows_ConsE)
  from rows(2) have "decided sx r"
    by (cases "snd so") (simp_all add: records_def decided_def)
  with Cons.IH [OF rows(3)] rows(1) show ?case by simp
qed simp

lemma first_message_non_empty: "m \<noteq> [] \<Longrightarrow> first_message m ls = m"
  by (induction ls) (auto simp: or_text_def split: outcome.splits)

lemma rows_first_message:
  "list_all2 (\<lambda>(i, so) r. records sx so i r) (enumerate n ls) rows \<Longrightarrow>
    non_empty (first_message [] ls) = find (\<lambda>m. m \<noteq> []) (map (\<lambda>i. text_of (ix_error i)) rows)"
proof (induction ls arbitrary: n rows)
  case Nil
  then show ?case by (simp add: non_empty_def)
next
  case (Cons so ls)
  from Cons.prems obtain r rs where rows: "rows = r # rs" "records sx so n r"
      "list_all2 (\<lambda>(i, so) r. records sx so i r) (enumerate (Suc n) ls) rs"
    by (rule rows_ConsE)
  with Cons.IH [OF rows(3)] show ?case
    by (cases "snd so") (auto simp: records_def text_of_def or_text_def first_message_non_empty non_empty_def)
qed

section \<open>Properties\<close>

text \<open>C1. The rows of a suite that ran to the end record its schedule: in the order of their positions
  1, 2, \<dots> the hook before all, then for each test that ran the hook before each, the test and the
  hook after each, all three whatever their outcomes, and last the hook after all, also when the
  hook before all failed and no test ran. The tests run in their order until one fails whose policy
  is ABORT. The number of executed tests is the number of those that ran.\<close>
theorem suite_rows_follow_schedule:
  assumes "ids_ok st" and "execute_suite pyd ex xi st = (Inr pg, st')"
  shows "\<exists>hks tests ls rows r.
    suite_hooks (su_items (xi_suite xi)) = Inr hks \<and>
    resolve_tests_to_execute (get_all_tests (su_items (xi_suite xi))) (xi_target xi) = Inr tests \<and>
    suite_log hks tests ls (pg_executed pg) \<and>
    tb_suites (xs_tables st') = tb_suites (xs_tables st) @ [r] \<and>
    tb_items (xs_tables st') = tb_items (xs_tables st) @ rows \<and> rows_of (sx_id r) 0 ls rows"
proof -
  obtain hks tests ls rows r where run:
    "suite_hooks (su_items (xi_suite xi)) = Inr hks"
    "resolve_tests_to_execute (get_all_tests (su_items (xi_suite xi))) (xi_target xi) = Inr tests"
    "suite_log hks tests ls (pg_executed pg)"
    "tb_suites (xs_tables st') = tb_suites (xs_tables st) @ [r]"
    "tb_items (xs_tables st') = tb_items (xs_tables st) @ rows" "rows_of (sx_id r) 0 ls rows"
    by (rule execute_suite_effect [OF assms])
  show ?thesis by (intro exI conjI) (fact run)+
qed

text \<open>C2. The row of a suite that ran to the end is decided by the rows of its items: no item is left
  running, the suite failed exactly when one of its items failed, and its message is the first
  message of a failed item that is not empty.\<close>
theorem suite_verdict:
  assumes "ids_ok st" and "execute_suite pyd ex xi st = (Inr pg, st')"
  shows "\<exists>rows r.
    tb_suites (xs_tables st') = tb_suites (xs_tables st) @ [r] \<and>
    tb_items (xs_tables st') = tb_items (xs_tables st) @ rows \<and>
    (\<forall>i \<in> set rows. decided (sx_id r) i) \<and>
    sx_status r = (if \<exists>i \<in> set rows. ix_status i = ''error'' then ''error'' else ''success'') \<and>
    sx_error r = find (\<lambda>m. m \<noteq> []) (map (\<lambda>i. text_of (ix_error i)) rows)"
proof -
  obtain ls rows r where items: "tb_items (xs_tables st') = tb_items (xs_tables st) @ rows" "rows_of (sx_id r) 0 ls rows"
    and suites: "tb_suites (xs_tables st') = tb_suites (xs_tables st) @ [r]"
    and row: "sx_status r = (if any_failed ls then ''error'' else ''success'')"
      "sx_error r = non_empty (first_message [] ls)"
    by (rule execute_suite_effect [OF assms])
  note rows = items(2) [unfolded rows_of_def]
  show ?thesis
  proof (intro exI conjI)
    show "\<forall>i \<in> set rows. decided (sx_id r) i" using rows by (rule rows_decided)
    show "sx_status r = (if \<exists>i \<in> set rows. ix_status i = ''error'' then ''error'' else ''success'')"
      unfolding row(1) rows_any_failed [OF rows] ..
    show "sx_error r = find (\<lambda>m. m \<noteq> []) (map (\<lambda>i. text_of (ix_error i)) rows)"
      unfolding row(2) using rows by (rule rows_first_message)
  qed (fact suites items)+
qed

text \<open>A suite can only be stopped by two hooks of one phase, by an unknown test, or by an item that
  sees a source twice; then its session is rolled back, so no row of it remains, while the events
  published so far were already sent.\<close>
theorem stopped_suite_leaves_no_rows:
  assumes "execute_suite pyd ex xi st = (Inl e, st')"
  shows "e \<in> suite_errors xi \<and> xs_tables st' = xs_tables st"
proof -
  from assms obtain st1 where "execute_in_session pyd ex xi st = (Inl e, st1)"
      "st' = st1\<lparr>xs_tables := xs_tables st\<rparr>"
    by (auto simp: execute_suite_def managed_session_def split: prod.splits sum.splits)
  with raises_execute_in_session [of xi pyd ex] show ?thesis
    unfolding raises_in_def by auto
qed

definition finished_event :: "execution_input \<Rightarrow> string \<Rightarrow> progress \<Rightarrow> exec_event" where
  "finished_event xi sx pg = \<lparr>ee_execution = xi_execution xi, ee_name = ''suite_finished'',
     ee_payload = [(''test_suite_execution_id'', text_view sx), (''status'', text_view (suite_status pg)),
       (''error'', optional_view (non_empty (pg_message pg)))]\<rparr>"

lemma publish_log_events:
  "\<exists>es. en_events (publish_runtime_log_event a b c d p e) = en_events e @ es \<and> length es \<le> 1"
  by (simp add: publish_runtime_log_event_def publish_current_def publish_def)

lemma finish_events_published:
  assumes "xi_execution xi \<noteq> []" and "silent g" and "pl_execution pl = xi_execution xi"
  shows "\<exists>es later. en_events (xs_env (on_env g (finish_events xi pl pg st))) =
    es @ finished_event xi (pl_suite_execution pl) pg # later \<and> length later \<le> 1"
proof -
  let ?e = "publish (pl_execution pl) ''suite_finished''
     [(''test_suite_execution_id'', text_view (pl_suite_execution pl)), (''status'', text_view (suite_status pg)),
      (''error'', optional_view (non_empty (pg_message pg)))] (xs_env st)"
  have e: "en_events ?e = en_events (xs_env st) @ [finished_event xi (pl_suite_execution pl) pg]"
    using assms(1,3) by (simp add: publish_def finished_event_def)
  obtain a b c d p where "xs_env (finish_events xi pl pg st) = publish_runtime_log_event a b c d p ?e"
    unfolding finish_events_def by (simp add: on_env_def on_tables_def)
  with publish_log_events [of a b c d p ?e] e assms(2) show ?thesis
    by (auto simp: silent_def on_env_def)
qed


section \<open>Witnesses\<close>

definition no_executor :: "unit executor" where
  "no_executor op c data = spure (data, [])"

definition sample_state :: "unit exec_state" where
  "sample_state = \<lparr>xs_env = \<lparr>en_py = \<lparr>objects = [], current_context = None\<rparr>, en_vars = no_vars, en_events = [],
     en_world = ()\<rparr>, xs_tables = \<lparr>tb_suites = [], tb_items = [], tb_commands = [], tb_test_commands = []\<rparr>,
     xs_fresh = (\<lambda>n. replicate n (CHR ''x'')), xs_next = 0\<rparr>"

definition sample_suite_item :: "string \<Rightarrow> string \<Rightarrow> string option \<Rightarrow> suite_item_entity" where
  "sample_suite_item i kind phase = \<lparr>se_item = (sample_item kind phase [] [])\<lparr>it_id := i\<rparr>,
     se_operations = [\<lparr>op_id = ''op'', op_configuration = JObj [(''commandCode'', JStr kind)],
       op_description = [], op_order = 1\<rparr>]\<rparr>"

text \<open>A hook before all, two tests and a hook after all, whose commands have unknown codes.\<close>

definition sample_input :: "string option \<Rightarrow> execution_input" where
  "sample_input target = \<lparr>xi_execution = ''run'', xi_suite = \<lparr>su_id = ''suite'', su_description = [],
      su_items = [sample_suite_item ''h'' ''hook'' (Some ''after-all''),
        sample_suite_item ''t1'' ''test'' None, sample_suite_item ''t2'' ''test'' None]\<rparr>,
     xi_event = VNone, xi_vars = VNone, xi_invocation = None, xi_target = target\<rparr>"

lemma sample_ids: "ids_ok sample_state"
  by (auto simp: ids_ok_def sample_state_def inj_def)

lemma sample_valid:
  "hooks_ok (su_items (xi_suite (sample_input target)))"
  "validate_suite_sources_graph strict_types (map se_item (hooks_of (su_items (xi_suite (sample_input target)))))
      (map se_item (get_all_tests (su_items (xi_suite (sample_input target))))) = Inr ()"
  by code_simp+

lemma sample_returns:
  obtains pg st' where "execute_suite strict_types no_executor (sample_input None) sample_state = (Inr pg, st')"
proof -
  have "suite_errors (sample_input None) = {}"
    by (rule validated_no_errors [OF sample_valid]) (simp add: sample_input_def text_of_def)
  then have "raises_in {} (execute_in_session strict_types no_executor (sample_input None))"
    using raises_execute_in_session by metis
  from raises_none [OF this, where st = sample_state] obtain pg st' where
    "execute_in_session strict_types no_executor (sample_input None) sample_state = (Inr pg, st')" by blast
  then show ?thesis by (intro that [of pg st']) (simp add: execute_suite_def managed_session_def)
qed

lemma sample_hooks:
  "suite_hooks (su_items (xi_suite (sample_input target))) = Inr hks \<Longrightarrow>
    hk_after_all hks = Some (sample_suite_item ''h'' ''hook'' (Some ''after-all''))"
  by (simp add: suite_hooks_def get_hook_find [OF sample_valid(1)])
     (auto simp: sample_input_def hooks_of_def sample_suite_item_def sample_item_def)

text \<open>The hook after all is the last row.\<close>
lemma suite_rows_follow_schedule_witness:
  "\<exists>pg st'. execute_suite strict_types no_executor (sample_input None) sample_state = (Inr pg, st') \<and>
     ix_item (last (tb_items (xs_tables st'))) = ''h''"
proof -
  obtain pg st' where run: "execute_suite strict_types no_executor (sample_input None) sample_state = (Inr pg, st')"
    by (rule sample_returns)
  from suite_rows_follow_schedule [OF sample_ids run] obtain hks tests ls rows and r :: suite_row where
    hks: "suite_hooks (su_items (xi_suite (sample_input None))) = Inr hks"
    and log: "suite_log hks tests ls (pg_executed pg)"
    and rows: "tb_items (xs_tables st') = tb_items (xs_tables sample_state) @ rows" "rows_of (sx_id r) 0 ls rows"
    by blast
  from log sample_hooks [OF hks] obtain us so where ls: "ls = us @ [so]"
      "fst so = sample_suite_item ''h'' ''hook'' (Some ''after-all'')"
    by (auto simp: suite_log_def map_eq_Cons_conv)
  from rows(2) obtain us' r' where "rows = us' @ [r']" "records (sx_id r) so (Suc (length us)) r'"
    unfolding rows_of_def ls(1) enumerate_append_eq
    by (auto simp: list_all2_append1 list_all2_Cons1)
  with ls(2) have "ix_item (last rows) = ''h''" "rows \<noteq> []"
    by (simp_all add: records_def sample_suite_item_def)
  with run rows(1) show ?thesis by (simp add: sample_state_def)
qed

lemma suite_verdict_witness:
  "\<exists>pg st' r. execute_suite strict_types no_executor (sample_input None) sample_state = (Inr pg, st') \<and>
     tb_suites (xs_tables st') = [r] \<and> sx_status r \<in> {''success'', ''error''} \<and>
     (\<forall>i \<in> set (tb_items (xs_tables st')). decided (sx_id r) i)"
proof -
  obtain pg st' where run: "execute_suite strict_types no_executor (sample_input None) sample_state = (Inr pg, st')"
    by (rule sample_returns)
  from suite_verdict [OF sample_ids run] show ?thesis
    unfolding run by (auto simp: sample_state_def split: if_splits)
qed

text \<open>A test that does not exist.\<close>
lemma stopped_suite_leaves_no_rows_witness:
  "\<exists>e st'. execute_suite strict_types no_executor (sample_input (Some ''t3'')) sample_state = (Inl e, st') \<and>
     tb_suites (xs_tables st') = []"
proof -
  let ?run = "execute_suite strict_types no_executor (sample_input (Some ''t3'')) sample_state"
  have "isl (fst ?run)" by code_simp
  then obtain e st' where run: "?run = (Inl e, st')" by (cases ?run) (auto simp: isl_def)
  from stopped_suite_leaves_no_rows [OF run] have "tb_suites (xs_tables st') = []"
    by (simp add: sample_state_def)
  with run show ?thesis by blast
qed


end
