(* ===== verification/DatasetParameters.thy ===== *)
theory DatasetParameters
  imports CommandConfig
begin

text \<open>
  The parameters of a dataset's query (\<open>app/data_sources/services/dataset_parameter_resolver.py\<close>):
  the coercion of a value to the type of a parameter, and the values of all parameters of a
  perimeter from what is given and from their defaults.

  A date or a date with time is an object of Python's \<open>datetime\<close>, here the text its \<open>isoformat\<close>
  gives. The parsers of such texts and of decimal fractions are the standard library's and parameters.
\<close>

section \<open>Values\<close>

datatype param_value = PJson json | PDate string | PDateTime string

record text_parsers =
  iso_date :: "string \<Rightarrow> string option"
  iso_datetime :: "string \<Rightarrow> string option"
  float_of :: "string \<Rightarrow> (rat \<times> string) option"

text \<open>
  What the standard library documents: a parser accepts what \<open>isoformat\<close> writes and gives the same
  value back, that text has no space around it and does not end in \<open>Z\<close>, and the date of a date with
  time is its first ten characters.
\<close>

definition iso_text :: "string \<Rightarrow> bool" where
  "iso_text t \<longleftrightarrow> py_strip t = t \<and> \<not> ends_with ''Z'' t"

definition iso_laws :: "text_parsers \<Rightarrow> bool" where
  "iso_laws P \<longleftrightarrow>
     (\<forall>s t. iso_date P s = Some t \<longrightarrow> iso_date P t = Some t \<and> iso_text t) \<and>
     (\<forall>s t. iso_datetime P s = Some t \<longrightarrow> iso_datetime P t = Some t \<and> iso_text t \<and>
        iso_date P (take 10 t) = Some (take 10 t))"

text \<open>\<open>str\<close> of a value: a date with time has a space where \<open>isoformat\<close> has a T.\<close>

fun param_str :: "param_value \<Rightarrow> string" where
  "param_str (PJson v) = json_str v"
| "param_str (PDate d) = d"
| "param_str (PDateTime t) = take 10 t @ '' '' @ drop 11 t"

section \<open>Coercion\<close>

definition parameter_types :: "string list" where
  "parameter_types = [''string'', ''integer'', ''number'', ''boolean'', ''date'', ''datetime'']"

definition builtin_resolvers :: "string list" where
  "builtin_resolvers = [''$now'', ''$today'']"

definition integral :: "rat \<Rightarrow> bool" where
  "integral q \<longleftrightarrow> of_int \<lfloor>q\<rfloor> = q"

fun coerce_integer :: "json \<Rightarrow> json result" where
  "coerce_integer (JInt i) = Inr (JInt i)"
| "coerce_integer (JFloat q r) =
     (if integral q then Inr (JInt \<lfloor>q\<rfloor>) else Inl (ValueError ''Expected integer value.''))"
| "coerce_integer (JStr s) =
     (if py_isdigit (lstrip_char (CHR ''-'') (py_strip s))
      then rbind (int_of_text (py_strip s)) (\<lambda>i. Inr (JInt i))
      else Inl (ValueError ''Expected integer value.''))"
| "coerce_integer _ = Inl (ValueError ''Expected integer value.'')"

fun coerce_number :: "text_parsers \<Rightarrow> json \<Rightarrow> json result" where
  "coerce_number P (JInt i) = Inr (JInt i)"
| "coerce_number P (JFloat q r) = Inr (JFloat q r)"
| "coerce_number P (JStr s) =
     (case float_of P (py_strip s) of
        None \<Rightarrow> Inl (ValueError ''Expected number value.'')
      | Some (q, r) \<Rightarrow> Inr (if integral q then JInt \<lfloor>q\<rfloor> else JFloat q r))"
| "coerce_number P _ = Inl (ValueError ''Expected number value.'')"

definition boolean_words :: "bool dict" where
  "boolean_words = [(''true'', True), (''false'', False), (''1'', True), (''0'', False),
     (''yes'', True), (''no'', False)]"

fun coerce_boolean :: "json \<Rightarrow> json result" where
  "coerce_boolean (JBool b) = Inr (JBool b)"
| "coerce_boolean (JStr s) =
     (case dict_get boolean_words (py_lower (py_strip s)) of
        Some b \<Rightarrow> Inr (JBool b) | None \<Rightarrow> Inl (ValueError ''Expected boolean value.''))"
| "coerce_boolean (JInt i) =
     (if i = 0 \<or> i = 1 then Inr (JBool (i = 1)) else Inl (ValueError ''Expected boolean value.''))"
| "coerce_boolean _ = Inl (ValueError ''Expected boolean value.'')"

fun coerce_datetime :: "text_parsers \<Rightarrow> param_value \<Rightarrow> string result" where
  "coerce_datetime P (PDateTime t) = Inr t"
| "coerce_datetime P (PDate d) = Inr (d @ ''T00:00:00'')"
| "coerce_datetime P (PJson (JStr s)) =
     (let raw = py_strip s;
          raw' = (if ends_with ''Z'' raw then take (length raw - 1) raw @ ''+00:00'' else raw)
      in case iso_datetime P raw' of
           Some t \<Rightarrow> Inr t | None \<Rightarrow> Inl (ValueError ''Expected datetime value.''))"
| "coerce_datetime P _ = Inl (ValueError ''Expected datetime value.'')"

fun coerce_date :: "text_parsers \<Rightarrow> param_value \<Rightarrow> string result" where
  "coerce_date P (PDateTime t) = Inr (take 10 t)"
| "coerce_date P (PDate d) = Inr d"
| "coerce_date P (PJson (JStr s)) =
     (case iso_date P (py_strip s) of
        Some d \<Rightarrow> Inr d
      | None \<Rightarrow> rbind (coerce_datetime P (PJson (JStr (py_strip s)))) (\<lambda>t. Inr (take 10 t)))"
| "coerce_date P _ = Inl (ValueError ''Expected date value.'')"

fun json_only :: "(json \<Rightarrow> json result) \<Rightarrow> string \<Rightarrow> param_value \<Rightarrow> param_value result" where
  "json_only f message (PJson v) = rbind (f v) (\<lambda>w. Inr (PJson w))"
| "json_only f message _ = Inl (ValueError message)"

definition coerce_value :: "text_parsers \<Rightarrow> json \<Rightarrow> param_value \<Rightarrow> param_value result" where
  "coerce_value P parameter_type v =
     (let t = py_lower (token parameter_type) in
      if t \<notin> set parameter_types
      then Inl (ValueError (''Unsupported dataset parameter type '' @ quoted (json_str parameter_type) @ ''.''))
      else if v = PJson JNull then Inr (PJson JNull)
      else if t = ''string'' then Inr (PJson (JStr (param_str v)))
      else if t = ''integer'' then json_only coerce_integer ''Expected integer value.'' v
      else if t = ''number'' then json_only (coerce_number P) ''Expected number value.'' v
      else if t = ''boolean'' then json_only coerce_boolean ''Expected boolean value.'' v
      else if t = ''date'' then rbind (coerce_date P v) (\<lambda>d. Inr (PDate d))
      else rbind (coerce_datetime P v) (\<lambda>d. Inr (PDateTime d)))"

definition is_operator_compatible :: "json \<Rightarrow> string \<Rightarrow> bool" where
  "is_operator_compatible parameter_type operator =
     (let t = py_lower (token parameter_type); op = py_lower (py_strip operator) in
      if op \<in> set [''eq'', ''neq''] then t \<in> set parameter_types
      else if op \<in> set [''gt'', ''gte'', ''lt'', ''lte''] then
        t \<in> set [''integer'', ''number'', ''date'', ''datetime'']
      else if op \<in> set [''contains'', ''starts_with'', ''ends_with''] then t = ''string''
      else False)"

section \<open>The values of the parameters\<close>

text \<open>The clock: \<open>datetime.now().isoformat()\<close> and \<open>date.today().isoformat()\<close>.\<close>

record date_clock =
  clock_now :: string
  clock_today :: string

definition resolve_builtin :: "date_clock \<Rightarrow> string \<Rightarrow> param_value result" where
  "resolve_builtin clock name =
     (let r = py_strip name in
      if r \<notin> set builtin_resolvers
      then Inl (ValueError (''Unsupported dataset built-in resolver '' @ quoted r @ ''.''))
      else if r = ''$now'' then Inr (PDateTime (clock_now clock)) else Inr (PDate (clock_today clock)))"

text \<open>\<open>DatasetParameterResolutionError\<close>.\<close>

definition resolution_error :: "string option \<Rightarrow> string \<Rightarrow> py_error \<Rightarrow> py_error" where
  "resolution_error dataset_id parameter e =
     ValueError (''DATASET_PARAMETER_RESOLUTION_FAILED: dataset_id='' @
       or_text (py_strip (text_of dataset_id)) ''-'' @ ''; parameter='' @ or_text (py_strip parameter) ''-'' @
       ''; reason='' @ or_text (py_strip (error_text e)) ''Unknown error.'')"

definition map_error :: "(py_error \<Rightarrow> py_error) \<Rightarrow> 'a result \<Rightarrow> 'a result" where
  "map_error f r = (case r of Inl e \<Rightarrow> Inl (f e) | Inr x \<Rightarrow> Inr x)"

definition parameter_name :: "json dict \<Rightarrow> string" where
  "parameter_name d = token (jget d ''name'')"

text \<open>\<open>_resolve_default_value\<close>; \<open>(default_binding or {}).get\<close> raises on a binding that is no object.\<close>

definition resolve_default_value ::
  "text_parsers \<Rightarrow> date_clock \<Rightarrow> string option \<Rightarrow> json dict \<Rightarrow> param_value result" where
  "resolve_default_value P clock dataset_id d =
     (let name = parameter_name d; ty = jget d ''type''; binding = jget d ''default_binding'' in
      if jget d ''default_value'' \<noteq> JNull
      then map_error (resolution_error dataset_id name) (coerce_value P ty (PJson (jget d ''default_value'')))
      else if binding \<noteq> JNull then
        (if json_truthy binding \<and> \<not> is_obj binding then Inl (AttributeError ''get'')
         else map_error (resolution_error dataset_id name)
           (rbind (resolve_builtin clock (token (jget (fields_of binding) ''resolver'')))
             (\<lambda>v. coerce_value P ty v)))
      else Inr (PJson JNull))"

definition resolve_parameter ::
  "text_parsers \<Rightarrow> date_clock \<Rightarrow> string option \<Rightarrow> param_value dict \<Rightarrow> param_value dict \<Rightarrow> json \<Rightarrow>
    param_value dict result" where
  "resolve_parameter P clock dataset_id given resolved raw =
     (case raw of
        JObj d \<Rightarrow>
          (let name = parameter_name d in
           if name = [] then Inr resolved
           else (case dict_get given name of
                   Some v \<Rightarrow> rbind (map_error (resolution_error dataset_id name)
                       (coerce_value P (jget d ''type'') v)) (\<lambda>w. Inr (dict_set name w resolved))
                 | None \<Rightarrow> rbind (resolve_default_value P clock dataset_id d)
                     (\<lambda>w. Inr (dict_set name w resolved))))
      | _ \<Rightarrow> Inr resolved)"

text \<open>The elements of \<open>perimeter.get("parameters") or []\<close>.\<close>

definition parameter_definitions :: "json \<Rightarrow> json list result" where
  "parameter_definitions perimeter =
     (let v = jget (fields_of perimeter) ''parameters'' in
      case v of
        JList xs \<Rightarrow> Inr xs
      | JObj d \<Rightarrow> Inr (map (\<lambda>kv. JStr (fst kv)) d)
      | JStr s \<Rightarrow> Inr (map (\<lambda>c. JStr [c]) s)
      | _ \<Rightarrow> if json_truthy v then Inl (TypeError ''object is not iterable'') else Inr [])"

definition declared_names :: "json list \<Rightarrow> string list" where
  "declared_names ds = filter (\<lambda>n. n \<noteq> []) (map (\<lambda>d. if is_obj d then parameter_name (fields_of d) else []) ds)"

definition resolve_parameters ::
  "text_parsers \<Rightarrow> date_clock \<Rightarrow> string option \<Rightarrow> json \<Rightarrow> param_value dict \<Rightarrow> param_value dict result" where
  "resolve_parameters P clock dataset_id perimeter given =
     rbind (parameter_definitions perimeter) (\<lambda>ds.
       if ds = [] then Inr []
       else (case filter (\<lambda>(k, v). py_strip k \<notin> set (declared_names ds)) given of
               (k, v) # _ \<Rightarrow> Inl (ValueError (''Unknown dataset parameter '' @ quoted k @ ''.''))
             | [] \<Rightarrow> foldM (resolve_parameter P clock dataset_id given) [] ds))"

end
