(* ===== verification/Perimeter.thy ===== *)
theory Perimeter
  imports DatasetParameters
begin

text \<open>
  The perimeter of a dataset (\<open>app/data_sources/services/dataset_perimeter_compiler.py\<close>): the normal
  form of its JSON, and the statement it compiles to on the columns of a table. The statement is the
  argument of SQLAlchemy's \<open>select\<close>, \<open>where\<close>, \<open>order_by\<close> and \<open>limit\<close>.
\<close>

section \<open>Normal form\<close>

definition supported_operators :: "string list" where
  "supported_operators = [''eq'', ''neq'', ''gt'', ''gte'', ''lt'', ''lte'', ''contains'', ''starts_with'',
     ''ends_with'', ''in'', ''not_in'', ''is_null'', ''is_not_null'']"

definition string_operators :: "string list" where
  "string_operators = [''contains'', ''starts_with'', ''ends_with'']"

definition null_operators :: "string list" where
  "null_operators = [''is_null'', ''is_not_null'']"

definition list_operators :: "string list" where
  "list_operators = [''in'', ''not_in'']"

text \<open>\<open>str(v or fallback).strip()\<close>.\<close>

definition token_or :: "string \<Rightarrow> json \<Rightarrow> string" where
  "token_or fallback v = py_strip (if json_truthy v then json_str v else fallback)"

definition at_index :: "string \<Rightarrow> nat \<Rightarrow> string" where
  "at_index path i = path @ ''['' @ nat_text i @ '']''"

text \<open>\<open>replace("..", ".")\<close>.\<close>

fun single_dots :: "string \<Rightarrow> string" where
  "single_dots (a # b # s) =
     (if a = CHR ''.'' \<and> b = CHR ''.'' then CHR ''.'' # single_dots s else a # single_dots (b # s))"
| "single_dots s = s"

fun serialize_default :: "param_value \<Rightarrow> json" where
  "serialize_default (PJson v) = v"
| "serialize_default (PDate d) = JStr d"
| "serialize_default (PDateTime t) = JStr t"

definition normalize_default_binding :: "json \<Rightarrow> string \<Rightarrow> json result" where
  "normalize_default_binding raw path =
     (case raw of
        JObj d \<Rightarrow>
          (let kind = py_lower (token (jget d ''kind'')); resolver = token (jget d ''resolver'') in
           if kind \<noteq> ''built_in'' then Inl (ValueError (path @ ''.kind must be '' @ quoted ''built_in'' @ ''.''))
           else if resolver \<notin> set builtin_resolvers
           then Inl (ValueError (path @ ''.resolver must be one of: '' @ join_with '', '' builtin_resolvers @ ''.''))
           else Inr (JObj [(''kind'', JStr kind), (''resolver'', JStr resolver)]))
      | _ \<Rightarrow> Inl (ValueError (path @ '' must be an object.'')))"

definition normalize_default_value :: "text_parsers \<Rightarrow> string \<Rightarrow> string \<Rightarrow> json \<Rightarrow> json result" where
  "normalize_default_value P ty path v =
     (if v = JNull then Inr JNull
      else map_error (\<lambda>e. ValueError (single_dots
               (path @ ''.default_value '' @ rstrip_char (CHR ''.'') (error_text e) @ ''.'')))
             (rbind (coerce_value P (JStr ty) (PJson v)) (\<lambda>w. Inr (serialize_default w))))"

definition normalize_parameter_definition :: "text_parsers \<Rightarrow> json \<Rightarrow> string \<Rightarrow> json dict result" where
  "normalize_parameter_definition P raw path =
     (case raw of
        JObj d \<Rightarrow>
          (let name = token (jget d ''name''); ty = py_lower (token (jget d ''type''));
               description = token (jget d ''description''); binding = jget d ''default_binding'' in
           if name = [] then Inl (ValueError (path @ ''.name is required.''))
           else if ty \<notin> set parameter_types
           then Inl (ValueError (path @ ''.type '' @ quoted ty @ '' is not supported.''))
           else if dict_get d ''default_value'' \<noteq> None \<and> binding \<noteq> JNull
           then Inl (ValueError (path @ '' cannot declare both default_value and default_binding.''))
           else
             rbind (case dict_get d ''default_value'' of
                      None \<Rightarrow> Inr []
                    | Some v \<Rightarrow> rbind (normalize_default_value P ty path v) (\<lambda>w. Inr [(''default_value'', w)]))
               (\<lambda>value.
             rbind (if binding = JNull then Inr []
                    else rbind (normalize_default_binding binding (path @ ''.default_binding''))
                           (\<lambda>b. Inr [(''default_binding'', b)]))
               (\<lambda>bind.
             Inr ([(''name'', JStr name), (''type'', JStr ty),
                   (''description'', if description = [] then JNull else JStr description)] @ value @ bind))))
      | _ \<Rightarrow> Inl (ValueError (path @ '' must be an object.'')))"

text \<open>The declarations in order, their names without repetition.\<close>

definition parameter_step ::
  "text_parsers \<Rightarrow> json dict dict \<Rightarrow> nat \<times> json \<Rightarrow> json dict dict result" where
  "parameter_step P acc ir =
     rbind (normalize_parameter_definition P (snd ir) (at_index ''parameters'' (fst ir))) (\<lambda>d.
       let name = str_or_empty (jget d ''name'') in
       if dict_get acc name \<noteq> None
       then Inl (ValueError (''Duplicate dataset parameter '' @ quoted name @ ''.''))
       else Inr (acc @ [(name, d)]))"

definition normalize_parameters :: "text_parsers \<Rightarrow> json \<Rightarrow> json dict dict result" where
  "normalize_parameters P raw =
     (case raw of
        JNull \<Rightarrow> Inr []
      | JList xs \<Rightarrow> foldM (parameter_step P) [] (enumerate 0 xs)
      | _ \<Rightarrow> Inl (ValueError ''parameters must be an array.''))"

definition column_step :: "string list \<Rightarrow> json \<Rightarrow> string list result" where
  "column_step acc item =
     (let name = token item in
      if name = [] then Inl (ValueError ''selected_columns items must be non-empty strings.'')
      else if name \<in> set acc then Inl (ValueError (''Duplicate selected column '' @ quoted name @ ''.''))
      else Inr (acc @ [name]))"

definition normalize_selected_columns :: "json \<Rightarrow> string list option result" where
  "normalize_selected_columns raw =
     (case raw of
        JNull \<Rightarrow> Inr None
      | JList xs \<Rightarrow> rbind (foldM column_step [] xs) (\<lambda>cs. Inr (Some cs))
      | _ \<Rightarrow> Inl (ValueError ''selected_columns must be an array.''))"

definition is_parameter_ref :: "json \<Rightarrow> bool" where
  "is_parameter_ref v \<longleftrightarrow> is_obj v \<and> py_lower (token (jget (fields_of v) ''kind'')) = ''parameter''"

definition normalize_filter_value ::
  "json dict dict \<Rightarrow> json \<Rightarrow> string \<Rightarrow> string \<Rightarrow> json result" where
  "normalize_filter_value params raw path operator =
     (if is_parameter_ref raw then
        (let name = token (jget (fields_of raw) ''name'') in
         if name = [] then Inl (ValueError (path @ ''.name is required for parameter references.''))
         else (case dict_get params name of
                 None \<Rightarrow> Inl (ValueError (path @ '' references unknown dataset parameter '' @ quoted name @ ''.''))
               | Some d \<Rightarrow>
                   (if operator \<in> set list_operators
                    then Inl (ValueError (path @ '' does not support parameter references for operator '' @
                           quoted operator @ ''.''))
                    else if \<not> is_operator_compatible (jget d ''type'') operator
                    then Inl (ValueError (path @ '' parameter '' @ quoted name @ '' with type '' @
                           quoted (json_str (jget d ''type'')) @ '' is not compatible with operator '' @
                           quoted operator @ ''.''))
                    else Inr (JObj [(''kind'', JStr ''parameter''), (''name'', JStr name)]))))
      else if operator \<in> set list_operators \<and> (\<not> is_list raw \<or> \<not> json_truthy raw)
      then Inl (ValueError (path @ '' must be a non-empty array for operator '' @ quoted operator @ ''.''))
      else if operator \<in> set string_operators \<and> \<not> is_str raw
      then Inl (ValueError (path @ '' must be a string for operator '' @ quoted operator @ ''.''))
      else Inr raw)"

definition normalize_filter_condition :: "json dict dict \<Rightarrow> json \<Rightarrow> string \<Rightarrow> json dict result" where
  "normalize_filter_condition params raw path =
     (case raw of
        JObj d \<Rightarrow>
          (let field = token (jget d ''field''); operator = py_lower (token (jget d ''operator'')) in
           if field = [] then Inl (ValueError (path @ ''.field is required.''))
           else if operator \<notin> set supported_operators
           then Inl (ValueError (path @ ''.operator '' @ quoted operator @ '' is not supported.''))
           else if operator \<in> set null_operators
           then Inr [(''field'', JStr field), (''operator'', JStr operator)]
           else (case dict_get d ''value'' of
                   None \<Rightarrow> Inl (ValueError (path @ ''.value is required for operator '' @ quoted operator @ ''.''))
                 | Some v \<Rightarrow>
                     rbind (normalize_filter_value params v (path @ ''.value'') operator) (\<lambda>w.
                       Inr [(''field'', JStr field), (''operator'', JStr operator), (''value'', w)])))
      | _ \<Rightarrow> Inl (ValueError (path @ '' must be an object.'')))"

text \<open>\<open>v or []\<close> where a list is required.\<close>

definition list_or_empty :: "json \<Rightarrow> string \<Rightarrow> json list result" where
  "list_or_empty v message =
     (case v of
        JList xs \<Rightarrow> Inr xs
      | _ \<Rightarrow> if json_truthy v then Inl (ValueError message) else Inr [])"

definition normalize_conditions :: "json dict dict \<Rightarrow> json list \<Rightarrow> string \<Rightarrow> json list result" where
  "normalize_conditions params raws path =
     mapM (\<lambda>ir. rbind (normalize_filter_condition params (snd ir) (at_index path (fst ir))) (\<lambda>c. Inr (JObj c)))
       (enumerate 0 raws)"

definition group_item :: "string \<Rightarrow> json list \<Rightarrow> json" where
  "group_item logic conditions =
     JObj [(''kind'', JStr ''group''), (''logic'', JStr logic), (''conditions'', JList conditions)]"

definition normalize_filter_item :: "json dict dict \<Rightarrow> json \<Rightarrow> string \<Rightarrow> json result" where
  "normalize_filter_item params raw path =
     (case raw of
        JObj d \<Rightarrow>
          (let kind = py_lower (token_or ''condition'' (jget d ''kind'')) in
           if kind = ''group'' then
             (let logic = py_upper (token_or ''AND'' (jget d ''logic'')) in
              if logic \<notin> set [''AND'', ''OR'']
              then Inl (ValueError (path @ ''.logic must be AND or OR.''))
              else rbind (list_or_empty (jget d ''conditions'') (path @ ''.conditions must be an array.'')) (\<lambda>raws.
                   rbind (normalize_conditions params raws (path @ ''.conditions'')) (\<lambda>cs.
                     if cs = [] then Inl (ValueError (path @ ''.conditions must contain at least one condition.''))
                     else Inr (group_item logic cs))))
           else if kind \<noteq> ''condition''
           then Inl (ValueError (path @ ''.kind must be '' @ quoted ''condition'' @ '' or '' @ quoted ''group'' @ ''.''))
           else rbind (normalize_filter_condition params raw path) (\<lambda>c.
                  Inr (JObj ((''kind'', JStr ''condition'') # c))))
      | _ \<Rightarrow> Inl (ValueError (path @ '' must be an object.'')))"

definition normalize_items :: "json dict dict \<Rightarrow> json list \<Rightarrow> json list result" where
  "normalize_items params raws =
     mapM (\<lambda>ir. normalize_filter_item params (snd ir) (at_index ''filter.items'' (fst ir))) (enumerate 0 raws)"

definition normalize_filter :: "json dict dict \<Rightarrow> json \<Rightarrow> json option result" where
  "normalize_filter params raw =
     (case raw of
        JNull \<Rightarrow> Inr None
      | JObj d \<Rightarrow>
          (let logic = py_upper (token_or ''AND'' (jget d ''logic'')) in
           if logic \<notin> set [''AND'', ''OR''] then Inl (ValueError ''filter.logic must be AND or OR.'')
           else
             rbind (if jget d ''items'' \<noteq> JNull then
                      rbind (list_or_empty (jget d ''items'') ''filter.items must be an array.'')
                        (normalize_items params)
                    else
                      rbind (list_or_empty (jget d ''conditions'') ''filter.conditions must be an array.'') (\<lambda>raws.
                      rbind (normalize_conditions params raws ''filter.conditions'') (\<lambda>cs.
                        Inr (if cs = [] then [] else [group_item logic cs]))))
               (\<lambda>its. Inr (if its = [] then None
                           else Some (JObj [(''logic'', JStr logic), (''items'', JList its)]))))
      | _ \<Rightarrow> Inl (ValueError ''filter must be an object.''))"

definition normalize_sort_item :: "nat \<times> json \<Rightarrow> json result" where
  "normalize_sort_item ir =
     (case snd ir of
        JObj d \<Rightarrow>
          (let field = token (jget d ''field''); direction = py_lower (token_or ''asc'' (jget d ''direction'')) in
           if field = [] then Inl (ValueError (at_index ''sort'' (fst ir) @ ''.field is required.''))
           else if direction \<notin> set [''asc'', ''desc'']
           then Inl (ValueError (at_index ''sort'' (fst ir) @ ''.direction must be '' @ quoted ''asc'' @
                  '' or '' @ quoted ''desc'' @ ''.''))
           else Inr (JObj [(''field'', JStr field), (''direction'', JStr direction)]))
      | _ \<Rightarrow> Inl (ValueError (at_index ''sort'' (fst ir) @ '' must be an object.'')))"

definition normalize_sort :: "json \<Rightarrow> json list option result" where
  "normalize_sort raw =
     (case raw of
        JNull \<Rightarrow> Inr None
      | JList xs \<Rightarrow> rbind (mapM normalize_sort_item (enumerate 0 xs)) (\<lambda>ss. Inr (Some ss))
      | _ \<Rightarrow> Inl (ValueError ''sort must be an array.''))"

text \<open>\<open>DatasetPerimeterCompiler.normalize\<close>.\<close>

definition normalize_perimeter :: "text_parsers \<Rightarrow> json \<Rightarrow> json result" where
  "normalize_perimeter P perimeter =
     (case perimeter of
        JNull \<Rightarrow> Inr JNull
      | JObj d \<Rightarrow>
          (if d = [] then Inr JNull
           else
             rbind (normalize_parameters P (jget d ''parameters'')) (\<lambda>params.
             rbind (normalize_selected_columns (jget d ''selected_columns'')) (\<lambda>columns.
             rbind (normalize_filter params (jget d ''filter'')) (\<lambda>filt.
             rbind (normalize_sort (jget d ''sort'')) (\<lambda>sort.
               let n = (if params = [] then [] else [(''parameters'', JList (map (\<lambda>nd. JObj (snd nd)) params))]) @
                       (case columns of None \<Rightarrow> [] | Some cs \<Rightarrow> [(''selected_columns'', JList (map JStr cs))]) @
                       (case filt of None \<Rightarrow> [] | Some f \<Rightarrow> [(''filter'', f)]) @
                       (case sort of None \<Rightarrow> [] | Some ss \<Rightarrow> [(''sort'', JList ss)])
               in Inr (if n = [] then JNull else JObj n))))))
      | _ \<Rightarrow> Inl (ValueError ''perimeter must be an object.''))"

section \<open>Statements\<close>

datatype sql_condition =
    Compare string string param_value
  | IsNull string
  | IsNotNull string
  | AllOf "sql_condition list"
  | AnyOf "sql_condition list"

record select_statement =
  st_columns :: "string list"
  st_where :: "sql_condition option"
  st_order :: "(string \<times> bool) list"
  st_limit :: "int option"

record compilation =
  cp_statement :: select_statement
  cp_columns :: "string list"
  cp_perimeter :: json

definition condition_value :: "param_value dict \<Rightarrow> json \<Rightarrow> param_value result" where
  "condition_value values v =
     (if is_parameter_ref v then
        (let name = token (jget (fields_of v) ''name'') in
         case dict_get values name of
           None \<Rightarrow> Inl (ValueError (''Resolved dataset parameter '' @ quoted name @ '' is missing.''))
         | Some w \<Rightarrow> Inr w)
      else Inr (PJson v))"

definition compile_condition :: "string list \<Rightarrow> param_value dict \<Rightarrow> json dict \<Rightarrow> sql_condition result" where
  "compile_condition columns values c =
     (let field = str_or_empty (jget c ''field''); operator = str_or_empty (jget c ''operator'') in
      if field \<notin> set columns then Inl (ValueError (''Filter field '' @ quoted field @ '' does not exist.''))
      else rbind (condition_value values (jget c ''value'')) (\<lambda>v.
        if operator = ''eq'' \<and> v = PJson JNull \<or> operator = ''is_null'' then Inr (IsNull field)
        else if operator = ''neq'' \<and> v = PJson JNull \<or> operator = ''is_not_null'' then Inr (IsNotNull field)
        else if operator \<in> set supported_operators then Inr (Compare field operator v)
        else Inl (ValueError (''Unsupported operator '' @ quoted operator @ ''.''))))"

definition combine :: "string \<Rightarrow> sql_condition list \<Rightarrow> sql_condition" where
  "combine logic cs = (if logic = ''OR'' then AnyOf cs else AllOf cs)"

definition compile_filter_item :: "string list \<Rightarrow> param_value dict \<Rightarrow> json \<Rightarrow> sql_condition result" where
  "compile_filter_item columns values item =
     (let d = fields_of item in
      if jget d ''kind'' = JStr ''condition'' then compile_condition columns values d
      else rbind (list_or_empty (jget d ''conditions'') ''conditions'') (\<lambda>cs.
           rbind (mapM (\<lambda>c. compile_condition columns values (fields_of c)) cs) (\<lambda>qs.
             Inr (combine (str_or_empty (jget d ''logic'')) qs))))"

definition compile_filter :: "string list \<Rightarrow> param_value dict \<Rightarrow> json dict \<Rightarrow> sql_condition option result" where
  "compile_filter columns values filt =
     (case jget filt ''items'' of
        JList its \<Rightarrow>
          (if its = [] then Inr None
           else rbind (mapM (compile_filter_item columns values) its) (\<lambda>qs.
                  Inr (Some (combine (str_or_empty (jget filt ''logic'')) qs))))
      | _ \<Rightarrow> Inr None)"

definition compile_sort_item :: "string list \<Rightarrow> json \<Rightarrow> (string \<times> bool) result" where
  "compile_sort_item columns item =
     (let field = str_or_empty (jget (fields_of item) ''field'') in
      if field \<notin> set columns then Inl (ValueError (''Sort field '' @ quoted field @ '' does not exist.''))
      else Inr (field, jget (fields_of item) ''direction'' = JStr ''desc''))"

definition json_items :: "json \<Rightarrow> json list" where
  "json_items v = (case v of JList xs \<Rightarrow> xs | _ \<Rightarrow> [])"

definition compile_columns :: "string list \<Rightarrow> json \<Rightarrow> string list result" where
  "compile_columns columns selected =
     (let names = map str_or_empty (json_items selected) in
      if names = [] then Inr columns
      else (case filter (\<lambda>c. c \<notin> set columns) names of
              c # _ \<Rightarrow> Inl (ValueError (''Selected column '' @ quoted c @ '' does not exist.''))
            | [] \<Rightarrow> Inr names))"

text \<open>\<open>DatasetPerimeterCompiler.compile\<close>, on the names of the columns of the table.\<close>

definition compile_perimeter ::
  "text_parsers \<Rightarrow> string list \<Rightarrow> json \<Rightarrow> int option \<Rightarrow> param_value dict \<Rightarrow> compilation result" where
  "compile_perimeter P columns perimeter limit values =
     rbind (normalize_perimeter P perimeter) (\<lambda>n.
       let d = fields_of n in
       rbind (compile_columns columns (jget d ''selected_columns'')) (\<lambda>selected.
       rbind (compile_filter columns values (fields_of (jget d ''filter''))) (\<lambda>filt.
       rbind (mapM (compile_sort_item columns) (json_items (jget d ''sort''))) (\<lambda>order.
         Inr \<lparr>cp_statement = \<lparr>st_columns = selected, st_where = filt, st_order = order, st_limit = limit\<rparr>,
              cp_columns = selected, cp_perimeter = n\<rparr>))))"

end
