(* ===== verification/Services.thy ===== *)
theory Services
  imports Execution Resolver Asserts Perimeter
begin

text \<open>
  What the commands use of the world outside the interpreter: the rows of the application's
  database, the SQL databases, the message brokers, HTTP servers and the clock. Every operation is
  a call on a world of type \<open>'w\<close> that may raise; the record of these operations is an argument of
  the executors. What is given to an operation is the JSON value of an object, since nothing outside
  keeps a reference to it.
\<close>

section \<open>The operations\<close>

text \<open>Rows of \<open>command_constant_definition\<close> and of \<open>queue\<close>, the columns the commands read.\<close>

record definition_row =
  df_name :: string
  df_scope :: string
  df_value_type :: string

record queue_row =
  qu_broker :: string
  qu_code :: string

text \<open>An engine is made from the URL of the application's database or from the configuration of a connection.\<close>

datatype engine = InternalEngine | ConnectionEngine json

record http_call =
  hc_method :: string
  hc_url :: string
  hc_params :: "json option"
  hc_headers :: "string dict"
  hc_timeout :: rat
  hc_json :: "json option"
  hc_data :: "json option"

text \<open>
  A response of the package \<open>requests\<close>: \<open>url\<close>, \<open>status_code\<close>, \<open>headers\<close>, \<open>ok\<close>, whether \<open>content\<close> is
  empty, the value of \<open>json()\<close> when it is JSON, \<open>text\<close>, and the milliseconds the request took.
\<close>

record http_response =
  hr_url :: string
  hr_status :: int
  hr_headers :: "string dict"
  hr_ok :: bool
  hr_empty :: bool
  hr_json :: "json option"
  hr_text :: string
  hr_elapsed :: int

datatype http_outcome = Responded http_response | TimedOut string | RequestFailed string

record 'w services =
  io_today :: "'w \<Rightarrow> string"
  io_utc_now :: "'w \<Rightarrow> string"
  io_now :: "'w \<Rightarrow> string"
  io_timestamp :: "'w \<Rightarrow> string"
  io_sleep :: "int \<Rightarrow> ('w, unit) call"
  io_parsers :: text_parsers
  io_float_text :: "rat \<Rightarrow> string"
  io_json_loads :: "string \<Rightarrow> json result"
  io_schema :: schema_check
  io_definition :: "'w \<Rightarrow> string \<Rightarrow> definition_row option"
  io_json_payload :: "'w \<Rightarrow> string \<Rightarrow> json option"
  io_dataset :: "'w \<Rightarrow> string \<Rightarrow> json option"
  io_insert_dataset :: "string \<Rightarrow> json \<Rightarrow> ('w, string) call"
  io_update_dataset :: "string \<Rightarrow> string \<Rightarrow> json \<Rightarrow> ('w, unit) call"
  io_delete_dataset :: "string \<Rightarrow> ('w, unit) call"
  io_connection_config :: "json \<Rightarrow> json result"
  io_table_names :: "engine \<Rightarrow> string option \<Rightarrow> ('w, string list) call"
  io_view_names :: "engine \<Rightarrow> string option \<Rightarrow> ('w, string list) call"
  io_table_columns :: "engine \<Rightarrow> string \<Rightarrow> string option \<Rightarrow> ('w, string list) call"
  io_select :: "nat \<Rightarrow> string \<Rightarrow> string option \<Rightarrow> select_statement \<Rightarrow> ('w, json dict list) call"
  io_has_table :: "engine \<Rightarrow> string \<Rightarrow> string option \<Rightarrow> ('w, bool) call"
  io_create_table :: "engine \<Rightarrow> string \<Rightarrow> string option \<Rightarrow> string dict \<Rightarrow> ('w, unit) call"
  io_insert :: "nat \<Rightarrow> string \<Rightarrow> string option \<Rightarrow> json dict list \<Rightarrow> ('w, unit) call"
  io_connect :: "engine \<Rightarrow> ('w, nat) call"
  io_sql :: "nat \<Rightarrow> string \<Rightarrow> json dict \<Rightarrow> ('w, json dict list) call"
  io_commit :: "nat \<Rightarrow> ('w, unit) call"
  io_close :: "nat \<Rightarrow> ('w, unit) call"
  io_queue :: "'w \<Rightarrow> string \<Rightarrow> queue_row option"
  io_broker_config :: "json \<Rightarrow> json result"
  io_receive :: "json \<Rightarrow> string \<Rightarrow> int \<Rightarrow> ('w, json list) call"
  io_ack :: "json \<Rightarrow> string \<Rightarrow> json list \<Rightarrow> ('w, unit) call"
  io_publish :: "json \<Rightarrow> string \<Rightarrow> json list \<Rightarrow> ('w, unit) call"
  io_request :: "http_call \<Rightarrow> ('w, http_outcome) call"
  io_start_suite :: "string \<Rightarrow> json \<Rightarrow> json dict \<Rightarrow> string option \<Rightarrow> ('w, string) call"

section \<open>Calls in the environment of a command\<close>

definition with_world :: "('w, 'a) call \<Rightarrow> ('w env, 'a) call" where
  "with_world m e = (case m (en_world e) of (r, w) \<Rightarrow> (r, e\<lparr>en_world := w\<rparr>))"

definition asks :: "('w \<Rightarrow> 'a) \<Rightarrow> ('w env, 'a) call" where
  "asks f e = (Inr (f (en_world e)), e)"

text \<open>Reading the objects of the interpreter, and making new ones.\<close>

definition reads :: "(heap \<Rightarrow> 'a) \<Rightarrow> ('w env, 'a) call" where
  "reads f e = (Inr (f (objects (en_py e))), e)"

definition builds :: "(heap \<Rightarrow> 'a \<times> heap) \<Rightarrow> ('w env, 'a) call" where
  "builds f e = (case f (objects (en_py e)) of (v, h) \<Rightarrow> (Inr v, on_py (\<lambda>p. p\<lparr>objects := h\<rparr>) e))"

text \<open>
  The JSON value of an object. The objects of a value without a cycle are nested less deep than
  there are objects, so the depth is enough; a cyclic value has no JSON value and raises.
\<close>

definition json_of :: "heap \<Rightarrow> pyval \<Rightarrow> json result" where
  "json_of h v =
     (case reify (Suc (length h)) h v of None \<Rightarrow> Inl RecursionError | Some j \<Rightarrow> Inr j)"

definition reified :: "pyval \<Rightarrow> ('w env, json) call" where
  "reified v e = (json_of (objects (en_py e)) v, e)"

definition logs :: "string \<Rightarrow> string \<Rightarrow> view \<Rightarrow> string \<Rightarrow> ('w env, unit) call" where
  "logs operation_id message payload level e = (Inr (), log_command operation_id message payload level e)"

text \<open>\<open>str(v)\<close> and \<open>bool(v)\<close> of an object.\<close>

definition text_of_value :: "pyval \<Rightarrow> ('w env, string) call" where
  "text_of_value v = sbind (reified v) (\<lambda>j. spure (json_str j))"

definition stripped_text :: "pyval \<Rightarrow> ('w env, string) call" where
  "stripped_text v = sbind (reified v) (\<lambda>j. spure (token j))"

text \<open>A loop whose body changes state and may raise.\<close>

fun smap :: "('a \<Rightarrow> ('s, 'b) call) \<Rightarrow> 'a list \<Rightarrow> ('s, 'b list) call" where
  "smap f [] = spure []"
| "smap f (x # xs) = sbind (f x) (\<lambda>y. sbind (smap f xs) (\<lambda>ys. spure (y # ys)))"

fun sfold :: "('b \<Rightarrow> 'a \<Rightarrow> ('s, 'b) call) \<Rightarrow> 'b \<Rightarrow> 'a list \<Rightarrow> ('s, 'b) call" where
  "sfold f acc [] = spure acc"
| "sfold f acc (x # xs) = sbind (f acc x) (\<lambda>acc'. sfold f acc' xs)"

lemma smap_cong [fundef_cong]:
  "xs = ys \<Longrightarrow> (\<And>x. x \<in> set ys \<Longrightarrow> f x = g x) \<Longrightarrow> smap f xs = smap g ys"
  by (induction xs arbitrary: ys) auto

text \<open>\<open>with engine.connect()\<close> and \<open>with engine.begin()\<close>: the second commits when its body returns.\<close>

definition with_connection :: "'w services \<Rightarrow> engine \<Rightarrow> (nat \<Rightarrow> ('w, 'a) call) \<Rightarrow> ('w, 'a) call" where
  "with_connection io eng body =
     sbind (io_connect io eng) (\<lambda>c w.
       case body c w of (r, w1) \<Rightarrow>
         (case io_close io c w1 of
            (Inl e, w2) \<Rightarrow> (Inl e, w2)
          | (Inr _, w2) \<Rightarrow> (r, w2)))"

definition with_transaction :: "'w services \<Rightarrow> engine \<Rightarrow> (nat \<Rightarrow> ('w, 'a) call) \<Rightarrow> ('w, 'a) call" where
  "with_transaction io eng body =
     with_connection io eng (\<lambda>c. sbind (body c) (\<lambda>r. sbind (io_commit io c) (\<lambda>_. spure r)))"

section \<open>Tables\<close>

text \<open>\<open>column_type_extractor.py\<close> on JSON values.\<close>

fun extract_column_type :: "json \<Rightarrow> string" where
  "extract_column_type (JBool b) = ''Boolean()''"
| "extract_column_type (JInt i) = ''Integer()''"
| "extract_column_type (JFloat q r) = ''Float()''"
| "extract_column_type (JList xs) = ''JSON''"
| "extract_column_type (JObj d) = ''JSON''"
| "extract_column_type (JStr s) = ''String(1024)''"
| "extract_column_type JNull = ''String(1024)''"

text \<open>\<open>table_name.split(".", 1)\<close>.\<close>

definition split_schema_and_table_name :: "string \<Rightarrow> string option \<times> string" where
  "split_schema_and_table_name table_name =
     (if CHR ''.'' \<in> set table_name then
        (let schema = py_strip (takeWhile (\<lambda>c. c \<noteq> CHR ''.'') table_name);
             table = py_strip (drop 1 (dropWhile (\<lambda>c. c \<noteq> CHR ''.'') table_name))
         in (if schema = [] then None else Some schema, table))
      else (None, table_name))"

definition ensure_table_exists ::
  "'w services \<Rightarrow> engine \<Rightarrow> string \<Rightarrow> json dict \<Rightarrow> ('w, string option \<times> string) call" where
  "ensure_table_exists io eng table_name schema =
     (let (sch, table) = split_schema_and_table_name table_name in
      sbind (io_has_table io eng table sch) (\<lambda>found.
        if found then spure (sch, table)
        else sbind (io_create_table io eng table sch (map (\<lambda>(k, v). (k, extract_column_type v)) schema))
               (\<lambda>_. spure (sch, table))))"

definition insert_rows :: "'w services \<Rightarrow> engine \<Rightarrow> string option \<times> string \<Rightarrow> json dict list \<Rightarrow> ('w, unit) call" where
  "insert_rows io eng tbl rows =
     (if rows = [] then spure ()
      else with_transaction io eng (\<lambda>c. io_insert io c (snd tbl) (fst tbl) rows))"

definition drop_table :: "'w services \<Rightarrow> engine \<Rightarrow> string \<Rightarrow> ('w, unit) call" where
  "drop_table io eng table_name =
     with_connection io eng (\<lambda>c. sbind (io_sql io c (''DROP TABLE IF EXISTS '' @ table_name) [])
       (\<lambda>_. io_commit io c))"

definition clean_table :: "'w services \<Rightarrow> engine \<Rightarrow> string \<Rightarrow> ('w, unit) call" where
  "clean_table io eng table_name =
     with_transaction io eng (\<lambda>c. sbind (io_sql io c (''DELETE FROM '' @ table_name) []) (\<lambda>_. spure ()))"

text \<open>\<open>sample_row\<close>: the last value of every column over the rows.\<close>

definition sample_row :: "json dict list \<Rightarrow> json dict" where
  "sample_row rows = foldl dict_update [] rows"

section \<open>Connections\<close>

text \<open>\<open>load_database_connection\<close> and \<open>load_broker_connection\<close>; the pydantic model of a type of connection is a parameter.\<close>

definition load_database_connection :: "'w services \<Rightarrow> string \<Rightarrow> ('w, json) call" where
  "load_database_connection io i w =
     (case io_json_payload io w i of
        None \<Rightarrow> (Inl (ValueError (''Database connection '' @ quoted i @ '' not found'')), w)
      | Some p \<Rightarrow>
          (let t = jget (fields_of p) ''database_type'' in
           if t \<in> set (map JStr [''postgres'', ''oracle'', ''sqlserver'', ''redshift''])
           then (io_connection_config io p, w)
           else (Inl (ValueError (''Unsupported database connection type: '' @ json_str t)), w)))"

definition convert_database_connection_config :: "'w services \<Rightarrow> json \<Rightarrow> json result" where
  "convert_database_connection_config io p =
     (let t = py_lower (token (jget (fields_of p) ''database_type'')) in
      if t \<in> set [''postgres'', ''oracle'', ''sqlserver'', ''redshift''] then io_connection_config io p
      else Inl (ValueError (''Unsupported database connection type: '' @ t)))"

definition load_broker_connection :: "'w services \<Rightarrow> string \<Rightarrow> ('w, json) call" where
  "load_broker_connection io i w =
     (case io_json_payload io w i of
        None \<Rightarrow> (Inl (ValueError (''Broker connection '' @ quoted i @ '' not found'')), w)
      | Some p \<Rightarrow>
          (let t = jget (fields_of p) ''sourceType'' in
           if t = JStr ''amazon-sqs'' \<or> t = JStr ''elasticmq'' then (io_broker_config io p, w)
           else (Inl (ValueError (''Unsupported sourceType: '' @ json_str t)), w)))"

section \<open>Definitions of constants\<close>

definition resolve_definition_path :: "'w services \<Rightarrow> string \<Rightarrow> ('w env, definition_row \<times> string) call" where
  "resolve_definition_path io i e =
     (case io_definition io (en_world e) i of
        None \<Rightarrow> (Inl (ValueError (''Constant definition '' @ quoted i @ '' not found.'')), e)
      | Some d \<Rightarrow> (Inr (d, ''$.'' @ df_scope d @ ''.constants.'' @ df_name d), e))"

text \<open>The value of a path in the run context, and whether it was found.\<close>

definition resolve_path :: "string \<Rightarrow> ('w env, pyval) call" where
  "resolve_path path = with_py (resolve_in_context (JStr path))"

definition definition_value :: "'w services \<Rightarrow> string \<Rightarrow> ('w env, definition_row \<times> pyval option) call" where
  "definition_value io i =
     sbind (resolve_definition_path io i) (\<lambda>(d, path).
     sbind (resolve_path path) (\<lambda>v. spure (d, if v = VStr path then None else Some v)))"

end
