(* ===== verification/DatasetQuery.thy ===== *)
theory DatasetQuery
  imports Services
begin

text \<open>
  The query of a dataset (\<open>app/data_sources/services/dataset_query_service.py\<close>): its configuration,
  its perimeter and its parameters make one statement, which runs on the connection of the dataset.
  The values of a row are its JSON values.
\<close>

definition safe_limit :: "int \<Rightarrow> int" where
  "safe_limit limit = (if limit \<le> 0 then 1 else if limit > 500 then 500 else limit)"

definition normalize_object_type :: "string \<Rightarrow> string result" where
  "normalize_object_type v =
     (let t = py_lower (py_strip v) in
      if t \<in> set [''table'', ''base table''] then Inr ''table''
      else if t = ''view'' then Inr ''view''
      else Inl (AppException (''Unsupported object type: '' @ v)))"

record dataset_config =
  dc_connection :: string
  dc_object :: string
  dc_type :: string
  dc_schema :: "string option"

text \<open>\<open>validate_dataset_configuration\<close>: the payload with its fields normalised.\<close>

definition validate_dataset_configuration :: "json dict \<Rightarrow> dataset_config result" where
  "validate_dataset_configuration d =
     rbind (normalize_object_type (if json_truthy (jget d ''object_type'')
         then json_str (jget d ''object_type'') else ''table'')) (\<lambda>t.
       let connection_id = token (jget d ''connection_id''); object_name = token (jget d ''object_name'') in
       if connection_id = [] then Inl (AppException ''Payload non valido: connection_id obbligatorio.'')
       else if object_name = [] then Inl (AppException ''Payload non valido: object_name obbligatorio.'')
       else Inr \<lparr>dc_connection = connection_id, dc_object = object_name, dc_type = t,
              dc_schema = non_empty (token (jget d ''schema''))\<rparr>)"

text \<open>\<open>except ValueError as exc: raise QualityFlowAppException(str(exc))\<close>; pydantic's errors are value errors.\<close>

fun as_app_error :: "py_error \<Rightarrow> py_error" where
  "as_app_error (ValueError m) = AppException m"
| "as_app_error (ValidationError m) = AppException m"
| "as_app_error e = e"

definition get_dataset_for_runtime :: "'w services \<Rightarrow> string \<Rightarrow> ('w, json dict) call" where
  "get_dataset_for_runtime io dataset_id w =
     (case io_dataset io w (py_strip dataset_id) of
        None \<Rightarrow> (Inl (ValueError (''Database datasource '' @ quoted dataset_id @ '' not found'')), w)
      | Some c \<Rightarrow> (Inr (fields_of c), w))"

text \<open>\<open>qualified_table_name_from_dataset\<close>, and \<open>_table_name_from_payload\<close> of two commands.\<close>

definition qualified_table_name :: "json dict \<Rightarrow> string" where
  "qualified_table_name d =
     (let object_name = token (jget d ''object_name''); schema = token (jget d ''schema'') in
      if schema = [] \<or> CHR ''.'' \<in> set object_name then object_name else schema @ ''.'' @ object_name)"

definition load_connection_for_query :: "'w services \<Rightarrow> string \<Rightarrow> ('w, json) call" where
  "load_connection_for_query io connection_id w =
     (case io_json_payload io w connection_id of
        Some (JObj p) \<Rightarrow> (convert_database_connection_config io (JObj p), w)
      | _ \<Rightarrow> load_database_connection io connection_id w)"

record preview =
  pv_schema :: "string option"
  pv_config :: dataset_config
  pv_columns :: "string list"
  pv_rows :: "json dict list"
  pv_perimeter :: json
  pv_parameters :: "param_value dict"

definition date_clock_at :: "'w services \<Rightarrow> 'w \<Rightarrow> date_clock" where
  "date_clock_at io w = \<lparr>clock_now = io_now io w, clock_today = io_today io w\<rparr>"

text \<open>The body of the \<open>try\<close>, whose value errors become the application's.\<close>

definition query_body ::
  "'w services \<Rightarrow> dataset_config \<Rightarrow> json \<Rightarrow> int option \<Rightarrow> param_value dict \<Rightarrow> string option \<Rightarrow>
    ('w, preview) call" where
  "query_body io cfg perimeter limit overrides dataset_id =
     sbind (slift (normalize_perimeter (io_parsers io) perimeter)) (\<lambda>n.
     sbind (\<lambda>w. (resolve_parameters (io_parsers io) (date_clock_at io w) dataset_id n overrides, w)) (\<lambda>values.
     sbind (load_connection_for_query io (dc_connection cfg)) (\<lambda>connection.
       let eng = ConnectionEngine connection;
           schema = (if dc_schema cfg \<noteq> None then dc_schema cfg
                     else non_empty (str_or_empty (jget (fields_of connection) ''db_schema''))) in
       sbind (if dc_type cfg = ''table'' then io_table_names io eng schema else io_view_names io eng schema) (\<lambda>names.
       if dc_object cfg \<notin> set names
       then sraise (AppException (''Object [ '' @ dc_object cfg @ '' ] not found for type [ '' @ dc_type cfg @ '' ]''))
       else
         sbind (io_table_columns io eng (dc_object cfg) schema) (\<lambda>columns.
         sbind (slift (compile_perimeter (io_parsers io) columns n (map_option safe_limit limit) values)) (\<lambda>c.
         sbind (with_connection io eng (\<lambda>conn. io_select io conn (dc_object cfg) schema (cp_statement c))) (\<lambda>rows.
           spure \<lparr>pv_schema = schema, pv_config = cfg, pv_columns = cp_columns c, pv_rows = rows,
                   pv_perimeter = cp_perimeter c, pv_parameters = values\<rparr>)))))))"

definition execute_dataset_query ::
  "'w services \<Rightarrow> json dict \<Rightarrow> json \<Rightarrow> int option \<Rightarrow> param_value dict \<Rightarrow> string option \<Rightarrow>
    ('w, preview) call" where
  "execute_dataset_query io payload perimeter limit overrides dataset_id =
     sbind (slift (validate_dataset_configuration payload)) (\<lambda>cfg w.
       case query_body io cfg perimeter limit overrides dataset_id w of
         (Inl e, w1) \<Rightarrow> (Inl (as_app_error e), w1)
       | (Inr p, w1) \<Rightarrow> (Inr p, w1))"

end
