(* ===== verification/CommandInputs.thy ===== *)
theory CommandInputs
  imports DatasetQuery
begin

text \<open>
  Where a command takes its inputs from: the data of the previous command, a constant of the run
  context or a source that the suite's items see (\<open>operations/command_data_resolver.py\<close>), and the
  nodes of the HTTP commands (\<open>operations/http_input_node_resolver.py\<close>).
\<close>

section \<open>Sources and references\<close>

text \<open>\<open>_resolve_dataset_parameter_bindings\<close>.\<close>

definition resolve_binding :: "'w services \<Rightarrow> string \<times> json \<Rightarrow> ('w env, string \<times> param_value) call" where
  "resolve_binding io nb =
     (let d = fields_of (snd nb); kind = py_lower (token (jget d ''kind'')) in
      if is_obj (snd nb) \<and> kind = ''constant_ref'' then
        sbind (definition_value io (token (jget d ''definitionId''))) (\<lambda>(_, found).
          case found of
            None \<Rightarrow> sraise (ValueError (''Dataset parameter '' @ quoted (fst nb) @
              '' constant reference is not resolved.''))
          | Some v \<Rightarrow> sbind (reified v) (\<lambda>j. spure (fst nb, PJson j)))
      else if is_obj (snd nb) \<and> kind = ''built_in'' then
        (\<lambda>e. (rbind (resolve_builtin (date_clock_at io (en_world e)) (token (jget d ''resolver'')))
                (\<lambda>v. Inr (fst nb, v)), e))
      else spure (fst nb, PJson (snd nb)))"

definition load_json_source :: "'w services \<Rightarrow> json dict \<Rightarrow> ('w env, pyval) call" where
  "load_json_source io source =
     (let i = token (jget source ''jsonArrayId'') in
      sbind (asks (\<lambda>w. io_json_payload io w i)) (\<lambda>found.
        case found of
          None \<Rightarrow> sraise (ValueError (''Json array '' @ quoted i @ '' not found''))
        | Some p \<Rightarrow> builds (embed (if is_list p then p else JList [p]))))"

definition load_dataset_source :: "'w services \<Rightarrow> json dict \<Rightarrow> ('w env, pyval) call" where
  "load_dataset_source io source =
     (let i = token (jget source ''datasetId'') in
      sbind (with_world (get_dataset_for_runtime io i)) (\<lambda>cfg.
      sbind (slift (map_error as_app_error (normalize_perimeter (io_parsers io) (jget source ''perimeter''))))
        (\<lambda>perimeter.
      sbind (smap (resolve_binding io) (fields_of (jget source ''parameterBindings''))) (\<lambda>values.
      sbind (with_world (execute_dataset_query io cfg perimeter None values (Some i))) (\<lambda>p.
        builds (embed (JList (map JObj (pv_rows p)))))))))"

definition current_sources :: "py_state \<Rightarrow> json dict" where
  "current_sources p = (case current_context p of None \<Rightarrow> [] | Some rc \<Rightarrow> visible_sources rc)"

definition resolve_source_payload :: "'w services \<Rightarrow> string \<Rightarrow> ('w env, pyval \<times> string) call" where
  "resolve_source_payload io code e =
     (case dict_get (current_sources (en_py e)) (py_strip code) of
        Some (JObj source) \<Rightarrow>
          (let source_type = token (jget source ''sourceType'') in
           if source_type = ''jsonArray''
           then sbind (load_json_source io source) (\<lambda>v. spure (v, source_type)) e
           else if source_type = ''dataset''
           then sbind (load_dataset_source io source) (\<lambda>v. spure (v, source_type)) e
           else (Inl (ValueError (''Unsupported sourceType '' @ quoted source_type @ ''.'')), e))
      | _ \<Rightarrow> (Inl (ValueError (''Source '' @ quoted code @ '' is not visible in the current execution context.'')), e))"

text \<open>\<open>resolve_definition_input_data\<close> and \<open>resolve_input_reference\<close>.\<close>

definition resolve_definition_input :: "'w services \<Rightarrow> string \<Rightarrow> pyval \<Rightarrow> ('w env, pyval) call" where
  "resolve_definition_input io i data =
     (if i = [] then spure data
      else sbind (definition_value io i) (\<lambda>(_, found). spure (case found of None \<Rightarrow> VNone | Some v \<Rightarrow> v)))"

definition resolve_input_reference ::
  "'w services \<Rightarrow> input_ref option \<Rightarrow> pyval \<Rightarrow> ('w env, pyval \<times> string) call" where
  "resolve_input_reference io ref data =
     (case ref of
        None \<Rightarrow> spure (data, ''json'')
      | Some (RuntimeValue i) \<Rightarrow>
          sbind (resolve_definition_input io i data) (\<lambda>v.
          sbind (resolve_definition_path io i) (\<lambda>(d, _). spure (v, or_text (df_value_type d) ''json'')))
      | Some (Source code) \<Rightarrow> resolve_source_payload io code)"

definition write_result_constant :: "'w services \<Rightarrow> result_constant option \<Rightarrow> pyval \<Rightarrow> ('w env, unit) call" where
  "write_result_constant io rc v =
     (case rc of
        None \<Rightarrow> spure ()
      | Some c \<Rightarrow> sbind (resolve_definition_path io (rc_definition c)) (\<lambda>(_, path). with_py (write_context_path path v)))"

text \<open>\<open>coerce_rows\<close>, on the JSON value of the input.\<close>

definition coerce_rows :: "json \<Rightarrow> json dict list" where
  "coerce_rows v =
     (case v of JList xs \<Rightarrow> map fields_of (filter is_obj xs) | JObj d \<Rightarrow> [d] | _ \<Rightarrow> [])"

section \<open>Field paths\<close>

definition invalid_field_path :: "string \<Rightarrow> py_error" where
  "invalid_field_path path = ValueError (''Invalid fieldPath '' @ quoted path @ ''.'')"

definition split_relative_field_path :: "string \<Rightarrow> string list result" where
  "split_relative_field_path path =
     (let p = py_strip path in
      if p = [] then Inr []
      else if starts_with ''.'' p \<or> ends_with ''.'' p \<or> contains_sub ''..'' p then Inl (invalid_field_path p)
      else (let parts = split_path_scan p [] 0 in
            if [] \<in> set parts then Inl (invalid_field_path p) else Inr parts))"

text \<open>\<open>_relative_segment_tokens\<close>; \<open>\d\<close> also matches no other digit below 256.\<close>

function relative_segment_tokens :: "string \<Rightarrow> string \<Rightarrow> path_token list result" where
  "relative_segment_tokens segment remaining =
     (case remaining of
        [] \<Rightarrow> Inr []
      | c # cs \<Rightarrow>
          if c = CHR ''['' then
            (if CHR '']'' \<notin> set cs
             then Inl (ValueError (''Invalid field path segment '' @ quoted segment @ ''.''))
             else
               (let index_token = py_strip (takeWhile (\<lambda>x. x \<noteq> CHR '']'') cs) in
                if index_token = [] \<or> \<not> list_all is_decimal index_token
                then Inl (ValueError (''Invalid list index '' @ quoted index_token @
                  '' in field path '' @ quoted segment @ ''.''))
                else rbind (relative_segment_tokens segment (drop 1 (dropWhile (\<lambda>x. x \<noteq> CHR '']'') cs)))
                       (\<lambda>ts. Inr (Index (digits_value index_token) # ts))))
          else
            (let name = takeWhile (\<lambda>x. x \<noteq> CHR ''['') remaining;
                 rest = dropWhile (\<lambda>x. x \<noteq> CHR ''['') remaining
             in rbind (relative_segment_tokens segment rest) (\<lambda>ts. Inr (Name name # ts))))"
  by pat_completeness auto
termination
proof (relation "measure (\<lambda>(s, r). length r)", goal_cases)
  case 1
  show ?case by simp
next
  case (2 segment remaining c cs x)
  then show ?case
    using length_dropWhile_le [of "\<lambda>x. x \<noteq> CHR '']''" cs] by simp
next
  case (3 segment remaining c cs x xa)
  then show ?case
    using length_dropWhile_le [of "\<lambda>x. x \<noteq> CHR ''[''" cs] by simp
qed

declare relative_segment_tokens.simps [simp del]

text \<open>The segments are tokenised as they are followed; what is missing is None.\<close>

fun follow_segments :: "heap \<Rightarrow> pyval \<Rightarrow> string list \<Rightarrow> pyval result" where
  "follow_segments h cur [] = Inr cur"
| "follow_segments h cur (s # ss) =
     rbind (relative_segment_tokens s (py_strip s)) (\<lambda>ts.
       case ref_walk h cur ts of None \<Rightarrow> Inr VNone | Some w \<Rightarrow> follow_segments h w ss)"

definition resolve_relative_field_path :: "pyval \<Rightarrow> string \<Rightarrow> heap \<Rightarrow> pyval result" where
  "resolve_relative_field_path v field_path h =
     (let p = py_strip field_path in
      if p = [] then Inr v
      else if starts_with ''$'' p
      then Inl (ValueError (''fieldPath must be relative and must not start with '' @ quoted ''$'' @ ''.''))
      else rbind (split_relative_field_path p) (follow_segments h v))"

section \<open>HTTP nodes\<close>

definition resolve_built_in :: "'w services \<Rightarrow> string \<Rightarrow> ('w env, pyval) call" where
  "resolve_built_in io resolver e =
     (let r = py_lower (py_strip resolver) in
      if r = ''now'' then (Inr (VStr (io_now io (en_world e))), e)
      else if r = ''today'' then (Inr (VStr (io_today io (en_world e))), e)
      else (Inl (ValueError (''Unsupported built-in resolver '' @ quoted resolver @ ''.'')), e))"

fun resolve_http_node :: "'w services \<Rightarrow> http_node \<Rightarrow> ('w env, pyval) call" where
  "resolve_http_node io (Literal v) = with_py (resolve_in_context v)"
| "resolve_http_node io (RuntimeNode i path) =
     sbind (definition_value io i) (\<lambda>(_, found).
       case found of
         None \<Rightarrow> spure VNone
       | Some v \<Rightarrow>
           (if text_of path = [] then spure v
            else (\<lambda>e. (resolve_relative_field_path v (text_of path) (objects (en_py e)), e))))"
| "resolve_http_node io (SourceNode code) = sbind (resolve_source_payload io code) (\<lambda>(v, _). spure v)"
| "resolve_http_node io (BuiltInNode r) = resolve_built_in io r"

fun resolve_http_tree :: "'w services \<Rightarrow> http_tree \<Rightarrow> ('w env, pyval) call" where
  "resolve_http_tree io HNone = spure VNone"
| "resolve_http_tree io (HNode n) = resolve_http_node io n"
| "resolve_http_tree io (HObj d) =
     sbind (smap (\<lambda>kt. sbind (resolve_http_tree io (snd kt)) (\<lambda>v. spure (fst kt, v))) d) (\<lambda>vd.
       builds (\<lambda>h. let (a, h') = halloc (ODict vd) h in (VRef a, h')))"
| "resolve_http_tree io (HList ts) =
     sbind (smap (resolve_http_tree io) ts) (\<lambda>vs.
       builds (\<lambda>h. let (a, h') = halloc (OList vs) h in (VRef a, h')))"

definition node_step ::
  "'w services \<Rightarrow> pyval dict \<Rightarrow> string \<times> http_node \<Rightarrow> ('w env, pyval dict) call" where
  "node_step io acc kn =
     sbind (resolve_http_node io (snd kn)) (\<lambda>v. spure (if v = VNone then acc else dict_set (fst kn) v acc))"

definition resolve_http_kv_params ::
  "'w services \<Rightarrow> (string \<times> http_node) list option \<Rightarrow> ('w env, pyval dict) call" where
  "resolve_http_kv_params io params = sfold (node_step io) [] (case params of None \<Rightarrow> [] | Some d \<Rightarrow> d)"

definition header_step ::
  "'w services \<Rightarrow> string dict \<Rightarrow> string \<times> http_node \<Rightarrow> ('w env, string dict) call" where
  "header_step io acc kn =
     sbind (resolve_http_node io (snd kn)) (\<lambda>v.
       if v = VNone then spure acc
       else sbind (text_of_value v) (\<lambda>s. spure (dict_set (fst kn) s acc)))"

definition resolve_http_headers ::
  "'w services \<Rightarrow> (string \<times> http_node) list option \<Rightarrow> ('w env, string dict) call" where
  "resolve_http_headers io headers = sfold (header_step io) [] (case headers of None \<Rightarrow> [] | Some d \<Rightarrow> d)"

section \<open>URLs\<close>

text \<open>
  The matches of \<open>\{([^}]+)\}\<close> from left to right: text outside matches and names of placeholders.
  A match takes the characters up to the next closing brace, opening braces among them.
\<close>

datatype url_part = Text char | Placeholder string

function url_parts :: "string \<Rightarrow> url_part list" where
  "url_parts [] = []"
| "url_parts (c # cs) =
     (if c = CHR ''{'' \<and> takeWhile (\<lambda>x. x \<noteq> CHR ''}'') cs \<noteq> [] \<and> CHR ''}'' \<in> set cs
      then Placeholder (takeWhile (\<lambda>x. x \<noteq> CHR ''}'') cs) #
             url_parts (drop 1 (dropWhile (\<lambda>x. x \<noteq> CHR ''}'') cs))
      else Text c # url_parts cs)"
  by pat_completeness auto
termination
proof (relation "measure length", goal_cases)
  case (2 c cs)
  then show ?case
    using length_dropWhile_le [of "\<lambda>x. x \<noteq> CHR ''}''" cs] by simp
qed simp_all

declare url_parts.simps(2) [simp del]

definition placeholders :: "url_part list \<Rightarrow> string list" where
  "placeholders ps = concat (map (\<lambda>p. case p of Placeholder n \<Rightarrow> [n] | Text c \<Rightarrow> []) ps)"

definition fill_part :: "string dict \<Rightarrow> url_part \<Rightarrow> string result" where
  "fill_part params p =
     (case p of
        Text c \<Rightarrow> Inr [c]
      | Placeholder n \<Rightarrow>
          (case dict_get params n of
             Some v \<Rightarrow> Inr v
           | None \<Rightarrow> Inl (ValueError (''URL path parameter '' @ quoted n @ '' has no matching pathParams entry.''))))"

definition fill_url :: "string dict \<Rightarrow> string \<Rightarrow> string result" where
  "fill_url params url = rbind (mapM (fill_part params) (url_parts url)) (\<lambda>ss. Inr (concat ss))"

definition path_step ::
  "'w services \<Rightarrow> string dict \<Rightarrow> string \<times> http_node \<Rightarrow> ('w env, string dict) call" where
  "path_step io acc kn =
     sbind (resolve_http_node io (snd kn)) (\<lambda>v.
       if v = VNone then sraise (ValueError (''Path parameter '' @ quoted (fst kn) @ '' resolved to None.''))
       else sbind (text_of_value v) (\<lambda>s. spure (dict_set (fst kn) s acc)))"

definition resolve_path_params_and_url ::
  "'w services \<Rightarrow> string \<Rightarrow> (string \<times> http_node) list option \<Rightarrow> ('w env, string) call" where
  "resolve_path_params_and_url io url params =
     (case params of
        Some (d # ds) \<Rightarrow> sbind (sfold (path_step io) [] (d # ds)) (\<lambda>ps. slift (fill_url ps url))
      | _ \<Rightarrow>
          (if placeholders (url_parts url) = [] then spure url
           else sraise (ValueError (''URL contains unresolved path parameter(s): '' @
                  join_with '', '' (placeholders (url_parts url)) @ ''.''))))"

section \<open>Bodies\<close>

definition form_value_check :: "'w services \<Rightarrow> string \<Rightarrow> http_tree \<Rightarrow> ('w env, unit) call" where
  "form_value_check io key t =
     (case t of
        HNode (SourceNode _) \<Rightarrow>
          sraise (ValueError (''formUrlEncoded field '' @ quoted key @ '' does not support datasource values.''))
      | HNode (RuntimeNode i _) \<Rightarrow>
          sbind (resolve_definition_path io i) (\<lambda>(d, _).
            let vt = py_strip (df_value_type d) in
            if vt = ''dataset'' \<or> vt = ''jsonArray''
            then sraise (ValueError (''formUrlEncoded field '' @ quoted key @
                   '' does not support runtime value type '' @ quoted vt @ ''.''))
            else spure ())
      | _ \<Rightarrow> spure ())"

definition form_value_step ::
  "'w services \<Rightarrow> pyval dict \<Rightarrow> string \<times> http_tree \<Rightarrow> ('w env, pyval dict) call" where
  "form_value_step io acc kt =
     (let key = py_strip (fst kt) in
      if key = [] then sraise (ValueError ''formUrlEncoded body keys are required.'')
      else sbind (form_value_check io key (snd kt)) (\<lambda>_.
           sbind (resolve_http_tree io (snd kt)) (\<lambda>v e.
             if v = VNone then (Inr acc, e)
             else if dict_at (objects (en_py e)) v \<noteq> None \<or> list_at (objects (en_py e)) v \<noteq> None
             then (Inl (ValueError (''formUrlEncoded field '' @ quoted key @
                    '' resolved to a non-scalar value. Use a fieldPath that targets a scalar leaf.'')), e)
             else (Inr (dict_set key v acc), e))))"

text \<open>\<open>resolve_http_body\<close>; a form without fields is no body.\<close>

definition resolve_http_body :: "'w services \<Rightarrow> http_tree \<Rightarrow> string \<Rightarrow> ('w env, pyval) call" where
  "resolve_http_body io body body_type =
     (if body = HNone then spure VNone
      else if py_strip body_type = ''formUrlEncoded'' then
        (case body of
           HObj d \<Rightarrow> sbind (sfold (form_value_step io) [] d) (\<lambda>vd.
             if vd = [] then spure VNone
             else builds (\<lambda>h. let (a, h') = halloc (ODict vd) h in (VRef a, h')))
         | _ \<Rightarrow> sraise (ValueError ''formUrlEncoded body must be an object.''))
      else resolve_http_tree io body)"

end
