(* ===== verification/HttpCommands.thy ===== *)
theory HttpCommands
  imports CommandInputs
begin

text \<open>
  The commands \<open>readApi\<close> and \<open>writeApi\<close> (\<open>operations/http_command_executor.py\<close>) and the header of
  their authorization (\<open>compile_authorization\<close> of \<open>operations/http_input_node_resolver.py\<close>).
\<close>

type_synonym 'w command_call = "('w env, results) call"

section \<open>Base64\<close>

text \<open>\<open>base64.b64encode\<close> of the UTF-8 encoding of a text whose characters are below 256.\<close>

definition utf8_bytes :: "string \<Rightarrow> nat list" where
  "utf8_bytes s = concat (map (\<lambda>c. let n = of_char c in
     if n < 128 then [n] else [192 + n div 64, 128 + n mod 64]) s)"

definition base64_digit :: "nat \<Rightarrow> char" where
  "base64_digit n =
     (if n < 26 then char_of (n + 65) else if n < 52 then char_of (n + 71)
      else if n < 62 then char_of (n - 4) else if n = 62 then CHR ''+'' else CHR ''/'')"

fun base64_encode :: "nat list \<Rightarrow> string" where
  "base64_encode [] = []"
| "base64_encode [a] = [base64_digit (a div 4), base64_digit (a mod 4 * 16), CHR ''='', CHR ''='']"
| "base64_encode [a, b] =
     [base64_digit (a div 4), base64_digit (a mod 4 * 16 + b div 16), base64_digit (b mod 16 * 4), CHR ''='']"
| "base64_encode (a # b # c # s) =
     [base64_digit (a div 4), base64_digit (a mod 4 * 16 + b div 16),
      base64_digit (b mod 16 * 4 + c div 64), base64_digit (c mod 64)] @ base64_encode s"

section \<open>Authorization\<close>

definition resolve_leaf :: "'w services \<Rightarrow> http_node \<Rightarrow> ('w env, string) call" where
  "resolve_leaf io n = sbind (resolve_http_node io n) stripped_text"

definition post_call :: "string \<Rightarrow> json option \<Rightarrow> json option \<Rightarrow> http_call" where
  "post_call url js form = \<lparr>hc_method = ''POST'', hc_url = url, hc_params = None, hc_headers = [],
     hc_timeout = 30, hc_json = js, hc_data = form\<rparr>"

definition token_header :: "string \<Rightarrow> string dict" where
  "token_header t = [(''Authorization'', ''Bearer '' @ t)]"

definition access_token :: "http_response \<Rightarrow> string \<Rightarrow> string result" where
  "access_token r what =
     (if \<not> hr_ok r then Inl (ValueError (what @ '' returned status '' @ int_text (hr_status r) @ ''.''))
      else (case hr_json r of
              None \<Rightarrow> Inl (ValueError (what @ '' response is not valid JSON.''))
            | Some body \<Rightarrow>
                (let t = token (jget (fields_of body) ''access_token'') in
                 if t = [] then Inl (ValueError (what @ '' response missing '' @ quoted ''access_token'' @ ''.''))
                 else Inr t)))"

text \<open>
  The exchange of credentials for a token: the text \<open>what\<close> names the exchange in the messages about
  the request and \<open>answer\<close> in those about its JSON.
\<close>

definition exchange_token ::
  "'w services \<Rightarrow> http_call \<Rightarrow> string \<Rightarrow> string \<Rightarrow> ('w env, string dict) call" where
  "exchange_token io c what answer =
     sbind (with_world (io_request io c)) (\<lambda>out.
       case out of
         TimedOut m \<Rightarrow> sraise (ValueError (what @ '' failed: '' @ m))
       | RequestFailed m \<Rightarrow> sraise (ValueError (what @ '' failed: '' @ m))
       | Responded r \<Rightarrow>
           (if \<not> hr_ok r then slift (rbind (access_token r what) (\<lambda>t. Inr (token_header t)))
            else slift (rbind (access_token r answer) (\<lambda>t. Inr (token_header t)))))"

definition require_leaf :: "string \<Rightarrow> string \<Rightarrow> string \<Rightarrow> ('w env, unit) call" where
  "require_leaf v field auth_type =
     slift (require (v \<noteq> []) (ValueError (''authorization.'' @ field @ '' resolved to empty for '' @ auth_type @ '' auth.'')))"

fun compile_authorization :: "'w services \<Rightarrow> http_auth option \<Rightarrow> ('w env, string dict) call" where
  "compile_authorization io None = spure []"
| "compile_authorization io (Some NoAuth) = spure []"
| "compile_authorization io (Some (Basic u p)) =
     sbind (resolve_leaf io u) (\<lambda>username.
     sbind (resolve_leaf io p) (\<lambda>password.
     sbind (require_leaf username ''username'' ''basic'') (\<lambda>_.
       spure [(''Authorization'', ''Basic '' @ base64_encode (utf8_bytes (username @ '':'' @ password)))])))"
| "compile_authorization io (Some (Bearer n)) =
     sbind (resolve_leaf io n) (\<lambda>t.
     sbind (require_leaf t ''token'' ''bearer'') (\<lambda>_. spure (token_header t)))"
| "compile_authorization io (Some (ApiKey u k ep)) =
     sbind (resolve_leaf io u) (\<lambda>username.
     sbind (resolve_leaf io k) (\<lambda>api_key.
     sbind (resolve_leaf io ep) (\<lambda>endpoint.
     sbind (require_leaf username ''username'' ''apiKey'') (\<lambda>_.
     sbind (require_leaf api_key ''apiKey'' ''apiKey'') (\<lambda>_.
     sbind (require_leaf endpoint ''authEndpoint'' ''apiKey'') (\<lambda>_.
       exchange_token io (post_call endpoint
           (Some (JObj [(''username'', JStr username), (''apiKey'', JStr api_key)])) None)
         ''apiKey auth handshake'' ''apiKey auth handshake''))))))"
| "compile_authorization io (Some (OAuth2 u i s)) =
     sbind (resolve_leaf io u) (\<lambda>url.
     sbind (resolve_leaf io i) (\<lambda>client_id.
     sbind (resolve_leaf io s) (\<lambda>client_secret.
     sbind (require_leaf url ''tokenUrl'' ''oauth2'') (\<lambda>_.
     sbind (require_leaf client_id ''clientId'' ''oauth2'') (\<lambda>_.
       exchange_token io (post_call url None
           (Some (JObj [(''grant_type'', JStr ''client_credentials''), (''client_id'', JStr client_id),
              (''client_secret'', JStr client_secret)])))
         ''oauth2 token request'' ''oauth2 token'')))))"

section \<open>The request\<close>

text \<open>The JSON of a dictionary of values, and None for an empty one.\<close>

definition reified_fields :: "pyval dict \<Rightarrow> ('w env, json dict) call" where
  "reified_fields d = smap (\<lambda>(k, v). sbind (reified v) (\<lambda>j. spure (k, j))) d"

definition request_timeout :: "http_request \<Rightarrow> rat" where
  "request_timeout rq = (case rq_timeout rq of None \<Rightarrow> 30 | Some q \<Rightarrow> if q = 0 then 30 else q)"

definition has_content_type :: "string dict \<Rightarrow> bool" where
  "has_content_type headers \<longleftrightarrow> (\<exists>kv \<in> set headers. py_lower (py_strip (fst kv)) = ''content-type'')"

text \<open>What \<open>_request_kwargs\<close> makes of the body of \<open>writeApi\<close>: the call with its body and headers.\<close>

definition add_body :: "http_request \<Rightarrow> json option \<Rightarrow> http_call \<Rightarrow> http_call" where
  "add_body rq body c =
     (if rq_body_type rq = ''json'' then c\<lparr>hc_json := body\<rparr>
      else if rq_body_type rq = ''formUrlEncoded'' then
        c\<lparr>hc_data := body,
          hc_headers := (if has_content_type (hc_headers c) then hc_headers c
            else dict_set ''Content-Type'' ''application/x-www-form-urlencoded'' (hc_headers c))\<rparr>
      else (case body of
              None \<Rightarrow> c
            | Some (JStr s) \<Rightarrow> c\<lparr>hc_data := Some (JStr s)\<rparr>
            | Some j \<Rightarrow> c\<lparr>hc_data := Some (JStr (json_dumps j))\<rparr>))"

definition request_call ::
  "'w services \<Rightarrow> http_request \<Rightarrow> http_tree option \<Rightarrow> ('w env, http_call) call" where
  "request_call io rq body =
     sbind (resolve_path_params_and_url io (py_strip (rq_url rq)) (rq_path rq)) (\<lambda>url.
     sbind (resolve_http_headers io (rq_headers rq)) (\<lambda>headers.
     sbind (compile_authorization io (rq_auth rq)) (\<lambda>auth.
     sbind (sbind (resolve_http_kv_params io (rq_query rq)) reified_fields) (\<lambda>params.
       let c = \<lparr>hc_method = py_upper (rq_method rq), hc_url = url,
                hc_params = (if params = [] then None else Some (JObj params)),
                hc_headers = dict_update headers auth, hc_timeout = request_timeout rq,
                hc_json = None, hc_data = None\<rparr>
       in case body of
            None \<Rightarrow> spure c
          | Some t \<Rightarrow>
              sbind (resolve_http_body io t (rq_body_type rq)) (\<lambda>v.
              sbind (reified v) (\<lambda>j. spure (add_body rq (if j = JNull then None else Some j) c)))))))"

section \<open>The response\<close>

definition parse_response_body :: "http_response \<Rightarrow> json" where
  "parse_response_body r =
     (if hr_empty r then JNull
      else (case hr_json r of Some j \<Rightarrow> j | None \<Rightarrow> JStr (hr_text r)))"

definition response_envelope :: "http_request \<Rightarrow> http_call \<Rightarrow> http_response \<Rightarrow> json dict" where
  "response_envelope rq c r =
     [(''method'', JStr (py_upper (rq_method rq))), (''url'', JStr (or_text (hr_url r) (py_strip (hc_url c)))),
      (''status'', JInt (hr_status r)), (''headers'', JObj (map (\<lambda>(k, v). (k, JStr v)) (hr_headers r))),
      (''body'', parse_response_body r), (''elapsed_ms'', JInt (hr_elapsed r)), (''ok'', JBool (hr_ok r))]"

definition status_message :: "http_request \<Rightarrow> http_call \<Rightarrow> http_response \<Rightarrow> string" where
  "status_message rq c r =
     ''HTTP '' @ py_upper (rq_method rq) @ '' '' @ or_text (hr_url r) (py_strip (hc_url c)) @
     '' returned status '' @ int_text (hr_status r) @ ''.''"

text \<open>
  \<open>{"message": message, **envelope}\<close>: the envelope is one object, seen through the constant it is
  written to; the result is a new object with its fields.
\<close>

definition fields_view :: "heap \<Rightarrow> pyval \<Rightarrow> (string \<times> view) list" where
  "fields_view h v = (case dict_at h v of None \<Rightarrow> [] | Some d \<Rightarrow> map (\<lambda>(k, w). (k, Val w)) d)"

definition execute_http ::
  "'w services \<Rightarrow> string \<Rightarrow> http_request \<Rightarrow> http_tree option \<Rightarrow> pyval \<Rightarrow> 'w command_call" where
  "execute_http io operation_id rq body data =
     sbind (request_call io rq body) (\<lambda>c.
     if py_strip (hc_url c) = [] then sraise (ValueError ''url must resolve to a non-empty string.'')
     else
       let called = ''HTTP '' @ rq_method rq @ '' '' @ py_strip (hc_url c);
           fails = (\<lambda>m. sbind (logs operation_id m (Val VNone) ''ERROR'') (\<lambda>_. sraise (ValueError m)))
       in sbind (with_world (io_request io c)) (\<lambda>out.
          case out of
            TimedOut _ \<Rightarrow> fails (called @ '' timed out after '' @ io_float_text io (hc_timeout c) @ ''s.'')
          | RequestFailed m \<Rightarrow> fails (called @ '' failed: '' @ m)
          | Responded r \<Rightarrow>
              sbind (builds (embed (JObj (response_envelope rq c r)))) (\<lambda>envelope.
              sbind (write_result_constant io (rq_result rq) envelope) (\<lambda>_.
                let m = status_message rq c r in
                if hr_ok r then
                  sbind (logs operation_id m (Val envelope) ''INFO'') (\<lambda>_.
                  sbind (reads (\<lambda>h. fields_view h envelope)) (\<lambda>fs.
                    spure (data, [Fields ((''message'', text_view m) # fs)])))
                else sbind (logs operation_id m (Val envelope) ''ERROR'') (\<lambda>_. sraise (ValueError m))))))"

end
