(* ===== verification/MessageTemplates.thy ===== *)
theory MessageTemplates
  imports Services
begin

text \<open>
  The payloads of a message (\<open>operations/send_message_template_service.py\<close>): the rows that a path
  with \<open>[*]\<close> selects in the input, each flattened into dotted names, and the template's fields and
  constants filled from a row.

  The input is its JSON value: every payload is copied by \<open>make_json_safe\<close> before it is used.
\<close>

section \<open>Paths\<close>

definition normalize_template_path :: "string \<Rightarrow> string list" where
  "normalize_template_path value =
     (let raw = py_strip value in
      if raw = [] \<or> raw = ''$'' then []
      else (let rest = (if starts_with ''$.'' raw then drop 2 raw
                        else if starts_with ''$'' raw then drop 1 raw else raw)
            in filter (\<lambda>s. s \<noteq> []) (split_on (CHR ''.'') (strip_char (CHR ''.'') rest))))"

definition segment_parts :: "string \<Rightarrow> string \<times> bool" where
  "segment_parts segment =
     (let s = py_strip segment in
      if ends_with ''[*]'' s then (take (length s - 3) s, True) else (s, False))"

definition child_path :: "string \<Rightarrow> string \<Rightarrow> string" where
  "child_path pre name = (if pre = [] then name else pre @ ''.'' @ name)"

section \<open>Flattening\<close>

fun flatten_template_value :: "json \<Rightarrow> string \<Rightarrow> json dict"
  and flatten_fields :: "(string \<times> json) list \<Rightarrow> string \<Rightarrow> json dict \<Rightarrow> json dict" where
  "flatten_template_value (JObj d) pre =
     flatten_fields d pre (if pre = [] then [] else [(pre, JObj d)])"
| "flatten_template_value v pre = (if pre = [] then [] else [(pre, v)])"
| "flatten_fields [] pre row = row"
| "flatten_fields ((rk, child) # d) pre row =
     (let key = py_strip rk in
      if key = [] then flatten_fields d pre row
      else flatten_fields d pre (dict_update row (flatten_template_value child (child_path pre key))))"

section \<open>Rows\<close>

fun append_match :: "json \<Rightarrow> json dict \<Rightarrow> json dict list" where
  "append_match (JList xs) ancestors = concat (map (\<lambda>x. append_match x ancestors) xs)"
| "append_match (JObj d) ancestors = [dict_update ancestors (flatten_template_value (JObj d) [])]"
| "append_match v ancestors = [dict_set ''value'' v ancestors]"

fun template_walk :: "string list \<Rightarrow> json \<Rightarrow> json dict \<Rightarrow> string \<Rightarrow> json dict list" where
  "template_walk [] current ancestors pre = append_match current ancestors"
| "template_walk (s # ss) current ancestors pre =
     (let (name, is_array) = segment_parts s; next_pre = child_path pre name;
          capture = (\<lambda>v. if ss = [] then ancestors
                         else dict_update ancestors (flatten_template_value v next_pre))
      in case current of
           JObj d \<Rightarrow>
             (case dict_get d name of
                None \<Rightarrow> []
              | Some v \<Rightarrow>
                  (if is_array then
                     (case v of
                        JList xs \<Rightarrow> concat (map (\<lambda>x. template_walk ss x (capture x) next_pre) xs)
                      | _ \<Rightarrow> [])
                   else template_walk ss v (capture v) next_pre))
         | _ \<Rightarrow> [])"

definition extract_template_matches :: "json \<Rightarrow> string \<Rightarrow> json dict list" where
  "extract_template_matches whole for_each = template_walk (normalize_template_path for_each) whole [] []"

definition preview_send_message_template_rows :: "json \<Rightarrow> string \<Rightarrow> string \<Rightarrow> json dict list" where
  "preview_send_message_template_rows input_data source_type for_each =
     (let st = py_strip source_type in
      if st = ''dataset'' then
        (case input_data of
           JList xs \<Rightarrow> filter (\<lambda>row. row \<noteq> []) (map (\<lambda>x. flatten_template_value x []) xs)
         | JObj d \<Rightarrow> [flatten_template_value (JObj d) []]
         | _ \<Rightarrow> [])
      else if st = ''jsonArray'' \<or> is_list input_data then
        (case input_data of
           JList xs \<Rightarrow> concat (map (\<lambda>x. extract_template_matches x for_each) xs)
         | _ \<Rightarrow> [])
      else extract_template_matches input_data for_each)"

section \<open>Constants\<close>

definition number_constant :: "'w services \<Rightarrow> json \<Rightarrow> json result" where
  "number_constant io v =
     (if json_num v \<noteq> None then Inr v
      else (let s = token v in
        if CHR ''.'' \<in> set s then
          (case float_of (io_parsers io) s of
             None \<Rightarrow> Inl (ValueError (''could not convert string to float: '' @ str_repr s))
           | Some (q, r) \<Rightarrow> Inr (JFloat q r))
        else rbind (int_of_text s) (\<lambda>i. Inr (JInt i))))"

definition evaluate_template_constant :: "'w services \<Rightarrow> template_constant \<Rightarrow> ('w env, json) call" where
  "evaluate_template_constant io c =
     (let kind = py_lower (py_strip (tc_kind c)); v = tc_value c in
      if kind = ''number'' then slift (number_constant io v)
      else if kind = ''boolean'' then
        spure (case v of
            JBool b \<Rightarrow> v
          | _ \<Rightarrow> JBool (py_lower (token v) \<in> set [''true'', ''1'', ''yes'', ''y'', ''on'']))
      else if kind = ''variable'' then
        sbind (with_py (resolve_in_context (JStr (token v)))) reified
      else if kind = ''function'' then
        (\<lambda>e. (Inr (JStr (if py_lower (token v) = ''today'' then io_today io (en_world e)
                         else io_utc_now io (en_world e))), e))
      else spure v)"

definition template_fields :: "string list \<Rightarrow> json dict \<Rightarrow> json dict" where
  "template_fields fs row =
     foldl (\<lambda>payload f. let key = py_strip f in
        case dict_get row key of
          Some v \<Rightarrow> if key = [] then payload else dict_set key v payload
        | None \<Rightarrow> payload) [] fs"

fun template_constants :: "'w services \<Rightarrow> template_constant list \<Rightarrow> json dict \<Rightarrow> ('w env, json dict) call" where
  "template_constants io [] payload = spure payload"
| "template_constants io (c # cs) payload =
     sbind (evaluate_template_constant io c) (\<lambda>v.
       template_constants io cs (dict_set (py_strip (tc_name c)) v payload))"

fun template_payloads :: "'w services \<Rightarrow> message_template \<Rightarrow> json dict list \<Rightarrow> ('w env, json list) call" where
  "template_payloads io t [] = spure []"
| "template_payloads io t (row # rows) =
     sbind (template_constants io (mt_constants t) (template_fields (mt_fields t) row)) (\<lambda>payload.
     sbind (template_payloads io t rows) (\<lambda>payloads. spure (JObj payload # payloads)))"

definition build_send_message_payloads ::
  "'w services \<Rightarrow> json \<Rightarrow> string \<Rightarrow> message_template option \<Rightarrow> ('w env, json list) call" where
  "build_send_message_payloads io input_data source_type template =
     (case template of
        None \<Rightarrow> spure (case input_data of JList xs \<Rightarrow> xs | v \<Rightarrow> [v])
      | Some t \<Rightarrow> template_payloads io t
          (preview_send_message_template_rows input_data source_type (text_of (mt_for_each t))))"

end
