(* ===== verification/Executors.thy ===== *)
theory Executors
  imports HttpCommands MessageTemplates
begin

text \<open>
  The executors of the commands (\<open>app/elaborations/services/operations/\<close>, one class per command) and
  the choice between them (\<open>execute_operation\<close> of \<open>operations/command_executor_composite.py\<close>).

  The values of a configuration are built anew for every command; the code hands out the objects of
  the loaded row.
\<close>

text \<open>The result of a command, of which all executors make a list of one object.\<close>

definition message_result :: "pyval \<Rightarrow> string \<Rightarrow> (string \<times> view) list \<Rightarrow> 'w command_call" where
  "message_result data m fs = spure (data, [Fields ((''message'', text_view m) # fs)])"

definition logs_info :: "string \<Rightarrow> string \<Rightarrow> ('w env, unit) call" where
  "logs_info operation_id m = logs operation_id m (Val VNone) ''INFO''"

section \<open>Constants\<close>

definition load_value :: "'w services \<Rightarrow> set_variable \<Rightarrow> ('w env, pyval) call" where
  "load_value io c =
     (if sv_value_type c = ''value'' \<or> sv_value_type c = ''json'' then builds (embed (sv_value c))
      else if sv_value_type c = ''function'' then
        (if sv_function c = Some ''today'' then asks (\<lambda>w. VStr (io_today io w))
         else asks (\<lambda>w. VStr (io_utc_now io w)))
      else sraise (ValueError (''Unsupported valueType '' @ quoted (sv_value_type c) @ '' for setVariable.'')))"

definition execute_set_variable ::
  "'w services \<Rightarrow> string \<Rightarrow> set_variable \<Rightarrow> pyval \<Rightarrow> 'w command_call" where
  "execute_set_variable io operation_id c data =
     sbind (load_value io c) (\<lambda>v.
     sbind (with_py (write_context_path (''$.'' @ sv_context c @ ''.constants.'' @ sv_name c) v)) (\<lambda>_.
       let m = ''Initialized constant '' @ quoted (sv_name c) @ '' in context '' @ quoted (sv_context c) @ ''.'' in
       sbind (logs operation_id m
           (Fields [(''name'', text_view (sv_name c)), (''context'', text_view (sv_context c)),
              (''value_type'', text_view (sv_value_type c))]) ''INFO'') (\<lambda>_.
         message_result v m [(''name'', text_view (sv_name c)), (''context'', text_view (sv_context c)),
           (''valueType'', text_view (sv_value_type c))])))"

definition execute_delete_variable :: "'w services \<Rightarrow> string \<Rightarrow> string \<Rightarrow> pyval \<Rightarrow> 'w command_call" where
  "execute_delete_variable io operation_id i data =
     sbind (resolve_definition_path io i) (\<lambda>(d, path).
     sbind (with_py (remove_context_path path)) (\<lambda>_.
       let m = ''Deleted constant '' @ quoted (df_name d) @ '' from context '' @ quoted (df_scope d) @ ''.'' in
       sbind (logs_info operation_id m) (\<lambda>_.
         message_result data m [(''name'', text_view (df_name d)), (''context'', text_view (df_scope d))])))"

definition execute_sleep :: "'w services \<Rightarrow> string \<Rightarrow> int \<Rightarrow> pyval \<Rightarrow> 'w command_call" where
  "execute_sleep io operation_id duration data =
     sbind (with_world (io_sleep io duration)) (\<lambda>_.
       let m = ''Slept for '' @ int_text duration @ '' second(s).'' in
       sbind (logs_info operation_id m) (\<lambda>_. message_result data m []))"

section \<open>Queues\<close>

definition find_queue :: "'w services \<Rightarrow> string \<Rightarrow> ('w, queue_row) call" where
  "find_queue io i w =
     (case io_queue io w i of
        None \<Rightarrow> (Inl (ValueError (''Queue '' @ quoted i @ '' not found'')), w)
      | Some q \<Rightarrow> (Inr q, w))"

definition execute_send_message ::
  "'w services \<Rightarrow> string \<Rightarrow> send_message \<Rightarrow> pyval \<Rightarrow> 'w command_call" where
  "execute_send_message io operation_id c data =
     sbind (with_world (find_queue io (sm_queue c))) (\<lambda>q.
     sbind (with_world (load_broker_connection io (qu_broker q))) (\<lambda>connection.
     sbind (resolve_input_reference io (Some (sm_input c)) data) (\<lambda>(input, input_type).
     sbind (reified input) (\<lambda>j.
     sbind (build_send_message_payloads io j input_type (sm_template c)) (\<lambda>payload.
     sbind (with_world (io_publish io connection (sm_queue c) payload)) (\<lambda>_.
     sbind (builds (embed (JObj [(''queue_id'', JStr (sm_queue c)), (''queue_code'', JStr (qu_code q)),
         (''published'', JInt (int (length payload))), (''renderedPayloads'', JList payload)]))) (\<lambda>result.
     sbind (write_result_constant io (sm_result c) result) (\<lambda>_.
       let m = ''Published '' @ nat_text (length payload) @ '' message(s) to queue '' @ quoted (qu_code q) in
       sbind (logs_info operation_id m) (\<lambda>_. message_result input m [])))))))))"

text \<open>
  The loop of \<open>receiveQueue\<close>: it polls for what is missing, and an empty poll is followed by a pause
  as long as retries remain.
\<close>

function receive_loop ::
  "'w services \<Rightarrow> json \<Rightarrow> receive_queue \<Rightarrow> nat \<Rightarrow> json list \<Rightarrow> ('w, json list) call" where
  "receive_loop io connection c retries collected w =
     (if rv_max_messages c \<le> int (length collected) then (Inr collected, w)
      else (case io_receive io connection (rv_queue c) (rv_max_messages c - int (length collected)) w of
              (Inl e, w1) \<Rightarrow> (Inl e, w1)
            | (Inr messages, w1) \<Rightarrow>
                (if messages \<noteq> [] then receive_loop io connection c retries (collected @ messages) w1
                 else if retries = 0 then (Inr collected, w1)
                 else (case io_sleep io (rv_wait c) w1 of
                         (Inl e, w2) \<Rightarrow> (Inl e, w2)
                       | (Inr _, w2) \<Rightarrow> receive_loop io connection c (retries - 1) collected w2))))"
  by pat_completeness auto
termination
proof (relation "measure (\<lambda>(io, connection, c, retries, collected, w).
    retries + nat (rv_max_messages c - int (length collected)))", goal_cases)
  case (2 io connection c retries collected w x w1 messages)
  then show ?case by (cases messages) auto
qed auto

declare receive_loop.simps [simp del]

definition message_body :: "'w services \<Rightarrow> nat \<times> json \<Rightarrow> json result" where
  "message_body io im =
     (case snd im of
        JObj d \<Rightarrow>
          (case (case dict_get d ''Body'' of Some b \<Rightarrow> b | None \<Rightarrow> JObj d) of
             JStr s \<Rightarrow>
               map_error (\<lambda>e. ValueError (''Invalid body in message '' @ nat_text (Suc (fst im)) @ '': '' @ error_text e))
                 (io_json_loads io s)
           | b \<Rightarrow> Inr b)
      | _ \<Rightarrow> Inl (ValueError (''Message '' @ nat_text (Suc (fst im)) @ '' is not valid JSON.'')))"

definition write_target :: "string option \<Rightarrow> pyval \<Rightarrow> ('w env, unit) call" where
  "write_target target v =
     (if text_of target = [] then spure () else with_py (write_context_path (text_of target) v))"

definition execute_receive_queue ::
  "'w services \<Rightarrow> string \<Rightarrow> receive_queue \<Rightarrow> pyval \<Rightarrow> 'w command_call" where
  "execute_receive_queue io operation_id c data =
     sbind (with_world (find_queue io (rv_queue c))) (\<lambda>q.
     sbind (with_world (load_broker_connection io (qu_broker q))) (\<lambda>connection.
     sbind (with_world (receive_loop io connection c (nat (max (rv_retry c) 0)) [])) (\<lambda>messages.
     sbind (slift (mapM (message_body io) (enumerate 0 messages))) (\<lambda>rows.
     sbind (builds (embed (JList rows))) (\<lambda>v.
     sbind (write_target (rv_target c) v) (\<lambda>_.
       let m = ''Loaded '' @ nat_text (length rows) @ '' row(s) from queue '' @ quoted (qu_code q) @ ''.'' in
       sbind (logs_info operation_id m) (\<lambda>_. message_result v m [])))))))"

section \<open>Databases\<close>

definition execute_query_database ::
  "'w services \<Rightarrow> string \<Rightarrow> string \<Rightarrow> string \<Rightarrow> string option \<Rightarrow> 'w command_call" where
  "execute_query_database io operation_id connection_id query target =
     sbind (with_world (load_database_connection io connection_id)) (\<lambda>cfg.
     sbind (with_world (with_connection io (ConnectionEngine cfg) (\<lambda>conn. io_sql io conn query []))) (\<lambda>rows.
     sbind (builds (embed (JList (map JObj rows)))) (\<lambda>v.
     sbind (write_target target v) (\<lambda>_.
       let m = ''Query on connection '' @ quoted connection_id @ '' returned '' @ nat_text (length rows) @ '' row(s).'' in
       sbind (logs_info operation_id m) (\<lambda>_. message_result v m [])))))"

text \<open>The internal tables.\<close>

definition execute_save_table ::
  "'w services \<Rightarrow> string \<Rightarrow> string \<Rightarrow> input_ref \<Rightarrow> result_constant option \<Rightarrow> pyval \<Rightarrow> 'w command_call" where
  "execute_save_table io operation_id table_name ref result data =
     sbind (resolve_input_reference io (Some ref) data) (\<lambda>(input, _).
     sbind (reified input) (\<lambda>j.
       let rows = coerce_rows j in
       if rows = [] then
         (let m = ''No data to insert into '' @ table_name @ '' table'' in
          sbind (logs_info operation_id m) (\<lambda>_. message_result input m []))
       else
         sbind (with_world (ensure_table_exists io InternalEngine table_name (sample_row rows))) (\<lambda>t.
         sbind (with_world (insert_rows io InternalEngine t rows)) (\<lambda>_.
         sbind (builds (embed (JObj [(''table_name'', JStr table_name), (''inserted_rows'', JInt (int (length rows)))])))
           (\<lambda>payload.
         sbind (write_result_constant io result payload) (\<lambda>_.
           let m = ''Created '' @ nat_text (length rows) @ '' rows in '' @ table_name @ '' table'' in
           sbind (logs_info operation_id m) (\<lambda>_. message_result input m [])))))))"

definition execute_drop_table :: "'w services \<Rightarrow> string \<Rightarrow> string \<Rightarrow> pyval \<Rightarrow> 'w command_call" where
  "execute_drop_table io operation_id table_name data =
     sbind (with_world (drop_table io InternalEngine table_name)) (\<lambda>_.
       let m = ''Dropped internal table '' @ quoted table_name @ ''.'' in
       sbind (logs_info operation_id m) (\<lambda>_. message_result data m [(''table_name'', text_view table_name)]))"

definition execute_clean_table :: "'w services \<Rightarrow> string \<Rightarrow> string \<Rightarrow> pyval \<Rightarrow> 'w command_call" where
  "execute_clean_table io operation_id table_name data =
     sbind (with_world (clean_table io InternalEngine table_name)) (\<lambda>_.
       let m = ''Cleaned internal table '' @ quoted table_name @ ''.'' in
       sbind (logs_info operation_id m) (\<lambda>_. message_result data m [(''table_name'', text_view table_name)]))"

text \<open>The tables of datasets.\<close>

definition execute_clean_dataset :: "'w services \<Rightarrow> string \<Rightarrow> string \<Rightarrow> pyval \<Rightarrow> 'w command_call" where
  "execute_clean_dataset io operation_id dataset_id data =
     sbind (with_world (get_dataset_for_runtime io dataset_id)) (\<lambda>cfg.
     sbind (with_world (load_database_connection io (token (jget cfg ''connection_id'')))) (\<lambda>connection.
     sbind (with_world (clean_table io (ConnectionEngine connection) (qualified_table_name cfg))) (\<lambda>_.
       let m = ''Cleaned dataset '' @ quoted dataset_id @ '' table '' @ quoted (qualified_table_name cfg) @ ''.'' in
       sbind (logs_info operation_id m) (\<lambda>_. message_result data m [(''dataset_id'', text_view dataset_id)]))))"

definition execute_drop_dataset :: "'w services \<Rightarrow> string \<Rightarrow> string \<Rightarrow> pyval \<Rightarrow> 'w command_call" where
  "execute_drop_dataset io operation_id dataset_id data =
     sbind (with_world (get_dataset_for_runtime io dataset_id)) (\<lambda>cfg.
     sbind (with_world (load_database_connection io (token (jget cfg ''connection_id'')))) (\<lambda>connection.
     sbind (with_world (drop_table io (ConnectionEngine connection) (qualified_table_name cfg))) (\<lambda>_.
     sbind (with_world (io_delete_dataset io dataset_id)) (\<lambda>_.
       let m = ''Dropped dataset '' @ quoted dataset_id @ '' and table '' @ quoted (qualified_table_name cfg) @ ''.'' in
       sbind (logs_info operation_id m) (\<lambda>_. message_result data m [(''dataset_id'', text_view dataset_id)])))))"

text \<open>\<open>exportDataset\<close>. In the mode insert-update the rows with the keys of a new row are deleted first.\<close>

definition delete_matching :: "'w services \<Rightarrow> nat \<Rightarrow> string \<Rightarrow> string list \<Rightarrow> json dict \<Rightarrow> ('w, unit) call" where
  "delete_matching io conn table_name keys row =
     sbind (io_sql io conn
       (''DELETE FROM '' @ table_name @ '' WHERE '' @
          join_with '' AND '' (map (\<lambda>(i, k). k @ '' = :k'' @ nat_text i) (enumerate 0 keys)))
       (map (\<lambda>(i, k). (CHR ''k'' # nat_text i, jget row k)) (enumerate 0 keys)))
     (\<lambda>_. spure ())"

definition store_rows ::
  "'w services \<Rightarrow> engine \<Rightarrow> string \<Rightarrow> string \<Rightarrow> string list \<Rightarrow> json dict list \<Rightarrow> ('w, unit) call" where
  "store_rows io eng table_name mode keys rows =
     sbind (if mode = ''drop-create'' then drop_table io eng table_name else spure ()) (\<lambda>_.
     sbind (ensure_table_exists io eng table_name (sample_row rows)) (\<lambda>t.
       if mode = ''insert-update'' \<and> keys \<noteq> [] then
         with_transaction io eng (\<lambda>conn.
           sbind (smap (delete_matching io conn table_name keys) rows) (\<lambda>_. insert_rows io eng t rows))
       else
         sbind (if mode = ''drop-create'' then ensure_table_exists io eng table_name (sample_row rows) else spure t)
           (\<lambda>t'. insert_rows io eng t' rows)))"

definition exported_dataset :: "json \<Rightarrow> string \<Rightarrow> string \<Rightarrow> json" where
  "exported_dataset connection connection_id table_name =
     (let dotted_name = CHR ''.'' \<in> set table_name;
          schema = (if dotted_name then takeWhile (\<lambda>c. c \<noteq> CHR ''.'') table_name
                    else str_or_empty (jget (fields_of connection) ''db_schema''));
          table = (if dotted_name then drop 1 (dropWhile (\<lambda>c. c \<noteq> CHR ''.'') table_name) else table_name)
      in JObj ([(''connection_id'', JStr connection_id), (''object_name'', JStr table),
            (''object_type'', JStr ''table'')] @ (if schema = [] then [] else [(''schema'', JStr schema)])))"

definition save_exported_dataset :: "'w services \<Rightarrow> export_dataset \<Rightarrow> string \<Rightarrow> json \<Rightarrow> ('w, string) call" where
  "save_exported_dataset io c table_name payload =
     (let description = or_text (text_of (ed_description c)) table_name; i = text_of (ed_dataset c) in
      if i = [] then io_insert_dataset io description payload
      else sbind (io_update_dataset io i description payload) (\<lambda>_. spure i))"

definition load_export_connection :: "'w services \<Rightarrow> string \<Rightarrow> ('w, json) call" where
  "load_export_connection io i w =
     (case io_json_payload io w i of
        None \<Rightarrow> (Inl (ValueError (''Database connection '' @ quoted i @ '' not found'')), w)
      | Some p \<Rightarrow> (convert_database_connection_config io p, w))"

definition execute_export_dataset ::
  "'w services \<Rightarrow> string \<Rightarrow> export_dataset \<Rightarrow> pyval \<Rightarrow> 'w command_call" where
  "execute_export_dataset io operation_id c data =
     (let connection_id = py_strip (text_of (ed_connection c)); table_name = py_strip (text_of (ed_table c)) in
      sbind (resolve_input_reference io (Some (ed_input c)) data) (\<lambda>(input, _).
      sbind (reified input) (\<lambda>j.
      let rows = coerce_rows j in
      if connection_id = [] then sraise (ValueError ''exportDataset requires connection_id.'')
      else if table_name = [] then sraise (ValueError ''exportDataset requires table_name.'')
      else
      sbind (with_world (load_export_connection io connection_id)) (\<lambda>connection.
      if rows = [] then
        (let m = ''No data to insert into '' @ table_name @ '' table'' in
         sbind (logs_info operation_id m) (\<lambda>_. message_result input m []))
      else
      sbind (with_world (store_rows io (ConnectionEngine connection) table_name (ed_mode c)
          (case ed_keys c of None \<Rightarrow> [] | Some ks \<Rightarrow> ks) rows)) (\<lambda>_.
      sbind (with_world (save_exported_dataset io c table_name (exported_dataset connection connection_id table_name)))
        (\<lambda>dataset_id.
      sbind (builds (embed (JObj [(''table_name'', JStr table_name), (''inserted_rows'', JInt (int (length rows))),
          (''connection_id'', JStr connection_id), (''dataset_id'', JStr dataset_id), (''mode'', JStr (ed_mode c))])))
        (\<lambda>payload.
      sbind (write_result_constant io (ed_result c) payload) (\<lambda>_.
        let m = ''Created '' @ nat_text (length rows) @ '' rows in '' @ table_name @ '' table'' in
        sbind (logs_info operation_id m) (\<lambda>_. message_result input m [])))))))))"

section \<open>Suites\<close>

text \<open>The constants handed to a suite: an unresolved path is handed over as its text.\<close>

definition suite_constant ::
  "'w services \<Rightarrow> pyval dict \<Rightarrow> string \<Rightarrow> ('w env, pyval dict) call" where
  "suite_constant io acc i =
     sbind (resolve_definition_path io i) (\<lambda>(d, path).
     sbind (resolve_path path) (\<lambda>v.
       spure (if v = VNone then acc else dict_set (df_name d) v acc)))"

definition context_event :: "('w env, pyval) call" where
  "context_event e =
     (case current_context (en_py e) of
        None \<Rightarrow> (Inr VNone, e)
      | Some rc \<Rightarrow> (Inr (field_at (objects (en_py e)) (VRef (run_envelope rc)) ''event''), e))"

definition context_invocation :: "('w env, string option) call" where
  "context_invocation e =
     (Inr (case current_context (en_py e) of None \<Rightarrow> None | Some rc \<Rightarrow> invocation_id rc), e)"

definition execute_run_suite ::
  "'w services \<Rightarrow> string \<Rightarrow> string \<Rightarrow> string list \<Rightarrow> result_constant option \<Rightarrow> pyval \<Rightarrow> 'w command_call" where
  "execute_run_suite io operation_id raw_suite refs result data =
     (let suite_id = py_strip raw_suite in
      sbind (sfold (suite_constant io) [] refs) (\<lambda>constants.
      sbind (builds (\<lambda>h. let (a, h') = halloc (ODict constants) h in (VRef a, h'))) (\<lambda>cs.
      sbind (reified_fields constants) (\<lambda>vars.
      sbind (sbind context_event reified) (\<lambda>event.
      sbind context_invocation (\<lambda>invocation.
      sbind (with_world (io_start_suite io suite_id (if is_obj event then event else JObj []) vars invocation))
        (\<lambda>execution_id.
        let m = ''Test suite '' @ quoted suite_id @ '' started with execution_id '' @ quoted execution_id;
            fs = [(''suite_id'', text_view suite_id), (''execution_id'', text_view execution_id),
              (''constants'', Val cs)] in
        sbind (logs operation_id m (Fields (fs @ [(''invocation_id'', optional_view invocation)])) ''INFO'') (\<lambda>_.
        sbind (if result = None then spure ()
               else sbind (builds (build_view (Fields fs))) (write_result_constant io result)) (\<lambda>_.
          message_result data m fs)))))))))"

section \<open>Assertions\<close>

text \<open>
  The JSON values an assertion looks at; a cyclic value ends the comparison with an exception, which
  is caught like any other.
\<close>

definition judge :: "'w services \<Rightarrow> assertion \<Rightarrow> pyval \<Rightarrow> pyval \<Rightarrow> pyval \<Rightarrow> heap \<Rightarrow> unit result" where
  "judge io c actual expected data h =
     rbind (json_of h actual) (\<lambda>a. rbind (json_of h expected) (\<lambda>x.
     rbind (if list_at h actual \<noteq> None then Inr a else json_of h data) (\<lambda>d.
       evaluate_assert (io_schema io) c d a x)))"

definition resolve_expected :: "'w services \<Rightarrow> assertion \<Rightarrow> pyval \<Rightarrow> ('w env, pyval) call" where
  "resolve_expected io c data =
     sbind (if as_expected c = JNull then spure VNone else with_py (resolve_in_context (as_expected c))) (\<lambda>v.
       if v = VNone \<and> as_expected_ref c \<noteq> None
       then sbind (resolve_input_reference io (as_expected_ref c) data) (\<lambda>(x, _). spure x)
       else spure v)"

definition append_artifact :: "(string \<times> view) list \<Rightarrow> ('w env, unit) call" where
  "append_artifact fs = sbind (builds (build_view (Fields fs))) (\<lambda>v. with_py (append_assert_artifact v))"

definition execute_assert :: "'w services \<Rightarrow> string \<Rightarrow> assertion \<Rightarrow> pyval \<Rightarrow> 'w command_call" where
  "execute_assert io operation_id c data =
     sbind (resolve_input_reference io (Some (as_actual c)) data) (\<lambda>(actual, _).
     sbind (resolve_expected io c data) (\<lambda>expected.
     sbind (reads (judge io c actual expected data)) (\<lambda>verdict.
     sbind (slift (assert_type c)) (\<lambda>t.
       let artifact = (\<lambda>status. [(''command_id'', text_view operation_id), (''assert_type'', text_view t),
             (''status'', text_view status), (''actual'', Val actual), (''expected'', Val expected)])
       in case verdict of
            Inr _ \<Rightarrow>
              sbind (append_artifact (artifact ''passed'')) (\<lambda>_.
              let m = ''Assert '' @ quoted (as_code c) @ '' passed for '' @ quoted (as_object_type c) @ '' data.'' in
              sbind (logs_info operation_id m) (\<lambda>_. message_result data m []))
          | Inl e \<Rightarrow>
              sbind (append_artifact (artifact ''failed'' @ [(''error'', text_view (error_text e))])) (\<lambda>_.
              let m = failure_message c (error_text e) in
              sbind (logs operation_id m (Fields [(''error'', text_view (error_text e))]) ''ERROR'') (\<lambda>_.
                sraise (ValueError m)))))))"

section \<open>\<open>execute_operation\<close>\<close>

definition execute_operation :: "'w services \<Rightarrow> 'w executor" where
  "execute_operation io operation_id cmd data =
     (case cmd of
        SetVariable c \<Rightarrow> execute_set_variable io operation_id c data
      | DeleteVariable i \<Rightarrow> execute_delete_variable io operation_id i data
      | Sleep n \<Rightarrow> execute_sleep io operation_id n data
      | ReadApi rq \<Rightarrow> execute_http io operation_id rq None data
      | WriteApi rq body \<Rightarrow> execute_http io operation_id rq (Some body) data
      | SendMessageQueue c \<Rightarrow> execute_send_message io operation_id c data
      | SaveTable t ref rc \<Rightarrow> execute_save_table io operation_id t ref rc data
      | DropTable t \<Rightarrow> execute_drop_table io operation_id t data
      | CleanTable t \<Rightarrow> execute_clean_table io operation_id t data
      | ExportDataset c \<Rightarrow> execute_export_dataset io operation_id c data
      | DropDataset i \<Rightarrow> execute_drop_dataset io operation_id i data
      | CleanDataset i \<Rightarrow> execute_clean_dataset io operation_id i data
      | RunSuite s refs rc \<Rightarrow> execute_run_suite io operation_id s refs rc data
      | ReceiveQueue c \<Rightarrow> execute_receive_queue io operation_id c data
      | QueryDatabase i q target _ \<Rightarrow> execute_query_database io operation_id i q target
      | Assert c \<Rightarrow> execute_assert io operation_id c data)"

end
