(* ===== verification/CommandRuns.thy ===== *)
theory CommandRuns
  imports SuiteExecutionFacts Executors SuiteExecution
begin

text \<open>
  The loop over commands with the executors: what the rows and the events show of a run.
\<close>

text \<open>
  What every command leaves alone: the variables of the execution, the current run context and the
  events already published; the only events a command publishes are lines of the log. The laws are
  the interface between the loop over commands and the executors.
\<close>

named_theorems quiet_intros \<open>calls that only log\<close>

definition is_log :: "'w env \<Rightarrow> exec_event \<Rightarrow> bool" where
  "is_log e v \<longleftrightarrow> ee_name v = ''execution_log'' \<and> ee_execution v = text_of (ev_execution (en_vars e))"

definition only_logged :: "'w env \<Rightarrow> 'w env \<Rightarrow> bool" where
  "only_logged e e' \<longleftrightarrow>
     en_vars e' = en_vars e \<and> current_context (en_py e') = current_context (en_py e) \<and>
     (\<exists>new. en_events e' = en_events e @ new \<and> list_all (is_log e) new)"

definition quiet :: "('w env, 'a) call \<Rightarrow> bool" where
  "quiet m \<longleftrightarrow> (\<forall>e. only_logged e (snd (m e)))"

lemma only_logged_refl [simp]: "only_logged e e"
  by (simp add: only_logged_def)

lemma only_logged_trans: "only_logged e e' \<Longrightarrow> only_logged e' e'' \<Longrightarrow> only_logged e e''"
proof -
  assume one: "only_logged e e'" and two: "only_logged e' e''"
  from one have logs: "is_log e' v \<Longrightarrow> is_log e v" for v
    by (simp add: only_logged_def is_log_def)
  from one two obtain new new' where
    "en_events e' = en_events e @ new" "list_all (is_log e) new"
    "en_events e'' = en_events e' @ new'" "list_all (is_log e') new'"
    by (auto simp: only_logged_def)
  with one two logs show ?thesis
    by (auto simp: only_logged_def list_all_iff)
qed

lemma quietD: "quiet m \<Longrightarrow> m e = (r, e') \<Longrightarrow> only_logged e e'"
  unfolding quiet_def by (metis snd_conv)

lemma quietI: "(\<And>e r e'. m e = (r, e') \<Longrightarrow> only_logged e e') \<Longrightarrow> quiet m"
  unfolding quiet_def by (metis prod.collapse)

lemma quiet_sbind [quiet_intros]:
  assumes "quiet m" and "\<And>x. quiet (f x)"
  shows "quiet (sbind m f)"
proof (rule quietI)
  fix e r e'
  assume eq: "sbind m f e = (r, e')"
  obtain q e1 where one: "m e = (q, e1)" by fastforce
  then have "only_logged e e1" using assms(1) by (rule quietD [rotated])
  moreover have "only_logged e1 e'"
  proof (cases q)
    case (Inl er)
    with eq one show ?thesis by (simp add: sbind_def)
  next
    case (Inr x)
    with eq one have "f x e1 = (r, e')" by (simp add: sbind_def)
    then show ?thesis using assms(2) by (rule quietD [rotated])
  qed
  ultimately show "only_logged e e'" by (rule only_logged_trans)
qed

lemma quiet_pure [quiet_intros]:
  "quiet (spure x)" "quiet (sraise er)" "quiet (slift r)" "quiet (asks f)" "quiet (reads g)" "quiet (reified v)"
  by (simp_all add: quiet_def spure_def sraise_def slift_def asks_def reads_def reified_def)

lemma quiet_with_world [quiet_intros]: "quiet (with_world m)"
  by (auto simp: quiet_def with_world_def only_logged_def split: prod.split)

lemma quiet_builds [quiet_intros]: "quiet (builds f)"
  by (auto simp: quiet_def builds_def on_py_def only_logged_def split: prod.split)

lemma quiet_logs [quiet_intros]: "quiet (logs i m p l)" "quiet (logs_info i m)"
  by (auto simp: quiet_def logs_info_def logs_def log_command_def publish_runtime_log_event_def publish_current_def publish_def
      only_logged_def is_log_def)

lemma quiet_with_py [quiet_intros]:
  "(\<And>p. current_context (snd (m p)) = current_context p) \<Longrightarrow> quiet (with_py m)"
  by (auto simp: quiet_def with_py_def only_logged_def split: prod.split) (metis snd_conv)

lemma quiet_if [quiet_intros]: "quiet m \<Longrightarrow> quiet m' \<Longrightarrow> quiet (if b then m else m')"
  by simp

lemma quiet_reading [quiet_intros]: "quiet (\<lambda>e. (f e, e))"
  by (simp add: quiet_def)

lemma quiet_smap [quiet_intros]: "(\<And>x. x \<in> set xs \<Longrightarrow> quiet (f x)) \<Longrightarrow> quiet (smap f xs)"
  by (induction xs) (auto intro!: quiet_intros)

lemma quiet_sfold [quiet_intros]: "(\<And>a x. quiet (f a x)) \<Longrightarrow> quiet (sfold f acc xs)"
  by (induction xs arbitrary: acc) (auto intro!: quiet_intros)

lemma context_kept [simp]:
  "current_context (snd (resolve_in_context j p)) = current_context p"
  "current_context (snd (write_context_path path v p)) = current_context p"
  "current_context (snd (remove_context_path path p)) = current_context p"
  "current_context (snd (append_assert_artifact v p)) = current_context p"
  by (simp_all add: resolve_in_context_def write_context_path_def remove_context_path_def
      append_assert_artifact_def split: option.split)

section \<open>Inputs\<close>

lemma quiet_definitions [quiet_intros]:
  "quiet (resolve_definition_path io i)" "quiet (resolve_path path)" "quiet (definition_value io i)"
proof -
  show path: "quiet (resolve_definition_path io i)"
    by (auto simp: quiet_def resolve_definition_path_def split: option.split)
  show val: "quiet (resolve_path path)" for path
    unfolding resolve_path_def by (intro quiet_intros) simp
  show "quiet (definition_value io i)"
    unfolding definition_value_def by (auto intro!: quiet_sbind path val quiet_pure split: prod.split)
qed

lemma quiet_texts [quiet_intros]: "quiet (text_of_value v)" "quiet (stripped_text v)"
  unfolding text_of_value_def stripped_text_def by (intro quiet_intros)+

lemma quiet_binding [quiet_intros]: "quiet (resolve_binding io nb)"
  unfolding resolve_binding_def Let_def
  by (auto intro!: quiet_intros simp: split: option.split prod.split)

lemma quiet_source [quiet_intros]: "quiet (resolve_source_payload io code)"
proof -
  have loads: "quiet (load_json_source io source)" "quiet (load_dataset_source io source)" for source
    unfolding load_json_source_def load_dataset_source_def Let_def
    by (auto intro!: quiet_intros split: option.split)
  have "quiet (sbind (load_json_source io source) (\<lambda>v. spure (v, t)))"
    "quiet (sbind (load_dataset_source io source) (\<lambda>v. spure (v, t)))" for source and t :: string
    by (auto intro!: quiet_intros loads)
  then show ?thesis
    by (auto simp: quiet_def resolve_source_payload_def Let_def split: option.split json.split)
qed

lemma quiet_references [quiet_intros]:
  "quiet (resolve_definition_input io i data)" "quiet (resolve_input_reference io ref data)"
  "quiet (write_result_constant io rc v)" "quiet (write_target target v)"
  unfolding resolve_definition_input_def resolve_input_reference_def write_result_constant_def write_target_def
  by (auto intro!: quiet_intros split: option.split input_ref.split prod.split)

section \<open>HTTP\<close>

lemma quiet_http_node [quiet_intros]: "quiet (resolve_http_node io n)"
proof (cases n)
  case (RuntimeNode i path)
  have "quiet (\<lambda>e. (resolve_relative_field_path v p (objects (en_py e)), e))" for v p
    by (auto simp: quiet_def)
  with RuntimeNode show ?thesis
    by (auto intro!: quiet_intros split: option.split prod.split)
next
  case (BuiltInNode r)
  then show ?thesis by (auto simp: quiet_def resolve_built_in_def Let_def)
qed (auto intro!: quiet_intros split: prod.split)

lemma quiet_http_tree [quiet_intros]: "quiet (resolve_http_tree io t)"
proof (induction t)
  case (HObj d)
  have "quiet (resolve_http_tree io (snd kt))" if "kt \<in> set d" for kt
    using HObj.IH [OF that, of "snd kt"] by (simp add: snds.intros)
  then show ?case by (auto intro!: quiet_intros)
qed (auto intro!: quiet_intros)

lemma quiet_http_parts [quiet_intros]:
  "quiet (node_step io acc kn)" "quiet (header_step io acc' kn)" "quiet (path_step io acc' kn)"
  "quiet (form_value_check io key t)" "quiet (form_value_step io acc kt)"
proof -
  show check: "quiet (form_value_check io key t)" for key t
    unfolding form_value_check_def
    by (auto intro!: quiet_intros split: http_tree.split http_node.split prod.split simp: Let_def)
  have "quiet (\<lambda>e. if v = VNone then (Inr acc, e)
       else if dict_at (objects (en_py e)) v \<noteq> None \<or> list_at (objects (en_py e)) v \<noteq> None then (Inl er, e)
       else (Inr acc'', e))" for v acc er and acc'' :: "pyval dict"
    by (auto simp: quiet_def)
  with check show "quiet (form_value_step io acc kt)"
    unfolding form_value_step_def Let_def by (auto intro!: quiet_intros)
qed (auto simp: node_step_def header_step_def path_step_def intro!: quiet_intros)

lemma quiet_http_request [quiet_intros]:
  "quiet (resolve_http_kv_params io ps)" "quiet (resolve_http_headers io ps)"
  "quiet (resolve_path_params_and_url io url ps)" "quiet (resolve_http_body io t ty)"
  "quiet (reified_fields d)"
  unfolding resolve_http_kv_params_def resolve_http_headers_def resolve_path_params_and_url_def
    resolve_http_body_def reified_fields_def
  by (auto intro!: quiet_intros split: option.split list.split http_tree.split prod.split)

lemma quiet_authorization [quiet_intros]: "quiet (compile_authorization io a)"
proof -
  have "quiet (resolve_leaf io n)" "quiet (require_leaf v field ty)" "quiet (exchange_token io c what answer)"
    for n v field ty c what answer
    unfolding resolve_leaf_def require_leaf_def exchange_token_def
    by (auto intro!: quiet_intros split: http_outcome.split)
  then show ?thesis
    by (cases "(io, a)" rule: compile_authorization.cases) (auto intro!: quiet_intros)
qed

lemma quiet_http [quiet_intros]: "quiet (execute_http io i rq body data)"
proof -
  have "quiet (request_call io rq body)"
    unfolding request_call_def by (auto intro!: quiet_intros split: option.split simp: Let_def)
  then show ?thesis
    unfolding execute_http_def Let_def
    by (auto intro!: quiet_intros split: http_outcome.split)
qed

section \<open>The executors\<close>

lemma quiet_message_result [quiet_intros]: "quiet (message_result data m fs)"
  unfolding message_result_def by (intro quiet_intros)

lemma quiet_payloads [quiet_intros]: "quiet (build_send_message_payloads io j ty t)"
proof -
  have one: "quiet (evaluate_template_constant io c)" for c
  proof -
    have "quiet (\<lambda>e. (Inr (JStr (if b then f (en_world e) else g (en_world e))), e))" for b f g
      by (simp add: quiet_def)
    then show ?thesis
      unfolding evaluate_template_constant_def Let_def by (auto intro!: quiet_intros)
  qed
  have all: "quiet (template_constants io cs payload)" for cs payload
    by (induction cs arbitrary: payload) (auto intro!: quiet_intros one)
  have "quiet (template_payloads io t rows)" for t rows
    by (induction rows) (auto intro!: quiet_intros all)
  then show ?thesis
    unfolding build_send_message_payloads_def by (auto intro!: quiet_intros split: option.split)
qed

lemma quiet_run_suite [quiet_intros]: "quiet (execute_run_suite io i s refs rc data)"
proof -
  have one: "quiet (suite_constant io acc r)" for acc r
    unfolding suite_constant_def by (auto intro!: quiet_intros split: prod.split)
  have reads: "quiet context_event" "quiet context_invocation"
    by (auto simp: quiet_def context_event_def context_invocation_def split: option.split)
  show ?thesis
    unfolding execute_run_suite_def Let_def by (auto intro!: quiet_intros one reads)
qed

lemma quiet_assert [quiet_intros]: "quiet (execute_assert io i c data)"
  unfolding execute_assert_def resolve_expected_def append_artifact_def Let_def
  by (auto intro!: quiet_intros split: prod.split sum.split)

lemma quiet_executors [quiet_intros]:
  "quiet (execute_set_variable io i sv data)" "quiet (execute_delete_variable io i d data)"
  "quiet (execute_sleep io i n data)" "quiet (execute_send_message io i sm data)"
  "quiet (execute_save_table io i t ref rc data)" "quiet (execute_drop_table io i t data)"
  "quiet (execute_clean_table io i t data)" "quiet (execute_export_dataset io i ed data)"
  "quiet (execute_drop_dataset io i d data)" "quiet (execute_clean_dataset io i d data)"
  "quiet (execute_receive_queue io i rv data)" "quiet (execute_query_database io i d q target)"
  unfolding execute_set_variable_def load_value_def execute_delete_variable_def execute_sleep_def
    execute_send_message_def execute_save_table_def execute_drop_table_def execute_clean_table_def
    execute_export_dataset_def execute_drop_dataset_def execute_clean_dataset_def
    execute_receive_queue_def execute_query_database_def Let_def
  by (auto intro!: quiet_intros split: prod.split)

lemma quiet_execute_operation: "quiet (execute_operation io i c data)"
  unfolding execute_operation_def by (auto intro!: quiet_intros split: command.split)

section \<open>Rows and reports\<close>

definition row_report :: "command_row \<Rightarrow> string \<times> string" where
  "row_report r = (text_of (cx_command r), cx_status r)"

text \<open>The command and the status that an event \<open>command_finished\<close> carries.\<close>

definition payload_text :: "exec_event \<Rightarrow> string \<Rightarrow> string" where
  "payload_text v k = (case map_of (ee_payload v) k of Some (Val (VStr s)) \<Rightarrow> s | _ \<Rightarrow> [])"

definition event_reports :: "exec_event list \<Rightarrow> (string \<times> string) list" where
  "event_reports vs =
     map (\<lambda>v. (payload_text v ''command_id'', payload_text v ''status''))
       (filter (\<lambda>v. ee_name v = ''command_finished'') vs)"

text \<open>A run inside an item of a suite, and identifiers that are still free.\<close>

definition in_item :: "'w exec_state \<Rightarrow> bool" where
  "in_item st \<longleftrightarrow> current_var ev_test_suite_execution st \<noteq> [] \<and> current_var ev_suite_item_execution st \<noteq> [] \<and>
     text_of (ev_execution (en_vars (xs_env st))) \<noteq> []"

definition command_ids_ok :: "'w exec_state \<Rightarrow> bool" where
  "command_ids_ok st \<longleftrightarrow> inj (xs_fresh st) \<and> (\<forall>n. xs_fresh st n \<noteq> []) \<and>
     (\<forall>n \<ge> xs_next st. xs_fresh st n \<notin> cx_id ` set (tb_commands (xs_tables st)))"

text \<open>What a run adds: rows with these reports, and events that report those that finished.\<close>

definition shows_run :: "(string \<times> string) list \<Rightarrow> 'w exec_state \<Rightarrow> 'w exec_state \<Rightarrow> bool" where
  "shows_run ts st st' \<longleftrightarrow>
     en_vars (xs_env st') = en_vars (xs_env st) \<and> command_ids_ok st' \<and>
     (\<exists>rows. tb_commands (xs_tables st') = tb_commands (xs_tables st) @ rows \<and> map row_report rows = ts) \<and>
     (\<exists>evs. en_events (xs_env st') = en_events (xs_env st) @ evs \<and>
        event_reports evs = filter (\<lambda>t. snd t \<noteq> ''running'') ts)"

lemma shows_run_Nil: "command_ids_ok st \<Longrightarrow> shows_run [] st st"
  by (simp add: shows_run_def event_reports_def)

lemma shows_run_append:
  assumes "shows_run xs st st1" and "shows_run ys st1 st2"
  shows "shows_run (xs @ ys) st st2"
proof -
  from assms obtain r1 r2 e1 e2 where
    "tb_commands (xs_tables st1) = tb_commands (xs_tables st) @ r1" "map row_report r1 = xs"
    "tb_commands (xs_tables st2) = tb_commands (xs_tables st1) @ r2" "map row_report r2 = ys"
    "en_events (xs_env st1) = en_events (xs_env st) @ e1" "event_reports e1 = filter (\<lambda>t. snd t \<noteq> ''running'') xs"
    "en_events (xs_env st2) = en_events (xs_env st1) @ e2" "event_reports e2 = filter (\<lambda>t. snd t \<noteq> ''running'') ys"
    by (auto simp: shows_run_def)
  moreover have "event_reports (e1 @ e2) = event_reports e1 @ event_reports e2"
    by (simp add: event_reports_def)
  ultimately show ?thesis
    using assms unfolding shows_run_def by (intro conjI exI [of _ "r1 @ r2"] exI [of _ "e1 @ e2"]) simp_all
qed

lemma shows_run_in_item: "shows_run ts st st' \<Longrightarrow> in_item st \<Longrightarrow> in_item st'"
  by (simp add: shows_run_def in_item_def current_var_def)

section \<open>One command\<close>

lemma insert_legacy_effect:
  assumes ok: "command_ids_ok st" and run: "insert_legacy_command op st = (r, st')"
  shows "\<exists>legacy. r = Inr legacy \<and> xs_env st' = xs_env st \<and> command_ids_ok st' \<and>
    tb_commands (xs_tables st') = tb_commands (xs_tables st)"
  using assms
  by (auto simp: insert_legacy_command_def insert_command_def fresh_id_def sbind_def Let_def
      on_tables_def command_ids_ok_def split: if_splits)
    (metis Suc_leD imageI)

lemma insert_item_effect:
  assumes ok: "command_ids_ok st" and item: "in_item st" and run: "insert_item_command op st = (r, st')"
  shows "\<exists>row. r = Inr (cx_id row) \<and> cx_id row \<noteq> [] \<and> xs_env st' = xs_env st \<and> command_ids_ok st' \<and>
    tb_commands (xs_tables st') = tb_commands (xs_tables st) @ [row] \<and>
    cx_id row \<notin> cx_id ` set (tb_commands (xs_tables st)) \<and> row_report row = (op_id op, ''running'')"
proof -
  define row where "row = \<lparr>cx_id = xs_fresh st (xs_next st), cx_execution = current_var ev_test_suite_execution st,
      cx_item_execution = current_var ev_suite_item_execution st, cx_item = non_empty (current_var ev_suite_item st),
      cx_command = non_empty (op_id op), cx_description = op_description op, cx_order = op_order op,
      cx_status = ''running'', cx_error = None\<rparr>"
  have "r = Inr (cx_id row)" and "xs_env st' = xs_env st"
    and rows: "tb_commands (xs_tables st') = tb_commands (xs_tables st) @ [row]"
    and fresh: "xs_fresh st' = xs_fresh st" "xs_next st' = Suc (xs_next st)"
    using item run
    by (auto simp: insert_item_command_def insert_command_def fresh_id_def sbind_def Let_def on_tables_def
        in_item_def row_def)
  moreover have "xs_fresh st n \<noteq> cx_id row" if "Suc (xs_next st) \<le> n" for n
    using ok that by (auto simp: command_ids_ok_def row_def dest: injD)
  then have "command_ids_ok st'"
    using ok rows fresh by (auto simp: command_ids_ok_def)
  moreover have "cx_id row \<notin> cx_id ` set (tb_commands (xs_tables st))" "cx_id row \<noteq> []"
    using ok by (auto simp: command_ids_ok_def row_def)
  moreover have "row_report row = (op_id op, ''running'')"
    by (simp add: row_report_def row_def non_empty_def text_of_def)
  ultimately show ?thesis by blast
qed

lemma finished_event:
  "event_reports [\<lparr>ee_execution = x, ee_name = ''command_finished'',
     ee_payload = command_event st op scope legacy current ct ((''status'', text_view s) # outcome)\<rparr>] =
   [(op_id op, s)]"
  by (simp add: event_reports_def payload_text_def command_event_def)

lemma log_reports: "list_all (is_log e) vs \<Longrightarrow> event_reports vs = []"
  by (induction vs) (auto simp: event_reports_def is_log_def)

definition command_status :: "field_types \<Rightarrow> operation \<Rightarrow> 'a result \<Rightarrow> string" where
  "command_status pyd op r =
     (case r of
        Inr _ \<Rightarrow> ''success''
      | Inl _ \<Rightarrow>
          (case convert_to_config_command_type pyd (fields_of (op_configuration op)) of
             Inl _ \<Rightarrow> ''running'' | Inr _ \<Rightarrow> ''error''))"

text \<open>The whole loop: commands succeed until one does not, and what comes after it leaves no trace.\<close>

definition command_trace :: "field_types \<Rightarrow> operation list \<Rightarrow> 'a result \<Rightarrow> (string \<times> string) list \<Rightarrow> bool" where
  "command_trace pyd ops r ts \<longleftrightarrow>
     (case r of
        Inr _ \<Rightarrow> ts = map (\<lambda>op. (op_id op, ''success'')) ops
      | Inl _ \<Rightarrow> (\<exists>before op after. ops = before @ op # after \<and>
          ts = map (\<lambda>op. (op_id op, ''success'')) before @ [(op_id op, command_status pyd op r)]))"

lemma command_trace_first:
  "command_trace pyd (op # ops) (Inl e) [(op_id op, command_status pyd op (Inl e))]"
  unfolding command_trace_def by (auto intro!: exI [of _ "[]"] simp: command_status_def)

lemma command_trace_Cons:
  "command_trace pyd ops r ts \<Longrightarrow> command_trace pyd (op # ops) r ((op_id op, ''success'') # ts)"
proof (cases r)
  case (Inl e)
  assume "command_trace pyd ops r ts"
  with Inl obtain before op' after where "ops = before @ op' # after"
    "ts = map (\<lambda>op. (op_id op, ''success'')) before @ [(op_id op', command_status pyd op' r)]"
    by (auto simp: command_trace_def)
  with Inl show ?thesis
    by (auto simp: command_trace_def intro!: exI [of _ "op # before"])
qed (simp add: command_trace_def)

text \<open>
  The interface of the executors: a command leaves the variables, the context and the published
  events alone, and publishes lines of the log only.
\<close>

locale command_executor =
  fixes run :: "'w executor"
  assumes run_quiet: "quiet (run i c data)"
begin

lemma run_logged: "run i c data e = (r, e') \<Longrightarrow> only_logged e e'"
  using run_quiet by (rule quietD)

lemma execute_one_shows:
  assumes ok: "command_ids_ok st" and item: "in_item st"
    and one: "execute_one pyd run scope op data st = (r, st')"
  shows "shows_run [(op_id op, command_status pyd op r)] st st'"
proof -
  obtain l st1 where l: "insert_legacy_command op st = (l, st1)" by fastforce
  from insert_legacy_effect [OF ok l] obtain legacy where
    l': "insert_legacy_command op st = (Inr legacy, st1)" and env1: "xs_env st1 = xs_env st"
    and ok1: "command_ids_ok st1" and rows1: "tb_commands (xs_tables st1) = tb_commands (xs_tables st)"
    using l by auto
  have item1: "in_item st1" using item env1 by (simp add: in_item_def current_var_def)
  obtain c st2 where c: "insert_item_command op st1 = (c, st2)" by fastforce
  from insert_item_effect [OF ok1 item1 c] obtain row where
    c': "insert_item_command op st1 = (Inr (cx_id row), st2)" and id: "cx_id row \<noteq> []"
    and env2: "xs_env st2 = xs_env st" and ok2: "command_ids_ok st2"
    and rows2: "tb_commands (xs_tables st2) = tb_commands (xs_tables st) @ [row]"
    and new: "cx_id row \<notin> cx_id ` set (tb_commands (xs_tables st))"
    and rep: "row_report row = (op_id op, ''running'')"
    using c env1 rows1 by auto
  show ?thesis
  proof (cases "convert_to_config_command_type pyd (fields_of (op_configuration op))")
    case (Inl e)
    with one l' c' have "r = Inl e" "st' = st2"
      by (simp_all add: execute_one_def sbind_def)
    with Inl env2 ok2 rows2 rep show ?thesis
      by (auto simp: shows_run_def command_status_def event_reports_def)
  next
    case (Inr cfg)
    define policy where "policy = validate_operation_policy (cfg_command cfg) scope"
    obtain r3 st3 where body: "(case policy of Inl e \<Rightarrow> (Inl e, st2)
        | Inr _ \<Rightarrow> with_env (run (op_id op) (cfg_command cfg) data) st2) = (r3, st3)"
      by fastforce
    have logged: "only_logged (xs_env st2) (xs_env st3)" and same: "xs_tables st3 = xs_tables st2"
      "xs_fresh st3 = xs_fresh st2" "xs_next st3 = xs_next st2"
      using body run_logged by (auto simp: with_env_def split: sum.splits prod.splits)
    from logged obtain vs where vs: "en_events (xs_env st3) = en_events (xs_env st2) @ vs"
      and quiet: "list_all (is_log (xs_env st2)) vs" and vars: "en_vars (xs_env st3) = en_vars (xs_env st2)"
      by (auto simp: only_logged_def)
    define s where "s = command_status pyd op r3"
    have "\<exists>legacy' outcome ct error. st' = on_env (publish_current ''command_finished''
        (command_event st2 op scope legacy' (cx_id row) ct ((''status'', text_view s) # outcome)))
        (on_tables (finish_command_rows legacy' (cx_id row) s error) st3)"
      and r: "command_status pyd op r = s"
      using one l' c' Inr body
      by (auto simp: execute_one_def sbind_def Let_def policy_def [symmetric] s_def command_status_def
          split: sum.splits prod.splits if_splits)
    then obtain legacy' outcome ct error where st': "st' = on_env (publish_current ''command_finished''
        (command_event st2 op scope legacy' (cx_id row) ct ((''status'', text_view s) # outcome)))
        (on_tables (finish_command_rows legacy' (cx_id row) s error) st3)"
      by blast
    define row' where "row' = finish_command s error row"
    have tables: "tb_commands (xs_tables st') = tb_commands (xs_tables st) @ [row']"
      using id new rows2 same
      by (simp add: st' finish_command_rows_def Let_def update_row_append update_row_other update_row_Cons row'_def)
    have "cx_id ` set (tb_commands (xs_tables st')) = cx_id ` set (tb_commands (xs_tables st2))"
      unfolding tables rows2 by (simp add: row'_def finish_command_def)
    moreover have "xs_fresh st' = xs_fresh st2" "xs_next st' = xs_next st2"
      using same by (simp_all add: st')
    ultimately have ids: "command_ids_ok st'"
      using ok2 by (simp add: command_ids_ok_def)
    have "s \<noteq> ''running''"
      using Inr by (auto simp: s_def command_status_def split: sum.splits)
    moreover have "event_reports (vs @ [v]) = event_reports [v]" for v
      using log_reports [OF quiet] by (simp add: event_reports_def)
    moreover have "row_report row' = (op_id op, s)"
      using rep by (simp add: row_report_def row'_def finish_command_def)
    ultimately show ?thesis
      unfolding shows_run_def r
      using tables ids vs vars env2 item finished_event
      by (auto simp: st' on_env_def publish_current_def publish_def in_item_def on_tables_def)
  qed
qed

lemma execute_each_shows:
  assumes "command_ids_ok st" and "in_item st" and "execute_each pyd run scope ops data res st = (r, st')"
  shows "\<exists>ts. command_trace pyd ops r ts \<and> shows_run ts st st'"
  using assms
proof (induction ops arbitrary: data res st)
  case Nil
  then show ?case by (auto simp: spure_def command_trace_def shows_run_Nil)
next
  case (Cons op ops)
  obtain r1 st1 where one: "execute_one pyd run scope op data st = (r1, st1)" by fastforce
  have shown: "shows_run [(op_id op, command_status pyd op r1)] st st1"
    using Cons.prems(1,2) one by (rule execute_one_shows)
  show ?case
  proof (cases r1)
    case (Inl e)
    with Cons.prems(3) one have "r = Inl e" "st' = st1" by (simp_all add: sbind_def)
    with shown Inl command_trace_first show ?thesis
      by (metis (no_types, lifting) command_status_def sum.case(1))
  next
    case (Inr x)
    obtain data' new where x: "x = (data', new)" by fastforce
    with Cons.prems(3) one Inr have rest: "execute_each pyd run scope ops data' (res @ new) st1 = (r, st')"
      by (simp add: sbind_def)
    from shown Cons.prems have "command_ids_ok st1" "in_item st1"
      by (auto simp: shows_run_def dest: shows_run_in_item [OF shown])
    from Cons.IH [OF this rest] obtain ts where
      ts: "command_trace pyd ops r ts" "shows_run ts st1 st'" by blast
    from ts(1) have "command_trace pyd (op # ops) r ((op_id op, ''success'') # ts)"
      by (rule command_trace_Cons)
    moreover have "shows_run ((op_id op, ''success'') # ts) st st'"
      using shows_run_append [OF shown ts(2)] Inr by (simp add: command_status_def)
    ultimately show ?thesis by blast
  qed
qed

end

interpretation commands: command_executor "execute_operation io"
  by unfold_locales (rule quiet_execute_operation)

end
