(* ===== verification/ExecutorProps.thy ===== *)
theory ExecutorProps
  imports CommandRuns Store RunContextProps
begin

text \<open>
  Properties of the commands and of the loop that runs them.
\<close>

section \<open>Facts\<close>

lemma json_of_embed:
  assumes "embed j h = (v, h')" and "agree (length h) (length h') g h'" and "length h' \<le> length g"
  shows "json_of g v = Inr j"
proof -
  have "reify (Suc (length g)) g v = Some j"
    using assms by (intro reify_embed(1) [OF assms(1)]) auto
  then show ?thesis by (simp add: json_of_def)
qed

lemma set_variable_run:
  assumes "load_value io c e = (Inr v, e1)"
    and "write_context_path (''$.'' @ sv_context c @ ''.constants.'' @ sv_name c) v (en_py e1) = (Inr (), p)"
  shows "\<exists>res e'. execute_set_variable io op c data e = (Inr (v, res), e') \<and> en_py e' = p \<and> en_world e' = en_world e1"
  using assms
  by (simp add: execute_set_variable_def sbind_def with_py_def Let_def logs_def message_result_def spure_def
      log_command_def publish_runtime_log_event_def publish_current_def publish_def)

text \<open>What \<open>setVariable\<close> leaves behind: the value as an object below the constants of the scope.\<close>

lemma set_variable_stores:
  assumes rc: "current_context (en_py e) = Some rc" and r: "sv_context c \<in> set scope_names"
    and free: "immutable_in_test rc (sv_context c) = Inr ()" and k: "plain_key (sv_name c)"
    and con: "constants_dict (objects (en_py e)) (scope_address rc (sv_context c)) a d"
    and ty: "sv_value_type c = ''value'' \<or> sv_value_type c = ''json''"
  shows "\<exists>v res e'. execute_operation io op (SetVariable c) data e = (Inr (v, res), e') \<and>
    json_of (objects (en_py e')) v = Inr (sv_value c) \<and> en_world e' = en_world e \<and>
    current_context (en_py e') = Some rc \<and>
    constants_dict (objects (en_py e')) (scope_address rc (sv_context c)) a (dict_set (sv_name c) v d)"
proof -
  have path: "''$.'' @ sv_context c @ ''.constants.'' @ sv_name c = dotted [sv_context c, ''constants'', sv_name c]"
    by (simp add: dotted_def join_with_def)
  obtain v h where emb: "embed (sv_value c) (objects (en_py e)) = (v, h)" by fastforce
  define e1 where "e1 = on_py (\<lambda>p. p\<lparr>objects := h\<rparr>) e"
  have pre: "prefix (objects (en_py e)) h" using emb by (rule embed_step)
  have con1: "constants_dict h (scope_address rc (sv_context c)) a d"
    using con
  proof (rule constants_dictD)
    fix s
    assume "hget (objects (en_py e)) (scope_address rc (sv_context c)) = Some (ODict s)"
      "dict_get s ''constants'' = Some (VRef a)" "hget (objects (en_py e)) a = Some (ODict d)"
      "a \<noteq> scope_address rc (sv_context c)"
    with hget_prefix [OF pre] show ?thesis by (auto simp: constants_dict_def)
  qed
  define h2 where "h2 = hset a (ODict (dict_set (sv_name c) v d)) h"
  have a: "a < length (objects (en_py e))" using con by (auto elim!: constants_dictD intro: hget_less)
  have wr: "write_context_path (dotted [sv_context c, ''constants'', sv_name c]) v (en_py e1) =
      (Inr (), en_py e1\<lparr>objects := h2\<rparr>)"
    using write_constant [OF r free k con1, of v] rc
    by (simp add: write_context_path_def with_heap_def e1_def on_py_def h2_def)
  have load: "load_value io c e = (Inr v, e1)"
    using ty emb by (auto simp: load_value_def builds_def e1_def)
  obtain res e' where set: "execute_operation io op (SetVariable c) data e = (Inr (v, res), e')"
    and py: "en_py e' = en_py e1\<lparr>objects := h2\<rparr>" and world: "en_world e' = en_world e"
    using set_variable_run [OF load wr [folded path], of op data]
    by (auto simp: execute_operation_def e1_def on_py_def)
  have "agree (length (objects (en_py e))) (length h) h2 h"
    unfolding h2_def using a by (rule agree_put_old)
  then have "json_of (objects (en_py e')) v = Inr (sv_value c)"
    using json_of_embed [OF emb] by (simp add: py h2_def)
  with set world rc constants_dict_put [OF con1] show ?thesis
    by (auto simp: py h2_def e1_def on_py_def)
qed

text \<open>Reading a constant through its definition.\<close>

lemma definition_value_stored:
  assumes "current_context (en_py e) = Some rc" and "s \<in> set scope_names" and "plain_key n"
    and "constants_dict (objects (en_py e)) (scope_address rc s) a d" and "dict_get d n = Some v"
    and "io_definition io (en_world e) i = Some df" "df_scope df = s" "df_name df = n"
    and "v \<noteq> VStr (dotted [s, ''constants'', n])"
  shows "\<exists>e'. definition_value io i e = (Inr (df, Some v), e') \<and> en_world e' = en_world e"
proof -
  have path: "''$.'' @ s @ ''.constants.'' @ n = dotted [s, ''constants'', n]"
    by (simp add: dotted_def join_with_def)
  obtain q where "resolve_in_context (JStr (dotted [s, ''constants'', n])) (en_py e) = (Inr v, q)"
    using resolve_constant [OF assms(2,3,4,1)] assms(5)
    by (cases "resolve_in_context (JStr (dotted [s, ''constants'', n])) (en_py e)") auto
  with assms(6-9) path show ?thesis
    by (auto simp: definition_value_def resolve_definition_path_def resolve_path_def sbind_def with_py_def spure_def)
qed

lemma references_read:
  assumes "definition_value io i e = (Inr (df, Some v), e1)" and "en_world e1 = en_world e"
    and "io_definition io (en_world e) i = Some df" and "i \<noteq> []"
  shows "\<exists>e'. resolve_input_reference io (Some (RuntimeValue i)) data e = (Inr (v, or_text (df_value_type df) ''json''), e')"
    and "\<exists>e'. resolve_http_node io (RuntimeNode i None) e = (Inr v, e')"
  using assms
  by (auto simp: resolve_input_reference_def resolve_definition_input_def sbind_def spure_def
      resolve_definition_path_def text_of_def)

text \<open>
  What the queues promise, with two counters in the world: a poll asks for a number of messages and
  gives no more, and polls and pauses are counted.
\<close>

definition counts_polls :: "'w services \<Rightarrow> ('w \<Rightarrow> nat) \<Rightarrow> ('w \<Rightarrow> nat) \<Rightarrow> bool" where
  "counts_polls io polls pauses \<longleftrightarrow>
     (\<forall>connection q n w r w'. io_receive io connection q n w = (r, w') \<longrightarrow>
        polls w' = Suc (polls w) \<and> pauses w' = pauses w \<and> (\<forall>ms. r = Inr ms \<longrightarrow> int (length ms) \<le> n)) \<and>
     (\<forall>n w r w'. io_sleep io n w = (r, w') \<longrightarrow> polls w' = polls w \<and> pauses w' = Suc (pauses w))"

lemma receive_loop_counts:
  assumes "counts_polls io polls pauses"
    and "receive_loop io connection c retries collected w = (r, w')"
    and "int (length collected) \<le> max 0 (rv_max_messages c)"
  shows "pauses w' \<le> pauses w + retries \<and>
    polls w' \<le> polls w + nat (rv_max_messages c - int (length collected)) + retries + 1 \<and>
    (\<forall>ms. r = Inr ms \<longrightarrow> int (length ms) \<le> max 0 (rv_max_messages c) \<and>
       (int (length ms) < rv_max_messages c \<longrightarrow> pauses w' = pauses w + retries))"
  using assms
proof (induction io connection c retries collected w arbitrary: r w' rule: receive_loop.induct)
  case (1 io connection c retries collected w)
  note loop = 1(4) and polls = 1(3)
  show ?case
  proof (cases "rv_max_messages c \<le> int (length collected)")
    case True
    with loop 1(5) show ?thesis by (subst (asm) receive_loop.simps) auto
  next
    case False
    obtain q w1 where poll: "io_receive io connection (rv_queue c) (rv_max_messages c - int (length collected)) w = (q, w1)"
      by fastforce
    from polls poll have one: "polls w1 = Suc (polls w)" "pauses w1 = pauses w"
      and few: "\<And>ms. q = Inr ms \<Longrightarrow> int (length ms) \<le> rv_max_messages c - int (length collected)"
      unfolding counts_polls_def by blast+
    show ?thesis
    proof (cases q)
      case (Inl e)
      with loop False poll one show ?thesis by (subst (asm) receive_loop.simps) auto
    next
      case (Inr ms)
      show ?thesis
      proof (cases "ms = []")
        case False
        with loop \<open>\<not> rv_max_messages c \<le> int (length collected)\<close> poll Inr
        have "receive_loop io connection c retries (collected @ ms) w1 = (r, w')"
          by (subst (asm) receive_loop.simps) auto
        moreover have "Suc (nat (rv_max_messages c - (int (length collected) + int (length ms)))) \<le>
            nat (rv_max_messages c - int (length collected))"
          using False few [OF Inr] by (cases ms) auto
        ultimately show ?thesis
          using 1(1) [OF \<open>\<not> rv_max_messages c \<le> int (length collected)\<close> poll [symmetric] Inr False polls] few [OF Inr] one
          by auto
      next
        case True
        note empty = True
        show ?thesis
        proof (cases "retries = 0")
          case True
          with loop False poll Inr empty one show ?thesis by (subst (asm) receive_loop.simps) auto
        next
          case more: False
          obtain p w2 where pause: "io_sleep io (rv_wait c) w1 = (p, w2)" by fastforce
          with polls have two: "polls w2 = polls w1" "pauses w2 = Suc (pauses w1)"
            unfolding counts_polls_def by blast+
          show ?thesis
          proof (cases p)
            case (Inl e)
            with loop False poll Inr empty more pause one two show ?thesis
              by (subst (asm) receive_loop.simps) auto
          next
            case (Inr u)
            with loop False poll \<open>q = Inr ms\<close> empty more pause
            have "receive_loop io connection c (retries - 1) collected w2 = (r, w')"
              by (subst (asm) receive_loop.simps) auto
            with 1(2) [OF False poll [symmetric] \<open>q = Inr ms\<close> _ more pause [symmetric] Inr polls] empty 1(5) one two more
            show ?thesis by auto
          qed
        qed
      qed
    qed
  qed
qed

section \<open>Services for the witnesses\<close>

text \<open>A world of two counters, where queues are empty and nothing else is found.\<close>

definition idle_services :: "(nat \<times> nat) services" where
  "idle_services =
     \<lparr>io_today = (\<lambda>w. ''2026-01-01''), io_utc_now = (\<lambda>w. ''2026-01-01T00:00:00+00:00''),
      io_now = (\<lambda>w. ''2026-01-01T00:00:00''),
      io_timestamp = (\<lambda>w. ''2026-01-01T00:00:00.000001+00:00''), io_sleep = (\<lambda>n w. (Inr (), (fst w, Suc (snd w)))),
      io_parsers = \<lparr>iso_date = (\<lambda>s. None), iso_datetime = (\<lambda>s. None), float_of = (\<lambda>s. None)\<rparr>,
      io_float_text = (\<lambda>q. ''30.0''), io_json_loads = (\<lambda>s. Inl (ValueError ''Expecting value'')),
      io_schema = (\<lambda>row schema. SchemaValid),
      io_definition = (\<lambda>w i. if i = ''d1''
         then Some \<lparr>df_name = ''x'', df_scope = ''local'', df_value_type = ''json''\<rparr> else None),
      io_json_payload = (\<lambda>w i. None), io_dataset = (\<lambda>w i. None),
      io_insert_dataset = (\<lambda>d c w. (Inr ''dataset-1'', w)), io_update_dataset = (\<lambda>i d c w. (Inr (), w)),
      io_delete_dataset = (\<lambda>i w. (Inr (), w)), io_connection_config = Inr,
      io_table_names = (\<lambda>g s w. (Inr [], w)), io_view_names = (\<lambda>g s w. (Inr [], w)),
      io_table_columns = (\<lambda>g t s w. (Inr [], w)), io_select = (\<lambda>c t s q w. (Inr [], w)),
      io_has_table = (\<lambda>g t s w. (Inr False, w)), io_create_table = (\<lambda>g t s cs w. (Inr (), w)),
      io_insert = (\<lambda>c t s rows w. (Inr (), w)), io_connect = (\<lambda>g w. (Inr 0, w)),
      io_sql = (\<lambda>c q ps w. (Inr [], w)), io_commit = (\<lambda>c w. (Inr (), w)), io_close = (\<lambda>c w. (Inr (), w)),
      io_queue = (\<lambda>w i. None), io_broker_config = Inr,
      io_receive = (\<lambda>c q n w. (if n < 0 then Inl (ValueError ''n'') else Inr [], (Suc (fst w), snd w))),
      io_ack = (\<lambda>c q ms w. (Inr (), w)), io_publish = (\<lambda>c q ms w. (Inr (), w)), io_request = (\<lambda>c w. (Inr (TimedOut ''t''), w)),
      io_start_suite = (\<lambda>i ev vs inv w. (Inr ''execution-2'', w))\<rparr>"

definition sample_queue :: receive_queue where
  "sample_queue = \<lparr>rv_queue = ''q1'', rv_max_messages = 10, rv_retry = 3, rv_wait = 1, rv_target = None, rv_result = None\<rparr>"

definition sample_env :: "(nat \<times> nat) env" where
  "sample_env = \<lparr>en_py = sample_state, en_vars = no_vars\<lparr>ev_execution := Some ''execution-1'',
     ev_test_suite_execution := Some ''suite-execution-1'', ev_suite_item_execution := Some ''item-execution-1''\<rparr>,
     en_events = [], en_world = (0, 0)\<rparr>"

definition sample_ids :: "nat \<Rightarrow> string" where
  "sample_ids n = replicate (Suc n) (CHR ''a'')"

definition sample_exec_state :: "(nat \<times> nat) exec_state" where
  "sample_exec_state = \<lparr>xs_env = sample_env,
     xs_tables = \<lparr>tb_suites = [], tb_items = [], tb_commands = [], tb_test_commands = []\<rparr>,
     xs_fresh = sample_ids, xs_next = 0\<rparr>"

definition sample_variable :: set_variable where
  "sample_variable = \<lparr>sv_definition = ''d1'', sv_name = ''x'', sv_context = ''local'', sv_value_type = ''json'',
     sv_value = JObj [(''a'', JList [JInt 1, JNull])], sv_function = None, sv_target = None\<rparr>"

definition sample_operations :: "operation list" where
  "sample_operations = [\<lparr>op_id = ''c1'', op_configuration = JObj [(''commandCode'', JStr ''sleep''),
     (''commandType'', JStr ''action''), (''duration'', JInt 1)], op_description = [], op_order = 1\<rparr>]"

lemma sample_in_item: "in_item sample_exec_state" "command_ids_ok sample_exec_state"
proof -
  show "in_item sample_exec_state"
    by (simp add: in_item_def sample_exec_state_def sample_env_def current_var_def text_of_def no_vars_def)
      code_simp
  have "inj sample_ids"
    by (rule injI) (metis sample_ids_def length_replicate nat.inject)
  then show "command_ids_ok sample_exec_state"
    by (simp add: command_ids_ok_def sample_exec_state_def sample_ids_def)
qed

section \<open>Properties\<close>

text \<open>C4. Inside an item of a suite, a list of commands leaves one row per command it reached, in order,
  each with its own identifier: all of them successes up to the first that fails, and none after it. Every
  row that says success or error is reported by exactly one event \<open>command_finished\<close> with the same command
  and status, in the same order, among the lines of the log. Only a command whose configuration does not
  convert leaves a row that says running and no event.
\<close>

theorem commands_reported_once:
  assumes run: "execute_operations pyd (execute_operation io) ops data scope st = (r, st')"
    and item: "in_item st" and ok: "command_ids_ok st"
  shows "\<exists>ts. command_trace pyd ops r ts \<and> shows_run ts st st'"
proof -
  define st1 where "st1 = on_env (publish_runtime_log_event ''OPERATION_EXECUTION'' ''N/A'' ''INFO''
      (''Starting execution '' @ nat_text (length ops) @ '' commands'') (Val VNone)) st"
  have start: "shows_run [] st st1"
    using ok by (auto simp: st1_def shows_run_def on_env_def publish_runtime_log_event_def publish_current_def
        publish_def command_ids_ok_def event_reports_def)
  then have "command_ids_ok st1" by (simp add: shows_run_def)
  moreover have "in_item st1" using start item by (rule shows_run_in_item)
  moreover obtain scope' where "execute_each pyd (execute_operation io) scope' ops data [] st1 = (r, st')"
    using run by (auto simp: execute_operations_def st1_def)
  ultimately obtain ts where ts: "command_trace pyd ops r ts" "shows_run ts st1 st'"
    using commands.execute_each_shows by blast
  from shows_run_append [OF start ts(2)] ts(1) show ?thesis by auto
qed

theorem commands_reported_once_witness:
  "\<exists>ts. command_trace strict_types sample_operations
      (fst (execute_operations strict_types (execute_operation idle_services)
        sample_operations VNone None sample_exec_state)) ts \<and>
    shows_run ts sample_exec_state
      (snd (execute_operations strict_types (execute_operation idle_services)
        sample_operations VNone None sample_exec_state))"
  by (rule commands_reported_once [OF prod.collapse [symmetric] sample_in_item])

text \<open>C22. \<open>receiveQueue\<close> always ends. Whatever the queue answers, as long as a poll gives no more than it
  was asked for: it takes at most the configured number of messages, pauses at most once per retry, and polls
  at most once per message, once per retry and once more. Fewer messages than configured come back only after
  every retry was used.
\<close>

theorem receive_queue_bounded:
  assumes polls: "counts_polls io polls pauses"
    and run: "receive_loop io connection c retries [] w = (r, w')"
  shows "pauses w' \<le> pauses w + retries \<and> polls w' \<le> polls w + nat (rv_max_messages c) + retries + 1 \<and>
    (\<forall>ms. r = Inr ms \<longrightarrow> int (length ms) \<le> max 0 (rv_max_messages c) \<and>
       (int (length ms) < rv_max_messages c \<longrightarrow> pauses w' = pauses w + retries))"
  using receive_loop_counts [OF polls run] by simp

theorem receive_queue_bounded_witness:
  "\<exists>r polls pauses. receive_loop idle_services JNull sample_queue 3 [] (0, 0) = (r, polls, pauses) \<and>
     pauses \<le> 3 \<and> polls \<le> 14 \<and> (\<forall>ms. r = Inr ms \<longrightarrow> length ms < 10 \<longrightarrow> pauses = 3)"
proof -
  have counts: "counts_polls idle_services fst snd"
    by (auto simp: counts_polls_def idle_services_def split: if_splits)
  obtain r polls pauses where run: "receive_loop idle_services JNull sample_queue 3 [] (0, 0) = (r, polls, pauses)"
    by (metis prod_cases3)
  with receive_queue_bounded [OF counts run] show ?thesis
    by (simp add: sample_queue_def)
qed

text \<open>C21. A variable that \<open>setVariable\<close> writes is what a later command reads through the variable's
  definition, as its input or in an HTTP node: for every scope that may be written in the current item and every
  plain name, the same object comes back, its JSON value is the configured one, and its type is the one
  of the definition. The one exception is a text that is the path of the variable itself, which reads as unresolved.
\<close>

theorem set_variable_read_back:
  assumes rc: "current_context (en_py e) = Some rc" and r: "sv_context c \<in> set scope_names"
    and free: "immutable_in_test rc (sv_context c) = Inr ()" and k: "plain_key (sv_name c)"
    and con: "constants_dict (objects (en_py e)) (scope_address rc (sv_context c)) a d"
    and ty: "sv_value_type c = ''value'' \<or> sv_value_type c = ''json''"
    and df: "io_definition io (en_world e) i = Some df" "df_scope df = sv_context c" "df_name df = sv_name c" "i \<noteq> []"
    and other: "sv_value c \<noteq> JStr (dotted [sv_context c, ''constants'', sv_name c])"
  shows "\<exists>v res e' e'' e3. execute_operation io op (SetVariable c) data e = (Inr (v, res), e') \<and>
    json_of (objects (en_py e')) v = Inr (sv_value c) \<and>
    resolve_input_reference io (Some (RuntimeValue i)) data' e' =
      (Inr (v, or_text (df_value_type df) ''json''), e'') \<and>
    resolve_http_node io (RuntimeNode i None) e' = (Inr v, e3)"
proof -
  from set_variable_stores [OF rc r free k con ty, of io op data] obtain v res e' where
    set: "execute_operation io op (SetVariable c) data e = (Inr (v, res), e')"
    and json: "json_of (objects (en_py e')) v = Inr (sv_value c)" and world: "en_world e' = en_world e"
    and rc': "current_context (en_py e') = Some rc"
    and con': "constants_dict (objects (en_py e')) (scope_address rc (sv_context c)) a (dict_set (sv_name c) v d)"
    by blast
  have "v \<noteq> VStr (dotted [sv_context c, ''constants'', sv_name c])"
    using json other by (auto simp: json_of_def)
  from definition_value_stored [OF rc' r k con' _ _ df(2,3) this] df(1) world obtain e1 where
    "definition_value io i e' = (Inr (df, Some v), e1)" "en_world e1 = en_world e'"
    by auto
  from references_read [OF this _ df(4)] df(1) world set json show ?thesis by metis
qed

theorem set_variable_read_back_witness:
  "\<exists>v res e' e'' e3. execute_operation idle_services ''c1'' (SetVariable sample_variable) VNone sample_env =
      (Inr (v, res), e') \<and>
    json_of (objects (en_py e')) v = Inr (JObj [(''a'', JList [JInt 1, JNull])]) \<and>
    resolve_input_reference idle_services (Some (RuntimeValue ''d1'')) VNone e' = (Inr (v, ''json''), e'') \<and>
    resolve_http_node idle_services (RuntimeNode ''d1'' None) e' = (Inr v, e3)"
proof -
  have "current_context (en_py sample_env) = Some sample_context" "sv_context sample_variable = ''local''"
    "immutable_in_test sample_context ''local'' = Inr ()" "plain_key ''x''"
    "constants_dict (objects (en_py sample_env)) (scope_address sample_context ''local'') 5 []"
    using sample_state_eval by (simp_all add: sample_env_def sample_variable_def) code_simp
  then show ?thesis
    using set_variable_read_back [of sample_env sample_context sample_variable "5" "[]" idle_services "''d1''"
        "\<lparr>df_name = ''x'', df_scope = ''local'', df_value_type = ''json''\<rparr>" "''c1''" VNone VNone]
    by (simp add: sample_variable_def scope_names_def idle_services_def sample_env_def or_text_def)
qed

end
