(* ===== verification/PerimeterProps.thy ===== *)
theory PerimeterProps
  imports Perimeter
begin

text \<open>
  Properties of perimeters: what \<open>normalize\<close> accepts is in a normal form, and a perimeter in normal
  form compiles to a statement on the columns of its table.
\<close>

section \<open>Words that normalise to themselves\<close>

lemma jget_simps [simp]:
  "jget ((k, v) # d) k' = (if k' = k then v else jget d k')" "jget [] k' = JNull"
  by (simp_all add: jget_def dict_get_Cons)

lemma jget_append: "jget (d @ e) k = (if dict_get d k = None then jget e k else jget d k)"
  by (induction d) (auto simp: jget_def dict_get_def split: option.splits)

lemma fields_of_JObj [simp]: "fields_of (JObj d) = d"
  by simp

lemma lower_words:
  "op \<in> set supported_operators \<Longrightarrow> py_lower (token (JStr op)) = op"
  "ty \<in> set parameter_types \<Longrightarrow> py_lower (token (JStr ty)) = ty"
  "dir \<in> set [''asc'', ''desc''] \<Longrightarrow> py_lower (token_or ''asc'' (JStr dir)) = dir"
  "l \<in> set [''AND'', ''OR''] \<Longrightarrow> py_upper (token_or ''AND'' (JStr l)) = l"
proof -
  have "list_all (\<lambda>op. py_lower (token (JStr op)) = op) supported_operators"
    "list_all (\<lambda>ty. py_lower (token (JStr ty)) = ty) parameter_types"
    "list_all (\<lambda>dir. py_lower (token_or ''asc'' (JStr dir)) = dir) [''asc'', ''desc'']"
    "list_all (\<lambda>l. py_upper (token_or ''AND'' (JStr l)) = l) [''AND'', ''OR'']"
    by code_simp+
  then show
    "op \<in> set supported_operators \<Longrightarrow> py_lower (token (JStr op)) = op"
    "ty \<in> set parameter_types \<Longrightarrow> py_lower (token (JStr ty)) = ty"
    "dir \<in> set [''asc'', ''desc''] \<Longrightarrow> py_lower (token_or ''asc'' (JStr dir)) = dir"
    "l \<in> set [''AND'', ''OR''] \<Longrightarrow> py_upper (token_or ''AND'' (JStr l)) = l"
    by (simp_all only: list_all_iff)
qed

lemma lower_literals [simp]:
  "py_lower (token (JStr ''parameter'')) = ''parameter''" "py_lower (token (JStr ''built_in'')) = ''built_in''"
  "py_lower (token_or ''condition'' (JStr ''group'')) = ''group''"
  "py_lower (token_or ''condition'' (JStr ''condition'')) = ''condition''"
  by code_simp+

lemma resolver_words: "r \<in> set builtin_resolvers \<Longrightarrow> token (JStr r) = r"
proof -
  have "list_all (\<lambda>r. token (JStr r) = r) builtin_resolvers" by code_simp
  then show "r \<in> set builtin_resolvers \<Longrightarrow> token (JStr r) = r" by (simp only: list_all_iff)
qed

section \<open>Coercion gives values of the type\<close>

lemma map_error_Inr [simp]: "map_error f r = Inr x \<longleftrightarrow> r = Inr x"
  by (cases r) (simp_all add: map_error_def)

lemma iso_lawsD:
  assumes "iso_laws P"
  shows "iso_date P s = Some t \<Longrightarrow> iso_date P t = Some t \<and> py_strip t = t"
    and "iso_datetime P s = Some t \<Longrightarrow> iso_datetime P t = Some t \<and> py_strip t = t \<and> \<not> ends_with ''Z'' t \<and>
      iso_date P (take 10 t) = Some (take 10 t) \<and> py_strip (take 10 t) = take 10 t"
  using assms unfolding iso_laws_def iso_text_def by metis+

lemma coerce_datetime_again:
  assumes "iso_laws P" and "coerce_datetime P (PJson v) = Inr t"
  shows "coerce_datetime P (PJson (JStr t)) = Inr t" and "coerce_date P (PJson (JStr (take 10 t))) = Inr (take 10 t)"
proof -
  from assms(2) obtain s where "iso_datetime P s = Some t"
    by (cases v) (auto simp: Let_def split: option.splits if_splits)
  from iso_lawsD(2) [OF assms(1) this]
  show "coerce_datetime P (PJson (JStr t)) = Inr t" "coerce_date P (PJson (JStr (take 10 t))) = Inr (take 10 t)"
    by (simp_all add: Let_def)
qed

lemma coerce_date_again:
  assumes "iso_laws P" and "coerce_date P (PJson v) = Inr d"
  shows "coerce_date P (PJson (JStr d)) = Inr d"
proof (cases v)
  case (JStr s)
  show ?thesis
  proof (cases "iso_date P (py_strip s)")
    case None
    with assms(2) JStr obtain t where "coerce_datetime P (PJson (JStr (py_strip s))) = Inr t" "d = take 10 t"
      by (auto simp: result_simps simp del: coerce_datetime.simps)
    then show ?thesis using coerce_datetime_again(2) [OF assms(1)] by blast
  next
    case (Some t)
    with assms(2) JStr have "d = t" by simp
    with iso_lawsD(1) [OF assms(1) Some] show ?thesis by simp
  qed
qed (use assms in auto)

lemma coerce_json_again:
  "coerce_integer v = Inr w \<Longrightarrow> coerce_integer w = Inr w"
  "coerce_number P v = Inr w \<Longrightarrow> coerce_number P w = Inr w"
  "coerce_boolean v = Inr w \<Longrightarrow> coerce_boolean w = Inr w"
  by (cases v; auto simp: result_simps split: if_splits option.splits)+

lemma coerce_value_of_type:
  assumes "ty \<in> set parameter_types" and "v \<noteq> JNull"
  shows "coerce_value P (JStr ty) (PJson v) =
     (if ty = ''string'' then Inr (PJson (JStr (json_str v)))
      else if ty = ''integer'' then rbind (coerce_integer v) (\<lambda>w. Inr (PJson w))
      else if ty = ''number'' then rbind (coerce_number P v) (\<lambda>w. Inr (PJson w))
      else if ty = ''boolean'' then rbind (coerce_boolean v) (\<lambda>w. Inr (PJson w))
      else if ty = ''date'' then rbind (coerce_date P (PJson v)) (\<lambda>d. Inr (PDate d))
      else rbind (coerce_datetime P (PJson v)) (\<lambda>d. Inr (PDateTime d)))"
  unfolding coerce_value_def lower_words(2) [OF assms(1)] Let_def using assms by simp

lemma coerce_not_null:
  "coerce_integer v \<noteq> Inr JNull" "coerce_number P v \<noteq> Inr JNull" "coerce_boolean v \<noteq> Inr JNull"
  by (cases v; auto simp: result_simps split: option.splits)+

lemma one_of_six: "x \<in> set [a, b, c, d, e, f] \<Longrightarrow> \<not> (x = e \<or> x = f) \<Longrightarrow> x = a \<or> x = b \<or> x = c \<or> x = d"
  by auto

lemma coerce_again:
  assumes "iso_laws P" and ty: "ty \<in> set parameter_types" and "coerce_value P (JStr ty) (PJson v) = Inr w"
    and v: "v \<noteq> JNull"
  shows "coerce_value P (JStr ty) (PJson (serialize_default w)) = Inr w \<and> serialize_default w \<noteq> JNull"
proof (cases "ty = ''date'' \<or> ty = ''datetime''")
  case True
  with assms(3) coerce_value_of_type [OF ty v] obtain d where
    "ty = ''date'' \<and> coerce_date P (PJson v) = Inr d \<and> w = PDate d \<or>
     ty = ''datetime'' \<and> coerce_datetime P (PJson v) = Inr d \<and> w = PDateTime d"
    by (auto simp: rbind_Inr_iff simp del: coerce_date.simps coerce_datetime.simps)
  then show ?thesis
    using coerce_date_again [OF assms(1), of v d] coerce_datetime_again(1) [OF assms(1), of v d]
      coerce_value_of_type [OF ty]
    by (elim disjE) (simp_all del: coerce_date.simps coerce_datetime.simps)
next
  case False
  from one_of_six [OF ty [unfolded parameter_types_def] False] show ?thesis
  proof (elim disjE, goal_cases)
    case 1
    with assms(3) coerce_value_of_type [OF ty v, of P] have "w = PJson (JStr (json_str v))" by simp
    with 1 coerce_value_of_type [OF ty, of "JStr (json_str v)" P] show ?thesis by simp
  next
    case 2
    with assms(3) coerce_value_of_type [OF ty v, of P] obtain x where
      x: "coerce_integer v = Inr x" "w = PJson x"
      by (cases "coerce_integer v") auto
    then have "coerce_integer x = Inr x" "x \<noteq> JNull"
      by (simp_all only: coerce_json_again) (metis coerce_not_null)
    with coerce_value_of_type [OF ty \<open>x \<noteq> JNull\<close>, of P] 2 x(2) show ?thesis by simp
  next
    case 3
    with assms(3) coerce_value_of_type [OF ty v, of P] obtain x where
      x: "coerce_number P v = Inr x" "w = PJson x"
      by (cases "coerce_number P v") auto
    then have "coerce_number P x = Inr x" "x \<noteq> JNull"
      by (simp_all only: coerce_json_again) (metis coerce_not_null)
    with coerce_value_of_type [OF ty \<open>x \<noteq> JNull\<close>, of P] 3 x(2) show ?thesis by simp
  next
    case 4
    with assms(3) coerce_value_of_type [OF ty v, of P] obtain x where
      x: "coerce_boolean v = Inr x" "w = PJson x"
      by (cases "coerce_boolean v") auto
    then have "coerce_boolean x = Inr x" "x \<noteq> JNull"
      by (simp_all only: coerce_json_again) (metis coerce_not_null)
    with coerce_value_of_type [OF ty \<open>x \<noteq> JNull\<close>, of P] 4 x(2) show ?thesis by simp
  qed
qed

section \<open>Each part normalises to itself\<close>

lemma default_binding_again:
  "normalize_default_binding raw path = Inr b \<Longrightarrow> normalize_default_binding b path' = Inr b \<and> b \<noteq> JNull"
  by (cases raw) (auto simp: normalize_default_binding_def Let_def resolver_words split: if_splits)

lemma default_value_again:
  assumes "iso_laws P" and "ty \<in> set parameter_types" and "normalize_default_value P ty path v = Inr w"
  shows "normalize_default_value P ty path' w = Inr w"
proof (cases "v = JNull")
  case True
  with assms(3) show ?thesis by (simp add: normalize_default_value_def)
next
  case False
  with assms(3) obtain x where "coerce_value P (JStr ty) (PJson v) = Inr x" "w = serialize_default x"
    by (auto simp: normalize_default_value_def rbind_Inr_iff)
  with coerce_again [OF assms(1,2) _ False] show ?thesis
    by (auto simp: normalize_default_value_def rbind_Inr_iff)
qed

text \<open>A definition in normal form, and its name.\<close>

definition definition_normal :: "text_parsers \<Rightarrow> string \<Rightarrow> json dict \<Rightarrow> bool" where
  "definition_normal P name d \<longleftrightarrow>
     (\<forall>path. normalize_parameter_definition P (JObj d) path = Inr d) \<and> jget d ''name'' = JStr name \<and>
     name \<noteq> [] \<and> token (JStr name) = name \<and> (\<exists>ty \<in> set parameter_types. jget d ''type'' = JStr ty)"

lemma parameter_definition_again:
  assumes "iso_laws P" and "normalize_parameter_definition P raw path = Inr d"
  shows "definition_normal P (str_or_empty (jget d ''name'')) d"
proof (cases raw)
  case (JObj r)
  let ?name = "token (jget r ''name'')" and ?ty = "py_lower (token (jget r ''type''))"
  let ?description = "if token (jget r ''description'') = [] then JNull else JStr (token (jget r ''description''))"
  from assms(2) JObj obtain val bnd where
    name: "?name \<noteq> []" and ty: "?ty \<in> set parameter_types"
    and one: "\<not> (dict_get r ''default_value'' \<noteq> None \<and> jget r ''default_binding'' \<noteq> JNull)"
    and val: "(case dict_get r ''default_value'' of None \<Rightarrow> Inr []
        | Some v \<Rightarrow> rbind (normalize_default_value P ?ty path v) (\<lambda>w. Inr [(''default_value'', w)])) = Inr val"
    and bnd: "(if jget r ''default_binding'' = JNull then Inr []
        else rbind (normalize_default_binding (jget r ''default_binding'') (path @ ''.default_binding''))
          (\<lambda>b. Inr [(''default_binding'', b)])) = Inr bnd"
    and d: "d = [(''name'', JStr ?name), (''type'', JStr ?ty), (''description'', ?description)] @ val @ bnd"
    by (auto simp: normalize_parameter_definition_def Let_def rbind_Inr_iff split: if_splits)
  have tok: "token ?description = token (jget r ''description'')"
    by (simp add: token_idem) (simp add: token_def)
  have parts: "jget d ''name'' = JStr ?name" "jget d ''type'' = JStr ?ty" "jget d ''description'' = ?description"
    by (simp_all add: d)
  have again: "normalize_parameter_definition P (JObj d) path' = Inr d" for path'
  proof (cases "dict_get r ''default_value''")
    case None
    with val have val': "val = []" by simp
    show ?thesis
    proof (cases "jget r ''default_binding'' = JNull")
      case True
      with bnd have "bnd = []" by simp
      with val' show ?thesis
        using name ty parts tok lower_words(2) [OF ty]
        by (simp add: normalize_parameter_definition_def Let_def d dict_get_Cons)
    next
      case False
      with bnd obtain b where b: "normalize_default_binding (jget r ''default_binding'') (path @ ''.default_binding'') = Inr b"
        "bnd = [(''default_binding'', b)]"
        by (auto simp: rbind_Inr_iff)
      with val' show ?thesis
        using name ty parts tok lower_words(2) [OF ty] default_binding_again [OF b(1)]
        by (simp add: normalize_parameter_definition_def Let_def d dict_get_Cons)
    qed
  next
    case (Some v)
    with one bnd have bnd': "bnd = []" by simp
    from val Some obtain w where w: "normalize_default_value P ?ty path v = Inr w" "val = [(''default_value'', w)]"
      by (auto simp: rbind_Inr_iff)
    with bnd' show ?thesis
      using name ty parts tok lower_words(2) [OF ty] default_value_again [OF assms(1) ty w(1)]
      by (simp add: normalize_parameter_definition_def Let_def d dict_get_Cons)
  qed
  then show ?thesis
    using name ty parts by (auto simp: definition_normal_def)
qed (use assms in \<open>auto simp: normalize_parameter_definition_def\<close>)

definition parameters_normal :: "text_parsers \<Rightarrow> json dict dict \<Rightarrow> bool" where
  "parameters_normal P ps \<longleftrightarrow> (\<forall>(name, d) \<in> set ps. definition_normal P name d) \<and> distinct (map fst ps)"

lemma parameter_fold:
  assumes "iso_laws P"
  shows "foldM (parameter_step P) acc (enumerate i xs) = Inr ps \<Longrightarrow> parameters_normal P acc \<Longrightarrow>
    parameters_normal P ps"
proof (induction xs arbitrary: acc i)
  case (Cons x xs)
  from Cons.prems(1) obtain acc1 where step: "parameter_step P acc (i, x) = Inr acc1"
    and rest: "foldM (parameter_step P) acc1 (enumerate (Suc i) xs) = Inr ps"
    by (auto simp: rbind_Inr_iff)
  from step obtain d where d: "normalize_parameter_definition P x (at_index ''parameters'' i) = Inr d"
    "dict_get acc (str_or_empty (jget d ''name'')) = None" "acc1 = acc @ [(str_or_empty (jget d ''name''), d)]"
    by (auto simp: parameter_step_def rbind_Inr_iff Let_def split: if_splits)
  have "parameters_normal P (acc @ [(str_or_empty (jget d ''name''), d)])"
    using Cons.prems(2) parameter_definition_again [OF assms d(1)] d(2)
    by (auto simp: parameters_normal_def dict_get_def map_of_eq_None_iff)
  with Cons.IH [OF rest] d(3) show ?case by simp
qed simp

lemma parameter_fold_again:
  "parameters_normal P (acc @ ps) \<Longrightarrow>
    foldM (parameter_step P) acc (enumerate i (map (\<lambda>nd. JObj (snd nd)) ps)) = Inr (acc @ ps)"
proof (induction ps arbitrary: acc i)
  case (Cons nd ps)
  obtain n d where nd: "nd = (n, d)" by fastforce
  with Cons.prems have "definition_normal P n d" "dict_get acc n = None"
    by (auto simp: parameters_normal_def dict_get_def map_of_eq_None_iff)
  with Cons.IH [of "acc @ [(n, d)]"] Cons.prems nd show ?case
    by (simp add: parameter_step_def definition_normal_def Let_def)
qed simp

lemma normalize_parameters_again:
  assumes "iso_laws P" and "normalize_parameters P raw = Inr ps"
  shows "parameters_normal P ps"
    and "normalize_parameters P (JList (map (\<lambda>nd. JObj (snd nd)) ps)) = Inr ps"
proof -
  show ok: "parameters_normal P ps"
    using assms parameter_fold [OF assms(1), of "[]"]
    by (cases raw) (auto simp: normalize_parameters_def parameters_normal_def)
  then show "normalize_parameters P (JList (map (\<lambda>nd. JObj (snd nd)) ps)) = Inr ps"
    using parameter_fold_again [of P "[]" ps 0] by (simp add: normalize_parameters_def)
qed

lemma column_fold:
  "foldM column_step acc xs = Inr cs \<Longrightarrow> (\<forall>c \<in> set acc. c \<noteq> [] \<and> py_strip c = c) \<Longrightarrow> distinct acc \<Longrightarrow>
    (\<forall>c \<in> set cs. c \<noteq> [] \<and> py_strip c = c) \<and> distinct cs"
proof (induction xs arbitrary: acc)
  case (Cons x xs)
  from Cons.prems(1) obtain acc1 where "column_step acc x = Inr acc1" and rest: "foldM column_step acc1 xs = Inr cs"
    by (auto simp: rbind_Inr_iff)
  then have "token x \<noteq> []" "token x \<notin> set acc" "acc1 = acc @ [token x]"
    by (auto simp: column_step_def Let_def split: if_splits)
  with Cons.prems(2,3) show ?case
    by (intro Cons.IH [OF rest]) (auto simp: token_def)
qed simp

lemma column_fold_again:
  "(\<forall>c \<in> set cs. c \<noteq> [] \<and> py_strip c = c) \<Longrightarrow> distinct (acc @ cs) \<Longrightarrow>
    foldM column_step acc (map JStr cs) = Inr (acc @ cs)"
  by (induction cs arbitrary: acc) (auto simp: column_step_def token_def)

lemma normalize_columns_again:
  "normalize_selected_columns raw = Inr (Some cs) \<Longrightarrow>
    normalize_selected_columns (JList (map JStr cs)) = Inr (Some cs)"
  using column_fold [of "[]" _ cs] column_fold_again [of cs "[]"]
  by (cases raw) (auto simp: normalize_selected_columns_def rbind_Inr_iff)

lemma parameter_ref_normal:
  "is_parameter_ref (JObj [(''kind'', JStr ''parameter''), (''name'', JStr n)])"
  by (simp add: is_parameter_ref_def)

lemma filter_value_again:
  "normalize_filter_value params raw path op = Inr w \<Longrightarrow> normalize_filter_value params w path' op = Inr w"
  by (auto simp: normalize_filter_value_def Let_def parameter_ref_normal split: if_splits option.splits)

lemma filter_condition_form:
  assumes "normalize_filter_condition params raw path = Inr c"
  obtains (null) field op where "token (JStr field) = field" "field \<noteq> []" "op \<in> set supported_operators"
      "op \<in> set null_operators" "c = [(''field'', JStr field), (''operator'', JStr op)]"
    | (operand) field op u v where "token (JStr field) = field" "field \<noteq> []" "op \<in> set supported_operators"
      "op \<notin> set null_operators" "c = [(''field'', JStr field), (''operator'', JStr op), (''value'', v)]"
      "normalize_filter_value params u (path @ ''.value'') op = Inr v"
proof (cases raw)
  case (JObj d)
  let ?field = "token (jget d ''field'')" and ?op = "py_lower (token (jget d ''operator''))"
  have field: "token (JStr ?field) = ?field" by (rule token_idem)
  show ?thesis
  proof (cases "?op \<in> set null_operators")
    case True
    with assms JObj null [OF field, of ?op] show ?thesis
      by (simp add: normalize_filter_condition_def Let_def split: if_splits)
  next
    case False
    with assms JObj obtain u v where "normalize_filter_value params u (path @ ''.value'') ?op = Inr v"
      "c = [(''field'', JStr ?field), (''operator'', JStr ?op), (''value'', v)]" "?field \<noteq> []"
      "?op \<in> set supported_operators"
      by (auto simp: normalize_filter_condition_def Let_def rbind_Inr_iff split: if_splits option.splits)
    with False field show ?thesis by (intro operand)
  qed
qed (use assms in \<open>auto simp: normalize_filter_condition_def\<close>)

lemma filter_condition_again:
  assumes "normalize_filter_condition params raw path = Inr c"
  shows "normalize_filter_condition params (JObj c) path' = Inr c"
    and "normalize_filter_condition params (JObj ((''kind'', k) # c)) path' = Inr c"
proof -
  have "normalize_filter_condition params (JObj c) path' = Inr c \<and>
    normalize_filter_condition params (JObj ((''kind'', k) # c)) path' = Inr c"
    using assms
  proof (cases rule: filter_condition_form)
    case null
    with lower_words(1) [OF null(3)] show ?thesis
      by (simp add: normalize_filter_condition_def Let_def)
  next
    case (operand field op u v)
    with lower_words(1) [OF operand(3)] filter_value_again [OF operand(6)] show ?thesis
      by (simp add: normalize_filter_condition_def Let_def dict_get_Cons)
  qed
  then show "normalize_filter_condition params (JObj c) path' = Inr c"
    "normalize_filter_condition params (JObj ((''kind'', k) # c)) path' = Inr c"
    by blast+
qed

lemma conditions_again:
  "mapM (\<lambda>ir. rbind (normalize_filter_condition params (snd ir) (at_index path (fst ir))) (\<lambda>c. Inr (JObj c)))
      (enumerate i raws) = Inr cs \<Longrightarrow>
   mapM (\<lambda>ir. rbind (normalize_filter_condition params (snd ir) (at_index path' (fst ir))) (\<lambda>c. Inr (JObj c)))
      (enumerate j cs) = Inr cs"
proof (induction raws arbitrary: i j cs)
  case (Cons raw raws)
  then show ?case
    by (auto simp: rbind_Inr_iff filter_condition_again(1))
qed simp

lemma group_item_again:
  assumes "logic \<in> set [''AND'', ''OR'']" and "normalize_conditions params raws path = Inr cs" and "cs \<noteq> []"
  shows "normalize_filter_item params (group_item logic cs) path' = Inr (group_item logic cs)"
proof -
  have "normalize_conditions params cs (path' @ ''.conditions'') = Inr cs"
    using assms(2) unfolding normalize_conditions_def by (rule conditions_again)
  with assms(1,3) lower_words(4) [OF assms(1)] show ?thesis
    by (simp add: normalize_filter_item_def group_item_def Let_def list_or_empty_def)
qed

lemma filter_item_form:
  assumes "normalize_filter_item params raw path = Inr it"
  obtains (grp) raws path' logic cs where "normalize_conditions params raws path' = Inr cs" "cs \<noteq> []"
      "logic \<in> set [''AND'', ''OR'']" "it = group_item logic cs"
    | (con) path' x c where "normalize_filter_condition params x path' = Inr c" "it = JObj ((''kind'', JStr ''condition'') # c)"
proof (cases raw)
  case (JObj d)
  with assms show ?thesis
    by (auto simp: normalize_filter_item_def Let_def rbind_Inr_iff split: if_splits intro: that)
qed (use assms in \<open>auto simp: normalize_filter_item_def\<close>)

lemma filter_item_again:
  assumes "normalize_filter_item params raw path = Inr it"
  shows "normalize_filter_item params it path' = Inr it"
  using assms
proof (cases rule: filter_item_form)
  case (grp raws path'' logic cs)
  then show ?thesis by (simp only: group_item_again [OF grp(3,1,2)])
next
  case (con path'' x c)
  then show ?thesis
    using filter_condition_again(2) [OF con(1)] by (simp add: normalize_filter_item_def Let_def)
qed

lemma items_again: "normalize_items params raws = Inr its \<Longrightarrow> normalize_items params its = Inr its"
proof -
  have "mapM (\<lambda>ir. normalize_filter_item params (snd ir) (at_index p (fst ir))) (enumerate i raws) = Inr its \<Longrightarrow>
      mapM (\<lambda>ir. normalize_filter_item params (snd ir) (at_index p (fst ir))) (enumerate j its) = Inr its" for i j p
  proof (induction raws arbitrary: i j its)
    case (Cons raw raws)
    then show ?case by (auto simp: rbind_Inr_iff filter_item_again)
  qed simp
  then show "normalize_items params raws = Inr its \<Longrightarrow> normalize_items params its = Inr its"
    unfolding normalize_items_def .
qed

lemma group_items_again:
  assumes "logic \<in> set [''AND'', ''OR'']" and "normalize_conditions params raws path = Inr cs" and "cs \<noteq> []"
  shows "normalize_items params [group_item logic cs] = Inr [group_item logic cs]"
  using group_item_again [OF assms] by (simp add: normalize_items_def)

lemma filter_form:
  assumes "normalize_filter params raw = Inr (Some f)"
  obtains logic its where "logic \<in> set [''AND'', ''OR'']" "its \<noteq> []"
    "f = JObj [(''logic'', JStr logic), (''items'', JList its)]" "normalize_items params its = Inr its"
proof (cases raw)
  case (JObj d)
  let ?logic = "py_upper (token_or ''AND'' (jget d ''logic''))"
  let ?conditions = "rbind (list_or_empty (jget d ''conditions'') ''filter.conditions must be an array.'') (\<lambda>raws.
      rbind (normalize_conditions params raws ''filter.conditions'') (\<lambda>cs.
        Inr (if cs = [] then [] else [group_item ?logic cs])))"
  let ?items = "rbind (list_or_empty (jget d ''items'') ''filter.items must be an array.'') (normalize_items params)"
  let ?rows = "if jget d ''items'' \<noteq> JNull then ?items else ?conditions"
  from assms JObj have logic: "?logic \<in> set [''AND'', ''OR'']"
    by (cases "?logic \<in> set [''AND'', ''OR'']") (simp_all add: normalize_filter_def Let_def)
  with assms JObj have "rbind ?rows (\<lambda>its. Inr (if its = [] then None
      else Some (JObj [(''logic'', JStr ?logic), (''items'', JList its)]))) = Inr (Some f)"
    by (simp only: normalize_filter_def Let_def json.case not_not if_False simp_thms)
  from rbind_Inr_iff [THEN iffD1, OF this] obtain its where rows: "?rows = Inr its"
    and some: "(if its = [] then None else Some (JObj [(''logic'', JStr ?logic), (''items'', JList its)])) = Some f"
    by (elim exE conjE) (simp only: sum.inject)
  from some have its: "its \<noteq> []" and f: "f = JObj [(''logic'', JStr ?logic), (''items'', JList its)]"
    by (simp_all split: if_splits)
  from rows have items: "?items = Inr its \<or> ?conditions = Inr its"
    by presburger
  from items have "normalize_items params its = Inr its"
  proof
    assume "?items = Inr its"
    then show ?thesis by (auto simp: rbind_Inr_iff intro: items_again)
  next
    assume "?conditions = Inr its"
    then obtain raws cs where "normalize_conditions params raws ''filter.conditions'' = Inr cs"
      "its = (if cs = [] then [] else [group_item ?logic cs])"
      by (auto simp only: rbind_Inr_iff sum.inject)
    with its group_items_again [OF logic] show ?thesis by (auto split: if_splits)
  qed
  with logic its f show ?thesis by (intro that)
qed (use assms in \<open>auto simp: normalize_filter_def\<close>)

lemma filter_again:
  assumes "normalize_filter params raw = Inr (Some f)"
  shows "normalize_filter params f = Inr (Some f)"
  using assms
proof (cases rule: filter_form)
  case (1 logic its)
  with lower_words(4) [OF 1(1)] show ?thesis
    by (simp add: normalize_filter_def Let_def list_or_empty_def)
qed

lemma sort_item_form:
  assumes "normalize_sort_item ix = Inr y"
  obtains field dir where "token (JStr field) = field" "field \<noteq> []" "dir \<in> set [''asc'', ''desc'']"
    "y = JObj [(''field'', JStr field), (''direction'', JStr dir)]"
proof (cases "snd ix")
  case (JObj d)
  from assms JObj show ?thesis
    by (intro that [of "token (jget d ''field'')" "py_lower (token_or ''asc'' (jget d ''direction''))"])
      (simp_all add: normalize_sort_item_def Let_def token_idem split: if_splits)
qed (use assms in \<open>auto simp: normalize_sort_item_def\<close>)

lemma sort_item_again:
  assumes "normalize_sort_item ix = Inr y"
  shows "normalize_sort_item (j, y) = Inr y"
  using assms
proof (cases rule: sort_item_form)
  case (1 field dir)
  with lower_words(3) [OF 1(3)] show ?thesis by (simp add: normalize_sort_item_def Let_def)
qed

lemma sort_items_again:
  "mapM normalize_sort_item (enumerate i xs) = Inr ss \<Longrightarrow> mapM normalize_sort_item (enumerate j ss) = Inr ss"
proof (induction xs arbitrary: i j ss)
  case (Cons x xs)
  then show ?case by (auto simp: rbind_Inr_iff sort_item_again)
qed simp

lemma sort_again:
  assumes "normalize_sort raw = Inr (Some ss)"
  shows "normalize_sort (JList ss) = Inr (Some ss)"
  using assms sort_items_again [of 0 _ ss 0]
  by (cases raw) (auto simp: normalize_sort_def rbind_Inr_iff)

section \<open>The whole perimeter\<close>

text \<open>The normal form of a perimeter with the given parts.\<close>

definition perimeter_of ::
  "json dict dict \<Rightarrow> string list option \<Rightarrow> json option \<Rightarrow> json list option \<Rightarrow> json dict" where
  "perimeter_of params columns filt order =
     (if params = [] then [] else [(''parameters'', JList (map (\<lambda>nd. JObj (snd nd)) params))]) @
     (case columns of None \<Rightarrow> [] | Some cs \<Rightarrow> [(''selected_columns'', JList (map JStr cs))]) @
     (case filt of None \<Rightarrow> [] | Some f \<Rightarrow> [(''filter'', f)]) @
     (case order of None \<Rightarrow> [] | Some ss \<Rightarrow> [(''sort'', JList ss)])"

lemma perimeter_of_fields [simp]:
  "jget (perimeter_of params columns filt order) ''parameters'' =
     (if params = [] then JNull else JList (map (\<lambda>nd. JObj (snd nd)) params))"
  "jget (perimeter_of params columns filt order) ''selected_columns'' =
     (case columns of None \<Rightarrow> JNull | Some cs \<Rightarrow> JList (map JStr cs))"
  "jget (perimeter_of params columns filt order) ''filter'' = (case filt of None \<Rightarrow> JNull | Some f \<Rightarrow> f)"
  "jget (perimeter_of params columns filt order) ''sort'' = (case order of None \<Rightarrow> JNull | Some ss \<Rightarrow> JList ss)"
  unfolding perimeter_of_def by (simp_all split: option.splits)

lemma normalize_perimeter_parts:
  "normalize_perimeter P (JObj d) =
     (if d = [] then Inr JNull
      else rbind (normalize_parameters P (jget d ''parameters'')) (\<lambda>params.
           rbind (normalize_selected_columns (jget d ''selected_columns'')) (\<lambda>columns.
           rbind (normalize_filter params (jget d ''filter'')) (\<lambda>filt.
           rbind (normalize_sort (jget d ''sort'')) (\<lambda>order.
             Inr (if perimeter_of params columns filt order = [] then JNull
                  else JObj (perimeter_of params columns filt order)))))))"
  unfolding normalize_perimeter_def perimeter_of_def Let_def by (simp only: json.case)

text \<open>The parts of a perimeter that was accepted.\<close>

lemma perimeter_parts:
  assumes "normalize_perimeter P p = Inr n"
  obtains (nothing) "n = JNull"
    | (parts) raw_params params raw_columns columns raw_filter filt raw_order order where
      "normalize_parameters P raw_params = Inr params" "normalize_selected_columns raw_columns = Inr columns"
      "normalize_filter params raw_filter = Inr filt" "normalize_sort raw_order = Inr order"
      "n = JObj (perimeter_of params columns filt order)" "perimeter_of params columns filt order \<noteq> []"
proof (cases p)
  case (JObj d)
  show ?thesis
  proof (cases "n = JNull")
    case False
    with assms JObj show ?thesis
      by (auto simp: normalize_perimeter_parts rbind_Inr_iff split: if_splits intro: parts)
  qed (rule nothing)
next
  case JNull
  show ?thesis by (rule nothing) (use assms JNull in \<open>simp add: normalize_perimeter_def\<close>)
qed (use assms in \<open>auto simp: normalize_perimeter_def\<close>)

lemma normalize_again:
  assumes "iso_laws P" and ok: "normalize_perimeter P p = Inr n"
  shows "normalize_perimeter P n = Inr n"
  using ok
proof (cases rule: perimeter_parts)
  case nothing
  then show ?thesis by (simp add: normalize_perimeter_def)
next
  case (parts raw_params params raw_columns columns raw_filter filt raw_order order)
  let ?d = "perimeter_of params columns filt order"
  have "normalize_parameters P (jget ?d ''parameters'') = Inr params"
    using normalize_parameters_again(2) [OF assms(1) parts(1)] by (simp add: normalize_parameters_def)
  moreover have "normalize_selected_columns (jget ?d ''selected_columns'') = Inr columns"
    using normalize_columns_again [of raw_columns] parts(2)
    by (cases columns) (simp_all add: normalize_selected_columns_def)
  moreover have "normalize_filter params (jget ?d ''filter'') = Inr filt"
    using filter_again [of params raw_filter] parts(3) by (cases filt) (simp_all add: normalize_filter_def)
  moreover have "normalize_sort (jget ?d ''sort'') = Inr order"
    using sort_again [of raw_order] parts(4) by (cases order) (simp_all add: normalize_sort_def)
  ultimately show ?thesis
    using parts(5,6) by (simp only: normalize_perimeter_parts rbind_simps if_False)
qed

section \<open>Compilation on the columns of a table\<close>

text \<open>The columns that a statement reads, and those that a perimeter names.\<close>

fun sql_names :: "sql_condition \<Rightarrow> string list" where
  "sql_names (Compare c op v) = [c]"
| "sql_names (IsNull c) = [c]"
| "sql_names (IsNotNull c) = [c]"
| "sql_names (AllOf qs) = concat (map sql_names qs)"
| "sql_names (AnyOf qs) = concat (map sql_names qs)"

definition statement_names :: "select_statement \<Rightarrow> string list" where
  "statement_names s = st_columns s @ (case st_where s of None \<Rightarrow> [] | Some q \<Rightarrow> sql_names q) @ map fst (st_order s)"

definition field_name :: "json \<Rightarrow> string" where
  "field_name v = str_or_empty (jget (fields_of v) ''field'')"

definition item_names :: "json \<Rightarrow> string list" where
  "item_names it = (if jget (fields_of it) ''kind'' = JStr ''condition'' then [field_name it]
     else map field_name (json_items (jget (fields_of it) ''conditions'')))"

definition named_columns :: "json \<Rightarrow> string list" where
  "named_columns n =
     map str_or_empty (json_items (jget (fields_of n) ''selected_columns'')) @
     concat (map item_names (json_items (jget (fields_of (jget (fields_of n) ''filter'')) ''items''))) @
     map field_name (json_items (jget (fields_of n) ''sort''))"

text \<open>A result that is there exactly when all names are columns, and reads only columns.\<close>

definition fits :: "string list \<Rightarrow> string list \<Rightarrow> ('a \<Rightarrow> string list) \<Rightarrow> 'a result \<Rightarrow> bool" where
  "fits columns names f r \<longleftrightarrow>
     (case r of Inl e \<Rightarrow> \<not> set names \<subseteq> set columns
      | Inr q \<Rightarrow> set names \<subseteq> set columns \<and> set (f q) \<subseteq> set columns)"

lemma fits_simps [simp]:
  "fits columns names f (Inl e) \<longleftrightarrow> \<not> set names \<subseteq> set columns"
  "fits columns names f (Inr q) \<longleftrightarrow> set names \<subseteq> set columns \<and> set (f q) \<subseteq> set columns"
  by (simp_all add: fits_def)

lemma fits_bind:
  assumes "fits columns names f r"
    and "\<And>q. r = Inr q \<Longrightarrow> set (f q) \<subseteq> set columns \<Longrightarrow> fits columns names' f' (g q)"
  shows "fits columns (names @ names') f' (rbind r g)"
  using assms by (cases r) (auto simp: fits_def split: sum.splits)

lemma fits_mapM:
  "(\<And>x. x \<in> set xs \<Longrightarrow> fits columns (names x) f (g x)) \<Longrightarrow>
    fits columns (concat (map names xs)) (\<lambda>qs. concat (map f qs)) (mapM g xs)"
proof (induction xs)
  case (Cons x xs)
  from Cons.prems [of x] have one: "fits columns (names x) f (g x)" by simp
  from Cons have rest: "fits columns (concat (map names xs)) (\<lambda>qs. concat (map f qs)) (mapM g xs)" by simp
  show ?case
  proof (cases "g x")
    case (Inl e)
    with one show ?thesis by auto
  next
    case (Inr q)
    with one rest show ?thesis by (cases "mapM g xs") auto
  qed
qed simp

lemma fits_combine:
  assumes "fits columns names (\<lambda>qs. concat (map sql_names qs)) r"
  shows "fits columns names sql_names (rbind r (\<lambda>qs. Inr (combine logic qs)))"
  using assms by (cases r) (simp_all add: combine_def)

definition has_values :: "json dict dict \<Rightarrow> param_value dict \<Rightarrow> bool" where
  "has_values params values \<longleftrightarrow> (\<forall>name. dict_get params name \<noteq> None \<longrightarrow> dict_get values name \<noteq> None)"

lemma condition_value_ok:
  assumes "normalize_filter_value params u path op = Inr v" and "has_values params values"
  shows "\<exists>w. condition_value values v = Inr w"
proof (cases "is_parameter_ref u")
  case True
  let ?name = "token (jget (fields_of u) ''name'')"
  from True assms(1) have "dict_get params ?name \<noteq> None" and v: "v = JObj [(''kind'', JStr ''parameter''), (''name'', JStr ?name)]"
    by (auto simp: normalize_filter_value_def Let_def split: if_splits option.splits)
  with assms(2) show ?thesis
    by (auto simp: has_values_def condition_value_def parameter_ref_normal Let_def v)
next
  case False
  with assms(1) have "v = u" by (auto simp: normalize_filter_value_def split: if_splits)
  with False show ?thesis by (simp add: condition_value_def)
qed

lemma compile_condition_fits:
  assumes "normalize_filter_condition params raw path = Inr c" and "has_values params values"
    and "\<And>k. k \<noteq> ''kind'' \<Longrightarrow> jget d k = jget c k"
  shows "fits columns [field_name (JObj d)] sql_names (compile_condition columns values d)"
  using assms(1)
proof (cases rule: filter_condition_form)
  case (null field op)
  have "\<not> is_parameter_ref JNull" by (simp add: is_parameter_ref_def)
  with null assms(3) show ?thesis
    by (auto simp: compile_condition_def Let_def field_name_def condition_value_def null_operators_def str_or_empty_def)
next
  case (operand field op u v)
  from condition_value_ok [OF operand(6) assms(2)] obtain w where "condition_value values v = Inr w" ..
  with operand assms(3) show ?thesis
    by (auto simp: compile_condition_def Let_def field_name_def str_or_empty_def)
qed

lemma conditions_fit:
  assumes "normalize_conditions params raws path = Inr cs" and "has_values params values"
  shows "fits columns (map field_name cs) (\<lambda>qs. concat (map sql_names qs))
    (mapM (\<lambda>c. compile_condition columns values (fields_of c)) cs)"
proof -
  have "fits columns (concat (map (\<lambda>c. [field_name c]) cs)) (\<lambda>qs. concat (map sql_names qs))
    (mapM (\<lambda>c. compile_condition columns values (fields_of c)) cs)"
  proof (rule fits_mapM)
    fix c assume "c \<in> set cs"
    from mapM_Inr_set [OF assms(1) [unfolded normalize_conditions_def] this] obtain raw path' d
      where "normalize_filter_condition params raw path' = Inr d" "c = JObj d"
      by (auto simp: rbind_Inr_iff)
    with compile_condition_fits [OF this(1) assms(2)]
    show "fits columns [field_name c] sql_names (compile_condition columns values (fields_of c))"
      by (simp add: field_name_def)
  qed
  moreover have "concat (map (\<lambda>c. [field_name c]) cs) = map field_name cs" by (induction cs) auto
  ultimately show ?thesis by simp
qed

lemma filter_item_fits:
  assumes "normalize_filter_item params raw path = Inr it" and "has_values params values"
  shows "fits columns (item_names it) sql_names (compile_filter_item columns values it)"
  using assms(1)
proof (cases rule: filter_item_form)
  case (grp raws path' logic cs)
  have "fits columns (map field_name cs) sql_names
    (rbind (mapM (\<lambda>c. compile_condition columns values (fields_of c)) cs) (\<lambda>qs. Inr (combine logic qs)))"
    by (rule fits_combine, rule conditions_fit [OF grp(1) assms(2)])
  then show ?thesis
    by (simp add: compile_filter_item_def item_names_def grp(4) group_item_def list_or_empty_def json_items_def
        str_or_empty_JStr Let_def)
next
  case (con path' raw c)
  have "jget ((''kind'', JStr ''condition'') # c) k = jget c k" if "k \<noteq> ''kind''" for k
    using that by simp
  from compile_condition_fits [OF con(1) assms(2) this] show ?thesis
    by (simp add: compile_filter_item_def item_names_def con(2) field_name_def Let_def)
qed

lemma filter_fits:
  assumes "normalize_filter params raw = Inr filt" and "has_values params values"
  shows "fits columns (concat (map item_names (json_items (jget (fields_of (case filt of None \<Rightarrow> JNull | Some f \<Rightarrow> f)) ''items''))))
    (\<lambda>q. case q of None \<Rightarrow> [] | Some q \<Rightarrow> sql_names q)
    (compile_filter columns values (fields_of (case filt of None \<Rightarrow> JNull | Some f \<Rightarrow> f)))"
proof (cases filt)
  case None
  then show ?thesis by (simp add: compile_filter_def json_items_def)
next
  case (Some f)
  from assms(1) [unfolded Some] show ?thesis
  proof (cases rule: filter_form)
    case (1 logic its)
    have "fits columns (concat (map item_names its)) (\<lambda>qs. concat (map sql_names qs))
      (mapM (compile_filter_item columns values) its)"
    proof (rule fits_mapM)
      fix it assume "it \<in> set its"
      with 1(4) obtain x path where "normalize_filter_item params x path = Inr it"
        unfolding normalize_items_def by (auto dest: mapM_Inr_set)
      then show "fits columns (item_names it) sql_names (compile_filter_item columns values it)"
        by (rule filter_item_fits [OF _ assms(2)])
    qed
    from fits_combine [OF this, of logic] 1(2,3) Some show ?thesis
      by (cases "mapM (compile_filter_item columns values) its")
        (simp_all add: compile_filter_def json_items_def str_or_empty_JStr)
  qed
qed

lemma sort_fits:
  assumes "normalize_sort raw = Inr order"
  shows "fits columns (map field_name (json_items (case order of None \<Rightarrow> JNull | Some ss \<Rightarrow> JList ss)))
    (map fst) (mapM (compile_sort_item columns) (json_items (case order of None \<Rightarrow> JNull | Some ss \<Rightarrow> JList ss)))"
proof -
  have "fits columns (map field_name ss) (map fst) (mapM (compile_sort_item columns) ss)" for ss
  proof -
    have one: "fits columns [field_name s] (\<lambda>q. [fst q]) (compile_sort_item columns s)" for s
      by (simp add: compile_sort_item_def field_name_def Let_def)
    have "concat (map (\<lambda>x. [f x]) xs) = map f xs" for f :: "'x \<Rightarrow> 'y" and xs by (induction xs) auto
    with fits_mapM [of ss columns "\<lambda>s. [field_name s]" "\<lambda>q. [fst q]" "compile_sort_item columns"] one
    show ?thesis by simp
  qed
  then show ?thesis by (cases order) (simp_all add: json_items_def)
qed

lemma columns_fit: "fits columns (map str_or_empty (json_items v)) (\<lambda>cs. cs) (compile_columns columns v)"
proof -
  let ?names = "map str_or_empty (json_items v)"
  show ?thesis
  proof (cases "filter (\<lambda>c. c \<notin> set columns) ?names")
    case Nil
    then have "set ?names \<subseteq> set columns" by (auto simp: filter_empty_conv simp del: set_map)
    with Nil show ?thesis by (simp add: compile_columns_def Let_def del: set_map)
  next
    case (Cons c cs)
    from arg_cong [OF this, of set] have "c \<in> set ?names" "c \<notin> set columns"
      unfolding set_filter by auto
    then have "\<not> set ?names \<subseteq> set columns" "?names \<noteq> []" by (auto simp del: set_map)
    with Cons show ?thesis by (simp add: compile_columns_def Let_def del: set_map)
  qed
qed

text \<open>Every declared parameter gets a value.\<close>

lemma resolve_parameter_dom:
  assumes "resolve_parameter P clock dataset_id given acc (JObj d) = Inr acc1"
  shows "dict_get acc k \<noteq> None \<Longrightarrow> dict_get acc1 k \<noteq> None"
    and "parameter_name d \<noteq> [] \<Longrightarrow> dict_get acc1 (parameter_name d) \<noteq> None"
  using assms by (auto simp: resolve_parameter_def Let_def rbind_Inr_iff split: if_splits option.splits)

lemma resolve_fold_dom:
  "foldM (resolve_parameter P clock dataset_id given) acc (map JObj ds) = Inr values \<Longrightarrow>
    (dict_get acc k \<noteq> None \<or> k \<noteq> [] \<and> k \<in> parameter_name ` set ds) \<Longrightarrow> dict_get values k \<noteq> None"
proof (induction ds arbitrary: acc)
  case (Cons d ds)
  from Cons.prems(1) obtain acc1 where step: "resolve_parameter P clock dataset_id given acc (JObj d) = Inr acc1"
    and rest: "foldM (resolve_parameter P clock dataset_id given) acc1 (map JObj ds) = Inr values"
    by (auto simp: rbind_Inr_iff)
  from Cons.prems(2) resolve_parameter_dom [OF step] show ?case
    by (intro Cons.IH [OF rest]) auto
qed simp

lemma resolved_values:
  assumes "parameters_normal P params"
    and "resolve_parameters P clock dataset_id (JObj (perimeter_of params columns filt order)) given = Inr values"
  shows "has_values params values"
proof (cases "params = []")
  case False
  with assms(2) have "foldM (resolve_parameter P clock dataset_id given) [] (map JObj (map snd params)) = Inr values"
    by (auto simp: resolve_parameters_def parameter_definitions_def comp_def split: list.splits if_splits)
  note dom = resolve_fold_dom [OF this]
  show ?thesis
    unfolding has_values_def
  proof (intro allI impI)
    fix name assume "dict_get params name \<noteq> None"
    then obtain d where d: "(name, d) \<in> set params" by (auto dest: dict_get_mem)
    with assms(1) have "definition_normal P name d" by (auto simp: parameters_normal_def)
    then have "parameter_name d = name" "name \<noteq> []"
      by (simp_all only: definition_normal_def parameter_name_def) simp
    moreover from d have "d \<in> set (map snd params)" by (auto intro: rev_image_eqI)
    ultimately show "dict_get values name \<noteq> None"
      by (intro dom) (auto simp del: set_map)
  qed
qed (simp add: has_values_def)

lemma compile_normal_perimeter:
  assumes "iso_laws P" and ok: "normalize_perimeter P p = Inr n"
    and "resolve_parameters P clock dataset_id n given = Inr values"
  shows "fits columns (named_columns n) (\<lambda>c. statement_names (cp_statement c))
    (compile_perimeter P columns n limit values)"
    and "compile_perimeter P columns n limit values = Inr c \<Longrightarrow>
      cp_perimeter c = n \<and> st_limit (cp_statement c) = limit"
proof -
  define selected where "selected = jget (fields_of n) ''selected_columns''"
  define filt where "filt = jget (fields_of n) ''filter''"
  define order where "order = jget (fields_of n) ''sort''"
  have again: "normalize_perimeter P n = Inr n" by (rule normalize_again [OF assms(1,2)])
  have whole: "compile_perimeter P columns n limit values =
      rbind (compile_columns columns selected) (\<lambda>cs.
      rbind (compile_filter columns values (fields_of filt)) (\<lambda>q.
      rbind (mapM (compile_sort_item columns) (json_items order)) (\<lambda>os.
        Inr \<lparr>cp_statement = \<lparr>st_columns = cs, st_where = q, st_order = os, st_limit = limit\<rparr>,
             cp_columns = cs, cp_perimeter = n\<rparr>)))"
    unfolding compile_perimeter_def again rbind_simps Let_def selected_def filt_def order_def ..
  then show "compile_perimeter P columns n limit values = Inr c \<Longrightarrow>
      cp_perimeter c = n \<and> st_limit (cp_statement c) = limit"
    by (auto simp: rbind_Inr_iff)
  have parts: "fits columns (concat (map item_names (json_items (jget (fields_of filt) ''items''))))
      (\<lambda>q. case q of None \<Rightarrow> [] | Some q \<Rightarrow> sql_names q) (compile_filter columns values (fields_of filt)) \<and>
    fits columns (map field_name (json_items order)) (map fst) (mapM (compile_sort_item columns) (json_items order))"
    using ok
  proof (cases rule: perimeter_parts)
    case nothing
    then show ?thesis by (simp add: filt_def order_def compile_filter_def json_items_def)
  next
    case (parts raw_params params raw_columns cols raw_filter f raw_order ss)
    from assms(3) have "has_values params values"
      unfolding parts(5) by (rule resolved_values [OF normalize_parameters_again(1) [OF assms(1) parts(1)]])
    from filter_fits [OF parts(3) this] sort_fits [OF parts(4)]
    show ?thesis unfolding filt_def order_def parts(5) fields_of_JObj perimeter_of_fields by (rule conjI)
  qed
  then show "fits columns (named_columns n) (\<lambda>c. statement_names (cp_statement c))
    (compile_perimeter P columns n limit values)"
    unfolding whole named_columns_def selected_def [symmetric] filt_def [symmetric] order_def [symmetric]
    using columns_fit [of columns selected]
    by (auto simp: fits_def statement_names_def simp del: set_map split: sum.splits)
qed

section \<open>Properties\<close>

definition sample_parsers :: text_parsers where
  "sample_parsers = \<lparr>iso_date = (\<lambda>s. if s = ''2026-01-01'' then Some s else None),
     iso_datetime = (\<lambda>s. if s = ''2026-01-01T00:00:00'' then Some s else None), float_of = (\<lambda>s. None)\<rparr>"

definition sample_perimeter :: json where
  "sample_perimeter = JObj [(''parameters'', JList [JObj [(''name'', JStr '' min ''), (''type'', JStr ''Date''),
       (''default_value'', JStr '' 2026-01-01'')]]),
     (''selected_columns'', JList [JStr '' id'', JStr ''name'']),
     (''filter'', JObj [(''logic'', JStr ''or''), (''conditions'', JList [JObj [(''field'', JStr ''born ''),
       (''operator'', JStr ''GTE''), (''value'', JObj [(''kind'', JStr ''Parameter''), (''name'', JStr '' min'')])]])]),
     (''sort'', JList [JObj [(''field'', JStr ''name'')]])]"

definition sample_normal :: json where
  "sample_normal = JObj [(''parameters'', JList [JObj [(''name'', JStr ''min''), (''type'', JStr ''date''),
       (''description'', JNull), (''default_value'', JStr ''2026-01-01'')]]),
     (''selected_columns'', JList [JStr ''id'', JStr ''name'']),
     (''filter'', JObj [(''logic'', JStr ''OR''), (''items'', JList [JObj [(''kind'', JStr ''group''), (''logic'', JStr ''OR''),
       (''conditions'', JList [JObj [(''field'', JStr ''born''), (''operator'', JStr ''gte''),
         (''value'', JObj [(''kind'', JStr ''parameter''), (''name'', JStr ''min'')])]])]])]),
     (''sort'', JList [JObj [(''field'', JStr ''name''), (''direction'', JStr ''asc'')]])]"

lemma sample_perimeter_facts:
  "iso_laws sample_parsers"
  "normalize_perimeter sample_parsers sample_perimeter = Inr sample_normal"
  "resolve_parameters sample_parsers \<lparr>clock_now = [], clock_today = []\<rparr> None sample_normal [] =
     Inr [(''min'', PDate ''2026-01-01'')]"
proof -
  show "iso_laws sample_parsers"
    by (simp add: iso_laws_def sample_parsers_def iso_text_def) code_simp
qed code_simp+

text \<open>The perimeter that the compiler stores is in a normal form: when \<open>normalize\<close> accepts a JSON value,
  normalising its result once more changes nothing. So the perimeter saved with a dataset, which is
  normalised again by every query and again inside \<open>compile\<close>, keeps its meaning.
\<close>

theorem perimeter_normal_form:
  assumes "iso_laws P" and "normalize_perimeter P p = Inr n"
  shows "normalize_perimeter P n = Inr n"
  using assms by (rule normalize_again)

theorem perimeter_normal_form_witness:
  "normalize_perimeter sample_parsers sample_perimeter = Inr sample_normal \<and> sample_perimeter \<noteq> sample_normal \<and>
   normalize_perimeter sample_parsers sample_normal = Inr sample_normal"
  using perimeter_normal_form [OF sample_perimeter_facts(1,2)] sample_perimeter_facts(2)
  by (simp add: sample_perimeter_def sample_normal_def)



end
