(* ===== verification/MessageTemplateProps.thy ===== *)
theory MessageTemplateProps
  imports MessageTemplates ExecutorProps
begin

text \<open>
  Properties of the payloads a template makes: one per row, with the fields of the row and the constants.
\<close>

lemma template_fields_get:
  "dict_get (template_fields fs row) k = (if k \<noteq> [] \<and> k \<in> py_strip ` set fs then dict_get row k else None)"
proof (induction fs rule: rev_induct)
  case Nil
  then show ?case by (simp add: template_fields_def)
next
  case (snoc f fs)
  have "template_fields (fs @ [f]) row =
      (case dict_get row (py_strip f) of
         Some v \<Rightarrow> if py_strip f = [] then template_fields fs row else dict_set (py_strip f) v (template_fields fs row)
       | None \<Rightarrow> template_fields fs row)"
    unfolding template_fields_def Let_def foldl_append foldl.simps ..
  with snoc show ?case by (auto split: option.splits)
qed

lemma template_constants_get:
  assumes "template_constants io cs payload e = (Inr d, e')"
  shows "(k \<in> (\<lambda>c. py_strip (tc_name c)) ` set cs \<longrightarrow> dict_get d k \<noteq> None) \<and>
    (k \<notin> (\<lambda>c. py_strip (tc_name c)) ` set cs \<longrightarrow> dict_get d k = dict_get payload k)"
proof -
  have "template_constants io cs payload e = (Inr d, e') \<Longrightarrow>
    (k \<in> (\<lambda>c. py_strip (tc_name c)) ` set cs \<or> dict_get payload k \<noteq> None \<longrightarrow> dict_get d k \<noteq> None) \<and>
    (k \<notin> (\<lambda>c. py_strip (tc_name c)) ` set cs \<longrightarrow> dict_get d k = dict_get payload k)"
  proof (induction cs arbitrary: payload e)
    case Nil
    then show ?case by (simp add: spure_def)
  next
    case (Cons c cs)
    from Cons.prems obtain v e1 where
      "template_constants io cs (dict_set (py_strip (tc_name c)) v payload) e1 = (Inr d, e')"
      by (auto simp: sbind_def split: prod.splits sum.splits)
    from Cons.IH [OF this] show ?case by auto
  qed
  with assms show ?thesis by blast
qed

text \<open>What a payload made from a row holds.\<close>

definition payload_of_row :: "message_template \<Rightarrow> json dict \<Rightarrow> json \<Rightarrow> bool" where
  "payload_of_row t row v \<longleftrightarrow>
     (\<exists>d. v = JObj d \<and>
        (\<forall>k \<in> (\<lambda>c. py_strip (tc_name c)) ` set (mt_constants t). dict_get d k \<noteq> None) \<and>
        (\<forall>k. k \<notin> (\<lambda>c. py_strip (tc_name c)) ` set (mt_constants t) \<longrightarrow>
           dict_get d k = (if k \<noteq> [] \<and> k \<in> py_strip ` set (mt_fields t) then dict_get row k else None)))"

lemma template_payloads_rows:
  "template_payloads io t rows e = (Inr ps, e') \<Longrightarrow> list_all2 (payload_of_row t) rows ps"
proof (induction rows arbitrary: ps e e')
  case Nil
  then show ?case by (simp add: spure_def)
next
  case (Cons row rows)
  from Cons.prems obtain d ps' e1 e2 where
    d: "template_constants io (mt_constants t) (template_fields (mt_fields t) row) e = (Inr d, e1)"
    and rest: "template_payloads io t rows e1 = (Inr ps', e2)" and ps: "ps = JObj d # ps'"
    by (auto simp: sbind_def spure_def split: prod.splits sum.splits)
  have "payload_of_row t row (JObj d)"
    using template_constants_get [OF d] by (auto simp: payload_of_row_def template_fields_get)
  with Cons.IH [OF rest] ps show ?case by simp
qed

section \<open>Properties\<close>

definition sample_template :: message_template where
  "sample_template = \<lparr>mt_for_each = Some ''$.orders[*]'', mt_fields = ['' id '', ''id'', ''total''],
     mt_constants = [\<lparr>tc_name = ''day '', tc_kind = ''Function'', tc_value = JStr ''today''\<rparr>,
                     \<lparr>tc_name = ''id'', tc_kind = ''text'', tc_value = JStr ''fixed''\<rparr>]\<rparr>"

definition sample_orders :: json where
  "sample_orders = JObj [(''orders'', JList [JObj [(''id'', JInt 1), (''total'', JInt 5)], JObj [(''id'', JInt 2)]])]"

text \<open>A message with a template has one payload per row that the template's path selects, in order. A payload
  is an object with a value under the name of every constant; any other name it holds is the stripped name
  of a field of the template that the row has, with the row's value. A field the row lacks is left out, and
  a constant wins over a field of the same name.
\<close>

theorem template_gives_payload_per_row:
  assumes "build_send_message_payloads io input_data source_type (Some t) e = (Inr payloads, e')"
  shows "list_all2 (payload_of_row t)
    (preview_send_message_template_rows input_data source_type (text_of (mt_for_each t))) payloads"
  using assms template_payloads_rows unfolding build_send_message_payloads_def option.case by blast

theorem template_gives_payload_per_row_witness:
  "let payloads = [JObj [(''id'', JStr ''fixed''), (''total'', JInt 5), (''day'', JStr ''2026-01-01'')],
       JObj [(''id'', JStr ''fixed''), (''day'', JStr ''2026-01-01'')]]
   in build_send_message_payloads idle_services sample_orders ''json'' (Some sample_template) sample_env =
        (Inr payloads, sample_env) \<and>
      list_all2 (payload_of_row sample_template)
        (preview_send_message_template_rows sample_orders ''json'' (text_of (mt_for_each sample_template))) payloads"
proof -
  have "build_send_message_payloads idle_services sample_orders ''json'' (Some sample_template) sample_env =
      (Inr [JObj [(''id'', JStr ''fixed''), (''total'', JInt 5), (''day'', JStr ''2026-01-01'')],
        JObj [(''id'', JStr ''fixed''), (''day'', JStr ''2026-01-01'')]], sample_env)"
    by code_simp
  from template_gives_payload_per_row [OF this] this show ?thesis unfolding Let_def by blast
qed

end
