(* ===== verification/DatasetQueryProps.thy ===== *)
theory DatasetQueryProps
  imports DatasetQuery
begin

text \<open>
  The bound on the rows of a query with a limit, as a fact about the calls of its services: a database
  that answers arbitrarily to every statement without a limit between 1 and 500 makes no difference.
\<close>

definition limit_ok :: "select_statement \<Rightarrow> bool" where
  "limit_ok q \<longleftrightarrow> (case st_limit q of Some l \<Rightarrow> 1 \<le> l \<and> l \<le> 500 | None \<Rightarrow> False)"

definition limited_select :: "'w services \<Rightarrow> ('w, json dict list) call \<Rightarrow> 'w services" where
  "limited_select io other =
     io\<lparr>io_select := (\<lambda>c t s q. if limit_ok q then io_select io c t s q else other)\<rparr>"

lemma limited_select_fields [simp]:
  "io_parsers (limited_select io other) = io_parsers io"
  "io_table_names (limited_select io other) = io_table_names io"
  "io_view_names (limited_select io other) = io_view_names io"
  "io_table_columns (limited_select io other) = io_table_columns io"
  "io_json_payload (limited_select io other) = io_json_payload io"
  "io_connection_config (limited_select io other) = io_connection_config io"
  "io_connect (limited_select io other) = io_connect io" "io_close (limited_select io other) = io_close io"
  "io_now (limited_select io other) = io_now io" "io_today (limited_select io other) = io_today io"
  by (simp_all add: limited_select_def)

lemma limited_select_ok:
  "limit_ok q \<Longrightarrow> io_select (limited_select io other) c t s q = io_select io c t s q"
  by (simp add: limited_select_def)

lemma limited_select_calls [simp]:
  "date_clock_at (limited_select io other) = date_clock_at io"
  "load_connection_for_query (limited_select io other) = load_connection_for_query io"
  "with_connection (limited_select io other) = with_connection io"
proof -
  show "date_clock_at (limited_select io other) = date_clock_at io"
    by (simp add: date_clock_at_def fun_eq_iff)
  have calls: "load_database_connection (limited_select io other) = load_database_connection io"
    "convert_database_connection_config (limited_select io other) = convert_database_connection_config io"
    unfolding load_database_connection_def convert_database_connection_config_def limited_select_fields
    by (rule refl)+
  show "load_connection_for_query (limited_select io other) = load_connection_for_query io"
    unfolding fun_eq_iff load_connection_for_query_def limited_select_fields calls by (intro allI refl)
  show "with_connection (limited_select io other) = with_connection io"
    unfolding fun_eq_iff with_connection_def limited_select_fields by (intro allI refl)
qed

lemma sbind_cong: "(\<And>x s'. m s = (Inr x, s') \<Longrightarrow> f x s' = g x s') \<Longrightarrow> sbind m f s = sbind m g s"
  by (auto simp: sbind_def split: prod.splits sum.splits)

lemma safe_limit_bounds: "1 \<le> safe_limit l" "safe_limit l \<le> 500"
  by (simp_all add: safe_limit_def)

lemma compile_limit: "compile_perimeter P columns n limit values = Inr c \<Longrightarrow> st_limit (cp_statement c) = limit"
  by (auto simp: compile_perimeter_def rbind_Inr_iff Let_def)

lemma query_body_limited:
  "query_body (limited_select io other) cfg perimeter (Some limit) overrides dataset_id w =
   query_body io cfg perimeter (Some limit) overrides dataset_id w"
proof -
  have select: "io_select (limited_select io other) k t s (cp_statement c) = io_select io k t s (cp_statement c)"
    if "compile_perimeter P columns n (map_option safe_limit (Some limit)) vs = Inr c" for P columns n vs c k t s
    using compile_limit [OF that] safe_limit_bounds by (intro limited_select_ok) (simp add: limit_ok_def)
  show ?thesis
    unfolding query_body_def Let_def limited_select_fields limited_select_calls
    by (intro sbind_cong if_cong refl) (auto simp: slift_def select intro!: sbind_cong)
qed

text \<open>A query of a dataset with a limit never asks its database for more than 500 rows, nor for fewer than
  one, whatever the limit, the perimeter and the parameters are: changing what the database answers to all
  other statements, in any way, changes neither the result of the query nor the calls it makes.
\<close>

theorem dataset_query_limited:
  "execute_dataset_query (limited_select io other) payload perimeter (Some limit) overrides dataset_id w =
   execute_dataset_query io payload perimeter (Some limit) overrides dataset_id w"
  unfolding execute_dataset_query_def query_body_limited ..

end
