(* ===== verification/MockServers.thy ===== *)
theory MockServers
  imports CommandConfig
begin

text \<open>
  The mock servers: the model of a running server (\<open>mock_servers/models/runtime_models.py\<close>), how it is
  loaded from its rows (\<open>mock_servers/services/runtime/mock_runtime_loader.py\<close>), and which of its
  routes a request matches (\<open>mock_runtime_dispatcher.py\<close>).
\<close>

section \<open>Rows and models\<close>

text \<open>Rows of the application's database, each with the rows of its query in the order of the query.\<close>

record command_entity =
  ce_id :: string
  ce_description :: string
  ce_code :: string
  ce_type :: string
  ce_cfg :: json
  ce_order :: int

record api_entity =
  ae_id :: string
  ae_description :: string
  ae_order :: int
  ae_method :: string
  ae_path :: string
  ae_cfg :: json
  ae_commands :: "command_entity list"

record queue_entity =
  qe_id :: string
  qe_description :: string
  qe_order :: int
  qe_queue :: string
  qe_cfg :: json
  qe_commands :: "command_entity list"

record server_entity =
  ve_id :: string
  ve_description :: string
  ve_endpoint :: string
  ve_active :: bool
  ve_apis :: "api_entity list"
  ve_queues :: "queue_entity list"

record mock_command =
  mc_id :: string
  mc_description :: string
  mc_code :: string
  mc_type :: string
  mc_cfg :: "json dict"
  mc_order :: int

record mock_route =
  mr_id :: string
  mr_description :: string
  mr_order :: int
  mr_method :: string
  mr_path :: string
  mr_params :: "json dict"
  mr_headers :: "json dict"
  mr_body :: json
  mr_match :: string
  mr_priority :: int
  mr_status :: json
  mr_response_headers :: "json dict"
  mr_response_body :: json
  mr_commands :: "mock_command list"
  mr_pre :: "mock_command list"
  mr_post :: "mock_command list"

record mock_queue =
  mq_id :: string
  mq_description :: string
  mq_order :: int
  mq_queue :: string
  mq_interval :: int
  mq_max :: int
  mq_commands :: "mock_command list"

record mock_server =
  mv_id :: string
  mv_description :: string
  mv_endpoint :: string
  mv_active :: bool
  mv_apis :: "mock_route list"
  mv_queues :: "mock_queue list"

section \<open>Loading\<close>

definition normalize_path :: "string \<Rightarrow> string" where
  "normalize_path path =
     (let raw = py_strip path in
      if raw = [] then ''/''
      else (let p = (if starts_with ''/'' raw then raw else CHR ''/'' # raw)
            in if length p > 1 then rstrip_char (CHR ''/'') p else p))"

definition normalize_endpoint :: "string \<Rightarrow> string" where
  "normalize_endpoint endpoint = py_lower (strip_char (CHR ''/'') (py_strip endpoint))"

definition build_operation_snapshot :: "command_entity \<Rightarrow> mock_command" where
  "build_operation_snapshot e =
     \<lparr>mc_id = ce_id e, mc_description = ce_description e, mc_code = ce_code e, mc_type = py_strip (ce_type e),
      mc_cfg = fields_of (ce_cfg e), mc_order = ce_order e\<rparr>"

definition extract_operation_cfg :: "json dict \<Rightarrow> json dict" where
  "extract_operation_cfg raw =
     (if is_obj (jget raw ''cfg'') then fields_of (jget raw ''cfg'')
      else if is_obj (jget raw ''configuration_json'') then fields_of (jget raw ''configuration_json'')
      else (let t = json_or (jget raw ''type'') (json_or (jget raw ''commandCode'') (jget raw ''operationType''))
            in if json_truthy t \<and> dict_get raw ''commandCode'' = None then dict_set ''commandCode'' t raw else raw))"

text \<open>\<open>uuid4\<close> is a parameter: the identifier it gives the command at a position.\<close>

definition build_inline_operation_snapshot ::
  "(nat \<Rightarrow> string) \<Rightarrow> nat \<times> json dict \<Rightarrow> mock_command result" where
  "build_inline_operation_snapshot new_id ir =
     (let raw = snd ir; cfg = extract_operation_cfg raw in
      rbind (py_int (json_or (jget raw ''order'') (JInt (int (fst ir))))) (\<lambda>n.
        Inr \<lparr>mc_id = (if json_truthy (jget raw ''id'') then json_str (jget raw ''id'') else new_id (fst ir)),
             mc_description = str_or_empty (jget raw ''description''),
             mc_code = token (jget cfg ''commandCode''), mc_type = token (jget cfg ''commandType''),
             mc_cfg = cfg, mc_order = n\<rparr>))"

definition command_order :: "mock_command \<Rightarrow> int \<times> string" where
  "command_order c = (mc_order c, mc_id c)"

definition parse_inline_operations :: "(nat \<Rightarrow> string) \<Rightarrow> json \<Rightarrow> mock_command list result" where
  "parse_inline_operations new_id v =
     (case v of
        JList xs \<Rightarrow>
          rbind (mapM (build_inline_operation_snapshot new_id)
              (map (\<lambda>(i, x). (i, fields_of x)) (filter (\<lambda>(i, x). is_obj x) (enumerate 0 xs))))
            (\<lambda>cs. Inr (sort_key command_order cs))
      | _ \<Rightarrow> Inr [])"

definition load_route :: "(nat \<Rightarrow> string) \<Rightarrow> api_entity \<Rightarrow> mock_route result" where
  "load_route new_id e =
     (let cfg = fields_of (ae_cfg e);
          explicit = is_list (jget cfg ''post_response_commands'');
          response = fields_of (jget cfg ''response'') in
      rbind (parse_inline_operations new_id (jget cfg ''pre_response_commands'')) (\<lambda>pre.
      rbind (parse_inline_operations new_id (jget cfg ''post_response_commands'')) (\<lambda>post.
      rbind (py_int (json_or (jget cfg ''priority'') (JInt 0))) (\<lambda>priority.
        Inr \<lparr>mr_id = ae_id e, mr_description = ae_description e, mr_order = ae_order e,
             mr_method = py_upper (py_strip (or_text (ae_method e)
               (or_text (str_or_empty (jget cfg ''method'')) ''GET''))),
             mr_path = normalize_path (or_text (ae_path e) (str_or_empty (jget cfg ''path''))),
             mr_params = fields_of (jget cfg ''params''), mr_headers = fields_of (jget cfg ''headers''),
             mr_body = jget cfg ''body'',
             mr_match = py_lower (py_strip (or_text (str_or_empty (jget cfg ''body_match'')) ''contains'')),
             mr_priority = priority,
             mr_status = (case dict_get response ''status'' of
                 Some v \<Rightarrow> v | None \<Rightarrow> json_or (jget cfg ''response_status'') (JInt 200)),
             mr_response_headers = (if is_obj (jget response ''headers'') then fields_of (jget response ''headers'')
                 else fields_of (jget cfg ''response_headers'')),
             mr_response_body = (case dict_get response ''body'' of
                 Some v \<Rightarrow> v | None \<Rightarrow> jget cfg ''response_body''),
             mr_commands = (if explicit then [] else map build_operation_snapshot (ae_commands e)),
             mr_pre = pre, mr_post = (if explicit then post else [])\<rparr>))))"

definition load_queue :: "queue_entity \<Rightarrow> mock_queue result" where
  "load_queue e =
     (let cfg = fields_of (qe_cfg e) in
      rbind (py_int (json_or (jget cfg ''polling_interval_seconds'') (JInt 1))) (\<lambda>interval.
      rbind (py_int (json_or (jget cfg ''max_messages'') (JInt 10))) (\<lambda>messages.
        Inr \<lparr>mq_id = qe_id e, mq_description = qe_description e, mq_order = qe_order e, mq_queue = qe_queue e,
             mq_interval = max interval 1, mq_max = max (min messages 10) 1,
             mq_commands = map build_operation_snapshot (qe_commands e)\<rparr>)))"

definition route_order :: "mock_route \<Rightarrow> int \<times> int \<times> string" where
  "route_order r = (mr_priority r, mr_order r, mr_id r)"

definition queue_order :: "mock_queue \<Rightarrow> int \<times> string" where
  "queue_order q = (mq_order q, mq_id q)"

definition load_runtime_server :: "(nat \<Rightarrow> string) \<Rightarrow> server_entity \<Rightarrow> mock_server result" where
  "load_runtime_server new_id e =
     rbind (mapM (load_route new_id) (ve_apis e)) (\<lambda>routes.
     rbind (mapM load_queue (ve_queues e)) (\<lambda>queues.
       Inr \<lparr>mv_id = ve_id e, mv_description = ve_description e, mv_endpoint = normalize_endpoint (ve_endpoint e),
            mv_active = ve_active e, mv_apis = sort_key route_order routes,
            mv_queues = sort_key queue_order queues\<rparr>))"

section \<open>Matching\<close>

definition to_lowercase_headers :: "string dict \<Rightarrow> string dict" where
  "to_lowercase_headers d = foldl (\<lambda>acc kv. dict_set (py_lower (py_strip (fst kv))) (snd kv) acc) [] d"

text \<open>\<open>_contains\<close>: a part of an object, an array or a text.\<close>

function contains_json :: "json \<Rightarrow> json \<Rightarrow> bool" where
  "contains_json expected actual =
     (case expected of
        JObj d \<Rightarrow>
          (case actual of
             JObj a \<Rightarrow> (\<forall>kv \<in> set d. case dict_get a (fst kv) of None \<Rightarrow> False | Some v \<Rightarrow> contains_json (snd kv) v)
           | _ \<Rightarrow> False)
      | JList xs \<Rightarrow>
          (case actual of
             JList ys \<Rightarrow> (\<forall>x \<in> set xs. \<exists>y \<in> set ys. contains_json x y)
           | _ \<Rightarrow> False)
      | JStr s \<Rightarrow> (case actual of JStr t \<Rightarrow> contains_sub s t | _ \<Rightarrow> json_eq expected actual)
      | _ \<Rightarrow> json_eq expected actual)"
  by pat_completeness auto
termination
proof (relation "measure (\<lambda>(x, y). size x)", goal_cases)
  case (2 expected actual xs ys x y)
  then have "size x \<le> size_list size xs"
    by (intro size_list_estimation' [where x = x]) simp_all
  with 2 show ?case by simp
next
  case (3 expected actual d a kv v)
  then have "size_prod (\<lambda>x. 0) size kv \<le> size_list (size_prod (\<lambda>x. 0) size) d"
    by (intro size_list_estimation' [where x = kv]) simp_all
  with 3 show ?case by (cases kv) auto
qed simp

declare contains_json.simps [simp del]

definition map_matches :: "json dict \<Rightarrow> string dict \<Rightarrow> bool \<Rightarrow> bool" where
  "map_matches expected actual normalize_keys =
     (let source = (if normalize_keys then to_lowercase_headers actual else actual) in
      list_all (\<lambda>(k, v).
        case dict_get source (if normalize_keys then py_lower (py_strip k) else k) of
          None \<Rightarrow> False | Some a \<Rightarrow> a = json_str v) expected)"

definition body_matches :: "mock_route \<Rightarrow> json \<Rightarrow> string \<Rightarrow> bool" where
  "body_matches r body_json body_raw =
     (let actual = (if body_json \<noteq> JNull then body_json else JStr body_raw) in
      mr_body r = JNull \<or>
      (case mr_body r of JStr s \<Rightarrow> py_upper (py_strip s) = ''ANY'' | _ \<Rightarrow> False) \<or>
      (if mr_match r = ''equals'' then json_eq (mr_body r) actual else contains_json (mr_body r) actual))"

record mock_request =
  mk_method :: string
  mk_path :: string
  mk_params :: "string dict"
  mk_header_fields :: "string dict"
  mk_raw :: string
  mk_json :: json

definition route_matches :: "mock_request \<Rightarrow> mock_route \<Rightarrow> bool" where
  "route_matches q r \<longleftrightarrow>
     mr_method r = py_upper (py_strip (mk_method q)) \<and> mr_path r = normalize_path (mk_path q) \<and>
     map_matches (mr_params r) (mk_params q) False \<and>
     map_matches (mr_headers r) (to_lowercase_headers (mk_header_fields q)) True \<and>
     body_matches r (mk_json q) (mk_raw q)"

definition find_matching_api_route :: "mock_server \<Rightarrow> mock_request \<Rightarrow> mock_route option" where
  "find_matching_api_route v q = find (route_matches q) (mv_apis v)"

end
