(* ===== verification/MockServerProps.thy ===== *)
theory MockServerProps
  imports MockServers
begin

text \<open>
  Properties of the choice of a route: the order of the routes decides, and a body that equals the
  expected one also contains it.
\<close>

section \<open>The first match in the order\<close>

lemma find_sorted:
  assumes "find p (sort_key k xs) = Some x"
  shows "x \<in> set xs" and "p x" and "\<And>y. y \<in> set xs \<Longrightarrow> p y \<Longrightarrow> k x \<le> k y"
proof -
  from assms obtain i where i: "i < length (sort_key k xs)" "p (sort_key k xs ! i)" "x = sort_key k xs ! i"
    "\<forall>j < i. \<not> p (sort_key k xs ! j)"
    by (auto simp: find_Some_iff)
  then show "p x" by simp
  from i show "x \<in> set xs" by (metis nth_mem set_sort)
  fix y assume "y \<in> set xs" "p y"
  then obtain j where j: "j < length (sort_key k xs)" "y = sort_key k xs ! j"
    by (metis in_set_conv_nth set_sort)
  with i \<open>p y\<close> have "i \<le> j" by (meson not_le)
  then have "map k (sort_key k xs) ! i \<le> map k (sort_key k xs) ! j"
    using j(1) by (intro sorted_nth_mono sorted_sort_key) simp_all
  with i(1,3) j show "k x \<le> k y" by simp
qed

lemma find_sorted_None: "find p (sort_key k xs) = None \<longleftrightarrow> (\<forall>x \<in> set xs. \<not> p x)"
  by (auto simp: find_None_iff)

section \<open>Containment\<close>

lemma contains_json_simps:
  "contains_json (JObj d) (JObj a) \<longleftrightarrow>
     (\<forall>kv \<in> set d. case dict_get a (fst kv) of None \<Rightarrow> False | Some v \<Rightarrow> contains_json (snd kv) v)"
  "contains_json (JList xs) (JList ys) \<longleftrightarrow> (\<forall>x \<in> set xs. \<exists>y \<in> set ys. contains_json x y)"
  "contains_json (JStr s) (JStr t) \<longleftrightarrow> contains_sub s t"
  by (simp_all add: contains_json.simps)

lemma contains_sub_self: "contains_sub s s"
  by (cases s) (simp_all add: starts_with_def)

lemma equal_contains: "json_eq a b \<Longrightarrow> contains_json a b"
proof (induction a b rule: contains_json.induct)
  case (1 a b)
  show ?case
  proof (cases a)
    case (JObj d)
    with 1(3) obtain e where b: "b = JObj e"
      by (cases b) (auto simp: json_eq.simps)
    show ?thesis
      unfolding JObj b contains_json_simps
    proof
      fix kv assume kv: "kv \<in> set d"
      with 1(3) obtain w where w: "dict_get e (fst kv) = Some w" "json_eq (snd kv) w"
        by (auto simp: JObj b json_eq.simps [of "JObj d"] split: option.splits)
      with 1(2) [OF JObj b kv] show "case dict_get e (fst kv) of None \<Rightarrow> False | Some v \<Rightarrow> contains_json (snd kv) v"
        by simp
    qed
  next
    case (JList xs)
    with 1(3) obtain ys where b: "b = JList ys"
      by (cases b) (auto simp: json_eq.simps)
    from 1(3) have eq: "length xs = length ys" "\<forall>p \<in> set (zip xs ys). json_eq (fst p) (snd p)"
      by (simp_all add: JList b json_eq.simps [of "JList xs"])
    show ?thesis
      unfolding JList b contains_json_simps
    proof
      fix x assume "x \<in> set xs"
      then obtain i where i: "i < length xs" "x = xs ! i" by (metis in_set_conv_nth)
      with eq have "json_eq x (ys ! i)" by (auto simp: set_zip)
      moreover from i eq have "ys ! i \<in> set ys" by simp
      ultimately show "\<exists>y \<in> set ys. contains_json x y"
        using 1(1) [OF JList b \<open>x \<in> set xs\<close>] by blast
    qed
  next
    case (JStr s)
    with 1(3) have "b = JStr s" by (cases b) (auto simp: json_eq.simps)
    with JStr show ?thesis by (simp add: contains_json_simps contains_sub_self)
  qed (use 1(3) in \<open>simp_all add: contains_json.simps\<close>)
qed

section \<open>Properties\<close>

text \<open>C29. A request is answered by the first route in the order of priority, position and identifier among the
  routes of the server that match its method, path, query, headers and body, however the rows were ordered;
  it is answered by none exactly when none matches.
\<close>

theorem mock_route_choice:
  assumes "load_runtime_server new_id e = Inr v"
  shows "case find_matching_api_route v q of
      None \<Rightarrow> \<forall>r \<in> set (mv_apis v). \<not> route_matches q r
    | Some r \<Rightarrow> r \<in> set (mv_apis v) \<and> route_matches q r \<and>
        (\<forall>r' \<in> set (mv_apis v). route_matches q r' \<longrightarrow> route_order r \<le> route_order r')"
proof -
  from assms obtain rs where "mv_apis v = sort_key route_order rs"
    by (auto simp: load_runtime_server_def rbind_Inr_iff)
  then show ?thesis
    using find_sorted [of "route_matches q" route_order rs] find_sorted_None [of "route_matches q" route_order rs]
    by (cases "find_matching_api_route v q") (auto simp: find_matching_api_route_def)
qed

definition sample_api :: "string \<Rightarrow> json \<Rightarrow> int \<Rightarrow> api_entity" where
  "sample_api i body priority = \<lparr>ae_id = i, ae_description = [], ae_order = 0, ae_method = ''post'', ae_path = ''orders/'',
     ae_cfg = JObj [(''body'', body), (''priority'', JInt priority)], ae_commands = []\<rparr>"

definition sample_entity :: server_entity where
  "sample_entity = \<lparr>ve_id = ''s1'', ve_description = [], ve_endpoint = ''/Shop/'', ve_active = True,
     ve_apis = [sample_api ''any'' JNull 5, sample_api ''one'' (JObj [(''id'', JInt 1)]) 1,
       sample_api ''two'' (JObj [(''id'', JInt 2)]) 0], ve_queues = []\<rparr>"

definition sample_request :: mock_request where
  "sample_request = \<lparr>mk_method = ''POST'', mk_path = ''/orders'', mk_params = [], mk_header_fields = [],
     mk_raw = [], mk_json = JObj [(''id'', JBool True), (''total'', JInt 5)]\<rparr>"

theorem mock_route_choice_witness:
  "\<exists>v r. load_runtime_server (\<lambda>n. []) sample_entity = Inr v \<and> find_matching_api_route v sample_request = Some r \<and>
     mr_id r = ''one'' \<and> (\<forall>r' \<in> set (mv_apis v). route_matches sample_request r' \<longrightarrow> route_order r \<le> route_order r')"
proof -
  obtain v where v: "load_runtime_server (\<lambda>n. []) sample_entity = Inr v"
    "map_option mr_id (find_matching_api_route v sample_request) = Some ''one''"
  proof -
    have "(case load_runtime_server (\<lambda>n. []) sample_entity of Inl e \<Rightarrow> False
      | Inr v \<Rightarrow> map_option mr_id (find_matching_api_route v sample_request) = Some ''one'')"
      by code_simp
    then show ?thesis by (auto split: sum.splits intro: that)
  qed
  with mock_route_choice [OF v(1), of sample_request] show ?thesis
    by (auto split: option.splits)
qed

text \<open>Whatever a route with \<open>body_match\<close> set to \<open>equals\<close> matches it also matches with \<open>contains\<close>, for every expected
  body: objects, arrays, texts and numbers alike.
\<close>

theorem equals_match_is_contains_match:
  "route_matches q (r\<lparr>mr_match := ''equals''\<rparr>) \<Longrightarrow> route_matches q (r\<lparr>mr_match := m\<rparr>)"
  using equal_contains by (auto simp: route_matches_def body_matches_def Let_def split: if_splits)

theorem equals_match_is_contains_match_witness:
  "let r = \<lparr>mr_id = ''r'', mr_description = [], mr_order = 0, mr_method = ''POST'', mr_path = ''/orders'', mr_params = [],
      mr_headers = [], mr_body = JObj [(''total'', JFloat 5 ''5.0''), (''id'', JInt 1)], mr_match = ''contains'', mr_priority = 0,
      mr_status = JInt 200, mr_response_headers = [], mr_response_body = JNull, mr_commands = [], mr_pre = [], mr_post = []\<rparr>
   in route_matches sample_request r"
proof -
  define r where "r = \<lparr>mr_id = ''r'', mr_description = [], mr_order = 0, mr_method = ''POST'', mr_path = ''/orders'', mr_params = [],
      mr_headers = [], mr_body = JObj [(''total'', JFloat 5 ''5.0''), (''id'', JInt 1)], mr_match = ''contains'', mr_priority = 0,
      mr_status = JInt 200, mr_response_headers = [], mr_response_body = JNull, mr_commands = [], mr_pre = [], mr_post = []\<rparr>"
  have "route_matches sample_request (r\<lparr>mr_match := ''equals''\<rparr>)"
    unfolding r_def by code_simp
  from equals_match_is_contains_match [OF this, of "''contains''"] show ?thesis
    by (simp add: r_def)
qed

end
