(* ===== verification/ContextTransfer.thy ===== *)
theory ContextTransfer
  imports Execution
begin

text \<open>
  The run context as a dictionary and back (\<open>serialize_run_context\<close>, \<open>deserialize_run_context\<close> of
  \<open>suite_runs/run_context.py\<close>): how the commands that run after a mock response get the context that
  the request was answered in. The dictionary refers to the scopes, it does not copy them.
\<close>

definition serialize_run_context :: "run_context \<Rightarrow> heap \<Rightarrow> pyval \<times> heap" where
  "serialize_run_context rc h =
     (let (sources, h1) = embed (JObj (visible_sources rc)) h in
      build_view
        (Fields [(''run_id'', text_view (py_strip (run_id rc))), (''runEnvelope'', Val (VRef (run_envelope rc))),
           (''global'', Val (VRef (global_scope rc))), (''local'', Val (VRef (local_scope rc))),
           (''result'', Val (VRef (result_scope rc))),
           (''invocation_id'', optional_view (strip_or_none (invocation_id rc))),
           (''visible_sources'', Val sources),
           (''last'', Fields [(''item_id'', text_view (fst (last_result rc))), (''data'', Val (snd (last_result rc)))])])
        h1)"

text \<open>\<open>v if isinstance(v, dict) else {}\<close> of a field, where the empty dictionary is made when it is stored.\<close>

definition dict_field :: "heap \<Rightarrow> pyval \<Rightarrow> string \<Rightarrow> pyval" where
  "dict_field h v k = (case dict_at h (field_at h v k) of None \<Rightarrow> VNone | Some d \<Rightarrow> field_at h v k)"

text \<open>\<open>str(v or "")\<close>; a value that holds itself has no JSON value and is read as empty.\<close>

definition value_text :: "heap \<Rightarrow> pyval \<Rightarrow> string" where
  "value_text h v = (case reify (Suc (length h)) h v of None \<Rightarrow> [] | Some j \<Rightarrow> str_or_empty j)"

definition restore_constants :: "nat \<Rightarrow> pyval \<Rightarrow> heap \<Rightarrow> heap" where
  "restore_constants scope payload h =
     (let (a, h1) = dict_or_new (field_at h payload ''constants'') h in set_scope_constants scope (VRef a) h1)"

text \<open>\<open>result_payload or {"artifacts": {}, "commands": {}, "constants": {}}\<close>.\<close>

definition restore_result :: "pyval \<Rightarrow> heap \<Rightarrow> nat \<times> heap" where
  "restore_result payload h =
     (case dict_at h payload of
        Some (kv # d) \<Rightarrow> (ref_of payload, h)
      | _ \<Rightarrow>
          (case build_view (Fields [(''artifacts'', Fields []), (''commands'', Fields []), (''constants'', Fields [])]) h of
             (v, h1) \<Rightarrow> (ref_of v, h1)))"

definition restore_sources :: "heap \<Rightarrow> pyval \<Rightarrow> json dict" where
  "restore_sources h v = (case reify (Suc (length h)) h v of None \<Rightarrow> [] | Some j \<Rightarrow> fields_of j)"

definition deserialize_run_context :: "pyval \<Rightarrow> heap \<Rightarrow> run_context \<times> heap" where
  "deserialize_run_context payload h =
     (let source = (if dict_at h payload = None then VNone else payload);
          envelope = dict_field h source ''runEnvelope'';
          rid = or_text (value_text h (field_at h source ''run_id'')) (value_text h (field_at h envelope ''run_id''));
          (rc, h1) = create_run_context rid (dict_field h envelope ''event'') (dict_field h envelope ''constants'')
            (non_empty (py_strip (value_text h (field_at h source ''invocation_id'')))) h;
          h2 = restore_constants (global_scope rc) (dict_field h source ''global'') h1;
          h3 = restore_constants (local_scope rc) (dict_field h source ''local'') h2;
          (res, h4) = restore_result (dict_field h source ''result'') h3;
          latest = dict_field h source ''last''
      in (rc\<lparr>result_scope := res, visible_sources := restore_sources h (field_at h source ''visible_sources''),
             last_result := (value_text h (field_at h latest ''item_id''), field_at h latest ''data'')\<rparr>, h4))"

end
