(* ===== verification/MockRuntime.thy ===== *)
theory MockRuntime
  imports MockServers ContextTransfer Executors SuiteExecution
begin

text \<open>
  Running mock servers (\<open>mock_servers/services/runtime/\<close>): the events of requests and messages, the
  commands around a response, the response itself, and one turn of the listener of a queue.

  The identifiers of \<open>uuid4\<close> and of inserted rows come from the generator of the state. The rows of the log are
  left out. What a handler reads of the objects it made is the same object wherever the code passes it on.
\<close>

section \<open>State\<close>

record invocation =
  iv_id :: string
  iv_server :: string
  iv_trigger :: string
  iv_event :: json

text \<open>The arguments of a call of \<open>execute_mock_operations\<close>, which may wait among the background tasks.\<close>

datatype mock_context = Bound run_context | Transferred pyval

record mock_job =
  mj_source :: string
  mj_ref :: string
  mj_commands :: "mock_command list"
  mj_data :: pyval
  mj_context :: mock_context

record 'w mock_state =
  ms_exec :: "'w exec_state"
  ms_invocations :: "invocation list"
  ms_tasks :: "mock_job list"

definition in_exec :: "('w exec_state, 'a) call \<Rightarrow> ('w mock_state, 'a) call" where
  "in_exec m s = (case m (ms_exec s) of (r, st) \<Rightarrow> (r, s\<lparr>ms_exec := st\<rparr>))"

definition in_env :: "('w env, 'a) call \<Rightarrow> ('w mock_state, 'a) call" where
  "in_env m = in_exec (with_env m)"

section \<open>Events\<close>

text \<open>\<open>mock_event_envelope.py\<close>.\<close>

definition build_api_event_envelope ::
  "string \<Rightarrow> string \<Rightarrow> string \<Rightarrow> mock_route \<Rightarrow> string \<Rightarrow> pyval \<Rightarrow> pyval \<Rightarrow> pyval \<Rightarrow> view" where
  "build_api_event_envelope event_id timestamp server_id r method payload headers query =
     Fields [(''id'', text_view event_id), (''source'', text_view ''api''),
       (''mock_server_id'', text_view (py_strip server_id)),
       (''trigger'', Fields [(''id'', text_view (py_strip (mr_id r))),
          (''description'', text_view (py_strip (mr_description r))),
          (''method'', text_view (py_upper (py_strip method))), (''queue_code'', text_view [])]),
       (''timestamp'', text_view timestamp), (''payload'', Val payload),
       (''meta'', Fields [(''headers'', Val headers), (''query'', Val query), (''path_params'', Fields [])])]"

definition message_ids :: "json list \<Rightarrow> string list" where
  "message_ids ms =
     filter (\<lambda>i. i \<noteq> []) (map (\<lambda>m. token (jget (fields_of m) ''MessageId'')) (filter is_obj ms))"

definition message_attributes :: "json list \<Rightarrow> json list" where
  "message_attributes ms =
     filter is_obj (map (\<lambda>m. jget (fields_of m) ''MessageAttributes'') (filter is_obj ms))"

definition build_queue_event_envelope ::
  "string \<Rightarrow> string \<Rightarrow> string \<Rightarrow> string \<Rightarrow> pyval \<Rightarrow> pyval \<Rightarrow> json list \<Rightarrow> view" where
  "build_queue_event_envelope event_id timestamp server_id queue_id payload attributes messages =
     Fields [(''id'', text_view event_id), (''source'', text_view ''queue''),
       (''mock_server_id'', text_view (py_strip server_id)),
       (''trigger'', Fields [(''id'', text_view (py_strip queue_id)), (''description'', text_view []),
          (''method'', text_view []), (''queue_code'', text_view (py_strip queue_id))]),
       (''timestamp'', text_view timestamp), (''payload'', Val payload),
       (''meta'', Fields [(''message_attributes'', Val attributes),
          (''message_id'', Items (map text_view (message_ids messages)))])]"

text \<open>\<open>_extract_payload_from_messages\<close>: the objects in the bodies of messages.\<close>

definition message_payload :: "'w services \<Rightarrow> json \<Rightarrow> json list" where
  "message_payload io m =
     (if \<not> is_obj m then []
      else
        (case (case jget (fields_of m) ''Body'' of
             JStr s \<Rightarrow> (case io_json_loads io s of Inr v \<Rightarrow> v | Inl e \<Rightarrow> JObj [(''raw_body'', JStr s)])
           | b \<Rightarrow> b) of
           JObj d \<Rightarrow> [JObj d]
         | JList xs \<Rightarrow> filter is_obj xs
         | JNull \<Rightarrow> []
         | v \<Rightarrow> [JObj [(''value'', v)]]))"

definition extract_payload_from_messages :: "'w services \<Rightarrow> json list \<Rightarrow> json list" where
  "extract_payload_from_messages io ms = concat (map (message_payload io) ms)"

text \<open>\<open>_persist_mock_invocation\<close>: the row has the JSON value of the event.\<close>

definition persist_mock_invocation :: "string \<Rightarrow> string \<Rightarrow> pyval \<Rightarrow> ('w mock_state, string) call" where
  "persist_mock_invocation server_id trigger_type event =
     sbind (in_env (reified event)) (\<lambda>j.
     sbind (in_exec fresh_id) (\<lambda>i s.
       (Inr i, s\<lparr>ms_invocations := ms_invocations s @
          [\<lparr>iv_id = i, iv_server = server_id, iv_trigger = trigger_type, iv_event = j\<rparr>]\<rparr>)))"

section \<open>\<open>execute_mock_operations\<close>\<close>

text \<open>\<open>_normalize_input_data\<close>: a new list of the objects.\<close>

definition normalize_input_data :: "pyval \<Rightarrow> heap \<Rightarrow> pyval \<times> heap" where
  "normalize_input_data v h =
     build_view (Items (map Val
       (case list_at h v of
          Some vs \<Rightarrow> filter (\<lambda>w. dict_at h w \<noteq> None) vs
        | None \<Rightarrow> if dict_at h v \<noteq> None then [v] else []))) h"

definition to_operation :: "mock_command \<Rightarrow> operation" where
  "to_operation c =
     \<lparr>op_id = mc_id c, op_configuration = JObj (mc_cfg c), op_description = mc_description c, op_order = mc_order c\<rparr>"

definition scope_from_source_type :: "string \<Rightarrow> string" where
  "scope_from_source_type source_type =
     (if py_lower (py_strip source_type) = ''api-pre-response'' then ''mock.preResponse'' else ''mock.postResponse'')"

definition job_context :: "mock_context \<Rightarrow> ('w mock_state, run_context) call" where
  "job_context c =
     (case c of Bound rc \<Rightarrow> spure rc | Transferred p \<Rightarrow> in_env (builds (deserialize_run_context p)))"

definition execute_mock_operations ::
  "field_types \<Rightarrow> 'w executor \<Rightarrow> bool \<Rightarrow> mock_job \<Rightarrow> ('w mock_state, unit) call" where
  "execute_mock_operations pyd ex raise_errors j =
     (if mj_commands j = [] then spure ()
      else
        sbind (in_env (builds (normalize_input_data (mj_data j)))) (\<lambda>data.
        sbind (job_context (mj_context j)) (\<lambda>rc s.
          case in_exec (managed_session (bind_context rc (execute_operations pyd ex
                 (map to_operation (mj_commands j)) data (Some (scope_from_source_type (mj_source j)))))) s of
            (Inl e, s1) \<Rightarrow> (if raise_errors then Inl e else Inr (), s1)
          | (Inr _, s1) \<Rightarrow> (Inr (), s1))))"

section \<open>Responses\<close>

text \<open>\<open>int(v if v is not None else 200)\<close>, where a type or value error gives 200.\<close>

definition status_of :: "pyval \<Rightarrow> int" where
  "status_of v =
     (case v of
        VBool b \<Rightarrow> if b then 1 else 0
      | VInt i \<Rightarrow> i
      | VFloat q r \<Rightarrow> if q < 0 then - \<lfloor>- q\<rfloor> else \<lfloor>q\<rfloor>
      | VStr s \<Rightarrow> (case int_of_text s of Inr i \<Rightarrow> i | Inl e \<Rightarrow> 200)
      | _ \<Rightarrow> 200)"

text \<open>A value of the route resolved in the scope of a run context that need not be the current one.\<close>

definition resolve_for :: "run_context \<Rightarrow> json \<Rightarrow> pyval py" where
  "resolve_for rc j st =
     (case resolve_in_context j (st\<lparr>current_context := Some rc\<rparr>) of
        (r, st') \<Rightarrow> (r, st'\<lparr>current_context := current_context st\<rparr>))"

text \<open>The body: a default for None, and the identifier of the trigger in a copy of an object without one.\<close>

definition response_body :: "pyval \<Rightarrow> string \<Rightarrow> heap \<Rightarrow> pyval \<times> heap" where
  "response_body v trigger_id h =
     (let (w, h1) = (if v = VNone then build_view (Fields [(''status'', text_view ''ok'')]) h else (v, h)) in
      case dict_at h1 w of
        None \<Rightarrow> (w, h1)
      | Some d \<Rightarrow>
          (if dict_get d ''trigger_id'' \<noteq> None then (w, h1)
           else (case halloc (ODict (dict_set ''trigger_id'' (VStr trigger_id) d)) h1 of (a, h2) \<Rightarrow> (VRef a, h2))))"

definition build_runtime_response_payload ::
  "mock_route \<Rightarrow> run_context \<Rightarrow> string \<Rightarrow> ('w env, int \<times> pyval dict \<times> pyval) call" where
  "build_runtime_response_payload r rc trigger_id =
     sbind (with_py (resolve_for rc (mr_status r))) (\<lambda>status.
     sbind (with_py (resolve_for rc (JObj (mr_response_headers r)))) (\<lambda>hv.
     sbind (reads (\<lambda>h. case dict_at h hv of Some d \<Rightarrow> d | None \<Rightarrow> [])) (\<lambda>headers.
     sbind (with_py (resolve_for rc (mr_response_body r))) (\<lambda>b.
     sbind (builds (response_body b trigger_id)) (\<lambda>body.
       spure (status_of status, headers, body))))))"

section \<open>\<open>dispatch_mock_runtime_request\<close>\<close>

definition text_fields :: "string dict \<Rightarrow> json" where
  "text_fields d = JObj (map (\<lambda>(k, v). (k, JStr v)) d)"

text \<open>The event of a request, and the context its commands run in.\<close>

definition open_request ::
  "'w services \<Rightarrow> mock_server \<Rightarrow> mock_route \<Rightarrow> mock_request \<Rightarrow>
    ('w mock_state, string \<times> string \<times> pyval \<times> run_context) call" where
  "open_request io v r q =
     sbind (in_exec fresh_id) (\<lambda>trigger_id.
     sbind (in_exec fresh_id) (\<lambda>event_id.
     sbind (in_env (builds (embed (if mk_json q \<noteq> JNull then mk_json q
         else if mk_raw q = [] then JNull else JStr (mk_raw q))))) (\<lambda>payload.
     sbind (in_env (builds (embed (text_fields (mk_header_fields q))))) (\<lambda>headers.
     sbind (in_env (builds (embed (text_fields (mk_params q))))) (\<lambda>query.
     sbind (in_env (asks (io_timestamp io))) (\<lambda>now.
     sbind (in_env (builds (build_view (build_api_event_envelope event_id now (mv_id v) r (mk_method q)
         payload headers query)))) (\<lambda>event.
     sbind (persist_mock_invocation (mv_id v) ''api'' event) (\<lambda>invocation_id.
     sbind (in_env (builds (create_run_context invocation_id event VNone (Some invocation_id)))) (\<lambda>rc.
       spure (trigger_id, invocation_id, payload, rc))))))))))"

definition dispatch_route ::
  "field_types \<Rightarrow> 'w services \<Rightarrow> 'w executor \<Rightarrow> mock_server \<Rightarrow> mock_route \<Rightarrow> mock_request \<Rightarrow>
    ('w mock_state, int \<times> pyval dict \<times> pyval) call" where
  "dispatch_route pyd io ex v r q =
     sbind (open_request io v r q) (\<lambda>(trigger_id, invocation_id, payload, rc).
     sbind (if mr_pre r = [] then spure ()
       else execute_mock_operations pyd ex True \<lparr>mj_source = ''api-pre-response'', mj_ref = mr_id r,
              mj_commands = mr_pre r, mj_data = payload, mj_context = Bound rc\<rparr>) (\<lambda>_.
     sbind (in_env (build_runtime_response_payload r rc trigger_id)) (\<lambda>(status, headers, body).
     let post = (if mr_post r = [] then mr_commands r else mr_post r) in
     sbind (if post = [] then spure ()
       else sbind (in_env (builds (serialize_run_context rc))) (\<lambda>p s.
         (Inr (), s\<lparr>ms_tasks := ms_tasks s @ [\<lparr>mj_source = ''api'', mj_ref = mr_id r, mj_commands = post,
            mj_data = payload, mj_context = Transferred p\<rparr>]\<rparr>))) (\<lambda>_.
       spure (if status = 0 then 200 else status,
         dict_set ''X-QualityFlow-Invocation-Id'' (VStr invocation_id)
           (dict_set ''X-QualityFlow-Trigger-Id'' (VStr trigger_id) headers), body)))))"

definition dispatch_mock_runtime_request ::
  "field_types \<Rightarrow> 'w services \<Rightarrow> 'w executor \<Rightarrow> mock_server option \<Rightarrow> mock_request \<Rightarrow>
    ('w mock_state, (int \<times> pyval dict \<times> pyval) option) call" where
  "dispatch_mock_runtime_request pyd io ex server q =
     (case server of
        None \<Rightarrow> spure None
      | Some v \<Rightarrow>
          (case find_matching_api_route v q of
             None \<Rightarrow> spure None
           | Some r \<Rightarrow> sbind (dispatch_route pyd io ex v r q) (\<lambda>res. spure (Some res))))"

text \<open>FastAPI runs the background tasks after the response, in order.\<close>

fun run_jobs :: "field_types \<Rightarrow> 'w executor \<Rightarrow> mock_job list \<Rightarrow> ('w mock_state, unit) call" where
  "run_jobs pyd ex [] = spure ()"
| "run_jobs pyd ex (j # js) = sbind (execute_mock_operations pyd ex False j) (\<lambda>_. run_jobs pyd ex js)"

definition run_background_tasks :: "field_types \<Rightarrow> 'w executor \<Rightarrow> ('w mock_state, unit) call" where
  "run_background_tasks pyd ex s = run_jobs pyd ex (ms_tasks s) (s\<lparr>ms_tasks := []\<rparr>)"

section \<open>The listener of a queue\<close>

text \<open>\<open>max(min(int(v or 10), 10), 1)\<close> and \<open>max(int(v or 1), 1)\<close>.\<close>

definition clamp_messages :: "int \<Rightarrow> int" where
  "clamp_messages n = max (min (if n = 0 then 10 else n) 10) 1"

definition clamp_interval :: "int \<Rightarrow> int" where
  "clamp_interval n = max (if n = 0 then 1 else n) 1"

text \<open>What follows the receipt of messages, up to their acknowledgement.\<close>

definition handle_messages ::
  "field_types \<Rightarrow> 'w services \<Rightarrow> 'w executor \<Rightarrow> string \<Rightarrow> mock_queue \<Rightarrow> json list \<Rightarrow> ('w mock_state, unit) call" where
  "handle_messages pyd io ex server_id b messages =
     sbind (in_exec fresh_id) (\<lambda>trigger_id.
     sbind (in_env (builds (embed (JList (extract_payload_from_messages io messages))))) (\<lambda>payload.
     sbind (in_exec fresh_id) (\<lambda>event_id.
     sbind (in_env (builds (embed (JList (message_attributes messages))))) (\<lambda>attributes.
     sbind (in_env (asks (io_timestamp io))) (\<lambda>now.
     sbind (in_env (builds (build_view (build_queue_event_envelope event_id now server_id (mq_queue b)
         payload attributes messages)))) (\<lambda>event.
     sbind (persist_mock_invocation server_id ''queue'' event) (\<lambda>invocation_id.
     sbind (in_env (builds (create_run_context invocation_id event VNone (Some invocation_id)))) (\<lambda>rc.
       execute_mock_operations pyd ex False \<lparr>mj_source = ''queue'', mj_ref = mq_id b,
         mj_commands = mq_commands b, mj_data = payload, mj_context = Bound rc\<rparr>))))))))"

text \<open>A call whose exception is caught and logged.\<close>

definition ignoring :: "('s, 'a) call \<Rightarrow> ('s, unit) call" where
  "ignoring m s = (case m s of (_, s') \<Rightarrow> (Inr (), s'))"

definition listener_turn ::
  "field_types \<Rightarrow> 'w services \<Rightarrow> 'w executor \<Rightarrow> string \<Rightarrow> json \<Rightarrow> mock_queue \<Rightarrow> ('w mock_state, unit) call" where
  "listener_turn pyd io ex server_id connection b s =
     (case in_env (with_world (io_receive io connection (mq_queue b) (clamp_messages (mq_max b)))) s of
        (Inl e, s1) \<Rightarrow> in_env (with_world (io_sleep io (clamp_interval (mq_interval b)))) s1
      | (Inr messages, s1) \<Rightarrow>
          (if messages = [] then in_env (with_world (io_sleep io (clamp_interval (mq_interval b)))) s1
           else
             sbind (handle_messages pyd io ex server_id b messages) (\<lambda>_.
               ignoring (in_env (with_world (io_ack io connection (mq_queue b) messages)))) s1))"

text \<open>The loop, stopped before its turn with the given number.\<close>

fun listener_run ::
  "field_types \<Rightarrow> 'w services \<Rightarrow> 'w executor \<Rightarrow> string \<Rightarrow> json \<Rightarrow> mock_queue \<Rightarrow> nat \<Rightarrow> ('w mock_state, unit) call" where
  "listener_run pyd io ex server_id connection b 0 = spure ()"
| "listener_run pyd io ex server_id connection b (Suc n) =
     sbind (listener_turn pyd io ex server_id connection b) (\<lambda>_. listener_run pyd io ex server_id connection b n)"

end
