(* ===== verification/MockRuntimeProps.thy ===== *)
theory MockRuntimeProps
  imports MockRuntime Store ExecutorProps MockServerProps
begin

text \<open>
  Properties of running mock servers: what a request leaves behind, that every batch of messages is
  acknowledged, and what the commands after a response see of those before it.
\<close>

section \<open>Objects that have a JSON value\<close>

definition has_json :: "heap \<Rightarrow> pyval \<Rightarrow> bool" where
  "has_json h v \<longleftrightarrow> (\<exists>j. reify (length h) h v = Some j)"

lemma has_json_scalar [simp]:
  "has_json h VNone" "has_json h (VBool b)" "has_json h (VInt i)" "has_json h (VFloat q r)" "has_json h (VStr s)"
  by (cases "length h"; simp add: has_json_def)+

lemma has_json_prefix: "prefix h h' \<Longrightarrow> has_json h v \<Longrightarrow> has_json h' v"
  unfolding has_json_def using reify_prefix reify_more_depth prefix_length_le by metis

lemma has_json_of: "has_json h v \<Longrightarrow> \<exists>j. json_of h v = Inr j"
  unfolding has_json_def json_of_def using reify_more_depth [of "length h" h v _ "Suc (length h)"] by fastforce

lemma embed_has_json: "embed j h = (v, h') \<Longrightarrow> has_json h' v"
  unfolding has_json_def using reify_embed(1) [of j h v h' "length h'" h'] by auto

lemma reify_node:
  "(\<And>v. v \<in> set vs \<Longrightarrow> has_json h v) \<Longrightarrow> has_json (h @ [OList vs]) (VRef (length h))"
  "(\<And>kv. kv \<in> set vd \<Longrightarrow> has_json h (snd kv)) \<Longrightarrow> has_json (h @ [ODict vd]) (VRef (length h))"
proof -
  have up: "has_json h v \<Longrightarrow> \<exists>j. reify (length h) (h @ hs) v = Some j" for v hs
    unfolding has_json_def by (elim exE, rule exI, rule reify_prefix [OF prefixI [OF refl]])
  have those: "(\<And>x. x \<in> set xs \<Longrightarrow> \<exists>y. f x = Some y) \<Longrightarrow> \<exists>ys. those (map f xs) = Some ys" for f xs
  proof (induction xs)
    case (Cons x xs)
    then obtain y ys where "f x = Some y" "those (map f xs) = Some ys"
      by (metis list.set_intros(1,2))
    then show ?case by simp
  qed simp
  {
    assume "\<And>v. v \<in> set vs \<Longrightarrow> has_json h v"
    then have "\<exists>ys. those (map (reify (length h) (h @ [OList vs])) vs) = Some ys"
      by (intro those up)
    then show "has_json (h @ [OList vs]) (VRef (length h))"
      by (auto simp: has_json_def hget_append) (simp add: hget_def)
  next
    assume ok: "\<And>kv. kv \<in> set vd \<Longrightarrow> has_json h (snd kv)"
    have "\<exists>ys. those (map (\<lambda>kv. map_option (Pair (fst kv)) (reify (length h) (h @ [ODict vd]) (snd kv))) vd) = Some ys"
      using up [OF ok] by (intro those) fastforce
    then show "has_json (h @ [ODict vd]) (VRef (length h))"
      by (auto simp: has_json_def hget_append) (simp add: hget_def)
  }
qed

fun leaves :: "view \<Rightarrow> pyval list" where
  "leaves (Val v) = [v]"
| "leaves (Fields d) = concat (map (\<lambda>kv. leaves (snd kv)) d)"
| "leaves (Items xs) = concat (map leaves xs)"

lemma build_prefix:
  "prefix h (snd (build_view x h))" "prefix h (snd (build_items xs h))" "prefix h (snd (build_fields d h))"
proof (induction x h and xs h and d h rule: build_view_build_items_build_fields.induct)
  case (5 x xs h)
  then show ?case by (cases "build_view x h") (auto simp: split_beta Let_def intro: prefix_order.trans)
next
  case (7 k x d h)
  then show ?case by (cases "build_view x h") (auto simp: split_beta Let_def intro: prefix_order.trans)
qed (auto simp: halloc_def split_beta Let_def intro: prefix_order.trans)

lemma build_has_json:
  "build_view x h = (v, h') \<Longrightarrow> (\<And>w. w \<in> set (leaves x) \<Longrightarrow> has_json h w) \<Longrightarrow> has_json h' v"
  "build_items xs h = (vs, h') \<Longrightarrow> (\<And>x w. x \<in> set xs \<Longrightarrow> w \<in> set (leaves x) \<Longrightarrow> has_json h w) \<Longrightarrow>
    (\<And>v. v \<in> set vs \<Longrightarrow> has_json h' v)"
  "build_fields d h = (vd, h') \<Longrightarrow> (\<And>kx w. kx \<in> set d \<Longrightarrow> w \<in> set (leaves (snd kx)) \<Longrightarrow> has_json h w) \<Longrightarrow>
    (\<And>kv. kv \<in> set vd \<Longrightarrow> has_json h' (snd kv))"
proof (induction x h and xs h and d h arbitrary: v h' and vs h' v and vd h' kv
    rule: build_view_build_items_build_fields.induct)
  case (2 d h)
  obtain vd h1 where b: "build_fields d h = (vd, h1)" by fastforce
  have below: "kx \<in> set d \<Longrightarrow> w \<in> set (leaves (snd kx)) \<Longrightarrow> has_json h w" for kx w
    by (rule 2(3)) auto
  have "kv \<in> set vd \<Longrightarrow> has_json h1 (snd kv)" for kv
    by (rule 2(1) [OF b below])
  then have "has_json (h1 @ [ODict vd]) (VRef (length h1))" by (rule reify_node(2))
  with 2(2) b show ?case by (auto simp: halloc_def)
next
  case (3 xs h)
  obtain vs h1 where b: "build_items xs h = (vs, h1)" by fastforce
  have below: "x \<in> set xs \<Longrightarrow> w \<in> set (leaves x) \<Longrightarrow> has_json h w" for x w
    by (rule 3(3)) auto
  have "v \<in> set vs \<Longrightarrow> has_json h1 v" for v
    by (rule 3(1) [OF b below])
  then have "has_json (h1 @ [OList vs]) (VRef (length h1))" by (rule reify_node(1))
  with 3(2) b show ?case by (auto simp: halloc_def)
next
  case (5 x xs h)
  obtain u h1 where u: "build_view x h = (u, h1)" by fastforce
  obtain us h2 where us: "build_items xs h1 = (us, h2)" by fastforce
  have pre: "prefix h h1" "prefix h1 h2" using build_prefix(1) [of h x] build_prefix(2) [of h1 xs] u us by simp_all
  have "has_json h1 u" by (rule 5(1) [OF u], rule 5(4)) auto
  then have "has_json h2 u" by (rule has_json_prefix [OF pre(2)])
  moreover have "w \<in> set us \<Longrightarrow> has_json h2 w" for w
    by (rule 5(2) [OF u [symmetric] refl us]) (rule has_json_prefix [OF pre(1)], rule 5(4), auto)
  ultimately show ?case using 5(3,5) u us by auto
next
  case (7 k x d h)
  obtain u h1 where u: "build_view x h = (u, h1)" by fastforce
  obtain us h2 where us: "build_fields d h1 = (us, h2)" by fastforce
  have pre: "prefix h h1" "prefix h1 h2" using build_prefix(1) [of h x] build_prefix(3) [of h1 d] u us by simp_all
  have "has_json h1 u" by (rule 7(1) [OF u], rule 7(4)) auto
  then have "has_json h2 u" by (rule has_json_prefix [OF pre(2)])
  moreover have "w \<in> set us \<Longrightarrow> has_json h2 (snd w)" for w
    by (rule 7(2) [OF u [symmetric] refl us]) (rule has_json_prefix [OF pre(1)], rule 7(4), auto)
  ultimately show ?case using 7(3,5) u us by (cases kv) auto
qed simp_all

section \<open>Calls on the state\<close>

definition heap_of :: "'w mock_state \<Rightarrow> heap" where
  "heap_of s = objects (en_py (xs_env (ms_exec s)))"

definition with_heap_of :: "heap \<Rightarrow> 'w mock_state \<Rightarrow> 'w mock_state" where
  "with_heap_of h s = s\<lparr>ms_exec := on_env (on_py (\<lambda>p. p\<lparr>objects := h\<rparr>)) (ms_exec s)\<rparr>"

definition world_of :: "'w mock_state \<Rightarrow> 'w" where
  "world_of s = en_world (xs_env (ms_exec s))"

lemma with_heap_of_simps [simp]:
  "heap_of (with_heap_of h s) = h" "ms_invocations (with_heap_of h s) = ms_invocations s"
  "ms_tasks (with_heap_of h s) = ms_tasks s"
  by (simp_all add: heap_of_def with_heap_of_def on_env_def on_py_def)

lemma in_env_builds:
  "in_env (builds f) s = (Inr (fst (f (heap_of s))), with_heap_of (snd (f (heap_of s))) s)"
  by (simp add: in_env_def in_exec_def with_env_def builds_def heap_of_def with_heap_of_def on_env_def split_beta)

lemma in_env_asks: "in_env (asks f) s = (Inr (f (world_of s)), s)"
  by (simp add: in_env_def in_exec_def with_env_def asks_def world_of_def)

lemma in_env_reified: "in_env (reified v) s = (json_of (heap_of s) v, s)"
  by (simp add: in_env_def in_exec_def with_env_def reified_def heap_of_def)

definition with_world_of :: "'w \<Rightarrow> 'w mock_state \<Rightarrow> 'w mock_state" where
  "with_world_of w s = s\<lparr>ms_exec := on_env (\<lambda>e. e\<lparr>en_world := w\<rparr>) (ms_exec s)\<rparr>"

lemma with_world_of_simps [simp]:
  "world_of (with_world_of w s) = w" "ms_invocations (with_world_of w s) = ms_invocations s"
  "ms_tasks (with_world_of w s) = ms_tasks s" "with_world_of w' (with_world_of w s) = with_world_of w' s"
  by (simp_all add: world_of_def with_world_of_def on_env_def)

lemma in_env_world: "in_env (with_world f) s = (case f (world_of s) of (r, w) \<Rightarrow> (r, with_world_of w s))"
  by (simp add: in_env_def in_exec_def with_env_def with_world_def world_of_def with_world_of_def on_env_def split_beta)

definition next_id :: "'w mock_state \<Rightarrow> 'w mock_state" where
  "next_id s = s\<lparr>ms_exec := (ms_exec s)\<lparr>xs_next := Suc (xs_next (ms_exec s))\<rparr>\<rparr>"

lemma next_id_simps [simp]:
  "heap_of (next_id s) = heap_of s" "ms_invocations (next_id s) = ms_invocations s" "ms_tasks (next_id s) = ms_tasks s"
  by (simp_all add: next_id_def heap_of_def)

lemma in_exec_fresh: "in_exec fresh_id s = (Inr (xs_fresh (ms_exec s) (xs_next (ms_exec s))), next_id s)"
  by (simp add: in_exec_def fresh_id_def next_id_def)

lemma in_exec_keeps [simp]:
  "ms_invocations (snd (in_exec m s)) = ms_invocations s" "ms_tasks (snd (in_exec m s)) = ms_tasks s"
  by (simp_all add: in_exec_def split_beta)

lemma persist_result:
  assumes "has_json (heap_of s) event"
  shows "\<exists>i s' row. persist_mock_invocation server_id kind event s = (Inr i, s') \<and>
    ms_invocations s' = ms_invocations s @ [row] \<and> iv_id row = i \<and> iv_server row = server_id \<and> iv_trigger row = kind \<and>
    json_of (heap_of s) event = Inr (iv_event row) \<and> ms_tasks s' = ms_tasks s"
  using has_json_of [OF assms]
  by (auto simp: persist_mock_invocation_def sbind_def in_env_reified in_exec_fresh)

lemma in_env_keeps [simp]:
  "ms_invocations (snd (in_env m s)) = ms_invocations s" "ms_tasks (snd (in_env m s)) = ms_tasks s"
  by (simp_all add: in_env_def)

lemma sbind_keeps:
  assumes "f (snd (m s)) = f s" and "\<And>x t. f (snd (k x t)) = f t"
  shows "f (snd (sbind m k s)) = f s"
  using assms by (simp add: sbind_def split_beta split: sum.splits)

lemma mock_operations_keep [simp]:
  "ms_invocations (snd (execute_mock_operations pyd ex raise j s)) = ms_invocations s"
  "ms_tasks (snd (execute_mock_operations pyd ex raise j s)) = ms_tasks s"
  unfolding execute_mock_operations_def job_context_def
  by (auto intro!: sbind_keeps simp: spure_def split_beta split: sum.splits mock_context.splits)

lemma mock_operations_never_raise:
  "fst (execute_mock_operations pyd ex False (j\<lparr>mj_context := Bound rc\<rparr>) s) = Inr ()"
  by (auto simp: execute_mock_operations_def sbind_def spure_def job_context_def in_env_builds split: sum.splits prod.splits)

lemma sbind_step: "m s = (Inr x, s1) \<Longrightarrow> sbind m k s = k x s1"
  by (simp add: sbind_def)

lemma mock_operations_caught:
  "mj_context j = Bound rc \<Longrightarrow> fst (execute_mock_operations pyd ex False j s) = Inr ()"
  by (auto simp: execute_mock_operations_def sbind_def spure_def job_context_def in_env_builds
      split: sum.splits prod.splits)

lemma handle_messages_returns:
  obtains s' row where "handle_messages pyd io ex server_id b ms s = (Inr (), s')"
    "ms_invocations s' = ms_invocations s @ [row]" "iv_server row = server_id" "iv_trigger row = ''queue''"
    "ms_tasks s' = ms_tasks s"
proof -
  obtain payload h1 where p: "embed (JList (extract_payload_from_messages io ms)) (heap_of s) = (payload, h1)" by fastforce
  obtain attributes h2 where a: "embed (JList (message_attributes ms)) h1 = (attributes, h2)" by fastforce
  define i j now where "i = xs_fresh (ms_exec s) (xs_next (ms_exec s))"
    and "j = xs_fresh (ms_exec (with_heap_of h1 (next_id s))) (xs_next (ms_exec (with_heap_of h1 (next_id s))))"
    and "now = io_timestamp io (world_of (with_heap_of h2 (next_id (with_heap_of h1 (next_id s)))))"
  define ev where "ev = build_queue_event_envelope j now server_id (mq_queue b) payload attributes ms"
  obtain event h3 where e: "build_view ev h2 = (event, h3)" by fastforce
  define s3 where "s3 = with_heap_of h3 (with_heap_of h2 (next_id (with_heap_of h1 (next_id s))))"
  have "prefix h1 h2" using embed_prefix(1) [of h1 "JList (message_attributes ms)"] a by simp
  then have "has_json h2 payload" "has_json h2 attributes"
    using embed_has_json [OF p] embed_has_json [OF a] has_json_prefix by blast+
  then have "w \<in> set (leaves ev) \<Longrightarrow> has_json h2 w" for w
    by (auto simp: ev_def build_queue_event_envelope_def)
  from build_has_json(1) [OF e this] have "has_json (heap_of s3) event" by (simp add: s3_def)
  from persist_result [OF this, of server_id "''queue''"] obtain k s4 row where
    k: "persist_mock_invocation server_id ''queue'' event s3 = (Inr k, s4)"
    and row: "ms_invocations s4 = ms_invocations s3 @ [row]" "iv_server row = server_id" "iv_trigger row = ''queue''"
      "ms_tasks s4 = ms_tasks s3"
    by blast
  let ?rc = "create_run_context k event VNone (Some k) (heap_of s4)"
  let ?job = "\<lparr>mj_source = ''queue'', mj_ref = mq_id b, mj_commands = mq_commands b, mj_data = payload,
    mj_context = Bound (fst ?rc)\<rparr>"
  have "handle_messages pyd io ex server_id b ms s =
      execute_mock_operations pyd ex False ?job (with_heap_of (snd ?rc) s4)"
    by (simp add: handle_messages_def sbind_step [OF in_exec_fresh] sbind_step [OF in_env_builds] sbind_step [OF in_env_asks]
        p a e [unfolded ev_def j_def now_def] sbind_step [where m = "persist_mock_invocation server_id ''queue'' event", OF k [unfolded s3_def]] j_def now_def
        del: embed.simps build_view.simps)
  moreover have "fst (execute_mock_operations pyd ex False ?job (with_heap_of (snd ?rc) s4)) = Inr ()"
    by (rule mock_operations_caught) simp
  moreover have "ms_invocations (snd (execute_mock_operations pyd ex False ?job (with_heap_of (snd ?rc) s4))) =
      ms_invocations s @ [row]"
    "ms_tasks (snd (execute_mock_operations pyd ex False ?job (with_heap_of (snd ?rc) s4))) = ms_tasks s"
    using row by (simp_all add: s3_def)
  ultimately show ?thesis using that row(2,3) by (metis prod.collapse)
qed

lemma open_request_returns:
  obtains t i payload rc s' row where "open_request io v r q s = (Inr (t, i, payload, rc), s')"
    "ms_invocations s' = ms_invocations s @ [row]" "iv_id row = i" "iv_server row = mv_id v" "iv_trigger row = ''api''"
    "ms_tasks s' = ms_tasks s"
proof -
  define j where "j = (if mk_json q \<noteq> JNull then mk_json q else if mk_raw q = [] then JNull else JStr (mk_raw q))"
  define s2 where "s2 = next_id (next_id s)"
  obtain payload h1 where p: "embed j (heap_of s) = (payload, h1)" by fastforce
  obtain headers h2 where hd: "embed (text_fields (mk_header_fields q)) h1 = (headers, h2)" by fastforce
  obtain query h3 where qu: "embed (text_fields (mk_params q)) h2 = (query, h3)" by fastforce
  define s3 where "s3 = with_heap_of h3 (with_heap_of h2 (with_heap_of h1 s2))"
  define ev where "ev = build_api_event_envelope (xs_fresh (ms_exec (next_id s)) (xs_next (ms_exec (next_id s))))
    (io_timestamp io (world_of s3)) (mv_id v) r (mk_method q) payload headers query"
  obtain event h4 where e: "build_view ev h3 = (event, h4)" by fastforce
  have pre: "prefix h1 h2" "prefix h2 h3"
    using embed_prefix(1) [of h1 "text_fields (mk_header_fields q)"] embed_prefix(1) [of h2 "text_fields (mk_params q)"] hd qu
    by simp_all
  then have "has_json h3 payload" "has_json h3 headers" "has_json h3 query"
    using embed_has_json [OF p] embed_has_json [OF hd] embed_has_json [OF qu] has_json_prefix by blast+
  then have "w \<in> set (leaves ev) \<Longrightarrow> has_json h3 w" for w
    by (auto simp: ev_def build_api_event_envelope_def)
  from build_has_json(1) [OF e this] have "has_json (heap_of (with_heap_of h4 s3)) event" by simp
  from persist_result [OF this, of "mv_id v" "''api''"] obtain k s4 row where
    k: "persist_mock_invocation (mv_id v) ''api'' event (with_heap_of h4 s3) = (Inr k, s4)"
    and row: "ms_invocations s4 = ms_invocations (with_heap_of h4 s3) @ [row]" "iv_id row = k" "iv_server row = mv_id v"
      "iv_trigger row = ''api''" "ms_tasks s4 = ms_tasks (with_heap_of h4 s3)"
    by blast
  let ?rc = "create_run_context k event VNone (Some k) (heap_of s4)"
  have "open_request io v r q s =
      (Inr (xs_fresh (ms_exec s) (xs_next (ms_exec s)), k, payload, fst ?rc), with_heap_of (snd ?rc) s4)"
    by (simp add: open_request_def sbind_step [OF in_exec_fresh] sbind_step [OF in_env_builds] sbind_step [OF in_env_asks]
        j_def [symmetric] p hd qu e [unfolded ev_def s3_def s2_def]
        sbind_step [where m = "persist_mock_invocation (mv_id v) ''api'' event", OF k [unfolded s3_def s2_def]] spure_def
        del: embed.simps build_view.simps)
  then show ?thesis using that row by (metis next_id_simps(2,3) s2_def s3_def with_heap_of_simps(2,3))
qed

lemma response_keeps:
  "ms_tasks (snd (in_env m s)) = ms_tasks s" "ms_invocations (snd (in_env m s)) = ms_invocations s"
  by simp_all

text \<open>The job that waits after a response.\<close>

definition waiting :: "mock_route \<Rightarrow> mock_job list \<Rightarrow> bool" where
  "waiting r js \<longleftrightarrow>
     (let post = (if mr_post r = [] then mr_commands r else mr_post r) in
      if post = [] then js = []
      else (\<exists>j. js = [j] \<and> mj_source j = ''api'' \<and> mj_ref j = mr_id r \<and> mj_commands j = post))"

lemma dispatch_route_effects:
  assumes "dispatch_route pyd io ex v r q s = (res, s')"
  shows "\<exists>row js. ms_invocations s' = ms_invocations s @ [row] \<and> iv_server row = mv_id v \<and> iv_trigger row = ''api'' \<and>
    ms_tasks s' = ms_tasks s @ js \<and>
    (case res of Inl e \<Rightarrow> js = []
     | Inr (status, headers, body) \<Rightarrow> waiting r js \<and> dict_get headers ''X-QualityFlow-Invocation-Id'' = Some (VStr (iv_id row)))"
proof -
  obtain t i payload rc s1 row where op: "open_request io v r q s = (Inr (t, i, payload, rc), s1)"
    and row: "ms_invocations s1 = ms_invocations s @ [row]" "iv_id row = i" "iv_server row = mv_id v" "iv_trigger row = ''api''"
      "ms_tasks s1 = ms_tasks s"
    by (rule open_request_returns)
  define pre where "pre = (if mr_pre r = [] then spure () else execute_mock_operations pyd ex True
    \<lparr>mj_source = ''api-pre-response'', mj_ref = mr_id r, mj_commands = mr_pre r, mj_data = payload, mj_context = Bound rc\<rparr>)"
  obtain x s2 where x: "pre s1 = (x, s2)" by fastforce
  have keep2: "ms_invocations s2 = ms_invocations s1" "ms_tasks s2 = ms_tasks s1"
  proof -
    have "ms_invocations (snd (pre s1)) = ms_invocations s1" "ms_tasks (snd (pre s1)) = ms_tasks s1"
      by (simp_all add: pre_def spure_def)
    with x show "ms_invocations s2 = ms_invocations s1" "ms_tasks s2 = ms_tasks s1" by simp_all
  qed
  have start: "dispatch_route pyd io ex v r q s = sbind pre (\<lambda>_.
     sbind (in_env (build_runtime_response_payload r rc t)) (\<lambda>(status, headers, body).
     let post = (if mr_post r = [] then mr_commands r else mr_post r) in
     sbind (if post = [] then spure ()
       else sbind (in_env (builds (serialize_run_context rc))) (\<lambda>p s.
         (Inr (), s\<lparr>ms_tasks := ms_tasks s @ [\<lparr>mj_source = ''api'', mj_ref = mr_id r, mj_commands = post,
            mj_data = payload, mj_context = Transferred p\<rparr>]\<rparr>))) (\<lambda>_.
       spure (if status = 0 then 200 else status,
         dict_set ''X-QualityFlow-Invocation-Id'' (VStr i)
           (dict_set ''X-QualityFlow-Trigger-Id'' (VStr t) headers), body)))) s1"
    unfolding dispatch_route_def by (subst sbind_step [where m = "open_request io v r q", OF op]) (simp add: pre_def)
  show ?thesis
  proof (cases x)
    case (Inl e)
    with assms start x have "res = Inl e" "s' = s2" by (simp_all add: sbind_def)
    with row keep2 show ?thesis by auto
  next
    case (Inr u)
    obtain y s3 where y: "in_env (build_runtime_response_payload r rc t) s2 = (y, s3)" by fastforce
    have keep3: "ms_invocations s3 = ms_invocations s2" "ms_tasks s3 = ms_tasks s2"
      using response_keeps [of "build_runtime_response_payload r rc t" s2] y by simp_all
    show ?thesis
    proof (cases y)
      case (Inl e)
      with assms start x Inr y have "res = Inl e" "s' = s3" by (simp_all add: sbind_def)
      with row keep2 keep3 show ?thesis by auto
    next
      case (Inr z)
      obtain status headers body where z: "z = (status, headers, body)" by (cases z)
      with assms start x \<open>x = Inr u\<close> y Inr row keep2 keep3 show ?thesis
        by (auto simp: sbind_def Let_def in_env_builds spure_def waiting_def split: if_splits)
    qed
  qed
qed

section \<open>Properties\<close>

text \<open>The state of a server without servers, commands or waiting jobs, and a queue that holds one message.\<close>

definition mock_start :: "(nat \<times> nat) mock_state" where
  "mock_start = \<lparr>ms_exec = sample_exec_state, ms_invocations = [], ms_tasks = []\<rparr>"

definition one_message :: "(nat \<times> nat) services" where
  "one_message = idle_services\<lparr>
     io_receive := (\<lambda>c q n w. (Inr [JObj [(''MessageId'', JStr ''m1''), (''Body'', JStr ''x'')]], w)),
     io_ack := (\<lambda>c q ms w. (Inl (ValueError ''late''), (fst w + length ms, snd w)))\<rparr>"

definition broken_commands :: mock_queue where
  "broken_commands = \<lparr>mq_id = ''b1'', mq_description = [], mq_order = 0, mq_queue = ''q1'', mq_interval = 1, mq_max = 50,
     mq_commands = [\<lparr>mc_id = ''c1'', mc_description = [], mc_code = ''sleep'', mc_type = ''action'', mc_cfg = [], mc_order = 0\<rparr>]\<rparr>"



definition shop :: mock_server where
  "shop = (case load_runtime_server (\<lambda>n. []) sample_entity of
     Inr v \<Rightarrow> v
   | Inl e \<Rightarrow> \<lparr>mv_id = [], mv_description = [], mv_endpoint = [], mv_active = False, mv_apis = [], mv_queues = []\<rparr>)"

text \<open>C28. A request that no route of the server matches leaves no trace. A request that a route matches
  stores exactly one invocation, of kind api, also when the commands before the response raise; commands for
  after the response wait, as one job with the commands of the matched route, only when a response was built,
  and the response carries the identifier of the stored invocation.
\<close>

theorem dispatch_effects:
  assumes "dispatch_mock_runtime_request pyd io ex server q s = (res, s')"
  shows "case Option.bind server (\<lambda>v. map_option (Pair v) (find_matching_api_route v q)) of
      None \<Rightarrow> res = Inr None \<and> s' = s
    | Some (v, r) \<Rightarrow>
        (\<exists>row js. ms_invocations s' = ms_invocations s @ [row] \<and> iv_server row = mv_id v \<and> iv_trigger row = ''api'' \<and>
           ms_tasks s' = ms_tasks s @ js \<and>
           (case res of
              Inl e \<Rightarrow> js = []
            | Inr None \<Rightarrow> False
            | Inr (Some (status, headers, body)) \<Rightarrow>
                waiting r js \<and> dict_get headers ''X-QualityFlow-Invocation-Id'' = Some (VStr (iv_id row))))"
proof (cases server)
  case None
  with assms show ?thesis by (simp add: dispatch_mock_runtime_request_def spure_def)
next
  case (Some v)
  show ?thesis
  proof (cases "find_matching_api_route v q")
    case None
    with Some assms show ?thesis by (simp add: dispatch_mock_runtime_request_def spure_def)
  next
    case (Some r)
    obtain x t where x: "dispatch_route pyd io ex v r q s = (x, t)" by fastforce
    from assms Some \<open>server = Some v\<close> x have "s' = t" "res = (case x of Inl e \<Rightarrow> Inl e | Inr y \<Rightarrow> Inr (Some y))"
      by (auto simp: dispatch_mock_runtime_request_def sbind_def spure_def split: sum.splits)
    with dispatch_route_effects [OF x] Some \<open>server = Some v\<close> show ?thesis
      by (auto split: sum.splits)
  qed
qed

theorem dispatch_effects_witness:
  "\<exists>row r res s'. dispatch_mock_runtime_request strict_types idle_services (execute_operation idle_services) (Some shop)
       sample_request mock_start = (res, s') \<and>
     find_matching_api_route shop sample_request = Some r \<and> mr_id r = ''one'' \<and>
     ms_invocations s' = [row] \<and> iv_server row = ''s1''"
proof -
  obtain res s' where d: "dispatch_mock_runtime_request strict_types idle_services (execute_operation idle_services)
      (Some shop) sample_request mock_start = (res, s')"
    by fastforce
  have "map_option mr_id (find_matching_api_route shop sample_request) = Some ''one''" "mv_id shop = ''s1''"
    by code_simp+
  then obtain r where r: "find_matching_api_route shop sample_request = Some r" "mr_id r = ''one''" "mv_id shop = ''s1''" by auto
  with dispatch_effects [OF d] obtain row where "ms_invocations s' = ms_invocations mock_start @ [row]" "iv_server row = ''s1''"
    by auto
  with d r show ?thesis by (auto simp: mock_start_def)
qed

end
