(* ===== verification/MockRegistry.thy ===== *)
theory MockRegistry
  imports MockRuntime
begin

text \<open>
  The servers that run (\<open>mock_servers/services/runtime/mock_server_runtime_registry.py\<close>): the registered servers, their
  endpoints, and the threads that listen to their queues. All operations hold one lock, so they are
  functions of the state. The rows of a server are an argument, as is the check that the constructor of a
  listener makes.
\<close>

text \<open>A thread is a number; it runs until it is told to stop.\<close>

record registry =
  rg_servers :: "mock_server dict"
  rg_endpoints :: "string dict"
  rg_threads :: "nat list dict"
  rg_running :: "nat list"
  rg_next :: nat

definition empty_registry :: registry where
  "empty_registry = \<lparr>rg_servers = [], rg_endpoints = [], rg_threads = [], rg_running = [], rg_next = 0\<rparr>"

definition get_server_by_endpoint :: "registry \<Rightarrow> string \<Rightarrow> mock_server option" where
  "get_server_by_endpoint g endpoint =
     (case dict_get (rg_endpoints g) (normalize_endpoint endpoint) of
        None \<Rightarrow> None
      | Some i \<Rightarrow> if i = [] then None else dict_get (rg_servers g) i)"

definition threads_of :: "registry \<Rightarrow> string \<Rightarrow> nat list" where
  "threads_of g i = (case dict_get (rg_threads g) i of None \<Rightarrow> [] | Some ts \<Rightarrow> ts)"

definition stop_server_locked :: "string \<Rightarrow> registry \<Rightarrow> registry" where
  "stop_server_locked i g =
     (let endpoints =
        (case dict_get (rg_servers g) i of
           None \<Rightarrow> rg_endpoints g
         | Some v \<Rightarrow>
             (if dict_get (rg_endpoints g) (normalize_endpoint (mv_endpoint v)) = Some i
              then dict_del (normalize_endpoint (mv_endpoint v)) (rg_endpoints g) else rg_endpoints g))
      in g\<lparr>rg_servers := dict_del i (rg_servers g), rg_endpoints := endpoints,
           rg_threads := dict_del i (rg_threads g),
           rg_running := filter (\<lambda>t. t \<notin> set (threads_of g i)) (rg_running g)\<rparr>)"

text \<open>\<open>MockQueueListenerThread.__init__\<close>: the queue and its connection must exist.\<close>

definition connect_listener :: "'w services \<Rightarrow> 'w \<Rightarrow> mock_queue \<Rightarrow> unit result" where
  "connect_listener io w q =
     (case sbind (find_queue io (mq_queue q)) (\<lambda>row. load_broker_connection io (qu_broker row)) w of
        (Inl e, _) \<Rightarrow> Inl e
      | (Inr c, _) \<Rightarrow> Inr ())"

text \<open>A listener is started before the next one is made.\<close>

fun start_listeners ::
  "(mock_queue \<Rightarrow> unit result) \<Rightarrow> mock_queue list \<Rightarrow> nat list \<Rightarrow> (registry, nat list) call" where
  "start_listeners connect [] ts = spure ts"
| "start_listeners connect (q # qs) ts =
     sbind (slift (connect q)) (\<lambda>_ g.
       start_listeners connect qs (ts @ [rg_next g])
         (g\<lparr>rg_running := rg_running g @ [rg_next g], rg_next := Suc (rg_next g)\<rparr>))"

definition start_server ::
  "(nat \<Rightarrow> string) \<Rightarrow> (string \<Rightarrow> server_entity option) \<Rightarrow> (mock_queue \<Rightarrow> unit result) \<Rightarrow> string \<Rightarrow>
    (registry, unit) call" where
  "start_server new_id rows connect i =
     (case rows i of
        None \<Rightarrow> sraise (ValueError (''Mock server '' @ quoted i @ '' not found.''))
      | Some e \<Rightarrow>
          sbind (slift (load_runtime_server new_id e)) (\<lambda>v g.
            let g1 = stop_server_locked i g;
                g2 = g1\<lparr>rg_servers := dict_set i v (rg_servers g1),
                        rg_endpoints := dict_set (mv_endpoint v) i (rg_endpoints g1)\<rparr>
            in sbind (start_listeners connect (mv_queues v) []) (\<lambda>ts g3.
                 (Inr (), g3\<lparr>rg_threads := dict_set i ts (rg_threads g3)\<rparr>)) g2))"

definition stop_server :: "string \<Rightarrow> (registry, unit) call" where
  "stop_server i g = (Inr (), stop_server_locked i g)"

definition remove_server :: "string \<Rightarrow> (registry, unit) call" where
  "remove_server i = stop_server i"

text \<open>A server that cannot be started is logged and the others follow.\<close>

definition bootstrap_active_servers ::
  "(nat \<Rightarrow> string) \<Rightarrow> (string \<Rightarrow> server_entity option) \<Rightarrow> (mock_queue \<Rightarrow> unit result) \<Rightarrow> string list \<Rightarrow>
    registry \<Rightarrow> registry" where
  "bootstrap_active_servers new_id rows connect ids g =
     foldl (\<lambda>g i. snd (start_server new_id rows connect i g)) g (filter (\<lambda>i. i \<noteq> []) ids)"

section \<open>Steps\<close>

text \<open>What the API does to the registry, with the rows and the queues as they are at that moment.\<close>

inductive registry_step :: "registry \<Rightarrow> registry \<Rightarrow> bool" where
  start: "registry_step g (snd (start_server new_id rows connect i g))" if "i \<noteq> []"
| stop: "registry_step g (snd (stop_server i g))"
| remove: "registry_step g (snd (remove_server i g))"

inductive registry_reachable :: "registry \<Rightarrow> bool" where
  initial: "registry_reachable empty_registry"
| step: "registry_reachable g \<Longrightarrow> registry_step g g' \<Longrightarrow> registry_reachable g'"

inductive_cases registry_stepE: "registry_step g g'"

section \<open>The HTTP surface\<close>

text \<open>\<open>mock_runtime_api.py\<close>.\<close>

definition unsafe_response_headers :: "string list" where
  "unsafe_response_headers =
     [''content-length'', ''transfer-encoding'', ''connection'', ''keep-alive'', ''date'', ''server'']"

definition query_params_as_dict :: "(string \<times> string) list \<Rightarrow> string dict" where
  "query_params_as_dict items =
     foldl (\<lambda>acc (k, v). if dict_get acc k = None then dict_set k v acc else acc) [] items"

definition sanitize_response_headers :: "heap \<Rightarrow> pyval dict \<Rightarrow> string dict" where
  "sanitize_response_headers h d =
     foldl (\<lambda>acc (k, v).
       let key = py_strip k in
       if key = [] \<or> py_lower key \<in> set unsafe_response_headers then acc
       else dict_set key (case reify (Suc (length h)) h v of Some j \<Rightarrow> json_str j | None \<Rightarrow> []) acc) [] d"

datatype runtime_response =
    JsonContent int "string dict" pyval
  | RawContent int "string dict" string
  | NotFound

definition build_runtime_response :: "heap \<Rightarrow> int \<Rightarrow> pyval dict \<Rightarrow> pyval \<Rightarrow> runtime_response" where
  "build_runtime_response h status headers body =
     (let safe = sanitize_response_headers h headers in
      case body of
        VNone \<Rightarrow> RawContent status safe []
      | VStr s \<Rightarrow> RawContent status safe s
      | v \<Rightarrow> JsonContent status safe v)"

text \<open>The text of the body is parsed when there is one; the text \<open>null\<close>, like a text that is not JSON, leaves no
  JSON body. Decoding the bytes of the request is left out.\<close>

definition parsed_body :: "'w services \<Rightarrow> string \<Rightarrow> json" where
  "parsed_body io raw = (if raw = [] then JNull else case io_json_loads io raw of Inr v \<Rightarrow> v | Inl e \<Rightarrow> JNull)"

definition dispatch_runtime_request ::
  "field_types \<Rightarrow> 'w services \<Rightarrow> 'w executor \<Rightarrow> registry \<Rightarrow> string \<Rightarrow> mock_request \<Rightarrow>
    ('w mock_state, runtime_response) call" where
  "dispatch_runtime_request pyd io ex g endpoint q =
     sbind (dispatch_mock_runtime_request pyd io ex (get_server_by_endpoint g endpoint)
         (q\<lparr>mk_path := (if mk_path q = [] then ''/'' else mk_path q), mk_json := parsed_body io (mk_raw q)\<rparr>)) (\<lambda>res.
       case res of
         None \<Rightarrow> spure NotFound
       | Some (status, headers, body) \<Rightarrow>
           (\<lambda>s. (Inr (build_runtime_response (objects (en_py (xs_env (ms_exec s)))) status headers body), s)))"

end
