(* ===== verification/MockRegistryProps.thy ===== *)
theory MockRegistryProps
  imports MockRegistry ExecutorProps
begin

text \<open>
  Properties of the registry of running mock servers: an endpoint leads to the server it belongs to, and
  what a start that fails leaves behind.
\<close>

section \<open>Threads\<close>

lemma start_listeners_result:
  "start_listeners connect qs ts g =
     (let k = length (takeWhile (\<lambda>q. connect q = Inr ()) qs);
          g' = g\<lparr>rg_running := rg_running g @ [rg_next g..<rg_next g + k], rg_next := rg_next g + k\<rparr>
      in (if k < length qs then (case connect (qs ! k) of Inl e \<Rightarrow> (Inl e, g') | Inr _ \<Rightarrow> (Inr [], g'))
          else (Inr (ts @ [rg_next g..<rg_next g + k]), g')))"
proof (induction qs arbitrary: ts g)
  case Nil
  then show ?case by (simp add: spure_def)
next
  case (Cons q qs)
  show ?case
  proof (cases "connect q")
    case (Inl e)
    then show ?thesis by (simp add: sbind_def slift_def)
  next
    case (Inr u)
    have upt: "n # [Suc n..<Suc (n + k)] = [n..<Suc (n + k)]" for n k
      by (simp add: upt_conv_Cons del: upt_Suc)
    from Inr show ?thesis
      by (simp add: sbind_def slift_def Cons.IH Let_def upt del: upt_Suc split: sum.splits)
  qed
qed

text \<open>A start either does nothing, because the rows cannot be loaded, or registers the loaded server.\<close>

definition registered :: "string \<Rightarrow> mock_server \<Rightarrow> registry \<Rightarrow> registry" where
  "registered i v g =
     (let g1 = stop_server_locked i g
      in g1\<lparr>rg_servers := dict_set i v (rg_servers g1), rg_endpoints := dict_set (mv_endpoint v) i (rg_endpoints g1)\<rparr>)"

lemma start_server_cases:
  obtains (nothing) e where "start_server new_id rows connect i g = (Inl e, g)"
    | (started) v r g' where "start_server new_id rows connect i g = (r, g')"
      "rg_servers g' = rg_servers (registered i v g)" "rg_endpoints g' = rg_endpoints (registered i v g)"
proof (cases "rows i")
  case None
  show ?thesis by (rule nothing) (simp add: start_server_def sraise_def None)
next
  case (Some e)
  show ?thesis
  proof (cases "load_runtime_server new_id e")
    case (Inl err)
    show ?thesis by (rule nothing) (simp add: start_server_def sbind_def slift_def Some Inl)
  next
    case (Inr v)
    obtain r g3 where s: "start_listeners connect (mv_queues v) [] (registered i v g) = (r, g3)" by fastforce
    have "rg_servers g3 = rg_servers (registered i v g)" "rg_endpoints g3 = rg_endpoints (registered i v g)"
      using s by (auto simp: start_listeners_result Let_def split: if_splits sum.splits)
    moreover have "start_server new_id rows connect i g =
        (case r of Inl err \<Rightarrow> (Inl err, g3) | Inr ts \<Rightarrow> (Inr (), g3\<lparr>rg_threads := dict_set i ts (rg_threads g3)\<rparr>))"
      using Some Inr s by (simp add: start_server_def sbind_def slift_def registered_def Let_def split: sum.splits)
    ultimately show ?thesis by (cases r) (auto intro: started)
  qed
qed

section \<open>Endpoints\<close>

definition plain_endpoint :: "string \<Rightarrow> bool" where
  "plain_endpoint e \<longleftrightarrow> normalize_endpoint e = e"

definition endpoints_ok :: "registry \<Rightarrow> bool" where
  "endpoints_ok g \<longleftrightarrow>
     (\<forall>e i. plain_endpoint e \<longrightarrow> dict_get (rg_endpoints g) e = Some i \<longrightarrow>
        (\<exists>v. dict_get (rg_servers g) i = Some v \<and> mv_endpoint v = e))"

lemma stop_servers: "rg_servers (stop_server_locked i g) = dict_del i (rg_servers g)"
  by (simp add: stop_server_locked_def Let_def)

lemma stop_endpoints:
  "dict_get (rg_endpoints (stop_server_locked i g)) e =
     (case dict_get (rg_servers g) i of
        Some v \<Rightarrow> if e = normalize_endpoint (mv_endpoint v) \<and> dict_get (rg_endpoints g) e = Some i then None
                  else dict_get (rg_endpoints g) e
      | None \<Rightarrow> dict_get (rg_endpoints g) e)"
  by (auto simp: stop_server_locked_def Let_def split: option.splits)

lemma stop_endpoints_ok:
  assumes "endpoints_ok g"
  shows "endpoints_ok (stop_server_locked i g)"
  unfolding endpoints_ok_def
proof (intro allI impI)
  fix e j
  assume e: "plain_endpoint e" and "dict_get (rg_endpoints (stop_server_locked i g)) e = Some j"
  then have old: "dict_get (rg_endpoints g) e = Some j"
    and gone: "\<And>v. dict_get (rg_servers g) i = Some v \<Longrightarrow> e = normalize_endpoint (mv_endpoint v) \<Longrightarrow> j \<noteq> i"
    by (auto simp: stop_endpoints split: option.splits if_splits)
  from assms e old obtain v where v: "dict_get (rg_servers g) j = Some v" "mv_endpoint v = e"
    unfolding endpoints_ok_def by blast
  with e gone have "j \<noteq> i" unfolding plain_endpoint_def by metis
  with v show "\<exists>v. dict_get (rg_servers (stop_server_locked i g)) j = Some v \<and> mv_endpoint v = e"
    by (simp add: stop_servers)
qed

lemma registered_endpoints_ok:
  assumes "endpoints_ok g"
  shows "endpoints_ok (registered i v g)"
  unfolding endpoints_ok_def
proof (intro allI impI)
  fix e j
  assume e: "plain_endpoint e" and j: "dict_get (rg_endpoints (registered i v g)) e = Some j"
  show "\<exists>w. dict_get (rg_servers (registered i v g)) j = Some w \<and> mv_endpoint w = e"
  proof (cases "e = mv_endpoint v")
    case True
    with j show ?thesis by (auto simp: registered_def Let_def)
  next
    case False
    with j have "dict_get (rg_endpoints (stop_server_locked i g)) e = Some j"
      by (simp add: registered_def Let_def)
    with stop_endpoints_ok [OF assms] e obtain w where
      "dict_get (rg_servers (stop_server_locked i g)) j = Some w" "mv_endpoint w = e"
      unfolding endpoints_ok_def by blast
    moreover from this have "j \<noteq> i" by (auto simp: stop_servers)
    ultimately show ?thesis by (auto simp: registered_def Let_def)
  qed
qed

lemma endpoints_ok_cong:
  "rg_servers g = rg_servers g' \<Longrightarrow> rg_endpoints g = rg_endpoints g' \<Longrightarrow> endpoints_ok g \<longleftrightarrow> endpoints_ok g'"
  by (simp add: endpoints_ok_def)

lemma start_endpoints_ok:
  assumes "endpoints_ok g"
  shows "endpoints_ok (snd (start_server new_id rows connect i g))"
proof (cases rule: start_server_cases [of new_id rows connect i g])
  case (nothing e)
  with assms show ?thesis by simp
next
  case (started v r g')
  then show ?thesis
    using registered_endpoints_ok [OF assms] endpoints_ok_cong [OF started(2,3)] by simp
qed

lemma reachable_endpoints_ok: "registry_reachable g \<Longrightarrow> endpoints_ok g"
proof (induction rule: registry_reachable.induct)
  case initial
  then show ?case by (simp add: endpoints_ok_def empty_registry_def)
next
  case (step g g')
  from step.hyps(2) show ?case
    by (cases rule: registry_stepE)
      (auto simp: stop_server_def remove_server_def intro!: start_endpoints_ok stop_endpoints_ok step.IH)
qed

section \<open>Properties\<close>

definition two_queues :: "string \<Rightarrow> server_entity option" where
  "two_queues i = (if i = ''m1'' then Some \<lparr>ve_id = ''m1'', ve_description = [], ve_endpoint = ''Shop'', ve_active = True, ve_apis = [],
     ve_queues = [\<lparr>qe_id = ''b1'', qe_description = [], qe_order = 0, qe_queue = ''q1'', qe_cfg = JNull, qe_commands = []\<rparr>,
       \<lparr>qe_id = ''b2'', qe_description = [], qe_order = 1, qe_queue = ''q2'', qe_cfg = JNull, qe_commands = []\<rparr>]\<rparr> else None)"

definition only_q1 :: "mock_queue \<Rightarrow> unit result" where
  "only_q1 q = (if mq_queue q = ''q1'' then Inr () else Inl (ValueError ''Queue 'q2' not found.''))"



text \<open>A start that fails at a queue is not undone: the call raises, but the server is registered and
  its endpoint answers, and the listeners of the queues before the failing one keep running. Stopping the server
  does not stop them, because their threads were never recorded.
\<close>

theorem failed_start_leaves_listeners:
  assumes "rows i = Some e" and "load_runtime_server new_id e = Inr v"
    and k: "k = length (takeWhile (\<lambda>q. connect q = Inr ()) (mv_queues v))" "k < length (mv_queues v)"
  shows "\<exists>err g'. start_server new_id rows connect i g = (Inl err, g') \<and> dict_get (rg_servers g') i = Some v \<and>
    dict_get (rg_endpoints g') (mv_endpoint v) = Some i \<and>
    {rg_next g..<rg_next g + k} \<subseteq> set (rg_running (snd (stop_server i g')))"
proof -
  have "connect (mv_queues v ! k) \<noteq> Inr ()"
    using nth_length_takeWhile [of "\<lambda>q. connect q = Inr ()" "mv_queues v"] k by simp
  then obtain err where err: "connect (mv_queues v ! k) = Inl err"
    by (cases "connect (mv_queues v ! k)") auto
  define g1 where "g1 = registered i v g"
  define g' where "g' = g1\<lparr>rg_running := rg_running g1 @ [rg_next g1..<rg_next g1 + k], rg_next := rg_next g1 + k\<rparr>"
  have "start_listeners connect (mv_queues v) [] g1 = (Inl err, g')"
    using k err by (simp add: start_listeners_result Let_def g'_def)
  then have run: "start_server new_id rows connect i g = (Inl err, g')"
    using assms(1,2) by (simp add: start_server_def sbind_def slift_def g1_def registered_def Let_def)
  have "threads_of g' i = []" "rg_next g1 = rg_next g"
    by (simp_all add: g'_def g1_def registered_def stop_server_locked_def threads_of_def Let_def)
  then have "{rg_next g..<rg_next g + k} \<subseteq> set (rg_running (snd (stop_server i g')))"
    by (auto simp: stop_server_def stop_server_locked_def Let_def g'_def)
  moreover have "dict_get (rg_servers g') i = Some v" "dict_get (rg_endpoints g') (mv_endpoint v) = Some i"
    by (simp_all add: g'_def g1_def registered_def Let_def)
  ultimately show ?thesis using run by blast
qed

theorem failed_start_leaves_listeners_witness:
  "\<exists>err g'. start_server (\<lambda>n. []) two_queues only_q1 ''m1'' empty_registry = (Inl err, g') \<and>
     dict_get (rg_endpoints g') ''shop'' = Some ''m1'' \<and> 0 \<in> set (rg_running (snd (stop_server ''m1'' g')))"
proof -
  obtain e v where e: "two_queues ''m1'' = Some e" and v: "load_runtime_server (\<lambda>n. []) e = Inr v"
    and k: "1 = length (takeWhile (\<lambda>q. only_q1 q = Inr ()) (mv_queues v))" "1 < length (mv_queues v)"
    and n: "mv_endpoint v = ''shop''"
  proof -
    have "case load_runtime_server (\<lambda>n. []) (the (two_queues ''m1'')) of Inl e \<Rightarrow> False
      | Inr v \<Rightarrow> mv_endpoint v = ''shop'' \<and> 1 = length (takeWhile (\<lambda>q. only_q1 q = Inr ()) (mv_queues v)) \<and>
          1 < length (mv_queues v)"
      by code_simp
    then show ?thesis by (auto simp: two_queues_def split: sum.splits intro: that)
  qed
  from failed_start_leaves_listeners [where rows = two_queues and connect = only_q1 and g = empty_registry, OF e v k] n show ?thesis
    by (auto simp: empty_registry_def)
qed

end
