(* ===== verification/ContextTransferProps.thy ===== *)
theory ContextTransferProps
  imports ContextTransfer RunContextProps
begin

text \<open>
  What a run context keeps when it is turned into a dictionary and back: its constants, which are the
  same objects.
\<close>

section \<open>The dictionary\<close>

lemma serialize_shape:
  assumes "serialize_run_context rc h = (p, h1)"
  obtains d where "prefix h h1" and "hget h1 (ref_of p) = Some (ODict d)" and "p = VRef (ref_of p)"
    and "dict_get d ''runEnvelope'' = Some (VRef (run_envelope rc))" "dict_get d ''global'' = Some (VRef (global_scope rc))"
    "dict_get d ''local'' = Some (VRef (local_scope rc))" "dict_get d ''result'' = Some (VRef (result_scope rc))"
proof -
  obtain sources h0 where s: "embed (JObj (visible_sources rc)) h = (sources, h0)" by fastforce
  have pre: "prefix h h0" using embed_prefix(1) [of h "JObj (visible_sources rc)"] s by simp
  define inv_id where "inv_id = (case strip_or_none (invocation_id rc) of None \<Rightarrow> VNone | Some t \<Rightarrow> VStr t)"
  define d where "d = [(''run_id'', VStr (py_strip (run_id rc))), (''runEnvelope'', VRef (run_envelope rc)),
    (''global'', VRef (global_scope rc)), (''local'', VRef (local_scope rc)), (''result'', VRef (result_scope rc)),
    (''invocation_id'', inv_id), (''visible_sources'', sources), (''last'', VRef (length h0))]"
  have p: "p = VRef (Suc (length h0))"
    and h1: "h1 = h0 @ [ODict [(''item_id'', VStr (fst (last_result rc))), (''data'', snd (last_result rc))], ODict d]"
    using assms s
    by (auto simp: serialize_run_context_def halloc_def optional_view_def d_def inv_id_def simp del: embed.simps)
  show ?thesis
    by (rule that [of d]) (use pre in \<open>auto simp: p h1 d_def dict_get_Cons hget_def nth_append\<close>)
qed

lemma field_of_dict:
  "hget h a = Some (ODict d) \<Longrightarrow> dict_get d k = Some v \<Longrightarrow> field_at h (VRef a) k = v"
  by (simp add: field_at_def)

section \<open>Restoring\<close>

lemma dict_or_new_known: "hget h a = Some (ODict d) \<Longrightarrow> dict_or_new (VRef a) h = (a, h)"
  by (simp add: dict_or_new_def)

lemma dict_or_new_prefix: "prefix h (snd (dict_or_new v h))"
  by (auto simp: dict_or_new_def halloc_def split: option.splits)

lemma restore_other:
  assumes "x < length h" and "x \<noteq> scope"
  shows "hget (restore_constants scope payload h) x = hget h x"
proof -
  obtain a h1 where a: "dict_or_new (field_at h payload ''constants'') h = (a, h1)" by fastforce
  then have "prefix h h1" using dict_or_new_prefix [of h "field_at h payload ''constants''"] by simp
  then have "hget h1 x = hget h x" using assms(1) by (auto simp: prefix_def hget_def nth_append)
  with a assms(2) show ?thesis
    by (auto simp: restore_constants_def set_scope_constants_def split: option.splits)
qed

lemma restore_length: "length h \<le> length (restore_constants scope payload h)"
proof -
  obtain a h1 where a: "dict_or_new (field_at h payload ''constants'') h = (a, h1)" by fastforce
  then have "length h \<le> length h1"
    using dict_or_new_prefix [of h "field_at h payload ''constants''"] by (auto dest: prefix_length_le)
  with a show ?thesis
    by (auto simp: restore_constants_def set_scope_constants_def hset_def split: option.splits)
qed

lemma restore_here:
  assumes "hget h scope = Some (ODict g)" and "field_at h payload ''constants'' = VRef a" and "hget h a = Some (ODict d)"
    and "a \<noteq> scope"
  shows "constants_dict (restore_constants scope payload h) scope a d"
  using assms hget_less [OF assms(1)]
  by (simp add: restore_constants_def set_scope_constants_def dict_or_new_known constants_dict_def)

lemma constants_dict_mono:
  assumes "constants_dict h scope a d" and "\<And>x. x = scope \<or> x = a \<Longrightarrow> hget h' x = hget h x"
  shows "constants_dict h' scope a d"
  using assms(1)
proof (rule constants_dictD)
  fix s assume "hget h scope = Some (ODict s)" "dict_get s ''constants'' = Some (VRef a)" "hget h a = Some (ODict d)"
    "a \<noteq> scope"
  with assms(2) show ?thesis by (simp add: constants_dict_def)
qed

lemma restore_result_keeps: "prefix h (snd (restore_result payload h))"
  by (auto simp: restore_result_def halloc_def split: option.splits list.splits)

lemma create_fresh:
  assumes "create_run_context rid ev vars ivk h = (c, h')"
  shows "prefix h h'" and "length h \<le> run_envelope c" "length h \<le> global_scope c" "length h \<le> local_scope c"
    and "run_envelope c < length h'" "global_scope c < length h'" "local_scope c < length h'"
    and "distinct [run_envelope c, global_scope c, local_scope c]"
    and "hget h a = Some (ODict d) \<Longrightarrow> vars = VRef a \<Longrightarrow> constants_dict h' (run_envelope c) a d"
proof -
  obtain e h1 where e: "dict_or_new ev h = (e, h1)" by fastforce
  obtain v h2 where v: "dict_or_new vars h1 = (v, h2)" by fastforce
  have pre: "prefix h h1" "prefix h1 h2"
    using dict_or_new_prefix [of h ev] dict_or_new_prefix [of h1 vars] e v by simp_all
  have rc: "run_envelope c = length h2" "global_scope c = length h2 + 2" "local_scope c = length h2 + 4"
    and h': "h' = h2 @ [ODict [(''run_id'', VStr (py_strip rid)), (''event'', VRef e), (''constants'', VRef v)],
      ODict [], ODict [(''runEnvelope'', VRef (length h2)), (''constants'', VRef (length h2 + 1))],
      ODict [], ODict [(''global'', VRef (length h2 + 2)), (''constants'', VRef (length h2 + 3))],
      ODict [], ODict [], ODict [],
      ODict [(''artifacts'', VRef (length h2 + 5)), (''commands'', VRef (length h2 + 6)),
        (''constants'', VRef (length h2 + 7))]]"
    using assms e v
    by (auto simp: create_run_context_def build_run_context_payload_def halloc_def Let_def)
  have le: "length h \<le> length h2" using pre by (meson le_trans prefix_length_le)
  show "prefix h h'" using pre h' by (meson prefixI prefix_order.trans)
  show "length h \<le> run_envelope c" "length h \<le> global_scope c" "length h \<le> local_scope c"
    "run_envelope c < length h'" "global_scope c < length h'" "local_scope c < length h'"
    "distinct [run_envelope c, global_scope c, local_scope c]"
    using le by (simp_all add: rc h')
  assume a: "hget h a = Some (ODict d)" and vars: "vars = VRef a"
  then have "hget h1 a = Some (ODict d)" using hget_prefix [OF pre(1)] by blast
  with v vars have "v = a" "h2 = h1" by (auto simp: dict_or_new_known)
  moreover have "a < length h1" using \<open>hget h1 a = Some (ODict d)\<close> by (rule hget_less)
  ultimately show "constants_dict h' (run_envelope c) a d"
    using \<open>hget h1 a = Some (ODict d)\<close> h'
    by (simp add: constants_dict_def rc hget_append_old dict_at.simps(1))
      (simp add: hget_def nth_append dict_get_Cons)
qed

lemma constants_dict_prefix: "constants_dict h scope a d \<Longrightarrow> prefix h h' \<Longrightarrow> constants_dict h' scope a d"
proof (erule constants_dictD)
  fix s assume "hget h scope = Some (ODict s)" "dict_get s ''constants'' = Some (VRef a)" "hget h a = Some (ODict d)"
    "a \<noteq> scope" "prefix h h'"
  then show ?thesis using hget_prefix [of h h'] by (simp add: constants_dict_def)
qed

lemma constants_dict_restore:
  assumes "constants_dict h scope a d" and "other \<noteq> scope" "other \<noteq> a"
  shows "constants_dict (restore_constants other payload h) scope a d"
proof (rule constants_dict_mono [OF assms(1)])
  fix x assume "x = scope \<or> x = a"
  moreover from assms(1) have "scope < length h" "a < length h" by (auto elim!: constants_dictD intro: hget_less)
  ultimately show "hget (restore_constants other payload h) x = hget h x"
    using assms(2,3) by (auto intro: restore_other)
qed

lemma dict_field_constants:
  assumes "constants_dict h scope a d"
  shows "field_at h (VRef scope) ''constants'' = VRef a" and "dict_field h (VRef scope) ''constants'' = VRef a"
    and "\<exists>s. hget h scope = Some (ODict s) \<and> s \<noteq> []" and "hget h a = Some (ODict d)" and "a \<noteq> scope"
proof -
  from assms obtain s where "hget h scope = Some (ODict s)" "dict_get s ''constants'' = Some (VRef a)"
    "hget h a = Some (ODict d)" "a \<noteq> scope"
    by (rule constants_dictD)
  then show "field_at h (VRef scope) ''constants'' = VRef a" "dict_field h (VRef scope) ''constants'' = VRef a"
    "\<exists>s. hget h scope = Some (ODict s) \<and> s \<noteq> []" "hget h a = Some (ODict d)" "a \<noteq> scope"
    by (auto simp: field_of_dict dict_field_def)
qed

lemma dict_field_of_dict:
  "hget h b = Some (ODict p) \<Longrightarrow> dict_get p k = Some (VRef x) \<Longrightarrow> hget h x = Some (ODict s) \<Longrightarrow>
    dict_field h (VRef b) k = VRef x"
  by (simp add: dict_field_def field_of_dict)

lemma transfer_constants:
  assumes r: "r \<in> set scope_names" and con: "constants_dict h (scope_address rc r) a d"
    and ser: "serialize_run_context rc h = (p, h1)" and des: "deserialize_run_context p h1 = (rc', h')"
  shows "constants_dict h' (scope_address rc' r) a d"
proof -
  from ser obtain pd where pre1: "prefix h h1" and pd: "hget h1 (ref_of p) = Some (ODict pd)" "p = VRef (ref_of p)"
    and f: "dict_get pd ''runEnvelope'' = Some (VRef (run_envelope rc))" "dict_get pd ''global'' = Some (VRef (global_scope rc))"
      "dict_get pd ''local'' = Some (VRef (local_scope rc))" "dict_get pd ''result'' = Some (VRef (result_scope rc))"
    by (rule serialize_shape)
  define b where "b = ref_of p"
  have p: "p = VRef b" and pd: "hget h1 b = Some (ODict pd)" using pd by (simp_all add: b_def)
  have con1: "constants_dict h1 (scope_address rc r) a d" using con pre1 by (rule constants_dict_prefix)
  note c1 = dict_field_constants [OF con1]
  then obtain sd where sd: "hget h1 (scope_address rc r) = Some (ODict sd)" "sd \<noteq> []" by blast
  have al: "a < length h1" using c1(4) by (rule hget_less)
  define envelope where "envelope = dict_field h1 p ''runEnvelope''"
  obtain c h2 where create: "create_run_context (or_text (value_text h1 (field_at h1 p ''run_id'')) (value_text h1 (field_at h1 envelope ''run_id'')))
      (dict_field h1 envelope ''event'') (dict_field h1 envelope ''constants'')
      (non_empty (py_strip (value_text h1 (field_at h1 p ''invocation_id'')))) h1 = (c, h2)"
    by fastforce
  note fresh = create_fresh [OF create]
  define h3 where "h3 = restore_constants (global_scope c) (dict_field h1 p ''global'') h2"
  define h4 where "h4 = restore_constants (local_scope c) (dict_field h1 p ''local'') h3"
  obtain res h5 where res: "restore_result (dict_field h1 p ''result'') h4 = (res, h5)" by fastforce
  have pre5: "prefix h4 h5" using restore_result_keeps [of h4 "dict_field h1 p ''result''"] res by simp
  have h': "h' = h5" and rc': "run_envelope rc' = run_envelope c" "global_scope rc' = global_scope c"
    "local_scope rc' = local_scope c" "result_scope rc' = res"
    using des pd create res
    by (auto simp: deserialize_run_context_def p [symmetric] envelope_def h3_def h4_def Let_def split: if_splits) (simp_all add: p)
  have old: "hget h1 x = Some ob \<Longrightarrow> hget h2 x = Some ob" for x ob
    using fresh(1) by (rule hget_prefix)
  have new: "x < length h1 \<Longrightarrow> x \<noteq> global_scope c \<and> x \<noteq> local_scope c" for x
    using fresh(3,4) by auto
  have "r = ''runEnvelope'' \<or> r = ''global'' \<or> r = ''local'' \<or> r = ''result''"
    using r by (auto simp: scope_names_def)
  then have "constants_dict h5 (scope_address rc' r) a d"
  proof (elim disjE)
    assume r: "r = ''runEnvelope''"
    with sd f(1) have "envelope = VRef (run_envelope rc)"
      unfolding envelope_def p by (intro dict_field_of_dict [OF pd]) (simp_all add: scope_address_def)
    with r c1(2) have "dict_field h1 envelope ''constants'' = VRef a" by (simp add: scope_address_def)
    with fresh(9) [OF c1(4)] have "constants_dict h2 (run_envelope c) a d" by simp
    then have "constants_dict h4 (run_envelope c) a d"
      unfolding h3_def h4_def using new [OF al] fresh(8) by (auto intro!: constants_dict_restore)
    with pre5 rc' r show ?thesis by (auto simp: scope_address_def intro: constants_dict_prefix)
  next
    assume r: "r = ''global''"
    with sd f(2) have g: "dict_field h1 p ''global'' = VRef (global_scope rc)"
      unfolding p by (intro dict_field_of_dict [OF pd]) (simp_all add: scope_address_def)
    have "constants_dict h2 (global_scope rc) a d"
      using con1 r fresh(1) by (auto simp: scope_address_def intro: constants_dict_prefix)
    from dict_field_constants [OF this] obtain gd where "hget h2 (global_scope c) = Some (ODict gd)"
      "field_at h2 (VRef (global_scope rc)) ''constants'' = VRef a" "hget h2 a = Some (ODict d)"
      using create_run_context_shape [OF create] by metis
    with new [OF al] have "constants_dict h3 (global_scope c) a d"
      unfolding h3_def g by (intro restore_here) auto
    then have "constants_dict h4 (global_scope c) a d"
      unfolding h4_def using new [OF al] fresh(8) by (auto intro!: constants_dict_restore)
    with pre5 rc' r show ?thesis by (auto simp: scope_address_def intro: constants_dict_prefix)
  next
    assume r: "r = ''local''"
    with sd f(3) have g: "dict_field h1 p ''local'' = VRef (local_scope rc)"
      unfolding p by (intro dict_field_of_dict [OF pd]) (simp_all add: scope_address_def)
    have sl: "local_scope rc < length h1" using sd(1) r by (auto simp: scope_address_def dest: hget_less)
    have "constants_dict h2 (local_scope rc) a d"
      using con1 r fresh(1) by (auto simp: scope_address_def intro: constants_dict_prefix)
    then have "constants_dict h3 (local_scope rc) a d"
      unfolding h3_def using new [OF al] new [OF sl] by (auto intro!: constants_dict_restore)
    from dict_field_constants [OF this] have fa: "field_at h3 (VRef (local_scope rc)) ''constants'' = VRef a"
      "hget h3 a = Some (ODict d)" by blast+
    obtain ld where "hget h2 (local_scope c) = Some (ODict ld)"
      using create_run_context_shape [OF create] by metis
    then have "hget h3 (local_scope c) = Some (ODict ld)"
      unfolding h3_def using restore_other fresh(7,8) by (metis distinct_length_2_or_more)
    with fa new [OF al] have "constants_dict h4 (local_scope c) a d"
      unfolding h4_def g by (intro restore_here) auto
    with pre5 rc' r show ?thesis by (auto simp: scope_address_def intro: constants_dict_prefix)
  next
    assume r: "r = ''result''"
    with sd f(4) have g: "dict_field h1 p ''result'' = VRef (result_scope rc)"
      unfolding p by (intro dict_field_of_dict [OF pd]) (simp_all add: scope_address_def)
    have sl: "result_scope rc < length h1" using sd(1) r by (auto simp: scope_address_def dest: hget_less)
    have "constants_dict h2 (result_scope rc) a d"
      using con1 r fresh(1) by (auto simp: scope_address_def intro: constants_dict_prefix)
    then have con4: "constants_dict h4 (result_scope rc) a d"
      unfolding h3_def h4_def using new [OF al] new [OF sl] by (auto intro!: constants_dict_restore)
    from dict_field_constants(3) [OF this] obtain x xs where "hget h4 (result_scope rc) = Some (ODict (x # xs))"
      by (metis list.exhaust)
    with res g have "res = result_scope rc" "h5 = h4" by (simp_all add: restore_result_def)
    with con4 rc' r show ?thesis by (simp add: scope_address_def)
  qed
  with h' show ?thesis by simp
qed

section \<open>Properties\<close>

text \<open>The commands that run after a mock response get a run context rebuilt from a dictionary, yet its four scopes
  have the very dictionaries of constants of the context the request was answered in: a plain key resolves to the
  same value in both, because its value is read from the same object.
\<close>

theorem context_transfer_shares_constants:
  assumes "r \<in> set scope_names" and "plain_key k" and "constants_dict h (scope_address rc r) a d"
    and "serialize_run_context rc h = (p, h1)" and "deserialize_run_context p h1 = (rc', h')"
    and "current_context st = Some rc" and "current_context st' = Some rc'"
  shows "constants_dict h' (scope_address rc' r) a d \<and>
      fst (resolve_in_context (JStr (dotted [r, ''constants'', k])) (st'\<lparr>objects := h'\<rparr>)) =
      fst (resolve_in_context (JStr (dotted [r, ''constants'', k])) (st\<lparr>objects := h\<rparr>))"
proof
  show con: "constants_dict h' (scope_address rc' r) a d"
    by (rule transfer_constants) (fact assms)+
  then show "fst (resolve_in_context (JStr (dotted [r, ''constants'', k])) (st'\<lparr>objects := h'\<rparr>)) =
      fst (resolve_in_context (JStr (dotted [r, ''constants'', k])) (st\<lparr>objects := h\<rparr>))"
    using resolve_constant [OF assms(1,2), of "st\<lparr>objects := h\<rparr>" rc a d]
      resolve_constant [OF assms(1,2), of "st'\<lparr>objects := h'\<rparr>" rc' a d] assms(3,6,7)
    by simp
qed

theorem context_transfer_shares_constants_witness:
  "\<exists>p h1 rc' h'. serialize_run_context sample_context (objects sample_state) = (p, h1) \<and>
     deserialize_run_context p h1 = (rc', h') \<and> constants_dict h' (scope_address rc' ''local'') 5 []"
proof -
  obtain p h1 where ser: "serialize_run_context sample_context (objects sample_state) = (p, h1)" by fastforce
  obtain rc' h' where des: "deserialize_run_context p h1 = (rc', h')" by fastforce
  have "''local'' \<in> set scope_names" "plain_key ''x''" by code_simp+
  from context_transfer_shares_constants [OF this sample_state_eval(2) ser des sample_state_eval(1),
      of "sample_state\<lparr>current_context := Some rc'\<rparr>"] ser des
  show ?thesis by auto
qed

end
