(* ===== verification/ConfigDump.thy ===== *)
theory ConfigDump
  imports CommandConfig
begin

text \<open>
  \<open>model_dump()\<close> of a command configuration: the JSON object the API stores for a command and the executor
  converts again. Every field of the class is there, in the order of its declaration; those that the
  validators leave at None, and the ones only read as fallbacks when a command is first
  converted (\<open>key\<close>, \<open>scope\<close>, \<open>template_id\<close>, \<open>template_params\<close>), are None.

  A timeout is kept as a number, whether Python holds it as int or float; the text of a fraction is an
  argument.
\<close>

definition dump_text :: "string option \<Rightarrow> json" where
  "dump_text t = (case t of None \<Rightarrow> JNull | Some s \<Rightarrow> JStr s)"

definition dump_texts :: "string list option \<Rightarrow> json" where
  "dump_texts ts = (case ts of None \<Rightarrow> JNull | Some xs \<Rightarrow> JList (map JStr xs))"

fun dump_input_ref :: "input_ref \<Rightarrow> json" where
  "dump_input_ref (RuntimeValue d) =
     JObj [(''kind'', JStr ''runtimeValue''), (''definitionId'', JStr d), (''sourceCode'', JNull)]"
| "dump_input_ref (Source c) =
     JObj [(''kind'', JStr ''source''), (''definitionId'', JNull), (''sourceCode'', JStr c)]"

definition dump_ref_option :: "input_ref option \<Rightarrow> json" where
  "dump_ref_option r = (case r of None \<Rightarrow> JNull | Some i \<Rightarrow> dump_input_ref i)"

definition dump_result :: "result_constant option \<Rightarrow> json" where
  "dump_result r =
     (case r of
        None \<Rightarrow> JNull
      | Some c \<Rightarrow> JObj [(''definitionId'', JStr (rc_definition c)), (''name'', JStr (rc_name c)),
          (''valueType'', JStr (rc_value_type c))])"

definition dump_runtime_ref :: "string \<Rightarrow> json" where
  "dump_runtime_ref d = JObj [(''definitionId'', JStr d)]"

definition node_fields :: "string \<Rightarrow> json \<Rightarrow> json \<Rightarrow> json \<Rightarrow> json \<Rightarrow> json \<Rightarrow> json" where
  "node_fields kind v definition_id field_path source_code resolver =
     JObj [(''kind'', JStr kind), (''value'', v), (''definitionId'', definition_id), (''fieldPath'', field_path),
       (''sourceCode'', source_code), (''resolver'', resolver)]"

fun dump_node :: "http_node \<Rightarrow> json" where
  "dump_node (Literal v) = node_fields ''literal'' v JNull JNull JNull JNull"
| "dump_node (RuntimeNode d p) = node_fields ''runtimeValue'' JNull (JStr d) (dump_text p) JNull JNull"
| "dump_node (SourceNode c) = node_fields ''source'' JNull JNull JNull (JStr c) JNull"
| "dump_node (BuiltInNode r) = node_fields ''builtIn'' JNull JNull JNull JNull (JStr r)"

fun dump_tree :: "http_tree \<Rightarrow> json" where
  "dump_tree HNone = JNull"
| "dump_tree (HNode n) = dump_node n"
| "dump_tree (HObj d) = JObj (map (\<lambda>kv. (fst kv, dump_tree (snd kv))) d)"
| "dump_tree (HList ts) = JList (map dump_tree ts)"

definition dump_params :: "(string \<times> http_node) list option \<Rightarrow> json" where
  "dump_params ps = (case ps of None \<Rightarrow> JNull | Some d \<Rightarrow> JObj (map (\<lambda>kv. (fst kv, dump_node (snd kv))) d))"

definition dump_auth :: "http_auth option \<Rightarrow> json" where
  "dump_auth a =
     (case a of
        None \<Rightarrow> JNull
      | Some NoAuth \<Rightarrow> JObj []
      | Some (Basic u p) \<Rightarrow>
          JObj [(''type'', JStr ''basic''), (''username'', dump_node u), (''password'', dump_node p)]
      | Some (Bearer t) \<Rightarrow> JObj [(''type'', JStr ''bearer''), (''token'', dump_node t)]
      | Some (ApiKey u k e) \<Rightarrow>
          JObj [(''type'', JStr ''apiKey''), (''username'', dump_node u), (''apiKey'', dump_node k),
            (''authEndpoint'', dump_node e)]
      | Some (OAuth2 u i s) \<Rightarrow>
          JObj [(''type'', JStr ''oauth2''), (''tokenUrl'', dump_node u), (''clientId'', dump_node i),
            (''clientSecret'', dump_node s)])"

definition dump_number :: "(rat \<Rightarrow> string) \<Rightarrow> rat option \<Rightarrow> json" where
  "dump_number text_of_rat t =
     (case t of
        None \<Rightarrow> JNull
      | Some q \<Rightarrow> if of_int \<lfloor>q\<rfloor> = q then JInt \<lfloor>q\<rfloor> else JFloat q (text_of_rat q))"

definition dump_template :: "message_template option \<Rightarrow> json" where
  "dump_template t =
     (case t of
        None \<Rightarrow> JNull
      | Some m \<Rightarrow> JObj [(''forEach'', dump_text (mt_for_each m)), (''fields'', JList (map JStr (mt_fields m))),
          (''constants'', JList (map (\<lambda>c. JObj [(''name'', JStr (tc_name c)), (''kind'', JStr (tc_kind c)),
             (''value'', tc_value c)]) (mt_constants m)))])"

definition dump_request :: "(rat \<Rightarrow> string) \<Rightarrow> http_request \<Rightarrow> json dict \<Rightarrow> json dict" where
  "dump_request text_of_rat r body =
     [(''method'', JStr (rq_method r)), (''url'', JStr (rq_url r)), (''queryParams'', dump_params (rq_query r)),
      (''headers'', dump_params (rq_headers r)), (''pathParams'', dump_params (rq_path r)),
      (''authorization'', dump_auth (rq_auth r))] @ body @
     [(''bodyType'', JStr (rq_body_type r)), (''timeoutSeconds'', dump_number text_of_rat (rq_timeout r)),
      (''resultConstant'', dump_result (rq_result r))]"

definition dump_set_variable :: "set_variable \<Rightarrow> json dict" where
  "dump_set_variable s =
     [(''definitionId'', JStr (sv_definition s)), (''name'', JStr (sv_name s)), (''context'', JStr (sv_context s)),
      (''valueType'', JStr (sv_value_type s)), (''sourceType'', JNull), (''value'', sv_value s), (''data'', JNull),
      (''functionName'', dump_text (sv_function s)), (''resolver'', JNull), (''function'', JNull),
      (''dataset_id'', JNull), (''json_array_id'', JNull), (''parameters'', JNull), (''target'', dump_text (sv_target s)),
      (''key'', JNull), (''scope'', JNull)]"

definition dump_assertion :: "assertion \<Rightarrow> json dict" where
  "dump_assertion a =
     [(''error_message'', dump_text (as_error_message a)), (''evaluated_object_type'', JStr (as_object_type a)),
      (''actualRef'', dump_input_ref (as_actual a)), (''actualConstantRef'', JNull), (''expected'', as_expected a),
      (''expectedRef'', dump_ref_option (as_expected_ref a)), (''expected_json_array_id'', JNull),
      (''compare_keys'', dump_texts (as_compare_keys a)),
      (''json_schema'', (case as_schema a of None \<Rightarrow> JNull | Some d \<Rightarrow> JObj d))]"

fun dump_fields :: "(rat \<Rightarrow> string) \<Rightarrow> command \<Rightarrow> json dict" where
  "dump_fields txt (SetVariable s) = dump_set_variable s"
| "dump_fields txt (DeleteVariable d) =
     [(''targetRuntimeValueRef'', dump_runtime_ref d), (''targetConstantRef'', JNull)]"
| "dump_fields txt (Sleep n) = [(''duration'', JInt n)]"
| "dump_fields txt (ReadApi r) = dump_request txt r []"
| "dump_fields txt (WriteApi r b) = dump_request txt r [(''body'', dump_tree b)]"
| "dump_fields txt (SendMessageQueue m) =
     [(''queue_id'', JStr (sm_queue m)), (''inputRef'', dump_input_ref (sm_input m)), (''sourceConstantRef'', JNull),
      (''message_template'', dump_template (sm_template m)), (''template_id'', JNull), (''template_params'', JNull),
      (''resultConstant'', dump_result (sm_result m))]"
| "dump_fields txt (SaveTable t i r) =
     [(''table_name'', JStr t), (''inputRef'', dump_input_ref i), (''sourceConstantRef'', JNull),
      (''resultConstant'', dump_result r)]"
| "dump_fields txt (DropTable t) = [(''table_name'', JStr t)]"
| "dump_fields txt (CleanTable t) = [(''table_name'', JStr t)]"
| "dump_fields txt (ExportDataset e) =
     [(''connection_id'', dump_text (ed_connection e)), (''table_name'', dump_text (ed_table e)),
      (''inputRef'', dump_input_ref (ed_input e)), (''sourceConstantRef'', JNull), (''mode'', JStr (ed_mode e)),
      (''mapping_keys'', dump_texts (ed_keys e)), (''dataset_description'', dump_text (ed_description e)),
      (''dataset_id'', dump_text (ed_dataset e)), (''resultConstant'', dump_result (ed_result e))]"
| "dump_fields txt (DropDataset d) = [(''dataset_id'', JStr d)]"
| "dump_fields txt (CleanDataset d) = [(''dataset_id'', JStr d)]"
| "dump_fields txt (RunSuite s refs r) =
     [(''suite_id'', JStr s), (''runtimeValueRefs'', JList (map dump_runtime_ref refs)), (''constantRefs'', JList []),
      (''resultConstant'', dump_result r)]"
| "dump_fields txt (ReceiveQueue r) =
     [(''queue_id'', JStr (rv_queue r)), (''max_messages'', JInt (rv_max_messages r)), (''retry'', JInt (rv_retry r)),
      (''wait_time_seconds'', JInt (rv_wait r)), (''target'', dump_text (rv_target r)),
      (''resultConstant'', dump_result (rv_result r))]"
| "dump_fields txt (QueryDatabase c q t r) =
     [(''connection_id'', JStr c), (''query'', JStr q), (''target'', dump_text t), (''resultConstant'', dump_result r)]"
| "dump_fields txt (Assert a) = dump_assertion a"

definition dump_config :: "(rat \<Rightarrow> string) \<Rightarrow> config \<Rightarrow> json dict" where
  "dump_config txt c =
     [(''commandCode'', JStr (command_code (cfg_command c))), (''commandType'', JStr (cfg_type c))]
     @ dump_fields txt (cfg_command c)"

end
