(* ===== verification/ConstantDefinitions.thy ===== *)
theory ConstantDefinitions
  imports ConstantGraph MockServers ConfigDump
begin

text \<open>
  The table \<open>command_constant_definitions\<close> and how it is rebuilt from the rows of a suite or of a mock server
  (the second half of \<open>app/elaborations/services/constants/command_constant_definition_registry.py\<close>).

  Tables are lists of rows. A query without an ORDER BY, and rows a query compares equal, come in an order the
  database chooses: \<open>db_tie\<close>, a part of the state no operation changes. \<open>db_ids\<close> is the sequence of the
  identifiers that \<open>uuid4\<close> gives, \<open>db_next\<close> the position of the next one.
\<close>

section \<open>Rows\<close>

record suite_record =
  sr_id :: string
  sr_description :: string

record item_record =
  ir_id :: string
  ir_suite :: string
  ir_kind :: string
  ir_phase :: "string option"
  ir_description :: string
  ir_sources :: "json list"
  ir_position :: int
  ir_on_failure :: string
  ir_role :: string
  ir_template_kind :: string
  ir_template_config :: "json dict option"
  ir_data_driven :: bool
  ir_dataset :: "string option"

record command_record =
  cr_id :: string
  cr_item :: string
  cr_description :: string
  cr_code :: string
  cr_type :: string
  cr_cfg :: "json dict"
  cr_order :: int

record constant_row =
  cd_id :: string
  cd_owner :: string
  cd_suite :: "string option"
  cd_item :: "string option"
  cd_api :: "string option"
  cd_queue :: "string option"
  cd_command :: string
  cd_command_order :: int
  cd_section :: string
  cd_name :: string
  cd_scope :: string
  cd_type :: string
  cd_declared_at :: int
  cd_deleted_at :: "int option"

record suite_tables =
  db_suites :: "suite_record list"
  db_items :: "item_record list"
  db_commands :: "command_record list"
  db_definitions :: "constant_row list"
  db_payloads :: "string list"
  db_ids :: "nat \<Rightarrow> string"
  db_next :: nat
  db_tie :: "string \<Rightarrow> nat"

text \<open>The queries of the services: by suite, by item; deletion by suite.\<close>

definition item_order :: "item_record \<Rightarrow> int \<times> string" where
  "item_order r = (ir_position r, ir_id r)"

definition items_of_suite :: "suite_tables \<Rightarrow> string \<Rightarrow> item_record list" where
  "items_of_suite t suite_id = sort_key item_order (filter (\<lambda>r. ir_suite r = suite_id) (db_items t))"

definition command_row_order :: "suite_tables \<Rightarrow> command_record \<Rightarrow> int \<times> nat" where
  "command_row_order t r = (cr_order r, db_tie t (cr_id r))"

definition commands_of_item :: "suite_tables \<Rightarrow> string \<Rightarrow> command_record list" where
  "commands_of_item t item_id =
     sort_key (command_row_order t) (filter (\<lambda>r. cr_item r = item_id) (db_commands t))"

definition delete_definitions_of_suite :: "string \<Rightarrow> suite_tables \<Rightarrow> suite_tables" where
  "delete_definitions_of_suite suite_id t =
     t\<lparr>db_definitions := filter (\<lambda>d. cd_suite d \<noteq> Some suite_id) (db_definitions t)\<rparr>"

text \<open>
  \<open>CommandConstantDefinitionService().inserts\<close>. The primary key is the identifier of the definition: a second row
  with the same one is an \<open>IntegrityError\<close>.
\<close>

definition insert_definitions :: "constant_row list \<Rightarrow> constant_row list \<Rightarrow> constant_row list result" where
  "insert_definitions new table =
     (if distinct (map cd_id new) \<and> set (map cd_id new) \<inter> set (map cd_id table) = {}
      then Inr (table @ new)
      else Inl (IntegrityError ''duplicate key value violates unique constraint''))"

definition persist_definition_entities :: "constant_row list \<Rightarrow> (suite_tables, unit) call" where
  "persist_definition_entities new t =
     (if new = [] then (Inr (), t)
      else case insert_definitions new (db_definitions t) of
             Inl e \<Rightarrow> (Inl e, t)
           | Inr ds \<Rightarrow> (Inr (), t\<lparr>db_definitions := ds\<rparr>))"

section \<open>The definitions of a suite\<close>

definition suite_definition_entity :: "string \<Rightarrow> string \<Rightarrow> planned \<Rightarrow> constant_row" where
  "suite_definition_entity suite_id item_id d =
     \<lparr>cd_id = pl_id d, cd_owner = ''suite'', cd_suite = Some suite_id, cd_item = Some item_id, cd_api = None,
      cd_queue = None, cd_command = pl_command d, cd_command_order = pl_order d, cd_section = pl_section d,
      cd_name = pl_name d, cd_scope = pl_scope d, cd_type = pl_type d, cd_declared_at = pl_order d,
      cd_deleted_at = pl_deleted d\<rparr>"

definition or_index :: "int \<Rightarrow> nat \<Rightarrow> int" where
  "or_index order i = (if order = 0 then int i + 1 else order)"

definition stored_command :: "nat \<times> command_record \<Rightarrow> json dict" where
  "stored_command ir =
     [(''id'', JStr (cr_id (snd ir))), (''order'', JInt (or_index (cr_order (snd ir)) (fst ir))),
      (''cfg'', JObj (cr_cfg (snd ir)))]"

definition stored_commands :: "suite_tables \<Rightarrow> item_record \<Rightarrow> json dict list" where
  "stored_commands t it = map stored_command (enumerate 0 (commands_of_item t (ir_id it)))"

definition next_ids :: "suite_tables \<Rightarrow> nat \<Rightarrow> string" where
  "next_ids t i = db_ids t (db_next t + i)"

definition rebuild_item ::
  "field_types \<Rightarrow> suite_tables \<Rightarrow> string \<Rightarrow> string \<Rightarrow> planned dict \<Rightarrow> item_record \<Rightarrow>
    (constant_row list \<times> planned dict) result" where
  "rebuild_item pyd t suite_id st initial it =
     rbind (plan_definitions_for_commands pyd (next_ids t) (stored_commands t it) st initial) (\<lambda>p.
       Inr (map (suite_definition_entity suite_id (ir_id it)) (fst p), snd p))"

definition rebuild_hook ::
  "field_types \<Rightarrow> suite_tables \<Rightarrow> string \<Rightarrow> string \<Rightarrow> planned dict \<Rightarrow> planned dict \<Rightarrow> item_record option \<Rightarrow>
    (constant_row list \<times> planned dict) result" where
  "rebuild_hook pyd t suite_id st initial otherwise hook =
     (case hook of None \<Rightarrow> Inr ([], otherwise) | Some it \<Rightarrow> rebuild_item pyd t suite_id st initial it)"

definition row_phase :: "item_record \<Rightarrow> string" where
  "row_phase it = py_strip (text_of (ir_phase it))"

text \<open>The last hook of a phase wins.\<close>

definition hook_rows :: "item_record list \<Rightarrow> item_record dict" where
  "hook_rows items =
     foldl (\<lambda>acc it. dict_set (row_phase it) it acc) [] (filter (\<lambda>it. row_phase it \<noteq> []) items)"

definition test_rows :: "item_record list \<Rightarrow> item_record list" where
  "test_rows items = filter (\<lambda>it. row_phase it = []) items"

definition rebuild_tests ::
  "field_types \<Rightarrow> suite_tables \<Rightarrow> string \<Rightarrow> planned dict \<Rightarrow> item_record list \<Rightarrow> constant_row list result" where
  "rebuild_tests pyd t suite_id initial tests =
     rbind (mapM (rebuild_item pyd t suite_id ''test'' initial) tests) (\<lambda>ps. Inr (concat (map fst ps)))"

definition suite_definitions :: "field_types \<Rightarrow> suite_tables \<Rightarrow> string \<Rightarrow> constant_row list result" where
  "suite_definitions pyd t suite_id =
     (let items = items_of_suite t suite_id; h = dict_get (hook_rows items) in
      rbind (rebuild_hook pyd t suite_id ''beforeAll'' [] [] (h ''before-all'')) (\<lambda>all.
      rbind (rebuild_hook pyd t suite_id ''beforeEach'' (snd all) (snd all) (h ''before-each'')) (\<lambda>each.
      rbind (rebuild_tests pyd t suite_id (snd each) (test_rows items)) (\<lambda>tests.
      rbind (rebuild_hook pyd t suite_id ''afterEach'' (snd each) [] (h ''after-each'')) (\<lambda>after_each.
      rbind (rebuild_hook pyd t suite_id ''afterAll'' (snd all) [] (h ''after-all'')) (\<lambda>after_all.
        Inr (fst all @ fst each @ tests @ fst after_each @ fst after_all)))))))"

definition rebuild_suite_constant_definitions :: "field_types \<Rightarrow> string \<Rightarrow> (suite_tables, unit) call" where
  "rebuild_suite_constant_definitions pyd suite_id t =
     (let t' = delete_definitions_of_suite suite_id t in
      case suite_definitions pyd t' suite_id of
        Inl e \<Rightarrow> (Inl e, t')
      | Inr new \<Rightarrow> persist_definition_entities new t')"

section \<open>The definitions of a mock server\<close>

definition api_definition_entity :: "string \<Rightarrow> string \<Rightarrow> planned \<Rightarrow> constant_row" where
  "api_definition_entity owner api_id d =
     \<lparr>cd_id = pl_id d, cd_owner = owner, cd_suite = None, cd_item = None, cd_api = Some api_id, cd_queue = None,
      cd_command = pl_command d, cd_command_order = pl_order d, cd_section = pl_section d, cd_name = pl_name d,
      cd_scope = pl_scope d, cd_type = pl_type d, cd_declared_at = pl_order d, cd_deleted_at = pl_deleted d\<rparr>"

definition queue_definition_entity :: "string \<Rightarrow> planned \<Rightarrow> constant_row" where
  "queue_definition_entity queue_id d =
     \<lparr>cd_id = pl_id d, cd_owner = ''mock_queue'', cd_suite = None, cd_item = None, cd_api = None,
      cd_queue = Some queue_id, cd_command = pl_command d, cd_command_order = pl_order d,
      cd_section = pl_section d, cd_name = pl_name d, cd_scope = pl_scope d, cd_type = pl_type d,
      cd_declared_at = pl_order d, cd_deleted_at = pl_deleted d\<rparr>"

definition cfg_or_command :: "json dict \<Rightarrow> json dict" where
  "cfg_or_command raw = fields_of (json_or (jget raw ''cfg'') (json_or (jget raw ''configuration_json'') (JObj raw)))"

definition pre_command :: "(nat \<Rightarrow> string) \<Rightarrow> nat \<times> json dict \<Rightarrow> json dict result" where
  "pre_command new_id iraw =
     (let raw = snd iraw; command_id = ensure_command_id (new_id (fst iraw)) (jget raw ''id'');
          raw' = (if token (jget raw ''id'') = [] then dict_set ''id'' (JStr command_id) raw else raw) in
      rbind (py_int (json_or (jget raw ''order'') (JInt (int (fst iraw) + 1)))) (\<lambda>n.
        Inr [(''id'', JStr command_id), (''order'', JInt n), (''cfg'', JObj (cfg_or_command raw'))]))"

definition json_list :: "json dict \<Rightarrow> string \<Rightarrow> json list" where
  "json_list d k = (case jget d k of JList xs \<Rightarrow> xs | _ \<Rightarrow> [])"

definition normalized_pre_commands :: "(nat \<Rightarrow> string) \<Rightarrow> json dict \<Rightarrow> json dict list result" where
  "normalized_pre_commands new_id api_cfg =
     mapM (pre_command new_id)
       (map (\<lambda>(i, x). (i, fields_of x)) (filter (\<lambda>(i, x). is_obj x) (enumerate 0 (json_list api_cfg ''pre_response_commands''))))"

definition entity_commands :: "command_entity list \<Rightarrow> json dict list" where
  "entity_commands es =
     map (\<lambda>(i, e). [(''id'', JStr (ce_id e)), (''order'', JInt (or_index (ce_order e) i)),
       (''cfg'', JObj (fields_of (ce_cfg e)))]) (enumerate 0 es)"

definition api_definitions ::
  "field_types \<Rightarrow> (nat \<Rightarrow> string) \<Rightarrow> api_entity \<Rightarrow> constant_row list result" where
  "api_definitions pyd new_id e =
     rbind (normalized_pre_commands new_id (fields_of (ae_cfg e))) (\<lambda>pre.
     rbind (plan_definitions_for_commands pyd new_id pre ''mock.preResponse'' []) (\<lambda>p.
     rbind (plan_definitions_for_commands pyd new_id (entity_commands (ae_commands e)) ''mock.postResponse'' []) (\<lambda>q.
       Inr (map (api_definition_entity ''mock_api_pre'' (ae_id e)) (fst p)
          @ map (api_definition_entity ''mock_api_post'' (ae_id e)) (fst q)))))"

definition queue_definitions ::
  "field_types \<Rightarrow> (nat \<Rightarrow> string) \<Rightarrow> queue_entity \<Rightarrow> constant_row list result" where
  "queue_definitions pyd new_id e =
     rbind (plan_definitions_for_commands pyd new_id (entity_commands (qe_commands e)) ''mock.queue'' []) (\<lambda>p.
       Inr (map (queue_definition_entity (qe_id e)) (fst p)))"

text \<open>Only the definitions of the rows the server has now are deleted.\<close>

definition delete_definitions_of_server :: "server_entity \<Rightarrow> constant_row list \<Rightarrow> constant_row list" where
  "delete_definitions_of_server v ds =
     filter (\<lambda>d. (\<forall>a \<in> set (ve_apis v). cd_api d \<noteq> Some (ae_id a)) \<and>
       (\<forall>q \<in> set (ve_queues v). cd_queue d \<noteq> Some (qe_id q))) ds"

definition server_definitions ::
  "field_types \<Rightarrow> (nat \<Rightarrow> string) \<Rightarrow> server_entity \<Rightarrow> constant_row list result" where
  "server_definitions pyd new_id v =
     rbind (mapM (api_definitions pyd new_id) (ve_apis v)) (\<lambda>as.
     rbind (mapM (queue_definitions pyd new_id) (ve_queues v)) (\<lambda>qs.
       Inr (concat as @ concat qs)))"

definition rebuild_mock_constant_definitions ::
  "field_types \<Rightarrow> (nat \<Rightarrow> string) \<Rightarrow> server_entity \<Rightarrow> constant_row list \<Rightarrow> constant_row list result" where
  "rebuild_mock_constant_definitions pyd new_id v ds =
     rbind (server_definitions pyd new_id v) (\<lambda>new. insert_definitions new (delete_definitions_of_server v ds))"

end
