(* ===== verification/Templates.thy ===== *)
theory Templates
  imports ConfigDump
begin

text \<open>
  The template engine (\<open>app/templating\<close>): a test of kind \<open>send_verify\<close> or \<open>mock_assert\<close> has no commands of
  its own, they are generated from its \<open>template_config\<close>. A generator is a function from the
  configuration to the list of commands; the classes of the commands run their validators
  while they are built. The configuration is a JSON object.
\<close>

section \<open>Commands of a test\<close>

text \<open>\<open>CreateSuiteItemCommandDto\<close>.\<close>

record item_command =
  ic_order :: int
  ic_description :: "string option"
  ic_cfg :: "config option"

section \<open>Helpers of both generators\<close>

definition wrap :: "int \<Rightarrow> string \<Rightarrow> string \<Rightarrow> command \<Rightarrow> item_command" where
  "wrap order description ctype c =
     \<lparr>ic_order = order, ic_description = Some description, ic_cfg = Some \<lparr>cfg_type = ctype, cfg_command = c\<rparr>\<rparr>"

definition lower_token :: "json \<Rightarrow> string" where
  "lower_token v = py_lower (token v)"

definition require_str :: "json \<Rightarrow> string \<Rightarrow> string result" where
  "require_str v message = (if token v = [] then Inl (InvalidTemplateConfigError message) else Inr (token v))"

definition require_dict :: "json \<Rightarrow> string \<Rightarrow> json dict result" where
  "require_dict v message = (case v of JObj d \<Rightarrow> Inr d | _ \<Rightarrow> Inl (InvalidTemplateConfigError message))"

definition coerce_wait_ms :: "json \<Rightarrow> int \<Rightarrow> int result" where
  "coerce_wait_ms v fallback =
     (if v = JNull then Inr fallback
      else case py_int v of
             Inl _ \<Rightarrow> Inl (InvalidTemplateConfigError ''wait_ms must be an integer.'')
           | Inr n \<Rightarrow>
               (if n < 0 then Inl (InvalidTemplateConfigError ''wait_ms must be greater than or equal to zero.'')
                else Inr n))"

definition coerce_assert :: "nat \<times> json \<Rightarrow> json dict result" where
  "coerce_assert iv =
     (case snd iv of
        JObj d \<Rightarrow> Inr d
      | _ \<Rightarrow> Inl (InvalidTemplateConfigError (''asserts['' @ nat_text (fst iv) @ ''] must be an object.'')))"

definition coerce_assert_list :: "json \<Rightarrow> json dict list result" where
  "coerce_assert_list v =
     (case v of
        JNull \<Rightarrow> Inr []
      | JList xs \<Rightarrow> mapM coerce_assert (enumerate 0 xs)
      | _ \<Rightarrow> Inl (InvalidTemplateConfigError ''asserts must be a list.''))"

text \<open>The generated commands and the number of the next one.\<close>

type_synonym generated = "int \<times> item_command list"

definition generated_one :: "string \<Rightarrow> string \<Rightarrow> command \<Rightarrow> generated \<Rightarrow> generated" where
  "generated_one description ctype c g = (fst g + 1, snd g @ [wrap (fst g) description ctype c])"

text \<open>\<open>SleepConfigurationCommandDto\<close> has no validator of its own.\<close>

definition add_sleep :: "int \<Rightarrow> string \<Rightarrow> generated \<Rightarrow> generated" where
  "add_sleep wait_ms description g =
     (if 0 < wait_ms then generated_one description ''action'' (Sleep wait_ms) g else g)"

definition operator_code :: "string dict" where
  "operator_code = [(''equals'', ''jsonEquals''), (''exists'', ''jsonNotEmpty'')]"

definition assert_field :: "nat \<Rightarrow> string \<Rightarrow> string" where
  "assert_field i rest = ''assert['' @ nat_text i @ '']'' @ rest"

text \<open>
  The steps of one assert: the read command with its \<open>ResultConstantDto\<close>, whose \<open>valueType\<close> is the default
  json, and the assert that refers to its definition.
\<close>

definition read_queue_step ::
  "string \<Rightarrow> string \<Rightarrow> nat \<Rightarrow> json dict \<Rightarrow> generated \<Rightarrow> generated result" where
  "read_queue_step definition_id name i spec g =
     rbind (require_str (jget spec ''queue_id'') (assert_field i ''.queue_id is required when target=queue.'')) (\<lambda>q.
     rbind (validate_result_constant definition_id name ''json'') (\<lambda>rc.
     rbind (validate_receive_queue \<lparr>rv_queue = q, rv_max_messages = 1, rv_retry = 3, rv_wait = 1,
              rv_target = Some (''$.local.constants.'' @ name), rv_result = Some rc\<rparr>) (\<lambda>r.
       Inr (generated_one (''Receive messages from queue '' @ quoted q @ '' for assert '' @ nat_text i)
              ''action'' (ReceiveQueue r) g))))"

definition query_step ::
  "string \<Rightarrow> string \<Rightarrow> nat \<Rightarrow> json dict \<Rightarrow> generated \<Rightarrow> generated result" where
  "query_step definition_id name i spec g =
     rbind (require_str (jget spec ''connection_id'')
       (assert_field i ''.connection_id is required when target=database.'')) (\<lambda>c.
     rbind (require_str (jget spec ''database_query'')
       (assert_field i ''.database_query is required when target=database.'')) (\<lambda>q.
     rbind (validate_result_constant definition_id name ''json'') (\<lambda>rc.
     rbind (validate_query c q (Some (''$.local.constants.'' @ name)) (Some rc)) (\<lambda>cmd.
       Inr (generated_one (''Query database '' @ quoted c @ '' for assert '' @ nat_text i) ''action'' cmd g)))))"

definition assert_step ::
  "string \<Rightarrow> string \<Rightarrow> string \<Rightarrow> nat \<Rightarrow> json dict \<Rightarrow> generated \<Rightarrow> generated result" where
  "assert_step definition_id operator target i spec g =
     rbind (validate_input_ref ''runtimeValue'' (Some definition_id) None) (\<lambda>actual.
     rbind (require (operator = ''equals'' \<longrightarrow> dict_get spec ''expected'' \<noteq> None)
       (InvalidTemplateConfigError (assert_field i ''.expected is required when operator=equals.''))) (\<lambda>_.
     rbind (validate_assert (case dict_get operator_code operator of None \<Rightarrow> [] | Some c \<Rightarrow> c) None ''json-data''
              (Some actual) (if operator = ''equals'' then jget spec ''expected'' else JNull) None [] None) (\<lambda>a.
       Inr (generated_one (''Assert '' @ operator @ '' on '' @ target @ '' for assert '' @ nat_text i)
              ''assert'' (Assert a) g))))"

section \<open>\<open>SendVerifyTemplate.generate_commands\<close>\<close>

definition send_verify_targets :: "string list" where
  "send_verify_targets = [''queue'', ''database'', ''none'']"

definition send_verify_assert :: "generated \<Rightarrow> nat \<times> json dict \<Rightarrow> generated result" where
  "send_verify_assert g ispec =
     (let i = fst ispec; spec = snd ispec; target = lower_token (jget spec ''target'');
          operator = lower_token (jget spec ''operator'') in
      if target \<notin> set send_verify_targets then
        Inl (InvalidTemplateConfigError (assert_field i
          ''.target must be one of ['' @ quoted ''database'' @ '', '' @ quoted ''none'' @ '', '' @ quoted ''queue'' @
          '']; got '' @ quoted target @ ''.''))
      else if target = ''none'' then Inr g
      else if dict_get operator_code operator = None then
        Inl (InvalidTemplateConfigError (assert_field i
          ''.operator must be one of ['' @ quoted ''equals'' @ '', '' @ quoted ''exists'' @ '']; got '' @
          quoted operator @ ''.''))
      else
        (let definition_id = ''tpl_sv_actual_'' @ nat_text i; name = ''actual_'' @ nat_text i in
         rbind (if target = ''queue'' then read_queue_step definition_id name i spec g
                else query_step definition_id name i spec g)
           (assert_step definition_id operator target i spec)))"

definition send_verify :: "json dict \<Rightarrow> item_command list result" where
  "send_verify config =
     rbind (require_str (jget config ''queue_id'') ''queue_id is required for send_verify.'') (\<lambda>queue_id.
     rbind (require_dict (jget config ''payload'') ''payload is required for send_verify.'') (\<lambda>payload.
     rbind (coerce_wait_ms (jget config ''wait_ms'') 500) (\<lambda>wait_ms.
     rbind (coerce_assert_list (jget config ''asserts'')) (\<lambda>asserts.
     rbind (require (lower_token (jget payload ''kind'') = ''json_inline'')
       (InvalidTemplateConfigError (''payload.kind must be one of ['' @ quoted ''json_inline'' @ '']; got '' @
         quoted (lower_token (jget payload ''kind'')) @ ''.''))) (\<lambda>_.
     rbind (validate_set_variable \<lparr>raw_definition = Some ''tpl_sv_payload'', raw_name = Some ''payload'',
              raw_context = Some ''local'', raw_value_type = Some ''json'', raw_source_type = None,
              raw_value = jget payload ''value'', raw_data = JNull, raw_function = None, raw_resolver = None,
              raw_function_alias = None, raw_target = None, raw_key = None, raw_scope = None\<rparr>) (\<lambda>sv.
     rbind (validate_input_ref ''runtimeValue'' (Some ''tpl_sv_payload'') None) (\<lambda>input.
     rbind (foldM send_verify_assert
              (add_sleep wait_ms (''Wait '' @ int_text wait_ms @ ''ms for side effects'')
                (generated_one (''Send message to queue '' @ quoted queue_id) ''action''
                   (SendMessageQueue \<lparr>sm_queue = queue_id, sm_input = input, sm_template = None, sm_result = None\<rparr>)
                 (generated_one ''Materialize inline JSON payload'' ''context'' (SetVariable sv) (0, []))))
              (enumerate 0 asserts)) (\<lambda>g.
       Inr (snd g)))))))))"

section \<open>\<open>MockAssertTemplate.generate_commands\<close>\<close>

definition mock_assert_targets :: "string list" where
  "mock_assert_targets = [''queue'', ''database'']"

definition mock_assert_assert :: "generated \<Rightarrow> nat \<times> json dict \<Rightarrow> generated result" where
  "mock_assert_assert g ispec =
     (let i = fst ispec; spec = snd ispec; target = lower_token (jget spec ''target'');
          operator = lower_token (jget spec ''operator'') in
      if target \<notin> set mock_assert_targets then
        Inl (InvalidTemplateConfigError (assert_field i
          ''.target must be one of ['' @ quoted ''database'' @ '', '' @ quoted ''queue'' @ '']; got '' @
          quoted target @ ''.''))
      else if dict_get operator_code operator = None then
        Inl (InvalidTemplateConfigError (assert_field i
          ''.operator must be one of ['' @ quoted ''equals'' @ '', '' @ quoted ''exists'' @ '']; got '' @
          quoted operator @ ''.''))
      else
        (let definition_id = ''tpl_ma_actual_'' @ nat_text i; name = ''actual_'' @ nat_text i in
         rbind (if target = ''queue'' then read_queue_step definition_id name i spec g
                else query_step definition_id name i spec g)
           (assert_step definition_id operator target i spec)))"

definition mock_assert :: "json dict \<Rightarrow> item_command list result" where
  "mock_assert config =
     rbind (coerce_wait_ms (jget config ''wait_ms'') 1000) (\<lambda>wait_ms.
     rbind (coerce_assert_list (jget config ''asserts'')) (\<lambda>asserts.
     rbind (require (asserts \<noteq> []) (InvalidTemplateConfigError ''mock_assert requires at least one assert.'')) (\<lambda>_.
     rbind (foldM mock_assert_assert
              (add_sleep wait_ms (''Wait '' @ int_text wait_ms @ ''ms for the external trigger to land'') (0, []))
              (enumerate 0 asserts)) (\<lambda>g.
       Inr (snd g)))))"

section \<open>The registry\<close>

text \<open>
  \<open>template_registry\<close> after the import of the two modules. \<open>register\<close> is modelled on its own, since its
  guards decide what the table holds.
\<close>

type_synonym templates = "(json dict \<Rightarrow> item_command list result) dict"

definition register :: "string list \<Rightarrow> string \<Rightarrow> (json dict \<Rightarrow> item_command list result) \<Rightarrow> templates \<Rightarrow> templates result" where
  "register kinds kind generate ts =
     (if dict_get ts kind \<noteq> None then
        Inl (RuntimeError (''Template kind '' @ quoted kind @ '' already registered.''))
      else if kind = ''custom'' then
        Inl (RuntimeError (''The '' @ quoted ''custom'' @
          '' template_kind must not be registered: its commands come from the user, not the engine.''))
      else if kind \<notin> set kinds then
        Inl (RuntimeError (''Template kind '' @ quoted kind @ '' is not declared in TemplateKind enum.''))
      else Inr (dict_set kind generate ts))"

definition bootstrap_templates :: "string list \<Rightarrow> templates result" where
  "bootstrap_templates kinds =
     rbind (register kinds ''mock_assert'' mock_assert (dict_del ''mock_assert'' [])) (\<lambda>ts.
       register kinds ''send_verify'' send_verify (dict_del ''send_verify'' ts))"

definition template_table :: templates where
  "template_table = [(''mock_assert'', mock_assert), (''send_verify'', send_verify)]"

definition is_supported :: "string \<Rightarrow> bool" where
  "is_supported kind \<longleftrightarrow> dict_get template_table kind \<noteq> None"

definition get_template :: "string \<Rightarrow> (json dict \<Rightarrow> item_command list result) result" where
  "get_template kind =
     (case dict_get template_table kind of
        None \<Rightarrow> Inl (UnknownTemplateError (''No template engine registered for kind '' @ quoted kind @ ''.''))
      | Some generate \<Rightarrow> Inr generate)"

definition generate_commands :: "string \<Rightarrow> json \<Rightarrow> item_command list result" where
  "generate_commands kind config = rbind (get_template kind) (\<lambda>generate. generate (fields_of config))"

text \<open>The API turns the two exceptions of the engine into its own; a validator's passes.\<close>

definition app_errors :: "'a result \<Rightarrow> 'a result" where
  "app_errors r =
     (case r of
        Inl (UnknownTemplateError m) \<Rightarrow> Inl (AppException m)
      | Inl (InvalidTemplateConfigError m) \<Rightarrow> Inl (AppException m)
      | _ \<Rightarrow> r)"

text \<open>\<open>preview_template_api\<close>: order, description and dump of each command.\<close>

definition preview_command :: "(rat \<Rightarrow> string) \<Rightarrow> item_command \<Rightarrow> json" where
  "preview_command txt c =
     JObj [(''order'', JInt (ic_order c)), (''description'', dump_text (ic_description c)),
       (''cfg'', (case ic_cfg c of None \<Rightarrow> JNull | Some cfg \<Rightarrow> JObj (dump_config txt cfg)))]"

definition preview_template :: "(rat \<Rightarrow> string) \<Rightarrow> string \<Rightarrow> json \<Rightarrow> json result" where
  "preview_template txt template_kind config =
     (let kind = py_lower (py_strip template_kind) in
      if kind = [] then Inl (ValidationError ''template_kind is required.'')
      else if kind = ''custom'' then
        Inr (JObj [(''template_kind'', JStr kind), (''commands'', JList []),
          (''note'', JStr ''Custom template_kind has no generated commands.'')])
      else rbind (app_errors (generate_commands kind config)) (\<lambda>cs.
        Inr (JObj [(''template_kind'', JStr kind), (''commands'', JList (map (preview_command txt) cs))])))"

end
