(* ===== verification/SuiteStore.thy ===== *)
theory SuiteStore
  imports ConstantDefinitions Templates
begin

text \<open>
  Creating, reading, changing and deleting test suites (\<open>app/elaborations/api/test_suites_api.py\<close> with the services
  \<open>test_suite_service.py\<close>, \<open>suite_item_service.py\<close> and \<open>suite_item_command_service.py\<close>). A call is a
  transaction on the tables: when it raises, \<open>managed_session\<close> rolls back what it did.
\<close>

section \<open>Requests\<close>

text \<open>\<open>CreateSuiteItemDto\<close>, \<open>CreateTestSuiteDto\<close>; the sources as the dumps of their classes.\<close>

record item_dto =
  dt_kind :: string
  dt_phase :: "string option"
  dt_description :: "string option"
  dt_on_failure :: "string option"
  dt_sources :: "json dict list"
  dt_commands :: "item_command list"
  dt_role :: "string option"
  dt_template_kind :: string
  dt_template_config :: "json dict option"
  dt_data_driven :: bool
  dt_dataset :: "string option"

record suite_dto =
  ds_description :: string
  ds_tests :: "item_dto list"
  ds_hooks :: "item_dto list"

text \<open>\<open>_cfg_payload\<close> of a command: the dump of its configuration.\<close>

definition command_payload :: "(rat \<Rightarrow> string) \<Rightarrow> item_command \<Rightarrow> json dict" where
  "command_payload txt c = (case ic_cfg c of None \<Rightarrow> [] | Some cfg \<Rightarrow> dump_config txt cfg)"

text \<open>What \<open>validate_suite_constant_graph\<close> reads of an item.\<close>

definition validated_item :: "(rat \<Rightarrow> string) \<Rightarrow> item_dto \<Rightarrow> suite_item" where
  "validated_item txt d =
     \<lparr>it_id = [], it_kind = dt_kind d, it_phase = dt_phase d, it_description = text_of (dt_description d),
      it_on_failure = text_of (dt_on_failure d), it_sources = map JObj (dt_sources d),
      it_commands = map (\<lambda>c. \<lparr>sc_id = JNull, sc_order = ic_order c, sc_cfg = command_payload txt c\<rparr>) (dt_commands d)\<rparr>"

definition validate_suite :: "field_types \<Rightarrow> (rat \<Rightarrow> string) \<Rightarrow> suite_tables \<Rightarrow> suite_dto \<Rightarrow> unit result" where
  "validate_suite pyd txt t d =
     validate_suite_constant_graph pyd (next_ids t) (map (validated_item txt) (ds_hooks d))
       (map (validated_item txt) (ds_tests d))"

section \<open>Entities\<close>

definition stripped_dataset :: "string option \<Rightarrow> string option" where
  "stripped_dataset d =
     (if text_of d = [] then None else if py_strip (text_of d) = [] then None else Some (py_strip (text_of d)))"

definition stripped_phase :: "string option \<Rightarrow> string option" where
  "stripped_phase p = (if py_strip (text_of p) = [] then None else Some (py_strip (text_of p)))"

definition build_suite_item_entity :: "string \<Rightarrow> string \<Rightarrow> item_dto \<Rightarrow> int \<Rightarrow> item_record" where
  "build_suite_item_entity new_id suite_id d position =
     \<lparr>ir_id = new_id, ir_suite = suite_id, ir_kind = or_text (dt_kind d) ''test'', ir_phase = stripped_phase (dt_phase d),
      ir_description = text_of (dt_description d), ir_sources = map JObj (dt_sources d), ir_position = position,
      ir_on_failure = normalize_on_failure (dt_on_failure d), ir_role = or_text (text_of (dt_role d)) ''test'',
      ir_template_kind = or_text (dt_template_kind d) ''custom'', ir_template_config = dt_template_config d,
      ir_data_driven = dt_data_driven d, ir_dataset = stripped_dataset (dt_dataset d)\<rparr>"

definition build_suite_item_command_entity ::
  "(rat \<Rightarrow> string) \<Rightarrow> string \<Rightarrow> string \<Rightarrow> item_command \<Rightarrow> command_record result" where
  "build_suite_item_command_entity txt new_id item_id c =
     (let code = (case ic_cfg c of None \<Rightarrow> [] | Some cfg \<Rightarrow> py_strip (command_code (cfg_command cfg)));
          family = (case ic_cfg c of None \<Rightarrow> [] | Some cfg \<Rightarrow> py_strip (cfg_type cfg)) in
      if code = [] then Inl (AppException ''Command code is required.'')
      else Inr \<lparr>cr_id = new_id, cr_item = item_id, cr_description = text_of (ic_description c), cr_code = code,
             cr_type = family, cr_cfg = command_payload txt c, cr_order = ic_order c\<rparr>)"

section \<open>Insertion\<close>

definition new_row_id :: "(suite_tables, string) call" where
  "new_row_id t = (Inr (db_ids t (db_next t)), t\<lparr>db_next := db_next t + 1\<rparr>)"

text \<open>\<open>dataset_id\<close> is a foreign key of \<open>json_payloads\<close>.\<close>

definition insert_item :: "item_record \<Rightarrow> (suite_tables, unit) call" where
  "insert_item r t =
     (case ir_dataset r of
        Some d \<Rightarrow>
          if d \<in> set (db_payloads t) then (Inr (), t\<lparr>db_items := db_items t @ [r]\<rparr>)
          else (Inl (IntegrityError ''insert or update on table suite_items violates foreign key constraint''), t)
      | None \<Rightarrow> (Inr (), t\<lparr>db_items := db_items t @ [r]\<rparr>))"

definition insert_operation :: "(rat \<Rightarrow> string) \<Rightarrow> string \<Rightarrow> item_command \<Rightarrow> (suite_tables, unit) call" where
  "insert_operation txt item_id c =
     sbind new_row_id (\<lambda>i.
     sbind (slift (build_suite_item_command_entity txt i item_id c)) (\<lambda>r t.
       (Inr (), t\<lparr>db_commands := db_commands t @ [r]\<rparr>)))"

primrec insert_suite_item_operations :: "(rat \<Rightarrow> string) \<Rightarrow> string \<Rightarrow> item_command list \<Rightarrow> (suite_tables, unit) call" where
  "insert_suite_item_operations txt item_id [] = spure ()"
| "insert_suite_item_operations txt item_id (c # cs) =
     sbind (insert_operation txt item_id c) (\<lambda>_. insert_suite_item_operations txt item_id cs)"

definition insert_suite_item ::
  "(rat \<Rightarrow> string) \<Rightarrow> string \<Rightarrow> item_dto \<Rightarrow> int \<Rightarrow> item_command list \<Rightarrow> (suite_tables, string) call" where
  "insert_suite_item txt suite_id d position commands =
     sbind new_row_id (\<lambda>i.
     sbind (insert_item (build_suite_item_entity i suite_id d position)) (\<lambda>_.
     sbind (insert_suite_item_operations txt i commands) (\<lambda>_. spure i)))"

definition dto_phase :: "item_dto \<Rightarrow> string" where
  "dto_phase d = py_lower (py_strip (text_of (dt_phase d)))"

text \<open>The first hook of a phase is stored, phase by phase in the order of \<open>HookPhase\<close>.\<close>

primrec insert_hooks ::
  "(rat \<Rightarrow> string) \<Rightarrow> string \<Rightarrow> item_dto list \<Rightarrow> string list \<Rightarrow> string list \<Rightarrow> (suite_tables, unit) call" where
  "insert_hooks txt suite_id hooks seen [] = spure ()"
| "insert_hooks txt suite_id hooks seen (phase # phases) =
     (case find (\<lambda>d. dto_phase d = phase) hooks of
        None \<Rightarrow> insert_hooks txt suite_id hooks seen phases
      | Some d \<Rightarrow>
          if phase \<in> set seen then sraise (AppException (''Duplicate hook for phase '' @ quoted phase @ ''.''))
          else sbind (insert_suite_item txt suite_id d 0 (dt_commands d)) (\<lambda>_.
            insert_hooks txt suite_id hooks (phase # seen) phases))"

primrec insert_tests :: "(rat \<Rightarrow> string) \<Rightarrow> string \<Rightarrow> int \<Rightarrow> item_dto list \<Rightarrow> (suite_tables, unit) call" where
  "insert_tests txt suite_id position [] = spure ()"
| "insert_tests txt suite_id position (d # ds) =
     sbind (insert_suite_item txt suite_id d position (dt_commands d)) (\<lambda>_.
       insert_tests txt suite_id (position + 1) ds)"

definition insert_suite_items :: "(rat \<Rightarrow> string) \<Rightarrow> string \<Rightarrow> suite_dto \<Rightarrow> (suite_tables, unit) call" where
  "insert_suite_items txt suite_id d =
     sbind (insert_hooks txt suite_id (ds_hooks d) [] hook_phases) (\<lambda>_. insert_tests txt suite_id 1 (ds_tests d))"

section \<open>Deletion and update\<close>

definition delete_commands_of_item :: "string \<Rightarrow> suite_tables \<Rightarrow> suite_tables" where
  "delete_commands_of_item item_id t = t\<lparr>db_commands := filter (\<lambda>r. cr_item r \<noteq> item_id) (db_commands t)\<rparr>"

definition delete_items_of_suite :: "string \<Rightarrow> suite_tables \<Rightarrow> suite_tables" where
  "delete_items_of_suite suite_id t =
     (let items = filter (\<lambda>r. ir_suite r = suite_id) (db_items t);
          t' = foldl (\<lambda>t r. delete_commands_of_item (ir_id r) t) t items in
      t'\<lparr>db_items := filter (\<lambda>r. ir_suite r \<noteq> suite_id) (db_items t')\<rparr>)"

text \<open>\<open>update_entity\<close> skips the fields whose new value is None.\<close>

definition update_option :: "'a option \<Rightarrow> 'a option \<Rightarrow> 'a option" where
  "update_option new old = (case new of None \<Rightarrow> old | Some v \<Rightarrow> Some v)"

definition update_item :: "string \<Rightarrow> (item_record \<Rightarrow> item_record) \<Rightarrow> suite_tables \<Rightarrow> suite_tables" where
  "update_item item_id f t = t\<lparr>db_items := map (\<lambda>r. if ir_id r = item_id then f r else r) (db_items t)\<rparr>"

definition apply_update_payload :: "item_dto \<Rightarrow> item_record \<Rightarrow> item_record" where
  "apply_update_payload d r =
     r\<lparr>ir_kind := or_text (dt_kind d) ''test'', ir_phase := update_option (stripped_phase (dt_phase d)) (ir_phase r),
       ir_description := text_of (dt_description d), ir_sources := map JObj (dt_sources d),
       ir_on_failure := normalize_on_failure (dt_on_failure d), ir_role := or_text (text_of (dt_role d)) ''test'',
       ir_template_kind := or_text (dt_template_kind d) ''custom'',
       ir_template_config := update_option (dt_template_config d) (ir_template_config r),
       ir_data_driven := dt_data_driven d, ir_dataset := update_option (stripped_dataset (dt_dataset d)) (ir_dataset r)\<rparr>"

definition get_item :: "suite_tables \<Rightarrow> string \<Rightarrow> item_record option" where
  "get_item t item_id = find (\<lambda>r. ir_id r = item_id) (db_items t)"

definition get_suite :: "suite_tables \<Rightarrow> string \<Rightarrow> suite_record option" where
  "get_suite t suite_id = find (\<lambda>r. sr_id r = suite_id) (db_suites t)"

section \<open>Serialisation\<close>

definition serialize_operation :: "command_record \<Rightarrow> json" where
  "serialize_operation r =
     JObj [(''id'', JStr (cr_id r)), (''suite_item_id'', JStr (cr_item r)), (''description'', JStr (cr_description r)),
       (''command_code'', JStr (cr_code r)), (''command_type'', JStr (cr_type r)), (''configuration_json'', JObj (cr_cfg r)),
       (''order'', JInt (cr_order r))]"

definition serialize_item :: "suite_tables \<Rightarrow> item_record \<Rightarrow> json" where
  "serialize_item t r =
     JObj [(''id'', JStr (ir_id r)), (''test_suite_id'', JStr (ir_suite r)), (''kind'', JStr (ir_kind r)),
       (''hook_phase'', dump_text (ir_phase r)), (''description'', JStr (ir_description r)),
       (''sources'', JList (ir_sources r)), (''position'', JInt (ir_position r)), (''on_failure'', JStr (ir_on_failure r)),
       (''role'', JStr (or_text (ir_role r) ''test'')), (''template_kind'', JStr (or_text (ir_template_kind r) ''custom'')),
       (''template_config'', (case ir_template_config r of None \<Rightarrow> JNull | Some c \<Rightarrow> JObj c)),
       (''data_driven'', JBool (ir_data_driven r)), (''dataset_id'', dump_text (ir_dataset r)),
       (''commands'', JList (map serialize_operation (commands_of_item t (ir_id r))))]"

section \<open>The endpoints\<close>

definition transaction :: "(suite_tables, 'a) call \<Rightarrow> (suite_tables, 'a) call" where
  "transaction m t = (case m t of (Inl e, _) \<Rightarrow> (Inl e, t) | (Inr x, t') \<Rightarrow> (Inr x, t'))"

definition no_suite :: "string \<Rightarrow> py_error" where
  "no_suite suite_id = AppException (''No test suite found with id [ '' @ suite_id @ '' ]'')"

definition insert_test_suite :: "field_types \<Rightarrow> (rat \<Rightarrow> string) \<Rightarrow> suite_dto \<Rightarrow> (suite_tables, string) call" where
  "insert_test_suite pyd txt d =
     transaction
       (sbind (\<lambda>t. (validate_suite pyd txt t d, t)) (\<lambda>_.
        sbind new_row_id (\<lambda>i.
        sbind (\<lambda>t. (Inr (), t\<lparr>db_suites := db_suites t @ [\<lparr>sr_id = i, sr_description = ds_description d\<rparr>]\<rparr>)) (\<lambda>_.
        sbind (insert_suite_items txt i d) (\<lambda>_.
        sbind (rebuild_suite_constant_definitions pyd i) (\<lambda>_. spure i))))))"

definition update_test_suite ::
  "field_types \<Rightarrow> (rat \<Rightarrow> string) \<Rightarrow> string \<Rightarrow> suite_dto \<Rightarrow> (suite_tables, unit) call" where
  "update_test_suite pyd txt suite_id d =
     transaction
       (sbind (\<lambda>t. (validate_suite pyd txt t d, t)) (\<lambda>_.
        sbind (\<lambda>t. if get_suite t suite_id = None then (Inl (no_suite suite_id), t)
                   else (Inr (), t\<lparr>db_suites := map (\<lambda>r. if sr_id r = suite_id then r\<lparr>sr_description := ds_description d\<rparr> else r)
                                   (db_suites t)\<rparr>)) (\<lambda>_.
        sbind (\<lambda>t. (Inr (), delete_items_of_suite suite_id t)) (\<lambda>_.
        sbind (insert_suite_items txt suite_id d) (\<lambda>_.
          rebuild_suite_constant_definitions pyd suite_id)))))"

definition find_all_test_suites :: "suite_tables \<Rightarrow> json" where
  "find_all_test_suites t =
     JList (map (\<lambda>s. JObj [(''id'', JStr (sr_id s)), (''description'', JStr (sr_description s))])
       (sort_key (\<lambda>s. db_tie t (sr_id s)) (db_suites t)))"

definition find_test_suite :: "string \<Rightarrow> suite_tables \<Rightarrow> json result" where
  "find_test_suite suite_id t =
     (case get_suite t suite_id of
        None \<Rightarrow> Inl (no_suite suite_id)
      | Some s \<Rightarrow>
          (let items = items_of_suite t suite_id in
           Inr (JObj [(''id'', JStr (sr_id s)), (''description'', JStr (sr_description s)),
             (''hooks'', JList (map (serialize_item t) (filter (\<lambda>r. ir_kind r = ''hook'') items))),
             (''tests'', JList (map (serialize_item t) (filter (\<lambda>r. ir_kind r \<noteq> ''hook'') items)))])))"

definition delete_test_suite :: "string \<Rightarrow> (suite_tables, unit) call" where
  "delete_test_suite suite_id t =
     (case get_suite t suite_id of
        None \<Rightarrow> (Inl (no_suite suite_id), t)
      | Some _ \<Rightarrow>
          (let t' = delete_items_of_suite suite_id t in
           (Inr (), t'\<lparr>db_suites := filter (\<lambda>r. sr_id r \<noteq> suite_id) (db_suites t')\<rparr>)))"

definition resolve_template_commands :: "item_dto \<Rightarrow> item_command list result" where
  "resolve_template_commands d =
     (let kind = or_text (dt_template_kind d) ''custom'' in
      if kind = ''custom'' \<or> \<not> is_supported kind then Inr (dt_commands d)
      else app_errors (generate_commands kind (case dt_template_config d of None \<Rightarrow> JNull | Some c \<Rightarrow> JObj c)))"

definition next_position :: "suite_tables \<Rightarrow> string \<Rightarrow> int" where
  "next_position t suite_id =
     (case map ir_position (filter (\<lambda>r. ir_kind r = ''test'') (items_of_suite t suite_id)) of
        [] \<Rightarrow> 1
      | p # ps \<Rightarrow> foldl max p ps + 1)"

definition read_item :: "string \<Rightarrow> (suite_tables, json) call" where
  "read_item item_id t =
     (case get_item t item_id of
        None \<Rightarrow> (Inl (AttributeError ''NoneType object has no attribute id''), t)
      | Some r \<Rightarrow> (Inr (serialize_item t r), t))"

definition add_test_to_suite ::
  "field_types \<Rightarrow> (rat \<Rightarrow> string) \<Rightarrow> string \<Rightarrow> item_dto \<Rightarrow> (suite_tables, json) call" where
  "add_test_to_suite pyd txt suite_id d =
     sbind (slift (resolve_template_commands d)) (\<lambda>commands.
       transaction
         (sbind (\<lambda>t. if get_suite t suite_id = None then (Inl (no_suite suite_id), t) else (Inr (next_position t suite_id), t)) (\<lambda>position.
          sbind (insert_suite_item txt suite_id d position commands) (\<lambda>i.
          sbind (rebuild_suite_constant_definitions pyd suite_id) (\<lambda>_. read_item i)))))"

definition existing_item :: "string \<Rightarrow> string \<Rightarrow> (suite_tables, item_record) call" where
  "existing_item suite_id item_id t =
     (case get_item t item_id of
        None \<Rightarrow> (Inl (AppException (''No suite_item [ '' @ item_id @ '' ] found in test suite [ '' @ suite_id @ '' ].'')), t)
      | Some r \<Rightarrow>
          if ir_suite r \<noteq> suite_id
          then (Inl (AppException (''No suite_item [ '' @ item_id @ '' ] found in test suite [ '' @ suite_id @ '' ].'')), t)
          else (Inr r, t))"

text \<open>The update of a row is flushed where the foreign key of its dataset holds.\<close>

definition flush_item :: "string \<Rightarrow> (item_record \<Rightarrow> item_record) \<Rightarrow> (suite_tables, unit) call" where
  "flush_item item_id f t =
     (case get_item t item_id of
        None \<Rightarrow> (Inr (), t)
      | Some r \<Rightarrow>
          (case ir_dataset (f r) of
             None \<Rightarrow> (Inr (), update_item item_id f t)
           | Some d \<Rightarrow>
               if d \<in> set (db_payloads t) then (Inr (), update_item item_id f t)
               else (Inl (IntegrityError ''insert or update on table suite_items violates foreign key constraint''), t)))"

definition update_test_in_suite ::
  "field_types \<Rightarrow> (rat \<Rightarrow> string) \<Rightarrow> string \<Rightarrow> string \<Rightarrow> item_dto \<Rightarrow> (suite_tables, json) call" where
  "update_test_in_suite pyd txt suite_id item_id d =
     sbind (slift (resolve_template_commands d)) (\<lambda>commands.
       transaction
         (sbind (existing_item suite_id item_id) (\<lambda>_.
          sbind (flush_item item_id (apply_update_payload d)) (\<lambda>_.
          sbind (\<lambda>t. (Inr (), delete_commands_of_item item_id t)) (\<lambda>_.
          sbind (insert_suite_item_operations txt item_id commands) (\<lambda>_.
          sbind (rebuild_suite_constant_definitions pyd suite_id) (\<lambda>_. read_item item_id)))))))"

definition convert_item ::
  "field_types \<Rightarrow> (rat \<Rightarrow> string) \<Rightarrow> string \<Rightarrow> item_record \<Rightarrow> (suite_tables, unit) call" where
  "convert_item pyd txt suite_id r =
     (let kind = or_text (ir_template_kind r) ''custom'' in
      if kind = ''custom'' \<or> \<not> is_supported kind then spure ()
      else
        sbind (slift (app_errors (generate_commands kind (case ir_template_config r of None \<Rightarrow> JNull | Some c \<Rightarrow> JObj c)))) (\<lambda>commands.
        sbind (\<lambda>t. (Inr (), delete_commands_of_item (ir_id r) t)) (\<lambda>_.
        sbind (insert_suite_item_operations txt (ir_id r) commands) (\<lambda>_.
        sbind (flush_item (ir_id r) (\<lambda>q. q\<lparr>ir_template_kind := ''custom'',
                 ir_template_config := update_option None (ir_template_config q)\<rparr>)) (\<lambda>_.
          rebuild_suite_constant_definitions pyd suite_id)))))"

definition convert_test_to_custom ::
  "field_types \<Rightarrow> (rat \<Rightarrow> string) \<Rightarrow> string \<Rightarrow> string \<Rightarrow> (suite_tables, json) call" where
  "convert_test_to_custom pyd txt suite_id item_id =
     transaction
       (sbind (existing_item suite_id item_id) (\<lambda>r.
        sbind (convert_item pyd txt suite_id r) (\<lambda>_. read_item item_id)))"

end
