(* ===== verification/SuiteStoreFacts.thy ===== *)
theory SuiteStoreFacts
  imports SuiteStore ConstantGraphProps
begin

text \<open>
  Insertions as explicit functions of the request: which rows a suite leaves behind, and that a query by suite or by
  item finds exactly those.
\<close>

text \<open>
  A plan depends on the identifiers of the commands only through the order of commands of equal order: with the
  identifiers erased, planning commutes with the erasure. The validation of a suite and the rebuild from its rows
  plan the same commands under different identifiers.
\<close>

section \<open>Erasing the identifiers of commands\<close>

definition anon :: "planned \<Rightarrow> planned" where
  "anon d = d\<lparr>pl_command := []\<rparr>"

definition anon_dict :: "planned dict \<Rightarrow> planned dict" where
  "anon_dict ds = map (\<lambda>kd. (fst kd, anon (snd kd))) ds"

definition anon_plan :: "plan \<Rightarrow> plan" where
  "anon_plan p = (map anon (fst p), anon_dict (snd p))"

definition anon_input :: "command_input \<Rightarrow> command_input" where
  "anon_input ci = ci\<lparr>ci_id := []\<rparr>"

definition rmap :: "('a \<Rightarrow> 'b) \<Rightarrow> 'a result \<Rightarrow> 'b result" where
  "rmap f r = rbind r (\<lambda>x. Inr (f x))"

lemma rmap_simps [simp]: "rmap f (Inr x) = Inr (f x)" "rmap f (Inl e) = Inl e"
  by (simp_all add: rmap_def)

lemma rmap_Inr_iff: "rmap f r = Inr y \<longleftrightarrow> (\<exists>x. r = Inr x \<and> f x = y)"
  by (cases r) auto

lemma rbind_rmap: "rbind (rmap f r) g = rbind r (\<lambda>x. g (f x))"
  by (cases r) simp_all

lemma rmap_rbind: "rmap f (rbind r g) = rbind r (\<lambda>x. rmap f (g x))"
  by (cases r) simp_all

lemma anon_simps [simp]:
  "pl_id (anon d) = pl_id d" "pl_order (anon d) = pl_order d" "pl_section (anon d) = pl_section d"
  "pl_name (anon d) = pl_name d" "pl_scope (anon d) = pl_scope d" "pl_type (anon d) = pl_type d"
  "pl_deleted (anon d) = pl_deleted d" "pl_command (anon d) = []"
  by (simp_all add: anon_def)

lemma anon_input_simps [simp]:
  "ci_id (anon_input ci) = []" "ci_order (anon_input ci) = ci_order ci" "ci_cfg (anon_input ci) = ci_cfg ci"
  by (simp_all add: anon_input_def)

lemma dict_get_anon: "dict_get (anon_dict ds) k = map_option anon (dict_get ds k)"
  by (induction ds) (auto simp: anon_dict_def dict_get_def)

lemma dict_set_anon: "dict_set k (anon d) (anon_dict ds) = anon_dict (dict_set k d ds)"
  by (induction ds) (auto simp: anon_dict_def dict_set_def)

lemma active_anon: "active_definitions scopes n (anon_dict ds) = anon_dict (active_definitions scopes n ds)"
  by (induction ds) (auto simp: anon_dict_def active_definitions_def is_active_def)

lemma carry_over_anon: "carry_over (anon_dict ds) = anon_dict (carry_over ds)"
  by (induction ds) (auto simp: anon_dict_def carry_over_def anon_def)

lemma check_ref_anon: "check_ref code st (anon_dict ds) r = check_ref code st ds r"
  by (cases "dict_get ds (snd r)") (simp_all add: check_ref_def dict_get_anon cong: option.case_cong)

lemma form_refs_anon: "validate_form_body_refs c (anon_dict ds) = validate_form_body_refs c ds"
proof -
  have "form_field_ok (anon_dict ds) = form_field_ok ds"
    by (rule ext) (auto simp: form_field_ok_def dict_get_anon split: http_tree.split http_node.split option.split)
  then show ?thesis by (cases "(c, ds)" rule: validate_form_body_refs.cases) simp_all
qed

lemma visibility_anon: "validate_ref_visibility c st n (anon_dict ds) = validate_ref_visibility c st n ds"
proof -
  have "check_ref code st (anon_dict ds) = check_ref code st ds" for code ds
    by (rule ext) (rule check_ref_anon)
  then show ?thesis by (simp add: validate_ref_visibility_def active_anon form_refs_anon Let_def)
qed

lemma declarations_anon: "planned_declarations c [] n st = map anon (planned_declarations c cid n st)"
  by (cases c) (auto simp: planned_declarations_def anon_def split: option.split)

lemma declare_step_anon:
  "declare_step st (anon_dict ds) (anon d) = rmap anon_dict (declare_step st ds d)"
proof -
  have "(\<forall>kv \<in> set (anon_dict ds). \<not> (pl_name (snd kv) = pl_name d \<and> pl_scope (snd kv) = pl_scope d)) \<longleftrightarrow>
      (\<forall>kv \<in> set ds. \<not> (pl_name (snd kv) = pl_name d \<and> pl_scope (snd kv) = pl_scope d))"
    by (auto simp: anon_dict_def)
  then show ?thesis
    by (simp add: declare_step_def rmap_rbind dict_set_anon)
qed

lemma foldM_declare_anon:
  "foldM (declare_step st) (anon_dict ds) (map anon xs) = rmap anon_dict (foldM (declare_step st) ds xs)"
proof (induction xs arbitrary: ds)
  case (Cons d xs)
  then show ?case by (cases "declare_step st ds d") (simp_all add: declare_step_anon)
qed simp

lemma validate_declarations_anon:
  "validate_declarations c st n (anon_dict ds) [] = rmap (map anon) (validate_declarations c st n ds cid)"
  by (simp add: validate_declarations_def Let_def declarations_anon [of c n st cid] active_anon foldM_declare_anon
      rbind_rmap rmap_rbind)

lemma store_anon: "store_declarations (map anon new) (anon_dict ds) = anon_dict (store_declarations new ds)"
  unfolding store_declarations_def
proof (induction new arbitrary: ds)
  case (Cons d new)
  from Cons.IH [of "dict_set (pl_id d) d ds"] show ?case by (simp add: dict_set_anon)
qed simp

lemma delete_anon: "delete_definition did n (anon_dict ds) = rmap anon_dict (delete_definition did n ds)"
proof (cases "dict_get ds did")
  case (Some d)
  then show ?thesis
    using dict_set_anon [of did "d\<lparr>pl_deleted := Some n\<rparr>" ds]
    by (cases d) (simp add: delete_definition_def dict_get_anon anon_def)
qed (simp add: delete_definition_def dict_get_anon)

lemma plan_command_anon:
  "plan_command st (anon_plan p) (anon_input ci) c = rmap anon_plan (plan_command st p ci c)"
proof (cases "\<exists>did. c = DeleteVariable did")
  case True
  then show ?thesis
    by (auto simp: plan_command_def anon_plan_def visibility_anon delete_anon rbind_rmap rmap_rbind)
next
  case False
  then have "plan_command st q x c =
      rbind (validate_ref_visibility c st (ci_order x) (snd q)) (\<lambda>_.
      rbind (validate_declarations c st (ci_order x) (snd q) (ci_id x)) (\<lambda>new.
        Inr (fst q @ new, store_declarations new (snd q))))" for q x
    by (cases c) (simp_all add: plan_command_def)
  then show ?thesis
    by (simp add: anon_plan_def visibility_anon rmap_rbind rbind_rmap store_anon
        validate_declarations_anon [of c st "ci_order ci" "snd p" "ci_id ci"])
qed

lemma plan_step_anon:
  "plan_step pyd st (anon_plan p) (anon_input ci) = rmap anon_plan (plan_step pyd st p ci)"
  by (simp add: plan_step_def plan_command_anon rmap_rbind)

lemma plan_fold_anon:
  "foldM (plan_step pyd st) (anon_plan p) (map anon_input cs) = rmap anon_plan (foldM (plan_step pyd st) p cs)"
proof (induction cs arbitrary: p)
  case (Cons ci cs)
  then show ?case by (cases "plan_step pyd st p ci") (simp_all add: plan_step_anon)
qed simp

section \<open>Plans of the same commands\<close>

lemma sort_key_command_order:
  assumes "distinct (map ci_order inputs)"
  shows "sort_key command_key inputs = sort_key ci_order inputs"
proof (rule sort_key_inj_key_eq [symmetric])
  show "inj_on ci_order (set inputs)"
    using assms by (simp add: distinct_map)
  have "sorted (map command_key (sort_key command_key inputs))" by simp
  then show "sorted (map ci_order (sort_key command_key inputs))"
    by (rule sorted_orders)
qed simp

lemma anon_sort: "map anon_input (sort_key ci_order xs) = sort_key ci_order (map anon_input xs)"
proof -
  have "map anon_input (insort_key ci_order x xs) = insort_key ci_order (anon_input x) (map anon_input xs)" for x xs
    by (induction xs) auto
  then show ?thesis
    by (induction xs) (simp_all add: sort_key_def)
qed

text \<open>
  The plan up to the identifiers is that of the commands without identifiers, in the order of their numbers.
\<close>

lemma plan_inputs_anon:
  assumes "distinct (map ci_order inputs)"
  shows "rmap anon_plan (plan_inputs pyd st inputs initial) =
    foldM (plan_step pyd st) ([], anon_dict (carry_over initial)) (sort_key ci_order (map anon_input inputs))"
proof -
  have "anon_plan ([], carry_over initial) = ([], anon_dict (carry_over initial))"
    by (simp add: anon_plan_def)
  then show ?thesis
    by (simp add: plan_inputs_def sort_key_command_order [OF assms] plan_fold_anon [symmetric] anon_sort)
qed

lemma plan_inputs_same:
  assumes "distinct (map ci_order xs)" and "mset (map anon_input xs) = mset (map anon_input ys)"
    and "anon_dict initial = anon_dict initial'"
  shows "rmap anon_plan (plan_inputs pyd st xs initial) = rmap anon_plan (plan_inputs pyd st ys initial')"
proof -
  have orders: "map ci_order (map anon_input zs) = map ci_order zs" for zs by simp
  have "mset (map ci_order xs) = mset (map ci_order ys)"
    using arg_cong [OF assms(2), of "image_mset ci_order"] by (simp add: multiset.map_comp comp_def)
  then have ys: "distinct (map ci_order ys)" using assms(1) by (metis mset_eq_imp_distinct_iff)
  have "sort_key ci_order (map anon_input xs) = sort_key ci_order (map anon_input ys)"
  proof (rule sort_key_inj_key_eq)
    show "mset (map anon_input xs) = mset (sort_key ci_order (map anon_input ys))" using assms(2) by simp
    show "inj_on ci_order (set (map anon_input xs))"
      using assms(1) orders [of xs] by (metis distinct_map)
  qed simp
  moreover have "anon_dict (carry_over initial) = anon_dict (carry_over initial')"
    using assms(3) by (simp flip: carry_over_anon)
  ultimately show ?thesis
    by (simp add: plan_inputs_anon [OF assms(1)] plan_inputs_anon [OF ys])
qed

text \<open>A sequence of distinct identifiers.\<close>

lemma inj_replicate: "inj (\<lambda>n. replicate (Suc n) x)"
  by (rule injI) (metis Suc_inject length_replicate)

section \<open>Well-formed tables\<close>

definition used_ids :: "suite_tables \<Rightarrow> string set" where
  "used_ids t = db_ids t ` {..<db_next t}"

definition dataset_known :: "suite_tables \<Rightarrow> string option \<Rightarrow> bool" where
  "dataset_known t d \<longleftrightarrow> (case d of None \<Rightarrow> True | Some x \<Rightarrow> x \<in> set (db_payloads t))"

definition tables_ok :: "suite_tables \<Rightarrow> bool" where
  "tables_ok t \<longleftrightarrow>
     inj (db_ids t) \<and>
     distinct (map sr_id (db_suites t)) \<and> distinct (map ir_id (db_items t)) \<and> distinct (map cr_id (db_commands t)) \<and>
     distinct (map cd_id (db_definitions t)) \<and>
     sr_id ` set (db_suites t) \<subseteq> used_ids t \<and> ir_id ` set (db_items t) \<subseteq> used_ids t \<and>
     cr_id ` set (db_commands t) \<subseteq> used_ids t \<and>
     ir_suite ` set (db_items t) \<subseteq> sr_id ` set (db_suites t) \<and>
     cr_item ` set (db_commands t) \<subseteq> ir_id ` set (db_items t) \<and>
     (\<forall>r \<in> set (db_items t). dataset_known t (ir_dataset r)) \<and>
     (\<forall>d \<in> set (db_definitions t). \<forall>s. cd_suite d = Some s \<longrightarrow> s \<in> used_ids t)"

lemma tables_okD:
  assumes "tables_ok t"
  shows "inj (db_ids t)" "distinct (map ir_id (db_items t))" "distinct (map cd_id (db_definitions t))"
    "s \<in> set (db_suites t) \<Longrightarrow> sr_id s \<in> used_ids t"
    "r \<in> set (db_items t) \<Longrightarrow> ir_id r \<in> used_ids t"
    "r \<in> set (db_items t) \<Longrightarrow> ir_suite r \<in> used_ids t"
    "c \<in> set (db_commands t) \<Longrightarrow> cr_item c \<in> used_ids t"
    "d \<in> set (db_definitions t) \<Longrightarrow> cd_suite d = Some owner \<Longrightarrow> owner \<in> used_ids t"
proof -
  note ok = assms [unfolded tables_ok_def]
  show "inj (db_ids t)" "distinct (map ir_id (db_items t))" "distinct (map cd_id (db_definitions t))"
    using ok by simp_all
  show "s \<in> set (db_suites t) \<Longrightarrow> sr_id s \<in> used_ids t" using ok by auto
  show "r \<in> set (db_items t) \<Longrightarrow> ir_id r \<in> used_ids t" using ok by auto
  show "d \<in> set (db_definitions t) \<Longrightarrow> cd_suite d = Some owner \<Longrightarrow> owner \<in> used_ids t" using ok by simp
  have "ir_suite ` set (db_items t) \<subseteq> used_ids t" "cr_item ` set (db_commands t) \<subseteq> used_ids t"
    using ok by (meson subset_trans)+
  then show "r \<in> set (db_items t) \<Longrightarrow> ir_suite r \<in> used_ids t" "c \<in> set (db_commands t) \<Longrightarrow> cr_item c \<in> used_ids t"
    by auto
qed

section \<open>The rows of an insertion\<close>

definition command_storable :: "item_command \<Rightarrow> bool" where
  "command_storable c \<longleftrightarrow> (\<exists>cfg. ic_cfg c = Some cfg \<and> py_strip (command_code (cfg_command cfg)) \<noteq> [])"

definition command_row_of :: "(rat \<Rightarrow> string) \<Rightarrow> string \<Rightarrow> string \<Rightarrow> item_command \<Rightarrow> command_record" where
  "command_row_of txt new_id item c =
     \<lparr>cr_id = new_id, cr_item = item, cr_description = text_of (ic_description c),
      cr_code = (case ic_cfg c of None \<Rightarrow> [] | Some cfg \<Rightarrow> py_strip (command_code (cfg_command cfg))),
      cr_type = (case ic_cfg c of None \<Rightarrow> [] | Some cfg \<Rightarrow> py_strip (cfg_type cfg)),
      cr_cfg = command_payload txt c, cr_order = ic_order c\<rparr>"

primrec command_rows ::
  "(rat \<Rightarrow> string) \<Rightarrow> (nat \<Rightarrow> string) \<Rightarrow> nat \<Rightarrow> string \<Rightarrow> item_command list \<Rightarrow> command_record list" where
  "command_rows txt ids n item [] = []"
| "command_rows txt ids n item (c # cs) = command_row_of txt (ids n) item c # command_rows txt ids (Suc n) item cs"

type_synonym placed = "(item_dto \<times> int \<times> item_command list) list"

primrec placed_rows ::
  "(rat \<Rightarrow> string) \<Rightarrow> (nat \<Rightarrow> string) \<Rightarrow> nat \<Rightarrow> string \<Rightarrow> placed \<Rightarrow> (item_record \<times> command_record list) list" where
  "placed_rows txt ids n suite [] = []"
| "placed_rows txt ids n suite (p # ps) =
     (build_suite_item_entity (ids n) suite (fst p) (fst (snd p)), command_rows txt ids (Suc n) (ids n) (snd (snd p)))
     # placed_rows txt ids (Suc n + length (snd (snd p))) suite ps"

definition weight :: "placed \<Rightarrow> nat" where
  "weight ps = sum_list (map (\<lambda>p. Suc (length (snd (snd p)))) ps)"

definition add_rows :: "(item_record \<times> command_record list) list \<Rightarrow> nat \<Rightarrow> suite_tables \<Rightarrow> suite_tables" where
  "add_rows R k t =
     t\<lparr>db_items := db_items t @ map fst R, db_commands := db_commands t @ concat (map snd R), db_next := db_next t + k\<rparr>"

lemma add_rows_simps [simp]:
  "db_suites (add_rows R k t) = db_suites t" "db_definitions (add_rows R k t) = db_definitions t"
  "db_payloads (add_rows R k t) = db_payloads t" "db_ids (add_rows R k t) = db_ids t" "db_tie (add_rows R k t) = db_tie t"
  "db_items (add_rows R k t) = db_items t @ map fst R" "db_next (add_rows R k t) = db_next t + k"
  "db_commands (add_rows R k t) = db_commands t @ concat (map snd R)"
  by (simp_all add: add_rows_def)

lemma add_rows_add: "add_rows S l (add_rows R k t) = add_rows (R @ S) (k + l) t"
  by (simp add: add_rows_def)

definition placed_storable :: "suite_tables \<Rightarrow> item_dto \<times> int \<times> item_command list \<Rightarrow> bool" where
  "placed_storable t p \<longleftrightarrow>
     dataset_known t (stripped_dataset (dt_dataset (fst p))) \<and> (\<forall>c \<in> set (snd (snd p)). command_storable c)"

lemma insert_command_eq:
  "command_storable c \<Longrightarrow> insert_operation txt item c t =
    (Inr (), t\<lparr>db_commands := db_commands t @ [command_row_of txt (db_ids t (db_next t)) item c], db_next := Suc (db_next t)\<rparr>)"
  by (auto simp: command_storable_def insert_operation_def new_row_id_def sbind_def slift_def
      build_suite_item_command_entity_def command_row_of_def)

lemma insert_command_storable: "insert_operation txt item c t = (Inr u, t') \<Longrightarrow> command_storable c"
  by (auto simp: command_storable_def insert_operation_def new_row_id_def sbind_def slift_def
      build_suite_item_command_entity_def split: option.splits if_splits)

lemma insert_operations_eq:
  "\<forall>c \<in> set cs. command_storable c \<Longrightarrow> insert_suite_item_operations txt item cs t =
    (Inr (), t\<lparr>db_commands := db_commands t @ command_rows txt (db_ids t) (db_next t) item cs, db_next := db_next t + length cs\<rparr>)"
proof (induction cs arbitrary: t)
  case (Cons c cs)
  then show ?case by (simp add: sbind_def insert_command_eq)
qed (simp add: spure_def)

lemma insert_operations_storable:
  "insert_suite_item_operations txt item cs t = (Inr u, t') \<Longrightarrow> \<forall>c \<in> set cs. command_storable c"
proof (induction cs arbitrary: t)
  case (Cons c cs)
  then show ?case
    by (auto simp: sbind_def split: prod.splits sum.splits dest: insert_command_storable)
qed simp

lemma insert_suite_item_eq:
  assumes "placed_storable t (d, pos, cs)"
  shows "insert_suite_item txt suite d pos cs t =
    (Inr (db_ids t (db_next t)), add_rows (placed_rows txt (db_ids t) (db_next t) suite [(d, pos, cs)]) (Suc (length cs)) t)"
  using assms
  by (auto simp: placed_storable_def insert_suite_item_def sbind_def new_row_id_def insert_item_def dataset_known_def
      insert_operations_eq spure_def add_rows_def build_suite_item_entity_def split: option.splits)

lemma insert_suite_item_storable:
  "insert_suite_item txt suite d pos cs t = (Inr i, t') \<Longrightarrow> placed_storable t (d, pos, cs)"
  by (auto simp: placed_storable_def insert_suite_item_def sbind_def new_row_id_def insert_item_def dataset_known_def
      build_suite_item_entity_def split: option.splits if_splits prod.splits sum.splits dest: insert_operations_storable)

lemma placed_storable_add [simp]: "placed_storable (add_rows R k t) p = placed_storable t p"
  by (simp add: placed_storable_def dataset_known_def split: option.split)

lemma placed_rows_append:
  "placed_rows txt ids n suite (ps @ qs) = placed_rows txt ids n suite ps @ placed_rows txt ids (n + weight ps) suite qs"
  by (induction ps arbitrary: n) (simp_all add: weight_def add.assoc)

lemma weight_append: "weight (ps @ qs) = weight ps + weight qs"
  by (simp add: weight_def)

lemma weight_Cons: "weight (p # ps) = Suc (length (snd (snd p))) + weight ps" "weight [] = 0"
  by (simp_all add: weight_def)

text \<open>Which items of a request are stored, and where.\<close>

definition chosen_hooks :: "item_dto list \<Rightarrow> string list \<Rightarrow> item_dto list" where
  "chosen_hooks hooks phases = List.map_filter (\<lambda>phase. find (\<lambda>d. dto_phase d = phase) hooks) phases"

definition place_hook :: "item_dto \<Rightarrow> item_dto \<times> int \<times> item_command list" where
  "place_hook d = (d, 0, dt_commands d)"

lemma place_hook_simps [simp]:
  "fst (place_hook d) = d" "fst (snd (place_hook d)) = 0" "snd (snd (place_hook d)) = dt_commands d"
  by (simp_all add: place_hook_def)

primrec place_tests :: "int \<Rightarrow> item_dto list \<Rightarrow> placed" where
  "place_tests position [] = []"
| "place_tests position (d # ds) = (d, position, dt_commands d) # place_tests (position + 1) ds"

definition placements :: "suite_dto \<Rightarrow> placed" where
  "placements d = map place_hook (chosen_hooks (ds_hooks d) hook_phases) @ place_tests 1 (ds_tests d)"

lemma insert_hooks_eq:
  assumes "distinct phases" and "set seen \<inter> set phases = {}"
    and "\<forall>p \<in> set (map place_hook (chosen_hooks hooks phases)). placed_storable t p"
  shows "insert_hooks txt suite hooks seen phases t =
    (Inr (), add_rows (placed_rows txt (db_ids t) (db_next t) suite (map place_hook (chosen_hooks hooks phases)))
       (weight (map place_hook (chosen_hooks hooks phases))) t)"
  using assms
proof (induction phases arbitrary: seen t)
  case Nil
  then show ?case by (simp add: chosen_hooks_def map_filter_simps spure_def add_rows_def weight_def)
next
  case (Cons phase phases)
  show ?case
  proof (cases "find (\<lambda>d. dto_phase d = phase) hooks")
    case None
    with Cons show ?thesis by (simp add: chosen_hooks_def map_filter_simps)
  next
    case (Some d)
    then have chosen: "chosen_hooks hooks (phase # phases) = d # chosen_hooks hooks phases"
      by (simp add: chosen_hooks_def map_filter_simps)
    with Cons.prems have ok: "placed_storable t (d, 0, dt_commands d)" by (simp add: place_hook_def)
    have rest: "insert_hooks txt suite hooks (phase # seen) phases u =
        (Inr (), add_rows (placed_rows txt (db_ids u) (db_next u) suite (map place_hook (chosen_hooks hooks phases)))
         (weight (map place_hook (chosen_hooks hooks phases))) u)"
      if "u = add_rows R k t" for u R k
      by (rule Cons.IH) (use Cons.prems chosen that in auto)
    show ?thesis
      using Cons.prems Some
      by (simp add: sbind_def insert_suite_item_eq [OF ok] rest chosen add_rows_add weight_Cons)
  qed
qed

lemma insert_tests_eq:
  "\<forall>p \<in> set (place_tests pos ds). placed_storable t p \<Longrightarrow> insert_tests txt suite pos ds t =
    (Inr (), add_rows (placed_rows txt (db_ids t) (db_next t) suite (place_tests pos ds)) (weight (place_tests pos ds)) t)"
proof (induction ds arbitrary: pos t)
  case (Cons d ds)
  then have ok: "placed_storable t (d, pos, dt_commands d)" by simp
  with Cons show ?case
    by (simp add: sbind_def insert_suite_item_eq add_rows_add weight_Cons)
qed (simp add: spure_def add_rows_def weight_def)

lemma insert_suite_items_eq:
  assumes "\<forall>p \<in> set (placements d). placed_storable t p"
  shows "insert_suite_items txt suite d t =
    (Inr (), add_rows (placed_rows txt (db_ids t) (db_next t) suite (placements d)) (weight (placements d)) t)"
proof -
  have "distinct hook_phases" by (simp add: hook_phases_def)
  with assms show ?thesis
    by (simp add: insert_suite_items_def sbind_def placements_def insert_hooks_eq insert_tests_eq add_rows_add
        placed_rows_append weight_append)
qed

text \<open>Conversely, an insertion that returns had rows to store.\<close>

lemma insert_hooks_storable:
  "insert_hooks txt suite hooks seen phases t = (Inr u, t') \<Longrightarrow>
    \<forall>p \<in> set (map place_hook (chosen_hooks hooks phases)). placed_storable t p"
proof (induction phases arbitrary: seen t)
  case (Cons phase phases)
  show ?case
  proof (cases "find (\<lambda>d. dto_phase d = phase) hooks")
    case None
    with Cons show ?thesis by (simp add: chosen_hooks_def map_filter_simps)
  next
    case (Some d)
    with Cons.prems have "insert_hooks txt suite hooks seen (phase # phases) t =
        sbind (insert_suite_item txt suite d 0 (dt_commands d)) (\<lambda>_. insert_hooks txt suite hooks (phase # seen) phases) t"
      by (auto simp: sraise_def split: if_splits)
    with Cons.prems obtain i t1 where one: "insert_suite_item txt suite d 0 (dt_commands d) t = (Inr i, t1)"
      and rest: "insert_hooks txt suite hooks (phase # seen) phases t1 = (Inr u, t')"
      by (auto simp: sbind_def split: prod.splits sum.splits)
    note ok = insert_suite_item_storable [OF one]
    with one have "t1 = add_rows (placed_rows txt (db_ids t) (db_next t) suite [(d, 0, dt_commands d)]) (Suc (length (dt_commands d))) t"
      by (auto simp: insert_suite_item_eq)
    with Cons.IH [OF rest] Some ok show ?thesis
      by (simp add: chosen_hooks_def map_filter_simps place_hook_def)
  qed
qed (simp add: chosen_hooks_def map_filter_simps)

lemma insert_tests_storable:
  "insert_tests txt suite pos ds t = (Inr u, t') \<Longrightarrow> \<forall>p \<in> set (place_tests pos ds). placed_storable t p"
proof (induction ds arbitrary: pos t)
  case (Cons d ds)
  then obtain i t1 where one: "insert_suite_item txt suite d pos (dt_commands d) t = (Inr i, t1)"
    and rest: "insert_tests txt suite (pos + 1) ds t1 = (Inr u, t')"
    by (auto simp: sbind_def split: prod.splits sum.splits)
  note ok = insert_suite_item_storable [OF one]
  with one have "t1 = add_rows (placed_rows txt (db_ids t) (db_next t) suite [(d, pos, dt_commands d)]) (Suc (length (dt_commands d))) t"
    by (auto simp: insert_suite_item_eq)
  with Cons.IH [OF rest] ok show ?case by simp
qed simp

lemma insert_suite_items_storable:
  assumes "insert_suite_items txt suite d t = (Inr u, t')"
  shows "\<forall>p \<in> set (placements d). placed_storable t p"
proof -
  from assms obtain t1 v where hooks: "insert_hooks txt suite (ds_hooks d) [] hook_phases t = (Inr v, t1)"
    and tests: "insert_tests txt suite 1 (ds_tests d) t1 = (Inr u, t')"
    by (auto simp: insert_suite_items_def sbind_def split: prod.splits sum.splits)
  note ok = insert_hooks_storable [OF hooks]
  have "distinct hook_phases" by (simp add: hook_phases_def)
  with hooks ok have "t1 = add_rows (placed_rows txt (db_ids t) (db_next t) suite (map place_hook (chosen_hooks (ds_hooks d) hook_phases)))
      (weight (map place_hook (chosen_hooks (ds_hooks d) hook_phases))) t"
    by (simp add: insert_hooks_eq)
  with insert_tests_storable [OF tests] ok show ?thesis by (auto simp: placements_def)
qed

section \<open>Queries after an insertion\<close>

lemma command_rows_item: "\<forall>c \<in> set (command_rows txt ids n item cs). cr_item c = item"
  by (induction cs arbitrary: n) (simp_all add: command_row_of_def)

lemma command_rows_ids: "map cr_id (command_rows txt ids n item cs) = map ids [n..<n + length cs]"
proof (induction cs arbitrary: n)
  case (Cons c cs)
  then show ?case by (simp add: command_row_of_def upt_rec [of n] Suc_le_eq)
qed simp

lemma placed_rows_pairs:
  "(r, rows) \<in> set (placed_rows txt ids n suite ps) \<Longrightarrow>
    ir_suite r = suite \<and> (\<forall>c \<in> set rows. cr_item c = ir_id r) \<and> (\<exists>k. n \<le> k \<and> k < n + weight ps \<and> ir_id r = ids k)"
proof (induction ps arbitrary: n)
  case (Cons p ps)
  consider "r = build_suite_item_entity (ids n) suite (fst p) (fst (snd p))"
      "rows = command_rows txt ids (Suc n) (ids n) (snd (snd p))"
    | "(r, rows) \<in> set (placed_rows txt ids (Suc n + length (snd (snd p))) suite ps)"
    using Cons.prems by auto
  then show ?case
  proof cases
    case 1
    with command_rows_item show ?thesis
      by (auto simp: build_suite_item_entity_def weight_Cons intro!: exI [of _ n])
  next
    case 2
    from Cons.IH [OF 2] obtain k where "ir_suite r = suite" "\<forall>c \<in> set rows. cr_item c = ir_id r"
      "Suc n + length (snd (snd p)) \<le> k" "k < Suc n + length (snd (snd p)) + weight ps" "ir_id r = ids k" by blast
    then show ?thesis by (auto simp: weight_Cons intro!: exI [of _ k])
  qed
qed simp

lemma placed_rows_item_ids:
  assumes "inj ids"
  shows "distinct (map (\<lambda>p. ir_id (fst p)) (placed_rows txt ids n suite ps))"
proof (induction ps arbitrary: n)
  case (Cons p ps)
  have "ids n \<noteq> ir_id r" if "(r, rows) \<in> set (placed_rows txt ids (Suc n + length (snd (snd p))) suite ps)" for r rows
  proof -
    from placed_rows_pairs [OF that] obtain k where "Suc n + length (snd (snd p)) \<le> k" "ir_id r = ids k" by blast
    with assms show ?thesis by (simp add: inj_eq)
  qed
  with Cons.IH show ?case by (fastforce simp: build_suite_item_entity_def)
qed simp

lemma filter_concat_own:
  assumes "distinct (map (\<lambda>p. ir_id (fst p)) R)" and "\<forall>(r, rows) \<in> set R. \<forall>c \<in> set rows. cr_item c = ir_id r"
    and "(r, rows) \<in> set R"
  shows "filter (\<lambda>c. cr_item c = ir_id r) (concat (map snd R)) = rows"
  using assms
proof (induction R)
  case (Cons p R)
  show ?case
  proof (cases "(r, rows) = p")
    case True
    then have "\<forall>c \<in> set (concat (map snd R)). cr_item c \<noteq> ir_id r"
      using Cons.prems by fastforce
    moreover have "\<forall>c \<in> set rows. cr_item c = ir_id r" using Cons.prems True by auto
    ultimately show ?thesis using True by (auto simp: filter_empty_conv filter_id_conv)
  next
    case False
    with Cons.prems have mem: "(r, rows) \<in> set R" by simp
    moreover from this have "ir_id r \<in> (\<lambda>p. ir_id (fst p)) ` set R" by force
    with Cons.prems(1) have "ir_id (fst p) \<noteq> ir_id r" by (metis distinct.simps(2) list.set_map list.simps(9))
    moreover have "\<forall>c \<in> set (snd p). cr_item c = ir_id (fst p)" using Cons.prems(2) by (cases p) auto
    ultimately show ?thesis using Cons by (simp add: filter_empty_conv)
  qed
qed simp

lemma fresh_not_used: "tables_ok t \<Longrightarrow> db_next t \<le> k \<Longrightarrow> db_ids t k \<notin> used_ids t"
  by (auto simp: tables_ok_def used_ids_def inj_eq)

lemma commands_of_placed:
  assumes "tables_ok t" and "db_next t \<le> n" and "R = placed_rows txt (db_ids t) n suite ps" and "(r, rows) \<in> set R"
    and "db_commands u = db_commands t @ concat (map snd R)"
  shows "commands_of_item u (ir_id r) = sort_key (command_row_order u) rows"
proof -
  have inj: "inj (db_ids t)" using assms(1) by (simp add: tables_ok_def)
  obtain k where k: "n \<le> k" "ir_id r = db_ids t k"
    using placed_rows_pairs [of r rows "txt" "db_ids t" n suite ps] assms(3,4) by auto
  then have "ir_id r \<notin> used_ids t" using fresh_not_used [OF assms(1), of k] assms(2) by simp
  then have "\<forall>c \<in> set (db_commands t). cr_item c \<noteq> ir_id r"
    using tables_okD(7) [OF assms(1)] by metis
  moreover have "filter (\<lambda>c. cr_item c = ir_id r) (concat (map snd R)) = rows"
  proof (rule filter_concat_own)
    show "distinct (map (\<lambda>p. ir_id (fst p)) R)" unfolding assms(3) by (rule placed_rows_item_ids [OF inj])
    show "\<forall>(r, rows) \<in> set R. \<forall>c \<in> set rows. cr_item c = ir_id r"
      unfolding assms(3) using placed_rows_pairs by blast
  qed (rule assms(4))
  ultimately show ?thesis
    by (simp add: commands_of_item_def assms(5))
qed

lemma items_of_new_suite:
  assumes "\<forall>r \<in> set (db_items t). ir_suite r \<noteq> suite" and "R = placed_rows txt ids n suite ps"
    and "db_items u = db_items t @ map fst R"
  shows "items_of_suite u suite = sort_key item_order (map fst R)"
proof -
  have "\<forall>r \<in> set (map fst R). ir_suite r = suite"
    using placed_rows_pairs assms(2) by fastforce
  with assms(1) show ?thesis by (simp add: items_of_suite_def assms(3) filter_empty_conv filter_id_conv)
qed

end
