(* ===== verification/RebuildFacts.thy ===== *)
theory RebuildFacts
  imports SuiteStoreFacts
begin

text \<open>
  The rebuild of a suite's definitions: it plans the stored commands as the validation planned those of the request,
  and the identifiers it stores are those the commands declare.
\<close>

section \<open>What the commands declare\<close>

definition declared_ids :: "command \<Rightarrow> string list" where
  "declared_ids c = map pl_id (planned_declarations c [] 0 [])"

definition cfg_ids :: "field_types \<Rightarrow> json dict \<Rightarrow> string list" where
  "cfg_ids pyd d =
     (case convert_to_config_command_type pyd d of Inl _ \<Rightarrow> [] | Inr cfg \<Rightarrow> declared_ids (cfg_command cfg))"

lemma planned_declaration_ids: "map pl_id (planned_declarations c cid n st) = declared_ids c"
  by (cases c) (simp_all add: declared_ids_def planned_declarations_def split: option.split)

lemma delete_declares_nothing: "declared_ids (DeleteVariable d) = []"
  by (simp add: declared_ids_def planned_declarations_def)

lemma plan_step_ids:
  assumes "plan_step pyd st p ci = Inr p'"
  shows "map pl_id (fst p') = map pl_id (fst p) @ cfg_ids pyd (ci_cfg ci)"
proof -
  from assms obtain cfg where cfg: "convert_to_config_command_type pyd (ci_cfg ci) = Inr cfg"
    and step: "plan_command st p ci (cfg_command cfg) = Inr p'"
    by (auto simp: plan_step_def rbind_Inr_iff)
  from step show ?thesis
  proof (cases rule: plan_command_cases)
    case (removes did d)
    then show ?thesis by (simp add: cfg_ids_def cfg delete_declares_nothing)
  next
    case (adds new)
    then show ?thesis by (simp add: cfg_ids_def cfg planned_declaration_ids)
  qed
qed

lemma plan_fold_ids:
  "foldM (plan_step pyd st) p cs = Inr p' \<Longrightarrow>
    map pl_id (fst p') = map pl_id (fst p) @ concat (map (\<lambda>ci. cfg_ids pyd (ci_cfg ci)) cs)"
proof (induction cs arbitrary: p)
  case (Cons ci cs)
  then obtain q where q: "plan_step pyd st p ci = Inr q" "foldM (plan_step pyd st) q cs = Inr p'"
    by (auto simp: rbind_Inr_iff)
  with Cons.IH [OF q(2)] plan_step_ids [OF q(1)] show ?case by simp
qed simp

lemma mset_concat_map: "mset (concat (map f xs)) = sum_mset (image_mset (\<lambda>x. mset (f x)) (mset xs))"
  by (induction xs) simp_all

lemma plan_inputs_ids:
  assumes "plan_inputs pyd st inputs initial = Inr p"
  shows "mset (map pl_id (fst p)) = mset (concat (map (\<lambda>ci. cfg_ids pyd (ci_cfg ci)) inputs))"
  using plan_fold_ids [of pyd st "([], carry_over initial)" "sort_key command_key inputs" p] assms
  by (simp add: plan_inputs_def mset_concat_map)

section \<open>Commands as inputs of a plan\<close>

definition plain_raw :: "json dict \<Rightarrow> bool" where
  "plain_raw raw \<longleftrightarrow> (\<exists>i n c. raw = [(''id'', i), (''order'', JInt n), (''cfg'', JObj c)] \<and> n \<noteq> 0)"

definition raw_input :: "json dict \<Rightarrow> command_input" where
  "raw_input raw = \<lparr>ci_id = [], ci_order = (case jget raw ''order'' of JInt n \<Rightarrow> n | _ \<Rightarrow> 0),
     ci_cfg = fields_of (jget raw ''cfg'')\<rparr>"

lemma plain_inputs:
  "list_all plain_raw raws \<Longrightarrow>
    \<exists>inputs. mapM (command_input new_id) (enumerate k raws) = Inr inputs \<and> map anon_input inputs = map raw_input raws"
proof (induction raws arbitrary: k)
  case (Cons raw raws)
  then obtain inputs where rest: "mapM (command_input new_id) (enumerate (Suc k) raws) = Inr inputs"
    "map anon_input inputs = map raw_input raws" by fastforce
  from Cons.prems obtain i n c where raw: "raw = [(''id'', i), (''order'', JInt n), (''cfg'', JObj c)]" "n \<noteq> 0"
    by (auto simp: plain_raw_def)
  have "command_input new_id (k, raw) = Inr \<lparr>ci_id = ensure_command_id (new_id k) i, ci_order = n, ci_cfg = c\<rparr>"
    using raw(2) by (simp add: raw(1) command_input_def raw_cfg_def jget_Cons json_or_def)
  moreover have "raw_input raw = anon_input \<lparr>ci_id = ensure_command_id (new_id k) i, ci_order = n, ci_cfg = c\<rparr>"
    by (simp add: raw raw_input_def jget_Cons anon_input_def)
  ultimately show ?case using rest by (simp add: raw(1) [symmetric])
qed simp

text \<open>A plan of such commands, up to their identifiers.\<close>

lemma plan_plain:
  assumes "list_all plain_raw raws"
  obtains inputs where "plan_definitions_for_commands pyd new_id raws st initial = plan_inputs pyd st inputs initial"
    and "map anon_input inputs = map raw_input raws"
  using plain_inputs [OF assms, of new_id 0] that by (auto simp: plan_definitions_for_commands_def)

lemma plan_plain_ids:
  assumes "list_all plain_raw raws" and "plan_definitions_for_commands pyd new_id raws st initial = Inr p"
  shows "mset (map pl_id (fst p)) = mset (concat (map (\<lambda>r. cfg_ids pyd (fields_of (jget r ''cfg''))) raws))"
proof -
  obtain inputs where "plan_definitions_for_commands pyd new_id raws st initial = plan_inputs pyd st inputs initial"
    and inputs: "map anon_input inputs = map raw_input raws"
    using plan_plain [OF assms(1)] by blast
  with assms(2) have plan: "plan_inputs pyd st inputs initial = Inr p" by simp
  have "map (\<lambda>ci. cfg_ids pyd (ci_cfg ci)) inputs = map (\<lambda>ci. cfg_ids pyd (ci_cfg ci)) (map anon_input inputs)"
    by simp
  also have "\<dots> = map (\<lambda>r. cfg_ids pyd (fields_of (jget r ''cfg''))) raws"
    by (simp add: inputs raw_input_def)
  finally show ?thesis using plan_inputs_ids [OF plan] by simp
qed

lemma plan_plain_same:
  assumes "list_all plain_raw raws" and "list_all plain_raw raws'" and "mset (map raw_input raws) = mset (map raw_input raws')"
    and "distinct (map (\<lambda>r. ci_order (raw_input r)) raws)" and "anon_dict initial = anon_dict initial'"
  shows "rmap anon_plan (plan_definitions_for_commands pyd new_id raws st initial) =
    rmap anon_plan (plan_definitions_for_commands pyd new_id' raws' st initial')"
proof -
  obtain xs where xs: "plan_definitions_for_commands pyd new_id raws st initial = plan_inputs pyd st xs initial"
    "map anon_input xs = map raw_input raws" using plan_plain [OF assms(1)] by blast
  obtain ys where ys: "plan_definitions_for_commands pyd new_id' raws' st initial' = plan_inputs pyd st ys initial'"
    "map anon_input ys = map raw_input raws'" using plan_plain [OF assms(2)] by blast
  have "map ci_order xs = map ci_order (map anon_input xs)" by simp
  also have "\<dots> = map (\<lambda>r. ci_order (raw_input r)) raws" by (simp add: xs(2))
  finally have "distinct (map ci_order xs)" using assms(4) by simp
  with assms(3,5) xs ys show ?thesis by (simp add: plan_inputs_same)
qed

section \<open>The commands of a request and of its rows\<close>

definition orders_ok :: "item_command list \<Rightarrow> bool" where
  "orders_ok cs \<longleftrightarrow> distinct (map ic_order cs) \<and> 0 \<notin> set (map ic_order cs)"

definition item_ids :: "field_types \<Rightarrow> (rat \<Rightarrow> string) \<Rightarrow> item_command list \<Rightarrow> string list" where
  "item_ids pyd txt cs = concat (map (\<lambda>c. cfg_ids pyd (command_payload txt c)) cs)"

definition request_input :: "(rat \<Rightarrow> string) \<Rightarrow> item_command \<Rightarrow> command_input" where
  "request_input txt c = \<lparr>ci_id = [], ci_order = ic_order c, ci_cfg = command_payload txt c\<rparr>"

lemma request_raws:
  assumes "orders_ok (dt_commands d)"
  shows "list_all plain_raw (suite_item_commands new_id (validated_item txt d))"
    and "map raw_input (suite_item_commands new_id (validated_item txt d)) = map (request_input txt) (dt_commands d)"
proof -
  have nz: "\<forall>c \<in> set (dt_commands d). ic_order c \<noteq> 0" using assms by (force simp: orders_ok_def)
  then have "\<forall>(i, sc) \<in> set (enumerate 0 (it_commands (validated_item txt d))). sc_order sc \<noteq> 0"
    by (auto simp: validated_item_def in_set_enumerate_eq)
  then show "list_all plain_raw (suite_item_commands new_id (validated_item txt d))"
    by (fastforce simp: suite_item_commands_def list_all_iff plain_raw_def)
  have go: "\<forall>c \<in> set cs. ic_order c \<noteq> 0 \<Longrightarrow> map (raw_input \<circ> (\<lambda>(i, sc).
       [(''id'', json_or (jget (sc_cfg sc) ''commandId'') (json_or (JInt (sc_order sc)) (JStr (new_id i)))),
        (''order'', JInt (if sc_order sc = 0 then int i + 1 else sc_order sc)), (''cfg'', JObj (sc_cfg sc))]))
      (enumerate k (map (\<lambda>c. \<lparr>sc_id = JNull, sc_order = ic_order c, sc_cfg = command_payload txt c\<rparr>) cs))
    = map (request_input txt) cs" for cs k
    by (induction cs arbitrary: k) (simp_all add: raw_input_def request_input_def jget_Cons)
  from go [OF nz, of 0] show "map raw_input (suite_item_commands new_id (validated_item txt d)) = map (request_input txt) (dt_commands d)"
    by (simp add: suite_item_commands_def validated_item_def)
qed

lemma stored_raws:
  assumes "commands_of_item u (ir_id r) = sort_key (command_row_order u) (command_rows txt ids n item cs)" and "orders_ok cs"
  shows "list_all plain_raw (stored_commands u r)"
    and "mset (map raw_input (stored_commands u r)) = mset (map (request_input txt) cs)"
proof -
  define rows where "rows = commands_of_item u (ir_id r)"
  define row_input where "row_input = (\<lambda>q :: command_record. \<lparr>ci_id = [], ci_order = cr_order q, ci_cfg = cr_cfg q\<rparr> :: command_input)"
  have rows_cs: "map row_input (command_rows txt ids m item ds) = map (request_input txt) ds" for m ds
    by (induction ds arbitrary: m) (simp_all add: row_input_def request_input_def command_row_of_def)
  have mset: "mset (map row_input rows) = mset (map (request_input txt) cs)"
    by (simp add: rows_def assms(1) flip: rows_cs [of n cs])
  then have "set (map row_input rows) = set (map (request_input txt) cs)" by (rule mset_eq_setD)
  then have eq: "row_input ` set rows = request_input txt ` set cs" by simp
  have nz: "\<forall>q \<in> set rows. cr_order q \<noteq> 0"
  proof
    fix q assume "q \<in> set rows"
    with eq have "row_input q \<in> request_input txt ` set cs" by blast
    then obtain c where c: "c \<in> set cs" "row_input q = request_input txt c" by blast
    then have "cr_order q = ic_order c" by (simp add: row_input_def request_input_def)
    moreover have "ic_order c \<in> ic_order ` set cs" using c(1) by (rule imageI)
    ultimately show "cr_order q \<noteq> 0" using assms(2) unfolding orders_ok_def set_map by metis
  qed
  then show "list_all plain_raw (stored_commands u r)"
    by (fastforce simp: stored_commands_def rows_def list_all_iff plain_raw_def stored_command_def or_index_def
        in_set_enumerate_eq)
  have "\<forall>q \<in> set qs. cr_order q \<noteq> 0 \<Longrightarrow> map (raw_input \<circ> stored_command) (enumerate k qs) = map row_input qs" for k qs
    by (induction qs arbitrary: k) (simp_all add: stored_command_def or_index_def raw_input_def row_input_def jget_Cons)
  with nz mset show "mset (map raw_input (stored_commands u r)) = mset (map (request_input txt) cs)"
    by (simp add: stored_commands_def rows_def)
qed

text \<open>The rebuild of an item succeeds where its validation did, with the same definitions.\<close>

lemma rebuild_item_same:
  assumes "commands_of_item u (ir_id r) = sort_key (command_row_order u) (command_rows txt ids n item (dt_commands d))"
    and "orders_ok (dt_commands d)" and "anon_dict initial = anon_dict initial'"
    and "plan_item pyd new_id st initial (validated_item txt d) = Inr p"
  obtains rows ds where "rebuild_item pyd u suite st initial' r = Inr (rows, ds)" and "anon_dict ds = anon_dict (snd p)"
proof -
  have "rmap anon_plan (plan_definitions_for_commands pyd (next_ids u) (stored_commands u r) st initial') =
    rmap anon_plan (plan_definitions_for_commands pyd new_id (suite_item_commands new_id (validated_item txt d)) st initial)"
  proof (rule plan_plain_same)
    show "list_all plain_raw (stored_commands u r)" by (rule stored_raws(1) [OF assms(1,2)])
    show "list_all plain_raw (suite_item_commands new_id (validated_item txt d))" by (rule request_raws(1) [OF assms(2)])
    show same: "mset (map raw_input (stored_commands u r)) = mset (map raw_input (suite_item_commands new_id (validated_item txt d)))"
      by (simp only: stored_raws(2) [OF assms(1,2)] request_raws(2) [OF assms(2)])
    have "mset (map ci_order (map raw_input (stored_commands u r))) = mset (map ci_order (map (request_input txt) (dt_commands d)))"
      using arg_cong [OF stored_raws(2) [OF assms(1,2)], of "image_mset ci_order"] by (simp add: multiset.map_comp)
    then have "mset (map (\<lambda>q. ci_order (raw_input q)) (stored_commands u r)) = mset (map ic_order (dt_commands d))"
      by (simp add: request_input_def comp_def)
    then show "distinct (map (\<lambda>q. ci_order (raw_input q)) (stored_commands u r))"
      using assms(2) by (metis mset_eq_imp_distinct_iff orders_ok_def)
    show "anon_dict initial' = anon_dict initial" using assms(3) by simp
  qed
  with assms(4) obtain q where "plan_definitions_for_commands pyd (next_ids u) (stored_commands u r) st initial' = Inr q"
    "anon_plan q = anon_plan p"
    by (auto simp: plan_item_def rmap_Inr_iff)
  then show ?thesis by (auto simp: rebuild_item_def anon_plan_def intro!: that)
qed

lemma rebuild_item_ids:
  assumes "commands_of_item u (ir_id r) = sort_key (command_row_order u) (command_rows txt ids n item cs)" and "orders_ok cs"
    and "rebuild_item pyd u suite st initial r = Inr x"
  shows "mset (map cd_id (fst x)) = mset (item_ids pyd txt cs)"
proof -
  from assms(3) obtain p where plan: "plan_definitions_for_commands pyd (next_ids u) (stored_commands u r) st initial = Inr p"
    and x: "fst x = map (suite_definition_entity suite (ir_id r)) (fst p)"
    by (auto simp: rebuild_item_def rbind_Inr_iff)
  have "mset (map cd_id (fst x)) = mset (map pl_id (fst p))" by (simp add: x suite_definition_entity_def comp_def)
  also have "\<dots> = mset (concat (map (\<lambda>c. cfg_ids pyd (ci_cfg c)) (map raw_input (stored_commands u r))))"
    using plan_plain_ids [OF stored_raws(1) [OF assms(1,2)] plan] by (simp add: raw_input_def comp_def)
  also have "\<dots> = mset (concat (map (\<lambda>c. cfg_ids pyd (ci_cfg c)) (map (request_input txt) cs)))"
    unfolding mset_concat_map stored_raws(2) [OF assms(1,2)] by (rule refl)
  also have "\<dots> = mset (item_ids pyd txt cs)" by (simp add: item_ids_def request_input_def comp_def)
  finally show ?thesis .
qed

text \<open>A command whose dump is converted can be stored.\<close>

lemma converted_payload_storable:
  assumes "convert_to_config_command_type pyd (command_payload txt c) = Inr cfg"
  shows "command_storable c"
proof -
  have blank: "convert_to_config_command_type pyd d = Inl (ValueError ''Unsupported command code: '')"
    if "first_non_empty d [''commandCode'', ''command_code'', ''operationType'', ''operation_type'', ''type''] = JNull" for d
  proof -
    have "normalize_command_code JNull = []" by code_simp
    then show ?thesis
      using that by (simp add: convert_to_config_command_type_def requested_code_def conversion_table_def assert_codes_def)
  qed
  show ?thesis
  proof (cases "ic_cfg c")
    case None
    then have "first_non_empty (command_payload txt c) [''commandCode'', ''command_code'', ''operationType'', ''operation_type'', ''type''] = JNull"
      by (simp add: command_payload_def first_non_empty.simps)
    with blank assms show ?thesis by simp
  next
    case (Some f)
    have "py_strip (command_code (cfg_command f)) \<noteq> []"
    proof
      assume e: "py_strip (command_code (cfg_command f)) = []"
      have "py_strip s \<noteq> []" if "s \<in> {''setVariable'', ''deleteVariable'', ''sleep'', ''readApi'', ''writeApi'', ''sendMessageQueue'',
          ''saveTable'', ''dropTable'', ''cleanTable'', ''exportDataset'', ''dropDataset'', ''cleanDataset'', ''runSuite'',
          ''receiveQueue'', ''queryDatabase''}" for s
        using that by (simp only: insert_iff empty_iff) (elim disjE; simp; code_simp)
      with e obtain a where a: "cfg_command f = Assert a" by (cases "cfg_command f") auto
      with e have "first_non_empty (command_payload txt c)
          [''commandCode'', ''command_code'', ''operationType'', ''operation_type'', ''type''] = JNull"
        by (simp add: command_payload_def Some first_non_empty.simps dump_config_def dump_assertion_def jget_Cons)
      with blank assms show False by simp
    qed
    with Some show ?thesis by (simp add: command_storable_def)
  qed
qed

end
