(* ===== verification/StoredSuites.thy ===== *)
theory StoredSuites
  imports RebuildFacts
begin

text \<open>
  A suite as its insertion leaves it in the tables: the rows of its hooks and tests, the plans of the rebuild, which
  agree with those of the validation, and the identifiers it stores.
\<close>

section \<open>A stored suite\<close>

text \<open>A request as \<open>CreateSuiteItemDto.validate_item\<close> leaves it, with one hook per phase and positive orders.\<close>

definition suite_request_ok :: "suite_tables \<Rightarrow> suite_dto \<Rightarrow> bool" where
  "suite_request_ok t d \<longleftrightarrow>
     distinct (map dt_phase (ds_hooks d)) \<and> (\<forall>h \<in> set (ds_hooks d). dt_phase h \<in> Some ` set hook_phases) \<and>
     (\<forall>x \<in> set (ds_tests d). dt_phase x = None) \<and>
     (\<forall>x \<in> set (ds_hooks d) \<union> set (ds_tests d).
        orders_ok (dt_commands x) \<and> dataset_known t (stripped_dataset (dt_dataset x)))"

definition suite_ids :: "field_types \<Rightarrow> (rat \<Rightarrow> string) \<Rightarrow> suite_dto \<Rightarrow> string list" where
  "suite_ids pyd txt d = concat (map (\<lambda>p. item_ids pyd txt (snd (snd p))) (placements d))"

definition suite_rows :: "(rat \<Rightarrow> string) \<Rightarrow> suite_tables \<Rightarrow> string \<Rightarrow> nat \<Rightarrow> suite_dto \<Rightarrow> (item_record \<times> command_record list) list" where
  "suite_rows txt t i n d = placed_rows txt (db_ids t) n i (placements d)"

definition laid_out :: "(rat \<Rightarrow> string) \<Rightarrow> suite_tables \<Rightarrow> string \<Rightarrow> suite_dto \<Rightarrow> suite_tables \<Rightarrow> bool" where
  "laid_out txt t i d u \<longleftrightarrow>
     tables_ok t \<and> i = db_ids t (db_next t) \<and>
     db_items u = db_items t @ map fst (suite_rows txt t i (Suc (db_next t)) d) \<and>
     db_commands u = db_commands t @ concat (map snd (suite_rows txt t i (Suc (db_next t)) d))"

lemma placed_rows_of:
  "p \<in> set ps \<Longrightarrow> \<exists>m. (build_suite_item_entity (ids m) suite (fst p) (fst (snd p)),
     command_rows txt ids (Suc m) (ids m) (snd (snd p))) \<in> set (placed_rows txt ids n suite ps)"
  by (induction ps arbitrary: n) auto

lemma placed_rows_from:
  "q \<in> set (placed_rows txt ids n suite ps) \<Longrightarrow> \<exists>p \<in> set ps. \<exists>m. q = (build_suite_item_entity (ids m) suite (fst p) (fst (snd p)),
     command_rows txt ids (Suc m) (ids m) (snd (snd p)))"
proof (induction ps arbitrary: n)
  case (Cons p ps)
  then show ?case by (simp only: placed_rows.simps set_simps insert_iff) blast
qed simp

lemma laid_out_items:
  assumes "laid_out txt t i d u"
  shows "items_of_suite u i = sort_key item_order (map fst (suite_rows txt t i (Suc (db_next t)) d))"
proof -
  have "tables_ok t" "i \<notin> used_ids t"
    using assms fresh_not_used [of t "db_next t"] by (auto simp: laid_out_def)
  then have "\<forall>r \<in> set (db_items t). ir_suite r \<noteq> i" using tables_okD(6) by metis
  then show ?thesis
    by (rule items_of_new_suite [OF _ suite_rows_def]) (use assms in \<open>simp add: laid_out_def\<close>)
qed

lemma laid_out_commands:
  assumes "laid_out txt t i d u" and "(r, rows) \<in> set (suite_rows txt t i (Suc (db_next t)) d)"
  shows "commands_of_item u (ir_id r) = sort_key (command_row_order u) rows"
  by (rule commands_of_placed [OF _ _ suite_rows_def assms(2)]) (use assms(1) in \<open>simp_all add: laid_out_def\<close>)

lemma laid_out_test:
  assumes "laid_out txt t i d u" and "r \<in> set (items_of_suite u i)"
  obtains p m n where "p \<in> set (placements d)" and "r = build_suite_item_entity m i (fst p) (fst (snd p))"
    and "commands_of_item u (ir_id r) = sort_key (command_row_order u) (command_rows txt (db_ids t) n m (snd (snd p)))"
proof -
  from assms(2) obtain q where q: "q \<in> set (suite_rows txt t i (Suc (db_next t)) d)" "r = fst q"
    by (auto simp: laid_out_items [OF assms(1)])
  from placed_rows_from [OF q(1) [unfolded suite_rows_def]] obtain p m where p: "p \<in> set (placements d)"
    "q = (build_suite_item_entity (db_ids t m) i (fst p) (fst (snd p)),
       command_rows txt (db_ids t) (Suc m) (db_ids t m) (snd (snd p)))" by blast
  then have "(r, command_rows txt (db_ids t) (Suc m) (db_ids t m) (snd (snd p))) \<in> set (suite_rows txt t i (Suc (db_next t)) d)"
    using q by simp
  from that [OF p(1) _ laid_out_commands [OF assms(1) this]] p(2) q(2) show ?thesis by simp
qed

text \<open>The hooks, by phase.\<close>

definition hook_at :: "suite_dto \<Rightarrow> string \<Rightarrow> item_dto option" where
  "hook_at d phase = find (\<lambda>h. dto_phase h = phase) (ds_hooks d)"

lemma find_Some_memD: "find P xs = Some a \<Longrightarrow> a \<in> set xs \<and> P a"
  by (induction xs) (auto split: if_splits)

lemma find_only:
  assumes "a \<in> set xs" and "P a" and "\<And>x. x \<in> set xs \<Longrightarrow> P x \<Longrightarrow> x = a"
  shows "find P xs = Some a"
proof (cases "find P xs")
  case None
  with assms(1,2) show ?thesis by (auto simp: find_None_iff)
next
  case (Some b)
  with find_Some_memD [OF Some] assms(3) [of b] show ?thesis by simp
qed

lemma hook_phase_forms: "p \<in> set hook_phases \<Longrightarrow> py_strip p = p \<and> py_lower p = p \<and> p \<noteq> []"
proof -
  have "\<forall>p \<in> set hook_phases. py_strip p = p \<and> py_lower p = p \<and> p \<noteq> []" by code_simp
  then show "p \<in> set hook_phases \<Longrightarrow> py_strip p = p \<and> py_lower p = p \<and> p \<noteq> []" by blast
qed

lemma request_phases:
  assumes "suite_request_ok t d" and "h \<in> set (ds_hooks d)"
  shows "dt_phase h = Some (dto_phase h)" "dto_phase h \<in> set hook_phases" "py_strip (text_of (dt_phase h)) = dto_phase h"
proof -
  from assms obtain p where "dt_phase h = Some p" "p \<in> set hook_phases" by (auto simp: suite_request_ok_def)
  with hook_phase_forms [of p] show "dt_phase h = Some (dto_phase h)" "dto_phase h \<in> set hook_phases"
    "py_strip (text_of (dt_phase h)) = dto_phase h"
    by (simp_all add: dto_phase_def text_of_def)
qed

lemma request_hooks_inj:
  assumes "suite_request_ok t d" and "h \<in> set (ds_hooks d)" and "h' \<in> set (ds_hooks d)" and "dto_phase h = dto_phase h'"
  shows "h = h'"
proof -
  have "dt_phase h = dt_phase h'" using request_phases(1) [OF assms(1)] assms(2-4) by metis
  moreover have "inj_on dt_phase (set (ds_hooks d))" using assms(1) by (simp add: suite_request_ok_def distinct_map)
  ultimately show ?thesis using assms(2,3) by (meson inj_onD)
qed

lemma hook_at_Some:
  "hook_at d p = Some h \<Longrightarrow> h \<in> set (ds_hooks d) \<and> dto_phase h = p"
  by (auto simp: hook_at_def dest: find_Some_memD)

lemma hook_at_None: "hook_at d p = None \<Longrightarrow> h \<in> set (ds_hooks d) \<Longrightarrow> dto_phase h \<noteq> p"
  by (auto simp: hook_at_def find_None_iff)

lemma hook_at_own: "suite_request_ok t d \<Longrightarrow> h \<in> set (ds_hooks d) \<Longrightarrow> hook_at d (dto_phase h) = Some h"
  unfolding hook_at_def by (rule find_only) (use request_hooks_inj in \<open>simp_all\<close>)

lemma dict_get_last:
  "dict_get (foldl (\<lambda>acc x. dict_set (key x) (v x) acc) acc xs) k =
    (case find (\<lambda>x. key x = k) (rev xs) of None \<Rightarrow> dict_get acc k | Some x \<Rightarrow> Some (v x))"
proof (induction xs rule: rev_induct)
  case (snoc x xs)
  then show ?case by simp
qed simp

lemma validated_hooks:
  assumes "suite_request_ok t d" and "p \<in> set hook_phases"
  shows "dict_get (hooks_by_phase (map (validated_item txt) (ds_hooks d))) p = map_option (validated_item txt) (hook_at d p)"
proof -
  have "find (\<lambda>h. py_strip (text_of (dt_phase h)) = p) (rev (ds_hooks d)) = hook_at d p"
  proof (cases "hook_at d p")
    case None
    then show ?thesis
      using hook_at_None request_phases(3) [OF assms(1)] by (fastforce simp: find_None_iff)
  next
    case (Some h)
    note h = hook_at_Some [OF Some]
    have "find (\<lambda>h. py_strip (text_of (dt_phase h)) = p) (rev (ds_hooks d)) = Some h"
      by (rule find_only) (use h request_phases(3) [OF assms(1)] request_hooks_inj [OF assms(1)] in auto)
    with Some show ?thesis by simp
  qed
  then show ?thesis
    unfolding hooks_by_phase_def foldl_map
    by (simp add: validated_item_def dict_get_last [of "\<lambda>h. py_strip (text_of (dt_phase h))"] option.case_eq_if map_option_case)
qed

section \<open>The rebuild of a stored suite\<close>

lemma row_phase_entity [simp]: "row_phase (build_suite_item_entity m i x pos) = py_strip (text_of (dt_phase x))"
  by (simp add: row_phase_def build_suite_item_entity_def stripped_phase_def text_of_def split: option.split)

lemma chosen_hooks_phases:
  "chosen_hooks (ds_hooks d) phases = List.map_filter (hook_at d) phases"
  by (simp add: chosen_hooks_def hook_at_def [abs_def])

lemma set_map_filter: "set (List.map_filter f xs) = {y. \<exists>x \<in> set xs. f x = Some y}"
  by (induction xs) (auto simp: map_filter_simps split: option.splits)

lemma place_tests_form: "p \<in> set (place_tests pos ds) \<Longrightarrow> fst p \<in> set ds \<and> snd (snd p) = dt_commands (fst p)"
  by (induction ds arbitrary: pos) auto

lemma placements_form:
  assumes "suite_request_ok t d" and "p \<in> set (placements d)"
  shows "snd (snd p) = dt_commands (fst p)" "orders_ok (snd (snd p))"
    "fst p \<in> set (ds_hooks d) \<and> p = place_hook (fst p) \<or> fst p \<in> set (ds_tests d)"
proof -
  have "fst p \<in> set (ds_hooks d) \<and> p = place_hook (fst p) \<or> fst p \<in> set (ds_tests d) \<and> snd (snd p) = dt_commands (fst p)"
    using assms(2) place_tests_form [of p 1 "ds_tests d"] hook_at_Some
    by (auto simp: placements_def chosen_hooks_phases set_map_filter)
  then show "snd (snd p) = dt_commands (fst p)" "orders_ok (snd (snd p))"
    "fst p \<in> set (ds_hooks d) \<and> p = place_hook (fst p) \<or> fst p \<in> set (ds_tests d)"
    using assms(1) by (auto simp: suite_request_ok_def dest: arg_cong [of _ _ "\<lambda>p. snd (snd p)"])
qed

lemma stored_hook:
  assumes "suite_request_ok t d" and "laid_out txt t i d u" and "phase \<in> set hook_phases"
  obtains (none) "hook_at d phase = None" and "dict_get (hook_rows (items_of_suite u i)) phase = None"
    | (some) h r m n where "hook_at d phase = Some h" and "dict_get (hook_rows (items_of_suite u i)) phase = Some r"
      and "commands_of_item u (ir_id r) = sort_key (command_row_order u) (command_rows txt (db_ids t) n m (dt_commands h))"
      and "orders_ok (dt_commands h)"
proof -
  define found where "found = find (\<lambda>r. row_phase r = phase) (rev (filter (\<lambda>r. row_phase r \<noteq> []) (items_of_suite u i)))"
  have get: "dict_get (hook_rows (items_of_suite u i)) phase = found"
    by (simp add: hook_rows_def dict_get_last [of row_phase "\<lambda>r. r"] found_def option.case_eq_if)
  have own: "\<exists>h. hook_at d phase = Some h \<and> fst p = h" if "p \<in> set (placements d)" "py_strip (text_of (dt_phase (fst p))) = phase" for p
  proof -
    have "fst p \<in> set (ds_hooks d)"
      using placements_form(3) [OF assms(1) that(1)] that(2) assms(1) hook_phase_forms [OF assms(3)]
      by (auto simp: suite_request_ok_def text_of_def)
    moreover from this have "dto_phase (fst p) = phase" using request_phases(3) [OF assms(1)] that(2) by simp
    ultimately show ?thesis
      using hook_at_None [of d phase "fst p"] hook_at_Some [of d phase] request_hooks_inj [OF assms(1)]
      by (cases "hook_at d phase") auto
  qed
  show ?thesis
  proof (cases found)
    case (Some r)
    then have "r \<in> set (items_of_suite u i)" and phase: "row_phase r = phase"
      by (auto simp: found_def dest!: find_Some_memD)
    from laid_out_test [OF assms(2) this(1)] obtain p m n where p: "p \<in> set (placements d)"
      "r = build_suite_item_entity m i (fst p) (fst (snd p))"
      "commands_of_item u (ir_id r) = sort_key (command_row_order u) (command_rows txt (db_ids t) n m (snd (snd p)))"
      by blast
    with own [OF p(1)] phase obtain h where "hook_at d phase = Some h" "fst p = h" by auto
    with p placements_form(1,2) [OF assms(1) p(1)] get Some show ?thesis by (auto intro: some)
  next
    case None
    have "hook_at d phase = None"
    proof (rule ccontr)
      assume "hook_at d phase \<noteq> None"
      then obtain h where h: "hook_at d phase = Some h" by auto
      then have "place_hook h \<in> set (placements d)"
        using assms(3) by (force simp: placements_def chosen_hooks_phases set_map_filter)
      from placed_rows_of [OF this, of "db_ids t" i "txt" "Suc (db_next t)"] obtain m rows where
        "(build_suite_item_entity m i h 0, rows) \<in> set (suite_rows txt t i (Suc (db_next t)) d)"
        by (auto simp: suite_rows_def)
      then have "build_suite_item_entity m i h 0 \<in> set (items_of_suite u i)"
        by (force simp: laid_out_items [OF assms(2)])
      moreover have "row_phase (build_suite_item_entity m i h 0) = phase"
        using hook_at_Some [OF h] request_phases(3) [OF assms(1)] by simp
      ultimately show False
        using None hook_phase_forms [OF assms(3)] by (auto simp: found_def find_None_iff)
    qed
    with get None show ?thesis by (auto intro: none)
  qed
qed

text \<open>Hooks and tests, one by one.\<close>

definition hook_ids :: "field_types \<Rightarrow> (rat \<Rightarrow> string) \<Rightarrow> suite_dto \<Rightarrow> string \<Rightarrow> string list" where
  "hook_ids pyd txt d phase = (case hook_at d phase of None \<Rightarrow> [] | Some h \<Rightarrow> item_ids pyd txt (dt_commands h))"

lemma rebuild_hook_same:
  assumes "suite_request_ok t d" and "laid_out txt t i d u" and "phase \<in> set hook_phases"
    and "plan_hook pyd new_id st initial otherwise (dict_get (hooks_by_phase (map (validated_item txt) (ds_hooks d))) phase) = Inr ds"
    and "anon_dict initial = anon_dict initial'" and "anon_dict otherwise = anon_dict otherwise'"
  shows "\<exists>rows ds'. rebuild_hook pyd u i st initial' otherwise' (dict_get (hook_rows (items_of_suite u i)) phase) = Inr (rows, ds') \<and>
    anon_dict ds' = anon_dict ds"
  using assms(1-3)
proof (cases rule: stored_hook)
  case none
  with assms(4,6) show ?thesis
    by (simp add: validated_hooks [OF assms(1,3)] plan_hook_def rebuild_hook_def)
next
  case (some h r m n)
  with assms(4) obtain p where p: "plan_item pyd new_id st initial (validated_item txt h) = Inr p" "ds = snd p"
    by (auto simp: validated_hooks [OF assms(1,3)] plan_hook_def rbind_Inr_iff)
  from rebuild_item_same [OF some(3,4) assms(5) p(1), of i] obtain rows ds' where
    "rebuild_item pyd u i st initial' r = Inr (rows, ds')" "anon_dict ds' = anon_dict (snd p)" by blast
  with p(2) some(2) show ?thesis by (simp add: rebuild_hook_def)
qed

lemma rebuild_hook_ids:
  assumes "suite_request_ok t d" and "laid_out txt t i d u" and "phase \<in> set hook_phases"
    and "rebuild_hook pyd u i st initial otherwise (dict_get (hook_rows (items_of_suite u i)) phase) = Inr x"
  shows "mset (map cd_id (fst x)) = mset (hook_ids pyd txt d phase)"
  using assms(1-3)
proof (cases rule: stored_hook)
  case none
  with assms(4) show ?thesis by (auto simp: rebuild_hook_def hook_ids_def)
next
  case (some h r m n)
  with assms(4) rebuild_item_ids [OF some(3,4), of pyd i st initial x] show ?thesis
    by (simp add: rebuild_hook_def hook_ids_def)
qed

lemma test_row:
  assumes "suite_request_ok t d" and "laid_out txt t i d u" and "r \<in> set (test_rows (items_of_suite u i))"
  obtains x m n where "x \<in> set (ds_tests d)" and "orders_ok (dt_commands x)"
    and "commands_of_item u (ir_id r) = sort_key (command_row_order u) (command_rows txt (db_ids t) n m (dt_commands x))"
proof -
  from assms(3) have r: "r \<in> set (items_of_suite u i)" "row_phase r = []" by (auto simp: test_rows_def)
  from laid_out_test [OF assms(2) r(1)] obtain p m n where p: "p \<in> set (placements d)"
    "r = build_suite_item_entity m i (fst p) (fst (snd p))"
    "commands_of_item u (ir_id r) = sort_key (command_row_order u) (command_rows txt (db_ids t) n m (snd (snd p)))"
    by blast
  have "fst p \<notin> set (ds_hooks d)"
    using r(2) p(2) request_phases(2,3) [OF assms(1), of "fst p"] hook_phase_forms by auto
  with placements_form [OF assms(1) p(1)] p(3) show ?thesis by (intro that) auto
qed

lemma rebuild_tests_same:
  assumes "suite_request_ok t d" and "laid_out txt t i d u" and "anon_dict initial = anon_dict initial'"
    and "\<forall>x \<in> set (ds_tests d). \<exists>p. plan_item pyd new_id ''test'' initial (validated_item txt x) = Inr p"
  shows "\<exists>rows. rebuild_tests pyd u i initial' (test_rows (items_of_suite u i)) = Inr rows"
proof -
  have each: "\<forall>r \<in> set (test_rows (items_of_suite u i)). \<exists>x. rebuild_item pyd u i ''test'' initial' r = Inr x"
  proof
    fix r assume r: "r \<in> set (test_rows (items_of_suite u i))"
    from test_row [OF assms(1,2) r] obtain x m n where x: "x \<in> set (ds_tests d)" "orders_ok (dt_commands x)"
      "commands_of_item u (ir_id r) = sort_key (command_row_order u) (command_rows txt (db_ids t) n m (dt_commands x))" by blast
    from assms(4) x(1) obtain p where "plan_item pyd new_id ''test'' initial (validated_item txt x) = Inr p" by blast
    from rebuild_item_same [OF x(3,2) assms(3) this, of i] show "\<exists>x. rebuild_item pyd u i ''test'' initial' r = Inr x" by blast
  qed
  have "\<exists>ys. mapM (rebuild_item pyd u i ''test'' initial') rs = Inr ys" if "set rs \<subseteq> set (test_rows (items_of_suite u i))" for rs
    using that
  proof (induction rs)
    case (Cons r rs)
    then obtain ys where "mapM (rebuild_item pyd u i ''test'' initial') rs = Inr ys" by auto
    moreover obtain x where "rebuild_item pyd u i ''test'' initial' r = Inr x"
      using Cons.prems bspec [OF each, of r] by auto
    ultimately show ?case by simp
  qed simp
  from this [of "test_rows (items_of_suite u i)"] show ?thesis by (auto simp: rebuild_tests_def)
qed

text \<open>The identifiers of all tests: those of their rows, item by item.\<close>

definition row_ids :: "field_types \<Rightarrow> command_record list \<Rightarrow> string list" where
  "row_ids pyd rows = concat (map (\<lambda>q. cfg_ids pyd (cr_cfg q)) rows)"

lemma command_rows_cfg_ids: "row_ids pyd (command_rows txt ids n item cs) = item_ids pyd txt cs"
  by (induction cs arbitrary: n) (simp_all add: row_ids_def item_ids_def command_row_of_def)

lemma placed_rows_cfg_ids:
  "concat (map (\<lambda>q. row_ids pyd (snd q)) (placed_rows txt ids n suite ps)) = concat (map (\<lambda>p. item_ids pyd txt (snd (snd p))) ps)"
  by (induction ps arbitrary: n) (simp_all add: command_rows_cfg_ids)

lemma mset_row_ids: "mset (row_ids pyd (sort_key f rows)) = mset (row_ids pyd rows)"
  by (simp add: row_ids_def mset_concat_map)

lemma mapM_rebuild_ids:
  assumes "mapM f rs = Inr xs" and "\<And>r x. r \<in> set rs \<Longrightarrow> f r = Inr x \<Longrightarrow> mset (map cd_id (fst x)) = mset (g r)"
  shows "mset (map cd_id (concat (map fst xs))) = mset (concat (map g rs))"
  using assms
proof (induction rs arbitrary: xs)
  case (Cons r rs)
  then obtain x ys where x: "f r = Inr x" "mapM f rs = Inr ys" "xs = x # ys" by (auto simp: rbind_Inr_iff)
  with Cons.IH [OF x(2)] Cons.prems(2) show ?case by simp
qed simp

lemma test_rows_of_request:
  assumes "suite_request_ok t d" and "laid_out txt t i d u"
  shows "\<exists>n. mset (test_rows (items_of_suite u i)) =
    mset (map fst (placed_rows txt (db_ids t) n i (place_tests 1 (ds_tests d)))) \<and>
    set (placed_rows txt (db_ids t) n i (place_tests 1 (ds_tests d))) \<subseteq> set (suite_rows txt t i (Suc (db_next t)) d)"
proof -
  define hooks where "hooks = map place_hook (chosen_hooks (ds_hooks d) hook_phases)"
  define n where "n = Suc (db_next t) + weight hooks"
  have rows: "suite_rows txt t i (Suc (db_next t)) d =
      placed_rows txt (db_ids t) (Suc (db_next t)) i hooks @ placed_rows txt (db_ids t) n i (place_tests 1 (ds_tests d))"
    by (simp add: suite_rows_def placements_def hooks_def n_def placed_rows_append)
  have "\<forall>r \<in> set (map fst (placed_rows txt (db_ids t) (Suc (db_next t)) i hooks)). row_phase r \<noteq> []"
  proof
    fix r assume "r \<in> set (map fst (placed_rows txt (db_ids t) (Suc (db_next t)) i hooks))"
    then obtain q where q: "q \<in> set (placed_rows txt (db_ids t) (Suc (db_next t)) i hooks)" "r = fst q" by auto
    from placed_rows_from [OF q(1)] obtain p m where p: "p \<in> set hooks" "row_phase (fst q) = py_strip (text_of (dt_phase (fst p)))"
      by auto
    then have "fst p \<in> set (ds_hooks d)"
      using hook_at_Some by (auto simp: hooks_def chosen_hooks_phases set_map_filter)
    then show "row_phase r \<noteq> []"
      using p(2) q(2) request_phases(2,3) [OF assms(1), of "fst p"] hook_phase_forms by auto
  qed
  moreover have "\<forall>r \<in> set (map fst (placed_rows txt (db_ids t) n i (place_tests 1 (ds_tests d)))). row_phase r = []"
  proof
    fix r assume "r \<in> set (map fst (placed_rows txt (db_ids t) n i (place_tests 1 (ds_tests d))))"
    then obtain q where q: "q \<in> set (placed_rows txt (db_ids t) n i (place_tests 1 (ds_tests d)))" "r = fst q" by auto
    from placed_rows_from [OF q(1)] obtain p m where p: "p \<in> set (place_tests 1 (ds_tests d))"
      "row_phase (fst q) = py_strip (text_of (dt_phase (fst p)))" by auto
    then show "row_phase r = []" using place_tests_form [of p 1 "ds_tests d"] assms(1) q(2) by (auto simp: suite_request_ok_def text_of_def)
  qed
  ultimately have "test_rows (map fst (suite_rows txt t i (Suc (db_next t)) d)) =
      map fst (placed_rows txt (db_ids t) n i (place_tests 1 (ds_tests d)))"
    by (simp add: rows test_rows_def filter_empty_conv filter_id_conv)
  moreover have "test_rows (items_of_suite u i) = sort_key item_order (test_rows (map fst (suite_rows txt t i (Suc (db_next t)) d)))"
    by (simp only: laid_out_items [OF assms(2)] test_rows_def filter_sort)
  ultimately show ?thesis by (auto simp: rows intro!: exI [of _ n])
qed

lemma rebuild_tests_ids:
  assumes "suite_request_ok t d" and "laid_out txt t i d u"
    and "rebuild_tests pyd u i initial (test_rows (items_of_suite u i)) = Inr rows"
  shows "mset (map cd_id rows) = mset (concat (map (\<lambda>p. item_ids pyd txt (snd (snd p))) (place_tests 1 (ds_tests d))))"
proof -
  define F where "F r = row_ids pyd (commands_of_item u (ir_id r))" for r :: item_record
  from assms(3) obtain xs where xs: "mapM (rebuild_item pyd u i ''test'' initial) (test_rows (items_of_suite u i)) = Inr xs"
    "rows = concat (map fst xs)" by (auto simp: rebuild_tests_def rbind_Inr_iff)
  have "mset (map cd_id rows) = mset (concat (map F (test_rows (items_of_suite u i))))"
    unfolding xs(2)
  proof (rule mapM_rebuild_ids [OF xs(1)])
    fix r x assume r: "r \<in> set (test_rows (items_of_suite u i))" "rebuild_item pyd u i ''test'' initial r = Inr x"
    obtain y m n where "y \<in> set (ds_tests d)" and y: "orders_ok (dt_commands y)"
      "commands_of_item u (ir_id r) = sort_key (command_row_order u) (command_rows txt (db_ids t) n m (dt_commands y))"
      by (rule test_row [OF assms(1,2) r(1)])
    from rebuild_item_ids [OF y(2,1) r(2)] show "mset (map cd_id (fst x)) = mset (F r)"
      by (simp add: F_def y(2) mset_row_ids command_rows_cfg_ids)
  qed
  also obtain n where n: "mset (test_rows (items_of_suite u i)) = mset (map fst (placed_rows txt (db_ids t) n i (place_tests 1 (ds_tests d))))"
    "set (placed_rows txt (db_ids t) n i (place_tests 1 (ds_tests d))) \<subseteq> set (suite_rows txt t i (Suc (db_next t)) d)"
    using test_rows_of_request [OF assms(1,2)] by blast
  have "mset (concat (map F (test_rows (items_of_suite u i)))) =
      mset (concat (map (\<lambda>q. F (fst q)) (placed_rows txt (db_ids t) n i (place_tests 1 (ds_tests d)))))"
    by (simp add: mset_concat_map n(1) multiset.map_comp comp_def)
  also have "\<dots> = mset (concat (map (\<lambda>q. row_ids pyd (snd q)) (placed_rows txt (db_ids t) n i (place_tests 1 (ds_tests d)))))"
  proof -
    have "mset (F (fst q)) = mset (row_ids pyd (snd q))" if "q \<in> set (placed_rows txt (db_ids t) n i (place_tests 1 (ds_tests d)))" for q
    proof -
      have "(fst q, snd q) \<in> set (suite_rows txt t i (Suc (db_next t)) d)" using subsetD [OF n(2) that] by simp
      from laid_out_commands [OF assms(2) this] show ?thesis by (simp add: F_def mset_row_ids)
    qed
    then have "image_mset (\<lambda>q. mset (F (fst q))) (mset (placed_rows txt (db_ids t) n i (place_tests 1 (ds_tests d)))) =
        image_mset (\<lambda>q. mset (row_ids pyd (snd q))) (mset (placed_rows txt (db_ids t) n i (place_tests 1 (ds_tests d))))"
      by (intro image_mset_cong) simp
    then show ?thesis by (simp add: mset_concat_map)
  qed
  finally show ?thesis by (simp only: placed_rows_cfg_ids)
qed

section \<open>The definitions of a request\<close>

lemma suite_ids_parts:
  "suite_ids pyd txt d = hook_ids pyd txt d ''before-all'' @ hook_ids pyd txt d ''before-each'' @
     hook_ids pyd txt d ''after-each'' @ hook_ids pyd txt d ''after-all'' @
     concat (map (\<lambda>p. item_ids pyd txt (snd (snd p))) (place_tests 1 (ds_tests d)))"
  by (simp add: suite_ids_def placements_def chosen_hooks_phases hook_phases_def map_filter_simps hook_ids_def
      split: option.split)

lemma suite_definitions_ids:
  assumes "suite_request_ok t d" and "laid_out txt t i d u" and "suite_definitions pyd u i = Inr out"
  shows "mset (map cd_id out) = mset (suite_ids pyd txt d)"
proof -
  define h where "h = dict_get (hook_rows (items_of_suite u i))"
  have phases: "''before-all'' \<in> set hook_phases" "''before-each'' \<in> set hook_phases" "''after-each'' \<in> set hook_phases"
    "''after-all'' \<in> set hook_phases" by (simp_all add: hook_phases_def)
  from assms(3) obtain al ea ts ae aa where
    parts: "rebuild_hook pyd u i ''beforeAll'' [] [] (h ''before-all'') = Inr al"
      "rebuild_hook pyd u i ''beforeEach'' (snd al) (snd al) (h ''before-each'') = Inr ea"
      "rebuild_tests pyd u i (snd ea) (test_rows (items_of_suite u i)) = Inr ts"
      "rebuild_hook pyd u i ''afterEach'' (snd ea) [] (h ''after-each'') = Inr ae"
      "rebuild_hook pyd u i ''afterAll'' (snd al) [] (h ''after-all'') = Inr aa"
    and out: "out = fst al @ fst ea @ ts @ fst ae @ fst aa"
    unfolding suite_definitions_def Let_def h_def [symmetric] rbind_Inr_iff by blast
  note ids = rebuild_hook_ids [OF assms(1,2), of _ pyd, folded h_def]
  show ?thesis
    using ids [OF phases(1) parts(1)] ids [OF phases(2) parts(2)] rebuild_tests_ids [OF assms(1,2) parts(3)]
      ids [OF phases(3) parts(4)] ids [OF phases(4) parts(5)]
    by (simp add: out suite_ids_parts)
qed

lemma suite_definitions_exist:
  assumes "suite_request_ok t d" and "laid_out txt t i d u"
    and "validate_suite_constant_graph pyd new_id (map (validated_item txt) (ds_hooks d)) (map (validated_item txt) (ds_tests d)) = Inr ()"
  shows "\<exists>out. suite_definitions pyd u i = Inr out"
proof -
  define h where "h = dict_get (hook_rows (items_of_suite u i))"
  define g where "g = dict_get (hooks_by_phase (map (validated_item txt) (ds_hooks d)))"
  have phases: "''before-all'' \<in> set hook_phases" "''before-each'' \<in> set hook_phases" "''after-each'' \<in> set hook_phases"
    "''after-all'' \<in> set hook_phases" by (simp_all add: hook_phases_def)
  from assms(3) obtain all each u1 u2 u3 where
    plans: "plan_hook pyd new_id ''beforeAll'' [] [] (g ''before-all'') = Inr all"
      "plan_hook pyd new_id ''beforeEach'' all all (g ''before-each'') = Inr each"
      "foldM (\<lambda>_ x. rbind (plan_item pyd new_id ''test'' each x) (\<lambda>_. Inr ())) () (map (validated_item txt) (ds_tests d)) = Inr u1"
      "plan_hook pyd new_id ''afterEach'' each [] (g ''after-each'') = Inr u2"
      "plan_hook pyd new_id ''afterAll'' all [] (g ''after-all'') = Inr u3"
    unfolding validate_suite_constant_graph_def Let_def g_def [symmetric] rbind_Inr_iff by blast
  note same = rebuild_hook_same [OF assms(1,2), of _ pyd new_id, folded h_def g_def]
  from same [OF phases(1) plans(1), of "[]" "[]"] obtain r1 all' where all:
    "rebuild_hook pyd u i ''beforeAll'' [] [] (h ''before-all'') = Inr (r1, all')" "anon_dict all = anon_dict all'" by auto
  from same [OF phases(2) plans(2) all(2) all(2)] obtain r2 each' where each:
    "rebuild_hook pyd u i ''beforeEach'' all' all' (h ''before-each'') = Inr (r2, each')" "anon_dict each = anon_dict each'" by auto
  have "\<forall>x \<in> set xs. \<exists>p. plan_item pyd new_id ''test'' each x = Inr p"
    if "foldM (\<lambda>_ x. rbind (plan_item pyd new_id ''test'' each x) (\<lambda>_. Inr ())) () xs = Inr w" for xs and w :: unit
    using that
  proof (induction xs)
    case (Cons x xs)
    then show ?case by (cases "plan_item pyd new_id ''test'' each x") auto
  qed simp
  from this [OF plans(3)] have "\<forall>x \<in> set (ds_tests d). \<exists>p. plan_item pyd new_id ''test'' each (validated_item txt x) = Inr p"
    by simp
  from rebuild_tests_same [OF assms(1,2) each(2) this] obtain r3 where
    tests: "rebuild_tests pyd u i each' (test_rows (items_of_suite u i)) = Inr r3" by blast
  from same [OF phases(3) plans(4) each(2), of "[]"] obtain r4 where after_each:
    "rebuild_hook pyd u i ''afterEach'' each' [] (h ''after-each'') = Inr r4" by auto
  from same [OF phases(4) plans(5) all(2), of "[]"] obtain r5 where after_all:
    "rebuild_hook pyd u i ''afterAll'' all' [] (h ''after-all'') = Inr r5" by auto
  show ?thesis
    by (simp add: suite_definitions_def Let_def h_def [symmetric] all each tests after_each after_all)
qed

text \<open>Validated commands have configurations.\<close>

lemma planned_payload_converts:
  assumes "list_all plain_raw raws" and "plan_definitions_for_commands pyd new_id raws st initial = Inr p" and "raw \<in> set raws"
  shows "\<exists>cfg. convert_to_config_command_type pyd (fields_of (jget raw ''cfg'')) = Inr cfg"
proof -
  obtain inputs where plan: "plan_definitions_for_commands pyd new_id raws st initial = plan_inputs pyd st inputs initial"
    and inputs: "map anon_input inputs = map raw_input raws" using plan_plain [OF assms(1)] by blast
  from assms(3) have "raw_input raw \<in> set (map anon_input inputs)" by (simp add: inputs)
  then obtain ci where ci: "ci \<in> set inputs" "raw_input raw = anon_input ci" by auto
  have step: "\<forall>ci \<in> set cs. \<exists>cfg. convert_to_config_command_type pyd (ci_cfg ci) = Inr cfg"
    if "foldM (plan_step pyd st) q cs = Inr p" for q cs
    using that
  proof (induction cs arbitrary: q)
    case (Cons c cs)
    then obtain q' where q: "plan_step pyd st q c = Inr q'" "foldM (plan_step pyd st) q' cs = Inr p" by (auto simp: rbind_Inr_iff)
    then have "\<exists>cfg. convert_to_config_command_type pyd (ci_cfg c) = Inr cfg" by (auto simp: plan_step_def rbind_Inr_iff)
    with Cons.IH [OF q(2)] show ?case by simp
  qed simp
  have "foldM (plan_step pyd st) ([], carry_over initial) (sort_key command_key inputs) = Inr p"
    using assms(2) plan by (simp add: plan_inputs_def)
  from step [OF this] ci(1) have "\<exists>cfg. convert_to_config_command_type pyd (ci_cfg ci) = Inr cfg" by simp
  moreover have "ci_cfg ci = fields_of (jget raw ''cfg'')"
    using arg_cong [OF ci(2), of ci_cfg] by (simp add: raw_input_def)
  ultimately show ?thesis by simp
qed

lemma planned_item_storable:
  assumes "orders_ok (dt_commands x)" and "plan_item pyd new_id st initial (validated_item txt x) = Inr p"
    and "c \<in> set (dt_commands x)"
  shows "command_storable c"
proof -
  have "request_input txt c \<in> set (map raw_input (suite_item_commands new_id (validated_item txt x)))"
    using assms(3) by (simp add: request_raws(2) [OF assms(1)])
  then obtain raw where raw: "raw \<in> set (suite_item_commands new_id (validated_item txt x))" "raw_input raw = request_input txt c"
    by auto
  from planned_payload_converts [OF request_raws(1) [OF assms(1)] assms(2) [unfolded plan_item_def] raw(1)]
  obtain cfg where "convert_to_config_command_type pyd (fields_of (jget raw ''cfg'')) = Inr cfg" by blast
  moreover have "fields_of (jget raw ''cfg'') = command_payload txt c"
    using arg_cong [OF raw(2), of ci_cfg] by (simp add: raw_input_def request_input_def)
  ultimately show ?thesis using converted_payload_storable by metis
qed

lemma validated_storable:
  assumes "suite_request_ok t d"
    and "validate_suite_constant_graph pyd new_id (map (validated_item txt) (ds_hooks d)) (map (validated_item txt) (ds_tests d)) = Inr ()"
    and "p \<in> set (placements d)"
  shows "placed_storable t p"
proof -
  define g where "g = dict_get (hooks_by_phase (map (validated_item txt) (ds_hooks d)))"
  from assms(2) obtain all each u1 u2 u3 where
    plans: "plan_hook pyd new_id ''beforeAll'' [] [] (g ''before-all'') = Inr all"
      "plan_hook pyd new_id ''beforeEach'' all all (g ''before-each'') = Inr each"
      "foldM (\<lambda>_ x. rbind (plan_item pyd new_id ''test'' each x) (\<lambda>_. Inr ())) () (map (validated_item txt) (ds_tests d)) = Inr u1"
      "plan_hook pyd new_id ''afterEach'' each [] (g ''after-each'') = Inr u2"
      "plan_hook pyd new_id ''afterAll'' all [] (g ''after-all'') = Inr u3"
    unfolding validate_suite_constant_graph_def Let_def g_def [symmetric] rbind_Inr_iff by blast
  have planned: "\<exists>st initial p. plan_item pyd new_id st initial (validated_item txt (fst p')) = Inr p"
    if p': "p' \<in> set (placements d)" for p'
    using placements_form(3) [OF assms(1) p']
  proof
    assume h: "fst p' \<in> set (ds_hooks d) \<and> p' = place_hook (fst p')"
    define phase where "phase = dto_phase (fst p')"
    have phase: "phase \<in> set hook_phases" using request_phases(2) [OF assms(1)] h by (simp add: phase_def)
    have "hook_at d phase = Some (fst p')"
      using hook_at_own [OF assms(1)] h by (simp add: phase_def)
    then have "g phase = Some (validated_item txt (fst p'))"
      by (simp add: g_def validated_hooks [OF assms(1) phase])
    moreover have "phase = ''before-all'' \<or> phase = ''before-each'' \<or> phase = ''after-each'' \<or> phase = ''after-all''"
      using phase by (auto simp: hook_phases_def)
    ultimately show ?thesis
      using plans(1,2,4,5) by (elim disjE) (auto simp: plan_hook_def rbind_Inr_iff)
  next
    assume x: "fst p' \<in> set (ds_tests d)"
    have "\<forall>x \<in> set xs. \<exists>p. plan_item pyd new_id ''test'' each x = Inr p"
      if "foldM (\<lambda>_ x. rbind (plan_item pyd new_id ''test'' each x) (\<lambda>_. Inr ())) () xs = Inr w" for xs and w :: unit
      using that
    proof (induction xs)
      case (Cons x xs)
      then show ?case by (cases "plan_item pyd new_id ''test'' each x") auto
    qed simp
    from this [OF plans(3)] x have "\<exists>p. plan_item pyd new_id ''test'' each (validated_item txt (fst p')) = Inr p" by simp
    then show ?thesis by blast
  qed
  from planned [OF assms(3)] obtain st initial q where q: "plan_item pyd new_id st initial (validated_item txt (fst p)) = Inr q"
    by blast
  note form = placements_form [OF assms(1,3)]
  have "\<forall>c \<in> set (snd (snd p)). command_storable c"
    using planned_item_storable [OF _ q] form(1,2) by simp
  moreover have "dataset_known t (stripped_dataset (dt_dataset (fst p)))"
    using assms(1) form(3) by (auto simp: suite_request_ok_def)
  ultimately show ?thesis by (simp add: placed_storable_def)
qed

lemma rebuild_item_owner: "rebuild_item pyd u i st initial r = Inr x \<Longrightarrow> \<forall>q \<in> set (fst x). cd_suite q = Some i \<and> cd_deleted_at q = None"
  if "\<And>inputs initial p. plan_inputs pyd st inputs initial = Inr p \<Longrightarrow> \<forall>d \<in> set (fst p). pl_deleted d = None"
  using that
  by (auto simp: rebuild_item_def rbind_Inr_iff suite_definition_entity_def plan_definitions_for_commands_def)

lemma plan_never_deleted: "plan_inputs pyd st inputs initial = Inr p \<Longrightarrow> \<forall>d \<in> set (fst p). pl_deleted d = None"
  using plan_stored.foldM_good [of "([], carry_over initial)" pyd st] by (simp add: plan_inputs_def)

lemma rebuild_hook_owner:
  "rebuild_hook pyd u i st initial otherwise h = Inr x \<Longrightarrow> \<forall>q \<in> set (fst x). cd_suite q = Some i \<and> cd_deleted_at q = None"
  using rebuild_item_owner [OF plan_never_deleted] by (auto simp: rebuild_hook_def split: option.splits)

lemma mapM_concat_all:
  assumes "mapM f rs = Inr xs" and "\<And>r x. f r = Inr x \<Longrightarrow> \<forall>q \<in> set (fst x). P q"
  shows "\<forall>q \<in> set (concat (map fst xs)). P q"
  using mapM_Inr_set [OF assms(1)] assms(2) by fastforce

lemma suite_definitions_owner:
  assumes "suite_definitions pyd u i = Inr out"
  shows "\<forall>q \<in> set out. cd_suite q = Some i \<and> cd_deleted_at q = None"
proof -
  from assms obtain al ea ts ae aa h items where
    "rebuild_hook pyd u i ''beforeAll'' [] [] (h ''before-all'') = Inr al"
    "rebuild_hook pyd u i ''beforeEach'' (snd al) (snd al) (h ''before-each'') = Inr ea"
    "rebuild_tests pyd u i (snd ea) (test_rows items) = Inr ts"
    "rebuild_hook pyd u i ''afterEach'' (snd ea) [] (h ''after-each'') = Inr ae"
    "rebuild_hook pyd u i ''afterAll'' (snd al) [] (h ''after-all'') = Inr aa"
    and out: "out = fst al @ fst ea @ ts @ fst ae @ fst aa"
    unfolding suite_definitions_def Let_def rbind_Inr_iff by blast
  note parts = this
  have "\<forall>q \<in> set ts. cd_suite q = Some i \<and> cd_deleted_at q = None"
  proof -
    from parts(3) obtain xs where xs: "mapM (rebuild_item pyd u i ''test'' (snd ea)) (test_rows items) = Inr xs"
      "ts = concat (map fst xs)" by (auto simp: rebuild_tests_def rbind_Inr_iff)
    show ?thesis unfolding xs(2)
      by (rule mapM_concat_all [OF xs(1)]) (rule rebuild_item_owner [OF plan_never_deleted])
  qed
  with rebuild_hook_owner [OF parts(1)] rebuild_hook_owner [OF parts(2)] rebuild_hook_owner [OF parts(4)]
    rebuild_hook_owner [OF parts(5)] show ?thesis by (auto simp: out)
qed

text \<open>The state \<open>insert_test_suite\<close> reaches before the rebuild.\<close>

definition inserted_suite :: "(rat \<Rightarrow> string) \<Rightarrow> suite_dto \<Rightarrow> suite_tables \<Rightarrow> suite_tables" where
  "inserted_suite txt d t =
     add_rows (suite_rows txt t (db_ids t (db_next t)) (Suc (db_next t)) d) (weight (placements d))
       (t\<lparr>db_next := Suc (db_next t), db_suites := db_suites t @ [\<lparr>sr_id = db_ids t (db_next t), sr_description = ds_description d\<rparr>]\<rparr>)"

lemma inserted_suite_simps [simp]:
  "db_definitions (inserted_suite txt d t) = db_definitions t" "db_ids (inserted_suite txt d t) = db_ids t"
  "db_payloads (inserted_suite txt d t) = db_payloads t" "db_tie (inserted_suite txt d t) = db_tie t"
  "db_next (inserted_suite txt d t) = Suc (db_next t) + weight (placements d)"
  by (simp_all add: inserted_suite_def)

lemma inserted_laid_out:
  "tables_ok t \<Longrightarrow> laid_out txt t (db_ids t (db_next t)) d (delete_definitions_of_suite i (inserted_suite txt d t))"
  by (simp add: laid_out_def inserted_suite_def delete_definitions_of_suite_def)

lemma insert_suite_items_inserted:
  assumes "\<forall>p \<in> set (placements d). placed_storable t p"
  shows "insert_suite_items txt (db_ids t (db_next t)) d
      (t\<lparr>db_next := Suc (db_next t), db_suites := db_suites t @ [\<lparr>sr_id = db_ids t (db_next t), sr_description = ds_description d\<rparr>]\<rparr>)
    = (Inr (), inserted_suite txt d t)"
proof -
  have "\<forall>p \<in> set (placements d). placed_storable
      (t\<lparr>db_next := Suc (db_next t), db_suites := db_suites t @ [\<lparr>sr_id = db_ids t (db_next t), sr_description = ds_description d\<rparr>]\<rparr>) p"
    using assms by (auto simp: placed_storable_def dataset_known_def split: option.splits)
  from insert_suite_items_eq [OF this] show ?thesis
    by (simp add: inserted_suite_def suite_rows_def)
qed

lemma insert_test_suite_rebuild:
  assumes "validate_suite pyd txt t d = Inr ()" and "\<forall>p \<in> set (placements d). placed_storable t p"
    and "i = db_ids t (db_next t)"
  shows "insert_test_suite pyd txt d t =
    (case rebuild_suite_constant_definitions pyd i (inserted_suite txt d t) of
       (Inl e, _) \<Rightarrow> (Inl e, t) | (Inr _, t') \<Rightarrow> (Inr i, t'))"
  using assms insert_suite_items_inserted [OF assms(2), of "txt"]
  by (simp add: insert_test_suite_def transaction_def sbind_def new_row_id_def spure_def split: prod.split sum.split)

end
