(* ===== verification/TablesInvariant.thy ===== *)
theory TablesInvariant
  imports StoredSuites Prelude
begin

text \<open>
  The tables stay well formed under every endpoint of test suites: keys are unique and identify rows that exist. The
  proofs follow the calls: a triple says what holds of the state after a call that returned.
\<close>

lemma after_transaction: "after P m Q \<Longrightarrow> after P (transaction m) Q"
  by (auto simp: after_def transaction_def split: prod.splits sum.splits)

section \<open>The operations on the tables\<close>

definition suite_known :: "string \<Rightarrow> suite_tables \<Rightarrow> bool" where
  "suite_known s t \<longleftrightarrow> tables_ok t \<and> s \<in> sr_id ` set (db_suites t)"

definition item_known :: "string \<Rightarrow> string \<Rightarrow> suite_tables \<Rightarrow> bool" where
  "item_known s i t \<longleftrightarrow> suite_known s t \<and> i \<in> ir_id ` set (db_items t)"

text \<open>\<open>new_row_id\<close> gives an identifier no row has.\<close>

definition unused :: "string \<Rightarrow> suite_tables \<Rightarrow> bool" where
  "unused i t \<longleftrightarrow> i \<in> used_ids t \<and> i \<notin> sr_id ` set (db_suites t) \<and> i \<notin> ir_id ` set (db_items t) \<and> i \<notin> cr_id ` set (db_commands t)"

lemma used_ids_Suc: "used_ids (t\<lparr>db_next := Suc (db_next t)\<rparr>) = insert (db_ids t (db_next t)) (used_ids t)"
  by (simp add: used_ids_def lessThan_Suc)

lemma dataset_known_next [simp]: "dataset_known (t\<lparr>db_next := n\<rparr>) = dataset_known t"
  by (rule ext) (simp add: dataset_known_def split: option.split)

lemma fresh_id_ok:
  assumes "tables_ok t" and "new_row_id t = (Inr i, t')"
  shows "tables_ok t' \<and> unused i t' \<and> db_suites t' = db_suites t \<and> db_items t' = db_items t"
proof -
  have t': "t' = t\<lparr>db_next := Suc (db_next t)\<rparr>" and i: "i = db_ids t (db_next t)"
    using assms(2) by (simp_all add: new_row_id_def)
  have "i \<notin> used_ids t" using fresh_not_used [OF assms(1), of "db_next t"] by (simp add: i)
  with assms(1) show ?thesis
    unfolding tables_ok_def unused_def by (auto simp: t' i used_ids_Suc)
qed

lemma after_fresh:
  "after (item_known s j) new_row_id (\<lambda>i t. item_known s j t \<and> unused i t)"
  "after (suite_known s) new_row_id (\<lambda>i t. suite_known s t \<and> unused i t)"
  "after tables_ok new_row_id (\<lambda>i t. tables_ok t \<and> unused i t)"
proof -
  show "after (item_known s j) new_row_id (\<lambda>i t. item_known s j t \<and> unused i t)"
    "after (suite_known s) new_row_id (\<lambda>i t. suite_known s t \<and> unused i t)"
    unfolding after_def item_known_def suite_known_def
    by (intro allI impI; elim conjE; frule (1) fresh_id_ok; simp)+
  show "after tables_ok new_row_id (\<lambda>i t. tables_ok t \<and> unused i t)"
    unfolding after_def by (intro allI impI; frule (1) fresh_id_ok; simp)
qed

lemma insert_command_row_ok:
  assumes "item_known s (cr_item r) t" and "unused (cr_id r) t"
  shows "item_known s j (t\<lparr>db_commands := db_commands t @ [r]\<rparr>) \<longleftrightarrow> j \<in> ir_id ` set (db_items t)"
  using assms unfolding item_known_def suite_known_def tables_ok_def unused_def used_ids_def
  by (auto simp: dataset_known_def split: option.splits)

lemma after_insert_command:
  "after (item_known s item) (insert_operation txt item c) (\<lambda>_. item_known s item)"
  unfolding insert_operation_def
proof (rule after_sbind [OF after_fresh(1)], rule after_sbind)
  fix i
  show "after (\<lambda>t. item_known s item t \<and> unused i t) (slift (build_suite_item_command_entity txt i item c))
      (\<lambda>r t. (item_known s item t \<and> unused i t) \<and> cr_id r = i \<and> cr_item r = item)"
    by (rule after_slift) (auto simp: build_suite_item_command_entity_def Let_def split: if_splits)
next
  fix i r
  show "after (\<lambda>t. (item_known s item t \<and> unused i t) \<and> cr_id r = i \<and> cr_item r = item)
      (\<lambda>t. (Inr (), t\<lparr>db_commands := db_commands t @ [r]\<rparr>)) (\<lambda>_. item_known s item)"
    using insert_command_row_ok [of s r] by (auto simp: after_def item_known_def)
qed

lemma after_insert_operations:
  "after (item_known s item) (insert_suite_item_operations txt item cs) (\<lambda>_. item_known s item)"
proof (induction cs)
  case Nil
  show ?case by (simp add: after_spure)
next
  case (Cons c cs)
  then show ?case by (simp add: after_sbind [OF after_insert_command])
qed

lemma after_insert_item:
  "after (\<lambda>t. suite_known (ir_suite r) t \<and> unused (ir_id r) t) (insert_item r) (\<lambda>_. item_known (ir_suite r) (ir_id r))"
  unfolding after_def
proof (intro allI impI)
  fix t u t' assume ok: "suite_known (ir_suite r) t \<and> unused (ir_id r) t" and run: "insert_item r t = (Inr u, t')"
  from run have t': "t' = t\<lparr>db_items := db_items t @ [r]\<rparr>" and known: "dataset_known t (ir_dataset r)"
    by (auto simp: insert_item_def dataset_known_def split: option.splits if_splits)
  have same: "dataset_known t' = dataset_known t" "used_ids t' = used_ids t"
    by (auto simp: t' dataset_known_def used_ids_def fun_eq_iff split: option.split)
  from ok known show "item_known (ir_suite r) (ir_id r) t'"
    unfolding item_known_def suite_known_def tables_ok_def unused_def same by (auto simp: t')
qed

lemma after_insert_suite_item:
  "after (suite_known s) (insert_suite_item txt s d pos cs) (\<lambda>i. item_known s i)"
  unfolding insert_suite_item_def
proof (rule after_sbind [OF after_fresh(2)], rule after_sbind)
  fix i
  show "after (\<lambda>t. suite_known s t \<and> unused i t) (insert_item (build_suite_item_entity i s d pos)) (\<lambda>_. item_known s i)"
    using after_insert_item [of "build_suite_item_entity i s d pos"] by (simp add: build_suite_item_entity_def)
next
  fix i u
  show "after (item_known s i) (sbind (insert_suite_item_operations txt i cs) (\<lambda>_. spure i)) (\<lambda>i. item_known s i)"
    by (rule after_sbind [OF after_insert_operations]) (simp add: after_spure)
qed

lemma after_insert_hooks:
  "after (suite_known s) (insert_hooks txt s hooks seen phases) (\<lambda>_. suite_known s)"
proof (induction phases arbitrary: seen)
  case Nil
  show ?case by (simp add: after_spure)
next
  case (Cons phase phases)
  show ?case
  proof (cases "find (\<lambda>d. dto_phase d = phase) hooks")
    case None
    with Cons show ?thesis by simp
  next
    case (Some d)
    have "after (suite_known s) (sbind (insert_suite_item txt s d 0 (dt_commands d)) (\<lambda>_. insert_hooks txt s hooks (phase # seen) phases))
        (\<lambda>_. suite_known s)"
      by (rule after_sbind [OF after_insert_suite_item]) (rule after_weaken [OF Cons.IH], auto simp: item_known_def)
    with Some show ?thesis by (auto simp: after_sraise)
  qed
qed

lemma after_insert_tests:
  "after (suite_known s) (insert_tests txt s pos ds) (\<lambda>_. suite_known s)"
proof (induction ds arbitrary: pos)
  case Nil
  show ?case by (simp add: after_spure)
next
  case (Cons d ds)
  have "after (suite_known s) (sbind (insert_suite_item txt s d pos (dt_commands d)) (\<lambda>_. insert_tests txt s (pos + 1) ds))
      (\<lambda>_. suite_known s)"
    by (rule after_sbind [OF after_insert_suite_item]) (rule after_weaken [OF Cons.IH], auto simp: item_known_def)
  then show ?case by simp
qed

lemma after_insert_suite_items: "after (suite_known s) (insert_suite_items txt s d) (\<lambda>_. suite_known s)"
  unfolding insert_suite_items_def by (rule after_sbind [OF after_insert_hooks]) (rule after_insert_tests)

text \<open>Definitions.\<close>

lemma definitions_ok:
  "tables_ok t \<Longrightarrow> distinct (map cd_id ds) \<Longrightarrow> \<forall>d \<in> set ds. \<forall>s. cd_suite d = Some s \<longrightarrow> s \<in> used_ids t \<Longrightarrow>
    tables_ok (t\<lparr>db_definitions := ds\<rparr>)"
  unfolding tables_ok_def used_ids_def by (auto simp: dataset_known_def split: option.splits)

lemma rebuild_tables:
  assumes "rebuild_suite_constant_definitions pyd s t = (Inr u, t')"
  shows "\<exists>ds. t' = t\<lparr>db_definitions := ds\<rparr> \<and> (distinct (map cd_id (db_definitions t)) \<longrightarrow> distinct (map cd_id ds)) \<and>
    (\<forall>d \<in> set ds. d \<in> set (db_definitions t) \<or> cd_suite d = Some s)"
proof -
  define kept where "kept = filter (\<lambda>d. cd_suite d \<noteq> Some s) (db_definitions t)"
  from assms obtain new where new: "suite_definitions pyd (delete_definitions_of_suite s t) s = Inr new"
    "persist_definition_entities new (delete_definitions_of_suite s t) = (Inr u, t')"
    by (auto simp: rebuild_suite_constant_definitions_def Let_def split: sum.splits)
  from new(2) have t': "t' = t\<lparr>db_definitions := kept @ new\<rparr>" and apart: "distinct (map cd_id new)"
      "set (map cd_id new) \<inter> set (map cd_id kept) = {}"
    by (auto simp: persist_definition_entities_def insert_definitions_def delete_definitions_of_suite_def kept_def
        split: if_splits)
  have "distinct (map cd_id (kept @ new))" if "distinct (map cd_id (db_definitions t))"
  proof -
    have "distinct (map cd_id kept)" unfolding kept_def by (rule distinct_map_filter [OF that])
    with apart show ?thesis by (auto simp del: set_map)
  qed
  moreover have "\<forall>d \<in> set (kept @ new). d \<in> set (db_definitions t) \<or> cd_suite d = Some s"
    using suite_definitions_owner [OF new(1)] by (auto simp: kept_def)
  ultimately show ?thesis using t' by blast
qed

lemma after_rebuild:
  "after (suite_known s) (rebuild_suite_constant_definitions pyd s) (\<lambda>_. tables_ok)"
  unfolding after_def
proof (intro allI impI)
  fix t u t' assume known: "suite_known s t" and run: "rebuild_suite_constant_definitions pyd s t = (Inr u, t')"
  from known have ok: "tables_ok t" and "s \<in> used_ids t" by (auto simp: suite_known_def dest: tables_okD(4))
  moreover from rebuild_tables [OF run] obtain ds where "t' = t\<lparr>db_definitions := ds\<rparr>"
    "distinct (map cd_id (db_definitions t)) \<longrightarrow> distinct (map cd_id ds)"
    "\<forall>d \<in> set ds. d \<in> set (db_definitions t) \<or> cd_suite d = Some s" by blast
  ultimately show "tables_ok t'"
    using tables_okD(3,8) [OF ok] by (auto intro!: definitions_ok)
qed

text \<open>Deletions.\<close>

lemma delete_commands_tables:
  "foldl (\<lambda>t r. delete_commands_of_item (ir_id r) t) t items =
    t\<lparr>db_commands := filter (\<lambda>c. cr_item c \<notin> ir_id ` set items) (db_commands t)\<rparr>"
proof (induction items arbitrary: t)
  case (Cons r items)
  have "foldl (\<lambda>t r. delete_commands_of_item (ir_id r) t) t (r # items) =
      foldl (\<lambda>t r. delete_commands_of_item (ir_id r) t) (delete_commands_of_item (ir_id r) t) items"
    by simp
  also have "\<dots> = t\<lparr>db_commands := filter (\<lambda>c. cr_item c \<notin> ir_id ` set (r # items)) (db_commands t)\<rparr>"
    unfolding Cons.IH by (auto simp: delete_commands_of_item_def intro!: filter_cong)
  finally show ?case .
qed simp

lemma delete_items_tables:
  "delete_items_of_suite s t =
    t\<lparr>db_items := filter (\<lambda>r. ir_suite r \<noteq> s) (db_items t),
      db_commands := filter (\<lambda>c. cr_item c \<notin> ir_id ` {r \<in> set (db_items t). ir_suite r = s}) (db_commands t)\<rparr>"
  by (simp add: delete_items_of_suite_def delete_commands_tables)

lemma delete_items_ok:
  assumes "tables_ok t"
  shows "tables_ok (delete_items_of_suite s t)"
proof -
  define u where "u = delete_items_of_suite s t"
  have u: "db_suites u = db_suites t" "db_items u = filter (\<lambda>r. ir_suite r \<noteq> s) (db_items t)" "db_ids u = db_ids t"
    "db_commands u = filter (\<lambda>c. cr_item c \<notin> ir_id ` {r \<in> set (db_items t). ir_suite r = s}) (db_commands t)"
    "db_definitions u = db_definitions t" "used_ids u = used_ids t" "dataset_known u = dataset_known t"
    by (auto simp: u_def delete_items_tables used_ids_def dataset_known_def fun_eq_iff split: option.split)
  have "cr_item ` set (db_commands u) \<subseteq> ir_id ` set (db_items u)"
  proof
    fix x assume "x \<in> cr_item ` set (db_commands u)"
    then obtain c where c: "c \<in> set (db_commands t)" "cr_item c \<notin> ir_id ` {r \<in> set (db_items t). ir_suite r = s}" "x = cr_item c"
      by (auto simp: u)
    moreover from this(1) assms have "cr_item c \<in> ir_id ` set (db_items t)" unfolding tables_ok_def by blast
    ultimately show "x \<in> ir_id ` set (db_items u)" by (auto simp: u)
  qed
  moreover note assms
  ultimately show "tables_ok u"
    unfolding tables_ok_def u(1,3,5-7) by (auto simp: u(2,4) distinct_map_filter)
qed

lemma delete_commands_ok: "item_known s i t \<Longrightarrow> item_known s i (delete_commands_of_item i t)"
  unfolding item_known_def suite_known_def tables_ok_def delete_commands_of_item_def used_ids_def
  by (auto simp: dataset_known_def distinct_map_filter split: option.splits)

text \<open>Updates of an item.\<close>

lemma update_item_ok:
  assumes "item_known s i t" and "\<And>r. ir_id (f r) = ir_id r \<and> ir_suite (f r) = ir_suite r"
    and "\<And>r. r \<in> set (db_items t) \<Longrightarrow> ir_id r = i \<Longrightarrow> dataset_known t (ir_dataset (f r))"
  shows "item_known s i (update_item i f t)"
proof -
  define u where "u = update_item i f t"
  have ids: "map ir_id (db_items u) = map ir_id (db_items t)" "map ir_suite (db_items u) = map ir_suite (db_items t)"
    using assms(2) by (auto simp: u_def update_item_def)
  have same: "used_ids u = used_ids t" "dataset_known u = dataset_known t" "db_suites u = db_suites t" "db_commands u = db_commands t"
    "db_ids u = db_ids t" "db_definitions u = db_definitions t"
    by (auto simp: u_def update_item_def used_ids_def dataset_known_def fun_eq_iff split: option.split)
  have "ir_id ` set (db_items u) = ir_id ` set (db_items t)" "ir_suite ` set (db_items u) = ir_suite ` set (db_items t)"
    using ids by (metis set_map)+
  moreover have "\<forall>r \<in> set (db_items u). dataset_known t (ir_dataset r)"
    using assms(1,3) by (auto simp: u_def update_item_def item_known_def suite_known_def tables_ok_def)
  moreover note assms(1)
  ultimately show "item_known s i u"
    unfolding item_known_def suite_known_def tables_ok_def same ids by simp
qed

lemma get_item_mem: "get_item t i = Some r \<Longrightarrow> r \<in> set (db_items t) \<and> ir_id r = i"
  by (auto simp: get_item_def dest: find_Some_memD)

lemma get_item_unique: "tables_ok t \<Longrightarrow> get_item t i = Some r \<Longrightarrow> q \<in> set (db_items t) \<Longrightarrow> ir_id q = i \<Longrightarrow> q = r"
  using get_item_mem [of t i r] tables_okD(2) [of t] by (auto simp: distinct_map dest: inj_onD)

lemma after_flush:
  assumes "\<And>r. ir_id (f r) = ir_id r \<and> ir_suite (f r) = ir_suite r"
  shows "after (item_known s i) (flush_item i f) (\<lambda>_. item_known s i)"
  unfolding after_def
proof (intro allI impI)
  fix t u t' assume ok: "item_known s i t" and run: "flush_item i f t = (Inr u, t')"
  then have tok: "tables_ok t" by (simp add: item_known_def suite_known_def)
  show "item_known s i t'"
  proof (cases "get_item t i")
    case (Some r)
    from run Some have t': "t' = update_item i f t" and "dataset_known t (ir_dataset (f r))"
      by (auto simp: flush_item_def dataset_known_def split: option.splits if_splits)
    then show ?thesis
      unfolding t' using ok assms get_item_unique [OF tok Some] by (intro update_item_ok) auto
  qed (use ok run in \<open>simp add: flush_item_def\<close>)
qed

section \<open>The endpoints\<close>

text \<open>Every request: a call that raises is rolled back, one that returns leaves well-formed tables.\<close>

lemma suite_known_get: "tables_ok t \<Longrightarrow> get_suite t s = Some r \<Longrightarrow> suite_known s t"
  by (auto simp: suite_known_def get_suite_def dest!: find_Some_memD)

lemma after_insert_test_suite: "after tables_ok (insert_test_suite pyd txt d) (\<lambda>_. tables_ok)"
  unfolding insert_test_suite_def
proof (rule after_transaction, rule after_sbind [where R = "\<lambda>_. tables_ok"])
  show "after tables_ok (\<lambda>t. (validate_suite pyd txt t d, t)) (\<lambda>_. tables_ok)" by (simp add: after_def)
next
  fix u :: unit
  have add: "after (\<lambda>t. tables_ok t \<and> unused i t)
      (\<lambda>t. (Inr (), t\<lparr>db_suites := db_suites t @ [\<lparr>sr_id = i, sr_description = ds_description d\<rparr>]\<rparr>)) (\<lambda>_. suite_known i)" for i
    unfolding after_def suite_known_def tables_ok_def unused_def used_ids_def
    by (auto simp: dataset_known_def split: option.splits)
  have rest: "after (suite_known i) (sbind (insert_suite_items txt i d)
      (\<lambda>_. sbind (rebuild_suite_constant_definitions pyd i) (\<lambda>_. spure i))) (\<lambda>_. tables_ok)" for i
  proof (rule after_sbind [OF after_insert_suite_items], rule after_sbind [where R = "\<lambda>_. tables_ok"])
    show "after (suite_known i) (rebuild_suite_constant_definitions pyd i) (\<lambda>_. tables_ok)"
      by (rule after_rebuild)
  qed (simp add: after_spure)
  show "after tables_ok (sbind new_row_id (\<lambda>i.
      sbind (\<lambda>t. (Inr (), t\<lparr>db_suites := db_suites t @ [\<lparr>sr_id = i, sr_description = ds_description d\<rparr>]\<rparr>)) (\<lambda>_.
      sbind (insert_suite_items txt i d) (\<lambda>_. sbind (rebuild_suite_constant_definitions pyd i) (\<lambda>_. spure i))))) (\<lambda>_. tables_ok)"
    by (rule after_sbind [OF after_fresh(3)], rule after_sbind [OF add], rule rest)
qed

lemma after_read: "after P (read_item i) (\<lambda>_. P)"
  by (auto simp: after_def read_item_def split: option.splits)

lemma after_existing: "after tables_ok (existing_item s i) (\<lambda>r t. item_known s i t \<and> ir_id r = i)"
  unfolding after_def
proof (intro allI impI)
  fix t r t' assume ok: "tables_ok t" and run: "existing_item s i t = (Inr r, t')"
  then have r: "get_item t i = Some r" "ir_suite r = s" "t' = t" by (auto simp: existing_item_def split: option.splits if_splits)
  from get_item_mem [OF r(1)] have mem: "r \<in> set (db_items t)" "ir_id r = i" by simp_all
  with ok r(2) have "s \<in> sr_id ` set (db_suites t)" unfolding tables_ok_def by blast
  with ok mem r(3) show "item_known s i t' \<and> ir_id r = i" by (auto simp: item_known_def suite_known_def)
qed

lemma after_delete_commands: "after (item_known s i) (\<lambda>t. (Inr (), delete_commands_of_item i t)) (\<lambda>_. item_known s i)"
  by (auto simp: after_def delete_commands_ok)

lemma after_item_rebuild: "after (item_known s i) (rebuild_suite_constant_definitions pyd s) (\<lambda>_. tables_ok)"
  by (rule after_weaken [OF after_rebuild]) (simp_all add: item_known_def suite_known_def)

lemma after_add_test: "after tables_ok (add_test_to_suite pyd txt s d) (\<lambda>_. tables_ok)"
  unfolding add_test_to_suite_def
proof (rule after_sbind [where R = "\<lambda>_. tables_ok"], rule after_slift, assumption, rule after_transaction,
    rule after_sbind [where R = "\<lambda>_. suite_known s"])
  show "after tables_ok (\<lambda>t. if get_suite t s = None then (Inl (no_suite s), t) else (Inr (next_position t s), t)) (\<lambda>_. suite_known s)"
    using suite_known_get by (auto simp: after_def split: if_splits)
next
  fix cs position
  show "after (suite_known s) (sbind (insert_suite_item txt s d position cs) (\<lambda>i.
      sbind (rebuild_suite_constant_definitions pyd s) (\<lambda>_. read_item i))) (\<lambda>_. tables_ok)"
    by (rule after_sbind [OF after_insert_suite_item], rule after_sbind [OF after_item_rebuild], rule after_read)
qed

lemma update_payload_keys: "ir_id (apply_update_payload d r) = ir_id r \<and> ir_suite (apply_update_payload d r) = ir_suite r"
  by (simp add: apply_update_payload_def)

lemma after_update_test: "after tables_ok (update_test_in_suite pyd txt s i d) (\<lambda>_. tables_ok)"
  unfolding update_test_in_suite_def
proof (rule after_sbind [where R = "\<lambda>_. tables_ok"], rule after_slift, assumption, rule after_transaction,
    rule after_sbind [where R = "\<lambda>_. item_known s i"])
  show "after tables_ok (existing_item s i) (\<lambda>_. item_known s i)"
    by (rule after_weaken [OF after_existing]) simp_all
next
  fix cs r
  show "after (item_known s i) (sbind (flush_item i (apply_update_payload d)) (\<lambda>_.
      sbind (\<lambda>t. (Inr (), delete_commands_of_item i t)) (\<lambda>_.
      sbind (insert_suite_item_operations txt i cs) (\<lambda>_.
      sbind (rebuild_suite_constant_definitions pyd s) (\<lambda>_. read_item i))))) (\<lambda>_. tables_ok)"
    by (rule after_sbind [OF after_flush [OF update_payload_keys]], rule after_sbind [OF after_delete_commands],
        rule after_sbind [OF after_insert_operations], rule after_sbind [OF after_item_rebuild], rule after_read)
qed

lemma after_convert: "after tables_ok (convert_test_to_custom pyd txt s i) (\<lambda>_. tables_ok)"
  unfolding convert_test_to_custom_def
proof (rule after_transaction, rule after_sbind [OF after_existing], rule after_sbind [where R = "\<lambda>_. tables_ok"])
  fix r
  show "after (\<lambda>t. item_known s i t \<and> ir_id r = i) (convert_item pyd txt s r) (\<lambda>_. tables_ok)"
  proof (cases "ir_id r = i")
    case True
    have change: "after (item_known s i) (sbind (\<lambda>t. (Inr (), delete_commands_of_item i t)) (\<lambda>_.
        sbind (insert_suite_item_operations txt i cs) (\<lambda>_.
        sbind (flush_item i (\<lambda>q. q\<lparr>ir_template_kind := ''custom'', ir_template_config := update_option None (ir_template_config q)\<rparr>)) (\<lambda>_.
          rebuild_suite_constant_definitions pyd s)))) (\<lambda>_. tables_ok)" for cs
      by (rule after_sbind [OF after_delete_commands], rule after_sbind [OF after_insert_operations],
          rule after_sbind [OF after_flush], simp, rule after_item_rebuild)
    have none: "after (item_known s i) (spure ()) (\<lambda>_. tables_ok)"
      by (rule after_spure) (simp add: item_known_def suite_known_def)
    show ?thesis
      unfolding convert_item_def Let_def True
      by (rule after_weaken [where P = "item_known s i" and Q = "\<lambda>_. tables_ok"])
        (auto intro!: none after_sbind [where R = "\<lambda>_. item_known s i", OF after_slift change])
  next
    case False
    then show ?thesis by (simp add: after_def)
  qed
next
  show "after tables_ok (read_item i) (\<lambda>_. tables_ok)" for u :: unit by (rule after_read)
qed

lemma after_delete_suite: "after tables_ok (delete_test_suite s) (\<lambda>_. tables_ok)"
  unfolding after_def
proof (intro allI impI)
  fix t u t' assume ok: "tables_ok t" and run: "delete_test_suite s t = (Inr u, t')"
  define v where "v = delete_items_of_suite s t"
  from run have t': "t' = v\<lparr>db_suites := filter (\<lambda>r. sr_id r \<noteq> s) (db_suites v)\<rparr>"
    by (auto simp: delete_test_suite_def v_def Let_def split: option.splits)
  have v: "tables_ok v" "\<forall>r \<in> set (db_items v). ir_suite r \<noteq> s"
    using delete_items_ok [OF ok] by (auto simp: v_def delete_items_tables)
  have "ir_suite ` set (db_items v) \<subseteq> sr_id ` {r \<in> set (db_suites v). sr_id r \<noteq> s}"
  proof
    fix x assume "x \<in> ir_suite ` set (db_items v)"
    with v have "x \<in> sr_id ` set (db_suites v)" "x \<noteq> s" unfolding tables_ok_def by auto
    then show "x \<in> sr_id ` {r \<in> set (db_suites v). sr_id r \<noteq> s}" by auto
  qed
  with v(1) show "tables_ok t'"
    unfolding t' tables_ok_def used_ids_def by (auto simp: dataset_known_def distinct_map_filter split: option.splits)
qed

lemma after_update_suite: "after tables_ok (update_test_suite pyd txt s d) (\<lambda>_. tables_ok)"
  unfolding update_test_suite_def
proof (rule after_transaction, rule after_sbind [where R = "\<lambda>_. tables_ok"])
  show "after tables_ok (\<lambda>t. (validate_suite pyd txt t d, t)) (\<lambda>_. tables_ok)" by (simp add: after_def)
next
  fix u :: unit
  define f where "f r = (if sr_id r = s then r\<lparr>sr_description := ds_description d\<rparr> else r)" for r :: suite_record
  have ids: "map sr_id (map f rs) = map sr_id rs" for rs by (simp add: f_def)
  have change: "after tables_ok (\<lambda>t. if get_suite t s = None then (Inl (no_suite s), t)
      else (Inr (), t\<lparr>db_suites := map f (db_suites t)\<rparr>)) (\<lambda>_. suite_known s)"
    unfolding after_def
  proof (intro allI impI)
    fix t x t' assume ok: "tables_ok t" and run: "(if get_suite t s = None then (Inl (no_suite s), t)
      else (Inr (), t\<lparr>db_suites := map f (db_suites t)\<rparr>)) = (Inr x, t')"
    then have t': "t' = t\<lparr>db_suites := map f (db_suites t)\<rparr>" and "get_suite t s \<noteq> None" by (auto split: if_splits)
    with suite_known_get [OF ok] have known: "suite_known s t" by auto
    have "db_suites t' = map f (db_suites t)" by (simp add: t')
    then have keys: "map sr_id (db_suites t') = map sr_id (db_suites t)" by (simp only: ids)
    then have rows: "sr_id ` set (db_suites t') = sr_id ` set (db_suites t)" by (metis set_map)
    have same: "used_ids t' = used_ids t" "dataset_known t' = dataset_known t" "db_items t' = db_items t" "db_commands t' = db_commands t"
      "db_definitions t' = db_definitions t" "db_ids t' = db_ids t"
      by (auto simp: t' used_ids_def dataset_known_def fun_eq_iff split: option.split)
    from known show "suite_known s t'" unfolding suite_known_def tables_ok_def same keys rows by simp
  qed
  have delete: "after (suite_known s) (\<lambda>t. (Inr (), delete_items_of_suite s t)) (\<lambda>_. suite_known s)"
    using delete_items_ok by (auto simp: after_def suite_known_def delete_items_tables)
  have rebuild: "after (suite_known s) (rebuild_suite_constant_definitions pyd s) (\<lambda>_. tables_ok)"
    by (rule after_rebuild)
  show "after tables_ok (sbind (\<lambda>t. if get_suite t s = None then (Inl (no_suite s), t)
      else (Inr (), t\<lparr>db_suites := map (\<lambda>r. if sr_id r = s then r\<lparr>sr_description := ds_description d\<rparr> else r) (db_suites t)\<rparr>)) (\<lambda>_.
      sbind (\<lambda>t. (Inr (), delete_items_of_suite s t)) (\<lambda>_.
      sbind (insert_suite_items txt s d) (\<lambda>_. rebuild_suite_constant_definitions pyd s)))) (\<lambda>_. tables_ok)"
    by (rule after_sbind [OF change [unfolded f_def]], rule after_sbind [OF delete], rule after_sbind [OF after_insert_suite_items],
        rule rebuild)
qed

end
