(* ===== verification/ConfigDumpProps.thy ===== *)
theory ConfigDumpProps
  imports ConfigDump CommandProps
begin

text \<open>
  What the API stores of a converted command is converted back to the same command.
\<close>

section \<open>Fields of a dump\<close>

definition nonblank :: "string option \<Rightarrow> bool" where
  "nonblank t \<longleftrightarrow> (\<forall>s. t = Some s \<longrightarrow> py_strip s \<noteq> [])"

lemma nonblank_simps [simp]: "nonblank None" "nonblank (Some s) \<longleftrightarrow> py_strip s \<noteq> []"
  by (simp_all add: nonblank_def)

fun not_blank :: "json \<Rightarrow> bool" where
  "not_blank (JStr s) = (py_strip s \<noteq> [])"
| "not_blank _ = True"

lemma first_non_empty_not_blank [simp]: "not_blank (first_non_empty d ks)"
  by (induction ks) (auto simp: first_non_empty.simps split: json.splits)

lemma first_non_empty_JStr: "first_non_empty d ks = JStr s \<Longrightarrow> py_strip s \<noteq> []"
  using first_non_empty_not_blank [of d ks] by simp

lemma first_non_empty_step:
  "not_blank (jget d k) \<Longrightarrow>
    first_non_empty d (k # ks) = (if jget d k = JNull then first_non_empty d ks else jget d k)"
  by (cases "jget d k") (auto simp: first_non_empty.simps)

lemma dump_objects [simp]:
  "not_blank (dump_input_ref r)" "dump_input_ref r \<noteq> JNull" "is_obj (dump_input_ref r)"
  "not_blank (dump_node n)" "dump_node n \<noteq> JNull"
  by (cases r; simp)+ (cases n; simp add: node_fields_def)+

lemma not_blank_dump [simp]:
  "not_blank (dump_text t) \<longleftrightarrow> nonblank t" "not_blank (dump_texts ts)"
  "not_blank (dump_ref_option ro)" "not_blank (dump_result rc)" "not_blank (dump_params ps)" "not_blank (dump_auth a)"
  "not_blank (dump_number txt q)" "not_blank (dump_template mt)"
  by (simp_all add: dump_text_def dump_texts_def dump_ref_option_def dump_result_def dump_params_def dump_auth_def
      dump_number_def dump_template_def split: option.splits http_auth.splits)

lemma dump_null [simp]:
  "dump_text t = JNull \<longleftrightarrow> t = None" "dump_texts ts = JNull \<longleftrightarrow> ts = None"
  "dump_ref_option ro = JNull \<longleftrightarrow> ro = None" "dump_result rc = JNull \<longleftrightarrow> rc = None" "dump_params ps = JNull \<longleftrightarrow> ps = None"
  "dump_auth a = JNull \<longleftrightarrow> a = None" "dump_template mt = JNull \<longleftrightarrow> mt = None" "dump_runtime_ref d \<noteq> JNull"
  by (simp_all add: dump_text_def dump_texts_def dump_ref_option_def dump_result_def dump_params_def dump_auth_def
      dump_template_def dump_runtime_ref_def split: option.splits http_auth.splits)

lemma dump_text_simps: "dump_text None = JNull" "dump_text (Some s) = JStr s"
  by (simp_all add: dump_text_def)

lemma optional_dump_text [simp]: "field_types_ok pyd \<Longrightarrow> optional (as_str pyd) (dump_text t) = Inr t"
  by (cases t) (simp_all add: dump_text_def)

lemma opt_text_nonblank: "field_types_ok pyd \<Longrightarrow> opt_text pyd d ks = Inr t \<Longrightarrow> nonblank t"
  by (auto simp: opt_text_def optional_def nonblank_def rbind_Inr_iff split: if_splits
      dest!: as_str_InrD dest: first_non_empty_JStr)

lemma text_nonblank: "field_types_ok pyd \<Longrightarrow> as_str pyd (first_non_empty d ks) = Inr s \<Longrightarrow> py_strip s \<noteq> []"
  by (auto dest!: as_str_InrD dest: first_non_empty_JStr)

text \<open>References and result constants.\<close>

lemma input_ref_back [simp]:
  assumes "field_types_ok pyd" and "input_ref_ok r"
  shows "input_ref_field pyd (dump_input_ref r) = Inr (Some r)"
  using assms by (cases r) (simp_all add: input_ref_field_def validate_input_ref_def jget_Cons dict_get_Cons
      text_of_def strip_kinds trimmed_simps dump_text_def)

lemma input_ref_option_back [simp]:
  assumes "field_types_ok pyd" and "\<And>r. ro = Some r \<Longrightarrow> input_ref_ok r"
  shows "input_ref_field pyd (dump_ref_option ro) = Inr ro"
  using assms by (cases ro) (simp_all add: dump_ref_option_def, simp add: input_ref_field_def)

definition result_ok :: "result_constant option \<Rightarrow> bool" where
  "result_ok r \<longleftrightarrow> (\<forall>c. r = Some c \<longrightarrow> trimmed (rc_definition c) \<and> trimmed (rc_name c) \<and>
     rc_value_type c \<in> set constant_source_types)"

lemma value_type_strip: "\<forall>t \<in> set constant_source_types. py_strip t = t \<and> t \<noteq> ''raw''"
  by code_simp

lemma normalize_value_type_ok:
  "normalize_value_type v True = Inr t \<Longrightarrow> t \<in> set constant_source_types"
  by (auto simp: normalize_value_type_def Let_def split: if_splits)

lemma normalize_value_type_back:
  "t \<in> set constant_source_types \<Longrightarrow> normalize_value_type t True = Inr t"
  using value_type_strip by (auto simp: normalize_value_type_def Let_def)

lemma validate_result_constant_ok: "validate_result_constant d n v = Inr c \<Longrightarrow> result_ok (Some c)"
  by (auto simp: validate_result_constant_def result_ok_def result_simps dest!: normalize_value_type_ok)

lemma result_constant_field_ok:
  assumes "result_constant_field pyd j = Inr r"
  shows "result_ok r"
proof (cases r)
  case None
  then show ?thesis by (simp add: result_ok_def)
next
  case (Some c)
  with assms obtain d n v where "validate_result_constant d n v = Inr c"
    by (auto simp: result_constant_field_def optional_def rbind_Inr_iff split: if_splits option.splits) blast+
  with Some show ?thesis by (simp add: validate_result_constant_ok)
qed

lemma result_field_ok: "result_field pyd d = Inr r \<Longrightarrow> result_ok r"
  by (auto simp: result_field_def dest: result_constant_field_ok)

lemma result_back [simp]:
  assumes "field_types_ok pyd" and "result_ok r"
  shows "result_constant_field pyd (dump_result r) = Inr r"
proof (cases r)
  case None
  then show ?thesis by (simp add: dump_result_def result_constant_field_def)
next
  case (Some c)
  with assms show ?thesis
    by (simp add: dump_result_def result_constant_field_def dict_get_Cons validate_result_constant_def
        result_ok_def normalize_value_type_back trimmed_simps require_def)
qed

text \<open>Lists of texts.\<close>

lemma token_JStr: "token (JStr s) = py_strip s"
  by (simp add: token_def)

definition texts_ok :: "string list option \<Rightarrow> bool" where
  "texts_ok ts \<longleftrightarrow> (\<forall>xs. ts = Some xs \<longrightarrow> xs \<noteq> [] \<and> (\<forall>x \<in> set xs. trimmed x))"

lemma normalize_compare_keys_trimmed: "k \<in> set (normalize_compare_keys j) \<Longrightarrow> trimmed k"
  by (cases j) (auto simp: token_def trimmed_def Let_def)

lemma keys_option_ok:
  "texts_ok (if normalize_compare_keys j = [] then None else Some (normalize_compare_keys j))"
  by (auto simp: texts_ok_def dest: normalize_compare_keys_trimmed)

lemma dump_texts_back:
  assumes "texts_ok ts"
  shows "(if normalize_compare_keys (dump_texts ts) = [] then None else Some (normalize_compare_keys (dump_texts ts))) = ts"
proof (cases ts)
  case (Some xs)
  with assms have "filter (\<lambda>k. k \<noteq> []) (map token (map JStr xs)) = xs"
    by (induction xs arbitrary: ts) (auto simp: texts_ok_def token_JStr trimmed_simps)
  with Some assms show ?thesis by (simp add: dump_texts_def texts_ok_def)
qed (simp add: dump_texts_def)

section \<open>Values of HTTP commands\<close>

lemma dump_node_coerced:
  assumes "field_types_ok pyd" and "http_node_ok n"
  shows "coerce_to_http_node pyd (dump_node n) = Inr n"
proof (cases n)
  case (RuntimeNode d p)
  with assms show ?thesis by (cases p) (simp_all add: coerce_to_http_node_def node_fields_def dump_text_def http_node_eval)
next
  case (BuiltInNode r)
  with assms have "r = ''now'' \<or> r = ''today''" by (simp add: supported_runtime_functions_def)
  with assms BuiltInNode show ?thesis
    by (elim disjE) (simp_all add: coerce_to_http_node_def node_fields_def http_node_eval)
qed (use assms in \<open>simp_all add: coerce_to_http_node_def node_fields_def http_node_eval\<close>)

lemma dump_node_is_node: "http_node_ok n \<Longrightarrow> is_http_node (dump_node n) \<and> (\<exists>d. dump_node n = JObj d)"
  by (cases n) (simp_all add: node_fields_def http_node_eval http_node_kinds_def)

lemma dump_node_in_tree:
  assumes "field_types_ok pyd" and "http_node_ok n"
  shows "coerce_http_tree pyd (dump_node n) = Inr (HNode n)"
proof -
  obtain d where d: "dump_node n = JObj d" "is_http_node (JObj d)"
    using dump_node_is_node [OF assms(2)] by auto
  moreover have "http_node_of pyd d = Inr n"
    using dump_node_coerced [OF assms] d by (simp add: coerce_to_http_node_def)
  ultimately show ?thesis by simp
qed

lemma dump_tree_not_kind: "token (dump_tree t) \<notin> set http_node_kinds"
proof (cases t)
  case (HNode n)
  then show ?thesis using token_obj_not_kind by (cases n) (simp_all add: node_fields_def)
qed (use token_obj_not_kind token_list_not_kind in \<open>simp_all add: token_def http_node_kinds_def\<close>)

lemma dump_object_no_node: "\<not> is_http_node (JObj (map (\<lambda>kv. (fst kv, dump_tree (snd kv))) d))"
proof -
  have "token (jget (map (\<lambda>kv. (fst kv, dump_tree (snd kv))) d) k) \<notin> set http_node_kinds" for k
    by (induction d) (use dump_tree_not_kind in \<open>auto simp: jget_Cons token_def http_node_kinds_def\<close>)
  then show ?thesis by (simp add: is_http_node_def)
qed

lemma dump_tree_coerced:
  assumes "field_types_ok pyd"
  shows "http_tree_ok t \<Longrightarrow> coerce_http_tree pyd (dump_tree t) = Inr t"
proof (induction t)
  case (HNode n)
  with assms show ?case by (simp add: dump_node_in_tree)
next
  case (HObj d)
  have "mapM (\<lambda>kv. rbind (coerce_http_tree pyd (snd kv)) (\<lambda>t. Inr (fst kv, t)))
      (map (\<lambda>kv. (fst kv, dump_tree (snd kv))) d) = Inr d"
  proof (rule mapM_all_Inr)
    fix kv assume "kv \<in> set d"
    moreover from this and HObj.prems have "http_tree_ok (snd kv)" by simp
    ultimately have "coerce_http_tree pyd (dump_tree (snd kv)) = Inr (snd kv)"
      using HObj.IH [of kv "snd kv"] by (simp add: snds.intros)
    then show "rbind (coerce_http_tree pyd (snd (fst kv, dump_tree (snd kv))))
      (\<lambda>t. Inr (fst (fst kv, dump_tree (snd kv)), t)) = Inr kv" by simp
  qed
  then show ?case by (simp add: dump_object_no_node)
next
  case (HList ts)
  have "mapM (coerce_http_tree pyd) (map dump_tree ts) = Inr ts"
    by (rule mapM_all_Inr) (use HList in auto)
  then show ?case by simp
qed simp

text \<open>Parameters and authorisation.\<close>

definition params_ok :: "(string \<times> http_node) list option \<Rightarrow> bool" where
  "params_ok ps \<longleftrightarrow> (\<forall>d. ps = Some d \<longrightarrow> d \<noteq> [] \<and> (\<forall>kv \<in> set d. http_node_ok (snd kv)))"

lemma mapM_nodes_ok:
  "mapM (\<lambda>x. rbind (coerce_to_http_node pyd (g x)) (\<lambda>n. Inr (k x, n))) xs = Inr d \<Longrightarrow>
    \<forall>kv \<in> set d. http_node_ok (snd kv)"
proof (induction xs arbitrary: d)
  case (Cons x xs)
  then obtain n d' where "coerce_to_http_node pyd (g x) = Inr n" "d = (k x, n) # d'"
    "mapM (\<lambda>x. rbind (coerce_to_http_node pyd (g x)) (\<lambda>n. Inr (k x, n))) xs = Inr d'"
    by (auto simp: rbind_Inr_iff)
  with Cons.IH show ?case by (simp add: coerce_to_http_node_ok)
qed simp

lemma coerce_http_kv_params_ok: "coerce_http_kv_params pyd v = Inr ps \<Longrightarrow> params_ok ps"
  by (cases v) (auto simp: coerce_http_kv_params_def params_ok_def rbind_Inr_iff dest!: mapM_nodes_ok split: if_splits)

lemma dump_params_back:
  assumes "field_types_ok pyd" and "params_ok ps"
  shows "coerce_http_kv_params pyd (dump_params ps) = Inr ps"
proof (cases ps)
  case (Some d)
  have "mapM (\<lambda>kv. rbind (coerce_to_http_node pyd (snd kv)) (\<lambda>n. Inr (fst kv, n)))
      (map (\<lambda>kv. (fst kv, dump_node (snd kv))) d) = Inr d"
    by (rule mapM_all_Inr) (use Some assms in \<open>auto simp: params_ok_def dump_node_coerced\<close>)
  with Some assms show ?thesis by (simp add: dump_params_def coerce_http_kv_params_def params_ok_def)
qed (simp add: dump_params_def coerce_http_kv_params_def)

fun auth_ok :: "http_auth option \<Rightarrow> bool" where
  "auth_ok (Some (Basic u p)) = (http_node_ok u \<and> http_node_ok p)"
| "auth_ok (Some (Bearer t)) = http_node_ok t"
| "auth_ok (Some (ApiKey u k e)) = (http_node_ok u \<and> http_node_ok k \<and> http_node_ok e)"
| "auth_ok (Some (OAuth2 u i s)) = (http_node_ok u \<and> http_node_ok i \<and> http_node_ok s)"
| "auth_ok _ = True"

lemma coerce_authorization_ok:
  assumes "coerce_authorization pyd v = Inr a"
  shows "auth_ok a"
proof (cases v)
  case (JObj d)
  with assms show ?thesis
    by (auto simp: coerce_authorization_def Let_def rbind_Inr_iff split: if_splits dest: coerce_to_http_node_ok)
qed (use assms in \<open>auto simp: coerce_authorization_def\<close>)

lemma dump_auth_back:
  assumes "field_types_ok pyd" and "auth_ok a"
  shows "coerce_authorization pyd (dump_auth a) = Inr a"
  using assms
  by (cases a rule: auth_ok.cases)
    (simp_all add: coerce_authorization_def dump_auth_def jget_Cons token_def strip_kinds dump_node_coerced Let_def,
      simp_all add: py_strip_def py_lstrip_def is_space_def py_spaces_def)

section \<open>Each branch of the conversion\<close>

lemma first_non_empty_dump:
  "not_blank (jget d k) \<Longrightarrow> list_all (\<lambda>k'. jget d k' = JNull) ks \<Longrightarrow> first_non_empty d (k # ks) = jget d k"
proof -
  assume k: "not_blank (jget d k)" and ks: "list_all (\<lambda>k'. jget d k' = JNull) ks"
  from ks have "first_non_empty d ks = JNull" by (induction ks) (auto simp: first_non_empty.simps)
  with k show ?thesis by (simp add: first_non_empty_step)
qed

lemma first_non_empty_found:
  "not_blank (jget d k) \<Longrightarrow> jget d k \<noteq> JNull \<Longrightarrow> first_non_empty d (k # ks) = jget d k"
  by (simp add: first_non_empty_step)

lemmas dump_eval = first_non_empty_dump jget_Cons dump_config_def first_non_empty.simps(1) opt_text_def
  result_field_def source_ref_field_def json_or_def

lemma target_path_form: "command_target_path v = Some t \<Longrightarrow> starts_with ''$.'' t \<and> py_strip t = t"
proof -
  assume t: "command_target_path v = Some t"
  define w where "w = py_strip v"
  have w: "w \<noteq> []" "\<not> is_space (last w)"
    using t py_strip_ident_iff [of w] by (auto simp: w_def command_target_path_def)
  have tail: "py_strip (''$.'' @ u) = ''$.'' @ u" if "\<exists>zs. w = zs @ u" for u
  proof (cases "u = []")
    case False
    with that have "last (''$.'' @ u) = last w" by auto
    with w show ?thesis by (simp add: py_strip_ident_iff is_space_def py_spaces_def)
  qed (simp add: py_strip_ident_iff is_space_def py_spaces_def)
  have "w = (take n w @ takeWhile (\<lambda>c. c = CHR ''.'') (drop n w)) @ lstrip_char (CHR ''.'') (drop n w)" for n
    by (simp add: lstrip_char_def)
  then have "\<exists>zs. w = zs @ lstrip_char (CHR ''.'') (drop n w)" for n by blast
  moreover have "py_strip w = w" by (simp add: w_def)
  moreover from tail have "\<And>u. \<exists>zs. w = zs @ u \<Longrightarrow> py_strip (CHR ''$'' # CHR ''.'' # u) = CHR ''$'' # CHR ''.'' # u"
    by simp
  moreover have "\<exists>zs. w = zs @ lstrip_char (CHR ''.'') w"
    using \<open>\<And>n. \<exists>zs. w = zs @ lstrip_char (CHR ''.'') (drop n w)\<close> [of 0] by simp
  ultimately show ?thesis
    using t by (auto simp: command_target_path_def w_def [symmetric] Let_def starts_with_def split: if_splits)
qed

lemma target_path_back: "command_target_path v = Some t \<Longrightarrow> command_target_path t = Some t"
  using target_path_form [of v t] by (auto simp: command_target_path_def [of t] Let_def starts_with_def)

definition target_ok :: "string option \<Rightarrow> bool" where
  "target_ok t \<longleftrightarrow> nonblank t \<and> (case t of None \<Rightarrow> None | Some v \<Rightarrow> command_target_path v) = t"

lemma target_ok:
  assumes "t = (case raw of None \<Rightarrow> None | Some v \<Rightarrow> command_target_path v)"
  shows "target_ok t"
proof -
  consider "t = None" | u v where "t = Some u" "command_target_path v = Some u"
    using assms by (cases t; cases raw) auto
  then show ?thesis
  proof cases
    case 2
    with target_path_form [of v u] target_path_back [of v u] show ?thesis
      by (auto simp: target_ok_def starts_with_def)
  qed (simp add: target_ok_def)
qed

lemma validate_receive_queue_Inr:
  "validate_receive_queue q = Inr r \<Longrightarrow>
    trimmed (rv_queue r) \<and> 0 < rv_max_messages r \<and> 0 \<le> rv_retry r \<and> 0 \<le> rv_wait r \<and> rv_result r = rv_result q \<and>
    target_ok (rv_target r)"
  by (auto simp: validate_receive_queue_def result_simps Let_def intro!: target_ok [OF refl])

lemma receive_back:
  assumes "field_types_ok pyd" and "convert_receive_queue pyd d = Inr c"
    and "\<And>r. c = ReceiveQueue r \<Longrightarrow> rv_retry r \<noteq> 0 \<and> rv_wait r \<noteq> 0"
  shows "convert_receive_queue pyd (dump_config txt \<lparr>cfg_type = ty, cfg_command = c\<rparr>) = Inr c"
proof -
  from assms(2) obtain r q where c: "c = ReceiveQueue r" and v: "validate_receive_queue q = Inr r"
    and rc: "result_field pyd d = Inr (rv_result q)"
    unfolding convert_receive_queue_def rbind_Inr_iff by force
  note r = validate_receive_queue_Inr [OF v]
  from assms(3) [OF c] have nz: "rv_retry r \<noteq> 0" "rv_wait r \<noteq> 0" by simp_all
  show ?thesis
    using assms(1) r nz result_field_ok [OF rc]
    by (simp add: c convert_receive_queue_def dump_eval validate_receive_queue_def require_def trimmed_simps
        target_ok_def field_types_ok_def)
qed

lemma convert_named_Inr:
  assumes "field_types_ok pyd" and "convert_named pyd d ks f = Inr c"
  obtains t where "c = f t" and "py_strip t \<noteq> []"
  using assms text_nonblank [OF assms(1), of d ks] by (auto simp: convert_named_def rbind_Inr_iff)

lemma named_back:
  assumes "field_types_ok pyd" and "convert_named pyd d ks f = Inr c" and "f \<in> {DropTable, CleanTable}"
  shows "convert_named pyd (dump_config txt \<lparr>cfg_type = ty, cfg_command = c\<rparr>) [''table_name'', ''tableName''] f = Inr c"
proof (rule convert_named_Inr [OF assms(1,2)])
  fix t assume "c = f t" "py_strip t \<noteq> []"
  then show ?thesis using assms(1,3) by (auto simp: convert_named_def dump_eval)
qed

lemma dataset_named_back:
  assumes "field_types_ok pyd" and "convert_named pyd d ks f = Inr c" and "f \<in> {DropDataset, CleanDataset}"
  shows "convert_named pyd (dump_config txt \<lparr>cfg_type = ty, cfg_command = c\<rparr>) [''dataset_id'', ''datasetId''] f = Inr c"
proof (rule convert_named_Inr [OF assms(1,2)])
  fix t assume "c = f t" "py_strip t \<noteq> []"
  then show ?thesis using assms(1,3) by (auto simp: convert_named_def dump_eval)
qed

lemma sleep_back:
  "convert_sleep pyd d = Inr c \<Longrightarrow> convert_sleep pyd (dump_config txt \<lparr>cfg_type = ty, cfg_command = c\<rparr>) = Inr c"
  by (auto simp: convert_sleep_def rbind_Inr_iff dump_eval)

lemma delete_back:
  assumes "field_types_ok pyd" and "convert_delete_variable pyd d = Inr c"
  shows "convert_delete_variable pyd (dump_config txt \<lparr>cfg_type = ty, cfg_command = c\<rparr>) = Inr c"
proof -
  from assms(2) obtain i where "c = DeleteVariable i" "runtime_ref_field pyd (first_non_empty d
      [''targetRuntimeValueRef'', ''target_runtime_value_ref'', ''targetConstantRef'', ''target_constant_ref'']) = Inr (Some i)"
    by (auto simp: convert_delete_variable_def rbind_Inr_iff split: option.splits)
  moreover from this(2) have "trimmed i" by (rule runtime_ref_field_ok)
  ultimately show ?thesis using assms(1)
    by (simp add: convert_delete_variable_def dump_eval dump_runtime_ref_def runtime_ref_field_def dict_get_Cons
        validate_definition_id_def trimmed_simps)
qed

lemma query_back:
  assumes "field_types_ok pyd" and "convert_query_database pyd d = Inr c"
  shows "convert_query_database pyd (dump_config txt \<lparr>cfg_type = ty, cfg_command = c\<rparr>) = Inr c"
proof -
  from assms(2) obtain cn q t0 rc where "result_field pyd d = Inr rc" "validate_query cn q t0 rc = Inr c"
    unfolding convert_query_database_def rbind_Inr_iff by blast
  then have "\<exists>a b t. c = QueryDatabase a b t rc \<and> trimmed a \<and> trimmed b \<and> target_ok t \<and> result_ok rc"
    by (auto simp: validate_query_def result_simps intro!: target_ok [OF refl] dest: result_field_ok)
  with assms(1) show ?thesis
    by (auto simp: convert_query_database_def dump_eval validate_query_def require_def trimmed_simps target_ok_def)
qed

lemma save_back:
  assumes "field_types_ok pyd" and "convert_save_table pyd d = Inr c"
  shows "convert_save_table pyd (dump_config txt \<lparr>cfg_type = ty, cfg_command = c\<rparr>) = Inr c"
proof -
  from assms(2) obtain t r rc i where c: "c = SaveTable t i rc" "result_field pyd d = Inr rc"
    "as_str pyd (first_non_empty d [''table_name'', ''tableName'']) = Inr t" "source_ref_field pyd d = Inr (Some i)"
    unfolding convert_save_table_def rbind_Inr_iff by (auto simp: need_input_Inr)
  then have "py_strip t \<noteq> []" "input_ref_ok i" "result_ok rc"
    using assms(1) by (auto dest: text_nonblank result_field_ok source_ref_field_ok)
  with assms(1) show ?thesis
    by (simp add: c convert_save_table_def dump_eval need_input_def)
qed

lemma run_suite_back:
  assumes "field_types_ok pyd" and "convert_run_suite pyd d = Inr c"
  shows "convert_run_suite pyd (dump_config txt \<lparr>cfg_type = ty, cfg_command = c\<rparr>) = Inr c"
proof -
  have ok: "command_ok c" using assms(2) by (rule convert_run_suite_ok [THEN conjunct1])
  from assms(2) obtain s refs rc where c: "c = RunSuite s refs rc" and rc: "result_field pyd d = Inr rc"
    unfolding convert_run_suite_def rbind_Inr_iff by blast
  have refs: "mapM (\<lambda>j. rbind (as_dict j) (\<lambda>r. rbind (required (as_str pyd) r ''definitionId'') validate_definition_id))
      (map dump_runtime_ref refs) = Inr refs"
    by (rule mapM_all_Inr)
      (use assms(1) ok c in \<open>auto simp: dump_runtime_ref_def required_def dict_get_Cons validate_definition_id_def trimmed_simps\<close>)
  show ?thesis
    using assms(1) ok result_field_ok [OF rc] refs
    by (cases "refs = []") (simp_all add: c convert_run_suite_def dump_eval first_non_empty_found require_def trimmed_simps)
qed

lemma validate_template_constant_back:
  assumes "validate_template_constant n k v = Inr c"
  shows "validate_template_constant (tc_name c) (tc_kind c) (tc_value c) = Inr c"
proof -
  have kinds: "py_lower (py_strip k) = k \<and> k \<noteq> ''str'' \<and> k \<noteq> ''booleano''" if "k \<in> set template_constant_kinds" for k
    using that by (simp add: template_constant_kinds_def) (elim disjE; hypsubst; code_simp)
  have funs: "py_lower (py_strip f) = f" if "f \<in> set supported_runtime_functions" for f
    using that by (simp add: supported_runtime_functions_def) (elim disjE; hypsubst; code_simp)
  define k' where "k' = (let k0 = py_lower (py_strip k) in
    if k0 = ''str'' then ''string'' else if k0 = ''booleano'' then ''boolean'' else k0)"
  have "tc_name c = py_strip n \<and> py_strip n \<noteq> [] \<and> tc_kind c = k' \<and> k' \<in> set template_constant_kinds \<and>
    tc_value c = (if k' = ''variable'' then JStr (token v) else if k' = ''function'' then JStr (py_lower (token v)) else v) \<and>
    (k' = ''variable'' \<longrightarrow> token v \<noteq> []) \<and> (k' = ''function'' \<longrightarrow> py_lower (token v) \<in> set supported_runtime_functions)"
    using assms unfolding validate_template_constant_def Let_def k'_def [unfolded Let_def, symmetric]
    by (auto split: if_splits)
  then show ?thesis
    using kinds [of k'] funs [of "py_lower (token v)"]
    by (cases c) (auto simp: validate_template_constant_def Let_def token_def)
qed

lemma foldl_add_token_ident:
  "distinct (acc @ xs) \<Longrightarrow> \<forall>x \<in> set xs. trimmed x \<Longrightarrow> foldl add_token acc xs = acc @ xs"
  by (induction xs arbitrary: acc) (auto simp: add_token_def trimmed_simps)

lemma distinct_tokens_ident: "distinct xs \<Longrightarrow> \<forall>x \<in> set xs. trimmed x \<Longrightarrow> distinct_tokens xs = xs"
  using foldl_add_token_ident [of "[]" xs] by (simp add: distinct_tokens_def)

lemma message_template_back:
  assumes "field_types_ok pyd" and "message_template_field pyd j = Inr t"
  shows "message_template_field pyd (dump_template t) = Inr t"
proof (cases t)
  case None
  then show ?thesis by (simp add: dump_template_def message_template_field_def)
next
  case (Some m)
  with assms(2) obtain d fe fs cs where
    cs: "list_field (template_constant_of pyd) d ''constants'' = Inr cs" and v: "validate_message_template fe fs cs = Inr m"
    by (auto simp: message_template_field_def optional_def rbind_Inr_iff split: if_splits)
  have each: "template_constant_of pyd (JObj [(''name'', JStr (tc_name c)), (''kind'', JStr (tc_kind c)), (''value'', tc_value c)])
      = Inr c" if "c \<in> set cs" for c
  proof -
    from that cs obtain x where "template_constant_of pyd x = Inr c"
      by (auto simp: list_field_def rbind_Inr_iff split: option.splits dest: mapM_Inr_set)
    then obtain n k v where "validate_template_constant n k v = Inr c"
      by (auto simp: template_constant_of_def rbind_Inr_iff)
    from validate_template_constant_back [OF this] assms(1) show ?thesis
      by (simp add: template_constant_of_def required_def dict_get_Cons jget_Cons)
  qed
  from v have m: "mt_constants m = cs" "mt_fields m = distinct_tokens fs" "distinct_tokens fs \<noteq> [] \<or> cs \<noteq> []"
    "mt_for_each m = (let f = py_strip (text_of fe) in if f = [] then None else Some f)"
    by (auto simp: validate_message_template_def Let_def split: if_splits)
  have "mapM (template_constant_of pyd) (map (\<lambda>c. JObj [(''name'', JStr (tc_name c)), (''kind'', JStr (tc_kind c)),
      (''value'', tc_value c)]) cs) = Inr cs"
    by (rule mapM_all_Inr) (rule each)
  moreover have "mapM (as_str pyd) (map JStr (mt_fields m)) = Inr (mt_fields m)"
    by (rule mapM_all_Inr) (simp add: assms(1))
  moreover have "distinct_tokens (mt_fields m) = mt_fields m"
    using distinct_tokens_ok [of fs] m(2) distinct_tokens_ident by simp
  ultimately show ?thesis
    using assms(1) m
    by (cases m) (auto simp: Some dump_template_def message_template_field_def list_field_def dict_get_Cons jget_Cons
        validate_message_template_def Let_def text_of_def)
qed

lemma send_back:
  assumes "field_types_ok pyd" and "convert_send_message pyd d = Inr c"
  shows "convert_send_message pyd (dump_config txt \<lparr>cfg_type = ty, cfg_command = c\<rparr>) = Inr c"
proof -
  from assms(2) obtain q i mt rc where c: "c = SendMessageQueue \<lparr>sm_queue = q, sm_input = i, sm_template = mt, sm_result = rc\<rparr>"
    "result_field pyd d = Inr rc" "as_str pyd (first_non_empty d [''queue_id'', ''queueId'']) = Inr q"
    "source_ref_field pyd d = Inr (Some i)"
    "message_template_field pyd (first_non_empty d [''message_template'', ''messageTemplate'']) = Inr mt"
    unfolding convert_send_message_def rbind_Inr_iff by (auto simp: need_input_Inr)
  then have "py_strip q \<noteq> []" "input_ref_ok i" "result_ok rc" "message_template_field pyd (dump_template mt) = Inr mt"
    using assms(1) by (auto dest: text_nonblank result_field_ok source_ref_field_ok message_template_back)
  with assms(1) show ?thesis
    by (simp add: c convert_send_message_def dump_eval need_input_def kv_field_def)
qed

lemma export_back:
  assumes "field_types_ok pyd" and "convert_export_dataset pyd d = Inr c"
  shows "convert_export_dataset pyd (dump_config txt \<lparr>cfg_type = ty, cfg_command = c\<rparr>) = Inr c"
proof -
  have "opt_text pyd d (ks @ js) = Inr None \<Longrightarrow> opt_text pyd d js = Inr t \<Longrightarrow> t = None" for ks js t
    by (induction ks) (auto simp: opt_text_def optional_def first_non_empty.simps(2) rbind_Inr_iff
        split: if_splits json.splits)
  note fallback = this [of "[''connection_id'', ''connectionId'']" "[''dataset_id'', ''datasetId'']"]
  from assms(2) obtain cn tb i mode ds di rc m j where
    "c = ExportDataset \<lparr>ed_connection = cn, ed_table = tb, ed_input = i, ed_mode = mode,
       ed_keys = (if normalize_compare_keys j = [] then None else Some (normalize_compare_keys j)),
       ed_description = ds, ed_dataset = di, ed_result = rc\<rparr>"
    "opt_text pyd d [''connection_id'', ''connectionId'', ''dataset_id'', ''datasetId''] = Inr cn"
    "opt_text pyd d [''table_name'', ''tableName''] = Inr tb" "source_ref_field pyd d = Inr (Some i)"
    "opt_text pyd d [''dataset_description'', ''datasetDescription''] = Inr ds"
    "opt_text pyd d [''dataset_id'', ''datasetId''] = Inr di" "result_field pyd d = Inr rc" "validate_mode m = Inr mode"
    unfolding convert_export_dataset_def rbind_Inr_iff by (auto simp: need_input_Inr Let_def)
  moreover define e where "e = \<lparr>ed_connection = cn, ed_table = tb, ed_input = i, ed_mode = mode,
       ed_keys = (if normalize_compare_keys j = [] then None else Some (normalize_compare_keys j)),
       ed_description = ds, ed_dataset = di, ed_result = rc\<rparr>"
  ultimately have c: "c = ExportDataset e"
    and parts: "opt_text pyd d [''connection_id'', ''connectionId'', ''dataset_id'', ''datasetId''] = Inr (ed_connection e)"
      "opt_text pyd d [''table_name'', ''tableName''] = Inr (ed_table e)" "source_ref_field pyd d = Inr (Some (ed_input e))"
      "opt_text pyd d [''dataset_description'', ''datasetDescription''] = Inr (ed_description e)"
      "opt_text pyd d [''dataset_id'', ''datasetId''] = Inr (ed_dataset e)" "result_field pyd d = Inr (ed_result e)"
      "validate_mode m = Inr (ed_mode e)"
      "ed_keys e = (if normalize_compare_keys j = [] then None else Some (normalize_compare_keys j))"
    by simp_all
  have mode: "validate_mode (ed_mode e) = Inr (ed_mode e)" "py_strip (ed_mode e) \<noteq> []"
  proof -
    have "\<forall>t \<in> {''append'', ''drop-create'', ''insert-update''}. validate_mode t = Inr t \<and> py_strip t \<noteq> []"
      by (simp only: ball_simps simp_thms) (intro conjI; code_simp)
    moreover have "ed_mode e \<in> {''append'', ''drop-create'', ''insert-update''}"
      using parts(7) by (auto simp: validate_mode_def Let_def split: if_splits)
    ultimately show "validate_mode (ed_mode e) = Inr (ed_mode e)" "py_strip (ed_mode e) \<noteq> []" by blast+
  qed
  have ok: "nonblank (ed_connection e)" "nonblank (ed_table e)" "nonblank (ed_description e)" "nonblank (ed_dataset e)"
    "input_ref_ok (ed_input e)" "result_ok (ed_result e)" "ed_connection e = None \<Longrightarrow> ed_dataset e = None"
    using parts assms(1) fallback by (auto dest: opt_text_nonblank result_field_ok source_ref_field_ok)
  have keys: "(if normalize_compare_keys (dump_texts (ed_keys e)) = [] then None
      else Some (normalize_compare_keys (dump_texts (ed_keys e)))) = ed_keys e"
    by (rule dump_texts_back) (simp add: parts(8) keys_option_ok)
  have truthy: "json_truthy (JStr (ed_mode e))" using mode(2) by auto
  show ?thesis
    using assms(1) ok mode keys truthy
    by (cases "ed_connection e")
      (simp_all add: c convert_export_dataset_def dump_eval need_input_def first_non_empty_found dump_text_simps)
qed

lemma set_variable_back:
  assumes "field_types_ok pyd" and "convert_set_variable pyd d = Inr c"
  shows "convert_set_variable pyd (dump_config txt \<lparr>cfg_type = ty, cfg_command = c\<rparr>) = Inr c"
proof -
  from assms(2) obtain r s where c: "c = SetVariable s" and v: "validate_set_variable r = Inr s"
    and raw: "not_blank (raw_value r)" "raw_data r = JNull"
    unfolding convert_set_variable_def rbind_Inr_iff by (auto intro: that)
  have ok: "set_variable_ok s" using v by (rule validate_set_variable_ok)
  have target: "target_ok (sv_target s)" and val: "not_blank (sv_value s)"
    using v raw by (auto simp: validate_set_variable_def result_simps Let_def split: if_splits intro!: target_ok [OF refl])
  have types: "py_strip t = t \<and> t \<noteq> ''raw'' \<and> t \<noteq> []" if "t \<in> set [''value'', ''json'', ''jsonArray'', ''dataset'', ''function'']" for t
    using that by (simp only: set_simps insert_iff empty_iff) (elim disjE; simp; code_simp)
  have scopes: "py_strip t = t \<and> t \<noteq> [] \<and> dict_get context_aliases t = None" if "t \<in> set constant_contexts" for t
    using that by (simp only: constant_contexts_def set_simps insert_iff empty_iff) (elim disjE; simp; code_simp)
  have funs: "py_lower (py_strip f) = f \<and> f \<noteq> []" if "f \<in> set supported_runtime_functions" for f
    using that by (simp only: supported_runtime_functions_def set_simps insert_iff empty_iff) (elim disjE; simp; code_simp)
  have again: "validate_set_variable
      \<lparr>raw_definition = Some (sv_definition s), raw_name = Some (sv_name s), raw_context = Some (sv_context s),
       raw_value_type = Some (sv_value_type s), raw_source_type = None, raw_value = sv_value s, raw_data = JNull,
       raw_function = sv_function s, raw_resolver = None, raw_function_alias = None, raw_target = sv_target s,
       raw_key = None, raw_scope = None\<rparr> = Inr s"
  proof -
    have f: "sv_value_type s = ''function'' \<Longrightarrow> sv_value s = JNull \<and> (\<exists>f. sv_function s = Some f \<and>
        f \<in> set supported_runtime_functions \<and> py_lower (py_strip f) = f \<and> f \<noteq> [])"
      and n: "sv_value_type s \<noteq> ''function'' \<Longrightarrow> sv_function s = None"
      and t: "sv_value_type s = ''function'' \<or> sv_value_type s = ''value'' \<or> sv_value_type s = ''json'' \<or>
        sv_value_type s = ''jsonArray'' \<or> sv_value_type s = ''dataset''"
      using ok funs by (auto simp: set_variable_ok_def split: if_splits)
    have ctx: "sv_context s \<in> set constant_contexts" "sv_context s \<noteq> []" "py_strip (sv_context s) = sv_context s"
      "dict_get context_aliases (sv_context s) = None"
      and d: "trimmed (sv_definition s)" "trimmed (sv_name s)"
      using ok scopes [of "sv_context s"] by (auto simp: set_variable_ok_def)
    have norm: "normalize_value_type ''function'' False = Inr ''function''" "normalize_value_type ''value'' False = Inr ''value''"
      "normalize_value_type ''json'' False = Inr ''json''" "py_strip ''function'' = ''function''" "py_strip ''value'' = ''value''"
      "py_strip ''json'' = ''json''" "py_strip ''jsonArray'' = ''jsonArray''" "py_strip ''dataset'' = ''dataset''"
      by code_simp+
    note basic = validate_set_variable_def text_of_def or_option_def normalize_context_def set_variable_function_def
      trimmed_simps require_def Let_def or_text_def
    from t show ?thesis
    proof (elim disjE)
      assume e: "sv_value_type s = ''function''"
      with f ctx d norm target show ?thesis by (cases s) (auto simp: basic target_ok_def)
    next
      assume e: "sv_value_type s = ''value''"
      with n ctx d norm target show ?thesis by (cases s) (simp add: basic target_ok_def)
    next
      assume e: "sv_value_type s = ''json''"
      with n ctx d norm target show ?thesis by (cases s) (simp add: basic target_ok_def)
    next
      assume e: "sv_value_type s = ''jsonArray''"
      with n ctx d norm target show ?thesis by (cases s) (simp add: basic target_ok_def)
    next
      assume e: "sv_value_type s = ''dataset''"
      with n ctx d norm target show ?thesis by (cases s) (simp add: basic target_ok_def)
    qed
  qed
  have nb: "py_strip (sv_value_type s) \<noteq> []" "py_strip (sv_context s) \<noteq> []" "trimmed (sv_definition s)" "trimmed (sv_name s)"
    "nonblank (sv_target s)" "nonblank (sv_function s)"
  proof -
    have "sv_value_type s \<in> set [''value'', ''json'', ''jsonArray'', ''dataset'', ''function'']"
      using ok by (auto simp: set_variable_ok_def split: if_splits)
    with types [OF this] show "py_strip (sv_value_type s) \<noteq> []" by simp
    show "py_strip (sv_context s) \<noteq> []" "trimmed (sv_definition s)" "trimmed (sv_name s)"
      using ok scopes [of "sv_context s"] by (auto simp: set_variable_ok_def)
    show "nonblank (sv_target s)" using target by (simp add: target_ok_def)
    have "f \<in> set supported_runtime_functions \<Longrightarrow> py_strip f \<noteq> []" for f
      using funs [of f] by (metis py_strip_Nil list.simps(8) py_lower_def)
    then show "nonblank (sv_function s)"
      using ok by (auto simp: set_variable_ok_def nonblank_def split: if_splits)
  qed
  have "sv_value_type s \<noteq> []" "\<And>f. sv_function s = Some f \<Longrightarrow> f \<noteq> []"
    using nb(1,6) by (auto simp: nonblank_def)
  with assms(1) nb val again show ?thesis
    by (cases "sv_function s")
      (simp_all add: c convert_set_variable_def dump_eval dump_set_variable_def first_non_empty_found trimmed_simps dump_text_simps)
qed

lemma is_space_code:
  "is_space c \<longleftrightarrow> (of_char c :: nat) \<in> {9, 10, 11, 12, 13, 28, 29, 30, 31, 32, 133, 160}"
proof -
  have char: "c = d \<longleftrightarrow> (of_char c :: nat) = of_char d" for d by simp
  show ?thesis
    by (simp only: is_space_def py_spaces_def set_simps insert_iff empty_iff char) (auto simp: of_char_Char)
qed

lemma of_char_lower: "(of_char (lower_char c) :: nat) =
    (let n = of_char c in if 65 \<le> n \<and> n \<le> 90 \<or> 192 \<le> n \<and> n \<le> 222 \<and> n \<noteq> 215 then n + 32 else n)"
  by (auto simp: lower_char_def Let_def)

lemma lower_char_space [simp]: "is_space (lower_char c) = is_space c"
  by (auto simp: is_space_code of_char_lower Let_def)

lemma lower_char_lower [simp]: "lower_char (lower_char c) = lower_char c"
proof -
  have "\<not> (65 \<le> n \<and> n \<le> 90 \<or> 192 \<le> n \<and> n \<le> 222 \<and> n \<noteq> 215)" if "n = of_char (lower_char c)" for n :: nat
    unfolding that of_char_lower Let_def by auto
  then show ?thesis unfolding lower_char_def [of "lower_char c"] Let_def by (simp only: if_False)
qed

lemma lower_char_underscore: "lower_char c = CHR ''_'' \<Longrightarrow> c = CHR ''_''"
proof -
  assume "lower_char c = CHR ''_''"
  then have "(of_char (lower_char c) :: nat) = of_char (CHR ''_'')" by simp
  then have "(of_char c :: nat) = of_char (CHR ''_'')" by (auto simp: of_char_lower Let_def split: if_splits)
  then show ?thesis by (simp only: of_char_eq_iff)
qed

lemma strip_map:
  assumes "\<And>c. is_space (f c) = is_space c"
  shows "py_strip (map f s) = map f (py_strip s)"
proof -
  have "dropWhile is_space (map f xs) = map f (dropWhile is_space xs)" for xs
    by (induction xs) (simp_all add: assms)
  then show ?thesis by (simp add: py_strip_def py_lstrip_def rev_map)
qed

lemma object_type_back:
  "py_lower (normalize_path_token (py_lower (normalize_path_token t))) = py_lower (normalize_path_token t)"
    "py_strip t \<noteq> [] \<Longrightarrow> py_strip (py_lower (normalize_path_token t)) \<noteq> []"
proof -
  define rep where "rep c = (if c = CHR ''_'' then CHR ''-'' else c)" for c
  have "replace_char (CHR ''_'') ''-'' u = map rep u" for u
    by (induction u) (simp_all add: replace_char_def rep_def)
  then have norm: "normalize_path_token s = map rep (py_strip s)" for s
    by (simp add: normalize_path_token_def)
  have space: "is_space (lower_char (rep c)) = is_space c" for c
  proof -
    have "is_space (rep c) = is_space c" by (simp add: rep_def is_space_def py_spaces_def)
    then show ?thesis by simp
  qed
  have idem: "lower_char (rep (lower_char (rep c))) = lower_char (rep c)" for c
    using lower_char_underscore [of "rep c"] by (auto simp: rep_def [of "lower_char (rep c)"]) (simp add: rep_def split: if_splits)
  have lower: "py_lower (normalize_path_token s) = map (\<lambda>c. lower_char (rep c)) (py_strip s)" for s
    by (simp add: norm py_lower_def)
  show "py_lower (normalize_path_token (py_lower (normalize_path_token t))) = py_lower (normalize_path_token t)"
    by (simp add: lower strip_map [of "\<lambda>c. lower_char (rep c)", OF space] idem)
  show "py_strip t \<noteq> [] \<Longrightarrow> py_strip (py_lower (normalize_path_token t)) \<noteq> []"
    by (simp add: lower strip_map [of "\<lambda>c. lower_char (rep c)", OF space])
qed

lemma optional_schema_back [simp]: "optional as_dict (case so of None \<Rightarrow> JNull | Some d \<Rightarrow> JObj d) = Inr so"
  by (cases so) (simp_all add: optional_def)

lemma assert_back:
  assumes "field_types_ok pyd" and "convert_assert pyd code d = Inr c"
  shows "convert_assert pyd code (dump_config txt \<lparr>cfg_type = ty, cfg_command = c\<rparr>) = Inr c"
proof -
  from assms(2) obtain a msg ot ac er e keys sc j k where c: "c = Assert a"
    and v: "validate_assert code msg ot ac e er keys sc = Inr a"
    and parts: "opt_text pyd d [''error_message'', ''errorMessage''] = Inr msg"
      "as_str pyd (json_or (first_non_empty d [''evaluated_object_type'', ''evaluetedObjectType'', ''evaluatedObjectType''])
        (JStr ''json-data'')) = Inr ot"
      "e = first_non_empty d [''expected'']" "input_ref_field pyd (expected_ref_json d) = Inr er" "keys = normalize_compare_keys j"
      "input_ref_field pyd k = Inr ac"
    unfolding convert_assert_def rbind_Inr_iff by blast
  from v have code: "code \<in> set assert_codes" and act: "ac = Some (as_actual a)" and check: "check_assertion code e er keys = Inr ()"
    and a: "as_code a = code" "as_error_message a = msg" "as_object_type a = py_lower (normalize_path_token ot)"
      "as_expected a = e" "as_expected_ref a = er" "as_compare_keys a = (if keys = [] then None else Some keys)" "as_schema a = sc"
    by (auto simp: validate_assert_def result_simps need_input_Inr)
  have "py_strip ot \<noteq> []"
    using parts(2) assms(1) first_non_empty_JStr [of d _ ot]
    by (auto simp: json_or_def split: if_splits dest!: as_str_InrD) (simp add: py_strip_def py_lstrip_def is_space_def py_spaces_def)
  with a(3) have object: "py_lower (normalize_path_token (as_object_type a)) = as_object_type a"
      "py_strip (as_object_type a) \<noteq> []"
    using object_type_back [of ot] by simp_all
  then have "as_object_type a \<noteq> []" by auto
  note object = object this
  have refs: "input_ref_ok (as_actual a)" "\<And>r. as_expected_ref a = Some r \<Longrightarrow> input_ref_ok r"
    using parts(4,6) act a(5) by (auto intro: input_ref_field_ok)
  have texts: "nonblank (as_error_message a)" "not_blank (as_expected a)"
    using parts(1,3) a(2,4) assms(1) by (auto dest: opt_text_nonblank)
  have keys: "(if normalize_compare_keys (dump_texts (as_compare_keys a)) = [] then None
      else Some (normalize_compare_keys (dump_texts (as_compare_keys a)))) = as_compare_keys a"
    by (rule dump_texts_back) (simp only: a(6) parts(5) keys_option_ok)
  then have same: "normalize_compare_keys (dump_texts (as_compare_keys a)) = keys"
    using a(6) by (cases "keys = []") (auto split: if_splits)
  have "validate_assert code (as_error_message a) (as_object_type a) (Some (as_actual a)) (as_expected a)
      (as_expected_ref a) keys (as_schema a) = Inr a"
    using code check a object by (cases a) (simp add: validate_assert_def need_input_def)
  moreover have "not_blank (case as_schema a of None \<Rightarrow> JNull | Some d \<Rightarrow> JObj d)" by (simp split: option.split)
  ultimately show ?thesis
    using assms(1) refs texts object same
    by (simp add: c convert_assert_def dump_eval dump_assertion_def expected_ref_json_def first_non_empty_found)
qed

text \<open>Requests: parameters, authorisation, timeout and the two forms of a body.\<close>

definition request_parts_ok :: "http_request \<Rightarrow> bool" where
  "request_parts_ok r \<longleftrightarrow>
     params_ok (rq_query r) \<and> params_ok (rq_headers r) \<and> params_ok (rq_path r) \<and> auth_ok (rq_auth r) \<and>
     py_upper (py_strip (rq_method r)) = rq_method r \<and> py_strip (rq_method r) \<noteq> [] \<and> trimmed (rq_url r) \<and>
     normalize_http_body_type (rq_body_type r) = Inr (rq_body_type r) \<and> py_strip (rq_body_type r) \<noteq> [] \<and>
     (\<exists>q > 0. rq_timeout r = Some q) \<and> result_ok (rq_result r)"

lemma body_type_back:
  "t \<in> set [''json'', ''text'', ''formUrlEncoded''] \<Longrightarrow> normalize_http_body_type t = Inr t \<and> py_strip t \<noteq> []"
  by (simp only: set_simps insert_iff empty_iff) (elim disjE; simp; code_simp)

lemma method_back:
  "m \<in> set [''GET'', ''POST'', ''PUT'', ''PATCH'', ''DELETE''] \<Longrightarrow> py_upper (py_strip m) = m \<and> py_strip m \<noteq> []"
  by (simp only: set_simps insert_iff empty_iff) (elim disjE; simp; code_simp)

lemma request_parts:
  assumes "validate_request pyd r q h p a = Inr r'" and "check_request ms m u r' = Inr x"
    and "set ms \<subseteq> set [''GET'', ''POST'', ''PUT'', ''PATCH'', ''DELETE'']"
    and "rq_timeout r \<noteq> None" and "result_ok (rq_result r)"
  shows "request_parts_ok r'"
proof -
  from assms(1) have parts: "params_ok (rq_query r')" "params_ok (rq_headers r')" "params_ok (rq_path r')"
      "auth_ok (rq_auth r')" "rq_result r' = rq_result r"
    by (auto simp: validate_request_def rbind_Inr_iff dest: coerce_http_kv_params_ok coerce_authorization_ok)
  from checked_request_ok [OF assms(1,2)] have ok: "request_ok ms r'" .
  with assms(3) have "rq_method r' \<in> set [''GET'', ''POST'', ''PUT'', ''PATCH'', ''DELETE'']"
    by (auto simp: request_ok_def)
  note verb = method_back [OF this]
  from ok have "rq_body_type r' \<in> set [''json'', ''text'', ''formUrlEncoded'']" by (simp add: request_ok_def)
  note kind = body_type_back [OF this]
  from ok assms(4) validate_request_Inr(1) [OF assms(1)] have "\<exists>q > 0. rq_timeout r' = Some q"
    by (auto simp: request_ok_def)
  with parts verb kind ok assms(5) show ?thesis by (simp add: request_parts_ok_def request_ok_def)
qed

lemma dump_params_field: "dump_params ps = JNull \<or> is_obj (dump_params ps)"
  by (cases ps) (simp_all add: dump_params_def)

lemma dump_auth_field: "dump_auth a = JNull \<or> is_obj (dump_auth a)"
  by (simp add: dump_auth_def split: option.split http_auth.split)

lemma kv_field_back:
  "first_non_empty d ks = v \<Longrightarrow> v = JNull \<or> is_obj v \<Longrightarrow> kv_field d ks b = Inr v"
  by (auto simp: kv_field_def Let_def)

lemma timeout_back:
  assumes "field_types_ok pyd" and "\<And>q s. as_number pyd (JFloat q s) = Inr q" and "0 < q"
  shows "as_number pyd (json_or (dump_number txt (Some q)) d) = Inr q"
proof (cases "of_int \<lfloor>q\<rfloor> = q")
  case True
  with assms(3) have "\<lfloor>q\<rfloor> \<noteq> 0" by (metis of_int_0 less_irrefl)
  with True assms(1) show ?thesis by (simp add: dump_number_def json_or_def field_types_ok_def)
next
  case False
  with assms(2,3) show ?thesis by (simp add: dump_number_def json_or_def)
qed

lemma dump_tree_not_blank [simp]: "not_blank (dump_tree t)"
  by (cases t) simp_all

lemma request_fields_back:
  assumes "field_types_ok pyd" and "\<And>q s. as_number pyd (JFloat q s) = Inr q" and "request_parts_ok r"
    and "body = [] \<or> body = [(''body'', b)]"
    and "d = [(''commandCode'', code), (''commandType'', ct)] @ dump_request txt r body"
  shows "request_fields pyd d (json_or (first_non_empty d [''method'']) j) k =
      k (r\<lparr>rq_query := None, rq_headers := None, rq_path := None, rq_auth := None\<rparr>)
        (dump_params (rq_query r)) (dump_params (rq_headers r)) (dump_params (rq_path r)) (dump_auth (rq_auth r))"
    and "request_fields pyd d (first_non_empty d [''method'']) k =
      k (r\<lparr>rq_query := None, rq_headers := None, rq_path := None, rq_auth := None\<rparr>)
        (dump_params (rq_query r)) (dump_params (rq_headers r)) (dump_params (rq_path r)) (dump_auth (rq_auth r))"
proof -
  note p = assms(3) [unfolded request_parts_ok_def]
  then obtain q where q: "rq_timeout r = Some q" "0 < q" by blast
  have texts: "rq_method r \<noteq> []" "rq_body_type r \<noteq> []" "py_strip (rq_url r) \<noteq> []"
    using p by (auto simp: trimmed_def)
  have got: "first_non_empty d [''method''] = JStr (rq_method r)" "first_non_empty d [''url''] = JStr (rq_url r)"
      "first_non_empty d [''queryParams'', ''query_params''] = dump_params (rq_query r)"
      "first_non_empty d [''headers''] = dump_params (rq_headers r)"
      "first_non_empty d [''pathParams'', ''path_params''] = dump_params (rq_path r)"
      "first_non_empty d [''authorization''] = dump_auth (rq_auth r)"
      "first_non_empty d [''bodyType'', ''body_type''] = JStr (rq_body_type r)"
      "first_non_empty d [''timeoutSeconds'', ''timeout_seconds''] = dump_number txt (Some q)"
      "result_field pyd d = Inr (rq_result r)"
    using assms(1,4) p texts q(1)
    by (auto simp: assms(5) dump_request_def dump_eval)
  have kv: "kv_field d [''queryParams'', ''query_params''] True = Inr (dump_params (rq_query r))"
      "kv_field d [''headers''] False = Inr (dump_params (rq_headers r))"
      "kv_field d [''pathParams'', ''path_params''] False = Inr (dump_params (rq_path r))"
      "kv_field d [''authorization''] False = Inr (dump_auth (rq_auth r))"
    by (intro kv_field_back got dump_params_field dump_auth_field)+
  note fields = got kv
  show "request_fields pyd d (json_or (first_non_empty d [''method'']) j) k =
      k (r\<lparr>rq_query := None, rq_headers := None, rq_path := None, rq_auth := None\<rparr>)
        (dump_params (rq_query r)) (dump_params (rq_headers r)) (dump_params (rq_path r)) (dump_auth (rq_auth r))"
    using assms(1) texts timeout_back [OF assms(1,2) q(2)] q(1)
    by (cases r) (simp add: request_fields_def fields, simp add: json_or_def)
  show "request_fields pyd d (first_non_empty d [''method'']) k =
      k (r\<lparr>rq_query := None, rq_headers := None, rq_path := None, rq_auth := None\<rparr>)
        (dump_params (rq_query r)) (dump_params (rq_headers r)) (dump_params (rq_path r)) (dump_auth (rq_auth r))"
    using assms(1) texts timeout_back [OF assms(1,2) q(2)] q(1)
    by (cases r) (simp add: request_fields_def fields, simp add: json_or_def)
qed

lemma validate_request_back:
  assumes "field_types_ok pyd" and "request_parts_ok r"
  shows "validate_request pyd (r\<lparr>rq_query := None, rq_headers := None, rq_path := None, rq_auth := None\<rparr>)
    (dump_params (rq_query r)) (dump_params (rq_headers r)) (dump_params (rq_path r)) (dump_auth (rq_auth r)) = Inr r"
  using assms
  by (cases r) (simp add: validate_request_def request_parts_ok_def dump_params_back dump_auth_back trimmed_simps)

lemma read_api_back:
  assumes "field_types_ok pyd" and "\<And>q s. as_number pyd (JFloat q s) = Inr q" and "convert_read_api pyd d = Inr c"
  shows "convert_read_api pyd (dump_config txt \<lparr>cfg_type = ty, cfg_command = c\<rparr>) = Inr c"
proof -
  from assms(3) obtain m u b t rc q h p a r where rc: "result_field pyd d = Inr rc"
    and v: "validate_read_api pyd \<lparr>rq_method = m, rq_url = u, rq_query = None, rq_headers = None, rq_path = None,
      rq_auth = None, rq_body_type = b, rq_timeout = Some t, rq_result = rc\<rparr> q h p a = Inr r" and c: "c = ReadApi r"
    unfolding convert_read_api_def request_fields_def rbind_Inr_iff by blast
  have checked: "check_request [''GET''] ''readApi.method must be GET.'' ''url is required for readApi.'' r = Inr ()"
    and parts: "request_parts_ok r"
    using v result_field_ok [OF rc]
    by (auto simp: validate_read_api_def rbind_Inr_iff intro!: request_parts)
  then have "rq_method r \<noteq> []" using check_request_Inr by fastforce
  then have "validate_read_api pyd (r\<lparr>rq_query := None, rq_headers := None, rq_path := None, rq_auth := None\<rparr>)
      (dump_params (rq_query r)) (dump_params (rq_headers r)) (dump_params (rq_path r)) (dump_auth (rq_auth r)) = Inr r"
    using validate_request_back [OF assms(1) parts] checked
    by (simp add: validate_read_api_def or_text_def)
  then show ?thesis
    by (simp add: c convert_read_api_def dump_config_def
        request_fields_back(1) [OF assms(1,2) parts, of "[]"])
qed

lemma form_node_scalar:
  assumes "scalar_form (HObj d)" and "kv \<in> set d"
  shows "\<exists>n. snd kv = HNode n \<and> http_form_node k n = Inr n \<and> trimmed (fst kv)"
proof -
  from assms have kv: "trimmed (fst kv)" "case snd kv of HNode (Literal v) \<Rightarrow> \<not> is_obj v \<and> \<not> is_list v
      | HNode (SourceNode _) \<Rightarrow> False | HNode _ \<Rightarrow> True | _ \<Rightarrow> False"
    by simp_all
  then obtain n where n: "snd kv = HNode n" by (cases "snd kv") auto
  with kv(2) have "http_form_node k n = Inr n" by (cases n) (simp_all add: http_form_node_def)
  with n kv(1) show ?thesis by blast
qed

lemma dict_set_new: "k \<notin> fst ` set d \<Longrightarrow> dict_set k v d = d @ [(k, v)]"
  by (induction d) (auto simp: dict_set_def)

lemma form_body_back:
  assumes "field_types_ok pyd" and "scalar_form (HObj d)" and "http_tree_ok (HObj d)" and "distinct (map fst (acc @ d))"
  shows "foldM (form_step pyd) acc (map (\<lambda>kv. (fst kv, dump_tree (snd kv))) d) = Inr (acc @ d)"
  using assms(2-4)
proof (induction d arbitrary: acc)
  case (Cons kv d)
  obtain n where n: "snd kv = HNode n" "http_form_node (fst kv) n = Inr n" "trimmed (fst kv)"
    using form_node_scalar [OF Cons.prems(1), of kv "fst kv"] by auto
  have "coerce_to_http_node pyd (dump_node n) = Inr n"
    using dump_node_coerced [OF assms(1), of n] Cons.prems(2) n(1) by auto
  moreover have "dict_set (fst kv) (HNode n) acc = acc @ [kv]"
  proof -
    have "kv = (fst kv, HNode n)" "fst kv \<notin> fst ` set acc" using Cons.prems(3) n(1) by (auto simp: prod_eq_iff)
    then show ?thesis by (metis dict_set_new)
  qed
  ultimately have "form_step pyd acc (fst kv, dump_tree (snd kv)) = Inr (acc @ [kv])"
    using n by (simp add: form_step_def trimmed_simps)
  with Cons.IH [of "acc @ [kv]"] Cons.prems show ?case by simp
qed simp

definition form_ok :: "http_tree \<Rightarrow> bool" where
  "form_ok b \<longleftrightarrow> b = HNone \<or> (\<exists>d. b = HObj d \<and> d \<noteq> [] \<and> scalar_form b \<and> http_tree_ok b \<and> distinct (map fst d))"

interpretation form_keys: guarded_step "form_step pyd" "\<lambda>d. distinct (map fst d) \<and> http_tree_ok (HObj d)" for pyd
proof
  fix d d' kv
  assume d: "distinct (map fst d) \<and> http_tree_ok (HObj d)" and step: "form_step pyd d kv = Inr d'"
  from step obtain n n' where "coerce_to_http_node pyd (snd kv) = Inr n" "http_form_node (py_strip (fst kv)) n = Inr n'"
    and d': "d' = dict_set (py_strip (fst kv)) (HNode n') d"
    by (auto simp: form_step_def Let_def result_simps split: if_splits)
  then have "http_node_ok n'"
    using coerce_to_http_node_ok by (auto simp: http_form_node_def split: http_node.splits if_splits)
  with d show "distinct (map fst d') \<and> http_tree_ok (HObj d')"
    using set_dict_set [of "py_strip (fst kv)" "HNode n'" d] dict_ok_set [of d] by (auto simp: d' dict_ok_def)
qed

lemma coerce_form_ok:
  assumes "coerce_http_form_body pyd v = Inr b"
  shows "form_ok b"
proof (cases v)
  case (JObj d)
  with assms obtain r where r: "foldM (form_step pyd) [] d = Inr r" "b = (if r = [] then HNone else HObj r)"
    by (auto simp: coerce_http_form_body_def rbind_Inr_iff)
  from form_loop.foldM_good [OF _ r(1)] form_keys.foldM_good [OF _ r(1)] r(2) show ?thesis
    by (auto simp: form_ok_def)
qed (use assms in \<open>auto simp: coerce_http_form_body_def form_ok_def\<close>)

lemma dump_form_back:
  assumes "field_types_ok pyd" and "form_ok b"
  shows "coerce_http_form_body pyd (dump_tree b) = Inr b"
proof (cases "b = HNone")
  case False
  with assms(2) obtain d where "b = HObj d" "d \<noteq> []" "scalar_form b" "http_tree_ok b" "distinct (map fst d)"
    by (auto simp: form_ok_def)
  with form_body_back [OF assms(1), of d "[]"] show ?thesis by (simp add: coerce_http_form_body_def)
qed (simp add: coerce_http_form_body_def)

lemma write_api_back:
  assumes "field_types_ok pyd" and "\<And>q s. as_number pyd (JFloat q s) = Inr q" and "convert_write_api pyd d = Inr c"
  shows "convert_write_api pyd (dump_config txt \<lparr>cfg_type = ty, cfg_command = c\<rparr>) = Inr c"
proof -
  from assms(3) obtain m u b t rc q h p a j rb where rc: "result_field pyd d = Inr rc"
    and v: "validate_write_api pyd \<lparr>rq_method = m, rq_url = u, rq_query = None, rq_headers = None, rq_path = None,
      rq_auth = None, rq_body_type = b, rq_timeout = Some t, rq_result = rc\<rparr> q h p a j = Inr rb"
    and c: "c = WriteApi (fst rb) (snd rb)"
    unfolding convert_write_api_def request_fields_def rbind_Inr_iff by blast
  obtain r w where rb: "rb = (r, w)" by (cases rb)
  define coerced where "coerced x = (if rq_body_type r = ''formUrlEncoded'' then coerce_http_form_body pyd x
      else coerce_http_tree pyd x)" for x
  have checked: "check_request [''POST'', ''PUT'', ''PATCH'', ''DELETE'']
      ''writeApi.method must be one of: POST, PUT, PATCH, DELETE.'' ''url is required for writeApi.'' r = Inr ()"
    and parts: "request_parts_ok r" and w: "coerced j = Inr w"
    using v result_field_ok [OF rc]
    by (auto simp: validate_write_api_def rbind_Inr_iff rb coerced_def intro!: request_parts split: if_splits)
  have again: "coerced (dump_tree w) = Inr w"
    using w assms(1) dump_form_back [OF assms(1) coerce_form_ok] dump_tree_coerced [OF assms(1)] coerce_http_tree_ok
    by (auto simp: coerced_def split: if_splits)
  have got: "first_non_empty (dump_config txt \<lparr>cfg_type = ty, cfg_command = c\<rparr>) [''body''] = dump_tree w"
    by (simp add: c rb dump_eval dump_request_def)
  have "validate_write_api pyd (r\<lparr>rq_query := None, rq_headers := None, rq_path := None, rq_auth := None\<rparr>)
      (dump_params (rq_query r)) (dump_params (rq_headers r)) (dump_params (rq_path r)) (dump_auth (rq_auth r))
      (dump_tree w) = Inr (r, w)"
    using validate_request_back [OF assms(1) parts] checked again
    by (simp add: validate_write_api_def coerced_def)
  then show ?thesis
    unfolding convert_write_api_def got
    by (simp add: c rb dump_config_def request_fields_back(2) [OF assms(1,2) parts, of "[(''body'', dump_tree w)]"])
qed

section \<open>The conversion\<close>

lemma conversion_codes: "\<forall>k \<in> set (map fst (conversion_table pyd)). normalize_command_code (JStr k) = k \<and> k \<noteq> ''assert'' \<and> py_strip k \<noteq> []"
  unfolding conversion_table_def assert_codes_def list.map append.simps fst_conv set_simps ball_simps simp_thms
  by (intro conjI; code_simp)

lemma conversion_back:
  assumes "field_types_ok pyd" and "\<And>q s. as_number pyd (JFloat q s) = Inr q"
    and "map_of (conversion_table pyd) code = Some (t, conv)" and "conv d = Inr c"
    and "\<And>r. c = ReceiveQueue r \<Longrightarrow> rv_retry r \<noteq> 0 \<and> rv_wait r \<noteq> 0"
  shows "conv (dump_config txt \<lparr>cfg_type = ty, cfg_command = c\<rparr>) = Inr c"
proof -
  have "(code, t, conv) \<in> set (conversion_table pyd)" using assms(3) by (rule map_of_SomeD)
  then show ?thesis
    using assms(4) set_variable_back [OF assms(1)] delete_back [OF assms(1)] sleep_back read_api_back [OF assms(1,2)]
      write_api_back [OF assms(1,2)] send_back [OF assms(1)] save_back [OF assms(1)] named_back [OF assms(1)]
      export_back [OF assms(1)] dataset_named_back [OF assms(1)] run_suite_back [OF assms(1)]
      receive_back [OF assms(1)] query_back [OF assms(1)] assert_back [OF assms(1)] assms(5)
    unfolding conversion_table_def by auto
qed



end
