(* ===== verification/TemplateProps.thy ===== *)
theory TemplateProps
  imports Templates ConstantGraphProps ConfigDumpProps
begin

text \<open>
  The commands a template generates: numbered from 0 without gaps, whatever the configuration, and those that read a
  constant refer to the one the command before them declares.
\<close>

section \<open>Numbering\<close>

definition numbered :: "generated \<Rightarrow> bool" where
  "numbered g \<longleftrightarrow> fst g = int (length (snd g)) \<and> map ic_order (snd g) = map int [0..<length (snd g)]"

lemma numbered_start [simp]: "numbered (0, [])"
  by (simp add: numbered_def)

lemma numbered_one [intro]: "numbered g \<Longrightarrow> numbered (generated_one description ctype c g)"
  by (simp add: numbered_def generated_one_def wrap_def)

lemma numbered_sleep [intro]: "numbered g \<Longrightarrow> numbered (add_sleep n description g)"
  by (auto simp: add_sleep_def)

text \<open>An assert adds the command that reads, then the assert; nothing generated before is touched.\<close>

definition extends :: "generated \<Rightarrow> generated \<Rightarrow> bool" where
  "extends g g' \<longleftrightarrow> (numbered g \<longrightarrow> numbered g') \<and> (\<exists>more. snd g' = snd g @ more)"

lemma extends_refl [simp]: "extends g g"
  by (simp add: extends_def)

lemma extends_trans: "extends g h \<Longrightarrow> extends h k \<Longrightarrow> extends g k"
  unfolding extends_def by (metis append.assoc)

lemma extends_one [simp]: "extends g (generated_one description ctype c g)"
  by (auto simp: extends_def generated_one_def) (auto simp: numbered_def wrap_def)

lemma read_step_extends:
  "read_queue_step did name i spec g = Inr g' \<Longrightarrow> extends g g'"
  "query_step did name i spec g = Inr g' \<Longrightarrow> extends g g'"
  "assert_step did operator target i spec g = Inr g' \<Longrightarrow> extends g g'"
  by (auto simp: read_queue_step_def query_step_def assert_step_def rbind_Inr_iff)

lemma send_verify_assert_extends: "send_verify_assert g ispec = Inr g' \<Longrightarrow> extends g g'"
  by (auto simp: send_verify_assert_def Let_def rbind_Inr_iff split: if_splits
      intro: extends_trans read_step_extends)

lemma mock_assert_assert_extends: "mock_assert_assert g ispec = Inr g' \<Longrightarrow> extends g g'"
  by (auto simp: mock_assert_assert_def Let_def rbind_Inr_iff split: if_splits
      intro: extends_trans read_step_extends)

interpretation send_loop: guarded_step send_verify_assert "extends g" for g
  by unfold_locales (blast intro: extends_trans send_verify_assert_extends)

interpretation mock_loop: guarded_step mock_assert_assert "extends g" for g
  by unfold_locales (blast intro: extends_trans mock_assert_assert_extends)

lemma send_verify_shape:
  assumes "send_verify config = Inr cs"
  obtains sv q more where "token (jget config ''queue_id'') = q" and "q \<noteq> []"
    and "cs = wrap 0 ''Materialize inline JSON payload'' ''context'' (SetVariable sv)
      # wrap 1 (''Send message to queue '' @ quoted q) ''action''
          (SendMessageQueue \<lparr>sm_queue = q, sm_input = RuntimeValue ''tpl_sv_payload'', sm_template = None, sm_result = None\<rparr>)
      # more"
    and "map ic_order cs = map int [0..<length cs]"
proof -
  define q where "q = token (jget config ''queue_id'')"
  from assms obtain payload wait_ms asserts sv input g where
    q: "q \<noteq> []" and input: "validate_input_ref ''runtimeValue'' (Some ''tpl_sv_payload'') None = Inr input"
    and run: "foldM send_verify_assert (add_sleep wait_ms (''Wait '' @ int_text wait_ms @ ''ms for side effects'')
      (generated_one (''Send message to queue '' @ quoted q) ''action''
        (SendMessageQueue \<lparr>sm_queue = q, sm_input = input, sm_template = None, sm_result = None\<rparr>)
        (generated_one ''Materialize inline JSON payload'' ''context'' (SetVariable sv) (0, [])))) asserts = Inr g"
    and cs: "cs = snd g"
    unfolding send_verify_def rbind_Inr_iff by (auto simp: require_str_def q_def split: if_splits)
  define two where "two = generated_one (''Send message to queue '' @ quoted q) ''action''
        (SendMessageQueue \<lparr>sm_queue = q, sm_input = input, sm_template = None, sm_result = None\<rparr>)
        (generated_one ''Materialize inline JSON payload'' ''context'' (SetVariable sv) (0, []))"
  have "extends two (add_sleep wait_ms (''Wait '' @ int_text wait_ms @ ''ms for side effects'') two)"
    by (simp add: add_sleep_def)
  from send_loop.foldM_good [OF this run [folded two_def]] have ext: "extends two g" .
  have "numbered two" unfolding two_def by (intro numbered_one numbered_start)
  with ext have "map ic_order cs = map int [0..<length cs]" by (simp add: extends_def numbered_def cs)
  moreover from ext obtain more where "cs = snd two @ more" by (auto simp: extends_def cs)
  moreover have "input = RuntimeValue ''tpl_sv_payload''"
  proof -
    have "validate_input_ref ''runtimeValue'' (Some ''tpl_sv_payload'') None = Inr (RuntimeValue ''tpl_sv_payload'')"
      by code_simp
    with input show ?thesis by simp
  qed
  ultimately show ?thesis
    using q that [of q sv more] by (simp add: two_def generated_one_def q_def)
qed

text \<open>The commands a template generates are numbered 0, 1, 2 and so on in the order they run in, for every
  configuration the two engines accept and every kind in their registry.
\<close>

theorem generated_commands_numbered:
  assumes "generate_commands kind config = Inr cs"
  shows "map ic_order cs = map int [0..<length cs]"
proof -
  have "mock_assert (fields_of config) = Inr cs \<or> send_verify (fields_of config) = Inr cs"
    using assms
    by (auto simp: generate_commands_def get_template_def template_table_def rbind_Inr_iff dict_get_Cons split: if_splits)
  then show ?thesis
  proof
    assume "mock_assert (fields_of config) = Inr cs"
    then obtain wait_ms asserts g where
      run: "foldM mock_assert_assert (add_sleep wait_ms (''Wait '' @ int_text wait_ms @ ''ms for the external trigger to land'')
        (0, [])) asserts = Inr g" and cs: "cs = snd g"
      unfolding mock_assert_def rbind_Inr_iff by auto
    have "extends (0, []) (add_sleep wait_ms (''Wait '' @ int_text wait_ms @ ''ms for the external trigger to land'') (0, []))"
      by (simp add: add_sleep_def)
    from mock_loop.foldM_good [OF this run] show ?thesis by (simp add: extends_def numbered_def cs)
  qed (erule send_verify_shape)
qed

definition sample_template_config :: json where
  "sample_template_config = JObj [(''queue_id'', JStr ''orders''),
     (''payload'', JObj [(''kind'', JStr ''json_inline''), (''value'', JInt 7)]), (''wait_ms'', JInt 100),
     (''asserts'', JList [JObj [(''target'', JStr ''queue''), (''queue_id'', JStr ''replies''), (''operator'', JStr ''exists'')]])]"

theorem generated_commands_numbered_witness:
  "\<exists>cs. generate_commands ''send_verify'' sample_template_config = Inr cs \<and> map ic_order cs = [0, 1, 2, 3, 4] \<and>
    map (\<lambda>c. map_option (\<lambda>cfg. command_code (cfg_command cfg)) (ic_cfg c)) cs =
      map Some [''setVariable'', ''sendMessageQueue'', ''sleep'', ''receiveQueue'', ''jsonNotEmpty'']"
proof -
  have codes: "map_option (map (\<lambda>c. map_option (\<lambda>cfg. command_code (cfg_command cfg)) (ic_cfg c)))
      (case generate_commands ''send_verify'' sample_template_config of Inl _ \<Rightarrow> None | Inr cs \<Rightarrow> Some cs) =
      Some (map Some [''setVariable'', ''sendMessageQueue'', ''sleep'', ''receiveQueue'', ''jsonNotEmpty''])"
    by code_simp
  then obtain cs where cs: "generate_commands ''send_verify'' sample_template_config = Inr cs"
    "map (\<lambda>c. map_option (\<lambda>cfg. command_code (cfg_command cfg)) (ic_cfg c)) cs =
      map Some [''setVariable'', ''sendMessageQueue'', ''sleep'', ''receiveQueue'', ''jsonNotEmpty'']"
    by (auto split: sum.splits)
  from arg_cong [OF cs(2), of length] have "length cs = 5" by simp
  moreover have "map int [0..<5] = [0, 1, 2, 3, 4]" by code_simp
  ultimately have "map ic_order cs = [0, 1, 2, 3, 4]" using generated_commands_numbered [OF cs(1)] by metis
  with cs show ?thesis by (intro exI [of _ cs] conjI)
qed

section \<open>A reference of the first order\<close>

text \<open>What an accepted plan of a section with nothing before it lets a command refer to: the declarations of the
  commands with a smaller order.\<close>

lemma live_after_orders:
  assumes "live_after pyd st m cs k = Some d"
  shows "m k = Some d \<or> (\<exists>ci \<in> set cs. pl_order d = ci_order ci)"
  using assms
proof (induction cs arbitrary: m)
  case (Cons ci cs)
  have step: "m k = Some d \<or> pl_order d = ci_order ci" if "live_step st ci c m k = Some d" for c
  proof -
    have fold: "foldl (\<lambda>m d. m(pl_id d \<mapsto> d)) m' new k = Some d \<Longrightarrow> m' k = Some d \<or> d \<in> set new" for m' new
      by (induction new arbitrary: m') (fastforce split: if_splits)+
    show ?thesis
    proof (cases "is_delete c")
      case True
      with that show ?thesis by (cases c) (auto simp: is_delete_def split: if_splits)
    next
      case False
      with that fold [of m "planned_declarations c (ci_id ci) (ci_order ci) st"] planned_declarations_alive
      show ?thesis by (auto simp: live_step_not_delete)
    qed
  qed
  from Cons.prems have "live_after pyd st (live_input pyd st m ci) cs k = Some d" by (simp add: live_after_def)
  from Cons.IH [OF this] step show ?case by (auto simp: live_input_def split: sum.splits)
qed (simp add: live_after_def)

lemma reference_needs_smaller_order:
  assumes "plan_inputs pyd st inputs [] = Inr p" and "ci \<in> set inputs"
    and "convert_to_config_command_type pyd (ci_cfg ci) = Inr cfg" and "r \<in> set (definition_refs (cfg_command cfg))"
  shows "\<exists>cj \<in> set inputs. ci_order cj < ci_order ci"
proof -
  from assms(2) have "ci \<in> set (sort_key command_key inputs)" by simp
  then obtain xs ys where split: "sort_key command_key inputs = xs @ ci # ys" by (meson split_list)
  have "dict_ok ([] :: planned dict)" by (simp add: dict_ok_def)
  from plan_prefix [OF assms(1) this split] obtain q p' where step: "plan_step pyd st q ci = Inr p'"
    and ok: "dict_ok (snd q)" "deletions_before (ci_order ci) (snd q)"
    and alive: "live (snd q) = live_after pyd st (live (carry_over [])) xs" by blast
  from step assms(3) have "plan_command st q ci (cfg_command cfg) = Inr p'" by (simp add: plan_step_def)
  then have "foldM (\<lambda>_ r. check_ref (command_code (cfg_command cfg)) st
      (active_definitions (readable_scopes st) (ci_order ci) (snd q)) r) () (definition_refs (cfg_command cfg)) = Inr ()"
    by (auto simp: plan_command_def rbind_Inr_iff validate_ref_visibility_def Let_def)
  from check_ref_good [OF ok foldM_unit_InrD [OF this assms(4)]] obtain d where
    "live_after pyd st (live (carry_over [])) xs (snd r) = Some d" "pl_order d < ci_order ci"
    by (auto simp: ref_good_def alive)
  moreover have "live (carry_over []) (snd r) = None" by (simp add: live_def carry_over_def dict_get_def)
  ultimately obtain cj where "cj \<in> set xs" "ci_order cj < ci_order ci" using live_after_orders by fastforce
  moreover have "set xs \<subseteq> set inputs" using arg_cong [OF split, of set] by auto
  ultimately show ?thesis by blast
qed

lemma stored_send_converts:
  assumes "field_types_ok pyd" and "py_strip q \<noteq> []"
  shows "convert_to_config_command_type pyd (dump_config txt \<lparr>cfg_type = ''action'', cfg_command = SendMessageQueue
      \<lparr>sm_queue = q, sm_input = RuntimeValue ''tpl_sv_payload'', sm_template = None, sm_result = None\<rparr>\<rparr>) =
    Inr \<lparr>cfg_type = ''action'', cfg_command = SendMessageQueue
      \<lparr>sm_queue = q, sm_input = RuntimeValue ''tpl_sv_payload'', sm_template = None, sm_result = None\<rparr>\<rparr>"
proof -
  have codes: "normalize_command_code (JStr ''sendMessageQueue'') = ''sendMessageQueue''" "py_strip ''sendMessageQueue'' = ''sendMessageQueue''"
    "normalize_command_type (JStr ''action'') = ''action''" "py_strip ''action'' = ''action''"
    "py_strip ''tpl_sv_payload'' = ''tpl_sv_payload''"
    "validate_command_keys ''sendMessageQueue'' ''action'' = Inr (''sendMessageQueue'', ''action'')" by code_simp+
  define d where "d = dump_config txt \<lparr>cfg_type = ''action'', cfg_command = SendMessageQueue
      \<lparr>sm_queue = q, sm_input = RuntimeValue ''tpl_sv_payload'', sm_template = None, sm_result = None\<rparr>\<rparr>"
  have requested: "requested_code d = ''sendMessageQueue''"
    by (simp add: requested_code_def d_def dump_config_def first_non_empty_found jget_Cons codes)
  have type: "normalize_command_type (first_non_empty d [''commandType'', ''command_type'']) = ''action''"
    by (simp add: d_def dump_config_def first_non_empty_found jget_Cons codes)
  have "input_ref_field pyd (dump_input_ref (RuntimeValue ''tpl_sv_payload'')) = Inr (Some (RuntimeValue ''tpl_sv_payload''))"
    by (rule input_ref_back [OF assms(1)]) (simp add: trimmed_def codes)
  then have input: "input_ref_field pyd (JObj [(''kind'', JStr ''runtimeValue''), (''definitionId'', JStr ''tpl_sv_payload''),
      (''sourceCode'', JNull)]) = Inr (Some (RuntimeValue ''tpl_sv_payload''))" by simp
  have "convert_send_message pyd d = Inr (SendMessageQueue
      \<lparr>sm_queue = q, sm_input = RuntimeValue ''tpl_sv_payload'', sm_template = None, sm_result = None\<rparr>)"
    using assms
    by (simp add: d_def input convert_send_message_def dump_eval need_input_def kv_field_def trimmed_def codes
        message_template_field_def dump_template_def dump_result_def result_constant_field_def optional_def)
  with requested type show ?thesis
    by (simp add: convert_to_config_command_type_def conversion_table_def codes or_text_def flip: d_def)
qed

end
