(* ===== verification/SuiteEndpointProps.thy ===== *)
theory SuiteEndpointProps
  imports TablesInvariant TemplateProps StoredSuites
begin

text \<open>
  The endpoints of test suites over time: any sequence of requests keeps the tables well formed; what a deletion, a
  template and a conversion leave behind.
\<close>

text \<open>
  What the endpoints of test suites guarantee: a suite that passes the validation is stored with the definitions its
  commands declare; and where they do not do what their callers expect.
\<close>

section \<open>Storing a suite\<close>


text \<open>A suite with one test that sets a variable and asserts it is not empty, in an empty database.\<close>

definition sample_tables :: suite_tables where
  "sample_tables =
     \<lparr>db_suites = [], db_items = [], db_commands = [], db_definitions = [], db_payloads = [],
      db_ids = (\<lambda>n. replicate (Suc n) (CHR ''u'')), db_next = 0, db_tie = (\<lambda>_. 0)\<rparr>"

definition sample_set_command :: item_command where
  "sample_set_command = \<lparr>ic_order = 1, ic_description = None, ic_cfg = Some \<lparr>cfg_type = ''context'', cfg_command = SetVariable
     \<lparr>sv_definition = ''d1'', sv_name = ''rows'', sv_context = ''local'', sv_value_type = ''json'', sv_value = JInt 7,
      sv_function = None, sv_target = None\<rparr>\<rparr>\<rparr>"

definition sample_check :: item_command where
  "sample_check = \<lparr>ic_order = 2, ic_description = None, ic_cfg = Some \<lparr>cfg_type = ''assert'', cfg_command = Assert
     \<lparr>as_code = ''jsonNotEmpty'', as_error_message = None, as_object_type = ''json-data'', as_actual = RuntimeValue ''d1'',
      as_expected = JNull, as_expected_ref = None, as_compare_keys = None, as_schema = None\<rparr>\<rparr>\<rparr>"

definition sample_test :: item_dto where
  "sample_test = \<lparr>dt_kind = ''test'', dt_phase = None, dt_description = Some ''first'', dt_on_failure = Some ''ABORT'',
     dt_sources = [], dt_commands = [sample_set_command, sample_check], dt_role = Some ''test'', dt_template_kind = ''custom'',
     dt_template_config = None, dt_data_driven = False, dt_dataset = None\<rparr>"

definition sample_suite :: suite_dto where
  "sample_suite = \<lparr>ds_description = ''suite'', ds_tests = [sample_test], ds_hooks = []\<rparr>"

lemma sample_tables_ok: "tables_ok sample_tables"
  using inj_replicate [of "CHR ''u''"] by (simp add: tables_ok_def sample_tables_def used_ids_def)

lemma sample_request_ok: "suite_request_ok sample_tables sample_suite"
  by (simp add: suite_request_ok_def sample_suite_def sample_test_def orders_ok_def sample_set_command_def sample_check_def
      dataset_known_def stripped_dataset_def text_of_def)

lemma sample_validated: "validate_suite strict_types (\<lambda>_. ''0.5'') sample_tables sample_suite = Inr ()"
  by code_simp

lemma sample_suite_ids: "suite_ids strict_types (\<lambda>_. ''0.5'') sample_suite = [''d1'']"
  by code_simp


section \<open>Any sequence of requests\<close>

datatype suite_request =
    InsertSuite suite_dto
  | UpdateSuite string suite_dto
  | DeleteSuite string
  | AddTest string item_dto
  | UpdateTest string string item_dto
  | ConvertTest string string

fun serve :: "field_types \<Rightarrow> (rat \<Rightarrow> string) \<Rightarrow> suite_tables \<Rightarrow> suite_request \<Rightarrow> suite_tables" where
  "serve pyd txt t (InsertSuite d) = snd (insert_test_suite pyd txt d t)"
| "serve pyd txt t (UpdateSuite s d) = snd (update_test_suite pyd txt s d t)"
| "serve pyd txt t (DeleteSuite s) = snd (delete_test_suite s t)"
| "serve pyd txt t (AddTest s d) = snd (add_test_to_suite pyd txt s d t)"
| "serve pyd txt t (UpdateTest s i d) = snd (update_test_in_suite pyd txt s i d t)"
| "serve pyd txt t (ConvertTest s i) = snd (convert_test_to_custom pyd txt s i t)"

lemma rolled_back_transaction: "rolled_back (transaction m)"
  by (auto simp: rolled_back_def transaction_def split: prod.splits sum.splits)

lemma rolled_back_delete: "rolled_back (delete_test_suite s)"
  by (auto simp: rolled_back_def delete_test_suite_def Let_def split: option.splits)

lemma serve_ok: "tables_ok t \<Longrightarrow> tables_ok (serve pyd txt t r)"
proof (cases r)
  case (InsertSuite d)
  assume "tables_ok t"
  then show ?thesis unfolding InsertSuite serve.simps
    by (intro after_rolled_back [OF after_insert_test_suite]) (simp add: insert_test_suite_def rolled_back_transaction)
next
  case (UpdateSuite s d)
  assume "tables_ok t"
  then show ?thesis unfolding UpdateSuite serve.simps
    by (intro after_rolled_back [OF after_update_suite]) (simp add: update_test_suite_def rolled_back_transaction)
next
  case (DeleteSuite s)
  assume "tables_ok t"
  then show ?thesis unfolding DeleteSuite serve.simps
    by (intro after_rolled_back [OF after_delete_suite rolled_back_delete])
next
  case (AddTest s d)
  assume "tables_ok t"
  then show ?thesis unfolding AddTest serve.simps
    by (intro after_rolled_back [OF after_add_test])
      (simp add: add_test_to_suite_def rolled_back_slift rolled_back_transaction)
next
  case (UpdateTest s i d)
  assume "tables_ok t"
  then show ?thesis unfolding UpdateTest serve.simps
    by (intro after_rolled_back [OF after_update_test])
      (simp add: update_test_in_suite_def rolled_back_slift rolled_back_transaction)
next
  case (ConvertTest s i)
  assume "tables_ok t"
  then show ?thesis unfolding ConvertTest serve.simps
    by (intro after_rolled_back [OF after_convert]) (simp add: convert_test_to_custom_def rolled_back_transaction)
qed



section \<open>A deleted suite\<close>

lemma deleted_keeps:
  assumes "delete_test_suite s t = (Inr u, t')"
  shows "db_definitions t' = db_definitions t" "db_payloads t' = db_payloads t"
    "db_suites t' = filter (\<lambda>r. sr_id r \<noteq> s) (db_suites t)"
  using assms by (auto simp: delete_test_suite_def delete_items_tables Let_def split: option.splits)

lemma suite_request_ok_known: "db_payloads t' = db_payloads t \<Longrightarrow> suite_request_ok t' d = suite_request_ok t d"
  by (simp add: suite_request_ok_def dataset_known_def [abs_def])

lemma inserted_definitions:
  assumes "tables_ok t" and "suite_request_ok t d" and "insert_test_suite pyd txt d t = (Inr i, t')"
  shows "set (suite_ids pyd txt d) \<subseteq> cd_id ` set (db_definitions t')" "db_payloads t' = db_payloads t"
    "i = db_ids t (db_next t)"
    "set (suite_ids pyd txt d) \<inter> cd_id ` {r \<in> set (db_definitions t). cd_suite r \<noteq> Some i} = {}"
proof -
  from assms(3) have valid: "validate_suite pyd txt t d = Inr ()"
    by (auto simp: insert_test_suite_def transaction_def sbind_def split: prod.splits sum.splits)
  then have "\<forall>p \<in> set (placements d). placed_storable t p"
    using validated_storable [OF assms(2)] by (auto simp: validate_suite_def)
  note run = insert_test_suite_rebuild [OF valid this refl]
  define j where "j = db_ids t (db_next t)"
  define u where "u = delete_definitions_of_suite j (inserted_suite txt d t)"
  from assms(3) run obtain x where rebuild: "rebuild_suite_constant_definitions pyd j (inserted_suite txt d t) = (Inr x, t')"
    and i: "i = j"
    by (auto simp: j_def split: prod.splits sum.splits)
  then obtain new where new: "suite_definitions pyd u j = Inr new" "persist_definition_entities new u = (Inr x, t')"
    by (auto simp: rebuild_suite_constant_definitions_def Let_def u_def split: sum.splits)
  have out: "laid_out txt t j d u" using inserted_laid_out [OF assms(1)] by (simp add: u_def j_def)
  have ids: "set (map cd_id new) = set (suite_ids pyd txt d)"
    by (rule mset_eq_setD [OF suite_definitions_ids [OF assms(2) out new(1)]])
  from new(2) have t': "t' = u\<lparr>db_definitions := db_definitions u @ new\<rparr>"
    and fresh: "new \<noteq> [] \<Longrightarrow> set (map cd_id new) \<inter> set (map cd_id (db_definitions u)) = {}"
    by (auto simp: persist_definition_entities_def insert_definitions_def split: if_splits)
  have "{r \<in> set (db_definitions t). cd_suite r \<noteq> Some i} = set (db_definitions u)"
    by (auto simp: u_def delete_definitions_of_suite_def i)
  with fresh ids show "set (suite_ids pyd txt d) \<inter> cd_id ` {r \<in> set (db_definitions t). cd_suite r \<noteq> Some i} = {}"
    by (cases "new = []") auto
  show "set (suite_ids pyd txt d) \<subseteq> cd_id ` set (db_definitions t')" using ids by (auto simp: t')
  show "db_payloads t' = db_payloads t" by (simp add: t' u_def delete_definitions_of_suite_def)
  show "i = db_ids t (db_next t)" by (simp add: i j_def)
qed

text \<open>Deleting a suite does not delete the definitions of its constants: they stay in their table, owned by a
  suite that no longer exists, and because the identifier of a definition is its key, the same suite (an export of it,
  say) cannot be inserted again: the second request raises and stores nothing.
\<close>

theorem deleted_suite_blocks_reinsertion:
  assumes "tables_ok t" and "suite_request_ok t d" and "suite_ids pyd txt d \<noteq> []"
    and "insert_test_suite pyd txt d t = (Inr i, t1)" and "delete_test_suite i t1 = (Inr u, t2)"
  shows "get_suite t2 i = None \<and> set (suite_ids pyd txt d) \<subseteq> cd_id ` set (db_definitions t2) \<and>
    (\<exists>e. insert_test_suite pyd txt d t2 = (Inl e, t2))"
proof -
  note first = inserted_definitions [OF assms(1,2,4)]
  note kept = deleted_keeps [OF assms(5)]
  have "tables_ok t1"
    using after_insert_test_suite [of pyd "txt" d, unfolded after_def, rule_format, OF assms(1,4)] .
  from after_delete_suite [of i, unfolded after_def, rule_format, OF this assms(5)] have ok: "tables_ok t2" .
  have request: "suite_request_ok t2 d" using assms(2) suite_request_ok_known [of t2 t d] kept(2) first(2) by simp
  have stay: "set (suite_ids pyd txt d) \<subseteq> cd_id ` set (db_definitions t2)" using first(1) kept(1) by simp
  have gone: "get_suite t2 i = None"
    by (simp add: get_suite_def find_None_iff kept(3))
  have "\<exists>e. insert_test_suite pyd txt d t2 = (Inl e, t2)"
  proof (cases "insert_test_suite pyd txt d t2")
    case (Pair r t3)
    show ?thesis
    proof (cases r)
      case (Inl e)
      have "rolled_back (insert_test_suite pyd txt d)" by (simp add: insert_test_suite_def rolled_back_transaction)
      with Pair Inl show ?thesis unfolding rolled_back_def by blast
    next
      case (Inr j)
      note again = inserted_definitions [OF ok request Pair [unfolded Inr]]
      have "j \<notin> used_ids t2" using fresh_not_used [OF ok, of "db_next t2"] again(3) by simp
      then have "\<forall>r \<in> set (db_definitions t2). cd_suite r \<noteq> Some j" using tables_okD(8) [OF ok] by blast
      with again(4) stay assms(3) show ?thesis by (cases "suite_ids pyd txt d") auto
    qed
  qed
  with gone stay show ?thesis by blast
qed

lemma sample_deleted:
  "\<exists>t1 t2. insert_test_suite strict_types (\<lambda>_. ''0.5'') sample_suite sample_tables = (Inr ''u'', t1) \<and>
     delete_test_suite ''u'' t1 = (Inr (), t2)"
proof -
  have "case insert_test_suite strict_types (\<lambda>_. ''0.5'') sample_suite sample_tables of
      (Inl _, _) \<Rightarrow> False | (Inr i, t1) \<Rightarrow> i = ''u'' \<and> \<not> isl (fst (delete_test_suite i t1))"
    by code_simp
  then obtain i t1 where one: "insert_test_suite strict_types (\<lambda>_. ''0.5'') sample_suite sample_tables = (Inr i, t1)"
    "i = ''u''" "\<not> isl (fst (delete_test_suite i t1))" by (auto split: prod.splits sum.splits)
  from one(3) obtain x t2 where "delete_test_suite i t1 = (Inr x, t2)" by (rule returned)
  with one(1,2) show ?thesis by (intro exI [of _ t1] exI [of _ t2]) simp
qed

theorem deleted_suite_blocks_reinsertion_witness:
  "\<exists>t2. get_suite t2 ''u'' = None \<and> ''d1'' \<in> cd_id ` set (db_definitions t2) \<and>
    (\<exists>e. insert_test_suite strict_types (\<lambda>_. ''0.5'') sample_suite t2 = (Inl e, t2))"
proof -
  from sample_deleted obtain t1 t2 where runs:
    "insert_test_suite strict_types (\<lambda>_. ''0.5'') sample_suite sample_tables = (Inr ''u'', t1)"
    "delete_test_suite ''u'' t1 = (Inr (), t2)" by blast
  have "suite_ids strict_types (\<lambda>_. ''0.5'') sample_suite \<noteq> []" by (simp add: sample_suite_ids)
  from deleted_suite_blocks_reinsertion [OF sample_tables_ok sample_request_ok this runs]
  show ?thesis by (auto simp: sample_suite_ids)
qed

section \<open>A test of a template\<close>

text \<open>Orders of stored commands: an order that is 0 becomes the position of the row, from 1.\<close>

lemma rebuild_item_first_reference:
  assumes "rebuild_item pyd u s st [] r = Inr x" and "c \<in> set (commands_of_item u (ir_id r))"
    and "\<forall>c \<in> set (commands_of_item u (ir_id r)). 0 \<le> cr_order c" and "cr_order c = 1"
    and "convert_to_config_command_type pyd (cr_cfg c) = Inr cfg"
  shows "definition_refs (cfg_command cfg) = []"
proof (rule ccontr)
  assume "definition_refs (cfg_command cfg) \<noteq> []"
  then obtain ref where ref: "ref \<in> set (definition_refs (cfg_command cfg))" by (cases "definition_refs (cfg_command cfg)") auto
  define raws where "raws = stored_commands u r"
  have mem: "raw \<in> set raws \<longleftrightarrow> (\<exists>j. j < length (commands_of_item u (ir_id r)) \<and>
      raw = stored_command (j, commands_of_item u (ir_id r) ! j))" for raw
  proof
    assume "raw \<in> set raws"
    then obtain jc where jc: "jc \<in> set (enumerate 0 (commands_of_item u (ir_id r)))" "raw = stored_command jc"
      unfolding raws_def stored_commands_def set_map by blast
    from jc(1) have "fst jc < length (commands_of_item u (ir_id r))" "jc = (fst jc, commands_of_item u (ir_id r) ! fst jc)"
      by (simp_all add: in_set_enumerate_eq prod_eq_iff)
    with jc(2) show "\<exists>j. j < length (commands_of_item u (ir_id r)) \<and> raw = stored_command (j, commands_of_item u (ir_id r) ! j)"
      by metis
  next
    assume "\<exists>j. j < length (commands_of_item u (ir_id r)) \<and> raw = stored_command (j, commands_of_item u (ir_id r) ! j)"
    then obtain j where "(j, commands_of_item u (ir_id r) ! j) \<in> set (enumerate 0 (commands_of_item u (ir_id r)))"
      "raw = stored_command (j, commands_of_item u (ir_id r) ! j)" by (auto simp: in_set_enumerate_eq)
    then show "raw \<in> set raws" unfolding raws_def stored_commands_def set_map by blast
  qed
  have order: "0 < or_index (cr_order q) j" if "q \<in> set (commands_of_item u (ir_id r))" for q j
    using assms(3) that by (force simp: or_index_def)
  have plain: "list_all plain_raw raws"
    unfolding list_all_iff
  proof
    fix raw assume "raw \<in> set raws"
    then obtain j where j: "j < length (commands_of_item u (ir_id r))" "raw = stored_command (j, commands_of_item u (ir_id r) ! j)"
      using mem by blast
    with order [of "commands_of_item u (ir_id r) ! j" j] show "plain_raw raw"
      by (auto simp: plain_raw_def stored_command_def)
  qed
  from assms(1) obtain p where "plan_definitions_for_commands pyd (next_ids u) raws st [] = Inr p"
    by (auto simp: rebuild_item_def rbind_Inr_iff raws_def)
  with plan_plain [OF plain] obtain inputs where plan: "plan_inputs pyd st inputs [] = Inr p"
    and inputs: "map anon_input inputs = map raw_input raws" by metis
  have input: "ci \<in> set inputs \<Longrightarrow> \<exists>raw \<in> set raws. anon_input ci = raw_input raw" for ci
    using arg_cong [OF inputs, of set] by (auto simp: set_map)
  have positive: "1 \<le> ci_order ci" if "ci \<in> set inputs" for ci
  proof -
    from input [OF that] obtain raw where raw: "raw \<in> set raws" "anon_input ci = raw_input raw" by blast
    from iffD1 [OF mem raw(1)] raw(2) obtain j where "j < length (commands_of_item u (ir_id r))"
      "anon_input ci = raw_input (stored_command (j, commands_of_item u (ir_id r) ! j))" by metis
    moreover from arg_cong [OF this(2), of ci_order] have "ci_order ci = or_index (cr_order (commands_of_item u (ir_id r) ! j)) j"
      by (simp add: raw_input_def stored_command_def jget_Cons)
    ultimately show ?thesis using order [of "commands_of_item u (ir_id r) ! j" j] by simp
  qed
  from assms(2) obtain j where j: "j < length (commands_of_item u (ir_id r))" "c = commands_of_item u (ir_id r) ! j"
    by (auto simp: in_set_conv_nth)
  then have "stored_command (j, c) \<in> set raws" using mem by blast
  then have "raw_input (stored_command (j, c)) \<in> set (map anon_input inputs)" by (simp add: inputs)
  then obtain ci where ci: "ci \<in> set inputs" "anon_input ci = raw_input (stored_command (j, c))" by auto
  from arg_cong [OF ci(2), of ci_order] arg_cong [OF ci(2), of ci_cfg]
  have "ci_order ci = 1" "ci_cfg ci = cr_cfg c"
    by (simp_all add: raw_input_def stored_command_def jget_Cons or_index_def assms(4))
  with reference_needs_smaller_order [OF plan ci(1) _ ref] assms(5) positive show False by force
qed

lemma command_rows_mem:
  "c \<in> set cs \<Longrightarrow> \<exists>i. command_row_of txt i item c \<in> set (command_rows txt ids n item cs)"
  by (induction cs arbitrary: n) auto

lemma command_rows_from:
  "r \<in> set (command_rows txt ids n item cs) \<Longrightarrow> \<exists>c \<in> set cs. \<exists>i. r = command_row_of txt i item c"
  by (induction cs arbitrary: n) auto

lemma command_row_simps [simp]:
  "cr_order (command_row_of txt i item c) = ic_order c" "cr_cfg (command_row_of txt i item c) = command_payload txt c"
  "cr_item (command_row_of txt i item c) = item"
  by (simp_all add: command_row_of_def)

lemma mapM_Inr_mem: "mapM f xs = Inr ys \<Longrightarrow> x \<in> set xs \<Longrightarrow> \<exists>y. f x = Inr y"
  by (induction xs arbitrary: ys) (auto simp: rbind_Inr_iff)

text \<open>An added test: its row and its commands.\<close>

lemma added_item:
  assumes "tables_ok t" and "placed_storable t (d, pos, cs)" and "i = db_ids t (db_next t)"
    and "u = delete_definitions_of_suite s (add_rows (placed_rows txt (db_ids t) (db_next t) s [(d, pos, cs)]) k t)"
  shows "items_of_suite u s = sort_key item_order (filter (\<lambda>r. ir_suite r = s) (db_items t) @ [build_suite_item_entity i s d pos])"
    and "set (commands_of_item u i) = set (command_rows txt (db_ids t) (Suc (db_next t)) i cs)"
proof -
  have "i \<notin> used_ids t" using fresh_not_used [OF assms(1), of "db_next t"] by (simp add: assms(3))
  then have "\<forall>c \<in> set (db_commands t). cr_item c \<noteq> i" using tables_okD(7) [OF assms(1)] by metis
  moreover have "\<forall>r \<in> set (command_rows txt (db_ids t) (Suc (db_next t)) i cs). cr_item r = i"
    by (auto dest: command_rows_from)
  ultimately show "set (commands_of_item u i) = set (command_rows txt (db_ids t) (Suc (db_next t)) i cs)"
    by (auto simp: commands_of_item_def assms(3,4) delete_definitions_of_suite_def)
  show "items_of_suite u s = sort_key item_order (filter (\<lambda>r. ir_suite r = s) (db_items t) @ [build_suite_item_entity i s d pos])"
    by (simp add: items_of_suite_def assms(3,4) delete_definitions_of_suite_def build_suite_item_entity_def)
qed

lemma no_before_hooks:
  assumes "\<forall>r \<in> set items. row_phase r \<noteq> p" and "p \<noteq> []"
  shows "dict_get (hook_rows items) p = None"
proof -
  have "find (\<lambda>r. row_phase r = p) (rev (filter (\<lambda>r. row_phase r \<noteq> []) items)) = None"
    using assms by (auto simp: find_None_iff)
  then show ?thesis by (simp add: hook_rows_def dict_get_last [of row_phase "\<lambda>r. r"])
qed

lemma added_test_rebuilt:
  assumes "tables_ok t" and "dt_phase d = None"
    and "\<forall>r \<in> set (items_of_suite t s). row_phase r \<noteq> ''before-all'' \<and> row_phase r \<noteq> ''before-each''"
    and "add_test_to_suite pyd txt s d t = (Inr j, t')"
  obtains cs u r x where "resolve_template_commands d = Inr cs" and "rebuild_item pyd u s ''test'' [] r = Inr x"
    and "\<And>c. c \<in> set cs \<Longrightarrow> \<exists>k. command_row_of txt k (ir_id r) c \<in> set (commands_of_item u (ir_id r))"
    and "\<And>q. q \<in> set (commands_of_item u (ir_id r)) \<Longrightarrow> cr_order q \<in> ic_order ` set cs"
proof -
  from assms(4) obtain cs where cs: "resolve_template_commands d = Inr cs"
    and run: "transaction (sbind (\<lambda>t. if get_suite t s = None then (Inl (no_suite s), t) else (Inr (next_position t s), t)) (\<lambda>position.
        sbind (insert_suite_item txt s d position cs) (\<lambda>i.
        sbind (rebuild_suite_constant_definitions pyd s) (\<lambda>_. read_item i)))) t = (Inr j, t')"
    by (cases "resolve_template_commands d") (auto simp: add_test_to_suite_def sbind_def slift_def)
  define pos where "pos = next_position t s"
  define i where "i = db_ids t (db_next t)"
  from run obtain i' t1 where inserted: "insert_suite_item txt s d pos cs t = (Inr i', t1)"
    and rebuilt: "\<exists>x t2. rebuild_suite_constant_definitions pyd s t1 = (Inr x, t2)"
    by (auto simp: transaction_def sbind_def pos_def split: prod.splits sum.splits if_splits)
  note storable = insert_suite_item_storable [OF inserted]
  define u where "u = delete_definitions_of_suite s (add_rows (placed_rows txt (db_ids t) (db_next t) s [(d, pos, cs)]) (Suc (length cs)) t)"
  from rebuilt inserted insert_suite_item_eq [OF storable] obtain new where new: "suite_definitions pyd u s = Inr new"
    by (auto simp: rebuild_suite_constant_definitions_def Let_def u_def split: sum.splits)
  note added = added_item [OF assms(1) storable i_def u_def]
  define r where "r = build_suite_item_entity i s d pos"
  have phase: "row_phase r = []" by (simp add: r_def assms(2) text_of_def)
  have items: "set (items_of_suite u s) = insert r (set (items_of_suite t s))"
    unfolding added(1) by (auto simp: r_def items_of_suite_def)
  then have "\<forall>q \<in> set (items_of_suite u s). row_phase q \<noteq> ''before-all'' \<and> row_phase q \<noteq> ''before-each''"
    using assms(3) phase by auto
  then have "dict_get (hook_rows (items_of_suite u s)) ''before-all'' = None"
    "dict_get (hook_rows (items_of_suite u s)) ''before-each'' = None"
    by (auto intro!: no_before_hooks)
  with new obtain ps where ps: "mapM (rebuild_item pyd u s ''test'' []) (test_rows (items_of_suite u s)) = Inr ps"
    by (auto simp: suite_definitions_def Let_def rebuild_hook_def rbind_Inr_iff rebuild_tests_def)
  have "r \<in> set (test_rows (items_of_suite u s))" using items phase by (auto simp: test_rows_def)
  from mapM_Inr_mem [OF ps this] obtain x where x: "rebuild_item pyd u s ''test'' [] r = Inr x" ..
  have id: "ir_id r = i" by (simp add: r_def build_suite_item_entity_def)
  show ?thesis
    by (rule that [OF cs x]) (use command_rows_mem command_rows_from added(2) in \<open>fastforce simp: id\<close>)+
qed

lemma send_verify_resolved:
  assumes "dt_template_kind d = ''send_verify''" and "resolve_template_commands d = Inr cs"
  obtains q c where "c \<in> set cs" and "ic_order c = 1" and "py_strip q \<noteq> []" and "0 \<le> Min (ic_order ` set cs)"
    and "ic_cfg c = Some \<lparr>cfg_type = ''action'', cfg_command = SendMessageQueue
      \<lparr>sm_queue = q, sm_input = RuntimeValue ''tpl_sv_payload'', sm_template = None, sm_result = None\<rparr>\<rparr>"
proof -
  have "is_supported ''send_verify''" "or_text ''send_verify'' ''custom'' = ''send_verify''" by code_simp+
  with assms obtain config where "app_errors (generate_commands ''send_verify'' config) = Inr cs"
    by (auto simp: resolve_template_commands_def Let_def)
  then have "send_verify (fields_of config) = Inr cs"
    by (auto simp: app_errors_def generate_commands_def get_template_def template_table_def dict_get_Cons
        split: sum.splits py_error.splits)
  then obtain sv q more where q: "q \<noteq> []" "token (jget (fields_of config) ''queue_id'') = q"
    and shape: "cs = wrap 0 ''Materialize inline JSON payload'' ''context'' (SetVariable sv)
      # wrap 1 (''Send message to queue '' @ quoted q) ''action''
          (SendMessageQueue \<lparr>sm_queue = q, sm_input = RuntimeValue ''tpl_sv_payload'', sm_template = None, sm_result = None\<rparr>)
      # more" and orders: "map ic_order cs = map int [0..<length cs]" by (rule send_verify_shape)
  have "set (map ic_order cs) \<subseteq> {0..}" unfolding orders by auto
  then have "0 \<le> Min (ic_order ` set cs)" using shape by (subst Min_ge_iff) auto
  moreover have "py_strip q \<noteq> []" using q by (auto simp: token_def)
  moreover define c where "c = wrap 1 (''Send message to queue '' @ quoted q) ''action''
          (SendMessageQueue \<lparr>sm_queue = q, sm_input = RuntimeValue ''tpl_sv_payload'', sm_template = None, sm_result = None\<rparr>)"
  moreover have "c \<in> set cs" by (simp add: shape c_def)
  ultimately show ?thesis
    using that [of c q] by (simp add: wrap_def)
qed

text \<open>A test made from the \<open>send_verify\<close> template can never be saved in a suite without hooks that run before its
  tests: whatever its configuration, the endpoint raises and stores nothing. The generator numbers its commands from 0,
  the rebuild takes an order of 0 for a missing one and counts from 1, so that the command that materialises the
  payload and the one that sends it share an order, and the reference of the second is not visible.
\<close>

theorem send_verify_never_saved:
  assumes "tables_ok t" and "field_types_ok pyd" and "dt_template_kind d = ''send_verify''" and "dt_phase d = None"
    and "\<forall>r \<in> set (items_of_suite t s). row_phase r \<noteq> ''before-all'' \<and> row_phase r \<noteq> ''before-each''"
  shows "\<exists>e. add_test_to_suite pyd txt s d t = (Inl e, t)"
proof (cases "add_test_to_suite pyd txt s d t")
  case (Pair result t')
  show ?thesis
  proof (cases result)
    case (Inl e)
    have "rolled_back (add_test_to_suite pyd txt s d)"
      by (simp add: add_test_to_suite_def rolled_back_slift rolled_back_transaction)
    with Pair Inl show ?thesis unfolding rolled_back_def by blast
  next
    case (Inr j)
    from added_test_rebuilt [OF assms(1,4,5) Pair [unfolded Inr]] obtain cs u r x where
      cs: "resolve_template_commands d = Inr cs" and x: "rebuild_item pyd u s ''test'' [] r = Inr x"
      and rows: "\<And>c. c \<in> set cs \<Longrightarrow> \<exists>k. command_row_of txt k (ir_id r) c \<in> set (commands_of_item u (ir_id r))"
      and orders: "\<And>q. q \<in> set (commands_of_item u (ir_id r)) \<Longrightarrow> cr_order q \<in> ic_order ` set cs" by blast
    from send_verify_resolved [OF assms(3) cs] obtain q c where c: "c \<in> set cs" "ic_order c = 1" "py_strip q \<noteq> []"
      and least: "0 \<le> Min (ic_order ` set cs)" and cfg: "ic_cfg c = Some \<lparr>cfg_type = ''action'', cfg_command = SendMessageQueue
      \<lparr>sm_queue = q, sm_input = RuntimeValue ''tpl_sv_payload'', sm_template = None, sm_result = None\<rparr>\<rparr>" by blast
    from rows [OF c(1)] obtain k where row: "command_row_of txt k (ir_id r) c \<in> set (commands_of_item u (ir_id r))" ..
    have "\<forall>q \<in> set (commands_of_item u (ir_id r)). 0 \<le> cr_order q"
      using orders least c(1) by (metis List.finite_set Min_le finite_imageI order_trans)
    moreover have "convert_to_config_command_type pyd (cr_cfg (command_row_of txt k (ir_id r) c)) = Inr \<lparr>cfg_type = ''action'',
        cfg_command = SendMessageQueue \<lparr>sm_queue = q, sm_input = RuntimeValue ''tpl_sv_payload'', sm_template = None, sm_result = None\<rparr>\<rparr>"
      using stored_send_converts [OF assms(2) c(3)] by (simp add: command_payload_def cfg)
    ultimately show ?thesis
      using rebuild_item_first_reference [OF x row] c(2) by (simp add: runtime_ref_def)
  qed
qed

definition send_verify_test :: item_dto where
  "send_verify_test = sample_test\<lparr>dt_commands := [], dt_template_kind := ''send_verify'',
     dt_template_config := Some (fields_of sample_template_config)\<rparr>"

theorem send_verify_never_saved_witness:
  "\<exists>e. add_test_to_suite strict_types (\<lambda>_. ''0.5'') ''u'' send_verify_test sample_tables = (Inl e, sample_tables)"
  by (rule send_verify_never_saved [OF sample_tables_ok strict_types_ok])
    (simp_all add: send_verify_test_def sample_test_def items_of_suite_def sample_tables_def)

section \<open>Conversion to a custom test\<close>

text \<open>What the steps of a conversion do to the rows of items.\<close>

abbreviation items_are :: "item_record list \<Rightarrow> suite_tables \<Rightarrow> bool" where
  "items_are rows t \<equiv> db_items t = rows"

lemma after_operations_items: "after (items_are rows) (insert_suite_item_operations txt i cs) (\<lambda>_. items_are rows)"
proof (induction cs)
  case Nil
  show ?case by (simp add: after_spure)
next
  case (Cons c cs)
  have "after (items_are rows) (insert_operation txt i c) (\<lambda>_. items_are rows)"
    by (auto simp: after_def insert_operation_def new_row_id_def sbind_def slift_def split: sum.splits)
  then show ?case by (simp add: after_sbind [OF _ Cons.IH])
qed

lemma after_rebuild_items: "after (items_are rows) (rebuild_suite_constant_definitions pyd s) (\<lambda>_. items_are rows)"
  unfolding after_def using rebuild_tables by fastforce

lemma after_flush_items:
  assumes "find (\<lambda>q. ir_id q = i) rows = Some r"
  shows "after (items_are rows) (flush_item i f) (\<lambda>_. items_are (map (\<lambda>q. if ir_id q = i then f q else q) rows))"
  using assms
  by (auto simp: after_def flush_item_def get_item_def update_item_def split: option.splits if_splits)

lemma find_updated:
  assumes "find (\<lambda>q. ir_id q = i) rows = Some r" and "\<And>q. ir_id (f q) = ir_id q"
  shows "find (\<lambda>q. ir_id q = i) (map (\<lambda>q. if ir_id q = i then f q else q) rows) = Some (f r)"
  using assms(1) by (induction rows) (auto simp: assms(2) split: if_splits)

text \<open>Converting a test to a custom one replaces its kind and its commands but keeps its old template configuration:
  the endpoint passes None for it, and the update of an entity skips the fields whose new value is None.
\<close>

theorem conversion_keeps_template_config:
  assumes "get_item t i = Some r" and "is_supported (or_text (ir_template_kind r) ''custom'')"
    and "or_text (ir_template_kind r) ''custom'' \<noteq> ''custom''"
    and "convert_test_to_custom pyd txt s i t = (Inr j, t')"
  shows "\<exists>r'. get_item t' i = Some r' \<and> ir_template_kind r' = ''custom'' \<and> ir_template_config r' = ir_template_config r"
proof -
  define rows where "rows = db_items t"
  have row: "find (\<lambda>q. ir_id q = i) rows = Some r" using assms(1) by (simp add: rows_def get_item_def)
  then have id: "ir_id r = i" by (auto dest: find_Some_memD)
  define f where "f q = q\<lparr>ir_template_kind := ''custom'', ir_template_config := update_option None (ir_template_config q)\<rparr>" for q :: item_record
  define rows' where "rows' = map (\<lambda>q. if ir_id q = i then f q else q) rows"
  have change: "after (items_are rows) (sbind (\<lambda>t. (Inr (), delete_commands_of_item i t)) (\<lambda>_.
        sbind (insert_suite_item_operations txt i cs) (\<lambda>_.
        sbind (flush_item i f) (\<lambda>_. rebuild_suite_constant_definitions pyd s)))) (\<lambda>_. items_are rows')" for cs
    unfolding rows'_def
    by (rule after_sbind [where R = "\<lambda>_. items_are rows"], simp add: after_def delete_commands_of_item_def,
        rule after_sbind [OF after_operations_items], rule after_sbind [OF after_flush_items [OF row]], rule after_rebuild_items)
  have item: "after (items_are rows) (convert_item pyd txt s r) (\<lambda>_. items_are rows')"
    using assms(2,3)
    unfolding convert_item_def Let_def id by (auto intro!: after_sbind [OF after_slift change [unfolded f_def]])
  have "existing_item s i t = (Inr r, t)"
    using assms(1,4) by (cases "ir_suite r = s") (simp_all add: convert_test_to_custom_def transaction_def sbind_def existing_item_def)
  note run = assms(4) [unfolded convert_test_to_custom_def transaction_def sbind_def this]
  obtain x t1 where converted: "convert_item pyd txt s r t = (x, t1)" by (cases "convert_item pyd txt s r t")
  have read: "read_item i t1 = (Inr j, t')" "x = Inr ()"
    using run by (cases x; simp add: converted split: prod.splits sum.splits)+
  then have "t1 = t'" by (simp add: read_item_def split: option.splits)
  with converted read(2) have "convert_item pyd txt s r t = (Inr (), t')" by simp
  from item [unfolded after_def rows_def, rule_format, OF refl this] have "db_items t' = rows'" .
  then have "get_item t' i = Some (f r)"
    using find_updated [OF row, of f] by (simp add: get_item_def rows'_def f_def)
  then show ?thesis by (simp add: f_def update_option_def)
qed

definition mock_assert_config :: "json dict" where
  "mock_assert_config = [(''wait_ms'', JInt 100),
     (''asserts'', JList [JObj [(''target'', JStr ''queue''), (''queue_id'', JStr ''replies''), (''operator'', JStr ''exists'')]])]"

definition template_row :: item_record where
  "template_row = \<lparr>ir_id = ''i'', ir_suite = ''s'', ir_kind = ''test'', ir_phase = None, ir_description = [], ir_sources = [],
     ir_position = 1, ir_on_failure = ''ABORT'', ir_role = ''test'', ir_template_kind = ''mock_assert'',
     ir_template_config = Some mock_assert_config, ir_data_driven = False, ir_dataset = None\<rparr>"

definition template_tables :: suite_tables where
  "template_tables = sample_tables\<lparr>db_suites := [\<lparr>sr_id = ''s'', sr_description = []\<rparr>], db_items := [template_row]\<rparr>"

theorem conversion_keeps_template_config_witness:
  "\<exists>t' r'. get_item t' ''i'' = Some r' \<and> ir_template_kind r' = ''custom'' \<and> ir_template_config r' = Some mock_assert_config"
proof -
  have "\<not> isl (fst (convert_test_to_custom strict_types (\<lambda>_. ''0.5'') ''s'' ''i'' template_tables))" by code_simp
  then obtain j t' where run: "convert_test_to_custom strict_types (\<lambda>_. ''0.5'') ''s'' ''i'' template_tables = (Inr j, t')"
    by (rule returned)
  have "is_supported (or_text (ir_template_kind template_row) ''custom'')" "or_text (ir_template_kind template_row) ''custom'' \<noteq> ''custom''"
    by code_simp+
  from conversion_keeps_template_config [OF _ this run] show ?thesis
    by (simp add: get_item_def template_tables_def template_row_def) blast
qed

end
