(* ===== verification/MockServerStore.thy ===== *)
theory MockServerStore
  imports ConstantDefinitions MockRegistry
begin

text \<open>
  Creating, reading, changing and deleting mock servers: the requests
  (\<open>app/mock_servers/models/dtos/mock_server_dto.py\<close>), the tables behind the services of
  \<open>app/mock_servers/services/alembic\<close>, \<open>mock_server_payload_service.py\<close>, and the endpoints of
  \<open>mock_server_api.py\<close>, which also start and stop the running servers.
\<close>

section \<open>Requests\<close>

text \<open>The fields as pydantic types them; the validators below run on them.\<close>

record api_cfg =
  ag_method :: string
  ag_path :: string
  ag_params :: "json dict option"
  ag_auth_mode :: "string option"
  ag_authorization :: "json dict option"
  ag_headers :: "json dict option"
  ag_body :: json
  ag_body_match :: "string option"
  ag_response :: "json dict option"
  ag_status :: int
  ag_response_headers :: "json dict option"
  ag_response_body :: json
  ag_pre :: "json dict list option"
  ag_post :: "json dict list option"
  ag_priority :: int

record operation_dto =
  od_order :: int
  od_description :: string
  od_cfg :: config

record api_dto =
  ad_order :: int
  ad_description :: string
  ad_cfg :: api_cfg
  ad_commands :: "operation_dto list"

record queue_dto =
  qd_order :: int
  qd_description :: string
  qd_queue :: string
  qd_interval :: int
  qd_max :: int
  qd_commands :: "operation_dto list"

record server_dto =
  vd_description :: string
  vd_endpoint :: string
  vd_authorization :: "json dict option"
  vd_apis :: "api_dto list"
  vd_queues :: "queue_dto list"
  vd_active :: bool

definition validate_endpoint :: "string \<Rightarrow> string result" where
  "validate_endpoint endpoint =
     (let v = strip_char (CHR ''/'') (py_strip endpoint) in
      if v = [] then Inl (ValueError ''endpoint is required.'') else Inr (py_lower v))"

definition http_methods :: "string list" where
  "http_methods = [''GET'', ''POST'', ''PUT'', ''DELETE'', ''PATCH'', ''HEAD'', ''OPTIONS'']"

definition validate_status :: "api_cfg \<Rightarrow> int result" where
  "validate_status c =
     (let response = (case ag_response c of None \<Rightarrow> [] | Some d \<Rightarrow> d);
          v = (case dict_get response ''status'' of Some v \<Rightarrow> v | None \<Rightarrow> JInt (ag_status c)) in
      if is_obj v then Inr 200
      else rbind (py_int (json_or v (JInt 200))) (\<lambda>n. Inr (max n 100)))"

definition validate_api_cfg :: "api_cfg \<Rightarrow> api_cfg result" where
  "validate_api_cfg c =
     (let verb = py_upper (py_strip (ag_method c));
          mode = py_strip (or_text (text_of (ag_auth_mode c)) ''inherit'');
          match = py_lower (py_strip (or_text (text_of (ag_body_match c)) ''contains'')) in
      rbind (require (verb \<in> set http_methods) (ValueError (''Unsupported method '' @ quoted verb @ ''.''))) (\<lambda>_.
      rbind (require (mode \<in> {''inherit'', ''none'', ''custom''})
        (ValueError (''authMode must be '' @ quoted ''inherit'' @ '', '' @ quoted ''none'' @ '' or '' @ quoted ''custom'' @ ''.''))) (\<lambda>_.
      rbind (require (match \<in> {''contains'', ''equals''}) (ValueError (''body_match must be '' @ quoted ''contains'' @ '' or '' @ quoted ''equals'' @ ''.''))) (\<lambda>_.
      rbind (validate_status c) (\<lambda>status.
        Inr (c\<lparr>ag_method := verb, ag_path := normalize_path (ag_path c), ag_auth_mode := Some mode,
               ag_body_match := Some match, ag_status := status\<rparr>))))))"

definition validate_queue_cfg :: "queue_dto \<Rightarrow> queue_dto" where
  "validate_queue_cfg q =
     q\<lparr>qd_interval := max (if qd_interval q = 0 then 1 else qd_interval q) 1,
       qd_max := max (min (if qd_max q = 0 then 10 else qd_max q) 10) 1\<rparr>"

definition validate_server_dto :: "server_dto \<Rightarrow> server_dto result" where
  "validate_server_dto d =
     rbind (validate_endpoint (vd_endpoint d)) (\<lambda>endpoint.
     rbind (mapM (\<lambda>a. rbind (validate_api_cfg (ad_cfg a)) (\<lambda>c. Inr (a\<lparr>ad_cfg := c\<rparr>))) (vd_apis d)) (\<lambda>apis.
       Inr (d\<lparr>vd_endpoint := endpoint, vd_apis := apis, vd_queues := map validate_queue_cfg (vd_queues d)\<rparr>)))"

text \<open>\<open>model_dump\<close>.\<close>

definition dump_dict :: "json dict option \<Rightarrow> json" where
  "dump_dict d = (case d of None \<Rightarrow> JNull | Some d \<Rightarrow> JObj d)"

definition dump_dicts :: "json dict list option \<Rightarrow> json" where
  "dump_dicts d = (case d of None \<Rightarrow> JNull | Some ds \<Rightarrow> JList (map JObj ds))"

definition dump_api_cfg :: "api_cfg \<Rightarrow> json dict" where
  "dump_api_cfg c =
     [(''method'', JStr (ag_method c)), (''path'', JStr (ag_path c)), (''params'', dump_dict (ag_params c)),
      (''authMode'', dump_text (ag_auth_mode c)), (''authorization'', dump_dict (ag_authorization c)),
      (''headers'', dump_dict (ag_headers c)), (''body'', ag_body c), (''body_match'', dump_text (ag_body_match c)),
      (''response'', dump_dict (ag_response c)), (''response_status'', JInt (ag_status c)),
      (''response_headers'', dump_dict (ag_response_headers c)), (''response_body'', ag_response_body c),
      (''pre_response_commands'', dump_dicts (ag_pre c)), (''post_response_commands'', dump_dicts (ag_post c)),
      (''priority'', JInt (ag_priority c))]"

definition dump_server_cfg :: "server_dto \<Rightarrow> json dict" where
  "dump_server_cfg d = [(''endpoint'', JStr (vd_endpoint d)), (''authorization'', dump_dict (vd_authorization d))]"

definition dump_queue_cfg :: "queue_dto \<Rightarrow> json dict" where
  "dump_queue_cfg q = [(''polling_interval_seconds'', JInt (qd_interval q)), (''max_messages'', JInt (qd_max q))]"

section \<open>Tables\<close>

record server_record =
  ms_id :: string
  ms_description :: string
  ms_endpoint :: string
  ms_cfg :: "json dict"
  ms_active :: bool

record api_record =
  ma_id :: string
  ma_server :: string
  ma_description :: string
  ma_order :: int
  ma_method :: string
  ma_path :: string
  ma_cfg :: "json dict"

record queue_record =
  mb_id :: string
  mb_server :: string
  mb_queue :: string
  mb_description :: string
  mb_order :: int
  mb_cfg :: "json dict"

text \<open>A command of an API or of a queue.\<close>

record operation_record =
  mo_id :: string
  mo_owner :: string
  mo_description :: string
  mo_code :: string
  mo_type :: string
  mo_cfg :: "json dict"
  mo_order :: int

record mock_tables =
  mt_servers :: "server_record list"
  mt_apis :: "api_record list"
  mt_queues :: "queue_record list"
  mt_api_commands :: "operation_record list"
  mt_queue_commands :: "operation_record list"
  mt_definitions :: "constant_row list"
  mt_broker_queues :: "string list"
  mt_ids :: "nat \<Rightarrow> string"
  mt_next :: nat
  mt_tie :: "string \<Rightarrow> nat"

definition fresh_mock_id :: "(mock_tables, string) call" where
  "fresh_mock_id t = (Inr (mt_ids t (mt_next t)), t\<lparr>mt_next := mt_next t + 1\<rparr>)"

text \<open>The queries.\<close>

definition get_server :: "mock_tables \<Rightarrow> string \<Rightarrow> server_record option" where
  "get_server t i = find (\<lambda>r. ms_id r = i) (mt_servers t)"

definition server_by_endpoint :: "mock_tables \<Rightarrow> string \<Rightarrow> server_record option" where
  "server_by_endpoint t endpoint = find (\<lambda>r. ms_endpoint r = py_lower (py_strip endpoint)) (mt_servers t)"

definition all_servers :: "mock_tables \<Rightarrow> server_record list" where
  "all_servers t = sort_key (\<lambda>r. (ms_description r, ms_id r)) (mt_servers t)"

definition active_servers :: "mock_tables \<Rightarrow> server_record list" where
  "active_servers t = filter ms_active (all_servers t)"

definition apis_of_server :: "mock_tables \<Rightarrow> string \<Rightarrow> api_record list" where
  "apis_of_server t i =
     sort_key (\<lambda>r. (ma_order r, mt_tie t (ma_id r))) (filter (\<lambda>r. ma_server r = i) (mt_apis t))"

definition queues_of_server :: "mock_tables \<Rightarrow> string \<Rightarrow> queue_record list" where
  "queues_of_server t i =
     sort_key (\<lambda>r. (mb_order r, mt_tie t (mb_id r))) (filter (\<lambda>r. mb_server r = i) (mt_queues t))"

definition operations_of :: "mock_tables \<Rightarrow> operation_record list \<Rightarrow> string \<Rightarrow> operation_record list" where
  "operations_of t rows i = sort_key (\<lambda>r. (mo_order r, mt_tie t (mo_id r))) (filter (\<lambda>r. mo_owner r = i) rows)"

text \<open>A server with its rows, as the loader and the rebuild of the definitions read it.\<close>

definition operation_view :: "operation_record \<Rightarrow> command_entity" where
  "operation_view r =
     \<lparr>ce_id = mo_id r, ce_description = mo_description r, ce_code = mo_code r, ce_type = mo_type r,
      ce_cfg = JObj (mo_cfg r), ce_order = mo_order r\<rparr>"

definition api_view :: "mock_tables \<Rightarrow> api_record \<Rightarrow> api_entity" where
  "api_view t r =
     \<lparr>ae_id = ma_id r, ae_description = ma_description r, ae_order = ma_order r, ae_method = ma_method r,
      ae_path = ma_path r, ae_cfg = JObj (ma_cfg r),
      ae_commands = map operation_view (operations_of t (mt_api_commands t) (ma_id r))\<rparr>"

definition queue_view :: "mock_tables \<Rightarrow> queue_record \<Rightarrow> queue_entity" where
  "queue_view t r =
     \<lparr>qe_id = mb_id r, qe_description = mb_description r, qe_order = mb_order r, qe_queue = mb_queue r,
      qe_cfg = JObj (mb_cfg r),
      qe_commands = map operation_view (operations_of t (mt_queue_commands t) (mb_id r))\<rparr>"

definition server_view :: "mock_tables \<Rightarrow> server_record \<Rightarrow> server_entity" where
  "server_view t r =
     \<lparr>ve_id = ms_id r, ve_description = ms_description r, ve_endpoint = ms_endpoint r, ve_active = ms_active r,
      ve_apis = map (api_view t) (apis_of_server t (ms_id r)),
      ve_queues = map (queue_view t) (queues_of_server t (ms_id r))\<rparr>"

section \<open>Identifiers of inline commands and the graph of a server\<close>

text \<open>\<open>ensure_command_id\<close> writes the identifier it makes into the command.\<close>

definition with_command_id :: "json dict \<Rightarrow> (mock_tables, json dict) call" where
  "with_command_id raw =
     (if token (jget raw ''id'') \<noteq> [] then spure raw
      else sbind fresh_mock_id (\<lambda>i. spure (dict_set ''id'' (JStr i) raw)))"

primrec each_call :: "('a \<Rightarrow> ('s, 'b) call) \<Rightarrow> 'a list \<Rightarrow> ('s, 'b list) call" where
  "each_call f [] = spure []"
| "each_call f (x # xs) = sbind (f x) (\<lambda>y. sbind (each_call f xs) (\<lambda>ys. spure (y # ys)))"

definition api_with_ids :: "api_dto \<Rightarrow> (mock_tables, api_dto) call" where
  "api_with_ids a =
     (case ag_pre (ad_cfg a) of
        None \<Rightarrow> spure a
      | Some raws \<Rightarrow> sbind (each_call with_command_id raws) (\<lambda>raws'.
          spure (a\<lparr>ad_cfg := (ad_cfg a)\<lparr>ag_pre := Some raws'\<rparr>\<rparr>)))"

definition ensure_inline_command_ids :: "server_dto \<Rightarrow> (mock_tables, server_dto) call" where
  "ensure_inline_command_ids d = sbind (each_call api_with_ids (vd_apis d)) (\<lambda>apis. spure (d\<lparr>vd_apis := apis\<rparr>))"

definition requested_command :: "(rat \<Rightarrow> string) \<Rightarrow> (nat \<Rightarrow> string) \<Rightarrow> nat \<times> operation_dto \<Rightarrow> json dict" where
  "requested_command txt new_id io =
     [(''id'', JStr (new_id (fst io))), (''order'', JInt (or_index (od_order (snd io)) (fst io))),
      (''cfg'', JObj (dump_config txt (od_cfg (snd io))))]"

definition validate_commands ::
  "field_types \<Rightarrow> (rat \<Rightarrow> string) \<Rightarrow> (nat \<Rightarrow> string) \<Rightarrow> string \<Rightarrow> operation_dto list \<Rightarrow> unit result" where
  "validate_commands pyd txt new_id st ops =
     rbind (plan_definitions_for_commands pyd new_id (map (requested_command txt new_id) (enumerate 0 ops)) st [])
       (\<lambda>_. Inr ())"

definition validate_api_graph ::
  "field_types \<Rightarrow> (rat \<Rightarrow> string) \<Rightarrow> (nat \<Rightarrow> string) \<Rightarrow> api_dto \<Rightarrow> unit result" where
  "validate_api_graph pyd txt new_id a =
     rbind (plan_definitions_for_commands pyd new_id (case ag_pre (ad_cfg a) of None \<Rightarrow> [] | Some raws \<Rightarrow> raws)
       ''mock.preResponse'' []) (\<lambda>_. validate_commands pyd txt new_id ''mock.postResponse'' (ad_commands a))"

definition validate_mock_server_constant_graph ::
  "field_types \<Rightarrow> (rat \<Rightarrow> string) \<Rightarrow> (nat \<Rightarrow> string) \<Rightarrow> server_dto \<Rightarrow> unit result" where
  "validate_mock_server_constant_graph pyd txt new_id d =
     rbind (foldM (\<lambda>_. validate_api_graph pyd txt new_id) () (vd_apis d)) (\<lambda>_.
       foldM (\<lambda>_ q. validate_commands pyd txt new_id ''mock.queue'' (qd_commands q)) () (vd_queues d))"

section \<open>Insertion, update and deletion\<close>

definition build_mock_server_entity :: "string \<Rightarrow> server_dto \<Rightarrow> server_record" where
  "build_mock_server_entity new_id d =
     \<lparr>ms_id = new_id, ms_description = vd_description d, ms_endpoint = py_lower (py_strip (vd_endpoint d)),
      ms_cfg = dump_server_cfg d, ms_active = vd_active d\<rparr>"

definition build_api_entity :: "string \<Rightarrow> string \<Rightarrow> api_dto \<Rightarrow> api_record" where
  "build_api_entity new_id server a =
     \<lparr>ma_id = new_id, ma_server = server, ma_description = ad_description a, ma_order = ad_order a,
      ma_method = py_upper (py_strip (ag_method (ad_cfg a))), ma_path = py_strip (ag_path (ad_cfg a)),
      ma_cfg = dump_api_cfg (ad_cfg a)\<rparr>"

definition build_queue_entity :: "string \<Rightarrow> string \<Rightarrow> queue_dto \<Rightarrow> queue_record" where
  "build_queue_entity new_id server q =
     \<lparr>mb_id = new_id, mb_server = server, mb_queue = py_strip (qd_queue q), mb_description = qd_description q,
      mb_order = qd_order q, mb_cfg = dump_queue_cfg q\<rparr>"

definition build_operation_entity :: "(rat \<Rightarrow> string) \<Rightarrow> string \<Rightarrow> string \<Rightarrow> operation_dto \<Rightarrow> operation_record" where
  "build_operation_entity txt new_id owner d =
     \<lparr>mo_id = new_id, mo_owner = owner, mo_description = od_description d,
      mo_code = py_strip (command_code (cfg_command (od_cfg d))), mo_type = py_strip (cfg_type (od_cfg d)),
      mo_cfg = dump_config txt (od_cfg d), mo_order = od_order d\<rparr>"

definition insert_api :: "(rat \<Rightarrow> string) \<Rightarrow> string \<Rightarrow> api_dto \<Rightarrow> (mock_tables, unit) call" where
  "insert_api txt server a =
     sbind fresh_mock_id (\<lambda>i.
     sbind (\<lambda>t. (Inr (), t\<lparr>mt_apis := mt_apis t @ [build_api_entity i server a]\<rparr>)) (\<lambda>_.
     sbind (each_call (\<lambda>d. sbind fresh_mock_id (\<lambda>j t.
         (Inr (), t\<lparr>mt_api_commands := mt_api_commands t @ [build_operation_entity txt j i d]\<rparr>))) (ad_commands a)) (\<lambda>_.
       spure ())))"

text \<open>\<open>queue_id\<close> is a foreign key of \<open>queues\<close>.\<close>

definition insert_queue_row :: "queue_record \<Rightarrow> (mock_tables, unit) call" where
  "insert_queue_row r t =
     (if mb_queue r \<in> set (mt_broker_queues t) then (Inr (), t\<lparr>mt_queues := mt_queues t @ [r]\<rparr>)
      else (Inl (IntegrityError ''insert or update on table mock_server_queues violates foreign key constraint''), t))"

definition insert_queue :: "(rat \<Rightarrow> string) \<Rightarrow> string \<Rightarrow> queue_dto \<Rightarrow> (mock_tables, unit) call" where
  "insert_queue txt server q =
     sbind fresh_mock_id (\<lambda>i.
     sbind (insert_queue_row (build_queue_entity i server q)) (\<lambda>_.
     sbind (each_call (\<lambda>d. sbind fresh_mock_id (\<lambda>j t.
         (Inr (), t\<lparr>mt_queue_commands := mt_queue_commands t @ [build_operation_entity txt j i d]\<rparr>))) (qd_commands q)) (\<lambda>_.
       spure ())))"

definition insert_server_rows :: "(rat \<Rightarrow> string) \<Rightarrow> string \<Rightarrow> server_dto \<Rightarrow> (mock_tables, unit) call" where
  "insert_server_rows txt server d =
     sbind (each_call (insert_api txt server) (vd_apis d)) (\<lambda>_.
     sbind (each_call (insert_queue txt server) (vd_queues d)) (\<lambda>_. spure ()))"

definition delete_server_rows :: "string \<Rightarrow> mock_tables \<Rightarrow> mock_tables" where
  "delete_server_rows server t =
     (let apis = ma_id ` {r \<in> set (mt_apis t). ma_server r = server};
          queues = mb_id ` {r \<in> set (mt_queues t). mb_server r = server} in
      t\<lparr>mt_apis := filter (\<lambda>r. ma_server r \<noteq> server) (mt_apis t),
        mt_api_commands := filter (\<lambda>r. mo_owner r \<notin> apis) (mt_api_commands t),
        mt_queues := filter (\<lambda>r. mb_server r \<noteq> server) (mt_queues t),
        mt_queue_commands := filter (\<lambda>r. mo_owner r \<notin> queues) (mt_queue_commands t)\<rparr>)"

definition next_mock_ids :: "mock_tables \<Rightarrow> nat \<Rightarrow> string" where
  "next_mock_ids t i = mt_ids t (mt_next t + i)"

definition rebuild_server_definitions :: "field_types \<Rightarrow> server_record \<Rightarrow> (mock_tables, unit) call" where
  "rebuild_server_definitions pyd r t =
     (case rebuild_mock_constant_definitions pyd (next_mock_ids t) (server_view t r) (mt_definitions t) of
        Inl e \<Rightarrow> (Inl e, t)
      | Inr ds \<Rightarrow> (Inr (), t\<lparr>mt_definitions := ds\<rparr>))"

definition validated_request :: "field_types \<Rightarrow> (rat \<Rightarrow> string) \<Rightarrow> server_dto \<Rightarrow> (mock_tables, server_dto) call" where
  "validated_request pyd txt d =
     sbind (ensure_inline_command_ids d) (\<lambda>d'.
     sbind (\<lambda>t. (validate_mock_server_constant_graph pyd txt (next_mock_ids t) d', t)) (\<lambda>_. spure d'))"

definition endpoint_taken :: "string \<Rightarrow> py_error" where
  "endpoint_taken endpoint = ValueError (''Mock server endpoint '' @ quoted endpoint @ '' already exists.'')"

definition create_mock_server ::
  "field_types \<Rightarrow> (rat \<Rightarrow> string) \<Rightarrow> server_dto \<Rightarrow> (mock_tables, string) call" where
  "create_mock_server pyd txt d =
     sbind (validated_request pyd txt d) (\<lambda>d'.
     sbind (\<lambda>t. if server_by_endpoint t (vd_endpoint d') \<noteq> None then (Inl (endpoint_taken (vd_endpoint d')), t)
                else (Inr (), t)) (\<lambda>_.
     sbind fresh_mock_id (\<lambda>i.
     sbind (\<lambda>t. (Inr (), t\<lparr>mt_servers := mt_servers t @ [build_mock_server_entity i d']\<rparr>)) (\<lambda>_.
     sbind (insert_server_rows txt i d') (\<lambda>_.
     sbind (rebuild_server_definitions pyd (build_mock_server_entity i d')) (\<lambda>_. spure i))))))"

definition no_server :: "string \<Rightarrow> py_error" where
  "no_server i = ValueError (''Mock server '' @ quoted i @ '' not found.'')"

definition set_server :: "server_record \<Rightarrow> mock_tables \<Rightarrow> mock_tables" where
  "set_server r t = t\<lparr>mt_servers := map (\<lambda>q. if ms_id q = ms_id r then r else q) (mt_servers t)\<rparr>"

text \<open>The row must exist, and no other row may have the endpoint.\<close>

definition update_allowed :: "string \<Rightarrow> string \<Rightarrow> (mock_tables, unit) call" where
  "update_allowed i endpoint t =
     (if get_server t i = None then (Inl (no_server i), t)
      else (case server_by_endpoint t endpoint of
              Some c \<Rightarrow> if ms_id c \<noteq> i then (Inl (endpoint_taken endpoint), t) else (Inr (), t)
            | None \<Rightarrow> (Inr (), t)))"

definition update_mock_server ::
  "field_types \<Rightarrow> (rat \<Rightarrow> string) \<Rightarrow> string \<Rightarrow> server_dto \<Rightarrow> (mock_tables, unit) call" where
  "update_mock_server pyd txt i d =
     sbind (validated_request pyd txt d) (\<lambda>d'.
     sbind (update_allowed i (vd_endpoint d')) (\<lambda>_.
     sbind (\<lambda>t. (Inr (), delete_server_rows i (set_server (build_mock_server_entity i d') t))) (\<lambda>_.
     sbind (insert_server_rows txt i d') (\<lambda>_.
       rebuild_server_definitions pyd (build_mock_server_entity i d')))))"

definition delete_mock_server :: "string \<Rightarrow> (mock_tables, int) call" where
  "delete_mock_server i t =
     (case get_server t i of
        None \<Rightarrow> (Inr 0, t)
      | Some _ \<Rightarrow>
          (let t' = delete_server_rows i t in
           (Inr 1, t'\<lparr>mt_servers := filter (\<lambda>r. ms_id r \<noteq> i) (mt_servers t')\<rparr>)))"

text \<open>\<open>update(session, id, is_active=...)\<close>: whether there was a row.\<close>

definition set_active :: "string \<Rightarrow> bool \<Rightarrow> mock_tables \<Rightarrow> bool \<times> mock_tables" where
  "set_active i b t =
     (case get_server t i of
        None \<Rightarrow> (False, t)
      | Some r \<Rightarrow> (True, set_server (r\<lparr>ms_active := b\<rparr>) t))"

section \<open>Serialisation\<close>

definition serialize_mock_operation :: "operation_record \<Rightarrow> json" where
  "serialize_mock_operation r =
     JObj [(''id'', JStr (mo_id r)), (''description'', JStr (mo_description r)), (''command_code'', JStr (mo_code r)),
       (''command_type'', JStr (mo_type r)), (''configuration_json'', JObj (mo_cfg r)), (''order'', JInt (mo_order r))]"

definition serialize_api :: "mock_tables \<Rightarrow> api_record \<Rightarrow> json" where
  "serialize_api t r =
     (let ops = JList (map serialize_mock_operation (operations_of t (mt_api_commands t) (ma_id r))) in
      JObj [(''id'', JStr (ma_id r)), (''mock_server_id'', JStr (ma_server r)), (''description'', JStr (ma_description r)),
        (''method'', JStr (ma_method r)), (''path'', JStr (ma_path r)), (''order'', JInt (ma_order r)),
        (''configuration_json'', JObj (ma_cfg r)), (''commands'', ops), (''operations'', ops)])"

definition serialize_queue :: "mock_tables \<Rightarrow> queue_record \<Rightarrow> json" where
  "serialize_queue t r =
     (let ops = JList (map serialize_mock_operation (operations_of t (mt_queue_commands t) (mb_id r))) in
      JObj [(''id'', JStr (mb_id r)), (''mock_server_id'', JStr (mb_server r)), (''queue_id'', JStr (mb_queue r)),
        (''description'', JStr (mb_description r)), (''order'', JInt (mb_order r)),
        (''configuration_json'', JObj (mb_cfg r)), (''commands'', ops), (''operations'', ops)])"

definition serialize_mock_server :: "mock_tables \<Rightarrow> server_record \<Rightarrow> json" where
  "serialize_mock_server t r =
     JObj [(''id'', JStr (ms_id r)), (''description'', JStr (ms_description r)), (''endpoint'', JStr (ms_endpoint r)),
       (''is_active'', JBool (ms_active r)), (''configuration_json'', JObj (ms_cfg r)),
       (''apis'', JList (map (serialize_api t) (apis_of_server t (ms_id r)))),
       (''queues'', JList (map (serialize_queue t) (queues_of_server t (ms_id r))))]"

section \<open>The endpoints\<close>

text \<open>
  The state: the tables and the running servers. Each block of \<open>managed_session\<close> is a transaction on the tables; the
  registry reads the tables as they are when a server is started.
\<close>

record mock_app =
  mp_tables :: mock_tables
  mp_registry :: registry

definition in_session :: "(mock_tables, 'a) call \<Rightarrow> (mock_app, 'a) call" where
  "in_session m s =
     (case m (mp_tables s) of
        (Inl e, _) \<Rightarrow> (Inl (AppException (error_text e)), s)
      | (Inr x, t) \<Rightarrow> (Inr x, s\<lparr>mp_tables := t\<rparr>))"

definition start_in :: "(mock_queue \<Rightarrow> unit result) \<Rightarrow> string \<Rightarrow> (mock_app, unit) call" where
  "start_in connect i s =
     (let t = mp_tables s in
      case start_server (next_mock_ids t) (\<lambda>j. map_option (server_view t) (get_server t j)) connect i (mp_registry s) of
        (r, g) \<Rightarrow> (r, s\<lparr>mp_registry := g\<rparr>))"

definition deactivated :: "string \<Rightarrow> mock_app \<Rightarrow> mock_app" where
  "deactivated i s = s\<lparr>mp_tables := snd (set_active i False (mp_tables s))\<rparr>"

text \<open>A failed start leaves the row inactive; the error says what failed.\<close>

definition started_or :: "(mock_queue \<Rightarrow> unit result) \<Rightarrow> string \<Rightarrow> string \<Rightarrow> (mock_app, unit) call" where
  "started_or connect message i s =
     (case start_in connect i s of
        (Inl e, s') \<Rightarrow> (Inl (AppException (message @ error_text e)), deactivated i s')
      | (Inr x, s') \<Rightarrow> (Inr x, s'))"

definition find_all_mock_servers :: "mock_app \<Rightarrow> json" where
  "find_all_mock_servers s = JList (map (serialize_mock_server (mp_tables s)) (all_servers (mp_tables s)))"

definition unknown_server :: "string \<Rightarrow> py_error" where
  "unknown_server i = AppException (''No mock server found with id [ '' @ i @ '' ]'')"

definition find_mock_server_by_id :: "string \<Rightarrow> mock_app \<Rightarrow> json result" where
  "find_mock_server_by_id i s =
     (case get_server (mp_tables s) i of
        None \<Rightarrow> Inl (unknown_server i)
      | Some r \<Rightarrow> Inr (serialize_mock_server (mp_tables s) r))"

definition create_mock_server_api ::
  "field_types \<Rightarrow> (rat \<Rightarrow> string) \<Rightarrow> (mock_queue \<Rightarrow> unit result) \<Rightarrow> server_dto \<Rightarrow> (mock_app, string) call" where
  "create_mock_server_api pyd txt connect d =
     sbind (in_session (create_mock_server pyd txt d)) (\<lambda>i.
     sbind (if vd_active d then started_or connect ''Mock server created but failed to activate: '' i else spure ()) (\<lambda>_.
       spure i))"

definition update_mock_server_api ::
  "field_types \<Rightarrow> (rat \<Rightarrow> string) \<Rightarrow> (mock_queue \<Rightarrow> unit result) \<Rightarrow> string \<Rightarrow> server_dto \<Rightarrow> (mock_app, unit) call" where
  "update_mock_server_api pyd txt connect i d =
     sbind (in_session (update_mock_server pyd txt i d)) (\<lambda>_.
       if vd_active d then started_or connect ''Mock server updated but failed to update runtime state: '' i
       else (\<lambda>s. (Inr (), s\<lparr>mp_registry := snd (stop_server i (mp_registry s))\<rparr>)))"

definition delete_mock_server_api :: "string \<Rightarrow> (mock_app, unit) call" where
  "delete_mock_server_api i s =
     (let s' = s\<lparr>mp_registry := snd (remove_server i (mp_registry s))\<rparr> in
      case delete_mock_server i (mp_tables s') of
        (Inr n, t) \<Rightarrow> if n = 0 then (Inl (unknown_server i), s') else (Inr (), s'\<lparr>mp_tables := t\<rparr>)
      | (Inl e, _) \<Rightarrow> (Inl e, s'))"

definition activate_mock_server_api :: "(mock_queue \<Rightarrow> unit result) \<Rightarrow> string \<Rightarrow> (mock_app, unit) call" where
  "activate_mock_server_api connect i s =
     (case set_active i True (mp_tables s) of
        (False, _) \<Rightarrow> (Inl (unknown_server i), s)
      | (True, t) \<Rightarrow> started_or connect ''Cannot activate mock server: '' i (s\<lparr>mp_tables := t\<rparr>))"

definition deactivate_mock_server_api :: "string \<Rightarrow> (mock_app, unit) call" where
  "deactivate_mock_server_api i s =
     (case set_active i False (mp_tables s) of
        (False, _) \<Rightarrow> (Inl (unknown_server i), s)
      | (True, t) \<Rightarrow> (Inr (), s\<lparr>mp_tables := t, mp_registry := snd (stop_server i (mp_registry s))\<rparr>))"

end
