(* ===== verification/MockServerStoreFacts.thy ===== *)
theory MockServerStoreFacts
  imports MockServerStore RebuildFacts Prelude
begin

text \<open>
  The tables of mock servers stay well formed under every operation of the payload service: keys and endpoints are
  unique, and rows refer to rows that exist.
\<close>

section \<open>Well-formed tables\<close>

definition issued_ids :: "mock_tables \<Rightarrow> string set" where
  "issued_ids t = mt_ids t ` {..<mt_next t}"

definition owner_issued :: "string set \<Rightarrow> constant_row \<Rightarrow> bool" where
  "owner_issued I d \<longleftrightarrow> (\<forall>i. cd_api d = Some i \<or> cd_queue d = Some i \<longrightarrow> i \<in> I)"

definition mock_ok :: "mock_tables \<Rightarrow> bool" where
  "mock_ok t \<longleftrightarrow>
     inj (mt_ids t) \<and>
     distinct (map ms_id (mt_servers t)) \<and> distinct (map ms_endpoint (mt_servers t)) \<and>
     distinct (map ma_id (mt_apis t)) \<and> distinct (map mb_id (mt_queues t)) \<and>
     ms_id ` set (mt_servers t) \<subseteq> issued_ids t \<and> ma_id ` set (mt_apis t) \<subseteq> issued_ids t \<and>
     mb_id ` set (mt_queues t) \<subseteq> issued_ids t \<and>
     ma_server ` set (mt_apis t) \<subseteq> ms_id ` set (mt_servers t) \<and> mb_server ` set (mt_queues t) \<subseteq> ms_id ` set (mt_servers t) \<and>
     mo_owner ` set (mt_api_commands t) \<subseteq> ma_id ` set (mt_apis t) \<and>
     mo_owner ` set (mt_queue_commands t) \<subseteq> mb_id ` set (mt_queues t) \<and>
     distinct (map cd_id (mt_definitions t)) \<and> (\<forall>d \<in> set (mt_definitions t). owner_issued (issued_ids t) d)"

definition server_known :: "string \<Rightarrow> mock_tables \<Rightarrow> bool" where
  "server_known s t \<longleftrightarrow> mock_ok t \<and> s \<in> ms_id ` set (mt_servers t)"

definition api_known :: "string \<Rightarrow> string \<Rightarrow> mock_tables \<Rightarrow> bool" where
  "api_known s i t \<longleftrightarrow> server_known s t \<and> i \<in> ma_id ` set (mt_apis t)"

definition queue_known :: "string \<Rightarrow> string \<Rightarrow> mock_tables \<Rightarrow> bool" where
  "queue_known s i t \<longleftrightarrow> server_known s t \<and> i \<in> mb_id ` set (mt_queues t)"

lemmas mock_ok_defs = mock_ok_def server_known_def api_known_def queue_known_def issued_ids_def

text \<open>An identifier just drawn.\<close>

definition just_issued :: "string \<Rightarrow> mock_tables \<Rightarrow> bool" where
  "just_issued i t \<longleftrightarrow> i \<in> issued_ids t \<and> i \<notin> ms_id ` set (mt_servers t) \<and> i \<notin> ma_id ` set (mt_apis t) \<and>
     i \<notin> mb_id ` set (mt_queues t)"

lemma not_issued:
  assumes "mock_ok t" and "mt_next t \<le> n"
  shows "mt_ids t n \<notin> issued_ids t"
proof
  assume "mt_ids t n \<in> issued_ids t"
  then obtain m where "m < mt_next t" "mt_ids t n = mt_ids t m" by (auto simp: issued_ids_def)
  moreover have "inj (mt_ids t)" using assms(1) by (simp add: mock_ok_def)
  ultimately show False using assms(2) by (metis inj_eq leD)
qed

lemma fresh_mock_result:
  "fresh_mock_id t = (Inr i, t') \<longleftrightarrow> i = mt_ids t (mt_next t) \<and> t' = t\<lparr>mt_next := Suc (mt_next t)\<rparr>"
  by (auto simp: fresh_mock_id_def)

lemma issued_Suc: "issued_ids (t\<lparr>mt_next := Suc (mt_next t)\<rparr>) = insert (mt_ids t (mt_next t)) (issued_ids t)"
  by (simp add: issued_ids_def lessThan_Suc)

lemma owner_issued_mono: "owner_issued I d \<Longrightarrow> I \<subseteq> J \<Longrightarrow> owner_issued J d"
  by (auto simp: owner_issued_def)

lemma fresh_mock_ok:
  assumes "mock_ok t" and "fresh_mock_id t = (Inr i, t')"
  shows "mock_ok t' \<and> just_issued i t' \<and> mt_servers t' = mt_servers t \<and> mt_apis t' = mt_apis t \<and> mt_queues t' = mt_queues t"
proof -
  have t': "t' = t\<lparr>mt_next := Suc (mt_next t)\<rparr>" and i: "i = mt_ids t (mt_next t)"
    using assms(2) by (simp_all add: fresh_mock_result)
  have "i \<notin> issued_ids t" using not_issued [OF assms(1), of "mt_next t"] by (simp add: i)
  moreover have "\<forall>d \<in> set (mt_definitions t). owner_issued (insert i (issued_ids t)) d"
    using assms(1) by (auto simp: mock_ok_def elim!: owner_issued_mono)
  moreover have "issued_ids t' = insert i (issued_ids t)" unfolding t' issued_Suc i ..
  ultimately show ?thesis using assms(1) unfolding mock_ok_def just_issued_def by (auto simp: t')
qed

lemma after_fresh_mock:
  "after mock_ok fresh_mock_id (\<lambda>i t. mock_ok t \<and> just_issued i t)"
  "after (server_known s) fresh_mock_id (\<lambda>i t. server_known s t \<and> just_issued i t)"
  "after (api_known s j) fresh_mock_id (\<lambda>i t. api_known s j t \<and> just_issued i t)"
  "after (queue_known s j) fresh_mock_id (\<lambda>i t. queue_known s j t \<and> just_issued i t)"
proof -
  show "after mock_ok fresh_mock_id (\<lambda>i t. mock_ok t \<and> just_issued i t)"
    unfolding after_def by (intro allI impI; frule (1) fresh_mock_ok; simp)
  show "after (server_known s) fresh_mock_id (\<lambda>i t. server_known s t \<and> just_issued i t)"
    "after (api_known s j) fresh_mock_id (\<lambda>i t. api_known s j t \<and> just_issued i t)"
    "after (queue_known s j) fresh_mock_id (\<lambda>i t. queue_known s j t \<and> just_issued i t)"
    unfolding after_def server_known_def api_known_def queue_known_def
    by (intro allI impI; elim conjE; frule (1) fresh_mock_ok; simp)+
qed

lemma after_each: "(\<And>x. after P (f x) (\<lambda>_. P)) \<Longrightarrow> after P (each_call f xs) (\<lambda>_. P)"
proof (induction xs)
  case Nil
  show ?case by (simp add: after_spure)
next
  case (Cons x xs)
  from Cons.IH [OF Cons.prems] have rest: "after P (each_call f xs) (\<lambda>_. P)" .
  have "after P (sbind (each_call f xs) (\<lambda>ys. spure (y # ys))) (\<lambda>_. P)" for y
    by (rule after_sbind [OF rest]) (simp add: after_spure)
  then show ?case by (simp add: after_sbind [OF Cons.prems])
qed

section \<open>Insertion\<close>

lemma after_insert_api: "after (server_known s) (insert_api txt s a) (\<lambda>_. server_known s)"
  unfolding insert_api_def
proof (rule after_sbind [OF after_fresh_mock(2)], rule after_sbind)
  fix i
  show "after (\<lambda>t. server_known s t \<and> just_issued i t)
      (\<lambda>t. (Inr (), t\<lparr>mt_apis := mt_apis t @ [build_api_entity i s a]\<rparr>)) (\<lambda>_. api_known s i)"
    unfolding after_def mock_ok_defs just_issued_def by (auto simp: build_api_entity_def)
next
  fix i u
  have row: "after (\<lambda>t. api_known s i t \<and> just_issued j t)
      (\<lambda>t. (Inr (), t\<lparr>mt_api_commands := mt_api_commands t @ [build_operation_entity txt j i d]\<rparr>)) (\<lambda>_. api_known s i)" for j d
    unfolding after_def mock_ok_defs by (auto simp: build_operation_entity_def)
  show "after (api_known s i) (sbind (each_call (\<lambda>d. sbind fresh_mock_id (\<lambda>j t.
      (Inr (), t\<lparr>mt_api_commands := mt_api_commands t @ [build_operation_entity txt j i d]\<rparr>))) (ad_commands a)) (\<lambda>_. spure ()))
      (\<lambda>_. server_known s)"
    by (rule after_sbind, rule after_each, rule after_sbind [OF after_fresh_mock(3) row], rule after_spure)
      (simp add: api_known_def)
qed

lemma after_insert_queue: "after (server_known s) (insert_queue txt s q) (\<lambda>_. server_known s)"
  unfolding insert_queue_def
proof (rule after_sbind [OF after_fresh_mock(2)], rule after_sbind)
  fix i
  show "after (\<lambda>t. server_known s t \<and> just_issued i t) (insert_queue_row (build_queue_entity i s q)) (\<lambda>_. queue_known s i)"
    unfolding after_def mock_ok_defs just_issued_def by (auto simp: build_queue_entity_def insert_queue_row_def)
next
  fix i u
  have row: "after (\<lambda>t. queue_known s i t \<and> just_issued j t)
      (\<lambda>t. (Inr (), t\<lparr>mt_queue_commands := mt_queue_commands t @ [build_operation_entity txt j i d]\<rparr>)) (\<lambda>_. queue_known s i)" for j d
    unfolding after_def mock_ok_defs by (auto simp: build_operation_entity_def)
  show "after (queue_known s i) (sbind (each_call (\<lambda>d. sbind fresh_mock_id (\<lambda>j t.
      (Inr (), t\<lparr>mt_queue_commands := mt_queue_commands t @ [build_operation_entity txt j i d]\<rparr>))) (qd_commands q)) (\<lambda>_. spure ()))
      (\<lambda>_. server_known s)"
    by (rule after_sbind, rule after_each, rule after_sbind [OF after_fresh_mock(4) row], rule after_spure)
      (simp add: queue_known_def)
qed

lemma after_insert_rows: "after (server_known s) (insert_server_rows txt s d) (\<lambda>_. server_known s)"
  unfolding insert_server_rows_def
  by (rule after_sbind [OF after_each [OF after_insert_api]], rule after_sbind [OF after_each [OF after_insert_queue]])
    (simp add: after_spure)

section \<open>Definitions\<close>

lemma plan_owner:
  assumes "api_definitions pyd new_id e = Inr ds" and "d \<in> set ds"
  shows "cd_api d = Some (ae_id e) \<and> cd_queue d = None"
  using assms by (auto simp: api_definitions_def rbind_Inr_iff api_definition_entity_def)

lemma queue_plan_owner:
  assumes "queue_definitions pyd new_id e = Inr ds" and "d \<in> set ds"
  shows "cd_queue d = Some (qe_id e) \<and> cd_api d = None"
  using assms by (auto simp: queue_definitions_def rbind_Inr_iff queue_definition_entity_def)

lemma server_definitions_owner:
  assumes "server_definitions pyd new_id v = Inr ds" and "d \<in> set ds"
  shows "(\<exists>a \<in> set (ve_apis v). cd_api d = Some (ae_id a) \<and> cd_queue d = None) \<or>
    (\<exists>q \<in> set (ve_queues v). cd_queue d = Some (qe_id q) \<and> cd_api d = None)"
proof -
  from assms(1) obtain as qs where parts: "mapM (api_definitions pyd new_id) (ve_apis v) = Inr as"
    "mapM (queue_definitions pyd new_id) (ve_queues v) = Inr qs" "ds = concat as @ concat qs"
    by (auto simp: server_definitions_def rbind_Inr_iff)
  from assms(2) consider xs where "xs \<in> set as" "d \<in> set xs" | xs where "xs \<in> set qs" "d \<in> set xs"
    by (auto simp: parts(3))
  then show ?thesis
  proof cases
    case 1
    from mapM_Inr_set [OF parts(1) 1(1)] obtain a where "a \<in> set (ve_apis v)" "api_definitions pyd new_id a = Inr xs" by blast
    with plan_owner 1(2) show ?thesis by blast
  next
    case 2
    from mapM_Inr_set [OF parts(2) 2(1)] obtain q where "q \<in> set (ve_queues v)" "queue_definitions pyd new_id q = Inr xs" by blast
    with queue_plan_owner 2(2) show ?thesis by blast
  qed
qed

lemma server_view_rows:
  "set (ve_apis (server_view t r)) = api_view t ` {a \<in> set (mt_apis t). ma_server a = ms_id r}"
  "set (ve_queues (server_view t r)) = queue_view t ` {q \<in> set (mt_queues t). mb_server q = ms_id r}"
  by (auto simp: server_view_def apis_of_server_def queues_of_server_def)

lemma after_rebuild_server: "after mock_ok (rebuild_server_definitions pyd r) (\<lambda>_. mock_ok)"
  unfolding after_def
proof (intro allI impI)
  fix t u t' assume ok: "mock_ok t" and run: "rebuild_server_definitions pyd r t = (Inr u, t')"
  from run obtain ds where ds: "rebuild_mock_constant_definitions pyd (next_mock_ids t) (server_view t r) (mt_definitions t) = Inr ds"
    and t': "t' = t\<lparr>mt_definitions := ds\<rparr>" by (auto simp: rebuild_server_definitions_def split: sum.splits)
  define kept where "kept = delete_definitions_of_server (server_view t r) (mt_definitions t)"
  from ds obtain new where new: "server_definitions pyd (next_mock_ids t) (server_view t r) = Inr new"
    and parts: "ds = kept @ new" "distinct (map cd_id new)" "set (map cd_id new) \<inter> set (map cd_id kept) = {}"
    by (auto simp: rebuild_mock_constant_definitions_def insert_definitions_def rbind_Inr_iff kept_def split: if_splits)
  have old: "distinct (map cd_id (mt_definitions t))" "\<forall>d \<in> set (mt_definitions t). owner_issued (issued_ids t) d"
    and ids: "ma_id ` set (mt_apis t) \<subseteq> issued_ids t" "mb_id ` set (mt_queues t) \<subseteq> issued_ids t"
    using ok by (simp_all add: mock_ok_def)
  have "distinct (map cd_id kept)" unfolding kept_def delete_definitions_of_server_def by (rule distinct_map_filter [OF old(1)])
  with parts have "distinct (map cd_id ds)" by (auto simp del: set_map)
  moreover have "owner_issued (issued_ids t) d" if "d \<in> set new" for d
    using server_definitions_owner [OF new that] ids unfolding server_view_rows
    by (auto simp: owner_issued_def api_view_def queue_view_def)
  then have "\<forall>d \<in> set ds. owner_issued (issued_ids t) d"
    using old(2) by (auto simp: parts(1) kept_def delete_definitions_of_server_def)
  moreover have "issued_ids t' = issued_ids t" by (simp add: t' issued_ids_def)
  ultimately show "mock_ok t'" using ok unfolding mock_ok_def by (simp add: t')
qed

section \<open>Deletion\<close>

lemma owners_kept:
  assumes "f ` A \<subseteq> g ` B"
  shows "f ` {x \<in> A. f x \<notin> g ` {y \<in> B. Q y}} \<subseteq> g ` {y \<in> B. \<not> Q y}"
proof
  fix z assume "z \<in> f ` {x \<in> A. f x \<notin> g ` {y \<in> B. Q y}}"
  then obtain x where x: "x \<in> A" "f x \<notin> g ` {y \<in> B. Q y}" "z = f x" by blast
  with assms obtain y where y: "y \<in> B" "f x = g y" by blast
  with x(2) have "\<not> Q y" by auto
  with y x(3) show "z \<in> g ` {y \<in> B. \<not> Q y}" by simp
qed

lemma owners_elsewhere:
  assumes "f ` A \<subseteq> g ` B" and "\<forall>x \<in> A. f x \<noteq> i"
  shows "f ` A \<subseteq> g ` {y \<in> B. g y \<noteq> i}"
proof
  fix z assume "z \<in> f ` A"
  then obtain x where x: "x \<in> A" "z = f x" by blast
  with assms(1) obtain y where y: "y \<in> B" "f x = g y" by blast
  with x assms(2) have "g y \<noteq> i" by auto
  with y x(2) show "z \<in> g ` {y \<in> B. g y \<noteq> i}" by simp
qed

lemma delete_rows_ok:
  assumes "mock_ok t"
  shows "mock_ok (delete_server_rows s t)"
proof -
  define u where "u = delete_server_rows s t"
  have u: "mt_servers u = mt_servers t" "mt_definitions u = mt_definitions t" "issued_ids u = issued_ids t" "mt_ids u = mt_ids t"
    "mt_apis u = filter (\<lambda>r. ma_server r \<noteq> s) (mt_apis t)" "mt_queues u = filter (\<lambda>r. mb_server r \<noteq> s) (mt_queues t)"
    "mt_api_commands u = filter (\<lambda>r. mo_owner r \<notin> ma_id ` {r \<in> set (mt_apis t). ma_server r = s}) (mt_api_commands t)"
    "mt_queue_commands u = filter (\<lambda>r. mo_owner r \<notin> mb_id ` {r \<in> set (mt_queues t). mb_server r = s}) (mt_queue_commands t)"
    by (simp_all add: u_def delete_server_rows_def issued_ids_def Let_def)
  have owned: "mo_owner ` set (mt_api_commands t) \<subseteq> ma_id ` set (mt_apis t)"
    "mo_owner ` set (mt_queue_commands t) \<subseteq> mb_id ` set (mt_queues t)" using assms by (simp_all add: mock_ok_def)
  have "mo_owner ` set (mt_api_commands u) \<subseteq> ma_id ` set (mt_apis u)"
    using owners_kept [OF owned(1), of "\<lambda>r. ma_server r = s"] by (simp add: u(5,7))
  moreover have "mo_owner ` set (mt_queue_commands u) \<subseteq> mb_id ` set (mt_queues u)"
    using owners_kept [OF owned(2), of "\<lambda>r. mb_server r = s"] by (simp add: u(6,8))
  moreover have "set (mt_apis u) \<subseteq> set (mt_apis t)" "set (mt_queues u) \<subseteq> set (mt_queues t)" by (auto simp: u(5,6))
  moreover have "distinct (map ma_id (mt_apis u))" "distinct (map mb_id (mt_queues u))"
    using assms by (simp_all add: mock_ok_def u(5,6) distinct_map_filter)
  ultimately show "mock_ok u"
    using assms unfolding mock_ok_def u(1-4) by (intro conjI) (simp_all, (meson image_mono subset_trans)+)
qed

lemma delete_rows_servers [simp]: "mt_servers (delete_server_rows s t) = mt_servers t"
  by (simp add: delete_server_rows_def Let_def)

section \<open>The server row\<close>

lemma find_none_id: "find P xs = None \<Longrightarrow> x \<in> set xs \<Longrightarrow> \<not> P x"
  by (auto simp: find_None_iff)

lemma find_some_id: "find P xs = Some x \<Longrightarrow> x \<in> set xs \<and> P x"
  by (induction xs) (auto split: if_splits)

lemma add_server_ok:
  assumes "mock_ok t" and "just_issued (ms_id r) t" and "ms_endpoint r \<notin> ms_endpoint ` set (mt_servers t)"
  shows "server_known (ms_id r) (t\<lparr>mt_servers := mt_servers t @ [r]\<rparr>)"
  using assms unfolding mock_ok_defs just_issued_def by auto

lemma set_server_keys: "map ms_id (mt_servers (set_server r t)) = map ms_id (mt_servers t)"
  by (simp add: set_server_def)

lemma set_server_simps [simp]:
  "mt_apis (set_server r t) = mt_apis t" "mt_queues (set_server r t) = mt_queues t"
  "mt_api_commands (set_server r t) = mt_api_commands t" "mt_queue_commands (set_server r t) = mt_queue_commands t"
  "mt_definitions (set_server r t) = mt_definitions t" "mt_ids (set_server r t) = mt_ids t" "issued_ids (set_server r t) = issued_ids t"
  by (simp_all add: set_server_def issued_ids_def)

lemma set_server_endpoints:
  assumes "distinct (map ms_id rs)" and "distinct (map ms_endpoint rs)"
    and "\<And>q. q \<in> set rs \<Longrightarrow> ms_endpoint q = ms_endpoint r \<Longrightarrow> ms_id q = ms_id r"
  shows "distinct (map ms_endpoint (map (\<lambda>q. if ms_id q = ms_id r then r else q) rs))"
proof -
  have "inj_on (\<lambda>q. ms_endpoint (if ms_id q = ms_id r then r else q)) (set rs)"
  proof (rule inj_onI)
    fix p q assume pq: "p \<in> set rs" "q \<in> set rs"
      and same: "ms_endpoint (if ms_id p = ms_id r then r else p) = ms_endpoint (if ms_id q = ms_id r then r else q)"
    have ids: "inj_on ms_id (set rs)" and endpoints: "inj_on ms_endpoint (set rs)" using assms(1,2) by (simp_all add: distinct_map)
    show "p = q"
    proof (cases "ms_id p = ms_id r")
      case True
      with same assms(3) [OF pq(2)] have "ms_id q = ms_id r" by (cases "ms_id q = ms_id r") simp_all
      with True show ?thesis using inj_onD [OF ids _ pq] by simp
    next
      case False
      with same assms(3) [OF pq(1)] have "ms_endpoint p = ms_endpoint q" by (cases "ms_id q = ms_id r") simp_all
      then show ?thesis using inj_onD [OF endpoints _ pq] by simp
    qed
  qed
  moreover have "distinct rs" using assms(1) by (simp add: distinct_map)
  ultimately show ?thesis by (simp add: distinct_map comp_def)
qed

lemma set_server_ok:
  assumes "mock_ok t" and "\<And>q. q \<in> set (mt_servers t) \<Longrightarrow> ms_endpoint q = ms_endpoint r \<Longrightarrow> ms_id q = ms_id r"
  shows "mock_ok (set_server r t)"
proof -
  have "ms_id ` set (mt_servers (set_server r t)) = ms_id ` set (mt_servers t)"
    using set_server_keys [of r t] by (metis set_map)
  moreover have "distinct (map ms_endpoint (mt_servers (set_server r t)))"
    unfolding set_server_def using set_server_endpoints [of "mt_servers t" r] assms by (simp add: mock_ok_def)
  moreover note assms(1)
  ultimately show ?thesis unfolding mock_ok_def by (simp add: set_server_keys)
qed

section \<open>The payload service\<close>

lemma after_ids: "after mock_ok (ensure_inline_command_ids d) (\<lambda>d'. \<lambda>t. mock_ok t \<and> vd_endpoint d' = vd_endpoint d)"
proof -
  have one: "after mock_ok (with_command_id raw) (\<lambda>_. mock_ok)" for raw
    unfolding with_command_id_def
    by (auto intro!: after_spure after_sbind [OF after_weaken [OF after_fresh_mock(1)], where R = "\<lambda>_. mock_ok"])
  have api: "after mock_ok (api_with_ids a) (\<lambda>_. mock_ok)" for a
    unfolding api_with_ids_def
    by (cases "ag_pre (ad_cfg a)") (auto intro!: after_spure after_sbind [OF after_each [OF one]])
  show ?thesis
    unfolding ensure_inline_command_ids_def by (rule after_sbind [OF after_each [OF api]]) (simp add: after_spure)
qed

lemma after_validated: "after mock_ok (validated_request pyd txt d) (\<lambda>d' t. mock_ok t \<and> vd_endpoint d' = vd_endpoint d)"
  unfolding validated_request_def
proof (rule after_sbind [OF after_ids], rule after_sbind)
  fix d' :: server_dto
  show "after (\<lambda>t. mock_ok t \<and> vd_endpoint d' = vd_endpoint d)
      (\<lambda>t. (validate_mock_server_constant_graph pyd txt (next_mock_ids t) d', t)) (\<lambda>_ t. mock_ok t \<and> vd_endpoint d' = vd_endpoint d)"
    by (simp add: after_def)
  show "after (\<lambda>t. mock_ok t \<and> vd_endpoint d' = vd_endpoint d) (spure d') (\<lambda>d' t. mock_ok t \<and> vd_endpoint d' = vd_endpoint d)" for u :: unit
    by (simp add: after_spure)
qed

lemma built_endpoint [simp]: "ms_endpoint (build_mock_server_entity i d) = py_lower (py_strip (vd_endpoint d))"
    "ms_id (build_mock_server_entity i d) = i"
  by (simp_all add: build_mock_server_entity_def)

lemma after_create: "after mock_ok (create_mock_server pyd txt d) (\<lambda>_. mock_ok)"
  unfolding create_mock_server_def
proof (rule after_sbind [where R = "\<lambda>_. mock_ok"])
  show "after mock_ok (validated_request pyd txt d) (\<lambda>_. mock_ok)"
    by (rule after_weaken [OF after_validated]) simp_all
next
  fix d' :: server_dto
  define free where "free t \<longleftrightarrow> mock_ok t \<and> py_lower (py_strip (vd_endpoint d')) \<notin> ms_endpoint ` set (mt_servers t)" for t
  have check: "after mock_ok (\<lambda>t. if server_by_endpoint t (vd_endpoint d') \<noteq> None then (Inl (endpoint_taken (vd_endpoint d')), t)
      else (Inr (), t)) (\<lambda>_. free)"
    by (auto simp: after_def free_def server_by_endpoint_def find_None_iff split: if_splits)
  have fresh: "after free fresh_mock_id (\<lambda>i t. free t \<and> just_issued i t)"
    unfolding after_def free_def by (intro allI impI; elim conjE; frule (1) fresh_mock_ok; simp)
  have add: "after (\<lambda>t. free t \<and> just_issued i t)
      (\<lambda>t. (Inr (), t\<lparr>mt_servers := mt_servers t @ [build_mock_server_entity i d']\<rparr>)) (\<lambda>_. server_known i)" for i
    using add_server_ok [of _ "build_mock_server_entity i d'"] by (auto simp: after_def free_def)
  have rest: "after (server_known i) (sbind (insert_server_rows txt i d') (\<lambda>_.
      sbind (rebuild_server_definitions pyd (build_mock_server_entity i d')) (\<lambda>_. spure i))) (\<lambda>_. mock_ok)" for i
  proof (rule after_sbind [OF after_insert_rows], rule after_sbind [where R = "\<lambda>_. mock_ok"])
    show "after (server_known i) (rebuild_server_definitions pyd (build_mock_server_entity i d')) (\<lambda>_. mock_ok)"
      by (rule after_weaken [OF after_rebuild_server]) (simp_all add: server_known_def)
  qed (simp add: after_spure)
  show "after mock_ok (sbind (\<lambda>t. if server_by_endpoint t (vd_endpoint d') \<noteq> None then (Inl (endpoint_taken (vd_endpoint d')), t)
      else (Inr (), t)) (\<lambda>_. sbind fresh_mock_id (\<lambda>i.
      sbind (\<lambda>t. (Inr (), t\<lparr>mt_servers := mt_servers t @ [build_mock_server_entity i d']\<rparr>)) (\<lambda>_.
      sbind (insert_server_rows txt i d') (\<lambda>_.
      sbind (rebuild_server_definitions pyd (build_mock_server_entity i d')) (\<lambda>_. spure i)))))) (\<lambda>_. mock_ok)"
    by (rule after_sbind [OF check], rule after_sbind [OF fresh], rule after_sbind [OF add], rule rest)
qed

lemma update_allowed_known:
  assumes "mock_ok t" and "update_allowed i endpoint t = (Inr u, t')"
  shows "t' = t" and "server_known i t"
    and "q \<in> set (mt_servers t) \<Longrightarrow> ms_endpoint q = py_lower (py_strip endpoint) \<Longrightarrow> ms_id q = i"
proof -
  show "t' = t" using assms(2) by (auto simp: update_allowed_def split: if_splits option.splits)
  from assms(2) have known: "get_server t i \<noteq> None" and same: "\<And>c. server_by_endpoint t endpoint = Some c \<Longrightarrow> ms_id c = i"
    by (auto simp: update_allowed_def split: if_splits option.splits)
  from known have "i \<in> ms_id ` set (mt_servers t)" by (auto simp: get_server_def dest!: find_some_id)
  with assms(1) show "server_known i t" by (simp add: server_known_def)
  show "ms_id q = i" if q: "q \<in> set (mt_servers t)" "ms_endpoint q = py_lower (py_strip endpoint)"
  proof (cases "server_by_endpoint t endpoint")
    case None
    with q find_none_id show ?thesis unfolding server_by_endpoint_def by fastforce
  next
    case (Some c)
    from find_some_id [OF Some [unfolded server_by_endpoint_def]] have "c \<in> set (mt_servers t)" "ms_endpoint c = py_lower (py_strip endpoint)"
      by simp_all
    moreover have "distinct (map ms_endpoint (mt_servers t))" using assms(1) by (simp add: mock_ok_def)
    ultimately have "c = q" using q by (auto simp: distinct_map intro: inj_onD [of ms_endpoint "set (mt_servers t)"])
    with same [OF Some] show ?thesis by simp
  qed
qed

text \<open>The state an update inserts its rows into.\<close>

definition cleared :: "string \<Rightarrow> server_dto \<Rightarrow> mock_tables \<Rightarrow> mock_tables" where
  "cleared i d t = delete_server_rows i (set_server (build_mock_server_entity i d) t)"

lemma cleared_ok:
  assumes "mock_ok t" and "update_allowed i (vd_endpoint d) t = (Inr u, t')"
  shows "server_known i (cleared i d t)"
proof -
  note known = update_allowed_known [OF assms]
  have "mock_ok (set_server (build_mock_server_entity i d) t)"
    by (rule set_server_ok [OF assms(1)]) (simp add: known(3))
  moreover have "i \<in> ms_id ` set (mt_servers (set_server (build_mock_server_entity i d) t))"
    using known(2) set_server_keys [of "build_mock_server_entity i d" t] by (metis server_known_def set_map)
  ultimately show ?thesis using delete_rows_ok by (simp add: server_known_def cleared_def)
qed

lemma after_cleared:
  "after mock_ok (sbind (update_allowed i (vd_endpoint d)) (\<lambda>_ t. (Inr (), cleared i d t))) (\<lambda>_. server_known i)"
  unfolding after_def
proof (intro allI impI)
  fix t u t' assume ok: "mock_ok t" and "sbind (update_allowed i (vd_endpoint d)) (\<lambda>_ t. (Inr (), cleared i d t)) t = (Inr u, t')"
  then obtain x t1 where one: "update_allowed i (vd_endpoint d) t = (Inr x, t1)" "t' = cleared i d t1"
    by (auto simp: sbind_def split: prod.splits sum.splits)
  with cleared_ok [OF ok one(1)] update_allowed_known(1) [OF ok one(1)] show "server_known i t'" by simp
qed

lemma sbind_assoc: "sbind (sbind m f) g = sbind m (\<lambda>x. sbind (f x) g)"
  by (rule ext) (simp add: sbind_def split: prod.splits sum.splits)

text \<open>An update, with the steps that come before its insertions put together.\<close>

lemma update_mock_server_cleared:
  "update_mock_server pyd txt i d =
     sbind (validated_request pyd txt d) (\<lambda>d'.
     sbind (sbind (update_allowed i (vd_endpoint d')) (\<lambda>_ t. (Inr (), cleared i d' t))) (\<lambda>_.
     sbind (insert_server_rows txt i d') (\<lambda>_. rebuild_server_definitions pyd (build_mock_server_entity i d'))))"
  by (simp add: update_mock_server_def sbind_assoc cleared_def)

lemma after_update: "after mock_ok (update_mock_server pyd txt i d) (\<lambda>_. mock_ok)"
  unfolding update_mock_server_cleared
proof (rule after_sbind [where R = "\<lambda>_. mock_ok"])
  show "after mock_ok (validated_request pyd txt d) (\<lambda>_. mock_ok)"
    by (rule after_weaken [OF after_validated]) simp_all
next
  fix d'
  have "after (server_known i) (rebuild_server_definitions pyd (build_mock_server_entity i d')) (\<lambda>_. mock_ok)"
    by (rule after_weaken [OF after_rebuild_server]) (simp_all add: server_known_def)
  then show "after mock_ok (sbind (sbind (update_allowed i (vd_endpoint d')) (\<lambda>_ t. (Inr (), cleared i d' t))) (\<lambda>_.
      sbind (insert_server_rows txt i d') (\<lambda>_. rebuild_server_definitions pyd (build_mock_server_entity i d')))) (\<lambda>_. mock_ok)"
    by (intro after_sbind [OF after_cleared] after_sbind [OF after_insert_rows])
qed

lemma delete_server_ok: "mock_ok t \<Longrightarrow> mock_ok (snd (delete_mock_server i t))"
proof (cases "get_server t i")
  case (Some r)
  assume ok: "mock_ok t"
  define v where "v = delete_server_rows i t"
  have v: "mock_ok v" "\<forall>r \<in> set (mt_apis v). ma_server r \<noteq> i" "\<forall>r \<in> set (mt_queues v). mb_server r \<noteq> i"
    using delete_rows_ok [OF ok] by (auto simp: v_def delete_server_rows_def Let_def)
  define w where "w = v\<lparr>mt_servers := filter (\<lambda>r. ms_id r \<noteq> i) (mt_servers v)\<rparr>"
  have w: "mt_servers w = filter (\<lambda>r. ms_id r \<noteq> i) (mt_servers v)" "mt_apis w = mt_apis v" "mt_queues w = mt_queues v"
    "mt_api_commands w = mt_api_commands v" "mt_queue_commands w = mt_queue_commands v" "mt_definitions w = mt_definitions v"
    "mt_ids w = mt_ids v" "issued_ids w = issued_ids v" by (simp_all add: w_def issued_ids_def)
  have owners: "ma_server ` set (mt_apis v) \<subseteq> ms_id ` set (mt_servers v)" "mb_server ` set (mt_queues v) \<subseteq> ms_id ` set (mt_servers v)"
    using v(1) by (simp_all add: mock_ok_def)
  have "ma_server ` set (mt_apis w) \<subseteq> ms_id ` set (mt_servers w)" using owners_elsewhere [OF owners(1) v(2)] by (simp add: w(1,2))
  moreover have "mb_server ` set (mt_queues w) \<subseteq> ms_id ` set (mt_servers w)" using owners_elsewhere [OF owners(2) v(3)] by (simp add: w(1,3))
  moreover have "set (mt_servers w) \<subseteq> set (mt_servers v)" by (auto simp: w(1))
  moreover have "distinct (map ms_id (mt_servers w))" "distinct (map ms_endpoint (mt_servers w))"
    using v(1) by (simp_all add: mock_ok_def w(1) distinct_map_filter)
  ultimately have "mock_ok w"
    using v(1) unfolding mock_ok_def w(2-8) by (intro conjI) (simp_all, (meson image_mono subset_trans)+)
  with Some show ?thesis by (simp add: delete_mock_server_def v_def w_def Let_def)
qed (simp add: delete_mock_server_def)

lemma set_active_ok:
  assumes "mock_ok t"
  shows "mock_ok (snd (set_active i b t))"
proof (cases "get_server t i")
  case (Some r)
  have r: "r \<in> set (mt_servers t)" "ms_id r = i" using find_some_id [OF Some [unfolded get_server_def]] by simp_all
  have "mock_ok (set_server (r\<lparr>ms_active := b\<rparr>) t)"
  proof (rule set_server_ok [OF assms])
    fix q assume "q \<in> set (mt_servers t)" "ms_endpoint q = ms_endpoint (r\<lparr>ms_active := b\<rparr>)"
    moreover have "distinct (map ms_endpoint (mt_servers t))" using assms by (simp add: mock_ok_def)
    ultimately have "q = r" using r by (auto simp: distinct_map dest: inj_onD)
    then show "ms_id q = ms_id (r\<lparr>ms_active := b\<rparr>)" by simp
  qed
  with Some show ?thesis by (simp add: set_active_def)
qed (simp add: set_active_def assms)

end
