(* ===== verification/MockServerStoreProps.thy ===== *)
theory MockServerStoreProps
  imports MockServerStoreFacts MockRegistryProps
begin

text \<open>
  Mock servers over time: any sequence of requests keeps tables and running servers consistent, and the constants
  of a stored server stand in the way of its update.
\<close>

section \<open>What the payload service leaves alone\<close>

text \<open>The rows of servers, and the part of a request its validation keeps.\<close>

abbreviation servers_are :: "server_record list \<Rightarrow> mock_tables \<Rightarrow> bool" where
  "servers_are R t \<equiv> mt_servers t = R"

lemma servers_fresh: "after (servers_are R) fresh_mock_id (\<lambda>_. servers_are R)"
  by (auto simp: after_def fresh_mock_id_def)

definition operations :: "server_dto \<Rightarrow> operation_dto list" where
  "operations d = concat (map ad_commands (vd_apis d)) @ concat (map qd_commands (vd_queues d))"

definition same_request :: "server_dto \<Rightarrow> server_dto \<Rightarrow> bool" where
  "same_request d d' \<longleftrightarrow> vd_active d' = vd_active d \<and> operations d' = operations d"

lemma with_ids_same: "after P (each_call api_with_ids as) (\<lambda>as' _. map ad_commands as' = map ad_commands as)"
proof (induction as arbitrary: P)
  case Nil
  show ?case by (simp add: after_spure)
next
  case (Cons a as)
  have one: "after P (api_with_ids a) (\<lambda>a' _. ad_commands a' = ad_commands a)"
  proof (cases "ag_pre (ad_cfg a)")
    case None
    then show ?thesis by (simp add: api_with_ids_def after_spure)
  next
    case (Some raws)
    show ?thesis unfolding api_with_ids_def Some option.case
      by (rule after_sbind [where R = "\<lambda>_ _. True"]) (auto simp: after_def spure_def)
  qed
  show ?case unfolding each_call.simps
  proof (rule after_sbind [OF one])
    fix a' :: api_dto
    show "after (\<lambda>_. ad_commands a' = ad_commands a) (sbind (each_call api_with_ids as) (\<lambda>ys. spure (a' # ys)))
        (\<lambda>as' _. map ad_commands as' = map ad_commands (a # as))"
    proof (cases "ad_commands a' = ad_commands a")
      case True
      show ?thesis by (rule after_sbind [OF Cons.IH]) (simp add: after_spure True)
    qed (simp add: after_def)
  qed
qed

lemma validated_same: "after P (validated_request pyd txt d) (\<lambda>d' _. same_request d d')"
  unfolding validated_request_def
proof (rule after_sbind)
  show "after P (ensure_inline_command_ids d) (\<lambda>d' _. same_request d d')"
    unfolding ensure_inline_command_ids_def
    by (rule after_sbind [OF with_ids_same]) (auto simp: after_def spure_def same_request_def operations_def)
  fix d'
  show "after (\<lambda>_. same_request d d') (sbind (\<lambda>t. (validate_mock_server_constant_graph pyd txt (next_mock_ids t) d', t))
      (\<lambda>_. spure d')) (\<lambda>d' _. same_request d d')"
    by (auto simp: after_def sbind_def spure_def split: sum.splits)
qed

lemma servers_validated: "after (servers_are R) (validated_request pyd txt d) (\<lambda>_. servers_are R)"
proof -
  have one: "after (servers_are R) (with_command_id raw) (\<lambda>_. servers_are R)" for raw
    unfolding with_command_id_def by (auto intro!: after_spure after_sbind [OF servers_fresh])
  have api: "after (servers_are R) (api_with_ids a) (\<lambda>_. servers_are R)" for a
    unfolding api_with_ids_def
    by (cases "ag_pre (ad_cfg a)") (auto intro!: after_spure after_sbind [OF after_each [OF one]])
  have ids: "after (servers_are R) (ensure_inline_command_ids d) (\<lambda>_. servers_are R)"
    unfolding ensure_inline_command_ids_def by (rule after_sbind [OF after_each [OF api]]) (simp add: after_spure)
  show ?thesis unfolding validated_request_def
    by (rule after_sbind [OF ids]) (auto simp: after_def sbind_def spure_def split: sum.splits)
qed

lemma servers_insert: "after (servers_are R) (insert_server_rows txt s d) (\<lambda>_. servers_are R)"
proof -
  have row: "after (servers_are R) (sbind fresh_mock_id (\<lambda>j t. (Inr (), f j t))) (\<lambda>_. servers_are R)"
    if "\<And>j t. mt_servers (f j t) = mt_servers t" for f
    by (rule after_sbind [OF servers_fresh]) (simp add: after_def that)
  have api: "after (servers_are R) (insert_api txt s a) (\<lambda>_. servers_are R)" for a
    unfolding insert_api_def
    by (rule after_sbind [OF servers_fresh], rule after_sbind [where R = "\<lambda>_. servers_are R"], simp add: after_def,
        rule after_sbind [OF after_each [OF row]]) (simp_all add: after_spure)
  have queue: "after (servers_are R) (insert_queue txt s q) (\<lambda>_. servers_are R)" for q
    unfolding insert_queue_def
    by (rule after_sbind [OF servers_fresh], rule after_sbind [where R = "\<lambda>_. servers_are R"],
        auto simp: after_def insert_queue_row_def split: if_splits)
      (rule after_sbind [OF after_each [OF row], unfolded after_def, rule_format]; simp add: spure_def)
  show ?thesis unfolding insert_server_rows_def
    by (rule after_sbind [OF after_each [OF api]], rule after_sbind [OF after_each [OF queue]]) (simp add: after_spure)
qed

lemma servers_rebuild: "after (servers_are R) (rebuild_server_definitions pyd r) (\<lambda>_. servers_are R)"
  by (auto simp: after_def rebuild_server_definitions_def split: sum.splits)

text \<open>The row a creation adds and an update replaces.\<close>

lemma after_both: "after P m Q \<Longrightarrow> after P m Q' \<Longrightarrow> after P m (\<lambda>r s. Q r s \<and> Q' r s)"
  unfolding after_def by blast

lemma after_known: "(c \<Longrightarrow> after P m Q) \<Longrightarrow> after (\<lambda>s. P s \<and> c) m Q"
  unfolding after_def by blast

lemma built_active [simp]: "ms_active (build_mock_server_entity i d) = vd_active d"
  by (simp add: build_mock_server_entity_def)

lemma servers_create:
  "after (servers_are R) (create_mock_server pyd txt d)
     (\<lambda>i t. \<exists>d'. same_request d d' \<and> mt_servers t = R @ [build_mock_server_entity i d'])"
  unfolding create_mock_server_def
proof (rule after_sbind [OF after_both [OF servers_validated validated_same]], rule after_known)
  fix d' assume same: "same_request d d'"
  define new where "new i = R @ [build_mock_server_entity i d']" for i
  have last: "after (servers_are (new i)) (spure i) (\<lambda>i t. \<exists>d'. same_request d d' \<and> mt_servers t = R @ [build_mock_server_entity i d'])" for i
    using same by (auto simp: after_def spure_def new_def)
  show "after (servers_are R) (sbind (\<lambda>t. if server_by_endpoint t (vd_endpoint d') \<noteq> None then (Inl (endpoint_taken (vd_endpoint d')), t)
                else (Inr (), t)) (\<lambda>_.
     sbind fresh_mock_id (\<lambda>i.
     sbind (\<lambda>t. (Inr (), t\<lparr>mt_servers := mt_servers t @ [build_mock_server_entity i d']\<rparr>)) (\<lambda>_.
     sbind (insert_server_rows txt i d') (\<lambda>_.
     sbind (rebuild_server_definitions pyd (build_mock_server_entity i d')) (\<lambda>_. spure i))))))
     (\<lambda>i t. \<exists>d'. same_request d d' \<and> mt_servers t = R @ [build_mock_server_entity i d'])"
  proof (rule after_sbind [where R = "\<lambda>_. servers_are R"], simp add: after_def, rule after_sbind [OF servers_fresh])
    fix i
    show "after (servers_are R) (sbind (\<lambda>t. (Inr (), t\<lparr>mt_servers := mt_servers t @ [build_mock_server_entity i d']\<rparr>)) (\<lambda>_.
       sbind (insert_server_rows txt i d') (\<lambda>_.
       sbind (rebuild_server_definitions pyd (build_mock_server_entity i d')) (\<lambda>_. spure i))))
       (\<lambda>i t. \<exists>d'. same_request d d' \<and> mt_servers t = R @ [build_mock_server_entity i d'])"
      by (rule after_sbind [where R = "\<lambda>_. servers_are (new i)"], simp add: after_def new_def,
          rule after_sbind [OF servers_insert], rule after_sbind [OF servers_rebuild], rule last)
  qed
qed

lemma servers_update:
  "after (servers_are R) (update_mock_server pyd txt i d)
     (\<lambda>_ t. \<exists>d'. same_request d d' \<and> i \<in> ms_id ` set R \<and>
        mt_servers t = map (\<lambda>q. if ms_id q = i then build_mock_server_entity i d' else q) R)"
  unfolding update_mock_server_cleared
proof (rule after_sbind [OF after_both [OF servers_validated validated_same]], rule after_known)
  fix d' assume same: "same_request d d'"
  define new where "new = map (\<lambda>q. if ms_id q = i then build_mock_server_entity i d' else q) R"
  have replace: "after (servers_are R) (sbind (update_allowed i (vd_endpoint d')) (\<lambda>_ t. (Inr (), cleared i d' t)))
      (\<lambda>_ t. servers_are new t \<and> i \<in> ms_id ` set R)"
  proof (rule after_sbind [where R = "\<lambda>_ t. servers_are R t \<and> i \<in> ms_id ` set R"])
    show "after (servers_are R) (update_allowed i (vd_endpoint d')) (\<lambda>_ t. servers_are R t \<and> i \<in> ms_id ` set R)"
      by (auto simp: after_def update_allowed_def get_server_def split: option.splits if_splits dest!: find_some_id)
  qed (simp add: after_def cleared_def set_server_def new_def)
  have rebuild: "after (servers_are new) (rebuild_server_definitions pyd (build_mock_server_entity i d'))
     (\<lambda>_ t. \<exists>d'. same_request d d' \<and> i \<in> ms_id ` set R \<and>
        mt_servers t = map (\<lambda>q. if ms_id q = i then build_mock_server_entity i d' else q) R)" if "i \<in> ms_id ` set R"
    by (rule after_weaken [OF servers_rebuild]) (use same that new_def in auto)
  show "after (servers_are R) (sbind (sbind (update_allowed i (vd_endpoint d')) (\<lambda>_ t. (Inr (), cleared i d' t))) (\<lambda>_.
      sbind (insert_server_rows txt i d') (\<lambda>_. rebuild_server_definitions pyd (build_mock_server_entity i d'))))
     (\<lambda>_ t. \<exists>d'. same_request d d' \<and> i \<in> ms_id ` set R \<and>
        mt_servers t = map (\<lambda>q. if ms_id q = i then build_mock_server_entity i d' else q) R)"
    by (rule after_sbind [OF replace], rule after_known, rule after_sbind [OF servers_insert], rule rebuild)
qed

section \<open>Tables and running servers\<close>

definition app_ok :: "mock_app \<Rightarrow> bool" where
  "app_ok s \<longleftrightarrow>
     mock_ok (mp_tables s) \<and>
     (\<forall>i. dict_get (rg_servers (mp_registry s)) i \<noteq> None \<longrightarrow> i \<in> ms_id ` set (mt_servers (mp_tables s))) \<and>
     (\<forall>r \<in> set (mt_servers (mp_tables s)). ms_active r \<longrightarrow> dict_get (rg_servers (mp_registry s)) (ms_id r) \<noteq> None)"

text \<open>While server \<open>i\<close> is being changed, its own row may say more than the registry.\<close>

definition app_ok_but :: "string \<Rightarrow> mock_app \<Rightarrow> bool" where
  "app_ok_but i s \<longleftrightarrow>
     mock_ok (mp_tables s) \<and> i \<in> ms_id ` set (mt_servers (mp_tables s)) \<and>
     (\<forall>j. dict_get (rg_servers (mp_registry s)) j \<noteq> None \<longrightarrow> j \<in> ms_id ` set (mt_servers (mp_tables s))) \<and>
     (\<forall>r \<in> set (mt_servers (mp_tables s)). ms_active r \<and> ms_id r \<noteq> i \<longrightarrow>
        dict_get (rg_servers (mp_registry s)) (ms_id r) \<noteq> None)"

lemma registered_servers:
  "dict_get (rg_servers (registered i v g)) j = (if j = i then Some v else dict_get (rg_servers g) j)"
  by (simp add: registered_def Let_def stop_servers)

lemma start_in_servers:
  assumes "start_in connect i s = (r, s')"
  shows "mp_tables s' = mp_tables s"
    and "j \<noteq> i \<Longrightarrow> dict_get (rg_servers (mp_registry s')) j = dict_get (rg_servers (mp_registry s)) j"
    and "r = Inr () \<Longrightarrow> dict_get (rg_servers (mp_registry s')) i \<noteq> None"
proof -
  define res where "res = start_server (next_mock_ids (mp_tables s))
    (\<lambda>j. map_option (server_view (mp_tables s)) (get_server (mp_tables s) j)) connect i (mp_registry s)"
  have s': "r = fst res" "s' = s\<lparr>mp_registry := snd res\<rparr>"
    using assms by (auto simp: start_in_def res_def Let_def split: prod.splits)
  show "mp_tables s' = mp_tables s" by (simp add: s'(2))
  have "(\<exists>e. res = (Inl e, mp_registry s)) \<or> (\<exists>v. rg_servers (snd res) = rg_servers (registered i v (mp_registry s)))"
    unfolding res_def by (rule start_server_cases) auto
  then show "j \<noteq> i \<Longrightarrow> dict_get (rg_servers (mp_registry s')) j = dict_get (rg_servers (mp_registry s)) j"
    and "r = Inr () \<Longrightarrow> dict_get (rg_servers (mp_registry s')) i \<noteq> None"
    by (auto simp: s' registered_servers)
qed

lemma set_active_rows:
  assumes "set_active i b t = (found, t')" and "distinct (map ms_id (mt_servers t))"
  shows "ms_id ` set (mt_servers t') = ms_id ` set (mt_servers t)"
    and "r \<in> set (mt_servers t') \<Longrightarrow> ms_id r = i \<Longrightarrow> ms_active r = b"
    and "r \<in> set (mt_servers t') \<Longrightarrow> ms_id r \<noteq> i \<Longrightarrow> r \<in> set (mt_servers t)"
    and "found \<longleftrightarrow> i \<in> ms_id ` set (mt_servers t)"
proof -
  have "(found, t') = (False, t) \<and> i \<notin> ms_id ` set (mt_servers t) \<or>
    (\<exists>p. (found, t') = (True, set_server (p\<lparr>ms_active := b\<rparr>) t) \<and> p \<in> set (mt_servers t) \<and> ms_id p = i)"
  proof (cases "get_server t i")
    case None
    with assms(1) show ?thesis using find_none_id [OF None [unfolded get_server_def]] by (auto simp: set_active_def)
  next
    case (Some p)
    with assms(1) show ?thesis using find_some_id [OF Some [unfolded get_server_def]] by (auto simp: set_active_def)
  qed
  then consider (missing) "\<not> found" "t' = t" "i \<notin> ms_id ` set (mt_servers t)"
    | (present) p where "found" "t' = set_server (p\<lparr>ms_active := b\<rparr>) t" "p \<in> set (mt_servers t)" "ms_id p = i" by blast
  then have "map ms_id (mt_servers t') = map ms_id (mt_servers t) \<and> (found \<longleftrightarrow> i \<in> ms_id ` set (mt_servers t)) \<and>
    (\<forall>r \<in> set (mt_servers t'). (ms_id r = i \<longrightarrow> ms_active r = b) \<and> (ms_id r \<noteq> i \<longrightarrow> r \<in> set (mt_servers t)))"
  proof cases
    case missing
    then show ?thesis by auto
  next
    case (present p)
    have "(ms_id r = i \<longrightarrow> ms_active r = b) \<and> (ms_id r \<noteq> i \<longrightarrow> r \<in> set (mt_servers t))" if "r \<in> set (mt_servers t')" for r
      using that present(2,4) by (auto simp: set_server_def)
    moreover have "i \<in> ms_id ` set (mt_servers t)" using present(3,4) by blast
    ultimately show ?thesis using present(1,2) set_server_keys by simp
  qed
  then show "ms_id ` set (mt_servers t') = ms_id ` set (mt_servers t)" "found \<longleftrightarrow> i \<in> ms_id ` set (mt_servers t)"
    "r \<in> set (mt_servers t') \<Longrightarrow> ms_id r = i \<Longrightarrow> ms_active r = b"
    "r \<in> set (mt_servers t') \<Longrightarrow> ms_id r \<noteq> i \<Longrightarrow> r \<in> set (mt_servers t)"
    by (metis list.set_map, blast+)
qed

text \<open>Starting: the row ends up inactive, or the server registered.\<close>

lemma started_ok:
  assumes "app_ok_but i s"
  shows "app_ok (snd (started_or connect message i s))"
proof (cases "start_in connect i s")
  case (Pair r s1)
  note servers = start_in_servers [OF Pair]
  have kept: "j \<in> ms_id ` set (mt_servers (mp_tables s))" if "dict_get (rg_servers (mp_registry s1)) j \<noteq> None" for j
    using that assms servers(2) [of j] by (cases "j = i") (auto simp: app_ok_but_def)
  show ?thesis
  proof (cases r)
    case (Inr u)
    with servers(3) have "dict_get (rg_servers (mp_registry s1)) i \<noteq> None" by simp
    with assms kept servers(1,2) have "app_ok s1" unfolding app_ok_def app_ok_but_def by metis
    with Pair Inr show ?thesis by (simp add: started_or_def)
  next
    case (Inl e)
    obtain f t where t: "set_active i False (mp_tables s) = (f, t)" by fastforce
    have ok: "mock_ok t" using set_active_ok [of "mp_tables s" i False] assms by (simp add: t app_ok_but_def)
    have keys: "distinct (map ms_id (mt_servers (mp_tables s)))" using assms by (simp add: app_ok_but_def mock_ok_def)
    note rows = set_active_rows [OF t keys]
    have "dict_get (rg_servers (mp_registry s1)) (ms_id q) \<noteq> None" if q: "q \<in> set (mt_servers t)" "ms_active q" for q
    proof -
      from rows(2) [OF q(1)] q(2) have other: "ms_id q \<noteq> i" by auto
      from rows(3) [OF q(1) other] q(2) other assms servers(2) [OF other] show ?thesis by (simp add: app_ok_but_def)
    qed
    with ok kept rows(1) have "app_ok (s1\<lparr>mp_tables := t\<rparr>)" by (simp add: app_ok_def)
    with Pair Inl t servers(1) show ?thesis by (simp add: started_or_def deactivated_def)
  qed
qed

lemma in_session_cases:
  obtains (raised) e where "in_session m s = (Inl e, s)"
    | (returned) x t where "m (mp_tables s) = (Inr x, t)" "in_session m s = (Inr x, s\<lparr>mp_tables := t\<rparr>)"
proof (cases "m (mp_tables s)")
  case (Pair r t)
  show ?thesis
  proof (cases r)
    case (Inl e)
    with Pair show ?thesis by (intro raised) (simp add: in_session_def)
  next
    case (Inr x)
    with Pair show ?thesis by (intro returned) (simp_all add: in_session_def)
  qed
qed

lemma create_ok:
  assumes "app_ok s"
  shows "app_ok (snd (create_mock_server_api pyd txt connect d s))"
proof (cases rule: in_session_cases [of "create_mock_server pyd txt d" s])
  case (raised e)
  with assms show ?thesis by (simp add: create_mock_server_api_def sbind_def)
next
  case (returned i t)
  have ok: "mock_ok t"
    using after_create [of pyd "txt" d] returned(1) assms unfolding after_def app_ok_def by blast
  obtain d' where d': "same_request d d'" "mt_servers t = mt_servers (mp_tables s) @ [build_mock_server_entity i d']"
    using servers_create [of "mt_servers (mp_tables s)" pyd "txt" d] returned(1) unfolding after_def by blast
  define s1 where "s1 = s\<lparr>mp_tables := t\<rparr>"
  have run: "snd (create_mock_server_api pyd txt connect d s) =
      (if vd_active d then snd (started_or connect ''Mock server created but failed to activate: '' i s1) else s1)"
    by (simp add: create_mock_server_api_def sbind_def returned(2) s1_def spure_def split: prod.splits sum.splits)
  show ?thesis
  proof (cases "vd_active d")
    case True
    have "app_ok_but i s1" using assms ok d' by (auto simp: app_ok_but_def app_ok_def s1_def)
    with True show ?thesis by (simp add: run started_ok)
  next
    case False
    then have "app_ok s1" using assms ok d' by (auto simp: app_ok_def s1_def same_request_def)
    with False show ?thesis by (simp add: run)
  qed
qed

text \<open>Stopping a server whose row is inactive, or gone.\<close>

lemma stopped_ok:
  assumes "mock_ok t" and "app_ok s"
    and "\<And>j. j \<noteq> i \<Longrightarrow> j \<in> ms_id ` set (mt_servers (mp_tables s)) \<Longrightarrow> j \<in> ms_id ` set (mt_servers t)"
    and "\<And>r. r \<in> set (mt_servers t) \<Longrightarrow> ms_active r \<Longrightarrow> ms_id r \<noteq> i \<and> r \<in> set (mt_servers (mp_tables s))"
    and "mp_tables s' = t" and "mp_registry s' = snd (stop_server i (mp_registry s))"
  shows "app_ok s'"
  using assms unfolding app_ok_def stop_server_def
  by (simp add: stop_servers)

lemma update_ok:
  assumes "app_ok s"
  shows "app_ok (snd (update_mock_server_api pyd txt connect i d s))"
proof (cases rule: in_session_cases [of "update_mock_server pyd txt i d" s])
  case (raised e)
  with assms show ?thesis by (simp add: update_mock_server_api_def sbind_def)
next
  case (returned u t)
  define R where "R = mt_servers (mp_tables s)"
  have ok: "mock_ok t"
    using after_update [of pyd "txt" i d] returned(1) assms unfolding after_def app_ok_def by blast
  obtain d' where d': "same_request d d'" "i \<in> ms_id ` set R"
    "mt_servers t = map (\<lambda>q. if ms_id q = i then build_mock_server_entity i d' else q) R"
    using servers_update [of R pyd "txt" i d] returned(1) unfolding after_def R_def by blast
  define s1 where "s1 = s\<lparr>mp_tables := t\<rparr>"
  have "map ms_id (mt_servers t) = map ms_id R" by (simp add: d'(3))
  from arg_cong [OF this, of set] have ids: "ms_id ` set (mt_servers t) = ms_id ` set R" by simp
  have others: "q \<in> set R" if "q \<in> set (mt_servers t)" "ms_id q \<noteq> i" for q
    using that by (auto simp: d'(3))
  show ?thesis
  proof (cases "vd_active d")
    case True
    have "app_ok_but i s1" using assms ok ids d'(2) others by (auto simp: app_ok_but_def app_ok_def s1_def R_def)
    with True show ?thesis by (simp add: update_mock_server_api_def sbind_def returned(2) s1_def started_ok)
  next
    case False
    have "app_ok (s\<lparr>mp_tables := t, mp_registry := snd (stop_server i (mp_registry s))\<rparr>)"
    proof (rule stopped_ok [OF ok assms])
      fix r assume r: "r \<in> set (mt_servers t)" "ms_active r"
      have "ms_id r \<noteq> i"
      proof
        assume "ms_id r = i"
        with r(1) have "r = build_mock_server_entity i d'" by (auto simp: d'(3) split: if_splits)
        then have "ms_active r = vd_active d'" by simp
        with r(2) False d'(1) show False by (simp add: same_request_def)
      qed
      with others [OF r(1)] show "ms_id r \<noteq> i \<and> r \<in> set (mt_servers (mp_tables s))" by (simp add: R_def)
    qed (simp_all add: ids R_def)
    with False show ?thesis by (simp add: update_mock_server_api_def sbind_def returned(2))
  qed
qed

lemma delete_ok:
  assumes "app_ok s"
  shows "app_ok (snd (delete_mock_server_api i s))"
proof (cases "get_server (mp_tables s) i")
  case None
  have "app_ok (s\<lparr>mp_tables := mp_tables s, mp_registry := snd (stop_server i (mp_registry s))\<rparr>)"
    by (rule stopped_ok) (use assms None in \<open>auto simp: app_ok_def get_server_def dest: find_none_id\<close>)
  with None show ?thesis by (simp add: delete_mock_server_api_def delete_mock_server_def remove_server_def)
next
  case (Some r)
  obtain t where t: "delete_mock_server i (mp_tables s) = (Inr 1, t)" "mt_servers t = filter (\<lambda>r. ms_id r \<noteq> i) (mt_servers (mp_tables s))"
    using Some by (simp add: delete_mock_server_def Let_def)
  have "mock_ok t" using delete_server_ok [of "mp_tables s" i] assms by (simp add: t(1) app_ok_def)
  then have "app_ok (s\<lparr>mp_registry := snd (stop_server i (mp_registry s)), mp_tables := t\<rparr>)"
    by (rule stopped_ok) (use assms in \<open>auto simp: t(2)\<close>)
  with t(1) show ?thesis by (simp add: delete_mock_server_api_def remove_server_def)
qed

lemma activate_ok:
  assumes "app_ok s"
  shows "app_ok (snd (activate_mock_server_api connect i s))"
proof -
  obtain f t where t: "set_active i True (mp_tables s) = (f, t)" by fastforce
  have ok: "mock_ok t" using set_active_ok [of "mp_tables s" i True] assms by (simp add: t app_ok_def)
  have keys: "distinct (map ms_id (mt_servers (mp_tables s)))" using assms by (simp add: app_ok_def mock_ok_def)
  note rows = set_active_rows [OF t keys]
  show ?thesis
  proof (cases f)
    case False
    with t assms show ?thesis by (simp add: activate_mock_server_api_def)
  next
    case True
    have "app_ok_but i (s\<lparr>mp_tables := t\<rparr>)"
      using assms ok rows(1,3,4) True by (auto simp: app_ok_but_def app_ok_def)
    with t True show ?thesis by (simp add: activate_mock_server_api_def started_ok)
  qed
qed

lemma deactivate_ok:
  assumes "app_ok s"
  shows "app_ok (snd (deactivate_mock_server_api i s))"
proof -
  obtain f t where t: "set_active i False (mp_tables s) = (f, t)" by fastforce
  have ok: "mock_ok t" using set_active_ok [of "mp_tables s" i False] assms by (simp add: t app_ok_def)
  have keys: "distinct (map ms_id (mt_servers (mp_tables s)))" using assms by (simp add: app_ok_def mock_ok_def)
  note rows = set_active_rows [OF t keys]
  show ?thesis
  proof (cases f)
    case False
    with t assms show ?thesis by (simp add: deactivate_mock_server_api_def)
  next
    case True
    have "app_ok (s\<lparr>mp_tables := t, mp_registry := snd (stop_server i (mp_registry s))\<rparr>)"
      by (rule stopped_ok [OF ok assms]) (use rows in auto)
    with t True show ?thesis by (simp add: deactivate_mock_server_api_def)
  qed
qed

datatype mock_change =
    CreateServer server_dto
  | UpdateServer string server_dto
  | DeleteServer string
  | ActivateServer string
  | DeactivateServer string

fun change_mocks ::
  "field_types \<Rightarrow> (rat \<Rightarrow> string) \<Rightarrow> (mock_queue \<Rightarrow> unit result) \<Rightarrow> mock_app \<Rightarrow> mock_change \<Rightarrow> mock_app" where
  "change_mocks pyd txt connect s (CreateServer d) = snd (create_mock_server_api pyd txt connect d s)"
| "change_mocks pyd txt connect s (UpdateServer i d) = snd (update_mock_server_api pyd txt connect i d s)"
| "change_mocks pyd txt connect s (DeleteServer i) = snd (delete_mock_server_api i s)"
| "change_mocks pyd txt connect s (ActivateServer i) = snd (activate_mock_server_api connect i s)"
| "change_mocks pyd txt connect s (DeactivateServer i) = snd (deactivate_mock_server_api i s)"

lemma change_ok: "app_ok s \<Longrightarrow> app_ok (change_mocks pyd txt connect s c)"
  by (cases c) (simp_all add: create_ok update_ok delete_ok activate_ok deactivate_ok)

section \<open>The constants of a server\<close>

text \<open>
  What insertion adds for server \<open>s\<close>: API and queue rows with identifiers outside \<open>I\<close>, and commands with the
  configurations \<open>C\<close> under them.
\<close>

definition stored_under :: "string \<Rightarrow> json dict \<Rightarrow> mock_tables \<Rightarrow> bool" where
  "stored_under s c t \<longleftrightarrow>
     (\<exists>a \<in> set (mt_apis t). ma_server a = s \<and> (\<exists>r \<in> set (mt_api_commands t). mo_owner r = ma_id a \<and> mo_cfg r = c)) \<or>
     (\<exists>q \<in> set (mt_queues t). mb_server q = s \<and> (\<exists>r \<in> set (mt_queue_commands t). mo_owner r = mb_id q \<and> mo_cfg r = c))"

definition tracked :: "string \<Rightarrow> string set \<Rightarrow> constant_row list \<Rightarrow> json dict set \<Rightarrow> mock_tables \<Rightarrow> bool" where
  "tracked s I D C t \<longleftrightarrow>
     inj (mt_ids t) \<and> (\<exists>m \<le> mt_next t. I = mt_ids t ` {..<m}) \<and> mt_definitions t = D \<and>
     (\<forall>a \<in> set (mt_apis t). ma_server a = s \<longrightarrow> ma_id a \<notin> I) \<and>
     (\<forall>q \<in> set (mt_queues t). mb_server q = s \<longrightarrow> mb_id q \<notin> I) \<and> (\<forall>c \<in> C. stored_under s c t)"

lemma stored_under_grows:
  assumes "stored_under s c t" and "set (mt_apis t) \<subseteq> set (mt_apis t')" and "set (mt_queues t) \<subseteq> set (mt_queues t')"
    and "set (mt_api_commands t) \<subseteq> set (mt_api_commands t')" and "set (mt_queue_commands t) \<subseteq> set (mt_queue_commands t')"
  shows "stored_under s c t'"
  using assms unfolding stored_under_def by blast

text \<open>A drawn identifier is none of \<open>I\<close>.\<close>

lemma tracked_fresh: "after (tracked s I D C) fresh_mock_id (\<lambda>i t. tracked s I D C t \<and> i \<notin> I)"
  unfolding after_def
proof (intro allI impI)
  fix t i t' assume t: "tracked s I D C t" and run: "fresh_mock_id t = (Inr i, t')"
  then have i: "i = mt_ids t (mt_next t)" and t': "t' = t\<lparr>mt_next := Suc (mt_next t)\<rparr>" by (simp_all add: fresh_mock_result)
  from t obtain m where m: "m \<le> mt_next t" "I = mt_ids t ` {..<m}" and inj: "inj (mt_ids t)" by (auto simp: tracked_def)
  have "i \<notin> I" using m inj by (auto simp: i inj_eq)
  moreover have "\<exists>m \<le> Suc (mt_next t). I = mt_ids t ` {..<m}" using m le_SucI by blast
  moreover have "stored_under s c t' = stored_under s c t" for c by (simp add: stored_under_def t')
  ultimately show "tracked s I D C t' \<and> i \<notin> I" using t by (simp add: tracked_def t')
qed

lemma tracked_each:
  assumes "\<And>x C. after (P C) (f x) (\<lambda>_. P (C \<union> g x))"
  shows "after (P C) (each_call f xs) (\<lambda>_. P (C \<union> (\<Union>x \<in> set xs. g x)))"
proof (induction xs arbitrary: C)
  case Nil
  show ?case by (simp add: after_spure)
next
  case (Cons x xs)
  have "after (P (C \<union> g x)) (sbind (each_call f xs) (\<lambda>ys. spure (y # ys))) (\<lambda>_. P (C \<union> (\<Union>x \<in> set (x # xs). g x)))" for y
    by (rule after_sbind [OF Cons.IH]) (simp add: after_spure Un_assoc)
  then show ?case by (simp add: after_sbind [OF assms])
qed

text \<open>Under an API row, and under a queue row.\<close>

definition under_api :: "string \<Rightarrow> string \<Rightarrow> mock_tables \<Rightarrow> bool" where
  "under_api s i t \<longleftrightarrow> (\<exists>a \<in> set (mt_apis t). ma_server a = s \<and> ma_id a = i)"

definition under_queue :: "string \<Rightarrow> string \<Rightarrow> mock_tables \<Rightarrow> bool" where
  "under_queue s i t \<longleftrightarrow> (\<exists>q \<in> set (mt_queues t). mb_server q = s \<and> mb_id q = i)"

lemma tracked_insert_api:
  "after (tracked s I D C) (insert_api txt s a)
     (\<lambda>_. tracked s I D (C \<union> (\<Union>d \<in> set (ad_commands a). {dump_config txt (od_cfg d)})))"
  unfolding insert_api_def
proof (rule after_sbind [OF tracked_fresh], rule after_sbind)
  fix i
  show "after (\<lambda>t. tracked s I D C t \<and> i \<notin> I) (\<lambda>t. (Inr (), t\<lparr>mt_apis := mt_apis t @ [build_api_entity i s a]\<rparr>))
      (\<lambda>_ t. tracked s I D C t \<and> under_api s i t)"
    unfolding after_def tracked_def under_api_def
    by (auto simp: build_api_entity_def elim!: stored_under_grows)
next
  fix i u
  define P where "P C t \<longleftrightarrow> tracked s I D C t \<and> under_api s i t" for C t
  have fresh: "after (P C) fresh_mock_id (\<lambda>_. P C)" for C
    using tracked_fresh [of s I D C] by (auto simp: after_def P_def under_api_def fresh_mock_result)
  have row: "after (P C) (\<lambda>t. (Inr (), t\<lparr>mt_api_commands := mt_api_commands t @ [build_operation_entity txt j i d]\<rparr>))
      (\<lambda>_. P (C \<union> {dump_config txt (od_cfg d)}))" for j d C
    unfolding after_def
  proof (intro allI impI)
    fix t x t' assume t: "P C t"
      and "(Inr (), t\<lparr>mt_api_commands := mt_api_commands t @ [build_operation_entity txt j i d]\<rparr>) = (Inr x, t')"
    then have t': "t' = t\<lparr>mt_api_commands := mt_api_commands t @ [build_operation_entity txt j i d]\<rparr>" by simp
    have "stored_under s c t'" if "c \<in> C" for c
      by (rule stored_under_grows [of s c t]) (use t that in \<open>auto simp: t' P_def tracked_def\<close>)
    moreover have "stored_under s (dump_config txt (od_cfg d)) t'"
      using t by (auto simp: t' P_def under_api_def stored_under_def build_operation_entity_def)
    ultimately show "P (C \<union> {dump_config txt (od_cfg d)}) t'" using t by (auto simp: t' P_def tracked_def under_api_def)
  qed
  have one: "after (P C) (sbind fresh_mock_id (\<lambda>j t.
      (Inr (), t\<lparr>mt_api_commands := mt_api_commands t @ [build_operation_entity txt j i d]\<rparr>)))
      (\<lambda>_. P (C \<union> {dump_config txt (od_cfg d)}))" for d C
    by (rule after_sbind [OF fresh row])
  show "after (\<lambda>t. tracked s I D C t \<and> under_api s i t) (sbind (each_call (\<lambda>d. sbind fresh_mock_id (\<lambda>j t.
      (Inr (), t\<lparr>mt_api_commands := mt_api_commands t @ [build_operation_entity txt j i d]\<rparr>))) (ad_commands a)) (\<lambda>_. spure ()))
      (\<lambda>_. tracked s I D (C \<union> (\<Union>d \<in> set (ad_commands a). {dump_config txt (od_cfg d)})))"
    unfolding P_def [symmetric] by (rule after_sbind [OF tracked_each [where P = P and g = "\<lambda>d. {dump_config txt (od_cfg d)}", OF one]])
      (rule after_spure, simp add: P_def)
qed

lemma tracked_insert_queue:
  "after (tracked s I D C) (insert_queue txt s q)
     (\<lambda>_. tracked s I D (C \<union> (\<Union>d \<in> set (qd_commands q). {dump_config txt (od_cfg d)})))"
  unfolding insert_queue_def
proof (rule after_sbind [OF tracked_fresh], rule after_sbind)
  fix i
  show "after (\<lambda>t. tracked s I D C t \<and> i \<notin> I) (insert_queue_row (build_queue_entity i s q))
      (\<lambda>_ t. tracked s I D C t \<and> under_queue s i t)"
    unfolding after_def tracked_def under_queue_def
    by (auto simp: build_queue_entity_def insert_queue_row_def split: if_splits elim!: stored_under_grows)
next
  fix i u
  define P where "P C t \<longleftrightarrow> tracked s I D C t \<and> under_queue s i t" for C t
  have fresh: "after (P C) fresh_mock_id (\<lambda>_. P C)" for C
    using tracked_fresh [of s I D C] by (auto simp: after_def P_def under_queue_def fresh_mock_result)
  have row: "after (P C) (\<lambda>t. (Inr (), t\<lparr>mt_queue_commands := mt_queue_commands t @ [build_operation_entity txt j i d]\<rparr>))
      (\<lambda>_. P (C \<union> {dump_config txt (od_cfg d)}))" for j d C
    unfolding after_def
  proof (intro allI impI)
    fix t x t' assume t: "P C t"
      and "(Inr (), t\<lparr>mt_queue_commands := mt_queue_commands t @ [build_operation_entity txt j i d]\<rparr>) = (Inr x, t')"
    then have t': "t' = t\<lparr>mt_queue_commands := mt_queue_commands t @ [build_operation_entity txt j i d]\<rparr>" by simp
    have "stored_under s c t'" if "c \<in> C" for c
      by (rule stored_under_grows [of s c t]) (use t that in \<open>auto simp: t' P_def tracked_def\<close>)
    moreover have "stored_under s (dump_config txt (od_cfg d)) t'"
      using t by (auto simp: t' P_def under_queue_def stored_under_def build_operation_entity_def)
    ultimately show "P (C \<union> {dump_config txt (od_cfg d)}) t'" using t by (auto simp: t' P_def tracked_def under_queue_def)
  qed
  have one: "after (P C) (sbind fresh_mock_id (\<lambda>j t.
      (Inr (), t\<lparr>mt_queue_commands := mt_queue_commands t @ [build_operation_entity txt j i d]\<rparr>)))
      (\<lambda>_. P (C \<union> {dump_config txt (od_cfg d)}))" for d C
    by (rule after_sbind [OF fresh row])
  show "after (\<lambda>t. tracked s I D C t \<and> under_queue s i t) (sbind (each_call (\<lambda>d. sbind fresh_mock_id (\<lambda>j t.
      (Inr (), t\<lparr>mt_queue_commands := mt_queue_commands t @ [build_operation_entity txt j i d]\<rparr>))) (qd_commands q)) (\<lambda>_. spure ()))
      (\<lambda>_. tracked s I D (C \<union> (\<Union>d \<in> set (qd_commands q). {dump_config txt (od_cfg d)})))"
    unfolding P_def [symmetric] by (rule after_sbind [OF tracked_each [where P = P and g = "\<lambda>d. {dump_config txt (od_cfg d)}", OF one]])
      (rule after_spure, simp add: P_def)
qed

definition stored_cfgs :: "(rat \<Rightarrow> string) \<Rightarrow> server_dto \<Rightarrow> json dict set" where
  "stored_cfgs txt d = (\<lambda>o'. dump_config txt (od_cfg o')) ` set (operations d)"

lemma tracked_insert_rows:
  "after (tracked s I D {}) (insert_server_rows txt s d) (\<lambda>_. tracked s I D (stored_cfgs txt d))"
proof -
  have "{} \<union> (\<Union>a \<in> set (vd_apis d). \<Union>d \<in> set (ad_commands a). {dump_config txt (od_cfg d)}) \<union>
      (\<Union>q \<in> set (vd_queues d). \<Union>d \<in> set (qd_commands q). {dump_config txt (od_cfg d)}) = stored_cfgs txt d"
    by (auto simp: stored_cfgs_def operations_def)
  moreover have "after (tracked s I D {}) (insert_server_rows txt s d)
     (\<lambda>_. tracked s I D ({} \<union> (\<Union>a \<in> set (vd_apis d). \<Union>d \<in> set (ad_commands a). {dump_config txt (od_cfg d)}) \<union>
      (\<Union>q \<in> set (vd_queues d). \<Union>d \<in> set (qd_commands q). {dump_config txt (od_cfg d)})))"
    unfolding insert_server_rows_def
    by (rule after_sbind [OF tracked_each [where P = "tracked s I D", OF tracked_insert_api]],
        rule after_sbind [OF tracked_each [where P = "tracked s I D", OF tracked_insert_queue]]) (simp add: after_spure)
  ultimately show ?thesis by simp
qed

text \<open>What stored commands declare.\<close>

lemma entity_commands_plain: "list_all plain_raw (entity_commands es)"
  by (auto simp: list_all_iff entity_commands_def plain_raw_def or_index_def in_set_enumerate_eq)

lemma entity_plan_ids:
  assumes "plan_definitions_for_commands pyd new_id (entity_commands es) st initial = Inr p"
    and "e \<in> set es" and "x \<in> set (cfg_ids pyd (fields_of (ce_cfg e)))"
  shows "x \<in> pl_id ` set (fst p)"
proof -
  have cfgs: "map (\<lambda>r. cfg_ids pyd (fields_of (jget r ''cfg''))) (entity_commands es) =
      map (\<lambda>e. cfg_ids pyd (fields_of (ce_cfg e))) es"
    unfolding entity_commands_def map_map
    by (subst (2) map_snd_enumerate [of 0 es, symmetric], unfold map_map) (simp add: comp_def case_prod_beta jget_Cons)
  from mset_eq_setD [OF plan_plain_ids [OF entity_commands_plain assms(1), unfolded cfgs]] assms(2,3) show ?thesis
    by auto
qed

lemma mapM_reaches:
  assumes "mapM f xs = Inr ys" and "x \<in> set xs"
  shows "\<exists>y \<in> set ys. f x = Inr y"
proof -
  from assms(2) obtain i where i: "i < length xs" "x = xs ! i" by (auto simp: in_set_conv_nth)
  with mapM_Inr_nth [OF assms(1) i(1)] mapM_Inr_length [OF assms(1)] show ?thesis by (metis nth_mem)
qed

lemma server_definitions_declare:
  assumes "server_definitions pyd new_id v = Inr ds"
  shows "a \<in> set (ve_apis v) \<Longrightarrow> e \<in> set (ae_commands a) \<Longrightarrow> x \<in> set (cfg_ids pyd (fields_of (ce_cfg e))) \<Longrightarrow> x \<in> cd_id ` set ds"
    and "q \<in> set (ve_queues v) \<Longrightarrow> e \<in> set (qe_commands q) \<Longrightarrow> x \<in> set (cfg_ids pyd (fields_of (ce_cfg e))) \<Longrightarrow> x \<in> cd_id ` set ds"
proof -
  from assms obtain as qs where parts: "mapM (api_definitions pyd new_id) (ve_apis v) = Inr as"
    "mapM (queue_definitions pyd new_id) (ve_queues v) = Inr qs" "ds = concat as @ concat qs"
    by (auto simp: server_definitions_def rbind_Inr_iff)
  show "x \<in> cd_id ` set ds" if a: "a \<in> set (ve_apis v)" "e \<in> set (ae_commands a)" "x \<in> set (cfg_ids pyd (fields_of (ce_cfg e)))"
  proof -
    obtain rows where rows: "api_definitions pyd new_id a = Inr rows" "rows \<in> set as" using mapM_reaches [OF parts(1) a(1)] by blast
    from rows(1) obtain p where plan: "plan_definitions_for_commands pyd new_id (entity_commands (ae_commands a)) ''mock.postResponse'' [] = Inr p"
      and sub: "set (map (api_definition_entity ''mock_api_post'' (ae_id a)) (fst p)) \<subseteq> set rows"
      by (auto simp: api_definitions_def rbind_Inr_iff)
    from entity_plan_ids [OF plan a(2,3)] obtain d where d: "d \<in> set (fst p)" "x = pl_id d" by blast
    with sub have "api_definition_entity ''mock_api_post'' (ae_id a) d \<in> set rows" by auto
    from imageI [OF this, of cd_id] have "x \<in> cd_id ` set rows" by (simp add: d(2) api_definition_entity_def)
    with rows(2) show ?thesis by (auto simp: parts(3))
  qed
  show "x \<in> cd_id ` set ds" if q: "q \<in> set (ve_queues v)" "e \<in> set (qe_commands q)" "x \<in> set (cfg_ids pyd (fields_of (ce_cfg e)))"
  proof -
    obtain rows where rows: "queue_definitions pyd new_id q = Inr rows" "rows \<in> set qs" using mapM_reaches [OF parts(2) q(1)] by blast
    from rows(1) obtain p where plan: "plan_definitions_for_commands pyd new_id (entity_commands (qe_commands q)) ''mock.queue'' [] = Inr p"
      and sub: "rows = map (queue_definition_entity (qe_id q)) (fst p)"
      by (auto simp: queue_definitions_def rbind_Inr_iff)
    from entity_plan_ids [OF plan q(2,3)] obtain d where d: "d \<in> set (fst p)" "x = pl_id d" by blast
    with sub have "queue_definition_entity (qe_id q) d \<in> set rows" by auto
    from imageI [OF this, of cd_id] have "x \<in> cd_id ` set rows" by (simp add: d(2) queue_definition_entity_def)
    with rows(2) show ?thesis by (auto simp: parts(3))
  qed
qed

lemma view_declares:
  assumes "stored_under (ms_id r) c t" and "server_definitions pyd new_id (server_view t r) = Inr ds" and "x \<in> set (cfg_ids pyd c)"
  shows "x \<in> cd_id ` set ds"
  using assms(1) unfolding stored_under_def
proof (elim disjE bexE conjE)
  fix a o' assume a: "a \<in> set (mt_apis t)" "ma_server a = ms_id r" and c: "o' \<in> set (mt_api_commands t)" "mo_owner o' = ma_id a" "mo_cfg o' = c"
  have "api_view t a \<in> set (ve_apis (server_view t r))" using a by (auto simp: server_view_rows)
  moreover have "operation_view o' \<in> set (ae_commands (api_view t a))" using c by (simp add: api_view_def operations_of_def)
  ultimately show ?thesis by (rule server_definitions_declare(1) [OF assms(2)]) (simp add: operation_view_def c(3) assms(3))
next
  fix q o' assume q: "q \<in> set (mt_queues t)" "mb_server q = ms_id r" and c: "o' \<in> set (mt_queue_commands t)" "mo_owner o' = mb_id q" "mo_cfg o' = c"
  have "queue_view t q \<in> set (ve_queues (server_view t r))" using q by (auto simp: server_view_rows)
  moreover have "operation_view o' \<in> set (qe_commands (queue_view t q))" using c by (simp add: queue_view_def operations_of_def)
  ultimately show ?thesis by (rule server_definitions_declare(2) [OF assms(2)]) (simp add: operation_view_def c(3) assms(3))
qed

definition server_constant_ids :: "field_types \<Rightarrow> (rat \<Rightarrow> string) \<Rightarrow> server_dto \<Rightarrow> string list" where
  "server_constant_ids pyd txt d = concat (map (\<lambda>o'. cfg_ids pyd (dump_config txt (od_cfg o'))) (operations d))"

text \<open>The rebuild of a server whose rows are new adds the definitions of its commands to those of all others.\<close>

lemma tracked_rebuild:
  assumes "\<forall>c \<in> set D. owner_issued I c"
  shows "after (tracked (ms_id r) I D (stored_cfgs txt d)) (rebuild_server_definitions pyd r)
    (\<lambda>_ t. set (server_constant_ids pyd txt d) \<subseteq> cd_id ` set (mt_definitions t) \<and>
       set (server_constant_ids pyd txt d) \<inter> cd_id ` set D = {})"
  unfolding after_def
proof (intro allI impI)
  fix t u t' assume t: "tracked (ms_id r) I D (stored_cfgs txt d) t" and run: "rebuild_server_definitions pyd r t = (Inr u, t')"
  from run obtain ds where ds: "rebuild_mock_constant_definitions pyd (next_mock_ids t) (server_view t r) (mt_definitions t) = Inr ds"
    and t': "mt_definitions t' = ds" by (auto simp: rebuild_server_definitions_def split: sum.splits)
  have api_ids: "ae_id a \<notin> I" if "a \<in> set (ve_apis (server_view t r))" for a
    using that t by (auto simp: server_view_rows api_view_def tracked_def)
  have queue_ids: "qe_id q \<notin> I" if "q \<in> set (ve_queues (server_view t r))" for q
    using that t by (auto simp: server_view_rows queue_view_def tracked_def)
  have "delete_definitions_of_server (server_view t r) D = D"
    unfolding delete_definitions_of_server_def using assms api_ids queue_ids
    by (intro filter_True) (auto simp: owner_issued_def)
  with ds t obtain new where new: "server_definitions pyd (next_mock_ids t) (server_view t r) = Inr new"
    and parts: "ds = D @ new" "set (map cd_id new) \<inter> set (map cd_id D) = {}"
    by (auto simp: rebuild_mock_constant_definitions_def insert_definitions_def rbind_Inr_iff tracked_def split: if_splits)
  have "x \<in> cd_id ` set new" if x: "x \<in> set (server_constant_ids pyd txt d)" for x
  proof -
    from x obtain c where c: "c \<in> stored_cfgs txt d" "x \<in> set (cfg_ids pyd c)"
      by (auto simp: server_constant_ids_def stored_cfgs_def)
    with t have "stored_under (ms_id r) c t" by (simp add: tracked_def)
    from view_declares [OF this new c(2)] show ?thesis .
  qed
  then have "set (server_constant_ids pyd txt d) \<subseteq> cd_id ` set new" by blast
  moreover have "mt_definitions t' = D @ new" using parts(1) t' by simp
  ultimately show "set (server_constant_ids pyd txt d) \<subseteq> cd_id ` set (mt_definitions t') \<and>
      set (server_constant_ids pyd txt d) \<inter> cd_id ` set D = {}"
    using parts(2) by (simp only: set_append image_Un list.set_map) blast
qed

text \<open>Both operations add rows for the server and rebuild.\<close>

definition unowned :: "string \<Rightarrow> mock_tables \<Rightarrow> bool" where
  "unowned s t \<longleftrightarrow> (\<forall>a \<in> set (mt_apis t). ma_server a \<noteq> s) \<and> (\<forall>q \<in> set (mt_queues t). mb_server q \<noteq> s)"

lemma tracked_start:
  assumes "mock_ok t" and "unowned s t"
  shows "tracked s (issued_ids t) (mt_definitions t) {} t" and "\<forall>c \<in> set (mt_definitions t). owner_issued (issued_ids t) c"
  using assms by (auto simp: mock_ok_def tracked_def unowned_def issued_ids_def)

lemma rows_and_rebuild:
  assumes "mock_ok t" and "unowned s t" and "operations d' = operations d"
    and "sbind (insert_server_rows txt s d') (\<lambda>_. rebuild_server_definitions pyd (build_mock_server_entity s d')) t = (Inr u, t')"
  shows "set (server_constant_ids pyd txt d) \<subseteq> cd_id ` set (mt_definitions t') \<and>
    set (server_constant_ids pyd txt d) \<inter> cd_id ` set (mt_definitions t) = {}"
proof -
  define r where "r = build_mock_server_entity s d'"
  have s: "ms_id r = s" by (simp add: r_def)
  have same: "server_constant_ids pyd txt d' = server_constant_ids pyd txt d" by (simp add: server_constant_ids_def assms(3))
  note start = tracked_start [OF assms(1,2)]
  have "after (tracked s (issued_ids t) (mt_definitions t) {})
      (sbind (insert_server_rows txt s d') (\<lambda>_. rebuild_server_definitions pyd r))
      (\<lambda>_ t'. set (server_constant_ids pyd txt d') \<subseteq> cd_id ` set (mt_definitions t') \<and>
         set (server_constant_ids pyd txt d') \<inter> cd_id ` set (mt_definitions t) = {})"
    by (rule after_sbind [OF tracked_insert_rows]) (rule tracked_rebuild [of _ _ r, unfolded s, OF start(2)])
  with start(1) assms(4) show ?thesis unfolding after_def r_def same by blast
qed

lemma definitions_validated:
  "after (\<lambda>t. mock_ok t \<and> mt_definitions t = D) (validated_request pyd txt d)
     (\<lambda>d' t. mock_ok t \<and> mt_definitions t = D \<and> operations d' = operations d)"
proof -
  have fresh: "after (\<lambda>t. mt_definitions t = D) fresh_mock_id (\<lambda>_ t. mt_definitions t = D)"
    by (auto simp: after_def fresh_mock_id_def)
  have one: "after (\<lambda>t. mt_definitions t = D) (with_command_id raw) (\<lambda>_ t. mt_definitions t = D)" for raw
    unfolding with_command_id_def by (auto intro!: after_spure after_sbind [OF fresh])
  have api: "after (\<lambda>t. mt_definitions t = D) (api_with_ids a) (\<lambda>_ t. mt_definitions t = D)" for a
    unfolding api_with_ids_def
    by (cases "ag_pre (ad_cfg a)") (auto intro!: after_spure after_sbind [OF after_each [OF one]])
  have ids: "after (\<lambda>t. mt_definitions t = D) (ensure_inline_command_ids d) (\<lambda>_ t. mt_definitions t = D)"
    unfolding ensure_inline_command_ids_def by (rule after_sbind [OF after_each [OF api]]) (simp add: after_spure)
  have keep: "after (\<lambda>t. mt_definitions t = D) (validated_request pyd txt d) (\<lambda>_ t. mt_definitions t = D)"
    unfolding validated_request_def
    by (rule after_sbind [OF ids]) (auto simp: after_def sbind_def spure_def split: sum.splits)
  show ?thesis
    unfolding after_def
  proof (intro allI impI)
    fix t d' t' assume t: "mock_ok t \<and> mt_definitions t = D" and run: "validated_request pyd txt d t = (Inr d', t')"
    then have "mock_ok t'" using after_validated [of pyd "txt" d] unfolding after_def by blast
    moreover have "mt_definitions t' = D" using keep t run unfolding after_def by blast
    moreover have "same_request d d'" using validated_same [of "\<lambda>_. True" pyd "txt" d] run unfolding after_def by blast
    ultimately show "mock_ok t' \<and> mt_definitions t' = D \<and> operations d' = operations d" by (simp add: same_request_def)
  qed
qed

lemma sbind_returns:
  assumes "sbind m f s = (Inr y, s')"
  obtains x s1 where "m s = (Inr x, s1)" "f x s1 = (Inr y, s')"
  using assms by (auto simp: sbind_def split: prod.splits sum.splits)

lemma sbind_assign: "sbind (\<lambda>t. (Inr x, g t)) f s = f x (g s)"
  by (simp add: sbind_def)

lemma update_declares:
  assumes "mock_ok t" and "update_mock_server pyd txt i d t = (Inr u, t')"
  shows "set (server_constant_ids pyd txt d) \<inter> cd_id ` set (mt_definitions t) = {}"
proof -
  from assms(2) [unfolded update_mock_server_cleared sbind_assoc] obtain d' t1 where one: "validated_request pyd txt d t = (Inr d', t1)"
    "sbind (update_allowed i (vd_endpoint d')) (\<lambda>_. sbind (\<lambda>t. (Inr (), cleared i d' t)) (\<lambda>_.
       sbind (insert_server_rows txt i d') (\<lambda>_. rebuild_server_definitions pyd (build_mock_server_entity i d')))) t1 = (Inr u, t')"
    by (rule sbind_returns)
  from this(2) obtain x t2 where two: "update_allowed i (vd_endpoint d') t1 = (Inr x, t2)"
    and run: "sbind (insert_server_rows txt i d') (\<lambda>_. rebuild_server_definitions pyd (build_mock_server_entity i d'))
      (cleared i d' t2) = (Inr u, t')"
    unfolding sbind_assign by (rule sbind_returns)
  have v: "mock_ok t1" "mt_definitions t1 = mt_definitions t" "operations d' = operations d"
    using definitions_validated [of "mt_definitions t" pyd "txt" d] one assms(1) unfolding after_def by blast+
  note same = update_allowed_known(1) [OF v(1) two]
  have "unowned i (cleared i d' t2)" "mt_definitions (cleared i d' t2) = mt_definitions t"
    by (simp_all add: unowned_def cleared_def delete_server_rows_def Let_def same v(2))
  moreover have "mock_ok (cleared i d' t2)" using cleared_ok [OF v(1) two] by (simp add: same server_known_def)
  ultimately show ?thesis using rows_and_rebuild [OF _ _ v(3) run] by simp
qed

lemma create_declares:
  assumes "mock_ok t" and "create_mock_server pyd txt d t = (Inr i, t')"
  shows "set (server_constant_ids pyd txt d) \<subseteq> cd_id ` set (mt_definitions t')"
proof -
  from assms(2) [unfolded create_mock_server_def] obtain d' t1 where one: "validated_request pyd txt d t = (Inr d', t1)"
    "sbind (\<lambda>t. if server_by_endpoint t (vd_endpoint d') \<noteq> None then (Inl (endpoint_taken (vd_endpoint d')), t)
                else (Inr (), t)) (\<lambda>_.
     sbind fresh_mock_id (\<lambda>i.
     sbind (\<lambda>t. (Inr (), t\<lparr>mt_servers := mt_servers t @ [build_mock_server_entity i d']\<rparr>)) (\<lambda>_.
     sbind (insert_server_rows txt i d') (\<lambda>_.
     sbind (rebuild_server_definitions pyd (build_mock_server_entity i d')) (\<lambda>_. spure i))))) t1 = (Inr i, t')"
    by (rule sbind_returns)
  from this(2) obtain u t0 where none: "(if server_by_endpoint t1 (vd_endpoint d') \<noteq> None then (Inl (endpoint_taken (vd_endpoint d')), t1)
                else (Inr (), t1)) = (Inr u, t0)"
    and next_steps: "sbind fresh_mock_id (\<lambda>i.
     sbind (\<lambda>t. (Inr (), t\<lparr>mt_servers := mt_servers t @ [build_mock_server_entity i d']\<rparr>)) (\<lambda>_.
     sbind (insert_server_rows txt i d') (\<lambda>_.
     sbind (rebuild_server_definitions pyd (build_mock_server_entity i d')) (\<lambda>_. spure i)))) t0 = (Inr i, t')"
    by (rule sbind_returns)
  from none have none: "server_by_endpoint t1 (vd_endpoint d') = None" and t0: "t0 = t1" by (auto split: if_splits)
  from next_steps [unfolded t0] obtain j t2 where two: "fresh_mock_id t1 = (Inr j, t2)"
    and rest: "sbind (insert_server_rows txt j d') (\<lambda>_. sbind (rebuild_server_definitions pyd (build_mock_server_entity j d')) (\<lambda>_. spure j))
      (t2\<lparr>mt_servers := mt_servers t2 @ [build_mock_server_entity j d']\<rparr>) = (Inr i, t')"
    unfolding sbind_assign by (rule sbind_returns)
  have v: "mock_ok t1" "operations d' = operations d"
    using definitions_validated [of "mt_definitions t" pyd "txt" d] one assms(1) unfolding after_def by blast+
  define t3 where "t3 = t2\<lparr>mt_servers := mt_servers t2 @ [build_mock_server_entity j d']\<rparr>"
  from fresh_mock_ok [OF v(1) two] have fresh: "mock_ok t2" "just_issued j t2" "mt_servers t2 = mt_servers t1" by simp_all
  have "ms_endpoint (build_mock_server_entity j d') \<notin> ms_endpoint ` set (mt_servers t2)"
    by (auto simp: fresh(3) dest: find_none_id [OF none [unfolded server_by_endpoint_def]])
  with add_server_ok [OF fresh(1), of "build_mock_server_entity j d'"] fresh(2) have ok: "mock_ok t3"
    by (simp add: t3_def server_known_def)
  have "j \<notin> ms_id ` set (mt_servers t2)" using fresh(2) by (simp add: just_issued_def)
  then have un: "unowned j t3" using fresh(1) by (auto simp: unowned_def t3_def mock_ok_def image_subset_iff)
  from rest [folded t3_def] obtain u where "sbind (insert_server_rows txt j d') (\<lambda>_. rebuild_server_definitions pyd (build_mock_server_entity j d')) t3 = (Inr u, t')"
    by (elim sbind_returns) (auto simp: sbind_def spure_def)
  from rows_and_rebuild [OF ok un v(2) this] show ?thesis by blast
qed

section \<open>Properties\<close>

definition sample_operation :: operation_dto where
  "sample_operation = \<lparr>od_order = 1, od_description = [], od_cfg = \<lparr>cfg_type = ''action'', cfg_command = ReadApi
     \<lparr>rq_method = ''GET'', rq_url = ''http://shop'', rq_query = None, rq_headers = None, rq_path = None, rq_auth = None,
      rq_body_type = ''json'', rq_timeout = None,
      rq_result = Some \<lparr>rc_definition = ''d1'', rc_name = ''rows'', rc_value_type = ''json''\<rparr>\<rparr>\<rparr>\<rparr>"

definition sample_mock_api :: api_dto where
  "sample_mock_api = \<lparr>ad_order = 1, ad_description = [],
     ad_cfg = \<lparr>ag_method = ''GET'', ag_path = ''/orders'', ag_params = None, ag_auth_mode = Some ''inherit'', ag_authorization = None,
       ag_headers = None, ag_body = JNull, ag_body_match = Some ''contains'', ag_response = None, ag_status = 200,
       ag_response_headers = None, ag_response_body = JNull, ag_pre = None, ag_post = None, ag_priority = 0\<rparr>,
     ad_commands = [sample_operation]\<rparr>"

definition sample_server :: server_dto where
  "sample_server = \<lparr>vd_description = ''Shop'', vd_endpoint = ''shop'', vd_authorization = None, vd_apis = [sample_mock_api],
     vd_queues = [], vd_active = True\<rparr>"

definition empty_app :: mock_app where
  "empty_app = \<lparr>mp_tables = \<lparr>mt_servers = [], mt_apis = [], mt_queues = [], mt_api_commands = [], mt_queue_commands = [],
      mt_definitions = [], mt_broker_queues = [], mt_ids = (\<lambda>n. replicate (Suc n) (CHR ''m'')), mt_next = 0, mt_tie = (\<lambda>_. 0)\<rparr>,
     mp_registry = empty_registry\<rparr>"

lemma empty_app_ok: "app_ok empty_app"
  using inj_replicate [of "CHR ''m''"]
  by (simp add: app_ok_def mock_ok_def empty_app_def empty_registry_def issued_ids_def)

text \<open>C36. In every state that requests to create, change, delete, activate and deactivate mock servers can reach,
  whatever the brokers answer when listeners are started and also when a request fails: the tables are well formed
  (no two servers share an endpoint), every running server has a row, and every server the tables call active is
  running.
\<close>

theorem mock_servers_stay_consistent:
  assumes "app_ok s"
  shows "app_ok (foldl (\<lambda>s (connect, c). change_mocks pyd txt connect s c) s changes)"
  using assms by (induction changes arbitrary: s) (auto simp: change_ok)

theorem mock_servers_stay_consistent_witness:
  "app_ok (foldl (\<lambda>s (connect, c). change_mocks strict_types (\<lambda>_. ''0.5'') connect s c) empty_app
     [(\<lambda>_. Inr (), CreateServer sample_server), (\<lambda>_. Inl (ValueError ''down''), UpdateServer ''mm'' sample_server),
      (\<lambda>_. Inr (), DeactivateServer ''m'')])"
  by (rule mock_servers_stay_consistent [OF empty_app_ok])

text \<open>C37. Once a server is stored, no update can keep a constant one of its API or queue commands declares: the
  update inserts the rows of the server anew, the rebuild looks for old definitions under the new rows only, and
  the definition that is already there has the same key. The request raises and changes nothing.
\<close>

theorem stored_constants_block_update:
  assumes "mock_ok (mp_tables s)" and "create_mock_server_api pyd txt connect d s = (Inr i, s1)"
    and "x \<in> set (server_constant_ids pyd txt d)" and "x \<in> set (server_constant_ids pyd txt d')"
  shows "\<exists>e. update_mock_server_api pyd txt connect' j d' s1 = (Inl e, s1)"
proof (cases rule: in_session_cases [of "create_mock_server pyd txt d" s])
  case (raised e)
  with assms(2) show ?thesis by (simp add: create_mock_server_api_def sbind_def)
next
  case (returned k t)
  have tables: "mp_tables s1 = t"
    using assms(2) start_in_servers(1)
    by (auto simp: create_mock_server_api_def sbind_def returned(2) started_or_def spure_def
      split: if_splits prod.splits sum.splits)
  have there: "x \<in> cd_id ` set (mt_definitions t)" using create_declares [OF assms(1) returned(1)] assms(3) by blast
  have ok: "mock_ok t" using after_create [of pyd "txt" d] returned(1) assms(1) unfolding after_def by blast
  show ?thesis
  proof (cases rule: in_session_cases [of "update_mock_server pyd txt j d'" s1])
    case (raised e)
    then show ?thesis by (simp add: update_mock_server_api_def sbind_def)
  next
    case (returned u t')
    from update_declares [OF ok returned(1) [unfolded tables]] there assms(4) show ?thesis by blast
  qed
qed

theorem stored_constants_block_update_witness:
  "\<exists>s1 e. create_mock_server_api strict_types (\<lambda>_. ''0.5'') (\<lambda>_. Inr ()) sample_server empty_app = (Inr ''m'', s1) \<and>
     update_mock_server_api strict_types (\<lambda>_. ''0.5'') (\<lambda>_. Inr ()) ''m'' sample_server s1 = (Inl e, s1)"
proof -
  have "fst (create_mock_server_api strict_types (\<lambda>_. ''0.5'') (\<lambda>_. Inr ()) sample_server empty_app) = Inr ''m''" by code_simp
  then obtain s1 where run: "create_mock_server_api strict_types (\<lambda>_. ''0.5'') (\<lambda>_. Inr ()) sample_server empty_app = (Inr ''m'', s1)"
    by (metis prod.collapse)
  have ids: "server_constant_ids strict_types (\<lambda>_. ''0.5'') sample_server = [''d1'']" by code_simp
  have ok: "mock_ok (mp_tables empty_app)" using empty_app_ok by (simp add: app_ok_def)
  from stored_constants_block_update [OF ok run, of "''d1''" sample_server "\<lambda>_. Inr ()" "''m''"] ids run show ?thesis by auto
qed

end
