(* ===== verification/OpenApiImport.thy ===== *)
theory OpenApiImport
  imports MockServerStore
begin

text \<open>
  The import of an OpenAPI document into a mock server (\<open>app/mock_servers/services/openapi_import_service.py\<close>). The
  decoding of the file is an argument: not UTF-8, not JSON, or a JSON value.
\<close>

record openapi_result =
  oi_apis :: "json dict list"
  oi_skipped :: "string list"
  oi_templated :: "string list"
  oi_warnings :: "string list"
  oi_errors :: "string list"

definition no_import :: openapi_result where
  "no_import = \<lparr>oi_apis = [], oi_skipped = [], oi_templated = [], oi_warnings = [], oi_errors = []\<rparr>"

type_synonym route_key = "string \<times> string"

definition route_label :: "string \<Rightarrow> string \<Rightarrow> string" where
  "route_label verb path = py_upper (py_strip verb) @ '' '' @ normalize_path path"

definition normalize_existing_routes :: "route_key list \<Rightarrow> route_key list" where
  "normalize_existing_routes routes = map (\<lambda>(verb, path). (py_upper (py_strip verb), normalize_path path)) routes"

definition is_openapi_3 :: "json dict \<Rightarrow> bool" where
  "is_openapi_3 payload \<longleftrightarrow> starts_with ''3.'' (token (jget payload ''openapi''))"

section \<open>The response of an operation\<close>

definition media_score :: "string \<Rightarrow> nat" where
  "media_score media =
     (let m = py_lower (py_strip media) in
      if m = ''application/json'' then 0 else if ends_with ''+json'' m then 1
      else if contains_sub ''json'' m then 2 else 99)"

definition iter_json_media_types :: "json dict \<Rightarrow> json dict list" where
  "iter_json_media_types content =
     map snd (sort_key fst (map (\<lambda>(media, e). (media_score media, fields_of e)) (filter (\<lambda>me. is_obj (snd me)) content)))"

fun first_example :: "json list \<Rightarrow> json option" where
  "first_example [] = None"
| "first_example (JNull # es) = first_example es"
| "first_example (JObj d # es) = Some (case dict_get d ''value'' of Some v \<Rightarrow> v | None \<Rightarrow> JObj d)"
| "first_example (e # es) = Some e"

definition schema_example :: "json dict \<Rightarrow> json" where
  "schema_example entry = jget (fields_of (jget entry ''schema'')) ''example''"

definition extract_example :: "json dict \<Rightarrow> json" where
  "extract_example entry =
     (case dict_get entry ''example'' of
        Some v \<Rightarrow> v
      | None \<Rightarrow>
          (case first_example (map snd (fields_of (jget entry ''examples''))) of
             Some v \<Rightarrow> v
           | None \<Rightarrow> schema_example entry))"

text \<open>\<open>2\d\d\<close>\<close>

definition success_status :: "string \<Rightarrow> bool" where
  "success_status s \<longleftrightarrow> (case s of [a, b, c] \<Rightarrow> a = CHR ''2'' \<and> is_decimal b \<and> is_decimal c | _ \<Rightarrow> False)"

definition pick_response_entry :: "json dict \<Rightarrow> int \<times> json dict" where
  "pick_response_entry responses =
     (if is_obj (jget responses ''200'') then (200, fields_of (jget responses ''200''))
      else (case find (\<lambda>(k, e). is_obj e \<and> success_status (py_strip k)) responses of
              Some (k, e) \<Rightarrow> (int (digits_value (py_strip k)), fields_of e)
            | None \<Rightarrow> (200, fields_of (jget responses ''default''))))"

definition response_ok :: json where
  "response_ok = JObj [(''status'', JStr ''ok'')]"

definition extract_response_body :: "json dict \<Rightarrow> json" where
  "extract_response_body entry =
     (case find (\<lambda>v. v \<noteq> JNull) (map extract_example (iter_json_media_types (fields_of (jget entry ''content'')))) of
        Some v \<Rightarrow> v | None \<Rightarrow> response_ok)"

fun response_body_type :: "json \<Rightarrow> string" where
  "response_body_type (JStr _) = ''string''"
| "response_body_type JNull = ''any''"
| "response_body_type _ = ''json''"

definition default_response_headers :: "json \<Rightarrow> json dict" where
  "default_response_headers v = (if is_obj v \<or> is_list v then [(''Content-Type'', JStr ''application/json'')] else [])"

definition operation_description :: "string \<Rightarrow> string \<Rightarrow> json dict \<Rightarrow> string" where
  "operation_description verb path operation =
     or_text (token (jget operation ''summary''))
       (or_text (token (jget operation ''operationId'')) (route_label verb path))"

definition build_mock_api :: "string \<Rightarrow> string \<Rightarrow> json dict \<Rightarrow> nat \<Rightarrow> json dict" where
  "build_mock_api verb path operation order =
     (let response = pick_response_entry (fields_of (jget operation ''responses''));
          answer = extract_response_body (snd response);
          p = normalize_path path; v = py_upper (py_strip verb) in
      [(''id'', JNull), (''order'', JInt (int order)), (''description'', JStr (operation_description verb p operation)),
       (''method'', JStr v), (''path'', JStr p),
       (''configuration_json'', JObj
         [(''method'', JStr v), (''path'', JStr p), (''params'', JObj []), (''authMode'', JStr ''inherit''),
          (''authorization'', JObj []), (''headers'', JObj []), (''body'', JNull), (''body_type'', JStr ''any''),
          (''body_match'', JStr ''contains''), (''response_status'', JInt (fst response)),
          (''response_headers'', JObj (default_response_headers answer)), (''response_body'', answer),
          (''response_body_type'', JStr (response_body_type answer)), (''priority'', JInt 0),
          (''pre_response_commands'', JList []), (''response_operations'', JList []), (''post_response_commands'', JList [])]),
       (''operations'', JList []), (''pre_response_commands'', JList []), (''response_operations'', JList []),
       (''post_response_commands'', JList [])])"

section \<open>The import\<close>

text \<open>The state of the loop: the result and the routes met in the document.\<close>

type_synonym import_state = "openapi_result \<times> route_key list"

definition import_operation :: "route_key list \<Rightarrow> string \<Rightarrow> json dict \<Rightarrow> import_state \<Rightarrow> string \<Rightarrow> import_state" where
  "import_operation known path item s verb =
     (case (jget item (py_lower verb), s) of
        (JObj operation, (r, seen)) \<Rightarrow>
          if (verb, path) \<in> set known \<or> (verb, path) \<in> set seen
          then (r\<lparr>oi_skipped := oi_skipped r @ [route_label verb path]\<rparr>, seen)
          else (r\<lparr>oi_apis := oi_apis r @ [build_mock_api verb path operation (length (oi_apis r) + 1)]\<rparr>,
                seen @ [(verb, path)])
      | _ \<Rightarrow> s)"

definition note_templated :: "string \<Rightarrow> openapi_result \<Rightarrow> openapi_result" where
  "note_templated path r =
     (if CHR 0x7B \<in> set path \<and> CHR 0x7D \<in> set path \<and> path \<notin> set (oi_templated r)
      then r\<lparr>oi_templated := oi_templated r @ [path],
             oi_warnings := oi_warnings r @ [''Il path templated '' @ path @
               '' verra importato letteralmente e non matchera /... dinamici.'']\<rparr>
      else r)"

definition import_path :: "route_key list \<Rightarrow> import_state \<Rightarrow> string \<times> json \<Rightarrow> import_state" where
  "import_path known s entry =
     (let path = normalize_path (fst entry) in
      case snd entry of
        JObj item \<Rightarrow> foldl (import_operation known path item) (note_templated path (fst s), snd s) http_methods
      | _ \<Rightarrow> ((fst s)\<lparr>oi_warnings := oi_warnings (fst s) @ [''Path '' @ path @ '' ignorato: definizione path non valida.'']\<rparr>, snd s))"

datatype openapi_file =
    NotUtf8
  | NotJson string
  | JsonFile json

definition failed_import :: "string \<Rightarrow> openapi_result" where
  "failed_import message = no_import\<lparr>oi_errors := [message]\<rparr>"

definition import_openapi_json :: "openapi_file \<Rightarrow> route_key list \<Rightarrow> openapi_result" where
  "import_openapi_json file existing =
     (case file of
        NotUtf8 \<Rightarrow> failed_import ''Il file deve essere un JSON UTF-8 valido.''
      | NotJson message \<Rightarrow> failed_import (''JSON non valido: '' @ message)
      | JsonFile (JObj payload) \<Rightarrow>
          if \<not> is_openapi_3 payload then failed_import ''Sono supportati solo file OpenAPI 3.x in formato JSON.''
          else (case jget payload ''paths'' of
                  JObj paths \<Rightarrow> fst (foldl (import_path (normalize_existing_routes existing)) (no_import, []) paths)
                | _ \<Rightarrow> failed_import (''Spec OpenAPI non valida: sezione '' @ quoted ''paths'' @ '' mancante o non valida.''))
      | JsonFile _ \<Rightarrow> failed_import ''Il file OpenAPI deve contenere un oggetto JSON.'')"

end
