(* ===== verification/OpenApiProps.thy ===== *)
theory OpenApiProps
  imports OpenApiImport
begin

text \<open>
  The import of an OpenAPI document: which operations become APIs, in which order, and with which response.
\<close>

section \<open>Reference\<close>

text \<open>The operations of a document, in the order of its paths and, in a path, of the methods.\<close>

definition path_routes :: "string \<times> json \<Rightarrow> route_key list" where
  "path_routes entry =
     map (\<lambda>verb. (verb, normalize_path (fst entry)))
       (filter (\<lambda>verb. is_obj (jget (fields_of (snd entry)) (py_lower verb))) http_methods)"

definition document_routes :: "json dict \<Rightarrow> route_key list" where
  "document_routes paths = concat (map path_routes paths)"

text \<open>Each route once, the known ones left out.\<close>

fun fresh_routes :: "route_key list \<Rightarrow> route_key list \<Rightarrow> route_key list" where
  "fresh_routes known [] = []"
| "fresh_routes known (r # rs) =
     (if r \<in> set known then fresh_routes known rs else r # fresh_routes (r # known) rs)"

definition stored_route :: "json dict \<Rightarrow> json \<times> json" where
  "stored_route a = (jget a ''method'', jget a ''path'')"

definition route_json :: "route_key \<Rightarrow> json \<times> json" where
  "route_json r = (JStr (fst r), JStr (normalize_path (snd r)))"

definition api_status :: "json dict \<Rightarrow> json" where
  "api_status a = jget (fields_of (jget a ''configuration_json'')) ''response_status''"

lemma fresh_routes_snoc:
  "fresh_routes known (xs @ [y]) =
     fresh_routes known xs @ (if y \<in> set known \<or> y \<in> set (fresh_routes known xs) then [] else [y])"
  by (induction known xs rule: fresh_routes.induct) auto

lemma fresh_routes_set: "set (fresh_routes known xs) = set xs - set known"
  by (induction known xs rule: fresh_routes.induct) auto

lemma fresh_routes_distinct: "distinct (fresh_routes known xs)"
  by (induction known xs rule: fresh_routes.induct) (auto simp: fresh_routes_set)

section \<open>The loop\<close>

definition imported :: "route_key list \<Rightarrow> import_state \<Rightarrow> route_key list \<Rightarrow> bool" where
  "imported known s met \<longleftrightarrow>
     snd s = fresh_routes known met \<and> map stored_route (oi_apis (fst s)) = map route_json (snd s) \<and>
     map (\<lambda>a. jget a ''order'') (oi_apis (fst s)) = map (\<lambda>n. JInt (int n + 1)) [0..<length (oi_apis (fst s))] \<and>
     length (oi_apis (fst s)) + length (oi_skipped (fst s)) = length met \<and>
     (\<forall>a \<in> set (oi_apis (fst s)). \<exists>n. api_status a = JInt n \<and> 200 \<le> n \<and> n \<le> 299) \<and> oi_errors (fst s) = []"

lemma success_status_range:
  assumes "success_status s"
  shows "200 \<le> int (digits_value s) \<and> int (digits_value s) \<le> 299"
proof -
  from assms obtain b c where s: "s = [CHR ''2'', b, c]" and d: "is_decimal b" "is_decimal c"
    by (auto simp: success_status_def split: list.splits)
  have digit: "of_char x - 48 \<le> (9 :: nat)" if "is_decimal x" for x
  proof -
    from that have "of_char x \<le> (57 :: nat)" by (simp add: is_decimal_def Let_def)
    then show ?thesis by linarith
  qed
  from digit [OF d(1)] digit [OF d(2)] show ?thesis by (simp add: s digits_value_def)
qed

lemma response_status_range: "200 \<le> fst (pick_response_entry rs) \<and> fst (pick_response_entry rs) \<le> 299"
proof (cases "is_obj (jget rs ''200'')")
  case False
  show ?thesis
  proof (cases "find (\<lambda>(k, e). is_obj e \<and> success_status (py_strip k)) rs")
    case (Some ke)
    then have "success_status (py_strip (fst ke))" by (auto simp: find_Some_iff)
    from success_status_range [OF this] Some False show ?thesis by (simp add: pick_response_entry_def case_prod_beta)
  qed (simp add: pick_response_entry_def False)
qed (simp add: pick_response_entry_def)

lemma built_api:
  "stored_route (build_mock_api verb path operation n) = (JStr (py_upper (py_strip verb)), JStr (normalize_path path))"
  "jget (build_mock_api verb path operation n) ''order'' = JInt (int n)"
  "\<exists>k. api_status (build_mock_api verb path operation n) = JInt k \<and> 200 \<le> k \<and> k \<le> 299"
  using response_status_range
  by (auto simp: stored_route_def api_status_def build_mock_api_def Let_def jget_def dict_get_def)

lemma method_upper: "verb \<in> set http_methods \<Longrightarrow> py_upper (py_strip verb) = verb"
  by (simp add: http_methods_def) (elim disjE; simp; code_simp)

lemma import_operation_met:
  assumes "imported known s met" and "verb \<in> set http_methods"
  shows "imported known (import_operation known path item s verb)
    (met @ (if is_obj (jget item (py_lower verb)) then [(verb, path)] else []))"
proof (cases "jget item (py_lower verb)")
  case (JObj operation)
  obtain r seen where s: "s = (r, seen)" by (cases s)
  note inv = assms(1) [unfolded imported_def s fst_conv snd_conv]
  show ?thesis
  proof (cases "(verb, path) \<in> set known \<or> (verb, path) \<in> set seen")
    case True
    have "import_operation known path item s verb = (r\<lparr>oi_skipped := oi_skipped r @ [route_label verb path]\<rparr>, seen)"
      using True by (auto simp: import_operation_def JObj s)
    moreover have "fresh_routes known (met @ [(verb, path)]) = seen"
      using True inv by (auto simp: fresh_routes_snoc)
    ultimately show ?thesis using inv by (simp add: imported_def JObj)
  next
    case False
    define a where "a = build_mock_api verb path operation (length (oi_apis r) + 1)"
    have run: "import_operation known path item s verb = (r\<lparr>oi_apis := oi_apis r @ [a]\<rparr>, seen @ [(verb, path)])"
      using False by (simp add: import_operation_def JObj s a_def)
    have "fresh_routes known (met @ [(verb, path)]) = seen @ [(verb, path)]"
      using False inv by (auto simp: fresh_routes_snoc)
    moreover have "stored_route a = route_json (verb, path)"
      by (simp add: a_def built_api route_json_def method_upper [OF assms(2)])
    moreover have "jget a ''order'' = JInt (int (length (oi_apis r)) + 1)" by (simp add: a_def built_api)
    moreover have "\<exists>k. api_status a = JInt k \<and> 200 \<le> k \<and> k \<le> 299" unfolding a_def by (rule built_api(3))
    ultimately show ?thesis using inv by (simp add: imported_def JObj run)
  qed
qed (use assms(1) in \<open>cases s; simp add: import_operation_def\<close>)+

lemma import_operations_met:
  assumes "imported known s met" and "set verbs \<subseteq> set http_methods"
  shows "imported known (foldl (import_operation known path item) s verbs)
    (met @ map (\<lambda>verb. (verb, path)) (filter (\<lambda>verb. is_obj (jget item (py_lower verb))) verbs))"
  using assms
proof (induction verbs arbitrary: s met)
  case (Cons verb verbs)
  from Cons.prems(2) have verb: "verb \<in> set http_methods" and rest: "set verbs \<subseteq> set http_methods" by simp_all
  from Cons.IH [OF import_operation_met [OF Cons.prems(1) verb] rest, of path item] show ?case
    by (simp split: if_splits)
qed simp

lemma import_path_met:
  assumes "imported known s met"
  shows "imported known (import_path known s entry) (met @ path_routes entry)"
proof (cases "snd entry")
  case (JObj item)
  have "imported known (note_templated (normalize_path (fst entry)) (fst s), snd s) met"
    using assms by (auto simp: imported_def note_templated_def)
  from import_operations_met [OF this, of http_methods] show ?thesis
    by (simp add: import_path_def JObj path_routes_def Let_def)
qed (use assms in \<open>simp_all add: import_path_def path_routes_def Let_def imported_def jget_def http_methods_def\<close>)

lemma import_paths_met:
  "imported known s met \<Longrightarrow> imported known (foldl (import_path known) s paths) (met @ document_routes paths)"
proof (induction paths arbitrary: s met)
  case (Cons entry paths)
  from Cons.IH [OF import_path_met [OF Cons.prems]] show ?case by (simp add: document_routes_def)
qed (simp add: document_routes_def)

section \<open>Properties\<close>

definition sample_document :: "json dict" where
  "sample_document = [(''openapi'', JStr ''3.0.1''), (''paths'', JObj
     [(''/orders/'', JObj [(''get'', JObj [(''responses'', JObj [(''204'', JObj [])])]), (''post'', JObj [])]),
      (''orders'', JObj [(''get'', JObj [])]), (''/items'', JObj [(''get'', JObj [])])])]"

text \<open>C35. The import of an OpenAPI 3 document takes each operation of the document once, in order, and leaves out those
  whose normalised route the server has already: the APIs it makes have exactly these routes, are numbered from 1,
  answer with a 2xx status, and every other operation is reported as skipped.
\<close>

theorem openapi_imports_new_routes:
  assumes "is_openapi_3 payload" and "jget payload ''paths'' = JObj paths"
    and "known = normalize_existing_routes existing" and "r = import_openapi_json (JsonFile (JObj payload)) existing"
  shows "map stored_route (oi_apis r) = map route_json (fresh_routes known (document_routes paths)) \<and>
    map (\<lambda>a. jget a ''order'') (oi_apis r) = map (\<lambda>n. JInt (int n + 1)) [0..<length (oi_apis r)] \<and>
    (\<forall>a \<in> set (oi_apis r). \<exists>n. api_status a = JInt n \<and> 200 \<le> n \<and> n \<le> 299) \<and>
    length (oi_apis r) + length (oi_skipped r) = length (document_routes paths) \<and> oi_errors r = []"
proof -
  define s where "s = foldl (import_path known) (no_import, []) paths"
  have "imported known (no_import, []) []" by (simp add: imported_def no_import_def)
  from import_paths_met [OF this, of paths] have "imported known s (document_routes paths)" by (simp add: s_def)
  moreover have "r = fst s" using assms by (simp add: import_openapi_json_def s_def)
  ultimately show ?thesis by (simp add: imported_def)
qed

theorem openapi_imports_new_routes_witness:
  "map stored_route (oi_apis (import_openapi_json (JsonFile (JObj sample_document)) [('' post'', ''orders'')])) =
     [(JStr ''GET'', JStr ''/orders''), (JStr ''GET'', JStr ''/items'')]"
proof -
  have routes: "fresh_routes (normalize_existing_routes [('' post'', ''orders'')])
      (document_routes (fields_of (jget sample_document ''paths''))) = [(''GET'', ''/orders''), (''GET'', ''/items'')]"
    by code_simp
  have v: "is_openapi_3 sample_document" by code_simp
  have p: "jget sample_document ''paths'' = JObj (fields_of (jget sample_document ''paths''))" by (simp add: sample_document_def jget_def dict_get_def)
  have json: "map route_json [(''GET'', ''/orders''), (''GET'', ''/items'')] = [(JStr ''GET'', JStr ''/orders''), (JStr ''GET'', JStr ''/items'')]"
    by code_simp
  from openapi_imports_new_routes [OF v p refl refl, of "[('' post'', ''orders'')]"] show ?thesis by (simp only: routes json)
qed

text \<open>The routes are compared before the paths are normalised a second time.\<close>

lemma double_slash_imported_twice:
  "map stored_route (oi_apis (import_openapi_json (JsonFile (JObj
      [(''openapi'', JStr ''3.1''), (''paths'', JObj [(''/'', JObj [(''get'', JObj [])]), (''//'', JObj [(''get'', JObj [])])])])) [])) =
     [(JStr ''GET'', JStr ''/''), (JStr ''GET'', JStr ''/'')]"
  by code_simp

end
