(* ===== verification/DraftMapper.thy ===== *)
theory DraftMapper
  imports ConstantGraph DatasetParameters
begin

text \<open>
  The drafts of the suite editor (\<open>app/ui/test_suites/services/draft_mapper.py\<close>): a stored suite becomes a draft whose
  commands name constants by their paths, and a draft becomes the request that stores it, whose commands name them
  by identifier. Values are JSON, copies of them the values themselves.
\<close>

section \<open>Constants of a section\<close>

record draft_constant =
  dk_id :: string
  dk_name :: string
  dk_scope :: string
  dk_type :: string
  dk_declared :: int
  dk_deleted :: "int option"

definition draft_readable_scopes :: "string \<Rightarrow> string list" where
  "draft_readable_scopes st =
     (case dict_get
        [(''beforeAll'', [''runEnvelope'', ''result'']), (''beforeEach'', [''runEnvelope'', ''global'', ''result'']),
         (''test'', [''runEnvelope'', ''global'', ''local'', ''result'']),
         (''afterEach'', [''runEnvelope'', ''global'', ''local'', ''result'']),
         (''afterAll'', [''runEnvelope'', ''global'', ''result''])] st of
        None \<Rightarrow> [] | Some s \<Rightarrow> s)"

definition draft_command_code :: "json dict \<Rightarrow> string" where
  "draft_command_code cfg =
     (let code = token (json_or (jget cfg ''commandCode'') (jget cfg ''command_code'')) in
      if code = ''initConstant'' then ''setVariable'' else if code = ''deleteConstant'' then ''deleteVariable'' else code)"

definition definition_path :: "string \<Rightarrow> string \<Rightarrow> string" where
  "definition_path scope name = ''$.'' @ scope @ ''.constants.'' @ name"

definition is_alnum :: "char \<Rightarrow> bool" where
  "is_alnum c =
     (let n = of_char c :: nat in
      48 \<le> n \<and> n \<le> 57 \<or> 65 \<le> n \<and> n \<le> 90 \<or> 97 \<le> n \<and> n \<le> 122 \<or> n \<in> {170, 178, 179, 181, 185, 186, 188, 189, 190}
      \<or> 192 \<le> n \<and> n \<noteq> 215 \<and> n \<noteq> 247)"

text \<open>The key that is made up when nothing is left is an argument.\<close>

definition stable_ui_key :: "string \<Rightarrow> json list \<Rightarrow> string" where
  "stable_ui_key new_key parts =
     or_text (strip_char (CHR ''_'') (map (\<lambda>c. if is_alnum c then c else CHR ''_'')
       (join_with ''_'' (filter (\<lambda>t. t \<noteq> []) (map token parts))))) new_key"

definition extract_scope_name :: "string \<Rightarrow> (string \<times> string) option" where
  "extract_scope_name value =
     (let raw = py_strip value;
          rest = (if starts_with ''$.'' raw then drop 2 raw
                  else if starts_with ''$'' raw then lstrip_char (CHR ''.'') (drop 1 raw) else raw);
          parts = filter (\<lambda>p. p \<noteq> []) (split_on (CHR ''.'') rest) in
      if length parts \<ge> 3 \<and> parts ! 1 = ''constants'' then Some (hd parts, last parts) else None)"

definition either :: "json dict \<Rightarrow> string \<Rightarrow> string \<Rightarrow> json" where
  "either d k k' = json_or (jget d k) (jget d k')"

definition constant_ref_id :: "json \<Rightarrow> string" where
  "constant_ref_id v = (case v of JObj d \<Rightarrow> token (either d ''definitionId'' ''definition_id'') | _ \<Rightarrow> [])"

definition value_type_or :: "string \<Rightarrow> json dict \<Rightarrow> string" where
  "value_type_or fallback d = or_text (token (json_or (either d ''valueType'' ''value_type'') (JStr fallback))) fallback"

definition definition_from_init :: "json dict \<Rightarrow> int \<Rightarrow> draft_constant option" where
  "definition_from_init cfg order =
     (let i = token (either cfg ''definitionId'' ''definition_id''); name = token (either cfg ''name'' ''key'');
          context = token (either cfg ''context'' ''scope'') in
      if i = [] \<or> name = [] \<or> context = [] then None
      else Some \<lparr>dk_id = i, dk_name = name, dk_scope = context, dk_type = value_type_or ''value'' cfg,
                 dk_declared = order, dk_deleted = None\<rparr>)"

definition definition_from_result :: "json dict \<Rightarrow> int \<Rightarrow> draft_constant option" where
  "definition_from_result cfg order =
     (let r = fields_of (either cfg ''resultConstant'' ''result_constant'');
          i = token (either r ''definitionId'' ''definition_id''); name = token (jget r ''name'') in
      if i = [] \<or> name = [] then None
      else Some \<lparr>dk_id = i, dk_name = name, dk_scope = ''result'', dk_type = value_type_or ''json'' r,
                 dk_declared = order, dk_deleted = None\<rparr>)"

definition carry_over_definitions :: "draft_constant dict \<Rightarrow> draft_constant dict" where
  "carry_over_definitions ds =
     map (\<lambda>(k, d). (k, d\<lparr>dk_declared := 0\<rparr>)) (filter (\<lambda>(k, d). dk_deleted d = None) ds)"

definition visible_definitions :: "draft_constant dict \<Rightarrow> string \<Rightarrow> int \<Rightarrow> draft_constant list" where
  "visible_definitions ds st order =
     sort_key dk_declared
       (filter (\<lambda>d. dk_scope d \<in> set (draft_readable_scopes st) \<and> dk_declared d < order \<and>
          (case dk_deleted d of None \<Rightarrow> True | Some k \<Rightarrow> \<not> k \<le> order)) (map snd ds))"

definition find_by_scope_name ::
  "draft_constant dict \<Rightarrow> string \<Rightarrow> int \<Rightarrow> string \<Rightarrow> string \<Rightarrow> draft_constant option" where
  "find_by_scope_name ds st order scope name =
     (let s = py_strip scope; n = py_strip name;
          hits = filter (\<lambda>d. dk_scope d = s \<and> dk_name d = n) (visible_definitions ds st order) in
      if s = [] \<or> n = [] \<or> hits = [] then None else Some (last hits))"

definition find_by_path :: "draft_constant dict \<Rightarrow> string \<Rightarrow> int \<Rightarrow> json \<Rightarrow> draft_constant option" where
  "find_by_path ds st order path =
     (case extract_scope_name (token path) of
        None \<Rightarrow> None | Some (scope, name) \<Rightarrow> find_by_scope_name ds st order scope name)"

definition find_by_id :: "draft_constant dict \<Rightarrow> string \<Rightarrow> int \<Rightarrow> string \<Rightarrow> draft_constant option" where
  "find_by_id ds st order i = find (\<lambda>d. dk_id d = i) (visible_definitions ds st order)"

primrec first_in_scopes ::
  "draft_constant dict \<Rightarrow> string \<Rightarrow> int \<Rightarrow> string \<Rightarrow> string list \<Rightarrow> draft_constant option" where
  "first_in_scopes ds st order name [] = None"
| "first_in_scopes ds st order name (scope # scopes) =
     (case find_by_scope_name ds st order scope name of
        Some d \<Rightarrow> Some d | None \<Rightarrow> first_in_scopes ds st order name scopes)"

definition find_by_name :: "draft_constant dict \<Rightarrow> string \<Rightarrow> int \<Rightarrow> string \<Rightarrow> draft_constant option" where
  "find_by_name ds st order name = first_in_scopes ds st order name [''local'', ''global'', ''runEnvelope'', ''result'']"

definition path_of :: "draft_constant \<Rightarrow> json" where
  "path_of d = JStr (definition_path (dk_scope d) (dk_name d))"

section \<open>Result constants, sources and parameter bindings\<close>

definition serialize_result_constant :: "json dict \<Rightarrow> json dict option" where
  "serialize_result_constant cfg =
     (let r = fields_of (either cfg ''resultConstant'' ''result_constant'');
          i = token (either r ''definitionId'' ''definition_id''); name = token (jget r ''name'') in
      if r \<noteq> [] \<and> i \<noteq> [] \<and> name \<noteq> []
      then Some [(''definitionId'', JStr i), (''name'', JStr name), (''valueType'', JStr (value_type_or ''json'' r))]
      else (case extract_scope_name (token (either cfg ''result_target'' ''resultTarget'')) of
              Some (scope, n) \<Rightarrow>
                if scope = ''result'' \<and> n \<noteq> []
                then Some [(''definitionId'', JStr (definition_path scope n)), (''name'', JStr n), (''valueType'', JStr ''json'')]
                else None
            | None \<Rightarrow> None))"

definition normalize_sources :: "json \<Rightarrow> json list" where
  "normalize_sources v = (case v of JList xs \<Rightarrow> filter is_obj xs | _ \<Rightarrow> [])"

definition store_bindings :: "(json \<Rightarrow> json) \<Rightarrow> json \<Rightarrow> json dict option" where
  "store_bindings f bindings =
     (case bindings of
        JObj d \<Rightarrow>
          (let stored = foldl (\<lambda>acc (k, v). if py_strip k = [] then acc else dict_set (py_strip k) (f v) acc) [] d in
           if stored = [] then None else Some stored)
      | _ \<Rightarrow> None)"

definition hydrate_binding :: "draft_constant dict \<Rightarrow> string \<Rightarrow> int \<Rightarrow> json \<Rightarrow> json" where
  "hydrate_binding ds st order v =
     (case v of
        JObj b \<Rightarrow>
          if py_lower (token (jget b ''kind'')) = ''constant_ref'' then
            (case find_by_id ds st order (token (either b ''definitionId'' ''definition_id'')) of
               Some d \<Rightarrow> JObj [(''kind'', JStr ''constant_path''), (''path'', path_of d)]
             | None \<Rightarrow> v)
          else v
      | _ \<Rightarrow> v)"

definition serialize_binding :: "draft_constant dict \<Rightarrow> string \<Rightarrow> int \<Rightarrow> json \<Rightarrow> json" where
  "serialize_binding ds st order v =
     (case v of
        JObj b \<Rightarrow>
          if py_lower (token (jget b ''kind'')) = ''constant_path'' then
            (case find_by_path ds st order (jget b ''path'') of
               Some d \<Rightarrow> JObj [(''kind'', JStr ''constant_ref''), (''definitionId'', JStr (dk_id d))]
             | None \<Rightarrow> v)
          else v
      | _ \<Rightarrow> v)"

definition hydrate_dataset_parameter_bindings :: "draft_constant dict \<Rightarrow> string \<Rightarrow> int \<Rightarrow> json \<Rightarrow> json dict option" where
  "hydrate_dataset_parameter_bindings ds st order = store_bindings (hydrate_binding ds st order)"

definition serialize_dataset_parameter_bindings :: "draft_constant dict \<Rightarrow> string \<Rightarrow> int \<Rightarrow> json \<Rightarrow> json dict option" where
  "serialize_dataset_parameter_bindings ds st order = store_bindings (serialize_binding ds st order)"

section \<open>References in HTTP fields\<close>

definition resolve_runtime_definition_id :: "draft_constant dict \<Rightarrow> string \<Rightarrow> int \<Rightarrow> json \<Rightarrow> string" where
  "resolve_runtime_definition_id ds st order v =
     (if token v = [] then []
      else (case find_by_id ds st order (token v) of
              Some d \<Rightarrow> dk_id d
            | None \<Rightarrow>
                (case find_by_path ds st order (JStr (token v)) of Some d \<Rightarrow> dk_id d | None \<Rightarrow> token v)))"

definition is_runtime_node :: "json dict \<Rightarrow> bool" where
  "is_runtime_node d \<longleftrightarrow> token (jget d ''kind'') = ''runtimeValue''"

definition with_definition :: "json \<Rightarrow> json dict \<Rightarrow> json dict" where
  "with_definition i d = dict_del ''definition_id'' (dict_set ''definitionId'' i d)"

fun serialize_http_runtime_refs :: "draft_constant dict \<Rightarrow> string \<Rightarrow> int \<Rightarrow> json \<Rightarrow> json" where
  "serialize_http_runtime_refs ds st order (JList xs) = JList (map (serialize_http_runtime_refs ds st order) xs)"
| "serialize_http_runtime_refs ds st order (JObj d) =
     (if is_runtime_node d then
        (let i = resolve_runtime_definition_id ds st order (either d ''definitionId'' ''definition_id'') in
         JObj (if i \<noteq> [] then with_definition (JStr i) d else d))
      else JObj (map (\<lambda>kv. (fst kv, serialize_http_runtime_refs ds st order (snd kv))) d))"
| "serialize_http_runtime_refs ds st order v = v"

fun hydrate_http_runtime_refs :: "draft_constant dict \<Rightarrow> string \<Rightarrow> int \<Rightarrow> json \<Rightarrow> json" where
  "hydrate_http_runtime_refs ds st order (JList xs) = JList (map (hydrate_http_runtime_refs ds st order) xs)"
| "hydrate_http_runtime_refs ds st order (JObj d) =
     (if is_runtime_node d then
        (case find_by_id ds st order (token (either d ''definitionId'' ''definition_id'')) of
           Some c \<Rightarrow> JObj (with_definition (path_of c) d)
         | None \<Rightarrow> JObj d)
      else JObj (map (\<lambda>kv. (fst kv, hydrate_http_runtime_refs ds st order (snd kv))) d))"
| "hydrate_http_runtime_refs ds st order v = v"

section \<open>Configurations of commands\<close>

definition dict_default :: "string \<Rightarrow> 'v \<Rightarrow> 'v dict \<Rightarrow> 'v dict" where
  "dict_default k v d = (if dict_get d k = None then dict_set k v d else d)"

text \<open>The elements of a value a loop runs over, None and other empty values as no elements.\<close>

definition iterate :: "json \<Rightarrow> json list result" where
  "iterate v =
     (case v of
        JList xs \<Rightarrow> Inr xs
      | JObj d \<Rightarrow> Inr (map (\<lambda>kv. JStr (fst kv)) d)
      | JStr s \<Rightarrow> Inr (map (\<lambda>c. JStr [c]) s)
      | _ \<Rightarrow> if json_truthy v then Inl (TypeError ''object is not iterable'') else Inr [])"

definition with_code :: "json dict \<Rightarrow> json dict" where
  "with_code cfg =
     (if draft_command_code cfg \<noteq> [] then dict_set ''commandCode'' (JStr (draft_command_code cfg)) cfg else cfg)"

definition hydrate_delete :: "draft_constant dict \<Rightarrow> string \<Rightarrow> int \<Rightarrow> json dict \<Rightarrow> json dict" where
  "hydrate_delete ds st order h =
     (case find_by_id ds st order (constant_ref_id (either h ''targetRuntimeValueRef'' ''target_runtime_value_ref'')) of
        Some d \<Rightarrow> dict_default ''scope'' (JStr (dk_scope d)) (dict_default ''context'' (JStr (dk_scope d))
          (dict_default ''name'' (JStr (dk_name d)) h))
      | None \<Rightarrow> h)"

text \<open>A reference, a source it may name instead, and the field that gets the path of its constant.\<close>

definition ref_kind :: "json \<Rightarrow> string" where
  "ref_kind r = token (jget (fields_of r) ''kind'')"

definition hydrate_source_code :: "json \<Rightarrow> string \<Rightarrow> json dict \<Rightarrow> json dict" where
  "hydrate_source_code r field h =
     (if is_obj r \<and> ref_kind r = ''source''
      then dict_set field (JStr (token (either (fields_of r) ''sourceCode'' ''source_code''))) h else h)"

definition referred_id :: "json \<Rightarrow> string" where
  "referred_id r = (if is_obj r \<and> (ref_kind r = ''runtimeValue'' \<or> ref_kind r = []) then constant_ref_id r else [])"

definition hydrate_path ::
  "draft_constant dict \<Rightarrow> string \<Rightarrow> int \<Rightarrow> string \<Rightarrow> bool \<Rightarrow> string \<Rightarrow> json dict \<Rightarrow> json dict" where
  "hydrate_path ds st order i free field h =
     (if i \<noteq> [] \<and> free
      then (case find_by_id ds st order i of Some d \<Rightarrow> dict_set field (path_of d) h | None \<Rightarrow> h) else h)"

definition hydrate_input :: "draft_constant dict \<Rightarrow> string \<Rightarrow> int \<Rightarrow> json dict \<Rightarrow> json dict" where
  "hydrate_input ds st order h =
     (let r = json_or (either h ''inputRef'' ''input_ref'') (either h ''sourceConstantRef'' ''source_constant_ref'');
          h1 = hydrate_source_code r ''sourceCode'' h in
      hydrate_path ds st order (referred_id r) (token (jget h1 ''source'') = []) ''source'' h1)"

definition hydrate_actual :: "draft_constant dict \<Rightarrow> string \<Rightarrow> int \<Rightarrow> json dict \<Rightarrow> json dict" where
  "hydrate_actual ds st order h =
     (let r = json_or (either h ''actualRef'' ''actual_ref'') (either h ''actualConstantRef'' ''actual_constant_ref'');
          h1 = hydrate_source_code r ''actualSourceCode'' h in
      hydrate_path ds st order (referred_id r) (\<not> json_truthy (jget h1 ''actual'')) ''actual'' h1)"

definition hydrate_expected :: "json dict \<Rightarrow> json dict" where
  "hydrate_expected h = hydrate_source_code (either h ''expectedRef'' ''expected_ref'') ''expectedSourceCode'' h"

definition http_fields :: "string list" where
  "http_fields = [''queryParams'', ''headers'', ''pathParams'', ''authorization'', ''body'']"

definition map_http_fields :: "(json \<Rightarrow> json) \<Rightarrow> json dict \<Rightarrow> json dict" where
  "map_http_fields f d = map (\<lambda>kv. (fst kv, if fst kv \<in> set http_fields then f (snd kv) else snd kv)) d"

definition hydrate_http :: "draft_constant dict \<Rightarrow> string \<Rightarrow> int \<Rightarrow> json dict \<Rightarrow> json dict" where
  "hydrate_http ds st order h = map_http_fields (hydrate_http_runtime_refs ds st order) h"

definition hydrate_constants :: "draft_constant dict \<Rightarrow> string \<Rightarrow> int \<Rightarrow> json dict \<Rightarrow> json dict result" where
  "hydrate_constants ds st order h =
     (let refs = either h ''runtimeValueRefs'' ''runtime_value_refs'' in
      if json_truthy refs \<and> \<not> json_truthy (jget h ''constants'') then
        rbind (iterate refs) (\<lambda>items.
          let names = map dk_name (List.map_filter (\<lambda>r. find_by_id ds st order (constant_ref_id r)) items) in
          Inr (if names = [] then h else dict_set ''constants'' (JList (map JStr names)) h))
      else Inr h)"

definition hydrate_result :: "json dict \<Rightarrow> json dict" where
  "hydrate_result h =
     (case serialize_result_constant h of
        Some r \<Rightarrow>
          if token (either h ''result_target'' ''resultTarget'') = []
          then dict_set ''result_target'' (JStr (definition_path ''result'' (str_or_empty (jget r ''name'')))) h else h
      | None \<Rightarrow> h)"

definition hydrate_operation_cfg ::
  "draft_constant dict \<Rightarrow> string \<Rightarrow> int \<Rightarrow> json dict \<Rightarrow> json dict result" where
  "hydrate_operation_cfg ds st order cfg =
     (let code = draft_command_code cfg;
          h1 = with_code cfg;
          h2 = (if code = ''deleteVariable'' then hydrate_delete ds st order h1 else h1);
          h3 = hydrate_expected (hydrate_actual ds st order (hydrate_input ds st order h2));
          h4 = (if code \<in> {''readApi'', ''writeApi''} then hydrate_http ds st order h3 else h3) in
      rbind (hydrate_constants ds st order h4) (\<lambda>h5.
        let h6 = hydrate_result h5 in
        Inr (if code = ''setVariable'' then
               (case hydrate_dataset_parameter_bindings ds st order (jget h6 ''parameters'') of
                  Some b \<Rightarrow> dict_set ''parameters'' (JObj b) h6 | None \<Rightarrow> h6)
             else h6)))"

definition serialize_set_variable ::
  "string \<Rightarrow> draft_constant dict \<Rightarrow> string \<Rightarrow> int \<Rightarrow> json dict \<Rightarrow> json dict" where
  "serialize_set_variable new_id ds st order s =
     (let s1 = dict_set ''definitionId'' (JStr (or_text (token (either s ''definitionId'' ''definition_id'')) new_id)) s in
      case serialize_dataset_parameter_bindings ds st order (jget s1 ''parameters'') of
        Some b \<Rightarrow> dict_set ''parameters'' (JObj b) s1 | None \<Rightarrow> s1)"

definition drop_fields :: "string list \<Rightarrow> json dict \<Rightarrow> json dict" where
  "drop_fields ks d = foldl (\<lambda>acc k. dict_del k acc) d ks"

definition definition_ref :: "draft_constant \<Rightarrow> json" where
  "definition_ref d = JObj [(''definitionId'', JStr (dk_id d))]"

definition serialize_delete :: "draft_constant dict \<Rightarrow> string \<Rightarrow> int \<Rightarrow> json dict \<Rightarrow> json dict" where
  "serialize_delete ds st order s =
     (let s1 = drop_fields [''targetRuntimeValueRef'', ''target_runtime_value_ref''] s in
      case find_by_scope_name ds st order (token (either s1 ''context'' ''scope'')) (token (either s1 ''name'' ''key'')) of
        Some d \<Rightarrow> dict_set ''targetRuntimeValueRef'' (definition_ref d) s1 | None \<Rightarrow> s1)"

text \<open>A source named by its code, or else the constant at a path.\<close>

definition source_ref :: "string \<Rightarrow> json" where
  "source_ref code = JObj [(''kind'', JStr ''source''), (''sourceCode'', JStr code)]"

definition serialize_ref ::
  "draft_constant dict \<Rightarrow> string \<Rightarrow> int \<Rightarrow> string \<Rightarrow> json \<Rightarrow> string \<Rightarrow> json dict \<Rightarrow> json dict" where
  "serialize_ref ds st order code path field s =
     (if code \<noteq> [] then dict_set field (source_ref code) s
      else (case find_by_path ds st order path of
              Some d \<Rightarrow> dict_set field (JObj [(''kind'', JStr ''runtimeValue''), (''definitionId'', JStr (dk_id d))]) s
            | None \<Rightarrow> s))"

definition serialize_input :: "draft_constant dict \<Rightarrow> string \<Rightarrow> int \<Rightarrow> json dict \<Rightarrow> json dict" where
  "serialize_input ds st order s =
     (let s1 = drop_fields [''sourceConstantRef'', ''source_constant_ref'', ''inputRef'', ''input_ref''] s in
      serialize_ref ds st order (token (either s1 ''sourceCode'' ''source_code'')) (jget s1 ''source'') ''inputRef'' s1)"

definition serialize_actual :: "draft_constant dict \<Rightarrow> string \<Rightarrow> int \<Rightarrow> json dict \<Rightarrow> json dict" where
  "serialize_actual ds st order s =
     (let s1 = drop_fields [''actualConstantRef'', ''actual_constant_ref'', ''actualRef'', ''actual_ref''] s;
          s2 = serialize_ref ds st order (token (either s1 ''actualSourceCode'' ''actual_source_code''))
                 (jget s1 ''actual'') ''actualRef'' s1;
          code = token (either s2 ''expectedSourceCode'' ''expected_source_code'');
          s3 = drop_fields [''expectedRef'', ''expected_ref''] s2 in
      if code \<noteq> [] then dict_set ''expectedRef'' (source_ref code) s3 else s3)"

definition serialize_http :: "draft_constant dict \<Rightarrow> string \<Rightarrow> int \<Rightarrow> json dict \<Rightarrow> json dict" where
  "serialize_http ds st order s = map_http_fields (serialize_http_runtime_refs ds st order) s"

definition serialize_run_suite :: "draft_constant dict \<Rightarrow> string \<Rightarrow> int \<Rightarrow> json dict \<Rightarrow> json dict result" where
  "serialize_run_suite ds st order s =
     (let s1 = drop_fields [''runtimeValueRefs'', ''runtime_value_refs''] s in
      rbind (iterate (jget s1 ''constants'')) (\<lambda>names.
        let refs = map definition_ref (List.map_filter (\<lambda>n. find_by_name ds st order (str_or_empty n)) names) in
        Inr (if refs = [] then s1 else dict_set ''runtimeValueRefs'' (JList refs) s1)))"

definition draft_assert_codes :: "string list" where
  "draft_assert_codes =
     [''jsonEquals'', ''jsonEmpty'', ''jsonNotEmpty'', ''jsonContains'', ''jsonArrayEquals'', ''jsonArrayEmpty'',
      ''jsonArrayNotEmpty'', ''jsonArrayContains'']"

definition serialize_operation_cfg ::
  "string \<Rightarrow> draft_constant dict \<Rightarrow> string \<Rightarrow> int \<Rightarrow> json dict \<Rightarrow> json dict result" where
  "serialize_operation_cfg new_id ds st order cfg =
     (let code = draft_command_code cfg;
          s1 = with_code cfg;
          s2 = (if code = ''setVariable'' then serialize_set_variable new_id ds st order s1 else s1);
          s3 = (if code = ''deleteVariable'' then serialize_delete ds st order s2 else s2);
          s4 = (if code \<in> {''sendMessageQueue'', ''saveTable'', ''exportDataset''} then serialize_input ds st order s3 else s3);
          s5 = (if code \<in> {''readApi'', ''writeApi''} then serialize_http ds st order s4 else s4);
          s6 = (if code \<in> set draft_assert_codes then serialize_actual ds st order s5 else s5) in
      rbind (if code = ''runSuite'' then serialize_run_suite ds st order s6 else Inr s6) (\<lambda>s7.
        Inr (case serialize_result_constant s7 of Some r \<Rightarrow> dict_set ''resultConstant'' (JObj r) s7 | None \<Rightarrow> s7)))"

definition store_definition :: "draft_constant option \<Rightarrow> draft_constant dict \<Rightarrow> draft_constant dict" where
  "store_definition d ds = (case d of None \<Rightarrow> ds | Some c \<Rightarrow> dict_set (dk_id c) c ds)"

definition apply_post_command_definition_updates ::
  "json dict \<Rightarrow> int \<Rightarrow> draft_constant dict \<Rightarrow> draft_constant dict" where
  "apply_post_command_definition_updates cfg order ds =
     (if draft_command_code cfg = ''deleteVariable'' then
        (let i = constant_ref_id (either cfg ''targetRuntimeValueRef'' ''target_runtime_value_ref'') in
         case dict_get ds i of
           Some d \<Rightarrow> if i = [] then ds else dict_set i (d\<lparr>dk_deleted := Some order\<rparr>) ds
         | None \<Rightarrow> ds)
      else store_definition (definition_from_result cfg order) (store_definition (definition_from_init cfg order) ds))"

section \<open>Commands of an item\<close>

type_synonym draft_commands = "json list \<times> draft_constant dict"

definition draft_cfg :: "json dict \<Rightarrow> json dict" where
  "draft_cfg operation = fields_of (either operation ''configuration_json'' ''cfg'')"

definition draft_order :: "nat \<Rightarrow> json dict \<Rightarrow> int result" where
  "draft_order index operation = py_int (json_or (jget operation ''order'') (JInt (int index)))"

definition draft_operation ::
  "string \<Rightarrow> string \<Rightarrow> string \<Rightarrow> draft_commands \<Rightarrow> nat \<times> json \<Rightarrow> draft_commands result" where
  "draft_operation st ui_scope new_key acc entry =
     (case snd entry of
        JObj operation \<Rightarrow>
          rbind (draft_order (fst entry) operation) (\<lambda>order.
          rbind (hydrate_operation_cfg (snd acc) st order (draft_cfg operation)) (\<lambda>h.
            Inr (fst acc @ [JObj (dict_update operation
                   [(''order'', JInt order), (''configuration_json'', JObj h),
                    (''_ui_key'', JStr (or_text (str_or_empty (jget operation ''_ui_key''))
                      (stable_ui_key new_key [JStr ''op'', JStr ui_scope, JInt order, JStr (draft_command_code h)])))])],
                 apply_post_command_definition_updates h order (snd acc))))
      | _ \<Rightarrow> Inr acc)"

definition normalize_operations_for_draft ::
  "string \<Rightarrow> string \<Rightarrow> string \<Rightarrow> draft_constant dict \<Rightarrow> json list \<Rightarrow> draft_commands result" where
  "normalize_operations_for_draft st ui_scope new_key initial operations =
     foldM (draft_operation st ui_scope new_key) ([], carry_over_definitions initial) (enumerate 1 operations)"

text \<open>Identifiers of constants without one are drawn from a supply; each command leaves it one further.\<close>

type_synonym payload_commands = "json list \<times> draft_constant dict \<times> nat"

definition payload_operation ::
  "(nat \<Rightarrow> string) \<Rightarrow> string \<Rightarrow> payload_commands \<Rightarrow> nat \<times> json \<Rightarrow> payload_commands result" where
  "payload_operation new_id st acc entry =
     (case acc of (commands, ds, n) \<Rightarrow>
      case snd entry of
        JObj operation \<Rightarrow>
          rbind (draft_order (fst entry) operation) (\<lambda>order.
          rbind (serialize_operation_cfg (new_id n) ds st order (draft_cfg operation)) (\<lambda>s.
            Inr (commands @ [JObj [(''order'', JInt order), (''description'', JStr (str_or_empty (jget operation ''description''))),
                   (''cfg'', JObj s)]],
                 apply_post_command_definition_updates s order ds, n + 1)))
      | _ \<Rightarrow> Inr acc)"

definition serialize_operations_for_payload ::
  "(nat \<Rightarrow> string) \<Rightarrow> nat \<Rightarrow> string \<Rightarrow> draft_constant dict \<Rightarrow> json list \<Rightarrow> payload_commands result" where
  "serialize_operations_for_payload new_id n st initial operations =
     foldM (payload_operation new_id st) ([], carry_over_definitions initial, n) (enumerate 1 operations)"

section \<open>A stored suite as a draft\<close>

definition listed_commands :: "json dict \<Rightarrow> json list result" where
  "listed_commands item = iterate (either item ''commands'' ''operations'')"

definition raw_hooks :: "json list \<Rightarrow> json dict dict" where
  "raw_hooks hooks =
     foldl (\<lambda>acc h. case h of
        JObj d \<Rightarrow> if token (jget d ''hook_phase'') = [] then acc else dict_set (token (jget d ''hook_phase'')) d acc
      | _ \<Rightarrow> acc) [] hooks"

text \<open>The draft of a hook is stored under its phase; the second component are its definitions.\<close>

definition draft_hook ::
  "string \<Rightarrow> json dict dict \<Rightarrow> string \<Rightarrow> string \<Rightarrow> string \<Rightarrow> draft_constant dict \<Rightarrow> draft_constant dict \<Rightarrow>
    (json dict \<times> draft_constant dict) result" where
  "draft_hook new_key raws phase st key initial otherwise =
     (case dict_get raws phase of
        None \<Rightarrow> Inr ([], otherwise)
      | Some hook \<Rightarrow>
          rbind (listed_commands hook) (\<lambda>commands.
          rbind (normalize_operations_for_draft st key new_key initial commands) (\<lambda>(operations, ds).
            Inr ([(phase, JObj (dict_update hook
              [(''sources'', JList (normalize_sources (jget hook ''sources''))), (''operations'', JList operations),
               (''_ui_key'', JStr (or_text (str_or_empty (jget hook ''_ui_key'')) key))]))], ds))))"

definition draft_test :: "string \<Rightarrow> draft_constant dict \<Rightarrow> nat \<times> json \<Rightarrow> json list result" where
  "draft_test new_key initial entry =
     (case snd entry of
        JObj test \<Rightarrow>
          rbind (py_int (json_or (jget test ''position'') (JInt (int (fst entry))))) (\<lambda>position.
            let scope = stable_ui_key new_key [JStr ''test'', json_or (jget test ''id'') (JInt position)] in
            rbind (listed_commands test) (\<lambda>commands.
            rbind (normalize_operations_for_draft ''test'' scope new_key initial commands) (\<lambda>(operations, ds).
              Inr [JObj (dict_update test
                [(''sources'', JList (normalize_sources (jget test ''sources''))), (''position'', JInt position),
                 (''operations'', JList operations),
                 (''_ui_key'', JStr (or_text (str_or_empty (jget test ''_ui_key'')) scope))])])))
      | _ \<Rightarrow> Inr [])"

definition build_test_suite_draft :: "string \<Rightarrow> json \<Rightarrow> json dict result" where
  "build_test_suite_draft new_key payload =
     (let source = fields_of payload in
      rbind (iterate (jget source ''hooks'')) (\<lambda>hooks.
      let raws = raw_hooks hooks in
      rbind (draft_hook new_key raws ''before-all'' ''beforeAll'' ''hook_before_all'' [] []) (\<lambda>(before_all, all_ds).
      rbind (draft_hook new_key raws ''before-each'' ''beforeEach'' ''hook_before_each'' all_ds all_ds) (\<lambda>(before_each, each_ds).
      rbind (iterate (jget source ''tests'')) (\<lambda>tests.
      rbind (mapM (draft_test new_key each_ds) (enumerate 1 tests)) (\<lambda>drafts.
      rbind (draft_hook new_key raws ''after-each'' ''afterEach'' ''hook_after_each'' each_ds []) (\<lambda>(after_each, _).
      rbind (draft_hook new_key raws ''after-all'' ''afterAll'' ''hook_after_all'' all_ds []) (\<lambda>(after_all, _).
        Inr [(''id'', jget source ''id''), (''description'', JStr (str_or_empty (jget source ''description''))),
             (''hooks'', JObj (before_all @ before_each @ after_each @ after_all)), (''tests'', JList (concat drafts))]))))))))"

section \<open>A draft as a request\<close>

text \<open>What is written into the draft itself: the phases and kinds of its hooks, positions and kinds of its tests.\<close>

definition suite_phases :: "string list" where
  "suite_phases = [''before-all'', ''before-each'', ''after-each'', ''after-all'']"

definition marked_hook :: "string \<times> json \<Rightarrow> string \<times> json" where
  "marked_hook kv =
     (case snd kv of
        JObj d \<Rightarrow>
          if fst kv \<in> set suite_phases
          then (fst kv, JObj (dict_set ''kind'' (JStr ''hook'') (dict_set ''hook_phase'' (JStr (fst kv)) d))) else kv
      | _ \<Rightarrow> kv)"

definition marked_test :: "nat \<times> json \<Rightarrow> json" where
  "marked_test entry =
     (case snd entry of
        JObj d \<Rightarrow> JObj (dict_set ''kind'' (JStr ''test'') (dict_set ''position'' (JInt (int (fst entry))) d))
      | v \<Rightarrow> v)"

definition payload_item ::
  "(nat \<Rightarrow> string) \<Rightarrow> nat \<Rightarrow> string \<Rightarrow> draft_constant dict \<Rightarrow> json dict \<Rightarrow>
    (json dict \<times> draft_constant dict \<times> nat) result" where
  "payload_item new_id n st initial item =
     rbind (iterate (jget item ''operations'')) (\<lambda>operations.
     rbind (serialize_operations_for_payload new_id n st initial operations) (\<lambda>(commands, ds, n').
       let phase = token (jget item ''hook_phase'') in
       Inr ([(''kind'', JStr (or_text (str_or_empty (jget item ''kind'')) ''test'')),
             (''description'', JStr (str_or_empty (jget item ''description''))),
             (''on_failure'', JStr (or_text (str_or_empty (jget item ''on_failure'')) ''ABORT'')),
             (''sources'', JList (normalize_sources (jget item ''sources''))), (''commands'', JList commands)]
            @ (if phase = [] then [] else [(''hook_phase'', JStr phase)]), ds, n')))"

definition payload_hook ::
  "(nat \<Rightarrow> string) \<Rightarrow> nat \<Rightarrow> json dict \<Rightarrow> string \<Rightarrow> string \<Rightarrow> draft_constant dict \<Rightarrow> draft_constant dict \<Rightarrow>
    (json list \<times> draft_constant dict \<times> nat) result" where
  "payload_hook new_id n hooks phase st initial otherwise =
     (case jget hooks phase of
        JObj item \<Rightarrow>
          rbind (payload_item new_id n st initial item) (\<lambda>(payload, ds, n'). Inr ([JObj payload], ds, n'))
      | _ \<Rightarrow> Inr ([], otherwise, n))"

definition payload_test ::
  "(nat \<Rightarrow> string) \<Rightarrow> draft_constant dict \<Rightarrow> json list \<times> nat \<Rightarrow> json \<Rightarrow> (json list \<times> nat) result" where
  "payload_test new_id initial acc test =
     (case test of
        JObj item \<Rightarrow>
          rbind (payload_item new_id (snd acc) ''test'' initial item) (\<lambda>(payload, _, n'). Inr (fst acc @ [JObj payload], n'))
      | _ \<Rightarrow> Inr acc)"

definition draft_to_test_suite_payload ::
  "(nat \<Rightarrow> string) \<Rightarrow> json dict \<Rightarrow> (json dict \<times> json dict) result" where
  "draft_to_test_suite_payload new_id draft =
     (let hooks = map marked_hook (fields_of (jget draft ''hooks'')) in
      rbind (payload_hook new_id 0 hooks ''before-all'' ''beforeAll'' [] []) (\<lambda>(before_all, all_ds, n1).
      rbind (payload_hook new_id n1 hooks ''before-each'' ''beforeEach'' all_ds all_ds) (\<lambda>(before_each, each_ds, n2).
      rbind (iterate (jget draft ''tests'')) (\<lambda>tests.
      let marked = map marked_test (enumerate 1 tests) in
      rbind (foldM (payload_test new_id each_ds) ([], n2) marked) (\<lambda>(payloads, n3).
      rbind (payload_hook new_id n3 hooks ''after-each'' ''afterEach'' each_ds []) (\<lambda>(after_each, _, n4).
      rbind (payload_hook new_id n4 hooks ''after-all'' ''afterAll'' all_ds []) (\<lambda>(after_all, _, _).
        Inr ([(''description'', JStr (str_or_empty (jget draft ''description''))),
              (''hooks'', JList (before_all @ before_each @ after_each @ after_all)), (''tests'', JList payloads)],
             dict_update draft
               ((if is_obj (jget draft ''hooks'') then [(''hooks'', JObj hooks)] else []) @
                (if is_list (jget draft ''tests'') then [(''tests'', JList marked)] else []))))))))))"

end
