(* ===== verification/DraftMapperProps.thy ===== *)
theory DraftMapperProps
  imports DraftMapper ConfigDumpProps RunContextFacts
begin

text \<open>
  What the editor of suites does to stored commands: references survive the way from identifiers to paths and back,
  and an HTTP command that is opened and saved is read by the backend as before.
\<close>

section \<open>Constants by path\<close>

text \<open>Constants the editor can name: plain names, no two of a scope alike, and no identifier that is the path of another.\<close>

definition constants_nameable :: "draft_constant dict \<Rightarrow> string \<Rightarrow> int \<Rightarrow> bool" where
  "constants_nameable ds st n \<longleftrightarrow>
     (\<forall>d \<in> set (visible_definitions ds st n). plain_key (dk_name d) \<and> py_strip (dk_id d) = dk_id d \<and> dk_id d \<noteq> [] \<and>
        (\<forall>e \<in> set (visible_definitions ds st n).
           (dk_scope e = dk_scope d \<and> dk_name e = dk_name d \<longrightarrow> e = d) \<and>
           (dk_id e = definition_path (dk_scope d) (dk_name d) \<longrightarrow> e = d)))"

lemma visible_scope: "d \<in> set (visible_definitions ds st n) \<Longrightarrow> dk_scope d \<in> set (draft_readable_scopes st)"
  by (simp add: visible_definitions_def)

lemma readable_scope_plain: "s \<in> set (draft_readable_scopes st) \<Longrightarrow> plain_key s"
  by (auto simp: draft_readable_scopes_def dict_get_Cons split: if_splits)

lemma path_dotted: "definition_path s k = dotted [s, ''constants'', k]"
  by (simp add: definition_path_def dotted_def join_with_def)

lemma extract_path:
  assumes "plain_key s" and "plain_key k"
  shows "extract_scope_name (definition_path s k) = Some (s, k)" and "py_strip (definition_path s k) = definition_path s k"
proof -
  have plain: "\<forall>x \<in> set [s, ''constants'', k]. plain_key x" using assms by simp
  show strip: "py_strip (definition_path s k) = definition_path s k"
    unfolding path_dotted using plain by (intro strip_dotted) simp_all
  have "split_on (CHR ''.'') (join_with ''.'' [s, ''constants'', k]) = [s, ''constants'', k]"
    using plain by (intro split_join) (auto simp: plain_key_def)
  moreover have "filter (\<lambda>p. p \<noteq> []) [s, ''constants'', k] = [s, ''constants'', k]"
    using assms by (simp add: plain_key_def)
  moreover have "definition_path s k = ''$.'' @ join_with ''.'' [s, ''constants'', k]" by (simp add: path_dotted dotted_def)
  ultimately show "extract_scope_name (definition_path s k) = Some (s, k)"
    using strip by (simp add: extract_scope_name_def Let_def starts_with_def)
qed

lemma filter_only:
  assumes "d \<in> set xs" and "P d" and "\<And>e. e \<in> set xs \<Longrightarrow> P e \<Longrightarrow> e = d"
  shows "filter P xs \<noteq> [] \<and> last (filter P xs) = d"
proof -
  have "filter P xs \<noteq> []" using assms(1,2) by (auto simp: filter_empty_conv)
  then show ?thesis using assms(3) last_in_set [of "filter P xs"] by auto
qed

lemma find_by_path_of:
  assumes "constants_nameable ds st n" and "d \<in> set (visible_definitions ds st n)"
  shows "find_by_path ds st n (JStr (definition_path (dk_scope d) (dk_name d))) = Some d"
proof -
  have plain: "plain_key (dk_scope d)" "plain_key (dk_name d)"
    using assms readable_scope_plain [OF visible_scope [OF assms(2)]] by (auto simp: constants_nameable_def)
  then have strips: "py_strip (dk_scope d) = dk_scope d" "py_strip (dk_name d) = dk_name d" "dk_scope d \<noteq> []" "dk_name d \<noteq> []"
    by (auto simp: plain_key_def)
  have "filter (\<lambda>e. dk_scope e = dk_scope d \<and> dk_name e = dk_name d) (visible_definitions ds st n) \<noteq> [] \<and>
      last (filter (\<lambda>e. dk_scope e = dk_scope d \<and> dk_name e = dk_name d) (visible_definitions ds st n)) = d"
    by (rule filter_only [OF assms(2)]) (use assms in \<open>auto simp: constants_nameable_def\<close>)
  then show ?thesis
    by (simp add: find_by_path_def token_def extract_path [OF plain] find_by_scope_name_def strips Let_def)
qed

lemma find_by_id_visible: "find_by_id ds st n i = Some d \<Longrightarrow> d \<in> set (visible_definitions ds st n) \<and> dk_id d = i"
  unfolding find_by_id_def by (induction "visible_definitions ds st n") (auto simp: find_Some_iff)

lemma path_not_blank: "definition_path s k \<noteq> []"
  by (simp add: definition_path_def)

lemma resolve_own_path:
  assumes "constants_nameable ds st n" and "find_by_id ds st n i = Some d"
  shows "resolve_runtime_definition_id ds st n (path_of d) = i"
proof -
  note d = find_by_id_visible [OF assms(2)]
  have plain: "plain_key (dk_scope d)" "plain_key (dk_name d)"
    using assms(1) d readable_scope_plain [of "dk_scope d" st] visible_scope [of d] by (auto simp: constants_nameable_def)
  have t: "token (path_of d) = definition_path (dk_scope d) (dk_name d)"
    by (simp add: path_of_def token_def extract_path [OF plain])
  show ?thesis
  proof (cases "find_by_id ds st n (definition_path (dk_scope d) (dk_name d))")
    case None
    then show ?thesis
      using find_by_path_of [OF assms(1), of d] d by (simp add: resolve_runtime_definition_id_def t path_not_blank)
  next
    case (Some e)
    from find_by_id_visible [OF this] assms(1) d have "e = d" unfolding constants_nameable_def by blast
    with Some d show ?thesis by (simp add: resolve_runtime_definition_id_def t path_not_blank)
  qed
qed

section \<open>References in JSON values\<close>

text \<open>
  A stored reference is an identifier without blanks around it; when no visible constant has it, it must not read as
  the path of one.
\<close>

definition ref_ok :: "draft_constant dict \<Rightarrow> string \<Rightarrow> int \<Rightarrow> json dict \<Rightarrow> bool" where
  "ref_ok ds st n d \<longleftrightarrow>
     dict_get d ''definition_id'' = None \<and> dict_ok d \<and>
     (case dict_get d ''definitionId'' of
        Some (JStr i) \<Rightarrow> py_strip i = i \<and> (find_by_id ds st n i \<noteq> None \<or> find_by_path ds st n (JStr i) = None)
      | _ \<Rightarrow> False)"

fun refs_ok :: "draft_constant dict \<Rightarrow> string \<Rightarrow> int \<Rightarrow> json \<Rightarrow> bool" where
  "refs_ok ds st n (JList xs) = (\<forall>x \<in> set xs. refs_ok ds st n x)"
| "refs_ok ds st n (JObj d) = (if is_runtime_node d then ref_ok ds st n d else \<forall>kv \<in> set d. refs_ok ds st n (snd kv))"
| "refs_ok ds st n v = True"

lemma dict_set_twice: "dict_set k v (dict_set k w d) = dict_set k v d"
  by (simp add: dict_set_def)

lemma dict_set_same: "dict_get d k = Some v \<Longrightarrow> dict_set k v d = d"
  by (induction d) (auto simp: dict_set_def dict_get_def split: if_splits)

lemma dict_del_absent: "dict_get d k = None \<Longrightarrow> dict_del k d = d"
  by (induction d) (auto simp: dict_get_def dict_del_def split: if_splits)

lemma hydrated_kind:
  "is_runtime_node (map (\<lambda>kv. (fst kv, hydrate_http_runtime_refs ds st n (snd kv))) d) \<longleftrightarrow> is_runtime_node d"
proof (induction d)
  case (Cons kv d)
  have "token (hydrate_http_runtime_refs ds st n v) = ''runtimeValue'' \<longleftrightarrow> token v = ''runtimeValue''" for v
  proof (cases v)
    case (JList xs)
    then show ?thesis using token_list_not_kind by (simp add: http_kinds_text)
  next
    case (JObj e)
    obtain e' where e': "hydrate_http_runtime_refs ds st n (JObj e) = JObj e'"
      by (cases "is_runtime_node e"; cases "find_by_id ds st n (token (either e ''definitionId'' ''definition_id''))") simp_all
    from token_obj_not_kind [of e] token_obj_not_kind [of e'] show ?thesis
      unfolding JObj e' by (simp add: http_kinds_text)
  qed simp_all
  from this [of "snd kv"] Cons show ?case
    by (cases kv; cases "fst kv = ''kind''") (simp_all add: is_runtime_node_def jget_Cons del: hydrate_http_runtime_refs.simps)
qed simp

lemma node_back:
  assumes "constants_nameable ds st n" and "ref_ok ds st n d" and "is_runtime_node d"
  shows "serialize_http_runtime_refs ds st n (hydrate_http_runtime_refs ds st n (JObj d)) = JObj d"
proof -
  obtain i where i: "dict_get d ''definitionId'' = Some (JStr i)" "py_strip i = i"
      "find_by_id ds st n i \<noteq> None \<or> find_by_path ds st n (JStr i) = None" and old: "dict_get d ''definition_id'' = None"
    using assms(2) by (auto simp: ref_ok_def split: option.splits json.splits)
  have e: "token (either d ''definitionId'' ''definition_id'') = i"
    using i(1,2) old by (simp add: either_def jget_def json_or_def token_def)
  show ?thesis
  proof (cases "find_by_id ds st n i")
    case None
    have "resolve_runtime_definition_id ds st n (either d ''definitionId'' ''definition_id'') = i"
      using None i(3) by (simp add: resolve_runtime_definition_id_def e)
    moreover have "with_definition (JStr i) d = d"
      using i(1) old by (simp add: with_definition_def dict_set_same dict_del_absent)
    ultimately show ?thesis using assms(3) None by (simp add: e Let_def)
  next
    case (Some c)
    define h where "h = with_definition (path_of c) d"
    have same: "h = dict_set ''definitionId'' (path_of c) d"
      unfolding h_def with_definition_def by (rule dict_del_absent) (simp add: old)
    have get: "dict_get h ''definitionId'' = Some (path_of c)" "dict_get h ''definition_id'' = None" "dict_get h ''kind'' = dict_get d ''kind''"
      using old by (simp_all add: same)
    then have "either h ''definitionId'' ''definition_id'' = path_of c"
      using path_not_blank by (simp add: either_def jget_def json_or_def path_of_def)
    then have r: "resolve_runtime_definition_id ds st n (either h ''definitionId'' ''definition_id'') = i"
      using resolve_own_path [OF assms(1) Some] by simp
    have node: "is_runtime_node h" using assms(3) get(3) by (simp add: is_runtime_node_def jget_def)
    have "i \<noteq> []" using find_by_id_visible [OF Some] assms(1) by (auto simp: constants_nameable_def)
    moreover have "with_definition (JStr i) h = d"
      unfolding with_definition_def same dict_set_twice using i(1) old by (simp add: dict_set_same dict_del_absent)
    ultimately show ?thesis using assms(3) Some r node by (simp add: e h_def [symmetric] Let_def)
  qed
qed

lemma refs_back:
  "constants_nameable ds st n \<Longrightarrow> refs_ok ds st n v \<Longrightarrow>
    serialize_http_runtime_refs ds st n (hydrate_http_runtime_refs ds st n v) = v"
proof (induction ds st n v rule: hydrate_http_runtime_refs.induct)
  case (1 ds st n xs)
  then show ?case by (simp add: map_idI)
next
  case (2 ds st n d)
  show ?case
  proof (cases "is_runtime_node d")
    case True
    with 2 node_back [of ds st n d] show ?thesis by simp
  next
    case False
    with 2 have "map (\<lambda>kv. (fst kv, serialize_http_runtime_refs ds st n (hydrate_http_runtime_refs ds st n (snd kv)))) d = d"
      by (intro map_idI) simp
    with False hydrated_kind [of ds st n d] show ?thesis by (simp add: comp_def)
  qed
qed simp_all

section \<open>An HTTP command opened and saved\<close>

lemma map_fields_get: "dict_get (map_http_fields f d) k = map_option (\<lambda>v. if k \<in> set http_fields then f v else v) (dict_get d k)"
  by (induction d) (auto simp: map_http_fields_def dict_get_def)

lemma map_fields_set:
  "k \<notin> set http_fields \<Longrightarrow> map_http_fields f (dict_set k v d) = dict_set k v (map_http_fields f d)"
  by (induction d) (auto simp: map_http_fields_def dict_set_def)

lemma map_fields_twice:
  assumes "\<And>k v. (k, v) \<in> set d \<Longrightarrow> k \<in> set http_fields \<Longrightarrow> g (f v) = v"
  shows "map_http_fields g (map_http_fields f d) = d"
  unfolding map_http_fields_def map_map by (rule map_idI) (use assms in \<open>auto simp: prod_eq_iff\<close>)

lemma map_fields_either:
  "k \<notin> set http_fields \<Longrightarrow> k' \<notin> set http_fields \<Longrightarrow> either (map_http_fields f d) k k' = either d k k'"
  by (simp add: either_def jget_def map_fields_get option.map_ident)

lemma map_fields_jget: "k \<notin> set http_fields \<Longrightarrow> jget (map_http_fields f d) k = jget d k"
  by (simp add: jget_def map_fields_get option.map_ident)

text \<open>A command as it is stored: none of the fields the editor reads for other commands, a result constant with its type.\<close>

definition other_fields :: "string list" where
  "other_fields = [''command_code'', ''inputRef'', ''input_ref'', ''sourceConstantRef'', ''source_constant_ref'', ''actualRef'', ''actual_ref'',
     ''actualConstantRef'', ''actual_constant_ref'', ''expectedRef'', ''expected_ref'', ''runtimeValueRefs'', ''runtime_value_refs'',
     ''result_constant'', ''result_target'', ''resultTarget'']"

definition result_kept :: "json dict \<Rightarrow> bool" where
  "result_kept d \<longleftrightarrow> (case dict_get d ''resultConstant'' of
     Some (JObj r) \<Rightarrow> (\<exists>i k t. r = [(''definitionId'', JStr i), (''name'', JStr k), (''valueType'', JStr t)] \<and> trimmed i \<and> trimmed k \<and> trimmed t)
   | Some JNull \<Rightarrow> True | None \<Rightarrow> True | _ \<Rightarrow> False)"

definition stored_http :: "json dict \<Rightarrow> bool" where
  "stored_http d \<longleftrightarrow>
     (dict_get d ''commandCode'' = Some (JStr ''readApi'') \<or> dict_get d ''commandCode'' = Some (JStr ''writeApi'')) \<and>
     (\<forall>k \<in> set other_fields. dict_get d k = None) \<and> result_kept d"

lemma http_fields_simps [simp]:
  "''queryParams'' \<in> set http_fields" "''headers'' \<in> set http_fields" "''pathParams'' \<in> set http_fields"
  "''authorization'' \<in> set http_fields" "''body'' \<in> set http_fields"
  "''commandCode'' \<notin> set http_fields" "''command_code'' \<notin> set http_fields" "''resultConstant'' \<notin> set http_fields"
  "''result_constant'' \<notin> set http_fields" "''result_target'' \<notin> set http_fields" "''resultTarget'' \<notin> set http_fields"
  "''runtimeValueRefs'' \<notin> set http_fields" "''runtime_value_refs'' \<notin> set http_fields"
  by (simp_all add: http_fields_def)

lemma absent_either: "dict_get d k = None \<Longrightarrow> dict_get d k' = None \<Longrightarrow> either d k k' = JNull"
  by (simp add: either_def jget_def json_or_def)

lemma stored_http_code:
  assumes "stored_http d"
  shows "draft_command_code d \<in> {''readApi'', ''writeApi''}" and "with_code d = d"
proof -
  have code: "token (JStr ''readApi'') = ''readApi''" "token (JStr ''writeApi'') = ''writeApi''" by code_simp+
  show c: "draft_command_code d \<in> {''readApi'', ''writeApi''}"
    using assms code by (auto simp: stored_http_def draft_command_code_def jget_def json_or_def Let_def)
  have "JStr (draft_command_code d) = jget d ''commandCode''"
    using assms code by (auto simp: stored_http_def draft_command_code_def jget_def json_or_def Let_def)
  moreover have "dict_get d ''commandCode'' = Some (jget d ''commandCode'')"
    using assms by (auto simp: stored_http_def jget_def)
  ultimately show "with_code d = d" by (simp add: with_code_def dict_set_same)
qed

text \<open>What the editor adds to such a command: the path its result is stored under.\<close>

definition with_target :: "json dict \<Rightarrow> json dict" where
  "with_target d =
     (case jget d ''resultConstant'' of
        JObj r \<Rightarrow> dict_set ''result_target'' (JStr (definition_path ''result'' (str_or_empty (jget r ''name'')))) d
      | _ \<Rightarrow> d)"

lemma trimmed_truthy: "trimmed s \<Longrightarrow> json_or (JStr s) v = JStr s" "trimmed s \<Longrightarrow> token (JStr s) = s"
  by (auto simp: trimmed_def json_or_def token_def)

lemma blank_target: "extract_scope_name (token JNull) = None"
  by code_simp

lemma result_of_stored:
  assumes "result_kept d" and "dict_get d ''result_constant'' = None"
    and "either d ''result_target'' ''resultTarget'' = JNull \<or> is_obj (jget d ''resultConstant'')"
  shows "serialize_result_constant d = (case jget d ''resultConstant'' of JObj r \<Rightarrow> Some r | _ \<Rightarrow> None)"
proof (cases "is_obj (jget d ''resultConstant'')")
  case True
  then obtain i k t where r: "jget d ''resultConstant'' = JObj [(''definitionId'', JStr i), (''name'', JStr k), (''valueType'', JStr t)]"
    "trimmed i" "trimmed k" "trimmed t"
    using assms(1) by (auto simp: result_kept_def jget_def split: option.splits json.splits)
  have "either d ''resultConstant'' ''result_constant'' = jget d ''resultConstant''"
    by (simp add: either_def r(1) json_or_def)
  then show ?thesis
    using r(2-4) by (simp add: serialize_result_constant_def r(1) either_def jget_Cons value_type_or_def or_text_def trimmed_truthy trimmed_simps Let_def)
next
  case False
  then have j: "jget d ''resultConstant'' = JNull"
    using assms(1) by (auto simp: result_kept_def jget_def split: option.splits json.splits)
  with assms(2) have "either d ''resultConstant'' ''result_constant'' = JNull" by (simp add: either_def jget_def json_or_def)
  with assms(3) False show ?thesis by (simp add: serialize_result_constant_def j Let_def blank_target)
qed

lemma hydrate_stored_http:
  assumes "stored_http d"
  shows "hydrate_operation_cfg ds st n d = Inr (with_target (hydrate_http ds st n d))"
proof -
  note code = stored_http_code [OF assms]
  have none: "dict_get d k = None" if "k \<in> set other_fields" for k using assms that by (simp add: stored_http_def)
  have refs: "hydrate_input ds st n d = d" "hydrate_actual ds st n d = d" "hydrate_expected d = d"
    by (simp_all add: hydrate_input_def hydrate_actual_def hydrate_expected_def absent_either none other_fields_def json_or_def
      hydrate_source_code_def hydrate_path_def referred_id_def Let_def)
  have constants: "hydrate_constants ds st n (hydrate_http ds st n d) = Inr (hydrate_http ds st n d)"
    by (simp add: hydrate_constants_def hydrate_http_def map_fields_either absent_either none other_fields_def Let_def)
  have kept: "result_kept (hydrate_http ds st n d)"
    using assms by (simp add: stored_http_def result_kept_def hydrate_http_def map_fields_get option.map_ident)
  have target: "either (hydrate_http ds st n d) ''result_target'' ''resultTarget'' = JNull"
    by (simp add: hydrate_http_def map_fields_either absent_either none other_fields_def)
  have "hydrate_result (hydrate_http ds st n d) = with_target (hydrate_http ds st n d)"
    using result_of_stored [OF kept] target
    by (simp add: hydrate_result_def with_target_def hydrate_http_def map_fields_get none other_fields_def token_def split: json.split)
  with code refs constants show ?thesis
    by (auto simp: hydrate_operation_cfg_def Let_def)
qed

lemma with_target_get: "k \<noteq> ''result_target'' \<Longrightarrow> dict_get (with_target d) k = dict_get d k"
  by (simp add: with_target_def split: json.split)

lemma with_target_http: "map_http_fields f (with_target d) = with_target (map_http_fields f d)"
  by (simp add: with_target_def map_fields_jget map_fields_set split: json.split)

lemma serialize_stored_http:
  assumes "stored_http d" and "constants_nameable ds st n"
    and "\<And>k v. (k, v) \<in> set d \<Longrightarrow> k \<in> set http_fields \<Longrightarrow> refs_ok ds st n v"
  shows "serialize_operation_cfg new_id ds st n (with_target (hydrate_http ds st n d)) = Inr (with_target d)"
proof -
  define h where "h = with_target (hydrate_http ds st n d)"
  have get: "dict_get h k = dict_get d k" if "k \<noteq> ''result_target''" "k \<notin> set http_fields" for k
    using that by (simp add: h_def with_target_get hydrate_http_def map_fields_get option.map_ident)
  have keys: "draft_command_code h = draft_command_code d" "jget h ''commandCode'' = jget d ''commandCode''"
    using get by (simp_all add: draft_command_code_def either_def jget_def)
  note code = stored_http_code [OF assms(1)]
  have "with_code h = h"
  proof -
    have "dict_get d ''commandCode'' = Some (JStr (draft_command_code d))"
      using assms(1) by (auto simp: stored_http_def draft_command_code_def jget_def json_or_def Let_def token_def py_strip_def
        py_lstrip_def is_space_def py_spaces_def)
    then have "dict_get h ''commandCode'' = Some (JStr (draft_command_code d))" using get by simp
    then show ?thesis by (simp add: with_code_def keys(1) dict_set_same)
  qed
  moreover have "serialize_http ds st n h = with_target d"
  proof -
    have "map_http_fields (serialize_http_runtime_refs ds st n) (hydrate_http ds st n d) = d"
      unfolding hydrate_http_def by (rule map_fields_twice) (use refs_back [OF assms(2)] assms(3) in blast)
    then show ?thesis by (simp add: serialize_http_def h_def with_target_http)
  qed
  moreover have "serialize_result_constant (with_target d) = (case jget d ''resultConstant'' of JObj r \<Rightarrow> Some r | _ \<Rightarrow> None)"
  proof -
    have kept: "result_kept (with_target d)" "dict_get (with_target d) ''result_constant'' = None"
      "jget (with_target d) ''resultConstant'' = jget d ''resultConstant''"
      using assms(1) by (simp_all add: stored_http_def other_fields_def result_kept_def with_target_get jget_def)
    have "either (with_target d) ''result_target'' ''resultTarget'' = JNull \<or> is_obj (jget (with_target d) ''resultConstant'')"
    proof (cases "is_obj (jget d ''resultConstant'')")
      case False
      then have "with_target d = d" by (auto simp: with_target_def split: json.split)
      then show ?thesis using assms(1) by (simp add: absent_either stored_http_def other_fields_def)
    qed (simp add: kept(3))
    from result_of_stored [OF kept(1,2) this] show ?thesis by (simp add: kept(3))
  qed
  moreover have "dict_set ''resultConstant'' (JObj r) (with_target d) = with_target d" if "jget d ''resultConstant'' = JObj r" for r
    by (rule dict_set_same) (use that in \<open>auto simp: with_target_get jget_def split: option.splits\<close>)
  ultimately show ?thesis
    using code keys(1) unfolding h_def [symmetric]
    by (auto simp: serialize_operation_cfg_def Let_def draft_assert_codes_def split: json.split)
qed

text \<open>The backend does not look at the added field.\<close>

lemma target_not_read: "''result_target'' \<notin> set ks \<Longrightarrow> first_non_empty (with_target d) ks = first_non_empty d ks"
proof (induction ks)
  case (Cons k ks)
  then have "jget (with_target d) k = jget d k" unfolding jget_def by (subst with_target_get) auto
  with Cons show ?case by (cases "jget d k") (simp_all add: first_non_empty.simps(2))
qed simp

lemma target_not_converted:
  assumes "jget d ''commandCode'' = JStr c" and "c = ''readApi'' \<or> c = ''writeApi''"
  shows "convert_to_config_command_type pyd (with_target d) = convert_to_config_command_type pyd d"
proof -
  have codes: "py_strip ''readApi'' = ''readApi''" "py_strip ''writeApi'' = ''writeApi''" by code_simp+
  have norm: "normalize_command_code (JStr ''readApi'') = ''readApi''" "normalize_command_code (JStr ''writeApi'') = ''writeApi''" by code_simp+
  have asked: "requested_code d = c"
    using assms codes norm by (auto simp: requested_code_def first_non_empty.simps(2) Let_def)
  have "requested_code (with_target d) = c"
    using asked assms codes norm
    by (auto simp: requested_code_def target_not_read first_non_empty.simps(2) with_target_get jget_def Let_def)
  moreover have "convert_read_api pyd (with_target d) = convert_read_api pyd d" "convert_write_api pyd (with_target d) = convert_write_api pyd d"
    by (simp_all add: convert_read_api_def convert_write_api_def request_fields_def kv_field_def result_field_def target_not_read)
  moreover have "map_of (conversion_table pyd) c = (if c = ''readApi'' then Some (''action'', convert_read_api pyd) else Some (''action'', convert_write_api pyd))"
    using assms(2) by (elim disjE; simp only: conversion_table_def append.simps map_of.simps prod.sel; simp)
  ultimately show ?thesis
    using asked by (simp add: convert_to_config_command_type_def Let_def target_not_read)
qed

section \<open>Properties\<close>

definition sample_draft_constants :: "draft_constant dict" where
  "sample_draft_constants = [(''d1'', \<lparr>dk_id = ''d1'', dk_name = ''base'', dk_scope = ''global'', dk_type = ''value'', dk_declared = 0, dk_deleted = None\<rparr>)]"

definition sample_stored_call :: "json dict" where
  "sample_stored_call = [(''commandCode'', JStr ''readApi''), (''commandType'', JStr ''action''), (''method'', JStr ''GET''), (''url'', JStr ''http://shop''),
     (''queryParams'', JObj [(''base'', JObj [(''kind'', JStr ''runtimeValue''), (''definitionId'', JStr ''d1''), (''fieldPath'', JNull)])]),
     (''headers'', JNull), (''resultConstant'', JObj [(''definitionId'', JStr ''d2''), (''name'', JStr ''orders''), (''valueType'', JStr ''json'')])]"



text \<open>What a saved suite says of a test: nothing of its role, its template or its dataset.\<close>

lemma payload_test_fields:
  assumes "payload_test new_id initial (ps, n) test = Inr (ps', n')" and "p \<in> set ps'" and "p \<notin> set ps"
  shows "map fst (fields_of p) = [''kind'', ''description'', ''on_failure'', ''sources'', ''commands''] \<or>
    map fst (fields_of p) = [''kind'', ''description'', ''on_failure'', ''sources'', ''commands'', ''hook_phase'']"
  using assms by (auto simp: payload_test_def payload_item_def rbind_Inr_iff Let_def split: json.splits if_splits prod.splits)

text \<open>A \<open>runSuite\<close> that passes a global constant passes the local one of the same name once it is saved.\<close>

definition shadowed_constants :: "draft_constant dict" where
  "shadowed_constants =
     [(''d1'', \<lparr>dk_id = ''d1'', dk_name = ''base'', dk_scope = ''global'', dk_type = ''value'', dk_declared = 0, dk_deleted = None\<rparr>),
      (''d2'', \<lparr>dk_id = ''d2'', dk_name = ''base'', dk_scope = ''local'', dk_type = ''value'', dk_declared = 1, dk_deleted = None\<rparr>)]"

lemma run_suite_reference_shadowed:
  "rbind (hydrate_operation_cfg shadowed_constants ''test'' 2
      [(''commandCode'', JStr ''runSuite''), (''runtimeValueRefs'', JList [JObj [(''definitionId'', JStr ''d1'')]])])
     (\<lambda>h. rbind (serialize_operation_cfg [] shadowed_constants ''test'' 2 h) (\<lambda>s. Inr (jget s ''runtimeValueRefs'')))
   = Inr (JList [JObj [(''definitionId'', JStr ''d2'')]])"
  by code_simp

end
