(* ===== verification/PerimeterEditor.thy ===== *)
theory PerimeterEditor
  imports DraftMapper JsonText
begin

text \<open>
  The perimeters the editor of datasets reads and writes
  (\<open>app/ui/database_datasources/services/perimeter_service.py\<close>). The parser \<open>json.loads\<close> is an argument, None when the
  text is not JSON, and so is the truth value of \<open>pandas.isna\<close>, which raises for arrays of several elements.
\<close>

record editor_tools =
  et_loads :: "string \<Rightarrow> json option"
  et_missing :: "json \<Rightarrow> bool result"

section \<open>Labels\<close>

text \<open>The payload of a connection is an object, as the API sends it.\<close>

definition build_connection_label :: "json dict \<Rightarrow> string" where
  "build_connection_label c =
     or_text (str_or_empty (either c ''description'' ''id'')) ''-'' @ '' ['' @
     or_text (str_or_empty (jget (fields_of (jget c ''payload'')) ''database_type'')) ''-'' @ '']''"

definition build_dataset_payload :: "json \<Rightarrow> json \<Rightarrow> json \<Rightarrow> json \<Rightarrow> json dict" where
  "build_dataset_payload connection schema object_name object_type =
     [(''connection_id'', connection), (''schema'', schema), (''object_name'', object_name), (''object_type'', object_type)]"

definition build_dataset_summary :: "json dict \<Rightarrow> string dict \<Rightarrow> string dict" where
  "build_dataset_summary item labels =
     (let i = token (jget item ''id''); payload = fields_of (jget item ''payload'');
          connection = token (jget payload ''connection_id'');
          kind = or_text (py_lower (py_strip (or_text (str_or_empty (jget payload ''object_type'')) ''table''))) ''table'';
          name = or_text (token (jget payload ''object_name'')) ''-'' in
      [(''id'', i), (''description'', or_text (token (jget item ''description'')) (or_text i ''-'')),
       (''connection_id'', connection),
       (''connection_label'', case dict_get labels connection of Some l \<Rightarrow> l | None \<Rightarrow> or_text connection ''-''),
       (''schema'', or_text (token (jget payload ''schema'')) ''-''), (''object_type'', kind), (''object_name'', name),
       (''object_label'', py_upper kind @ '' '' @ name)])"

definition build_perimeter_scope_key :: "json \<Rightarrow> json \<Rightarrow> json \<Rightarrow> json \<Rightarrow> json \<Rightarrow> json \<Rightarrow> string" where
  "build_perimeter_scope_key key_prefix datasource connection schema object_type object_name =
     join_with ''_'' (map (\<lambda>(v, d). py_strip (or_text (str_or_empty v) d))
       [(key_prefix, ''dataset_perimeter''), (datasource, ''nodatasource''), (connection, ''noconnection''),
        (schema, ''noschema''), (object_type, ''table''), (object_name, ''noobject'')])"

section \<open>Rows and values\<close>

datatype editor_rows =
    Frame "json dict list"
  | Rows json

fun coerce_editor_rows :: "editor_rows \<Rightarrow> json dict list" where
  "coerce_editor_rows (Frame ds) = ds"
| "coerce_editor_rows (Rows (JList xs)) = map fields_of (filter is_obj xs)"
| "coerce_editor_rows (Rows _) = []"

definition parsed_text :: "editor_tools \<Rightarrow> json \<Rightarrow> json" where
  "parsed_text et v =
     (case v of
        JStr s \<Rightarrow>
          if py_strip s = [] then JNull
          else (case et_loads et (py_strip s) of Some j \<Rightarrow> j | None \<Rightarrow> JStr (py_strip s))
      | _ \<Rightarrow> v)"

definition normalize_editor_value :: "editor_tools \<Rightarrow> json \<Rightarrow> json result" where
  "normalize_editor_value et v =
     (if v = JNull then Inr JNull
      else (case et_missing et v of
              Inr True \<Rightarrow> Inr JNull
            | Inr False \<Rightarrow> Inr (parsed_text et v)
            | Inl (TypeError m) \<Rightarrow> Inr (parsed_text et v)
            | Inl e \<Rightarrow> Inl e))"

definition unary_operators :: "string list" where
  "unary_operators = [''is_null'', ''is_not_null'']"

definition is_parameter_value :: "json \<Rightarrow> bool" where
  "is_parameter_value v \<longleftrightarrow> is_obj v \<and> py_lower (token (jget (fields_of v) ''kind'')) = ''parameter''"

text \<open>A condition; None when it is incomplete.\<close>

definition editor_condition :: "editor_tools \<Rightarrow> json dict \<Rightarrow> json dict option result" where
  "editor_condition et c =
     (let field = token (jget c ''field''); operator = py_lower (token (jget c ''operator''));
          raw = jget c ''value''; unary = operator \<in> set unary_operators;
          parameter = token (jget (fields_of raw) ''name'');
          base = [(''field'', JStr field), (''operator'', JStr operator)] in
      rbind (normalize_editor_value et raw) (\<lambda>v.
        Inr (if field = [] \<or> operator = [] then None
             else if unary then Some base
             else if is_parameter_value raw then
               (if parameter = [] then None
                else Some (base @ [(''value'', JObj [(''kind'', JStr ''parameter''), (''name'', JStr parameter)])]))
             else if v = JNull then None
             else Some (base @ [(''value'', v)]))))"

definition somes :: "'a option list \<Rightarrow> 'a list" where
  "somes xs = List.map_filter (\<lambda>x. x) xs"

definition editor_conditions :: "editor_tools \<Rightarrow> editor_rows \<Rightarrow> json dict list result" where
  "editor_conditions et rows = rbind (mapM (editor_condition et) (coerce_editor_rows rows)) (\<lambda>cs. Inr (somes cs))"

definition group_logic :: "json dict \<Rightarrow> string" where
  "group_logic g =
     (let logic = py_upper (py_strip (or_text (str_or_empty (jget g ''logic'')) ''AND'')) in
      if logic \<in> {''AND'', ''OR''} then logic else ''AND'')"

definition editor_group :: "editor_tools \<Rightarrow> json dict \<Rightarrow> json dict option result" where
  "editor_group et g =
     rbind (editor_conditions et (Rows (json_or (jget g ''conditions'') (JList [])))) (\<lambda>cs.
       Inr (if cs = [] then None
            else Some [(''kind'', JStr ''group''), (''logic'', JStr (group_logic g)), (''conditions'', JList (map JObj cs))]))"

definition item_kind :: "json dict \<Rightarrow> string" where
  "item_kind d = py_lower (py_strip (or_text (str_or_empty (jget d ''kind'')) ''condition''))"

definition editor_item :: "editor_tools \<Rightarrow> json \<Rightarrow> json dict option result" where
  "editor_item et v =
     (case v of
        JObj d \<Rightarrow>
          if item_kind d = ''group'' then editor_group et d
          else rbind (editor_condition et d) (\<lambda>c. Inr (map_option (\<lambda>c. (''kind'', JStr ''condition'') # c) c))
      | _ \<Rightarrow> Inr None)"

definition editor_items :: "editor_tools \<Rightarrow> json \<Rightarrow> json dict list result" where
  "editor_items et v =
     (case v of
        JList xs \<Rightarrow> rbind (mapM (editor_item et) xs) (\<lambda>ds. Inr (somes ds))
      | _ \<Rightarrow> Inr [])"

definition sort_row :: "json dict \<Rightarrow> json dict option" where
  "sort_row d =
     (let field = token (jget d ''field''); direction = py_lower (token (jget d ''direction'')) in
      if field = [] then None
      else Some [(''field'', JStr field), (''direction'', JStr (or_text direction ''asc''))])"

definition editor_sort_rows :: "editor_rows \<Rightarrow> json dict list" where
  "editor_sort_rows rows = somes (map sort_row (coerce_editor_rows rows))"

section \<open>Parameters\<close>

definition editor_parameter_types :: "string list" where
  "editor_parameter_types = [''string'', ''integer'', ''number'', ''boolean'', ''date'', ''datetime'']"

definition is_cased :: "char \<Rightarrow> bool" where
  "is_cased c =
     (let n = of_char c :: nat in
      65 \<le> n \<and> n \<le> 90 \<or> 97 \<le> n \<and> n \<le> 122 \<or> n \<in> {170, 181, 186} \<or> 192 \<le> n \<and> n \<noteq> 215 \<and> n \<noteq> 247)"

fun title_from :: "bool \<Rightarrow> string \<Rightarrow> string" where
  "title_from inside [] = []"
| "title_from inside (c # cs) =
     (if inside then [lower_char c] else if c = CHR 0xDF then ''Ss'' else upper_char c) @ title_from (is_cased c) cs"

definition default_function_resolvers :: "string dict" where
  "default_function_resolvers = [(''Now'', ''$now''), (''Today'', ''$today'')]"

definition resolver_functions :: "string dict" where
  "resolver_functions = [(''$now'', ''Now''), (''$today'', ''Today'')]"

definition default_mode_of :: "json \<Rightarrow> string" where
  "default_mode_of v = (let t = py_lower (token v) in if t \<in> {''none'', ''literal'', ''function''} then t else [])"

definition default_function_of :: "json \<Rightarrow> string" where
  "default_function_of v = (let t = title_from False (token v) in if dict_get default_function_resolvers t \<noteq> None then t else [])"

definition shown_mode :: "string \<Rightarrow> string" where
  "shown_mode m = (if m = ''literal'' then ''Literal'' else if m = ''function'' then ''Function'' else ''None'')"

definition text_or_null :: "string \<Rightarrow> json" where
  "text_or_null s = (if s = [] then JNull else JStr s)"

definition parameter_editor_row :: "editor_tools \<Rightarrow> json dict \<Rightarrow> json dict option result" where
  "parameter_editor_row et p =
     (let name = token (jget p ''name''); kind = py_lower (token (jget p ''type''));
          binding = fields_of (jget p ''default_binding''); description = token (jget p ''description'') in
      rbind (normalize_editor_value et (jget p ''default_value'')) (\<lambda>v.
        let mode0 = default_mode_of (jget p ''default_mode''); function0 = default_function_of (jget p ''default_function'');
            mode = (if binding \<noteq> [] then ''function'' else if v \<noteq> JNull then ''literal''
                    else if mode0 = [] then ''none'' else mode0);
            function1 = (if binding \<noteq> [] then
                (case dict_get resolver_functions (token (jget binding ''resolver'')) of Some f \<Rightarrow> f | None \<Rightarrow> ''Now'')
              else function0);
            function2 = (if mode = ''function'' \<and> function1 = [] then ''Now'' else function1);
            shown = (if mode = ''literal'' then v else JNull) in
        Inr (if name = [] \<or> kind \<notin> set editor_parameter_types then None
             else Some [(''name'', JStr name), (''type'', JStr kind), (''default_mode'', JStr (shown_mode mode)),
               (''default_value'', shown), (''default_function'', JStr function2), (''description'', text_or_null description)])))"

definition parameter_payload :: "editor_tools \<Rightarrow> json dict \<Rightarrow> json dict option result" where
  "parameter_payload et p =
     rbind (parameter_editor_row et p) (\<lambda>row.
       case row of
         None \<Rightarrow> Inr None
       | Some r \<Rightarrow>
           (let mode = default_mode_of (jget r ''default_mode'');
                base = [(''name'', jget r ''name''), (''type'', jget r ''type''), (''description'', jget r ''description'')] in
            if mode = ''literal'' then
              rbind (normalize_editor_value et (jget r ''default_value'')) (\<lambda>v.
                Inr (Some (base @ (if v = JNull then [] else [(''default_value'', v)]))))
            else if mode = ''function'' then
              Inr (Some (base @ [(''default_binding'', JObj [(''kind'', JStr ''built_in''),
                (''resolver'', JStr (case dict_get default_function_resolvers
                   (or_text (default_function_of (jget r ''default_function'')) ''Now'') of Some x \<Rightarrow> x | None \<Rightarrow> []))])]))
            else Inr (Some base)))"

text \<open>The first of several rows with a name stays.\<close>

fun first_names :: "string list \<Rightarrow> json dict list \<Rightarrow> json dict list" where
  "first_names seen [] = []"
| "first_names seen (r # rs) =
     (let name = token (jget r ''name'') in
      if name \<in> set seen then first_names seen rs else r # first_names (name # seen) rs)"

definition parameter_editor_rows :: "editor_tools \<Rightarrow> editor_rows \<Rightarrow> json dict list result" where
  "parameter_editor_rows et rows =
     rbind (mapM (parameter_editor_row et) (coerce_editor_rows rows)) (\<lambda>rs. Inr (first_names [] (somes rs)))"

definition parameter_rows :: "editor_tools \<Rightarrow> editor_rows \<Rightarrow> json dict list result" where
  "parameter_rows et rows =
     rbind (mapM (parameter_payload et) (coerce_editor_rows rows)) (\<lambda>rs. Inr (first_names [] (somes rs)))"

section \<open>The payload and its defaults\<close>

text \<open>The older call without parameters passes an empty list of them.\<close>

definition build_perimeter_payload ::
  "editor_tools \<Rightarrow> json list \<Rightarrow> editor_rows \<Rightarrow> json \<Rightarrow> json \<Rightarrow> editor_rows \<Rightarrow> json dict option result" where
  "build_perimeter_payload et columns parameters logic items sorts =
     (let selected = filter (\<lambda>c. c \<noteq> []) (map (\<lambda>c. py_strip (json_str c)) columns) in
      rbind (parameter_rows et parameters) (\<lambda>ps.
      rbind (editor_items et items) (\<lambda>is.
        let ss = editor_sort_rows sorts;
            payload =
              (if selected = [] then [] else [(''selected_columns'', JList (map JStr selected))]) @
              (if ps = [] then [] else [(''parameters'', JList (map JObj ps))]) @
              (if is = [] then [] else
                [(''filter'', JObj [(''logic'', JStr (py_upper (py_strip (or_text (str_or_empty logic) ''AND'')))),
                   (''items'', JList (map JObj is))])]) @
              (if ss = [] then [] else [(''sort'', JList (map JObj ss))]) in
        Inr (if payload = [] then None else Some payload))))"

definition perimeter_fields :: "json \<Rightarrow> json dict" where
  "perimeter_fields perimeter = fields_of perimeter"

definition default_selected_columns :: "json \<Rightarrow> string list \<Rightarrow> string list result" where
  "default_selected_columns perimeter available =
     rbind (iterate (jget (perimeter_fields perimeter) ''selected_columns'')) (\<lambda>cs.
       Inr (filter (\<lambda>c. c \<in> set available) (map json_str cs)))"

text \<open>\<open>(payload.get("filter") or {}).get("logic")\<close>: a value that is no dictionary has no \<open>get\<close>.\<close>

definition default_filter_logic :: "json \<Rightarrow> string result" where
  "default_filter_logic perimeter =
     (case json_or (jget (perimeter_fields perimeter) ''filter'') (JObj []) of
        JObj f \<Rightarrow> Inr (py_upper (py_strip (or_text (str_or_empty (jget f ''logic'')) ''AND'')))
      | _ \<Rightarrow> Inl (AttributeError ''object has no attribute get''))"

definition default_filter_items :: "editor_tools \<Rightarrow> json \<Rightarrow> json dict list result" where
  "default_filter_items et perimeter =
     (let f = fields_of (jget (perimeter_fields perimeter) ''filter'') in
      if jget f ''items'' \<noteq> JNull then editor_items et (json_or (jget f ''items'') (JList []))
      else rbind (editor_conditions et (Rows (json_or (jget f ''conditions'') (JList [])))) (\<lambda>cs.
        Inr (if cs = [] then [] else
          [[(''kind'', JStr ''group''), (''logic'', JStr (py_upper (py_strip (or_text (str_or_empty (jget f ''logic'')) ''AND'')))),
            (''conditions'', JList (map JObj cs))]])))"

definition default_parameter_rows :: "editor_tools \<Rightarrow> json \<Rightarrow> json dict list result" where
  "default_parameter_rows et perimeter =
     parameter_editor_rows et (Rows (json_or (jget (perimeter_fields perimeter) ''parameters'') (JList [])))"

definition default_sort_rows :: "json \<Rightarrow> json" where
  "default_sort_rows perimeter = json_or (jget (perimeter_fields perimeter) ''sort'') (JList [])"

section \<open>Text\<close>

fun format_perimeter_value :: "json \<Rightarrow> string" where
  "format_perimeter_value JNull = ''null''"
| "format_perimeter_value (JObj d) =
     (if is_parameter_value (JObj d) then
        (if token (jget d ''name'') = [] then ''$?'' else CHR ''$'' # token (jget d ''name''))
      else json_dumps (JObj d))"
| "format_perimeter_value (JStr s) = quoted s"
| "format_perimeter_value (JBool b) = (if b then ''true'' else ''false'')"
| "format_perimeter_value (JList xs) = ''['' @ join_with '', '' (map format_perimeter_value xs) @ '']''"
| "format_perimeter_value (JInt n) = json_str (JInt n)"
| "format_perimeter_value (JFloat q r) = json_str (JFloat q r)"

definition format_condition :: "json dict \<Rightarrow> string" where
  "format_condition c =
     (let field = token (jget c ''field''); operator = py_lower (token (jget c ''operator'')) in
      if field = [] \<or> operator = [] then []
      else if operator \<in> set unary_operators then field @ '' '' @ operator
      else field @ '' '' @ operator @ '' '' @ format_perimeter_value (jget c ''value''))"

definition nonempty_texts :: "string list \<Rightarrow> string list" where
  "nonempty_texts ts = filter (\<lambda>t. t \<noteq> []) ts"

definition spaced :: "string \<Rightarrow> string" where
  "spaced s = '' '' @ s @ '' ''"

definition format_item :: "json dict \<Rightarrow> string" where
  "format_item d =
     (if item_kind d = ''group'' then
        (let logic = or_text (py_lower (py_strip (or_text (str_or_empty (jget d ''logic'')) ''AND''))) ''and'';
             cs = nonempty_texts (map (\<lambda>c. format_condition (fields_of c)) (case jget d ''conditions'' of JList xs \<Rightarrow> xs | _ \<Rightarrow> [])) in
         if cs = [] then [] else ''('' @ join_with (spaced logic) cs @ '')'')
      else format_condition d)"

definition build_filter_text :: "editor_tools \<Rightarrow> json \<Rightarrow> string result" where
  "build_filter_text et perimeter =
     rbind (default_filter_items et perimeter) (\<lambda>items.
       if items = [] then Inr []
       else rbind (default_filter_logic perimeter) (\<lambda>logic.
         Inr (join_with (spaced (or_text (py_lower (py_strip logic)) ''and'')) (nonempty_texts (map format_item items)))))"

definition build_sort_text :: "json \<Rightarrow> string" where
  "build_sort_text perimeter =
     join_with '', '' (map (\<lambda>d. token (jget d ''field'') @ '' '' @
         or_text (py_lower (py_strip (or_text (str_or_empty (jget d ''direction'')) ''asc''))) ''asc'')
       (filter (\<lambda>d. token (jget d ''field'') \<noteq> []) (editor_sort_rows (Rows (default_sort_rows perimeter)))))"

end
