(* ===== verification/PerimeterEditorProps.thy ===== *)
theory PerimeterEditorProps
  imports PerimeterEditor ConfigDumpProps
begin

text \<open>
  The editor of perimeters: which saved filters it shows and saves again unchanged, and which it cannot show.
\<close>

section \<open>Texts in lower case\<close>

lemma lower_idem [simp]: "py_lower (py_lower s) = py_lower s"
  by (simp add: py_lower_def lower_char_lower)

lemma strip_lower [simp]: "py_strip (py_lower (py_strip s)) = py_lower (py_strip s)"
proof -
  have "py_strip (map lower_char (py_strip s)) = map lower_char (py_strip (py_strip s))"
    by (rule strip_map) (simp add: lower_char_space)
  then show ?thesis by (simp add: py_lower_def)
qed

section \<open>Saved conditions\<close>

text \<open>A value the editor leaves as it is; a reference to a parameter must be written as the editor writes it.\<close>

definition settled_value :: "editor_tools \<Rightarrow> json \<Rightarrow> bool" where
  "settled_value et v \<longleftrightarrow>
     (if is_parameter_value v then
        (\<exists>n. v = JObj [(''kind'', JStr ''parameter''), (''name'', JStr n)] \<and> trimmed n) \<and>
        (\<exists>w. normalize_editor_value et v = Inr w)
      else normalize_editor_value et v = Inr v)"

definition settled_condition :: "editor_tools \<Rightarrow> json dict \<Rightarrow> bool" where
  "settled_condition et c \<longleftrightarrow> (case dict_get c ''value'' of None \<Rightarrow> True | Some v \<Rightarrow> settled_value et v)"

definition settled_item :: "editor_tools \<Rightarrow> json dict \<Rightarrow> bool" where
  "settled_item et d \<longleftrightarrow>
     (case jget d ''conditions'' of
        JList cs \<Rightarrow> list_all (\<lambda>c. settled_condition et (fields_of c)) cs | _ \<Rightarrow> settled_condition et d)"

lemma editor_condition_again:
  assumes "editor_condition et c = Inr (Some d)" and "settled_condition et d"
  shows "editor_condition et d = Inr (Some d)"
    and "editor_condition et ((''kind'', JStr k) # d) = Inr (Some d)"
proof -
  define f where "f = token (jget c ''field'')"
  define q where "q = py_lower (token (jget c ''operator''))"
  have tokens: "token (JStr f) = f" "token (JStr q) = q" "py_lower q = q"
    by (simp_all add: f_def q_def token_def)
  from assms(1) obtain v where v: "normalize_editor_value et (jget c ''value'') = Inr v" and ne: "f \<noteq> []" "q \<noteq> []"
    by (auto simp: editor_condition_def Let_def rbind_Inr_iff f_def q_def split: if_splits)
  have again: "editor_condition et d = Inr (Some d) \<and> editor_condition et ((''kind'', JStr k) # d) = Inr (Some d)"
    if d: "d = [(''field'', JStr f), (''operator'', JStr q), (''value'', w)]" "q \<notin> set unary_operators" "w \<noteq> JNull" for w
  proof -
    have settled: "settled_value et w" using assms(2) by (simp add: d(1) settled_condition_def dict_get_Cons)
    show ?thesis
    proof (cases "is_parameter_value w")
      case True
      with settled obtain n x where w: "w = JObj [(''kind'', JStr ''parameter''), (''name'', JStr n)]" "trimmed n" "normalize_editor_value et w = Inr x"
        by (auto simp: settled_value_def)
      then have "token (jget (fields_of w) ''name'') = n" "n \<noteq> []" by (simp_all add: jget_Cons token_def trimmed_simps)
      with True ne d(2) w(3) show ?thesis
        by (simp add: d(1) editor_condition_def Let_def jget_Cons tokens) (simp add: w(1))
    next
      case False
      with settled have "normalize_editor_value et w = Inr w" by (simp add: settled_value_def)
      with False ne d(2,3) show ?thesis by (simp add: d(1) editor_condition_def Let_def jget_Cons tokens)
    qed
  qed
  have unary: "editor_condition et d = Inr (Some d) \<and> editor_condition et ((''kind'', JStr k) # d) = Inr (Some d)"
    if d: "d = [(''field'', JStr f), (''operator'', JStr q)]" "q \<in> set unary_operators"
    using d(2) ne by (simp add: d(1) editor_condition_def Let_def jget_Cons tokens normalize_editor_value_def)
  have forms: "q \<in> set unary_operators \<and> d = [(''field'', JStr f), (''operator'', JStr q)] \<or>
      q \<notin> set unary_operators \<and> (\<exists>w. w \<noteq> JNull \<and> d = [(''field'', JStr f), (''operator'', JStr q), (''value'', w)])"
    using assms(1) v ne by (auto simp: editor_condition_def Let_def f_def [symmetric] q_def [symmetric] split: if_splits)
  with again unary show "editor_condition et d = Inr (Some d)" "editor_condition et ((''kind'', JStr k) # d) = Inr (Some d)" by blast+
qed

lemma somes_simps [simp]: "somes [] = []" "somes (Some x # xs) = x # somes xs" "somes (None # xs) = somes xs"
  by (simp_all add: somes_def)

lemma somes_set: "x \<in> set (somes xs) \<longleftrightarrow> Some x \<in> set xs"
  by (induction xs) (auto simp: somes_def List.map_filter_def)

lemma somes_all: "somes (map Some xs) = xs"
  by (induction xs) simp_all

lemma mapM_somes: "(\<And>x. x \<in> set xs \<Longrightarrow> f (g x) = Inr (Some x)) \<Longrightarrow> rbind (mapM f (map g xs)) (\<lambda>ys. Inr (somes ys)) = Inr xs"
proof -
  assume f: "\<And>x. x \<in> set xs \<Longrightarrow> f (g x) = Inr (Some x)"
  then have "mapM f (map g xs) = Inr (map Some xs)" by (induction xs) simp_all
  then show ?thesis by (simp add: somes_all)
qed

lemma editor_conditions_again:
  assumes "editor_conditions et rows = Inr cs" and "\<And>c. c \<in> set cs \<Longrightarrow> settled_condition et c"
  shows "editor_conditions et (Rows (JList (map JObj cs))) = Inr cs"
proof -
  from assms(1) obtain ys where ys: "mapM (editor_condition et) (coerce_editor_rows rows) = Inr ys" "cs = somes ys"
    by (auto simp: editor_conditions_def rbind_Inr_iff)
  have "editor_condition et c = Inr (Some c)" if "c \<in> set cs" for c
  proof -
    from that ys(2) have "Some c \<in> set ys" by (simp add: somes_set)
    from mapM_Inr_set [OF ys(1) this] obtain r where "editor_condition et r = Inr (Some c)" by blast
    from editor_condition_again(1) [OF this assms(2) [OF that]] show ?thesis .
  qed
  then have "rbind (mapM (editor_condition et) (map (\<lambda>x. x) cs)) (\<lambda>ys. Inr (somes ys)) = Inr cs" by (rule mapM_somes)
  moreover have "coerce_editor_rows (Rows (JList (map JObj cs))) = map (\<lambda>x. x) cs"
    by (induction cs) simp_all
  ultimately show ?thesis by (simp only: editor_conditions_def)
qed

lemma group_logic_again:
  "group_logic [(k, x), (''logic'', JStr (group_logic e)), c] = group_logic e" if "k \<noteq> ''logic''"
proof -
  have upper: "py_upper (py_strip (or_text (str_or_empty (JStr ''AND'')) ''AND'')) = ''AND''"
    "py_upper (py_strip (or_text (str_or_empty (JStr ''OR'')) ''AND'')) = ''OR''" by code_simp+
  have get: "jget [(k, x), (''logic'', v), c] ''logic'' = v" for v using that by (simp add: jget_Cons)
  have "group_logic e = ''AND'' \<or> group_logic e = ''OR''" by (simp add: group_logic_def Let_def)
  then show ?thesis
  proof
    assume "group_logic e = ''AND''"
    then show ?thesis by (simp only: get group_logic_def [of "[(k, x), (''logic'', JStr ''AND''), c]"] upper Let_def) simp
  next
    assume "group_logic e = ''OR''"
    then show ?thesis by (simp only: get group_logic_def [of "[(k, x), (''logic'', JStr ''OR''), c]"] upper Let_def) simp
  qed
qed

lemma kinds: "item_kind ((''kind'', JStr ''group'') # d) = ''group''" "item_kind ((''kind'', JStr ''condition'') # d) = ''condition''"
proof -
  have "py_lower (py_strip (or_text (str_or_empty (JStr ''group'')) ''condition'')) = ''group''"
    "py_lower (py_strip (or_text (str_or_empty (JStr ''condition'')) ''condition'')) = ''condition''" by code_simp+
  then show "item_kind ((''kind'', JStr ''group'') # d) = ''group''" "item_kind ((''kind'', JStr ''condition'') # d) = ''condition''"
    by (simp_all add: item_kind_def jget_Cons)
qed

lemma condition_has_no_items:
  assumes "editor_condition et e = Inr (Some c)"
  shows "jget c ''conditions'' = JNull"
proof -
  have "\<exists>f q w. c = [(''field'', f), (''operator'', q)] \<or> c = [(''field'', f), (''operator'', q), (''value'', w)]"
    using assms by (auto simp: editor_condition_def Let_def rbind_Inr_iff split: if_splits)
  then show ?thesis by (auto simp: jget_def dict_get_Cons)
qed

lemma editor_item_again:
  assumes "editor_item et v = Inr (Some d)" and "settled_item et d"
  shows "editor_item et (JObj d) = Inr (Some d)"
proof (cases v)
  case (JObj e)
  show ?thesis
  proof (cases "item_kind e = ''group''")
    case True
    with assms(1) JObj obtain cs where cs: "editor_conditions et (Rows (json_or (jget e ''conditions'') (JList []))) = Inr cs" "cs \<noteq> []"
      and d: "d = [(''kind'', JStr ''group''), (''logic'', JStr (group_logic e)), (''conditions'', JList (map JObj cs))]"
      by (auto simp: editor_item_def editor_group_def rbind_Inr_iff split: if_splits)
    have logic: "group_logic d = group_logic e" by (simp add: d group_logic_again)
    have "settled_condition et c" if "c \<in> set cs" for c
      using assms(2) that by (auto simp: settled_item_def d jget_Cons list_all_iff)
    from editor_conditions_again [OF cs(1) this] cs(2) have "editor_group et d = Inr (Some d)"
      using logic by (simp add: editor_group_def d jget_Cons json_or_def)
    then show ?thesis by (simp add: editor_item_def) (simp add: d kinds)
  next
    case False
    with assms(1) JObj obtain c where c: "editor_condition et e = Inr (Some c)" and d: "d = (''kind'', JStr ''condition'') # c"
      by (auto simp: editor_item_def rbind_Inr_iff)
    have "jget c ''conditions'' = JNull" using c by (rule condition_has_no_items)
    then have "settled_condition et c"
      using assms(2) by (simp add: settled_item_def settled_condition_def d jget_Cons dict_get_Cons)
    from editor_condition_again(2) [OF c this] show ?thesis by (simp add: editor_item_def d kinds)
  qed
qed (use assms(1) in \<open>simp_all add: editor_item_def\<close>)

section \<open>Properties\<close>

text \<open>A filter the editor has written is shown and written again unchanged whenever the editor leaves its values as
  they are: conditions and groups, their order, operators and references to parameters come back item by item.
\<close>

theorem saved_filter_reopens:
  assumes "editor_items et v = Inr ds" and "\<And>d. d \<in> set ds \<Longrightarrow> settled_item et d"
  shows "editor_items et (JList (map JObj ds)) = Inr ds"
proof (cases v)
  case (JList xs)
  with assms(1) obtain ys where ys: "mapM (editor_item et) xs = Inr ys" "ds = somes ys"
    by (auto simp: editor_items_def rbind_Inr_iff)
  have "editor_item et (JObj d) = Inr (Some d)" if "d \<in> set ds" for d
  proof -
    from that ys(2) have "Some d \<in> set ys" by (simp add: somes_set)
    from mapM_Inr_set [OF ys(1) this] obtain x where "editor_item et x = Inr (Some d)" by blast
    from editor_item_again [OF this assms(2) [OF that]] show ?thesis .
  qed
  then show ?thesis using mapM_somes [of ds "editor_item et" JObj] by (simp add: editor_items_def)
qed (use assms(1) in \<open>simp_all add: editor_items_def\<close>)

definition sample_tools :: editor_tools where
  "sample_tools = \<lparr>et_loads = (\<lambda>s. if s = ''12'' then Some (JInt 12) else if s = ''[1, 2]'' then Some (JList [JInt 1, JInt 2]) else None),
     et_missing = (\<lambda>v. case v of JList [x] \<Rightarrow> Inr (x = JNull) | JList _ \<Rightarrow> Inl (ValueError ''ambiguous'') | _ \<Rightarrow> Inr False)\<rparr>"

definition sample_filter :: json where
  "sample_filter = JList [JObj [(''field'', JStr '' id ''), (''operator'', JStr ''GT''), (''value'', JStr ''12'')],
     JObj [(''kind'', JStr ''group''), (''logic'', JStr ''or''), (''conditions'', JList
       [JObj [(''field'', JStr ''name''), (''operator'', JStr ''eq''), (''value'', JObj [(''kind'', JStr ''Parameter''), (''name'', JStr ''p'')])],
        JObj [(''field'', JStr ''name''), (''operator'', JStr ''is_null'')], JObj [(''field'', JStr ''x'')]])]]"

theorem saved_filter_reopens_witness:
  "\<exists>ds. editor_items sample_tools sample_filter = Inr ds \<and> length ds = 2 \<and> editor_items sample_tools (JList (map JObj ds)) = Inr ds"
proof -
  have "case editor_items sample_tools sample_filter of Inl _ \<Rightarrow> False
      | Inr ds \<Rightarrow> length ds = 2 \<and> list_all (\<lambda>d. case jget d ''conditions'' of JList cs \<Rightarrow>
          map (\<lambda>c. dict_get (fields_of c) ''value'') cs = [Some (JObj [(''kind'', JStr ''parameter''), (''name'', JStr ''p'')]), None]
        | _ \<Rightarrow> dict_get d ''value'' = Some (JInt 12)) ds" by code_simp
  then obtain ds where ds: "editor_items sample_tools sample_filter = Inr ds" "length ds = 2"
    "list_all (\<lambda>d. case jget d ''conditions'' of JList cs \<Rightarrow>
          map (\<lambda>c. dict_get (fields_of c) ''value'') cs = [Some (JObj [(''kind'', JStr ''parameter''), (''name'', JStr ''p'')]), None]
        | _ \<Rightarrow> dict_get d ''value'' = Some (JInt 12)) ds" by (auto split: sum.splits)
  have kept: "settled_value sample_tools (JInt 12)"
    "settled_value sample_tools (JObj [(''kind'', JStr ''parameter''), (''name'', JStr ''p'')])"
    by (simp_all add: settled_value_def is_parameter_value_def normalize_editor_value_def sample_tools_def parsed_text_def trimmed_def
      py_strip_def py_lstrip_def is_space_def py_spaces_def)
  have "settled_item sample_tools d" if "d \<in> set ds" for d
  proof (cases "jget d ''conditions''")
    case (JList cs)
    with ds(3) that have "map (\<lambda>c. dict_get (fields_of c) ''value'') cs = [Some (JObj [(''kind'', JStr ''parameter''), (''name'', JStr ''p'')]), None]"
      by (auto simp: list_all_iff)
    then show ?thesis using kept JList by (auto simp: settled_item_def settled_condition_def)
  qed (use ds(3) that kept in \<open>auto simp: list_all_iff settled_item_def settled_condition_def\<close>)
  from saved_filter_reopens [OF ds(1) this] ds show ?thesis by blast
qed

text \<open>A perimeter with a condition on a list of several values, as \<open>in\<close> and \<open>not_in\<close> have, cannot be shown: for such a
  list \<open>pandas.isna\<close> gives an array without a truth value, only \<open>TypeError\<close> is caught, and both the items of the
  editor and the text of the filter raise.
\<close>

theorem list_value_cannot_be_shown:
  assumes "\<And>ys. length ys \<ge> 2 \<Longrightarrow> et_missing et (JList ys) = Inl (ValueError m)"
    and "jget (fields_of (jget (fields_of perimeter) ''filter'')) ''items'' = JList items"
    and "JObj c \<in> set items" and "item_kind c \<noteq> ''group''" and "jget c ''value'' = JList ys" and "length ys \<ge> 2"
  shows "(\<exists>e. default_filter_items et perimeter = Inl e) \<and> (\<exists>e. build_filter_text et perimeter = Inl e)"
proof -
  have "editor_condition et c = Inl (ValueError m)"
    using assms(1) [OF assms(6)] by (simp add: editor_condition_def assms(5) normalize_editor_value_def Let_def)
  then have one: "editor_item et (JObj c) = Inl (ValueError m)" using assms(4) by (simp add: editor_item_def)
  have "\<exists>e. mapM (editor_item et) items = Inl e"
  proof (cases "mapM (editor_item et) items")
    case (Inr rs)
    with assms(3) obtain i where "i < length items" "items ! i = JObj c" by (auto simp: in_set_conv_nth)
    with mapM_Inr_nth [OF Inr] one show ?thesis by fastforce
  qed simp
  then obtain e where e: "mapM (editor_item et) items = Inl e" by blast
  have "items \<noteq> []" using assms(3) by auto
  then have "default_filter_items et perimeter = Inl e"
    using assms(2) e by (simp add: default_filter_items_def perimeter_fields_def Let_def json_or_def editor_items_def)
  then show ?thesis by (simp add: build_filter_text_def)
qed

theorem list_value_cannot_be_shown_witness:
  "\<exists>e. build_filter_text sample_tools (JObj [(''filter'', JObj [(''items'', JList
      [JObj [(''kind'', JStr ''condition''), (''field'', JStr ''id''), (''operator'', JStr ''in''), (''value'', JList [JInt 1, JInt 2])]])])]) = Inl e"
proof -
  have missing: "et_missing sample_tools (JList ys) = Inl (ValueError ''ambiguous'')" if "length ys \<ge> 2" for ys
    using that by (cases ys rule: remdups_adj.cases) (simp_all add: sample_tools_def)
  show ?thesis
    by (rule conjunct2 [OF list_value_cannot_be_shown [OF missing, where items = "[JObj [(''kind'', JStr ''condition''), (''field'', JStr ''id''),
        (''operator'', JStr ''in''), (''value'', JList [JInt 1, JInt 2])]]" and c = "[(''kind'', JStr ''condition''), (''field'', JStr ''id''),
        (''operator'', JStr ''in''), (''value'', JList [JInt 1, JInt 2])]" and ys = "[JInt 1, JInt 2]"]])
      (simp_all add: jget_Cons kinds)
qed

text \<open>A text that reads as JSON does not stay a text: the value \<open>"12"\<close> of a saved condition is shown, and saved, as 12.\<close>

lemma text_value_becomes_number:
  "editor_items sample_tools (JList [JObj [(''kind'', JStr ''condition''), (''field'', JStr ''code''), (''operator'', JStr ''eq''), (''value'', JStr ''12'')]])
   = Inr [[(''kind'', JStr ''condition''), (''field'', JStr ''code''), (''operator'', JStr ''eq''), (''value'', JInt 12)]]"
  by code_simp

end
