(* ===== verification/Schedules.thy ===== *)
theory Schedules
  imports SuiteExecutionFacts "HOL-Library.List_Lexorder" "HOL-Library.Product_Lexorder" "HOL-Library.Char_ord"
begin

text \<open>
  Schedules of test suites: their requests (\<open>test_suite_schedule_dto.py\<close>), rows and due times
  (\<open>test_suite_schedule_service.py\<close>), the scheduler that starts the suites that are due
  (\<open>test_suite_scheduler_service.py\<close>, \<open>scheduler_runtime.py\<close>) and the endpoints
  (\<open>test_suite_schedules_api.py\<close>).

  Times are microseconds since the first instant a \<open>datetime\<close> can hold. The state holds the rows other sessions
  can see: the rows of an execution become visible when its session commits.
\<close>

section \<open>Times\<close>

text \<open>A \<open>datetime\<close> has a time zone or not; an aware one is given by its instant. The columns hold naive times.\<close>

datatype moment = Naive int | Aware int

definition first_before :: "moment \<Rightarrow> moment \<Rightarrow> bool result" where
  "first_before a b =
     (case (a, b) of
        (Naive m, Naive n) \<Rightarrow> Inr (m < n)
      | (Aware m, Aware n) \<Rightarrow> Inr (m < n)
      | _ \<Rightarrow> Inl (TypeError ''can't compare offset-naive and offset-aware datetimes''))"

text \<open>The last microsecond of the year 9999, and the range of a \<open>timedelta\<close>.\<close>

definition day_length :: int where "day_length = 86400000000"

definition last_moment :: int where "last_moment = 3652059 * day_length - 1"

definition time_span :: "int \<Rightarrow> int result" where
  "time_span us =
     (if \<bar>us div day_length\<bar> \<le> 999999999 then Inr us
      else Inl (OverflowError ''days out of range; must have magnitude <= 999999999''))"

definition shift_moment :: "int \<Rightarrow> int \<Rightarrow> int result" where
  "shift_moment t d =
     (if 0 \<le> t + d \<and> t + d \<le> last_moment then Inr (t + d) else Inl (OverflowError ''date value out of range''))"

definition frequency_span :: "string \<Rightarrow> int \<Rightarrow> int result" where
  "frequency_span frequency n =
     (let u = py_lower (py_strip frequency) in
      if u = ''minutes'' then time_span (n * 60000000)
      else if u = ''hours'' then time_span (n * 3600000000)
      else if u = ''days'' then time_span (n * day_length)
      else Inl (AppException (''Unsupported frequency unit '' @ quoted frequency @ ''.'')))"

text \<open>The clock and the reference time are naive.\<close>

definition period_ok :: "moment option \<Rightarrow> moment option \<Rightarrow> bool result" where
  "period_ok start_at end_at =
     (case (start_at, end_at) of (Some a, Some b) \<Rightarrow> first_before a b | _ \<Rightarrow> Inr True)"

definition first_candidate :: "moment option \<Rightarrow> int \<Rightarrow> int option \<Rightarrow> int \<Rightarrow> moment result" where
  "first_candidate start_at now reference d =
     rbind (case (reference, start_at) of (None, Some a) \<Rightarrow> first_before (Naive now) a | _ \<Rightarrow> Inr False) (\<lambda>later.
       if later then Inr (the start_at)
       else rbind (shift_moment (case reference of Some r \<Rightarrow> r | None \<Rightarrow> now) d) (\<lambda>c.
         case start_at of
           None \<Rightarrow> Inr (Naive c)
         | Some a \<Rightarrow> rbind (first_before (Naive c) a) (\<lambda>early. Inr (if early then a else Naive c))))"

definition compute_next_run_at ::
  "bool \<Rightarrow> string \<Rightarrow> int \<Rightarrow> moment option \<Rightarrow> moment option \<Rightarrow> int \<Rightarrow> int option \<Rightarrow> moment option result" where
  "compute_next_run_at active frequency n start_at end_at now reference =
     (if \<not> active then Inr None
      else if n \<le> 0 then Inl (AppException ''frequency_value must be greater than zero.'')
      else rbind (period_ok start_at end_at) (\<lambda>ok.
        if \<not> ok then Inl (AppException ''start_at must be earlier than end_at.'')
        else rbind (frequency_span frequency n) (\<lambda>d.
             rbind (first_candidate start_at now reference d) (\<lambda>c.
             case end_at of
               None \<Rightarrow> Inr (Some c)
             | Some e \<Rightarrow> rbind (first_before e c) (\<lambda>late. Inr (if late then None else Some c))))))"

section \<open>Requests\<close>

record schedule_dto =
  kd_suite :: string
  kd_description :: "string option"
  kd_active :: bool
  kd_frequency :: string
  kd_value :: int
  kd_start :: "moment option"
  kd_end :: "moment option"

definition frequency_units :: "string list" where
  "frequency_units = [''minutes'', ''hours'', ''days'']"

definition validate_schedule :: "schedule_dto \<Rightarrow> schedule_dto result" where
  "validate_schedule d =
     (let suite = py_strip (kd_suite d) in
      rbind (require (kd_frequency d \<in> set frequency_units) (ValidationError ''frequency_unit'')) (\<lambda>_.
      rbind (require (suite \<noteq> []) (ValidationError ''test_suite_id is required.'')) (\<lambda>_.
      rbind (require (0 < kd_value d) (ValidationError ''frequency_value must be greater than zero.'')) (\<lambda>_.
      rbind (period_ok (kd_start d) (kd_end d)) (\<lambda>ok.
      rbind (require ok (ValidationError ''start_at must be earlier than end_at.'')) (\<lambda>_.
        Inr (d\<lparr>kd_suite := suite, kd_description := Some (text_of (kd_description d))\<rparr>)))))))"

definition validate_update :: "string \<Rightarrow> schedule_dto \<Rightarrow> (string \<times> schedule_dto) result" where
  "validate_update i d =
     rbind (validate_schedule d) (\<lambda>d'.
     rbind (require (py_strip i \<noteq> []) (ValidationError ''id is required.'')) (\<lambda>_. Inr (py_strip i, d')))"

section \<open>Rows\<close>

text \<open>The times of creation and of the last change are left out.\<close>

record schedule_row =
  sk_id :: string
  sk_suite :: string
  sk_description :: "string option"
  sk_active :: bool
  sk_frequency :: string
  sk_value :: int
  sk_start :: "int option"
  sk_end :: "int option"
  sk_next :: "int option"
  sk_last_run :: "int option"
  sk_status :: string
  sk_execution :: "string option"
  sk_error :: "string option"

text \<open>A thread that runs a suite, by the identifier its events carry.\<close>

record started_run =
  st_execution :: string
  st_suite :: string
  st_event :: json

text \<open>
  The identifiers of rows of schedules and of threads are \<open>uuid4\<close> values. A thread that was started runs whatever
  becomes of the session that started it.
\<close>

record schedule_app =
  sp_schedules :: "schedule_row list"
  sp_suites :: "(string \<times> string option) list"
  sp_runs :: tables
  sp_started :: "started_run list"
  sp_ids :: "nat \<Rightarrow> string"
  sp_next :: nat

definition get_schedule :: "string \<Rightarrow> schedule_app \<Rightarrow> schedule_row option" where
  "get_schedule i s = find (\<lambda>k. sk_id k = i) (sp_schedules s)"

definition suite_description :: "schedule_app \<Rightarrow> string \<Rightarrow> string option option" where
  "suite_description s i = map_option snd (find (\<lambda>p. fst p = i) (sp_suites s))"

definition update_fields :: "string \<Rightarrow> (schedule_row \<Rightarrow> schedule_row) \<Rightarrow> schedule_app \<Rightarrow> schedule_app" where
  "update_fields i f s = s\<lparr>sp_schedules := update_row sk_id i f (sp_schedules s)\<rparr>"

definition ordered_schedules :: "string option \<Rightarrow> schedule_app \<Rightarrow> schedule_row list" where
  "ordered_schedules suite s =
     (let i = py_strip (text_of suite) in
      sort_key (\<lambda>k. (sk_suite k, text_of (sk_description k), sk_id k))
        (filter (\<lambda>k. i = [] \<or> sk_suite k = i) (sp_schedules s)))"

definition is_due :: "int \<Rightarrow> schedule_row \<Rightarrow> bool" where
  "is_due now k \<longleftrightarrow> sk_active k \<and> (case sk_next k of None \<Rightarrow> False | Some t \<Rightarrow> t \<le> now)"

definition due_schedules :: "int \<Rightarrow> schedule_app \<Rightarrow> schedule_row list" where
  "due_schedules now s = sort_key (\<lambda>k. (the (sk_next k), sk_id k)) (filter (is_due now) (sp_schedules s))"

text \<open>The order of the running schedules, by their last change, cannot be observed.\<close>

definition running_schedules :: "schedule_app \<Rightarrow> schedule_row list" where
  "running_schedules s = filter (\<lambda>k. sk_status k = ''running'' \<and> sk_execution k \<noteq> None) (sp_schedules s)"

definition has_running_execution :: "schedule_app \<Rightarrow> string \<Rightarrow> bool" where
  "has_running_execution s suite \<longleftrightarrow>
     list_ex (\<lambda>r. sx_suite r = suite \<and> sx_status r = ''running'') (tb_suites (sp_runs s))"

definition next_run_of :: "schedule_row \<Rightarrow> bool \<Rightarrow> int \<Rightarrow> int option \<Rightarrow> moment option result" where
  "next_run_of k active now reference =
     compute_next_run_at active (sk_frequency k) (sk_value k) (map_option Naive (sk_start k))
       (map_option Naive (sk_end k)) now reference"

section \<open>The scheduler\<close>

record trigger_result =
  tg_id :: string
  tg_suite :: string
  tg_status :: string
  tg_execution :: "string option"
  tg_message :: string

definition serialize_trigger_result :: "schedule_row \<Rightarrow> string \<Rightarrow> string option \<Rightarrow> string \<Rightarrow> trigger_result" where
  "serialize_trigger_result k status eid message =
     \<lparr>tg_id = sk_id k, tg_suite = sk_suite k, tg_status = status, tg_execution = eid, tg_message = message\<rparr>"

definition build_schedule_event :: "schedule_row \<Rightarrow> json" where
  "build_schedule_event k = JObj [(''trigger'', JObj [(''type'', JStr ''schedule''), (''schedule_id'', JStr (sk_id k)),
     (''schedule_description'', JStr (text_of (sk_description k)))])]"

text \<open>The row a running schedule names by its last execution, when that has an end.\<close>

definition ended_execution :: "schedule_app \<Rightarrow> schedule_row \<Rightarrow> suite_row option" where
  "ended_execution s k =
     (let i = py_strip (text_of (sk_execution k)) in
      if i = [] then None
      else (case find (\<lambda>r. sx_id r = i) (tb_suites (sp_runs s)) of
              None \<Rightarrow> None
            | Some r \<Rightarrow> if py_lower (py_strip (sx_status r)) = ''running'' then None else Some r))"

definition refresh_schedule :: "schedule_row \<Rightarrow> schedule_app \<Rightarrow> int \<times> schedule_app" where
  "refresh_schedule k s =
     (case ended_execution s k of
        None \<Rightarrow> (0, s)
      | Some r \<Rightarrow>
          (1, update_fields (sk_id k) (\<lambda>k'. k'\<lparr>sk_status := or_text (py_lower (py_strip (sx_status r))) ''error'',
                 sk_error := non_empty (py_strip (text_of (sx_error r)))\<rparr>) s))"

fun refresh_each :: "schedule_row list \<Rightarrow> schedule_app \<Rightarrow> int \<times> schedule_app" where
  "refresh_each [] s = (0, s)"
| "refresh_each (k # ks) s =
     (let (n, s1) = refresh_schedule k s; (m, s2) = refresh_each ks s1 in (n + m, s2))"

definition refresh_running_schedule_states :: "schedule_app \<Rightarrow> int \<times> schedule_app" where
  "refresh_running_schedule_states s = refresh_each (running_schedules s) s"

text \<open>\<open>managed_session\<close> rolls the rows back when an exception leaves it.\<close>

definition schedule_session :: "(schedule_app, 'a) call \<Rightarrow> (schedule_app, 'a) call" where
  "schedule_session m s =
     (case m s of
        (Inl e, s') \<Rightarrow> (Inl e, s'\<lparr>sp_schedules := sp_schedules s\<rparr>)
      | (Inr x, s') \<Rightarrow> (Inr x, s'))"

definition unknown_schedule :: "string \<Rightarrow> py_error" where
  "unknown_schedule i = AppException (''No test suite schedule found with id [ '' @ i @ '' ]'')"

definition unknown_suite :: "string \<Rightarrow> py_error" where
  "unknown_suite i = AppException (''No test suite found with id [ '' @ i @ '' ]'')"

definition naive_of :: "moment \<Rightarrow> int" where
  "naive_of m = (case m of Naive t \<Rightarrow> t | Aware t \<Rightarrow> t)"

text \<open>\<open>execute_test_suite_by_id\<close>: the thread gets its identifier first; \<open>launch\<close> says whether it could be started.\<close>

definition execute_test_suite_by_id :: "unit result \<Rightarrow> string \<Rightarrow> json \<Rightarrow> (schedule_app, string) call" where
  "execute_test_suite_by_id launch suite event s =
     (let i = sp_ids s (sp_next s); s1 = s\<lparr>sp_next := Suc (sp_next s)\<rparr> in
      case launch of
        Inl e \<Rightarrow> (Inl e, s1)
      | Inr _ \<Rightarrow> (Inr i, s1\<lparr>sp_started := sp_started s1 @
          [\<lparr>st_execution = i, st_suite = py_strip suite, st_event = event\<rparr>]\<rparr>))"

definition expire_schedule :: "schedule_row \<Rightarrow> (schedule_app, trigger_result) call" where
  "expire_schedule k s =
     (Inr (serialize_trigger_result k ''expired'' None ''Schedule validity window has ended.''),
      update_fields (sk_id k) (\<lambda>k'. k'\<lparr>sk_active := False, sk_next := None, sk_status := ''idle''\<rparr>) s)"

definition skip_schedule :: "int \<Rightarrow> schedule_row \<Rightarrow> (schedule_app, trigger_result) call" where
  "skip_schedule now k s =
     (case next_run_of k (sk_active k) now (Some now) of
        Inl e \<Rightarrow> (Inl e, s)
      | Inr n \<Rightarrow>
          (Inr (serialize_trigger_result k ''skipped'' None ''Skipped because the suite is already running.''),
           update_fields (sk_id k) (\<lambda>k'. k'\<lparr>sk_next := (if sk_active k then map_option naive_of n else sk_next k),
             sk_status := ''skipped'', sk_error := Some ''Skipped because the suite is already running.''\<rparr>) s))"

definition start_schedule :: "unit result \<Rightarrow> int \<Rightarrow> schedule_row \<Rightarrow> (schedule_app, trigger_result) call" where
  "start_schedule launch now k s =
     (case execute_test_suite_by_id launch (sk_suite k) (build_schedule_event k) s of
        (Inl e, s1) \<Rightarrow>
          (case next_run_of k (sk_active k) now (Some now) of
             Inl e' \<Rightarrow> (Inl e', s1)
           | Inr n \<Rightarrow>
               (Inl e, update_fields (sk_id k) (\<lambda>k'. k'\<lparr>sk_next := map_option naive_of n, sk_status := ''error'',
                  sk_error := Some (error_text e)\<rparr>) s1))
      | (Inr i, s1) \<Rightarrow>
          (case next_run_of k (sk_active k) now (Some now) of
             Inl e \<Rightarrow> (Inl e, s1)
           | Inr n \<Rightarrow>
               (Inr (serialize_trigger_result k ''started'' (Some i) ''Scheduled execution started.''),
                update_fields (sk_id k) (\<lambda>k'. k'\<lparr>sk_next := map_option naive_of n, sk_last_run := Some now,
                  sk_status := ''running'', sk_execution := Some i, sk_error := None\<rparr>) s1)))"

definition trigger_in_session :: "unit result \<Rightarrow> string \<Rightarrow> bool \<Rightarrow> int \<Rightarrow> (schedule_app, trigger_result) call" where
  "trigger_in_session launch i manual now s =
     (case get_schedule i s of
        None \<Rightarrow> (Inl (unknown_schedule i), s)
      | Some k \<Rightarrow>
          if suite_description s (sk_suite k) = None then (Inl (unknown_suite (sk_suite k)), s)
          else
            (let s1 = snd (refresh_running_schedule_states s) in
             if \<not> manual \<and> \<not> sk_active k then
               (Inr (serialize_trigger_result k ''inactive'' None ''Schedule is inactive.''), s1)
             else if \<not> manual \<and> (case sk_start k of None \<Rightarrow> False | Some a \<Rightarrow> now < a) then
               (Inr (serialize_trigger_result k ''not_due'' None ''Schedule is not within the active window yet.''), s1)
             else if \<not> manual \<and> (case sk_end k of None \<Rightarrow> False | Some e \<Rightarrow> e < now) then expire_schedule k s1
             else if has_running_execution s1 (sk_suite k) then skip_schedule now k s1
             else start_schedule launch now k s1))"

definition trigger_schedule :: "unit result \<Rightarrow> string \<Rightarrow> bool \<Rightarrow> int \<Rightarrow> (schedule_app, trigger_result) call" where
  "trigger_schedule launch i manual now = schedule_session (trigger_in_session launch i manual now)"

definition sync_schedule_execution_states :: "(schedule_app, int) call" where
  "sync_schedule_execution_states s = (case refresh_running_schedule_states s of (n, s') \<Rightarrow> (Inr n, s'))"

primrec trigger_each :: "(string \<Rightarrow> unit result) \<Rightarrow> int \<Rightarrow> string list \<Rightarrow> (schedule_app, trigger_result list) call" where
  "trigger_each launch now [] = spure []"
| "trigger_each launch now (i # is) =
     sbind (trigger_schedule (launch i) i False now) (\<lambda>r. sbind (trigger_each launch now is) (\<lambda>rs. spure (r # rs)))"

definition process_due_schedules :: "(string \<Rightarrow> unit result) \<Rightarrow> int \<Rightarrow> (schedule_app, trigger_result list) call" where
  "process_due_schedules launch now =
     sbind sync_schedule_execution_states (\<lambda>_ s. trigger_each launch now (map sk_id (due_schedules now s)) s)"

text \<open>One round of the scheduler thread over the tenants; an exception ends the round and is only logged.\<close>

fun scheduler_round :: "(string \<Rightarrow> unit result) \<Rightarrow> int \<Rightarrow> schedule_app list \<Rightarrow> schedule_app list" where
  "scheduler_round launch now [] = []"
| "scheduler_round launch now (s # ss) =
     (case process_due_schedules launch now s of
        (Inl e, s') \<Rightarrow> s' # ss
      | (Inr _, s') \<Rightarrow> s' # scheduler_round launch now ss)"

definition scheduler_enabled :: "string option \<Rightarrow> bool" where
  "scheduler_enabled v \<longleftrightarrow>
     py_lower (py_strip (case v of None \<Rightarrow> ''true'' | Some t \<Rightarrow> t)) \<notin> {''0'', ''false'', ''no''}"

section \<open>The endpoints\<close>

text \<open>\<open>stored\<close> is what the columns, which have no time zone, keep of a time.\<close>

definition build_schedule_row :: "(moment \<Rightarrow> int) \<Rightarrow> int \<Rightarrow> string \<Rightarrow> schedule_dto \<Rightarrow> schedule_row result" where
  "build_schedule_row stored now i d =
     rbind (compute_next_run_at (kd_active d) (kd_frequency d) (kd_value d) (kd_start d) (kd_end d) now None) (\<lambda>n.
       Inr \<lparr>sk_id = i, sk_suite = kd_suite d, sk_description = kd_description d, sk_active = kd_active d,
            sk_frequency = kd_frequency d, sk_value = kd_value d, sk_start = map_option stored (kd_start d),
            sk_end = map_option stored (kd_end d), sk_next = map_option stored n, sk_last_run = None,
            sk_status = ''idle'', sk_execution = None, sk_error = None\<rparr>)"

definition insert_schedule :: "(moment \<Rightarrow> int) \<Rightarrow> int \<Rightarrow> schedule_dto \<Rightarrow> (schedule_app, string) call" where
  "insert_schedule stored now d =
     sbind (slift (validate_schedule d)) (\<lambda>d' s.
       if suite_description s (kd_suite d') = None then (Inl (unknown_suite (kd_suite d')), s)
       else (let i = sp_ids s (sp_next s) in
         case build_schedule_row stored now i d' of
           Inl e \<Rightarrow> (Inl e, s)
         | Inr k \<Rightarrow>
             if get_schedule i s \<noteq> None then (Inl (IntegrityError ''duplicate key''), s\<lparr>sp_next := Suc (sp_next s)\<rparr>)
             else (Inr i, s\<lparr>sp_next := Suc (sp_next s), sp_schedules := sp_schedules s @ [k]\<rparr>)))"

definition requested_row :: "(moment \<Rightarrow> int) \<Rightarrow> schedule_dto \<Rightarrow> moment option \<Rightarrow> schedule_row \<Rightarrow> schedule_row" where
  "requested_row stored d n k =
     k\<lparr>sk_suite := kd_suite d, sk_description := kd_description d, sk_active := kd_active d,
       sk_frequency := kd_frequency d, sk_value := kd_value d, sk_start := map_option stored (kd_start d),
       sk_end := map_option stored (kd_end d), sk_next := map_option stored n\<rparr>"

definition update_schedule :: "(moment \<Rightarrow> int) \<Rightarrow> int \<Rightarrow> string \<Rightarrow> schedule_dto \<Rightarrow> (schedule_app, unit) call" where
  "update_schedule stored now i0 d =
     sbind (slift (validate_update i0 d)) (\<lambda>(i, d') s.
       if suite_description s (kd_suite d') = None then (Inl (unknown_suite (kd_suite d')), s)
       else if get_schedule i s = None then (Inl (unknown_schedule i), s)
       else (case compute_next_run_at (kd_active d') (kd_frequency d') (kd_value d') (kd_start d') (kd_end d') now None of
           Inl e \<Rightarrow> (Inl e, s)
         | Inr n \<Rightarrow> (Inr (), update_fields i (requested_row stored d' n) s)))"

definition delete_schedule :: "string \<Rightarrow> (schedule_app, unit) call" where
  "delete_schedule i s =
     (if get_schedule i s = None then (Inl (unknown_schedule i), s)
      else (Inr (), s\<lparr>sp_schedules := filter (\<lambda>k. sk_id k \<noteq> i) (sp_schedules s)\<rparr>))"

definition activate_schedule :: "int \<Rightarrow> string \<Rightarrow> (schedule_app, unit) call" where
  "activate_schedule now i s =
     (case get_schedule i s of
        None \<Rightarrow> (Inl (unknown_schedule i), s)
      | Some k \<Rightarrow>
          (case next_run_of k True now None of
             Inl e \<Rightarrow> (Inl e, s)
           | Inr n \<Rightarrow> (Inr (), update_fields i (\<lambda>k'. k'\<lparr>sk_active := True, sk_next := map_option naive_of n\<rparr>) s)))"

definition deactivate_schedule :: "string \<Rightarrow> (schedule_app, unit) call" where
  "deactivate_schedule i s =
     (if get_schedule i s = None then (Inl (unknown_schedule i), s)
      else (Inr (), update_fields i (\<lambda>k'. k'\<lparr>sk_active := False, sk_next := None\<rparr>) s))"

definition run_schedule_now :: "unit result \<Rightarrow> int \<Rightarrow> string \<Rightarrow> (schedule_app, json) call" where
  "run_schedule_now launch now i =
     sbind (trigger_schedule launch i True now) (\<lambda>r.
       spure (JObj [(''message'', JStr (tg_message r)),
         (''execution_id'', case tg_execution r of None \<Rightarrow> JNull | Some e \<Rightarrow> JStr e), (''status'', JStr (tg_status r))]))"

text \<open>The response to a read; \<open>shown\<close> writes a time.\<close>

definition optional_text :: "string option \<Rightarrow> json" where
  "optional_text t = (case t of None \<Rightarrow> JNull | Some x \<Rightarrow> JStr x)"

definition optional_time :: "(int \<Rightarrow> json) \<Rightarrow> int option \<Rightarrow> json" where
  "optional_time shown t = (case t of None \<Rightarrow> JNull | Some x \<Rightarrow> shown x)"

definition serialize_schedule :: "(int \<Rightarrow> json) \<Rightarrow> schedule_row \<Rightarrow> string \<Rightarrow> json dict" where
  "serialize_schedule shown k description =
     [(''id'', JStr (sk_id k)), (''test_suite_id'', JStr (sk_suite k)), (''test_suite_description'', JStr description),
      (''description'', optional_text (sk_description k)), (''active'', JBool (sk_active k)),
      (''frequency_unit'', JStr (sk_frequency k)), (''frequency_value'', JInt (sk_value k)),
      (''start_at'', optional_time shown (sk_start k)), (''end_at'', optional_time shown (sk_end k)),
      (''next_run_at'', optional_time shown (sk_next k)), (''last_run_at'', optional_time shown (sk_last_run k)),
      (''last_status'', JStr (sk_status k)), (''last_execution_id'', optional_text (sk_execution k)),
      (''last_error_message'', optional_text (sk_error k))]"

definition described_suite :: "schedule_app \<Rightarrow> string \<Rightarrow> string" where
  "described_suite s i = (case suite_description s i of None \<Rightarrow> [] | Some d \<Rightarrow> text_of d)"

definition find_all_schedules :: "(int \<Rightarrow> json) \<Rightarrow> string option \<Rightarrow> schedule_app \<Rightarrow> json dict list" where
  "find_all_schedules shown suite s =
     map (\<lambda>k. serialize_schedule shown k (described_suite s (sk_suite k))) (ordered_schedules suite s)"

definition find_schedule :: "(int \<Rightarrow> json) \<Rightarrow> string \<Rightarrow> schedule_app \<Rightarrow> json dict result" where
  "find_schedule shown i s =
     (case get_schedule i s of
        None \<Rightarrow> Inl (unknown_schedule i)
      | Some k \<Rightarrow> Inr (serialize_schedule shown k (described_suite s (sk_suite k))))"

section \<open>Schedules over time\<close>

text \<open>
  A request, a round of the scheduler, the end of the session of a running suite, which makes the rows it wrote
  visible, rows of executions that are deleted, or a change of the suites, whose schedules go with them. Values of
  \<open>uuid4\<close> are not drawn twice.
\<close>

inductive schedule_step :: "(moment \<Rightarrow> int) \<Rightarrow> field_types \<Rightarrow> 'w executor \<Rightarrow> schedule_app \<Rightarrow> schedule_app \<Rightarrow> bool"
  for stored :: "moment \<Rightarrow> int" and pyd :: field_types and ex :: "'w executor" where
  inserting: "schedule_step stored pyd ex s (snd (insert_schedule stored now d s))"
| updating: "schedule_step stored pyd ex s (snd (update_schedule stored now i d s))"
| deleting: "schedule_step stored pyd ex s (snd (delete_schedule i s))"
| activating: "schedule_step stored pyd ex s (snd (activate_schedule now i s))"
| deactivating: "schedule_step stored pyd ex s (snd (deactivate_schedule i s))"
| running_now: "schedule_step stored pyd ex s (snd (run_schedule_now launch now i s))"
| processing: "schedule_step stored pyd ex s (snd (process_due_schedules launch_of now s))"
| committing: "xs_tables st = sp_runs s \<Longrightarrow> ids_ok st \<Longrightarrow> \<forall>n m. xs_fresh st n \<noteq> py_strip (sp_ids s m) \<Longrightarrow>
    execute_suite pyd ex xi st = (r, st') \<Longrightarrow> schedule_step stored pyd ex s (s\<lparr>sp_runs := xs_tables st'\<rparr>)"
| forgetting: "tb_suites t = filter P (tb_suites (sp_runs s)) \<Longrightarrow> schedule_step stored pyd ex s (s\<lparr>sp_runs := t\<rparr>)"
| changing_suites: "schedule_step stored pyd ex s (s\<lparr>sp_suites := suites,
    sp_schedules := filter (\<lambda>k. sk_suite k \<in> fst ` set suites) (sp_schedules s)\<rparr>)"

definition new_schedule_app :: "(nat \<Rightarrow> string) \<Rightarrow> schedule_app" where
  "new_schedule_app ids = \<lparr>sp_schedules = [], sp_suites = [],
     sp_runs = \<lparr>tb_suites = [], tb_items = [], tb_commands = [], tb_test_commands = []\<rparr>,
     sp_started = [], sp_ids = ids, sp_next = 0\<rparr>"

definition reachable_schedules :: "(moment \<Rightarrow> int) \<Rightarrow> field_types \<Rightarrow> 'w executor \<Rightarrow> (nat \<Rightarrow> string) \<Rightarrow> schedule_app \<Rightarrow> bool" where
  "reachable_schedules stored pyd ex ids s \<longleftrightarrow> (schedule_step stored pyd ex)\<^sup>*\<^sup>* (new_schedule_app ids) s"

end
