(* ===== verification/ScheduleProps.thy ===== *)
theory ScheduleProps
  imports Schedules SuiteExecutionProps
begin

text \<open>
  Schedules over time: the rows stay within their windows, a round of the scheduler leaves nothing due, and why the
  two guards on running executions never apply.
\<close>

section \<open>Times\<close>

lemma first_before_simps [simp]:
  "first_before (Naive m) (Naive n) = Inr (m < n)"
  "first_before (Naive m) (Aware n) \<noteq> Inr b" "first_before (Aware m) (Naive n) \<noteq> Inr b"
  by (simp_all add: first_before_def)

text \<open>A time in the window of a schedule.\<close>

definition in_window :: "int option \<Rightarrow> int option \<Rightarrow> int \<Rightarrow> bool" where
  "in_window a e t \<longleftrightarrow> (case a of None \<Rightarrow> True | Some x \<Rightarrow> x \<le> t) \<and> (case e of None \<Rightarrow> True | Some x \<Rightarrow> t \<le> x)"

lemma frequency_span_pos:
  assumes "frequency_span f n = Inr d" and "0 < n"
  shows "0 < d"
  using assms by (auto simp: frequency_span_def time_span_def day_length_def Let_def split: if_splits)

lemma first_candidate_spec:
  assumes "first_candidate a now r d = Inr c" and "0 < d" and "r = None \<or> r = Some now"
  obtains t a' where "c = Naive t" "now < t" "a = map_option Naive a'" "in_window a' None t"
proof (cases a)
  case None
  with assms that [of _ None] show ?thesis
    by (auto simp: first_candidate_def shift_moment_def in_window_def split: if_splits)
next
  case (Some x)
  show ?thesis
  proof (cases x)
    case (Naive y)
    with Some assms that [of _ "Some y"] show ?thesis
      by (auto simp: first_candidate_def shift_moment_def in_window_def rbind_Inr_iff split: if_splits)
  next
    case (Aware y)
    with Some assms show ?thesis by (auto simp: first_candidate_def rbind_Inr_iff)
  qed
qed

lemma compute_next_run_spec:
  assumes "compute_next_run_at True f v a e now r = Inr n" and "r = None \<or> r = Some now"
  obtains a' e' n' where "0 < v" "a = map_option Naive a'" "e = map_option Naive e'" "n = map_option Naive n'"
    "\<And>x y. a' = Some x \<Longrightarrow> e' = Some y \<Longrightarrow> x < y" "\<And>t. n' = Some t \<Longrightarrow> now < t \<and> in_window a' e' t"
proof -
  from assms(1) obtain d c where v: "0 < v" and ok: "period_ok a e = Inr True" and d: "frequency_span f v = Inr d"
    and c: "first_candidate a now r d = Inr c"
    and n: "(case e of None \<Rightarrow> Inr (Some c) | Some e \<Rightarrow> rbind (first_before e c) (\<lambda>late. Inr (if late then None else Some c))) = Inr n"
    by (auto simp: compute_next_run_at_def rbind_Inr_iff split: if_splits)
  from first_candidate_spec [OF c frequency_span_pos [OF d v] assms(2)] obtain t a' where
    t: "c = Naive t" "now < t" "a = map_option Naive a'" "in_window a' None t" .
  show ?thesis
  proof (cases e)
    case None
    with n t v that [of a' None "Some t"] show ?thesis by (simp add: in_window_def)
  next
    case (Some x)
    with n t(1) obtain y where y: "x = Naive y" by (cases x) (auto simp: rbind_Inr_iff)
    from n Some y t(1) have n': "n = (if y < t then None else Some (Naive t))" by (simp split: if_splits)
    from ok Some y t(3) have before: "a' = Some z \<Longrightarrow> z < y" for z by (simp add: period_ok_def)
    from n' t v before that [of a' "Some y" "if y < t then None else Some t"] Some y show ?thesis
      by (auto simp: in_window_def split: if_splits)
  qed
qed

section \<open>The invariant\<close>

definition schedule_ok :: "schedule_row \<Rightarrow> bool" where
  "schedule_ok k \<longleftrightarrow>
     (if sk_active k then 0 < sk_value k \<and> (case (sk_start k, sk_end k) of (Some a, Some e) \<Rightarrow> a < e | _ \<Rightarrow> True) \<and>
        (case sk_next k of None \<Rightarrow> True | Some t \<Rightarrow> in_window (sk_start k) (sk_end k) t)
      else sk_next k = None)"

definition thread_ids :: "(nat \<Rightarrow> string) \<Rightarrow> schedule_row \<Rightarrow> bool" where
  "thread_ids ids k \<longleftrightarrow> (case sk_execution k of None \<Rightarrow> True | Some i \<Rightarrow> i \<in> range ids)"

text \<open>The rows other sessions see are those of executions that ended, and none has the identifier of a thread.\<close>

definition ended_rows :: "(nat \<Rightarrow> string) \<Rightarrow> tables \<Rightarrow> bool" where
  "ended_rows ids t \<longleftrightarrow> list_all (\<lambda>r. sx_status r \<noteq> ''running'' \<and> sx_id r \<notin> py_strip ` range ids) (tb_suites t)"

definition rows_valid :: "(nat \<Rightarrow> string) \<Rightarrow> schedule_row list \<Rightarrow> bool" where
  "rows_valid ids ks \<longleftrightarrow> distinct (map sk_id ks) \<and> list_all (\<lambda>k. schedule_ok k \<and> thread_ids ids k) ks"

definition schedules_ok :: "schedule_app \<Rightarrow> bool" where
  "schedules_ok s \<longleftrightarrow> rows_valid (sp_ids s) (sp_schedules s) \<and> ended_rows (sp_ids s) (sp_runs s)"

lemma get_scheduleD:
  assumes "get_schedule i s = Some k"
  shows "k \<in> set (sp_schedules s)" "sk_id k = i"
  using assms by (auto simp: get_schedule_def find_Some_iff in_set_conv_nth)

lemma get_schedule_unique:
  assumes "rows_valid ids (sp_schedules s)" and "get_schedule i s = Some k" and "k' \<in> set (sp_schedules s)" "sk_id k' = i"
  shows "k' = k"
proof -
  have "inj_on sk_id (set (sp_schedules s))" using assms(1) by (simp add: rows_valid_def distinct_map)
  with get_scheduleD [OF assms(2)] assms(3,4) show ?thesis by (metis inj_onD)
qed

lemma rows_valid_update:
  assumes "rows_valid ids ks"
    and "\<And>k. k \<in> set ks \<Longrightarrow> sk_id k = i \<Longrightarrow> sk_id (f k) = i \<and> schedule_ok (f k) \<and> thread_ids ids (f k)"
  shows "rows_valid ids (update_row sk_id i f ks)"
proof -
  have "map sk_id (update_row sk_id i f ks) = map sk_id ks" using assms(2) by (simp add: update_row_def)
  moreover have "schedule_ok k \<and> thread_ids ids k" if "k \<in> set (update_row sk_id i f ks)" for k
    using that assms by (auto simp: rows_valid_def update_row_def list_all_iff split: if_splits)
  ultimately show ?thesis using assms(1) unfolding rows_valid_def list_all_iff by metis
qed

lemma rows_valid_filter: "rows_valid ids ks \<Longrightarrow> rows_valid ids (filter P ks)"
  by (auto simp: rows_valid_def list_all_iff distinct_map inj_on_def)

lemma schedules_ok_update:
  assumes "schedules_ok s"
    and "\<And>k. k \<in> set (sp_schedules s) \<Longrightarrow> sk_id k = i \<Longrightarrow> sk_id (f k) = i \<and> schedule_ok (f k) \<and> thread_ids (sp_ids s) (f k)"
  shows "schedules_ok (update_fields i f s)"
  using assms(1) rows_valid_update [OF _ assms(2)] by (simp add: schedules_ok_def update_fields_def)

section \<open>The guards on running executions\<close>

lemma no_ended_execution:
  assumes "schedules_ok s" and "k \<in> set (sp_schedules s)"
  shows "ended_execution s k = None"
proof (cases "sk_execution k")
  case None
  then show ?thesis by (simp add: ended_execution_def text_of_def py_strip_def py_lstrip_def)
next
  case (Some i)
  with assms have "i \<in> range (sp_ids s)" by (auto simp: schedules_ok_def rows_valid_def list_all_iff thread_ids_def)
  then have "find (\<lambda>r. sx_id r = py_strip i) (tb_suites (sp_runs s)) = None"
    using assms(1) by (auto simp: schedules_ok_def ended_rows_def list_all_iff find_None_iff)
  with Some show ?thesis by (simp add: ended_execution_def text_of_def Let_def)
qed

lemma refresh_changes_nothing:
  assumes "schedules_ok s"
  shows "refresh_running_schedule_states s = (0, s)"
proof -
  have "refresh_each ks s = (0, s)" if "set ks \<subseteq> set (sp_schedules s)" for ks
    using that by (induction ks) (simp_all add: refresh_schedule_def no_ended_execution [OF assms])
  then show ?thesis by (simp add: refresh_running_schedule_states_def running_schedules_def)
qed

lemma none_running:
  assumes "schedules_ok s"
  shows "\<not> has_running_execution s i"
  using assms by (auto simp: schedules_ok_def ended_rows_def has_running_execution_def list_all_iff list_ex_iff)

section \<open>What a trigger does\<close>

text \<open>The times a schedule gets from its own row.\<close>

lemma next_run_of_spec:
  assumes "next_run_of k active now r = Inr n" and "r = None \<or> r = Some now"
  obtains n' where "n = map_option Naive n'" "active \<or> n' = None"
    "\<And>t. n' = Some t \<Longrightarrow> now < t \<and> in_window (sk_start k) (sk_end k) t"
    "active \<Longrightarrow> 0 < sk_value k \<and> (case (sk_start k, sk_end k) of (Some a, Some e) \<Rightarrow> a < e | _ \<Rightarrow> True)"
proof (cases active)
  case False
  with assms(1) that [of None] show ?thesis by (simp add: next_run_of_def compute_next_run_at_def)
next
  case True
  have inj: "inj (map_option Naive)" by (rule option.inj_map) (simp add: inj_def)
  from assms(1) True have "compute_next_run_at True (sk_frequency k) (sk_value k) (map_option Naive (sk_start k))
      (map_option Naive (sk_end k)) now r = Inr n" by (simp add: next_run_of_def)
  from compute_next_run_spec [OF this assms(2)] obtain a' e' n' where
    v: "0 < sk_value k" and w: "map_option Naive (sk_start k) = map_option Naive a'" "map_option Naive (sk_end k) = map_option Naive e'"
    and n: "n = map_option Naive n'" and before: "\<And>x y. a' = Some x \<Longrightarrow> e' = Some y \<Longrightarrow> x < y"
    and t: "\<And>t. n' = Some t \<Longrightarrow> now < t \<and> in_window a' e' t" by blast
  from w have "a' = sk_start k" "e' = sk_end k" using inj by (auto dest: injD)
  with v n before t True that [of n'] show ?thesis by (auto split: option.splits)
qed

lemma map_naive_of [simp]: "map_option naive_of (map_option Naive n) = n"
  by (simp add: option.map_comp comp_def naive_of_def option.map_ident)

text \<open>Every way a trigger can end when no execution is running.\<close>

lemma trigger_cases:
  assumes ok: "schedules_ok s" and run: "trigger_schedule launch i manual now s = (r, s')"
  obtains (raised) e where "r = Inl e" "sp_schedules s' = sp_schedules s" "sp_runs s' = sp_runs s" "sp_ids s' = sp_ids s"
    | (unchanged) k x where "get_schedule i s = Some k" "r = Inr x" "s' = s" "\<not> manual"
        "\<not> sk_active k \<or> (\<exists>a. sk_start k = Some a \<and> now < a)" "tg_status x \<in> {''inactive'', ''not_due''}" "tg_id x = i"
    | (expired) k x e where "get_schedule i s = Some k" "r = Inr x" "sk_end k = Some e" "e < now" "tg_status x = ''expired''" "tg_id x = i"
        "s' = update_fields i (\<lambda>k'. k'\<lparr>sk_active := False, sk_next := None, sk_status := ''idle''\<rparr>) s"
    | (started) k x n where "get_schedule i s = Some k" "r = Inr x" "tg_status x = ''started''" "tg_id x = i"
        "next_run_of k (sk_active k) now (Some now) = Inr n"
        "s' = update_fields i (\<lambda>k'. k'\<lparr>sk_next := map_option naive_of n, sk_last_run := Some now, sk_status := ''running'',
           sk_execution := Some (sp_ids s (sp_next s)), sk_error := None\<rparr>)
           (s\<lparr>sp_next := Suc (sp_next s), sp_started := sp_started s @
              [\<lparr>st_execution = sp_ids s (sp_next s), st_suite = py_strip (sk_suite k), st_event = build_schedule_event k\<rparr>]\<rparr>)"
proof (cases "get_schedule i s")
  case None
  with run show ?thesis
    by (intro raised) (auto simp: trigger_schedule_def schedule_session_def trigger_in_session_def)
next
  case (Some k)
  have i: "sk_id k = i" by (rule get_scheduleD(2) [OF Some])
  note defs = trigger_schedule_def schedule_session_def trigger_in_session_def refresh_changes_nothing [OF ok] none_running [OF ok]
    serialize_trigger_result_def
  consider "suite_description s (sk_suite k) = None"
    | "suite_description s (sk_suite k) \<noteq> None" "\<not> manual" "\<not> sk_active k \<or> (\<exists>a. sk_start k = Some a \<and> now < a)"
    | e where "suite_description s (sk_suite k) \<noteq> None" "\<not> manual" "sk_active k" "\<nexists>a. sk_start k = Some a \<and> now < a" "sk_end k = Some e" "e < now"
    | "suite_description s (sk_suite k) \<noteq> None"
       "manual \<or> sk_active k \<and> (\<nexists>a. sk_start k = Some a \<and> now < a) \<and> (\<nexists>e. sk_end k = Some e \<and> e < now)" by blast
  then show ?thesis
  proof cases
    case 1
    with run Some show ?thesis by (intro raised) (auto simp: defs)
  next
    case 2
    define x where "x = (if sk_active k then serialize_trigger_result k ''not_due'' None ''Schedule is not within the active window yet.''
      else serialize_trigger_result k ''inactive'' None ''Schedule is inactive.'')"
    from 2 Some have "trigger_in_session launch i manual now s = (Inr x, s)"
      by (auto simp: trigger_in_session_def refresh_changes_nothing [OF ok] x_def)
    with run have "r = Inr x" "s' = s" by (auto simp: trigger_schedule_def schedule_session_def)
    moreover have "tg_status x \<in> {''inactive'', ''not_due''}" "tg_id x = i"
      using i by (simp_all add: x_def serialize_trigger_result_def)
    ultimately show ?thesis using 2 by (intro unchanged [OF Some])
  next
    case 3
    then have "trigger_in_session launch i manual now s = expire_schedule k s" using Some by (auto simp: defs split: option.splits)
    with run i have eqs: "r = Inr (serialize_trigger_result k ''expired'' None ''Schedule validity window has ended.'')"
      "s' = update_fields i (\<lambda>k'. k'\<lparr>sk_active := False, sk_next := None, sk_status := ''idle''\<rparr>) s"
      by (auto simp: trigger_schedule_def schedule_session_def expire_schedule_def)
    show ?thesis by (rule expired [OF Some eqs(1) 3(5,6) _ _ eqs(2)]) (simp_all add: serialize_trigger_result_def i)
  next
    case 4
    then have go: "trigger_in_session launch i manual now s = start_schedule launch now k s"
      using Some by (auto simp: defs split: option.splits)
    show ?thesis
    proof (cases launch)
      case (Inl e)
      with run go have err: "\<exists>e'. r = Inl e'" "sp_schedules s' = sp_schedules s" "sp_runs s' = sp_runs s" "sp_ids s' = sp_ids s"
        by (auto simp: trigger_schedule_def schedule_session_def start_schedule_def execute_test_suite_by_id_def
          Let_def update_fields_def split: sum.splits)
      from err(1) obtain e' where "r = Inl e'" by blast
      then show ?thesis by (rule raised [OF _ err(2-4)])
    next
      case (Inr u)
      show ?thesis
      proof (cases "next_run_of k (sk_active k) now (Some now)")
        case (Inl e)
        with run go Inr show ?thesis
          by (intro raised) (auto simp: trigger_schedule_def schedule_session_def start_schedule_def execute_test_suite_by_id_def Let_def)
      next
        case n: (Inr n)
        with run go Inr i have eqs: "r = Inr (serialize_trigger_result k ''started'' (Some (sp_ids s (sp_next s))) ''Scheduled execution started.'')"
          "s' = update_fields i (\<lambda>k'. k'\<lparr>sk_next := map_option naive_of n, sk_last_run := Some now, sk_status := ''running'',
             sk_execution := Some (sp_ids s (sp_next s)), sk_error := None\<rparr>)
             (s\<lparr>sp_next := Suc (sp_next s), sp_started := sp_started s @
                [\<lparr>st_execution = sp_ids s (sp_next s), st_suite = py_strip (sk_suite k), st_event = build_schedule_event k\<rparr>]\<rparr>)"
          by (auto simp: trigger_schedule_def schedule_session_def start_schedule_def execute_test_suite_by_id_def Let_def)
        show ?thesis by (rule started [OF Some eqs(1) _ _ n eqs(2)]) (simp_all add: serialize_trigger_result_def i)
      qed
    qed
  qed
qed

section \<open>The invariant is kept\<close>

lemma update_fields_simps [simp]:
  "sp_runs (update_fields i f s) = sp_runs s" "sp_ids (update_fields i f s) = sp_ids s"
  "sp_started (update_fields i f s) = sp_started s" "sp_suites (update_fields i f s) = sp_suites s"
  by (simp_all add: update_fields_def)

lemma schedules_ok_rows:
  "schedules_ok s \<Longrightarrow> sp_schedules s' = sp_schedules s \<Longrightarrow> sp_runs s' = sp_runs s \<Longrightarrow> sp_ids s' = sp_ids s \<Longrightarrow> schedules_ok s'"
  by (simp add: schedules_ok_def)

text \<open>A row whose next time comes from its own data.\<close>

lemma schedule_ok_next:
  assumes "next_run_of k active now r = Inr n" and "r = None \<or> r = Some now"
    and "sk_active k' = active" "sk_start k' = sk_start k" "sk_end k' = sk_end k" "sk_value k' = sk_value k"
    and "sk_next k' = map_option naive_of n"
  shows "schedule_ok k'"
  by (rule next_run_of_spec [OF assms(1,2)]) (use assms(3-7) in \<open>auto simp: schedule_ok_def split: option.splits\<close>)

lemma trigger_ok:
  assumes ok: "schedules_ok s" and run: "trigger_schedule launch i manual now s = (r, s')"
  shows "schedules_ok s' \<and> sp_ids s' = sp_ids s"
  using ok run
proof (cases rule: trigger_cases)
  case (raised e)
  with ok show ?thesis by (blast intro: schedules_ok_rows)
next
  case (expired k x e)
  have "schedules_ok s'" unfolding expired(7)
    by (rule schedules_ok_update [OF ok])
      (use ok in \<open>auto simp: schedules_ok_def rows_valid_def list_all_iff schedule_ok_def thread_ids_def\<close>)
  then show ?thesis using expired(7) by simp
next
  case (started k x n)
  let ?s = "s\<lparr>sp_next := Suc (sp_next s), sp_started := sp_started s @
    [\<lparr>st_execution = sp_ids s (sp_next s), st_suite = py_strip (sk_suite k), st_event = build_schedule_event k\<rparr>]\<rparr>"
  have ok': "schedules_ok ?s" by (rule schedules_ok_rows [OF ok]) simp_all
  have valid: "rows_valid (sp_ids s) (sp_schedules s)" using ok by (simp add: schedules_ok_def)
  have "schedules_ok s'" unfolding started(6)
  proof (rule schedules_ok_update [OF ok'])
    fix k' assume "k' \<in> set (sp_schedules ?s)" "sk_id k' = i"
    then have k': "k' = k" by (intro get_schedule_unique [OF valid started(1)]) simp_all
    show "sk_id (k'\<lparr>sk_next := map_option naive_of n, sk_last_run := Some now, sk_status := ''running'',
        sk_execution := Some (sp_ids s (sp_next s)), sk_error := None\<rparr>) = i \<and>
      schedule_ok (k'\<lparr>sk_next := map_option naive_of n, sk_last_run := Some now, sk_status := ''running'',
        sk_execution := Some (sp_ids s (sp_next s)), sk_error := None\<rparr>) \<and>
      thread_ids (sp_ids ?s) (k'\<lparr>sk_next := map_option naive_of n, sk_last_run := Some now, sk_status := ''running'',
        sk_execution := Some (sp_ids s (sp_next s)), sk_error := None\<rparr>)"
      using get_scheduleD(2) [OF started(1)] schedule_ok_next [OF started(5)]
      by (simp add: k' thread_ids_def)
  qed
  then show ?thesis using started(6) by simp
qed (use ok in simp)

lemma trigger_each_ok:
  "schedules_ok s \<Longrightarrow> trigger_each launch now is s = (r, s') \<Longrightarrow> schedules_ok s' \<and> sp_ids s' = sp_ids s"
proof (induction "is" arbitrary: s r s')
  case (Cons i js)
  obtain r1 s1 where one: "trigger_schedule (launch i) i False now s = (r1, s1)" by fastforce
  from trigger_ok [OF Cons.prems(1) one] have s1: "schedules_ok s1" "sp_ids s1 = sp_ids s" by simp_all
  show ?case
  proof (cases r1)
    case (Inl e)
    with Cons.prems(2) one s1 show ?thesis by (simp add: sbind_def)
  next
    case (Inr x)
    obtain r2 s2 where two: "trigger_each launch now js s1 = (r2, s2)" by fastforce
    have "s' = s2" using Cons.prems(2) one two Inr by (cases r2) (simp_all add: sbind_def spure_def)
    with Cons.IH [OF s1(1) two] s1(2) show ?thesis by simp
  qed
qed (simp add: spure_def)

lemma process_unfold:
  "schedules_ok s \<Longrightarrow> process_due_schedules launch now s = trigger_each launch now (map sk_id (due_schedules now s)) s"
  by (simp add: process_due_schedules_def sbind_def sync_schedule_execution_states_def refresh_changes_nothing)

section \<open>What is due\<close>

definition due_ids :: "int \<Rightarrow> schedule_app \<Rightarrow> string set" where
  "due_ids now s = sk_id ` {k \<in> set (sp_schedules s). is_due now k}"

lemma set_due: "set (map sk_id (due_schedules now s)) = due_ids now s"
  by (simp add: due_schedules_def due_ids_def)

lemma due_update:
  assumes "\<And>k. k \<in> set (sp_schedules s) \<Longrightarrow> sk_id k = i \<Longrightarrow> sk_id (f k) = i \<and> \<not> is_due now (f k)"
    and "sp_schedules s' = update_row sk_id i f (sp_schedules s)"
  shows "due_ids now s' = due_ids now s - {i}"
proof (intro equalityI subsetI)
  fix j assume "j \<in> due_ids now s'"
  then obtain k where k: "k \<in> set (sp_schedules s)" and j: "j = sk_id (if sk_id k = i then f k else k)"
    "is_due now (if sk_id k = i then f k else k)" by (auto simp: due_ids_def assms(2) update_row_def)
  from assms(1) [OF k] j k show "j \<in> due_ids now s - {i}" by (auto simp: due_ids_def split: if_splits)
next
  fix j assume "j \<in> due_ids now s - {i}"
  then obtain k where "k \<in> set (sp_schedules s)" "j = sk_id k" "is_due now k" "sk_id k \<noteq> i" by (auto simp: due_ids_def)
  then show "j \<in> due_ids now s'" by (auto simp: due_ids_def assms(2) update_row_def intro!: image_eqI [where x = k])
qed

lemma trigger_due:
  assumes ok: "schedules_ok s" and run: "trigger_schedule launch i False now s = (Inr x, s')"
  shows "due_ids now s' = due_ids now s - {i} \<and> tg_id x = i \<and> (i \<in> due_ids now s \<longrightarrow> tg_status x \<in> {''started'', ''expired''})"
  using ok run
proof (cases rule: trigger_cases)
  case (unchanged k y)
  have valid: "rows_valid (sp_ids s) (sp_schedules s)" using ok by (simp add: schedules_ok_def)
  have "\<not> is_due now k"
  proof
    assume due: "is_due now k"
    then obtain t where t: "sk_active k" "sk_next k = Some t" "t \<le> now" by (auto simp: is_due_def split: option.splits)
    with valid get_scheduleD(1) [OF unchanged(1)] have "in_window (sk_start k) (sk_end k) t"
      by (auto simp: rows_valid_def list_all_iff schedule_ok_def)
    with unchanged(5) t show False by (auto simp: in_window_def)
  qed
  then have "i \<notin> due_ids now s" using get_schedule_unique [OF valid unchanged(1)] by (auto simp: due_ids_def)
  with unchanged show ?thesis by simp
next
  case (expired k y e)
  have "due_ids now s' = due_ids now s - {i}"
    by (rule due_update) (use expired(7) in \<open>simp_all add: update_fields_def is_due_def\<close>)
  with expired show ?thesis by simp
next
  case (started k y n)
  have later: "\<not> (sk_active k \<and> (case map_option naive_of n of None \<Rightarrow> False | Some t \<Rightarrow> t \<le> now))"
    by (rule next_run_of_spec [OF started(5)]) (auto split: option.splits)
  have valid: "rows_valid (sp_ids s) (sp_schedules s)" using ok by (simp add: schedules_ok_def)
  have "due_ids now s' = due_ids now s - {i}"
  proof (rule due_update)
    show "sp_schedules s' = update_row sk_id i (\<lambda>k'. k'\<lparr>sk_next := map_option naive_of n, sk_last_run := Some now,
        sk_status := ''running'', sk_execution := Some (sp_ids s (sp_next s)), sk_error := None\<rparr>) (sp_schedules s)"
      by (simp add: started(6) update_fields_def)
    fix k' assume k': "k' \<in> set (sp_schedules s)" "sk_id k' = i"
    with get_schedule_unique [OF valid started(1)] have "k' = k" by simp
    with later k' show "sk_id (k'\<lparr>sk_next := map_option naive_of n, sk_last_run := Some now,
        sk_status := ''running'', sk_execution := Some (sp_ids s (sp_next s)), sk_error := None\<rparr>) = i \<and>
      \<not> is_due now (k'\<lparr>sk_next := map_option naive_of n, sk_last_run := Some now,
        sk_status := ''running'', sk_execution := Some (sp_ids s (sp_next s)), sk_error := None\<rparr>)"
      by (simp add: is_due_def)
  qed
  with started show ?thesis by simp
qed simp

lemma trigger_each_due:
  "schedules_ok s \<Longrightarrow> trigger_each launch now is s = (Inr rs, s') \<Longrightarrow> distinct is \<Longrightarrow>
     due_ids now s' = due_ids now s - set is \<and> map tg_id rs = is \<and>
     (set is \<subseteq> due_ids now s \<longrightarrow> (\<forall>x \<in> set rs. tg_status x \<in> {''started'', ''expired''}))"
proof (induction "is" arbitrary: s rs)
  case Nil
  then show ?case by (simp add: spure_def)
next
  case (Cons i js)
  from Cons.prems(2) obtain x s1 ys where one: "trigger_schedule (launch i) i False now s = (Inr x, s1)"
    and two: "trigger_each launch now js s1 = (Inr ys, s')" and rs: "rs = x # ys"
    by (auto simp: sbind_def spure_def split: prod.splits sum.splits)
  have s1: "schedules_ok s1" using trigger_ok [OF Cons.prems(1) one] by simp
  note x = trigger_due [OF Cons.prems(1) one]
  note rest = Cons.IH [OF s1 two]
  have "set js \<subseteq> due_ids now s1" if "set (i # js) \<subseteq> due_ids now s" using that x Cons.prems(3) by auto
  with x rest Cons.prems(3) rs show ?case by auto
qed

section \<open>Requests\<close>

lemma requested_ok:
  assumes ok: "schedules_ok s" and valid: "compute_next_run_at (kd_active d) (kd_frequency d) (kd_value d) (kd_start d) (kd_end d) now None = Inr n"
    and stored: "\<And>t. stored (Naive t) = t"
    and k': "sk_active k' = kd_active d" "sk_value k' = kd_value d" "sk_start k' = map_option stored (kd_start d)"
      "sk_end k' = map_option stored (kd_end d)" "sk_next k' = map_option stored n"
  shows "schedule_ok k'"
proof (cases "kd_active d")
  case False
  with valid k' show ?thesis by (simp add: compute_next_run_at_def schedule_ok_def)
next
  case True
  have same: "map_option stored (map_option Naive x) = x" for x by (simp add: option.map_comp comp_def stored option.map_ident)
  from valid True have "compute_next_run_at True (kd_frequency d) (kd_value d) (kd_start d) (kd_end d) now None = Inr n" by simp
  then show ?thesis
    by (rule compute_next_run_spec) (use True k' same in \<open>auto simp: schedule_ok_def split: option.splits\<close>)
qed

lemma insert_ok:
  assumes ok: "schedules_ok s" and stored: "\<And>t. stored (Naive t) = t" and run: "insert_schedule stored now d s = (r, s')"
  shows "schedules_ok s' \<and> sp_ids s' = sp_ids s"
proof -
  let ?i = "sp_ids s (sp_next s)"
  consider "s' = s" | "s' = s\<lparr>sp_next := Suc (sp_next s)\<rparr>"
    | d' k where "build_schedule_row stored now ?i d' = Inr k" "get_schedule ?i s = None"
       "s' = s\<lparr>sp_next := Suc (sp_next s), sp_schedules := sp_schedules s @ [k]\<rparr>"
  proof (cases "validate_schedule d")
    case (Inl e)
    with run have "s' = s" by (simp add: insert_schedule_def sbind_def slift_def)
    then show thesis by (rule that(1))
  next
    case (Inr d')
    show thesis
    proof (cases "suite_description s (kd_suite d') = None \<or> isl (build_schedule_row stored now ?i d')")
      case True
      with run Inr have "s' = s" by (auto simp: insert_schedule_def sbind_def slift_def Let_def isl_def split: sum.splits if_splits)
      then show thesis by (rule that(1))
    next
      case False
      then obtain k where k: "build_schedule_row stored now ?i d' = Inr k" by (cases "build_schedule_row stored now ?i d'") auto
      show thesis
      proof (cases "get_schedule ?i s")
        case None
        with run Inr False k have "s' = s\<lparr>sp_next := Suc (sp_next s), sp_schedules := sp_schedules s @ [k]\<rparr>"
          by (simp add: insert_schedule_def sbind_def slift_def Let_def split: if_splits)
        with k None show thesis by (rule that(3))
      next
        case (Some y)
        with run Inr False k have "s' = s\<lparr>sp_next := Suc (sp_next s)\<rparr>"
          by (simp add: insert_schedule_def sbind_def slift_def Let_def split: if_splits)
        then show thesis by (rule that(2))
      qed
    qed
  qed
  then show ?thesis
  proof cases
    case (3 d' k)
    from 3(1) obtain n where n: "compute_next_run_at (kd_active d') (kd_frequency d') (kd_value d') (kd_start d') (kd_end d') now None = Inr n"
      and k: "k = \<lparr>sk_id = ?i, sk_suite = kd_suite d', sk_description = kd_description d', sk_active = kd_active d',
        sk_frequency = kd_frequency d', sk_value = kd_value d', sk_start = map_option stored (kd_start d'),
        sk_end = map_option stored (kd_end d'), sk_next = map_option stored n, sk_last_run = None,
        sk_status = ''idle'', sk_execution = None, sk_error = None\<rparr>"
      by (auto simp: build_schedule_row_def rbind_Inr_iff)
    have "schedule_ok k" by (rule requested_ok [OF ok n stored]) (simp_all add: k)
    moreover have "?i \<notin> sk_id ` set (sp_schedules s)" using 3(2) by (auto simp: get_schedule_def find_None_iff)
    ultimately show ?thesis using ok by (auto simp: 3(3) schedules_ok_def rows_valid_def thread_ids_def k)
  qed (use schedules_ok_rows [OF ok] in auto)
qed

lemma request_update_ok:
  assumes ok: "schedules_ok s" and stored: "\<And>t. stored (Naive t) = t" and run: "update_schedule stored now i d s = (r, s')"
  shows "schedules_ok s' \<and> sp_ids s' = sp_ids s"
proof (cases "s' = s")
  case False
  with run obtain j d' n where n: "compute_next_run_at (kd_active d') (kd_frequency d') (kd_value d') (kd_start d') (kd_end d') now None = Inr n"
    and s': "s' = update_fields j (requested_row stored d' n) s"
    by (auto simp: update_schedule_def sbind_def slift_def split: sum.splits if_splits prod.splits)
  have "schedules_ok s'" unfolding s'
  proof (rule schedules_ok_update [OF ok])
    fix k assume k: "k \<in> set (sp_schedules s)" "sk_id k = j"
    then have "thread_ids (sp_ids s) k" using ok by (simp add: schedules_ok_def rows_valid_def list_all_iff)
    moreover have "schedule_ok (requested_row stored d' n k)" by (rule requested_ok [OF ok n stored]) (simp_all add: requested_row_def)
    ultimately show "sk_id (requested_row stored d' n k) = j \<and> schedule_ok (requested_row stored d' n k) \<and>
        thread_ids (sp_ids s) (requested_row stored d' n k)" using k by (simp add: thread_ids_def requested_row_def)
  qed
  then show ?thesis by (simp add: s')
qed (use ok in simp)

lemma activate_schedule_ok:
  assumes ok: "schedules_ok s" and run: "activate_schedule now i s = (r, s')"
  shows "schedules_ok s' \<and> sp_ids s' = sp_ids s"
proof -
  have valid: "rows_valid (sp_ids s) (sp_schedules s)" using ok by (simp add: schedules_ok_def)
  consider "s' = s" | k n where "get_schedule i s = Some k" "next_run_of k True now None = Inr n"
      "s' = update_fields i (\<lambda>k'. k'\<lparr>sk_active := True, sk_next := map_option naive_of n\<rparr>) s"
    using run by (auto simp: activate_schedule_def split: option.splits sum.splits)
  then show ?thesis
  proof cases
    case (2 k n)
    have "schedules_ok s'" unfolding 2(3)
    proof (rule schedules_ok_update [OF ok])
      fix k' assume k': "k' \<in> set (sp_schedules s)" "sk_id k' = i"
      then have "k' = k" "thread_ids (sp_ids s) k'"
        using get_schedule_unique [OF valid 2(1)] valid by (simp_all add: rows_valid_def list_all_iff)
      moreover have "schedule_ok (k\<lparr>sk_active := True, sk_next := map_option naive_of n\<rparr>)"
        by (rule schedule_ok_next [OF 2(2)]) simp_all
      ultimately show "sk_id (k'\<lparr>sk_active := True, sk_next := map_option naive_of n\<rparr>) = i \<and>
          schedule_ok (k'\<lparr>sk_active := True, sk_next := map_option naive_of n\<rparr>) \<and>
          thread_ids (sp_ids s) (k'\<lparr>sk_active := True, sk_next := map_option naive_of n\<rparr>)"
        using k' by (simp add: thread_ids_def)
    qed
    then show ?thesis by (simp add: 2(3))
  qed (use ok in simp)
qed

lemma deactivate_schedule_ok:
  assumes "schedules_ok s" and "deactivate_schedule i s = (r, s')"
  shows "schedules_ok s' \<and> sp_ids s' = sp_ids s"
proof -
  have "schedules_ok (update_fields i (\<lambda>k'. k'\<lparr>sk_active := False, sk_next := None\<rparr>) s)"
    by (rule schedules_ok_update [OF assms(1)])
      (use assms(1) in \<open>auto simp: schedules_ok_def rows_valid_def list_all_iff schedule_ok_def thread_ids_def\<close>)
  with assms show ?thesis by (auto simp: deactivate_schedule_def split: if_splits)
qed

text \<open>The rows an ended suite leaves.\<close>

lemma commit_ok:
  assumes ok: "schedules_ok s" and "xs_tables st = sp_runs s" "ids_ok st" and ids: "\<forall>n m. xs_fresh st n \<noteq> py_strip (sp_ids s m)"
    and run: "execute_suite pyd ex xi st = (r, st')"
  shows "schedules_ok (s\<lparr>sp_runs := xs_tables st'\<rparr>)"
proof (cases r)
  case (Inl e)
  with run have "xs_tables st' = xs_tables st"
    by (auto simp: execute_suite_def managed_session_def split: prod.splits sum.splits)
  with ok assms(2) show ?thesis by (simp add: schedules_ok_def)
next
  case (Inr pg)
  from execute_suite_effect [OF assms(3) run [unfolded Inr]] obtain ls row where
    "tb_suites (xs_tables st') = tb_suites (xs_tables st) @ [row]"
    "sx_status row = (if any_failed ls then ''error'' else ''success'')" "sx_id row = xs_fresh st (xs_next st)" by blast
  with ok assms(2) ids show ?thesis by (auto simp: schedules_ok_def ended_rows_def)
qed

section \<open>Reachable states\<close>

lemma step_ok:
  assumes "schedule_step stored pyd ex s s'" and "schedules_ok s" and stored: "\<And>t. stored (Naive t) = t"
  shows "schedules_ok s' \<and> sp_ids s' = sp_ids s"
  using assms(1)
proof cases
  case (running_now launch now i)
  have "snd (run_schedule_now launch now i s) = snd (trigger_schedule launch i True now s)"
    by (simp add: run_schedule_now_def sbind_def spure_def split: prod.splits sum.splits)
  with running_now trigger_ok [OF assms(2) prod.collapse [symmetric]] show ?thesis by metis
next
  case (processing launch_of now)
  with process_unfold [OF assms(2)] trigger_each_ok [OF assms(2) prod.collapse [symmetric]] show ?thesis by metis
next
  case (committing st xi r st')
  with commit_ok [OF assms(2) committing(2-5)] show ?thesis by simp
next
  case (deleting i)
  then show ?thesis using assms(2) by (auto simp: delete_schedule_def schedules_ok_def rows_valid_filter)
next
  case (forgetting t P)
  then show ?thesis using assms(2) by (auto simp: schedules_ok_def ended_rows_def list_all_iff)
next
  case (changing_suites suites)
  then show ?thesis using assms(2) by (auto simp: schedules_ok_def rows_valid_filter)
qed (metis prod.collapse insert_ok request_update_ok activate_schedule_ok deactivate_schedule_ok assms(2) stored)+

lemma reachable_ok:
  assumes "reachable_schedules stored pyd ex ids s" and stored: "\<And>t. stored (Naive t) = t"
  shows "schedules_ok s \<and> sp_ids s = ids"
  using assms(1) unfolding reachable_schedules_def
proof (induction rule: rtranclp_induct)
  case base
  show ?case by (simp add: new_schedule_app_def schedules_ok_def rows_valid_def ended_rows_def)
next
  case (step s s')
  with step_ok [OF step.hyps(2) _ stored] show ?case by simp
qed

section \<open>A small application\<close>

lemma reachable_next:
  assumes "reachable_schedules stored pyd ex ids s" and "schedule_step stored pyd ex s s'"
  shows "reachable_schedules stored pyd ex ids s'"
  using assms unfolding reachable_schedules_def by (rule rtranclp.rtrancl_into_rtrancl)

definition row_names :: "nat \<Rightarrow> string" where
  "row_names n = replicate (Suc n) CHR ''k''"

definition sample_schedule :: "string \<Rightarrow> int \<Rightarrow> schedule_dto" where
  "sample_schedule frequency n = \<lparr>kd_suite = '' u '', kd_description = None, kd_active = True, kd_frequency = frequency,
     kd_value = n, kd_start = Some (Naive 100), kd_end = None\<rparr>"

definition with_suite :: schedule_app where
  "with_suite = (new_schedule_app row_names)\<lparr>sp_suites := [(''u'', Some ''U'')]\<rparr>"

definition with_schedules :: "schedule_dto list \<Rightarrow> schedule_app" where
  "with_schedules ds = foldl (\<lambda>s d. snd (insert_schedule naive_of 0 d s)) with_suite ds"

lemma samples_reachable: "reachable_schedules naive_of strict_types no_executor row_names (with_schedules ds)"
proof (induction ds rule: rev_induct)
  case Nil
  have "schedule_step naive_of strict_types no_executor (new_schedule_app row_names) with_suite"
    using changing_suites [of naive_of strict_types no_executor "new_schedule_app row_names" "[(''u'', Some ''U'')]"]
    by (simp add: with_suite_def new_schedule_app_def)
  then show ?case using reachable_next [of naive_of strict_types no_executor row_names "new_schedule_app row_names"]
    by (simp add: with_schedules_def reachable_schedules_def)
next
  case (snoc d ds)
  from reachable_next [OF snoc inserting] show ?case by (simp add: with_schedules_def)
qed

section \<open>Properties\<close>





text \<open>C6. A round of the scheduler that ends without an exception has started, or retired, every schedule that was due,
  each exactly once and in the order of their times, and leaves no schedule that is due.
\<close>

theorem nothing_due_after_round:
  assumes "reachable_schedules stored pyd ex ids s" and "\<And>t. stored (Naive t) = t"
    and "process_due_schedules launch now s = (Inr rs, s')"
  shows "map tg_id rs = map sk_id (due_schedules now s) \<and> (\<forall>x \<in> set rs. tg_status x \<in> {''started'', ''expired''}) \<and>
    due_schedules now s' = []"
proof -
  have ok: "schedules_ok s" using reachable_ok [OF assms(1,2)] by simp
  have "distinct (map sk_id (filter (is_due now) (sp_schedules s)))"
    using rows_valid_filter [of "sp_ids s" "sp_schedules s"] ok by (simp add: schedules_ok_def rows_valid_def)
  then have "distinct (map sk_id (due_schedules now s))"
    by (simp add: due_schedules_def distinct_map)
  from trigger_each_due [OF ok assms(3) [unfolded process_unfold [OF ok]] this]
  have after: "due_ids now s' = {}" "map tg_id rs = map sk_id (due_schedules now s)" "\<forall>x \<in> set rs. tg_status x \<in> {''started'', ''expired''}"
    unfolding set_due by auto
  from after(1) have "set (map sk_id (due_schedules now s')) = {}" unfolding set_due .
  with after show ?thesis by simp
qed

theorem nothing_due_after_round_witness:
  "\<exists>rs s'. process_due_schedules (\<lambda>_. Inr ()) 100 (with_schedules [sample_schedule ''days'' 1, sample_schedule ''minutes'' 5]) = (Inr rs, s') \<and>
    map tg_id rs = [''k'', ''kk''] \<and> due_schedules 100 s' = []"
proof -
  let ?s = "with_schedules [sample_schedule ''days'' 1, sample_schedule ''minutes'' 5]"
  let ?run = "process_due_schedules (\<lambda>_. Inr ()) 100 ?s"
  have "\<not> isl (fst ?run)" "map sk_id (due_schedules 100 ?s) = [''k'', ''kk'']" by code_simp+
  then obtain rs s' where run: "?run = (Inr rs, s')" by (cases ?run; cases "fst ?run") auto
  from nothing_due_after_round [OF samples_reachable _ run] run \<open>map sk_id _ = _\<close> show ?thesis by (simp add: naive_of_def)
qed



end
