(* ===== verification/ExecutionStream.thy ===== *)
theory ExecutionStream
  imports EventBus CommandConfig
begin

text \<open>
  The state the interface keeps of an execution while it reads its stream of events
  (\<open>app/ui/test_suites/services/execution_stream_service.py\<close>). A listener is a step of the state: the lock covers
  every event it applies.
\<close>

record execution_view =
  us_execution :: string
  us_suite :: string
  us_running :: bool
  us_status :: string
  us_executed :: int
  us_total :: int
  us_item_status :: "string dict"
  us_item_error :: "string dict"
  us_operation_status :: "string dict"
  us_operation_error :: "string dict"
  us_events :: "(string \<times> json) list"
  us_error :: "string option"

record stream_state =
  ss_executions :: "execution_view dict"
  ss_listeners :: "string list"

definition new_execution_view :: "string \<Rightarrow> string \<Rightarrow> execution_view" where
  "new_execution_view eid suite =
     \<lparr>us_execution = eid, us_suite = suite, us_running = True, us_status = ''running'', us_executed = 0, us_total = 0,
      us_item_status = [], us_item_error = [], us_operation_status = [], us_operation_error = [], us_events = [],
      us_error = None\<rparr>"

definition operation_key :: "string \<Rightarrow> string \<Rightarrow> string" where
  "operation_key item operation = item @ '':'' @ operation"

section \<open>One event\<close>

definition append_event :: "string \<Rightarrow> json \<Rightarrow> execution_view \<Rightarrow> execution_view" where
  "append_event event data v = v\<lparr>us_events := keep_last 1000 (us_events v @ [(event, data)])\<rparr>"

text \<open>\<open>data.get\<close>; only a dictionary has one.\<close>

definition payload_get :: "json \<Rightarrow> string \<Rightarrow> json result" where
  "payload_get data k = (case data of JObj d \<Rightarrow> Inr (jget d k) | _ \<Rightarrow> Inl (AttributeError ''object has no attribute get''))"

definition payload_token :: "json \<Rightarrow> string \<Rightarrow> string result" where
  "payload_token data k = rbind (payload_get data k) (\<lambda>v. Inr (token v))"

definition payload_int :: "json \<Rightarrow> string \<Rightarrow> int result" where
  "payload_int data k = rbind (payload_get data k) (\<lambda>v. py_int (json_or v (JInt 0)))"

definition suite_started_view :: "execution_view \<Rightarrow> execution_view" where
  "suite_started_view v =
     v\<lparr>us_running := True, us_status := ''running'', us_executed := 0, us_total := 0, us_item_status := [],
       us_item_error := [], us_operation_status := [], us_operation_error := []\<rparr>"

definition progress_view :: "json \<Rightarrow> (execution_view, unit) call" where
  "progress_view data =
     sbind (slift (payload_int data ''executed_tests'')) (\<lambda>n v.
       sbind (slift (payload_int data ''total_tests'')) (\<lambda>m v. (Inr (), v\<lparr>us_total := m\<rparr>)) (v\<lparr>us_executed := n\<rparr>))"

definition item_started_view :: "json \<Rightarrow> (execution_view, unit) call" where
  "item_started_view data =
     sbind (slift (payload_token data ''suite_item_id'')) (\<lambda>i v.
       (Inr (), if i = [] then v else v\<lparr>us_item_status := dict_set i ''running'' (us_item_status v)\<rparr>))"

text \<open>The error of an item or of a command is kept only while it failed.\<close>

definition noted_error :: "string \<Rightarrow> string \<Rightarrow> json \<Rightarrow> string dict \<Rightarrow> string dict" where
  "noted_error k status e errors = (if status = ''error'' then dict_set k (str_or_empty e) errors else dict_del k errors)"

definition item_finished_view :: "json \<Rightarrow> (execution_view, unit) call" where
  "item_finished_view data =
     sbind (slift (payload_token data ''suite_item_id'')) (\<lambda>i.
     sbind (slift (payload_token data ''status'')) (\<lambda>t.
     sbind (slift (payload_get data ''error'')) (\<lambda>e v.
       let status = or_text t ''idle'' in
       (Inr (), if i = [] then v
                else v\<lparr>us_item_status := dict_set i status (us_item_status v),
                       us_item_error := noted_error i status e (us_item_error v)\<rparr>))))"

definition operation_finished_view :: "json \<Rightarrow> (execution_view, unit) call" where
  "operation_finished_view data =
     sbind (slift (payload_token data ''suite_item_id'')) (\<lambda>i.
     sbind (slift (payload_token data ''operation_id'')) (\<lambda>operation.
     sbind (slift (payload_token data ''status'')) (\<lambda>t.
     sbind (slift (payload_get data ''error'')) (\<lambda>e v.
       let status = or_text t ''idle''; k = operation_key i operation in
       (Inr (), if i = [] \<or> operation = [] then v
                else v\<lparr>us_operation_status := dict_set k status (us_operation_status v),
                       us_operation_error := noted_error k status e (us_operation_error v)\<rparr>)))))"

definition suite_finished_view :: "json \<Rightarrow> (execution_view, unit) call" where
  "suite_finished_view data v =
     (let v' = v\<lparr>us_running := False\<rparr> in
      case payload_get data ''status'' of
        Inl e \<Rightarrow> (Inl e, v')
      | Inr t \<Rightarrow> (Inr (), v'\<lparr>us_status := or_text (str_or_empty t) ''finished''\<rparr>))"

definition apply_event_view :: "string \<Rightarrow> json \<Rightarrow> (execution_view, unit) call" where
  "apply_event_view event data v0 =
     (let v = append_event event data v0 in
      if event = ''suite_started'' then (Inr (), suite_started_view v)
      else if event = ''suite_progress'' then progress_view data v
      else if event \<in> {''test_started'', ''hook_started''} then item_started_view data v
      else if event \<in> {''test_finished'', ''hook_finished''} then item_finished_view data v
      else if event = ''operation_finished'' then operation_finished_view data v
      else if event = ''suite_finished'' then suite_finished_view data v
      else (Inr (), v))"

definition apply_event :: "string \<Rightarrow> string \<Rightarrow> json \<Rightarrow> (stream_state, unit) call" where
  "apply_event eid event data s =
     (case dict_get (ss_executions s) eid of
        None \<Rightarrow> (Inr (), s)
      | Some v \<Rightarrow>
          (case apply_event_view event data v of
             (r, v') \<Rightarrow> (r, s\<lparr>ss_executions := dict_set eid v' (ss_executions s)\<rparr>)))"

section \<open>A listener\<close>

text \<open>
  The events of a response end with its lines, or with an exception of the connection after them; \<open>loads\<close> is
  \<open>json.loads\<close>. After \<open>suite_finished\<close> the rest is not read.
\<close>

definition event_payload_of :: "(string \<Rightarrow> json option) \<Rightarrow> string \<Rightarrow> json" where
  "event_payload_of loads text = (case loads text of None \<Rightarrow> JObj [(''raw'', JStr text)] | Some j \<Rightarrow> j)"

fun apply_events :: "string \<Rightarrow> (string \<times> json) list \<Rightarrow> py_error option \<Rightarrow> (stream_state, unit) call" where
  "apply_events eid [] broken s = (case broken of None \<Rightarrow> (Inr (), s) | Some e \<Rightarrow> (Inl e, s))"
| "apply_events eid ((event, data) # es) broken s =
     (case apply_event eid event data s of
        (Inl e, s') \<Rightarrow> (Inl e, s')
      | (Inr _, s') \<Rightarrow> if event = ''suite_finished'' then (Inr (), s') else apply_events eid es broken s')"

definition failed_view :: "py_error \<Rightarrow> execution_view \<Rightarrow> execution_view" where
  "failed_view e v = v\<lparr>us_running := False, us_status := ''error'', us_error := Some (error_text e)\<rparr>"

text \<open>\<open>response\<close> is what the request gives: an exception, or the lines of the response and how they end.\<close>

definition listen_execution_events ::
  "(string \<Rightarrow> json option) \<Rightarrow> string \<Rightarrow> (string list \<times> py_error option) result \<Rightarrow> stream_state \<Rightarrow> stream_state" where
  "listen_execution_events loads eid response s =
     (let outcome = (case response of
            Inl e \<Rightarrow> (Inl e, s)
          | Inr (ls, broken) \<Rightarrow>
              apply_events eid (map (\<lambda>(n, t). (n, event_payload_of loads t)) (iter_sse_events ls ''message'' [])) broken s);
          s1 = (case outcome of
            (Inr _, s') \<Rightarrow> s'
          | (Inl e, s') \<Rightarrow>
              (case dict_get (ss_executions s') eid of
                 None \<Rightarrow> s'
               | Some v \<Rightarrow> s'\<lparr>ss_executions := dict_set eid (failed_view e v) (ss_executions s')\<rparr>))
      in s1\<lparr>ss_listeners := filter (\<lambda>i. i \<noteq> eid) (ss_listeners s1)\<rparr>)"

text \<open>The result says whether a listener is to be started.\<close>

definition register_execution_listener :: "json \<Rightarrow> json \<Rightarrow> stream_state \<Rightarrow> bool \<times> stream_state" where
  "register_execution_listener execution suite s =
     (let eid = token execution; sid = token suite in
      if eid = [] \<or> sid = [] then (False, s)
      else
        (let s1 = (if dict_get (ss_executions s) eid = None
                   then s\<lparr>ss_executions := dict_set eid (new_execution_view eid sid) (ss_executions s)\<rparr> else s) in
         if eid \<in> set (ss_listeners s1) then (False, s1) else (True, s1\<lparr>ss_listeners := ss_listeners s1 @ [eid]\<rparr>)))"

definition get_execution_state :: "json \<Rightarrow> stream_state \<Rightarrow> execution_view option" where
  "get_execution_state execution s =
     (let eid = token execution in if eid = [] then None else dict_get (ss_executions s) eid)"

end
