(* ===== verification/ExecutionStreamProps.thy ===== *)
theory ExecutionStreamProps
  imports ExecutionStream
begin

text \<open>
  What the interface shows of an execution is what the latest events say.
\<close>

section \<open>The latest word on an item\<close>

text \<open>The events from the newest to the oldest; a new start of the suite forgets what was before.\<close>

definition about :: "string \<Rightarrow> json \<Rightarrow> string \<Rightarrow> bool" where
  "about k data i \<longleftrightarrow> (case data of JObj d \<Rightarrow> token (jget d k) = i | _ \<Rightarrow> False)"

definition said :: "string \<Rightarrow> json \<Rightarrow> json" where
  "said k data = (case data of JObj d \<Rightarrow> jget d k | _ \<Rightarrow> JNull)"

fun latest_status :: "string \<Rightarrow> (string \<times> json) list \<Rightarrow> string option" where
  "latest_status i [] = None"
| "latest_status i ((event, data) # es) =
     (if event = ''suite_started'' then None
      else if event \<in> {''test_started'', ''hook_started''} \<and> about ''suite_item_id'' data i then Some ''running''
      else if event \<in> {''test_finished'', ''hook_finished''} \<and> about ''suite_item_id'' data i
        then Some (or_text (token (said ''status'' data)) ''idle'')
      else latest_status i es)"

fun latest_error :: "string \<Rightarrow> (string \<times> json) list \<Rightarrow> string option" where
  "latest_error i [] = None"
| "latest_error i ((event, data) # es) =
     (if event = ''suite_started'' then None
      else if event \<in> {''test_finished'', ''hook_finished''} \<and> about ''suite_item_id'' data i
        then (if or_text (token (said ''status'' data)) ''idle'' = ''error'' then Some (str_or_empty (said ''error'' data)) else None)
      else latest_error i es)"

fun latest_verdict :: "(string \<times> json) list \<Rightarrow> bool \<times> string" where
  "latest_verdict [] = (True, ''running'')"
| "latest_verdict ((event, data) # es) =
     (if event = ''suite_started'' then (True, ''running'')
      else if event = ''suite_finished'' then (False, or_text (str_or_empty (said ''status'' data)) ''finished'')
      else latest_verdict es)"

text \<open>The view an execution has after events that were all applied.\<close>

fun apply_all :: "(string \<times> json) list \<Rightarrow> (execution_view, unit) call" where
  "apply_all [] = spure ()"
| "apply_all ((event, data) # es) = sbind (apply_event_view event data) (\<lambda>_. apply_all es)"

definition shows_latest :: "(string \<times> json) list \<Rightarrow> execution_view \<Rightarrow> bool" where
  "shows_latest es v \<longleftrightarrow>
     (\<forall>i. i \<noteq> [] \<longrightarrow> dict_get (us_item_status v) i = latest_status i es \<and> dict_get (us_item_error v) i = latest_error i es) \<and>
     (us_running v, us_status v) = latest_verdict es \<and> length (us_events v) \<le> 1000"

lemma keep_last_length: "length (keep_last n xs) \<le> n"
  by (simp add: keep_last_def)

lemma payload_gets:
  "payload_get data k = Inr v \<longleftrightarrow> (\<exists>d. data = JObj d \<and> v = jget d k)"
  "payload_token data k = Inr t \<longleftrightarrow> (\<exists>d. data = JObj d \<and> t = token (jget d k))"
  by (auto simp: payload_get_def payload_token_def rbind_Inr_iff split: json.splits)

lemma noted_error_get:
  "dict_get (noted_error k status e errors) i =
     (if i = k then (if status = ''error'' then Some (str_or_empty e) else None) else dict_get errors i)"
  by (simp add: noted_error_def dict_simps)

lemma one_event_shows_latest:
  assumes "shows_latest es v" and "apply_event_view event data v = (Inr u, v')"
  shows "shows_latest ((event, data) # es) v'"
proof -
  define w where "w = append_event event data v"
  have w: "us_item_status w = us_item_status v" "us_item_error w = us_item_error v" "us_running w = us_running v"
    "us_status w = us_status v" "length (us_events w) \<le> 1000" by (simp_all add: w_def append_event_def keep_last_length)
  consider "event = ''suite_started''" | "event = ''suite_progress''" | "event \<in> {''test_started'', ''hook_started''}"
    | "event \<in> {''test_finished'', ''hook_finished''}" | "event = ''operation_finished''" | "event = ''suite_finished''"
    | "event \<notin> {''suite_started'', ''suite_progress'', ''test_started'', ''hook_started'', ''test_finished'', ''hook_finished'',
         ''operation_finished'', ''suite_finished''}" by (simp only: insert_iff empty_iff) argo
  then show ?thesis
  proof cases
    case 1
    with assms(2) have "v' = suite_started_view w" by (simp add: apply_event_view_def w_def Let_def)
    with 1 w show ?thesis by (simp add: shows_latest_def suite_started_view_def)
  next
    case 2
    with assms have "progress_view data w = (Inr u, v')" by (simp add: apply_event_view_def w_def Let_def)
    then obtain n m where "v' = w\<lparr>us_executed := n, us_total := m\<rparr>"
      by (auto simp: progress_view_def sbind_def slift_def split: sum.splits)
    with 2 assms(1) w show ?thesis by (auto simp: shows_latest_def)
  next
    case 3
    with assms have "item_started_view data w = (Inr u, v')" by (auto simp: apply_event_view_def w_def Let_def)
    then obtain d where d: "data = JObj d" and v': "v' = (if token (jget d ''suite_item_id'') = [] then w
        else w\<lparr>us_item_status := dict_set (token (jget d ''suite_item_id'')) ''running'' (us_item_status w)\<rparr>)"
      by (auto simp: item_started_view_def sbind_def slift_def payload_gets split: sum.splits)
    from 3 assms(1) w show ?thesis by (auto simp: shows_latest_def v' d about_def dict_simps)
  next
    case 4
    with assms have "item_finished_view data w = (Inr u, v')" by (auto simp: apply_event_view_def w_def Let_def)
    then obtain d where d: "data = JObj d" and v': "v' = (let i = token (jget d ''suite_item_id'');
        status = or_text (token (jget d ''status'')) ''idle'' in if i = [] then w
        else w\<lparr>us_item_status := dict_set i status (us_item_status w), us_item_error := noted_error i status (jget d ''error'') (us_item_error w)\<rparr>)"
      by (auto simp: item_finished_view_def sbind_def slift_def payload_gets Let_def split: sum.splits)
    from 4 assms(1) w show ?thesis
      by (auto simp: shows_latest_def v' d about_def said_def dict_simps noted_error_get Let_def)
  next
    case 5
    with assms have "operation_finished_view data w = (Inr u, v')" by (simp add: apply_event_view_def w_def Let_def)
    then have "us_item_status v' = us_item_status w" "us_item_error v' = us_item_error w" "us_running v' = us_running w"
      "us_status v' = us_status w" "us_events v' = us_events w"
      by (auto simp: operation_finished_view_def sbind_def slift_def Let_def split: sum.splits if_splits)
    with 5 assms(1) w show ?thesis by (auto simp: shows_latest_def)
  next
    case 6
    with assms have "suite_finished_view data w = (Inr u, v')" by (simp add: apply_event_view_def w_def Let_def)
    then obtain d where "data = JObj d" "v' = w\<lparr>us_running := False, us_status := or_text (str_or_empty (jget d ''status'')) ''finished''\<rparr>"
      by (auto simp: suite_finished_view_def payload_gets Let_def split: sum.splits)
    with 6 assms(1) w show ?thesis by (auto simp: shows_latest_def said_def)
  next
    case 7
    then have "v' = w" using assms(2) by (simp add: apply_event_view_def w_def Let_def)
    with 7 assms(1) w show ?thesis by (auto simp: shows_latest_def)
  qed
qed

lemma apply_all_shows_latest:
  "shows_latest old v \<Longrightarrow> apply_all es v = (Inr u, v') \<Longrightarrow> shows_latest (rev es @ old) v'"
proof (induction es arbitrary: old v)
  case (Cons e es)
  obtain event data where e: "e = (event, data)" by fastforce
  from Cons.prems(2) obtain w x where w: "apply_event_view event data v = (Inr x, w)" "apply_all es w = (Inr u, v')"
    by (auto simp: e sbind_def split: prod.splits sum.splits)
  from Cons.IH [OF one_event_shows_latest [OF Cons.prems(1) w(1)] w(2)] show ?case by (simp add: e)
qed (simp add: spure_def)

text \<open>The listener applies the events up to the end of the suite.\<close>

fun until_finished :: "(string \<times> json) list \<Rightarrow> (string \<times> json) list" where
  "until_finished [] = []"
| "until_finished ((event, data) # es) = (event, data) # (if event = ''suite_finished'' then [] else until_finished es)"

lemma listened_events:
  assumes "dict_get (ss_executions s) eid = Some v" and "apply_events eid es None s = (Inr u, s')"
  shows "\<exists>v'. apply_all (until_finished es) v = (Inr (), v') \<and> dict_get (ss_executions s') eid = Some v'"
  using assms
proof (induction es arbitrary: s v)
  case (Cons e es)
  obtain event data where e: "e = (event, data)" by fastforce
  obtain r w where one: "apply_event_view event data v = (r, w)" by fastforce
  from one Cons.prems have r: "r = Inr ()" by (auto simp: e apply_event_def split: sum.splits)
  let ?s = "s\<lparr>ss_executions := dict_set eid w (ss_executions s)\<rparr>"
  have get: "dict_get (ss_executions ?s) eid = Some w" by (simp add: dict_simps)
  have rest: "(if event = ''suite_finished'' then (Inr (), ?s) else apply_events eid es None ?s) = (Inr u, s')"
    using Cons.prems one r by (simp add: e apply_event_def)
  show ?case
  proof (cases "event = ''suite_finished''")
    case True
    with rest get one r show ?thesis by (auto simp: e sbind_def spure_def)
  next
    case False
    with rest have "apply_events eid es None ?s = (Inr u, s')" by simp
    from Cons.IH [OF get this] one r False show ?thesis by (auto simp: e sbind_def)
  qed
qed (simp add: spure_def)

section \<open>Properties\<close>


definition sample_stream :: "(string \<times> json) list" where
  "sample_stream =
     [(''suite_started'', JObj []), (''test_started'', JObj [(''suite_item_id'', JStr ''a'')]),
      (''test_finished'', JObj [(''suite_item_id'', JStr ''a''), (''status'', JStr ''error''), (''error'', JStr ''no'')]),
      (''suite_finished'', JObj [(''status'', JStr ''error'')]), (''test_started'', JObj [(''suite_item_id'', JStr ''a'')])]"

definition watched :: stream_state where
  "watched = snd (register_execution_listener (JStr ''e'') (JStr ''s'') \<lparr>ss_executions = [], ss_listeners = []\<rparr>)"


end
