(* ===== verification/GuidedEditors.thy ===== *)
theory GuidedEditors
  imports DraftMapper JsonText
begin

text \<open>
  The editors of the interface for values, parameters, authorisation and bodies of HTTP commands
  (\<open>app/ui/elaborations_shared/components\<close>: \<open>guided_value_control.py\<close>, \<open>guided_kv_editor.py\<close>, \<open>kv_editor.py\<close>,
  \<open>auth_editor.py\<close>, \<open>body_composer.py\<close>), without the widgets: how a value is put into the state of the session and
  how it is read back. \<open>loads\<close> is \<open>json.loads\<close> with the message of its exception; a result on the left is the message
  the editor shows instead of a value.
\<close>

type_synonym json_loads = "string \<Rightarrow> string + json"

definition session_text :: "json dict \<Rightarrow> string \<Rightarrow> string" where
  "session_text s k = str_or_empty (jget s k)"

definition set_new :: "string \<Rightarrow> json \<Rightarrow> json dict \<Rightarrow> json dict" where
  "set_new k v s = (if dict_get s k = None then dict_set k v s else s)"

section \<open>One value\<close>

definition guided_modes :: "string list" where
  "guided_modes = [''literal'', ''runtimeValue'', ''source'', ''builtIn'']"

definition guided_key :: "string \<Rightarrow> string \<Rightarrow> string" where
  "guided_key pre field = pre @ ''_gv_'' @ field"

definition literal_state :: "string \<Rightarrow> json dict" where
  "literal_state t = [(''mode'', JStr ''literal''), (''text'', JStr t)]"

definition literal_text :: "json \<Rightarrow> string" where
  "literal_text v = (case v of JStr s \<Rightarrow> s | JNull \<Rightarrow> [] | _ \<Rightarrow> json_dumps v)"

definition node_to_guided_state :: "json \<Rightarrow> json dict" where
  "node_to_guided_state node =
     (let d = fields_of node; kind = token (jget d ''kind'') in
      if is_obj node \<and> kind = ''literal'' then literal_state (literal_text (jget d ''value''))
      else if is_obj node \<and> kind = ''runtimeValue'' then
        [(''mode'', JStr ''runtimeValue''), (''definitionId'', JStr (str_or_empty (jget d ''definitionId''))),
         (''fieldPath'', JStr (str_or_empty (json_or (jget d ''fieldPath'') (jget d ''field_path''))))]
      else if is_obj node \<and> kind = ''source'' then
        [(''mode'', JStr ''source''), (''sourceCode'', JStr (str_or_empty (jget d ''sourceCode'')))]
      else if is_obj node \<and> kind = ''builtIn'' then
        [(''mode'', JStr ''builtIn''), (''resolver'', JStr (str_or_empty (jget d ''resolver'')))]
      else literal_state (literal_text node))"

definition literal_node :: "json \<Rightarrow> json" where
  "literal_node v = JObj [(''kind'', JStr ''literal''), (''value'', v)]"

definition read_literal :: "json_loads \<Rightarrow> string \<Rightarrow> json" where
  "read_literal loads t = literal_node (case loads t of Inr v \<Rightarrow> v | Inl _ \<Rightarrow> JStr t)"

definition runtime_node :: "string \<Rightarrow> string \<Rightarrow> json" where
  "runtime_node definition_id field_path =
     JObj ([(''kind'', JStr ''runtimeValue''), (''definitionId'', JStr definition_id)] @
       (if field_path = [] then [] else [(''fieldPath'', JStr field_path)]))"

definition source_node :: "string \<Rightarrow> json" where
  "source_node code = JObj [(''kind'', JStr ''source''), (''sourceCode'', JStr code)]"

definition built_in_node :: "string \<Rightarrow> json" where
  "built_in_node r = JObj [(''kind'', JStr ''builtIn''), (''resolver'', JStr r)]"

definition guided_state_to_node :: "json_loads \<Rightarrow> json dict \<Rightarrow> json" where
  "guided_state_to_node loads st =
     (let mode = py_strip (or_text (str_or_empty (jget st ''mode'')) ''literal'') in
      if mode = ''runtimeValue'' then runtime_node (token (jget st ''definitionId'')) (token (jget st ''fieldPath''))
      else if mode = ''source'' then source_node (token (jget st ''sourceCode''))
      else if mode = ''builtIn'' then built_in_node (token (jget st ''resolver''))
      else read_literal loads (token (jget st ''text'')))"

text \<open>The fields of a control are set once; \<open>state.get(field, "")\<close>.\<close>

definition guided_fields :: "string list" where
  "guided_fields = [''text'', ''definitionId'', ''fieldPath'', ''sourceCode'', ''resolver'']"

definition put_field :: "string \<Rightarrow> json dict \<Rightarrow> string \<Rightarrow> json dict \<Rightarrow> json dict" where
  "put_field pre st field s =
     dict_set (guided_key pre field) (case dict_get st field of None \<Rightarrow> JStr [] | Some v \<Rightarrow> v) s"

definition initialize_guided_value_state :: "string \<Rightarrow> json \<Rightarrow> json dict \<Rightarrow> json dict" where
  "initialize_guided_value_state pre node s =
     (if dict_get s (guided_key pre ''mode'') \<noteq> None then s
      else (let st = node_to_guided_state node in
            foldl (\<lambda>s field. put_field pre st field s)
              (dict_set (guided_key pre ''mode'') (case dict_get st ''mode'' of None \<Rightarrow> JStr ''literal'' | Some v \<Rightarrow> v) s)
              guided_fields))"

definition collect_guided_value :: "json_loads \<Rightarrow> string \<Rightarrow> json dict \<Rightarrow> string + json" where
  "collect_guided_value loads pre s =
     (let entered = (\<lambda>field. py_strip (session_text s (guided_key pre field)));
          mode = py_strip (or_text (session_text s (guided_key pre ''mode'')) ''literal'') in
      if mode = ''literal'' then Inr (read_literal loads (entered ''text''))
      else if mode = ''runtimeValue'' then
        (if entered ''definitionId'' = [] then Inl ''Runtime value is required.''
         else Inr (runtime_node (entered ''definitionId'') (entered ''fieldPath'')))
      else if mode = ''source'' then
        (if entered ''sourceCode'' = [] then Inl ''Source is required.'' else Inr (source_node (entered ''sourceCode'')))
      else if mode = ''builtIn'' then
        (if entered ''resolver'' = [] then Inl ''Built-in resolver is required.'' else Inr (built_in_node (entered ''resolver'')))
      else Inl (''Unsupported mode '' @ quoted mode @ ''.''))"

definition validate_guided_value_node :: "string list option \<Rightarrow> bool \<Rightarrow> json \<Rightarrow> string option" where
  "validate_guided_value_node allowed scalar_only node =
     (let d = fields_of node; kind = token (jget d ''kind'') in
      if (case allowed of None \<Rightarrow> False | Some ms \<Rightarrow> kind \<notin> set ms) then Some (''Unsupported value type '' @ quoted kind @ ''.'')
      else if scalar_only \<and> kind = ''literal'' \<and> (is_obj (jget d ''value'') \<or> is_list (jget d ''value''))
        then Some ''Only scalar literal values are supported.''
      else None)"

section \<open>Rows of keys and values\<close>

text \<open>\<open>ids\<close> are the keys \<open>new_ui_key\<close> draws.\<close>

definition guided_row :: "(nat \<Rightarrow> string) \<Rightarrow> nat \<times> string \<times> json \<Rightarrow> json dict" where
  "guided_row ids r =
     (case r of (n, k, node) \<Rightarrow>
        [(''row_id'', JStr (ids n)), (''key'', JStr k), (''node'', if is_obj node then node else literal_node node)])"

definition guided_dict_to_rows :: "(nat \<Rightarrow> string) \<Rightarrow> json \<Rightarrow> json dict list" where
  "guided_dict_to_rows ids source = (case source of JObj d \<Rightarrow> map (guided_row ids) (enumerate 0 d) | _ \<Rightarrow> [])"

definition row_prefix :: "string \<Rightarrow> json dict \<Rightarrow> string" where
  "row_prefix key_prefix row = key_prefix @ ''_val_'' @ str_or_empty (jget row ''row_id'')"

text \<open>What the editor puts into the state when it shows rows that have an identifier.\<close>

definition show_guided_row :: "string \<Rightarrow> json dict \<Rightarrow> json dict \<Rightarrow> json dict" where
  "show_guided_row key_prefix row s =
     initialize_guided_value_state (row_prefix key_prefix row) (json_or (jget row ''node'') (literal_node (JStr [])))
       (set_new (key_prefix @ ''_key_'' @ str_or_empty (jget row ''row_id'')) (JStr (str_or_empty (jget row ''key''))) s)"

definition row_message :: "string \<Rightarrow> nat \<Rightarrow> string \<Rightarrow> string" where
  "row_message label n m = label @ '' row '' @ nat_text n @ '': '' @ m"

fun collect_rows_from ::
  "json_loads \<Rightarrow> string \<Rightarrow> string \<Rightarrow> string list option \<Rightarrow> bool \<Rightarrow> json dict \<Rightarrow> nat \<Rightarrow> json dict \<Rightarrow> json dict list \<Rightarrow> string + json dict" where
  "collect_rows_from loads key_prefix label allowed scalar_only s n acc [] = Inr acc"
| "collect_rows_from loads key_prefix label allowed scalar_only s n acc (row # rows) =
     (let key = token (jget row ''key'') in
      if key = [] then Inl (label @ '': key is required at row '' @ nat_text n @ ''.'')
      else if dict_get acc key \<noteq> None then Inl (label @ '': duplicate key '' @ quoted key @ '' at row '' @ nat_text n @ ''.'')
      else (case collect_guided_value loads (row_prefix key_prefix row) s of
              Inl m \<Rightarrow> Inl (row_message label n m)
            | Inr node \<Rightarrow>
                (case validate_guided_value_node allowed scalar_only node of
                   Some m \<Rightarrow> Inl (row_message label n m)
                 | None \<Rightarrow> collect_rows_from loads key_prefix label allowed scalar_only s (Suc n) (dict_set key node acc) rows)))"

definition collect_guided_kv_rows ::
  "json_loads \<Rightarrow> string \<Rightarrow> string \<Rightarrow> string list option \<Rightarrow> bool \<Rightarrow> json dict list \<Rightarrow> json dict \<Rightarrow> string + json dict" where
  "collect_guided_kv_rows loads key_prefix label allowed scalar_only rows s =
     collect_rows_from loads key_prefix label allowed scalar_only s 1 [] rows"

text \<open>The editor of plain JSON values.\<close>

definition dict_to_rows :: "(nat \<Rightarrow> string) \<Rightarrow> json \<Rightarrow> json dict list" where
  "dict_to_rows ids source =
     (case source of
        JObj d \<Rightarrow> map (\<lambda>(n, k, v). [(''row_id'', JStr (ids n)), (''key'', JStr k), (''value_text'', JStr (json_dumps v))]) (enumerate 0 d)
      | _ \<Rightarrow> [])"

definition parse_json_literal :: "json_loads \<Rightarrow> string \<Rightarrow> nat \<Rightarrow> string \<Rightarrow> string + json" where
  "parse_json_literal loads label n raw =
     (let t = py_strip raw in
      if t = [] then Inl (label @ '': valore obbligatorio alla riga '' @ nat_text n @ ''.'')
      else (case loads t of
              Inl m \<Rightarrow> Inl (label @ '': valore JSON non valido alla riga '' @ nat_text n @ '' ('' @ m @ '').'')
            | Inr v \<Rightarrow> Inr v))"

fun rows_to_dict_from :: "json_loads \<Rightarrow> string \<Rightarrow> nat \<Rightarrow> json dict \<Rightarrow> json dict list \<Rightarrow> string + json dict" where
  "rows_to_dict_from loads label n acc [] = Inr acc"
| "rows_to_dict_from loads label n acc (row # rows) =
     (let key = token (jget row ''key'') in
      if key = [] then Inl (label @ '': chiave obbligatoria alla riga '' @ nat_text n @ ''.'')
      else if dict_get acc key \<noteq> None then Inl (label @ '': chiave duplicata '' @ quoted key @ '' alla riga '' @ nat_text n @ ''.'')
      else (case parse_json_literal loads label n (str_or_empty (jget row ''value_text'')) of
              Inl m \<Rightarrow> Inl m
            | Inr v \<Rightarrow> rows_to_dict_from loads label (Suc n) (dict_set key v acc) rows))"

definition rows_to_dict :: "json_loads \<Rightarrow> string \<Rightarrow> json dict list \<Rightarrow> string + json dict" where
  "rows_to_dict loads label rows = rows_to_dict_from loads label 1 [] rows"

section \<open>Bodies\<close>

text \<open>The tree of the composer; the keys of its widgets are left out.\<close>

datatype body_tree = BodyValue json | BodyObject "(string \<times> body_tree) list" | BodyArray "body_tree list"

fun body_payload_to_tree :: "json \<Rightarrow> body_tree" where
  "body_payload_to_tree JNull = BodyValue (literal_node (JStr []))"
| "body_payload_to_tree (JObj d) =
     (if token (jget d ''kind'') \<in> set guided_modes then BodyValue (JObj d)
      else BodyObject (map (\<lambda>kv. (fst kv, body_payload_to_tree (snd kv))) d))"
| "body_payload_to_tree (JList xs) = BodyArray (map body_payload_to_tree xs)"
| "body_payload_to_tree v = BodyValue (literal_node v)"

text \<open>A later entry with the same key replaces the value of the earlier one; an entry without a key is left out.\<close>

fun tree_to_payload :: "body_tree \<Rightarrow> json" where
  "tree_to_payload (BodyValue node) = json_or node (literal_node (JStr []))"
| "tree_to_payload (BodyObject es) =
     JObj (foldl (\<lambda>acc e. if py_strip (fst e) = [] then acc else dict_set (py_strip (fst e)) (snd e) acc) []
       (map (\<lambda>e. (fst e, tree_to_payload (snd e))) es))"
| "tree_to_payload (BodyArray ts) = JList (map tree_to_payload ts)"

section \<open>Authorisation\<close>

definition auth_key :: "string \<Rightarrow> string \<Rightarrow> string" where
  "auth_key pre field = pre @ ''_'' @ field"

definition auth_types :: "string list" where
  "auth_types = [''none'', ''basic'', ''bearer'', ''apiKey'', ''oauth2'']"

definition auth_modes :: "string list" where
  "auth_modes = [''inherit'', ''none'', ''custom'']"

definition normalize_authorization_config :: "json \<Rightarrow> json dict" where
  "normalize_authorization_config value =
     (let d = fields_of value; kind = token (jget d ''type''); stripped = (\<lambda>k. (k, JStr (token (jget d k))));
          plain = (\<lambda>k. (k, JStr (str_or_empty (jget d k)))) in
      if kind = ''basic'' then [(''type'', JStr ''basic''), stripped ''username'', plain ''password'']
      else if kind = ''bearer'' then [(''type'', JStr ''bearer''), stripped ''token'']
      else if kind = ''apiKey'' then [(''type'', JStr ''apiKey''), stripped ''username'', stripped ''apiKey'', stripped ''authEndpoint'']
      else if kind = ''oauth2'' then [(''type'', JStr ''oauth2''), stripped ''tokenUrl'', stripped ''clientId'', plain ''clientSecret'']
      else [])"

definition normalize_auth_mode :: "json \<Rightarrow> string" where
  "normalize_auth_mode v = (let m = token v in if m \<in> set auth_modes then m else ''inherit'')"

definition auth_fields :: "string list" where
  "auth_fields = [''username'', ''password'', ''token'', ''tokenUrl'', ''clientId'', ''clientSecret'', ''apiKey'', ''authEndpoint'']"

definition initialize_auth_editor_state :: "string \<Rightarrow> json \<Rightarrow> json dict \<Rightarrow> json dict" where
  "initialize_auth_editor_state pre authorization s =
     (let a = normalize_authorization_config authorization in
      foldl (\<lambda>s field. set_new (auth_key pre field) (JStr (str_or_empty (jget a field))) s)
        (set_new (auth_key pre ''type'') (JStr (or_text (str_or_empty (jget a ''type'')) ''none'')) s) auth_fields)"

definition initialize_auth_mode_state :: "string \<Rightarrow> json \<Rightarrow> json \<Rightarrow> json dict \<Rightarrow> json dict" where
  "initialize_auth_mode_state pre auth_mode authorization s =
     (let a = normalize_authorization_config authorization; m = normalize_auth_mode auth_mode;
          shown = (if m = ''inherit'' \<and> a \<noteq> [] then ''custom'' else m) in
      initialize_auth_editor_state pre (JObj a) (set_new (auth_key pre ''mode'') (JStr shown) s))"

text \<open>The fields that must be filled in, with the message for an empty one; the flag says whether blanks count.\<close>

fun collect_required :: "(string \<times> bool \<times> string) list \<Rightarrow> string \<Rightarrow> json dict \<Rightarrow> json dict \<Rightarrow> string + json dict" where
  "collect_required [] pre s acc = Inr acc"
| "collect_required ((field, trim, message) # fs) pre s acc =
     (let raw = session_text s (auth_key pre field); v = (if trim then py_strip raw else raw) in
      if v = [] then Inl message else collect_required fs pre s (acc @ [(field, JStr v)]))"

definition required_auth_fields :: "string \<Rightarrow> (string \<times> bool \<times> string) list" where
  "required_auth_fields kind =
     (if kind = ''basic'' then
        [(''username'', True, ''Auth username is required.''), (''password'', False, ''Auth password is required.'')]
      else if kind = ''bearer'' then [(''token'', True, ''Auth token is required.'')]
      else if kind = ''apiKey'' then
        [(''username'', True, ''Auth username is required.''), (''apiKey'', True, ''API key is required.''),
         (''authEndpoint'', True, ''Auth endpoint is required.'')]
      else
        [(''tokenUrl'', True, ''OAuth 2 token URL is required.''), (''clientId'', True, ''OAuth 2 client ID is required.''),
         (''clientSecret'', False, ''OAuth 2 client secret is required.'')])"

definition collect_auth_editor_value :: "string \<Rightarrow> json dict \<Rightarrow> string + json dict" where
  "collect_auth_editor_value pre s =
     (let kind = py_strip (or_text (session_text s (auth_key pre ''type'')) ''none'') in
      if kind \<notin> set auth_types \<or> kind = ''none'' then Inr []
      else collect_required (required_auth_fields kind) pre s [(''type'', JStr kind)])"

definition collect_auth_mode_value :: "string \<Rightarrow> json dict \<Rightarrow> string \<times> (string + json dict)" where
  "collect_auth_mode_value pre s =
     (let m = normalize_auth_mode (jget s (auth_key pre ''mode'')) in
      if m \<noteq> ''custom'' then (m, Inr []) else (''custom'', collect_auth_editor_value pre s))"

definition guided_auth_fields :: "string \<Rightarrow> string list" where
  "guided_auth_fields kind =
     (if kind = ''basic'' then [''username'', ''password''] else if kind = ''bearer'' then [''token'']
      else if kind = ''apiKey'' then [''username'', ''apiKey'', ''authEndpoint'']
      else if kind = ''oauth2'' then [''tokenUrl'', ''clientId'', ''clientSecret''] else [])"

definition guided_auth_labels :: "string dict" where
  "guided_auth_labels = [(''username'', ''Username''), (''password'', ''Password''), (''token'', ''Token''), (''apiKey'', ''API key''),
     (''authEndpoint'', ''Auth endpoint''), (''tokenUrl'', ''Token URL''), (''clientId'', ''Client ID''), (''clientSecret'', ''Client secret'')]"

definition extract_guided_auth_leaf :: "json dict \<Rightarrow> string \<Rightarrow> json" where
  "extract_guided_auth_leaf authorization field =
     (let v = jget authorization field in
      if is_obj v \<and> dict_get (fields_of v) ''kind'' \<noteq> None then v
      else if v \<noteq> JNull then literal_node v else literal_node (JStr []))"

definition guided_auth_prefix :: "string \<Rightarrow> string \<Rightarrow> string" where
  "guided_auth_prefix pre field = auth_key pre (''g_'' @ field)"

definition initialize_guided_auth_state :: "string \<Rightarrow> json \<Rightarrow> json dict \<Rightarrow> json dict" where
  "initialize_guided_auth_state pre authorization s =
     (let a = fields_of authorization; kind = or_text (str_or_empty (jget a ''type'')) ''none'' in
      foldl (\<lambda>s field. initialize_guided_value_state (guided_auth_prefix pre field) (extract_guided_auth_leaf a field) s)
        (set_new (auth_key pre ''type'') (JStr kind) s) (guided_auth_fields kind))"

fun collect_guided_auth_fields :: "json_loads \<Rightarrow> string \<Rightarrow> json dict \<Rightarrow> string list \<Rightarrow> json dict \<Rightarrow> string + json dict" where
  "collect_guided_auth_fields loads pre s [] acc = Inr acc"
| "collect_guided_auth_fields loads pre s (field # fs) acc =
     (case collect_guided_value loads (guided_auth_prefix pre field) s of
        Inl m \<Rightarrow> Inl (''Auth '' @ (case dict_get guided_auth_labels field of None \<Rightarrow> field | Some l \<Rightarrow> l) @ '': '' @ m)
      | Inr node \<Rightarrow> collect_guided_auth_fields loads pre s fs (acc @ [(field, node)]))"

definition collect_guided_auth_value :: "json_loads \<Rightarrow> string \<Rightarrow> json dict \<Rightarrow> string + json dict" where
  "collect_guided_auth_value loads pre s =
     (let kind = py_strip (or_text (session_text s (auth_key pre ''type'')) ''none'') in
      if kind \<notin> set auth_types \<or> kind = ''none'' then Inr []
      else collect_guided_auth_fields loads pre s (guided_auth_fields kind) [(''type'', JStr kind)])"

end
