(* ===== verification/GuidedEditorsProps.thy ===== *)
theory GuidedEditorsProps
  imports GuidedEditors ConfigDumpProps SuiteItemProps
begin

text \<open>
  The guided editors give back what they were opened with: parameters row by row, bodies up to what the backend reads.
\<close>

section \<open>The state of one control\<close>

definition control_fields :: "string list" where
  "control_fields = ''mode'' # guided_fields"

lemma guided_key_inj:
  assumes "guided_key p f = guided_key q g" and "f \<in> set control_fields" "g \<in> set control_fields"
  shows "p = q \<and> f = g"
proof -
  have "rev (guided_key p f) = rev (guided_key q g)" by (simp only: assms(1))
  with assms(2,3) show ?thesis by (auto simp: control_fields_def guided_fields_def guided_key_def)
qed

definition control_key :: "string \<Rightarrow> string \<Rightarrow> bool" where
  "control_key p k \<longleftrightarrow> (\<exists>f \<in> set control_fields. k = guided_key p f)"

lemma put_field_get:
  "dict_get (put_field p st f s) k =
     (if k = guided_key p f then Some (case dict_get st f of None \<Rightarrow> JStr [] | Some v \<Rightarrow> v) else dict_get s k)"
  by (simp add: put_field_def dict_simps)

lemma initialize_other:
  assumes "\<not> control_key p k"
  shows "dict_get (initialize_guided_value_state p node s) k = dict_get s k"
proof -
  have "k \<noteq> guided_key p f" if "f \<in> set control_fields" for f using assms that by (auto simp: control_key_def)
  then have "k \<noteq> guided_key p ''mode''" "k \<noteq> guided_key p ''text''" "k \<noteq> guided_key p ''definitionId''" "k \<noteq> guided_key p ''fieldPath''"
    "k \<noteq> guided_key p ''sourceCode''" "k \<noteq> guided_key p ''resolver''" by (simp_all add: control_fields_def guided_fields_def)
  then show ?thesis by (simp add: initialize_guided_value_state_def Let_def guided_fields_def put_field_get dict_simps)
qed

lemma guided_key_same [simp]: "guided_key p f = guided_key p g \<longleftrightarrow> f = g"
  by (simp add: guided_key_def)

lemma initialize_gets:
  assumes "dict_get s (guided_key p ''mode'') = None" and "dict_get (node_to_guided_state node) ''mode'' = Some m"
  shows "dict_get (initialize_guided_value_state p node s) (guided_key p ''mode'') = Some m"
    and "f \<in> set guided_fields \<Longrightarrow> dict_get (initialize_guided_value_state p node s) (guided_key p f) =
      Some (case dict_get (node_to_guided_state node) f of None \<Rightarrow> JStr [] | Some v \<Rightarrow> v)"
  using assms by (auto simp: initialize_guided_value_state_def Let_def guided_fields_def put_field_get dict_simps)

text \<open>Reading a control depends on its own entries only.\<close>

lemma collect_cong:
  assumes "\<And>k. control_key p k \<Longrightarrow> dict_get s k = dict_get s' k"
  shows "collect_guided_value loads p s = collect_guided_value loads p s'"
proof -
  have "session_text s (guided_key p f) = session_text s' (guided_key p f)" if "f \<in> set control_fields" for f
    using assms [of "guided_key p f"] that by (auto simp: session_text_def jget_def control_key_def)
  then have "session_text s (guided_key p ''mode'') = session_text s' (guided_key p ''mode'')"
    "session_text s (guided_key p ''text'') = session_text s' (guided_key p ''text'')"
    "session_text s (guided_key p ''definitionId'') = session_text s' (guided_key p ''definitionId'')"
    "session_text s (guided_key p ''fieldPath'') = session_text s' (guided_key p ''fieldPath'')"
    "session_text s (guided_key p ''sourceCode'') = session_text s' (guided_key p ''sourceCode'')"
    "session_text s (guided_key p ''resolver'') = session_text s' (guided_key p ''resolver'')"
    by (simp_all add: control_fields_def guided_fields_def)
  then show ?thesis unfolding collect_guided_value_def by (simp only: Let_def)
qed

text \<open>A literal the editor reads back: one that is read from its JSON text, or a text that is not JSON.\<close>

definition literal_kept :: "json_loads \<Rightarrow> json \<Rightarrow> bool" where
  "literal_kept loads v \<longleftrightarrow> read_literal loads (py_strip (literal_text v)) = literal_node v"

definition node_kept :: "json_loads \<Rightarrow> http_node \<Rightarrow> bool" where
  "node_kept loads n \<longleftrightarrow> http_node_ok n \<and> (case n of Literal v \<Rightarrow> literal_kept loads v | _ \<Rightarrow> True)"

lemma mode_texts:
  "py_strip ''literal'' = ''literal''" "py_strip ''runtimeValue'' = ''runtimeValue''" "py_strip ''source'' = ''source''"
  "py_strip ''builtIn'' = ''builtIn''" "or_text ''literal'' x = ''literal''" "or_text ''runtimeValue'' x = ''runtimeValue''"
  "or_text ''source'' x = ''source''" "or_text ''builtIn'' x = ''builtIn''"
  by code_simp+

lemma collect_modes:
  assumes "session_text s (guided_key p ''mode'') = m"
  shows "m = ''literal'' \<Longrightarrow> collect_guided_value loads p s = Inr (read_literal loads (py_strip (session_text s (guided_key p ''text''))))"
    and "m = ''runtimeValue'' \<Longrightarrow> py_strip (session_text s (guided_key p ''definitionId'')) \<noteq> [] \<Longrightarrow> collect_guided_value loads p s =
      Inr (runtime_node (py_strip (session_text s (guided_key p ''definitionId''))) (py_strip (session_text s (guided_key p ''fieldPath''))))"
    and "m = ''source'' \<Longrightarrow> py_strip (session_text s (guided_key p ''sourceCode'')) \<noteq> [] \<Longrightarrow> collect_guided_value loads p s =
      Inr (source_node (py_strip (session_text s (guided_key p ''sourceCode''))))"
    and "m = ''builtIn'' \<Longrightarrow> py_strip (session_text s (guided_key p ''resolver'')) \<noteq> [] \<Longrightarrow> collect_guided_value loads p s =
      Inr (built_in_node (py_strip (session_text s (guided_key p ''resolver''))))"
  unfolding collect_guided_value_def assms by (simp_all only: Let_def mode_texts) simp_all

lemma collect_initialized:
  assumes "dict_get s (guided_key p ''mode'') = None" and "node_kept loads n"
  shows "collect_guided_value loads p (initialize_guided_value_state p (serialize_http_node n) s) = Inr (serialize_http_node n)"
proof -
  define s' where "s' = initialize_guided_value_state p (serialize_http_node n) s"
  have read: "session_text s' (guided_key p ''mode'') = str_or_empty m \<and>
      (\<forall>f \<in> set guided_fields. session_text s' (guided_key p f) = str_or_empty (case dict_get st f of None \<Rightarrow> JStr [] | Some v \<Rightarrow> v))"
    if "node_to_guided_state (serialize_http_node n) = st" "dict_get st ''mode'' = Some m" for st m
    using initialize_gets [of s p "serialize_http_node n" m] assms(1) that by (auto simp: session_text_def jget_def s'_def)
  show ?thesis unfolding s'_def [symmetric]
  proof (cases n)
    case (Literal v)
    have "node_to_guided_state (serialize_http_node n) = literal_state (literal_text v)"
      by (simp add: Literal node_to_guided_state_def jget_Cons token_def mode_texts)
    from read [OF this, of "JStr ''literal''"]
    have "session_text s' (guided_key p ''mode'') = ''literal''" "session_text s' (guided_key p ''text'') = literal_text v"
      by (simp_all add: literal_state_def dict_get_Cons guided_fields_def)
    with collect_modes(1) [of s' p "''literal''" loads] assms(2) Literal show "collect_guided_value loads p s' = Inr (serialize_http_node n)"
      by (simp add: node_kept_def literal_kept_def literal_node_def)
  next
    case (RuntimeNode d path)
    have "node_to_guided_state (serialize_http_node n) =
        [(''mode'', JStr ''runtimeValue''), (''definitionId'', JStr d), (''fieldPath'', JStr (text_of path))]"
      by (cases "text_of path = []") (simp_all add: RuntimeNode node_to_guided_state_def jget_Cons token_def mode_texts json_or_def jget_def dict_get_Cons)
    from read [OF this, of "JStr ''runtimeValue''"]
    have read_back: "session_text s' (guided_key p ''mode'') = ''runtimeValue''" "session_text s' (guided_key p ''definitionId'') = d"
      "session_text s' (guided_key p ''fieldPath'') = text_of path"
      by (simp_all add: dict_get_Cons guided_fields_def)
    have d: "py_strip d = d" "d \<noteq> []" using assms(2) RuntimeNode by (simp_all add: node_kept_def trimmed_simps)
    have path: "py_strip (text_of path) = text_of path"
    proof (cases path)
      case None
      then show ?thesis by (simp add: text_of_def py_strip_def py_lstrip_def)
    next
      case (Some x)
      with assms(2) RuntimeNode show ?thesis by (simp add: node_kept_def trimmed_simps text_of_def)
    qed
    show "collect_guided_value loads p s' = Inr (serialize_http_node n)"
      using collect_modes(2) [OF read_back(1) refl, of loads] d path by (simp add: read_back(2,3) RuntimeNode runtime_node_def)
  next
    case (SourceNode c)
    have "node_to_guided_state (serialize_http_node n) = [(''mode'', JStr ''source''), (''sourceCode'', JStr c)]"
      by (simp add: SourceNode node_to_guided_state_def jget_Cons token_def mode_texts)
    from read [OF this, of "JStr ''source''"]
    have read_back: "session_text s' (guided_key p ''mode'') = ''source''" "session_text s' (guided_key p ''sourceCode'') = c"
      by (simp_all add: dict_get_Cons guided_fields_def)
    have "py_strip c = c" "c \<noteq> []" using assms(2) SourceNode by (simp_all add: node_kept_def trimmed_simps)
    then show "collect_guided_value loads p s' = Inr (serialize_http_node n)"
      using collect_modes(3) [OF read_back(1) refl, of loads] by (simp add: read_back(2) SourceNode source_node_def)
  next
    case (BuiltInNode r)
    have "node_to_guided_state (serialize_http_node n) = [(''mode'', JStr ''builtIn''), (''resolver'', JStr r)]"
      by (simp add: BuiltInNode node_to_guided_state_def jget_Cons token_def mode_texts)
    from read [OF this, of "JStr ''builtIn''"]
    have read_back: "session_text s' (guided_key p ''mode'') = ''builtIn''" "session_text s' (guided_key p ''resolver'') = r"
      by (simp_all add: dict_get_Cons guided_fields_def)
    have names: "py_strip ''now'' = ''now''" "py_strip ''today'' = ''today''" by code_simp+
    have "r = ''now'' \<or> r = ''today''" using assms(2) BuiltInNode by (simp add: node_kept_def supported_runtime_functions_def)
    then have "py_strip r = r" "r \<noteq> []" using names by auto
    then show "collect_guided_value loads p s' = Inr (serialize_http_node n)"
      using collect_modes(4) [OF read_back(1) refl, of loads] by (simp add: read_back(2) BuiltInNode built_in_node_def)
  qed
qed

section \<open>Rows\<close>

lemma row_keys_apart: "guided_key (kp @ ''_val_'' @ i) f \<noteq> kp @ ''_key_'' @ j"
  by (simp add: guided_key_def)

lemma guided_key_of_row: "guided_key (kp @ ''_val_'' @ i) f = guided_key (kp @ ''_val_'' @ j) g \<Longrightarrow> f \<in> set control_fields \<Longrightarrow>
    g \<in> set control_fields \<Longrightarrow> i = j"
  using guided_key_inj [of "kp @ ''_val_'' @ i" f "kp @ ''_val_'' @ j" g] by simp

lemma control_keys_apart: "control_key (kp @ ''_val_'' @ i) k \<Longrightarrow> control_key (kp @ ''_val_'' @ j) k \<Longrightarrow> i = j"
  using guided_key_of_row unfolding control_key_def by fast

lemma control_key_not_row: "\<not> control_key (kp @ ''_val_'' @ i) (kp @ ''_key_'' @ j)"
  using row_keys_apart unfolding control_key_def by metis

text \<open>A row of the editor by the number of its identifier.\<close>

lemma row_parts:
  "jget (guided_row ids (n, k, node)) ''row_id'' = JStr (ids n)" "jget (guided_row ids (n, k, node)) ''key'' = JStr k"
  "jget (guided_row ids (n, k, node)) ''node'' = (if is_obj node then node else literal_node node)"
  "row_prefix kp (guided_row ids (n, k, node)) = kp @ ''_val_'' @ ids n"
  by (simp_all add: guided_row_def jget_Cons row_prefix_def)

lemma show_row_other:
  assumes "control_key (kp @ ''_val_'' @ i) k" and "i \<noteq> ids n"
  shows "dict_get (show_guided_row kp (guided_row ids (n, key, node)) s) k = dict_get s k"
proof -
  have "\<not> control_key (kp @ ''_val_'' @ ids n) k" using control_keys_apart [OF assms(1)] assms(2) by blast
  moreover have "k \<noteq> kp @ ''_key_'' @ ids n" using control_key_not_row assms(1) by metis
  ultimately show ?thesis by (simp add: show_guided_row_def row_parts initialize_other set_new_def dict_simps)
qed

definition shown_rows :: "string \<Rightarrow> (nat \<Rightarrow> string) \<Rightarrow> nat \<Rightarrow> (string \<times> http_node) list \<Rightarrow> json dict \<Rightarrow> json dict" where
  "shown_rows kp ids n ps s =
     foldl (\<lambda>s r. show_guided_row kp r s) s (map (guided_row ids) (enumerate n (map (\<lambda>p. (fst p, serialize_http_node (snd p))) ps)))"

lemma shown_rows_Cons:
  "shown_rows kp ids n (p # ps) s =
     shown_rows kp ids (Suc n) ps (show_guided_row kp (guided_row ids (n, fst p, serialize_http_node (snd p))) s)"
  by (simp add: shown_rows_def)

lemma shown_rows_other:
  assumes "control_key (kp @ ''_val_'' @ ids m) k" and "m < n" and "inj ids"
  shows "dict_get (shown_rows kp ids n ps s) k = dict_get s k"
  using assms(2)
proof (induction ps arbitrary: n s)
  case (Cons p ps)
  have "ids m \<noteq> ids n" using Cons.prems assms(3) by (auto dest: injD)
  with Cons show ?case by (simp add: shown_rows_Cons show_row_other [OF assms(1)])
qed (simp add: shown_rows_def)

lemma collect_row:
  assumes fresh: "dict_get s (guided_key (kp @ ''_val_'' @ ids n) ''mode'') = None" and "inj ids" and kept: "node_kept loads node"
  shows "collect_guided_value loads (kp @ ''_val_'' @ ids n)
      (shown_rows kp ids (Suc n) ps (show_guided_row kp (guided_row ids (n, key, serialize_http_node node)) s)) = Inr (serialize_http_node node)"
proof -
  let ?p = "kp @ ''_val_'' @ ids n"
  let ?s = "set_new (kp @ ''_key_'' @ ids n) (JStr (str_or_empty (JStr key))) s"
  have obj: "is_obj (serialize_http_node node)" "json_or (serialize_http_node node) x = serialize_http_node node" for x
    by (cases node; simp add: json_or_def)+
  have "collect_guided_value loads ?p (shown_rows kp ids (Suc n) ps (show_guided_row kp (guided_row ids (n, key, serialize_http_node node)) s)) =
      collect_guided_value loads ?p (show_guided_row kp (guided_row ids (n, key, serialize_http_node node)) s)"
    by (rule collect_cong) (simp add: shown_rows_other assms(2))
  also have "\<dots> = collect_guided_value loads ?p (initialize_guided_value_state ?p (serialize_http_node node) ?s)"
    by (simp add: show_guided_row_def row_parts obj)
  also have "\<dots> = Inr (serialize_http_node node)"
  proof (rule collect_initialized [OF _ kept])
    have "guided_key ?p ''mode'' \<noteq> kp @ ''_key_'' @ ids n" by (rule row_keys_apart)
    with fresh show "dict_get ?s (guided_key ?p ''mode'') = None" by (simp only: set_new_def dict_get_set if_False split: if_split) simp
  qed
  finally show ?thesis .
qed

lemma collect_shown_rows:
  assumes "inj ids" and "\<And>m f. n \<le> m \<Longrightarrow> dict_get s (guided_key (kp @ ''_val_'' @ ids m) ''mode'') = None"
    and "distinct (map fst acc @ map fst ps)" and "\<And>p. p \<in> set ps \<Longrightarrow> trimmed (fst p) \<and> node_kept loads (snd p)"
  shows "collect_rows_from loads kp label None False (shown_rows kp ids n ps s) i acc
      (map (guided_row ids) (enumerate n (map (\<lambda>p. (fst p, serialize_http_node (snd p))) ps)))
    = Inr (acc @ map (\<lambda>p. (fst p, serialize_http_node (snd p))) ps)"
  using assms(2-4)
proof (induction ps arbitrary: n s acc i)
  case (Cons p ps)
  let ?s = "show_guided_row kp (guided_row ids (n, fst p, serialize_http_node (snd p))) s"
  let ?node = "serialize_http_node (snd p)"
  have p: "trimmed (fst p)" "node_kept loads (snd p)" using Cons.prems(3) by simp_all
  then have key: "token (JStr (fst p)) = fst p" "fst p \<noteq> []" by (simp_all add: token_def trimmed_simps)
  have new: "dict_get acc (fst p) = None" using Cons.prems(2) by (simp add: dict_get_None_iff)
  have one: "collect_guided_value loads (row_prefix kp (guided_row ids (n, fst p, ?node))) (shown_rows kp ids (Suc n) ps ?s) = Inr ?node"
    unfolding row_parts by (rule collect_row) (use Cons.prems(1) assms(1) p in simp_all)
  have fresh: "dict_get ?s (guided_key (kp @ ''_val_'' @ ids m) ''mode'') = None" if "Suc n \<le> m" for m
  proof -
    have "ids m \<noteq> ids n" using that assms(1) by (auto dest: injD)
    then have "dict_get ?s (guided_key (kp @ ''_val_'' @ ids m) ''mode'') = dict_get s (guided_key (kp @ ''_val_'' @ ids m) ''mode'')"
      by (intro show_row_other) (auto simp: control_key_def control_fields_def)
    with Cons.prems(1) [of m] that show ?thesis by simp
  qed
  have set: "dict_set (fst p) ?node acc = acc @ [(fst p, ?node)]" using new by (rule dict_set_fresh)
  have rest: "collect_rows_from loads kp label None False (shown_rows kp ids (Suc n) ps ?s) (Suc i) (acc @ [(fst p, ?node)])
      (map (guided_row ids) (enumerate (Suc n) (map (\<lambda>p. (fst p, serialize_http_node (snd p))) ps))) =
    Inr ((acc @ [(fst p, ?node)]) @ map (\<lambda>p. (fst p, serialize_http_node (snd p))) ps)"
    by (rule Cons.IH [OF fresh]) (use Cons.prems(2,3) in auto)
  have valid: "validate_guided_value_node None False ?node = None" by (simp add: validate_guided_value_node_def Let_def)
  show ?case
    using one rest set valid key new
    by (simp only: shown_rows_Cons list.map enumerate_simps fst_conv snd_conv collect_rows_from.simps Let_def row_parts(2) if_False option.case sum.case) simp
qed (simp add: shown_rows_def)

section \<open>Properties\<close>


text \<open>A reader of integers in JSON.\<close>

definition sample_loads :: json_loads where
  "sample_loads t = (case int_of_text t of Inr n \<Rightarrow> Inr (JInt n) | Inl _ \<Rightarrow> Inl ''Expecting value'')"

definition key_ids :: "nat \<Rightarrow> string" where
  "key_ids n = replicate n CHR ''x''"

lemma key_ids_inj: "inj key_ids"
  by (rule injI) (auto simp: key_ids_def dest: arg_cong [where f = length])


text \<open>A text that reads as JSON comes back as its value: the code \<open>"012"\<close> of a parameter as a number.\<close>

lemma text_parameter_becomes_number:
  "collect_guided_value sample_loads ''q'' (initialize_guided_value_state ''q'' (serialize_http_node (Literal (JStr ''12''))) []) =
    Inr (serialize_http_node (Literal (JInt 12)))"
  by code_simp

section \<open>Bodies\<close>

text \<open>A body whose keys are kept apart and without blanks at their ends, and that has no null outside its nodes.\<close>

fun body_ok :: "json \<Rightarrow> bool" where
  "body_ok JNull = False"
| "body_ok (JObj d) = (token (jget d ''kind'') \<in> set guided_modes \<or>
     distinct (map fst d) \<and> (\<forall>kv \<in> set d. trimmed (fst kv) \<and> body_ok (snd kv)))"
| "body_ok (JList xs) = (\<forall>x \<in> set xs. body_ok x)"
| "body_ok _ = True"

lemma body_entries:
  assumes "distinct (map fst acc @ map fst d)" and "\<And>e. e \<in> set d \<Longrightarrow> trimmed (fst e)"
  shows "foldl (\<lambda>acc e. if py_strip (fst e) = [] then acc else dict_set (py_strip (fst e)) (snd e) acc) acc d = acc @ d"
  using assms
proof (induction d arbitrary: acc)
  case (Cons e d)
  have "py_strip (fst e) = fst e" "fst e \<noteq> []" using Cons.prems(2) [of e] by (simp_all add: trimmed_simps)
  moreover have "dict_set (fst e) (snd e) acc = acc @ [e]"
    using Cons.prems(1) by (subst dict_set_fresh) (auto simp: dict_get_None_iff)
  ultimately show ?case using Cons.IH [of "acc @ [e]"] Cons.prems by simp
qed simp

lemma literal_coerced: "field_types_ok pyd \<Longrightarrow> coerce_http_tree pyd (literal_node v) = Inr (HNode (Literal v))"
  using serialize_node_coerced [of pyd "Literal v"] by (simp add: literal_node_def)

lemma literal_body: "tree_to_payload (BodyValue (literal_node v)) = literal_node v"
  by (simp add: literal_node_def json_or_def)

lemma node_is_http: "is_http_node (JObj d) \<longleftrightarrow> token (jget d ''kind'') \<in> set guided_modes"
  by (simp add: is_http_node_def http_node_kinds_def guided_modes_def)

lemma mapM_map_cong: "(\<And>x. x \<in> set xs \<Longrightarrow> f (g x) = h x) \<Longrightarrow> mapM f (map g xs) = mapM h xs"
  by (induction xs) auto

lemma token_null: "token JNull = []"
  by (simp add: token_def py_strip_def py_lstrip_def)

text \<open>A node keeps its kind, and any other object stays one.\<close>

lemma composed_kind:
  assumes "token (jget d ''kind'') \<notin> set guided_modes"
  shows "token (jget (map (\<lambda>kv. (fst kv, tree_to_payload (body_payload_to_tree (snd kv)))) d) ''kind'') \<notin> set guided_modes"
proof (cases "dict_get d ''kind''")
  case None
  then have "dict_get (map (\<lambda>kv. (fst kv, tree_to_payload (body_payload_to_tree (snd kv)))) d) ''kind'' = None"
    by (auto simp: dict_get_None_iff)
  then show ?thesis by (simp add: jget_def token_null guided_modes_def)
next
  case (Some v)
  have get: "dict_get (map (\<lambda>kv. (fst kv, f (snd kv))) d) k = map_option f (dict_get d k)" for f k
    by (induction d) (auto simp: dict_get_Cons dict_get_def)
  have "token (tree_to_payload (body_payload_to_tree v)) \<notin> set http_node_kinds"
    by (cases v) (auto simp: literal_node_def json_or_def token_obj_not_kind token_list_not_kind simp del: token_def)
  moreover have "dict_get (map (\<lambda>kv. (fst kv, tree_to_payload (body_payload_to_tree (snd kv)))) d) ''kind'' =
      Some (tree_to_payload (body_payload_to_tree v))"
    using get [of "\<lambda>w. tree_to_payload (body_payload_to_tree w)" "''kind''"] Some by simp
  ultimately show ?thesis by (simp add: jget_def guided_modes_def http_node_kinds_def)
qed

text \<open>A body that is opened in the composer and saved unchanged means the same to the backend: objects, arrays and
  nodes come back as they were and a plain value becomes the literal node the backend would have made of it.
\<close>

theorem body_composer_keeps_meaning:
  assumes "field_types_ok pyd" and "body_ok v"
  shows "coerce_http_tree pyd (tree_to_payload (body_payload_to_tree v)) = coerce_http_tree pyd v"
  using assms(2)
proof (induction v)
  case (JList xs)
  then have "mapM (coerce_http_tree pyd) (map (\<lambda>x. tree_to_payload (body_payload_to_tree x)) xs) = mapM (coerce_http_tree pyd) xs"
    by (intro mapM_map_cong) simp
  then show ?case by (simp add: comp_def)
next
  case (JObj d)
  show ?case
  proof (cases "token (jget d ''kind'') \<in> set guided_modes")
    case True
    then have "d \<noteq> []" by (auto simp: jget_def dict_get_def token_null guided_modes_def)
    with True show ?thesis by (simp add: json_or_def)
  next
    case False
    let ?d = "map (\<lambda>kv. (fst kv, tree_to_payload (body_payload_to_tree (snd kv)))) d"
    have keys: "distinct (map fst d)" "\<And>kv. kv \<in> set d \<Longrightarrow> trimmed (fst kv) \<and> body_ok (snd kv)" using JObj.prems False by auto
    have "foldl (\<lambda>acc e. if py_strip (fst e) = [] then acc else dict_set (py_strip (fst e)) (snd e) acc) [] ?d = [] @ ?d"
      by (rule body_entries) (use keys in \<open>auto simp: comp_def\<close>)
    then have "tree_to_payload (body_payload_to_tree (JObj d)) = JObj ?d" using False by (simp add: comp_def)
    moreover have "\<not> is_http_node (JObj ?d)" "\<not> is_http_node (JObj d)"
      using composed_kind [OF False] False by (simp_all add: node_is_http)
    moreover have "mapM (\<lambda>kv. rbind (coerce_http_tree pyd (snd kv)) (\<lambda>t. Inr (fst kv, t))) ?d =
        mapM (\<lambda>kv. rbind (coerce_http_tree pyd (snd kv)) (\<lambda>t. Inr (fst kv, t))) d"
    proof (rule mapM_map_cong)
      fix kv assume kv: "kv \<in> set d"
      have "snd kv \<in> Basic_BNFs.snds kv" by (cases kv) simp
      from JObj.IH [OF kv this] keys(2) [OF kv]
      have "coerce_http_tree pyd (tree_to_payload (body_payload_to_tree (snd kv))) = coerce_http_tree pyd (snd kv)" by simp
      then show "rbind (coerce_http_tree pyd (snd (fst kv, tree_to_payload (body_payload_to_tree (snd kv)))))
          (\<lambda>t. Inr (fst (fst kv, tree_to_payload (body_payload_to_tree (snd kv))), t)) =
        rbind (coerce_http_tree pyd (snd kv)) (\<lambda>t. Inr (fst kv, t))" by simp
    qed
    ultimately show ?thesis by simp
  qed
qed (use literal_coerced [OF assms(1)] literal_body in simp_all)

theorem body_composer_keeps_meaning_witness:
  "coerce_http_tree strict_types (tree_to_payload (body_payload_to_tree (JObj [(''a'', JInt 1), (''b'', JList [JStr ''x'', source_node ''s''])]))) =
   coerce_http_tree strict_types (JObj [(''a'', JInt 1), (''b'', JList [JStr ''x'', source_node ''s''])])"
proof (rule body_composer_keeps_meaning)
  show "body_ok (JObj [(''a'', JInt 1), (''b'', JList [JStr ''x'', source_node ''s''])])" by code_simp
qed simp

text \<open>A null becomes an empty text.\<close>

lemma null_becomes_empty_text:
  "coerce_http_tree strict_types (JObj [(''a'', JNull)]) = Inr (HObj [(''a'', HNone)])"
  "coerce_http_tree strict_types (tree_to_payload (body_payload_to_tree (JObj [(''a'', JNull)]))) =
    Inr (HObj [(''a'', HNode (Literal (JStr [])))])"
  by code_simp+

end
