(* ===== verification/MockServerDraft.thy ===== *)
theory MockServerDraft
  imports GuidedEditors MockServerStore OpenApiImport
begin

text \<open>
  The draft of a mock server in the editor (\<open>app/ui/mock_servers/components/mock_server_editor_component.py\<close>): the
  draft is built from the response of the backend, checked, and sent back as a request. The keys a draft adds for its widgets are
  left out, and the entries of a draft are taken to be dictionaries, as the draft builds them. \<open>whole\<close> is \<open>int(float(text))\<close>, None for a text that is no finite number.
\<close>

section \<open>Values\<close>

fun safe_int :: "(string \<Rightarrow> int option) \<Rightarrow> json \<Rightarrow> int \<Rightarrow> int" where
  "safe_int whole (JInt n) d = n"
| "safe_int whole (JFloat r _) d = (if r < 0 then - \<lfloor>- r\<rfloor> else \<lfloor>r\<rfloor>)"
| "safe_int whole (JStr s) d =
     (if py_strip s = [] then d else case whole (py_strip s) of None \<Rightarrow> d | Some n \<Rightarrow> n)"
| "safe_int whole _ d = d"

definition editor_endpoint :: "json \<Rightarrow> string" where
  "editor_endpoint v = strip_char (CHR ''/'') (token v)"

definition editor_path :: "json \<Rightarrow> string" where
  "editor_path v = normalize_path (str_or_empty v)"

definition server_auth :: "json dict \<Rightarrow> json dict" where
  "server_auth server =
     normalize_authorization_config (json_or (jget (fields_of (jget server ''configuration_json'')) ''authorization'') (JObj []))"

definition api_auth_cfg :: "json dict \<Rightarrow> json dict" where
  "api_auth_cfg cfg =
     (let a = normalize_authorization_config (json_or (jget cfg ''authorization'') (JObj [])); m = token (jget cfg ''authMode'');
          mode = (if m \<in> set auth_modes then m else if a \<noteq> [] then ''custom'' else ''inherit'') in
      dict_set ''authMode'' (JStr mode) (dict_set ''authorization'' (JObj a) cfg))"

definition parse_json_dict :: "json_loads \<Rightarrow> string \<Rightarrow> bool \<Rightarrow> string \<Rightarrow> string + json dict" where
  "parse_json_dict loads label allow_empty raw =
     (let t = py_strip raw in
      if t = [] then (if allow_empty then Inr [] else Inl (label @ '': valore obbligatorio.''))
      else (case loads t of
              Inl m \<Rightarrow> Inl (label @ '': JSON non valido ('' @ m @ '').'')
            | Inr (JObj d) \<Rightarrow> Inr d
            | Inr _ \<Rightarrow> Inl (label @ '': deve essere un oggetto JSON.'')))"

definition body_type_label :: "string \<Rightarrow> string" where
  "body_type_label t =
     (if t = ''any'' then ''Any'' else if t = ''string'' then ''String'' else if t = ''json'' then ''JSON''
      else if t = ''xml'' then ''XML'' else t)"

definition infer_body_type :: "json_loads \<Rightarrow> json \<Rightarrow> string" where
  "infer_body_type loads v =
     (case v of
        JNull \<Rightarrow> ''any''
      | JStr s \<Rightarrow>
          (let t = py_strip s in
           if py_upper t = ''ANY'' then ''any''
           else if starts_with ''<'' t \<and> ends_with ''>'' t then ''xml''
           else (case loads t of
                   Inr j \<Rightarrow> if is_obj j \<or> is_list j then ''json'' else ''string''
                 | Inl _ \<Rightarrow> ''string''))
      | _ \<Rightarrow> ''json'')"

text \<open>\<open>pretty\<close> is \<open>json.dumps\<close> with an indentation; \<open>xml_lines\<close> gives the lines \<open>minidom\<close> writes, or its message.\<close>

definition body_text_for_type :: "json_loads \<Rightarrow> (json \<Rightarrow> string) \<Rightarrow> json \<Rightarrow> string \<Rightarrow> string" where
  "body_text_for_type loads pretty v t =
     (if t = ''any'' then []
      else if t = ''json'' then
        (case v of
           JNull \<Rightarrow> ''{}''
         | JStr s \<Rightarrow> (let raw = py_strip s in
             if raw = [] then ''{}'' else case loads raw of Inr j \<Rightarrow> pretty j | Inl _ \<Rightarrow> raw)
         | _ \<Rightarrow> pretty v)
      else str_or_empty v)"

definition beautify_body_text ::
  "json_loads \<Rightarrow> (json \<Rightarrow> string) \<Rightarrow> (string \<Rightarrow> string + string list) \<Rightarrow> string \<Rightarrow> string \<Rightarrow> string + string" where
  "beautify_body_text loads pretty xml_lines t raw =
     (let s = py_strip raw in
      if t = ''json'' then
        (if s = [] then Inr ''{}''
         else case loads s of Inr j \<Rightarrow> Inr (pretty j) | Inl m \<Rightarrow> Inl (''Body JSON non valido: '' @ m))
      else if t = ''xml'' then
        (if s = [] then Inr []
         else case xml_lines s of
                Inl m \<Rightarrow> Inl (''Body XML non valido: '' @ m)
              | Inr ls \<Rightarrow> Inr (join_with [CHR 0x0A] (filter (\<lambda>l. py_strip l \<noteq> []) ls)))
      else Inr raw)"

section \<open>From the response to the draft\<close>

text \<open>The dictionaries of a list with the places they have in it.\<close>

definition placed_dicts :: "json \<Rightarrow> (nat \<times> json dict) list result" where
  "placed_dicts v =
     rbind (iterate (json_or v (JList []))) (\<lambda>xs.
       Inr (map (\<lambda>(i, x). (i, fields_of x)) (filter (\<lambda>(i, x). is_obj x) (enumerate 0 xs))))"

definition operation_from_api :: "(string \<Rightarrow> int option) \<Rightarrow> nat \<times> json dict \<Rightarrow> json dict" where
  "operation_from_api whole io =
     (case io of (i, operation) \<Rightarrow>
       (let cfg = (if is_obj (jget operation ''configuration_json'') then fields_of (jget operation ''configuration_json'')
                   else fields_of (jget operation ''cfg'')) in
        [(''id'', jget operation ''id''), (''order'', JInt (safe_int whole (jget operation ''order'') (int i + 1))),
         (''description'', JStr (str_or_empty (jget operation ''description''))),
         (''operation_type'', JStr (str_or_empty (json_or (jget operation ''operation_type'') (jget cfg ''operationType'')))),
         (''configuration_json'', JObj cfg)]))"

definition draft_operations :: "(string \<Rightarrow> int option) \<Rightarrow> json \<Rightarrow> json dict list result" where
  "draft_operations whole v = rbind (placed_dicts v) (\<lambda>os. Inr (map (operation_from_api whole) os))"

definition dicts_json :: "json dict list \<Rightarrow> json" where
  "dicts_json ds = JList (map JObj ds)"

definition api_method :: "json dict \<Rightarrow> json dict \<Rightarrow> json \<Rightarrow> string" where
  "api_method cfg entry otherwise = py_upper (token (json_or (jget cfg ''method'') (json_or (jget entry ''method'') otherwise)))"

definition api_path :: "json dict \<Rightarrow> json dict \<Rightarrow> string" where
  "api_path cfg entry = editor_path (json_or (jget cfg ''path'') (jget entry ''path''))"

definition api_from_server :: "(string \<Rightarrow> int option) \<Rightarrow> nat \<times> json dict \<Rightarrow> json dict result" where
  "api_from_server whole ia =
     (case ia of (i, entry) \<Rightarrow>
       (let cfg0 = fields_of (jget entry ''configuration_json''); verb = api_method cfg0 entry (JStr ''GET''); path = api_path cfg0 entry;
            cfg = api_auth_cfg (dict_set ''path'' (JStr path) (dict_set ''method'' (JStr verb) cfg0)) in
        rbind (draft_operations whole (jget entry ''operations'')) (\<lambda>operations.
        rbind (draft_operations whole (jget cfg ''pre_response_commands'')) (\<lambda>pre.
        rbind (draft_operations whole (jget cfg ''response_operations'')) (\<lambda>response.
        rbind (draft_operations whole (jget cfg ''post_response_commands'')) (\<lambda>stored.
          let post = (if stored = [] \<and> operations \<noteq> [] then operations else stored) in
          Inr [(''id'', jget entry ''id''), (''order'', JInt (safe_int whole (jget entry ''order'') (int i + 1))),
               (''description'', JStr (str_or_empty (jget entry ''description''))), (''method'', JStr verb), (''path'', JStr path),
               (''configuration_json'', JObj cfg), (''operations'', dicts_json post), (''pre_response_commands'', dicts_json pre),
               (''response_operations'', dicts_json response), (''post_response_commands'', dicts_json post)]))))))"

definition queue_from_server :: "(string \<Rightarrow> int option) \<Rightarrow> nat \<times> json dict \<Rightarrow> json dict result" where
  "queue_from_server whole iq =
     (case iq of (i, entry) \<Rightarrow>
       rbind (draft_operations whole (jget entry ''operations'')) (\<lambda>operations.
         Inr [(''id'', jget entry ''id''), (''order'', JInt (safe_int whole (jget entry ''order'') (int i + 1))),
              (''description'', JStr (str_or_empty (jget entry ''description''))), (''queue_id'', JStr (str_or_empty (jget entry ''queue_id''))),
              (''configuration_json'', JObj (fields_of (jget entry ''configuration_json''))), (''operations'', dicts_json operations)]))"

definition order_of :: "(string \<Rightarrow> int option) \<Rightarrow> json dict \<Rightarrow> int" where
  "order_of whole d = safe_int whole (jget d ''order'') 0"

definition build_server_draft :: "(string \<Rightarrow> int option) \<Rightarrow> json dict \<Rightarrow> json dict result" where
  "build_server_draft whole server =
     rbind (placed_dicts (jget server ''apis'')) (\<lambda>as. rbind (mapM (api_from_server whole) as) (\<lambda>apis.
     rbind (placed_dicts (jget server ''queues'')) (\<lambda>qs. rbind (mapM (queue_from_server whole) qs) (\<lambda>queues.
       Inr [(''id'', JStr (str_or_empty (jget server ''id''))), (''description'', JStr (str_or_empty (jget server ''description''))),
            (''endpoint'', JStr (editor_endpoint (jget server ''endpoint''))), (''authorization'', JObj (server_auth server)),
            (''is_active'', JBool (json_truthy (jget server ''is_active''))),
            (''apis'', dicts_json (sort_key (order_of whole) apis)), (''queues'', dicts_json (sort_key (order_of whole) queues))]))))"

section \<open>From the draft to the request\<close>

definition listed :: "json \<Rightarrow> json list" where
  "listed v = (case v of JList xs \<Rightarrow> xs | _ \<Rightarrow> [])"

definition listed_dicts :: "json \<Rightarrow> json dict list" where
  "listed_dicts v = map fields_of (filter is_obj (listed v))"

definition operation_payload :: "(string \<Rightarrow> int option) \<Rightarrow> json dict \<Rightarrow> json dict" where
  "operation_payload whole operation =
     [(''order'', JInt (order_of whole operation)), (''description'', JStr (str_or_empty (jget operation ''description''))),
      (''cfg'', JObj (fields_of (jget operation ''configuration_json'')))]"

text \<open>The operations of a scope; older drafts keep those after the response under \<open>operations\<close>.\<close>

definition api_operations_list :: "json dict \<Rightarrow> string \<Rightarrow> json list" where
  "api_operations_list entry scope =
     (if is_list (jget entry scope) then listed (jget entry scope)
      else if scope = ''post_response_commands'' then listed (jget entry ''operations'') else [])"

definition scope_payload :: "(string \<Rightarrow> int option) \<Rightarrow> json dict \<Rightarrow> string \<Rightarrow> json" where
  "scope_payload whole entry scope =
     dicts_json (map (operation_payload whole) (listed_dicts (JList (api_operations_list entry scope))))"

definition api_payload :: "(string \<Rightarrow> int option) \<Rightarrow> json dict \<Rightarrow> json dict" where
  "api_payload whole entry =
     (let cfg = api_auth_cfg (fields_of (jget entry ''configuration_json'')); m = api_method cfg entry (JStr ''GET'');
          verb = (if m \<in> set http_methods then m else ''GET'');
          sent = dict_update cfg [(''method'', JStr verb), (''path'', JStr (api_path cfg entry)),
            (''pre_response_commands'', scope_payload whole entry ''pre_response_commands''),
            (''response_operations'', scope_payload whole entry ''response_operations''),
            (''post_response_commands'', scope_payload whole entry ''post_response_commands'')] in
      [(''order'', JInt (order_of whole entry)), (''description'', JStr (str_or_empty (jget entry ''description''))),
       (''cfg'', JObj sent), (''commands'', scope_payload whole entry ''post_response_commands'')])"

definition queue_payload :: "(string \<Rightarrow> int option) \<Rightarrow> json dict \<Rightarrow> json dict" where
  "queue_payload whole entry =
     [(''order'', JInt (order_of whole entry)), (''description'', JStr (str_or_empty (jget entry ''description''))),
      (''queue_id'', JStr (token (jget entry ''queue_id''))), (''cfg'', JObj (fields_of (jget entry ''configuration_json''))),
      (''commands'', dicts_json (map (operation_payload whole) (listed_dicts (jget entry ''operations''))))]"

definition server_payload :: "(string \<Rightarrow> int option) \<Rightarrow> json dict \<Rightarrow> json dict" where
  "server_payload whole draft =
     [(''id'', JStr (token (jget draft ''id''))), (''description'', JStr (str_or_empty (jget draft ''description''))),
      (''cfg'', JObj [(''endpoint'', JStr (editor_endpoint (jget draft ''endpoint''))),
         (''authorization'', JObj (normalize_authorization_config (json_or (jget draft ''authorization'') (JObj []))))]),
      (''apis'', dicts_json (map (api_payload whole) (listed_dicts (jget draft ''apis'')))),
      (''queues'', dicts_json (map (queue_payload whole) (listed_dicts (jget draft ''queues'')))),
      (''is_active'', JBool (json_truthy (jget draft ''is_active'')))]"

section \<open>The check before saving\<close>

text \<open>The messages of the checks in the order in which they are made; the first one is shown.\<close>

definition complaint :: "bool \<Rightarrow> string \<Rightarrow> string list" where
  "complaint ok message = (if ok then [] else [message])"

definition check_operation :: "string \<Rightarrow> nat \<times> json \<Rightarrow> string list" where
  "check_operation place io =
     (let d = fields_of (snd io); spot = place @ nat_text (fst io + 1) in
      complaint (token (jget d ''description'') \<noteq> []) (spot @ '': description obbligatoria.'') @
      complaint (token (jget (fields_of (jget d ''configuration_json'')) ''operationType'') \<noteq> []) (spot @ '': operationType obbligatorio.''))"

definition check_operations :: "string \<Rightarrow> json list \<Rightarrow> string list" where
  "check_operations place os = concat (map (check_operation place) (enumerate 0 os))"

definition check_api :: "nat \<times> json \<Rightarrow> string list" where
  "check_api ia =
     (let d = fields_of (snd ia); cfg = fields_of (jget d ''configuration_json''); spot = ''API #'' @ nat_text (fst ia + 1) in
      complaint (token (jget d ''description'') \<noteq> []) (spot @ '': description obbligatoria.'') @
      complaint (py_upper (token (jget cfg ''method'')) \<in> set http_methods) (spot @ '': method non valido.'') @
      complaint (editor_path (jget cfg ''path'') \<noteq> []) (spot @ '': path obbligatorio.'') @
      check_operations (spot @ '', pre-operation #'') (api_operations_list d ''pre_response_commands'') @
      check_operations (spot @ '', response-operation #'') (api_operations_list d ''response_operations'') @
      check_operations (spot @ '', post-operation #'') (api_operations_list d ''post_response_commands''))"

definition check_queue :: "nat \<times> json \<Rightarrow> string list" where
  "check_queue iq =
     (let d = fields_of (snd iq); spot = ''Queue #'' @ nat_text (fst iq + 1) in
      complaint (token (jget d ''description'') \<noteq> []) (spot @ '': description obbligatoria.'') @
      complaint (token (jget d ''queue_id'') \<noteq> []) (spot @ '': queue obbligatoria.'') @
      check_operations (spot @ '', operation #'') (listed (jget d ''operations'')))"

definition draft_complaints :: "json dict \<Rightarrow> string list" where
  "draft_complaints draft =
     complaint (token (jget draft ''id'') \<noteq> []) ''Mock server non valido.'' @
     complaint (token (jget draft ''description'') \<noteq> []) (''Il campo Description e'' @ [CHR 0x27] @ '' obbligatorio.'') @
     complaint (editor_endpoint (jget draft ''endpoint'') \<noteq> []) (''Il campo Endpoint e'' @ [CHR 0x27] @ '' obbligatorio.'') @
     concat (map check_api (enumerate 0 (listed (jget draft ''apis'')))) @
     concat (map check_queue (enumerate 0 (listed (jget draft ''queues''))))"

definition validate_draft :: "json dict \<Rightarrow> string option" where
  "validate_draft draft = (case draft_complaints draft of [] \<Rightarrow> None | m # _ \<Rightarrow> Some m)"

section \<open>Imported routes\<close>

definition draft_route :: "json dict \<Rightarrow> (string \<times> string) list" where
  "draft_route entry =
     (let cfg = fields_of (jget entry ''configuration_json''); verb = api_method cfg entry JNull; path = api_path cfg entry in
      if verb \<noteq> [] \<and> path \<noteq> [] then [(verb, path)] else [])"

definition draft_api_routes :: "json dict \<Rightarrow> (string \<times> string) set" where
  "draft_api_routes draft = set (concat (map draft_route (listed_dicts (jget draft ''apis''))))"

fun append_apis :: "(string \<Rightarrow> int option) \<Rightarrow> int \<Rightarrow> json list \<Rightarrow> (nat \<times> json) list \<Rightarrow> json list result" where
  "append_apis whole highest apis [] = Inr apis"
| "append_apis whole highest apis ((i, JObj d) # xs) =
     rbind (api_from_server whole (length apis, dict_set ''order'' (JInt (highest + int i)) d)) (\<lambda>a.
       append_apis whole highest (apis @ [JObj a]) xs)"
| "append_apis whole highest apis (_ # xs) = append_apis whole highest apis xs"

definition append_imported_apis :: "(string \<Rightarrow> int option) \<Rightarrow> json dict \<Rightarrow> json list \<Rightarrow> json dict result" where
  "append_imported_apis whole draft imported =
     (let apis = listed (jget draft ''apis''); orders = map (order_of whole) (listed_dicts (JList apis));
          highest = (if orders = [] then 0 else Max (set orders)) in
      rbind (append_apis whole highest apis (enumerate 1 imported)) (\<lambda>all.
        Inr (dict_set ''apis'' (dicts_json (sort_key (order_of whole) (listed_dicts (JList all)))) draft)))"

section \<open>The editor of bodies\<close>

text \<open>The state of the session is a dictionary; \<open>nonce\<close> is the text of the counter in the keys of the widgets.\<close>

definition body_types :: "string list" where
  "body_types = [''any'', ''string'', ''json'', ''xml'']"

definition body_editor_keys :: "string \<Rightarrow> string \<Rightarrow> string \<Rightarrow> string \<times> string" where
  "body_editor_keys ui nonce scope =
     (let pre = ''mock_server_api_'' @ scope @ ''_body_'' @ ui @ ''_'' @ nonce in (pre @ ''_type'', pre @ ''_value''))"

definition body_source_key :: "string \<Rightarrow> string \<Rightarrow> string \<Rightarrow> string" where
  "body_source_key ui nonce scope = ''mock_server_api_'' @ scope @ ''_body_source_'' @ ui @ ''_'' @ nonce"

text \<open>\<open>dumps\<close> is \<open>json.dumps\<close> with sorted keys. The state is only written when the configured body has changed.\<close>

definition ensure_body_editor_state ::
  "json_loads \<Rightarrow> (json \<Rightarrow> string) \<Rightarrow> (json \<Rightarrow> string) \<Rightarrow> json dict \<Rightarrow> string \<Rightarrow> string \<Rightarrow> string \<Rightarrow> json dict \<Rightarrow> json dict" where
  "ensure_body_editor_state loads pretty dumps entry ui nonce scope s =
     (let cfg = fields_of (jget entry ''configuration_json'');
          raw = jget cfg (if scope = ''expected'' then ''body'' else ''response_body'');
          configured = py_lower (token (jget cfg (if scope = ''expected'' then ''body_type'' else ''response_body_type'')));
          t = (if configured \<in> set body_types then configured else infer_body_type loads raw);
          ks = body_editor_keys ui nonce scope; source = body_source_key ui nonce scope;
          signature = JStr (dumps (JObj [(''body_type'', JStr t), (''body_value'', raw)])) in
      if dict_get s (fst ks) = None \<or> dict_get s (snd ks) = None \<or> jget s source \<noteq> signature then
        dict_set source signature (dict_set (snd ks) (JStr (body_text_for_type loads pretty raw t)) (dict_set (fst ks) (JStr t) s))
      else s)"

definition resolve_body :: "json_loads \<Rightarrow> string \<Rightarrow> string \<Rightarrow> string \<Rightarrow> string + json" where
  "resolve_body loads scope t raw =
     (if t = ''any'' then Inr (if scope = ''expected'' then JStr ''ANY'' else JNull)
      else if t = ''json'' then
        (if py_strip raw = [] then Inl ''Body JSON obbligatorio.''
         else case loads (py_strip raw) of Inr j \<Rightarrow> Inr j | Inl m \<Rightarrow> Inl (''Body JSON non valido: '' @ m))
      else if py_strip raw = [] then Inl (if t = ''xml'' then ''Body XML obbligatorio.'' else ''Body string obbligatorio.'')
      else Inr (JStr raw))"

definition resolve_body_from_state :: "json_loads \<Rightarrow> string \<Rightarrow> string \<Rightarrow> string \<Rightarrow> json dict \<Rightarrow> string \<times> (string + json)" where
  "resolve_body_from_state loads ui nonce scope s =
     (let ks = body_editor_keys ui nonce scope; entered = py_lower (py_strip (or_text (session_text s (fst ks)) ''any''));
          t = (if entered \<in> set body_types then entered else ''any'') in
      (t, resolve_body loads scope t (session_text s (snd ks))))"

section \<open>The selected server\<close>

text \<open>\<open>fetch\<close> is the request for one server, None when it raises.\<close>

definition find_server_by_id :: "(string \<Rightarrow> json option) \<Rightarrow> json \<Rightarrow> string \<Rightarrow> json dict option" where
  "find_server_by_id fetch servers i =
     (let wanted = py_strip i in
      if wanted = [] then None
      else case find (\<lambda>d. token (jget d ''id'') = wanted) (listed_dicts servers) of
             Some d \<Rightarrow> Some d
           | None \<Rightarrow> (case fetch wanted of Some (JObj d) \<Rightarrow> Some d | _ \<Rightarrow> None))"

definition resolve_selected_server_id :: "json dict \<Rightarrow> string \<times> json dict" where
  "resolve_selected_server_id s =
     (let selected = token (jget s ''selected_mock_server_id'') in
      if selected \<noteq> [] then (selected, s)
      else case filter (\<lambda>i. i \<noteq> []) (map (\<lambda>d. token (jget d ''id'')) (listed_dicts (jget s ''mock_servers''))) of
             [] \<Rightarrow> ([], s)
           | i # _ \<Rightarrow> (i, dict_set ''selected_mock_server_id'' (JStr i) s))"

text \<open>What pressing save does: an error message, or the request that is sent.\<close>

definition persist_draft :: "(string \<Rightarrow> int option) \<Rightarrow> json \<Rightarrow> string + json dict" where
  "persist_draft whole draft =
     (case draft of
        JObj d \<Rightarrow> (case validate_draft d of Some m \<Rightarrow> Inl m | None \<Rightarrow> Inr (server_payload whole d))
      | _ \<Rightarrow> Inl ''Nessun mock server selezionato.'')"

text \<open>A new API, and the item of a draft the operation dialog adds to.\<close>

definition new_draft_api :: "json dict \<Rightarrow> string \<Rightarrow> string \<Rightarrow> string \<Rightarrow> string \<Rightarrow> string + json dict" where
  "new_draft_api draft ui description verb path =
     (if py_strip description = [] then Inl (''Il campo Description e'' @ [CHR 0x27] @ '' obbligatorio.'')
      else (let m = JStr (or_text verb ''GET''); p = JStr (normalize_path path); none = JList [];
                scopes = [(''pre_response_commands'', none), (''response_operations'', none), (''post_response_commands'', none)] in
        Inr ([(''id'', JNull), (''order'', JInt (int (length (listed (jget draft ''apis''))) + 1)), (''description'', JStr description),
              (''method'', m), (''path'', p),
              (''configuration_json'', JObj ([(''method'', m), (''path'', p), (''params'', JObj []), (''authMode'', JStr ''inherit''),
                 (''authorization'', JObj []), (''headers'', JObj []), (''body'', JNull), (''body_type'', JStr ''any''),
                 (''body_match'', JStr ''contains''), (''response_status'', JInt 200),
                 (''response_headers'', JObj [(''Content-Type'', JStr ''application/json'')]),
                 (''response_body'', JObj [(''status'', JStr ''ok'')]), (''response_body_type'', JStr ''json''), (''priority'', JInt 0)] @ scopes)),
              (''operations'', none)] @ scopes @ [(''_ui_key'', JStr ui)])))"

definition find_draft_item_by_ui_key :: "json dict \<Rightarrow> string \<Rightarrow> json dict option" where
  "find_draft_item_by_ui_key draft key =
     (if py_strip key = [] then None
      else find (\<lambda>d. token (jget d ''_ui_key'') = py_strip key) (listed_dicts (jget draft ''apis'') @ listed_dicts (jget draft ''queues'')))"

end
