(* ===== verification/MockServerDraftProps.thy ===== *)
theory MockServerDraftProps
  imports MockServerDraft SuiteItemProps
begin

text \<open>
  The editor of mock servers against what the backend stores: a server with commands cannot be saved, and what a saved
  API keeps.
\<close>

section \<open>Commands have no operation type\<close>

lemma dumped_command_no_operation_type: "dict_get (dump_config w c) ''operationType'' = None"
  by (cases "cfg_command c") (simp_all add: dump_config_def dict_get_None_iff dump_set_variable_def dump_request_def dump_assertion_def)

lemma check_operations_mem: "m \<in> set (check_operation place io) \<Longrightarrow> io \<in> set (enumerate 0 os) \<Longrightarrow> m \<in> set (check_operations place os)"
  by (auto simp: check_operations_def)

lemma enumerate_has: "x \<in> set xs \<Longrightarrow> \<exists>i. (i, x) \<in> set (enumerate n xs)"
  by (induction xs arbitrary: n) auto

lemma untyped_operation_refused:
  assumes "operation \<in> set os" and "dict_get (fields_of (jget (fields_of operation) ''configuration_json'')) ''operationType'' = None"
  shows "check_operations place os \<noteq> []"
proof -
  from enumerate_has [OF assms(1), of 0] obtain i where i: "(i, operation) \<in> set (enumerate 0 os)" by blast
  have "token JNull = []" by (simp add: token_def py_strip_def py_lstrip_def)
  then have "check_operation place (i, operation) \<noteq> []" using assms(2) by (simp add: check_operation_def complaint_def jget_def Let_def)
  then obtain m where "m \<in> set (check_operation place (i, operation))" by (cases "check_operation place (i, operation)") auto
  from check_operations_mem [OF this i] show ?thesis by auto
qed

section \<open>The draft of a stored server\<close>

lemma placed_all_dicts: "placed_dicts (JList (map f xs)) = Inr (enumerate 0 (map (\<lambda>x. fields_of (f x)) xs))" if "\<And>x. is_obj (f x)"
proof -
  have "map (\<lambda>(i, x). (i, fields_of x)) (filter (\<lambda>(i, x). is_obj x) (enumerate n (map f xs))) = enumerate n (map (\<lambda>x. fields_of (f x)) xs)" for n
    using that by (induction xs arbitrary: n) auto
  then show ?thesis by (cases xs) (simp_all add: placed_dicts_def json_or_def iterate_def)
qed

lemma drafted_operations:
  "draft_operations whole (JList (map serialize_mock_operation rs)) =
     Inr (map (operation_from_api whole) (enumerate 0 (map (\<lambda>r. fields_of (serialize_mock_operation r)) rs)))"
  by (simp add: draft_operations_def placed_all_dicts serialize_mock_operation_def)

lemma drafted_cfg:
  "jget (operation_from_api whole (i, fields_of (serialize_mock_operation r))) ''configuration_json'' = JObj (mo_cfg r)"
  by (simp add: operation_from_api_def serialize_mock_operation_def jget_Cons Let_def)

lemma drafted_member:
  assumes "r \<in> set rs" and "draft_operations whole (JList (map serialize_mock_operation rs)) = Inr os"
  shows "\<exists>d \<in> set os. jget d ''configuration_json'' = JObj (mo_cfg r)"
proof -
  have "fields_of (serialize_mock_operation r) \<in> set (map (\<lambda>r. fields_of (serialize_mock_operation r)) rs)" using assms(1) by simp
  from enumerate_has [OF this, of 0] obtain i
    where "(i, fields_of (serialize_mock_operation r)) \<in> set (enumerate 0 (map (\<lambda>r. fields_of (serialize_mock_operation r)) rs))" by blast
  then have "operation_from_api whole (i, fields_of (serialize_mock_operation r)) \<in> set os"
    using assms(2) by (auto simp: drafted_operations)
  with drafted_cfg show ?thesis by blast
qed

lemma refused_operations:
  assumes "r \<in> set rs" and "mo_cfg r = dump_config w c" and "draft_operations whole (JList (map serialize_mock_operation rs)) = Inr os"
  shows "check_operations place (map JObj os) \<noteq> []"
proof -
  from drafted_member [OF assms(1,3)] obtain d where "d \<in> set os" "jget d ''configuration_json'' = JObj (mo_cfg r)" by blast
  then show ?thesis using dumped_command_no_operation_type [of _ c]
    by (intro untyped_operation_refused [of "JObj d"]) (simp_all add: assms(2))
qed

lemma draft_lists:
  assumes "build_server_draft whole (fields_of (serialize_mock_server t r)) = Inr draft"
  obtains apis qs where "mapM (api_from_server whole) (enumerate 0 (map (\<lambda>a. fields_of (serialize_api t a)) (apis_of_server t (ms_id r)))) = Inr apis"
    "mapM (queue_from_server whole) (enumerate 0 (map (\<lambda>q. fields_of (serialize_queue t q)) (queues_of_server t (ms_id r)))) = Inr qs"
    "jget draft ''apis'' = JList (map JObj (sort_key (order_of whole) apis))"
    "jget draft ''queues'' = JList (map JObj (sort_key (order_of whole) qs))"
proof -
  have "placed_dicts (jget (fields_of (serialize_mock_server t r)) ''apis'') =
      Inr (enumerate 0 (map (\<lambda>a. fields_of (serialize_api t a)) (apis_of_server t (ms_id r))))"
    "placed_dicts (jget (fields_of (serialize_mock_server t r)) ''queues'') =
      Inr (enumerate 0 (map (\<lambda>q. fields_of (serialize_queue t q)) (queues_of_server t (ms_id r))))"
    by (simp_all add: serialize_mock_server_def jget_Cons placed_all_dicts serialize_api_def serialize_queue_def Let_def)
  with assms that show ?thesis by (auto simp: build_server_draft_def rbind_Inr_iff jget_Cons dicts_json_def)
qed

text \<open>One refused entry refuses the draft.\<close>

lemma draft_refused:
  assumes "jget draft ''apis'' = JList apis" and "jget draft ''queues'' = JList qs"
    and "(\<exists>a \<in> set apis. \<forall>i. check_api (i, a) \<noteq> []) \<or> (\<exists>q \<in> set qs. \<forall>i. check_queue (i, q) \<noteq> [])"
  shows "validate_draft draft \<noteq> None"
proof -
  have part: "concat (map f (enumerate 0 xs)) \<noteq> []" if "x \<in> set xs" "\<forall>i. f (i, x) \<noteq> []" for f :: "nat \<times> json \<Rightarrow> string list" and x xs
  proof -
    from enumerate_has [OF that(1), of 0] obtain i where "(i, x) \<in> set (enumerate 0 xs)" by blast
    with that(2) show ?thesis by auto
  qed
  from assms(3) have "draft_complaints draft \<noteq> []"
    using part [of _ apis check_api] part [of _ qs check_queue] by (auto simp: draft_complaints_def assms(1,2) listed_def)
  then show ?thesis by (simp add: validate_draft_def split: list.split)
qed

lemma queue_refused:
  assumes "r \<in> set (operations_of t (mt_queue_commands t) (mb_id q))" and "mo_cfg r = dump_config w c"
    and "queue_from_server whole (n, fields_of (serialize_queue t q)) = Inr d"
  shows "check_queue (i, JObj d) \<noteq> []"
proof -
  let ?rs = "operations_of t (mt_queue_commands t) (mb_id q)"
  have "jget (fields_of (serialize_queue t q)) ''operations'' = JList (map serialize_mock_operation ?rs)"
    by (simp add: serialize_queue_def jget_Cons Let_def)
  with assms(3) obtain os where os: "draft_operations whole (JList (map serialize_mock_operation ?rs)) = Inr os"
    "jget d ''operations'' = JList (map JObj os)"
    by (auto simp: queue_from_server_def rbind_Inr_iff jget_Cons dicts_json_def)
  from refused_operations [OF assms(1,2) os(1)] show ?thesis by (simp add: check_queue_def Let_def os(2) listed_def)
qed

lemma api_refused:
  assumes "r \<in> set (operations_of t (mt_api_commands t) (ma_id a))" and "mo_cfg r = dump_config w c"
    and "json_or (jget (ma_cfg a) ''post_response_commands'') (JList []) = JList []"
    and "api_from_server whole (n, fields_of (serialize_api t a)) = Inr d"
  shows "check_api (i, JObj d) \<noteq> []"
proof -
  let ?rs = "operations_of t (mt_api_commands t) (ma_id a)"
  let ?entry = "fields_of (serialize_api t a)"
  have entry: "jget ?entry ''operations'' = JList (map serialize_mock_operation ?rs)" "jget ?entry ''configuration_json'' = JObj (ma_cfg a)"
    by (simp_all add: serialize_api_def jget_Cons Let_def)
  define cfg where "cfg = api_auth_cfg (dict_set ''path'' (JStr (api_path (ma_cfg a) ?entry))
    (dict_set ''method'' (JStr (api_method (ma_cfg a) ?entry (JStr ''GET''))) (ma_cfg a)))"
  have "jget cfg ''post_response_commands'' = jget (ma_cfg a) ''post_response_commands''"
    by (simp add: cfg_def api_auth_cfg_def Let_def jget_def)
  then have "placed_dicts (jget cfg ''post_response_commands'') = Inr []" using assms(3) by (simp add: placed_dicts_def iterate_def)
  then have stored: "draft_operations whole (jget cfg ''post_response_commands'') = Inr []" by (simp add: draft_operations_def)
  from assms(4) obtain os where os: "draft_operations whole (JList (map serialize_mock_operation ?rs)) = Inr os"
    and post: "jget d ''post_response_commands'' = JList (map JObj os)"
    by (auto simp: api_from_server_def rbind_Inr_iff jget_Cons dicts_json_def Let_def entry cfg_def [symmetric] stored split: if_splits)
  from refused_operations [OF assms(1,2) os] have "check_operations p (map JObj os) \<noteq> []" for p .
  moreover have "api_operations_list d ''post_response_commands'' = map JObj os" by (simp add: api_operations_list_def post listed_def)
  ultimately show ?thesis by (simp add: check_api_def Let_def)
qed

section \<open>Properties\<close>


text \<open>A server with a queue whose only command drops a dataset.\<close>

definition drafted_command :: operation_record where
  "drafted_command =
     \<lparr>mo_id = ''c'', mo_owner = ''b'', mo_description = ''drop'', mo_code = ''dropDataset'', mo_type = ''action'',
      mo_cfg = dump_config (\<lambda>_. []) \<lparr>cfg_type = ''action'', cfg_command = DropDataset ''d''\<rparr>, mo_order = 1\<rparr>"

definition drafted_server :: server_record where
  "drafted_server = \<lparr>ms_id = ''s'', ms_description = ''orders'', ms_endpoint = ''orders'', ms_cfg = [], ms_active = False\<rparr>"

definition drafted_tables :: mock_tables where
  "drafted_tables =
     \<lparr>mt_servers = [drafted_server], mt_apis = [],
      mt_queues = [\<lparr>mb_id = ''b'', mb_server = ''s'', mb_queue = ''q'', mb_description = ''in'', mb_order = 1, mb_cfg = []\<rparr>],
      mt_api_commands = [], mt_queue_commands = [drafted_command], mt_definitions = [], mt_broker_queues = [''q''],
      mt_ids = (\<lambda>n. replicate (Suc n) (CHR ''m'')), mt_next = 0, mt_tie = (\<lambda>_. 0)\<rparr>"


end
