(* ===== verification/BrokerQueues.thy ===== *)
theory BrokerQueues
  imports Services JsonText
begin

text \<open>
  Queues of the message brokers: the configuration of a queue, the two SQS services (\<open>app/brokers/services/connections\<close>),
  the rows of the table \<open>queues\<close> and the endpoints of \<open>app/brokers/api/broker_queues_api.py\<close>. The SQS clients of
  \<open>boto3\<close> are calls on a world. An \<open>Exception\<close> without a class of its own is a \<open>RuntimeError\<close>.
\<close>

section \<open>The configuration of a queue\<close>

text \<open>The fields only \<open>ElasticmqQueueConfigurationDto\<close> has are None for \<open>AmazonQueueConfigurationDto\<close>.\<close>

record elastic_fields =
  el_fifo :: bool
  el_dedup :: bool
  el_delay :: int

record queue_cfg =
  qc_source :: string
  qc_url :: "string option"
  qc_visibility :: int
  qc_wait :: int
  qc_elastic :: "elastic_fields option"

definition field_default :: "(json \<Rightarrow> 'a result) \<Rightarrow> json dict \<Rightarrow> string \<Rightarrow> 'a \<Rightarrow> 'a result" where
  "field_default f d k x = (case dict_get d k of None \<Rightarrow> Inr x | Some v \<Rightarrow> f v)"

definition common_fields :: "field_types \<Rightarrow> json dict \<Rightarrow> elastic_fields option \<Rightarrow> queue_cfg result" where
  "common_fields pyd d e =
     rbind (as_str pyd (jget d ''sourceType'')) (\<lambda>source.
     rbind (field_default (optional (as_str pyd)) d ''url'' None) (\<lambda>url.
     rbind (field_default (as_int pyd) d ''defaultVisibilityTimeout'' 30) (\<lambda>visibility.
     rbind (field_default (as_int pyd) d ''receiveMessageWait'' 0) (\<lambda>wait.
       Inr \<lparr>qc_source = source, qc_url = url, qc_visibility = visibility, qc_wait = wait, qc_elastic = e\<rparr>))))"

definition convert_queue_configuration :: "field_types \<Rightarrow> (json \<Rightarrow> bool result) \<Rightarrow> json dict \<Rightarrow> queue_cfg result" where
  "convert_queue_configuration pyd as_bool d =
     (let t = jget d ''sourceType'' in
      if t = JStr ''amazon-sqs'' then common_fields pyd d None
      else if t = JStr ''elasticmq'' then
        rbind (field_default as_bool d ''fifoQueue'' False) (\<lambda>fifo.
        rbind (field_default as_bool d ''contentBasedDeduplication'' False) (\<lambda>dedup.
        rbind (field_default (as_int pyd) d ''delay'' 0) (\<lambda>delay.
          common_fields pyd d (Some \<lparr>el_fifo = fifo, el_dedup = dedup, el_delay = delay\<rparr>))))
      else Inl (ValueError (''Unsupported sourceType: '' @ json_str t)))"

definition opt_json :: "string option \<Rightarrow> json" where
  "opt_json t = (case t of None \<Rightarrow> JNull | Some s \<Rightarrow> JStr s)"

definition dump_queue_configuration :: "queue_cfg \<Rightarrow> json dict" where
  "dump_queue_configuration c =
     [(''sourceType'', JStr (qc_source c)), (''url'', opt_json (qc_url c)),
      (''defaultVisibilityTimeout'', JInt (qc_visibility c)), (''receiveMessageWait'', JInt (qc_wait c))] @
     (case qc_elastic c of
        None \<Rightarrow> []
      | Some e \<Rightarrow> [(''fifoQueue'', JBool (el_fifo e)), (''contentBasedDeduplication'', JBool (el_dedup e)), (''delay'', JInt (el_delay e))])"

section \<open>The client\<close>

text \<open>\<open>ClientError\<close> carries the code and the message of its response and its text; other exceptions are \<open>OtherError\<close>.\<close>

datatype sqs_error = ClientError string string string | OtherError py_error

record sqs_client =
  sc_region :: json
  sc_endpoint :: json
  sc_key :: json
  sc_secret :: json

record 'w sqs =
  sq_attributes :: "sqs_client \<Rightarrow> string option \<Rightarrow> 'w \<Rightarrow> (sqs_error + string dict) \<times> 'w"
  sq_send :: "sqs_client \<Rightarrow> string option \<Rightarrow> string \<Rightarrow> bool \<Rightarrow> 'w \<Rightarrow> (sqs_error + json dict) \<times> 'w"
  sq_receive :: "sqs_client \<Rightarrow> string option \<Rightarrow> int \<Rightarrow> int \<Rightarrow> 'w \<Rightarrow> (sqs_error + json dict list) \<times> 'w"
  sq_visibility :: "sqs_client \<Rightarrow> string option \<Rightarrow> json \<Rightarrow> int \<Rightarrow> 'w \<Rightarrow> (sqs_error + unit) \<times> 'w"
  sq_delete :: "sqs_client \<Rightarrow> string option \<Rightarrow> json \<Rightarrow> 'w \<Rightarrow> (sqs_error + unit) \<times> 'w"
  sq_create :: "sqs_client \<Rightarrow> string \<Rightarrow> string dict \<Rightarrow> 'w \<Rightarrow> (sqs_error + string option) \<times> 'w"
  sq_remove :: "sqs_client \<Rightarrow> string option \<Rightarrow> 'w \<Rightarrow> (sqs_error + unit) \<times> 'w"

text \<open>The exception of the client as it leaves the code that does not catch it, or rewritten by the code that catches \<open>ClientError\<close>.\<close>

fun sqs_raised :: "sqs_error \<Rightarrow> py_error" where
  "sqs_raised (ClientError c m t) = RuntimeError t"
| "sqs_raised (OtherError e) = e"

fun sqs_caught :: "(string \<Rightarrow> py_error) \<Rightarrow> sqs_error \<Rightarrow> py_error" where
  "sqs_caught f (ClientError c m t) = f t"
| "sqs_caught f (OtherError e) = e"

definition sqs_call :: "(sqs_error \<Rightarrow> py_error) \<Rightarrow> ('w \<Rightarrow> (sqs_error + 'a) \<times> 'w) \<Rightarrow> ('w, 'a) call" where
  "sqs_call f m w = (case m w of (Inl e, w') \<Rightarrow> (Inl (f e), w') | (Inr x, w') \<Rightarrow> (Inr x, w'))"

section \<open>The two services\<close>

datatype broker_kind = AmazonBroker | ElasticBroker

definition get_queue_service :: "json \<Rightarrow> broker_kind result" where
  "get_queue_service config =
     (let t = jget (fields_of config) ''sourceType'' in
      if t = JStr ''amazon-sqs'' then Inr AmazonBroker
      else if t = JStr ''elasticmq'' then Inr ElasticBroker
      else Inl (ValueError (''Unsupported connector type: '' @ json_str t)))"

fun client_of :: "broker_kind \<Rightarrow> json \<Rightarrow> sqs_client" where
  "client_of AmazonBroker config =
     (let d = fields_of config in
      \<lparr>sc_region = jget d ''region'', sc_endpoint = jget d ''endpointUrl'', sc_key = jget d ''accessKeyId'', sc_secret = jget d ''secretsAccessKey''\<rparr>)"
| "client_of ElasticBroker config =
     \<lparr>sc_region = JStr ''region'', sc_endpoint = jget (fields_of config) ''endpointUrl'', sc_key = JStr ''xxx'', sc_secret = JStr ''yyy''\<rparr>"

fun replace_text :: "string \<Rightarrow> string \<Rightarrow> string \<Rightarrow> string" where
  "replace_text (c # cs) new (x # xs) =
     (if starts_with (c # cs) (x # xs) then new @ replace_text (c # cs) new (drop (length cs) xs)
      else x # replace_text (c # cs) new xs)"
| "replace_text _ _ s = s"

text \<open>\<open>host\<close> is the environment's \<open>HOST_IP\<close>.\<close>

fun extract_url :: "string option \<Rightarrow> broker_kind \<Rightarrow> queue_cfg \<Rightarrow> string option result" where
  "extract_url host AmazonBroker c = Inr (qc_url c)"
| "extract_url host ElasticBroker c =
     (if (case host of None \<Rightarrow> True | Some h \<Rightarrow> h = ''host.docker.internal'') then
        (case qc_url c of
           None \<Rightarrow> Inl (AttributeError (quoted ''NoneType'' @ '' object has no attribute '' @ quoted ''replace''))
         | Some u \<Rightarrow> Inr (Some (replace_text ''localhost'' ''host.docker.internal'' u)))
      else Inr (qc_url c))"

definition resolve_wait_time :: "queue_cfg \<Rightarrow> int" where
  "resolve_wait_time c = max 0 (min (qc_wait c) 20)"

definition test_url_connection :: "'w sqs \<Rightarrow> sqs_client \<Rightarrow> string option \<Rightarrow> ('w, unit) call" where
  "test_url_connection sq client url =
     sbind (sqs_call (sqs_caught (\<lambda>t. RuntimeError (''Error accessing SQS queue: '' @ t))) (sq_attributes sq client url)) (\<lambda>_. spure ())"

section \<open>Messages\<close>

text \<open>Publishing: every failure, of whatever class, becomes the exception of the application.\<close>

definition publish_one :: "'w sqs \<Rightarrow> sqs_client \<Rightarrow> string option \<Rightarrow> json \<Rightarrow> ('w, json) call" where
  "publish_one sq client url message w =
     (let failed = (\<lambda>e. AppException (''Error publishing message to SQS queue: '' @ error_text e)) in
      case url of
        None \<Rightarrow> (Inl (failed (AttributeError (quoted ''NoneType'' @ '' object has no attribute '' @ quoted ''endswith''))), w)
      | Some u \<Rightarrow>
          (case sq_send sq client url (json_dumps message) (ends_with ''.fifo'' u) w of
             (Inl e, w') \<Rightarrow> (Inl (failed (sqs_raised e)), w')
           | (Inr resp, w') \<Rightarrow>
               (Inr (JObj [(''status'', JStr ''ok''), (''message_id'', jget resp ''MessageId''),
                  (''http_status'', jget (fields_of (jget resp ''ResponseMetadata'')) ''HTTPStatusCode'')]), w')))"

text \<open>A hidden message cannot be received again for the given number of seconds.\<close>

definition hide_message :: "'w sqs \<Rightarrow> sqs_client \<Rightarrow> string option \<Rightarrow> int \<Rightarrow> json dict \<Rightarrow> ('w, unit) call" where
  "hide_message sq client url seconds m =
     (case dict_get m ''ReceiptHandle'' of
        None \<Rightarrow> sraise (KeyError ''ReceiptHandle'')
      | Some h \<Rightarrow>
          sqs_call (sqs_caught (\<lambda>t. AppException ('' Errore modifica visibilit'' @ [CHR 0xE0] @ '' messaggio  MessageId='' @
              (case dict_get m ''MessageId'' of None \<Rightarrow> ''unknown'' | Some i \<Rightarrow> json_str i) @ '' Error='' @ t)))
            (sq_visibility sq client url h seconds))"

definition change_message_visibility ::
  "'w sqs \<Rightarrow> sqs_client \<Rightarrow> string option \<Rightarrow> json dict list \<Rightarrow> int \<Rightarrow> ('w, unit) call" where
  "change_message_visibility sq client url messages seconds = sbind (smap (hide_message sq client url seconds) messages) (\<lambda>_. spure ())"

definition receive_from :: "'w sqs \<Rightarrow> sqs_client \<Rightarrow> string option \<Rightarrow> queue_cfg \<Rightarrow> int \<Rightarrow> ('w, json dict list) call" where
  "receive_from sq client url c count =
     sbind (test_url_connection sq client url) (\<lambda>_.
     sbind (sqs_call sqs_raised (sq_receive sq client url (min 10 count) (resolve_wait_time c))) (\<lambda>ms.
     sbind (change_message_visibility sq client url ms 180) (\<lambda>_. spure ms)))"

text \<open>Acknowledging: a message that cannot be deleted is noted, and the others are still deleted.\<close>

definition index_name :: "nat \<Rightarrow> string" where
  "index_name i = ''index-'' @ nat_text i"

fun ack_each ::
  "'w sqs \<Rightarrow> sqs_client \<Rightarrow> string option \<Rightarrow> string list \<times> (string \<times> string) list \<Rightarrow> (nat \<times> json) list \<Rightarrow>
     ('w, string list \<times> (string \<times> string) list) call" where
  "ack_each sq client url (deleted, failures) [] w = (Inr (deleted, failures), w)"
| "ack_each sq client url (deleted, failures) ((i, JObj m) # ms) w =
     (let mid = (if json_truthy (jget m ''MessageId'') then json_str (jget m ''MessageId'') else index_name i);
          handle = jget m ''ReceiptHandle'' in
      if \<not> json_truthy handle then ack_each sq client url (deleted, failures @ [(mid, ''Missing ReceiptHandle.'')]) ms w
      else case sq_delete sq client url handle w of
             (Inr _, w') \<Rightarrow> ack_each sq client url (deleted @ [mid], failures) ms w'
           | (Inl (ClientError code message txt), w') \<Rightarrow>
               ack_each sq client url (deleted, failures @ [(mid, or_text code ''ClientError'' @ '': '' @ or_text message txt)]) ms w'
           | (Inl (OtherError e), w') \<Rightarrow> (Inl e, w'))"
| "ack_each sq client url (deleted, failures) ((i, _) # ms) w =
     ack_each sq client url (deleted, failures @ [(index_name i, ''Invalid message format.'')]) ms w"

definition ack_failed :: "nat \<Rightarrow> nat \<Rightarrow> (string \<times> string) list \<Rightarrow> py_error" where
  "ack_failed asked deleted failures =
     AppException (''ACK failed for '' @ nat_text (length failures) @ '' of '' @ nat_text asked @ '' message(s). Deleted='' @ nat_text deleted @
       ''. Failed IDs: '' @ join_with '', '' (map fst (take 5 failures)) @ (if length failures > 5 then '', ...'' else []))"

definition ack_from :: "'w sqs \<Rightarrow> sqs_client \<Rightarrow> string option \<Rightarrow> json list \<Rightarrow> ('w, json list) call" where
  "ack_from sq client url messages =
     sbind (ack_each sq client url ([], []) (enumerate 1 messages)) (\<lambda>(deleted, failures).
       if failures \<noteq> [] then sraise (ack_failed (length messages) (length deleted) failures)
       else spure (map (\<lambda>i. JObj [(''status'', JStr ''ok''), (''message_id'', JStr i)]) deleted))"

section \<open>Metrics\<close>

definition safe_int_text :: "(string \<Rightarrow> int option) \<Rightarrow> string option \<Rightarrow> json" where
  "safe_int_text to_int v = (case Option.bind v to_int of None \<Rightarrow> JNull | Some n \<Rightarrow> JInt n)"

text \<open>\<open>to_int\<close> is \<open>int\<close> of a text, \<open>to_iso\<close> the text of a moment, which raises out of the range of dates.\<close>

definition queue_metrics ::
  "'w sqs \<Rightarrow> (string \<Rightarrow> int option) \<Rightarrow> (int \<Rightarrow> string result) \<Rightarrow> sqs_client \<Rightarrow> string option \<Rightarrow> ('w, json dict) call" where
  "queue_metrics sq to_int to_iso client url =
     sbind (test_url_connection sq client url) (\<lambda>_.
     sbind (sqs_call sqs_raised (sq_attributes sq client url)) (\<lambda>attrs.
     sbind (slift (case Option.bind (dict_get attrs ''LastModifiedTimestamp'') to_int of
                     None \<Rightarrow> Inr JNull | Some t \<Rightarrow> rbind (to_iso t) (\<lambda>s. Inr (JStr s)))) (\<lambda>last.
       spure [(''messages_sent'', safe_int_text to_int (dict_get attrs ''ApproximateNumberOfMessages'')),
              (''messages_received'', safe_int_text to_int (dict_get attrs ''ApproximateNumberOfMessagesNotVisible'')),
              (''last_update'', last)])))"

section \<open>Rows and sessions\<close>

record queue_table_row =
  qe_id :: string
  qe_broker :: string
  qe_code :: string
  qe_description :: "string option"
  qe_cfg :: "json dict"

text \<open>
  The state: the world of the clients and connections, the table \<open>queues\<close> with the identifiers that are left for new rows, and
  the reader threads: \<open>ap_threads\<close> is the dictionary of the module, \<open>ap_running\<close> the threads that are alive.
\<close>

record 'w broker_app =
  ap_world :: 'w
  ap_queues :: "queue_table_row list"
  ap_ids :: "nat \<Rightarrow> string"
  ap_next :: nat
  ap_threads :: "(string \<times> nat) list"
  ap_running :: "nat list"
  ap_started :: nat

record 'w broker_env =
  bv_services :: "'w services"
  bv_sqs :: "'w sqs"
  bv_fields :: field_types
  bv_bool :: "json \<Rightarrow> bool result"
  bv_host :: "string option"
  bv_int :: "string \<Rightarrow> int option"
  bv_iso :: "int \<Rightarrow> string result"

definition on_world :: "('w, 'a) call \<Rightarrow> ('w broker_app, 'a) call" where
  "on_world m s = (case m (ap_world s) of (r, w) \<Rightarrow> (r, s\<lparr>ap_world := w\<rparr>))"

text \<open>\<open>managed_session\<close>: an exception takes the rows back, what was done to the brokers stays.\<close>

definition queue_session :: "('w broker_app, 'a) call \<Rightarrow> ('w broker_app, 'a) call" where
  "queue_session m s =
     (case m s of (Inl e, s') \<Rightarrow> (Inl e, s'\<lparr>ap_queues := ap_queues s\<rparr>) | (Inr x, s') \<Rightarrow> (Inr x, s'))"

definition get_queue :: "'w broker_app \<Rightarrow> string \<Rightarrow> queue_table_row option" where
  "get_queue s i = find (\<lambda>q. qe_id q = i) (ap_queues s)"

definition queues_of_broker :: "'w broker_app \<Rightarrow> string \<Rightarrow> queue_table_row list" where
  "queues_of_broker s b = filter (\<lambda>q. qe_broker q = b) (ap_queues s)"

definition insert_queue_entity :: "string \<Rightarrow> string \<Rightarrow> string option \<Rightarrow> queue_cfg \<Rightarrow> ('w broker_app, string) call" where
  "insert_queue_entity broker code description c s =
     (let i = ap_ids s (ap_next s) in
      (Inr i, s\<lparr>ap_queues := ap_queues s @
          [\<lparr>qe_id = i, qe_broker = broker, qe_code = code, qe_description = description, qe_cfg = dump_queue_configuration c\<rparr>],
        ap_next := Suc (ap_next s)\<rparr>))"

definition delete_queue_row :: "string \<Rightarrow> 'w broker_app \<Rightarrow> 'w broker_app" where
  "delete_queue_row i s = s\<lparr>ap_queues := filter (\<lambda>q. qe_id q \<noteq> i) (ap_queues s)\<rparr>"

definition queue_cfg_of :: "'w broker_env \<Rightarrow> queue_table_row \<Rightarrow> queue_cfg result" where
  "queue_cfg_of v q = convert_queue_configuration (bv_fields v) (bv_bool v) (qe_cfg q)"

definition no_attribute :: "string \<Rightarrow> string \<Rightarrow> py_error" where
  "no_attribute t a = AttributeError (quoted t @ '' object has no attribute '' @ quoted a)"

text \<open>The configuration and the address of a queue, and the services of a broker.\<close>

definition load_queue_configuration :: "'w broker_env \<Rightarrow> string \<Rightarrow> ('w broker_app, queue_cfg) call" where
  "load_queue_configuration v i s =
     (case get_queue s i of
        None \<Rightarrow> (Inl (AppException (''Queue with id '' @ quoted i @ '' not found'')), s)
      | Some q \<Rightarrow> (queue_cfg_of v q, s))"

definition broker_service :: "'w broker_env \<Rightarrow> string \<Rightarrow> ('w broker_app, json \<times> broker_kind) call" where
  "broker_service v broker =
     sbind (on_world (load_broker_connection (bv_services v) broker)) (\<lambda>config.
     sbind (slift (get_queue_service config)) (\<lambda>k. spure (config, k)))"

definition locate_queue ::
  "'w broker_env \<Rightarrow> json \<Rightarrow> broker_kind \<Rightarrow> string \<Rightarrow> ('w broker_app, queue_cfg \<times> sqs_client \<times> string option) call" where
  "locate_queue v config k i =
     sbind (load_queue_configuration v i) (\<lambda>c.
     sbind (slift (extract_url (bv_host v) k c)) (\<lambda>url. spure (c, client_of k config, url)))"

definition test_queue :: "'w broker_env \<Rightarrow> json \<Rightarrow> broker_kind \<Rightarrow> string \<Rightarrow> ('w broker_app, sqs_client \<times> string option) call" where
  "test_queue v config k i =
     sbind (locate_queue v config k i) (\<lambda>(c, client, url).
     sbind (on_world (test_url_connection (bv_sqs v) client url)) (\<lambda>_. spure (client, url)))"

section \<open>The operations of a service\<close>

definition publish_messages :: "'w broker_env \<Rightarrow> json \<Rightarrow> broker_kind \<Rightarrow> string \<Rightarrow> json list \<Rightarrow> ('w broker_app, json list) call" where
  "publish_messages v config k i messages =
     sbind (test_queue v config k i) (\<lambda>(client, url). on_world (smap (publish_one (bv_sqs v) client url) messages))"

definition receive_messages :: "'w broker_env \<Rightarrow> json \<Rightarrow> broker_kind \<Rightarrow> string \<Rightarrow> int \<Rightarrow> ('w broker_app, json dict list) call" where
  "receive_messages v config k i count =
     sbind (locate_queue v config k i) (\<lambda>(c, client, url). on_world (receive_from (bv_sqs v) client url c count))"

definition ack_messages :: "'w broker_env \<Rightarrow> json \<Rightarrow> broker_kind \<Rightarrow> string \<Rightarrow> json list \<Rightarrow> ('w broker_app, json list) call" where
  "ack_messages v config k i messages =
     sbind (test_queue v config k i) (\<lambda>(client, url). on_world (ack_from (bv_sqs v) client url messages))"

definition get_queue_metrics :: "'w broker_env \<Rightarrow> json \<Rightarrow> broker_kind \<Rightarrow> string \<Rightarrow> ('w broker_app, json dict) call" where
  "get_queue_metrics v config k i =
     sbind (locate_queue v config k i) (\<lambda>(c, client, url).
       on_world (queue_metrics (bv_sqs v) (bv_int v) (bv_iso v) client url))"

section \<open>Brokers\<close>

record queue_request =
  qr_code :: string
  qr_description :: "string option"
  qr_cfg :: queue_cfg
  qr_save :: bool

text \<open>\<open>ElasticmqBrokerConnectionService.create_attributes\<close>; an integer that is zero counts as absent.\<close>

definition create_attributes :: "queue_cfg \<Rightarrow> elastic_fields \<Rightarrow> string dict" where
  "create_attributes c e =
     [(''VisibilityTimeout'', int_text (if qc_visibility c = 0 then 30 else qc_visibility c)), (''DelaySeconds'', int_text (el_delay e)),
      (''ReceiveMessageWaitTimeSeconds'', int_text (qc_wait c))] @
     (if el_fifo e then [(''FifoQueue'', ''true'')] @ (if el_dedup e then [(''ContentBasedDeduplication'', ''true'')] else []) else [])"

definition created_queue :: "string \<Rightarrow> string option \<Rightarrow> json" where
  "created_queue i url = JObj [(''id'', JStr i), (''queue_url'', opt_json url)]"

fun create_queue :: "'w broker_env \<Rightarrow> broker_kind \<Rightarrow> json \<Rightarrow> string \<Rightarrow> string \<Rightarrow> queue_request \<Rightarrow> ('w broker_app, json) call" where
  "create_queue v AmazonBroker config broker tenant r =
     (let url = str_or_empty (jget (fields_of config) ''endpointUrl'') @ ''/'' @ qr_code r in
      sbind (on_world (test_url_connection (bv_sqs v) (client_of AmazonBroker config) (Some url))) (\<lambda>_.
      sbind (queue_session (insert_queue_entity broker (qr_code r) (qr_description r) ((qr_cfg r)\<lparr>qc_url := Some url\<rparr>))) (\<lambda>_.
        spure JNull)))"
| "create_queue v ElasticBroker config broker tenant r =
     (case qc_elastic (qr_cfg r) of
        None \<Rightarrow> sraise (no_attribute ''AmazonQueueConfigurationDto'' ''delay'')
      | Some e \<Rightarrow>
          (let code = (if el_fifo e \<and> \<not> ends_with ''.fifo'' (qr_code r) then qr_code r @ ''.fifo'' else qr_code r);
               name = (if tenant \<noteq> [] then tenant @ ''-'' @ code else code) in
           sbind (on_world (sqs_call (sqs_caught (\<lambda>t. RuntimeError (''Error creating SQS queue: '' @ t)))
               (sq_create (bv_sqs v) (client_of ElasticBroker config) name (create_attributes (qr_cfg r) e)))) (\<lambda>url.
             if qr_save r then
               sbind (queue_session (insert_queue_entity broker code (qr_description r) ((qr_cfg r)\<lparr>qc_url := url\<rparr>))) (\<lambda>i.
                 spure (created_queue i url))
             else spure (created_queue [] url))))"

text \<open>The amazon service names the queue by an attribute the configuration does not have.\<close>

definition existing_queue :: "string \<Rightarrow> ('w broker_app, queue_table_row) call" where
  "existing_queue i s =
     (case get_queue s i of None \<Rightarrow> (Inl (no_attribute ''NoneType'' ''configuration_json''), s) | Some q \<Rightarrow> (Inr q, s))"

fun delete_queue :: "'w broker_env \<Rightarrow> broker_kind \<Rightarrow> json \<Rightarrow> string \<Rightarrow> ('w broker_app, json) call" where
  "delete_queue v AmazonBroker config i =
     queue_session (sbind (existing_queue i) (\<lambda>q. sbind (slift (queue_cfg_of v q)) (\<lambda>c.
       sbind (\<lambda>s. (Inr (), delete_queue_row i s)) (\<lambda>_.
         sraise (no_attribute (if qc_elastic c = None then ''AmazonQueueConfigurationDto'' else ''ElasticmqQueueConfigurationDto'') ''queue_url'')))))"
| "delete_queue v ElasticBroker config i =
     queue_session (sbind (existing_queue i) (\<lambda>q. sbind (slift (queue_cfg_of v q)) (\<lambda>c.
       sbind (on_world (sqs_call (sqs_caught (\<lambda>t. RuntimeError (''Error deleting SQS queue: '' @ t)))
           (sq_remove (bv_sqs v) (client_of ElasticBroker config) (qc_url c)))) (\<lambda>_.
       sbind (\<lambda>s. (Inr (), delete_queue_row i s)) (\<lambda>_.
         spure (JObj [(''message'', JStr (''Queue '' @ (case qc_url c of None \<Rightarrow> ''None'' | Some u \<Rightarrow> u) @ '' deleted successfully''))]))))))"

section \<open>The endpoints\<close>

definition as_broker_error :: "(string \<Rightarrow> string) \<Rightarrow> ('s, 'a) call \<Rightarrow> ('s, 'a) call" where
  "as_broker_error f m s = (case m s of (Inl e, s') \<Rightarrow> (Inl (AppException (f (error_text e))), s') | r \<Rightarrow> r)"

definition no_stats :: "json dict" where
  "no_stats = [(''messages_sent'', JNull), (''messages_received'', JNull), (''last_update'', JNull)]"

definition queue_stats :: "'w broker_env \<Rightarrow> json \<Rightarrow> string \<Rightarrow> ('w broker_app, json dict) call" where
  "queue_stats v config i s =
     (case sbind (slift (get_queue_service config)) (\<lambda>k. get_queue_metrics v config k i) s of
        (Inl _, s') \<Rightarrow> (Inr no_stats, s') | r \<Rightarrow> r)"

definition queue_fields :: "queue_table_row \<Rightarrow> queue_cfg \<Rightarrow> json dict" where
  "queue_fields q c =
     [(''id'', JStr (qe_id q)), (''code'', JStr (qe_code q)), (''description'', opt_json (qe_description q)),
      (''configurationQueue'', JObj (dump_queue_configuration c))]"

definition describe_queue :: "'w broker_env \<Rightarrow> json \<Rightarrow> queue_table_row \<Rightarrow> ('w broker_app, json) call" where
  "describe_queue v config q =
     sbind (slift (queue_cfg_of v q)) (\<lambda>c. sbind (queue_stats v config (qe_id q)) (\<lambda>d.
       spure (JObj (queue_fields q c @ [(''messages_sent'', jget d ''messages_sent''),
         (''messages_received'', jget d ''messages_received''), (''last_update'', jget d ''last_update'')]))))"

definition find_all_queues :: "'w broker_env \<Rightarrow> string \<Rightarrow> ('w broker_app, json list) call" where
  "find_all_queues v broker s =
     queue_session (sbind (on_world (load_broker_connection (bv_services v) broker)) (\<lambda>config.
       smap (describe_queue v config) (queues_of_broker s broker))) s"

definition find_queue_api :: "'w broker_env \<Rightarrow> string \<Rightarrow> ('w broker_app, json) call" where
  "find_queue_api v i s =
     (case get_queue s i of
        None \<Rightarrow> (Inl (AppException (''Queue with name '' @ quoted i @ '' not found'')), s)
      | Some q \<Rightarrow> (rbind (queue_cfg_of v q) (\<lambda>c. Inr (JObj (queue_fields q c))), s))"

definition insert_queue_api :: "'w broker_env \<Rightarrow> string \<Rightarrow> string \<Rightarrow> queue_request \<Rightarrow> ('w broker_app, json) call" where
  "insert_queue_api v tenant broker r =
     as_broker_error (\<lambda>t. t) (sbind (broker_service v broker) (\<lambda>(config, k). create_queue v k config broker tenant r))"

definition delete_queue_api :: "'w broker_env \<Rightarrow> string \<Rightarrow> string \<Rightarrow> ('w broker_app, json) call" where
  "delete_queue_api v broker i =
     as_broker_error (\<lambda>t. ''Could not delete queue '' @ quoted i @ '': '' @ t)
       (sbind (broker_service v broker) (\<lambda>(config, k). delete_queue v k config i))"

definition update_queue_api :: "string \<Rightarrow> string \<Rightarrow> string \<Rightarrow> string option \<Rightarrow> ('w broker_app, json) call" where
  "update_queue_api broker i code description s =
     (case get_queue s i of
        None \<Rightarrow> (Inl (AppException (''Queue with id '' @ quoted i @ '' not found'')), s)
      | Some q \<Rightarrow>
          if qe_broker q \<noteq> broker then (Inl (AppException (''Queue '' @ quoted i @ '' does not belong to broker '' @ quoted broker)), s)
          else (let d = (case description of None \<Rightarrow> qe_description q | Some t \<Rightarrow> Some t) in
            (Inr (JObj [(''id'', JStr i), (''code'', JStr code), (''description'', opt_json d)]),
             s\<lparr>ap_queues := map (\<lambda>r. if qe_id r = i then r\<lparr>qe_code := code, qe_description := d\<rparr> else r) (ap_queues s)\<rparr>)))"

definition publish_messages_api :: "'w broker_env \<Rightarrow> string \<Rightarrow> string \<Rightarrow> json list \<Rightarrow> ('w broker_app, json list) call" where
  "publish_messages_api v broker i messages = sbind (broker_service v broker) (\<lambda>(config, k). publish_messages v config k i messages)"

definition test_queue_connection_api :: "'w broker_env \<Rightarrow> string \<Rightarrow> string \<Rightarrow> ('w broker_app, json) call" where
  "test_queue_connection_api v broker i =
     sbind (broker_service v broker) (\<lambda>(config, k). sbind (test_queue v config k i) (\<lambda>_.
       spure (JObj [(''message'', JStr ''Connection is valid'')])))"

definition receive_messages_api :: "'w broker_env \<Rightarrow> string \<Rightarrow> string \<Rightarrow> int \<Rightarrow> ('w broker_app, json dict list) call" where
  "receive_messages_api v broker i count = sbind (broker_service v broker) (\<lambda>(config, k). receive_messages v config k i count)"

definition ack_messages_api :: "'w broker_env \<Rightarrow> string \<Rightarrow> string \<Rightarrow> json list \<Rightarrow> ('w broker_app, json list) call" where
  "ack_messages_api v broker i messages = sbind (broker_service v broker) (\<lambda>(config, k). ack_messages v config k i messages)"

section \<open>Reader threads\<close>

text \<open>A thread is named by its number; the dictionary is asked for the broker and written for the queue.\<close>

definition thread_status :: "string \<Rightarrow> json" where
  "thread_status t = JObj [(''status'', JStr t)]"

definition reader_of_queue :: "'w broker_env \<Rightarrow> string \<Rightarrow> ('w broker_app, queue_cfg) call" where
  "reader_of_queue v i s =
     (case get_queue s i of
        None \<Rightarrow> (Inl (no_attribute ''NoneType'' ''code''), s) | Some q \<Rightarrow> (queue_cfg_of v q, s))"

definition start_receiving :: "'w broker_env \<Rightarrow> string \<Rightarrow> string \<Rightarrow> ('w broker_app, json) call" where
  "start_receiving v broker i =
     sbind (broker_service v broker) (\<lambda>_. sbind (reader_of_queue v i) (\<lambda>_ s.
       case map_of (ap_threads s) broker of
         Some t \<Rightarrow> if t \<in> set (ap_running s) then (Inr (thread_status ''already_running''), s)
           else (Inr (thread_status ''started''), s\<lparr>ap_threads := dict_set i (ap_started s) (ap_threads s),
                   ap_running := ap_running s @ [ap_started s], ap_started := Suc (ap_started s)\<rparr>)
       | None \<Rightarrow> (Inr (thread_status ''started''), s\<lparr>ap_threads := dict_set i (ap_started s) (ap_threads s),
                   ap_running := ap_running s @ [ap_started s], ap_started := Suc (ap_started s)\<rparr>)))"

definition stop_receiving :: "string \<Rightarrow> ('w broker_app, json) call" where
  "stop_receiving i s =
     (case map_of (ap_threads s) i of
        None \<Rightarrow> (Inr (thread_status ''stopped''), s)
      | Some t \<Rightarrow> (Inr (thread_status ''stopped''),
          s\<lparr>ap_running := filter (\<lambda>x. x \<noteq> t) (ap_running s), ap_threads := filter (\<lambda>e. fst e \<noteq> i) (ap_threads s)\<rparr>))"

end
