(* ===== verification/QueueReader.thy ===== *)
theory QueueReader
  imports BrokerQueues
begin

text \<open>
  The thread that copies the messages of a queue into a table (\<open>app/brokers/services/elaborations/queue_reader_thread.py\<close>).
  A turn of its loop is given by what the calls of the turn return: whether the stop event is set, what the queue hands out,
  and whether the insertion and the hiding of the messages raise. The rows of the log, the identifiers and the dates of the
  inserted rows are left out.
\<close>

definition swap_char :: "char \<Rightarrow> char \<Rightarrow> string \<Rightarrow> string" where
  "swap_char a b s = map (\<lambda>c. if c = a then b else c) s"

definition export_table_name :: "string \<Rightarrow> string" where
  "export_table_name code = py_lower (swap_char (CHR ''.'') (CHR ''_'') (swap_char (CHR ''-'') (CHR ''_'') (code @ ''_export'')))"

definition reader_wait :: "queue_cfg \<Rightarrow> int" where
  "reader_wait c = (if qc_wait c \<noteq> 0 then qc_wait c else 20)"

record turn =
  tu_stop :: bool
  tu_received :: "json dict list result"
  tu_insert :: "unit result"
  tu_hide :: "unit result"

record reader =
  rd_batch :: "json dict list"
  rd_retries :: nat
  rd_rounds :: nat
  rd_rows :: "json list"
  rd_hidden :: "json dict list"
  rd_pauses :: "int list"

definition new_reader :: reader where
  "new_reader = \<lparr>rd_batch = [], rd_retries = 0, rd_rounds = 0, rd_rows = [], rd_hidden = [], rd_pauses = []\<rparr>"

definition body_of :: "(string \<Rightarrow> json result) \<Rightarrow> json dict \<Rightarrow> json result" where
  "body_of loads m =
     (case dict_get m ''Body'' of
        None \<Rightarrow> Inl (KeyError ''Body'') | Some (JStr s) \<Rightarrow> loads s | Some b \<Rightarrow> Inr b)"

text \<open>The rows of the batch are inserted, then its messages are hidden for five minutes, then the batch is emptied.\<close>

definition save_batch :: "(string \<Rightarrow> json result) \<Rightarrow> turn \<Rightarrow> reader \<Rightarrow> unit result \<times> reader" where
  "save_batch loads t r =
     (if rd_batch r = [] then (Inr (), r)
      else case mapM (body_of loads) (rd_batch r) of
             Inl e \<Rightarrow> (Inl e, r)
           | Inr bodies \<Rightarrow>
               (case tu_insert t of
                  Inl e \<Rightarrow> (Inl e, r)
                | Inr _ \<Rightarrow>
                    (case tu_hide t of
                       Inl e \<Rightarrow> (Inl e, r\<lparr>rd_rows := rd_rows r @ bodies\<rparr>)
                     | Inr _ \<Rightarrow> (Inr (), r\<lparr>rd_rows := rd_rows r @ bodies, rd_hidden := rd_hidden r @ rd_batch r, rd_batch := []\<rparr>))))"

text \<open>A turn, with whether the loop ends in it. The counter of empty turns is never set back.\<close>

definition reader_turn :: "(string \<Rightarrow> json result) \<Rightarrow> int \<Rightarrow> turn \<Rightarrow> reader \<Rightarrow> bool \<times> reader" where
  "reader_turn loads wait t r =
     (if tu_stop t then (True, r)
      else case tu_received t of
             Inl e \<Rightarrow> (False, r)
           | Inr ms \<Rightarrow>
               if ms = [] then
                 (case save_batch loads t (r\<lparr>rd_retries := Suc (rd_retries r)\<rparr>) of
                    (Inl e, r') \<Rightarrow> (False, r')
                  | (Inr _, r') \<Rightarrow> if 5 \<le> rd_retries r' then (True, r') else (False, r'\<lparr>rd_pauses := rd_pauses r' @ [wait]\<rparr>))
               else (False, r\<lparr>rd_batch := rd_batch r @ ms, rd_rounds := Suc (rd_rounds r)\<rparr>))"

fun reader_loop :: "(string \<Rightarrow> json result) \<Rightarrow> int \<Rightarrow> turn list \<Rightarrow> reader \<Rightarrow> bool \<times> reader" where
  "reader_loop loads wait [] r = (False, r)"
| "reader_loop loads wait (t # ts) r =
     (case reader_turn loads wait t r of (True, r') \<Rightarrow> (True, r') | (False, r') \<Rightarrow> reader_loop loads wait ts r')"

text \<open>
  The writer thread (\<open>queue_writer_thread.py\<close>): the bodies of a table in the order of their identifiers are published; a
  table that cannot be read ends the thread.
\<close>

definition write_queue ::
  "'w broker_env \<Rightarrow> json \<Rightarrow> broker_kind \<Rightarrow> string \<Rightarrow> ('w, json dict list) call \<Rightarrow> ('w broker_app, json list) call" where
  "write_queue v config k i rows s =
     (case on_world rows s of
        (Inl e, s') \<Rightarrow> (Inr [], s')
      | (Inr ds, s') \<Rightarrow>
          sbind (slift (mapM (\<lambda>d. case dict_get d ''body'' of None \<Rightarrow> Inl (KeyError ''body'') | Some b \<Rightarrow> Inr b) ds))
            (publish_messages v config k i) s')"

end
