(* ===== verification/BrokerQueueProps.thy ===== *)
theory BrokerQueueProps
  imports QueueReader ExecutorProps
begin

text \<open>
  Queues: what the reader thread saves and when it ends, what an acknowledgement deletes and reports, threads that cannot be
  stopped, and queues that cannot be deleted.
\<close>

section \<open>The reader\<close>

definition empty_turn :: "turn \<Rightarrow> bool" where
  "empty_turn t \<longleftrightarrow> tu_received t = Inr []"

lemma empty_turn_iff: "tu_received t = Inr xs \<Longrightarrow> empty_turn t \<longleftrightarrow> xs = []"
  by (simp add: empty_turn_def)

text \<open>A turn in which nothing goes wrong.\<close>

definition calm :: "(string \<Rightarrow> json result) \<Rightarrow> turn \<Rightarrow> bool" where
  "calm loads t \<longleftrightarrow> \<not> tu_stop t \<and> tu_insert t = Inr () \<and> tu_hide t = Inr () \<and>
     (\<exists>ms bs. tu_received t = Inr ms \<and> mapM (body_of loads) ms = Inr bs)"

definition received :: "turn list \<Rightarrow> json dict list" where
  "received ts = concat (map (\<lambda>t. case tu_received t of Inl _ \<Rightarrow> [] | Inr ms \<Rightarrow> ms) ts)"

lemma received_simps [simp]:
  "received [] = []" "received (t # ts) = (case tu_received t of Inl _ \<Rightarrow> [] | Inr ms \<Rightarrow> ms) @ received ts"
  by (simp_all add: received_def)

text \<open>What the reader has read so far: the rows it saved and the batch it holds.\<close>

definition accounted :: "(string \<Rightarrow> json result) \<Rightarrow> json dict list \<Rightarrow> reader \<Rightarrow> bool" where
  "accounted loads ms r \<longleftrightarrow> (\<exists>bs. mapM (body_of loads) (rd_batch r) = Inr bs \<and> mapM (body_of loads) ms = Inr (rd_rows r @ bs))"

lemma mapM_append_Inr: "mapM f xs = Inr ys \<Longrightarrow> mapM f (xs @ zs) = rbind (mapM f zs) (\<lambda>ws. Inr (ys @ ws))"
  by (induction xs arbitrary: ys) (auto simp: rbind_def split: sum.splits)

lemma calm_save:
  assumes "calm loads t" and "accounted loads ms r"
  shows "\<exists>r'. save_batch loads t r = (Inr (), r') \<and> rd_batch r' = [] \<and> accounted loads ms r' \<and>
    rd_retries r' = rd_retries r \<and> rd_pauses r' = rd_pauses r"
  using assms by (auto simp: save_batch_def calm_def accounted_def)

lemma calm_full_turn:
  assumes "calm loads t" and "accounted loads ms r" and "tu_received t = Inr xs" and "xs \<noteq> []"
  shows "\<exists>r'. reader_turn loads wait t r = (False, r') \<and> accounted loads (ms @ xs) r' \<and>
    rd_retries r' = rd_retries r \<and> rd_pauses r' = rd_pauses r"
  using assms by (auto simp: reader_turn_def calm_def accounted_def mapM_append_Inr)

lemma calm_empty_turn:
  assumes "calm loads t" and "accounted loads ms r" and "tu_received t = Inr []"
  shows "\<exists>r'. reader_turn loads wait t r = (4 \<le> rd_retries r, r') \<and> accounted loads ms r' \<and> rd_batch r' = [] \<and>
    rd_retries r' = Suc (rd_retries r) \<and> rd_pauses r' = rd_pauses r @ (if 4 \<le> rd_retries r then [] else [wait])"
proof -
  let ?r = "r\<lparr>rd_retries := Suc (rd_retries r)\<rparr>"
  have "accounted loads ms ?r" using assms(2) by (simp add: accounted_def)
  from calm_save [OF assms(1) this] obtain r' where saved: "save_batch loads t ?r = (Inr (), r')" "rd_batch r' = []" "accounted loads ms r'"
    "rd_retries r' = Suc (rd_retries r)" "rd_pauses r' = rd_pauses r" by auto
  then show ?thesis using assms(1,3) by (auto simp: reader_turn_def calm_def accounted_def)
qed

lemma calm_run:
  assumes "list_all (calm loads) ts" and "accounted loads ms r" and "rd_retries r \<le> 4"
    and "5 - rd_retries r \<le> length (filter empty_turn ts)"
  shows "\<exists>n r'. reader_loop loads wait ts r = (True, r') \<and> rd_batch r' = [] \<and> accounted loads (ms @ received (take n ts)) r' \<and>
    length (filter empty_turn (take n ts)) = 5 - rd_retries r \<and> rd_pauses r' = rd_pauses r @ replicate (4 - rd_retries r) wait"
  using assms
proof (induction ts arbitrary: ms r)
  case (Cons t ts)
  then have t: "calm loads t" and ts: "list_all (calm loads) ts" by simp_all
  then obtain xs where xs: "tu_received t = Inr xs" by (auto simp: calm_def)
  show ?case
  proof (cases "xs = []")
    case False
    from calm_full_turn [OF t Cons.prems(2) xs False] obtain r1 where r1: "reader_turn loads wait t r = (False, r1)"
      "accounted loads (ms @ xs) r1" "rd_retries r1 = rd_retries r" "rd_pauses r1 = rd_pauses r" by blast
    have "5 - rd_retries r1 \<le> length (filter empty_turn ts)" using Cons.prems(4) False r1(3) by (simp add: empty_turn_iff [OF xs])
    from Cons.IH [OF ts r1(2) _ this] Cons.prems(3) r1 obtain n r' where
      "reader_loop loads wait ts r1 = (True, r')" "rd_batch r' = []" "accounted loads ((ms @ xs) @ received (take n ts)) r'"
      "length (filter empty_turn (take n ts)) = 5 - rd_retries r" "rd_pauses r' = rd_pauses r @ replicate (4 - rd_retries r) wait" by auto
    then show ?thesis using r1(1) xs False by (intro exI [of _ "Suc n"] exI [of _ r']) (simp add: empty_turn_iff)
  next
    case True
    from calm_empty_turn [OF t Cons.prems(2)] xs True obtain r1 where r1: "reader_turn loads wait t r = (4 \<le> rd_retries r, r1)"
      "accounted loads ms r1" "rd_batch r1 = []" "rd_retries r1 = Suc (rd_retries r)"
      "rd_pauses r1 = rd_pauses r @ (if 4 \<le> rd_retries r then [] else [wait])" by blast
    show ?thesis
    proof (cases "4 \<le> rd_retries r")
      case True
      then show ?thesis using r1 xs \<open>xs = []\<close> Cons.prems(3) by (intro exI [of _ 1] exI [of _ r1]) (simp add: empty_turn_iff)
    next
      case False
      have "5 - rd_retries r1 \<le> length (filter empty_turn ts)" using Cons.prems(4) True r1(4) False by (simp add: empty_turn_iff [OF xs])
      from Cons.IH [OF ts r1(2) _ this] False r1(4) obtain n r' where
        "reader_loop loads wait ts r1 = (True, r')" "rd_batch r' = []" "accounted loads (ms @ received (take n ts)) r'"
        "length (filter empty_turn (take n ts)) = 4 - rd_retries r"
        "rd_pauses r' = rd_pauses r1 @ replicate (3 - rd_retries r) wait" by (auto simp: numeral_eq_Suc)
      then show ?thesis using r1 xs True False
        by (intro exI [of _ "Suc n"] exI [of _ r']) (auto simp: empty_turn_iff replicate_app_Cons_same Suc_diff_le simp flip: replicate_Suc)
    qed
  qed
qed simp

text \<open>A message whose body cannot be read stays in the batch.\<close>

lemma poisoned_turn:
  assumes "m \<in> set (rd_batch r)" and "body_of loads m = Inl e" and "\<not> tu_stop t"
  shows "\<exists>r'. reader_turn loads wait t r = (False, r') \<and> m \<in> set (rd_batch r') \<and> rd_rows r' = rd_rows r \<and> rd_pauses r' = rd_pauses r"
proof -
  have "\<exists>e'. mapM (body_of loads) xs = Inl e'" if "m \<in> set xs" for xs
    using that assms(2) by (induction xs) (auto simp: rbind_def split: sum.splits)
  with assms(1) obtain e' where "mapM (body_of loads) (rd_batch r) = Inl e'" by blast
  then show ?thesis using assms(1,3) by (auto simp: reader_turn_def save_batch_def split: sum.split)
qed

lemma failing_queue_never_pauses:
  assumes "\<forall>t \<in> set ts. \<not> tu_stop t \<and> (\<exists>e. tu_received t = Inl e)"
  shows "reader_loop loads wait ts r = (False, r)"
  using assms by (induction ts) (auto simp: reader_turn_def)

text \<open>When the messages cannot be hidden after the rows are inserted, the next empty turn inserts the rows again.\<close>

lemma hiding_failure_saves_twice:
  assumes "mapM (body_of loads) (rd_batch r) = Inr bodies" and "rd_batch r \<noteq> []"
    and "t = \<lparr>tu_stop = False, tu_received = Inr [], tu_insert = Inr (), tu_hide = Inl e\<rparr>"
  shows "\<exists>r'. reader_loop loads wait [t, t] r = (False, r') \<and> rd_rows r' = rd_rows r @ bodies @ bodies"
  using assms by (simp add: reader_turn_def save_batch_def)

section \<open>Acknowledgements\<close>

definition receipt_handles :: "json list \<Rightarrow> json list" where
  "receipt_handles ms = filter json_truthy (map (\<lambda>m. jget (fields_of m) ''ReceiptHandle'') (filter is_obj ms))"

definition no_other_error :: "'w sqs \<Rightarrow> bool" where
  "no_other_error sq \<longleftrightarrow> (\<forall>client url h w e. fst (sq_delete sq client url h w) \<noteq> Inl (OtherError e))"

definition try_delete :: "'w sqs \<Rightarrow> sqs_client \<Rightarrow> string option \<Rightarrow> json \<Rightarrow> 'w \<Rightarrow> 'w" where
  "try_delete sq client url h w = snd (sq_delete sq client url h w)"

text \<open>One message moves to one of the two lists, and is tried when it has a receipt.\<close>

lemma ack_one:
  assumes "no_other_error sq"
  shows "\<exists>ds fs. ack_each sq client url (deleted, failures) ((n, m) # ms) w =
      ack_each sq client url (deleted @ ds, failures @ fs) ms (fold (try_delete sq client url) (receipt_handles [m]) w) \<and>
    length ds + length fs = 1 \<and> length ds \<le> length (receipt_handles [m])"
proof (cases m)
  case (JObj d)
  let ?h = "jget d ''ReceiptHandle''"
  show ?thesis
  proof (cases "json_truthy ?h")
    case True
    obtain r w' where del: "sq_delete sq client url ?h w = (r, w')" by fastforce
    have handles: "receipt_handles [m] = [?h]" using JObj True by (simp add: receipt_handles_def)
    show ?thesis
    proof (cases r)
      case (Inl e)
      have "fst (sq_delete sq client url ?h w) \<noteq> Inl (OtherError x)" for x using assms unfolding no_other_error_def by blast
      with Inl del obtain c t x where e: "e = ClientError c t x" by (cases e) auto
      show ?thesis unfolding handles using JObj True del Inl e
        by (intro exI [of _ "[]"] exI [of _ "[(_, _)]"]) (simp add: try_delete_def Let_def)
    next
      case (Inr u)
      show ?thesis unfolding handles using JObj True del Inr
        by (intro exI [of _ "[_]"] exI [of _ "[]"]) (simp add: try_delete_def Let_def)
    qed
  next
    case False
    then have "receipt_handles [m] = []" using JObj by (simp add: receipt_handles_def)
    then show ?thesis using JObj False by (intro exI [of _ "[]"] exI [of _ "[(_, _)]"]) (simp add: Let_def)
  qed
qed (intro exI [of _ "[]"] exI [of _ "[(_, _)]"], simp add: receipt_handles_def)+

lemma receipt_handles_Cons: "receipt_handles (m # ms) = receipt_handles [m] @ receipt_handles ms"
  by (simp add: receipt_handles_def)

lemma ack_each_spec:
  assumes "no_other_error sq"
  shows "\<exists>ds fs. ack_each sq client url (deleted, failures) (enumerate n ms) w =
      (Inr (deleted @ ds, failures @ fs), fold (try_delete sq client url) (receipt_handles ms) w) \<and>
    length ds + length fs = length ms \<and> length ds \<le> length (receipt_handles ms)"
proof (induction ms arbitrary: deleted failures n w)
  case (Cons m ms)
  from ack_one [OF assms, of client url deleted failures n m "enumerate (Suc n) ms" w] obtain ds fs where one:
    "ack_each sq client url (deleted, failures) (enumerate n (m # ms)) w =
       ack_each sq client url (deleted @ ds, failures @ fs) (enumerate (Suc n) ms) (fold (try_delete sq client url) (receipt_handles [m]) w)"
    "length ds + length fs = 1" "length ds \<le> length (receipt_handles [m])" by auto
  from Cons.IH [of "deleted @ ds" "failures @ fs" "Suc n" "fold (try_delete sq client url) (receipt_handles [m]) w"] obtain ds' fs' where rest:
    "ack_each sq client url (deleted @ ds, failures @ fs) (enumerate (Suc n) ms) (fold (try_delete sq client url) (receipt_handles [m]) w) =
       (Inr ((deleted @ ds) @ ds', (failures @ fs) @ fs'), fold (try_delete sq client url) (receipt_handles ms) (fold (try_delete sq client url) (receipt_handles [m]) w))"
    "length ds' + length fs' = length ms" "length ds' \<le> length (receipt_handles ms)" by blast
  show ?case using one rest
    by (intro exI [of _ "ds @ ds'"] exI [of _ "fs @ fs'"]) (simp add: receipt_handles_Cons [of m ms])
qed (simp add: receipt_handles_def)

section \<open>Reader threads\<close>

datatype reader_command = StartReader string string | StopReader string

fun reader_step :: "'w broker_env \<Rightarrow> 'w broker_app \<Rightarrow> reader_command \<Rightarrow> 'w broker_app" where
  "reader_step v s (StartReader broker i) = snd (start_receiving v broker i s)"
| "reader_step v s (StopReader i) = snd (stop_receiving i s)"

text \<open>A thread that runs and that no entry of the dictionary names.\<close>

definition orphan :: "nat \<Rightarrow> 'w broker_app \<Rightarrow> bool" where
  "orphan t s \<longleftrightarrow> t \<in> set (ap_running s) \<and> t \<notin> snd ` set (ap_threads s) \<and> t < ap_started s"

definition started_thread :: "string \<Rightarrow> 'w broker_app \<Rightarrow> 'w broker_app" where
  "started_thread i s = s\<lparr>ap_threads := dict_set i (ap_started s) (ap_threads s), ap_running := ap_running s @ [ap_started s],
     ap_started := Suc (ap_started s)\<rparr>"

lemma on_world_threads: "snd (on_world m s) = s\<lparr>ap_world := snd (m (ap_world s))\<rparr>"
  by (simp add: on_world_def split: prod.split)

lemma broker_service_state: "broker_service v broker s = (r, s') \<Longrightarrow> \<exists>w. s' = s\<lparr>ap_world := w\<rparr>"
  by (auto simp: broker_service_def sbind_def on_world_def slift_def spure_def split: prod.splits sum.splits)

lemma reader_of_queue_state: "snd (reader_of_queue v i s) = s"
  by (simp add: reader_of_queue_def split: option.split)

lemma start_receiving_state:
  assumes "start_receiving v broker i s = (r, s')"
  shows "\<exists>w. s' = s\<lparr>ap_world := w\<rparr> \<or> s' = started_thread i (s\<lparr>ap_world := w\<rparr>)"
proof -
  obtain r1 s1 where service: "broker_service v broker s = (r1, s1)" by fastforce
  from broker_service_state [OF this] obtain w where s1: "s1 = s\<lparr>ap_world := w\<rparr>" by blast
  obtain r2 where queue: "reader_of_queue v i s1 = (r2, s1)" using reader_of_queue_state [of v i s1] by (metis prod.collapse)
  show ?thesis using assms
    by (auto simp: start_receiving_def sbind_def service queue [unfolded s1] s1 started_thread_def split: sum.splits option.splits if_splits)
qed

lemma dict_set_member: "(j, t) \<in> set (dict_set k v d) \<Longrightarrow> t = v \<or> t \<in> snd ` set d"
  unfolding dict_set_def by (induction d) (force split: if_splits)+

lemma orphan_kept: "orphan t s \<Longrightarrow> orphan t (reader_step v s c)"
proof (induction c)
  case (StartReader b i)
  obtain r s' where run: "start_receiving v b i s = (r, s')" by fastforce
  from start_receiving_state [OF this] obtain w where "s' = s\<lparr>ap_world := w\<rparr> \<or> s' = started_thread i (s\<lparr>ap_world := w\<rparr>)" by blast
  then show ?case using StartReader run
    by (auto simp: orphan_def started_thread_def dest!: dict_set_member)
next
  case (StopReader i)
  then have "map_of (ap_threads s) i \<noteq> Some t" by (force simp: orphan_def dest: map_of_SomeD)
  with StopReader show ?case by (auto simp: orphan_def stop_receiving_def split: option.split)
qed

lemma orphan_stays: "orphan t s \<Longrightarrow> orphan t (foldl (reader_step v) s cs)"
  by (induction cs arbitrary: s) (simp_all add: orphan_kept)

lemma started_only:
  assumes "start_receiving v broker i s = (Inr x, s')" and "map_of (ap_threads s) broker = None"
  shows "x = thread_status ''started'' \<and> (\<exists>w. s' = started_thread i (s\<lparr>ap_world := w\<rparr>))"
proof -
  obtain r1 s1 where service: "broker_service v broker s = (r1, s1)" by fastforce
  from broker_service_state [OF this] obtain w where s1: "s1 = s\<lparr>ap_world := w\<rparr>" by blast
  obtain r2 where queue: "reader_of_queue v i s1 = (r2, s1)" using reader_of_queue_state [of v i s1] by (metis prod.collapse)
  show ?thesis using assms
    by (auto simp: start_receiving_def sbind_def service queue [unfolded s1] s1 started_thread_def split: sum.splits)
qed

section \<open>Properties\<close>

text \<open>C25. When nothing goes wrong, the reader ends with the fifth empty turn, having paused after the four before it; by then it
  has saved the body of every message it received, once and in the order of receipt.
\<close>

theorem reader_saves_what_it_receives:
  assumes "list_all (calm loads) ts" and "5 \<le> length (filter empty_turn ts)"
  shows "\<exists>n r. reader_loop loads wait ts new_reader = (True, r) \<and> rd_batch r = [] \<and>
    mapM (body_of loads) (received (take n ts)) = Inr (rd_rows r) \<and>
    length (filter empty_turn (take n ts)) = 5 \<and> rd_pauses r = replicate 4 wait"
proof -
  have "accounted loads [] new_reader" by (simp add: accounted_def new_reader_def)
  from calm_run [OF assms(1) this, of wait] assms(2) show ?thesis by (auto simp: new_reader_def accounted_def)
qed

definition sample_turn :: "json dict list \<Rightarrow> turn" where
  "sample_turn ms = \<lparr>tu_stop = False, tu_received = Inr ms, tu_insert = Inr (), tu_hide = Inr ()\<rparr>"

lemma sample_turn_calm: "calm loads (sample_turn ms) \<longleftrightarrow> (\<exists>bs. mapM (body_of loads) ms = Inr bs)"
  by (simp add: calm_def sample_turn_def)

definition sample_message :: "json \<Rightarrow> json dict" where
  "sample_message b = [(''MessageId'', JStr ''1''), (''ReceiptHandle'', JStr ''h''), (''Body'', b)]"

definition sample_turns :: "turn list" where
  "sample_turns = [sample_turn [sample_message (JStr ''a'')], sample_turn [], sample_turn [sample_message (JInt 2)],
     sample_turn [], sample_turn [], sample_turn [], sample_turn [], sample_turn []]"

theorem reader_saves_what_it_receives_witness:
  "\<exists>n r. reader_loop (\<lambda>s. Inr (JStr s)) 20 sample_turns new_reader = (True, r) \<and> rd_batch r = [] \<and>
    mapM (body_of (\<lambda>s. Inr (JStr s))) (received (take n sample_turns)) = Inr (rd_rows r) \<and>
    length (filter empty_turn (take n sample_turns)) = 5 \<and> rd_pauses r = replicate 4 20"
proof -
  have "list_all (calm (\<lambda>s. Inr (JStr s))) sample_turns"
    by (simp add: sample_turns_def sample_turn_calm sample_message_def body_of_def dict_get_def)
  moreover have "5 \<le> length (filter empty_turn sample_turns)" by (simp add: sample_turns_def sample_turn_def empty_turn_def)
  ultimately show ?thesis by (rule reader_saves_what_it_receives)
qed

text \<open>C24. A message whose body is no JSON text blocks the reader for good: it stays in the batch, no further row is saved, the
  loop never pauses and never ends unless the thread is stopped.
\<close>

theorem poison_message_blocks_reader:
  assumes "m \<in> set (rd_batch r)" and "body_of loads m = Inl e" and "\<forall>t \<in> set ts. \<not> tu_stop t"
  shows "\<exists>r'. reader_loop loads wait ts r = (False, r') \<and> m \<in> set (rd_batch r') \<and> rd_rows r' = rd_rows r \<and> rd_pauses r' = rd_pauses r"
  using assms(1,3)
proof (induction ts arbitrary: r)
  case (Cons t ts)
  from poisoned_turn [OF Cons.prems(1) assms(2)] Cons.prems(2) obtain r1 where r1: "reader_turn loads wait t r = (False, r1)"
    "m \<in> set (rd_batch r1)" "rd_rows r1 = rd_rows r" "rd_pauses r1 = rd_pauses r" by (metis list.set_intros(1))
  from Cons.IH [OF r1(2)] Cons.prems(2) r1 show ?case by auto
qed simp

theorem poison_message_blocks_reader_witness:
  "\<exists>r'. reader_loop (\<lambda>s. Inl (ValueError s)) 20 (replicate 9 (sample_turn []))
      (new_reader\<lparr>rd_batch := [sample_message (JInt 1), sample_message (JStr ''text'')]\<rparr>) = (False, r') \<and>
    rd_rows r' = [] \<and> rd_pauses r' = []"
proof -
  let ?r = "new_reader\<lparr>rd_batch := [sample_message (JInt 1), sample_message (JStr ''text'')]\<rparr>"
  have member: "sample_message (JStr ''text'') \<in> set (rd_batch ?r)" by simp
  have unreadable: "body_of (\<lambda>s. Inl (ValueError s)) (sample_message (JStr ''text'')) = Inl (ValueError ''text'')"
    by (simp add: body_of_def sample_message_def dict_get_def)
  have "\<forall>t \<in> set (replicate 9 (sample_turn [])). \<not> tu_stop t" by (simp add: sample_turn_def)
  from poison_message_blocks_reader [OF member unreadable this, of 20] obtain r' where
    "reader_loop (\<lambda>s. Inl (ValueError s)) 20 (replicate 9 (sample_turn [])) ?r = (False, r')"
    "rd_rows r' = rd_rows ?r" "rd_pauses r' = rd_pauses ?r" by blast
  then show ?thesis by (intro exI [of _ r']) (simp only: new_reader_def reader.simps)
qed

text \<open>An acknowledgement tries to delete every message that has a receipt, once and in order, whatever happens to the
  others. It returns only when every message was deleted; otherwise it reports how many failed, and the deleted ones stay deleted.
\<close>

theorem acknowledgement_reports_every_message:
  assumes "no_other_error sq" and "ack_from sq client url ms w = (r, w')"
  shows "w' = fold (try_delete sq client url) (receipt_handles ms) w \<and>
    (case r of Inr ds \<Rightarrow> length ds = length ms
     | Inl e \<Rightarrow> \<exists>deleted failures. e = ack_failed (length ms) deleted failures \<and> deleted + length failures = length ms \<and> failures \<noteq> [])"
proof -
  from ack_each_spec [OF assms(1), of client url "[]" "[]" 1 ms w] obtain ds fs where
    run: "ack_each sq client url ([], []) (enumerate 1 ms) w = (Inr (ds, fs), fold (try_delete sq client url) (receipt_handles ms) w)"
    and sizes: "length ds + length fs = length ms" by auto
  show ?thesis
  proof (cases "fs = []")
    case True
    with assms(2) run sizes show ?thesis by (auto simp: ack_from_def sbind_def spure_def)
  next
    case False
    then have "r = Inl (ack_failed (length ms) (length ds) fs)" "w' = fold (try_delete sq client url) (receipt_handles ms) w"
      using assms(2) run by (simp_all add: ack_from_def sbind_def sraise_def)
    with False sizes show ?thesis by (simp, blast)
  qed
qed

text \<open>A client on a list of receipts; only receipts that are there can be deleted.\<close>

definition sample_sqs :: "json list sqs" where
  "sample_sqs =
     \<lparr>sq_attributes = (\<lambda>_ _ w. (Inr [], w)), sq_send = (\<lambda>_ _ _ _ w. (Inr [], w)), sq_receive = (\<lambda>_ _ _ _ w. (Inr [], w)),
      sq_visibility = (\<lambda>_ _ _ _ w. (Inr (), w)),
      sq_delete = (\<lambda>_ _ h w. if h \<in> set w then (Inr (), removeAll h w) else (Inl (ClientError ''ReceiptHandleIsInvalid'' [] ''gone''), w)),
      sq_create = (\<lambda>_ _ _ w. (Inr None, w)), sq_remove = (\<lambda>_ _ w. (Inr (), w))\<rparr>"

theorem acknowledgement_reports_every_message_witness:
  "\<exists>e. ack_from sample_sqs (client_of ElasticBroker (JObj [])) None [JObj [(''ReceiptHandle'', JStr ''x'')], JObj (sample_message JNull)] [JStr ''h'', JStr ''k'']
      = (Inl e, [JStr ''k'']) \<and> (\<exists>deleted failures. e = ack_failed 2 deleted failures \<and> deleted + length failures = 2)"
proof -
  let ?ms = "[JObj [(''ReceiptHandle'', JStr ''x'')], JObj (sample_message JNull)]"
  have ok: "no_other_error sample_sqs" by (simp add: no_other_error_def sample_sqs_def)
  obtain r w' where run: "ack_from sample_sqs (client_of ElasticBroker (JObj [])) None ?ms [JStr ''h'', JStr ''k''] = (r, w')" by fastforce
  have "isl (fst (ack_from sample_sqs (client_of ElasticBroker (JObj [])) None ?ms [JStr ''h'', JStr ''k'']))" by code_simp
  then obtain e where r: "r = Inl e" using run by (auto simp: isl_def)
  have "fold (try_delete sample_sqs (client_of ElasticBroker (JObj [])) None) (receipt_handles ?ms) [JStr ''h'', JStr ''k''] = [JStr ''k'']" by code_simp
  with acknowledgement_reports_every_message [OF ok run] r have "w' = [JStr ''k'']"
    "\<exists>deleted failures. e = ack_failed 2 deleted failures \<and> deleted + length failures = 2"
    by (simp_all only: sum.case list.size numeral_2_eq_2 One_nat_def add_0_right add_Suc_right) blast+
  with run r show ?thesis by blast
qed

lemma dict_set_fresh_twice: "k \<notin> fst ` set d \<Longrightarrow> dict_set k u (dict_set k v d) = d @ [(k, u)]"
  unfolding dict_set_def by (induction d) auto

text \<open>C38. A reader thread that is started a second time for the same queue can never be stopped again: the guard asks for the
  broker, while the threads are kept under their queues, so the second thread takes the place of the first, which runs on
  whatever is started or stopped later.
\<close>

theorem second_reader_cannot_be_stopped:
  assumes "start_receiving v broker i s = (Inr x, s1)" and "start_receiving v broker i s1 = (Inr y, s2)"
    and "map_of (ap_threads s) broker = None" and "broker \<noteq> i" and "\<forall>e \<in> set (ap_threads s). fst e \<noteq> i \<and> snd e < ap_started s"
  shows "y = thread_status ''started'' \<and> ap_started s \<in> set (ap_running (foldl (reader_step v) s2 cs)) \<and>
    (\<forall>j. map_of (ap_threads (foldl (reader_step v) s2 cs)) j \<noteq> Some (ap_started s))"
proof -
  from started_only [OF assms(1,3)] obtain w where s1: "s1 = started_thread i (s\<lparr>ap_world := w\<rparr>)" by blast
  have "map_of (ap_threads s1) broker = None" using assms(3,4) by (simp add: s1 started_thread_def dict_set_def update_conv)
  from started_only [OF assms(2) this] obtain w' where y: "y = thread_status ''started''" and s2: "s2 = started_thread i (s1\<lparr>ap_world := w'\<rparr>)" by blast
  have absent: "i \<notin> fst ` set (ap_threads s)" using assms(5) by auto
  have "ap_threads s2 = ap_threads s @ [(i, Suc (ap_started s))]"
    using dict_set_fresh_twice [OF absent] by (simp add: s2 s1 started_thread_def)
  then have "orphan (ap_started s) s2" using assms(5) by (auto simp: orphan_def s2 s1 started_thread_def)
  from orphan_stays [OF this, of v cs] y show ?thesis by (force simp: orphan_def dest: map_of_SomeD)
qed

text \<open>A queue of an amazon broker can never be deleted: after the row was deleted the message of the response reads an
  attribute the configuration does not have, so the request raises and the session brings the row back.
\<close>

lemma session_keeps_rows: "queue_session m s = (Inl e, s') \<Longrightarrow> ap_queues s' = ap_queues s"
  by (auto simp: queue_session_def split: prod.splits sum.splits)

theorem amazon_queue_never_deleted:
  assumes "\<And>w. load_broker_connection (bv_services v) broker w = (Inr config, w)" and "jget (fields_of config) ''sourceType'' = JStr ''amazon-sqs''"
    and "delete_queue_api v broker i s = (r, s')"
  shows "isl r \<and> ap_queues s' = ap_queues s"
proof -
  have service: "broker_service v broker s = (Inr (config, AmazonBroker), s)"
    by (simp add: broker_service_def sbind_def on_world_def assms(1,2) slift_def spure_def get_queue_service_def)
  obtain r1 s1 where run: "delete_queue v AmazonBroker config i s = (r1, s1)" by fastforce
  then obtain e where e: "r1 = Inl e"
    by (auto simp: queue_session_def sbind_def sraise_def slift_def existing_queue_def split: prod.splits sum.splits option.splits)
  have "ap_queues s1 = ap_queues s" using run e by (simp add: session_keeps_rows)
  with assms(3) run e show ?thesis
    by (auto simp: delete_queue_api_def as_broker_error_def sbind_def service simp del: delete_queue.simps)
qed

text \<open>An application with one amazon broker and two queues.\<close>

definition amazon_env :: "(nat \<times> nat) broker_env" where
  "amazon_env =
     \<lparr>bv_services = idle_services\<lparr>io_json_payload := (\<lambda>w i. Some (JObj [(''sourceType'', JStr ''amazon-sqs'')]))\<rparr>,
      bv_sqs = \<lparr>sq_attributes = (\<lambda>_ _ w. (Inr [], w)), sq_send = (\<lambda>_ _ _ _ w. (Inr [], w)), sq_receive = (\<lambda>_ _ _ _ w. (Inr [], w)),
        sq_visibility = (\<lambda>_ _ _ _ w. (Inr (), w)), sq_delete = (\<lambda>_ _ _ w. (Inr (), w)), sq_create = (\<lambda>_ _ _ w. (Inr None, w)),
        sq_remove = (\<lambda>_ _ w. (Inr (), w))\<rparr>,
      bv_fields = strict_types, bv_bool = (\<lambda>_. Inr False), bv_host = None, bv_int = (\<lambda>_. None), bv_iso = (\<lambda>_. Inr [])\<rparr>"

definition amazon_app :: "(nat \<times> nat) broker_app" where
  "amazon_app =
     \<lparr>ap_world = (0, 0), ap_queues = [\<lparr>qe_id = ''q'', qe_broker = ''b'', qe_code = ''orders'', qe_description = None,
        qe_cfg = [(''sourceType'', JStr ''amazon-sqs''), (''url'', JStr ''u'')]\<rparr>],
      ap_ids = (\<lambda>n. replicate n (CHR ''i'')), ap_next = 0, ap_threads = [], ap_running = [], ap_started = 0\<rparr>"

theorem second_reader_cannot_be_stopped_witness:
  "0 \<in> set (ap_running (foldl (reader_step amazon_env) amazon_app
     [StartReader ''b'' ''q'', StartReader ''b'' ''q'', StopReader ''q'', StopReader ''q'']))"
proof -
  obtain x s1 where s1: "start_receiving amazon_env ''b'' ''q'' amazon_app = (x, s1)" by fastforce
  obtain y s2 where s2: "start_receiving amazon_env ''b'' ''q'' s1 = (y, s2)" by fastforce
  have "\<not> isl (fst (start_receiving amazon_env ''b'' ''q'' amazon_app))"
    "\<not> isl (fst (start_receiving amazon_env ''b'' ''q'' (snd (start_receiving amazon_env ''b'' ''q'' amazon_app))))" by code_simp+
  then obtain x' y' where "x = Inr x'" "y = Inr y'" using s1 s2 by (cases x; cases y) simp_all
  with second_reader_cannot_be_stopped [of amazon_env "''b''" "''q''" amazon_app x' s1 y' s2 "[StopReader ''q'', StopReader ''q'']"] s1 s2
  show ?thesis by (simp add: amazon_app_def)
qed

theorem amazon_queue_never_deleted_witness:
  "isl (fst (delete_queue_api amazon_env ''b'' ''q'' amazon_app)) \<and>
   map qe_id (ap_queues (snd (delete_queue_api amazon_env ''b'' ''q'' amazon_app))) = [''q'']"
proof -
  obtain r s' where run: "delete_queue_api amazon_env ''b'' ''q'' amazon_app = (r, s')" by fastforce
  have "load_broker_connection (bv_services amazon_env) ''b'' w = (Inr (JObj [(''sourceType'', JStr ''amazon-sqs'')]), w)" for w
    by (simp add: load_broker_connection_def amazon_env_def idle_services_def jget_Cons)
  from amazon_queue_never_deleted [OF this _ run] run show ?thesis by (simp add: jget_Cons amazon_app_def)
qed

end
