(* ===== verification/ExecutionHistory.thy ===== *)
theory ExecutionHistory
  imports Schedules BrokerQueues
begin

text \<open>
  Executions of suites as they are read: the queries of \<open>test_suite_execution_service.py\<close> with their pages, the endpoints of
  \<open>app/elaborations/api/test_suite_executions_api.py\<close>, and the page that shows them
  (\<open>app/ui/home/services/home_service.py\<close>). \<open>rank\<close> is the place of an identifier in the order of the database.
\<close>

section \<open>Rows\<close>

text \<open>Times are microseconds.\<close>

record run_row =
  ru_id :: string
  ru_suite :: string
  ru_description :: "string option"
  ru_status :: string
  ru_invocation :: "string option"
  ru_vars :: json
  ru_result :: json
  ru_previous :: bool
  ru_requested :: "string option"
  ru_error :: "string option"
  ru_started :: int
  ru_finished :: "int option"

record item_run_row =
  iu_id :: string
  iu_run :: string
  iu_item :: "string option"
  iu_kind :: string
  iu_phase :: "string option"
  iu_description :: "string option"
  iu_position :: int
  iu_status :: string
  iu_error :: "string option"
  iu_started :: int
  iu_finished :: "int option"

record command_run_row =
  cu_id :: string
  cu_run :: string
  cu_item_run :: string
  cu_item :: "string option"
  cu_command :: "string option"
  cu_description :: "string option"
  cu_order :: int
  cu_status :: string
  cu_error :: "string option"
  cu_started :: int
  cu_finished :: "int option"

record history =
  hi_runs :: "run_row list"
  hi_items :: "item_run_row list"
  hi_commands :: "command_run_row list"

section \<open>Queries\<close>

record run_filter =
  rf_suite :: "string option"
  rf_status :: "string option"
  rf_from :: "int option"
  rf_to :: "int option"

definition option_text :: "string option \<Rightarrow> string" where
  "option_text t = (case t of None \<Rightarrow> [] | Some s \<Rightarrow> py_strip s)"

definition matches_filter :: "run_filter \<Rightarrow> run_row \<Rightarrow> bool" where
  "matches_filter f r \<longleftrightarrow>
     (option_text (rf_suite f) = [] \<or> ru_suite r = option_text (rf_suite f)) \<and>
     (option_text (rf_status f) = [] \<or> ru_status r = py_lower (option_text (rf_status f))) \<and>
     (case rf_from f of None \<Rightarrow> True | Some t \<Rightarrow> t \<le> ru_started r) \<and> (case rf_to f of None \<Rightarrow> True | Some t \<Rightarrow> ru_started r \<le> t)"

definition newest_first :: "(string \<Rightarrow> nat) \<Rightarrow> run_row list \<Rightarrow> run_row list" where
  "newest_first rank rows = rev (sort_key (\<lambda>r. (ru_started r, rank (ru_id r))) rows)"

definition filtered_runs :: "(string \<Rightarrow> nat) \<Rightarrow> history \<Rightarrow> run_filter \<Rightarrow> run_row list" where
  "filtered_runs rank h f = newest_first rank (filter (matches_filter f) (hi_runs h))"

definition any_run :: run_filter where
  "any_run = \<lparr>rf_suite = None, rf_status = None, rf_from = None, rf_to = None\<rparr>"

definition latest_runs :: "(string \<Rightarrow> nat) \<Rightarrow> history \<Rightarrow> string option \<Rightarrow> nat \<Rightarrow> run_row list" where
  "latest_runs rank h suite limit = take limit (filtered_runs rank h (any_run\<lparr>rf_suite := suite\<rparr>))"

text \<open>The page that is asked for, or the last one when there are fewer; there is always one page.\<close>

definition page_size_of :: "int \<Rightarrow> nat" where
  "page_size_of n = nat (max (if n = 0 then 20 else n) 1)"

definition pages_of :: "nat \<Rightarrow> nat \<Rightarrow> nat" where
  "pages_of n width = max 1 ((n + width - 1) div width)"

definition search_runs :: "(string \<Rightarrow> nat) \<Rightarrow> history \<Rightarrow> run_filter \<Rightarrow> int \<Rightarrow> int \<Rightarrow> run_row list \<times> nat \<times> nat" where
  "search_runs rank h f width number =
     (let k = page_size_of width; p = nat (max number 1); all = filtered_runs rank h f; n = length all; q = min p (pages_of n k) in
      (take k (drop ((q - 1) * k) all), n, q))"

section \<open>The endpoints\<close>

text \<open>\<open>at_time\<close> writes a time as the response has it.\<close>

definition opt_moment :: "(int \<Rightarrow> json) \<Rightarrow> int option \<Rightarrow> json" where
  "opt_moment at_time t = (case t of None \<Rightarrow> JNull | Some x \<Rightarrow> at_time x)"

definition serialize_command_run :: "(int \<Rightarrow> json) \<Rightarrow> command_run_row \<Rightarrow> json" where
  "serialize_command_run at_time c =
     JObj [(''id'', JStr (cu_id c)), (''test_suite_execution_id'', JStr (cu_run c)), (''suite_item_execution_id'', JStr (cu_item_run c)),
       (''suite_item_id'', opt_json (cu_item c)), (''suite_item_command_id'', opt_json (cu_command c)),
       (''command_description'', opt_json (cu_description c)), (''command_order'', JInt (cu_order c)), (''status'', JStr (cu_status c)),
       (''error_message'', opt_json (cu_error c)), (''started_at'', at_time (cu_started c)), (''finished_at'', opt_moment at_time (cu_finished c))]"

definition commands_of_item_run :: "history \<Rightarrow> string \<Rightarrow> command_run_row list" where
  "commands_of_item_run h i = sort_key cu_order (filter (\<lambda>c. cu_item_run c = i) (hi_commands h))"

definition serialize_item_run :: "(int \<Rightarrow> json) \<Rightarrow> history \<Rightarrow> item_run_row \<Rightarrow> json" where
  "serialize_item_run at_time h i =
     JObj [(''id'', JStr (iu_id i)), (''test_suite_execution_id'', JStr (iu_run i)), (''suite_item_id'', opt_json (iu_item i)),
       (''item_kind'', JStr (iu_kind i)), (''hook_phase'', opt_json (iu_phase i)), (''item_description'', opt_json (iu_description i)),
       (''position'', JInt (iu_position i)), (''status'', JStr (iu_status i)), (''error_message'', opt_json (iu_error i)),
       (''started_at'', at_time (iu_started i)), (''finished_at'', opt_moment at_time (iu_finished i)),
       (''commands'', JList (map (serialize_command_run at_time) (commands_of_item_run h (iu_id i))))]"

definition items_of_run :: "history \<Rightarrow> string \<Rightarrow> item_run_row list" where
  "items_of_run h i = sort_key (\<lambda>r. (iu_position r, iu_started r)) (filter (\<lambda>r. iu_run r = i) (hi_items h))"

definition serialize_run :: "(int \<Rightarrow> json) \<Rightarrow> history \<Rightarrow> run_row \<Rightarrow> json" where
  "serialize_run at_time h r =
     JObj [(''id'', JStr (ru_id r)), (''test_suite_id'', JStr (ru_suite r)), (''test_suite_description'', opt_json (ru_description r)),
       (''status'', JStr (ru_status r)), (''invocation_id'', opt_json (ru_invocation r)), (''vars_init_json'', ru_vars r),
       (''result_json'', ru_result r), (''include_previous'', JBool (ru_previous r)), (''requested_test_id'', opt_json (ru_requested r)),
       (''error_message'', opt_json (ru_error r)), (''started_at'', at_time (ru_started r)), (''finished_at'', opt_moment at_time (ru_finished r)),
       (''items'', JList (map (serialize_item_run at_time h) (items_of_run h (ru_id r))))]"

definition find_all_runs :: "(int \<Rightarrow> json) \<Rightarrow> (string \<Rightarrow> nat) \<Rightarrow> history \<Rightarrow> string option \<Rightarrow> nat \<Rightarrow> json list" where
  "find_all_runs at_time rank h suite limit = map (serialize_run at_time h) (latest_runs rank h suite limit)"

definition search_runs_api :: "(int \<Rightarrow> json) \<Rightarrow> (string \<Rightarrow> nat) \<Rightarrow> history \<Rightarrow> run_filter \<Rightarrow> int \<Rightarrow> int \<Rightarrow> json" where
  "search_runs_api at_time rank h f width number =
     (case search_runs rank h f width number of (rows, n, q) \<Rightarrow>
       JObj [(''items'', JList (map (serialize_run at_time h) rows)), (''total'', JInt (int n)), (''page_size'', JInt width),
         (''page_number'', JInt (int q)), (''total_pages'', JInt (int (if width = 0 then 1 else pages_of n (nat width))))])"

definition no_run :: "string \<Rightarrow> py_error" where
  "no_run i = AppException (''No test suite execution found with id [ '' @ i @ '' ]'')"

definition find_run :: "(int \<Rightarrow> json) \<Rightarrow> history \<Rightarrow> string \<Rightarrow> json result" where
  "find_run at_time h i = (case find (\<lambda>r. ru_id r = i) (hi_runs h) of None \<Rightarrow> Inl (no_run i) | Some r \<Rightarrow> Inr (serialize_run at_time h r))"

text \<open>Deleting an execution takes its items and commands with it, as the foreign keys ask.\<close>

definition delete_run :: "string \<Rightarrow> (history, json) call" where
  "delete_run i h =
     (if i \<in> ru_id ` set (hi_runs h) then
        (Inr (JObj [(''message'', JStr ''1 test suite execution(s) deleted'')]),
         h\<lparr>hi_runs := filter (\<lambda>r. ru_id r \<noteq> i) (hi_runs h), hi_items := filter (\<lambda>r. iu_run r \<noteq> i) (hi_items h),
           hi_commands := filter (\<lambda>c. cu_run c \<noteq> i) (hi_commands h)\<rparr>)
      else (Inl (no_run i), h))"

section \<open>The page of the executions\<close>

text \<open>
  The filters as the session keeps them; a date is a number of days, a time of day and a moment are microseconds. \<open>iso\<close> is
  \<open>isoformat\<close>, \<open>shown\<close> the fields of a text that is an ISO moment, \<open>parse\<close> the moment itself.
\<close>

record home_state =
  hs_status :: string
  hs_suite :: string
  hs_from :: "bool \<times> int option \<times> int option"
  hs_to :: "bool \<times> int option \<times> int option"
  hs_size :: int
  hs_page :: int
  hs_signature :: string

record home_filters =
  hf_status :: string
  hf_suite :: string
  hf_from :: "int option"
  hf_to :: "int option"
  hf_size :: int
  hf_page :: int

definition new_home_state :: "int \<Rightarrow> home_state" where
  "new_home_state today =
     \<lparr>hs_status = [], hs_suite = [], hs_from = (False, Some today, Some 0), hs_to = (False, Some today, Some 86340000000),
      hs_size = 50, hs_page = 1, hs_signature = []\<rparr>"

definition combine_datetime :: "bool \<times> int option \<times> int option \<Rightarrow> int option" where
  "combine_datetime x = (case x of (True, Some d, Some t) \<Rightarrow> Some (d * day_length + t) | _ \<Rightarrow> None)"

definition clamped_size :: "int \<Rightarrow> int" where
  "clamped_size n = min (max (if n = 0 then 20 else n) 1) 100"

definition read_home_filters :: "home_state \<Rightarrow> home_filters" where
  "read_home_filters s =
     \<lparr>hf_status = py_lower (py_strip (hs_status s)), hf_suite = py_strip (hs_suite s), hf_from = combine_datetime (hs_from s),
      hf_to = combine_datetime (hs_to s), hf_size = clamped_size (hs_size s), hf_page = max (if hs_page s = 0 then 1 else hs_page s) 1\<rparr>"

definition build_filter_signature :: "(int \<Rightarrow> string) \<Rightarrow> home_filters \<Rightarrow> string" where
  "build_filter_signature to_iso f =
     (let t = (\<lambda>x. case x of None \<Rightarrow> [] | Some n \<Rightarrow> to_iso n) in
      join_with ''|'' [hf_status f, hf_suite f, t (hf_from f), t (hf_to f), int_text (clamped_size (hf_size f))])"

definition reset_page_number_on_filter_change :: "(int \<Rightarrow> string) \<Rightarrow> home_filters \<Rightarrow> home_state \<Rightarrow> home_state" where
  "reset_page_number_on_filter_change to_iso f s =
     (let signature = build_filter_signature to_iso f in
      if hs_signature s \<noteq> signature then s\<lparr>hs_page := 1, hs_signature := signature\<rparr> else s)"

definition count_field :: "json dict \<Rightarrow> string \<Rightarrow> int \<Rightarrow> int result" where
  "count_field d k n = py_int (json_or (jget d k) (JInt n))"

definition normalize_search_result :: "json \<Rightarrow> json dict result" where
  "normalize_search_result payload =
     (let d = fields_of payload in
      rbind (count_field d ''total'' 0) (\<lambda>n. rbind (count_field d ''page_size'' 20) (\<lambda>k.
      rbind (count_field d ''total_pages'' 1) (\<lambda>ps. rbind (count_field d ''page_number'' 1) (\<lambda>p.
        Inr [(''items'', if is_list (jget d ''items'') then jget d ''items'' else JList []), (''total'', JInt n),
             (''page_size'', JInt (min (max k 1) 100)), (''page_number'', JInt (min (max p 1) (max ps 1))), (''total_pages'', JInt (max ps 1))])))))"

definition format_execution_datetime :: "(string \<Rightarrow> string option) \<Rightarrow> json \<Rightarrow> string" where
  "format_execution_datetime shown v =
     (let t = token v in
      if t = [] then ''-''
      else case shown (replace_text ''Z'' ''+00:00'' t) of Some s \<Rightarrow> s | None \<Rightarrow> replace_text ''T'' '' '' t)"

definition format_status_label :: "json \<Rightarrow> string" where
  "format_status_label v =
     (let t = py_lower (token v) in
      if t = ''success'' then ''OK'' else if t = ''running'' then ''In corso'' else if t = ''error'' then ''KO'' else or_text t ''-'')"

definition parse_execution_datetime :: "(string \<Rightarrow> moment option) \<Rightarrow> json \<Rightarrow> moment option" where
  "parse_execution_datetime parse v = (if token v = [] then None else parse (replace_text ''Z'' ''+00:00'' (token v)))"

definition requested_items :: "json dict \<Rightarrow> json dict list" where
  "requested_items run =
     (let wanted = token (jget run ''requested_test_id'') in
      filter (\<lambda>d. token (jget d ''suite_item_id'') = wanted)
        (case jget run ''items'' of JList xs \<Rightarrow> map fields_of (filter is_obj xs) | _ \<Rightarrow> []))"

definition item_name :: "json dict \<Rightarrow> string" where
  "item_name d = token (json_or (jget d ''help'') (json_or (jget d ''item_description'') (json_or (jget d ''description'') (JStr []))))"

definition resolve_execution_chart_name :: "json \<Rightarrow> string" where
  "resolve_execution_chart_name execution =
     (case execution of
        JObj run \<Rightarrow>
          (let explicit = token (json_or (jget run ''help'') (jget run ''item_description''));
               names = (if token (jget run ''requested_test_id'') = [] then []
                        else filter (\<lambda>t. t \<noteq> []) (map item_name (requested_items run))) in
           if explicit \<noteq> [] then explicit
           else case names of t # _ \<Rightarrow> t
             | [] \<Rightarrow> or_text (token (json_or (jget run ''test_suite_description'') (json_or (jget run ''test_suite_id'')
                 (json_or (jget run ''id'') (JStr ''-''))))) ''-'')
      | _ \<Rightarrow> ''-'')"

text \<open>The difference of two moments; now is the naive and the aware clock.\<close>

fun moment_diff :: "moment \<Rightarrow> moment \<Rightarrow> int result" where
  "moment_diff (Naive a) (Naive b) = Inr (a - b)"
| "moment_diff (Aware a) (Aware b) = Inr (a - b)"
| "moment_diff _ _ = Inl (TypeError ''can't subtract offset-naive and offset-aware datetimes'')"

definition execution_duration :: "(string \<Rightarrow> moment option) \<Rightarrow> moment \<Rightarrow> json \<Rightarrow> int result" where
  "execution_duration parse reference execution =
     (let run = fields_of execution; finished = parse_execution_datetime parse (jget run ''finished_at'') in
      case parse_execution_datetime parse (jget run ''started_at'') of
        None \<Rightarrow> Inr 0
      | Some started \<Rightarrow>
          (case (if finished = None \<and> py_lower (token (jget run ''status'')) = ''running'' then Some reference else finished) of
             None \<Rightarrow> Inr 0
           | Some ended \<Rightarrow> rbind (moment_diff ended started) (\<lambda>d. Inr (max d 0))))"

text \<open>\<open>round\<close> takes a half to the even neighbour.\<close>

definition rounded_seconds :: "int \<Rightarrow> int" where
  "rounded_seconds us =
     (let q = us div 1000000; r = us mod 1000000 in
      if r < 500000 \<or> (r = 500000 \<and> even q) then q else q + 1)"

definition format_duration_label :: "int \<Rightarrow> string" where
  "format_duration_label us =
     (let n = max (rounded_seconds us) 0; h = n div 3600; m = (n mod 3600) div 60; s = (n mod 3600) mod 60 in
      if h \<noteq> 0 then int_text h @ ''h '' @ int_text m @ ''m '' @ int_text s @ ''s''
      else if m \<noteq> 0 then int_text m @ ''m '' @ int_text s @ ''s'' else int_text s @ ''s'')"

record chart_row =
  ch_name :: string
  ch_status :: string
  ch_duration :: int
  ch_label :: string
  ch_started :: json
  ch_shown :: string
  ch_sort :: moment
  ch_finished :: json
  ch_error :: string

definition chart_row_of ::
  "(string \<Rightarrow> moment option) \<Rightarrow> (string \<Rightarrow> string option) \<Rightarrow> int \<Rightarrow> json \<Rightarrow> chart_row option result" where
  "chart_row_of parse shown now execution =
     (let run = fields_of execution in
      case parse_execution_datetime parse (jget run ''started_at'') of
        None \<Rightarrow> Inr None
      | Some started \<Rightarrow>
          rbind (execution_duration parse (Naive now) execution) (\<lambda>d.
            Inr (Some \<lparr>ch_name = resolve_execution_chart_name execution, ch_status = or_text (py_lower (token (jget run ''status''))) ''-'',
              ch_duration = d, ch_label = format_duration_label d, ch_started = jget run ''started_at'',
              ch_shown = format_execution_datetime shown (jget run ''started_at''), ch_sort = started, ch_finished = jget run ''finished_at'',
              ch_error = or_text (token (jget run ''error_message'')) ''-''\<rparr>)))"

definition build_chart_rows ::
  "(string \<Rightarrow> moment option) \<Rightarrow> (string \<Rightarrow> string option) \<Rightarrow> int \<Rightarrow> json list \<Rightarrow> chart_row list result" where
  "build_chart_rows parse shown now executions =
     rbind (mapM (chart_row_of parse shown now) executions) (\<lambda>rows. Inr (List.map_filter (\<lambda>r. r) rows))"

definition resolve_execution_test_position :: "json \<Rightarrow> int option" where
  "resolve_execution_test_position execution =
     (let run = fields_of execution in
      if token (jget run ''requested_test_id'') = [] then None
      else case requested_items run of
             [] \<Rightarrow> None
           | d # _ \<Rightarrow> (case py_int (json_or (jget d ''position'') (JInt 0)) of Inl _ \<Rightarrow> None | Inr n \<Rightarrow> if n > 0 then Some n else None))"

definition build_test_suites_link :: "((string \<times> string) list \<Rightarrow> string) \<Rightarrow> string \<Rightarrow> json \<Rightarrow> string" where
  "build_test_suites_link encode path execution =
     (let suite = token (jget (fields_of execution) ''test_suite_id'');
          position = resolve_execution_test_position execution in
      if suite = [] then []
      else (let q = encode ((''suite_id'', suite) # (case position of None \<Rightarrow> [] | Some n \<Rightarrow> [(''test_position'', int_text n)])) in
            if q \<noteq> [] then path @ ''?'' @ q else path))"

definition build_table_rows :: "(string \<Rightarrow> string option) \<Rightarrow> ((string \<times> string) list \<Rightarrow> string) \<Rightarrow> json list \<Rightarrow> string dict list" where
  "build_table_rows shown encode executions =
     map (\<lambda>execution. let run = fields_of execution in
       [(''Suite'', json_str (json_or (jget run ''test_suite_description'') (json_or (jget run ''test_suite_id'') (JStr ''-'')))),
        (''Start at'', format_execution_datetime shown (jget run ''started_at'')),
        (''Finish at'', format_execution_datetime shown (jget run ''finished_at'')),
        (''Status'', format_status_label (jget run ''status'')),
        (''Error message'', json_str (json_or (jget run ''error_message'') (JStr ''-''))),
        (''Open suite'', build_test_suites_link encode ''test-suites'' execution)]) executions"

end
