(* ===== verification/ExecutionHistoryProps.thy ===== *)
theory ExecutionHistoryProps
  imports ExecutionHistory "HOL-Library.Multiset"
begin

text \<open>
  The pages of a search show every execution once, newest first; the label of a duration; and when a changed filter goes back
  to the first page.
\<close>

section \<open>Pages\<close>

lemma concat_chunks: "concat (map (\<lambda>p. take k (drop (p * k) xs)) [0..<n]) = take (n * k) xs"
  by (induction n) (simp_all add: add.commute flip: take_add)

lemma pages_cover:
  assumes "0 < k"
  shows "n \<le> pages_of n k * k"
proof -
  have "n + k - 1 < ((n + k - 1) div k + 1) * k" using assms by (metis div_less_iff_less_mult less_add_one)
  then have "n \<le> ((n + k - 1) div k) * k" using assms by (simp add: add_mult_distrib)
  also have "\<dots> \<le> pages_of n k * k" by (simp add: pages_of_def)
  finally show ?thesis .
qed

lemma page_size_positive: "0 < page_size_of width"
  by (simp add: page_size_of_def)

definition page :: "(string \<Rightarrow> nat) \<Rightarrow> history \<Rightarrow> run_filter \<Rightarrow> int \<Rightarrow> int \<Rightarrow> run_row list" where
  "page rank h f width p = fst (search_runs rank h f width p)"

lemma page_chunk:
  assumes "1 \<le> p" and "p \<le> pages_of (length (filtered_runs rank h f)) (page_size_of width)"
  shows "page rank h f width (int p) = take (page_size_of width) (drop ((p - 1) * page_size_of width) (filtered_runs rank h f))"
  using assms by (simp add: page_def search_runs_def Let_def min_def max_def)

lemma newest_first_sorted:
  "sorted_wrt (\<lambda>a b. ru_started b \<le> ru_started a) (newest_first rank rows)"
proof -
  have "sorted_wrt (\<lambda>a b. (ru_started a, rank (ru_id a)) \<le> (ru_started b, rank (ru_id b))) (sort_key (\<lambda>r. (ru_started r, rank (ru_id r))) rows)"
    using sorted_sort_key [of "\<lambda>r. (ru_started r, rank (ru_id r))" rows] by (simp add: sorted_wrt_map)
  then have "sorted_wrt (\<lambda>a b. ru_started a \<le> ru_started b) (sort_key (\<lambda>r. (ru_started r, rank (ru_id r))) rows)"
    by (rule sorted_wrt_mono_rel [rotated]) (auto simp: less_eq_prod_def)
  then show ?thesis by (simp add: newest_first_def sorted_wrt_rev)
qed

section \<open>The page of the executions\<close>

lemma duration_label_parts:
  assumes "0 \<le> us"
  shows "\<exists>h m s. rounded_seconds us = h * 3600 + m * 60 + s \<and> 0 \<le> m \<and> m < 60 \<and> 0 \<le> s \<and> s < 60 \<and>
    format_duration_label us = (if h \<noteq> 0 then int_text h @ ''h '' else []) @
      (if h \<noteq> 0 \<or> m \<noteq> 0 then int_text m @ ''m '' else []) @ int_text s @ ''s''"
proof -
  let ?n = "rounded_seconds us"
  have "0 \<le> us div 1000000" using assms by (simp add: pos_imp_zdiv_nonneg_iff)
  then have n: "0 \<le> ?n" by (simp add: rounded_seconds_def Let_def)
  let ?h = "?n div 3600" and ?m = "(?n mod 3600) div 60" and ?s = "(?n mod 3600) mod 60"
  have "?n = ?h * 3600 + ?m * 60 + ?s" by (metis add.assoc div_mult_mod_eq)
  moreover have "0 \<le> ?m" "?m < 60" by (simp_all add: pos_imp_zdiv_nonneg_iff div_less_iff_less_mult)
  moreover have "0 \<le> ?s" "?s < 60" by simp_all
  moreover have "format_duration_label us = (if ?h \<noteq> 0 then int_text ?h @ ''h '' else []) @
      (if ?h \<noteq> 0 \<or> ?m \<noteq> 0 then int_text ?m @ ''m '' else []) @ int_text ?s @ ''s''"
    using n by (simp only: format_duration_label_def Let_def max_def) simp
  ultimately show ?thesis by blast
qed

lemma changed_filter_goes_to_first_page:
  assumes "hs_signature s \<noteq> build_filter_signature to_iso f"
  shows "hs_page (reset_page_number_on_filter_change to_iso f s) = 1"
  using assms by (simp add: reset_page_number_on_filter_change_def Let_def)

lemma same_filter_keeps_page:
  "reset_page_number_on_filter_change to_iso f (reset_page_number_on_filter_change to_iso f s) = reset_page_number_on_filter_change to_iso f s"
  by (simp add: reset_page_number_on_filter_change_def Let_def)

section \<open>Properties\<close>

text \<open>C39. The pages of a search, from the first to the last, put together are the executions that match the filter, every one once
  and the newest first; no page is longer than asked, and a number after the last page shows the last page.
\<close>

theorem pages_show_every_execution_once:
  "concat (map (\<lambda>p. page rank h f width (int p)) [1..<Suc (pages_of (length (filtered_runs rank h f)) (page_size_of width))]) = filtered_runs rank h f \<and>
   mset (filtered_runs rank h f) = mset (filter (matches_filter f) (hi_runs h)) \<and>
   sorted_wrt (\<lambda>a b. ru_started b \<le> ru_started a) (filtered_runs rank h f) \<and>
   length (page rank h f width number) \<le> page_size_of width \<and>
   page rank h f width (int (pages_of (length (filtered_runs rank h f)) (page_size_of width)) + int over) =
     page rank h f width (int (pages_of (length (filtered_runs rank h f)) (page_size_of width)))"
proof -
  let ?xs = "filtered_runs rank h f" and ?k = "page_size_of width"
  let ?n = "pages_of (length ?xs) ?k"
  have "map (\<lambda>p. page rank h f width (int p)) [1..<Suc ?n] = map (\<lambda>p. take ?k (drop (p * ?k) ?xs)) [0..<?n]"
    by (simp only: map_Suc_upt [symmetric] One_nat_def map_map) (auto simp: page_chunk [OF _ _, of "Suc _", simplified])
  then have "concat (map (\<lambda>p. page rank h f width (int p)) [1..<Suc ?n]) = take (?n * ?k) ?xs" by (simp only: concat_chunks)
  also have "\<dots> = ?xs" using pages_cover [OF page_size_positive, of "length ?xs" width] by simp
  finally have all: "concat (map (\<lambda>p. page rank h f width (int p)) [1..<Suc ?n]) = ?xs" .
  have "1 \<le> ?n" by (simp add: pages_of_def)
  then have last: "page rank h f width (int ?n + int over) = page rank h f width (int ?n)"
    by (simp add: page_def search_runs_def Let_def min_def max_def nat_add_distrib)
  have "mset ?xs = mset (filter (matches_filter f) (hi_runs h))" by (simp add: filtered_runs_def newest_first_def)
  moreover have "length (page rank h f width number) \<le> ?k" by (simp add: page_def search_runs_def Let_def)
  ultimately show ?thesis using all last newest_first_sorted [of rank "filter (matches_filter f) (hi_runs h)"] by (simp add: filtered_runs_def)
qed

end
