(* ===== verification/Spec2Isabelle.thy ===== *)
theory Spec2Isabelle
  imports RunContextProps CommandProps PolicyProps SuiteItemProps ConstantGraphProps EventBusProps
    AssertProps SuiteExecutionProps ExecutorProps PerimeterProps MessageTemplateProps DatasetQueryProps
    MockServerProps MockRuntimeProps MockRegistryProps ContextTransferProps
    SuiteEndpointProps MockServerStoreProps OpenApiProps DraftMapperProps PerimeterEditorProps ScheduleProps ExecutionStreamProps
    GuidedEditorsProps MockServerDraftProps BrokerQueueProps ExecutionHistoryProps
begin

text \<open>
  Quality Flow runs test suites against databases, message brokers and HTTP servers. This development models its backend
  (\<open>app/\<close>) and those parts of its user interface (\<open>app/ui/\<close>) that compute rather than draw. All names of files are
  below \<open>app/\<close>.

  \<^bold>\<open>The program.\<close> A suite has hooks and tests (items); an item has commands; a command has a configuration. Running a suite
  makes a run context with four scopes of constants and runs hooks and tests in order; every command is converted to its typed
  configuration, checked by the policy of its scope, and executed; rows of the database record every item and command, and the
  event bus carries the progress to clients. Mock servers answer HTTP requests and read queues with the same commands.
  Schedules start suites. The endpoints store suites, mock servers, schedules and queues, and keep a table of the constants that
  the stored commands declare. The interface turns stored suites and servers into drafts and drafts into requests.

  \<^bold>\<open>Values and effects.\<close> \<open>Prelude\<close> has exceptions as values (\<open>py_error\<close>, \<open>'a result\<close>), calls that change a state and may raise
  (\<open>('s, 'a) call\<close>), Python's strings with characters below 256, dictionaries as association lists in the order of insertion, JSON
  values whose floats carry their printed text, and triples over calls. \<open>Store\<close> has Python objects with identity: dictionaries and
  lists live in a heap, because the run context aliases them; \<open>reify\<close> reads a value back with the fuel \<open>Suc (length heap)\<close>, which is
  enough for every value without a cycle. \<open>JsonText\<close> is \<open>json.dumps\<close>. Integers are unbounded as in Python; columns of the database
  are taken to hold what is written.

  \<^bold>\<open>Running suites.\<close>
  \<^item> \<open>RunContext\<close> (\<open>RunContextFacts\<close>, \<open>RunContextProps\<close>): \<open>suite_runs/run_context.py\<close>. Paths, writes, removals and bindings; what is
    written is read back, only its own dictionary changes, tests cannot write the shared scopes. \<open>Resolver\<close>:
    \<open>run_context_resolver.py\<close>; resolving changes nothing. \<open>ContextTransfer\<close>, \<open>ContextTransferProps\<close>: the context as a dictionary and back.
  \<^item> \<open>Commands\<close>, \<open>CommandConfig\<close> (\<open>CommandFacts\<close>, \<open>CommandProps\<close>): \<open>models/dtos/configuration_command_dto.py\<close>, one converter per command;
    converted configurations are valid. \<open>ConfigDump\<close>, \<open>ConfigDumpProps\<close>: \<open>model_dump\<close>; stored configurations convert back to themselves.
  \<^item> \<open>Policy\<close>, \<open>PolicyProps\<close>: \<open>command_contract_registry.py\<close>, \<open>command_policy_validator.py\<close>; the policy is decided by the contract alone.
  \<^item> \<open>SuiteItems\<close>, \<open>SuiteItemProps\<close>: \<open>test_suite_dto.py\<close> and the visible sources of an item; validated references resolve.
  \<^item> \<open>ConstantGraph\<close>, \<open>ConstantGraphProps\<close>: \<open>command_constant_definition_registry.py\<close>. The plan of a section refines a specification in
    which a declaration adds a constant and a deletion removes one; references of an accepted plan are alive.
  \<^item> \<open>Execution\<close>, \<open>SuiteExecution\<close> (\<open>SuiteExecutionFacts\<close>, \<open>SuiteExecutionProps\<close>): \<open>test_suite_executor_thread.py\<close>,
    \<open>suite_item_executor.py\<close>, \<open>command_executor_composite.py\<close>. Rows follow the schedule of hooks and tests, the verdict follows from them,
    validated suites run to the end.
  \<^item> \<open>Services\<close>, \<open>CommandInputs\<close>, \<open>HttpCommands\<close>, \<open>MessageTemplates\<close>, \<open>Executors\<close> (\<open>CommandRuns\<close>, \<open>ExecutorProps\<close>,
    \<open>MessageTemplateProps\<close>): \<open>elaborations/services/operations\<close>, one executor per command, every call included. The loop of \<open>receiveQueue\<close>
    ends by a measure, and its polls and pauses are bounded.
  \<^item> \<open>Asserts\<close>, \<open>AssertProps\<close>: \<open>elaborations/services/asserts\<close>; equality of arrays is equality of multisets of cells.
  \<^item> \<open>EventBus\<close>, \<open>EventBusProps\<close>: \<open>execution_event_bus.py\<close> as a step relation of publishers and readers; a client sees every event.
    \<open>ExecutionStream\<close>, \<open>ExecutionStreamProps\<close>: \<open>ui/test_suites/services/execution_stream_service.py\<close>; the interface shows the latest events.

  \<^bold>\<open>Data sources.\<close> \<open>DatasetParameters\<close>, \<open>Perimeter\<close>, \<open>DatasetQuery\<close> (\<open>PerimeterProps\<close>, \<open>DatasetQueryProps\<close>): the parameters, filters
  and queries of datasets (\<open>data_sources/services\<close>); accepted perimeters are in normal form and compile to statements over their
  own columns. \<open>PerimeterEditor\<close>, \<open>PerimeterEditorProps\<close>: the editor of perimeters.

  \<^bold>\<open>Stored suites.\<close> \<open>ConstantDefinitions\<close>, \<open>Templates\<close>, \<open>SuiteStore\<close> (\<open>SuiteStoreFacts\<close>, \<open>RebuildFacts\<close>, \<open>StoredSuites\<close>,
  \<open>TablesInvariant\<close>, \<open>TemplateProps\<close>, \<open>SuiteEndpointProps\<close>): \<open>elaborations/api/test_suites_api.py\<close>, its services and \<open>templating\<close>. Every
  sequence of requests keeps the tables well formed; a validated suite is stored with exactly the constants it declares.

  \<^bold>\<open>Mock servers.\<close> \<open>MockServers\<close>, \<open>MockRuntime\<close>, \<open>MockRegistry\<close> (\<open>MockServerProps\<close>, \<open>MockRuntimeProps\<close>, \<open>MockRegistryProps\<close>):
  \<open>mock_servers/services/runtime\<close>; the choice of a route, the effects of a request, the acknowledgement of a batch, and the running
  servers. \<open>MockServerStore\<close> (\<open>MockServerStoreFacts\<close>, \<open>MockServerStoreProps\<close>): requests, tables and endpoints; tables and running servers
  stay consistent. \<open>OpenApiImport\<close>, \<open>OpenApiProps\<close>: the import of documents.

  \<^bold>\<open>Schedules, queues, history.\<close> \<open>Schedules\<close>, \<open>ScheduleProps\<close>: requests, rows and rounds of the scheduler, with the commits of running
  suites as steps of an inductive relation. \<open>BrokerQueues\<close>, \<open>QueueReader\<close>, \<open>BrokerQueueProps\<close>: \<open>brokers\<close>, over a client of SQS that may
  raise at every call; what the reader thread saves, when it ends, and when it does not. \<open>ExecutionHistory\<close>,
  \<open>ExecutionHistoryProps\<close>: the search of executions and the home page; the pages partition the result.

  \<^bold>\<open>Editors.\<close> \<open>DraftMapper\<close>, \<open>DraftMapperProps\<close>: \<open>ui/test_suites/services/draft_mapper.py\<close>. \<open>GuidedEditors\<close>, \<open>GuidedEditorsProps\<close>:
  \<open>ui/elaborations_shared/components\<close> (values, parameters, authorisation, bodies). \<open>MockServerDraft\<close>, \<open>MockServerDraftProps\<close>: the functions
  of \<open>mock_server_editor_component.py\<close> that build, check and send a draft. The properties say what survives opening and saving,
  and name what does not.

  \<^bold>\<open>Interfaces.\<close> \<open>object_store\<close> (the laws of a heap, interpreted on \<open>hget\<close>, \<open>hset\<close>, \<open>halloc\<close>), \<open>guarded_step\<close> (a loop body that keeps
  an invariant, interpreted on the planner, the converters and the templates), \<open>command_executor\<close> (what the loop over commands needs
  of an executor, interpreted on \<open>execute_operation\<close>), \<open>bag\<close> (the counters of the assertions).

  \<^bold>\<open>Arguments of the model.\<close> Code outside the repository is an argument: the coercions of pydantic (\<open>field_types\<close>, law
  \<open>field_types_ok\<close>), the parsers of dates and numbers (\<open>text_parsers\<close>, law \<open>iso_laws\<close>), \<open>json.loads\<close>, the package \<open>jsonschema\<close>, the
  databases, brokers, HTTP servers and clocks (\<open>services\<close>, \<open>sqs\<close>; \<open>counts_polls\<close> says that a broker hands out no more than asked),
  identifiers (sequences without repetition), the order of identifiers in the database, and how the columns keep a moment. The
  witnesses instantiate them.

  \<^bold>\<open>Bounds and fuel.\<close> Loops over data are structural. \<open>reify\<close> and the resolver use the depth of the heap as fuel; the polling of
  a queue has a measure; the loops of threads are lists of turns or steps of a relation, so that a theorem about every list speaks of
  a thread that never ends.

  \<^bold>\<open>Not modelled.\<close> The drawing of widgets and their keys, and with it the dialogs of the suite, test and dataset editors; the
  migrations and declarations of entities; engines, sessions and statements of SQLAlchemy beyond what a service returns, and its
  refusal of a statement; the endpoints of connections, datasets and JSON arrays, which read and write rows as they are; the older
  executor of suites, which nothing starts; rows of the log; configuration and tenants; decoding of request bytes; times of creation
  and change of rows; starting and joining of the scheduler thread. The configuration of a command is embedded in the heap anew
  at every execution, values with cycles raise, and a suite started by a command runs as a service, so that sharing of objects
  between threads is not seen. Floats are exact.
\<close>

end
